(* ===== verification/Prelude.thy ===== *)
theory Prelude
  imports Complex_Main "HOL-Library.AList"
begin

text \<open>
  What every component of the model shares: Python values and strings, insertion ordered
  dictionaries, the exceptions of \<^verbatim>\<open>backend/exceptions.py\<close>, and the locale that lifts a
  one-step preservation lemma to whole runs.

  Text is ASCII text: a Python string is a \<^typ>\<open>string\<close>, and the case mapping and the white
  space test are those of Python on code points below 128. A float is a rational number, so that
  comparisons are exact and rounding is not part of the model.
\<close>

named_theorems unfolds \<open>definitions of straight-line operations, for unfolding\<close>
named_theorems frames \<open>parts of the state an operation leaves alone\<close>

section \<open>Python values\<close>

text \<open>The values that reach a queue, a cache or a JSON column.\<close>

datatype pyval =
    PNone
  | PBool bool
  | PInt int
  | PFloat rat
  | PStr string
  | PList "pyval list"
  | PDict "(string \<times> pyval) list"

type_synonym kwargs = "(string \<times> pyval) list"

text \<open>
  A dictionary keeps the order of first insertion: \<^const>\<open>AList.update\<close> overwrites in place and
  appends a new key at the end, \<^const>\<open>AList.delete\<close> removes a key, as
  \<^verbatim>\<open>d[k] = v\<close> and \<^verbatim>\<open>del d[k]\<close> do.
\<close>

type_synonym ('k, 'v) py_dict = "('k \<times> 'v) list"

abbreviation d_get :: "('k, 'v) py_dict \<Rightarrow> 'k \<Rightarrow> 'v option" where
  "d_get d k \<equiv> map_of d k"

abbreviation d_set :: "'k \<Rightarrow> 'v \<Rightarrow> ('k, 'v) py_dict \<Rightarrow> ('k, 'v) py_dict" where
  "d_set k v d \<equiv> AList.update k v d"

abbreviation d_del :: "'k \<Rightarrow> ('k, 'v) py_dict \<Rightarrow> ('k, 'v) py_dict" where
  "d_del k d \<equiv> AList.delete k d"

abbreviation d_keys :: "('k, 'v) py_dict \<Rightarrow> 'k list" where
  "d_keys d \<equiv> map fst d"

definition d_wf :: "('k, 'v) py_dict \<Rightarrow> bool" where
  "d_wf d \<longleftrightarrow> distinct (d_keys d)"

lemma d_wf_Nil [simp]: "d_wf []"
  by (simp add: d_wf_def)

lemma d_wf_set [simp]: "d_wf d \<Longrightarrow> d_wf (d_set k v d)"
  by (simp add: d_wf_def distinct_update)

lemma d_wf_del [simp]: "d_wf d \<Longrightarrow> d_wf (d_del k d)"
  by (simp add: d_wf_def distinct_delete)

lemma d_wf_Cons [simp]: "d_wf ((k, v) # d) \<longleftrightarrow> k \<notin> set (d_keys d) \<and> d_wf d"
  by (simp add: d_wf_def)

lemma d_get_set [simp]: "d_get (d_set k v d) k' = (if k' = k then Some v else d_get d k')"
  by (simp add: update_conv')

lemma d_get_del [simp]: "d_get (d_del k d) k' = (if k' = k then None else d_get d k')"
  by (simp add: delete_conv')

lemma length_d_set:
  "length (d_set k v d) = (if k \<in> set (d_keys d) then length d else Suc (length d))"
  by (induction d) auto

lemma d_set_fresh: "k \<notin> set (d_keys d) \<Longrightarrow> d_set k v d = d @ [(k, v)]"
  by (induction d) auto

lemma length_d_del_le: "length (d_del k d) \<le> length d"
  by (rule length_delete_le)

lemma d_wf_filter: "d_wf d \<Longrightarrow> d_wf (filter P d)"
  by (auto simp: d_wf_def distinct_map inj_on_def)

lemma d_get_filter:
  "d_wf d \<Longrightarrow> d_get (filter P d) k =
     (case d_get d k of None \<Rightarrow> None | Some v \<Rightarrow> if P (k, v) then Some v else None)"
proof (induction d)
  case Nil
  then show ?case by simp
next
  case (Cons a d)
  obtain k' v' where a: "a = (k', v')" by (cases a)
  from Cons.prems have "d_wf d" and fresh: "k' \<notin> fst ` set d"
    by (auto simp: d_wf_def a)
  moreover from fresh have "d_get d k' = None"
    by (simp add: map_of_eq_None_iff)
  ultimately show ?case
    using Cons.IH by (auto simp: a split: option.splits)
qed

lemma length_filter_mono:
  "(\<And>x. x \<in> set xs \<Longrightarrow> P x \<Longrightarrow> Q x) \<Longrightarrow> length (filter P xs) \<le> length (filter Q xs)"
  by (induction xs) (auto simp: le_Suc_eq)

section \<open>Strings\<close>

definition is_upper :: "char \<Rightarrow> bool" where
  "is_upper c \<longleftrightarrow> 65 \<le> (of_char c :: nat) \<and> (of_char c :: nat) \<le> 90"

definition is_lower :: "char \<Rightarrow> bool" where
  "is_lower c \<longleftrightarrow> 97 \<le> (of_char c :: nat) \<and> (of_char c :: nat) \<le> 122"

definition is_digit :: "char \<Rightarrow> bool" where
  "is_digit c \<longleftrightarrow> 48 \<le> (of_char c :: nat) \<and> (of_char c :: nat) \<le> 57"

definition is_space :: "char \<Rightarrow> bool" where
  "is_space c \<longleftrightarrow> (of_char c :: nat) \<in> {9, 10, 11, 12, 13, 28, 29, 30, 31, 32}"

definition char_lower :: "char \<Rightarrow> char" where
  "char_lower c = (if is_upper c then char_of ((of_char c :: nat) + 32) else c)"

text \<open>\<^verbatim>\<open>s.lower()\<close>, \<^verbatim>\<open>s.strip()\<close>, \<^verbatim>\<open>s.startswith(p)\<close>, \<^verbatim>\<open>s.endswith(p)\<close>, \<^verbatim>\<open>p in s\<close>.\<close>

definition str_lower :: "string \<Rightarrow> string" where
  "str_lower s = map char_lower s"

definition str_strip :: "string \<Rightarrow> string" where
  "str_strip s = rev (dropWhile is_space (rev (dropWhile is_space s)))"

fun starts_with :: "string \<Rightarrow> string \<Rightarrow> bool" where
  "starts_with s [] = True"
| "starts_with [] (p # ps) = False"
| "starts_with (c # s) (p # ps) = (c = p \<and> starts_with s ps)"

definition ends_with :: "string \<Rightarrow> string \<Rightarrow> bool" where
  "ends_with s p = starts_with (rev s) (rev p)"

fun str_contains :: "string \<Rightarrow> string \<Rightarrow> bool" where
  "str_contains [] p = (p = [])"
| "str_contains (c # s) p = (starts_with (c # s) p \<or> str_contains s p)"

lemma starts_with_iff: "starts_with s p \<longleftrightarrow> (\<exists>t. s = p @ t)"
  by (induction s p rule: starts_with.induct) auto

lemma str_contains_iff: "str_contains s p \<longleftrightarrow> (\<exists>u t. s = u @ p @ t)"
proof (induction s)
  case Nil
  then show ?case by simp
next
  case (Cons c s)
  show ?case
    by (auto simp: Cons.IH starts_with_iff Cons_eq_append_conv)
qed

lemma char_lower_idem [simp]: "char_lower (char_lower c) = char_lower c"
proof (cases "is_upper c")
  case True
  then have "(of_char c :: nat) + 32 < 256" "65 \<le> (of_char c :: nat)" by (auto simp: is_upper_def)
  then have "\<not> is_upper (char_of ((of_char c :: nat) + 32) :: char)"
    by (simp add: is_upper_def of_char_of)
  with True show ?thesis by (simp add: char_lower_def)
qed (simp add: char_lower_def)

lemma str_lower_idem [simp]: "str_lower (str_lower s) = str_lower s"
  by (simp add: str_lower_def)

lemma length_str_lower [simp]: "length (str_lower s) = length s"
  by (simp add: str_lower_def)

text \<open>\<^verbatim>\<open>s.split(c)\<close>\<close>

fun split_on :: "char \<Rightarrow> string \<Rightarrow> string list" where
  "split_on c [] = [[]]"
| "split_on c (x # s) =
     (if x = c then [] # split_on c s
      else (case split_on c s of [] \<Rightarrow> [[x]] | l # ls \<Rightarrow> (x # l) # ls))"

text \<open>\<^verbatim>\<open>s.replace(p, "")\<close> of a text \<open>p\<close> that is not empty\<close>

function str_remove :: "string \<Rightarrow> string \<Rightarrow> string" where
  "str_remove p [] = []"
| "str_remove p (c # s) =
     (if p \<noteq> [] \<and> starts_with (c # s) p then str_remove p (drop (length p) (c # s))
      else c # str_remove p s)"
  by pat_completeness auto

termination str_remove
proof (relation "measure (\<lambda>(p, s). length s)")
  show "((p, drop (length p) (c # s)), p, c # s) \<in> measure (\<lambda>(p, s). length s)"
    if "p \<noteq> [] \<and> starts_with (c # s) p" for p :: string and c s
    using that by (cases p) auto
qed auto

lemma split_on_free: "c \<notin> set s \<Longrightarrow> split_on c s = [s]"
  by (induction s) auto

lemma split_on_append: "c \<notin> set s \<Longrightarrow> split_on c (s @ c # t) = s # split_on c t"
  by (induction s) (auto split: list.split)

lemma str_remove_free: "c \<notin> set s \<Longrightarrow> c \<in> set p \<Longrightarrow> str_remove p s = s"
proof (induction s)
  case (Cons x s)
  have "\<not> starts_with (x # s) p"
  proof
    assume "starts_with (x # s) p"
    then obtain t where "x # s = p @ t" by (auto simp: starts_with_iff)
    then have "set p \<subseteq> set (x # s)" by (metis Un_upper1 set_append)
    with Cons.prems show False by auto
  qed
  with Cons show ?case by simp
qed simp

text \<open>The truth value of an optional string: \<^verbatim>\<open>None\<close> and the empty string are false.\<close>

definition truthy :: "string option \<Rightarrow> bool" where
  "truthy s = (case s of None \<Rightarrow> False | Some t \<Rightarrow> t \<noteq> [])"

text \<open>\<^verbatim>\<open>s or d\<close> on an optional string.\<close>

definition or_else :: "string option \<Rightarrow> string \<Rightarrow> string" where
  "or_else s d = (case s of None \<Rightarrow> d | Some t \<Rightarrow> if t = [] then d else t)"

lemma truthy_simps [simp]: "truthy None = False" "truthy (Some t) = (t \<noteq> [])"
  by (simp_all add: truthy_def)

lemma or_else_simps [simp]:
  "or_else None d = d" "or_else (Some []) d = d" "t \<noteq> [] \<Longrightarrow> or_else (Some t) d = t"
  by (simp_all add: or_else_def)

subsection \<open>Decimal numerals\<close>

definition digit_char :: "nat \<Rightarrow> char" where
  "digit_char d = char_of (48 + d)"

fun nat_str :: "nat \<Rightarrow> string" where
  "nat_str n = (if n < 10 then [digit_char n] else nat_str (n div 10) @ [digit_char (n mod 10)])"

declare nat_str.simps [simp del]

text \<open>\<^verbatim>\<open>str(n)\<close> and \<^verbatim>\<open>f"{n}"\<close> of an integer.\<close>

definition int_str :: "int \<Rightarrow> string" where
  "int_str i = (if i < 0 then CHR ''-'' # nat_str (nat (- i)) else nat_str (nat i))"

definition digit_val :: "char \<Rightarrow> nat" where
  "digit_val c = of_char c - 48"

definition digits_val :: "string \<Rightarrow> nat" where
  "digits_val s = foldl (\<lambda>a c. 10 * a + digit_val c) 0 s"

text \<open>
  \<^verbatim>\<open>int(s)\<close> on the numerals that \<^verbatim>\<open>str\<close> writes: \<^const>\<open>None\<close> is the ValueError. Surrounding white
  space, a plus sign and underscores, which Python accepts too, are outside the model.
\<close>

definition parse_int :: "string \<Rightarrow> int option" where
  "parse_int s =
     (case s of
        [] \<Rightarrow> None
      | c # t \<Rightarrow>
          if c = CHR ''-''
          then if t \<noteq> [] \<and> list_all is_digit t then Some (- int (digits_val t)) else None
          else if list_all is_digit s then Some (int (digits_val s)) else None)"

lemma digit_char_facts:
  assumes "d < 10"
  shows "is_digit (digit_char d)" and "digit_val (digit_char d) = d"
    and "digit_char d \<noteq> CHR ''-''"
proof -
  have of_d: "(of_char (digit_char d) :: nat) = 48 + d"
    using assms by (simp add: digit_char_def of_char_of)
  then show "is_digit (digit_char d)" and "digit_val (digit_char d) = d"
    using assms by (simp_all add: is_digit_def digit_val_def)
  show "digit_char d \<noteq> CHR ''-''"
  proof
    assume "digit_char d = CHR ''-''"
    then have "(of_char (CHR ''-'') :: nat) = 48 + d" using of_d by simp
    then show False by simp
  qed
qed

lemma digits_val_snoc: "digits_val (s @ [c]) = 10 * digits_val s + digit_val c"
  by (simp add: digits_val_def)

lemma nat_str_facts:
  "nat_str n \<noteq> [] \<and> list_all is_digit (nat_str n) \<and> digits_val (nat_str n) = n
     \<and> hd (nat_str n) \<noteq> CHR ''-''"
proof (induction n rule: nat_str.induct)
  case (1 n)
  show ?case
  proof (cases "n < 10")
    case True
    then show ?thesis
      using digit_char_facts [OF True]
      by (subst (1 2 3 4) nat_str.simps) (simp add: digits_val_def)
  next
    case False
    have d: "n mod 10 < 10" by simp
    from "1.IH" False have
      ih: "nat_str (n div 10) \<noteq> []" "list_all is_digit (nat_str (n div 10))"
          "digits_val (nat_str (n div 10)) = n div 10" "hd (nat_str (n div 10)) \<noteq> CHR ''-''"
      by simp_all
    have eq: "nat_str n = nat_str (n div 10) @ [digit_char (n mod 10)]"
      using False by (subst nat_str.simps) simp
    show ?thesis
      using ih digit_char_facts [OF d] by (simp add: eq digits_val_snoc)
  qed
qed

lemma parse_int_str [simp]: "parse_int (int_str i) = Some i"
proof (cases "i < 0")
  case True
  then show ?thesis
    using nat_str_facts [of "nat (- i)"] by (simp add: parse_int_def int_str_def)
next
  case False
  obtain c t where ct: "nat_str (nat i) = c # t"
    using nat_str_facts [of "nat i"] by (cases "nat_str (nat i)") auto
  then show ?thesis
    using False nat_str_facts [of "nat i"] by (simp add: parse_int_def int_str_def)
qed

lemma int_str_inject [simp]: "int_str i = int_str j \<longleftrightarrow> i = j"
  by (metis option.inject parse_int_str)

section \<open>Runs of a machine\<close>

text \<open>
  Several components are a state and a function that handles one event at a time. The locale
  asks for the preservation of an invariant by one event and gives it for every run.
\<close>

locale machine =
  fixes step :: "'s \<Rightarrow> 'e \<Rightarrow> 's"
    and inv :: "'s \<Rightarrow> bool"
  assumes step_inv: "inv s \<Longrightarrow> inv (step s e)"
begin

lemma run_inv: "inv s \<Longrightarrow> inv (foldl step s es)"
  by (induction es arbitrary: s) (auto intro: step_inv)

lemma run_prefix_inv: "inv s \<Longrightarrow> inv (foldl step s (take n es))"
  by (rule run_inv)

end

text \<open>
  A machine with a class of states that is never left: once a run is in it, it stays in it.
\<close>

locale absorbing_machine = machine +
  fixes final :: "'a \<Rightarrow> bool"
  assumes step_final: "inv s \<Longrightarrow> final s \<Longrightarrow> final (step s e)"
begin

lemma run_final: "inv s \<Longrightarrow> final s \<Longrightarrow> final (foldl step s es)"
  by (induction es arbitrary: s) (auto intro: step_inv step_final)

lemma run_stays_final: "inv s \<Longrightarrow> final (foldl step s es) \<Longrightarrow> final (foldl step s (es @ fs))"
  by (simp add: run_final run_inv)

end

end
