(* ===== verification/Glob.thy ===== *)
theory Glob
  imports Prelude
begin

text \<open>
  \<^verbatim>\<open>fnmatch.fnmatch\<close> of Python's standard library on a case sensitive file system, as
  \<^verbatim>\<open>InMemoryTTLCache.delete_pattern\<close> uses it: a star, a question mark, a character class with an
  optional exclamation mark, and literal characters.
\<close>

datatype gtok = GStar | GAny | GLit char | GClass bool "(char \<times> char) list"

text \<open>The members of a class: a range \<^verbatim>\<open>a-b\<close>, or a single character as a range of one.\<close>

fun class_ranges :: "string \<Rightarrow> (char \<times> char) list" where
  "class_ranges (a # d # b # cs) =
     (if d = CHR ''-'' then (a, b) # class_ranges cs else (a, a) # class_ranges (d # b # cs))"
| "class_ranges (a # cs) = (a, a) # class_ranges cs"
| "class_ranges [] = []"

definition in_range :: "char \<Rightarrow> char \<times> char \<Rightarrow> bool" where
  "in_range c r \<longleftrightarrow> (of_char (fst r) :: nat) \<le> of_char c \<and> (of_char c :: nat) \<le> of_char (snd r)"

text \<open>
  \<^verbatim>\<open>split_class\<close> looks for the closing bracket of a class that has just been opened; a bracket in
  first position, after the exclamation mark if there is one, is a member. \<^const>\<open>None\<close> when there is
  no closing bracket: the opening one is then an ordinary character.
\<close>

fun until_bracket :: "string \<Rightarrow> string \<Rightarrow> (string \<times> string) option" where
  "until_bracket acc [] = None"
| "until_bracket acc (c # cs) =
     (if c = CHR '']'' then Some (rev acc, cs) else until_bracket (c # acc) cs)"

definition split_class :: "string \<Rightarrow> (bool \<times> string \<times> string) option" where
  "split_class p =
     (let (neg, q) = (case p of c # cs \<Rightarrow> if c = CHR ''!'' then (True, cs) else (False, p)
                                | [] \<Rightarrow> (False, p));
          (acc, r) = (case q of c # cs \<Rightarrow> if c = CHR '']'' then ([c], cs) else ([], q)
                                | [] \<Rightarrow> ([], q))
      in case until_bracket acc r of
           None \<Rightarrow> None
         | Some (stuff, rest) \<Rightarrow> Some (neg, stuff, rest))"

lemma until_bracket_length: "until_bracket acc p = Some (s, r) \<Longrightarrow> length r < length p"
  by (induction acc p rule: until_bracket.induct) (auto split: if_splits)

lemma split_class_length: "split_class p = Some (n, s, r) \<Longrightarrow> length r < length p"
  by (auto simp: split_class_def Let_def dest!: until_bracket_length
      split: list.splits if_splits option.splits prod.splits)

function glob_tokens :: "string \<Rightarrow> gtok list" where
  "glob_tokens [] = []"
| "glob_tokens (c # cs) =
     (if c = CHR ''*'' then GStar # glob_tokens cs
      else if c = CHR ''?'' then GAny # glob_tokens cs
      else if c = CHR ''['' then
        (case split_class cs of
           None \<Rightarrow> GLit c # glob_tokens cs
         | Some (neg, stuff, rest) \<Rightarrow> GClass neg (class_ranges stuff) # glob_tokens rest)
      else GLit c # glob_tokens cs)"
  by pat_completeness auto
termination
  by (relation "measure length") (auto dest: split_class_length)

fun tokens_match :: "gtok list \<Rightarrow> string \<Rightarrow> bool" where
  "tokens_match [] s = (s = [])"
| "tokens_match (GStar # ts) [] = tokens_match ts []"
| "tokens_match (GStar # ts) (c # s) = (tokens_match ts (c # s) \<or> tokens_match (GStar # ts) s)"
| "tokens_match (GAny # ts) (c # s) = tokens_match ts s"
| "tokens_match (GLit d # ts) (c # s) = (c = d \<and> tokens_match ts s)"
| "tokens_match (GClass neg rs # ts) (c # s) =
     (list_ex (in_range c) rs \<noteq> neg \<and> tokens_match ts s)"
| "tokens_match (_ # ts) [] = False"

definition fnmatch :: "string \<Rightarrow> string \<Rightarrow> bool" where
  "fnmatch name pat = tokens_match (glob_tokens pat) name"

section \<open>Patterns around a plain word\<close>

definition plain :: "string \<Rightarrow> bool" where
  "plain s \<longleftrightarrow> (\<forall>c\<in>set s. c \<noteq> CHR ''*'' \<and> c \<noteq> CHR ''?'' \<and> c \<noteq> CHR ''['')"

lemma plain_Cons [simp]:
  "plain (c # s) \<longleftrightarrow> c \<noteq> CHR ''*'' \<and> c \<noteq> CHR ''?'' \<and> c \<noteq> CHR ''['' \<and> plain s"
  by (auto simp: plain_def)

lemma glob_tokens_plain: "plain s \<Longrightarrow> glob_tokens (s @ p) = map GLit s @ glob_tokens p"
  by (induction s) auto

lemma tokens_match_star: "tokens_match (GStar # ts) s \<longleftrightarrow> (\<exists>u t. s = u @ t \<and> tokens_match ts t)"
proof (induction s)
  case Nil
  then show ?case by simp
next
  case (Cons c s)
  then show ?case by (auto simp: Cons_eq_append_conv)
qed

lemma tokens_match_lits:
  "tokens_match (map GLit w @ ts) s \<longleftrightarrow> (\<exists>t. s = w @ t \<and> tokens_match ts t)"
proof (induction w arbitrary: s)
  case Nil
  then show ?case by simp
next
  case (Cons c w)
  then show ?case by (cases s) auto
qed

lemma tokens_match_stars [simp]: "tokens_match [GStar] s"
  by (auto simp: tokens_match_star)

lemma fnmatch_tag:
  assumes "plain w"
  shows "fnmatch s (''*'' @ w @ ''*'') \<longleftrightarrow> str_contains s w"
proof -
  have "glob_tokens (''*'' @ w @ ''*'') = GStar # map GLit w @ [GStar]"
    using glob_tokens_plain [OF assms, of "''*''"] by simp
  then show ?thesis
    by (auto simp: fnmatch_def tokens_match_star tokens_match_lits str_contains_iff
        simp del: tokens_match.simps(2-))
qed

lemma fnmatch_prefix:
  assumes "plain w"
  shows "fnmatch s (w @ ''*'') \<longleftrightarrow> starts_with s w"
  using glob_tokens_plain [OF assms, of "''*''"]
  by (simp add: fnmatch_def tokens_match_lits starts_with_iff)

end
