(* ===== verification/Errors.thy ===== *)
theory Errors
  imports Prelude
begin

text \<open>
  The exceptions of \<^verbatim>\<open>backend/exceptions.py\<close> and the part of Python's exception hierarchy that
  \<^verbatim>\<open>backend/retry.py\<close> and the job runners tell apart. A raise is the left part of a sum type.
\<close>

section \<open>Application exceptions\<close>

text \<open>One constructor per class; the base class carries the status it was raised with.\<close>

datatype exc_kind =
    SEOAgentException int
  | UnauthorizedException
  | ForbiddenException
  | ResourceNotFoundException
  | ConflictException
  | ValidationErrorException
  | RateLimitException
  | InternalServerException

fun status_code :: "exc_kind \<Rightarrow> int" where
  "status_code (SEOAgentException c) = c"
| "status_code UnauthorizedException = 401"
| "status_code ForbiddenException = 403"
| "status_code ResourceNotFoundException = 404"
| "status_code ConflictException = 409"
| "status_code ValidationErrorException = 422"
| "status_code RateLimitException = 429"
| "status_code InternalServerException = 500"

record app_exc =
  e_kind :: exc_kind
  e_message :: string
  e_details :: kwargs

text \<open>\<^verbatim>\<open>raise K(message)\<close>: the details default to the empty dictionary.\<close>

definition app_error :: "exc_kind \<Rightarrow> string \<Rightarrow> app_exc" where
  "app_error k m = \<lparr>e_kind = k, e_message = m, e_details = []\<rparr>"

lemma app_error_simps [simp]:
  "e_kind (app_error k m) = k" "e_message (app_error k m) = m" "e_details (app_error k m) = []"
  by (simp_all add: app_error_def)

section \<open>The exceptions a job can raise\<close>

datatype py_exc =
    ValueError string
  | TypeError string
  | KeyError string
  | AttributeError string
  | PydanticValidationError string
  | AppError app_exc
  | OtherException string
  | BaseOnlyException string

text \<open>
  \<^const>\<open>OtherException\<close> stands for every other subclass of \<^verbatim>\<open>Exception\<close> (network, Redis and
  database errors), \<^const>\<open>BaseOnlyException\<close> for \<^verbatim>\<open>KeyboardInterrupt\<close> and \<^verbatim>\<open>SystemExit\<close>, which do
  not derive from \<^verbatim>\<open>Exception\<close>.
\<close>

datatype exc_class =
    C_Exception
  | C_ValueError
  | C_TypeError
  | C_KeyError
  | C_AttributeError
  | C_ValidationError
  | C_ValidationErrorException

fun exc_str :: "py_exc \<Rightarrow> string" where
  "exc_str (ValueError m) = m"
| "exc_str (TypeError m) = m"
| "exc_str (KeyError m) = m"
| "exc_str (AttributeError m) = m"
| "exc_str (PydanticValidationError m) = m"
| "exc_str (AppError a) = e_message a"
| "exc_str (OtherException m) = m"
| "exc_str (BaseOnlyException m) = m"

text \<open>
  \<^verbatim>\<open>isinstance(e, C)\<close>. Pydantic's validation error derives from \<^verbatim>\<open>ValueError\<close>.
\<close>

fun exc_isinstance :: "py_exc \<Rightarrow> exc_class \<Rightarrow> bool" where
  "exc_isinstance (BaseOnlyException _) _ = False"
| "exc_isinstance _ C_Exception = True"
| "exc_isinstance (ValueError _) c = (c = C_ValueError)"
| "exc_isinstance (TypeError _) c = (c = C_TypeError)"
| "exc_isinstance (KeyError _) c = (c = C_KeyError)"
| "exc_isinstance (AttributeError _) c = (c = C_AttributeError)"
| "exc_isinstance (PydanticValidationError _) c = (c \<in> {C_ValueError, C_ValidationError})"
| "exc_isinstance (AppError a) c =
     (c = C_ValidationErrorException \<and> e_kind a = ValidationErrorException)"
| "exc_isinstance (OtherException _) _ = False"

definition exc_matches :: "py_exc \<Rightarrow> exc_class list \<Rightarrow> bool" where
  "exc_matches e cs = list_ex (exc_isinstance e) cs"

lemma exc_matches_Nil [simp]: "\<not> exc_matches e []"
  by (simp add: exc_matches_def)

lemma exc_matches_Exception [simp]:
  "exc_matches e [C_Exception] \<longleftrightarrow> (\<forall>m. e \<noteq> BaseOnlyException m)"
  by (cases e) (simp_all add: exc_matches_def)

type_synonym 'a outcome = "py_exc + 'a"

text \<open>Running one step after another: an exception ends the sequence and keeps the state.\<close>

definition and_then ::
  "'a outcome \<times> 'w \<Rightarrow> ('a \<Rightarrow> 'w \<Rightarrow> 'b outcome \<times> 'w) \<Rightarrow> 'b outcome \<times> 'w" where
  "and_then m f = (case m of (Inl e, w) \<Rightarrow> (Inl e, w) | (Inr a, w) \<Rightarrow> f a w)"

lemma and_then_simps [simp]:
  "and_then (Inl e, w) f = (Inl e, w)" "and_then (Inr a, w) f = f a w"
  by (simp_all add: and_then_def)

text \<open>
  What \<^verbatim>\<open>_init_redis\<close> of a component finds: no \<^verbatim>\<open>REDIS_URL\<close>, a server whose \<^verbatim>\<open>ping\<close> raises, a
  server that answers.
\<close>

datatype redis_link = NoClient | PingFails | PingOk

end
