(* ===== verification/TTL_Cache.thy ===== *)
theory TTL_Cache
  imports Glob Errors
begin

text \<open>
  \<^verbatim>\<open>InMemoryTTLCache\<close> of \<^verbatim>\<open>backend/cache.py\<close>: an insertion ordered dictionary from keys to a value
  and the time it expires, with a bound on the number of entries. Every method holds the lock
  for its whole use of the dictionary. The clock readings are arguments; \<^verbatim>\<open>set\<close> reads the clock
  twice when it prunes.
\<close>

record ttl_cache =
  c_entries :: "(string, pyval \<times> rat) py_dict"
  c_default_ttl :: rat
  c_max_size :: int

definition mk_ttl_cache :: "rat \<Rightarrow> int \<Rightarrow> ttl_cache" where
  "mk_ttl_cache ttl max_items = \<lparr>c_entries = [], c_default_ttl = ttl, c_max_size = max_items\<rparr>"

text \<open>A missing key and a key that holds \<^verbatim>\<open>None\<close> both read as \<^const>\<open>PNone\<close>.\<close>

definition ttl_get :: "rat \<Rightarrow> string \<Rightarrow> ttl_cache \<Rightarrow> pyval \<times> ttl_cache" where
  "ttl_get now key c =
     (case d_get (c_entries c) key of
        None \<Rightarrow> (PNone, c)
      | Some (val, expire_at) \<Rightarrow>
          if now < expire_at then (val, c)
          else (PNone, c\<lparr>c_entries := d_del key (c_entries c)\<rparr>))"

fun ttl_get_many_from ::
  "rat \<Rightarrow> string list \<Rightarrow> (string, pyval) py_dict \<Rightarrow> ttl_cache
     \<Rightarrow> (string, pyval) py_dict \<times> ttl_cache" where
  "ttl_get_many_from now [] res c = (res, c)"
| "ttl_get_many_from now (key # keys) res c =
     (case d_get (c_entries c) key of
        None \<Rightarrow> ttl_get_many_from now keys res c
      | Some (val, expire_at) \<Rightarrow>
          if now < expire_at then ttl_get_many_from now keys (d_set key val res) c
          else ttl_get_many_from now keys res (c\<lparr>c_entries := d_del key (c_entries c)\<rparr>))"

definition ttl_get_many ::
  "rat \<Rightarrow> string list \<Rightarrow> ttl_cache \<Rightarrow> (string, pyval) py_dict \<times> ttl_cache" where
  "ttl_get_many now keys c = ttl_get_many_from now keys [] c"

definition prune_expired :: "rat \<Rightarrow> ttl_cache \<Rightarrow> ttl_cache" where
  "prune_expired now c =
     c\<lparr>c_entries := filter (\<lambda>(k, v, e). \<not> e \<le> now) (c_entries c)\<rparr>"

text \<open>
  \<^verbatim>\<open>set\<close>: a full cache is pruned, and if it is still full the oldest entry goes; on an empty
  dictionary (a bound of zero) \<^verbatim>\<open>next(iter({}))\<close> raises.
\<close>

definition ttl_set ::
  "rat \<Rightarrow> rat \<Rightarrow> string \<Rightarrow> pyval \<Rightarrow> rat option \<Rightarrow> ttl_cache \<Rightarrow> ttl_cache outcome" where
  "ttl_set now now_prune key val ttl c =
     (let ttl_seconds = (case ttl of Some t \<Rightarrow> t | None \<Rightarrow> c_default_ttl c);
          expire_at = now + ttl_seconds;
          store = (\<lambda>c. c\<lparr>c_entries := d_set key (val, expire_at) (c_entries c)\<rparr>)
      in if int (length (c_entries c)) \<ge> c_max_size c
         then let c1 = prune_expired now_prune c
              in if int (length (c_entries c1)) \<ge> c_max_size c1
                 then (case c_entries c1 of
                         [] \<Rightarrow> Inl (OtherException ''StopIteration'')
                       | (oldest, _) # _ \<Rightarrow>
                           Inr (store (c1\<lparr>c_entries := d_del oldest (c_entries c1)\<rparr>)))
                 else Inr (store c1)
         else Inr (store c))"

definition ttl_delete :: "string \<Rightarrow> ttl_cache \<Rightarrow> ttl_cache" where
  "ttl_delete key c = c\<lparr>c_entries := d_del key (c_entries c)\<rparr>"

fun ttl_delete_many :: "string list \<Rightarrow> ttl_cache \<Rightarrow> nat \<times> ttl_cache" where
  "ttl_delete_many [] c = (0, c)"
| "ttl_delete_many (key # keys) c =
     (if key \<in> set (d_keys (c_entries c))
      then (case ttl_delete_many keys (ttl_delete key c) of (n, c') \<Rightarrow> (Suc n, c'))
      else ttl_delete_many keys c)"

definition ttl_delete_pattern :: "string \<Rightarrow> ttl_cache \<Rightarrow> nat \<times> ttl_cache" where
  "ttl_delete_pattern pat c =
     (let doomed = filter (\<lambda>k. fnmatch k pat) (d_keys (c_entries c))
      in (length doomed,
          c\<lparr>c_entries := filter (\<lambda>(k, _). k \<notin> set doomed) (c_entries c)\<rparr>))"

definition ttl_clear :: "ttl_cache \<Rightarrow> ttl_cache" where
  "ttl_clear c = c\<lparr>c_entries := []\<rparr>"

definition ttl_size :: "rat \<Rightarrow> ttl_cache \<Rightarrow> nat" where
  "ttl_size now c = length (filter (\<lambda>(k, v, e). now < e) (c_entries c))"

text \<open>\<^verbatim>\<open>set_many\<close> sets one key after another; the clock is read anew for each.\<close>

fun ttl_set_many ::
  "(nat \<Rightarrow> rat) \<Rightarrow> nat \<Rightarrow> (string, pyval) py_dict \<Rightarrow> rat option \<Rightarrow> ttl_cache \<Rightarrow> ttl_cache outcome" where
  "ttl_set_many clock i [] ttl c = Inr c"
| "ttl_set_many clock i ((k, v) # kvs) ttl c =
     (case ttl_set (clock i) (clock (Suc i)) k v ttl c of
        Inl e \<Rightarrow> Inl e
      | Inr c' \<Rightarrow> ttl_set_many clock (i + 2) kvs ttl c')"

section \<open>The specification: a map of live entries\<close>

definition live :: "rat \<Rightarrow> ttl_cache \<Rightarrow> string \<Rightarrow> pyval option" where
  "live now c key =
     (case d_get (c_entries c) key of
        None \<Rightarrow> None
      | Some (val, expire_at) \<Rightarrow> if now < expire_at then Some val else None)"

definition cache_ok :: "ttl_cache \<Rightarrow> bool" where
  "cache_ok c \<longleftrightarrow> d_wf (c_entries c) \<and> 1 \<le> c_max_size c
     \<and> int (length (c_entries c)) \<le> c_max_size c"

lemma cache_ok_mk: "1 \<le> n \<Longrightarrow> cache_ok (mk_ttl_cache ttl n)"
  by (simp add: cache_ok_def mk_ttl_cache_def)

lemma live_entries: "live now (c\<lparr>c_entries := es\<rparr>) k =
     (case d_get es k of None \<Rightarrow> None | Some (v, e) \<Rightarrow> if now < e then Some v else None)"
  by (simp add: live_def)

lemma cache_ok_subset:
  "cache_ok c \<Longrightarrow> d_wf es \<Longrightarrow> length es \<le> length (c_entries c) \<Longrightarrow> cache_ok (c\<lparr>c_entries := es\<rparr>)"
  by (auto simp: cache_ok_def)

lemma cache_ok_delete: "cache_ok c \<Longrightarrow> cache_ok (ttl_delete k c)"
  unfolding ttl_delete_def
  by (rule cache_ok_subset) (auto simp: cache_ok_def length_d_del_le)

lemma cache_ok_clear: "cache_ok c \<Longrightarrow> cache_ok (ttl_clear c)"
  by (simp add: ttl_clear_def cache_ok_def)

lemma cache_ok_prune: "cache_ok c \<Longrightarrow> cache_ok (prune_expired now c)"
  unfolding prune_expired_def
  by (rule cache_ok_subset) (auto simp: cache_ok_def d_wf_filter)

lemma cache_ok_get: "cache_ok c \<Longrightarrow> cache_ok (snd (ttl_get now k c))"
  using cache_ok_delete [of c k]
  by (auto simp: ttl_get_def ttl_delete_def split: option.splits)

lemma cache_ok_delete_pattern: "cache_ok c \<Longrightarrow> cache_ok (snd (ttl_delete_pattern p c))"
  by (auto simp: ttl_delete_pattern_def Let_def cache_ok_def d_wf_filter
      intro: order_trans [OF of_nat_mono [OF length_filter_le]])

lemma cache_ok_delete_many: "cache_ok c \<Longrightarrow> cache_ok (snd (ttl_delete_many ks c))"
proof (induction ks arbitrary: c)
  case Nil
  then show ?case by simp
next
  case (Cons k ks)
  from Cons.prems have "cache_ok (ttl_delete k c)" by (rule cache_ok_delete)
  then show ?case
    using Cons.IH [of c] Cons.IH [of "ttl_delete k c"] Cons.prems by (auto split: prod.splits)
qed

lemma cache_ok_get_many: "cache_ok c \<Longrightarrow> cache_ok (snd (ttl_get_many now ks c))"
proof -
  have "cache_ok c \<Longrightarrow> cache_ok (snd (ttl_get_many_from now ks res c))" for res
    by (induction ks arbitrary: c res)
      (auto simp: cache_ok_delete [unfolded ttl_delete_def] split: option.splits)
  then show "cache_ok c \<Longrightarrow> cache_ok (snd (ttl_get_many now ks c))"
    by (simp add: ttl_get_many_def)
qed

section \<open>Operations against the specification\<close>

lemma ttl_get_live:
  "fst (ttl_get now k c) = (case live now c k of None \<Rightarrow> PNone | Some v \<Rightarrow> v)"
  by (auto simp: ttl_get_def live_def split: option.splits)

text \<open>Reading at \<open>now\<close> loses nothing that a reader at \<open>now\<close> or later would have seen.\<close>

lemma live_get: "now \<le> later \<Longrightarrow> live later (snd (ttl_get now k c)) = live later c"
  by (auto simp: ttl_get_def live_def fun_eq_iff split: option.splits)

lemma live_prune:
  assumes "cache_ok c" "now \<le> later"
  shows "live later (prune_expired now c) = live later c"
  using assms
  by (auto simp: prune_expired_def live_def cache_ok_def fun_eq_iff d_get_filter
      split: option.splits)

lemma live_delete: "live now (ttl_delete k c) = (live now c)(k := None)"
  by (auto simp: ttl_delete_def live_def fun_eq_iff)

lemma live_delete_pattern:
  assumes "cache_ok c"
  shows "live now (snd (ttl_delete_pattern p c)) k =
           (if fnmatch k p then None else live now c k)"
proof -
  have "k \<in> set (d_keys (c_entries c))" if "d_get (c_entries c) k = Some v" for v
    using that by (force dest: map_of_SomeD)
  with assms show ?thesis
    by (auto simp: ttl_delete_pattern_def Let_def live_def cache_ok_def d_get_filter
        split: option.splits)
qed

text \<open>What \<^verbatim>\<open>set\<close> removes to make room, if anything.\<close>

definition victim :: "rat \<Rightarrow> ttl_cache \<Rightarrow> string option" where
  "victim now_prune c =
     (let c1 = prune_expired now_prune c
      in if int (length (c_entries c)) \<ge> c_max_size c
            \<and> int (length (c_entries c1)) \<ge> c_max_size c
         then (case c_entries c1 of [] \<Rightarrow> None | (k, _) # _ \<Rightarrow> Some k) else None)"

lemma ttl_set_ok:
  assumes "cache_ok c"
  shows "\<exists>c'. ttl_set now now_prune k v ttl c = Inr c' \<and> cache_ok c'"
proof -
  let ?c1 = "prune_expired now_prune c"
  have room: "cache_ok (d\<lparr>c_entries := d_set k x (c_entries d)\<rparr>)"
    if "cache_ok d" "int (length (c_entries d)) < c_max_size d" for d x
    using that by (auto simp: cache_ok_def length_d_set)
  have c1: "cache_ok ?c1" using assms by (rule cache_ok_prune)
  consider (free) "int (length (c_entries c)) < c_max_size c"
    | (pruned) "int (length (c_entries c)) \<ge> c_max_size c"
        "int (length (c_entries ?c1)) < c_max_size ?c1"
    | (full) "int (length (c_entries c)) \<ge> c_max_size c"
        "int (length (c_entries ?c1)) \<ge> c_max_size ?c1"
    by linarith
  then show ?thesis
  proof cases
    case free
    then show ?thesis using room [OF assms] by (auto simp: ttl_set_def Let_def)
  next
    case pruned
    then show ?thesis using room [OF c1] by (auto simp: ttl_set_def Let_def)
  next
    case full
    from c1 full(2) obtain o' ov rest where es: "c_entries ?c1 = (o', ov) # rest"
      by (cases "c_entries ?c1") (auto simp: cache_ok_def)
    let ?c2 = "?c1\<lparr>c_entries := d_del o' (c_entries ?c1)\<rparr>"
    have "length (d_del o' (c_entries ?c1)) \<le> length rest"
      by (simp add: es length_d_del_le)
    then have "cache_ok ?c2" "int (length (c_entries ?c2)) < c_max_size ?c2"
      using c1 by (auto simp: cache_ok_def es)
    from room [OF this] full show ?thesis by (auto simp: ttl_set_def Let_def es)
  qed
qed

lemma live_set:
  assumes ok: "cache_ok c" and set: "ttl_set now now_prune k v ttl c = Inr c'"
    and t: "now_prune \<le> later"
  shows "live later c' =
     ((case victim now_prune c of None \<Rightarrow> live later c | Some o' \<Rightarrow> (live later c)(o' := None))
        (k := if later < now + (case ttl of Some t \<Rightarrow> t | None \<Rightarrow> c_default_ttl c)
              then Some v else None))"
proof -
  let ?c1 = "prune_expired now_prune c"
  have p: "live later ?c1 = live later c" using ok t by (rule live_prune)
  have max1: "c_max_size ?c1 = c_max_size c" by (simp add: prune_expired_def)
  have store: "live later (d\<lparr>c_entries := d_set k (v, x) (c_entries d)\<rparr>) =
      (live later d)(k := if later < x then Some v else None)" for d x
    by (auto simp: live_def fun_eq_iff)
  show ?thesis
  proof (cases "victim now_prune c")
    case None
    with set show ?thesis
      by (auto simp: ttl_set_def victim_def Let_def store p max1 split: if_splits list.splits)
  next
    case (Some o')
    then obtain ov rest where
      full: "int (length (c_entries c)) \<ge> c_max_size c"
        "int (length (c_entries ?c1)) \<ge> c_max_size c"
      and es: "c_entries ?c1 = (o', ov) # rest"
      by (auto simp: victim_def Let_def split: if_splits list.splits)
    have "c' = (let d = ttl_delete o' ?c1
                in d\<lparr>c_entries := d_set k (v, now + (case ttl of Some t \<Rightarrow> t
                       | None \<Rightarrow> c_default_ttl c)) (c_entries d)\<rparr>)"
      using set full by (simp add: ttl_set_def Let_def es max1 ttl_delete_def)
    then show ?thesis by (simp add: Some store live_delete p Let_def)
  qed
qed

section \<open>Runs\<close>

datatype cache_op =
    OpGet string
  | OpGetMany "string list"
  | OpSet string pyval "rat option"
  | OpDelete string
  | OpDeleteMany "string list"
  | OpDeletePattern string
  | OpClear

text \<open>One call at a time of the clock; a \<^verbatim>\<open>set\<close> that raises leaves the cache as it was.\<close>

fun cache_step :: "ttl_cache \<Rightarrow> rat \<times> cache_op \<Rightarrow> ttl_cache" where
  "cache_step c (now, OpGet k) = snd (ttl_get now k c)"
| "cache_step c (now, OpGetMany ks) = snd (ttl_get_many now ks c)"
| "cache_step c (now, OpSet k v ttl) =
     (case ttl_set now now k v ttl c of Inl e \<Rightarrow> c | Inr c' \<Rightarrow> c')"
| "cache_step c (now, OpDelete k) = ttl_delete k c"
| "cache_step c (now, OpDeleteMany ks) = snd (ttl_delete_many ks c)"
| "cache_step c (now, OpDeletePattern p) = snd (ttl_delete_pattern p c)"
| "cache_step c (now, OpClear) = ttl_clear c"

lemma cache_ok_step: "cache_ok c \<Longrightarrow> cache_ok (cache_step c e)"
proof (induction c e rule: cache_step.induct)
  case (3 c now k v ttl)
  then show ?case using ttl_set_ok [of c now now k v ttl] by auto
qed (simp_all add: cache_ok_get cache_ok_get_many cache_ok_delete cache_ok_delete_many
      cache_ok_delete_pattern cache_ok_clear)

interpretation local_cache: machine cache_step cache_ok
  by unfold_locales (rule cache_ok_step)

lemma c_max_size_ops [frames]:
  "c_max_size (snd (ttl_get now k c)) = c_max_size c"
  "c_max_size (ttl_delete k c) = c_max_size c"
  "c_max_size (snd (ttl_delete_pattern p c)) = c_max_size c"
  "c_max_size (ttl_clear c) = c_max_size c"
  "c_max_size (prune_expired now c) = c_max_size c"
  by (auto simp: ttl_get_def ttl_delete_def ttl_delete_pattern_def ttl_clear_def prune_expired_def
      Let_def split: option.splits)

lemma c_max_size_get_many [frames]: "c_max_size (snd (ttl_get_many now ks c)) = c_max_size c"
proof -
  have "c_max_size (snd (ttl_get_many_from now ks res c)) = c_max_size c" for res
    by (induction ks arbitrary: c res) (auto split: option.splits)
  then show ?thesis by (simp add: ttl_get_many_def)
qed

lemma c_max_size_delete_many [frames]: "c_max_size (snd (ttl_delete_many ks c)) = c_max_size c"
proof (induction ks arbitrary: c)
  case Nil
  then show ?case by simp
next
  case (Cons k ks)
  show ?case
    using Cons.IH [of c] Cons.IH [of "ttl_delete k c"] by (auto simp: frames split: prod.splits)
qed

lemma c_max_size_set [frames]: "ttl_set now np k v ttl c = Inr c' \<Longrightarrow> c_max_size c' = c_max_size c"
  by (auto simp: ttl_set_def Let_def frames split: if_splits list.splits)

lemma c_max_size_step [frames]: "c_max_size (cache_step c e) = c_max_size c"
  by (induction c e rule: cache_step.induct) (auto simp: frames split: sum.splits)

lemma c_max_size_run [frames]: "c_max_size (foldl cache_step c es) = c_max_size c"
  by (induction es arbitrary: c) (simp_all add: frames)

section \<open>Properties\<close>

text \<open>
  However it is used, the local cache never holds more entries than its bound, when the bound
  is at least one, and never two entries for one key.
\<close>

theorem ttl_runs_bounded:
  assumes "1 \<le> n"
  shows "int (length (c_entries (foldl cache_step (mk_ttl_cache ttl n) es))) \<le> n
     \<and> distinct (d_keys (c_entries (foldl cache_step (mk_ttl_cache ttl n) es)))"
  using local_cache.run_inv [OF cache_ok_mk [OF assms], of ttl es]
  by (simp add: cache_ok_def d_wf_def frames) (simp add: mk_ttl_cache_def)

theorem ttl_runs_bounded_witness:
  "int (length (c_entries (foldl cache_step (mk_ttl_cache 300 1)
     [(0, OpSet ''a'' (PInt 1) None), (1, OpSet ''b'' (PInt 2) None)]))) \<le> 1"
  using ttl_runs_bounded [of 1 300
      "[(0, OpSet ''a'' (PInt 1) None), (1, OpSet ''b'' (PInt 2) None)]"] by simp

text \<open>
  The exact effect of \<^verbatim>\<open>set\<close> on what later readers see. It succeeds on every well-formed cache;
  the key reads as the new value until its expiry; the only other key that changes is the victim,
  which exists only when the cache is full of entries that have not expired, and is then the oldest.
\<close>

theorem ttl_set_spec:
  assumes "cache_ok c" "now_prune \<le> later"
  shows "\<exists>c'. ttl_set now now_prune k v ttl c = Inr c' \<and> cache_ok c' \<and>
     live later c' =
       ((case victim now_prune c of None \<Rightarrow> live later c | Some o' \<Rightarrow> (live later c)(o' := None))
          (k := if later < now + (case ttl of Some t \<Rightarrow> t | None \<Rightarrow> c_default_ttl c)
                then Some v else None))"
  using ttl_set_ok [OF assms(1), of now now_prune k v ttl] live_set [OF assms(1) _ assms(2)]
  by metis

theorem ttl_set_spec_witness:
  "\<exists>c'. ttl_set 0 0 ''a'' (PInt 1) (Some 5) (mk_ttl_cache 300 1) = Inr c' \<and>
     live 4 c' ''a'' = Some (PInt 1)"
proof -
  have ok: "cache_ok (mk_ttl_cache 300 1)" by (simp add: cache_ok_mk)
  from ttl_set_spec [OF ok, of 0 4 0 "''a''" "PInt 1" "Some 5"] show ?thesis
    by auto
qed

text \<open>
  Overwriting a key of a full cache evicts the oldest other entry although no room is needed:
  afterwards the cache holds one entry less than its bound and a live value is gone.
\<close>

theorem ttl_overwrite_evicts:
  assumes "c_entries c = (old, ov) # rest" "d_wf (c_entries c)"
    and "int (length (c_entries c)) = c_max_size c"
    and "\<forall>(k, v, e) \<in> set (c_entries c). now < e" "k \<in> set (d_keys rest)"
  shows "\<exists>c'. ttl_set now now k v ttl c = Inr c' \<and> live now c' old = None \<and>
           live now c old \<noteq> None \<and> int (length (c_entries c')) = c_max_size c - 1"
proof -
  have all: "c_entries (prune_expired now c) = c_entries c"
    using assms(4) by (auto simp: prune_expired_def filter_id_conv)
  have fresh: "old \<notin> set (d_keys rest)" using assms(1,2) by simp
  then have rest: "d_del old (c_entries c) = rest"
    by (simp add: assms(1) delete_id)
  let ?x = "now + (case ttl of Some t \<Rightarrow> t | None \<Rightarrow> c_default_ttl c)"
  let ?c = "c\<lparr>c_entries := d_set k (v, ?x) rest\<rparr>"
  have same: "prune_expired now c = c" using all by (simp add: prune_expired_def)
  have "ttl_set now now k v ttl c = Inr ?c"
    using assms(3) rest by (simp add: ttl_set_def Let_def same) (simp add: assms(1))
  moreover have "k \<noteq> old" using assms(5) fresh by auto
  then have "live now ?c old = None"
    using fresh by (simp add: live_def map_of_eq_None_iff [THEN iffD2])
  moreover have "live now c old \<noteq> None"
    using assms(1,4) by (auto simp: live_def)
  moreover have "int (length (c_entries ?c)) = c_max_size c - 1"
    using assms(1,3,5) by (simp add: length_d_set)
  ultimately show ?thesis by blast
qed

theorem ttl_overwrite_evicts_witness:
  "\<exists>c'. ttl_set 0 0 ''b'' (PInt 9) None
      \<lparr>c_entries = [(''a'', PInt 1, 5), (''b'', PInt 2, 5)], c_default_ttl = 300, c_max_size = 2\<rparr>
        = Inr c' \<and> live 0 c' ''a'' = None"
proof -
  let ?c = "\<lparr>c_entries = [(''a'', PInt 1, 5), (''b'', PInt 2, 5)], c_default_ttl = 300,
             c_max_size = 2\<rparr>"
  have "\<exists>c'. ttl_set 0 0 ''b'' (PInt 9) None ?c = Inr c' \<and> live 0 c' ''a'' = None \<and>
           live 0 ?c ''a'' \<noteq> None \<and> int (length (c_entries c')) = c_max_size ?c - 1"
    by (rule ttl_overwrite_evicts [where rest = "[(''b'', PInt 2, 5)]" and ov = "(PInt 1, 5)"]) simp_all
  then show ?thesis by auto
qed

text \<open>
  Invalidating a tag without pattern characters removes exactly the local entries whose key
  contains the tag.
\<close>

theorem ttl_tag_invalidation:
  assumes "cache_ok c" "plain tag"
  shows "live now (snd (ttl_delete_pattern (''*'' @ tag @ ''*'') c)) k =
           (if str_contains k tag then None else live now c k)"
  by (simp only: live_delete_pattern [OF assms(1)] fnmatch_tag [OF assms(2)])

theorem ttl_tag_invalidation_witness:
  "live 0 (snd (ttl_delete_pattern (''*'' @ ''u1'' @ ''*'') (mk_ttl_cache 300 5))) ''site:u1:x'' = None"
  using ttl_tag_invalidation [OF cache_ok_mk [of 5 300], of "''u1''" 0 "''site:u1:x''"]
  by (simp add: plain_def)

end
