(* ===== verification/Metrics.thy ===== *)
theory Metrics
  imports Errors
begin

text \<open>
  \<^verbatim>\<open>MetricsRegistry\<close> of \<^verbatim>\<open>backend/metrics.py\<close>: the counters and gauges the other components
  update. Every method takes the registry's lock for its whole body, so an update is one step.
\<close>

record metrics =
  request_counts :: "(string, int) py_dict"
  request_duration_sum :: rat
  request_duration_count :: int
  m_active_jobs :: int
  m_queue_length :: int
  m_active_users :: int
  m_redis_latency :: rat
  m_database_latency :: rat
  m_worker_memory_usage :: rat
  m_worker_cpu_usage :: rat
  m_worker_utilization :: rat
  m_worker_concurrency :: int
  m_worker_active :: int
  m_worker_jobs_running :: int
  crawl_duration_sum :: rat
  crawl_duration_count :: int
  audit_duration_sum :: rat
  audit_duration_count :: int
  keyword_duration_sum :: rat
  keyword_duration_count :: int
  rank_duration_sum :: rat
  rank_duration_count :: int
  ai_duration_sum :: rat
  ai_duration_count :: int
  queue_processing_time_sum :: rat
  queue_processing_time_count :: int
  cache_hits :: int
  cache_misses :: int
  db_query_duration_sum :: rat
  db_query_duration_count :: int
  worker_jobs_completed :: int
  worker_jobs_failed :: int
  worker_restarts :: int
  dead_letter_jobs :: int
  retry_attempts :: int
  retry_failures :: int
  m_worker_start_time :: rat

definition metrics_init :: "rat \<Rightarrow> metrics" where
  "metrics_init now =
     \<lparr>request_counts = [], request_duration_sum = 0, request_duration_count = 0,
      m_active_jobs = 0, m_queue_length = 0, m_active_users = 0, m_redis_latency = 0,
      m_database_latency = 0, m_worker_memory_usage = 0, m_worker_cpu_usage = 0,
      m_worker_utilization = 0, m_worker_concurrency = 5, m_worker_active = 0,
      m_worker_jobs_running = 0,
      crawl_duration_sum = 0, crawl_duration_count = 0,
      audit_duration_sum = 0, audit_duration_count = 0,
      keyword_duration_sum = 0, keyword_duration_count = 0,
      rank_duration_sum = 0, rank_duration_count = 0,
      ai_duration_sum = 0, ai_duration_count = 0,
      queue_processing_time_sum = 0, queue_processing_time_count = 0,
      cache_hits = 0, cache_misses = 0,
      db_query_duration_sum = 0, db_query_duration_count = 0,
      worker_jobs_completed = 0, worker_jobs_failed = 0, worker_restarts = 0,
      dead_letter_jobs = 0, retry_attempts = 0, retry_failures = 0,
      m_worker_start_time = now\<rparr>"

section \<open>Updates\<close>

text \<open>The methods, one constructor each, with the arguments they take.\<close>

datatype metric_op =
    set_worker_active int
  | set_worker_jobs_running int
  | inc_worker_jobs_completed int
  | inc_worker_jobs_failed int
  | inc_worker_restarts int
  | inc_dead_letter_jobs int
  | set_dead_letter_jobs int
  | inc_retry_attempts int
  | inc_retry_failures int
  | inc_cache_hit
  | inc_cache_miss
  | set_active_users int
  | set_redis_latency rat
  | set_database_latency rat
  | set_worker_memory_usage rat
  | set_worker_cpu_usage rat
  | observe_db_query_duration rat
  | set_worker_utilization rat
  | set_worker_concurrency int
  | inc_request_count string string int
  | observe_request_duration rat
  | set_active_jobs int
  | inc_active_jobs int
  | set_queue_length int
  | observe_crawl_duration rat
  | observe_audit_duration rat
  | observe_keyword_duration rat
  | observe_rank_duration rat
  | observe_ai_duration rat
  | observe_queue_processing_time rat

definition request_key :: "string \<Rightarrow> string \<Rightarrow> int \<Rightarrow> string" where
  "request_key meth ep st = meth @ '':'' @ ep @ '':'' @ int_str st"

fun metric_step :: "metrics \<Rightarrow> metric_op \<Rightarrow> metrics" where
  "metric_step m (set_worker_active n) = m\<lparr>m_worker_active := n\<rparr>"
| "metric_step m (set_worker_jobs_running n) = m\<lparr>m_worker_jobs_running := max 0 n\<rparr>"
| "metric_step m (inc_worker_jobs_completed d) =
     m\<lparr>worker_jobs_completed := worker_jobs_completed m + d\<rparr>"
| "metric_step m (inc_worker_jobs_failed d) = m\<lparr>worker_jobs_failed := worker_jobs_failed m + d\<rparr>"
| "metric_step m (inc_worker_restarts d) = m\<lparr>worker_restarts := worker_restarts m + d\<rparr>"
| "metric_step m (inc_dead_letter_jobs d) = m\<lparr>dead_letter_jobs := dead_letter_jobs m + d\<rparr>"
| "metric_step m (set_dead_letter_jobs n) = m\<lparr>dead_letter_jobs := max 0 n\<rparr>"
| "metric_step m (inc_retry_attempts d) = m\<lparr>retry_attempts := retry_attempts m + d\<rparr>"
| "metric_step m (inc_retry_failures d) = m\<lparr>retry_failures := retry_failures m + d\<rparr>"
| "metric_step m inc_cache_hit = m\<lparr>cache_hits := cache_hits m + 1\<rparr>"
| "metric_step m inc_cache_miss = m\<lparr>cache_misses := cache_misses m + 1\<rparr>"
| "metric_step m (set_active_users n) = m\<lparr>m_active_users := max 0 n\<rparr>"
| "metric_step m (set_redis_latency x) = m\<lparr>m_redis_latency := max 0 x\<rparr>"
| "metric_step m (set_database_latency x) = m\<lparr>m_database_latency := max 0 x\<rparr>"
| "metric_step m (set_worker_memory_usage x) = m\<lparr>m_worker_memory_usage := max 0 x\<rparr>"
| "metric_step m (set_worker_cpu_usage x) = m\<lparr>m_worker_cpu_usage := max 0 x\<rparr>"
| "metric_step m (observe_db_query_duration x) =
     m\<lparr>db_query_duration_sum := db_query_duration_sum m + x,
       db_query_duration_count := db_query_duration_count m + 1,
       m_database_latency := x\<rparr>"
| "metric_step m (set_worker_utilization x) = m\<lparr>m_worker_utilization := max 0 (min 100 x)\<rparr>"
| "metric_step m (set_worker_concurrency n) = m\<lparr>m_worker_concurrency := max 1 n\<rparr>"
| "metric_step m (inc_request_count meth ep st) =
     (let key = request_key meth ep st;
          old = (case d_get (request_counts m) key of None \<Rightarrow> 0 | Some c \<Rightarrow> c)
      in m\<lparr>request_counts := d_set key (old + 1) (request_counts m)\<rparr>)"
| "metric_step m (observe_request_duration x) =
     m\<lparr>request_duration_sum := request_duration_sum m + x,
       request_duration_count := request_duration_count m + 1\<rparr>"
| "metric_step m (set_active_jobs n) = m\<lparr>m_active_jobs := n\<rparr>"
| "metric_step m (inc_active_jobs d) = m\<lparr>m_active_jobs := max 0 (m_active_jobs m + d)\<rparr>"
| "metric_step m (set_queue_length n) = m\<lparr>m_queue_length := n\<rparr>"
| "metric_step m (observe_crawl_duration x) =
     m\<lparr>crawl_duration_sum := crawl_duration_sum m + x,
       crawl_duration_count := crawl_duration_count m + 1\<rparr>"
| "metric_step m (observe_audit_duration x) =
     m\<lparr>audit_duration_sum := audit_duration_sum m + x,
       audit_duration_count := audit_duration_count m + 1\<rparr>"
| "metric_step m (observe_keyword_duration x) =
     m\<lparr>keyword_duration_sum := keyword_duration_sum m + x,
       keyword_duration_count := keyword_duration_count m + 1\<rparr>"
| "metric_step m (observe_rank_duration x) =
     m\<lparr>rank_duration_sum := rank_duration_sum m + x,
       rank_duration_count := rank_duration_count m + 1\<rparr>"
| "metric_step m (observe_ai_duration x) =
     m\<lparr>ai_duration_sum := ai_duration_sum m + x,
       ai_duration_count := ai_duration_count m + 1\<rparr>"
| "metric_step m (observe_queue_processing_time x) =
     m\<lparr>queue_processing_time_sum := queue_processing_time_sum m + x,
       queue_processing_time_count := queue_processing_time_count m + 1\<rparr>"

section \<open>What the clamps guarantee\<close>

text \<open>
  The gauges whose setters clamp stay in range. The job counters and the two gauges with plain
  setters are not listed: their methods accept any number.
\<close>

definition gauges_ok :: "metrics \<Rightarrow> bool" where
  "gauges_ok m \<longleftrightarrow>
     0 \<le> m_worker_utilization m \<and> m_worker_utilization m \<le> 100 \<and>
     1 \<le> m_worker_concurrency m \<and> 0 \<le> m_worker_jobs_running m \<and> 0 \<le> m_active_users m \<and>
     0 \<le> m_redis_latency m \<and> 0 \<le> m_worker_memory_usage m \<and> 0 \<le> m_worker_cpu_usage m \<and>
     d_wf (request_counts m)"

lemma gauges_ok_init: "gauges_ok (metrics_init now)"
  by (simp add: gauges_ok_def metrics_init_def)

lemma gauges_ok_step: "gauges_ok m \<Longrightarrow> gauges_ok (metric_step m e)"
  by (cases e) (simp_all add: gauges_ok_def Let_def)

interpretation registry: machine metric_step gauges_ok
  by unfold_locales (rule gauges_ok_step)

text \<open>A request is counted under its own key and no other.\<close>

lemma request_count_step:
  "d_get (request_counts (metric_step m (inc_request_count meth ep st))) k =
     (if k = request_key meth ep st
      then Some (1 + (case d_get (request_counts m) k of None \<Rightarrow> 0 | Some c \<Rightarrow> c))
      else d_get (request_counts m) k)"
  by (simp add: Let_def add.commute split: option.splits)

end
