(* ===== verification/Unified_Cache.thy ===== *)
theory Unified_Cache
  imports TTL_Cache Metrics
begin

text \<open>
  \<^verbatim>\<open>UnifiedCache\<close> of \<^verbatim>\<open>backend/cache.py\<close>: Redis when a client was connected at start-up, the local
  cache otherwise and wherever a Redis call raises. The Redis client is a parameter: one function
  per command used, from the server's state to an optional answer (\<^const>\<open>None\<close> is a raised
  exception, which may come after an effect) and the state afterwards. A stored JSON document is
  represented by the value it encodes, so \<^verbatim>\<open>json.dumps\<close> and \<^verbatim>\<open>json.loads\<close> are the identity.
\<close>

type_synonym ('r, 'a) redis_call = "'r \<Rightarrow> 'a option \<times> 'r"

record 'r cache_redis =
  rd_get :: "string \<Rightarrow> ('r, pyval option) redis_call"
  rd_mget :: "string list \<Rightarrow> ('r, pyval option list) redis_call"
  rd_setex :: "string \<Rightarrow> rat \<Rightarrow> pyval \<Rightarrow> ('r, unit) redis_call"
  rd_pipeline_setex :: "(string \<times> pyval) list \<Rightarrow> rat \<Rightarrow> ('r, unit) redis_call"
  rd_delete :: "string list \<Rightarrow> ('r, nat) redis_call"
  rd_keys :: "string \<Rightarrow> ('r, string list) redis_call"
  rd_flushdb :: "('r, unit) redis_call"
  rd_dbsize :: "('r, nat) redis_call"

text \<open>
  The state of the object: the flags are set by \<^verbatim>\<open>_init_redis\<close>, \<open>u_lua\<close> says that the two Lua
  scripts were registered.
\<close>

record 'r ucache =
  u_local :: ttl_cache
  u_redis :: 'r
  u_client :: bool
  u_connected :: bool
  u_lua :: bool
  u_metrics :: metrics

definition u_active :: "'r ucache \<Rightarrow> bool" where
  "u_active u \<longleftrightarrow> u_connected u \<and> u_client u"

text \<open>
  \<^verbatim>\<open>_init_redis\<close> with \<^verbatim>\<open>_register_lua_scripts\<close>: there is a client or not, it answers the ping or
  not, the scripts register or not.
\<close>

definition u_init_redis :: "bool \<Rightarrow> bool \<Rightarrow> bool \<Rightarrow> 'r ucache \<Rightarrow> 'r ucache" where
  "u_init_redis has_client ping_ok scripts_ok u =
     (if has_client \<and> ping_ok
      then u\<lparr>u_client := True, u_connected := True, u_lua := scripts_ok\<rparr>
      else u\<lparr>u_client := False, u_connected := False\<rparr>)"

abbreviation count_metric :: "metric_op \<Rightarrow> 'r ucache \<Rightarrow> 'r ucache" where
  "count_metric e u \<equiv> u\<lparr>u_metrics := metric_step (u_metrics u) e\<rparr>"

definition local_get :: "rat \<Rightarrow> string \<Rightarrow> 'r ucache \<Rightarrow> pyval \<times> 'r ucache" where
  "local_get now key u =
     (case ttl_get now key (u_local u) of (v, c) \<Rightarrow> (v, u\<lparr>u_local := c\<rparr>))"

definition u_get :: "'r cache_redis \<Rightarrow> rat \<Rightarrow> string \<Rightarrow> 'r ucache \<Rightarrow> pyval \<times> 'r ucache" where
  "u_get R now key u =
     (let (val, u1) =
        (if u_active u
         then (case rd_get R key (u_redis u) of
                 (Some (Some doc), r) \<Rightarrow> (doc, u\<lparr>u_redis := r\<rparr>)
               | (Some None, r) \<Rightarrow> (PNone, u\<lparr>u_redis := r\<rparr>)
               | (None, r) \<Rightarrow> local_get now key (u\<lparr>u_redis := r\<rparr>))
         else local_get now key u)
      in (val, count_metric (if val \<noteq> PNone then inc_cache_hit else inc_cache_miss) u1))"

fun collect_docs ::
  "(string \<times> pyval option) list \<Rightarrow> (string, pyval) py_dict \<Rightarrow> 'r ucache
     \<Rightarrow> (string, pyval) py_dict \<times> 'r ucache" where
  "collect_docs [] res u = (res, u)"
| "collect_docs ((key, Some doc) # rest) res u =
     collect_docs rest (d_set key doc res) (count_metric inc_cache_hit u)"
| "collect_docs ((key, None) # rest) res u =
     collect_docs rest res (count_metric inc_cache_miss u)"

definition u_get_many ::
  "'r cache_redis \<Rightarrow> rat \<Rightarrow> string list \<Rightarrow> 'r ucache \<Rightarrow> (string, pyval) py_dict \<times> 'r ucache" where
  "u_get_many R now keys u =
     (if keys = [] then ([], u)
      else
        let local = (\<lambda>u. case ttl_get_many now keys (u_local u) of (res, c) \<Rightarrow>
               (res, foldl (\<lambda>u key. count_metric
                        (if key \<in> set (d_keys res) then inc_cache_hit else inc_cache_miss) u)
                      (u\<lparr>u_local := c\<rparr>) keys))
        in if u_active u
           then (case rd_mget R keys (u_redis u) of
                   (Some raws, r) \<Rightarrow> collect_docs (zip keys raws) [] (u\<lparr>u_redis := r\<rparr>)
                 | (None, r) \<Rightarrow> local (u\<lparr>u_redis := r\<rparr>))
           else local u)"

definition local_set ::
  "rat \<Rightarrow> string \<Rightarrow> pyval \<Rightarrow> rat \<Rightarrow> 'r ucache \<Rightarrow> ('r ucache) outcome" where
  "local_set now key val ttl u =
     (case ttl_set now now key val (Some ttl) (u_local u) of
        Inl e \<Rightarrow> Inl e | Inr c \<Rightarrow> Inr (u\<lparr>u_local := c\<rparr>))"

text \<open>\<open>default_ttl\<close> is the setting \<^verbatim>\<open>CACHE_TTL_DEFAULT\<close>.\<close>

definition u_set ::
  "'r cache_redis \<Rightarrow> rat \<Rightarrow> rat \<Rightarrow> string \<Rightarrow> pyval \<Rightarrow> rat option \<Rightarrow> 'r ucache
     \<Rightarrow> ('r ucache) outcome" where
  "u_set R default_ttl now key val ttl u =
     (let ttl_seconds = (case ttl of Some t \<Rightarrow> t | None \<Rightarrow> default_ttl)
      in if u_active u
         then (case rd_setex R key ttl_seconds val (u_redis u) of
                 (Some _, r) \<Rightarrow> Inr (u\<lparr>u_redis := r\<rparr>)
               | (None, r) \<Rightarrow> local_set now key val ttl_seconds (u\<lparr>u_redis := r\<rparr>))
         else local_set now key val ttl_seconds u)"

definition u_set_many ::
  "'r cache_redis \<Rightarrow> rat \<Rightarrow> (nat \<Rightarrow> rat) \<Rightarrow> (string, pyval) py_dict \<Rightarrow> rat option \<Rightarrow> 'r ucache
     \<Rightarrow> ('r ucache) outcome" where
  "u_set_many R default_ttl clock mapping ttl u =
     (if mapping = [] then Inr u
      else
        let ttl_seconds = (case ttl of Some t \<Rightarrow> t | None \<Rightarrow> default_ttl);
            local = (\<lambda>u. case ttl_set_many clock 0 mapping (Some ttl_seconds) (u_local u) of
                       Inl e \<Rightarrow> Inl e | Inr c \<Rightarrow> Inr (u\<lparr>u_local := c\<rparr>))
        in if u_active u
           then (case rd_pipeline_setex R mapping ttl_seconds (u_redis u) of
                   (Some _, r) \<Rightarrow> Inr (u\<lparr>u_redis := r\<rparr>)
                 | (None, r) \<Rightarrow> local (u\<lparr>u_redis := r\<rparr>))
           else local u)"

definition u_delete :: "'r cache_redis \<Rightarrow> string \<Rightarrow> 'r ucache \<Rightarrow> 'r ucache" where
  "u_delete R key u =
     (let u1 = (if u_active u then u\<lparr>u_redis := snd (rd_delete R [key] (u_redis u))\<rparr> else u)
      in u1\<lparr>u_local := ttl_delete key (u_local u1)\<rparr>)"

definition u_delete_many :: "'r cache_redis \<Rightarrow> string list \<Rightarrow> 'r ucache \<Rightarrow> nat \<times> 'r ucache" where
  "u_delete_many R keys u =
     (if keys = [] then (0, u)
      else
        let (deleted, u1) =
              (if u_active u
               then (case rd_delete R keys (u_redis u) of
                       (Some n, r) \<Rightarrow> (n, u\<lparr>u_redis := r\<rparr>)
                     | (None, r) \<Rightarrow> (0, u\<lparr>u_redis := r\<rparr>))
               else (0, u));
            (local_count, c) = ttl_delete_many keys (u_local u1)
        in (max deleted local_count, u1\<lparr>u_local := c\<rparr>))"

text \<open>
  \<^verbatim>\<open>LUA_INVALIDATE_PATTERN\<close> and the code used when it is not registered do the same two commands.
\<close>

definition keys_then_delete :: "'r cache_redis \<Rightarrow> string \<Rightarrow> ('r, nat) redis_call" where
  "keys_then_delete R pat r =
     (case rd_keys R pat r of
        (None, r1) \<Rightarrow> (None, r1)
      | (Some [], r1) \<Rightarrow> (Some 0, r1)
      | (Some ks, r1) \<Rightarrow> rd_delete R ks r1)"

definition u_invalidate_pattern ::
  "'r cache_redis \<Rightarrow> string \<Rightarrow> 'r ucache \<Rightarrow> nat \<times> 'r ucache" where
  "u_invalidate_pattern R pat u =
     (let (count, u1) =
            (if u_active u
             then (case keys_then_delete R pat (u_redis u) of
                     (Some n, r) \<Rightarrow> (n, u\<lparr>u_redis := r\<rparr>)
                   | (None, r) \<Rightarrow> (0, u\<lparr>u_redis := r\<rparr>))
             else (0, u));
          (local_count, c) = ttl_delete_pattern pat (u_local u1)
      in (max count local_count, u1\<lparr>u_local := c\<rparr>))"

definition u_invalidate_tag :: "'r cache_redis \<Rightarrow> string \<Rightarrow> 'r ucache \<Rightarrow> nat \<times> 'r ucache" where
  "u_invalidate_tag R tag u = u_invalidate_pattern R (''*'' @ tag @ ''*'') u"

definition u_invalidate_keys ::
  "'r cache_redis \<Rightarrow> string list \<Rightarrow> 'r ucache \<Rightarrow> nat \<times> 'r ucache" where
  "u_invalidate_keys R keys u = u_delete_many R keys u"

text \<open>\<^verbatim>\<open>LUA_ATOMIC_GET_DEL\<close>: read, and delete if something was read.\<close>

definition get_then_delete :: "'r cache_redis \<Rightarrow> string \<Rightarrow> ('r, pyval option) redis_call" where
  "get_then_delete R key r =
     (case rd_get R key r of
        (None, r1) \<Rightarrow> (None, r1)
      | (Some None, r1) \<Rightarrow> (Some None, r1)
      | (Some (Some doc), r1) \<Rightarrow>
          (case rd_delete R [key] r1 of
             (None, r2) \<Rightarrow> (None, r2)
           | (Some _, r2) \<Rightarrow> (Some (Some doc), r2)))"

definition u_atomic_get_delete ::
  "'r cache_redis \<Rightarrow> rat \<Rightarrow> string \<Rightarrow> 'r ucache \<Rightarrow> pyval \<times> 'r ucache" where
  "u_atomic_get_delete R now key u =
     (let fallback = (\<lambda>u. case u_get R now key u of
             (val, u1) \<Rightarrow> (val, if val \<noteq> PNone then u_delete R key u1 else u1))
      in if u_active u \<and> u_lua u
         then (case get_then_delete R key (u_redis u) of
                 (Some (Some doc), r) \<Rightarrow> (doc, u\<lparr>u_redis := r\<rparr>)
               | (_, r) \<Rightarrow> fallback (u\<lparr>u_redis := r\<rparr>))
         else fallback u)"

definition u_warm_cache ::
  "'r cache_redis \<Rightarrow> rat \<Rightarrow> (nat \<Rightarrow> rat) \<Rightarrow> (string, pyval) py_dict \<Rightarrow> rat option \<Rightarrow> 'r ucache
     \<Rightarrow> (nat \<times> 'r ucache) outcome" where
  "u_warm_cache R default_ttl clock mapping ttl u =
     (if mapping = [] then Inr (0, u)
      else case u_set_many R default_ttl clock mapping ttl u of
             Inl e \<Rightarrow> Inl e | Inr u1 \<Rightarrow> Inr (length mapping, u1))"

definition u_clear :: "'r cache_redis \<Rightarrow> 'r ucache \<Rightarrow> 'r ucache" where
  "u_clear R u =
     (let u1 = (if u_active u then u\<lparr>u_redis := snd (rd_flushdb R (u_redis u))\<rparr> else u)
      in u1\<lparr>u_local := ttl_clear (u_local u1)\<rparr>)"

definition u_size :: "'r cache_redis \<Rightarrow> rat \<Rightarrow> 'r ucache \<Rightarrow> nat \<times> 'r ucache" where
  "u_size R now u =
     (if u_active u
      then (case rd_dbsize R (u_redis u) of
              (Some n, r) \<Rightarrow> (n, u\<lparr>u_redis := r\<rparr>)
            | (None, r) \<Rightarrow> (ttl_size now (u_local u), u\<lparr>u_redis := r\<rparr>))
      else (ttl_size now (u_local u), u))"

section \<open>Facts about single calls\<close>

text \<open>What the documentation of Redis says of the commands, read through a lookup.\<close>

definition redis_kv :: "'r cache_redis \<Rightarrow> ('r \<Rightarrow> string \<Rightarrow> pyval option) \<Rightarrow> bool" where
  "redis_kv R lk \<longleftrightarrow>
     (\<forall>k r d r'. rd_get R k r = (Some d, r') \<longrightarrow> d = lk r k \<and> lk r' = lk r) \<and>
     (\<forall>k t v r u r'. rd_setex R k t v r = (Some u, r') \<longrightarrow> lk r' = (lk r)(k \<mapsto> v)) \<and>
     (\<forall>ks r n r'. rd_delete R ks r = (Some n, r') \<longrightarrow> lk r' = (\<lambda>k. if k \<in> set ks then None else lk r k))"

lemma u_get_active:
  assumes "u_active u" "rd_get R k (u_redis u) = (Some d, r)"
  shows "fst (u_get R now k u) = (case d of None \<Rightarrow> PNone | Some v \<Rightarrow> v)"
  using assms by (auto simp: u_get_def Let_def split: option.splits)

lemma u_get_local:
  assumes "\<not> u_active u"
  shows "fst (u_get R now k u) = (case live now (u_local u) k of None \<Rightarrow> PNone | Some v \<Rightarrow> v)"
  using assms ttl_get_live [of now k "u_local u"]
  by (auto simp: u_get_def local_get_def Let_def split: prod.splits)

lemma u_get_failing:
  assumes "u_active u" "rd_get R k (u_redis u) = (None, r)"
  shows "fst (u_get R now k u) = (case live now (u_local u) k of None \<Rightarrow> PNone | Some v \<Rightarrow> v)"
  using assms ttl_get_live [of now k "u_local u"]
  by (auto simp: u_get_def local_get_def Let_def split: prod.splits)

lemma u_get_counts:
  "cache_hits (u_metrics (snd (u_get R now k u))) + cache_misses (u_metrics (snd (u_get R now k u)))
     = cache_hits (u_metrics u) + cache_misses (u_metrics u) + 1"
  by (auto simp: u_get_def local_get_def Let_def split: prod.splits option.splits)

lemma u_set_local:
  assumes "\<not> u_active u" "cache_ok (u_local u)" "u_set R dt now k v ttl u = Inr u'"
  shows "cache_ok (u_local u')" and "\<not> u_active u'"
    and "now \<le> later \<Longrightarrow> later < now + (case ttl of Some t \<Rightarrow> t | None \<Rightarrow> dt)
           \<Longrightarrow> live later (u_local u') k = Some v"
proof -
  from assms(3,1) obtain c where
    set: "ttl_set now now k v (Some (case ttl of Some t \<Rightarrow> t | None \<Rightarrow> dt)) (u_local u) = Inr c"
    and u': "u' = u\<lparr>u_local := c\<rparr>"
    by (auto simp: u_set_def local_set_def Let_def split: sum.splits)
  show "cache_ok (u_local u')" 
    using ttl_set_ok [OF assms(2), of now now k v "Some (case ttl of Some t \<Rightarrow> t | None \<Rightarrow> dt)"] set u'
    by auto
  show "\<not> u_active u'" using assms(1) u' by (simp add: u_active_def)
  show "live later (u_local u') k = Some v"
    if "now \<le> later" "later < now + (case ttl of Some t \<Rightarrow> t | None \<Rightarrow> dt)"
    using live_set [OF assms(2) set that(1)] that(2) u' by simp
qed

lemma u_delete_local: "live now (u_local (u_delete R k u)) = (live now (u_local u))(k := None)"
  by (simp add: u_delete_def Let_def live_delete)

section \<open>Properties\<close>

text \<open>
  Without Redis, a value that has been set is what the next reads of its key return, at any
  time from the write until its time to live is over.
\<close>

theorem unified_read_your_write_local:
  assumes "\<not> u_active u" "cache_ok (u_local u)" "u_set R dt now k v ttl u = Inr u'"
    and "now \<le> later" "later < now + (case ttl of Some t \<Rightarrow> t | None \<Rightarrow> dt)"
  shows "fst (u_get R later k u') = v"
  using u_set_local [OF assms(1-3)] assms(4,5) by (simp add: u_get_local)

text \<open>A small Redis: the keys it holds, with no expiry, and commands that always answer.\<close>

definition map_redis :: "(string, pyval) py_dict cache_redis" where
  "map_redis =
     \<lparr>rd_get = (\<lambda>k r. (Some (d_get r k), r)),
      rd_mget = (\<lambda>ks r. (Some (map (d_get r) ks), r)),
      rd_setex = (\<lambda>k t v r. (Some (), d_set k v r)),
      rd_pipeline_setex = (\<lambda>kvs t r. (Some (), foldl (\<lambda>r (k, v). d_set k v r) r kvs)),
      rd_delete = (\<lambda>ks r. (Some (length (filter (\<lambda>k. k \<in> set (d_keys r)) ks)),
                              foldl (\<lambda>r k. d_del k r) r ks)),
      rd_keys = (\<lambda>p r. (Some (filter (\<lambda>k. fnmatch k p) (d_keys r)), r)),
      rd_flushdb = (\<lambda>r. (Some (), [])),
      rd_dbsize = (\<lambda>r. (Some (length r), r))\<rparr>"

lemma d_get_foldl_del: "d_get (foldl (\<lambda>r k. d_del k r) r ks) k' = (if k' \<in> set ks then None else d_get r k')"
  by (induction ks arbitrary: r) auto

lemma redis_kv_map_redis: "redis_kv map_redis d_get"
  by (auto simp: redis_kv_def map_redis_def fun_eq_iff d_get_foldl_del)

definition fresh_ucache :: "'r \<Rightarrow> bool \<Rightarrow> 'r ucache" where
  "fresh_ucache r up =
     u_init_redis up True True
       \<lparr>u_local = mk_ttl_cache 300 2, u_redis = r, u_client = False, u_connected = False,
        u_lua = False, u_metrics = metrics_init 0\<rparr>"

theorem unified_read_your_write_local_witness:
  "\<exists>u'. u_set map_redis 300 10 ''k'' (PInt 7) None (fresh_ucache [] False) = Inr u' \<and>
     fst (u_get map_redis 309 ''k'' u') = PInt 7"
proof -
  let ?u = "fresh_ucache [] False :: (string, pyval) py_dict ucache"
  have down: "\<not> u_active ?u" and ok: "cache_ok (u_local ?u)"
    by (simp_all add: fresh_ucache_def u_init_redis_def u_active_def cache_ok_mk)
  obtain u' where set: "u_set map_redis 300 10 ''k'' (PInt 7) None ?u = Inr u'"
    by (simp add: u_set_def local_set_def fresh_ucache_def u_init_redis_def u_active_def
        mk_ttl_cache_def ttl_set_def Let_def)
  from unified_read_your_write_local [OF down ok set, of 309] set show ?thesis by auto
qed

text \<open>
  With Redis answering, a read returns what the last successful write of the key stored, for
  every server that obeys the documented meaning of GET and SETEX; the local cache plays no part.
\<close>

theorem unified_read_your_write_redis:
  assumes "u_active u" "redis_kv R lk"
    and "rd_setex R k t v (u_redis u) = (Some (), r)" "rd_get R k r = (Some d, r')"
  shows "\<exists>u'. u_set R dt now k v (Some t) u = Inr u' \<and> fst (u_get R later k u') = v
           \<and> u_local u' = u_local u"
proof -
  let ?u = "u\<lparr>u_redis := r\<rparr>"
  have "d = Some v" using assms(2-4) unfolding redis_kv_def by (metis fun_upd_same)
  moreover have "u_active ?u" using assms(1) by (simp add: u_active_def)
  ultimately have "fst (u_get R later k ?u) = v"
    using assms(4) by (simp add: u_get_active)
  moreover have "u_set R dt now k v (Some t) u = Inr ?u"
    using assms(1,3) by (simp add: u_set_def Let_def)
  ultimately show ?thesis by auto
qed

theorem unified_read_your_write_redis_witness:
  "\<exists>u'. u_set map_redis 300 0 ''k'' (PInt 7) (Some 60) (fresh_ucache [] True) = Inr u' \<and>
     fst (u_get map_redis 1 ''k'' u') = PInt 7 \<and>
     u_local u' = u_local (fresh_ucache ([] :: (string, pyval) py_dict) True)"
proof -
  let ?u = "fresh_ucache [] True :: (string, pyval) py_dict ucache"
  have up: "u_active ?u" by (simp add: fresh_ucache_def u_init_redis_def u_active_def)
  have w: "rd_setex map_redis ''k'' 60 (PInt 7) (u_redis ?u) = (Some (), [(''k'', PInt 7)])"
    by (simp add: map_redis_def fresh_ucache_def u_init_redis_def)
  have g: "rd_get map_redis ''k'' [(''k'', PInt 7)] = (Some (Some (PInt 7)), [(''k'', PInt 7)])"
    by (simp add: map_redis_def)
  show ?thesis by (rule unified_read_your_write_redis [OF up redis_kv_map_redis w g])
qed

text \<open>
  A write that Redis refuses goes to the local cache only, while a read that Redis answers
  never looks there: the value is stored, \<^verbatim>\<open>set\<close> returns normally, and the next \<^verbatim>\<open>get\<close> is a miss
  although the entry is live.
\<close>

theorem unified_failed_write_is_lost:
  assumes "u_active u" "cache_ok (u_local u)"
    and "rd_setex R k t v (u_redis u) = (None, r)" "rd_get R k r = (Some None, r')" "0 < t"
  shows "\<exists>u'. u_set R dt now k v (Some t) u = Inr u' \<and> live now (u_local u') k = Some v
           \<and> fst (u_get R now k u') = PNone"
proof -
  obtain c where c: "ttl_set now now k v (Some t) (u_local u) = Inr c"
    using ttl_set_ok [OF assms(2)] by blast
  let ?u = "u\<lparr>u_redis := r, u_local := c\<rparr>"
  have "u_set R dt now k v (Some t) u = Inr ?u"
    using assms(1,3) c by (simp add: u_set_def local_set_def Let_def)
  moreover have "live now c k = Some v"
    using live_set [OF assms(2) c order_refl] assms(5) by simp
  moreover have "fst (u_get R now k ?u) = PNone"
    using assms(1,4) by (simp add: u_get_active u_active_def)
  ultimately show ?thesis by auto
qed

theorem unified_failed_write_is_lost_witness:
  "\<exists>u'. u_set (map_redis\<lparr>rd_setex := \<lambda>k t v r. (None, r)\<rparr>) 300 0 ''k'' (PInt 7) (Some 60)
           (fresh_ucache [] True) = Inr u' \<and> live 0 (u_local u') ''k'' = Some (PInt 7) \<and>
        fst (u_get (map_redis\<lparr>rd_setex := \<lambda>k t v r. (None, r)\<rparr>) 0 ''k'' u') = PNone"
  by (rule unified_failed_write_is_lost [where r = "[]" and r' = "[]"])
    (simp_all add: map_redis_def fresh_ucache_def u_init_redis_def u_active_def cache_ok_mk)

end
