(* ===== verification/Rate_Limiter.thy ===== *)
theory Rate_Limiter
  imports Errors
begin

text \<open>
  \<^verbatim>\<open>DistributedRateLimiter\<close> and \<^verbatim>\<open>rate_limit_guard\<close> of \<^verbatim>\<open>backend/rate_limiter.py\<close>: a sliding
  window kept in a Redis sorted set, or in a dictionary of timestamp lists when Redis is not
  configured, cannot be reached or raises. The Redis pipeline is a parameter that runs a list of
  commands and answers one number per command.
\<close>

datatype zset_cmd =
    ZRemRangeByScore string rat rat
  | ZAdd string string rat
  | ZCard string
  | Expire string rat

record limiter_settings =
  RATE_LIMIT_ENABLED :: bool
  RATE_LIMIT_PER_MINUTE :: int
  RL_REDIS_URL :: bool

text \<open>
  The world outside the limiter: \<open>rl_connect\<close> says whether connecting and pinging succeeds,
  \<open>rl_execute\<close> runs a pipeline (\<^const>\<open>None\<close> when it raises), \<open>rl_show\<close> prints a float.
\<close>

record 'r limiter_redis =
  rl_connect :: "'r \<Rightarrow> bool"
  rl_execute :: "zset_cmd list \<Rightarrow> 'r \<Rightarrow> nat list option \<times> 'r"
  rl_show :: "rat \<Rightarrow> string"

record 'r limiter =
  rl_local :: "(string, rat list) py_dict"
  rl_client :: bool
  rl_redis :: 'r

definition mk_limiter :: "'r \<Rightarrow> 'r limiter" where
  "mk_limiter r = \<lparr>rl_local = [], rl_client = False, rl_redis = r\<rparr>"

definition get_redis :: "limiter_settings \<Rightarrow> 'r limiter_redis \<Rightarrow> 'r limiter \<Rightarrow> bool \<times> 'r limiter" where
  "get_redis cfg R s =
     (if rl_client s then (True, s)
      else if RL_REDIS_URL cfg
      then (if rl_connect R (rl_redis s) then (True, s\<lparr>rl_client := True\<rparr>)
            else (False, s\<lparr>rl_client := False\<rparr>))
      else (False, s))"

definition is_redis_active :: "limiter_settings \<Rightarrow> 'r limiter_redis \<Rightarrow> 'r limiter \<Rightarrow> bool \<times> 'r limiter" where
  "is_redis_active cfg R s = get_redis cfg R s"

text \<open>The second half of \<^verbatim>\<open>check_rate_limit\<close>, under the lock.\<close>

definition check_local :: "string \<Rightarrow> int \<Rightarrow> rat \<Rightarrow> rat \<Rightarrow> 'r limiter \<Rightarrow> bool \<times> 'r limiter" where
  "check_local ident limit cutoff now s =
     (let timestamps = (case d_get (rl_local s) ident of None \<Rightarrow> [] | Some ts \<Rightarrow> ts);
          valid = filter (\<lambda>ts. cutoff < ts) timestamps
      in if int (length valid) \<ge> limit
         then (False, s\<lparr>rl_local := d_set ident valid (rl_local s)\<rparr>)
         else (True, s\<lparr>rl_local := d_set ident (valid @ [now]) (rl_local s)\<rparr>))"

definition window_pipeline :: "'r limiter_redis \<Rightarrow> string \<Rightarrow> rat \<Rightarrow> rat \<Rightarrow> rat \<Rightarrow> zset_cmd list" where
  "window_pipeline R key cutoff now window =
     [ZRemRangeByScore key 0 cutoff, ZAdd key (rl_show R now) now, ZCard key, Expire key (window + 5)]"

definition check_rate_limit ::
  "limiter_settings \<Rightarrow> 'r limiter_redis \<Rightarrow> rat \<Rightarrow> string \<Rightarrow> int option \<Rightarrow> rat \<Rightarrow> 'r limiter
     \<Rightarrow> bool \<times> 'r limiter" where
  "check_rate_limit cfg R now ident max_requests window s =
     (if \<not> RATE_LIMIT_ENABLED cfg then (True, s)
      else
        let limit = (case max_requests of Some n \<Rightarrow> n | None \<Rightarrow> RATE_LIMIT_PER_MINUTE cfg);
            cutoff = now - window;
            (up, s1) = get_redis cfg R s
        in if up
           then (case rl_execute R
                        (window_pipeline R (''ratelimit:'' @ ident) cutoff now window) (rl_redis s1) of
                   (Some results, r) \<Rightarrow>
                     if length results > 2
                     then (int (results ! 2) \<le> limit, s1\<lparr>rl_redis := r\<rparr>)
                     else check_local ident limit cutoff now (s1\<lparr>rl_redis := r, rl_client := False\<rparr>)
                 | (None, r) \<Rightarrow>
                     check_local ident limit cutoff now (s1\<lparr>rl_redis := r, rl_client := False\<rparr>))
           else check_local ident limit cutoff now s1)"

text \<open>
  \<^verbatim>\<open>rate_limit_guard\<close>: the identifier is the authorization header, or the client's address when
  the header is missing or empty; the window is the default of 60 seconds.
\<close>

definition rate_limit_guard ::
  "limiter_settings \<Rightarrow> 'r limiter_redis \<Rightarrow> rat \<Rightarrow> string option \<Rightarrow> string option \<Rightarrow> int option
     \<Rightarrow> 'r limiter \<Rightarrow> (app_exc + unit) \<times> 'r limiter" where
  "rate_limit_guard cfg R now client_host auth_header max_requests s =
     (let client_ip = (case client_host of Some h \<Rightarrow> h | None \<Rightarrow> ''unknown'');
          ident = or_else auth_header client_ip;
          (ok, s1) = check_rate_limit cfg R now ident max_requests 60 s
      in if \<not> ok
         then (Inl \<lparr>e_kind = SEOAgentException 429,
                    e_message = ''Rate limit exceeded. Please try again later.'',
                    e_details = [(''retry_after_seconds'', PInt 60)]\<rparr>, s1)
         else (Inr (), s1))"

section \<open>The sliding window, as a specification\<close>

text \<open>
  A log of the requests handled so far: who, when, and whether it was let through. The
  specification counts the accepted requests of a client in a window that ends at a time.
\<close>

type_synonym request_log = "(string \<times> rat \<times> bool) list"

definition accepted :: "request_log \<Rightarrow> string \<Rightarrow> rat list" where
  "accepted lg who = map (\<lambda>(i, t, ok). t) (filter (\<lambda>(i, t, ok). i = who \<and> ok) lg)"

definition in_window :: "rat \<Rightarrow> rat \<Rightarrow> rat list \<Rightarrow> nat" where
  "in_window window t ts = length (filter (\<lambda>s. t - window < s \<and> s \<le> t) ts)"

lemma accepted_snoc [simp]:
  "accepted (lg @ [(i, t, ok)]) who = accepted lg who @ (if i = who \<and> ok then [t] else [])"
  by (simp add: accepted_def)

lemma in_window_snoc [simp]:
  "in_window w t (ts @ [s]) = in_window w t ts + (if t - w < s \<and> s \<le> t then 1 else 0)"
  by (simp add: in_window_def)

text \<open>The handler of one request, with the log kept on the side.\<close>

definition log_step ::
  "limiter_settings \<Rightarrow> 'r limiter_redis \<Rightarrow> int \<Rightarrow> rat \<Rightarrow> 'r limiter \<times> request_log
     \<Rightarrow> string \<times> rat \<Rightarrow> 'r limiter \<times> request_log" where
  "log_step cfg R limit window st req =
     (case st of (s, lg) \<Rightarrow> case req of (who, now) \<Rightarrow>
        case check_rate_limit cfg R now who (Some limit) window s of
          (ok, s') \<Rightarrow> (s', lg @ [(who, now, ok)]))"

definition local_mode :: "limiter_settings \<Rightarrow> 'r limiter \<Rightarrow> bool" where
  "local_mode cfg s \<longleftrightarrow> RATE_LIMIT_ENABLED cfg \<and> \<not> RL_REDIS_URL cfg \<and> \<not> rl_client s"

lemma check_local_mode:
  "local_mode cfg s \<Longrightarrow> check_rate_limit cfg R now who (Some limit) window s =
     check_local who limit (now - window) now s"
  by (simp add: local_mode_def check_rate_limit_def get_redis_def)

lemma local_mode_check: "local_mode cfg (snd (check_local who limit cutoff now s)) = local_mode cfg s"
  by (simp add: local_mode_def check_local_def Let_def)

text \<open>
  The dictionary holds, for every client, the accepted times that are younger than a bound no
  later than the last cutoff.
\<close>

definition stored :: "'r limiter \<Rightarrow> string \<Rightarrow> rat list" where
  "stored s who = (case d_get (rl_local s) who of None \<Rightarrow> [] | Some ts \<Rightarrow> ts)"

definition window_inv :: "limiter_settings \<Rightarrow> int \<Rightarrow> rat \<Rightarrow> rat \<Rightarrow> 'r limiter \<times> request_log \<Rightarrow> bool" where
  "window_inv cfg limit window latest st =
     (case st of (s, lg) \<Rightarrow> local_mode cfg s \<and>
        (\<forall>who. \<exists>b \<le> latest - window. stored s who = filter (\<lambda>t. b < t) (accepted lg who)) \<and>
        (\<forall>who. \<forall>t \<in> set (accepted lg who). t \<le> latest) \<and>
        (\<forall>who t. int (in_window window t (accepted lg who)) \<le> max 0 limit))"

lemma stored_check_local:
  "stored (snd (check_local ident limit cutoff now s)) who =
     (if who = ident
      then filter (\<lambda>t. cutoff < t) (stored s who)
           @ (if fst (check_local ident limit cutoff now s) then [now] else [])
      else stored s who)"
  by (simp add: check_local_def stored_def Let_def)

lemma fst_check_local:
  "fst (check_local ident limit cutoff now s) \<longleftrightarrow>
     int (length (filter (\<lambda>t. cutoff < t) (stored s ident))) < limit"
  by (auto simp: check_local_def stored_def Let_def)

lemma window_invD:
  assumes "window_inv cfg limit window latest (s, lg)"
  shows "\<exists>b \<le> latest - window. stored s who = filter (\<lambda>t. b < t) (accepted lg who)"
    and "t \<in> set (accepted lg who) \<Longrightarrow> t \<le> latest"
    and "int (in_window window t (accepted lg who)) \<le> max 0 limit" and "local_mode cfg s"
  using assms by (auto simp: window_inv_def)

lemma recent_stored:
  assumes "window_inv cfg limit window latest (s, lg)" "latest \<le> now"
  shows "filter (\<lambda>t. now - window < t) (stored s who) =
           filter (\<lambda>t. now - window < t) (accepted lg who)"
proof -
  from assms(1) obtain b where "b \<le> latest - window"
    and st: "stored s who = filter (\<lambda>t. b < t) (accepted lg who)"
    using window_invD(1) by blast
  with assms(2) have "b \<le> now - window" by simp
  then show ?thesis by (auto simp: st intro!: filter_cong)
qed

lemma recent_is_window:
  assumes "window_inv cfg limit window latest (s, lg)" "latest \<le> now"
  shows "length (filter (\<lambda>t. now - window < t) (accepted lg who)) =
           in_window window now (accepted lg who)"
  using assms by (fastforce simp: window_inv_def in_window_def intro!: arg_cong [where f = length] filter_cong)

text \<open>A request is let through exactly when fewer than \<open>limit\<close> were accepted in the window.\<close>

lemma accepts_iff:
  assumes "window_inv cfg limit window latest (s, lg)" "latest \<le> now"
  shows "fst (check_local who limit (now - window) now s) \<longleftrightarrow>
           int (in_window window now (accepted lg who)) < limit"
  by (simp add: fst_check_local recent_stored [OF assms] recent_is_window [OF assms])

lemma window_inv_step:
  assumes inv: "window_inv cfg limit window latest (s, lg)" and now: "latest \<le> now" and w: "0 < window"
  shows "window_inv cfg limit window now (log_step cfg R limit window (s, lg) (who, now))"
proof -
  define ok where "ok = fst (check_local who limit (now - window) now s)"
  define s' where "s' = snd (check_local who limit (now - window) now s)"
  have step: "log_step cfg R limit window (s, lg) (who, now) = (s', lg @ [(who, now, ok)])"
    using window_invD(4) [OF inv]
    by (simp add: log_step_def ok_def s'_def check_local_mode split: prod.split)
  have st: "\<exists>b \<le> now - window. stored s' i = filter (\<lambda>t. b < t) (accepted (lg @ [(who, now, ok)]) i)"
    for i
  proof (cases "i = who")
    case True
    from w have "now - window < now" by simp
    then show ?thesis
      using recent_stored [OF inv now] True
      by (intro exI [of _ "now - window"])
        (auto simp: s'_def stored_check_local ok_def [symmetric])
  next
    case False
    from inv obtain b where "b \<le> latest - window" "stored s i = filter (\<lambda>t. b < t) (accepted lg i)"
      using window_invD(1) by blast
    with now False show ?thesis
      by (intro exI [of _ b]) (auto simp: s'_def stored_check_local)
  qed
  have old: "t \<le> latest" if "t \<in> set (accepted lg i)" for t i
    using inv that unfolding window_inv_def by auto
  have cnt: "int (in_window window t (accepted (lg @ [(who, now, ok)]) i)) \<le> max 0 limit" for i t
  proof (cases "i = who \<and> ok \<and> t - window < now \<and> now \<le> t")
    case True
    have "in_window window t (accepted lg who) \<le> in_window window now (accepted lg who)"
      unfolding in_window_def using True old now
      by (intro length_filter_mono) force
    moreover have "int (in_window window now (accepted lg who)) < limit"
      using accepts_iff [OF inv now, of who] True by (simp add: ok_def)
    ultimately show ?thesis using True by simp
  next
    case False
    have "int (in_window window t (accepted lg i)) \<le> max 0 limit"
      using inv unfolding window_inv_def by auto
    with False show ?thesis by (auto simp: in_window_def)
  qed
  show ?thesis
    unfolding step window_inv_def prod.case
    using st cnt old now window_invD(4) [OF inv]
    by (fastforce simp: s'_def local_mode_check split: if_splits)
qed

lemma window_inv_init:
  "RATE_LIMIT_ENABLED cfg \<Longrightarrow> \<not> RL_REDIS_URL cfg \<Longrightarrow>
     window_inv cfg limit window latest (mk_limiter r, [])"
  by (auto simp: local_mode_def window_inv_def stored_def mk_limiter_def accepted_def in_window_def
      intro: exI [of _ "latest - window"])

lemma window_inv_run:
  "window_inv cfg limit window latest st \<Longrightarrow> sorted (latest # map snd reqs) \<Longrightarrow> 0 < window \<Longrightarrow>
     \<exists>now. window_inv cfg limit window now (foldl (log_step cfg R limit window) st reqs)"
proof (induction reqs arbitrary: st latest)
  case Nil
  then show ?case by auto
next
  case (Cons req reqs)
  obtain s lg who now where [simp]: "st = (s, lg)" "req = (who, now)"
    by (cases st; cases req)
  have "window_inv cfg limit window now (log_step cfg R limit window st req)"
    using Cons.prems window_inv_step by auto
  moreover have "sorted (now # map snd reqs)" using Cons.prems by auto
  ultimately show ?case using Cons.IH Cons.prems(3) by auto
qed

lemma window_inv_fresh_run:
  assumes "RATE_LIMIT_ENABLED cfg" "\<not> RL_REDIS_URL cfg" "0 < window" "sorted (map snd reqs)"
  shows "\<exists>now. window_inv cfg limit window now
           (foldl (log_step cfg R limit window) (mk_limiter r, []) reqs)
           \<and> (reqs \<noteq> [] \<longrightarrow> now = snd (last reqs))"
proof -
  have "window_inv cfg limit window (snd (last reqs))
      (foldl (log_step cfg R limit window) (mk_limiter r, []) reqs)" if "reqs \<noteq> []"
    using that assms(4)
  proof (induction reqs rule: rev_nonempty_induct)
    case (single x)
    then show ?case
      using window_inv_step [OF window_inv_init [OF assms(1,2)] order_refl assms(3)]
      by (cases x) auto
  next
    case (snoc x xs)
    obtain who now where x: "x = (who, now)" by (cases x)
    obtain s lg where st: "foldl (log_step cfg R limit window) (mk_limiter r, []) xs = (s, lg)"
      by (cases "foldl (log_step cfg R limit window) (mk_limiter r, []) xs")
    from snoc.prems have "sorted (map snd xs)" "snd (last xs) \<le> now"
      using snoc.hyps by (auto simp: x sorted_append)
    with snoc.IH window_inv_step [OF _ _ assms(3)] show ?case by (auto simp: st x)
  qed
  then show ?thesis
    using window_inv_init [OF assms(1,2), of limit window 0 r] by (cases "reqs = []") auto
qed

section \<open>Properties\<close>

text \<open>
  C24: When no Redis is configured and time does not go back, however the requests of different clients
  interleave, no window of the given length ever contains more than \<open>limit\<close> accepted requests of one
  client. (With Redis it can: the member of the set is the printed time, so that requests at one time
  count once.)
\<close>

theorem rate_window_bound:
  assumes "RATE_LIMIT_ENABLED cfg" "\<not> RL_REDIS_URL cfg" "0 < window" "sorted (map snd reqs)"
  shows "int (in_window window t (accepted
           (snd (foldl (log_step cfg R limit window) (mk_limiter r, []) reqs)) who)) \<le> max 0 limit"
proof -
  obtain s lg where st: "foldl (log_step cfg R limit window) (mk_limiter r, []) reqs = (s, lg)"
    by (cases "foldl (log_step cfg R limit window) (mk_limiter r, []) reqs")
  with window_inv_fresh_run [OF assms, of limit R r] show ?thesis
    by (auto dest: window_invD(3))
qed

definition no_redis :: "unit limiter_redis" where
  "no_redis = \<lparr>rl_connect = (\<lambda>_. False), rl_execute = (\<lambda>_ r. (None, r)), rl_show = (\<lambda>_. [])\<rparr>"

definition local_cfg :: limiter_settings where
  "local_cfg = \<lparr>RATE_LIMIT_ENABLED = True, RATE_LIMIT_PER_MINUTE = 60, RL_REDIS_URL = False\<rparr>"

theorem rate_window_bound_witness:
  "int (in_window 60 2 (accepted (snd (foldl (log_step local_cfg no_redis 1 60) (mk_limiter (), [])
      [(''a'', 0), (''a'', 1), (''b'', 2)])) ''a'')) \<le> 1"
  using rate_window_bound [of local_cfg 60 "[(''a'', 0), (''a'', 1), (''b'', 2)]" 2 no_redis 1 "()" "''a''"]
  by (simp add: local_cfg_def)

text \<open>
  The verdict is exact: after any such history the next request is accepted if and only if
  fewer than \<open>limit\<close> requests of the same client were accepted in the window that ends now; a
  rejected request costs nothing, and other clients do not count.
\<close>

theorem rate_verdict_exact:
  assumes "RATE_LIMIT_ENABLED cfg" "\<not> RL_REDIS_URL cfg" "0 < window"
    and "sorted (map snd (reqs @ [(who, now)]))"
    and st_def: "st = foldl (log_step cfg R limit window) (mk_limiter r, []) reqs"
  shows "fst (check_rate_limit cfg R now who (Some limit) window (fst st)) \<longleftrightarrow>
           int (in_window window now (accepted (snd st) who)) < limit"
proof (cases "reqs = []")
  case True
  have "window_inv cfg limit window now (mk_limiter r, [])"
    by (rule window_inv_init [OF assms(1,2)])
  from accepts_iff [OF this order_refl, of who] window_invD(4) [OF this] True show ?thesis
    by (simp add: st_def check_local_mode)
next
  case False
  obtain s lg where st: "st = (s, lg)" by (cases st)
  from assms(4) False have "sorted (map snd reqs)" "snd (last reqs) \<le> now"
    by (auto simp: sorted_append)
  with window_inv_fresh_run [OF assms(1-3), of reqs limit R r] False obtain l where
    inv: "window_inv cfg limit window l (s, lg)" and l: "l \<le> now"
    by (auto simp flip: st_def simp: st)
  from accepts_iff [OF inv l, of who] window_invD(4) [OF inv] show ?thesis
    by (simp add: st check_local_mode)
qed

theorem rate_verdict_exact_witness:
  "\<not> fst (check_rate_limit local_cfg no_redis 5 ''a'' (Some 1) 60
     (fst (foldl (log_step local_cfg no_redis 1 60) (mk_limiter (), []) [(''a'', 0)])))"
  using rate_verdict_exact [of local_cfg 60 "[(''a'', 0)]" "''a''" 5 _ no_redis 1 "()", OF _ _ _ _ refl]
  by (simp add: local_cfg_def log_step_def check_rate_limit_def get_redis_def check_local_def
      mk_limiter_def accepted_def in_window_def)

text \<open>
  What Redis documents of the four commands, read through the members of a sorted set: members
  with a score up to the cutoff go, the new member is added or its score replaced, the third
  answer is the cardinality.
\<close>

definition zset_law ::
  "'r limiter_redis \<Rightarrow> ('r \<Rightarrow> string \<Rightarrow> (string \<times> rat) list) \<Rightarrow> bool" where
  "zset_law R members \<longleftrightarrow>
     (\<forall>key cutoff now window r results r'.
        rl_execute R (window_pipeline R key cutoff now window) r = (Some results, r') \<longrightarrow>
          length results = 4 \<and>
          members r' key = AList.update (rl_show R now) now
             (filter (\<lambda>(m, s). \<not> (0 \<le> s \<and> s \<le> cutoff)) (members r key)) \<and>
          results ! 2 = length (members r' key))"

text \<open>
  With Redis the set records the attempt before it is judged, so a rejected request counts
  like an accepted one: whatever the verdict, the set afterwards contains the attempt, and the
  request is accepted only if the number of attempts left in the window is at most the limit.
  The local window forgets rejected requests; this one keeps a client that never pauses locked out.
\<close>

theorem rate_redis_counts_rejections:
  assumes "RATE_LIMIT_ENABLED cfg" "rl_client s" "zset_law R members"
    and "rl_execute R (window_pipeline R (''ratelimit:'' @ who) (now - window) now window) (rl_redis s)
           = (Some results, r')"
  shows "\<exists>s'. check_rate_limit cfg R now who (Some limit) window s =
             (int (length (members r' (''ratelimit:'' @ who))) \<le> limit, s') \<and>
           d_get (members (rl_redis s') (''ratelimit:'' @ who)) (rl_show R now) = Some now"
proof -
  have law: "length results = 4" "results ! 2 = length (members r' (''ratelimit:'' @ who))"
    "d_get (members r' (''ratelimit:'' @ who)) (rl_show R now) = Some now"
    using assms(3,4) unfolding zset_law_def by (fastforce simp del: append.simps)+
  then show ?thesis
    using assms(1,2,4) by (simp add: check_rate_limit_def get_redis_def)
qed

definition zset_redis :: "(string, (string \<times> rat) list) py_dict limiter_redis" where
  "zset_redis =
     \<lparr>rl_connect = (\<lambda>_. True),
      rl_execute = (\<lambda>cmds r. case cmds of
          [ZRemRangeByScore key lo hi, ZAdd _ m sc, ZCard _, Expire _ _] \<Rightarrow>
            let old = (case d_get r key of None \<Rightarrow> [] | Some z \<Rightarrow> z);
                z = AList.update m sc (filter (\<lambda>(m, s). \<not> (lo \<le> s \<and> s \<le> hi)) old)
            in (Some [length old, 1, length z, 1], d_set key z r)
        | _ \<Rightarrow> (None, r)),
      rl_show = (\<lambda>t. int_str (floor t))\<rparr>"

lemma zset_law_zset_redis:
  "zset_law zset_redis (\<lambda>r key. case d_get r key of None \<Rightarrow> [] | Some z \<Rightarrow> z)"
  by (auto simp: zset_law_def zset_redis_def window_pipeline_def Let_def)

theorem rate_redis_counts_rejections_witness:
  "\<exists>s'. check_rate_limit local_cfg zset_redis 7 ''a'' (Some 0) 60
        \<lparr>rl_local = [], rl_client = True, rl_redis = []\<rparr> = (False, s') \<and>
      rl_redis s' = [(''ratelimit:a'', [(int_str 7, 7)])]"
proof -
  let ?s = "\<lparr>rl_local = [], rl_client = True, rl_redis = []\<rparr>
              :: (string, (string \<times> rat) list) py_dict limiter"
  let ?mem = "\<lambda>r key. case d_get r key of None \<Rightarrow> [] | Some z \<Rightarrow> z"
  have ex: "rl_execute zset_redis (window_pipeline zset_redis (''ratelimit:'' @ ''a'') (7 - 60) 7 60)
      (rl_redis ?s) = (Some [0, 1, 1, 1], [(''ratelimit:a'', [(int_str 7, 7)])])"
    by (simp add: zset_redis_def window_pipeline_def)
  have en: "RATE_LIMIT_ENABLED local_cfg" "rl_client ?s" by (simp_all add: local_cfg_def)
  from rate_redis_counts_rejections [OF en zset_law_zset_redis ex, of 0] ex show ?thesis
    by (auto simp: check_rate_limit_def get_redis_def local_cfg_def)
qed

text \<open>Two requests at one time count once in Redis: with a limit of one both are accepted.\<close>

lemma equal_times_count_once:
  "accepted (snd (foldl (log_step local_cfg zset_redis 1 60)
     (\<lparr>rl_local = [], rl_client = True, rl_redis = []\<rparr>, []) [(''a'', 7), (''a'', 7)])) ''a'' = [7, 7]"
  by (simp add: log_step_def check_rate_limit_def get_redis_def local_cfg_def zset_redis_def window_pipeline_def
      accepted_def Let_def)

end
