(* ===== verification/Store.thy ===== *)
theory Store
  imports Errors
begin

text \<open>
  The database of \<^verbatim>\<open>backend/database\<close> as the CRUD functions see it: a table is a list of rows
  with their integer primary keys, in the order of insertion, and the next key of its sequence.
  A query returns rows in that order unless it asks for another one. The locale \<open>orm_table\<close>
  states what the operations promise each other, \<open>owned_table\<close> what a column with the owning
  user adds: a lookup and a deletion restricted to one owner, the tenant isolation of the code.
\<close>

record 'a table =
  t_rows :: "(int \<times> 'a) list"
  t_next :: int

definition t_empty :: "'a table" where
  "t_empty = \<lparr>t_rows = [], t_next = 1\<rparr>"

definition t_get :: "'a table \<Rightarrow> int \<Rightarrow> 'a option" where
  "t_get t i = map_of (t_rows t) i"

text \<open>
  \<^verbatim>\<open>db.add(row); db.commit()\<close>: the sequence gives the key, as in PostgreSQL (SQLite may give the
  key of a deleted last row again).
\<close>

definition t_insert :: "'a \<Rightarrow> 'a table \<Rightarrow> int \<times> 'a table" where
  "t_insert r t = (t_next t, \<lparr>t_rows = t_rows t @ [(t_next t, r)], t_next = t_next t + 1\<rparr>)"

text \<open>An \<^verbatim>\<open>UPDATE\<close> of one row; nothing happens when the row is gone.\<close>

definition t_put :: "int \<Rightarrow> 'a \<Rightarrow> 'a table \<Rightarrow> 'a table" where
  "t_put i r t = t\<lparr>t_rows := map (\<lambda>(k, v). (k, if k = i then r else v)) (t_rows t)\<rparr>"

definition t_delete :: "int \<Rightarrow> 'a table \<Rightarrow> 'a table" where
  "t_delete i t = t\<lparr>t_rows := filter (\<lambda>(k, v). k \<noteq> i) (t_rows t)\<rparr>"

definition t_where :: "(int \<Rightarrow> 'a \<Rightarrow> bool) \<Rightarrow> 'a table \<Rightarrow> (int \<times> 'a) list" where
  "t_where P t = filter (\<lambda>(k, v). P k v) (t_rows t)"

text \<open>\<^verbatim>\<open>.first()\<close> of a query.\<close>

definition t_first :: "(int \<Rightarrow> 'a \<Rightarrow> bool) \<Rightarrow> 'a table \<Rightarrow> (int \<times> 'a) option" where
  "t_first P t = List.find (\<lambda>(k, v). P k v) (t_rows t)"

text \<open>An \<^verbatim>\<open>UPDATE\<close> or a loop that changes every row that matches.\<close>

definition t_update_where :: "(int \<Rightarrow> 'a \<Rightarrow> bool) \<Rightarrow> ('a \<Rightarrow> 'a) \<Rightarrow> 'a table \<Rightarrow> 'a table" where
  "t_update_where P f t = t\<lparr>t_rows := map (\<lambda>(k, v). (k, if P k v then f v else v)) (t_rows t)\<rparr>"

definition t_delete_where :: "(int \<Rightarrow> 'a \<Rightarrow> bool) \<Rightarrow> 'a table \<Rightarrow> 'a table" where
  "t_delete_where P t = t\<lparr>t_rows := filter (\<lambda>(k, v). \<not> P k v) (t_rows t)\<rparr>"

definition t_ok :: "'a table \<Rightarrow> bool" where
  "t_ok t \<longleftrightarrow> distinct (map fst (t_rows t)) \<and> (\<forall>k\<in>set (map fst (t_rows t)). k < t_next t)"

section \<open>Laws\<close>

lemma map_of_map_val: "map_of (map (\<lambda>(k, v). (k, f k v)) xs) i = map_option (f i) (map_of xs i)"
  by (induction xs) auto

lemma map_fst_map_val: "map fst (map (\<lambda>(k, v). (k, f k v)) xs) = map fst xs"
  by (induction xs) auto

lemma t_ok_empty [simp]: "t_ok t_empty"
  by (simp add: t_ok_def t_empty_def)

lemma t_get_empty [simp]: "t_get t_empty i = None"
  by (simp add: t_get_def t_empty_def)

lemma t_get_fresh: "t_ok t \<Longrightarrow> t_next t \<le> i \<Longrightarrow> t_get t i = None"
  by (force simp: t_ok_def t_get_def map_of_eq_None_iff)

lemma t_ok_insert: "t_ok t \<Longrightarrow> t_ok (snd (t_insert r t))"
  by (force simp: t_ok_def t_insert_def)

lemma t_get_insert: "t_ok t \<Longrightarrow> t_get (snd (t_insert r t)) i = (if i = t_next t then Some r else t_get t i)"
  using t_get_fresh [of t "t_next t"]
  by (auto simp: t_get_def t_insert_def map_add_def split: option.splits)

lemma t_ok_put [simp]: "t_ok (t_put i r t) = t_ok t"
  unfolding t_ok_def t_put_def by (simp add: map_fst_map_val del: map_map set_map)

lemma t_get_put [simp]:
  "t_get (t_put i r t) j = (if j = i \<and> t_get t i \<noteq> None then Some r else t_get t j)"
proof -
  have "t_get (t_put i r t) j = map_option (\<lambda>v. if j = i then r else v) (t_get t j)"
    by (simp add: t_get_def t_put_def map_of_map_val)
  then show ?thesis by (cases "j = i") (auto simp: option.map_ident)
qed

lemma t_ok_delete: "t_ok t \<Longrightarrow> t_ok (t_delete i t)"
  by (auto simp: t_ok_def t_delete_def distinct_map inj_on_def)

lemma t_get_delete [simp]: "t_get (t_delete i t) j = (if j = i then None else t_get t j)"
proof -
  have "map_of (filter (\<lambda>(k, v). k \<noteq> i) xs) j = (if j = i then None else map_of xs j)"
    for xs :: "(int \<times> 'a) list"
    by (induction xs) auto
  then show ?thesis by (simp add: t_get_def t_delete_def)
qed

lemma t_ok_delete_where [simp]: "t_ok t \<Longrightarrow> t_ok (t_delete_where P t)"
  by (auto simp: t_ok_def t_delete_where_def distinct_map inj_on_def)

lemma t_next_delete_where [simp]: "t_next (t_delete_where P t) = t_next t"
  by (simp add: t_delete_where_def)

lemma t_next_put [simp]: "t_next (t_put i r t) = t_next t"
  by (simp add: t_put_def)

lemma t_next_delete [simp]: "t_next (t_delete i t) = t_next t"
  by (simp add: t_delete_def)

lemma t_get_delete_where [simp]:
  assumes "t_ok t"
  shows "t_get (t_delete_where P t) i =
    (case t_get t i of None \<Rightarrow> None | Some v \<Rightarrow> if P i v then None else Some v)"
proof -
  have "d_wf (t_rows t)" using assms by (simp add: t_ok_def d_wf_def)
  from d_get_filter [OF this, of "\<lambda>(k, v). \<not> P k v" i] show ?thesis
    by (simp add: t_get_def t_delete_where_def split: option.split)
qed

lemma t_ok_update_where [simp]: "t_ok (t_update_where P f t) = t_ok t"
  unfolding t_ok_def t_update_where_def by (simp add: map_fst_map_val del: map_map set_map)

lemma t_get_update_where [simp]:
  "t_get (t_update_where P f t) i = map_option (\<lambda>v. if P i v then f v else v) (t_get t i)"
  by (simp add: t_get_def t_update_where_def map_of_map_val)

lemma t_where_iff: "t_ok t \<Longrightarrow> (i, r) \<in> set (t_where P t) \<longleftrightarrow> t_get t i = Some r \<and> P i r"
  by (auto simp: t_ok_def t_where_def t_get_def)

lemma t_first_Some: "t_ok t \<Longrightarrow> t_first P t = Some (i, r) \<Longrightarrow> t_get t i = Some r \<and> P i r"
  by (auto simp: t_first_def t_get_def t_ok_def find_Some_iff map_of_eq_Some_iff in_set_conv_nth)

lemma t_first_None: "t_ok t \<Longrightarrow> t_first P t = None \<longleftrightarrow> (\<forall>i r. t_get t i = Some r \<longrightarrow> \<not> P i r)"
  by (auto simp: t_first_def t_get_def t_ok_def find_None_iff map_of_eq_Some_iff)

text \<open>A lookup by primary key and a further condition.\<close>

lemma t_first_key:
  assumes "t_ok t"
  shows "t_first (\<lambda>k r. k = i \<and> P r) t =
    (case t_get t i of None \<Rightarrow> None | Some r \<Rightarrow> if P r then Some (i, r) else None)"
proof (cases "t_first (\<lambda>k r. k = i \<and> P r) t")
  case None
  then show ?thesis using t_first_None [OF assms, of "\<lambda>k r. k = i \<and> P r"]
    by (auto split: option.splits)
next
  case (Some kr)
  obtain k r where kr: "kr = (k, r)" by (cases kr)
  from t_first_Some [OF assms Some [unfolded kr]] Some kr show ?thesis by auto
qed

section \<open>Tables with a unique key\<close>

text \<open>
  A unique index: no two rows have the same key, so a query for a key finds the one row that has
  it. The operations act on the query as they would on a map from keys.
\<close>

definition t_unique :: "('a \<Rightarrow> 'k) \<Rightarrow> 'a table \<Rightarrow> bool" where
  "t_unique k t \<longleftrightarrow> t_ok t \<and>
     (\<forall>i j r s. t_get t i = Some r \<longrightarrow> t_get t j = Some s \<longrightarrow> k r = k s \<longrightarrow> i = j)"

definition t_find :: "('a \<Rightarrow> 'k) \<Rightarrow> 'k \<Rightarrow> 'a table \<Rightarrow> (int \<times> 'a) option" where
  "t_find k x t = t_first (\<lambda>i r. k r = x) t"

lemma t_unique_ok: "t_unique k t \<Longrightarrow> t_ok t"
  by (simp add: t_unique_def)

lemma t_find_iff:
  assumes "t_unique k t"
  shows "t_find k x t = Some (i, r) \<longleftrightarrow> t_get t i = Some r \<and> k r = x"
proof
  assume "t_find k x t = Some (i, r)"
  then show "t_get t i = Some r \<and> k r = x"
    using t_first_Some [OF t_unique_ok [OF assms], of "\<lambda>i r. k r = x"] by (simp add: t_find_def)
next
  assume row: "t_get t i = Some r \<and> k r = x"
  then obtain j s where js: "t_first (\<lambda>i r. k r = x) t = Some (j, s)"
    using t_first_None [OF t_unique_ok [OF assms], of "\<lambda>i r. k r = x"] by fastforce
  then have "t_get t j = Some s \<and> k s = x" by (rule t_first_Some [OF t_unique_ok [OF assms]])
  with row assms have "j = i" by (auto simp: t_unique_def)
  with js row \<open>t_get t j = Some s \<and> k s = x\<close> show "t_find k x t = Some (i, r)"
    by (simp add: t_find_def)
qed

lemma t_find_None: "t_ok t \<Longrightarrow> t_find k x t = None \<longleftrightarrow> (\<forall>i r. t_get t i = Some r \<longrightarrow> k r \<noteq> x)"
  unfolding t_find_def by (rule t_first_None)

lemma t_find_eqI:
  assumes "t_unique k t" and "t_unique k t'"
    and "\<And>i r. k r = x \<Longrightarrow> t_get t' i = Some r \<longleftrightarrow> t_get t i = Some r"
  shows "t_find k x t' = t_find k x t"
proof (cases "t_find k x t")
  case None
  then have "\<forall>i r. t_get t' i = Some r \<longrightarrow> k r \<noteq> x"
    using assms(3) by (simp add: t_find_None t_unique_ok [OF assms(1)]) blast
  then show ?thesis using None by (simp add: t_find_None t_unique_ok [OF assms(2)])
next
  case (Some ir)
  obtain i r where ir: "ir = (i, r)" by (cases ir)
  then have "t_get t i = Some r" "k r = x" using Some by (simp_all add: t_find_iff assms(1))
  with assms(3) have "t_find k x t' = Some (i, r)" by (simp add: t_find_iff assms(2))
  with Some ir show ?thesis by simp
qed

lemma t_unique_empty [simp]: "t_unique k t_empty"
  by (simp add: t_unique_def)

lemma t_unique_insert:
  assumes "t_unique k t" and "t_find k (k r) t = None"
  shows "t_unique k (snd (t_insert r t))"
    and "t_find k x (snd (t_insert r t)) = (if x = k r then Some (t_next t, r) else t_find k x t)"
proof -
  note ok = t_unique_ok [OF assms(1)]
  have fresh: "\<forall>i s. t_get t i = Some s \<longrightarrow> k s \<noteq> k r" using assms(2) by (simp add: t_find_None ok)
  show u: "t_unique k (snd (t_insert r t))"
    using assms(1) fresh unfolding t_unique_def
    by (simp add: t_ok_insert ok t_get_insert) metis
  show "t_find k x (snd (t_insert r t)) = (if x = k r then Some (t_next t, r) else t_find k x t)"
  proof (cases "x = k r")
    case True
    then show ?thesis using t_find_iff [OF u, of x "t_next t" r] by (simp add: t_get_insert ok)
  next
    case False
    then have "t_find k x (snd (t_insert r t)) = t_find k x t"
      using t_get_fresh [OF ok, of "t_next t"]
      by (intro t_find_eqI [OF assms(1) u]) (auto simp: t_get_insert ok)
    with False show ?thesis by simp
  qed
qed

lemma t_unique_put:
  assumes "t_unique k t" and "t_get t i = Some r" and "k r' = k r"
  shows "t_unique k (t_put i r' t)"
    and "t_find k x (t_put i r' t) = (if x = k r then Some (i, r') else t_find k x t)"
proof -
  show u: "t_unique k (t_put i r' t)"
    using assms unfolding t_unique_def by simp metis
  show "t_find k x (t_put i r' t) = (if x = k r then Some (i, r') else t_find k x t)"
  proof (cases "x = k r")
    case True
    then show ?thesis using t_find_iff [OF u, of x i r'] assms by simp
  next
    case False
    then have "t_find k x (t_put i r' t) = t_find k x t"
      using assms(2,3) by (intro t_find_eqI [OF assms(1) u]) auto
    with False show ?thesis by simp
  qed
qed

lemma t_unique_delete:
  assumes "t_unique k t" and "t_get t i = Some r"
  shows "t_unique k (t_delete i t)"
    and "t_find k x (t_delete i t) = (if x = k r then None else t_find k x t)"
proof -
  show u: "t_unique k (t_delete i t)"
    using assms unfolding t_unique_def by (simp add: t_ok_delete)
  have "t_find k (k r) (t_delete i t) = None"
    using assms unfolding t_unique_def by (simp add: t_find_None t_ok_delete) metis
  moreover have "t_find k x (t_delete i t) = t_find k x t" if "x \<noteq> k r"
    using that assms(2) by (intro t_find_eqI [OF assms(1) u]) auto
  ultimately show "t_find k x (t_delete i t) = (if x = k r then None else t_find k x t)"
    by auto
qed

lemma t_unique_delete_where:
  assumes "t_unique k t" and "\<And>i r. P i r \<longleftrightarrow> Q (k r)"
  shows "t_unique k (t_delete_where P t)"
    and "t_find k x (t_delete_where P t) = (if Q x then None else t_find k x t)"
proof -
  note ok = t_unique_ok [OF assms(1)]
  have get: "t_get (t_delete_where P t) i = Some r \<longleftrightarrow> t_get t i = Some r \<and> \<not> Q (k r)" for i r
    by (auto simp: ok assms(2) split: option.split)
  show u: "t_unique k (t_delete_where P t)"
    unfolding t_unique_def
  proof (intro conjI allI impI)
    fix i j r s
    assume "t_get (t_delete_where P t) i = Some r" "t_get (t_delete_where P t) j = Some s" "k r = k s"
    then show "i = j" using assms(1) unfolding get t_unique_def by blast
  qed (simp add: ok)
  show "t_find k x (t_delete_where P t) = (if Q x then None else t_find k x t)"
  proof (cases "Q x")
    case True
    then show ?thesis by (auto simp: t_find_None get t_unique_ok [OF u])
  next
    case False
    then have "t_find k x (t_delete_where P t) = t_find k x t"
      by (intro t_find_eqI [OF assms(1) u]) (auto simp: get)
    with False show ?thesis by simp
  qed
qed

text \<open>A row that gets a new key which no other row has.\<close>

lemma t_unique_rekey:
  assumes "t_unique k t" and "\<And>j s. t_get t j = Some s \<Longrightarrow> k s = k r' \<Longrightarrow> j = i"
  shows "t_unique k (t_put i r' t)"
  using assms unfolding t_unique_def by simp

lemma t_unique_filtered: "t_unique k t \<Longrightarrow> t_unique k (t_delete_where P t)"
proof -
  assume u: "t_unique k t"
  have get: "t_get (t_delete_where P t) i = Some r \<Longrightarrow> t_get t i = Some r" for i r
    using t_unique_ok [OF u] by (auto split: option.splits if_splits)
  show ?thesis unfolding t_unique_def
  proof (intro conjI allI impI)
    show "t_ok (t_delete_where P t)" using t_unique_ok [OF u] by simp
    fix i j r s
    assume "t_get (t_delete_where P t) i = Some r" "t_get (t_delete_where P t) j = Some s" "k r = k s"
    with u get show "i = j" unfolding t_unique_def by blast
  qed
qed

section \<open>The interface\<close>

locale orm_table =
  fixes get :: "'s \<Rightarrow> int \<Rightarrow> 'r option"
    and insert :: "'r \<Rightarrow> 's \<Rightarrow> int \<times> 's"
    and put :: "int \<Rightarrow> 'r \<Rightarrow> 's \<Rightarrow> 's"
    and delete :: "int \<Rightarrow> 's \<Rightarrow> 's"
    and ok :: "'s \<Rightarrow> bool"
  assumes insert_fresh: "ok s \<Longrightarrow> insert r s = (i, s') \<Longrightarrow> get s i = None"
    and insert_get: "ok s \<Longrightarrow> insert r s = (i, s') \<Longrightarrow> get s' j = (if j = i then Some r else get s j)"
    and insert_ok: "ok s \<Longrightarrow> insert r s = (i, s') \<Longrightarrow> ok s'"
    and put_get: "get (put i r s) j = (if j = i \<and> get s i \<noteq> None then Some r else get s j)"
    and put_ok: "ok s \<Longrightarrow> ok (put i r s)"
    and delete_get: "get (delete i s) j = (if j = i then None else get s j)"
    and delete_ok: "ok s \<Longrightarrow> ok (delete i s)"
begin

lemma insert_keeps: "ok s \<Longrightarrow> insert r s = (i, s') \<Longrightarrow> get s j = Some r' \<Longrightarrow> get s' j = Some r'"
  using insert_fresh insert_get by fastforce

lemma insert_then_delete:
  "ok s \<Longrightarrow> insert r s = (i, s') \<Longrightarrow> get (delete i s') j = get s j"
  using insert_fresh insert_get by (auto simp: delete_get)

end

locale owned_table = orm_table get insert put delete ok
  for get :: "'s \<Rightarrow> int \<Rightarrow> 'r option"
    and insert :: "'r \<Rightarrow> 's \<Rightarrow> int \<times> 's"
    and put :: "int \<Rightarrow> 'r \<Rightarrow> 's \<Rightarrow> 's"
    and delete :: "int \<Rightarrow> 's \<Rightarrow> 's"
    and ok :: "'s \<Rightarrow> bool" +
  fixes owner :: "'r \<Rightarrow> int"
begin

definition user_get :: "int \<Rightarrow> int \<Rightarrow> 's \<Rightarrow> 'r option" where
  "user_get uid i s =
     (case get s i of None \<Rightarrow> None | Some r \<Rightarrow> if owner r = uid then Some r else None)"

definition user_delete :: "int \<Rightarrow> int \<Rightarrow> 's \<Rightarrow> bool \<times> 's" where
  "user_delete uid i s =
     (case user_get uid i s of None \<Rightarrow> (False, s) | Some r \<Rightarrow> (True, delete i s))"

text \<open>The part of the table that belongs to one user.\<close>

definition view :: "int \<Rightarrow> 's \<Rightarrow> int \<Rightarrow> 'r option" where
  "view uid s i = user_get uid i s"

lemma user_get_owner: "user_get uid i s = Some r \<Longrightarrow> get s i = Some r \<and> owner r = uid"
  by (auto simp: user_get_def split: option.splits if_splits)

lemma user_delete_isolated: "uid' \<noteq> uid \<Longrightarrow> view uid' (snd (user_delete uid i s)) = view uid' s"
  by (auto simp: view_def user_get_def user_delete_def delete_get fun_eq_iff split: option.splits)

lemma user_delete_exact:
  "view uid (snd (user_delete uid i s)) = (view uid s)(i := None)
   \<and> (fst (user_delete uid i s) \<longleftrightarrow> view uid s i \<noteq> None)"
  by (auto simp: view_def user_get_def user_delete_def delete_get fun_eq_iff split: option.splits)

lemma insert_isolated:
  "\<lbrakk>ok s; insert r s = (i, s'); uid \<noteq> owner r\<rbrakk> \<Longrightarrow> view uid s' = view uid s"
  using insert_fresh insert_get by (fastforce simp: view_def user_get_def fun_eq_iff split: option.splits)

lemma put_isolated:
  "\<lbrakk>get s i = Some r0; owner r0 = owner r; uid \<noteq> owner r\<rbrakk> \<Longrightarrow> view uid (put i r s) = view uid s"
  by (auto simp: view_def user_get_def put_get fun_eq_iff split: option.splits)

end

text \<open>The tables of the model provide the first contract; each component adds its owner column.\<close>

interpretation tab: orm_table t_get t_insert t_put t_delete t_ok
proof
  fix s :: "'a table" and r i s' j
  assume ok: "t_ok s" and ins: "t_insert r s = (i, s')"
  then have i: "i = t_next s" and s': "s' = snd (t_insert r s)" by (auto simp: t_insert_def)
  show "t_get s i = None" using ok i by (simp add: t_get_fresh)
  show "t_get s' j = (if j = i then Some r else t_get s j)" using ok i s' by (simp add: t_get_insert)
  show "t_ok s'" using ok s' by (simp add: t_ok_insert)
qed (simp_all add: t_ok_delete)

end
