(* ===== verification/Base64.thy ===== *)
theory Base64
  imports Prelude
begin

text \<open>
  Python's \<^verbatim>\<open>base64.urlsafe_b64encode\<close> and \<^verbatim>\<open>urlsafe_b64decode\<close> on ASCII text, which page cursors
  and tokens go through. The decoder is the lenient one of \<^verbatim>\<open>binascii.a2b_base64\<close>: characters
  outside the alphabet are skipped and everything after complete padding is ignored.
\<close>

definition b64_char :: "nat \<Rightarrow> char" where
  "b64_char v =
     (if v < 26 then char_of (65 + v) else if v < 52 then char_of (71 + v)
      else if v < 62 then char_of (v - 4) else if v = 62 then CHR ''-'' else CHR ''_'')"

definition b64_val :: "char \<Rightarrow> nat option" where
  "b64_val c =
     (let n = (of_char c :: nat)
      in if 65 \<le> n \<and> n \<le> 90 then Some (n - 65)
         else if 97 \<le> n \<and> n \<le> 122 then Some (n - 71)
         else if 48 \<le> n \<and> n \<le> 57 then Some (n + 4)
         else if c = CHR ''-'' \<or> c = CHR ''+'' then Some 62
         else if c = CHR ''_'' \<or> c = CHR ''/'' then Some 63 else None)"

fun b64_bytes :: "nat list \<Rightarrow> string" where
  "b64_bytes [] = []"
| "b64_bytes [a] = [b64_char (a div 4), b64_char (a mod 4 * 16), CHR ''='', CHR ''='']"
| "b64_bytes [a, b] =
     [b64_char (a div 4), b64_char (a mod 4 * 16 + b div 16), b64_char (b mod 16 * 4), CHR ''='']"
| "b64_bytes (a # b # c # bs) =
     b64_char (a div 4) # b64_char (a mod 4 * 16 + b div 16)
       # b64_char (b mod 16 * 4 + c div 64) # b64_char (c mod 64) # b64_bytes bs"

text \<open>
  The state of the decoder: the position in the group of four, the bits left over, the padding
  characters seen. \<^const>\<open>None\<close> is \<^verbatim>\<open>binascii.Error\<close>.
\<close>

fun b64_dec :: "nat \<Rightarrow> nat \<Rightarrow> nat \<Rightarrow> string \<Rightarrow> nat list option" where
  "b64_dec q l p [] = (if q = 0 then Some [] else None)"
| "b64_dec q l p (c # cs) =
     (if c = CHR ''=''
      then if q \<ge> 2 \<and> q + Suc p \<ge> 4 then Some []
           else b64_dec q l (if q \<ge> 2 then Suc p else p) cs
      else case b64_val c of
             None \<Rightarrow> b64_dec q l p cs
           | Some v \<Rightarrow>
               if q = 0 then b64_dec 1 v 0 cs
               else if q = 1
               then map_option ((#) (l * 4 + v div 16)) (b64_dec 2 (v mod 16) 0 cs)
               else if q = 2
               then map_option ((#) (l * 16 + v div 4)) (b64_dec 3 (v mod 4) 0 cs)
               else map_option ((#) (l * 64 + v)) (b64_dec 0 0 0 cs))"

text \<open>
  The text that went in: bytes outside ASCII are an error here, where Python accepts them when
  they are valid UTF-8.
\<close>

definition urlsafe_b64encode :: "string \<Rightarrow> string" where
  "urlsafe_b64encode s = b64_bytes (map of_char s)"

definition urlsafe_b64decode :: "string \<Rightarrow> string option" where
  "urlsafe_b64decode s =
     (case b64_dec 0 0 0 s of
        None \<Rightarrow> None
      | Some bs \<Rightarrow> if list_all (\<lambda>b. b < 128) bs then Some (map char_of bs) else None)"

definition ascii :: "string \<Rightarrow> bool" where
  "ascii s \<longleftrightarrow> list_all (\<lambda>c. (of_char c :: nat) < 128) s"

section \<open>Round trip\<close>

lemma of_b64_char:
  assumes "v < 64"
  shows "(of_char (b64_char v) :: nat) =
    (if v < 26 then 65 + v else if v < 52 then 71 + v else if v < 62 then v - 4
     else if v = 62 then 45 else 95)"
  using assms by (simp add: b64_char_def of_char_of)

lemma char_neI: "(of_char c :: nat) \<noteq> of_char d \<Longrightarrow> c \<noteq> d"
  by blast

lemma b64_val_char:
  assumes "v < 64"
  shows "b64_val (b64_char v) = Some v \<and> b64_char v \<noteq> CHR ''=''"
proof
  consider "v < 62" | "v = 62" | "v = 63" using assms by linarith
  then show "b64_val (b64_char v) = Some v"
  proof cases
    case 1
    then show ?thesis
      using of_b64_char [OF assms] by (auto simp: b64_val_def Let_def)
  qed (simp_all add: b64_char_def b64_val_def Let_def)
  show "b64_char v \<noteq> CHR ''=''"
    using assms by (intro char_neI) (auto simp: of_b64_char)
qed

lemma b64_dec_step:
  assumes "v < 64"
  shows "b64_dec 0 l p (b64_char v # cs) = b64_dec 1 v 0 cs"
    and "b64_dec 1 l p (b64_char v # cs)
           = map_option ((#) (l * 4 + v div 16)) (b64_dec 2 (v mod 16) 0 cs)"
    and "b64_dec 2 l p (b64_char v # cs)
           = map_option ((#) (l * 16 + v div 4)) (b64_dec 3 (v mod 4) 0 cs)"
    and "b64_dec 3 l p (b64_char v # cs) = map_option ((#) (l * 64 + v)) (b64_dec 0 0 0 cs)"
  using b64_val_char [OF assms] by simp_all

lemma b64_dec_end:
  "b64_dec 0 l p [] = Some []" "b64_dec 2 l 0 ''=='' = Some []" "b64_dec 3 l 0 ''='' = Some []"
  by simp_all

lemma pack_unpack:
  assumes "(y::nat) < k"
  shows "(x * k + y) div k = x" and "(x * k + y) mod k = y"
  using assms by auto

lemma b64_dec_bytes: "list_all (\<lambda>b. b < 256) bs \<Longrightarrow> b64_dec 0 0 0 (b64_bytes bs) = Some bs"
proof (induction bs rule: b64_bytes.induct)
  case 1
  show ?case by simp
next
  case (2 a)
  have v: "a div 4 < 64" "a mod 4 * 16 < 64" using 2 by auto
  have u: "a mod 4 * 16 div 16 = a mod 4" by simp
  show ?case
    unfolding b64_bytes.simps b64_dec_step(1) [OF v(1)] b64_dec_step(2) [OF v(2)] b64_dec_end u
    by simp
next
  case (3 a b)
  have v: "a div 4 < 64" "a mod 4 * 16 + b div 16 < 64" "b mod 16 * 4 < 64" and b: "b div 16 < 16"
    using 3 by auto
  have u: "b mod 16 * 4 div 4 = b mod 16" by simp
  show ?case
    unfolding b64_bytes.simps b64_dec_step(1) [OF v(1)] b64_dec_step(2) [OF v(2)]
      b64_dec_step(3) [OF v(3)] b64_dec_end u pack_unpack [OF b]
    by simp
next
  case (4 a b c bs)
  have v: "a div 4 < 64" "a mod 4 * 16 + b div 16 < 64" "b mod 16 * 4 + c div 64 < 64"
    "c mod 64 < 64" and b: "b div 16 < 16" "c div 64 < 4"
    using 4 by auto
  from 4 have "b64_dec 0 0 0 (b64_bytes bs) = Some bs" by simp
  then show ?case
    unfolding b64_bytes.simps b64_dec_step(1) [OF v(1)] b64_dec_step(2) [OF v(2)]
      b64_dec_step(3) [OF v(3)] b64_dec_step(4) [OF v(4)] pack_unpack [OF b(1)] pack_unpack [OF b(2)]
    by simp
qed

lemma b64_roundtrip:
  assumes "ascii s"
  shows "urlsafe_b64decode (urlsafe_b64encode s) = Some s"
proof -
  have "list_all (\<lambda>b. b < 256) (map (of_char :: char \<Rightarrow> nat) s)"
    by (simp add: list_all_iff)
  moreover have "list_all (\<lambda>b. b < 128) (map (of_char :: char \<Rightarrow> nat) s)"
    using assms by (simp add: ascii_def list_all_iff)
  ultimately show ?thesis
    by (simp add: urlsafe_b64decode_def urlsafe_b64encode_def b64_dec_bytes o_def)
qed

lemma ascii_int_str: "ascii (int_str i)"
proof -
  have "list_all is_digit s \<Longrightarrow> ascii s" for s
    by (auto simp: ascii_def list_all_iff is_digit_def)
  then show ?thesis using nat_str_facts by (auto simp: int_str_def ascii_def)
qed

end
