(* ===== verification/Pagination.thy ===== *)
theory Pagination
  imports Errors Base64
begin

text \<open>
  \<^verbatim>\<open>backend/database/pagination.py\<close>: offset pagination with clamped parameters, and cursor
  pagination over an integer column, whose cursors are base64 text. A query is the list of the
  rows it selects, in the order of the query; the synchronous and the asynchronous functions
  compute the same.
\<close>

section \<open>Offset pagination\<close>

record page_params =
  pp_skip :: int
  pp_limit :: int

definition PaginatedParams :: "int \<Rightarrow> int \<Rightarrow> int \<Rightarrow> page_params" where
  "PaginatedParams skip limit max_limit =
     \<lparr>pp_skip = max 0 skip, pp_limit = max 1 (min limit max_limit)\<rparr>"

definition paginate :: "int \<Rightarrow> int \<Rightarrow> int \<Rightarrow> 'r list \<Rightarrow> 'r list" where
  "paginate skip limit max_limit rows =
     (let p = PaginatedParams skip limit max_limit
      in take (nat (pp_limit p)) (drop (nat (pp_skip p)) rows))"

record 'r page =
  pg_items :: "'r list"
  pg_total :: int
  pg_skip :: int
  pg_limit :: int
  pg_pages :: int

definition get_paginated_response :: "int \<Rightarrow> int \<Rightarrow> int \<Rightarrow> 'r list \<Rightarrow> 'r page" where
  "get_paginated_response skip limit max_limit rows =
     (let p = PaginatedParams skip limit max_limit;
          n = int (length rows)
      in \<lparr>pg_items = take (nat (pp_limit p)) (drop (nat (pp_skip p)) rows),
          pg_total = n, pg_skip = pp_skip p, pg_limit = pp_limit p,
          pg_pages = (if pp_limit p > 0 then (n + pp_limit p - 1) div pp_limit p else 1)\<rparr>)"

section \<open>Cursor pagination\<close>

definition encode_cursor :: "int \<Rightarrow> string" where
  "encode_cursor val = urlsafe_b64encode (int_str val)"

definition decode_cursor :: "string \<Rightarrow> string outcome" where
  "decode_cursor s =
     (case urlsafe_b64decode s of
        Some t \<Rightarrow> Inr t
      | None \<Rightarrow> Inl (ValueError ''Invalid cursor format''))"

definition is_asc :: "string \<Rightarrow> bool" where
  "is_asc order \<longleftrightarrow> str_lower order = ''asc''"

text \<open>\<^verbatim>\<open>order_by(column.asc())\<close> and \<^verbatim>\<open>desc()\<close>; equal keys stay in the order of the query.\<close>

definition order_rows :: "('r \<Rightarrow> int) \<Rightarrow> bool \<Rightarrow> 'r list \<Rightarrow> 'r list" where
  "order_rows key asc rows = sort_key (\<lambda>r. if asc then key r else - key r) rows"

text \<open>
  The rows past a cursor. When the decoded text is not a numeral the comparison of the column with
  a text is left to the database, the parameter \<open>text_cmp\<close>.
\<close>

definition cursor_filter ::
  "(string \<Rightarrow> bool \<Rightarrow> 'r list \<Rightarrow> 'r list outcome) \<Rightarrow> ('r \<Rightarrow> int) \<Rightarrow> bool \<Rightarrow> string \<Rightarrow> 'r list
     \<Rightarrow> 'r list outcome" where
  "cursor_filter text_cmp key asc decoded rows =
     (case parse_int decoded of
        Some v \<Rightarrow> Inr (filter (\<lambda>r. if asc then key r > v else key r < v) rows)
      | None \<Rightarrow> text_cmp decoded asc rows)"

definition cursor_page ::
  "('r \<Rightarrow> int) \<Rightarrow> bool \<Rightarrow> nat \<Rightarrow> 'r list \<Rightarrow> 'r list \<times> string option \<times> bool" where
  "cursor_page key asc psize rows =
     (let items = take (psize + 1) (order_rows key asc rows)
      in if length items > psize
         then (take psize items, Some (encode_cursor (key (last (take psize items)))), True)
         else (items, None, False))"

definition cursor_paginate ::
  "(string \<Rightarrow> bool \<Rightarrow> 'r list \<Rightarrow> 'r list outcome) \<Rightarrow> ('r \<Rightarrow> int) \<Rightarrow> 'r list \<Rightarrow> string option
     \<Rightarrow> int \<Rightarrow> int \<Rightarrow> string \<Rightarrow> ('r list \<times> string option \<times> bool) outcome" where
  "cursor_paginate text_cmp key rows cursor limit max_limit order =
     (let eff_limit = nat (max 1 (min limit max_limit));
          asc = is_asc order
      in if truthy cursor
         then (case decode_cursor (the cursor) of
                 Inl e \<Rightarrow> Inl e
               | Inr decoded \<Rightarrow>
                   (case cursor_filter text_cmp key asc decoded rows of
                      Inl e \<Rightarrow> Inl e
                    | Inr rows' \<Rightarrow> Inr (cursor_page key asc eff_limit rows')))
         else Inr (cursor_page key asc eff_limit rows))"

section \<open>Walking through the pages\<close>

text \<open>A client that follows the cursors, at most \<open>n\<close> times.\<close>

fun cursor_walk ::
  "nat \<Rightarrow> (string \<Rightarrow> bool \<Rightarrow> 'r list \<Rightarrow> 'r list outcome) \<Rightarrow> ('r \<Rightarrow> int) \<Rightarrow> 'r list
     \<Rightarrow> string option \<Rightarrow> int \<Rightarrow> int \<Rightarrow> string \<Rightarrow> 'r list outcome" where
  "cursor_walk 0 cmp key rows cursor limit max_limit order = Inr []"
| "cursor_walk (Suc n) cmp key rows cursor limit max_limit order =
     (case cursor_paginate cmp key rows cursor limit max_limit order of
        Inl e \<Rightarrow> Inl e
      | Inr (items, nxt, has_more) \<Rightarrow>
          if has_more
          then (case cursor_walk n cmp key rows nxt limit max_limit order of
                  Inl e \<Rightarrow> Inl e | Inr rest \<Rightarrow> Inr (items @ rest))
          else Inr items)"

lemma cursor_roundtrip: "decode_cursor (encode_cursor v) = Inr (int_str v)"
  by (simp add: decode_cursor_def encode_cursor_def b64_roundtrip ascii_int_str)

lemma encode_cursor_truthy [simp]: "encode_cursor v \<noteq> []"
proof
  assume "encode_cursor v = []"
  then have "int_str v = []" by (cases "int_str v" rule: list.exhaust)
    (auto simp: encode_cursor_def urlsafe_b64encode_def elim: b64_bytes.elims)
  then show False using nat_str_facts [of "nat v"] nat_str_facts [of "nat (- v)"]
    by (auto simp: int_str_def split: if_splits)
qed

definition past :: "('r \<Rightarrow> int) \<Rightarrow> bool \<Rightarrow> int \<Rightarrow> 'r \<Rightarrow> bool" where
  "past key asc v r = (if asc then key r > v else key r < v)"

lemma cursor_paginate_first:
  "cursor_paginate cmp key rows None limit max_limit order =
     Inr (cursor_page key (is_asc order) (nat (max 1 (min limit max_limit))) rows)"
  by (simp add: cursor_paginate_def Let_def)

lemma cursor_paginate_next:
  "cursor_paginate cmp key rows (Some (encode_cursor v)) limit max_limit order =
     Inr (cursor_page key (is_asc order) (nat (max 1 (min limit max_limit)))
            (filter (past key (is_asc order) v) rows))"
  by (simp add: cursor_paginate_def Let_def cursor_roundtrip cursor_filter_def past_def [abs_def])

lemma order_rows_filter: "order_rows key asc (filter P rows) = filter P (order_rows key asc rows)"
  by (simp add: order_rows_def filter_sort)

lemma set_order_rows [simp]: "set (order_rows key asc rows) = set rows"
  "length (order_rows key asc rows) = length rows"
  by (simp_all add: order_rows_def)

lemma order_rows_strict:
  assumes "distinct (map key rows)"
  shows "sorted_wrt (\<lambda>r r'. past key asc (key r) r') (order_rows key asc rows)"
proof -
  let ?k = "\<lambda>r. if asc then key r else - key r"
  have "distinct (map ?k (order_rows key asc rows))"
  proof -
    have "distinct (map ?k rows)" using assms by (auto simp: distinct_map inj_on_def)
    then show ?thesis by (simp add: order_rows_def distinct_map)
  qed
  moreover have "sorted (map ?k (order_rows key asc rows))"
    unfolding order_rows_def by (rule sorted_sort_key)
  ultimately have "sorted_wrt (<) (map ?k (order_rows key asc rows))"
    by (simp add: strict_sorted_iff)
  then show ?thesis by (cases asc) (simp_all add: sorted_wrt_map past_def)
qed

text \<open>In a list in order the rows past an element are those behind it.\<close>

lemma filter_past:
  assumes "sorted_wrt (\<lambda>r r'. past key asc (key r) r') (xs @ [x] @ ys)"
  shows "filter (past key asc (key x)) (xs @ [x] @ ys) = ys"
proof -
  have "\<not> past key asc (key x) r" if "r \<in> set (xs @ [x])" for r
    using that assms by (auto simp: sorted_wrt_append past_def split: if_splits)
  then have "filter (past key asc (key x)) (xs @ [x]) = []" by (simp add: filter_empty_conv)
  moreover have "filter (past key asc (key x)) ys = ys"
    using assms by (auto simp: sorted_wrt_append)
  ultimately show ?thesis unfolding append_assoc [symmetric] filter_append by simp
qed

lemma cursor_page_ordered:
  assumes "order_rows key asc rows = os"
  shows "cursor_page key asc psize rows =
    (if length os > psize then (take psize os, Some (encode_cursor (key (last (take psize os)))), True)
     else (os, None, False))"
  using assms by (simp add: cursor_page_def Let_def min_def)

lemma cursor_walk_from:
  assumes "distinct (map key rows)"
    and "order_rows key (is_asc order) rows = xs @ [x] @ ys" and "length ys \<le> n"
  shows "cursor_walk (Suc n) cmp key rows (Some (encode_cursor (key x))) limit max_limit order
           = Inr ys"
  using assms(2,3)
proof (induction n arbitrary: xs x ys rule: less_induct)
  case (less n)
  let ?psize = "nat (max 1 (min limit max_limit))" and ?asc = "is_asc order"
  have psize: "?psize \<ge> 1" by simp
  have "order_rows key ?asc (filter (past key ?asc (key x)) rows) = ys"
    using order_rows_strict [OF assms(1), of ?asc] less.prems(1)
    by (simp only: order_rows_filter filter_past)
  then have page: "cursor_paginate cmp key rows (Some (encode_cursor (key x))) limit max_limit order =
    Inr (if length ys > ?psize
         then (take ?psize ys, Some (encode_cursor (key (last (take ?psize ys)))), True)
         else (ys, None, False))"
    by (simp only: cursor_paginate_next cursor_page_ordered)
  show ?case
  proof (cases "length ys > ?psize")
    case False
    then show ?thesis by (simp only: cursor_walk.simps page) simp
  next
    case True
    let ?zs = "butlast (take ?psize ys)" and ?z = "last (take ?psize ys)"
    have "take ?psize ys \<noteq> []" using True psize by (cases ys) auto
    then have "ys = ?zs @ [?z] @ drop ?psize ys" by (metis append_assoc append_butlast_last_id append_take_drop_id)
    then have split: "order_rows key ?asc rows = (xs @ [x] @ ?zs) @ [?z] @ drop ?psize ys"
      using less.prems(1) by simp
    have "length ys - ?psize < n" using True psize less.prems(2) by linarith
    then obtain m where m: "n = Suc m" "length (drop ?psize ys) \<le> m"
      by (cases n) auto
    from less.IH [OF _ split, of m] m
    have "cursor_walk n cmp key rows (Some (encode_cursor (key ?z))) limit max_limit order
            = Inr (drop ?psize ys)" by simp
    with True show ?thesis by (simp only: cursor_walk.simps page) simp
  qed
qed

section \<open>Properties\<close>

text \<open>
  C23: Cursor pages partition the rows. A client that starts without a cursor and follows the
  cursors it is given gets every row of the query exactly once, in the order of the column, for
  every page size and either direction, when the column's values are distinct; at most one page
  per row is needed.
\<close>

theorem cursor_pages_complete:
  assumes "distinct (map key rows)" and "length rows \<le> n"
  shows "cursor_walk (Suc n) cmp key rows None limit max_limit order
           = Inr (order_rows key (is_asc order) rows)"
proof -
  let ?psize = "nat (max 1 (min limit max_limit))" and ?os = "order_rows key (is_asc order) rows"
  have page: "cursor_paginate cmp key rows None limit max_limit order =
    Inr (if length ?os > ?psize
         then (take ?psize ?os, Some (encode_cursor (key (last (take ?psize ?os)))), True)
         else (?os, None, False))"
    by (simp only: cursor_paginate_first cursor_page_ordered [OF refl])
  show ?thesis
  proof (cases "length ?os > ?psize")
    case False
    then show ?thesis by (simp only: cursor_walk.simps page) simp
  next
    case True
    let ?zs = "butlast (take ?psize ?os)" and ?z = "last (take ?psize ?os)"
    have "take ?psize ?os \<noteq> []" using True by (cases ?os) auto
    then have split: "?os = ?zs @ [?z] @ drop ?psize ?os"
      by (metis append_assoc append_butlast_last_id append_take_drop_id)
    have "?psize \<ge> 1" by simp
    then have "length ?os - ?psize < n" using True assms(2) unfolding set_order_rows by linarith
    then obtain m where m: "n = Suc m" "length (drop ?psize ?os) \<le> m"
      by (cases n) auto
    from cursor_walk_from [OF assms(1) split m(2), of cmp limit max_limit] m(1)
    have "cursor_walk n cmp key rows (Some (encode_cursor (key ?z))) limit max_limit order
            = Inr (drop ?psize ?os)" by simp
    with True show ?thesis by (simp only: cursor_walk.simps page) simp
  qed
qed

theorem cursor_pages_complete_witness:
  "cursor_walk 4 (\<lambda>s asc rows. Inl (OtherException ''type'')) (\<lambda>i. i) [3, 1, 2] None 2 100 ''desc''
     = Inr [3, 2, (1::int)]"
  using cursor_pages_complete [of "\<lambda>i. i" "[3, 1, 2::int]" 3
      "\<lambda>s asc rows. Inl (OtherException ''type'')" 2 100 "''desc''"]
  by (simp add: order_rows_def is_asc_def str_lower_def char_lower_def is_upper_def)

text \<open>
  Offset pages. The page has at most as many rows as the clamped limit, which lies between
  1 and 100 for the default maximum, and the number of pages is the least that holds all rows.
\<close>

theorem offset_page_bounds:
  assumes "1 \<le> max_limit"
  shows "let p = get_paginated_response skip limit max_limit rows
         in 1 \<le> pg_limit p \<and> pg_limit p \<le> max_limit
          \<and> int (length (pg_items p)) \<le> pg_limit p
          \<and> pg_items p = paginate skip limit max_limit rows
          \<and> pg_total p \<le> pg_pages p * pg_limit p
          \<and> (pg_pages p - 1) * pg_limit p < max 1 (pg_total p)"
proof -
  let ?l = "max 1 (min limit max_limit)" and ?n = "int (length rows)"
  have l: "1 \<le> ?l" "?l \<le> max_limit" using assms by auto
  have clip: "int (min k (nat y)) \<le> y" if "1 \<le> y" for k y
    using of_nat_mono [OF min.cobounded2 [of k "nat y"], where 'a = int] that by simp
  define q where "q = (?n + ?l - 1) div ?l"
  have "?n + ?l - 1 = q * ?l + (?n + ?l - 1) mod ?l" unfolding q_def by (rule div_mult_mod_eq [symmetric])
  moreover have "0 \<le> (?n + ?l - 1) mod ?l" "(?n + ?l - 1) mod ?l < ?l" using l by simp_all
  ultimately have "?n \<le> q * ?l" "q * ?l \<le> ?n + ?l - 1" by linarith+
  moreover from this(2) have "(q - 1) * ?l < max 1 ?n" by (simp add: left_diff_distrib)
  moreover have "int (min (length rows - nat (max 0 skip)) (nat ?l)) \<le> ?l"
    using clip [OF l(1)] .
  moreover have "pg_limit (get_paginated_response skip limit max_limit rows) = ?l"
    "pg_total (get_paginated_response skip limit max_limit rows) = ?n"
    "pg_pages (get_paginated_response skip limit max_limit rows) = q"
    "pg_items (get_paginated_response skip limit max_limit rows) = paginate skip limit max_limit rows"
    "int (length (paginate skip limit max_limit rows))
       = int (min (length rows - nat (max 0 skip)) (nat ?l))"
    by (simp_all add: get_paginated_response_def paginate_def PaginatedParams_def Let_def q_def less_max_iff_disj)
  ultimately show ?thesis
    using l unfolding Let_def by (metis (no_types))
qed

theorem offset_page_bounds_witness:
  "pg_pages (get_paginated_response (-5) 0 100 [True, False]) * 1 \<ge> 2"
  using offset_page_bounds [of 100 "-5" 0 "[True, False]"]
  by (simp add: Let_def get_paginated_response_def PaginatedParams_def)

end
