(* ===== verification/Retry.thy ===== *)
theory Retry
  imports Metrics
begin

text \<open>
  \<^verbatim>\<open>RetryEngine\<close> of \<^verbatim>\<open>backend/retry.py\<close>. The function under retry is a state transformer that
  returns a value or raises; the loop over \<^verbatim>\<open>range(max_retries + 1)\<close> is a recursion on the attempts
  left. \<^verbatim>\<open>random.uniform(0, b)\<close> is \<open>b\<close> times a draw from the unit interval, an argument of the
  model for each attempt.
\<close>

record retry_engine =
  max_retries :: int
  initial_delay :: rat
  max_delay :: rat
  backoff_factor :: rat
  jitter :: bool
  retryable_exceptions :: "exc_class list"
  non_retryable_exceptions :: "exc_class list"

definition DEFAULT_NON_RETRYABLE :: "exc_class list" where
  "DEFAULT_NON_RETRYABLE =
     [C_ValueError, C_TypeError, C_KeyError, C_AttributeError, C_ValidationError,
      C_ValidationErrorException]"

text \<open>
  The constructor: the three numbers default to the settings \<^verbatim>\<open>MAX_JOB_RETRIES\<close>,
  \<^verbatim>\<open>RETRY_BASE_DELAY\<close> and \<^verbatim>\<open>RETRY_MAX_DELAY\<close>.
\<close>

record retry_settings =
  MAX_JOB_RETRIES :: int
  RETRY_BASE_DELAY :: rat
  RETRY_MAX_DELAY :: rat

definition mk_engine ::
  "retry_settings \<Rightarrow> int option \<Rightarrow> rat option \<Rightarrow> rat option \<Rightarrow> rat \<Rightarrow> bool
     \<Rightarrow> exc_class list \<Rightarrow> exc_class list \<Rightarrow> retry_engine" where
  "mk_engine cfg mr idl mdl factor jit ret nonret =
     \<lparr>max_retries = (case mr of Some n \<Rightarrow> n | None \<Rightarrow> MAX_JOB_RETRIES cfg),
      initial_delay = (case idl of Some d \<Rightarrow> d | None \<Rightarrow> RETRY_BASE_DELAY cfg),
      max_delay = (case mdl of Some d \<Rightarrow> d | None \<Rightarrow> RETRY_MAX_DELAY cfg),
      backoff_factor = factor, jitter = jit,
      retryable_exceptions = ret, non_retryable_exceptions = nonret\<rparr>"

definition compute_delay :: "retry_engine \<Rightarrow> nat \<Rightarrow> rat \<Rightarrow> rat" where
  "compute_delay eng attempt draw =
     (let delay = min (initial_delay eng * backoff_factor eng ^ attempt) (max_delay eng)
      in if jitter eng then delay + 1 / 10 * delay * draw else delay)"

text \<open>The state the loop works on: the callee's state, the metrics, the naps it took.\<close>

record 's retry_world =
  callee :: 's
  rw_metrics :: metrics
  sleeps :: "rat list"

text \<open>\<open>ReturnedNone\<close> is falling off the end of the loop with no exception recorded.\<close>

datatype 'a retry_result = Returned 'a | ReturnedNone | Raised py_exc

fun execute_from ::
  "retry_engine \<Rightarrow> (nat \<Rightarrow> rat) \<Rightarrow> ('s \<Rightarrow> 'a outcome \<times> 's) \<Rightarrow> nat \<Rightarrow> nat \<Rightarrow> 's retry_world
     \<Rightarrow> 'a retry_result \<times> 's retry_world" where
  "execute_from eng draws func 0 attempt w = (ReturnedNone, w)"
| "execute_from eng draws func (Suc left) attempt w =
     (case func (callee w) of
        (Inr v, s) \<Rightarrow> (Returned v, w\<lparr>callee := s\<rparr>)
      | (Inl e, s) \<Rightarrow>
          let w1 = w\<lparr>callee := s\<rparr>
          in if exc_matches e (non_retryable_exceptions eng) then (Raised e, w1)
             else if \<not> exc_matches e (retryable_exceptions eng) then (Raised e, w1)
             else if int attempt < max_retries eng
             then execute_from eng draws func left (Suc attempt)
                    (w1\<lparr>rw_metrics := metric_step (rw_metrics w1) (inc_retry_attempts 1),
                        sleeps := sleeps w1 @ [compute_delay eng attempt (draws attempt)]\<rparr>)
             else (Raised e,
                   w1\<lparr>rw_metrics := metric_step (rw_metrics w1) (inc_retry_failures 1)\<rparr>))"

definition execute ::
  "retry_engine \<Rightarrow> (nat \<Rightarrow> rat) \<Rightarrow> ('s \<Rightarrow> 'a outcome \<times> 's) \<Rightarrow> 's retry_world
     \<Rightarrow> 'a retry_result \<times> 's retry_world" where
  "execute eng draws func w = execute_from eng draws func (nat (max_retries eng + 1)) 0 w"

section \<open>Delays\<close>

lemma compute_delay_bounds:
  assumes "0 \<le> initial_delay eng" "0 \<le> max_delay eng" "0 \<le> backoff_factor eng"
    and "0 \<le> draw" "draw \<le> 1"
  shows "0 \<le> compute_delay eng n draw" and "compute_delay eng n draw \<le> 11 / 10 * max_delay eng"
proof -
  define d where "d = min (initial_delay eng * backoff_factor eng ^ n) (max_delay eng)"
  have d: "0 \<le> d" "d \<le> max_delay eng"
    using assms by (simp_all add: d_def)
  have j: "0 \<le> 1 / 10 * d * draw" "1 / 10 * d * draw \<le> 1 / 10 * d"
    using d assms(4,5) by (simp_all add: mult_left_le)
  have eq: "compute_delay eng n draw = (if jitter eng then d + 1 / 10 * d * draw else d)"
    by (simp add: compute_delay_def d_def Let_def)
  show "0 \<le> compute_delay eng n draw"
    using d j by (auto simp: eq simp del: times_divide_eq_left)
  have "d + 1 / 10 * d * draw \<le> 11 / 10 * max_delay eng"
    using d j(2) by linarith
  moreover have "d \<le> 11 / 10 * max_delay eng" using d by linarith
  ultimately show "compute_delay eng n draw \<le> 11 / 10 * max_delay eng"
    by (simp add: eq)
qed

text \<open>Without jitter the delays of an increasing backoff never decrease.\<close>

lemma compute_delay_mono:
  assumes "\<not> jitter eng" "0 \<le> initial_delay eng" "1 \<le> backoff_factor eng" "m \<le> n"
  shows "compute_delay eng m r \<le> compute_delay eng n r'"
proof -
  have "backoff_factor eng ^ m \<le> backoff_factor eng ^ n"
    using assms by (simp add: power_increasing)
  then have "initial_delay eng * backoff_factor eng ^ m \<le> initial_delay eng * backoff_factor eng ^ n"
    using assms by (simp add: mult_left_mono)
  then show ?thesis using assms(1) by (auto simp: compute_delay_def Let_def min_def)
qed

section \<open>The loop\<close>

text \<open>
  A run of the callee: the outcomes it gives when called again and again, and the state after
  a number of calls.
\<close>

fun nth_outcome :: "('s \<Rightarrow> 'a outcome \<times> 's) \<Rightarrow> 's \<Rightarrow> nat \<Rightarrow> 'a outcome" where
  "nth_outcome func s 0 = fst (func s)"
| "nth_outcome func s (Suc n) = nth_outcome func (snd (func s)) n"

fun state_after :: "('s \<Rightarrow> 'a outcome \<times> 's) \<Rightarrow> 's \<Rightarrow> nat \<Rightarrow> 's" where
  "state_after func s 0 = s"
| "state_after func s (Suc n) = state_after func (snd (func s)) n"

definition retried :: "retry_engine \<Rightarrow> py_exc \<Rightarrow> bool" where
  "retried eng e \<longleftrightarrow> \<not> exc_matches e (non_retryable_exceptions eng)
     \<and> exc_matches e (retryable_exceptions eng)"

definition transient :: "retry_engine \<Rightarrow> ('s \<Rightarrow> 'a outcome \<times> 's) \<Rightarrow> 's \<Rightarrow> nat \<Rightarrow> bool" where
  "transient eng func s k \<longleftrightarrow> (\<forall>i<k. \<exists>e. nth_outcome func s i = Inl e \<and> retried eng e)"

lemma transient_Suc:
  "transient eng func s (Suc k) \<longleftrightarrow>
     (\<exists>e. fst (func s) = Inl e \<and> retried eng e) \<and> transient eng func (snd (func s)) k"
  by (auto simp: transient_def less_Suc_eq_0_disj)

text \<open>The world after \<open>k\<close> failed attempts that were each followed by a nap.\<close>

fun naps :: "retry_engine \<Rightarrow> (nat \<Rightarrow> rat) \<Rightarrow> nat \<Rightarrow> nat \<Rightarrow> rat list" where
  "naps eng draws a 0 = []"
| "naps eng draws a (Suc k) = compute_delay eng a (draws a) # naps eng draws (Suc a) k"

lemma length_naps [simp]: "length (naps eng draws a k) = k"
  by (induction k arbitrary: a) auto

lemma naps_map: "naps eng draws a k = map (\<lambda>i. compute_delay eng (a + i) (draws (a + i))) [0..<k]"
proof (induction k arbitrary: a)
  case (Suc k)
  have "[0..<Suc k] = 0 # map Suc [0..<k]" by (metis map_Suc_upt upt_conv_Cons zero_less_Suc)
  then show ?case using Suc [of "Suc a"] by simp
qed simp

definition after_failures ::
  "retry_engine \<Rightarrow> (nat \<Rightarrow> rat) \<Rightarrow> ('s \<Rightarrow> 'a outcome \<times> 's) \<Rightarrow> nat \<Rightarrow> nat \<Rightarrow> 's retry_world
     \<Rightarrow> 's retry_world" where
  "after_failures eng draws func a k w =
     w\<lparr>callee := state_after func (callee w) k,
       rw_metrics := (rw_metrics w)\<lparr>retry_attempts := retry_attempts (rw_metrics w) + int k\<rparr>,
       sleeps := sleeps w @ naps eng draws a k\<rparr>"

lemma execute_from_transient:
  assumes "transient eng func (callee w) k" "k < left" "int (a + k) \<le> max_retries eng"
  shows "execute_from eng draws func left a w =
           execute_from eng draws func (left - k) (a + k) (after_failures eng draws func a k w)"
  using assms
proof (induction k arbitrary: w a left)
  case 0
  then show ?case by (simp add: after_failures_def)
next
  case (Suc k)
  from Suc.prems obtain e s left' where
    call: "func (callee w) = (Inl e, s)" and ret: "retried eng e"
    and tail: "transient eng func s k" and left: "left = Suc left'"
    by (cases left; cases "func (callee w)") (auto simp: transient_Suc)
  let ?w = "w\<lparr>callee := s,
       rw_metrics := metric_step (rw_metrics w) (inc_retry_attempts 1),
       sleeps := sleeps w @ [compute_delay eng a (draws a)]\<rparr>"
  have "execute_from eng draws func left a w = execute_from eng draws func left' (Suc a) ?w"
    using ret Suc.prems(3) by (simp add: left call retried_def Let_def)
  also have "\<dots> = execute_from eng draws func (left' - k) (Suc a + k)
                     (after_failures eng draws func (Suc a) k ?w)"
    using Suc.prems tail by (intro Suc.IH) (auto simp: left)
  also have "after_failures eng draws func (Suc a) k ?w = after_failures eng draws func a (Suc k) w"
    by (simp add: after_failures_def call add.assoc)
  finally show ?case by (simp add: left)
qed

section \<open>What the engine promises\<close>

lemma execute_success:
  assumes "transient eng func (callee w) k" "int k \<le> max_retries eng"
    and "nth_outcome func (callee w) k = Inr v"
  shows "execute eng draws func w =
           (Returned v, (after_failures eng draws func 0 k w)
              \<lparr>callee := state_after func (callee w) (Suc k)\<rparr>)"
proof -
  have last: "func (state_after func s k) = (Inr v, state_after func s (Suc k))"
    if "nth_outcome func s k = Inr v" for s
    using that by (induction k arbitrary: s) (auto simp: prod_eq_iff)
  have "execute eng draws func w = execute_from eng draws func (nat (max_retries eng + 1) - k) k
          (after_failures eng draws func 0 k w)"
    using assms(1,2) by (simp add: execute_def execute_from_transient)
  moreover have "nat (max_retries eng + 1) - k = Suc (nat (max_retries eng) - k)"
    using assms(2) by linarith
  ultimately show ?thesis
    using last [OF assms(3)] by (simp add: after_failures_def)
qed

text \<open>The first exception that is not retried ends the loop and reaches the caller.\<close>

lemma execute_fatal:
  assumes "transient eng func (callee w) k" "int k \<le> max_retries eng"
    and "nth_outcome func (callee w) k = Inl e" "\<not> retried eng e"
  shows "execute eng draws func w =
           (Raised e, (after_failures eng draws func 0 k w)
              \<lparr>callee := state_after func (callee w) (Suc k)\<rparr>)"
proof -
  have last: "func (state_after func s k) = (Inl e, state_after func s (Suc k))"
    if "nth_outcome func s k = Inl e" for s
    using that by (induction k arbitrary: s) (auto simp: prod_eq_iff)
  have "execute eng draws func w = execute_from eng draws func (nat (max_retries eng + 1) - k) k
          (after_failures eng draws func 0 k w)"
    using assms(1,2) by (simp add: execute_def execute_from_transient)
  moreover have "nat (max_retries eng + 1) - k = Suc (nat (max_retries eng) - k)"
    using assms(2) by linarith
  ultimately show ?thesis
    using last [OF assms(3)] assms(4)
    by (auto simp: after_failures_def retried_def Let_def)
qed

text \<open>When every attempt fails the callee has run once more than the number of retries.\<close>

lemma execute_exhausted:
  assumes "0 \<le> max_retries eng" "transient eng func (callee w) (Suc (nat (max_retries eng)))"
  shows "\<exists>e. nth_outcome func (callee w) (nat (max_retries eng)) = Inl e \<and>
           fst (execute eng draws func w) = Raised e \<and>
           callee (snd (execute eng draws func w)) =
             state_after func (callee w) (Suc (nat (max_retries eng))) \<and>
           length (sleeps (snd (execute eng draws func w))) =
             length (sleeps w) + nat (max_retries eng) \<and>
           retry_failures (rw_metrics (snd (execute eng draws func w))) =
             retry_failures (rw_metrics w) + 1"
proof -
  define n where "n = nat (max_retries eng)"
  have n: "int n = max_retries eng" using assms(1) by (simp add: n_def)
  from assms(2) have pre: "transient eng func (callee w) n"
    and "\<exists>e. nth_outcome func (callee w) n = Inl e \<and> retried eng e"
    by (auto simp: transient_def n_def)
  then obtain e where e: "nth_outcome func (callee w) n = Inl e" "retried eng e" by blast
  have last: "func (state_after func s n) = (Inl e, state_after func s (Suc n))"
    if "nth_outcome func s n = Inl e" for s
    using that by (induction n arbitrary: s) (auto simp: prod_eq_iff)
  have "execute eng draws func w = execute_from eng draws func (nat (max_retries eng + 1) - n) n
          (after_failures eng draws func 0 n w)"
    using pre n by (simp add: execute_def execute_from_transient)
  moreover have "nat (max_retries eng + 1) - n = Suc 0"
    using n by linarith
  ultimately show ?thesis
    using last [OF e(1)] e n
    by (auto simp: after_failures_def retried_def Let_def simp flip: n_def)
qed

text \<open>A negative number of retries never calls the function and returns \<^verbatim>\<open>None\<close>.\<close>

lemma execute_negative: "max_retries eng < 0 \<Longrightarrow> execute eng draws func w = (ReturnedNone, w)"
  by (simp add: execute_def)

text \<open>With at least one attempt the loop always leaves by a return or a raise.\<close>

lemma execute_from_total:
  assumes "left > 0" "int (a + left) = max_retries eng + 1"
  shows "fst (execute_from eng draws func left a w) \<noteq> ReturnedNone"
  using assms
proof (induction left arbitrary: a w)
  case 0
  then show ?case by simp
next
  case (Suc left)
  show ?case
  proof (cases "left = 0")
    case True
    then show ?thesis using Suc.prems
      by (auto split: prod.split sum.split simp: Let_def)
  next
    case False
    then have "\<And>w. fst (execute_from eng draws func left (Suc a) w) \<noteq> ReturnedNone"
      using Suc.prems by (intro Suc.IH) auto
    then show ?thesis by (auto split: prod.split sum.split simp: Let_def)
  qed
qed

lemma execute_total: "0 \<le> max_retries eng \<Longrightarrow> fst (execute eng draws func w) \<noteq> ReturnedNone"
  unfolding execute_def by (rule execute_from_total) auto

section \<open>Properties of the engine\<close>

text \<open>A callee that fails \<open>k\<close> times and then returns, for the witnesses.\<close>

definition flaky :: "nat \<Rightarrow> py_exc \<Rightarrow> nat \<Rightarrow> string outcome \<times> nat" where
  "flaky k e calls = ((if calls < k then Inl e else Inr ''done''), Suc calls)"

definition demo_engine :: "int \<Rightarrow> retry_engine" where
  "demo_engine n =
     mk_engine \<lparr>MAX_JOB_RETRIES = 3, RETRY_BASE_DELAY = 2, RETRY_MAX_DELAY = 60\<rparr> (Some n) None None 2
       False [C_Exception] DEFAULT_NON_RETRYABLE"

definition demo_world :: "nat retry_world" where
  "demo_world = \<lparr>callee = 0, rw_metrics = metrics_init 0, sleeps = []\<rparr>"

lemma nth_outcome_flaky: "nth_outcome (flaky k e) s i = (if s + i < k then Inl e else Inr ''done'')"
  by (induction i arbitrary: s) (simp_all add: flaky_def)

lemma state_after_flaky: "state_after (flaky k e) s i = s + i"
  by (induction i arbitrary: s) (simp_all add: flaky_def)

lemma transient_flaky:
  "transient (demo_engine n) (flaky k (OtherException m)) 0 i \<longleftrightarrow> i \<le> k"
proof -
  have "retried (demo_engine n) (OtherException m)"
    by (simp add: retried_def demo_engine_def mk_engine_def DEFAULT_NON_RETRYABLE_def exc_matches_def)
  then show ?thesis by (force simp: transient_def nth_outcome_flaky not_le)
qed

text \<open>
  C28: Retry until success. When the first k calls raise exceptions that are retried, k is at most
  the number of retries and the next call returns, \<^verbatim>\<open>execute\<close> returns that value; the function
  has run k + 1 times, the naps are the k backoff delays and the retry counter has grown by k.
\<close>

theorem retry_until_success:
  assumes "transient eng func (callee w) k" and "int k \<le> max_retries eng"
    and "nth_outcome func (callee w) k = Inr v"
  shows "\<exists>w'. execute eng draws func w = (Returned v, w')
    \<and> callee w' = state_after func (callee w) (Suc k)
    \<and> sleeps w' = sleeps w @ map (\<lambda>i. compute_delay eng i (draws i)) [0..<k]
    \<and> retry_attempts (rw_metrics w') = retry_attempts (rw_metrics w) + int k
    \<and> retry_failures (rw_metrics w') = retry_failures (rw_metrics w)"
  using execute_success [OF assms, of draws] naps_map [of eng draws 0 k]
  by (simp add: after_failures_def)

theorem retry_until_success_witness:
  "\<exists>w'. execute (demo_engine 2) (\<lambda>_. 0) (flaky 2 (OtherException ''timeout'')) demo_world
      = (Returned ''done'', w') \<and> callee w' = 3 \<and> sleeps w' = [2, 4]"
  using retry_until_success [of "demo_engine 2" "flaky 2 (OtherException ''timeout'')" demo_world 2
      "''done''" "\<lambda>_. 0"]
  by (simp add: transient_flaky demo_world_def nth_outcome_flaky state_after_flaky)
    (auto simp: demo_engine_def mk_engine_def compute_delay_def upt_rec)

text \<open>
  No retry of a fatal exception. The first exception that is of a non-retryable class, or of
  no retryable one, is raised to the caller at once: no further call and no further nap, and the
  failure counter of exhausted retries is left alone.
\<close>

theorem retry_stops_at_fatal:
  assumes "transient eng func (callee w) k" and "int k \<le> max_retries eng"
    and "nth_outcome func (callee w) k = Inl e"
    and "exc_matches e (non_retryable_exceptions eng) \<or> \<not> exc_matches e (retryable_exceptions eng)"
  shows "\<exists>w'. execute eng draws func w = (Raised e, w')
    \<and> callee w' = state_after func (callee w) (Suc k)
    \<and> length (sleeps w') = length (sleeps w) + k
    \<and> retry_failures (rw_metrics w') = retry_failures (rw_metrics w)"
proof -
  have "\<not> retried eng e" using assms(4) by (auto simp: retried_def)
  from execute_fatal [OF assms(1-3) this, of draws] show ?thesis
    by (simp add: after_failures_def)
qed

theorem retry_stops_at_fatal_witness:
  "\<exists>w'. execute (demo_engine 3) (\<lambda>_. 0) (flaky 9 (TypeError ''argument'')) demo_world
      = (Raised (TypeError ''argument''), w') \<and> callee w' = 1 \<and> length (sleeps w') = 0"
proof -
  have "exc_matches (TypeError ''argument'') (non_retryable_exceptions (demo_engine 3))"
    by (simp add: demo_engine_def mk_engine_def DEFAULT_NON_RETRYABLE_def exc_matches_def)
  then show ?thesis
    using retry_stops_at_fatal [of "demo_engine 3" "flaky 9 (TypeError ''argument'')" demo_world 0
        "TypeError ''argument''" "\<lambda>_. 0"]
    by (simp add: transient_def demo_world_def flaky_def)
      (auto simp: demo_engine_def mk_engine_def)
qed

text \<open>
  Exhaustion. When every call raises an exception that is retried, the function runs exactly
  once more than the number of retries, naps between the calls and not after the last one, raises
  the last exception and counts one retry failure.
\<close>

theorem retry_exhaustion:
  assumes "0 \<le> max_retries eng"
    and "transient eng func (callee w) (Suc (nat (max_retries eng)))"
  shows "\<exists>e. nth_outcome func (callee w) (nat (max_retries eng)) = Inl e \<and>
     fst (execute eng draws func w) = Raised e \<and>
     callee (snd (execute eng draws func w)) =
       state_after func (callee w) (Suc (nat (max_retries eng))) \<and>
     length (sleeps (snd (execute eng draws func w))) = length (sleeps w) + nat (max_retries eng) \<and>
     retry_failures (rw_metrics (snd (execute eng draws func w))) = retry_failures (rw_metrics w) + 1"
  by (rule execute_exhausted [OF assms])

theorem retry_exhaustion_witness:
  "fst (execute (demo_engine 2) (\<lambda>_. 0) (flaky 9 (OtherException ''timeout'')) demo_world)
      = Raised (OtherException ''timeout'')
   \<and> callee (snd (execute (demo_engine 2) (\<lambda>_. 0) (flaky 9 (OtherException ''timeout'')) demo_world)) = 3"
proof -
  have n: "max_retries (demo_engine 2) = 2" by (simp add: demo_engine_def mk_engine_def)
  show ?thesis
    using retry_exhaustion [of "demo_engine 2" "flaky 9 (OtherException ''timeout'')" demo_world
        "\<lambda>_. 0"]
    by (simp add: n transient_flaky demo_world_def nth_outcome_flaky state_after_flaky)
qed

text \<open>
  Backoff delays. Every nap is the exponential delay capped at the maximum, plus a jitter of
  at most a tenth: it is never negative and never above 1.1 times the maximum delay.
\<close>

theorem backoff_bounds:
  assumes "0 \<le> initial_delay eng" and "0 \<le> max_delay eng" and "0 \<le> backoff_factor eng"
    and "0 \<le> draw" and "draw \<le> 1"
  shows "0 \<le> compute_delay eng attempt draw
    \<and> min (initial_delay eng * backoff_factor eng ^ attempt) (max_delay eng)
        \<le> compute_delay eng attempt draw
    \<and> compute_delay eng attempt draw \<le> 11 / 10 * max_delay eng"
proof -
  have "0 \<le> min (initial_delay eng * backoff_factor eng ^ attempt) (max_delay eng)"
    using assms by simp
  then have "min (initial_delay eng * backoff_factor eng ^ attempt) (max_delay eng)
        \<le> compute_delay eng attempt draw"
    using assms(4) by (simp add: compute_delay_def Let_def del: min_less_iff_conj)
  with compute_delay_bounds [OF assms] show ?thesis by blast
qed

theorem backoff_bounds_witness: "compute_delay (demo_engine 3) 10 1 \<le> 66"
  using backoff_bounds [of "demo_engine 3" 1 10] by (simp add: demo_engine_def mk_engine_def)

end
