(* ===== verification/Jobs.thy ===== *)
theory Jobs
  imports Store Pagination Retry
begin

text \<open>
  The jobs table and its life cycle: the jobs part of \<^verbatim>\<open>backend/database/crud.py\<close> and the
  operations of \<^verbatim>\<open>backend/services/job_service.py\<close>. A session hands out objects that cache the
  row they were loaded from, so an operation decides on the cached status and writes only the
  columns it changed; the model keeps that cache. A synchronous session expires it at each commit,
  an asynchronous one (\<^verbatim>\<open>expire_on_commit=False\<close>) does not: the flag \<open>expire\<close> selects the twin.
\<close>

section \<open>Rows, objects and the state\<close>

record job =
  j_user_id :: int
  j_website_id :: "int option"
  j_job_type :: string
  j_status :: string
  j_progress :: int
  j_created_at :: int
  j_started_at :: "int option"
  j_finished_at :: "int option"
  j_updated_at :: int
  j_error_message :: "string option"
  j_result_reference :: "pyval option"

text \<open>An object of the session: its key and the row it has loaded, if that has not expired.\<close>

record job_ref =
  ref_id :: int
  ref_row :: "job option"

record job_update =
  ju_id :: int
  ju_status :: string
  ju_progress :: int
  ju_error :: "string option"
  ju_timestamp :: int

text \<open>The table, the clock in microseconds, and the updates published to Redis if it is there.\<close>

record jobs_world =
  jw_jobs :: "job table"
  jw_now :: int
  jw_pubsub :: bool
  jw_published :: "job_update list"

text \<open>Access to an attribute of an object loads an expired row; a row that is gone raises.\<close>

definition ref_load :: "job_ref \<Rightarrow> jobs_world \<Rightarrow> (job \<times> job_ref) outcome" where
  "ref_load ref w =
     (case ref_row ref of
        Some j \<Rightarrow> Inr (j, ref)
      | None \<Rightarrow>
          (case t_get (jw_jobs w) (ref_id ref) of
             Some j \<Rightarrow> Inr (j, ref\<lparr>ref_row := Some j\<rparr>)
           | None \<Rightarrow> Inl (OtherException ''ObjectDeletedError'')))"

section \<open>CRUD\<close>

definition get_job_by_id_unfiltered :: "jobs_world \<Rightarrow> int \<Rightarrow> job_ref option" where
  "get_job_by_id_unfiltered w jid =
     map_option (\<lambda>(i, r). \<lparr>ref_id = i, ref_row = Some r\<rparr>)
       (t_first (\<lambda>i r. i = jid) (jw_jobs w))"

definition get_user_job_by_id :: "jobs_world \<Rightarrow> int \<Rightarrow> int \<Rightarrow> job_ref option" where
  "get_user_job_by_id w jid uid =
     map_option (\<lambda>(i, r). \<lparr>ref_id = i, ref_row = Some r\<rparr>)
       (t_first (\<lambda>i r. i = jid \<and> j_user_id r = uid) (jw_jobs w))"

text \<open>
  The columns a listing can be sorted by; a name that is not an attribute counts as
  \<^verbatim>\<open>created_at\<close> (attributes that are no columns, as relationships, are outside the model). The
  nullable and the textual columns order as the database does, the parameter
  \<open>db_order\<close>.
\<close>

definition sort_column :: "(string \<Rightarrow> int \<times> job \<Rightarrow> int) \<Rightarrow> string \<Rightarrow> int \<times> job \<Rightarrow> int" where
  "sort_column db_order sort_by =
     (if sort_by = ''id'' then fst
      else if sort_by = ''user_id'' then j_user_id \<circ> snd
      else if sort_by = ''progress'' then j_progress \<circ> snd
      else if sort_by = ''updated_at'' then j_updated_at \<circ> snd
      else if sort_by \<in> {''website_id'', ''job_type'', ''status'', ''started_at'', ''finished_at'',
                        ''error_message'', ''result_reference''} then db_order sort_by
      else j_created_at \<circ> snd)"

definition get_user_jobs ::
  "(string \<Rightarrow> int \<times> job \<Rightarrow> int) \<Rightarrow> jobs_world \<Rightarrow> int \<Rightarrow> string option \<Rightarrow> string option
     \<Rightarrow> int option \<Rightarrow> int \<Rightarrow> int \<Rightarrow> string \<Rightarrow> string \<Rightarrow> (int \<times> job) list" where
  "get_user_jobs db_order w uid job_type status website_id skip limit sort_by order =
     (let rows = t_where (\<lambda>i j. j_user_id j = uid
                   \<and> (\<not> truthy job_type \<or> j_job_type j = the job_type)
                   \<and> (\<not> truthy status \<or> j_status j = the status)
                   \<and> (website_id = None \<or> j_website_id j = website_id)) (jw_jobs w)
      in paginate skip limit 100 (order_rows (sort_column db_order sort_by) (is_asc order) rows))"

definition get_user_jobs_cursor ::
  "(string \<Rightarrow> bool \<Rightarrow> (int \<times> job) list \<Rightarrow> ((int \<times> job) list) outcome) \<Rightarrow> jobs_world \<Rightarrow> int
     \<Rightarrow> string option \<Rightarrow> int \<Rightarrow> string
     \<Rightarrow> ((int \<times> job) list \<times> string option \<times> bool) outcome" where
  "get_user_jobs_cursor text_cmp w uid cursor limit order =
     cursor_paginate text_cmp fst (t_where (\<lambda>i j. j_user_id j = uid) (jw_jobs w)) cursor limit 100
       order"

definition new_job :: "int \<Rightarrow> string \<Rightarrow> int option \<Rightarrow> pyval option \<Rightarrow> int \<Rightarrow> job" where
  "new_job uid job_type website_id result now =
     \<lparr>j_user_id = uid, j_website_id = website_id, j_job_type = job_type,
      j_status = ''pending'', j_progress = 0, j_created_at = now, j_started_at = None,
      j_finished_at = None, j_updated_at = now, j_error_message = None,
      j_result_reference = result\<rparr>"

definition crud_create_job ::
  "int \<Rightarrow> string \<Rightarrow> int option \<Rightarrow> pyval option \<Rightarrow> jobs_world \<Rightarrow> job_ref \<times> jobs_world" where
  "crud_create_job uid job_type website_id result w =
     (let j = new_job uid job_type website_id result (jw_now w);
          (i, t) = t_insert j (jw_jobs w)
      in (\<lparr>ref_id = i, ref_row = Some j\<rparr>, w\<lparr>jw_jobs := t\<rparr>))"

text \<open>The arguments of \<^verbatim>\<open>update_job\<close>: \<^const>\<open>None\<close> leaves the column alone.\<close>

record job_changes =
  c_status :: "string option"
  c_progress :: "int option"
  c_error_message :: "string option"
  c_result_reference :: "pyval option"
  c_started_at :: "int option"
  c_finished_at :: "int option"

definition no_changes :: job_changes where
  "no_changes = \<lparr>c_status = None, c_progress = None, c_error_message = None,
     c_result_reference = None, c_started_at = None, c_finished_at = None\<rparr>"

definition set_opt :: "'a option \<Rightarrow> 'a \<Rightarrow> 'a" where
  "set_opt c old = (case c of None \<Rightarrow> old | Some v \<Rightarrow> v)"

text \<open>Assigning the attributes and \<^verbatim>\<open>updated_at\<close>.\<close>

definition apply_changes :: "job_changes \<Rightarrow> int \<Rightarrow> job \<Rightarrow> job" where
  "apply_changes c now j =
     j\<lparr>j_status := set_opt (c_status c) (j_status j),
       j_progress := set_opt (c_progress c) (j_progress j),
       j_error_message := (case c_error_message c of None \<Rightarrow> j_error_message j | m \<Rightarrow> m),
       j_result_reference := (case c_result_reference c of None \<Rightarrow> j_result_reference j | v \<Rightarrow> v),
       j_started_at := (case c_started_at c of None \<Rightarrow> j_started_at j | t \<Rightarrow> t),
       j_finished_at := (case c_finished_at c of None \<Rightarrow> j_finished_at j | t \<Rightarrow> t),
       j_updated_at := now\<rparr>"

text \<open>
  The flush writes the columns whose new value differs from the loaded one; on an expired object
  every assigned column is written.
\<close>

definition drop_same :: "'a option \<Rightarrow> 'a option \<Rightarrow> 'a option" where
  "drop_same c old = (if c = old then None else c)"

definition net_changes :: "job_changes \<Rightarrow> job option \<Rightarrow> job_changes" where
  "net_changes c loaded =
     (case loaded of
        None \<Rightarrow> c
      | Some j \<Rightarrow>
          \<lparr>c_status = drop_same (c_status c) (Some (j_status j)),
           c_progress = drop_same (c_progress c) (Some (j_progress j)),
           c_error_message = drop_same (c_error_message c) (j_error_message j),
           c_result_reference = drop_same (c_result_reference c) (j_result_reference j),
           c_started_at = drop_same (c_started_at c) (j_started_at j),
           c_finished_at = drop_same (c_finished_at c) (j_finished_at j)\<rparr>)"

text \<open>
  \<^verbatim>\<open>update_job\<close> with its commit. An update of a row that is gone raises, unless nothing has to be
  written.
\<close>

definition crud_update_job ::
  "bool \<Rightarrow> job_changes \<Rightarrow> job_ref \<Rightarrow> jobs_world \<Rightarrow> job_ref outcome \<times> jobs_world" where
  "crud_update_job expire c ref w =
     (let net = net_changes c (ref_row ref);
          after = (if expire then None
                   else map_option (apply_changes c (jw_now w)) (ref_row ref));
          clean = (case ref_row ref of
                     None \<Rightarrow> False
                   | Some j \<Rightarrow> net = no_changes \<and> j_updated_at j = jw_now w)
      in case t_get (jw_jobs w) (ref_id ref) of
           None \<Rightarrow>
             if clean then (Inr (ref\<lparr>ref_row := after\<rparr>), w)
             else (Inl (OtherException ''StaleDataError''), w)
         | Some row \<Rightarrow>
             (Inr (ref\<lparr>ref_row := after\<rparr>),
              if clean then w
              else w\<lparr>jw_jobs := t_put (ref_id ref) (apply_changes net (jw_now w) row) (jw_jobs w)\<rparr>))"

definition delete_job_instance :: "job_ref \<Rightarrow> jobs_world \<Rightarrow> jobs_world" where
  "delete_job_instance ref w = w\<lparr>jw_jobs := t_delete (ref_id ref) (jw_jobs w)\<rparr>"

definition delete_user_job :: "int \<Rightarrow> int \<Rightarrow> jobs_world \<Rightarrow> bool \<times> jobs_world" where
  "delete_user_job jid uid w =
     (case get_user_job_by_id w jid uid of
        None \<Rightarrow> (False, w)
      | Some ref \<Rightarrow> (True, delete_job_instance ref w))"

definition get_stale_jobs :: "int \<Rightarrow> jobs_world \<Rightarrow> (int \<times> job) list" where
  "get_stale_jobs max_age_seconds w =
     (let cutoff = jw_now w - max_age_seconds * 1000000
      in t_where (\<lambda>i j. j_status j \<in> {''running'', ''pending''} \<and> j_updated_at j < cutoff)
           (jw_jobs w))"

definition bulk_update_jobs_status ::
  "int list \<Rightarrow> string \<Rightarrow> int option \<Rightarrow> string option \<Rightarrow> jobs_world \<Rightarrow> nat \<times> jobs_world" where
  "bulk_update_jobs_status job_ids status progress error_message w =
     (if job_ids = [] then (0, w)
      else
        (length (t_where (\<lambda>i j. i \<in> set job_ids) (jw_jobs w)),
         w\<lparr>jw_jobs := t_update_where (\<lambda>i j. i \<in> set job_ids)
             (apply_changes (no_changes\<lparr>c_status := Some status, c_progress := progress,
                                       c_error_message := error_message\<rparr>) (jw_now w))
             (jw_jobs w)\<rparr>))"

section \<open>The service\<close>

text \<open>
  An argument \<^verbatim>\<open>job\<close> is an object or a key. A key is looked up; the session that does so has no
  unexpired object of that key in every caller of the program, so the lookup loads the row.
\<close>

datatype job_arg = JObj job_ref | JId int

definition resolve_job :: "job_arg \<Rightarrow> int \<Rightarrow> jobs_world \<Rightarrow> job_ref option" where
  "resolve_job arg uid w =
     (case arg of JObj ref \<Rightarrow> Some ref | JId jid \<Rightarrow> get_user_job_by_id w jid uid)"

definition publish_job_update :: "job_ref \<Rightarrow> job \<Rightarrow> string option \<Rightarrow> jobs_world \<Rightarrow> jobs_world" where
  "publish_job_update ref j err w =
     (if jw_pubsub w
      then w\<lparr>jw_published := jw_published w @
               [\<lparr>ju_id = ref_id ref, ju_status = j_status j, ju_progress = j_progress j,
                 ju_error = err, ju_timestamp = jw_now w\<rparr>]\<rparr>
      else w)"

text \<open>
  What the operations share: resolve the argument, return the object when its status is one of
  \<open>stop\<close>, otherwise update it, read it back for the log line or the message, publish.
\<close>

definition service_update ::
  "bool \<Rightarrow> string list \<Rightarrow> (job \<Rightarrow> job_changes) \<Rightarrow> bool \<Rightarrow> string option \<Rightarrow> job_arg \<Rightarrow> int
     \<Rightarrow> jobs_world \<Rightarrow> job_ref option outcome \<times> jobs_world" where
  "service_update expire stop ch pub err arg uid w =
     (case resolve_job arg uid w of
        None \<Rightarrow> (Inr None, w)
      | Some ref \<Rightarrow>
          (case ref_load ref w of
             Inl e \<Rightarrow> (Inl e, w)
           | Inr (j, ref1) \<Rightarrow>
               if j_status j \<in> set stop then (Inr (Some ref1), w)
               else
                 (case crud_update_job expire (ch j) ref1 w of
                    (Inl e, w1) \<Rightarrow> (Inl e, w1)
                  | (Inr ref2, w1) \<Rightarrow>
                      (case ref_load ref2 w1 of
                         Inl e \<Rightarrow> (Inl e, w1)
                       | Inr (j2, ref3) \<Rightarrow>
                           (Inr (Some ref3),
                            if pub then publish_job_update ref3 j2 err w1 else w1)))))"

definition start_job ::
  "bool \<Rightarrow> job_arg \<Rightarrow> int \<Rightarrow> jobs_world \<Rightarrow> job_ref option outcome \<times> jobs_world" where
  "start_job expire arg uid w =
     service_update expire [''running'', ''completed'', ''cancelled'', ''failed'']
       (\<lambda>j. no_changes\<lparr>c_status := Some ''running'', c_progress := Some 10,
                       c_started_at := Some (jw_now w)\<rparr>)
       True None arg uid w"

definition is_cancelled :: "jobs_world \<Rightarrow> int \<Rightarrow> bool" where
  "is_cancelled w jid =
     (case t_get (jw_jobs w) jid of None \<Rightarrow> True | Some j \<Rightarrow> j_status j = ''cancelled'')"

definition update_progress ::
  "bool \<Rightarrow> job_arg \<Rightarrow> int \<Rightarrow> int \<Rightarrow> string option \<Rightarrow> jobs_world
     \<Rightarrow> job_ref option outcome \<times> jobs_world" where
  "update_progress expire arg uid progress status w =
     service_update expire [''cancelled'', ''completed'', ''failed'']
       (\<lambda>j. no_changes\<lparr>c_status := Some (or_else status (j_status j)),
                       c_progress := Some (max 0 (min 100 progress))\<rparr>)
       True None arg uid w"

definition complete_job ::
  "bool \<Rightarrow> job_arg \<Rightarrow> int \<Rightarrow> pyval option \<Rightarrow> jobs_world \<Rightarrow> job_ref option outcome \<times> jobs_world"
where
  "complete_job expire arg uid result w =
     service_update expire [''cancelled'', ''failed'']
       (\<lambda>j. no_changes\<lparr>c_status := Some ''completed'', c_progress := Some 100,
                       c_finished_at := Some (jw_now w), c_result_reference := result\<rparr>)
       True None arg uid w"

definition fail_job ::
  "bool \<Rightarrow> job_arg \<Rightarrow> int \<Rightarrow> string \<Rightarrow> jobs_world \<Rightarrow> job_ref option outcome \<times> jobs_world" where
  "fail_job expire arg uid msg w =
     service_update expire [''cancelled'', ''completed'']
       (\<lambda>j. no_changes\<lparr>c_status := Some ''failed'', c_finished_at := Some (jw_now w),
                       c_error_message := Some msg\<rparr>)
       True (Some msg) arg uid w"

text \<open>Cancelling tests nothing and publishes nothing.\<close>

definition cancel_job ::
  "bool \<Rightarrow> job_arg \<Rightarrow> int \<Rightarrow> jobs_world \<Rightarrow> job_ref option outcome \<times> jobs_world" where
  "cancel_job expire arg uid w =
     (case resolve_job arg uid w of
        None \<Rightarrow> (Inr None, w)
      | Some ref \<Rightarrow>
          (case crud_update_job expire
                  (no_changes\<lparr>c_status := Some ''cancelled'', c_finished_at := Some (jw_now w)\<rparr>)
                  ref w of
             (Inl e, w1) \<Rightarrow> (Inl e, w1)
           | (Inr ref1, w1) \<Rightarrow>
               (case ref_load ref1 w1 of
                  Inl e \<Rightarrow> (Inl e, w1)
                | Inr (j, ref2) \<Rightarrow> (Inr (Some ref2), w1))))"

text \<open>
  The loop over the stale jobs. The first commit of a synchronous session expires the objects of
  the whole list.
\<close>

fun cleanup_loop :: "bool \<Rightarrow> job_ref list \<Rightarrow> jobs_world \<Rightarrow> nat outcome \<times> jobs_world" where
  "cleanup_loop expire [] w = (Inr 0, w)"
| "cleanup_loop expire (ref # refs) w =
     (case crud_update_job expire
             (no_changes\<lparr>c_status := Some ''failed'', c_finished_at := Some (jw_now w),
                         c_error_message := Some ''Job timed out (stale execution cleanup)''\<rparr>)
             ref w of
        (Inl e, w1) \<Rightarrow> (Inl e, w1)
      | (Inr ref1, w1) \<Rightarrow>
          (case ref_load ref1 w1 of
             Inl e \<Rightarrow> (Inl e, w1)
           | Inr _ \<Rightarrow>
               (case cleanup_loop expire
                       (if expire then map (\<lambda>r. r\<lparr>ref_row := None\<rparr>) refs else refs) w1 of
                  (Inl e, w2) \<Rightarrow> (Inl e, w2)
                | (Inr n, w2) \<Rightarrow> (Inr (Suc n), w2))))"

definition cleanup_stale_jobs :: "bool \<Rightarrow> int \<Rightarrow> jobs_world \<Rightarrow> nat outcome \<times> jobs_world" where
  "cleanup_stale_jobs expire max_age_seconds w =
     cleanup_loop expire
       (map (\<lambda>(i, j). \<lparr>ref_id = i, ref_row = Some j\<rparr>) (get_stale_jobs max_age_seconds w)) w"

definition payload_ref :: "kwargs option \<Rightarrow> pyval option" where
  "payload_ref payload =
     (case payload of
        None \<Rightarrow> None
      | Some [] \<Rightarrow> None
      | Some p \<Rightarrow> Some (PDict [(''payload'', PDict p)]))"

definition create_job ::
  "int \<Rightarrow> string \<Rightarrow> int option \<Rightarrow> kwargs option \<Rightarrow> jobs_world \<Rightarrow> job_ref \<times> jobs_world" where
  "create_job uid job_type website_id payload w =
     crud_create_job uid job_type website_id (payload_ref payload) w"

section \<open>Effect on the table\<close>

abbreviation job_row :: "jobs_world \<Rightarrow> int \<Rightarrow> job option" where
  "job_row w i \<equiv> t_get (jw_jobs w) i"

lemma apply_net_same [simp]:
  "apply_changes (net_changes c (Some j)) now j = apply_changes c now j"
  by (cases j) (auto simp: apply_changes_def net_changes_def drop_same_def set_opt_def
      split: option.splits)

lemma apply_changes_none: "j_updated_at j = now \<Longrightarrow> apply_changes no_changes now j = j"
  by (cases j) (simp add: apply_changes_def no_changes_def set_opt_def)

lemma apply_changes_clean:
  "net_changes c (Some j) = no_changes \<Longrightarrow> j_updated_at j = now \<Longrightarrow> apply_changes c now j = j"
  by (metis apply_changes_none apply_net_same)

lemma apply_changes_simps [simp]:
  "j_user_id (apply_changes c now j) = j_user_id j"
  "j_job_type (apply_changes c now j) = j_job_type j"
  "j_website_id (apply_changes c now j) = j_website_id j"
  "j_created_at (apply_changes c now j) = j_created_at j"
  "j_updated_at (apply_changes c now j) = now"
  "j_status (apply_changes c now j) = set_opt (c_status c) (j_status j)"
  "j_progress (apply_changes c now j) = set_opt (c_progress c) (j_progress j)"
  by (simp_all add: apply_changes_def)

lemma set_opt_simps [simp]: "set_opt None x = x" "set_opt (Some y) x = y"
  by (simp_all add: set_opt_def)

text \<open>An update through an object whose cache agrees with the row.\<close>

lemma crud_update_fresh:
  assumes "job_row w (ref_id ref) = Some j" and "ref_row ref = None \<or> ref_row ref = Some j"
  shows "\<exists>w'. crud_update_job expire c ref w =
      (Inr (ref\<lparr>ref_row := (if expire then None
              else map_option (apply_changes c (jw_now w)) (ref_row ref))\<rparr>), w')
    \<and> t_ok (jw_jobs w') = t_ok (jw_jobs w)
    \<and> jw_now w' = jw_now w \<and> jw_pubsub w' = jw_pubsub w \<and> jw_published w' = jw_published w
    \<and> t_next (jw_jobs w') = t_next (jw_jobs w)
    \<and> job_row w' = (job_row w)(ref_id ref := Some (apply_changes c (jw_now w) j))"
proof -
  have next_put: "t_next (t_put i r t) = t_next t" for i r and t :: "job table"
    by (simp add: t_put_def)
  from assms(2) show ?thesis
  proof
    assume "ref_row ref = None"
    with assms(1) show ?thesis
      by (simp add: crud_update_job_def Let_def net_changes_def fun_eq_iff next_put)
  next
    assume row: "ref_row ref = Some j"
    show ?thesis
    proof (cases "net_changes c (Some j) = no_changes \<and> j_updated_at j = jw_now w")
      case True
      then have "apply_changes c (jw_now w) j = j" by (simp add: apply_changes_clean)
      with True row assms(1) show ?thesis
        by (simp add: crud_update_job_def Let_def fun_upd_idem)
    next
      case False
      with row assms(1) show ?thesis
        by (auto simp: crud_update_job_def Let_def fun_eq_iff next_put)
    qed
  qed
qed

lemma get_user_job_by_id_eq:
  assumes "t_ok (jw_jobs w)"
  shows "get_user_job_by_id w jid uid =
    (case job_row w jid of
       None \<Rightarrow> None
     | Some j \<Rightarrow> if j_user_id j = uid then Some \<lparr>ref_id = jid, ref_row = Some j\<rparr> else None)"
  by (auto simp: get_user_job_by_id_def t_first_key [OF assms] split: option.splits)

text \<open>
  The effect of an operation on the table, by key: the row of that key, if the user owns it and
  its status is not one of \<open>stop\<close>, is changed; nothing else is.
\<close>

definition acts_on :: "string list \<Rightarrow> int \<Rightarrow> jobs_world \<Rightarrow> int \<Rightarrow> job option" where
  "acts_on stop uid w jid =
     (case job_row w jid of
        None \<Rightarrow> None
      | Some j \<Rightarrow> if j_user_id j = uid \<and> j_status j \<notin> set stop then Some j else None)"

lemma ref_load_Some [simp]: "ref_row ref = Some j \<Longrightarrow> ref_load ref w = Inr (j, ref)"
  by (simp add: ref_load_def)

lemma publish_frame [simp]:
  "jw_jobs (publish_job_update ref j err w) = jw_jobs w"
  "jw_now (publish_job_update ref j err w) = jw_now w"
  "jw_pubsub (publish_job_update ref j err w) = jw_pubsub w"
  by (simp_all add: publish_job_update_def)

lemma after_update_load:
  assumes "job_row w' (ref_id ref) = Some (apply_changes c now j)" and "ref_row ref = Some j"
  shows "\<exists>ref'. ref_load (ref\<lparr>ref_row := (if expire then None
            else map_option (apply_changes c now) (ref_row ref))\<rparr>) w'
           = Inr (apply_changes c now j, ref') \<and> ref_id ref' = ref_id ref
           \<and> ref_row ref' = Some (apply_changes c now j)"
  using assms by (auto simp: ref_load_def)

lemma service_update_by_ref:
  assumes ok: "t_ok (jw_jobs w)" and res: "resolve_job arg uid w = Some ref"
    and row: "ref_row ref = Some j" "job_row w (ref_id ref) = Some j"
    and go: "j_status j \<notin> set stop"
  shows "\<exists>ref' w'. service_update expire stop ch pub err arg uid w = (Inr (Some ref'), w')
    \<and> ref_id ref' = ref_id ref \<and> ref_row ref' = Some (apply_changes (ch j) (jw_now w) j)
    \<and> t_ok (jw_jobs w') \<and> jw_now w' = jw_now w \<and> jw_pubsub w' = jw_pubsub w
    \<and> t_next (jw_jobs w') = t_next (jw_jobs w)
    \<and> job_row w' = (job_row w)(ref_id ref := Some (apply_changes (ch j) (jw_now w) j))
    \<and> jw_published w' = jw_published w @
        (if pub \<and> jw_pubsub w
         then [\<lparr>ju_id = ref_id ref, ju_status = set_opt (c_status (ch j)) (j_status j),
                ju_progress = set_opt (c_progress (ch j)) (j_progress j), ju_error = err,
                ju_timestamp = jw_now w\<rparr>] else [])"
proof -
  obtain w1 where w1: "crud_update_job expire (ch j) ref w =
      (Inr (ref\<lparr>ref_row := (if expire then None
              else map_option (apply_changes (ch j) (jw_now w)) (ref_row ref))\<rparr>), w1)"
    "t_ok (jw_jobs w1) = t_ok (jw_jobs w)" "jw_now w1 = jw_now w" "jw_pubsub w1 = jw_pubsub w"
    "jw_published w1 = jw_published w" "t_next (jw_jobs w1) = t_next (jw_jobs w)"
    "job_row w1 = (job_row w)(ref_id ref := Some (apply_changes (ch j) (jw_now w) j))"
    using crud_update_fresh [OF row(2), of expire "ch j"] row(1) by blast
  obtain ref' where ref': "ref_load (ref\<lparr>ref_row := (if expire then None
            else map_option (apply_changes (ch j) (jw_now w)) (ref_row ref))\<rparr>) w1
           = Inr (apply_changes (ch j) (jw_now w) j, ref')" "ref_id ref' = ref_id ref"
    "ref_row ref' = Some (apply_changes (ch j) (jw_now w) j)"
    using after_update_load [of w1 ref "ch j" "jw_now w" j expire] row w1(7) by auto
  show ?thesis
    using ok go w1 ref' by (simp add: service_update_def res row(1) publish_job_update_def)
qed

lemma service_update_by_id:
  assumes "t_ok (jw_jobs w)"
  shows "\<exists>res w'. service_update expire stop ch pub err (JId jid) uid w = (Inr res, w')
    \<and> t_ok (jw_jobs w') \<and> t_next (jw_jobs w') = t_next (jw_jobs w)
    \<and> job_row w' =
        (case acts_on stop uid w jid of
           None \<Rightarrow> job_row w
         | Some j \<Rightarrow> (job_row w)(jid := Some (apply_changes (ch j) (jw_now w) j)))"
proof (cases "acts_on stop uid w jid")
  case None
  then show ?thesis using assms
    by (auto simp: acts_on_def service_update_def resolve_job_def get_user_job_by_id_eq
        split: option.splits if_splits)
next
  case (Some j)
  then have row: "job_row w jid = Some j" and own: "j_user_id j = uid" and go: "j_status j \<notin> set stop"
    by (auto simp: acts_on_def split: option.splits if_splits)
  have "resolve_job (JId jid) uid w = Some \<lparr>ref_id = jid, ref_row = Some j\<rparr>"
    by (simp add: resolve_job_def get_user_job_by_id_eq [OF assms] row own)
  from service_update_by_ref [OF assms this, of j stop expire ch pub err] row go Some
  show ?thesis by auto
qed

lemma cancel_job_by_id:
  assumes "t_ok (jw_jobs w)"
  shows "\<exists>res w'. cancel_job expire (JId jid) uid w = (Inr res, w')
    \<and> t_ok (jw_jobs w') \<and> t_next (jw_jobs w') = t_next (jw_jobs w)
    \<and> job_row w' =
        (case acts_on [] uid w jid of
           None \<Rightarrow> job_row w
         | Some j \<Rightarrow> (job_row w)(jid := Some (apply_changes
              (no_changes\<lparr>c_status := Some ''cancelled'', c_finished_at := Some (jw_now w)\<rparr>)
              (jw_now w) j)))"
proof (cases "acts_on [] uid w jid")
  case None
  then show ?thesis using assms
    by (auto simp: acts_on_def cancel_job_def resolve_job_def get_user_job_by_id_eq
        split: option.splits if_splits)
next
  case (Some j)
  then have row: "job_row w jid = Some j" and own: "j_user_id j = uid"
    by (auto simp: acts_on_def split: option.splits if_splits)
  let ?c = "no_changes\<lparr>c_status := Some ''cancelled'', c_finished_at := Some (jw_now w)\<rparr>"
  let ?ref = "\<lparr>ref_id = jid, ref_row = Some j\<rparr>"
  obtain w1 where w1: "crud_update_job expire ?c ?ref w =
      (Inr (?ref\<lparr>ref_row := (if expire then None
              else map_option (apply_changes ?c (jw_now w)) (ref_row ?ref))\<rparr>), w1)"
    "t_ok (jw_jobs w1) = t_ok (jw_jobs w)" "t_next (jw_jobs w1) = t_next (jw_jobs w)"
    "job_row w1 = (job_row w)(ref_id ?ref := Some (apply_changes ?c (jw_now w) j))"
    using crud_update_fresh [of w ?ref j expire ?c] row by auto
  obtain ref' where "ref_load (?ref\<lparr>ref_row := (if expire then None
            else map_option (apply_changes ?c (jw_now w)) (ref_row ?ref))\<rparr>) w1
           = Inr (apply_changes ?c (jw_now w) j, ref')"
    using after_update_load [of w1 ?ref ?c "jw_now w" j expire] w1(4) by auto
  with w1 Some assms show ?thesis
    by (simp add: cancel_job_def resolve_job_def get_user_job_by_id_eq row own)
qed

text \<open>The clean-up of stale jobs changes the rows of its list and nothing else.\<close>

definition stale_changes :: "int \<Rightarrow> job_changes" where
  "stale_changes now = no_changes\<lparr>c_status := Some ''failed'', c_finished_at := Some now,
     c_error_message := Some ''Job timed out (stale execution cleanup)''\<rparr>"

lemma cleanup_loop_effect:
  assumes "\<forall>ref\<in>set refs. \<exists>j. job_row w (ref_id ref) = Some j \<and> (ref_row ref = None \<or> ref_row ref = Some j)"
    and "distinct (map ref_id refs)"
  shows "\<exists>w'. cleanup_loop expire refs w = (Inr (length refs), w')
    \<and> t_ok (jw_jobs w') = t_ok (jw_jobs w) \<and> t_next (jw_jobs w') = t_next (jw_jobs w)
    \<and> jw_now w' = jw_now w
    \<and> job_row w' = (\<lambda>i. if i \<in> ref_id ` set refs
         then map_option (apply_changes (stale_changes (jw_now w)) (jw_now w)) (job_row w i)
         else job_row w i)"
  using assms
proof (induction refs arbitrary: w rule: length_induct)
  case (1 refs)
  show ?case
  proof (cases refs)
    case Nil
    then show ?thesis by simp
  next
    case (Cons ref rest)
    with "1.prems"(1) obtain j where row: "job_row w (ref_id ref) = Some j"
      and cache: "ref_row ref = None \<or> ref_row ref = Some j" by auto
    let ?c = "stale_changes (jw_now w)"
    obtain w1 where w1: "crud_update_job expire ?c ref w =
      (Inr (ref\<lparr>ref_row := (if expire then None
              else map_option (apply_changes ?c (jw_now w)) (ref_row ref))\<rparr>), w1)"
      "t_ok (jw_jobs w1) = t_ok (jw_jobs w)" "jw_now w1 = jw_now w"
      "t_next (jw_jobs w1) = t_next (jw_jobs w)"
      "job_row w1 = (job_row w)(ref_id ref := Some (apply_changes ?c (jw_now w) j))"
      using crud_update_fresh [OF row cache, of expire ?c] by blast
    have loads: "\<exists>x. ref_load (ref\<lparr>ref_row := r\<rparr>) w1 = Inr x" for r
      using w1(5) by (simp add: ref_load_def split: option.split)
    let ?rest = "if expire then map (\<lambda>r. r\<lparr>ref_row := None\<rparr>) rest else rest"
    have ids: "map ref_id ?rest = map ref_id rest" by simp
    have set_ids: "ref_id ` set ?rest = ref_id ` set rest" by (auto simp: image_image)
    have fresh: "ref_id ref \<notin> ref_id ` set rest" using "1.prems"(2) Cons by simp
    have pre: "\<forall>r\<in>set ?rest. \<exists>j. job_row w1 (ref_id r) = Some j \<and> (ref_row r = None \<or> ref_row r = Some j)"
    proof
      fix r assume r: "r \<in> set ?rest"
      then obtain r0 where r0: "r0 \<in> set rest" "ref_id r = ref_id r0"
        "ref_row r = None \<or> ref_row r = ref_row r0" by (auto split: if_splits)
      then have "ref_id r0 \<noteq> ref_id ref" using fresh by (metis imageI)
      then show "\<exists>j. job_row w1 (ref_id r) = Some j \<and> (ref_row r = None \<or> ref_row r = Some j)"
        using "1.prems"(1) Cons r0 w1(5) by auto
    qed
    have "length ?rest < length refs" using Cons by simp
    moreover have "distinct (map ref_id ?rest)" using "1.prems"(2) Cons ids by simp
    ultimately obtain w2 where w2: "cleanup_loop expire ?rest w1 = (Inr (length ?rest), w2)"
      "t_ok (jw_jobs w2) = t_ok (jw_jobs w1)" "t_next (jw_jobs w2) = t_next (jw_jobs w1)"
      "jw_now w2 = jw_now w1"
      "job_row w2 = (\<lambda>i. if i \<in> ref_id ` set ?rest
         then map_option (apply_changes (stale_changes (jw_now w1)) (jw_now w1)) (job_row w1 i)
         else job_row w1 i)"
      using "1.IH" pre by blast
    from loads obtain x where "ref_load (ref\<lparr>ref_row := (if expire then None
            else map_option (apply_changes ?c (jw_now w)) (ref_row ref))\<rparr>) w1 = Inr x" by blast
    with w1(1) w2(1) have "cleanup_loop expire refs w = (Inr (length refs), w2)"
      by (simp add: Cons flip: stale_changes_def)
    then show ?thesis
      using w1 w2 row fresh by (auto simp: Cons set_ids fun_eq_iff)
  qed
qed

lemma cleanup_stale_jobs_effect:
  assumes "t_ok (jw_jobs w)"
  shows "\<exists>n w'. cleanup_stale_jobs expire age w = (Inr n, w')
    \<and> t_ok (jw_jobs w') \<and> t_next (jw_jobs w') = t_next (jw_jobs w) \<and> jw_now w' = jw_now w
    \<and> n = length (get_stale_jobs age w)
    \<and> job_row w' = (\<lambda>i. case job_row w i of None \<Rightarrow> None
        | Some j \<Rightarrow> if j_status j \<in> {''running'', ''pending''} \<and> j_updated_at j < jw_now w - age * 1000000
                    then Some (apply_changes (stale_changes (jw_now w)) (jw_now w) j) else Some j)"
proof -
  let ?refs = "map (\<lambda>(i, j). \<lparr>ref_id = i, ref_row = Some j\<rparr>) (get_stale_jobs age w)"
  have mem: "(i, j) \<in> set (get_stale_jobs age w) \<longleftrightarrow> job_row w i = Some j
      \<and> j_status j \<in> {''running'', ''pending''} \<and> j_updated_at j < jw_now w - age * 1000000" for i j
    by (simp add: get_stale_jobs_def Let_def t_where_iff [OF assms])
  have ids: "map ref_id ?refs = map fst (get_stale_jobs age w)" by (induction "get_stale_jobs age w") auto
  have "distinct (map fst (get_stale_jobs age w))"
    using assms by (auto simp: get_stale_jobs_def Let_def t_where_def t_ok_def distinct_map inj_on_def)
  then have "distinct (map ref_id ?refs)" by (simp only: ids)
  moreover have "\<forall>ref\<in>set ?refs. \<exists>j. job_row w (ref_id ref) = Some j \<and> (ref_row ref = None \<or> ref_row ref = Some j)"
    using mem by auto
  ultimately obtain w' where w': "cleanup_loop expire ?refs w = (Inr (length ?refs), w')"
    "t_ok (jw_jobs w') = t_ok (jw_jobs w)" "t_next (jw_jobs w') = t_next (jw_jobs w)"
    "jw_now w' = jw_now w"
    "job_row w' = (\<lambda>i. if i \<in> ref_id ` set ?refs
         then map_option (apply_changes (stale_changes (jw_now w)) (jw_now w)) (job_row w i)
         else job_row w i)"
    using cleanup_loop_effect [of ?refs w expire] by blast
  have img: "ref_id ` set ?refs = fst ` set (get_stale_jobs age w)" by (force simp: image_iff)
  have "i \<in> fst ` set (get_stale_jobs age w) \<longleftrightarrow> (\<exists>j. (i, j) \<in> set (get_stale_jobs age w))" for i
    by (force simp: image_iff)
  then have "job_row w' = (\<lambda>i. case job_row w i of None \<Rightarrow> None
        | Some j \<Rightarrow> if j_status j \<in> {''running'', ''pending''} \<and> j_updated_at j < jw_now w - age * 1000000
                    then Some (apply_changes (stale_changes (jw_now w)) (jw_now w) j) else Some j)"
    unfolding w'(5) img by (auto simp: mem fun_eq_iff split: option.split)
  with w' assms show ?thesis by (simp add: cleanup_stale_jobs_def)
qed

end
