(* ===== verification/Job_Props.thy ===== *)
theory Job_Props
  imports Jobs
begin

text \<open>
  The life cycle of jobs under any sequence of service calls: what every call keeps, the status
  that is never left, the isolation of the users from each other.
\<close>

section \<open>The service as a machine\<close>

text \<open>
  A call by key from any session, and the passing of time. No caller passes a status to
  \<^verbatim>\<open>update_progress\<close>.
\<close>

datatype job_event =
    EvCreate int string "int option" "kwargs option"
  | EvStart bool int int
  | EvProgress bool int int int
  | EvComplete bool int int "pyval option"
  | EvFail bool int int string
  | EvCancel bool int int
  | EvCleanup bool int
  | EvDelete int int
  | EvTick nat

fun job_step :: "jobs_world \<Rightarrow> job_event \<Rightarrow> jobs_world" where
  "job_step w (EvCreate uid ty wid p) = snd (create_job uid ty wid p w)"
| "job_step w (EvStart x jid uid) = snd (start_job x (JId jid) uid w)"
| "job_step w (EvProgress x jid uid n) = snd (update_progress x (JId jid) uid n None w)"
| "job_step w (EvComplete x jid uid res) = snd (complete_job x (JId jid) uid res w)"
| "job_step w (EvFail x jid uid msg) = snd (fail_job x (JId jid) uid msg w)"
| "job_step w (EvCancel x jid uid) = snd (cancel_job x (JId jid) uid w)"
| "job_step w (EvCleanup x age) = snd (cleanup_stale_jobs x age w)"
| "job_step w (EvDelete jid uid) = snd (delete_user_job jid uid w)"
| "job_step w (EvTick d) = w\<lparr>jw_now := jw_now w + int d\<rparr>"

text \<open>How an event changes the row of a key.\<close>

fun row_after :: "jobs_world \<Rightarrow> job_event \<Rightarrow> int \<Rightarrow> job option \<Rightarrow> job option" where
  "row_after w (EvStart x jid uid) i r =
     (case r of Some j \<Rightarrow>
        if i = jid \<and> j_user_id j = uid \<and> j_status j \<notin> {''running'', ''completed'', ''cancelled'', ''failed''}
        then Some (apply_changes (no_changes\<lparr>c_status := Some ''running'', c_progress := Some 10,
                     c_started_at := Some (jw_now w)\<rparr>) (jw_now w) j)
        else r | None \<Rightarrow> None)"
| "row_after w (EvProgress x jid uid n) i r =
     (case r of Some j \<Rightarrow>
        if i = jid \<and> j_user_id j = uid \<and> j_status j \<notin> {''cancelled'', ''completed'', ''failed''}
        then Some (apply_changes (no_changes\<lparr>c_status := Some (j_status j),
                     c_progress := Some (max 0 (min 100 n))\<rparr>) (jw_now w) j)
        else r | None \<Rightarrow> None)"
| "row_after w (EvComplete x jid uid res) i r =
     (case r of Some j \<Rightarrow>
        if i = jid \<and> j_user_id j = uid \<and> j_status j \<notin> {''cancelled'', ''failed''}
        then Some (apply_changes (no_changes\<lparr>c_status := Some ''completed'', c_progress := Some 100,
                     c_finished_at := Some (jw_now w), c_result_reference := res\<rparr>) (jw_now w) j)
        else r | None \<Rightarrow> None)"
| "row_after w (EvFail x jid uid msg) i r =
     (case r of Some j \<Rightarrow>
        if i = jid \<and> j_user_id j = uid \<and> j_status j \<notin> {''cancelled'', ''completed''}
        then Some (apply_changes (no_changes\<lparr>c_status := Some ''failed'',
                     c_finished_at := Some (jw_now w), c_error_message := Some msg\<rparr>) (jw_now w) j)
        else r | None \<Rightarrow> None)"
| "row_after w (EvCancel x jid uid) i r =
     (case r of Some j \<Rightarrow>
        if i = jid \<and> j_user_id j = uid
        then Some (apply_changes (no_changes\<lparr>c_status := Some ''cancelled'',
                     c_finished_at := Some (jw_now w)\<rparr>) (jw_now w) j)
        else r | None \<Rightarrow> None)"
| "row_after w (EvCleanup x age) i r =
     (case r of Some j \<Rightarrow>
        if j_status j \<in> {''running'', ''pending''} \<and> j_updated_at j < jw_now w - age * 1000000
        then Some (apply_changes (stale_changes (jw_now w)) (jw_now w) j)
        else r | None \<Rightarrow> None)"
| "row_after w (EvDelete jid uid) i r =
     (case r of Some j \<Rightarrow> if i = jid \<and> j_user_id j = uid then None else r | None \<Rightarrow> None)"
| "row_after w (EvTick d) i r = r"
| "row_after w (EvCreate uid ty wid p) i r =
     (if i = t_next (jw_jobs w) then Some (new_job uid ty wid (payload_ref p) (jw_now w)) else r)"

definition table_ok :: "jobs_world \<Rightarrow> bool" where
  "table_ok w \<longleftrightarrow> t_ok (jw_jobs w)"

lemma acts_on_row:
  "(case acts_on stop uid w jid of None \<Rightarrow> job_row w
     | Some j \<Rightarrow> (job_row w)(jid := Some (f j))) i
   = (case job_row w i of
        Some j \<Rightarrow> if i = jid \<and> j_user_id j = uid \<and> j_status j \<notin> set stop then Some (f j) else Some j
      | None \<Rightarrow> None)"
  by (auto simp: acts_on_def split: option.splits)

lemma service_row:
  assumes "table_ok w"
  shows "table_ok (snd (service_update x stop ch pub err (JId jid) uid w))"
    and "t_next (jw_jobs (snd (service_update x stop ch pub err (JId jid) uid w))) = t_next (jw_jobs w)"
    and "job_row (snd (service_update x stop ch pub err (JId jid) uid w)) i =
      (case job_row w i of
         Some j \<Rightarrow> if i = jid \<and> j_user_id j = uid \<and> j_status j \<notin> set stop
                   then Some (apply_changes (ch j) (jw_now w) j) else Some j
       | None \<Rightarrow> None)"
proof -
  obtain res w' where "service_update x stop ch pub err (JId jid) uid w = (Inr res, w')"
    "t_ok (jw_jobs w')" "t_next (jw_jobs w') = t_next (jw_jobs w)"
    "job_row w' = (case acts_on stop uid w jid of None \<Rightarrow> job_row w
         | Some j \<Rightarrow> (job_row w)(jid := Some (apply_changes (ch j) (jw_now w) j)))"
    using service_update_by_id [of w x stop ch pub err jid uid] assms unfolding table_ok_def by blast
  then show "table_ok (snd (service_update x stop ch pub err (JId jid) uid w))"
    and "t_next (jw_jobs (snd (service_update x stop ch pub err (JId jid) uid w))) = t_next (jw_jobs w)"
    and "job_row (snd (service_update x stop ch pub err (JId jid) uid w)) i =
      (case job_row w i of
         Some j \<Rightarrow> if i = jid \<and> j_user_id j = uid \<and> j_status j \<notin> set stop
                   then Some (apply_changes (ch j) (jw_now w) j) else Some j
       | None \<Rightarrow> None)"
    by (simp_all add: table_ok_def acts_on_row)
qed

lemma create_row:
  "snd (create_job uid ty wid p w) =
     w\<lparr>jw_jobs := snd (t_insert (new_job uid ty wid (payload_ref p) (jw_now w)) (jw_jobs w))\<rparr>"
  by (simp add: create_job_def crud_create_job_def t_insert_def Let_def)

lemma job_step_row:
  assumes "table_ok w"
  shows "table_ok (job_step w ev) \<and> t_next (jw_jobs w) \<le> t_next (jw_jobs (job_step w ev))
    \<and> job_row (job_step w ev) i = row_after w ev i (job_row w i)"
proof (cases ev)
  case (EvCreate uid ty wid p)
  have fresh: "t_get (snd (t_insert r (jw_jobs w))) i
      = (if i = t_next (jw_jobs w) then Some r else job_row w i)" for r
    using assms by (simp add: t_get_insert table_ok_def)
  have "t_next (snd (t_insert r (jw_jobs w))) = t_next (jw_jobs w) + 1" for r
    by (simp add: t_insert_def)
  with EvCreate assms show ?thesis
    by (auto simp: create_row table_ok_def t_ok_insert fresh)
next
  case (EvCancel x jid uid)
  obtain res w' where "cancel_job x (JId jid) uid w = (Inr res, w')"
    "t_ok (jw_jobs w')" "t_next (jw_jobs w') = t_next (jw_jobs w)"
    "job_row w' = (case acts_on [] uid w jid of None \<Rightarrow> job_row w
         | Some j \<Rightarrow> (job_row w)(jid := Some (apply_changes
              (no_changes\<lparr>c_status := Some ''cancelled'', c_finished_at := Some (jw_now w)\<rparr>)
              (jw_now w) j)))"
    using cancel_job_by_id [of w x jid uid] assms unfolding table_ok_def by blast
  with EvCancel show ?thesis by (auto simp: table_ok_def acts_on_row split: option.split)
next
  case (EvCleanup x age)
  obtain n w' where "cleanup_stale_jobs x age w = (Inr n, w')" "t_ok (jw_jobs w')"
    "t_next (jw_jobs w') = t_next (jw_jobs w)"
    "job_row w' = (\<lambda>i. case job_row w i of None \<Rightarrow> None
        | Some j \<Rightarrow> if j_status j \<in> {''running'', ''pending''} \<and> j_updated_at j < jw_now w - age * 1000000
                    then Some (apply_changes (stale_changes (jw_now w)) (jw_now w) j) else Some j)"
    using cleanup_stale_jobs_effect [of w x age] assms unfolding table_ok_def by blast
  with EvCleanup show ?thesis by (auto simp: table_ok_def split: option.split)
next
  case (EvDelete jid uid)
  have "t_next (t_delete jid t) = t_next t" for t :: "job table" by (simp add: t_delete_def)
  with EvDelete assms show ?thesis
    by (auto simp: delete_user_job_def delete_job_instance_def table_ok_def get_user_job_by_id_eq
        t_ok_delete split: option.split)
qed (use assms in \<open>auto simp: start_job_def update_progress_def complete_job_def fail_job_def
      table_ok_def service_row [unfolded table_ok_def] split: option.split\<close>)

section \<open>Invariants of runs\<close>

interpretation job_table: owned_table t_get t_insert t_put t_delete t_ok j_user_id
  by unfold_locales

lemma get_user_job_view:
  "t_ok (jw_jobs w) \<Longrightarrow> get_user_job_by_id w i uid =
     map_option (\<lambda>j. \<lparr>ref_id = i, ref_row = Some j\<rparr>) (job_table.view uid (jw_jobs w) i)"
  by (simp add: get_user_job_by_id_eq job_table.view_def job_table.user_get_def split: option.split)

lemma delete_user_job_locale:
  "t_ok (jw_jobs w) \<Longrightarrow> delete_user_job i uid w =
     (case job_table.user_delete uid i (jw_jobs w) of (ok, t) \<Rightarrow> (ok, w\<lparr>jw_jobs := t\<rparr>))"
  by (auto simp: delete_user_job_def delete_job_instance_def get_user_job_by_id_eq
      job_table.user_delete_def job_table.user_get_def split: option.split)

text \<open>
  What holds of every row: progress is a percentage, a completed job is at 100 and has a finish
  time, so has a failed and a cancelled one, and the status is one of five.
\<close>

definition job_ok :: "job \<Rightarrow> bool" where
  "job_ok j \<longleftrightarrow> 0 \<le> j_progress j \<and> j_progress j \<le> 100
     \<and> j_status j \<in> {''pending'', ''running'', ''completed'', ''failed'', ''cancelled''}
     \<and> (j_status j = ''completed'' \<longrightarrow> j_progress j = 100)
     \<and> (j_status j = ''running'' \<longrightarrow> j_started_at j \<noteq> None)
     \<and> (j_status j \<in> {''completed'', ''failed'', ''cancelled''} \<longrightarrow> j_finished_at j \<noteq> None)"

definition jobs_ok :: "jobs_world \<Rightarrow> bool" where
  "jobs_ok w \<longleftrightarrow> table_ok w \<and> (\<forall>i j. job_row w i = Some j \<longrightarrow> job_ok j)"

lemma job_ok_new: "job_ok (new_job uid ty wid res now)"
  by (simp add: job_ok_def new_job_def)

lemma job_ok_apply:
  assumes "job_ok j"
    and "0 \<le> set_opt (c_progress c) 0" and "set_opt (c_progress c) 0 \<le> 100"
    and "c_status c = Some s" and "s \<in> {''running'', ''completed'', ''failed'', ''cancelled''}"
    and "s = ''completed'' \<longrightarrow> c_progress c = Some 100"
    and "s = ''running'' \<longrightarrow> c_started_at c \<noteq> None"
    and "s \<noteq> ''running'' \<longrightarrow> c_finished_at c \<noteq> None"
  shows "job_ok (apply_changes c now j)"
proof -
  have "0 \<le> j_progress (apply_changes c now j) \<and> j_progress (apply_changes c now j) \<le> 100"
    using assms(1-3) by (cases "c_progress c") (simp_all add: job_ok_def)
  moreover have "j_status (apply_changes c now j) = s" using assms(4) by simp
  ultimately show ?thesis
    using assms(5-8) by (auto simp: job_ok_def apply_changes_def split: option.split)
qed

lemma job_ok_progress:
  assumes "job_ok j" and "j_status j \<notin> {''cancelled'', ''completed'', ''failed''}"
  shows "job_ok (apply_changes (no_changes\<lparr>c_status := Some (j_status j),
                   c_progress := Some (max 0 (min 100 n))\<rparr>) now j)"
  using assms by (simp add: job_ok_def apply_changes_def no_changes_def)

lemma row_after_ok:
  assumes "\<And>j. r = Some j \<Longrightarrow> job_ok j" and "row_after w ev i r = Some j'"
  shows "job_ok j'"
proof (cases ev)
  case (EvProgress x jid uid n)
  with assms show ?thesis
    by (cases r) (auto intro!: job_ok_progress split: if_splits)
next
  case (EvCreate uid ty wid p)
  with assms show ?thesis by (auto simp: job_ok_new split: if_splits)
next
  case (EvCleanup x age)
  with assms show ?thesis
    by (cases r) (auto intro!: job_ok_apply simp: stale_changes_def no_changes_def split: if_splits)
qed (use assms in \<open>cases r; auto intro!: job_ok_apply simp: no_changes_def split: if_splits\<close>)+

lemma job_step_ok: "jobs_ok w \<Longrightarrow> jobs_ok (job_step w ev)"
proof -
  assume ok: "jobs_ok w"
  have "job_ok j" if "job_row (job_step w ev) i = Some j" for i j
  proof (rule row_after_ok)
    show "row_after w ev i (job_row w i) = Some j"
      using job_step_row [of w ev i] ok that by (simp add: jobs_ok_def)
    show "\<And>j. job_row w i = Some j \<Longrightarrow> job_ok j" using ok by (simp add: jobs_ok_def)
  qed
  then show "jobs_ok (job_step w ev)"
    using job_step_row [of w ev] ok by (simp add: jobs_ok_def)
qed

lemma row_key: "table_ok w \<Longrightarrow> job_row w i = Some j \<Longrightarrow> i < t_next (jw_jobs w)"
  using t_get_fresh [of "jw_jobs w" i] unfolding table_ok_def by (metis linorder_not_le option.discI)

interpretation job_run: machine job_step jobs_ok
  by unfold_locales (rule job_step_ok)

text \<open>A job that exists and is cancelled, or is gone: what \<^verbatim>\<open>is_cancelled\<close> reports.\<close>

lemma row_after_cancelled:
  assumes "case r of None \<Rightarrow> True | Some j \<Rightarrow> j_status j = ''cancelled''" and "i < t_next (jw_jobs w)"
  shows "case row_after w ev i r of None \<Rightarrow> True | Some j \<Rightarrow> j_status j = ''cancelled''"
  using assms by (cases ev; cases r) (auto simp: apply_changes_def no_changes_def)

lemma job_step_cancelled:
  assumes "table_ok s" and "i < t_next (jw_jobs s)" and "is_cancelled s i"
  shows "is_cancelled (job_step s ev) i"
  using job_step_row [OF assms(1), of ev i] assms row_after_cancelled [of "job_row s i" i s ev]
  by (simp add: is_cancelled_def)

interpretation cancelled: absorbing_machine job_step
  "\<lambda>w. table_ok w \<and> i < t_next (jw_jobs w)" "\<lambda>w. is_cancelled w i" for i
proof
  fix s ev
  assume inv: "table_ok s \<and> i < t_next (jw_jobs s)"
  then show "table_ok (job_step s ev) \<and> i < t_next (jw_jobs (job_step s ev))"
    using job_step_row [of s ev i] by auto
  assume "is_cancelled s i"
  with inv show "is_cancelled (job_step s ev) i" using job_step_cancelled by blast
qed

text \<open>
  The same calls with an object of the session instead of a key, as the runners make them, with any
  status for \<^verbatim>\<open>update_progress\<close>, and the deletion of an object.
\<close>

datatype job_call =
    ByKey job_event
  | StartObj bool job_ref int
  | ProgressArg bool job_arg int int "string option"
  | CompleteObj bool job_ref int "pyval option"
  | FailObj bool job_ref int string
  | CancelObj bool job_ref int
  | DeleteObj job_ref

fun job_call_step :: "jobs_world \<Rightarrow> job_call \<Rightarrow> jobs_world" where
  "job_call_step w (ByKey ev) = job_step w ev"
| "job_call_step w (StartObj x ref uid) = snd (start_job x (JObj ref) uid w)"
| "job_call_step w (ProgressArg x arg uid n st) = snd (update_progress x arg uid n st w)"
| "job_call_step w (CompleteObj x ref uid res) = snd (complete_job x (JObj ref) uid res w)"
| "job_call_step w (FailObj x ref uid msg) = snd (fail_job x (JObj ref) uid msg w)"
| "job_call_step w (CancelObj x ref uid) = snd (cancel_job x (JObj ref) uid w)"
| "job_call_step w (DeleteObj ref) = delete_job_instance ref w"

text \<open>
  An object sees that job \<open>i\<close> is cancelled when it is of another job, has expired, or has loaded the
  row since the cancellation.
\<close>

definition sees_cancelled :: "int \<Rightarrow> job_ref \<Rightarrow> bool" where
  "sees_cancelled i ref \<longleftrightarrow> ref_id ref = i \<longrightarrow>
     (case ref_row ref of None \<Rightarrow> True | Some j \<Rightarrow> j_status j = ''cancelled'')"

fun call_sees :: "int \<Rightarrow> job_call \<Rightarrow> bool" where
  "call_sees i (StartObj x ref uid) = sees_cancelled i ref"
| "call_sees i (ProgressArg x (JObj ref) uid n st) = sees_cancelled i ref"
| "call_sees i (CompleteObj x ref uid res) = sees_cancelled i ref"
| "call_sees i (FailObj x ref uid msg) = sees_cancelled i ref"
| "call_sees i _ = True"

lemma crud_update_frame:
  "t_ok (jw_jobs (snd (crud_update_job x c ref w))) = t_ok (jw_jobs w)"
  "t_next (jw_jobs (snd (crud_update_job x c ref w))) = t_next (jw_jobs w)"
  "ref_id ref \<noteq> i \<Longrightarrow> job_row (snd (crud_update_job x c ref w)) i = job_row w i"
  "job_row w i = None \<Longrightarrow> job_row (snd (crud_update_job x c ref w)) i = None"
  by (auto simp: crud_update_job_def Let_def t_put_def split: option.split)
    (auto simp flip: t_put_def)

lemma is_cancelled_publish [simp]: "is_cancelled (publish_job_update ref j err w) i = is_cancelled w i"
  by (simp add: is_cancelled_def)

lemma service_update_frame:
  assumes "table_ok w"
  shows "table_ok (snd (service_update x stop ch pub err arg uid w))
    \<and> t_next (jw_jobs (snd (service_update x stop ch pub err arg uid w))) = t_next (jw_jobs w)"
proof -
  have "crud_update_job x c ref w = (r, w1) \<Longrightarrow> t_ok (jw_jobs w1) \<and> t_next (jw_jobs w1) = t_next (jw_jobs w)" for c ref r w1
    using crud_update_frame(1,2) [of x c ref w] assms by (simp add: table_ok_def)
  then show ?thesis
    using assms by (auto simp: table_ok_def service_update_def split: option.split sum.split prod.split)
qed

lemma service_update_cancelled:
  assumes "table_ok w" and "''cancelled'' \<in> set stop" and "is_cancelled w i"
    and "\<And>ref. arg = JObj ref \<Longrightarrow> sees_cancelled i ref"
  shows "is_cancelled (snd (service_update x stop ch pub err arg uid w)) i"
proof (cases "resolve_job arg uid w")
  case (Some ref)
  have sees: "sees_cancelled i ref"
    using Some assms by (cases arg)
      (auto simp: resolve_job_def sees_cancelled_def get_user_job_by_id_eq table_ok_def is_cancelled_def
        split: option.splits if_splits)
  show ?thesis
  proof (cases "ref_load ref w")
    case (Inr jr)
    obtain j ref1 where jr: "jr = (j, ref1)" by (cases jr)
    show ?thesis
    proof (cases "j_status j \<in> set stop")
      case False
      have "ref_id ref \<noteq> i"
        using Inr jr sees False assms(2,3)
        by (auto simp: ref_load_def sees_cancelled_def is_cancelled_def split: option.splits)
      then have "ref_id ref1 \<noteq> i" using Inr jr by (auto simp: ref_load_def split: option.splits)
      then have "is_cancelled (snd (crud_update_job x (ch j) ref1 w)) i"
        using crud_update_frame(3) [of ref1 i x "ch j" w] assms(3) by (simp add: is_cancelled_def)
      then show ?thesis
        using Some Inr jr False
        by (auto simp: service_update_def split: option.split sum.split prod.split)
    qed (use Some Inr jr assms(3) in \<open>simp add: service_update_def\<close>)
  qed (use Some assms(3) in \<open>simp add: service_update_def\<close>)
qed (use assms(3) in \<open>simp add: service_update_def\<close>)

lemma cancel_obj_cancelled:
  assumes "is_cancelled w i"
  shows "is_cancelled (snd (cancel_job x (JObj ref) uid w)) i"
proof -
  let ?c = "no_changes\<lparr>c_status := Some ''cancelled'', c_finished_at := Some (jw_now w)\<rparr>"
  have "is_cancelled (snd (crud_update_job x ?c ref w)) i"
  proof (cases "ref_id ref = i")
    case True
    then show ?thesis
      using assms
      by (auto simp: is_cancelled_def crud_update_job_def Let_def net_changes_def drop_same_def no_changes_def
          split: option.splits)
  qed (use assms crud_update_frame(3) [of ref i x ?c w] in \<open>simp add: is_cancelled_def\<close>)
  then show ?thesis
    by (auto simp: cancel_job_def resolve_job_def split: option.split sum.split prod.split)
qed

interpretation job_calls: machine job_call_step "\<lambda>w. table_ok w \<and> i < t_next (jw_jobs w)" for i
proof
  fix w e assume ok: "table_ok w \<and> i < t_next (jw_jobs w)"
  have cancel: "table_ok (snd (cancel_job x (JObj ref) uid w)) \<and> t_next (jw_jobs (snd (cancel_job x (JObj ref) uid w))) = t_next (jw_jobs w)"
    for x ref uid
  proof -
    have "crud_update_job x c ref w = (r, w1) \<Longrightarrow> t_ok (jw_jobs w1) \<and> t_next (jw_jobs w1) = t_next (jw_jobs w)" for c r w1
      using crud_update_frame(1,2) [of x c ref w] ok by (simp add: table_ok_def)
    then show ?thesis
      using ok by (auto simp: table_ok_def cancel_job_def resolve_job_def split: option.split sum.split prod.split)
  qed
  show "table_ok (job_call_step w e) \<and> i < t_next (jw_jobs (job_call_step w e))"
  proof (cases e)
    case (ByKey ev)
    then show ?thesis using job_step_row [of w ev i] ok by auto
  next
    case (DeleteObj ref)
    then show ?thesis using ok by (simp add: delete_job_instance_def table_ok_def t_ok_delete)
  qed (use ok cancel service_update_frame in
      \<open>auto simp: start_job_def update_progress_def complete_job_def fail_job_def\<close>)
qed

lemma job_call_cancelled:
  assumes "table_ok w" and "i < t_next (jw_jobs w)" and "is_cancelled w i" and "call_sees i e"
  shows "is_cancelled (job_call_step w e) i"
proof (cases e)
  case (ByKey ev)
  then show ?thesis using job_step_cancelled [OF assms(1-3)] by simp
next
  case (ProgressArg x arg uid n st)
  have "\<And>ref. arg = JObj ref \<Longrightarrow> sees_cancelled i ref" using assms(4) ProgressArg by simp
  then show ?thesis
    unfolding ProgressArg job_call_step.simps update_progress_def
    by (intro service_update_cancelled [OF assms(1) _ assms(3)]) simp_all
next
  case (CancelObj x ref uid)
  then show ?thesis using cancel_obj_cancelled [OF assms(3)] by simp
next
  case (DeleteObj ref)
  then show ?thesis using assms(3) by (simp add: delete_job_instance_def is_cancelled_def)
qed (use assms in \<open>auto simp: start_job_def complete_job_def fail_job_def intro!: service_update_cancelled\<close>)

lemma job_calls_cancelled:
  "\<lbrakk>table_ok w; i < t_next (jw_jobs w); is_cancelled w i; list_all (call_sees i) es\<rbrakk>
     \<Longrightarrow> is_cancelled (foldl job_call_step w es) i"
proof (induction es arbitrary: w)
  case (Cons e es)
  have "table_ok (job_call_step w e) \<and> i < t_next (jw_jobs (job_call_step w e))"
    using job_calls.step_inv [of w i e] Cons.prems by simp
  then show ?case using Cons job_call_cancelled [of w i e] by simp
qed simp

text \<open>The user an event acts for, if it acts for one.\<close>

fun actor :: "job_event \<Rightarrow> int option" where
  "actor (EvCreate uid _ _ _) = Some uid"
| "actor (EvStart _ _ uid) = Some uid"
| "actor (EvProgress _ _ uid _) = Some uid"
| "actor (EvComplete _ _ uid _) = Some uid"
| "actor (EvFail _ _ uid _) = Some uid"
| "actor (EvCancel _ _ uid) = Some uid"
| "actor (EvDelete _ uid) = Some uid"
| "actor _ = None"

lemma row_after_other:
  assumes "actor ev = Some uid" and "uid' \<noteq> uid" and "i = t_next (jw_jobs w) \<Longrightarrow> r = None"
  shows "(case row_after w ev i r of None \<Rightarrow> None | Some j \<Rightarrow> if j_user_id j = uid' then Some j else None)
       = (case r of None \<Rightarrow> None | Some j \<Rightarrow> if j_user_id j = uid' then Some j else None)"
  using assms by (cases ev; cases r) (auto simp: new_job_def)

section \<open>Properties\<close>

text \<open>A table with one running job, for the witnesses.\<close>

definition no_jobs :: "jobs_world" where
  "no_jobs = \<lparr>jw_jobs = t_empty, jw_now = 0, jw_pubsub = True, jw_published = []\<rparr>"

definition demo_jobs :: "jobs_world" where
  "demo_jobs = foldl job_step no_jobs [EvCreate 7 ''crawl'' None None, EvStart True 1 7]"

lemma no_jobs_ok: "jobs_ok no_jobs"
  by (simp add: jobs_ok_def table_ok_def no_jobs_def)

lemma demo_jobs_ok: "jobs_ok demo_jobs"
  unfolding demo_jobs_def by (rule job_run.run_inv [OF no_jobs_ok])

lemma demo_jobs_row:
  "job_row demo_jobs 1 = Some (apply_changes (no_changes\<lparr>c_status := Some ''running'',
     c_progress := Some 10, c_started_at := Some 0\<rparr>) 0 (new_job 7 ''crawl'' None None 0))"
  "1 < t_next (jw_jobs demo_jobs)"
proof -
  let ?w = "job_step no_jobs (EvCreate 7 ''crawl'' None None)"
  have ok: "table_ok no_jobs" "table_ok ?w" "table_ok demo_jobs"
    using no_jobs_ok job_step_ok [OF no_jobs_ok] demo_jobs_ok by (simp_all only: jobs_ok_def)
  have "job_row ?w 1 = Some (new_job 7 ''crawl'' None None 0)"
    using job_step_row [OF ok(1), of "EvCreate 7 ''crawl'' None None" 1]
    by (simp add: no_jobs_def t_empty_def payload_ref_def)
  moreover have "jw_now ?w = 0"
    by (simp add: create_row no_jobs_def)
  ultimately show row: "job_row demo_jobs 1 = Some (apply_changes (no_changes\<lparr>c_status := Some ''running'',
     c_progress := Some 10, c_started_at := Some 0\<rparr>) 0 (new_job 7 ''crawl'' None None 0))"
    using job_step_row [OF ok(2), of "EvStart True 1 7" 1]
    unfolding demo_jobs_def foldl.simps by (simp add: new_job_def del: job_step.simps)
  show "1 < t_next (jw_jobs demo_jobs)" by (rule row_key [OF ok(3) row])
qed

text \<open>
  C22: A cancelled job stays cancelled. Once \<^verbatim>\<open>is_cancelled\<close> holds of a key that has been given out,
  because the job was cancelled or deleted, no later sequence of service calls by any user on
  synchronous or asynchronous sessions makes it false again: calls by key, clean-ups, and calls with
  an object of the session, provided that an object of this job that starts, advances, completes or
  fails it has expired or was loaded since the cancellation. (An object that was loaded before decides
  on its old status: \<^verbatim>\<open>complete_job\<close> through it makes a cancelled job a completed one.)
\<close>

theorem cancelled_is_final:
  assumes "table_ok w" and "i < t_next (jw_jobs w)" and "is_cancelled w i" and "list_all (call_sees i) es"
  shows "is_cancelled (foldl job_call_step w es) i"
  by (rule job_calls_cancelled [OF assms])

theorem cancelled_is_final_witness:
  "is_cancelled (foldl job_call_step (job_step demo_jobs (EvCancel False 1 7))
     [ByKey (EvComplete True 1 7 None), FailObj True \<lparr>ref_id = 1, ref_row = None\<rparr> 7 ''late'',
      ProgressArg True (JId 1) 7 50 (Some ''running''), ByKey (EvCleanup True 0)]) 1"
proof (rule cancelled_is_final)
  have ok: "table_ok demo_jobs" using demo_jobs_ok by (simp add: jobs_ok_def)
  note row = job_step_row [OF ok, of "EvCancel False 1 7" 1]
  show "table_ok (job_step demo_jobs (EvCancel False 1 7))" using row by blast
  show "1 < t_next (jw_jobs (job_step demo_jobs (EvCancel False 1 7)))"
    using row demo_jobs_row(2) by linarith
  show "is_cancelled (job_step demo_jobs (EvCancel False 1 7)) 1"
    using row by (simp add: is_cancelled_def demo_jobs_row(1) new_job_def no_changes_def)
qed (simp add: sees_cancelled_def)

text \<open>An object that was loaded before the cancellation loses it.\<close>

lemma stale_object_completes:
  assumes "job_row w i = Some j" and "j_status j = ''cancelled''" and "j_status old = ''running''"
  shows "\<not> is_cancelled (job_call_step w (CompleteObj x \<lparr>ref_id = i, ref_row = Some old\<rparr> uid res)) i"
proof -
  let ?c = "no_changes\<lparr>c_status := Some ''completed'', c_progress := Some 100, c_finished_at := Some (jw_now w),
    c_result_reference := res\<rparr>" and ?ref = "\<lparr>ref_id = i, ref_row = Some old\<rparr>"
  have "c_status (net_changes ?c (Some old)) = Some ''completed''"
    using assms(3) by (simp add: net_changes_def drop_same_def no_changes_def)
  moreover from this have "net_changes ?c (Some old) \<noteq> no_changes" by (auto simp: no_changes_def)
  ultimately have "\<not> is_cancelled (snd (crud_update_job x ?c ?ref w)) i"
    using assms(1) by (simp add: crud_update_job_def Let_def is_cancelled_def)
  then show ?thesis
    using assms(3)
    by (auto simp: complete_job_def service_update_def resolve_job_def split: option.split sum.split prod.split)
qed



definition allowed :: "string \<Rightarrow> string \<Rightarrow> bool" where
  "allowed old new \<longleftrightarrow> new = old
     \<or> old = ''pending'' \<and> new \<in> {''running'', ''completed'', ''failed'', ''cancelled''}
     \<or> old = ''running'' \<and> new \<in> {''completed'', ''failed'', ''cancelled''}
     \<or> old \<in> {''completed'', ''failed''} \<and> new = ''cancelled''"

text \<open>
  Status transitions. Between two calls a job that is neither completed, failed nor cancelled
  keeps its status or moves from pending to running, or to one of these three; a completed or
  failed job can only become cancelled.
\<close>

theorem job_status_transitions:
  assumes "jobs_ok w" and "job_row w i = Some j" and "job_row (job_step w ev) i = Some j'"
  shows "allowed (j_status j) (j_status j')"
proof -
  have "table_ok w" "job_ok j" using assms by (auto simp: jobs_ok_def)
  moreover from this assms(2) have "i < t_next (jw_jobs w)" by (simp add: row_key)
  ultimately show ?thesis
    using assms(2,3) job_step_row [of w ev i]
    by (cases ev) (auto simp: allowed_def job_ok_def apply_changes_def no_changes_def
        stale_changes_def split: if_splits)
qed

theorem job_status_transitions_witness:
  "\<exists>j. job_row (job_step demo_jobs (EvComplete True 1 7 None)) 1 = Some j
     \<and> allowed ''running'' (j_status j) \<and> j_status j = ''completed''"
proof -
  have ok: "table_ok demo_jobs" using demo_jobs_ok by (simp add: jobs_ok_def)
  from job_step_row [OF ok, of "EvComplete True 1 7 None" 1] obtain j where
    j: "job_row (job_step demo_jobs (EvComplete True 1 7 None)) 1 = Some j"
       "j_status j = ''completed''"
    by (simp add: demo_jobs_row(1) new_job_def no_changes_def)
  from job_status_transitions [OF demo_jobs_ok demo_jobs_row(1) j(1)] j show ?thesis
    by (simp add: no_changes_def)
qed

text \<open>
  Tenant isolation of jobs. A call that acts for one user leaves what every other user can
  look up, under any key, exactly as it was.
\<close>

theorem job_tenant_isolation:
  assumes "table_ok w" and "actor ev = Some uid" and "uid' \<noteq> uid"
  shows "get_user_job_by_id (job_step w ev) i uid' = get_user_job_by_id w i uid'"
proof -
  have "i = t_next (jw_jobs w) \<Longrightarrow> job_row w i = None"
    using assms(1) t_get_fresh [of "jw_jobs w"] by (simp add: table_ok_def)
  from row_after_other [OF assms(2,3) this] job_step_row [OF assms(1), of ev i]
  have "job_table.view uid' (jw_jobs (job_step w ev)) i = job_table.view uid' (jw_jobs w) i"
    by (simp add: job_table.view_def job_table.user_get_def)
  then show ?thesis
    using job_step_row [OF assms(1), of ev i] assms(1)
    by (simp add: get_user_job_view table_ok_def)
qed

theorem job_tenant_isolation_witness:
  "get_user_job_by_id (job_step demo_jobs (EvCancel True 1 8)) 1 7 = get_user_job_by_id demo_jobs 1 7"
  using job_tenant_isolation [of demo_jobs "EvCancel True 1 8" 8 7 1] demo_jobs_ok
  by (simp add: jobs_ok_def)

text \<open>
  The clean-up fails exactly the jobs that are pending or running and were not updated for
  longer than the given age, returns their number, and leaves every other row alone.
\<close>

theorem cleanup_fails_exactly_stale:
  assumes "table_ok w" and "job_row w i = Some j"
  shows "\<exists>n w' j'. cleanup_stale_jobs expire age w = (Inr n, w') \<and> job_row w' i = Some j'
    \<and> n = length (get_stale_jobs age w)
    \<and> (if j_status j \<in> {''running'', ''pending''} \<and> j_updated_at j < jw_now w - age * 1000000
       then j_status j' = ''failed'' \<and> j_finished_at j' = Some (jw_now w)
            \<and> j_error_message j' = Some ''Job timed out (stale execution cleanup)''
       else j' = j)"
proof -
  obtain n w' where w': "cleanup_stale_jobs expire age w = (Inr n, w')"
    "n = length (get_stale_jobs age w)"
    "job_row w' = (\<lambda>i. case job_row w i of None \<Rightarrow> None
        | Some j \<Rightarrow> if j_status j \<in> {''running'', ''pending''} \<and> j_updated_at j < jw_now w - age * 1000000
                    then Some (apply_changes (stale_changes (jw_now w)) (jw_now w) j) else Some j)"
    using cleanup_stale_jobs_effect [of w expire age] assms(1) unfolding table_ok_def by blast
  have "job_row w' i = Some (if j_status j \<in> {''running'', ''pending''}
          \<and> j_updated_at j < jw_now w - age * 1000000
        then apply_changes (stale_changes (jw_now w)) (jw_now w) j else j)"
    unfolding w'(3) assms(2) by simp
  then show ?thesis
    using w'(1,2) by (auto simp: apply_changes_def stale_changes_def no_changes_def)
qed

theorem cleanup_fails_exactly_stale_witness:
  "\<exists>n w' j'. cleanup_stale_jobs True 300 (demo_jobs\<lparr>jw_now := 400000000\<rparr>) = (Inr n, w')
     \<and> job_row w' 1 = Some j' \<and> j_status j' = ''failed''"
proof -
  have "table_ok (demo_jobs\<lparr>jw_now := 400000000\<rparr>)"
    using demo_jobs_ok by (simp add: jobs_ok_def table_ok_def)
  from cleanup_fails_exactly_stale [OF this, of 1 _ True 300] demo_jobs_row(1) show ?thesis
    by (fastforce simp: new_job_def no_changes_def)
qed

end
