(* ===== verification/Runners.thy ===== *)
theory Runners
  imports Job_Props
begin

text \<open>
  The background runners of \<^verbatim>\<open>backend/services/job_service.py\<close>. A runner calls the operations on
  one cached object of its session; between two of its calls other sessions may change the table,
  which is the argument \<open>env\<close>: a function for each of the points, numbered in the order of the
  code. Functions of other services are parameters, with the parameter names of their signature,
  so that a call that leaves out a required one raises as in Python.
\<close>

section \<open>Calling a service function\<close>

record ('s, 'v) py_func =
  pf_required :: "string list"
  pf_optional :: "string list"
  pf_body :: "kwargs \<Rightarrow> 's \<times> jobs_world \<Rightarrow> 'v option outcome \<times> ('s \<times> jobs_world)"

definition call_py ::
  "('s, 'v) py_func \<Rightarrow> kwargs \<Rightarrow> 's \<times> jobs_world \<Rightarrow> 'v option outcome \<times> ('s \<times> jobs_world)" where
  "call_py f kw st =
     (if \<not> list_all (\<lambda>k. k \<in> set (pf_required f) \<union> set (pf_optional f)) (d_keys kw)
      then (Inl (TypeError ''unexpected keyword argument''), st)
      else if \<not> list_all (\<lambda>p. p \<in> set (d_keys kw)) (pf_required f)
      then (Inl (TypeError ''missing required argument''), st)
      else pf_body f kw st)"

text \<open>
  The signatures of \<^verbatim>\<open>ScraperService.audit_website\<close>, \<^verbatim>\<open>KeywordService.get_keyword_ideas\<close> and
  \<^verbatim>\<open>RankService.check_rank\<close>.
\<close>

definition audit_website_sig :: "string list" where
  "audit_website_sig = [''url'', ''website_id'', ''user_id'', ''db'']"

definition get_keyword_ideas_sig :: "string list \<times> string list" where
  "get_keyword_ideas_sig = ([''seed_keyword''], [''limit''])"

definition check_rank_sig :: "string list" where
  "check_rank_sig = [''keyword'', ''domain'', ''website_id'', ''user_id'', ''db'']"

section \<open>The state of a runner\<close>

record 's run_world =
  rn_jobs :: jobs_world
  rn_metrics :: metrics
  rn_ext :: 's

text \<open>An operation on the object the runner holds; the object stays the same one.\<close>

definition on_job ::
  "(jobs_world \<Rightarrow> job_ref option outcome \<times> jobs_world) \<Rightarrow> job_ref \<Rightarrow> 's run_world
     \<Rightarrow> job_ref outcome \<times> 's run_world" where
  "on_job f ref w =
     (case f (rn_jobs w) of
        (Inl e, jw) \<Rightarrow> (Inl e, w\<lparr>rn_jobs := jw\<rparr>)
      | (Inr r, jw) \<Rightarrow> (Inr (case r of None \<Rightarrow> ref | Some r' \<Rightarrow> r'), w\<lparr>rn_jobs := jw\<rparr>))"

definition others :: "(nat \<Rightarrow> jobs_world \<Rightarrow> jobs_world) \<Rightarrow> nat \<Rightarrow> 's run_world \<Rightarrow> 's run_world" where
  "others env n w = w\<lparr>rn_jobs := env n (rn_jobs w)\<rparr>"

text \<open>
  \<^verbatim>\<open>_execute_with_retry\<close>: the keywords \<^verbatim>\<open>db\<close> and \<^verbatim>\<open>job_id\<close> bind its own parameters, so only the
  others reach the function.
\<close>

definition execute_with_retry ::
  "retry_settings \<Rightarrow> (nat \<Rightarrow> rat) \<Rightarrow> ('s, 'v) py_func \<Rightarrow> int \<Rightarrow> int \<Rightarrow> kwargs \<Rightarrow> 's run_world
     \<Rightarrow> 'v option outcome \<times> 's run_world" where
  "execute_with_retry cfg draws func retries job_id kw w =
     (if job_id \<noteq> 0 \<and> is_cancelled (rn_jobs w) job_id then (Inr None, w)
      else
        (case execute (mk_engine cfg (Some retries) None None 2 True [C_Exception] DEFAULT_NON_RETRYABLE)
                draws (call_py func kw)
                \<lparr>callee = (rn_ext w, rn_jobs w), rw_metrics = rn_metrics w, sleeps = []\<rparr> of
           (res, rw) \<Rightarrow>
             ((case res of Returned v \<Rightarrow> Inr v | ReturnedNone \<Rightarrow> Inr None | Raised e \<Rightarrow> Inl e),
              w\<lparr>rn_jobs := snd (callee rw), rn_metrics := rw_metrics rw, rn_ext := fst (callee rw)\<rparr>)))"

section \<open>The runners\<close>

definition finished_statuses :: "string list" where
  "finished_statuses = [''cancelled'', ''completed'', ''failed'']"

text \<open>
  The body of the \<^verbatim>\<open>try\<close> block, which the four runners share up to the function they call and the
  result they store; its value is whether it got to the end.
\<close>

definition run_body ::
  "retry_settings \<Rightarrow> (nat \<Rightarrow> rat) \<Rightarrow> (nat \<Rightarrow> jobs_world \<Rightarrow> jobs_world) \<Rightarrow> ('s, 'v) py_func \<Rightarrow> kwargs
     \<Rightarrow> ('v \<Rightarrow> pyval option) \<Rightarrow> int \<Rightarrow> int \<Rightarrow> 's run_world \<Rightarrow> bool outcome \<times> 's run_world" where
  "run_body cfg draws env func kw to_output job_id user_id w =
     (case get_user_job_by_id (rn_jobs w) job_id user_id of
        None \<Rightarrow> (Inr False, w)
      | Some ref \<Rightarrow>
          and_then (case ref_load ref (rn_jobs w) of Inl e \<Rightarrow> (Inl e, w) | Inr (j, _) \<Rightarrow> (Inr j, w)) (\<lambda>j w.
          if j_status j \<in> set finished_statuses then (Inr False, w)
          else
            and_then (on_job (start_job True (JObj ref) user_id) ref (others env 0 w)) (\<lambda>ref1 w.
            and_then (on_job (update_progress True (JObj ref1) user_id 30 None) ref1
                        (others env 1 w)) (\<lambda>ref2 w.
            let w2 = others env 2 w
            in if is_cancelled (rn_jobs w2) job_id then (Inr False, w2)
               else
                 and_then (execute_with_retry cfg draws func 2 job_id kw (others env 3 w2)) (\<lambda>res w.
                 let w4 = others env 4 w
                 in if is_cancelled (rn_jobs w4) job_id \<or> res = None then (Inr False, w4)
                    else
                      and_then (on_job (update_progress True (JObj ref2) user_id 80 None) ref2
                                  (others env 5 w4)) (\<lambda>ref3 w.
                      and_then (on_job (complete_job True (JObj ref3) user_id (to_output (the res)))
                                  ref3 (others env 6 w)) (\<lambda>ref4 w. (Inr True, w))))))))"

text \<open>
  The whole runner: an \<^verbatim>\<open>Exception\<close> is recorded by \<^verbatim>\<open>fail_job\<close>, whose own exceptions are only
  logged; anything else escapes.
\<close>

definition run_job ::
  "retry_settings \<Rightarrow> (nat \<Rightarrow> rat) \<Rightarrow> (nat \<Rightarrow> jobs_world \<Rightarrow> jobs_world) \<Rightarrow> ('s, 'v) py_func \<Rightarrow> kwargs
     \<Rightarrow> ('v \<Rightarrow> pyval option) \<Rightarrow> int \<Rightarrow> int \<Rightarrow> 's run_world \<Rightarrow> bool outcome \<times> 's run_world" where
  "run_job cfg draws env func kw to_output job_id user_id w =
     (case run_body cfg draws env func kw to_output job_id user_id w of
        (Inr b, w1) \<Rightarrow> (Inr b, w1)
      | (Inl e, w1) \<Rightarrow>
          if exc_matches e [C_Exception]
          then (Inr False, w1\<lparr>rn_jobs := snd (fail_job True (JId job_id) user_id (exc_str e)
                                              (env 7 (rn_jobs w1)))\<rparr>)
          else (Inl e, w1))"

definition bump :: "metric_op \<Rightarrow> 's run_world \<Rightarrow> 's run_world" where
  "bump m w = w\<lparr>rn_metrics := metric_step (rn_metrics w) m\<rparr>"

text \<open>
  The value of \<^verbatim>\<open>audit_website\<close> as the runners read it: the key of the \<^verbatim>\<open>website\<close> object if there is
  one, key and score of the \<^verbatim>\<open>audit\<close> object if there is one, the number of leads if it is there.
\<close>

record audit_value =
  av_website :: "int option"
  av_audit :: "(int \<times> pyval) option"
  av_leads :: "pyval option"

definition opt_id :: "int option \<Rightarrow> pyval" where
  "opt_id i = (case i of None \<Rightarrow> PNone | Some n \<Rightarrow> PInt n)"

definition crawl_output :: "audit_value \<Rightarrow> pyval option" where
  "crawl_output v = Some (PDict
     [(''website_id'', opt_id (av_website v)), (''audit_id'', opt_id (map_option fst (av_audit v))),
      (''leads_found'', case av_leads v of None \<Rightarrow> PInt 0 | Some n \<Rightarrow> n)])"

definition audit_output :: "audit_value \<Rightarrow> pyval option" where
  "audit_output v = Some (PDict
     [(''website_id'', opt_id (av_website v)), (''audit_id'', opt_id (map_option fst (av_audit v))),
      (''score'', case av_audit v of None \<Rightarrow> PInt 0 | Some (_, s) \<Rightarrow> s)])"

text \<open>
  The runners. \<open>qlen\<close> is what \<^verbatim>\<open>job_queue.get_queue_length()\<close> returns at the end, \<open>elapsed\<close> the
  duration measured; the two website runners keep the active jobs gauge.
\<close>

definition opt_str :: "string option \<Rightarrow> pyval" where
  "opt_str s = (case s of None \<Rightarrow> PNone | Some t \<Rightarrow> PStr t)"

definition website_kwargs :: "string option \<Rightarrow> int option \<Rightarrow> int \<Rightarrow> kwargs" where
  "website_kwargs url website_id user_id =
     [(''url'', opt_str url), (''website_id'', opt_id website_id), (''user_id'', PInt user_id)]"

definition with_gauges ::
  "('s run_world \<Rightarrow> bool outcome \<times> 's run_world) \<Rightarrow> metric_op \<Rightarrow> int \<Rightarrow> 's run_world
     \<Rightarrow> bool outcome \<times> 's run_world" where
  "with_gauges run observe qlen w =
     (case run (bump (inc_active_jobs 1) w) of
        (res, w1) \<Rightarrow>
          (res, bump (set_queue_length qlen) (bump (inc_active_jobs (-1))
                  (if res = Inr True then bump observe w1 else w1))))"

definition run_crawl_job ::
  "retry_settings \<Rightarrow> (nat \<Rightarrow> rat) \<Rightarrow> (nat \<Rightarrow> jobs_world \<Rightarrow> jobs_world) \<Rightarrow> ('s, audit_value) py_func
     \<Rightarrow> int \<Rightarrow> rat \<Rightarrow> int \<Rightarrow> int \<Rightarrow> string option \<Rightarrow> int option \<Rightarrow> 's run_world
     \<Rightarrow> bool outcome \<times> 's run_world" where
  "run_crawl_job cfg draws env audit_website qlen elapsed job_id user_id url website_id =
     with_gauges
       (run_job cfg draws env audit_website (website_kwargs url website_id user_id) crawl_output
          job_id user_id)
       (observe_crawl_duration elapsed) qlen"

definition run_audit_job ::
  "retry_settings \<Rightarrow> (nat \<Rightarrow> rat) \<Rightarrow> (nat \<Rightarrow> jobs_world \<Rightarrow> jobs_world) \<Rightarrow> ('s, audit_value) py_func
     \<Rightarrow> int \<Rightarrow> rat \<Rightarrow> int \<Rightarrow> int \<Rightarrow> string option \<Rightarrow> int option \<Rightarrow> 's run_world
     \<Rightarrow> bool outcome \<times> 's run_world" where
  "run_audit_job cfg draws env audit_website qlen elapsed job_id user_id url website_id =
     with_gauges
       (run_job cfg draws env audit_website (website_kwargs url website_id user_id) audit_output
          job_id user_id)
       (observe_audit_duration elapsed) qlen"

definition keywords_output :: "string \<Rightarrow> pyval list \<Rightarrow> pyval option" where
  "keywords_output seed keywords = Some (PDict
     [(''seed_keyword'', PStr seed), (''total'', PInt (int (length keywords))),
      (''keywords'', PList keywords)])"

definition run_keywords_job ::
  "retry_settings \<Rightarrow> (nat \<Rightarrow> rat) \<Rightarrow> (nat \<Rightarrow> jobs_world \<Rightarrow> jobs_world) \<Rightarrow> ('s, pyval list) py_func
     \<Rightarrow> int \<Rightarrow> int \<Rightarrow> string \<Rightarrow> int \<Rightarrow> 's run_world \<Rightarrow> bool outcome \<times> 's run_world" where
  "run_keywords_job cfg draws env get_keyword_ideas job_id user_id seed limit =
     run_job cfg draws env get_keyword_ideas
       [(''seed_keyword'', PStr seed), (''limit'', PInt limit)] (keywords_output seed) job_id user_id"

definition run_rank_job ::
  "retry_settings \<Rightarrow> (nat \<Rightarrow> rat) \<Rightarrow> (nat \<Rightarrow> jobs_world \<Rightarrow> jobs_world) \<Rightarrow> ('s, pyval) py_func
     \<Rightarrow> int \<Rightarrow> int \<Rightarrow> string \<Rightarrow> string option \<Rightarrow> int option \<Rightarrow> 's run_world
     \<Rightarrow> bool outcome \<times> 's run_world" where
  "run_rank_job cfg draws env check_rank job_id user_id keyword domain website_id =
     run_job cfg draws env check_rank
       [(''keyword'', PStr keyword), (''domain'', opt_str domain), (''website_id'', opt_id website_id),
        (''user_id'', PInt user_id)] Some job_id user_id"

end
