(* ===== verification/Job_Queue.thy ===== *)
theory Job_Queue
  imports Errors
begin

text \<open>
  \<^verbatim>\<open>RedisJobQueue\<close> of \<^verbatim>\<open>backend/queue.py\<close>: three Redis lists by priority and a default list, with
  every fifth pop looking at the lower priorities first, and an in-memory priority queue with
  threads when Redis is off, unreachable or raises. Redis is a parameter, one function per
  command; a queued JSON document is represented by the payload it encodes. A stored set of job
  numbers holds their decimal strings.
\<close>

section \<open>Priorities\<close>

definition PRIORITY_MAP :: "(string, int) py_dict" where
  "PRIORITY_MAP = [(''high'', 1), (''normal'', 5), (''low'', 10)]"

definition priority_of_int :: "int \<Rightarrow> string \<times> int" where
  "priority_of_int n =
     (if n \<le> 3 then (''high'', n) else if n \<ge> 8 then (''low'', n) else (''normal'', n))"

text \<open>A Python bool is an int, so it takes the first branch.\<close>

definition parse_priority :: "pyval \<Rightarrow> string \<times> int" where
  "parse_priority p =
     (case p of
        PInt n \<Rightarrow> priority_of_int n
      | PBool b \<Rightarrow> priority_of_int (if b then 1 else 0)
      | PStr s \<Rightarrow> (case d_get PRIORITY_MAP (str_lower s) of
                    Some v \<Rightarrow> (str_lower s, v) | None \<Rightarrow> (''normal'', 5))
      | _ \<Rightarrow> (''normal'', 5))"

section \<open>State\<close>

record payload =
  p_job_type :: string
  p_job_id :: int
  p_user_id :: int
  p_priority :: string
  p_priority_val :: int
  p_group_id :: "string option"
  p_trace_id :: string
  p_params :: pyval
  p_enqueued_at :: rat

datatype pipe_cmd = RPush string payload | SAdd string string

type_synonym ('r, 'a) queue_call = "'r \<Rightarrow> 'a option \<times> 'r"

record 'r queue_redis =
  qr_link :: "'r \<Rightarrow> redis_link"
  qr_rpush :: "string \<Rightarrow> payload \<Rightarrow> ('r, unit) queue_call"
  qr_sadd :: "string \<Rightarrow> string \<Rightarrow> ('r, unit) queue_call"
  qr_srem :: "string \<Rightarrow> string \<Rightarrow> ('r, unit) queue_call"
  qr_delete :: "string \<Rightarrow> ('r, unit) queue_call"
  qr_pipeline :: "pipe_cmd list \<Rightarrow> ('r, unit) queue_call"
  qr_lpop :: "string \<Rightarrow> ('r, payload option) queue_call"
  qr_blpop :: "string list \<Rightarrow> rat \<Rightarrow> ('r, (string \<times> payload) option) queue_call"
  qr_smembers :: "string \<Rightarrow> ('r, string list) queue_call"
  qr_llen :: "string \<Rightarrow> ('r, nat) queue_call"

text \<open>
  The object. \<open>q_memory\<close> is the content of the \<^verbatim>\<open>PriorityQueue\<close> in the order in which \<^verbatim>\<open>get\<close>
  returns it, \<open>q_threads\<close> the threads started so far with their target and keyword arguments.
\<close>

record 'r job_queue =
  q_name :: string
  q_redis :: 'r
  q_client :: bool
  q_connected :: bool
  q_memory :: "(int \<times> int \<times> payload \<times> string option) list"
  q_groups :: "(string, int list) py_dict"
  q_pop_counter :: nat
  q_threads :: "(string \<times> kwargs) list"

definition q_init_redis :: "'r queue_redis \<Rightarrow> 'r job_queue \<Rightarrow> 'r job_queue" where
  "q_init_redis R q =
     (case qr_link R (q_redis q) of
        NoClient \<Rightarrow> q
      | PingOk \<Rightarrow> q\<lparr>q_client := True, q_connected := True\<rparr>
      | PingFails \<Rightarrow> q\<lparr>q_client := False, q_connected := False\<rparr>)"

definition mk_job_queue :: "'r queue_redis \<Rightarrow> string \<Rightarrow> 'r \<Rightarrow> 'r job_queue" where
  "mk_job_queue R name r =
     q_init_redis R
       \<lparr>q_name = name, q_redis = r, q_client = False, q_connected = False, q_memory = [],
        q_groups = [], q_pop_counter = 0, q_threads = []\<rparr>"

text \<open>\<open>use\<close> is the setting \<^verbatim>\<open>USE_REDIS_QUEUE\<close>; a lost connection is tried again.\<close>

definition q_is_redis_active :: "bool \<Rightarrow> 'r queue_redis \<Rightarrow> 'r job_queue \<Rightarrow> bool \<times> 'r job_queue" where
  "q_is_redis_active use R q =
     (if use \<and> q_connected q \<and> q_client q then (True, q)
      else if use \<and> \<not> q_connected q
      then (let q1 = q_init_redis R q in (q_connected q1, q1))
      else (False, q))"

definition pri_key :: "string \<Rightarrow> string \<Rightarrow> string" where
  "pri_key name pri = name @ '':'' @ pri"

definition group_key :: "string \<Rightarrow> string \<Rightarrow> string" where
  "group_key name g = name @ '':group:'' @ g"

definition groups_key :: "string \<Rightarrow> string" where
  "groups_key name = name @ '':groups''"

section \<open>Enqueueing\<close>

definition default_trace :: "int \<Rightarrow> string" where
  "default_trace job_id = ''trace-job-'' @ int_str job_id"

definition mk_payload ::
  "rat \<Rightarrow> string \<Rightarrow> int \<Rightarrow> int \<Rightarrow> pyval \<Rightarrow> string option \<Rightarrow> string option \<Rightarrow> pyval \<Rightarrow> payload" where
  "mk_payload now job_type job_id user_id priority group_id trace_id params =
     \<lparr>p_job_type = job_type, p_job_id = job_id, p_user_id = user_id,
      p_priority = fst (parse_priority priority), p_priority_val = snd (parse_priority priority),
      p_group_id = group_id, p_trace_id = or_else trace_id (default_trace job_id),
      p_params = params, p_enqueued_at = now\<rparr>"

text \<open>\<^verbatim>\<open>PriorityQueue.put\<close>: entries come out in the order of priority value and job number.\<close>

fun mem_insert ::
  "int \<times> int \<times> payload \<times> string option \<Rightarrow> (int \<times> int \<times> payload \<times> string option) list
     \<Rightarrow> (int \<times> int \<times> payload \<times> string option) list" where
  "mem_insert e [] = [e]"
| "mem_insert (pv, j, pl, tf) ((pv', j', pl', tf') # es) =
     (if pv < pv' \<or> pv = pv' \<and> j < j' then (pv, j, pl, tf) # (pv', j', pl', tf') # es
      else (pv', j', pl', tf') # mem_insert (pv, j, pl, tf) es)"

definition group_add :: "string option \<Rightarrow> int \<Rightarrow> (string, int list) py_dict \<Rightarrow> (string, int list) py_dict" where
  "group_add g job_id groups =
     (case g of
        None \<Rightarrow> groups
      | Some gid \<Rightarrow>
          if gid = [] then groups
          else let old = (case d_get groups gid of None \<Rightarrow> [] | Some js \<Rightarrow> js)
               in d_set gid (if job_id \<in> set old then old else old @ [job_id]) groups)"

text \<open>The keyword arguments of a fallback thread: the dictionary display overrides from the left.\<close>

definition thread_kwargs :: "int \<Rightarrow> int \<Rightarrow> string \<Rightarrow> kwargs \<Rightarrow> kwargs" where
  "thread_kwargs job_id user_id trace params =
     foldl (\<lambda>d (k, v). d_set k v d)
       [(''job_id'', PInt job_id), (''user_id'', PInt user_id), (''trace_id'', PStr trace)] params"

definition q_push_memory ::
  "payload \<Rightarrow> string option \<Rightarrow> 'r job_queue \<Rightarrow> string outcome \<times> 'r job_queue" where
  "q_push_memory pl target q =
     (let q1 = q\<lparr>q_memory := mem_insert (p_priority_val pl, p_job_id pl, pl, target) (q_memory q),
                q_groups := group_add (p_group_id pl) (p_job_id pl) (q_groups q)\<rparr>;
          done = Inr (''thread:'' @ int_str (p_job_id pl))
      in case target of
           None \<Rightarrow> (done, q1)
         | Some f \<Rightarrow>
             (case p_params pl of
                PDict ps \<Rightarrow>
                  (done, q1\<lparr>q_threads := q_threads q1 @
                     [(f, thread_kwargs (p_job_id pl) (p_user_id pl) (p_trace_id pl) ps)]\<rparr>)
              | _ \<Rightarrow> (Inl (TypeError ''argument after ** must be a mapping''), q1)))"

text \<open>The Redis half: push the document, then register the group. \<^const>\<open>None\<close> when a call raised.\<close>

definition q_push_redis :: "'r queue_redis \<Rightarrow> string \<Rightarrow> payload \<Rightarrow> ('r, unit) queue_call" where
  "q_push_redis R name pl r =
     (case qr_rpush R (pri_key name (p_priority pl)) pl r of
        (None, r1) \<Rightarrow> (None, r1)
      | (Some _, r1) \<Rightarrow>
          (case p_group_id pl of
             None \<Rightarrow> (Some (), r1)
           | Some g \<Rightarrow>
               if g = [] then (Some (), r1)
               else (case qr_sadd R (group_key name g) (int_str (p_job_id pl)) r1 of
                       (None, r2) \<Rightarrow> (None, r2)
                     | (Some _, r2) \<Rightarrow> qr_sadd R (groups_key name) g r2)))"

text \<open>
  \<^verbatim>\<open>enqueue\<close>. The three first tests of the source take an argument out of \<^verbatim>\<open>kwargs\<close> when the
  named one still has its default.
\<close>

definition pop_str :: "string \<Rightarrow> string option \<Rightarrow> kwargs \<Rightarrow> string option \<times> kwargs" where
  "pop_str k cur kw =
     (case (cur, d_get kw k) of
        (None, Some (PStr s)) \<Rightarrow> (Some s, d_del k kw)
      | (None, Some _) \<Rightarrow> (None, d_del k kw)
      | _ \<Rightarrow> (cur, kw))"

definition pop_priority :: "pyval \<Rightarrow> kwargs \<Rightarrow> pyval \<times> kwargs" where
  "pop_priority pri kw =
     (case d_get kw ''priority'' of
        Some v \<Rightarrow> if pri = PStr ''normal'' then (v, d_del ''priority'' kw) else (pri, kw)
      | None \<Rightarrow> (pri, kw))"

definition job_params :: "kwargs \<Rightarrow> pyval" where
  "job_params kw =
     (case d_get kw ''params'' of
        Some v \<Rightarrow> if length kw = 1 then v else PDict kw
      | None \<Rightarrow> PDict kw)"

definition q_enqueue ::
  "bool \<Rightarrow> 'r queue_redis \<Rightarrow> rat \<Rightarrow> string \<Rightarrow> int \<Rightarrow> int \<Rightarrow> string option \<Rightarrow> pyval
     \<Rightarrow> string option \<Rightarrow> string option \<Rightarrow> kwargs \<Rightarrow> 'r job_queue
     \<Rightarrow> string outcome \<times> 'r job_queue" where
  "q_enqueue use R now job_type job_id user_id target priority group_id trace_id kw q =
     (let (pri, kw1) = pop_priority priority kw;
          (grp, kw2) = pop_str ''group_id'' group_id kw1;
          (trc, kw3) = pop_str ''trace_id'' trace_id kw2;
          pl = mk_payload now job_type job_id user_id pri grp trc (job_params kw3);
          (up, q1) = q_is_redis_active use R q
      in if up
         then (case q_push_redis R (q_name q1) pl (q_redis q1) of
                 (Some _, r) \<Rightarrow> (Inr (''redis:'' @ int_str job_id), q1\<lparr>q_redis := r\<rparr>)
               | (None, r) \<Rightarrow>
                   q_push_memory pl target (q1\<lparr>q_redis := r, q_connected := False\<rparr>))
         else q_push_memory pl target q1)"

text \<open>One job of a batch: the keys \<^verbatim>\<open>enqueue_batch\<close> reads, the optional ones as options.\<close>

record batch_job =
  b_job_type :: string
  b_job_id :: int
  b_user_id :: int
  b_priority :: "pyval option"
  b_group_id :: "string option"
  b_trace_id :: "string option"
  b_params :: "kwargs option"
  b_kwargs :: "kwargs option"
  b_target :: "string option"

definition batch_params :: "batch_job \<Rightarrow> kwargs" where
  "batch_params j =
     (case b_params j of Some ps \<Rightarrow> ps
      | None \<Rightarrow> (case b_kwargs j of Some ks \<Rightarrow> ks | None \<Rightarrow> []))"

definition batch_priority :: "batch_job \<Rightarrow> pyval" where
  "batch_priority j = (case b_priority j of Some p \<Rightarrow> p | None \<Rightarrow> PStr ''normal'')"

definition batch_payload :: "rat \<Rightarrow> batch_job \<Rightarrow> payload" where
  "batch_payload now j =
     mk_payload now (b_job_type j) (b_job_id j) (b_user_id j) (batch_priority j) (b_group_id j)
       (b_trace_id j) (PDict (batch_params j))"

definition batch_cmds :: "string \<Rightarrow> rat \<Rightarrow> batch_job \<Rightarrow> pipe_cmd list" where
  "batch_cmds name now j =
     (let pl = batch_payload now j
      in RPush (pri_key name (p_priority pl)) pl #
         (case b_group_id j of
            None \<Rightarrow> []
          | Some g \<Rightarrow> if g = [] then []
                      else [SAdd (group_key name g) (int_str (b_job_id j)), SAdd (groups_key name) g]))"

fun q_enqueue_each ::
  "bool \<Rightarrow> 'r queue_redis \<Rightarrow> rat \<Rightarrow> batch_job list \<Rightarrow> 'r job_queue
     \<Rightarrow> (string list) outcome \<times> 'r job_queue" where
  "q_enqueue_each use R now [] q = (Inr [], q)"
| "q_enqueue_each use R now (j # js) q =
     (case q_enqueue use R now (b_job_type j) (b_job_id j) (b_user_id j) (b_target j)
             (batch_priority j) (b_group_id j) (b_trace_id j) (batch_params j) q of
        (Inl e, q1) \<Rightarrow> (Inl e, q1)
      | (Inr res, q1) \<Rightarrow>
          (case q_enqueue_each use R now js q1 of
             (Inl e, q2) \<Rightarrow> (Inl e, q2)
           | (Inr ress, q2) \<Rightarrow> (Inr (res # ress), q2)))"

definition q_enqueue_batch ::
  "bool \<Rightarrow> 'r queue_redis \<Rightarrow> rat \<Rightarrow> batch_job list \<Rightarrow> 'r job_queue
     \<Rightarrow> (string list) outcome \<times> 'r job_queue" where
  "q_enqueue_batch use R now jobs q =
     (if jobs = [] then (Inr [], q)
      else
        let (up, q1) = q_is_redis_active use R q
        in if up
           then (case qr_pipeline R (concat (map (batch_cmds (q_name q1) now) jobs)) (q_redis q1) of
                   (Some _, r) \<Rightarrow>
                     (Inr (map (\<lambda>j. ''redis:'' @ int_str (b_job_id j)) jobs), q1\<lparr>q_redis := r\<rparr>)
                 | (None, r) \<Rightarrow>
                     q_enqueue_each use R now jobs (q1\<lparr>q_redis := r, q_connected := False\<rparr>))
           else q_enqueue_each use R now jobs q1)"

section \<open>Popping\<close>

definition fair_keys :: "string \<Rightarrow> string list" where
  "fair_keys name = [pri_key name ''normal'', pri_key name ''low'', name, pri_key name ''high'']"

definition priority_keys :: "string \<Rightarrow> string list" where
  "priority_keys name = [pri_key name ''high'', pri_key name ''normal'', pri_key name ''low'', name]"

text \<open>The loop of non-blocking pops: the first key that has an item.\<close>

fun lpop_first :: "'r queue_redis \<Rightarrow> string list \<Rightarrow> ('r, payload option) queue_call" where
  "lpop_first R [] r = (Some None, r)"
| "lpop_first R (k # ks) r =
     (case qr_lpop R k r of
        (None, r1) \<Rightarrow> (None, r1)
      | (Some (Some pl), r1) \<Rightarrow> (Some (Some pl), r1)
      | (Some None, r1) \<Rightarrow> lpop_first R ks r1)"

definition q_pop_memory :: "'r job_queue \<Rightarrow> payload option \<times> 'r job_queue" where
  "q_pop_memory q =
     (case q_memory q of
        [] \<Rightarrow> (None, q)
      | (_, _, pl, _) # es \<Rightarrow> (Some pl, q\<lparr>q_memory := es\<rparr>))"

definition q_pop_next_job ::
  "bool \<Rightarrow> 'r queue_redis \<Rightarrow> rat \<Rightarrow> 'r job_queue \<Rightarrow> payload option \<times> 'r job_queue" where
  "q_pop_next_job use R timeout q =
     (let (up, q1) = q_is_redis_active use R q
      in if up
         then
           let pop_count = Suc (q_pop_counter q1);
               q2 = q1\<lparr>q_pop_counter := pop_count\<rparr>;
               (fair, r) = (if pop_count mod 5 = 0
                            then lpop_first R (fair_keys (q_name q2)) (q_redis q2)
                            else (Some None, q_redis q2));
               q3 = q2\<lparr>q_redis := r\<rparr>
           in case fair of
                None \<Rightarrow> (None, q3\<lparr>q_connected := False\<rparr>)
              | Some (Some pl) \<Rightarrow> (Some pl, q3)
              | Some None \<Rightarrow>
                  (case qr_blpop R (priority_keys (q_name q3)) timeout (q_redis q3) of
                     (None, r1) \<Rightarrow> (None, q3\<lparr>q_redis := r1, q_connected := False\<rparr>)
                   | (Some (Some (_, pl)), r1) \<Rightarrow> (Some pl, q3\<lparr>q_redis := r1\<rparr>)
                   | (Some None, r1) \<Rightarrow> q_pop_memory (q3\<lparr>q_redis := r1\<rparr>))
         else q_pop_memory q1)"

fun q_pop_batch ::
  "bool \<Rightarrow> 'r queue_redis \<Rightarrow> nat \<Rightarrow> 'r job_queue \<Rightarrow> payload list \<times> 'r job_queue" where
  "q_pop_batch use R 0 q = ([], q)"
| "q_pop_batch use R (Suc n) q =
     (case q_pop_next_job use R 0 q of
        (None, q1) \<Rightarrow> ([], q1)
      | (Some pl, q1) \<Rightarrow>
          (case q_pop_batch use R n q1 of (pls, q2) \<Rightarrow> (pl # pls, q2)))"

section \<open>Groups\<close>

text \<open>A member that is not a numeral makes \<^verbatim>\<open>int(m)\<close> raise, which the handler catches too.\<close>

definition parse_members :: "string list \<Rightarrow> int list option" where
  "parse_members ms =
     (if list_all (\<lambda>m. parse_int m \<noteq> None) ms then Some (map (\<lambda>m. the (parse_int m)) ms) else None)"

definition q_get_group_jobs ::
  "bool \<Rightarrow> 'r queue_redis \<Rightarrow> string \<Rightarrow> 'r job_queue \<Rightarrow> int list \<times> 'r job_queue" where
  "q_get_group_jobs use R g q =
     (let (up, q1) = q_is_redis_active use R q;
          local = (\<lambda>q. (case d_get (q_groups q) g of None \<Rightarrow> [] | Some js \<Rightarrow> js, q))
      in if up
         then (case qr_smembers R (group_key (q_name q1) g) (q_redis q1) of
                 (None, r) \<Rightarrow> local (q1\<lparr>q_redis := r, q_connected := False\<rparr>)
               | (Some ms, r) \<Rightarrow>
                   (case parse_members ms of
                      Some js \<Rightarrow> (js, q1\<lparr>q_redis := r\<rparr>)
                    | None \<Rightarrow> local (q1\<lparr>q_redis := r, q_connected := False\<rparr>)))
         else local q1)"

definition q_cancel_group ::
  "bool \<Rightarrow> 'r queue_redis \<Rightarrow> string \<Rightarrow> 'r job_queue \<Rightarrow> nat \<times> 'r job_queue" where
  "q_cancel_group use R g q =
     (let (job_ids, q1) = q_get_group_jobs use R g q;
          (up, q2) = q_is_redis_active use R q1;
          q3 = (if up
                then (case qr_delete R (group_key (q_name q2) g) (q_redis q2) of
                        (None, r) \<Rightarrow> q2\<lparr>q_redis := r, q_connected := False\<rparr>
                      | (Some _, r) \<Rightarrow>
                          (case qr_srem R (groups_key (q_name q2)) g r of
                             (None, r1) \<Rightarrow> q2\<lparr>q_redis := r1, q_connected := False\<rparr>
                           | (Some _, r1) \<Rightarrow> q2\<lparr>q_redis := r1\<rparr>))
                else q2)
      in (length job_ids, q3\<lparr>q_groups := d_del g (q_groups q3)\<rparr>))"

section \<open>Length, statistics and scaling hints\<close>

text \<open>The lengths of several lists, one call after another; \<^const>\<open>None\<close> as soon as one raises.\<close>

fun llens :: "'r queue_redis \<Rightarrow> string list \<Rightarrow> ('r, nat list) queue_call" where
  "llens R [] r = (Some [], r)"
| "llens R (k # ks) r =
     (case qr_llen R k r of
        (None, r1) \<Rightarrow> (None, r1)
      | (Some n, r1) \<Rightarrow>
          (case llens R ks r1 of
             (None, r2) \<Rightarrow> (None, r2)
           | (Some ns, r2) \<Rightarrow> (Some (n # ns), r2)))"

definition q_get_queue_length ::
  "bool \<Rightarrow> 'r queue_redis \<Rightarrow> 'r job_queue \<Rightarrow> nat \<times> 'r job_queue" where
  "q_get_queue_length use R q =
     (let (up, q1) = q_is_redis_active use R q
      in if up
         then (case llens R (priority_keys (q_name q1)) (q_redis q1) of
                 (Some ns, r) \<Rightarrow> (sum_list ns, q1\<lparr>q_redis := r\<rparr>)
               | (None, r) \<Rightarrow> (length (q_memory q1), q1\<lparr>q_redis := r, q_connected := False\<rparr>))
         else (length (q_memory q1), q1))"

text \<open>Python's \<^verbatim>\<open>round(x, 2)\<close> on the exact value: to the nearest hundredth, ties to even.\<close>

definition round_half_even :: "rat \<Rightarrow> int" where
  "round_half_even x =
     (let f = floor x; d = x - of_int f
      in if d < 1 / 2 then f else if d > 1 / 2 then f + 1 else if even f then f else f + 1)"

definition py_round2 :: "rat \<Rightarrow> rat" where
  "py_round2 x = of_int (round_half_even (x * 100)) / 100"

datatype scale_action = ScaleUp | ScaleDown | Maintain

record scaling_hints =
  h_action :: scale_action
  h_recommended :: int
  h_reason :: string
  h_pressure :: rat

definition scaling_hints_for :: "int \<Rightarrow> int \<Rightarrow> int \<Rightarrow> scaling_hints" where
  "scaling_hints_for total_queued current active =
     (if total_queued > current * 2
      then \<lparr>h_action = ScaleUp, h_recommended = min 20 (current + 5),
            h_reason = ''High queue backlog ('' @ int_str total_queued
              @ '' jobs pending vs concurrency '' @ int_str current @ '').'',
            h_pressure = py_round2 (of_int total_queued / of_int (max 1 current))\<rparr>
      else if total_queued > 0 \<and> active \<ge> current
      then \<lparr>h_action = ScaleUp, h_recommended = min 20 (current + 2),
            h_reason = ''Worker capacity fully saturated ('' @ int_str active @ '' running, ''
              @ int_str total_queued @ '' queued).'',
            h_pressure = py_round2 (of_int (total_queued + active) / of_int (max 1 current))\<rparr>
      else if total_queued = 0 \<and> active < current div 2 \<and> current > 2
      then \<lparr>h_action = ScaleDown, h_recommended = max 2 (current - 2),
            h_reason = ''Worker underutilized ('' @ int_str active @ '' active threads out of ''
              @ int_str current @ '').'',
            h_pressure = py_round2 (of_int active / of_int (max 1 current))\<rparr>
      else \<lparr>h_action = Maintain, h_recommended = current,
            h_reason = ''Queue workload balanced ('' @ int_str total_queued @ '' queued, ''
              @ int_str active @ '' active).'',
            h_pressure = py_round2 (of_int (total_queued + active) / of_int (max 1 current))\<rparr>)"

definition q_get_scaling_hints ::
  "bool \<Rightarrow> 'r queue_redis \<Rightarrow> int option \<Rightarrow> int \<Rightarrow> int \<Rightarrow> 'r job_queue
     \<Rightarrow> scaling_hints \<times> 'r job_queue" where
  "q_get_scaling_hints use R tot current active q =
     (case tot of
        Some n \<Rightarrow> (scaling_hints_for n current active, q)
      | None \<Rightarrow>
          (case q_get_queue_length use R q of
             (n, q1) \<Rightarrow> (scaling_hints_for (int n) current active, q1)))"

record queue_stats =
  s_queue_name :: string
  s_is_redis_active :: bool
  s_total_queued :: nat
  s_by_priority :: "(string, nat) py_dict"
  s_active_groups :: "string list"
  s_group_count :: nat
  s_scaling_hints :: scaling_hints

definition q_get_queue_stats ::
  "bool \<Rightarrow> 'r queue_redis \<Rightarrow> 'r job_queue \<Rightarrow> queue_stats \<times> 'r job_queue" where
  "q_get_queue_stats use R q =
     (let (up0, q0) = q_is_redis_active use R q;
          (up, q1) = q_is_redis_active use R q0;
          zero = [(''high'', 0), (''normal'', 0), (''low'', 0), (''default'', 0)];
          mk = (\<lambda>tot by gs.
                  \<lparr>s_queue_name = q_name q, s_is_redis_active = up0, s_total_queued = tot,
                   s_by_priority = by, s_active_groups = gs, s_group_count = length gs,
                   s_scaling_hints = scaling_hints_for (int tot) 5 0\<rparr>)
      in if up
         then (case llens R (priority_keys (q_name q1)) (q_redis q1) of
                 (Some [h, n, l, d], r) \<Rightarrow>
                   let by = [(''high'', h), (''normal'', n), (''low'', l), (''default'', d)];
                       tot = h + n + l + d
                   in (case qr_smembers R (groups_key (q_name q1)) r of
                         (Some gs, r1) \<Rightarrow> (mk tot by gs, q1\<lparr>q_redis := r1\<rparr>)
                       | (None, r1) \<Rightarrow> (mk tot by [], q1\<lparr>q_redis := r1, q_connected := False\<rparr>))
               | (_, r) \<Rightarrow> (mk 0 zero [], q1\<lparr>q_redis := r, q_connected := False\<rparr>))
         else
           let tot = length (q_memory q1)
           in (mk tot (d_set ''normal'' tot zero) (d_keys (q_groups q1)), q1))"

end
