(* ===== verification/Dead_Letter.thy ===== *)
theory Dead_Letter
  imports Metrics
begin

text \<open>
  \<^verbatim>\<open>DeadLetterQueue\<close> of \<^verbatim>\<open>backend/dead_letter_queue.py\<close>: jobs that failed for good are appended
  to a Redis list, or to a list in memory when Redis is off or raises. Redis is a parameter, one
  function per command; \<^const>\<open>None\<close> is a call that raised.
\<close>

section \<open>State\<close>

record dead_job =
  dj_job_id :: int
  dj_job_type :: string
  dj_user_id :: int
  dj_failure_reason :: string
  dj_stack_trace :: string
  dj_retry_count :: int
  dj_timestamp :: string
  dj_extra_data :: kwargs

record 'r dlq_redis =
  dr_link :: "'r \<Rightarrow> redis_link"
  dr_rpush :: "string \<Rightarrow> dead_job \<Rightarrow> 'r \<Rightarrow> unit option \<times> 'r"
  dr_llen :: "string \<Rightarrow> 'r \<Rightarrow> int option \<times> 'r"
  dr_lrange :: "string \<Rightarrow> int \<Rightarrow> int \<Rightarrow> 'r \<Rightarrow> dead_job list option \<times> 'r"
  dr_delete :: "string \<Rightarrow> 'r \<Rightarrow> unit option \<times> 'r"

text \<open>The object, and the metrics registry it reports to.\<close>

record 'r dlq =
  dq_name :: string
  dq_redis :: 'r
  dq_client :: bool
  dq_connected :: bool
  dq_local :: "dead_job list"
  dq_metrics :: metrics

definition dlq_init_redis :: "'r dlq_redis \<Rightarrow> 'r dlq \<Rightarrow> 'r dlq" where
  "dlq_init_redis R d =
     (case dr_link R (dq_redis d) of
        NoClient \<Rightarrow> d
      | PingOk \<Rightarrow> d\<lparr>dq_client := True, dq_connected := True\<rparr>
      | PingFails \<Rightarrow> d\<lparr>dq_client := False, dq_connected := False\<rparr>)"

definition mk_dlq :: "'r dlq_redis \<Rightarrow> string \<Rightarrow> 'r \<Rightarrow> metrics \<Rightarrow> 'r dlq" where
  "mk_dlq R name r m =
     dlq_init_redis R
       \<lparr>dq_name = name, dq_redis = r, dq_client = False, dq_connected = False, dq_local = [],
        dq_metrics = m\<rparr>"

text \<open>\<open>enable\<close> is the setting \<^verbatim>\<open>ENABLE_DEAD_LETTER_QUEUE\<close>.\<close>

definition dlq_is_redis_active :: "bool \<Rightarrow> 'r dlq_redis \<Rightarrow> 'r dlq \<Rightarrow> bool \<times> 'r dlq" where
  "dlq_is_redis_active enable R d =
     (if enable \<and> dq_connected d \<and> dq_client d then (True, d)
      else if enable \<and> dr_link R (dq_redis d) \<noteq> NoClient \<and> \<not> dq_connected d
      then (let d1 = dlq_init_redis R d in (dq_connected d1, d1))
      else (False, d))"

definition set_dlq_gauge :: "int \<Rightarrow> 'r dlq \<Rightarrow> 'r dlq" where
  "set_dlq_gauge n d = d\<lparr>dq_metrics := metric_step (dq_metrics d) (set_dead_letter_jobs n)\<rparr>"

section \<open>Operations\<close>

text \<open>\<open>fmt\<close> is what \<^verbatim>\<open>traceback.format_exc()\<close> gives at the call.\<close>

definition mk_dead_job ::
  "string \<Rightarrow> string \<Rightarrow> int \<Rightarrow> string \<Rightarrow> int \<Rightarrow> string \<Rightarrow> string option \<Rightarrow> int \<Rightarrow> kwargs option
     \<Rightarrow> dead_job" where
  "mk_dead_job now fmt job_id job_type user_id reason trace retries extra =
     \<lparr>dj_job_id = job_id, dj_job_type = job_type, dj_user_id = user_id,
      dj_failure_reason = reason, dj_stack_trace = or_else trace fmt, dj_retry_count = retries,
      dj_timestamp = now, dj_extra_data = (case extra of None \<Rightarrow> [] | Some x \<Rightarrow> x)\<rparr>"

definition dlq_push_local :: "dead_job \<Rightarrow> 'r dlq \<Rightarrow> 'r dlq" where
  "dlq_push_local p d =
     set_dlq_gauge (int (length (dq_local d @ [p]))) (d\<lparr>dq_local := dq_local d @ [p]\<rparr>)"

definition push_to_dlq ::
  "bool \<Rightarrow> 'r dlq_redis \<Rightarrow> string \<Rightarrow> string \<Rightarrow> int \<Rightarrow> string \<Rightarrow> int \<Rightarrow> string \<Rightarrow> string option
     \<Rightarrow> int \<Rightarrow> kwargs option \<Rightarrow> 'r dlq \<Rightarrow> dead_job \<times> 'r dlq" where
  "push_to_dlq enable R now fmt job_id job_type user_id reason trace retries extra d =
     (let p = mk_dead_job now fmt job_id job_type user_id reason trace retries extra;
          (up, d1) = dlq_is_redis_active enable R d
      in if up
         then (case dr_rpush R (dq_name d1) p (dq_redis d1) of
                 (None, r) \<Rightarrow> (p, dlq_push_local p (d1\<lparr>dq_redis := r, dq_connected := False\<rparr>))
               | (Some _, r) \<Rightarrow>
                   (case dr_llen R (dq_name d1) r of
                      (None, r1) \<Rightarrow>
                        (p, dlq_push_local p (d1\<lparr>dq_redis := r1, dq_connected := False\<rparr>))
                    | (Some n, r1) \<Rightarrow> (p, set_dlq_gauge n (d1\<lparr>dq_redis := r1\<rparr>))))
         else (p, dlq_push_local p d1))"

text \<open>A slice \<^verbatim>\<open>xs[:n]\<close>, where a negative bound counts from the end.\<close>

definition py_take :: "int \<Rightarrow> 'a list \<Rightarrow> 'a list" where
  "py_take n xs = (if n \<ge> 0 then take (nat n) xs else take (length xs - nat (- n)) xs)"

definition get_dlq_jobs :: "bool \<Rightarrow> 'r dlq_redis \<Rightarrow> int \<Rightarrow> 'r dlq \<Rightarrow> dead_job list \<times> 'r dlq" where
  "get_dlq_jobs enable R limit d =
     (let (up, d1) = dlq_is_redis_active enable R d
      in if up
         then (case dr_lrange R (dq_name d1) 0 (limit - 1) (dq_redis d1) of
                 (Some ps, r) \<Rightarrow> (ps, d1\<lparr>dq_redis := r\<rparr>)
               | (None, r) \<Rightarrow>
                   (py_take limit (dq_local d1), d1\<lparr>dq_redis := r, dq_connected := False\<rparr>))
         else (py_take limit (dq_local d1), d1))"

definition get_dlq_count :: "bool \<Rightarrow> 'r dlq_redis \<Rightarrow> 'r dlq \<Rightarrow> int \<times> 'r dlq" where
  "get_dlq_count enable R d =
     (let (up, d1) = dlq_is_redis_active enable R d
      in if up
         then (case dr_llen R (dq_name d1) (dq_redis d1) of
                 (Some n, r) \<Rightarrow> (n, d1\<lparr>dq_redis := r\<rparr>)
               | (None, r) \<Rightarrow>
                   (int (length (dq_local d1)), d1\<lparr>dq_redis := r, dq_connected := False\<rparr>))
         else (int (length (dq_local d1)), d1))"

definition clear_local :: "'r dlq \<Rightarrow> int \<times> 'r dlq" where
  "clear_local d = (int (length (dq_local d)), set_dlq_gauge 0 (d\<lparr>dq_local := []\<rparr>))"

definition clear_dlq :: "bool \<Rightarrow> 'r dlq_redis \<Rightarrow> 'r dlq \<Rightarrow> int \<times> 'r dlq" where
  "clear_dlq enable R d =
     (let (up, d1) = dlq_is_redis_active enable R d
      in if up
         then (case dr_llen R (dq_name d1) (dq_redis d1) of
                 (None, r) \<Rightarrow> clear_local (d1\<lparr>dq_redis := r, dq_connected := False\<rparr>)
               | (Some n, r) \<Rightarrow>
                   (case dr_delete R (dq_name d1) r of
                      (None, r1) \<Rightarrow> clear_local (d1\<lparr>dq_redis := r1, dq_connected := False\<rparr>)
                    | (Some _, r1) \<Rightarrow>
                        (n, (set_dlq_gauge 0 (d1\<lparr>dq_redis := r1\<rparr>))\<lparr>dq_local := []\<rparr>)))
         else clear_local d1)"

section \<open>What is kept where\<close>

text \<open>
  \<open>LRANGE\<close> as Redis documents it: both ends are included, a negative index counts from the end,
  and an index past the end is the end.
\<close>

definition redis_lrange :: "int \<Rightarrow> int \<Rightarrow> 'a list \<Rightarrow> 'a list" where
  "redis_lrange start stop xs =
     (let n = int (length xs);
          a = (if start < 0 then max 0 (n + start) else start);
          b = (if stop < 0 then n + stop else min stop (n - 1))
      in if a > b then [] else take (nat (b - a + 1)) (drop (nat a) xs))"

text \<open>A server that answers, with the list it keeps under a name.\<close>

definition dlq_healthy :: "'r dlq_redis \<Rightarrow> ('r \<Rightarrow> string \<Rightarrow> dead_job list) \<Rightarrow> bool" where
  "dlq_healthy R L \<longleftrightarrow>
     (\<forall>k p r. \<exists>r'. dr_rpush R k p r = (Some (), r') \<and> L r' = (L r)(k := L r k @ [p])) \<and>
     (\<forall>k r. \<exists>r'. dr_llen R k r = (Some (int (length (L r k))), r') \<and> L r' = L r) \<and>
     (\<forall>k a b r. \<exists>r'. dr_lrange R k a b r = (Some (redis_lrange a b (L r k)), r') \<and> L r' = L r) \<and>
     (\<forall>k r. \<exists>r'. dr_delete R k r = (Some (), r') \<and> L r' = (L r)(k := []))"

lemma redis_lrange_first: "0 < n \<Longrightarrow> redis_lrange 0 (n - 1) xs = py_take n xs"
proof (cases "xs = []")
  case False
  assume "0 < n"
  with False have "nat (min (n - 1) (int (length xs) - 1) + 1) = min (nat n) (length xs)"
    by (cases xs) (auto simp: min_def nat_add_distrib)
  moreover have "\<not> min (n - 1) (int (length xs) - 1) < 0"
    using False \<open>0 < n\<close> by (cases xs) auto
  ultimately show ?thesis using \<open>0 < n\<close>
    by (simp add: redis_lrange_def py_take_def Let_def min_def)
qed (simp add: redis_lrange_def py_take_def Let_def)

lemma redis_lrange_all: "redis_lrange 0 (-1) xs = xs"
  by (auto simp: redis_lrange_def Let_def)

definition dlq_live :: "'r dlq \<Rightarrow> bool" where
  "dlq_live d \<longleftrightarrow> dq_connected d \<and> dq_client d"

lemma dlq_live_active: "dlq_live d \<Longrightarrow> dlq_is_redis_active True R d = (True, d)"
  by (simp add: dlq_live_def dlq_is_redis_active_def)

lemma dlq_disabled [simp]: "dlq_is_redis_active False R d = (False, d)"
  by (simp add: dlq_is_redis_active_def)

lemma dlq_is_redis_active_frame [frames]:
  "dq_local (snd (dlq_is_redis_active e R d)) = dq_local d"
  "dq_redis (snd (dlq_is_redis_active e R d)) = dq_redis d"
  "dq_name (snd (dlq_is_redis_active e R d)) = dq_name d"
  "dq_metrics (snd (dlq_is_redis_active e R d)) = dq_metrics d"
  by (simp_all add: dlq_is_redis_active_def dlq_init_redis_def Let_def split: redis_link.split)

lemma set_dlq_gauge_frame [simp]:
  "dq_local (set_dlq_gauge n d) = dq_local d" "dq_redis (set_dlq_gauge n d) = dq_redis d"
  "dq_connected (set_dlq_gauge n d) = dq_connected d" "dq_client (set_dlq_gauge n d) = dq_client d"
  "dead_letter_jobs (dq_metrics (set_dlq_gauge n d)) = max 0 n"
  by (simp_all add: set_dlq_gauge_def)

section \<open>Properties\<close>

text \<open>
  A dead job is never dropped. Whatever Redis does, \<^verbatim>\<open>push_to_dlq\<close> returns the document with
  the arguments in it, and either Redis accepted that document and reported a length, which
  becomes the gauge, with the list in memory unchanged, or the document is appended to the list
  in memory and the gauge is the length of that list.
\<close>

theorem dlq_push_keeps_job:
  "case push_to_dlq enable R now fmt job_id job_type user_id reason trace retries extra d of
     (p, d') \<Rightarrow>
       p = mk_dead_job now fmt job_id job_type user_id reason trace retries extra
       \<and> ((\<exists>r n. dr_rpush R (dq_name d) p (dq_redis d) = (Some (), r)
                \<and> dr_llen R (dq_name d) r = (Some n, dq_redis d')
                \<and> dq_local d' = dq_local d \<and> dead_letter_jobs (dq_metrics d') = max 0 n)
          \<or> (dq_local d' = dq_local d @ [p]
              \<and> dead_letter_jobs (dq_metrics d') = int (length (dq_local d'))))"
proof -
  let ?p = "mk_dead_job now fmt job_id job_type user_id reason trace retries extra"
  obtain up d1 where act: "dlq_is_redis_active enable R d = (up, d1)" by fastforce
  then have d1: "dq_local d1 = dq_local d" "dq_redis d1 = dq_redis d" "dq_name d1 = dq_name d"
    using dlq_is_redis_active_frame [of enable R d] by simp_all
  show ?thesis
    by (auto simp: push_to_dlq_def act d1 dlq_push_local_def Let_def
        split: prod.split option.split)
qed

text \<open>
  Jobs kept in memory are out of sight while Redis answers. Documents that were saved in
  memory during an outage are not listed and not counted once Redis is back, and clearing the
  queue deletes them without counting them.
\<close>

theorem dlq_local_jobs_hidden:
  assumes "dlq_healthy R L" and "dlq_live d" and "0 < limit"
  shows "fst (get_dlq_jobs True R limit d) = py_take limit (L (dq_redis d) (dq_name d))
    \<and> fst (get_dlq_count True R d) = int (length (L (dq_redis d) (dq_name d)))
    \<and> fst (clear_dlq True R d) = int (length (L (dq_redis d) (dq_name d)))
    \<and> dq_local (snd (clear_dlq True R d)) = []"
proof -
  from assms(1) obtain r1 where
    len: "dr_llen R (dq_name d) (dq_redis d) = (Some (int (length (L (dq_redis d) (dq_name d)))), r1)"
    unfolding dlq_healthy_def by meson
  from assms(1) obtain r2 where
    range: "dr_lrange R (dq_name d) 0 (limit - 1) (dq_redis d)
              = (Some (redis_lrange 0 (limit - 1) (L (dq_redis d) (dq_name d))), r2)"
    unfolding dlq_healthy_def by meson
  from assms(1) obtain r3 where del: "dr_delete R (dq_name d) r1 = (Some (), r3)"
    unfolding dlq_healthy_def by meson
  show ?thesis
    using len range del redis_lrange_first [OF assms(3)]
    by (simp add: get_dlq_jobs_def get_dlq_count_def clear_dlq_def dlq_live_active [OF assms(2)])
qed

definition list_dlq_redis :: "(string \<Rightarrow> dead_job list) dlq_redis" where
  "list_dlq_redis =
     \<lparr>dr_link = (\<lambda>r. PingOk), dr_rpush = (\<lambda>k p r. (Some (), r(k := r k @ [p]))),
      dr_llen = (\<lambda>k r. (Some (int (length (r k))), r)),
      dr_lrange = (\<lambda>k a b r. (Some (redis_lrange a b (r k)), r)),
      dr_delete = (\<lambda>k r. (Some (), r(k := [])))\<rparr>"

definition outage_dlq :: "(string \<Rightarrow> dead_job list) dlq" where
  "outage_dlq =
     (mk_dlq list_dlq_redis ''dlq'' (\<lambda>_. []) (metrics_init 0))
       \<lparr>dq_local := [mk_dead_job ''t'' ''trace'' 7 ''crawl'' 1 ''timeout'' None 3 None]\<rparr>"

theorem dlq_local_jobs_hidden_witness:
  "length (dq_local outage_dlq) = 1 \<and> fst (get_dlq_jobs True list_dlq_redis 50 outage_dlq) = []
     \<and> fst (get_dlq_count True list_dlq_redis outage_dlq) = 0
     \<and> fst (clear_dlq True list_dlq_redis outage_dlq) = 0
     \<and> dq_local (snd (clear_dlq True list_dlq_redis outage_dlq)) = []"
proof -
  have "dlq_healthy list_dlq_redis (\<lambda>r. r)" by (simp add: dlq_healthy_def list_dlq_redis_def)
  moreover have d: "dlq_live outage_dlq" "dq_redis outage_dlq = (\<lambda>_. [])" "dq_name outage_dlq = ''dlq''"
    "length (dq_local outage_dlq) = 1"
    by (simp_all add: outage_dlq_def mk_dlq_def dlq_init_redis_def list_dlq_redis_def dlq_live_def)
  ultimately show ?thesis
    using dlq_local_jobs_hidden [of list_dlq_redis "\<lambda>r. r" outage_dlq 50] by (simp add: py_take_def)
qed

text \<open>
  The limit 0. A request for no documents gets every document when Redis answers, as the
  range from 0 to -1 is the whole list, and none from the list in memory.
\<close>

theorem dlq_limit_zero:
  assumes "dlq_healthy R L" and "dlq_live d"
  shows "fst (get_dlq_jobs True R 0 d) = L (dq_redis d) (dq_name d)
    \<and> fst (get_dlq_jobs False R 0 d) = []"
proof -
  from assms(1) obtain r2 where
    "dr_lrange R (dq_name d) 0 (0 - 1) (dq_redis d)
       = (Some (redis_lrange 0 (0 - 1) (L (dq_redis d) (dq_name d))), r2)"
    unfolding dlq_healthy_def by meson
  then show ?thesis
    by (simp add: get_dlq_jobs_def dlq_live_active [OF assms(2)] redis_lrange_all py_take_def)
qed

theorem dlq_limit_zero_witness:
  "length (fst (get_dlq_jobs True list_dlq_redis 0
     (outage_dlq\<lparr>dq_redis := \<lambda>_. dq_local outage_dlq\<rparr>))) = 1"
proof -
  have "dlq_healthy list_dlq_redis (\<lambda>r. r)" by (simp add: dlq_healthy_def list_dlq_redis_def)
  moreover have "dlq_live (outage_dlq\<lparr>dq_redis := \<lambda>_. dq_local outage_dlq\<rparr>)"
    by (simp add: outage_dlq_def mk_dlq_def dlq_init_redis_def list_dlq_redis_def dlq_live_def)
  ultimately show ?thesis
    using dlq_limit_zero [of list_dlq_redis "\<lambda>r. r" "outage_dlq\<lparr>dq_redis := \<lambda>_. dq_local outage_dlq\<rparr>"]
    by (simp add: outage_dlq_def)
qed

end
