(* ===== verification/Worker.thy ===== *)
theory Worker
  imports Runners Job_Queue Dead_Letter
begin

text \<open>
  \<^verbatim>\<open>ReliableWorker\<close> of \<^verbatim>\<open>backend/worker.py\<close> with the part of \<^verbatim>\<open>backend/worker_heartbeat.py\<close> it
  calls. The worker pops documents from the job queue, keeps a table of running jobs, hands each
  job to a thread pool whose tasks run the wrapper with its retry loop, and records jobs that fail
  for good in the dead letter queue. The thread pool is a list of tasks not yet started; the model
  runs a task to its end at one go.
\<close>

section \<open>State\<close>

text \<open>What the wrapper works on: the database and metrics, the dead letter queue, its naps.\<close>

record ('s, 'd) exec_world =
  xw_run :: "'s run_world"
  xw_dlq :: "'d dlq"
  xw_naps :: "rat list"

record running_info =
  ri_job_type :: string
  ri_user_id :: int
  ri_group_id :: "string option"
  ri_trace_id :: "string option"

record task =
  tk_job_id :: int
  tk_job_type :: string
  tk_user_id :: int
  tk_kwargs :: kwargs
  tk_trace_id :: "string option"

record executor =
  ex_open :: bool
  ex_workers :: int
  ex_pending :: "task list"

record ('s, 'd, 'q) worker =
  wk_concurrency :: int
  wk_executor :: executor
  wk_running :: "(int, running_info) py_dict"
  wk_accepting :: bool
  wk_stopping :: bool
  wk_status :: string
  wk_heartbeat_jobs :: int
  wk_beating :: bool
  wk_world :: "('s, 'd) exec_world"
  wk_queue :: "'q job_queue"

text \<open>The settings the wrapper and the recovery read, and what \<^verbatim>\<open>traceback.format_exc()\<close> gives.\<close>

record worker_settings =
  ws_retry :: retry_settings
  ws_timeout :: rat
  ws_recovery :: bool
  ws_dlq :: bool
  ws_use_queue :: bool
  ws_now :: string
  ws_traceback :: "py_exc \<Rightarrow> string"

section \<open>Dispatching a job to its runner\<close>

text \<open>
  \<^verbatim>\<open>target_func(job_id=..., user_id=..., **kwargs)\<close>: the runners with the keyword parameters they
  take; a key given twice, a missing or an unexpected one raises a \<^verbatim>\<open>TypeError\<close>.
\<close>

type_synonym ('s, 'd) runner =
  "int \<Rightarrow> int \<Rightarrow> kwargs \<Rightarrow> ('s, 'd) exec_world \<Rightarrow> unit outcome \<times> ('s, 'd) exec_world"

definition bind_runner ::
  "string list \<Rightarrow> (int \<Rightarrow> int \<Rightarrow> kwargs \<Rightarrow> 's run_world \<Rightarrow> bool outcome \<times> 's run_world) \<Rightarrow> ('s, 'd) runner"
where
  "bind_runner params run job_id user_id kw x =
     (if \<not> list_all (\<lambda>k. k \<in> set params) (d_keys kw)
         \<or> \<not> list_all (\<lambda>p. p \<in> set (d_keys kw)) params
      then (Inl (TypeError ''arguments of the runner''), x)
      else (case run job_id user_id kw (xw_run x) of
              (res, w) \<Rightarrow> ((case res of Inl e \<Rightarrow> Inl e | Inr _ \<Rightarrow> Inr ()), x\<lparr>xw_run := w\<rparr>)))"

definition kw_str :: "kwargs \<Rightarrow> string \<Rightarrow> string option" where
  "kw_str kw k = (case d_get kw k of Some (PStr s) \<Rightarrow> Some s | _ \<Rightarrow> None)"

definition kw_int :: "kwargs \<Rightarrow> string \<Rightarrow> int option" where
  "kw_int kw k = (case d_get kw k of Some (PInt n) \<Rightarrow> Some n | _ \<Rightarrow> None)"

text \<open>The services and the other sessions the runners meet, as in \<open>Runners\<close>.\<close>

record 's services =
  sv_draws :: "nat \<Rightarrow> rat"
  sv_env :: "nat \<Rightarrow> jobs_world \<Rightarrow> jobs_world"
  sv_audit :: "('s, audit_value) py_func"
  sv_keywords :: "('s, pyval list) py_func"
  sv_rank :: "('s, pyval) py_func"
  sv_queue_length :: int
  sv_elapsed :: rat

definition target_func :: "retry_settings \<Rightarrow> 's services \<Rightarrow> string \<Rightarrow> ('s, 'd) runner option" where
  "target_func cfg S job_type =
     (if job_type = ''crawl''
      then Some (bind_runner [''url'', ''website_id''] (\<lambda>jid uid kw.
             run_crawl_job cfg (sv_draws S) (sv_env S) (sv_audit S) (sv_queue_length S) (sv_elapsed S)
               jid uid (kw_str kw ''url'') (kw_int kw ''website_id'')))
      else if job_type = ''audit''
      then Some (bind_runner [''url'', ''website_id''] (\<lambda>jid uid kw.
             run_audit_job cfg (sv_draws S) (sv_env S) (sv_audit S) (sv_queue_length S) (sv_elapsed S)
               jid uid (kw_str kw ''url'') (kw_int kw ''website_id'')))
      else if job_type = ''keywords''
      then Some (bind_runner [''seed_keyword'', ''limit''] (\<lambda>jid uid kw.
             run_keywords_job cfg (sv_draws S) (sv_env S) (sv_keywords S)
               jid uid (or_else (kw_str kw ''seed_keyword'') [])
               (case kw_int kw ''limit'' of None \<Rightarrow> 0 | Some n \<Rightarrow> n)))
      else if job_type = ''rank''
      then Some (bind_runner [''keyword'', ''domain'', ''website_id''] (\<lambda>jid uid kw.
             run_rank_job cfg (sv_draws S) (sv_env S) (sv_rank S)
               jid uid (or_else (kw_str kw ''keyword'') []) (kw_str kw ''domain'')
               (kw_int kw ''website_id'')))
      else None)"

section \<open>The wrapper\<close>

definition x_metric :: "metric_op \<Rightarrow> ('s, 'd) exec_world \<Rightarrow> ('s, 'd) exec_world" where
  "x_metric m x = x\<lparr>xw_run := bump m (xw_run x)\<rparr>"

text \<open>The dead letter queue reports to the one metrics registry.\<close>

definition x_dead_letter ::
  "worker_settings \<Rightarrow> 'd dlq_redis \<Rightarrow> task \<Rightarrow> string \<Rightarrow> string \<Rightarrow> int \<Rightarrow> kwargs option
     \<Rightarrow> ('s, 'd) exec_world \<Rightarrow> ('s, 'd) exec_world" where
  "x_dead_letter cfg D t reason trace retries extra x =
     (let d = (xw_dlq x)\<lparr>dq_metrics := rn_metrics (xw_run x)\<rparr>;
          (_, d') = push_to_dlq (ws_dlq cfg) D (ws_now cfg) [] (tk_job_id t) (tk_job_type t)
                      (tk_user_id t) reason (Some trace) retries extra d
      in x\<lparr>xw_dlq := d', xw_run := (xw_run x)\<lparr>rn_metrics := dq_metrics d'\<rparr>\<rparr>)"

definition x_fail_job ::
  "int \<Rightarrow> int \<Rightarrow> string \<Rightarrow> ('s, 'd) exec_world \<Rightarrow> unit outcome \<times> ('s, 'd) exec_world" where
  "x_fail_job jid uid msg x =
     (case fail_job True (JId jid) uid msg (rn_jobs (xw_run x)) of
        (res, jw) \<Rightarrow> ((case res of Inl e \<Rightarrow> Inl e | Inr _ \<Rightarrow> Inr ()),
                     x\<lparr>xw_run := (xw_run x)\<lparr>rn_jobs := jw\<rparr>\<rparr>))"

definition effective_trace :: "task \<Rightarrow> string" where
  "effective_trace t =
     or_else (tk_trace_id t)
       (or_else (kw_str (tk_kwargs t) ''trace_id'') (default_trace (tk_job_id t)))"

text \<open>
  The loop over the attempts. The connection is closed before a nap, which does not show in the
  state. An exception that is not an \<^verbatim>\<open>Exception\<close> leaves the loop.
\<close>

fun attempts_from ::
  "worker_settings \<Rightarrow> retry_engine \<Rightarrow> (nat \<Rightarrow> rat) \<Rightarrow> 'd dlq_redis \<Rightarrow> ('s, 'd) runner \<Rightarrow> task
     \<Rightarrow> nat \<Rightarrow> nat \<Rightarrow> ('s, 'd) exec_world \<Rightarrow> unit outcome \<times> ('s, 'd) exec_world" where
  "attempts_from cfg eng draws D target t 0 attempt x = (Inr (), x)"
| "attempts_from cfg eng draws D target t (Suc left) attempt x =
     (if is_cancelled (rn_jobs (xw_run x)) (tk_job_id t) then (Inr (), x)
      else
        (case target (tk_job_id t) (tk_user_id t) (tk_kwargs t) x of
           (Inr _, x1) \<Rightarrow> (Inr (), x_metric (inc_worker_jobs_completed 1) x1)
         | (Inl e, x1) \<Rightarrow>
             let extra = Some [(''trace_id'', PStr (effective_trace t))];
                 trace = ws_traceback cfg e
             in if \<not> exc_matches e [C_Exception] then (Inl e, x1)
                else if exc_matches e (non_retryable_exceptions eng)
                then and_then (x_fail_job (tk_job_id t) (tk_user_id t) (exc_str e) x1) (\<lambda>_ x2.
                       (Inr (), x_metric (inc_worker_jobs_failed 1)
                          (x_dead_letter cfg D t (exc_str e) trace (int attempt) extra x2)))
                else if int attempt < max_retries eng
                then attempts_from cfg eng draws D target t left (Suc attempt)
                       ((x_metric (inc_retry_attempts 1) x1)
                          \<lparr>xw_naps := xw_naps x1 @ [compute_delay eng attempt (draws attempt)]\<rparr>)
                else and_then (x_fail_job (tk_job_id t) (tk_user_id t)
                                 (''Failed after max retries: '' @ exc_str e)
                                 (x_metric (inc_worker_jobs_failed 1)
                                    (x_metric (inc_retry_failures 1) x1))) (\<lambda>_ x2.
                       attempts_from cfg eng draws D target t left (Suc attempt)
                         (x_dead_letter cfg D t (''Exhausted retries: '' @ exc_str e) trace
                            (int attempt) extra x2))))"

text \<open>
  \<^verbatim>\<open>_execute_job_wrapper\<close> up to its \<^verbatim>\<open>finally\<close>, which removes the entry of the running job. The
  outer handler records what the inner ones let through.
\<close>

definition wrapper_body ::
  "worker_settings \<Rightarrow> retry_engine \<Rightarrow> (nat \<Rightarrow> rat) \<Rightarrow> 'd dlq_redis \<Rightarrow> 's services \<Rightarrow> task
     \<Rightarrow> ('s, 'd) exec_world \<Rightarrow> unit outcome \<times> ('s, 'd) exec_world" where
  "wrapper_body cfg eng draws D S t x =
     (case target_func (ws_retry cfg) S (tk_job_type t) of
        None \<Rightarrow>
          x_fail_job (tk_job_id t) (tk_user_id t)
            (''Unknown job type '' @ CHR 39 # tk_job_type t @ [CHR 39]) x
      | Some target \<Rightarrow>
          if is_cancelled (rn_jobs (xw_run x)) (tk_job_id t) then (Inr (), x)
          else attempts_from cfg eng draws D target t (nat (max_retries eng + 1)) 0 x)"

definition execute_job_wrapper ::
  "worker_settings \<Rightarrow> retry_engine \<Rightarrow> (nat \<Rightarrow> rat) \<Rightarrow> 'd dlq_redis \<Rightarrow> 's services \<Rightarrow> task
     \<Rightarrow> ('s, 'd, 'q) worker \<Rightarrow> unit outcome \<times> ('s, 'd, 'q) worker" where
  "execute_job_wrapper cfg eng draws D S t w =
     (let (res, x) =
        (case wrapper_body cfg eng draws D S t (wk_world w) of
           (Inr _, x1) \<Rightarrow> (Inr (), x1)
         | (Inl e, x1) \<Rightarrow>
             if exc_matches e [C_Exception]
             then x_fail_job (tk_job_id t) (tk_user_id t) (exc_str e) x1
             else (Inl e, x1))
      in (res, w\<lparr>wk_world := x, wk_running := d_del (tk_job_id t) (wk_running w)\<rparr>))"

section \<open>Submission and the loop\<close>

definition submit_job ::
  "int \<Rightarrow> string \<Rightarrow> int \<Rightarrow> kwargs \<Rightarrow> string option \<Rightarrow> string option \<Rightarrow> ('s, 'd, 'q) worker
     \<Rightarrow> ('s, 'd, 'q) worker" where
  "submit_job job_id job_type user_id kw group_id trace_id w =
     (if \<not> wk_accepting w then w
      else
        let info = \<lparr>ri_job_type = job_type, ri_user_id = user_id, ri_group_id = group_id,
                    ri_trace_id = trace_id\<rparr>;
            t = \<lparr>tk_job_id = job_id, tk_job_type = job_type, tk_user_id = user_id, tk_kwargs = kw,
                 tk_trace_id = trace_id\<rparr>;
            w1 = w\<lparr>wk_running := d_set job_id info (wk_running w)\<rparr>;
            ex = wk_executor w1
        in if ex_open ex
           then w1\<lparr>wk_executor := ex\<lparr>ex_pending := ex_pending ex @ [t]\<rparr>\<rparr>
           else w1\<lparr>wk_running := d_del job_id (wk_running w1)\<rparr>)"

text \<open>A document without a job number, a type or a user is logged and dropped.\<close>

definition dispatch_job_payload :: "payload \<Rightarrow> ('s, 'd, 'q) worker \<Rightarrow> ('s, 'd, 'q) worker" where
  "dispatch_job_payload pl w =
     (if p_job_id pl = 0 \<or> p_job_type pl = [] \<or> p_user_id pl = 0 then w
      else submit_job (p_job_id pl) (p_job_type pl) (p_user_id pl)
             (case p_params pl of PDict kw \<Rightarrow> kw | _ \<Rightarrow> []) (p_group_id pl) (Some (p_trace_id pl)) w)"

definition w_metric :: "metric_op \<Rightarrow> ('s, 'd, 'q) worker \<Rightarrow> ('s, 'd, 'q) worker" where
  "w_metric m w = w\<lparr>wk_world := x_metric m (wk_world w)\<rparr>"

definition active_count :: "('s, 'd, 'q) worker \<Rightarrow> int" where
  "active_count w = int (length (wk_running w))"

text \<open>One pass of \<^verbatim>\<open>run_worker_loop\<close>.\<close>

definition loop_pass ::
  "worker_settings \<Rightarrow> 'q queue_redis \<Rightarrow> ('s, 'd, 'q) worker \<Rightarrow> ('s, 'd, 'q) worker" where
  "loop_pass cfg Q w =
     (if \<not> wk_accepting w \<or> wk_stopping w then w
      else
        let active = active_count w;
            utilization = (if wk_concurrency w > 0
                           then of_int active / of_int (wk_concurrency w) * 100 else 0);
            w1 = (w_metric (set_worker_jobs_running active) (w_metric (set_worker_utilization utilization) w))
                   \<lparr>wk_status := (if active > 0 then ''busy'' else ''idle''),
                    wk_heartbeat_jobs := active\<rparr>;
            slots = wk_concurrency w1 - active
        in if slots > 0
           then (case q_pop_batch (ws_use_queue cfg) Q (nat (min slots 5)) (wk_queue w1) of
                   (batch, q) \<Rightarrow>
                     foldl (\<lambda>w pl. dispatch_job_payload pl w) (w1\<lparr>wk_queue := q\<rparr>) batch)
           else w1)"

text \<open>A thread takes the first task of the pool.\<close>

definition run_task ::
  "worker_settings \<Rightarrow> retry_engine \<Rightarrow> (nat \<Rightarrow> rat) \<Rightarrow> 'd dlq_redis \<Rightarrow> 's services
     \<Rightarrow> ('s, 'd, 'q) worker \<Rightarrow> ('s, 'd, 'q) worker" where
  "run_task cfg eng draws D S w =
     (case ex_pending (wk_executor w) of
        [] \<Rightarrow> w
      | t # ts \<Rightarrow>
          snd (execute_job_wrapper cfg eng draws D S t
                 (w\<lparr>wk_executor := (wk_executor w)\<lparr>ex_pending := ts\<rparr>\<rparr>)))"

section \<open>Concurrency\<close>

text \<open>The old pool is shut down with \<^verbatim>\<open>cancel_futures=True\<close>: its waiting tasks are dropped.\<close>

definition adjust_concurrency :: "int \<Rightarrow> ('s, 'd, 'q) worker \<Rightarrow> int \<times> ('s, 'd, 'q) worker" where
  "adjust_concurrency new w =
     (let target = max 1 (min 100 new)
      in if target = wk_concurrency w then (wk_concurrency w, w)
         else
           (target, w_metric (set_worker_concurrency target)
              (w\<lparr>wk_concurrency := target,
                 wk_executor := \<lparr>ex_open = True, ex_workers = target, ex_pending = []\<rparr>\<rparr>)))"

definition auto_tune_concurrency ::
  "worker_settings \<Rightarrow> 'q queue_redis \<Rightarrow> ('s, 'd, 'q) worker \<Rightarrow> scaling_hints \<times> ('s, 'd, 'q) worker" where
  "auto_tune_concurrency cfg Q w =
     (case q_get_scaling_hints (ws_use_queue cfg) Q None (wk_concurrency w) (active_count w) (wk_queue w) of
        (h, q) \<Rightarrow>
          let w1 = w\<lparr>wk_queue := q\<rparr>
          in (h, if h_action h \<noteq> Maintain then snd (adjust_concurrency (h_recommended h) w1) else w1))"

section \<open>Recovery, statistics, shutdown\<close>

text \<open>
  One running job of the scan: how long its last update is ago, the comparison with
  \<^verbatim>\<open>JOB_TIMEOUT_SECONDS\<close>. The loop ends at the first exception.
\<close>

fun recover_loop ::
  "worker_settings \<Rightarrow> 'd dlq_redis \<Rightarrow> (string \<Rightarrow> string) \<Rightarrow> int list \<Rightarrow> ('s, 'd) exec_world
     \<Rightarrow> nat outcome \<times> ('s, 'd) exec_world" where
  "recover_loop cfg D reason [] x = (Inr 0, x)"
| "recover_loop cfg D reason (i # ids) x =
     (case t_get (jw_jobs (rn_jobs (xw_run x))) i of
        None \<Rightarrow> (Inl (OtherException ''ObjectDeletedError''), x)
      | Some j \<Rightarrow>
          let elapsed = of_int (jw_now (rn_jobs (xw_run x)) - j_updated_at j) / 1000000
          in if elapsed > ws_timeout cfg
             then
               let t = \<lparr>tk_job_id = i, tk_job_type = j_job_type j, tk_user_id = j_user_id j,
                        tk_kwargs = [], tk_trace_id = None\<rparr>;
                   x1 = x_dead_letter cfg D t
                          (reason (int_str (round_half_even elapsed)))
                          ''Worker crash or ungraceful termination recovery''
                          (MAX_JOB_RETRIES (ws_retry cfg)) None x
               in and_then (x_fail_job i (j_user_id j) ''Job recovered after worker crash/timeout'' x1)
                    (\<lambda>_ x2. and_then (recover_loop cfg D reason ids x2) (\<lambda>n x3. (Inr (Suc n), x3)))
             else recover_loop cfg D reason ids x)"

definition recovery_reason :: "string \<Rightarrow> string" where
  "recovery_reason secs = ''Orphan job recovered on worker startup (elapsed: '' @ secs @ ''s)''"

definition recover_interrupted_jobs ::
  "worker_settings \<Rightarrow> 'd dlq_redis \<Rightarrow> ('s, 'd, 'q) worker \<Rightarrow> ('s, 'd, 'q) worker" where
  "recover_interrupted_jobs cfg D w =
     (let running = t_where (\<lambda>i j. j_status j = ''running'') (jw_jobs (rn_jobs (xw_run (wk_world w))))
      in w\<lparr>wk_world := snd (recover_loop cfg D recovery_reason (map fst running) (wk_world w))\<rparr>)"

definition start_heartbeat_loop :: "('s, 'd, 'q) worker \<Rightarrow> ('s, 'd, 'q) worker" where
  "start_heartbeat_loop w =
     (if wk_beating w then w
      else w_metric (set_worker_active 1) (w\<lparr>wk_beating := True, wk_status := ''idle''\<rparr>))"

definition stop_heartbeat_loop :: "('s, 'd, 'q) worker \<Rightarrow> ('s, 'd, 'q) worker" where
  "stop_heartbeat_loop w =
     w_metric (set_worker_active 0) (w\<lparr>wk_beating := False, wk_status := ''stopped''\<rparr>)"

definition worker_start ::
  "worker_settings \<Rightarrow> 'd dlq_redis \<Rightarrow> ('s, 'd, 'q) worker \<Rightarrow> ('s, 'd, 'q) worker" where
  "worker_start cfg D w =
     (let w1 = start_heartbeat_loop w
      in if ws_recovery cfg then recover_interrupted_jobs cfg D w1 else w1)"

record worker_stats =
  st_concurrency :: int
  st_active :: int
  st_running :: "running_info list"
  st_utilization :: rat
  st_accepting :: bool
  st_stopping :: bool
  st_queue :: queue_stats
  st_hints :: scaling_hints

definition get_worker_stats ::
  "worker_settings \<Rightarrow> 'q queue_redis \<Rightarrow> ('s, 'd, 'q) worker \<Rightarrow> worker_stats \<times> ('s, 'd, 'q) worker" where
  "get_worker_stats cfg Q w =
     (case q_get_queue_stats (ws_use_queue cfg) Q (wk_queue w) of
        (qs, q) \<Rightarrow>
          (\<lparr>st_concurrency = wk_concurrency w, st_active = active_count w,
            st_running = map snd (wk_running w),
            st_utilization = py_round2 (if wk_concurrency w > 0
              then of_int (active_count w) / of_int (wk_concurrency w) * 100 else 0),
            st_accepting = wk_accepting w, st_stopping = wk_stopping w, st_queue = qs,
            st_hints = scaling_hints_for (int (s_total_queued qs)) (wk_concurrency w) (active_count w)\<rparr>,
           w\<lparr>wk_queue := q\<rparr>))"

text \<open>
  \<^verbatim>\<open>shutdown\<close>: no more jobs, the heartbeat stops, and the pool is closed after the tasks it
  holds have run (\<^verbatim>\<open>wait=True\<close>).
\<close>

fun drain_pool ::
  "worker_settings \<Rightarrow> retry_engine \<Rightarrow> (nat \<Rightarrow> rat) \<Rightarrow> 'd dlq_redis \<Rightarrow> 's services \<Rightarrow> task list
     \<Rightarrow> ('s, 'd, 'q) worker \<Rightarrow> ('s, 'd, 'q) worker" where
  "drain_pool cfg eng draws D S [] w = w"
| "drain_pool cfg eng draws D S (t # ts) w =
     drain_pool cfg eng draws D S ts
       (snd (execute_job_wrapper cfg eng draws D S t
          (w\<lparr>wk_executor := (wk_executor w)\<lparr>ex_pending := ts\<rparr>\<rparr>)))"

definition worker_shutdown ::
  "worker_settings \<Rightarrow> retry_engine \<Rightarrow> (nat \<Rightarrow> rat) \<Rightarrow> 'd dlq_redis \<Rightarrow> 's services
     \<Rightarrow> ('s, 'd, 'q) worker \<Rightarrow> ('s, 'd, 'q) worker" where
  "worker_shutdown cfg eng draws D S w =
     (if wk_stopping w then w
      else
        let w1 = stop_heartbeat_loop (w\<lparr>wk_stopping := True, wk_accepting := False\<rparr>);
            w2 = drain_pool cfg eng draws D S (ex_pending (wk_executor w1)) w1
        in w2\<lparr>wk_executor := (wk_executor w2)\<lparr>ex_open := False\<rparr>\<rparr>)"

end
