(* ===== verification/Runner_Props.thy ===== *)
theory Runner_Props
  imports Runners
begin

text \<open>
  What a runner makes of its job: the way to completion, the runners that can never complete, and
  what happens when the job is cancelled at each of the points between two calls.
\<close>

section \<open>Operations on an object that may be out of date\<close>

text \<open>The table is in order, and the key has been given out, to a job of this user.\<close>

definition table_key :: "int \<Rightarrow> jobs_world \<Rightarrow> int \<Rightarrow> bool" where
  "table_key uid jw i \<longleftrightarrow> table_ok jw \<and> i < t_next (jw_jobs jw)
     \<and> (\<forall>j. job_row jw i = Some j \<longrightarrow> j_user_id j = uid)"

text \<open>The object of key \<open>i\<close>, with some row loaded.\<close>

definition holds_job :: "int \<Rightarrow> job_ref \<Rightarrow> bool" where
  "holds_job i ref \<longleftrightarrow> ref_id ref = i \<and> ref_row ref \<noteq> None"

lemma service_update_held:
  assumes "holds_job i ref" and "table_key uid jw i"
    and "service_update True stop ch pub err (JObj ref) uid jw = (res, jw')"
  shows "table_key uid jw' i
    \<and> (case res of Inl e \<Rightarrow> job_row jw' i = None \<and> exc_matches e [C_Exception]
        | Inr None \<Rightarrow> False | Inr (Some ref') \<Rightarrow> holds_job i ref')"
  using assms
  by (auto simp: service_update_def resolve_job_def holds_job_def table_key_def table_ok_def
      crud_update_job_def Let_def ref_load_def split: option.splits if_splits)

text \<open>
  With a status that the object does not change, an operation leaves a cancelled row cancelled,
  however old the object is.
\<close>

lemma service_update_keeps_cancelled:
  assumes "holds_job i ref" and "table_key uid jw i" and "is_cancelled jw i"
    and "service_update True stop ch pub err (JObj ref) uid jw = (res, jw')"
    and "\<And>j. ref_row ref = Some j \<Longrightarrow> j_status j \<in> set stop \<or> c_status (ch j) = Some (j_status j)"
  shows "is_cancelled jw' i
    \<and> (case res of Inr (Some ref') \<Rightarrow>
         \<exists>j'. ref_row ref' = Some j' \<and> j_status j' \<in> set stop \<union> {''cancelled''} | _ \<Rightarrow> True)"
proof -
  from assms(1) obtain j where ref: "ref_id ref = i" "ref_row ref = Some j"
    by (auto simp: holds_job_def)
  show ?thesis
  proof (cases "j_status j \<in> set stop")
    case True
    with assms(3,4) ref show ?thesis by (auto simp: service_update_def resolve_job_def)
  next
    case False
    with assms(5) ref have keep: "c_status (net_changes (ch j) (Some j)) = None"
      by (simp add: net_changes_def drop_same_def)
    show ?thesis
    proof (cases "job_row jw i")
      case None
      with assms(4) ref False show ?thesis
        by (auto simp: service_update_def resolve_job_def crud_update_job_def Let_def
            ref_load_def is_cancelled_def split: if_splits)
    next
      case (Some r)
      with assms(3) have "j_status r = ''cancelled''" by (simp add: is_cancelled_def)
      with assms(4) ref False Some keep show ?thesis
        by (auto simp: service_update_def resolve_job_def crud_update_job_def Let_def
            ref_load_def is_cancelled_def split: if_splits)
    qed
  qed
qed

lemma on_job_def2:
  "on_job f ref w = (case f (rn_jobs w) of
     (res, jw) \<Rightarrow> ((case res of Inl e \<Rightarrow> Inl e | Inr None \<Rightarrow> Inr ref | Inr (Some r) \<Rightarrow> Inr r),
                  w\<lparr>rn_jobs := jw\<rparr>))"
  by (auto simp: on_job_def split: prod.split sum.split option.split)

lemma on_job_held:
  assumes "holds_job i ref" and "table_key uid (rn_jobs w) i"
    and "on_job (\<lambda>jw. service_update True stop (ch jw) pub err (JObj ref) uid jw) ref w = (res, w')"
  shows "table_key uid (rn_jobs w') i
    \<and> (case res of Inl e \<Rightarrow> job_row (rn_jobs w') i = None \<and> exc_matches e [C_Exception]
        | Inr ref' \<Rightarrow> holds_job i ref')"
proof -
  obtain r jw' where r: "service_update True stop (ch (rn_jobs w)) pub err (JObj ref) uid (rn_jobs w) = (r, jw')"
    by fastforce
  from service_update_held [OF assms(1,2) r] assms(3) r show ?thesis
    by (auto simp: on_job_def2 split: sum.splits option.splits)
qed

lemma on_job_keeps_cancelled:
  assumes "holds_job i ref" and "table_key uid (rn_jobs w) i" and "is_cancelled (rn_jobs w) i"
    and "on_job (\<lambda>jw. service_update True stop (ch jw) pub err (JObj ref) uid jw) ref w = (res, w')"
    and "\<And>j jw. ref_row ref = Some j \<Longrightarrow> j_status j \<in> set stop \<or> c_status (ch jw j) = Some (j_status j)"
  shows "is_cancelled (rn_jobs w') i
    \<and> (case res of Inr ref' \<Rightarrow>
         \<exists>j'. ref_row ref' = Some j' \<and> j_status j' \<in> set stop \<union> {''cancelled''} | _ \<Rightarrow> True)"
proof -
  obtain r jw' where r: "service_update True stop (ch (rn_jobs w)) pub err (JObj ref) uid (rn_jobs w) = (r, jw')"
    by fastforce
  from service_update_keeps_cancelled [OF assms(1-3) r assms(5)]
    service_update_held [OF assms(1,2) r] assms(4) r show ?thesis
    by (auto simp: on_job_def2 split: sum.splits option.splits)
qed

lemmas op_defs = start_job_def [abs_def] update_progress_def [abs_def] complete_job_def [abs_def]

section \<open>Other sessions and the service function\<close>

text \<open>
  What the other sessions may do: anything that keeps the table in order and does not bring a
  cancelled job back. The service calls of \<open>Job_Props\<close> are of this kind.
\<close>

definition civil :: "int \<Rightarrow> int \<Rightarrow> (jobs_world \<Rightarrow> jobs_world) \<Rightarrow> bool" where
  "civil uid i f \<longleftrightarrow> (\<forall>jw. table_key uid jw i \<longrightarrow>
     table_key uid (f jw) i \<and> (is_cancelled jw i \<longrightarrow> is_cancelled (f jw) i))"

lemma row_after_owner:
  "\<lbrakk>row_after w ev i r = Some j'; i < t_next (jw_jobs w); \<forall>j. r = Some j \<longrightarrow> j_user_id j = uid\<rbrakk>
     \<Longrightarrow> j_user_id j' = uid"
  by (cases ev; cases r) (auto split: if_splits)

interpretation keyed: machine job_step "\<lambda>jw. table_key uid jw i" for uid i
proof
  fix s ev assume key: "table_key uid s i"
  then show "table_key uid (job_step s ev) i"
    using job_step_row [of s ev i] row_after_owner [of s ev i "job_row s i" _ uid]
    unfolding table_key_def by fastforce
qed

lemma civil_run: "civil uid i (\<lambda>jw. foldl job_step jw evs)"
  unfolding civil_def
proof (intro allI impI conjI)
  fix jw assume key: "table_key uid jw i"
  show "table_key uid (foldl job_step jw evs) i" by (rule keyed.run_inv [OF key])
  assume "is_cancelled jw i"
  with key show "is_cancelled (foldl job_step jw evs) i"
    by (intro cancelled.run_final) (simp_all add: table_key_def)
qed

lemma civil_id: "civil uid i (\<lambda>jw. jw)"
  by (simp add: civil_def)

lemma civil_fail: "civil uid' i (\<lambda>jw. snd (fail_job x (JId k) uid msg jw))"
  using civil_run [of uid' i "[EvFail x k uid msg]"] by simp

lemma civilD:
  "civil uid i f \<Longrightarrow> table_key uid jw i \<Longrightarrow> table_key uid (f jw) i"
  "civil uid i f \<Longrightarrow> table_key uid jw i \<Longrightarrow> is_cancelled jw i \<Longrightarrow> is_cancelled (f jw) i"
  by (simp_all add: civil_def)

text \<open>
  A service function that returns a value other than \<^verbatim>\<open>None\<close> whatever the state, and is civil to
  the jobs table.
\<close>

definition returns :: "int \<Rightarrow> int \<Rightarrow> ('s, 'v) py_func \<Rightarrow> kwargs \<Rightarrow> bool" where
  "returns uid i func kw \<longleftrightarrow>
     (\<forall>st. \<exists>v st'. call_py func kw st = (Inr (Some v), st')
        \<and> (table_key uid (snd st) i \<longrightarrow> table_key uid (snd st') i
             \<and> (is_cancelled (snd st) i \<longrightarrow> is_cancelled (snd st') i)))"

lemma execute_returns:
  assumes "returns uid i func kw" and "table_key uid (rn_jobs w) i"
  shows "\<exists>v w'. execute_with_retry cfg draws func 2 jid kw w = (Inr v, w')
    \<and> table_key uid (rn_jobs w') i \<and> (v = None \<longrightarrow> is_cancelled (rn_jobs w) jid)
    \<and> (is_cancelled (rn_jobs w) i \<longrightarrow> is_cancelled (rn_jobs w') i)"
proof -
  from assms(1) obtain v st' where "call_py func kw (rn_ext w, rn_jobs w) = (Inr (Some v), st')"
    "table_key uid (rn_jobs w) i \<longrightarrow> table_key uid (snd st') i
       \<and> (is_cancelled (rn_jobs w) i \<longrightarrow> is_cancelled (snd st') i)"
    unfolding returns_def by (metis snd_conv)
  then show ?thesis
    using assms(2)
    by (auto simp: execute_with_retry_def execute_def mk_engine_def numeral_eq_Suc)
qed

section \<open>Cancellation between two calls\<close>

definition rest_of_run ::
  "retry_settings \<Rightarrow> (nat \<Rightarrow> rat) \<Rightarrow> (nat \<Rightarrow> jobs_world \<Rightarrow> jobs_world) \<Rightarrow> ('s, 'v) py_func \<Rightarrow> kwargs
     \<Rightarrow> ('v \<Rightarrow> pyval option) \<Rightarrow> int \<Rightarrow> int \<Rightarrow> job_ref \<Rightarrow> 's run_world \<Rightarrow> bool outcome \<times> 's run_world" where
  "rest_of_run cfg draws env func kw out i uid ref2 w =
     (let w2 = others env 2 w
      in if is_cancelled (rn_jobs w2) i then (Inr False, w2)
         else
           and_then (execute_with_retry cfg draws func 2 i kw (others env 3 w2)) (\<lambda>res w.
           let w4 = others env 4 w
           in if is_cancelled (rn_jobs w4) i \<or> res = None then (Inr False, w4)
              else
                and_then (on_job (update_progress True (JObj ref2) uid 80 None) ref2
                            (others env 5 w4)) (\<lambda>ref3 w.
                and_then (on_job (complete_job True (JObj ref3) uid (out (the res)))
                            ref3 (others env 6 w)) (\<lambda>ref4 w. (Inr True, w)))))"

lemma run_body_split:
  assumes "get_user_job_by_id (rn_jobs w) i uid = Some ref" and "ref_row ref = Some j"
    and "j_status j \<notin> set finished_statuses"
  shows "run_body cfg draws env func kw out i uid w =
    and_then (on_job (start_job True (JObj ref) uid) ref (others env 0 w)) (\<lambda>ref1 w.
    and_then (on_job (update_progress True (JObj ref1) uid 30 None) ref1 (others env 1 w))
      (\<lambda>ref2 w. rest_of_run cfg draws env func kw out i uid ref2 w))"
  using assms by (simp add: run_body_def rest_of_run_def)

definition ends_cancelled :: "int \<Rightarrow> int \<Rightarrow> bool outcome \<times> 's run_world \<Rightarrow> bool" where
  "ends_cancelled uid i r \<longleftrightarrow> table_key uid (rn_jobs (snd r)) i \<and> is_cancelled (rn_jobs (snd r)) i
     \<and> (\<forall>e. fst r = Inl e \<longrightarrow> exc_matches e [C_Exception])"

definition cancels :: "int \<Rightarrow> int \<Rightarrow> (jobs_world \<Rightarrow> jobs_world) \<Rightarrow> bool" where
  "cancels uid i f \<longleftrightarrow> (\<forall>jw. table_key uid jw i \<longrightarrow> is_cancelled (f jw) i)"

lemma others_simps [simp]: "rn_jobs (others env n w) = env n (rn_jobs w)"
  by (simp add: others_def)

lemma gone_is_cancelled: "job_row jw i = None \<Longrightarrow> is_cancelled jw i"
  by (simp add: is_cancelled_def)

lemma last_steps_cancelled:
  assumes "holds_job i ref" and "table_key uid (rn_jobs w) i" and "is_cancelled (rn_jobs w) i"
    and "civil uid i (env 6)"
  shows "ends_cancelled uid i
    (and_then (on_job (update_progress True (JObj ref) uid 80 None) ref w) (\<lambda>ref3 w.
     and_then (on_job (complete_job True (JObj ref3) uid res) ref3 (others env 6 w))
       (\<lambda>ref4 w. (Inr True, w))))"
proof -
  obtain r3 w3 where s3: "on_job (update_progress True (JObj ref) uid 80 None) ref w = (r3, w3)"
    by fastforce
  note held = on_job_held [OF assms(1,2) s3 [unfolded op_defs]]
  have kept: "is_cancelled (rn_jobs w3) i
    \<and> (case r3 of Inr ref' \<Rightarrow> \<exists>j'. ref_row ref' = Some j'
         \<and> j_status j' \<in> set [''cancelled'', ''completed'', ''failed''] \<union> {''cancelled''} | _ \<Rightarrow> True)"
    by (rule on_job_keeps_cancelled [OF assms(1-3) s3 [unfolded op_defs]]) (simp add: no_changes_def)
  show ?thesis
  proof (cases r3)
    case (Inl e)
    with s3 held kept show ?thesis by (simp add: ends_cancelled_def)
  next
    case (Inr ref3)
    with held kept obtain j3 where ref3: "holds_job i ref3" "table_key uid (rn_jobs w3) i"
      "ref_row ref3 = Some j3" "j_status j3 \<in> {''cancelled'', ''completed'', ''failed''}" by auto
    let ?w = "others env 6 w3"
    have w: "table_key uid (rn_jobs ?w) i" "is_cancelled (rn_jobs ?w) i"
      using civilD [OF assms(4) ref3(2)] kept by simp_all
    obtain r4 w4 where s4: "on_job (complete_job True (JObj ref3) uid res) ref3 ?w = (r4, w4)"
      by fastforce
    note held4 = on_job_held [OF ref3(1) w(1) s4 [unfolded op_defs]]
    have "is_cancelled (rn_jobs w4) i
      \<and> (case r4 of Inr ref' \<Rightarrow> \<exists>j'. ref_row ref' = Some j'
         \<and> j_status j' \<in> set [''cancelled'', ''failed''] \<union> {''cancelled''} | _ \<Rightarrow> True)"
      by (rule on_job_keeps_cancelled [OF ref3(1) w s4 [unfolded op_defs]])
        (use ref3(3,4) in \<open>auto simp: no_changes_def\<close>)
    with held4 s3 s4 Inr show ?thesis
      by (cases r4) (auto simp: ends_cancelled_def)
  qed
qed

lemma rest_of_run_cancelled:
  assumes "holds_job i ref" and "table_key uid (rn_jobs w) i" and civil: "\<forall>n. civil uid i (env n)"
    and ret: "returns uid i func kw"
    and "is_cancelled (rn_jobs w) i \<or> (\<exists>k\<in>{2, 3, 4, 5}. cancels uid i (env k))"
  shows "ends_cancelled uid i (rest_of_run cfg draws env func kw out i uid ref w)"
proof -
  let ?w2 = "others env 2 w"
  have w2: "table_key uid (rn_jobs ?w2) i"
    "is_cancelled (rn_jobs ?w2) i \<or> cancels uid i (env 3) \<or> cancels uid i (env 4) \<or> cancels uid i (env 5)"
    using assms(2,5) civilD [of uid i "env 2" "rn_jobs w"] civil by (auto simp: cancels_def)
  show ?thesis
  proof (cases "is_cancelled (rn_jobs ?w2) i")
    case True
    with w2 show ?thesis by (simp add: rest_of_run_def ends_cancelled_def)
  next
    case False
    let ?w3 = "others env 3 ?w2"
    have w3: "table_key uid (rn_jobs ?w3) i"
      "is_cancelled (rn_jobs ?w3) i \<or> cancels uid i (env 4) \<or> cancels uid i (env 5)"
      using w2 False civilD [of uid i "env 3" "rn_jobs ?w2"] civil by (auto simp: cancels_def)
    obtain v w' where ex: "execute_with_retry cfg draws func 2 i kw ?w3 = (Inr v, w')"
      "table_key uid (rn_jobs w') i" "v = None \<longrightarrow> is_cancelled (rn_jobs ?w3) i" "is_cancelled (rn_jobs ?w3) i \<longrightarrow> is_cancelled (rn_jobs w') i"
      using execute_returns [OF ret w3(1)] by blast
    let ?w4 = "others env 4 w'"
    have w4: "table_key uid (rn_jobs ?w4) i" "is_cancelled (rn_jobs ?w4) i \<or> cancels uid i (env 5)"
      using w3 ex civilD [of uid i "env 4" "rn_jobs w'"] civil by (auto simp: cancels_def)
    have w5: "table_key uid (rn_jobs (others env 5 ?w4)) i"
      using w4 civilD [of uid i "env 5" "rn_jobs ?w4"] civil by simp
    show ?thesis
    proof (cases "is_cancelled (rn_jobs ?w4) i")
      case True
      with False ex w4 show ?thesis by (simp add: rest_of_run_def ends_cancelled_def)
    next
      case nc: False
      with w4 have c5: "is_cancelled (rn_jobs (others env 5 ?w4)) i"
        by (simp add: cancels_def)
      show ?thesis
      proof (cases v)
        case None
        with ex have "is_cancelled (rn_jobs ?w4) i"
          using civilD(2) [of uid i "env 4" "rn_jobs w'"] civil by simp
        with nc show ?thesis by contradiction
      next
        case (Some x)
        have "ends_cancelled uid i
          (and_then (on_job (update_progress True (JObj ref) uid 80 None) ref (others env 5 ?w4)) (\<lambda>ref3 w.
           and_then (on_job (complete_job True (JObj ref3) uid (out (the v))) ref3 (others env 6 w))
             (\<lambda>ref4 w. (Inr True, w))))"
          using last_steps_cancelled [OF assms(1) w5 c5] civil by blast
        with False ex nc Some show ?thesis by (simp add: rest_of_run_def)
      qed
    qed
  qed
qed

lemma run_body_cancelled:
  assumes key: "table_key uid (rn_jobs w) i" and row: "job_row (rn_jobs w) i = Some j"
    and opn: "j_status j \<notin> set finished_statuses"
    and civil: "\<forall>n. civil uid i (env n)" and ret: "returns uid i func kw"
    and k: "k \<in> {1, 2, 3, 4, 5}" "cancels uid i (env k)"
  shows "ends_cancelled uid i (run_body cfg draws env func kw out i uid w)"
proof -
  let ?ref = "\<lparr>ref_id = i, ref_row = Some j\<rparr>"
  have own: "j_user_id j = uid" using key row by (simp add: table_key_def)
  have lookup: "get_user_job_by_id (rn_jobs w) i uid = Some ?ref"
    using key row own by (simp add: get_user_job_by_id_eq table_key_def table_ok_def)
  have held: "holds_job i ?ref" by (simp add: holds_job_def)
  let ?w0 = "others env 0 w"
  have w0: "table_key uid (rn_jobs ?w0) i" using civilD(1) civil key by simp
  obtain r1 w1 where s1: "on_job (start_job True (JObj ?ref) uid) ?ref ?w0 = (r1, w1)" by fastforce
  note h1 = on_job_held [OF held w0 s1 [unfolded op_defs]]
  show ?thesis
  proof (cases r1)
    case (Inl e)
    with h1 s1 show ?thesis
      by (simp add: run_body_split [OF lookup _ opn] ends_cancelled_def gone_is_cancelled)
  next
    case (Inr ref1)
    with h1 have ref1: "holds_job i ref1" "table_key uid (rn_jobs w1) i" by simp_all
    let ?w1 = "others env 1 w1"
    have k1: "table_key uid (rn_jobs ?w1) i" using civilD(1) civil ref1 by simp
    have c1: "is_cancelled (rn_jobs ?w1) i" if "k = 1"
      using that k(2) ref1(2) by (simp add: cancels_def)
    obtain r2 w2 where s2: "on_job (update_progress True (JObj ref1) uid 30 None) ref1 ?w1 = (r2, w2)"
      by fastforce
    note h2 = on_job_held [OF ref1(1) k1 s2 [unfolded op_defs]]
    have c2: "is_cancelled (rn_jobs w2) i" if "k = 1"
    proof -
      have "is_cancelled (rn_jobs w2) i \<and> (case r2 of Inr ref' \<Rightarrow> \<exists>j'. ref_row ref' = Some j'
         \<and> j_status j' \<in> set [''cancelled'', ''completed'', ''failed''] \<union> {''cancelled''} | _ \<Rightarrow> True)"
        by (rule on_job_keeps_cancelled [OF ref1(1) k1 c1 [OF that] s2 [unfolded op_defs]])
          (simp add: no_changes_def)
      then show ?thesis by blast
    qed
    show ?thesis
    proof (cases r2)
      case (Inl e)
      with h2 s1 s2 Inr show ?thesis
        by (simp add: run_body_split [OF lookup _ opn] ends_cancelled_def gone_is_cancelled)
    next
      case ref2: (Inr ref2)
      with h2 have "holds_job i ref2" "table_key uid (rn_jobs w2) i" by simp_all
      then have "ends_cancelled uid i (rest_of_run cfg draws env func kw out i uid ref2 w2)"
        using rest_of_run_cancelled [OF _ _ civil ret] c2 k by blast
      with s1 s2 Inr ref2 show ?thesis by (simp add: run_body_split [OF lookup _ opn])
    qed
  qed
qed

lemma run_job_cancelled:
  assumes "table_key uid (rn_jobs w) i" "job_row (rn_jobs w) i = Some j"
    "j_status j \<notin> set finished_statuses"
    "\<forall>n. civil uid i (env n)" "returns uid i func kw" "k \<in> {1, 2, 3, 4, 5}" "cancels uid i (env k)"
  shows "\<exists>b w'. run_job cfg draws env func kw out i uid w = (Inr b, w') \<and> is_cancelled (rn_jobs w') i"
proof -
  obtain r w1 where body: "run_body cfg draws env func kw out i uid w = (r, w1)" by fastforce
  have ends: "table_key uid (rn_jobs w1) i" "is_cancelled (rn_jobs w1) i"
    "\<And>e. r = Inl e \<Longrightarrow> exc_matches e [C_Exception]"
    using run_body_cancelled [OF assms, of cfg draws out] body by (simp_all add: ends_cancelled_def)
  show ?thesis
  proof (cases r)
    case (Inr b)
    with body ends show ?thesis by (simp add: run_job_def)
  next
    case (Inl e)
    have "table_key uid (env 7 (rn_jobs w1)) i" "is_cancelled (env 7 (rn_jobs w1)) i"
      using civilD assms(4) ends by blast+
    then have "is_cancelled (snd (fail_job True (JId i) uid (exc_str e) (env 7 (rn_jobs w1)))) i"
      using civilD(2) [OF civil_fail] by blast
    with body Inl ends(3) [OF Inl] show ?thesis
      by (auto simp: run_job_def simp del: exc_matches_Exception)
  qed
qed

section \<open>The way to completion\<close>

text \<open>An object that agrees with the table.\<close>

definition synced :: "int \<Rightarrow> job_ref \<Rightarrow> jobs_world \<Rightarrow> job \<Rightarrow> bool" where
  "synced i ref jw j \<longleftrightarrow> t_ok (jw_jobs jw) \<and> ref_id ref = i \<and> ref_row ref = Some j \<and> job_row jw i = Some j"

lemma on_job_synced:
  assumes "synced i ref (rn_jobs w) j" and "j_status j \<notin> set stop"
  shows "\<exists>ref' w'. on_job (\<lambda>jw. service_update True stop (ch jw) pub err (JObj ref) uid jw) ref w
      = (Inr ref', w') \<and> rn_metrics w' = rn_metrics w \<and> rn_ext w' = rn_ext w
    \<and> synced i ref' (rn_jobs w') (apply_changes (ch (rn_jobs w) j) (jw_now (rn_jobs w)) j)"
proof -
  have "resolve_job (JObj ref) uid (rn_jobs w) = Some ref" by (simp add: resolve_job_def)
  from service_update_by_ref [OF _ this, of j stop True "ch (rn_jobs w)" pub err] assms
  show ?thesis unfolding synced_def by (auto simp: on_job_def2)
qed

text \<open>
  An object that does not agree with the table overwrites the row with the status it sets, if that
  is not the one it has cached, and agrees with the table afterwards.
\<close>

lemma on_job_stale:
  assumes "t_ok (jw_jobs (rn_jobs w))" and "ref_id ref = i" and "ref_row ref = Some j"
    and "job_row (rn_jobs w) i = Some r" and "j_status j \<notin> set stop"
    and "c_status (ch (rn_jobs w) j) = Some s" and "s \<noteq> j_status j"
  shows "\<exists>ref' w' j'. on_job (\<lambda>jw. service_update True stop (ch jw) pub err (JObj ref) uid jw) ref w
      = (Inr ref', w') \<and> rn_metrics w' = rn_metrics w \<and> rn_ext w' = rn_ext w
    \<and> j' = apply_changes (net_changes (ch (rn_jobs w) j) (Some j)) (jw_now (rn_jobs w)) r
    \<and> synced i ref' (rn_jobs w') j' \<and> j_status j' = s"
proof -
  have "c_status (net_changes (ch (rn_jobs w) j) (Some j)) = Some s"
    using assms(6,7) by (simp add: net_changes_def drop_same_def)
  moreover from this have "net_changes (ch (rn_jobs w) j) (Some j) \<noteq> no_changes"
    by (auto simp: no_changes_def)
  ultimately show ?thesis
    using assms
    by (auto simp: on_job_def2 service_update_def resolve_job_def crud_update_job_def Let_def
        ref_load_def synced_def split: if_splits)
qed

lemma start_stale:
  assumes "t_ok (jw_jobs (rn_jobs w))" and "ref_id ref = i" and "ref_row ref = Some j"
    and "job_row (rn_jobs w) i = Some r" and "j_status j = ''pending''"
  shows "\<exists>ref' w' j'. on_job (start_job True (JObj ref) uid) ref w = (Inr ref', w')
    \<and> rn_ext w' = rn_ext w \<and> rn_metrics w' = rn_metrics w
    \<and> synced i ref' (rn_jobs w') j' \<and> j_status j' = ''running''
    \<and> j_user_id j' = j_user_id r"
proof -
  let ?ch = "\<lambda>jw (j :: job). no_changes\<lparr>c_status := Some ''running'', c_progress := Some 10,
                       c_started_at := Some (jw_now jw)\<rparr>"
  have "j_status j \<notin> set [''running'', ''completed'', ''cancelled'', ''failed'']"
    "c_status (?ch (rn_jobs w) j) = Some ''running''" "''running'' \<noteq> j_status j"
    by (simp_all add: assms(5) no_changes_def)
  then obtain ref' w' where "on_job (start_job True (JObj ref) uid) ref w = (Inr ref', w')"
    "rn_ext w' = rn_ext w" "rn_metrics w' = rn_metrics w"
    "synced i ref' (rn_jobs w') (apply_changes (net_changes (?ch (rn_jobs w) j) (Some j)) (jw_now (rn_jobs w)) r)"
    "j_status (apply_changes (net_changes (?ch (rn_jobs w) j) (Some j)) (jw_now (rn_jobs w)) r) = ''running''"
    using on_job_stale [where ch = ?ch, OF assms(1-4), of _ "''running''" True None uid]
    unfolding start_job_def by blast
  moreover have "j_user_id (apply_changes (net_changes (?ch (rn_jobs w) j) (Some j)) (jw_now (rn_jobs w)) r)
      = j_user_id r" by simp
  ultimately show ?thesis by blast
qed

lemma complete_stale:
  assumes "t_ok (jw_jobs (rn_jobs w))" and "ref_id ref = i" and "ref_row ref = Some j"
    and "job_row (rn_jobs w) i = Some r" and "j_status j = ''running''"
  shows "\<exists>ref' w' j'. on_job (complete_job True (JObj ref) uid res) ref w = (Inr ref', w')
    \<and> rn_ext w' = rn_ext w \<and> rn_metrics w' = rn_metrics w
    \<and> synced i ref' (rn_jobs w') j' \<and> j_status j' = ''completed''"
proof -
  let ?ch = "\<lambda>jw (j :: job). no_changes\<lparr>c_status := Some ''completed'', c_progress := Some 100,
                       c_finished_at := Some (jw_now jw), c_result_reference := res\<rparr>"
  have "j_status j \<notin> set [''cancelled'', ''failed'']"
    "c_status (?ch (rn_jobs w) j) = Some ''completed''" "''completed'' \<noteq> j_status j"
    by (simp_all add: assms(5) no_changes_def)
  from on_job_stale [where ch = ?ch, OF assms(1-4) this, of True None uid] show ?thesis
    unfolding complete_job_def by blast
qed

lemma progress_synced:
  assumes "synced i ref (rn_jobs w) j" and "j_status j = ''running''"
  shows "\<exists>ref' w' j'. on_job (update_progress True (JObj ref) uid n None) ref w = (Inr ref', w')
    \<and> rn_ext w' = rn_ext w \<and> rn_metrics w' = rn_metrics w
    \<and> synced i ref' (rn_jobs w') j' \<and> j_status j' = ''running''
    \<and> j_user_id j' = j_user_id j"
proof -
  let ?ch = "\<lambda>(jw :: jobs_world) j. no_changes\<lparr>c_status := Some (or_else None (j_status j)),
                       c_progress := Some (max 0 (min 100 n))\<rparr>"
  have "j_status j \<notin> set [''cancelled'', ''completed'', ''failed'']" by (simp add: assms(2))
  from on_job_synced [where ch = ?ch, OF assms(1) this, of True None uid] obtain ref' w' where
    "on_job (update_progress True (JObj ref) uid n None) ref w = (Inr ref', w')"
    "rn_ext w' = rn_ext w" "rn_metrics w' = rn_metrics w"
    "synced i ref' (rn_jobs w') (apply_changes (?ch (rn_jobs w) j) (jw_now (rn_jobs w)) j)"
    unfolding update_progress_def by blast
  moreover have "j_status (apply_changes (?ch (rn_jobs w) j) (jw_now (rn_jobs w)) j) = ''running''"
    "j_user_id (apply_changes (?ch (rn_jobs w) j) (jw_now (rn_jobs w)) j) = j_user_id j"
    by (simp_all add: assms(2) no_changes_def)
  ultimately show ?thesis by blast
qed

definition answers ::
  "retry_settings \<Rightarrow> ('s, 'v) py_func \<Rightarrow> kwargs \<Rightarrow> 's \<Rightarrow> 'v \<Rightarrow> bool" where
  "answers cfg func kw ext v \<longleftrightarrow> (\<forall>jw. \<exists>k\<le>2.
     transient (mk_engine cfg (Some 2) None None 2 True [C_Exception] DEFAULT_NON_RETRYABLE)
       (call_py func kw) (ext, jw) k
     \<and> nth_outcome (call_py func kw) (ext, jw) k = Inr (Some v)
     \<and> snd (state_after (call_py func kw) (ext, jw) (Suc k)) = jw)"

lemma execute_answers:
  assumes "answers cfg func kw (rn_ext w) v" and "\<not> is_cancelled (rn_jobs w) i"
  shows "\<exists>w'. execute_with_retry cfg draws func 2 i kw w = (Inr (Some v), w') \<and> rn_jobs w' = rn_jobs w"
proof -
  let ?eng = "mk_engine cfg (Some 2) None None 2 True [C_Exception] DEFAULT_NON_RETRYABLE"
  let ?rw = "\<lparr>callee = (rn_ext w, rn_jobs w), rw_metrics = rn_metrics w, sleeps = []\<rparr>"
  from assms(1) obtain k where k: "k \<le> 2" "transient ?eng (call_py func kw) (rn_ext w, rn_jobs w) k"
    "nth_outcome (call_py func kw) (rn_ext w, rn_jobs w) k = Inr (Some v)"
    "snd (state_after (call_py func kw) (rn_ext w, rn_jobs w) (Suc k)) = rn_jobs w"
    unfolding answers_def by blast
  have "int k \<le> max_retries ?eng" using k(1) by (simp add: mk_engine_def)
  with k have "execute ?eng draws (call_py func kw) ?rw = (Returned (Some v),
      (after_failures ?eng draws (call_py func kw) 0 k ?rw)
        \<lparr>callee := state_after (call_py func kw) (callee ?rw) (Suc k)\<rparr>)"
    by (intro execute_success) simp_all
  with assms(2) k(4) show ?thesis by (simp add: execute_with_retry_def)
qed

text \<open>What may happen at the two points where the runner decides on an old status.\<close>

definition keeps_row :: "int \<Rightarrow> (jobs_world \<Rightarrow> jobs_world) \<Rightarrow> bool" where
  "keeps_row i f \<longleftrightarrow> (\<forall>jw. t_ok (jw_jobs jw) \<longrightarrow> t_ok (jw_jobs (f jw))
     \<and> (job_row jw i \<noteq> None \<longrightarrow> job_row (f jw) i \<noteq> None))"

lemma run_completes:
  assumes ok: "t_ok (jw_jobs (rn_jobs w))" and row: "job_row (rn_jobs w) i = Some j"
    and own: "j_user_id j = uid" and pending: "j_status j = ''pending''"
    and ans: "answers cfg func kw (rn_ext w) v"
    and quiet: "\<forall>n jw. n \<noteq> 0 \<and> n \<noteq> 6 \<longrightarrow> env n jw = jw"
    and races: "keeps_row i (env 0)" "keeps_row i (env 6)" and out: "out v = Some res"
  shows "\<exists>w' j'. run_job cfg draws env func kw out i uid w = (Inr True, w')
    \<and> job_row (rn_jobs w') i = Some j' \<and> j_status j' = ''completed''"
proof -
  let ?ref = "\<lparr>ref_id = i, ref_row = Some j\<rparr>"
  have lookup: "get_user_job_by_id (rn_jobs w) i uid = Some ?ref"
    using ok row own by (simp add: get_user_job_by_id_eq)
  have opn: "j_status j \<notin> set finished_statuses" by (simp add: pending finished_statuses_def)
  have quiet': "others env n u = u" if "n \<noteq> 0" "n \<noteq> 6" for n and u :: "'a run_world"
    using quiet that by (simp add: others_def)
  let ?w0 = "others env 0 w"
  from races(1) ok row obtain r where r: "t_ok (jw_jobs (rn_jobs ?w0))" "job_row (rn_jobs ?w0) i = Some r"
    unfolding keeps_row_def by (metis not_None_eq others_simps option.discI)
  obtain ref1 w1 j1 where s1: "on_job (start_job True (JObj ?ref) uid) ?ref ?w0 = (Inr ref1, w1)"
    "rn_ext w1 = rn_ext ?w0" "synced i ref1 (rn_jobs w1) j1" "j_status j1 = ''running''"
    using start_stale [of ?w0 ?ref i j r uid] r pending by auto
  obtain ref2 w2 j2 where s2: "on_job (update_progress True (JObj ref1) uid 30 None) ref1 w1 = (Inr ref2, w2)"
    "rn_ext w2 = rn_ext w1" "synced i ref2 (rn_jobs w2) j2" "j_status j2 = ''running''"
    using progress_synced [OF s1(3,4)] by blast
  have nc: "\<not> is_cancelled (rn_jobs w2) i" using s2(3,4) by (simp add: is_cancelled_def synced_def)
  have "rn_ext w2 = rn_ext w" using s1(2) s2(2) by (simp add: others_def)
  with ans nc obtain w3 where s3: "execute_with_retry cfg draws func 2 i kw w2 = (Inr (Some v), w3)"
    "rn_jobs w3 = rn_jobs w2" using execute_answers [of cfg func kw w2 v i] by auto
  have sync3: "synced i ref2 (rn_jobs w3) j2" using s2(3) s3(2) by simp
  obtain ref4 w4 j4 where s4: "on_job (update_progress True (JObj ref2) uid 80 None) ref2 w3 = (Inr ref4, w4)"
    "synced i ref4 (rn_jobs w4) j4" "j_status j4 = ''running''"
    using progress_synced [OF sync3 s2(4)] by blast
  let ?w5 = "others env 6 w4"
  from races(2) s4(2) obtain r5 where r5: "t_ok (jw_jobs (rn_jobs ?w5))" "job_row (rn_jobs ?w5) i = Some r5"
    unfolding keeps_row_def synced_def by (metis not_None_eq others_simps option.discI)
  obtain ref6 w6 j6 where s6: "on_job (complete_job True (JObj ref4) uid (Some res)) ref4 ?w5 = (Inr ref6, w6)"
    "synced i ref6 (rn_jobs w6) j6" "j_status j6 = ''completed''"
    using complete_stale [of ?w5 ref4 i j4 r5 uid "Some res"] r5 s4(2,3) unfolding synced_def by blast
  have nc3: "\<not> is_cancelled (rn_jobs w3) i" using nc s3(2) by simp
  have "run_body cfg draws env func kw out i uid w = (Inr True, w6)"
    using s1(1) s2(1) s3(1) s4(1) s6(1) nc nc3 out
    by (simp add: run_body_split [OF lookup _ opn] rest_of_run_def quiet')
  with s6 show ?thesis by (auto simp: run_job_def synced_def)
qed

section \<open>A call that leaves out a parameter\<close>

lemma execute_type_error:
  assumes "\<And>st. call_py func kw st = (Inl (TypeError m), st)" and "\<not> is_cancelled (rn_jobs w) i"
  shows "\<exists>w'. execute_with_retry cfg draws func 2 i kw w = (Inl (TypeError m), w')
    \<and> rn_jobs w' = rn_jobs w \<and> rn_ext w' = rn_ext w \<and> rn_metrics w' = rn_metrics w"
proof -
  have "exc_matches (TypeError m) DEFAULT_NON_RETRYABLE"
    by (simp add: exc_matches_def DEFAULT_NON_RETRYABLE_def)
  then show ?thesis
    using assms by (simp add: execute_with_retry_def execute_def mk_engine_def numeral_eq_Suc)
qed

lemma run_fails:
  assumes ok: "t_ok (jw_jobs (rn_jobs w))" and row: "job_row (rn_jobs w) i = Some j"
    and own: "j_user_id j = uid" and pending: "j_status j = ''pending''"
    and call: "\<And>st. call_py func kw st = (Inl (TypeError m), st)"
  shows "\<exists>w' j'. run_job cfg draws (\<lambda>n jw. jw) func kw out i uid w = (Inr False, w')
    \<and> job_row (rn_jobs w') i = Some j' \<and> j_status j' = ''failed'' \<and> j_error_message j' = Some m
    \<and> rn_ext w' = rn_ext w \<and> rn_metrics w' = rn_metrics w"
proof -
  let ?ref = "\<lparr>ref_id = i, ref_row = Some j\<rparr>"
  have lookup: "get_user_job_by_id (rn_jobs w) i uid = Some ?ref"
    using ok row own by (simp add: get_user_job_by_id_eq)
  have opn: "j_status j \<notin> set finished_statuses" by (simp add: pending finished_statuses_def)
  have quiet: "others (\<lambda>n jw. jw) n u = u" for n and u :: "'a run_world"
    by (simp add: others_def)
  obtain ref1 w1 j1 where s1: "on_job (start_job True (JObj ?ref) uid) ?ref w = (Inr ref1, w1)"
    "rn_ext w1 = rn_ext w" "synced i ref1 (rn_jobs w1) j1" "j_status j1 = ''running''"
    "j_user_id j1 = uid" "rn_metrics w1 = rn_metrics w"
    using start_stale [of w ?ref i j j uid] ok row own pending by auto
  obtain ref2 w2 j2 where s2: "on_job (update_progress True (JObj ref1) uid 30 None) ref1 w1 = (Inr ref2, w2)"
    "rn_ext w2 = rn_ext w1" "synced i ref2 (rn_jobs w2) j2" "j_status j2 = ''running''"
    "j_user_id j2 = j_user_id j1" "rn_metrics w2 = rn_metrics w1"
    using progress_synced [OF s1(3,4)] by blast
  have nc: "\<not> is_cancelled (rn_jobs w2) i" using s2(3,4) by (simp add: is_cancelled_def synced_def)
  obtain w3 where s3: "execute_with_retry cfg draws func 2 i kw w2 = (Inl (TypeError m), w3)"
    "rn_jobs w3 = rn_jobs w2" "rn_ext w3 = rn_ext w2" "rn_metrics w3 = rn_metrics w2"
    using execute_type_error [OF call nc] by blast
  have body: "run_body cfg draws (\<lambda>n jw. jw) func kw out i uid w = (Inl (TypeError m), w3)"
    using s1(1) s2(1) s3(1) nc by (simp add: run_body_split [OF lookup _ opn] rest_of_run_def quiet)
  have key: "table_ok (rn_jobs w3)" "job_row (rn_jobs w3) i = Some j2"
    using s2(3) s3(2) by (simp_all add: synced_def table_ok_def)
  from job_step_row [OF key(1), of "EvFail True i uid m" i] key(2) s2(4,5) s1(5)
  have "job_row (snd (fail_job True (JId i) uid m (rn_jobs w3))) i =
      Some (apply_changes (no_changes\<lparr>c_status := Some ''failed'',
        c_finished_at := Some (jw_now (rn_jobs w3)), c_error_message := Some m\<rparr>) (jw_now (rn_jobs w3)) j2)"
    by simp
  then show ?thesis
    using body s3(3,4) s2(2,6) s1(2,6)
    by (auto simp: run_job_def no_changes_def apply_changes_def)
qed

section \<open>Properties\<close>

text \<open>A keyword service that answers at once, and the world of the witnesses.\<close>

definition demo_keywords :: "(unit, pyval list) py_func" where
  "demo_keywords =
     \<lparr>pf_required = fst get_keyword_ideas_sig, pf_optional = snd get_keyword_ideas_sig,
      pf_body = (\<lambda>kw st. (Inr (Some [PStr ''seo audit'']), st))\<rparr>"

definition demo_cfg :: "retry_settings" where
  "demo_cfg = \<lparr>MAX_JOB_RETRIES = 3, RETRY_BASE_DELAY = 2, RETRY_MAX_DELAY = 60\<rparr>"

definition demo_run :: "unit run_world" where
  "demo_run = \<lparr>rn_jobs = job_step no_jobs (EvCreate 7 ''keywords'' None None),
     rn_metrics = metrics_init 0, rn_ext = ()\<rparr>"

lemma demo_call:
  "call_py demo_keywords [(''seed_keyword'', PStr s), (''limit'', PInt n)] st
     = (Inr (Some [PStr ''seo audit'']), st)"
  by (simp add: call_py_def demo_keywords_def get_keyword_ideas_sig_def)

lemma demo_answers:
  "answers cfg demo_keywords [(''seed_keyword'', PStr s), (''limit'', PInt n)] () [PStr ''seo audit'']"
proof -
  have "transient eng f st 0" for eng :: retry_engine
    and f :: "unit \<times> jobs_world \<Rightarrow> pyval list option outcome \<times> unit \<times> jobs_world" and st
    by (simp add: transient_def)
  then show ?thesis
    unfolding answers_def by (intro allI exI [of _ 0]) (simp add: demo_call)
qed

lemma demo_run_row:
  "t_ok (jw_jobs (rn_jobs demo_run))" "table_key 7 (rn_jobs demo_run) 1"
  "job_row (rn_jobs demo_run) 1 = Some (new_job 7 ''keywords'' None None 0)"
proof -
  have ok: "table_ok no_jobs" using no_jobs_ok by (simp add: jobs_ok_def)
  note step = job_step_row [OF ok, of "EvCreate 7 ''keywords'' None None" 1]
  show row: "job_row (rn_jobs demo_run) 1 = Some (new_job 7 ''keywords'' None None 0)"
    using step by (simp add: demo_run_def no_jobs_def t_empty_def payload_ref_def)
  show "t_ok (jw_jobs (rn_jobs demo_run))" using step by (simp add: demo_run_def table_ok_def)
  then show "table_key 7 (rn_jobs demo_run) 1"
    using row_key [OF _ row] row by (simp add: table_key_def table_ok_def new_job_def)
qed

text \<open>
  A keywords job completes. When the job is pending and its owner's, no other session touches
  the jobs table, and the keyword service answers after at most two failures of a kind that is
  retried, the runner ends without an exception and the job is completed, at progress 100.
\<close>

theorem keywords_job_completes:
  assumes "jobs_ok (rn_jobs w)" and "job_row (rn_jobs w) i = Some j"
    and "j_user_id j = uid" and "j_status j = ''pending''"
    and "answers cfg func [(''seed_keyword'', PStr seed), (''limit'', PInt n)] (rn_ext w) ks"
  shows "\<exists>w' j'. run_keywords_job cfg draws (\<lambda>k jw. jw) func i uid seed n w = (Inr True, w')
    \<and> job_row (rn_jobs w') i = Some j' \<and> j_status j' = ''completed''"
proof -
  have "t_ok (jw_jobs (rn_jobs w))" using assms(1) by (simp add: jobs_ok_def table_ok_def)
  then show ?thesis unfolding run_keywords_job_def
    by (rule run_completes [OF _ assms(2-5)]) (simp_all add: keeps_row_def keywords_output_def)
qed

theorem keywords_job_completes_witness:
  "\<exists>w' j'. run_keywords_job demo_cfg (\<lambda>_. 0) (\<lambda>k jw. jw) demo_keywords 1 7 ''seo'' 5 demo_run
      = (Inr True, w') \<and> job_row (rn_jobs w') 1 = Some j' \<and> j_status j' = ''completed''"
proof (rule keywords_job_completes [where j = "new_job 7 ''keywords'' None None 0"])
  show "jobs_ok (rn_jobs demo_run)"
    unfolding demo_run_def by (simp only: run_world.simps job_step_ok [OF no_jobs_ok])
  show "answers demo_cfg demo_keywords [(''seed_keyword'', PStr ''seo''), (''limit'', PInt 5)]
          (rn_ext demo_run) [PStr ''seo audit'']"
    using demo_answers by simp
qed (simp_all add: demo_run_row new_job_def)

text \<open>
  Crawl, audit and rank jobs never complete. The wrapper that adds the retries consumes the
  keyword \<^verbatim>\<open>db\<close>, which \<^verbatim>\<open>audit_website\<close> and \<^verbatim>\<open>check_rank\<close> require: the call raises a \<^verbatim>\<open>TypeError\<close>
  without reaching the service, the error is not retried, and a pending job ends as failed.
\<close>

theorem website_and_rank_jobs_fail:
  assumes "table_ok (rn_jobs w)" and "job_row (rn_jobs w) i = Some j"
    and "j_user_id j = uid" and "j_status j = ''pending''"
    and "pf_required audit_website = audit_website_sig"
    and "pf_required check_rank = check_rank_sig"
  shows "\<exists>w1 j1 w2 j2 w3 j3.
       run_crawl_job cfg draws (\<lambda>n jw. jw) audit_website qlen el i uid url wid w = (Inr False, w1)
     \<and> run_audit_job cfg draws (\<lambda>n jw. jw) audit_website qlen el i uid url wid w = (Inr False, w2)
     \<and> run_rank_job cfg draws (\<lambda>n jw. jw) check_rank i uid keyword domain wid w = (Inr False, w3)
     \<and> job_row (rn_jobs w1) i = Some j1 \<and> j_status j1 = ''failed'' \<and> rn_ext w1 = rn_ext w
     \<and> job_row (rn_jobs w2) i = Some j2 \<and> j_status j2 = ''failed'' \<and> rn_ext w2 = rn_ext w
     \<and> job_row (rn_jobs w3) i = Some j3 \<and> j_status j3 = ''failed'' \<and> rn_ext w3 = rn_ext w"
proof -
  let ?m = "''missing required argument''"
  have ok: "t_ok (jw_jobs (rn_jobs w))" using assms(1) by (simp add: table_ok_def)
  have site: "call_py audit_website (website_kwargs url wid uid) st = (Inl (TypeError ?m), st)" for st
    by (simp add: call_py_def website_kwargs_def assms(5) audit_website_sig_def)
  have rank: "call_py check_rank [(''keyword'', PStr keyword), (''domain'', opt_str domain),
      (''website_id'', opt_id wid), (''user_id'', PInt uid)] st = (Inl (TypeError ?m), st)" for st
    by (simp add: call_py_def assms(6) check_rank_sig_def)
  let ?w = "bump (inc_active_jobs 1) w"
  have bumped: "t_ok (jw_jobs (rn_jobs ?w))" "job_row (rn_jobs ?w) i = Some j" "rn_ext ?w = rn_ext w"
    using ok assms(2) by (simp_all add: bump_def)
  obtain w1 j1 where 1: "run_job cfg draws (\<lambda>n jw. jw) audit_website (website_kwargs url wid uid)
      crawl_output i uid ?w = (Inr False, w1)" "job_row (rn_jobs w1) i = Some j1"
    "j_status j1 = ''failed''" "rn_ext w1 = rn_ext w"
    using run_fails [OF bumped(1,2) assms(3,4) site] bumped(3) by metis
  obtain w2 j2 where 2: "run_job cfg draws (\<lambda>n jw. jw) audit_website (website_kwargs url wid uid)
      audit_output i uid ?w = (Inr False, w2)" "job_row (rn_jobs w2) i = Some j2"
    "j_status j2 = ''failed''" "rn_ext w2 = rn_ext w"
    using run_fails [OF bumped(1,2) assms(3,4) site] bumped(3) by metis
  obtain w3 j3 where 3: "run_rank_job cfg draws (\<lambda>n jw. jw) check_rank i uid keyword domain wid w
      = (Inr False, w3)" "job_row (rn_jobs w3) i = Some j3" "j_status j3 = ''failed''"
    "rn_ext w3 = rn_ext w"
    using run_fails [OF ok assms(2-4) rank] unfolding run_rank_job_def by metis
  from 1 2 3 show ?thesis
    by (auto simp: run_crawl_job_def run_audit_job_def with_gauges_def bump_def)
qed

definition demo_audit :: "(unit, audit_value) py_func" where
  "demo_audit = \<lparr>pf_required = audit_website_sig, pf_optional = [],
     pf_body = (\<lambda>kw st. (Inr (Some \<lparr>av_website = None, av_audit = None, av_leads = None\<rparr>), st))\<rparr>"

definition demo_rank :: "(unit, pyval) py_func" where
  "demo_rank = \<lparr>pf_required = check_rank_sig, pf_optional = [],
     pf_body = (\<lambda>kw st. (Inr (Some (PInt 3)), st))\<rparr>"

theorem website_and_rank_jobs_fail_witness:
  "\<exists>w' j'. run_crawl_job demo_cfg (\<lambda>_. 0) (\<lambda>n jw. jw) demo_audit 0 1 1 7 (Some ''https://a.io'') None
       demo_run = (Inr False, w') \<and> job_row (rn_jobs w') 1 = Some j' \<and> j_status j' = ''failed''"
  using website_and_rank_jobs_fail [of demo_run 1 _ 7 demo_audit demo_rank demo_cfg "\<lambda>_. 0" 0 1
      "Some ''https://a.io''" None] demo_run_row
  by (fastforce simp: table_ok_def new_job_def demo_audit_def demo_rank_def)

text \<open>
  C25: Cancellation during a run is respected at the points 1 to 5: after the start, before or
  after the first progress update, before or after the service call, up to the second progress
  update. When the job is cancelled or deleted at one of them by another session, the others only
  make service calls, and the service answers, then the job is still cancelled when the runner
  ends, and the runner raises nothing.
\<close>

theorem cancellation_is_respected:
  assumes "table_key uid (rn_jobs w) i" and "job_row (rn_jobs w) i = Some j"
    and "j_status j \<in> {''pending'', ''running''}"
    and "\<forall>n. civil uid i (env n)" and "k \<in> {1, 2, 3, 4, 5}" and "cancels uid i (env k)"
    and "returns uid i func [(''seed_keyword'', PStr seed), (''limit'', PInt n)]"
  shows "\<exists>b w'. run_keywords_job cfg draws env func i uid seed n w = (Inr b, w')
    \<and> is_cancelled (rn_jobs w') i"
proof -
  have "j_status j \<notin> set finished_statuses" using assms(3) by (auto simp: finished_statuses_def)
  then show ?thesis unfolding run_keywords_job_def
    by (rule run_job_cancelled [OF assms(1,2) _ assms(4,7,5,6)])
qed

theorem cancellation_is_respected_witness:
  "\<exists>b w'. run_keywords_job demo_cfg (\<lambda>_. 0)
       (\<lambda>n jw. if n = 5 then foldl job_step jw [EvCancel False 1 7] else foldl job_step jw [])
       demo_keywords 1 7 ''seo'' 5 demo_run
     = (Inr b, w') \<and> is_cancelled (rn_jobs w') 1"
proof (rule cancellation_is_respected [where k = 5, OF demo_run_row(2,3)])
  have "is_cancelled (job_step jw (EvCancel False 1 7)) 1" if "table_key 7 jw 1" for jw
    using job_step_row [of jw "EvCancel False 1 7" 1] that
    by (auto simp: table_key_def is_cancelled_def no_changes_def split: option.split)
  then show "cancels 7 1 (\<lambda>jw. if (5::nat) = 5 then foldl job_step jw [EvCancel False 1 7]
                                 else foldl job_step jw [])"
    by (simp add: cancels_def del: job_step.simps)
  have "civil 7 1 (\<lambda>jw. if n = 5 then foldl job_step jw [EvCancel False 1 7]
                            else foldl job_step jw [])" for n :: nat
  proof (cases "n = 5")
    case True
    then show ?thesis using civil_run [of 7 1 "[EvCancel False 1 7]"] by (simp only: refl if_True)
  next
    case False
    then show ?thesis using civil_run [of 7 1 "[]"] by (simp only: if_False)
  qed
  then show "\<forall>n::nat. civil 7 1 (\<lambda>jw. if n = 5 then foldl job_step jw [EvCancel False 1 7]
                                 else foldl job_step jw [])"
    by (rule allI)
qed (simp_all add: new_job_def returns_def demo_call)

text \<open>
  Cancellations that are lost. When another session cancels the pending job between the lookup
  of the runner and its \<^verbatim>\<open>start_job\<close> (point 0), or between the second progress update and
  \<^verbatim>\<open>complete_job\<close> (point 6), the runner decides on the status it has cached, overwrites the
  cancellation and the job ends as completed.
\<close>

theorem cancellation_can_be_lost:
  assumes "table_key uid (rn_jobs w) i" and "job_row (rn_jobs w) i = Some j"
    and "j_user_id j = uid" and "j_status j = ''pending''" and "k \<in> {0, 6}"
    and "answers cfg func [(''seed_keyword'', PStr seed), (''limit'', PInt n)] (rn_ext w) ks"
  shows "\<exists>w' j'. run_keywords_job cfg draws
        (\<lambda>p jw. if p = k then job_step jw (EvCancel x i uid) else jw) func i uid seed n w
      = (Inr True, w')
    \<and> job_row (rn_jobs w') i = Some j' \<and> j_status j' = ''completed''"
proof -
  have ok: "t_ok (jw_jobs (rn_jobs w))" using assms(1) by (simp add: table_key_def table_ok_def)
  have cancel: "keeps_row i (\<lambda>jw. job_step jw (EvCancel x i uid))"
    using job_step_row [of _ "EvCancel x i uid"]
    by (auto simp: keeps_row_def table_ok_def simp del: job_step.simps)
  have idle: "keeps_row i (\<lambda>jw. jw)" by (simp add: keeps_row_def)
  show ?thesis unfolding run_keywords_job_def
    by (rule run_completes [OF ok assms(2-4,6)])
      (use assms(5) cancel idle in \<open>auto simp: keywords_output_def\<close>)
qed

theorem cancellation_can_be_lost_witness:
  "\<exists>w' j'. run_keywords_job demo_cfg (\<lambda>_. 0)
        (\<lambda>p jw. if p = 6 then job_step jw (EvCancel False 1 7) else jw) demo_keywords 1 7 ''seo'' 5
        demo_run = (Inr True, w') \<and> job_row (rn_jobs w') 1 = Some j' \<and> j_status j' = ''completed''"
proof (rule cancellation_can_be_lost [where j = "new_job 7 ''keywords'' None None 0"])
  show "answers demo_cfg demo_keywords [(''seed_keyword'', PStr ''seo''), (''limit'', PInt 5)]
          (rn_ext demo_run) [PStr ''seo audit'']"
    using demo_answers by simp
qed (simp_all add: demo_run_row new_job_def)

end
