(* ===== verification/Worker_Props.thy ===== *)
theory Worker_Props
  imports Worker Runner_Props
begin

text \<open>
  What the worker guarantees: it never runs more jobs than its concurrency allows, a job whose
  runner keeps raising ends failed with one dead letter, and a job whose runner records its own
  failure counts as completed.
\<close>

section \<open>The number of running jobs\<close>

lemma q_pop_batch_length: "length (fst (q_pop_batch use R n q)) \<le> n"
  by (induction use R n q rule: q_pop_batch.induct) (auto split: option.splits prod.splits)

lemma x_metric_frame [simp]:
  "xw_dlq (x_metric m x) = xw_dlq x" "xw_naps (x_metric m x) = xw_naps x"
  "xw_run (x_metric m x) = bump m (xw_run x)"
  by (simp_all add: x_metric_def)

lemma bump_frame [simp]:
  "rn_jobs (bump m w) = rn_jobs w" "rn_ext (bump m w) = rn_ext w"
  "rn_metrics (bump m w) = metric_step (rn_metrics w) m"
  by (simp_all add: bump_def)

lemma w_metric_frame [simp]:
  "wk_concurrency (w_metric m w) = wk_concurrency w" "wk_running (w_metric m w) = wk_running w"
  "wk_accepting (w_metric m w) = wk_accepting w" "wk_stopping (w_metric m w) = wk_stopping w"
  "wk_queue (w_metric m w) = wk_queue w" "wk_executor (w_metric m w) = wk_executor w"
  by (simp_all add: w_metric_def)

lemma submit_job_frame:
  "wk_concurrency (submit_job i ty u kw g tr w) = wk_concurrency w"
  "length (wk_running (submit_job i ty u kw g tr w)) \<le> Suc (length (wk_running w))"
proof -
  let ?info = "\<lparr>ri_job_type = ty, ri_user_id = u, ri_group_id = g, ri_trace_id = tr\<rparr>"
  show "wk_concurrency (submit_job i ty u kw g tr w) = wk_concurrency w"
    by (simp add: submit_job_def Let_def)
  have "length (d_set i ?info (wk_running w)) \<le> Suc (length (wk_running w))"
    by (simp add: length_d_set)
  moreover have "length (d_del i (d_set i ?info (wk_running w))) \<le> length (d_set i ?info (wk_running w))"
    by (rule length_d_del_le)
  ultimately show "length (wk_running (submit_job i ty u kw g tr w)) \<le> Suc (length (wk_running w))"
    by (simp add: submit_job_def Let_def)
qed

lemma dispatch_frame:
  "wk_concurrency (dispatch_job_payload pl w) = wk_concurrency w"
  "length (wk_running (dispatch_job_payload pl w)) \<le> Suc (length (wk_running w))"
  by (simp_all add: dispatch_job_payload_def submit_job_frame)

lemma dispatch_all_frame:
  "wk_concurrency (foldl (\<lambda>w pl. dispatch_job_payload pl w) w pls) = wk_concurrency w
   \<and> length (wk_running (foldl (\<lambda>w pl. dispatch_job_payload pl w) w pls)) \<le> length (wk_running w) + length pls"
proof (induction pls arbitrary: w)
  case (Cons pl pls)
  from Cons [of "dispatch_job_payload pl w"] dispatch_frame [of pl w] show ?case by simp
qed simp

text \<open>The steps of the loop thread and of the pool threads, and direct calls of the public methods.\<close>

datatype worker_event = WPass | WTask | WRecover | WShutdown

fun worker_step ::
  "worker_settings \<Rightarrow> retry_engine \<Rightarrow> (nat \<Rightarrow> rat) \<Rightarrow> 'd dlq_redis \<Rightarrow> 's services \<Rightarrow> 'q queue_redis
     \<Rightarrow> ('s, 'd, 'q) worker \<Rightarrow> worker_event \<Rightarrow> ('s, 'd, 'q) worker" where
  "worker_step cfg eng draws D S Q w WPass = loop_pass cfg Q w"
| "worker_step cfg eng draws D S Q w WTask = run_task cfg eng draws D S w"
| "worker_step cfg eng draws D S Q w WRecover = recover_interrupted_jobs cfg D w"
| "worker_step cfg eng draws D S Q w WShutdown = worker_shutdown cfg eng draws D S w"

definition within_capacity :: "('s, 'd, 'q) worker \<Rightarrow> bool" where
  "within_capacity w \<longleftrightarrow> 0 \<le> wk_concurrency w \<and> active_count w \<le> wk_concurrency w"

lemma loop_pass_capacity: "within_capacity w \<Longrightarrow> within_capacity (loop_pass cfg Q w)"
proof -
  assume cap: "within_capacity w"
  show ?thesis
  proof (cases "\<not> wk_accepting w \<or> wk_stopping w \<or> wk_concurrency w - active_count w \<le> 0")
    case True
    with cap show ?thesis
      by (auto simp: loop_pass_def Let_def within_capacity_def active_count_def)
  next
    case False
    define n where "n = nat (min (wk_concurrency w - active_count w) 5)"
    obtain batch q where pop: "q_pop_batch (ws_use_queue cfg) Q n (wk_queue w) = (batch, q)"
      by fastforce
    have len: "length batch \<le> n"
      using q_pop_batch_length [of "ws_use_queue cfg" Q n "wk_queue w"] pop by simp
    define w1 where "w1 = (w_metric (set_worker_jobs_running (active_count w)) (w_metric
        (set_worker_utilization (if wk_concurrency w > 0
           then of_int (active_count w) / of_int (wk_concurrency w) * 100 else 0)) w))
        \<lparr>wk_status := (if active_count w > 0 then ''busy'' else ''idle''),
         wk_heartbeat_jobs := active_count w\<rparr>"
    have w1: "wk_concurrency w1 = wk_concurrency w" "wk_running w1 = wk_running w"
      "wk_queue w1 = wk_queue w" by (simp_all add: w1_def)
    have res: "loop_pass cfg Q w = foldl (\<lambda>w pl. dispatch_job_payload pl w) (w1\<lparr>wk_queue := q\<rparr>) batch"
      using False pop w1 by (simp add: loop_pass_def Let_def n_def flip: w1_def)
    have "length (wk_running (foldl (\<lambda>w pl. dispatch_job_payload pl w) (w1\<lparr>wk_queue := q\<rparr>) batch))
        \<le> length (wk_running w) + length batch"
      "wk_concurrency (foldl (\<lambda>w pl. dispatch_job_payload pl w) (w1\<lparr>wk_queue := q\<rparr>) batch) = wk_concurrency w"
      using dispatch_all_frame [of "w1\<lparr>wk_queue := q\<rparr>" batch] w1 by simp_all
    moreover have "int n \<le> wk_concurrency w - int (length (wk_running w))"
      using False by (simp add: n_def active_count_def)
    ultimately show ?thesis
      using len cap unfolding within_capacity_def active_count_def res by linarith
  qed
qed

lemma wrapper_frame:
  "wk_concurrency (snd (execute_job_wrapper cfg eng draws D S t w)) = wk_concurrency w"
  "wk_running (snd (execute_job_wrapper cfg eng draws D S t w)) = d_del (tk_job_id t) (wk_running w)"
  "wk_executor (snd (execute_job_wrapper cfg eng draws D S t w)) = wk_executor w"
  by (simp_all add: execute_job_wrapper_def Let_def split: prod.split)

lemma d_del_capacity: "int (length d) \<le> c \<Longrightarrow> int (length (d_del k d)) \<le> c"
  using length_d_del_le [of k d] by linarith

lemma run_task_capacity: "within_capacity w \<Longrightarrow> within_capacity (run_task cfg eng draws D S w)"
  by (auto simp: run_task_def within_capacity_def active_count_def wrapper_frame d_del_capacity
      split: list.split)

lemma drain_pool_capacity: "within_capacity w \<Longrightarrow> within_capacity (drain_pool cfg eng draws D S ts w)"
proof (induction ts arbitrary: w)
  case (Cons t ts)
  let ?w = "snd (execute_job_wrapper cfg eng draws D S t
          (w\<lparr>wk_executor := (wk_executor w)\<lparr>ex_pending := ts\<rparr>\<rparr>))"
  have "length (d_del (tk_job_id t) (wk_running w)) \<le> length (wk_running w)"
    by (rule length_d_del_le)
  with Cons.prems have "within_capacity ?w"
    by (simp add: within_capacity_def active_count_def wrapper_frame)
  with Cons.IH show ?case by simp
qed simp

lemma worker_step_capacity:
  "within_capacity w \<Longrightarrow> within_capacity (worker_step cfg eng draws D S Q w ev)"
proof (cases ev)
  case WShutdown
  assume cap: "within_capacity w"
  let ?w1 = "stop_heartbeat_loop (w\<lparr>wk_stopping := True, wk_accepting := False\<rparr>)"
  have "within_capacity ?w1"
    using cap by (simp add: stop_heartbeat_loop_def within_capacity_def active_count_def)
  then have "within_capacity (drain_pool cfg eng draws D S (ex_pending (wk_executor ?w1)) ?w1)"
    by (rule drain_pool_capacity)
  with WShutdown cap show ?thesis
    by (simp add: worker_shutdown_def Let_def within_capacity_def active_count_def)
next
  case WPass
  assume "within_capacity w"
  with WPass show ?thesis by (simp only: worker_step.simps loop_pass_capacity)
next
  case WTask
  assume "within_capacity w"
  with WTask show ?thesis by (simp only: worker_step.simps run_task_capacity)
qed (simp_all add: recover_interrupted_jobs_def Let_def within_capacity_def active_count_def)

interpretation worker_run: machine "worker_step cfg eng draws D S Q" within_capacity
  for cfg eng draws D S Q
  by unfold_locales (rule worker_step_capacity)

section \<open>The retry loop of the wrapper\<close>

text \<open>A runner that raises the same exception each time and leaves the state as it is.\<close>

definition raises :: "py_exc \<Rightarrow> ('s, 'd) runner" where
  "raises e job_id user_id kw x = (Inl e, x)"

definition napped :: "retry_engine \<Rightarrow> (nat \<Rightarrow> rat) \<Rightarrow> nat \<Rightarrow> nat \<Rightarrow> ('s, 'd) exec_world \<Rightarrow> ('s, 'd) exec_world" where
  "napped eng draws a k x =
     x\<lparr>xw_run := (xw_run x)\<lparr>rn_metrics := (rn_metrics (xw_run x))
          \<lparr>retry_attempts := retry_attempts (rn_metrics (xw_run x)) + int k\<rparr>\<rparr>,
       xw_naps := xw_naps x @ naps eng draws a k\<rparr>"

lemma attempts_nap:
  assumes "\<not> is_cancelled (rn_jobs (xw_run x)) (tk_job_id t)" and "exc_matches e [C_Exception]"
    and "\<not> exc_matches e (non_retryable_exceptions eng)"
    and "k < left" and "int (a + k) \<le> max_retries eng"
  shows "attempts_from cfg eng draws D (raises e) t left a x
    = attempts_from cfg eng draws D (raises e) t (left - k) (a + k) (napped eng draws a k x)"
  using assms
proof (induction k arbitrary: x a left)
  case 0
  then show ?case by (simp add: napped_def)
next
  case (Suc k)
  from Suc.prems obtain left' where left: "left = Suc left'" by (cases left) auto
  let ?x = "(x_metric (inc_retry_attempts 1) x)\<lparr>xw_naps := xw_naps x @ [compute_delay eng a (draws a)]\<rparr>"
  have "attempts_from cfg eng draws D (raises e) t left a x
      = attempts_from cfg eng draws D (raises e) t left' (Suc a) ?x"
    using Suc.prems by (simp add: left raises_def Let_def del: exc_matches_Exception)
  also have "\<dots> = attempts_from cfg eng draws D (raises e) t (left' - k) (Suc a + k)
      (napped eng draws (Suc a) k ?x)"
    using Suc.prems by (intro Suc.IH) (simp_all add: left del: exc_matches_Exception)
  also have "napped eng draws (Suc a) k ?x = napped eng draws a (Suc k) x"
    by (cases x) (simp add: napped_def x_metric_def bump_def add.assoc)
  finally show ?case by (simp add: left)
qed

lemma x_fail_job_open:
  assumes "table_ok (rn_jobs (xw_run x))" and "job_row (rn_jobs (xw_run x)) i = Some j"
    and "j_user_id j = uid" and "j_status j = ''running''"
  shows "\<exists>x' j'. x_fail_job i uid msg x = (Inr (), x') \<and> xw_dlq x' = xw_dlq x
    \<and> xw_naps x' = xw_naps x \<and> rn_metrics (xw_run x') = rn_metrics (xw_run x)
    \<and> job_row (rn_jobs (xw_run x')) i = Some j' \<and> j_status j' = ''failed''
    \<and> j_error_message j' = Some msg"
proof -
  let ?jw = "rn_jobs (xw_run x)"
  obtain res jw where f: "fail_job True (JId i) uid msg ?jw = (Inr res, jw)"
    using service_update_by_id [of ?jw True "[''cancelled'', ''completed'']" _ True "Some msg" i uid]
      assms(1) unfolding fail_job_def table_ok_def by blast
  from job_step_row [OF assms(1), of "EvFail True i uid msg" i] assms(2-4) f
  have "job_row jw i = Some (apply_changes (no_changes\<lparr>c_status := Some ''failed'',
        c_finished_at := Some (jw_now ?jw), c_error_message := Some msg\<rparr>) (jw_now ?jw) j)"
    by simp
  with f show ?thesis by (auto simp: x_fail_job_def no_changes_def apply_changes_def)
qed

section \<open>Properties\<close>

text \<open>
  The worker never takes more jobs than it has room for. From a state in which the table of
  running jobs is within the concurrency, every sequence of passes of the loop, tasks run by the
  pool, recoveries and shutdowns stays within it, for every queue and every Redis behaviour.
\<close>

theorem worker_within_capacity:
  assumes "0 \<le> wk_concurrency w" and "int (length (wk_running w)) \<le> wk_concurrency w"
  shows "int (length (wk_running (foldl (worker_step cfg eng draws D S Q) w evs)))
    \<le> wk_concurrency (foldl (worker_step cfg eng draws D S Q) w evs)"
  using worker_run.run_inv [of w cfg eng draws D S Q evs] assms
  by (simp add: within_capacity_def active_count_def)

text \<open>A worker on the queue of \<open>Queue_Props\<close> would do; the witnesses use an empty local one.\<close>

definition idle_services :: "unit services" where
  "idle_services =
     \<lparr>sv_draws = (\<lambda>_. 0), sv_env = (\<lambda>n jw. jw), sv_audit = demo_audit, sv_keywords = demo_keywords,
      sv_rank = demo_rank, sv_queue_length = 0, sv_elapsed = 1\<rparr>"

definition no_queue_redis :: "unit queue_redis" where
  "no_queue_redis =
     \<lparr>qr_link = (\<lambda>_. NoClient), qr_rpush = (\<lambda>_ _ r. (None, r)), qr_sadd = (\<lambda>_ _ r. (None, r)),
      qr_srem = (\<lambda>_ _ r. (None, r)), qr_delete = (\<lambda>_ r. (None, r)), qr_pipeline = (\<lambda>_ r. (None, r)),
      qr_lpop = (\<lambda>_ r. (None, r)), qr_blpop = (\<lambda>_ _ r. (None, r)), qr_smembers = (\<lambda>_ r. (None, r)),
      qr_llen = (\<lambda>_ r. (None, r))\<rparr>"

definition no_dlq_redis :: "unit dlq_redis" where
  "no_dlq_redis =
     \<lparr>dr_link = (\<lambda>_. NoClient), dr_rpush = (\<lambda>_ _ r. (None, r)), dr_llen = (\<lambda>_ r. (None, r)),
      dr_lrange = (\<lambda>_ _ _ r. (None, r)), dr_delete = (\<lambda>_ r. (None, r))\<rparr>"

definition demo_settings :: "worker_settings" where
  "demo_settings = \<lparr>ws_retry = demo_cfg, ws_timeout = 300, ws_recovery = True, ws_dlq = True,
     ws_use_queue = False, ws_now = ''now'', ws_traceback = (\<lambda>e. ''traceback'')\<rparr>"

definition demo_exec :: "(unit, unit) exec_world" where
  "demo_exec = \<lparr>xw_run = demo_run, xw_dlq = mk_dlq no_dlq_redis ''dlq'' () (metrics_init 0),
     xw_naps = []\<rparr>"

definition demo_worker :: "(unit, unit, unit) worker" where
  "demo_worker =
     \<lparr>wk_concurrency = 2, wk_executor = \<lparr>ex_open = True, ex_workers = 2, ex_pending = []\<rparr>,
      wk_running = [], wk_accepting = True, wk_stopping = False, wk_status = ''idle'',
      wk_heartbeat_jobs = 0, wk_beating = True, wk_world = demo_exec,
      wk_queue = mk_job_queue no_queue_redis ''q'' ()\<rparr>"

theorem worker_within_capacity_witness:
  "int (length (wk_running (foldl (worker_step demo_settings (demo_engine 2) (\<lambda>_. 0) no_dlq_redis
       idle_services no_queue_redis) demo_worker [WPass, WTask, WPass])))
   \<le> wk_concurrency (foldl (worker_step demo_settings (demo_engine 2) (\<lambda>_. 0) no_dlq_redis
       idle_services no_queue_redis) demo_worker [WPass, WTask, WPass])"
  by (rule worker_within_capacity) (simp_all add: demo_worker_def)

text \<open>
  C26: A job whose runner keeps raising. When the runner raises, at every attempt, an exception
  that is retried, and nobody cancels the job, the loop makes one attempt more than the number of
  retries with the backoff delays between them, marks the job failed with the last error, and
  hands exactly one document, with the number of retries, to the dead letter queue.
\<close>

theorem exhausted_job_is_dead_lettered:
  assumes "table_ok (rn_jobs (xw_run x))" and "job_row (rn_jobs (xw_run x)) (tk_job_id t) = Some j"
    and "j_user_id j = tk_user_id t" and "j_status j = ''running''"
    and "exc_matches e [C_Exception]" and "\<not> exc_matches e (non_retryable_exceptions eng)"
    and "0 \<le> max_retries eng"
  shows "\<exists>x' j' d. attempts_from cfg eng draws D (raises e) t (nat (max_retries eng + 1)) 0 x = (Inr (), x')
    \<and> job_row (rn_jobs (xw_run x')) (tk_job_id t) = Some j' \<and> j_status j' = ''failed''
    \<and> j_error_message j' = Some (''Failed after max retries: '' @ exc_str e)
    \<and> xw_naps x' = xw_naps x @ map (\<lambda>i. compute_delay eng i (draws i)) [0..<nat (max_retries eng)]
    \<and> dq_local d = dq_local (xw_dlq x) \<and> dq_redis d = dq_redis (xw_dlq x)
    \<and> xw_dlq x' = snd (push_to_dlq (ws_dlq cfg) D (ws_now cfg) [] (tk_job_id t) (tk_job_type t)
          (tk_user_id t) (''Exhausted retries: '' @ exc_str e) (Some (ws_traceback cfg e))
          (max_retries eng) (Some [(''trace_id'', PStr (effective_trace t))]) d)"
proof -
  define n where "n = nat (max_retries eng)"
  have n: "int n = max_retries eng" "nat (max_retries eng + 1) - n = Suc 0" "nat (max_retries eng) = n"
    "n < nat (max_retries eng + 1)"
    using assms(7) by (simp_all add: n_def nat_diff_distrib)
  have nc: "\<not> is_cancelled (rn_jobs (xw_run x)) (tk_job_id t)"
    using assms(2,4) by (simp add: is_cancelled_def)
  let ?x = "napped eng draws 0 n x"
  have loop: "attempts_from cfg eng draws D (raises e) t (nat (max_retries eng + 1)) 0 x
      = attempts_from cfg eng draws D (raises e) t (Suc 0) n ?x"
    using attempts_nap [OF nc assms(5,6), of n "nat (max_retries eng + 1)" 0 cfg draws D] n by simp
  let ?y = "x_metric (inc_worker_jobs_failed 1) (x_metric (inc_retry_failures 1) ?x)"
  have y: "rn_jobs (xw_run ?y) = rn_jobs (xw_run x)" "xw_dlq ?y = xw_dlq x"
    "xw_naps ?y = xw_naps x @ naps eng draws 0 n"
    by (simp_all add: napped_def)
  obtain z j' where z: "x_fail_job (tk_job_id t) (tk_user_id t) (''Failed after max retries: '' @ exc_str e) ?y
      = (Inr (), z)" "xw_dlq z = xw_dlq x" "xw_naps z = xw_naps x @ naps eng draws 0 n"
    "job_row (rn_jobs (xw_run z)) (tk_job_id t) = Some j'" "j_status j' = ''failed''"
    "j_error_message j' = Some (''Failed after max retries: '' @ exc_str e)"
    using x_fail_job_open [of ?y "tk_job_id t" j] assms(1-4) y by (metis (no_types))
  have nc': "\<not> is_cancelled (rn_jobs (xw_run ?x)) (tk_job_id t)" using nc by (simp add: napped_def)
  have "attempts_from cfg eng draws D (raises e) t (Suc 0) n ?x
      = (Inr (), x_dead_letter cfg D t (''Exhausted retries: '' @ exc_str e) (ws_traceback cfg e) (int n)
           (Some [(''trace_id'', PStr (effective_trace t))]) z)"
    using nc' assms(5,6) n(1) z(1)
    by (simp add: raises_def Let_def del: exc_matches_Exception x_metric_frame)
  with loop z n(1) show ?thesis
    by (intro exI [of _ "x_dead_letter cfg D t (''Exhausted retries: '' @ exc_str e)
          (ws_traceback cfg e) (int n) (Some [(''trace_id'', PStr (effective_trace t))]) z"]
        exI [of _ j'] exI [of _ "(xw_dlq z)\<lparr>dq_metrics := rn_metrics (xw_run z)\<rparr>"])
      (simp add: x_dead_letter_def Let_def naps_map n(3) split: prod.split)
qed

definition started_run :: "unit run_world" where
  "started_run = demo_run\<lparr>rn_jobs := job_step (rn_jobs demo_run) (EvStart True 1 7)\<rparr>"

definition demo_task :: "task" where
  "demo_task = \<lparr>tk_job_id = 1, tk_job_type = ''rank'', tk_user_id = 7,
     tk_kwargs = [(''keyword'', PStr ''seo''), (''domain'', PStr ''a.io''), (''website_id'', PNone)],
     tk_trace_id = None\<rparr>"

lemma started_run_row:
  "table_ok (rn_jobs started_run)"
  "\<exists>j. job_row (rn_jobs started_run) 1 = Some j \<and> j_user_id j = 7 \<and> j_status j = ''running''"
proof -
  have "table_ok (rn_jobs demo_run)" using demo_run_row(1) by (simp add: table_ok_def)
  note step = job_step_row [OF this, of "EvStart True 1 7" 1]
  show "table_ok (rn_jobs started_run)" using step by (simp add: started_run_def)
  show "\<exists>j. job_row (rn_jobs started_run) 1 = Some j \<and> j_user_id j = 7 \<and> j_status j = ''running''"
    using step demo_run_row(3)
    by (simp add: started_run_def new_job_def no_changes_def apply_changes_def del: job_step.simps)
qed

theorem exhausted_job_is_dead_lettered_witness:
  "\<exists>x' j'. attempts_from demo_settings (demo_engine 2) (\<lambda>_. 0) no_dlq_redis
       (raises (OtherException ''boom'')) demo_task 3 0 (demo_exec\<lparr>xw_run := started_run\<rparr>) = (Inr (), x')
     \<and> job_row (rn_jobs (xw_run x')) 1 = Some j' \<and> j_status j' = ''failed''"
proof -
  obtain j where j: "job_row (rn_jobs started_run) 1 = Some j" "j_user_id j = 7" "j_status j = ''running''"
    using started_run_row(2) by blast
  show ?thesis
    using exhausted_job_is_dead_lettered [where x = "demo_exec\<lparr>xw_run := started_run\<rparr>"
        and t = demo_task and j = j and e = "OtherException ''boom''" and eng = "demo_engine 2"
        and cfg = demo_settings and draws = "\<lambda>_. 0" and D = no_dlq_redis] j started_run_row(1)
    by (auto simp: demo_task_def demo_engine_def mk_engine_def DEFAULT_NON_RETRYABLE_def exc_matches_def)
qed

text \<open>
  A failed job that counts as completed. The runners record their failure themselves and raise
  nothing, so the wrapper takes a job that has failed for a completed one: for a rank job (whose
  call of the service always fails) the job ends failed, the counter of completed jobs goes up and
  that of failed jobs does not, there is no retry, no nap, and no entry in the dead letter queue.
\<close>

theorem failed_job_counts_as_completed:
  assumes "table_ok (rn_jobs (xw_run x))" and "job_row (rn_jobs (xw_run x)) (tk_job_id t) = Some j"
    and "j_user_id j = tk_user_id t" and "j_status j = ''pending''"
    and "tk_job_type t = ''rank''" and "d_keys (tk_kwargs t) = [''keyword'', ''domain'', ''website_id'']"
    and "pf_required (sv_rank S) = check_rank_sig" and "sv_env S = (\<lambda>n jw. jw)"
    and "0 \<le> max_retries eng"
  shows "\<exists>x' j'. wrapper_body cfg eng draws D S t x = (Inr (), x')
    \<and> job_row (rn_jobs (xw_run x')) (tk_job_id t) = Some j' \<and> j_status j' = ''failed''
    \<and> rn_metrics (xw_run x') = metric_step (rn_metrics (xw_run x)) (inc_worker_jobs_completed 1)
    \<and> xw_dlq x' = xw_dlq x \<and> xw_naps x' = xw_naps x"
proof -
  define kw where "kw = [(''keyword'', PStr (or_else (kw_str (tk_kwargs t) ''keyword'') [])),
      (''domain'', opt_str (kw_str (tk_kwargs t) ''domain'')),
      (''website_id'', opt_id (kw_int (tk_kwargs t) ''website_id'')),
      (''user_id'', PInt (tk_user_id t))]"
  have call: "call_py (sv_rank S) kw st = (Inl (TypeError ''missing required argument''), st)" for st
    by (simp add: kw_def call_py_def assms(7) check_rank_sig_def)
  obtain w j' where w: "run_job (ws_retry cfg) (sv_draws S) (\<lambda>n jw. jw) (sv_rank S) kw Some
      (tk_job_id t) (tk_user_id t) (xw_run x) = (Inr False, w)"
    "job_row (rn_jobs w) (tk_job_id t) = Some j'" "j_status j' = ''failed''"
    "rn_metrics w = rn_metrics (xw_run x)"
    using run_fails [OF _ assms(2-4) call] assms(1) unfolding table_ok_def by metis
  let ?target = "bind_runner [''keyword'', ''domain'', ''website_id''] (\<lambda>jid uid kw.
      run_rank_job (ws_retry cfg) (sv_draws S) (sv_env S) (sv_rank S)
        jid uid (or_else (kw_str kw ''keyword'') []) (kw_str kw ''domain'') (kw_int kw ''website_id''))"
  have f: "target_func (ws_retry cfg) S (tk_job_type t) = Some ?target"
    by (simp add: target_func_def assms(5))
  have run: "?target (tk_job_id t) (tk_user_id t) (tk_kwargs t) x = (Inr (), x\<lparr>xw_run := w\<rparr>)"
    using w(1) by (simp add: bind_runner_def assms(6,8) run_rank_job_def kw_def)
  have nc: "\<not> is_cancelled (rn_jobs (xw_run x)) (tk_job_id t)"
    using assms(2,4) by (simp add: is_cancelled_def)
  have left: "nat (max_retries eng + 1) = Suc (nat (max_retries eng))"
    using assms(9) by (simp add: nat_add_distrib)
  have "wrapper_body cfg eng draws D S t x
      = (Inr (), x_metric (inc_worker_jobs_completed 1) (x\<lparr>xw_run := w\<rparr>))"
    using run nc by (simp only: wrapper_body_def f option.case if_False left attempts_from.simps
        prod.case sum.case)
  with w show ?thesis by simp
qed

theorem failed_job_counts_as_completed_witness:
  "\<exists>x' j'. wrapper_body demo_settings (demo_engine 2) (\<lambda>_. 0) no_dlq_redis idle_services demo_task demo_exec
       = (Inr (), x')
     \<and> job_row (rn_jobs (xw_run x')) 1 = Some j' \<and> j_status j' = ''failed'' \<and> xw_naps x' = []"
  using failed_job_counts_as_completed [where x = demo_exec and t = demo_task and S = idle_services
      and j = "new_job 7 ''keywords'' None None 0" and eng = "demo_engine 2" and cfg = demo_settings
      and draws = "\<lambda>_. 0" and D = no_dlq_redis] demo_run_row
  by (auto simp: demo_exec_def demo_task_def idle_services_def demo_rank_def new_job_def table_ok_def
      demo_engine_def mk_engine_def)

end
