(* ===== verification/Queue_Props.thy ===== *)
theory Queue_Props
  imports Job_Queue "HOL-Library.Multiset"
begin

text \<open>
  What the job queue guarantees: the order in which Redis lists are served, the service bound of
  the anti-starvation rule, what that rule does not cover, and the fallback queue as a source
  that neither loses nor invents a job.
\<close>

section \<open>A source of jobs\<close>

text \<open>
  The contract a worker relies on: what is pushed can be popped once, and a pop that returns
  nothing means that nothing is left.
\<close>

locale job_source =
  fixes push :: "'j \<Rightarrow> 's \<Rightarrow> 's"
    and pop :: "'s \<Rightarrow> 'j option \<times> 's"
    and content :: "'s \<Rightarrow> 'j multiset"
  assumes content_push: "content (push j s) = add_mset j (content s)"
    and pop_None: "pop s = (None, s') \<Longrightarrow> content s = {#} \<and> content s' = {#}"
    and pop_Some: "pop s = (Some j, s') \<Longrightarrow> content s = add_mset j (content s')"
begin

primrec drain :: "nat \<Rightarrow> 's \<Rightarrow> 'j list \<times> 's" where
  "drain 0 s = ([], s)"
| "drain (Suc n) s =
     (case pop s of
        (None, s') \<Rightarrow> ([], s')
      | (Some j, s') \<Rightarrow> (case drain n s' of (js, s'') \<Rightarrow> (j # js, s'')))"

lemma drain_content: "drain n s = (js, s') \<Longrightarrow> content s = mset js + content s'"
proof (induction n arbitrary: s js)
  case 0
  then show ?case by simp
next
  case (Suc n)
  show ?case
  proof (cases "pop s")
    case (Pair a s1)
    show ?thesis
    proof (cases a)
      case None
      then show ?thesis using Suc.prems Pair pop_None [of s s1] by simp
    next
      case (Some j)
      then show ?thesis
        using Suc Pair pop_Some [of s j s1] by (auto split: prod.splits)
    qed
  qed
qed

lemma drain_length: "length (fst (drain n s)) \<le> n"
proof (induction n arbitrary: s)
  case (Suc n)
  then show ?case by (auto split: prod.splits option.splits) (metis fst_conv)
qed simp

lemma drain_all: "size (content s) \<le> n \<Longrightarrow> content (snd (drain n s)) = {#}"
proof (induction n arbitrary: s)
  case 0
  then show ?case by simp
next
  case (Suc n)
  show ?case
  proof (cases "pop s")
    case (Pair a s1)
    show ?thesis
    proof (cases a)
      case None
      then show ?thesis using Pair pop_None [of s s1] by simp
    next
      case (Some j)
      then have "content s = add_mset j (content s1)" using Pair pop_Some by simp
      with Suc.prems have "size (content s1) \<le> n" by simp
      from Suc.IH [OF this] Pair Some show ?thesis by (simp add: split_beta)
    qed
  qed
qed

lemma foldl_push_content: "content (foldl (\<lambda>s j. push j s) s js) = mset js + content s"
  by (induction js arbitrary: s) (simp_all add: content_push)

end

text \<open>The fallback queue provides the contract.\<close>

type_synonym mem_entry = "int \<times> int \<times> payload \<times> string option"

definition mem_pop :: "mem_entry list \<Rightarrow> mem_entry option \<times> mem_entry list" where
  "mem_pop es = (case es of [] \<Rightarrow> (None, []) | e # es' \<Rightarrow> (Some e, es'))"

lemma mem_pop_simps [simp]: "mem_pop [] = (None, [])" "mem_pop (e # es) = (Some e, es)"
  by (simp_all add: mem_pop_def)

lemma mset_mem_insert: "mset (mem_insert e es) = add_mset e (mset es)"
  by (induction e es rule: mem_insert.induct) auto

interpretation mem: job_source mem_insert mem_pop mset
  by unfold_locales (auto simp: mset_mem_insert mem_pop_def split: list.splits)

lemma q_pop_memory_mem_pop:
  "q_pop_memory q =
     (case mem_pop (q_memory q) of
        (e, es) \<Rightarrow> (map_option (\<lambda>(pv, j, pl, tf). pl) e, q\<lparr>q_memory := es\<rparr>))"
  by (cases q) (auto simp: q_pop_memory_def mem_pop_def split: list.splits)

lemma q_pop_batch_local:
  "q_pop_batch False R n q =
     (map (\<lambda>(pv, j, pl, tf). pl) (fst (mem.drain n (q_memory q))),
      q\<lparr>q_memory := snd (mem.drain n (q_memory q))\<rparr>)"
proof (induction n arbitrary: q)
  case (Suc n)
  have pop: "q_pop_next_job False R 0 q = q_pop_memory q"
    by (simp add: q_pop_next_job_def q_is_redis_active_def)
  show ?case
  proof (cases "q_memory q")
    case Nil
    then show ?thesis by (simp add: pop q_pop_memory_def)
  next
    case (Cons e es)
    then show ?thesis
      by (cases e) (simp add: pop q_pop_memory_def Suc.IH split_beta)
  qed
qed simp

section \<open>The order of the fallback queue\<close>

definition entry_key :: "mem_entry \<Rightarrow> int \<times> int" where
  "entry_key e = (fst e, fst (snd e))"

definition key_le :: "mem_entry \<Rightarrow> mem_entry \<Rightarrow> bool" where
  "key_le e f \<longleftrightarrow> fst e < fst f \<or> fst e = fst f \<and> fst (snd e) \<le> fst (snd f)"

lemma key_le_trans: "key_le e f \<Longrightarrow> key_le f g \<Longrightarrow> key_le e g"
  by (auto simp: key_le_def)

lemma mem_insert_set: "set (mem_insert e es) = insert e (set es)"
  by (induction e es rule: mem_insert.induct) auto

lemma mem_insert_sorted: "sorted_wrt key_le es \<Longrightarrow> sorted_wrt key_le (mem_insert e es)"
proof (induction e es rule: mem_insert.induct)
  case (2 pv j pl tf pv' j' pl' tf' es)
  show ?case
  proof (cases "pv < pv' \<or> pv = pv' \<and> j < j'")
    case True
    then have here: "key_le (pv, j, pl, tf) (pv', j', pl', tf')" by (auto simp: key_le_def)
    have "key_le (pv, j, pl, tf) f" if "f \<in> set es" for f
      using 2(2) that here by (auto intro: key_le_trans)
    with True 2(2) here show ?thesis by simp
  next
    case False
    then have "key_le (pv', j', pl', tf') (pv, j, pl, tf)" by (auto simp: key_le_def)
    with False 2 show ?thesis by (auto simp: mem_insert_set)
  qed
qed simp

lemma mem_drain_take: "fst (mem.drain n es) = take n es"
proof (induction n arbitrary: es)
  case (Suc n)
  then show ?case by (cases es) (simp_all add: split_beta)
qed simp

lemma foldl_mem_insert_sorted:
  "sorted_wrt key_le es \<Longrightarrow> sorted_wrt key_le (foldl (\<lambda>s j. mem_insert j s) es js)"
  by (induction js arbitrary: es) (simp_all add: mem_insert_sorted)

text \<open>A list of jobs enqueued one after another with Redis switched off.\<close>

definition entry_of :: "rat \<Rightarrow> batch_job \<Rightarrow> mem_entry" where
  "entry_of now j =
     (let pl = batch_payload now j in (p_priority_val pl, p_job_id pl, pl, b_target j))"

definition plain_job :: "batch_job \<Rightarrow> bool" where
  "plain_job j \<longleftrightarrow> d_get (batch_params j) ''priority'' = None
     \<and> d_get (batch_params j) ''group_id'' = None \<and> d_get (batch_params j) ''trace_id'' = None
     \<and> d_get (batch_params j) ''params'' = None"

lemma q_enqueue_plain:
  assumes "plain_job j"
  shows "\<exists>q'. q_enqueue False R now (b_job_type j) (b_job_id j) (b_user_id j) (b_target j)
           (batch_priority j) (b_group_id j) (b_trace_id j) (batch_params j) q
             = (Inr (''thread:'' @ int_str (b_job_id j)), q') \<and>
           q_memory q' = mem_insert (entry_of now j) (q_memory q)"
  using assms
  by (auto simp: q_enqueue_def q_is_redis_active_def pop_priority_def pop_str_def job_params_def
      plain_job_def q_push_memory_def entry_of_def batch_payload_def mk_payload_def Let_def
      split: option.splits)

lemma q_enqueue_each_local:
  "list_all plain_job js \<Longrightarrow>
     \<exists>q'. q_enqueue_each False R now js q =
            (Inr (map (\<lambda>j. ''thread:'' @ int_str (b_job_id j)) js), q') \<and>
          q_memory q' = foldl (\<lambda>s e. mem_insert e s) (q_memory q) (map (entry_of now) js)"
proof (induction js arbitrary: q)
  case Nil
  then show ?case by simp
next
  case (Cons j js)
  then obtain q1 where
    q1: "q_enqueue False R now (b_job_type j) (b_job_id j) (b_user_id j) (b_target j)
           (batch_priority j) (b_group_id j) (b_trace_id j) (batch_params j) q
             = (Inr (''thread:'' @ int_str (b_job_id j)), q1)"
      "q_memory q1 = mem_insert (entry_of now j) (q_memory q)"
    using q_enqueue_plain [of j R now q] by auto
  with Cons.IH [of q1] Cons.prems show ?case by auto
qed

section \<open>Redis lists\<close>

text \<open>
  A Redis that answers every command as its documentation says, read through the contents of its
  lists; \<open>BLPOP\<close> times out when every list is empty.
\<close>

definition pop_key :: "(string \<Rightarrow> payload list) \<Rightarrow> string list \<Rightarrow> string option" where
  "pop_key l ks = List.find (\<lambda>k. l k \<noteq> []) ks"

definition healthy :: "'r queue_redis \<Rightarrow> ('r \<Rightarrow> string \<Rightarrow> payload list) \<Rightarrow> bool" where
  "healthy R L \<longleftrightarrow>
     (\<forall>k pl r. \<exists>r'. qr_rpush R k pl r = (Some (), r') \<and> L r' = (L r)(k := L r k @ [pl])) \<and>
     (\<forall>k m r. \<exists>r'. qr_sadd R k m r = (Some (), r') \<and> L r' = L r) \<and>
     (\<forall>k r. \<exists>r'. qr_lpop R k r = (Some (case L r k of [] \<Rightarrow> None | pl # _ \<Rightarrow> Some pl), r')
              \<and> L r' = (L r)(k := tl (L r k))) \<and>
     (\<forall>ks t r. case pop_key (L r) ks of
          None \<Rightarrow> (\<exists>r'. qr_blpop R ks t r = (Some None, r') \<and> L r' = L r)
        | Some k \<Rightarrow> (\<exists>r'. qr_blpop R ks t r = (Some (Some (k, hd (L r k))), r')
                          \<and> L r' = (L r)(k := tl (L r k))))"

definition q_live :: "'r job_queue \<Rightarrow> bool" where
  "q_live q \<longleftrightarrow> q_connected q \<and> q_client q"

lemma q_live_active: "q_live q \<Longrightarrow> q_is_redis_active True R q = (True, q)"
  by (simp add: q_live_def q_is_redis_active_def)

lemma lpop_first_healthy:
  assumes "healthy R L"
  shows "\<exists>r'. lpop_first R ks r =
           (case pop_key (L r) ks of
              None \<Rightarrow> (Some None, r') | Some k \<Rightarrow> (Some (Some (hd (L r k))), r')) \<and>
         L r' = (case pop_key (L r) ks of None \<Rightarrow> L r | Some k \<Rightarrow> (L r)(k := tl (L r k)))"
proof (induction ks arbitrary: r)
  case Nil
  then show ?case by (simp add: pop_key_def)
next
  case (Cons k ks)
  from assms obtain r1 where
    r1: "qr_lpop R k r = (Some (case L r k of [] \<Rightarrow> None | pl # _ \<Rightarrow> Some pl), r1)"
      "L r1 = (L r)(k := tl (L r k))"
    unfolding healthy_def by meson
  show ?case
  proof (cases "L r k")
    case Nil
    then have same: "L r1 = L r" using r1(2) by (simp add: fun_upd_idem)
    show ?thesis using Cons.IH [of r1] r1(1) Nil unfolding same by (simp add: pop_key_def)
  next
    case (Cons pl pls)
    with r1 show ?thesis by (simp add: pop_key_def fun_upd_def)
  qed
qed

lemma healthy_rpush:
  "healthy R L \<Longrightarrow> \<exists>r'. qr_rpush R k pl r = (Some (), r') \<and> L r' = (L r)(k := L r k @ [pl])"
  by (simp add: healthy_def)

lemma healthy_sadd: "healthy R L \<Longrightarrow> \<exists>r'. qr_sadd R k m r = (Some (), r') \<and> L r' = L r"
  by (simp add: healthy_def)

lemma healthy_blpop:
  assumes "healthy R L" "pop_key (L r) ks = Some k"
  shows "\<exists>r'. qr_blpop R ks t r = (Some (Some (k, hd (L r k))), r')
           \<and> L r' = (L r)(k := tl (L r k))"
proof -
  from assms(1) have "case pop_key (L r) ks of
      None \<Rightarrow> (\<exists>r'. qr_blpop R ks t r = (Some None, r') \<and> L r' = L r)
    | Some k \<Rightarrow> (\<exists>r'. qr_blpop R ks t r = (Some (Some (k, hd (L r k))), r')
                      \<and> L r' = (L r)(k := tl (L r k)))"
    unfolding healthy_def by blast
  with assms(2) show ?thesis by simp
qed


text \<open>The list a pop takes from.\<close>

definition served_key :: "(string \<Rightarrow> payload list) \<Rightarrow> string \<Rightarrow> nat \<Rightarrow> string option" where
  "served_key l name turn =
     pop_key l (if turn mod 5 = 0 then fair_keys name else priority_keys name)"


lemma pop_key_Some: "pop_key l ks = Some k \<Longrightarrow> k \<in> set ks \<and> l k \<noteq> []"
  by (auto simp: pop_key_def find_Some_iff)


lemma q_pop_healthy:
  assumes "healthy R L" "q_live q" "served_key (L (q_redis q)) (q_name q) (Suc (q_pop_counter q)) = Some k"
  shows "\<exists>r'. q_pop_next_job True R t q =
           (Some (hd (L (q_redis q) k)), q\<lparr>q_redis := r', q_pop_counter := Suc (q_pop_counter q)\<rparr>) \<and>
         L r' = (L (q_redis q))(k := tl (L (q_redis q) k))"
proof (cases "Suc (q_pop_counter q) mod 5 = 0")
  case True
  with assms(3) have k: "pop_key (L (q_redis q)) (fair_keys (q_name q)) = Some k"
    by (simp add: served_key_def)
  from lpop_first_healthy [OF assms(1), of "fair_keys (q_name q)" "q_redis q"] k
  obtain r' where "lpop_first R (fair_keys (q_name q)) (q_redis q) =
      (Some (Some (hd (L (q_redis q) k))), r')"
    "L r' = (L (q_redis q))(k := tl (L (q_redis q) k))" by auto
  with True show ?thesis
    by (intro exI [of _ r']) (simp add: q_pop_next_job_def q_live_active [OF assms(2)] Let_def)
next
  case False
  with assms(3) have k: "pop_key (L (q_redis q)) (priority_keys (q_name q)) = Some k"
    by (simp add: served_key_def)
  from healthy_blpop [OF assms(1) k, of t]
  obtain r' where "qr_blpop R (priority_keys (q_name q)) t (q_redis q) =
      (Some (Some (k, hd (L (q_redis q) k))), r')"
    "L r' = (L (q_redis q))(k := tl (L (q_redis q) k))" by blast
  with False show ?thesis
    by (intro exI [of _ r']) (simp add: q_pop_next_job_def q_live_active [OF assms(2)] Let_def)
qed


lemma keys_distinct [simp]:
  "pri_key name a = pri_key name b \<longleftrightarrow> a = b" "pri_key name a \<noteq> name" "name \<noteq> pri_key name a"
  by (auto simp: pri_key_def)

section \<open>Runs of a queue\<close>

text \<open>What clients and workers do to the queue object, in any order.\<close>

record push_args =
  e_now :: rat
  e_job_type :: string
  e_job_id :: int
  e_user_id :: int
  e_target :: "string option"
  e_priority :: pyval
  e_group_id :: "string option"
  e_trace_id :: "string option"
  e_kwargs :: kwargs

datatype queue_event = Push push_args | Pop rat

fun q_event :: "'r queue_redis \<Rightarrow> queue_event \<Rightarrow> 'r job_queue \<Rightarrow> payload option \<times> 'r job_queue" where
  "q_event R (Push a) q =
     (None, snd (q_enqueue True R (e_now a) (e_job_type a) (e_job_id a) (e_user_id a) (e_target a)
                   (e_priority a) (e_group_id a) (e_trace_id a) (e_kwargs a) q))"
| "q_event R (Pop t) q = q_pop_next_job True R t q"

fun q_run :: "'r queue_redis \<Rightarrow> queue_event list \<Rightarrow> 'r job_queue \<Rightarrow> payload list \<times> 'r job_queue" where
  "q_run R [] q = ([], q)"
| "q_run R (e # es) q =
     (case q_event R e q of
        (out, q1) \<Rightarrow> (case q_run R es q1 of (outs, q2) \<Rightarrow> (case_option [] (\<lambda>p. [p]) out @ outs, q2)))"

definition pops :: "queue_event list \<Rightarrow> nat" where
  "pops es = length (filter (\<lambda>e. case e of Pop t \<Rightarrow> True | Push a \<Rightarrow> False) es)"

lemma pops_simps [simp]:
  "pops [] = 0" "pops (Push a # es) = pops es" "pops (Pop t # es) = Suc (pops es)"
  by (simp_all add: pops_def)

text \<open>The priority list an enqueued job goes to.\<close>

definition push_pri :: "push_args \<Rightarrow> string" where
  "push_pri a = fst (parse_priority (fst (pop_priority (e_priority a) (e_kwargs a))))"

lemma push_redis_healthy:
  assumes "healthy R L"
  shows "\<exists>r'. q_push_redis R name pl r = (Some (), r') \<and>
           L r' = (L r)(pri_key name (p_priority pl) := L r (pri_key name (p_priority pl)) @ [pl])"
proof -
  from healthy_rpush [OF assms] obtain r1 where r1:
    "qr_rpush R (pri_key name (p_priority pl)) pl r = (Some (), r1)"
    "L r1 = (L r)(pri_key name (p_priority pl) := L r (pri_key name (p_priority pl)) @ [pl])"
    by blast
  show ?thesis
  proof (cases "p_group_id pl")
    case None
    with r1 show ?thesis by (simp add: q_push_redis_def)
  next
    case (Some g)
    from healthy_sadd [OF assms] obtain r2 where
      r2: "qr_sadd R (group_key name g) (int_str (p_job_id pl)) r1 = (Some (), r2)" "L r2 = L r1"
      by blast
    from healthy_sadd [OF assms] obtain r3 where
      r3: "qr_sadd R (groups_key name) g r2 = (Some (), r3)" "L r3 = L r2" by blast
    show ?thesis using r1 r2 r3 Some by (simp add: q_push_redis_def)
  qed
qed

lemma q_event_push:
  assumes "healthy R L" "q_live q"
  shows "\<exists>r' pl. q_event R (Push a) q = (None, q\<lparr>q_redis := r'\<rparr>) \<and>
           p_job_id pl = e_job_id a \<and>
           L r' = (L (q_redis q))(pri_key (q_name q) (push_pri a) :=
                     L (q_redis q) (pri_key (q_name q) (push_pri a)) @ [pl])"
proof -
  obtain pri kw1 where 1: "pop_priority (e_priority a) (e_kwargs a) = (pri, kw1)" by fastforce
  obtain grp kw2 where 2: "pop_str ''group_id'' (e_group_id a) kw1 = (grp, kw2)" by fastforce
  obtain trc kw3 where 3: "pop_str ''trace_id'' (e_trace_id a) kw2 = (trc, kw3)" by fastforce
  define pl where "pl = mk_payload (e_now a) (e_job_type a) (e_job_id a) (e_user_id a) pri grp trc
                          (job_params kw3)"
  from push_redis_healthy [OF assms(1)] obtain r' where
    r': "q_push_redis R (q_name q) pl (q_redis q) = (Some (), r')"
      "L r' = (L (q_redis q))(pri_key (q_name q) (p_priority pl) :=
                 L (q_redis q) (pri_key (q_name q) (p_priority pl)) @ [pl])"
    by blast
  have pri: "p_priority pl = push_pri a"
    by (simp add: pl_def mk_payload_def push_pri_def 1)
  have "q_event R (Push a) q = (None, q\<lparr>q_redis := r'\<rparr>)"
    using r'(1) by (simp add: q_enqueue_def 1 2 3 q_live_active [OF assms(2)] flip: pl_def)
  moreover have "p_job_id pl = e_job_id a" by (simp add: pl_def mk_payload_def)
  ultimately show ?thesis using r'(2) unfolding pri by blast
qed

lemma served_fair:
  "l (pri_key name ''normal'') \<noteq> [] \<Longrightarrow> turn mod 5 = 0
     \<Longrightarrow> served_key l name turn = Some (pri_key name ''normal'')"
  by (simp add: served_key_def pop_key_def fair_keys_def)

lemma served_normal_pending:
  "l (pri_key name ''normal'') \<noteq> []
     \<Longrightarrow> served_key l name turn = Some (pri_key name ''normal'')
       \<or> served_key l name turn = Some (pri_key name ''high'')"
  by (auto simp: served_key_def pop_key_def fair_keys_def priority_keys_def)

lemma q_event_pop_pending:
  assumes "healthy R L" "q_live q"
    and "L (q_redis q) (pri_key (q_name q) ''normal'') = xs @ pl # ys"
  obtains r' k where
    "q_event R (Pop t) q =
       (Some (hd (L (q_redis q) k)), q\<lparr>q_redis := r', q_pop_counter := Suc (q_pop_counter q)\<rparr>)"
    "L r' = (L (q_redis q))(k := tl (L (q_redis q) k))"
    "k = pri_key (q_name q) ''normal'' \<or>
       k = pri_key (q_name q) ''high'' \<and> Suc (q_pop_counter q) mod 5 \<noteq> 0"
proof -
  let ?n = "pri_key (q_name q) ''normal''"
  have ne: "L (q_redis q) ?n \<noteq> []" using assms(3) by simp
  obtain k where k: "served_key (L (q_redis q)) (q_name q) (Suc (q_pop_counter q)) = Some k"
    "k = ?n \<or> k = pri_key (q_name q) ''high''" "k \<noteq> ?n \<longrightarrow> Suc (q_pop_counter q) mod 5 \<noteq> 0"
    using served_normal_pending [of "L (q_redis q)" "q_name q" "Suc (q_pop_counter q)", OF ne]
      served_fair [of "L (q_redis q)" "q_name q" "Suc (q_pop_counter q)", OF ne] by auto
  from q_pop_healthy [OF assms(1,2) k(1), of t] k(2,3) that show thesis
    by (metis q_event.simps(2))
qed

lemma q_run_serves:
  assumes "healthy R L"
  shows "\<lbrakk>q_live q; L (q_redis q) (pri_key (q_name q) ''normal'') = xs @ pl # ys;
          5 * length xs + 5 \<le> pops es + q_pop_counter q mod 5\<rbrakk>
     \<Longrightarrow> pl \<in> set (fst (q_run R es q))"
proof (induction es arbitrary: q xs ys)
  case Nil
  have "q_pop_counter q mod 5 < 5" by simp
  with Nil show ?case by simp
next
  case (Cons e es)
  let ?n = "pri_key (q_name q) ''normal''"
  show ?case
  proof (cases e)
    case (Push a)
    from q_event_push [OF assms Cons.prems(1), of a] obtain r' pl' where
      ev: "q_event R e q = (None, q\<lparr>q_redis := r'\<rparr>)"
        "L r' = (L (q_redis q))(pri_key (q_name q) (push_pri a) :=
                  L (q_redis q) (pri_key (q_name q) (push_pri a)) @ [pl'])"
      unfolding Push by blast
    then have "\<exists>zs. L r' ?n = xs @ pl # ys @ zs" using Cons.prems(2) by auto
    then obtain zs where "L r' ?n = xs @ pl # ys @ zs" by blast
    then have "pl \<in> set (fst (q_run R es (q\<lparr>q_redis := r'\<rparr>)))"
      using Cons.prems Push by (intro Cons.IH) (auto simp: q_live_def)
    then show ?thesis by (simp add: ev(1) split_beta)
  next
    case (Pop t)
    obtain r' k where
      ev: "q_event R (Pop t) q =
         (Some (hd (L (q_redis q) k)), q\<lparr>q_redis := r', q_pop_counter := Suc (q_pop_counter q)\<rparr>)"
        "L r' = (L (q_redis q))(k := tl (L (q_redis q) k))"
      and k: "k = ?n \<or> k = pri_key (q_name q) ''high'' \<and> Suc (q_pop_counter q) mod 5 \<noteq> 0"
      by (rule q_event_pop_pending [OF assms Cons.prems(1,2), of t])
    let ?q' = "q\<lparr>q_redis := r', q_pop_counter := Suc (q_pop_counter q)\<rparr>"
    have out: "fst (q_run R (e # es) q) = hd (L (q_redis q) k) # fst (q_run R es ?q')"
      unfolding Pop by (simp only: q_run.simps ev(1)) (simp add: split_beta)
    have live: "q_live ?q'" using Cons.prems(1) by (simp add: q_live_def)
    show ?thesis
    proof (cases "k = ?n")
      case True
      show ?thesis
      proof (cases xs)
        case Nil
        with True Cons.prems(2) show ?thesis unfolding out by simp
      next
        case (Cons x xs')
        have "q_pop_counter q mod 5 \<le> Suc (q_pop_counter q) mod 5 + 4" by presburger
        then have "pl \<in> set (fst (q_run R es ?q'))"
          using Cons.prems Pop True Cons ev(2) live
          by (intro Cons.IH [of _ xs' ys]) auto
        then show ?thesis unfolding out by simp
      qed
    next
      case False
      with k have "k = pri_key (q_name q) ''high''" "Suc (q_pop_counter q) mod 5 \<noteq> 0" by auto
      moreover from this(2) have "Suc (q_pop_counter q) mod 5 = Suc (q_pop_counter q mod 5)"
        by presburger
      ultimately have "pl \<in> set (fst (q_run R es ?q'))"
        using Cons.prems Pop ev(2) live
        by (intro Cons.IH [of _ xs ys]) auto
      then show ?thesis unfolding out by simp
    qed
  qed
qed

section \<open>Properties of the queue\<close>

text \<open>A Redis that keeps only the lists, for the witnesses.\<close>

definition list_redis :: "(string \<Rightarrow> payload list) queue_redis" where
  "list_redis =
     \<lparr>qr_link = (\<lambda>r. PingOk),
      qr_rpush = (\<lambda>k pl r. (Some (), r(k := r k @ [pl]))),
      qr_sadd = (\<lambda>k m r. (Some (), r)), qr_srem = (\<lambda>k m r. (Some (), r)),
      qr_delete = (\<lambda>k r. (Some (), r)), qr_pipeline = (\<lambda>cs r. (Some (), r)),
      qr_lpop = (\<lambda>k r. (Some (case r k of [] \<Rightarrow> None | pl # _ \<Rightarrow> Some pl), r(k := tl (r k)))),
      qr_blpop = (\<lambda>ks t r. case pop_key r ks of
                     None \<Rightarrow> (Some None, r)
                   | Some k \<Rightarrow> (Some (Some (k, hd (r k))), r(k := tl (r k)))),
      qr_smembers = (\<lambda>k r. (Some [], r)), qr_llen = (\<lambda>k r. (Some (length (r k)), r))\<rparr>"

lemma list_redis_healthy: "healthy list_redis (\<lambda>r. r)"
  by (simp add: healthy_def list_redis_def split: option.splits)

definition demo_payload :: "string \<Rightarrow> int \<Rightarrow> payload" where
  "demo_payload pri n = mk_payload 0 ''audit'' n 1 (PStr pri) None None (PDict [])"

definition demo_lists :: "string \<Rightarrow> payload list" where
  "demo_lists =
     (\<lambda>_. [])(pri_key ''q'' ''high'' := [demo_payload ''high'' 1, demo_payload ''high'' 2],
              pri_key ''q'' ''normal'' := [demo_payload ''normal'' 3, demo_payload ''normal'' 4],
              pri_key ''q'' ''low'' := [demo_payload ''low'' 5])"

definition demo_queue :: "(string \<Rightarrow> payload list) job_queue" where
  "demo_queue = mk_job_queue list_redis ''q'' demo_lists"

lemma demo_queue_facts:
  "q_live demo_queue" "q_redis demo_queue = demo_lists" "q_name demo_queue = ''q''"
  "q_pop_counter demo_queue = 0" "q_memory demo_queue = []"
  by (simp_all add: demo_queue_def mk_job_queue_def q_init_redis_def list_redis_def q_live_def)




text \<open>
  C21: Service bound. A job in the normal list with m jobs ahead of it is handed out within
  5 * (m + 1) pops, whatever else is enqueued or popped in between and however many high
  priority jobs keep arriving: every fifth pop looks at the normal list first.
\<close>

theorem normal_job_is_served:
  assumes "healthy R L" and "q_live q"
    and "L (q_redis q) (pri_key (q_name q) ''normal'') = xs @ pl # ys"
    and "5 * (length xs + 1) \<le> pops es"
  shows "pl \<in> set (fst (q_run R es q))"
  using q_run_serves [OF assms(1-3), of es] assms(4) by simp

theorem normal_job_is_served_witness:
  "demo_payload ''normal'' 4 \<in> set (fst (q_run list_redis (replicate 10 (Pop 2)) demo_queue))"
proof -
  have "pops (replicate n (Pop t)) = n" for n t by (induction n) simp_all
  then show ?thesis
    by (intro normal_job_is_served [OF list_redis_healthy demo_queue_facts(1),
          of "[demo_payload ''normal'' 3]" _ "[]"])
      (auto simp: demo_queue_facts demo_lists_def)
qed

definition normal_arrival :: "push_args \<Rightarrow> bool" where
  "normal_arrival a \<longleftrightarrow> push_pri a = ''normal''"

lemma low_list_untouched_step:
  assumes "healthy R L" "q_live q" "normal_arrival a"
  shows "\<exists>q'. snd (q_run R [Push a, Pop t] q) = q' \<and> q_live q' \<and> q_name q' = q_name q \<and>
           L (q_redis q') (pri_key (q_name q) ''low'') = L (q_redis q) (pri_key (q_name q) ''low'')"
proof -
  from q_event_push [OF assms(1,2), of a] assms(3) obtain r1 pl1 where
    ev: "q_event R (Push a) q = (None, q\<lparr>q_redis := r1\<rparr>)"
      "L r1 = (L (q_redis q))(pri_key (q_name q) ''normal'' :=
                L (q_redis q) (pri_key (q_name q) ''normal'') @ [pl1])"
    unfolding normal_arrival_def by auto
  let ?q1 = "q\<lparr>q_redis := r1\<rparr>"
  have live1: "q_live ?q1" using assms(2) by (simp add: q_live_def)
  have pend: "L (q_redis ?q1) (pri_key (q_name ?q1) ''normal'')
                = L (q_redis q) (pri_key (q_name q) ''normal'') @ pl1 # []"
    using ev(2) by simp
  obtain r2 k where
    "q_event R (Pop t) ?q1 =
       (Some (hd (L (q_redis ?q1) k)), ?q1\<lparr>q_redis := r2, q_pop_counter := Suc (q_pop_counter ?q1)\<rparr>)"
    and l2: "L r2 = (L (q_redis ?q1))(k := tl (L (q_redis ?q1) k))"
    and k: "k = pri_key (q_name ?q1) ''normal'' \<or>
       k = pri_key (q_name ?q1) ''high'' \<and> Suc (q_pop_counter ?q1) mod 5 \<noteq> 0"
    by (rule q_event_pop_pending [OF assms(1) live1 pend, of t])
  then have "snd (q_run R [Push a, Pop t] q)
      = ?q1\<lparr>q_redis := r2, q_pop_counter := Suc (q_pop_counter ?q1)\<rparr>"
    by (simp only: q_run.simps ev(1)) simp
  moreover have "L r2 (pri_key (q_name q) ''low'') = L (q_redis q) (pri_key (q_name q) ''low'')"
    using l2 k ev(2) by auto
  ultimately show ?thesis using assms(2) by (simp add: q_live_def)
qed

lemma q_run_append:
  "snd (q_run R (es @ fs) q) = snd (q_run R fs (snd (q_run R es q)))"
  by (induction es arbitrary: q) (simp_all add: split_beta)

text \<open>
  No service bound for low priority. While every pop is preceded by the arrival of a normal
  job, the list of low priority jobs is never touched, for as long as that goes on: the rule for
  every fifth pop, documented as preventing starvation of lower priority jobs, looks at the
  normal list before the low one.
\<close>

theorem low_priority_can_starve:
  assumes "healthy R L" and "q_live q" and "list_all normal_arrival as"
  shows "L (q_redis (snd (q_run R (concat (map (\<lambda>a. [Push a, Pop t]) as)) q)))
           (pri_key (q_name q) ''low'') = L (q_redis q) (pri_key (q_name q) ''low'')"
  using assms(2,3)
proof (induction as arbitrary: q)
  case Nil
  then show ?case by simp
next
  case (Cons a as)
  then obtain q' where q': "snd (q_run R [Push a, Pop t] q) = q'" "q_live q'"
    "q_name q' = q_name q"
    "L (q_redis q') (pri_key (q_name q) ''low'') = L (q_redis q) (pri_key (q_name q) ''low'')"
    using low_list_untouched_step [OF assms(1), of q a t] by auto
  have "q_run R (concat (map (\<lambda>a. [Push a, Pop t]) (a # as))) q
      = q_run R ([Push a, Pop t] @ concat (map (\<lambda>a. [Push a, Pop t]) as)) q" by simp
  with Cons.IH [OF q'(2)] Cons.prems q' show ?case
    by (simp only: q_run_append) simp
qed

definition demo_push :: "push_args" where
  "demo_push =
     \<lparr>e_now = 0, e_job_type = ''audit'', e_job_id = 9, e_user_id = 1, e_target = None,
      e_priority = PStr ''normal'', e_group_id = None, e_trace_id = None, e_kwargs = []\<rparr>"

lemma demo_push_normal: "normal_arrival demo_push"
  by (simp add: normal_arrival_def demo_push_def push_pri_def pop_priority_def parse_priority_def
      PRIORITY_MAP_def str_lower_def char_lower_def is_upper_def)

theorem low_priority_can_starve_witness:
  "q_redis (snd (q_run list_redis
       (concat (map (\<lambda>a. [Push a, Pop 2]) (replicate 1000 demo_push))) demo_queue))
     (pri_key ''q'' ''low'') = [demo_payload ''low'' 5]"
proof -
  have "list_all normal_arrival (replicate 1000 demo_push)"
    by (simp add: list_all_iff demo_push_normal)
  from low_priority_can_starve [OF list_redis_healthy demo_queue_facts(1) this, of 2]
  show ?thesis by (simp only: demo_queue_facts) (simp add: demo_lists_def)
qed

lemma queue_drain_sorted:
  "sorted_wrt key_le (foldl (\<lambda>s e. mem_insert e s) [] es)"
  by (rule foldl_mem_insert_sorted) simp

text \<open>
  The fallback queue loses and invents nothing. With Redis switched off, a batch of jobs
  enqueued on an empty queue and popped with a large enough limit comes back as a permutation of
  the payloads, in the order of priority value and job number, and leaves the queue empty. The
  keys of the entries are distinct, as equal keys make the heap compare dictionaries, which
  raises.
\<close>

theorem fallback_batch_roundtrip:
  assumes "list_all plain_job js" and "q_memory q = []" and "length js \<le> n"
    and "distinct (map (entry_key \<circ> entry_of now) js)"
  shows "\<exists>q1 q2 es. q_enqueue_batch False R now js q
             = (Inr (map (\<lambda>j. ''thread:'' @ int_str (b_job_id j)) js), q1)
           \<and> q_pop_batch False R n q1 = (map (\<lambda>(pv, j, pl, tf). pl) es, q2)
           \<and> q_memory q2 = []
           \<and> mset es = mset (map (entry_of now) js) \<and> sorted_wrt key_le es"
proof -
  obtain q1 where q1: "q_enqueue_each False R now js q
      = (Inr (map (\<lambda>j. ''thread:'' @ int_str (b_job_id j)) js), q1)"
    "q_memory q1 = foldl (\<lambda>s e. mem_insert e s) [] (map (entry_of now) js)"
    using q_enqueue_each_local [OF assms(1), of R now q] assms(2) by auto
  have batch: "q_enqueue_batch False R now js q
      = (Inr (map (\<lambda>j. ''thread:'' @ int_str (b_job_id j)) js), if js = [] then q else q1)"
    using q1(1) by (auto simp: q_enqueue_batch_def q_is_redis_active_def)
  let ?q1 = "if js = [] then q else q1"
  have mem: "q_memory ?q1 = foldl (\<lambda>s e. mem_insert e s) [] (map (entry_of now) js)"
    using q1(2) assms(2) by simp
  have content: "mset (q_memory ?q1) = mset (map (entry_of now) js)"
    unfolding mem by (subst mem.foldl_push_content) simp
  then have len: "length (q_memory ?q1) = length js" by (metis length_map size_mset)
  then have all: "take n (q_memory ?q1) = q_memory ?q1" using assms(3) by simp
  from len assms(3) have "mset (snd (mem.drain n (q_memory ?q1))) = {#}"
    by (intro mem.drain_all) simp
  then have "q_pop_batch False R n ?q1
      = (map (\<lambda>(pv, j, pl, tf). pl) (q_memory ?q1), ?q1\<lparr>q_memory := []\<rparr>)"
    by (simp add: q_pop_batch_local mem_drain_take all)
  then show ?thesis
    using batch content queue_drain_sorted [of "map (entry_of now) js"] unfolding mem [symmetric]
    by (intro exI [of _ ?q1] exI [of _ "?q1\<lparr>q_memory := []\<rparr>"] exI [of _ "q_memory ?q1"]) simp
qed

definition demo_job :: "int \<Rightarrow> string \<Rightarrow> batch_job" where
  "demo_job n pri =
     \<lparr>b_job_type = ''audit'', b_job_id = n, b_user_id = 1, b_priority = Some (PStr pri),
      b_group_id = None, b_trace_id = None, b_params = None, b_kwargs = None,
      b_target = Some ''run''\<rparr>"

theorem fallback_batch_roundtrip_witness:
  "\<exists>q1 q2 es. q_enqueue_batch False list_redis 0 [demo_job 1 ''low'', demo_job 2 ''high''] demo_queue
             = (Inr [''thread:1'', ''thread:2''], q1)
           \<and> q_pop_batch False list_redis 5 q1 = (map (\<lambda>(pv, j, pl, tf). pl) es, q2)
           \<and> q_memory q2 = [] \<and> sorted_wrt key_le es"
proof -
  have "list_all plain_job [demo_job 1 ''low'', demo_job 2 ''high'']"
    by (simp add: plain_job_def demo_job_def batch_params_def)
  moreover have "distinct (map (entry_key \<circ> entry_of 0) [demo_job 1 ''low'', demo_job 2 ''high''])"
    by (simp add: entry_key_def entry_of_def batch_payload_def mk_payload_def demo_job_def)
  moreover have "int_str 1 = ''1''" "int_str 2 = ''2''"
    by code_simp+
  ultimately show ?thesis
    using fallback_batch_roundtrip [of "[demo_job 1 ''low'', demo_job 2 ''high'']" demo_queue 5 0 list_redis]
    by (auto simp: demo_queue_facts demo_job_def)
qed

text \<open>
  A half done enqueue runs the job twice. When the push to Redis succeeds and the
  registration of the group raises, the handler falls back to the in-memory queue without taking
  the document back: the call reports a thread dispatch, the document stays in the Redis list, an
  equal one stands in the in-memory queue and the target is started in a thread.
\<close>

theorem enqueue_group_failure_duplicates:
  assumes "q_live q" and "e_kwargs a = []" and "e_group_id a = Some g" and "g \<noteq> []"
    and "e_target a = Some f"
    and "pl = mk_payload (e_now a) (e_job_type a) (e_job_id a) (e_user_id a) (e_priority a)
                (Some g) (e_trace_id a) (PDict [])"
    and "qr_rpush R (pri_key (q_name q) (p_priority pl)) pl (q_redis q) = (Some (), r1)"
    and "qr_sadd R (group_key (q_name q) g) (int_str (e_job_id a)) r1 = (None, r2)"
  shows "\<exists>q'. q_enqueue True R (e_now a) (e_job_type a) (e_job_id a) (e_user_id a) (e_target a)
                (e_priority a) (e_group_id a) (e_trace_id a) (e_kwargs a) q
              = (Inr (''thread:'' @ int_str (e_job_id a)), q')
           \<and> q_redis q' = r2
           \<and> (p_priority_val pl, e_job_id a, pl, Some f) \<in> set (q_memory q')
           \<and> q_threads q' = q_threads q @
               [(f, thread_kwargs (e_job_id a) (e_user_id a) (p_trace_id pl) [])]"
proof -
  have prep: "pop_priority (e_priority a) [] = (e_priority a, [])"
    "pop_str ''group_id'' (Some g) [] = (Some g, [])"
    "pop_str ''trace_id'' (e_trace_id a) [] = (e_trace_id a, [])" "job_params [] = PDict []"
    by (auto simp: pop_priority_def pop_str_def job_params_def split: option.splits)
  have pl: "p_group_id pl = Some g" "p_job_id pl = e_job_id a" "p_user_id pl = e_user_id a"
    "p_params pl = PDict []"
    by (simp_all add: assms(6) mk_payload_def)
  have "q_push_redis R (q_name q) pl (q_redis q) = (None, r2)"
    using assms(4,7,8) by (simp add: q_push_redis_def pl)
  then show ?thesis
    using assms(2,3,5)
    by (simp add: q_enqueue_def prep q_live_active [OF assms(1)] q_push_memory_def pl mem_insert_set
        flip: assms(6))
qed

definition no_sets_redis :: "(string \<Rightarrow> payload list) queue_redis" where
  "no_sets_redis = list_redis\<lparr>qr_sadd := \<lambda>k m r. (None, r)\<rparr>"

definition group_push :: "push_args" where
  "group_push = demo_push\<lparr>e_group_id := Some ''g'', e_target := Some ''run''\<rparr>"

theorem enqueue_group_failure_duplicates_witness:
  "\<exists>q' pl. q_enqueue True no_sets_redis 0 ''audit'' 9 1 (Some ''run'') (PStr ''normal'')
               (Some ''g'') None [] demo_queue = (Inr (''thread:'' @ int_str 9), q')
         \<and> pl \<in> set (q_redis q' (pri_key ''q'' ''normal''))
         \<and> (5, 9, pl, Some ''run'') \<in> set (q_memory q')"
proof -
  let ?pl = "mk_payload 0 ''audit'' 9 1 (PStr ''normal'') (Some ''g'') None (PDict [])"
  have pri: "p_priority ?pl = ''normal''" "p_priority_val ?pl = 5"
    by (simp_all add: mk_payload_def parse_priority_def PRIORITY_MAP_def str_lower_def
        char_lower_def is_upper_def)
  have "\<exists>q'. q_enqueue True no_sets_redis 0 ''audit'' 9 1 (Some ''run'') (PStr ''normal'')
               (Some ''g'') None [] demo_queue = (Inr (''thread:'' @ int_str 9), q')
         \<and> q_redis q' = demo_lists(pri_key ''q'' ''normal'' :=
              demo_lists (pri_key ''q'' ''normal'') @ [?pl])
         \<and> (p_priority_val ?pl, 9, ?pl, Some ''run'') \<in> set (q_memory q')"
    using enqueue_group_failure_duplicates [of demo_queue group_push "''g''" "''run''" ?pl no_sets_redis]
    by (simp add: demo_queue_facts group_push_def demo_push_def no_sets_redis_def list_redis_def pri)
       blast
  then show ?thesis by (auto simp: pri)
qed

text \<open>
  Scaling hints. For a concurrency of 2 to 20 and loads that are not negative, the
  recommendation stays between 2 and 20, is never below the current value when the action is to
  scale up (and above it unless it is already 20), is below it when the action is to scale down,
  and is the current value otherwise.
\<close>

theorem scaling_hints_consistent:
  assumes "2 \<le> current" and "current \<le> 20" and "0 \<le> queued" and "0 \<le> active"
  shows "let h = scaling_hints_for queued current active
         in 2 \<le> h_recommended h \<and> h_recommended h \<le> 20 \<and>
            (case h_action h of
               ScaleUp \<Rightarrow> 0 < queued \<and> (current < 20 \<longrightarrow> current < h_recommended h)
                            \<and> current \<le> h_recommended h
             | ScaleDown \<Rightarrow> queued = 0 \<and> h_recommended h < current
             | Maintain \<Rightarrow> h_recommended h = current)"
  using assms by (auto simp: scaling_hints_for_def Let_def)

theorem scaling_hints_consistent_witness:
  "h_action (scaling_hints_for 30 5 5) = ScaleUp \<and> h_recommended (scaling_hints_for 30 5 5) \<le> 20
     \<and> 5 < h_recommended (scaling_hints_for 30 5 5)"
  using scaling_hints_consistent [of 5 30 5] by (simp add: scaling_hints_for_def)

text \<open>
  A hint to scale up that scales down. With a concurrency above 20 and a backlog of more than
  twice the concurrency the action is \<^verbatim>\<open>scale_up\<close> and the recommended concurrency is 20, which
  is less than the current one.
\<close>

theorem scaling_hints_above_cap:
  assumes "20 < current" and "2 * current < queued"
  shows "h_action (scaling_hints_for queued current active) = ScaleUp
    \<and> h_recommended (scaling_hints_for queued current active) = 20
    \<and> h_recommended (scaling_hints_for queued current active) < current"
  using assms by (simp add: scaling_hints_for_def)

theorem scaling_hints_above_cap_witness:
  "h_recommended (scaling_hints_for 100 32 32) < 32"
  using scaling_hints_above_cap [of 32 100 32] by simp

end
