(* ===== verification/Tenant_DB.thy ===== *)
theory Tenant_DB
  imports Store Pagination
begin

text \<open>
  The database behind the accounts, organizations, projects, websites and crawls: the tables of
  \<^verbatim>\<open>backend/database/models.py\<close> that these parts use, the audit log of
  \<^verbatim>\<open>backend/services/audit_service.py\<close>, and the user lookups. A request runs in one asynchronous
  session whose objects keep what they loaded; a request is taken to run alone, so the model passes
  rows with their keys. Constraint violations are the exception \<open>IntegrityError\<close>, at the commit.
\<close>

section \<open>Rows\<close>

record user =
  u_email :: string
  u_username :: string
  u_hash :: "string option"
  u_role :: string
  u_verified :: bool
  u_avatar :: "string option"
  u_timezone :: string
  u_language :: string
  u_notify :: kwargs
  u_failed :: int
  u_locked_until :: "int option"
  u_last_login :: "int option"
  u_last_ip :: "string option"
  u_created :: int

record audit_entry =
  al_user :: "int option"
  al_org :: "int option"
  al_action :: string
  al_target :: "string option"
  al_ip :: "string option"
  al_agent :: "string option"
  al_details :: kwargs
  al_created :: int

record organization =
  o_name :: string
  o_slug :: string
  o_logo :: "string option"
  o_color :: "string option"
  o_settings :: kwargs
  o_created :: int
  o_updated :: int

record membership =
  m_org :: int
  m_user :: int
  m_role :: string
  m_created :: int
  m_updated :: int

record invitation =
  i_org :: int
  i_email :: string
  i_role :: string
  i_token :: string
  i_status :: string
  i_invited_by :: int
  i_expires :: int
  i_created :: int

record org_event =
  oe_org :: int
  oe_actor :: "int option"
  oe_action :: string
  oe_details :: kwargs
  oe_ip :: "string option"
  oe_created :: int

record project =
  p_org :: int
  p_owner :: int
  p_name :: string
  p_slug :: string
  p_description :: "string option"
  p_status :: string
  p_color :: "string option"
  p_icon :: "string option"
  p_timezone :: string
  p_language :: string
  p_settings :: kwargs
  p_archived :: bool
  p_created :: int
  p_updated :: int

record website =
  w_project :: "int option"
  w_org :: "int option"
  w_owner :: "int option"
  w_user :: "int option"
  w_url :: "string option"
  w_domain :: string
  w_norm :: string
  w_protocol :: string
  w_status :: string
  w_verification :: string
  w_favicon :: "string option"
  w_country :: "string option"
  w_language :: string
  w_timezone :: string
  w_settings :: kwargs
  w_company :: "string option"
  w_last_scan :: "int option"
  w_archived :: bool
  w_created :: int
  w_updated :: int

record crawl_job =
  cj_website :: int
  cj_status :: string
  cj_progress :: int
  cj_started :: "int option"
  cj_finished :: "int option"
  cj_pages :: int
  cj_issues :: int
  cj_duration :: "int option"
  cj_triggered_by :: string
  cj_version :: string
  cj_error :: "string option"
  cj_created :: int
  cj_updated :: int

record crawl_page =
  cp_job :: int
  cp_url :: string
  cp_depth :: int
  cp_status_code :: "int option"
  cp_content_type :: "string option"
  cp_title :: "string option"
  cp_meta :: "string option"
  cp_canonical :: "string option"
  cp_h1 :: "string option"
  cp_words :: int
  cp_internal :: int
  cp_external :: int
  cp_noindex :: bool
  cp_nofollow :: bool
  cp_redirect :: "string option"
  cp_response :: "int option"
  cp_created :: int

record crawl_issue =
  ci_job :: int
  ci_page :: "int option"
  ci_severity :: string
  ci_category :: string
  ci_message :: string
  ci_recommendation :: "string option"
  ci_created :: int

text \<open>
  The clock is in microseconds and stands still during a request. \<open>db_fk\<close> says whether the database
  enforces foreign keys: PostgreSQL does, SQLite as the code opens it does not.
\<close>

record db =
  db_now :: int
  db_fk :: bool
  db_users :: "user table"
  db_audit :: "audit_entry table"
  db_orgs :: "organization table"
  db_members :: "membership table"
  db_invs :: "invitation table"
  db_events :: "org_event table"
  db_projects :: "project table"
  db_sites :: "website table"
  db_crawls :: "crawl_job table"
  db_pages :: "crawl_page table"
  db_issues :: "crawl_issue table"

definition db_empty :: "bool \<Rightarrow> int \<Rightarrow> db" where
  "db_empty fk now =
     \<lparr>db_now = now, db_fk = fk, db_users = t_empty, db_audit = t_empty, db_orgs = t_empty,
      db_members = t_empty, db_invs = t_empty, db_events = t_empty, db_projects = t_empty,
      db_sites = t_empty, db_crawls = t_empty, db_pages = t_empty, db_issues = t_empty\<rparr>"

definition integrity_error :: py_exc where
  "integrity_error = OtherException ''IntegrityError''"

definition raise_app :: "exc_kind \<Rightarrow> string \<Rightarrow> 'w \<Rightarrow> 'a outcome \<times> 'w" where
  "raise_app k m w = (Inl (AppError (app_error k m)), w)"

section \<open>Users and the audit log\<close>

definition get_user :: "('a db_scheme) \<Rightarrow> int \<Rightarrow> (int \<times> user) option" where
  "get_user w uid = t_first (\<lambda>i u. i = uid) (db_users w)"

definition get_user_by_email :: "('a db_scheme) \<Rightarrow> string \<Rightarrow> (int \<times> user) option" where
  "get_user_by_email w email = t_first (\<lambda>i u. u_email u = email) (db_users w)"

definition get_user_by_username :: "('a db_scheme) \<Rightarrow> string \<Rightarrow> (int \<times> user) option" where
  "get_user_by_username w name = t_first (\<lambda>i u. u_username u = name) (db_users w)"

definition new_user :: "string \<Rightarrow> string \<Rightarrow> string option \<Rightarrow> bool \<Rightarrow> string \<Rightarrow> string \<Rightarrow> int \<Rightarrow> user" where
  "new_user email username hashed verified timezone language now =
     \<lparr>u_email = email, u_username = username, u_hash = hashed, u_role = ''user'',
      u_verified = verified, u_avatar = None, u_timezone = timezone, u_language = language,
      u_notify = [], u_failed = 0, u_locked_until = None, u_last_login = None, u_last_ip = None,
      u_created = now\<rparr>"

text \<open>The columns \<^verbatim>\<open>email\<close> and \<^verbatim>\<open>username\<close> are unique.\<close>

definition create_user ::
  "string \<Rightarrow> string \<Rightarrow> string option \<Rightarrow> bool \<Rightarrow> string \<Rightarrow> string \<Rightarrow> ('a db_scheme)
     \<Rightarrow> (int \<times> user) outcome \<times> ('a db_scheme)" where
  "create_user email username hashed verified timezone language w =
     (if get_user_by_email w email \<noteq> None \<or> get_user_by_username w username \<noteq> None
      then (Inl integrity_error, w)
      else
        let u = new_user email username hashed verified timezone language (db_now w);
            (i, t) = t_insert u (db_users w)
        in (Inr (i, u), w\<lparr>db_users := t\<rparr>))"

text \<open>\<^verbatim>\<open>log_audit_event_async\<close>; it does not raise.\<close>

definition log_audit_event ::
  "string \<Rightarrow> int option \<Rightarrow> int option \<Rightarrow> string option \<Rightarrow> string option \<Rightarrow> string option \<Rightarrow> kwargs
     \<Rightarrow> ('a db_scheme) \<Rightarrow> ('a db_scheme)" where
  "log_audit_event action user org target ip agent details w =
     w\<lparr>db_audit := snd (t_insert
        \<lparr>al_user = user, al_org = org, al_action = action, al_target = target, al_ip = ip,
         al_agent = agent, al_details = details, al_created = db_now w\<rparr> (db_audit w))\<rparr>"

text \<open>
  \<^verbatim>\<open>query_audit_logs_async\<close>: the filters that are given, the newest entries first. \<open>ilike\<close> is the
  case insensitive match of the database.
\<close>

definition audit_filter ::
  "(string \<Rightarrow> string \<Rightarrow> bool) \<Rightarrow> int option \<Rightarrow> int option \<Rightarrow> string option \<Rightarrow> string option
     \<Rightarrow> int option \<Rightarrow> int option \<Rightarrow> string option \<Rightarrow> audit_entry \<Rightarrow> bool" where
  "audit_filter ilike user org action target start_date end_date search e =
     (let pat = (\<lambda>s. CHR ''%'' # s @ ''%'');
          opt = (\<lambda>c s. case c of None \<Rightarrow> False | Some v \<Rightarrow> ilike v (pat s))
      in (case user of None \<Rightarrow> True | Some u \<Rightarrow> al_user e = Some u)
       \<and> (case org of None \<Rightarrow> True | Some o' \<Rightarrow> al_org e = Some o')
       \<and> (case action of None \<Rightarrow> True | Some a \<Rightarrow> ilike (al_action e) (pat a))
       \<and> (case target of None \<Rightarrow> True | Some t \<Rightarrow> opt (al_target e) t)
       \<and> (case start_date of None \<Rightarrow> True | Some d \<Rightarrow> d \<le> al_created e)
       \<and> (case end_date of None \<Rightarrow> True | Some d \<Rightarrow> al_created e \<le> d)
       \<and> (\<not> truthy search \<or> ilike (al_action e) (pat (the search)) \<or> opt (al_target e) (the search)
          \<or> opt (al_ip e) (the search) \<or> opt (al_agent e) (the search)))"

definition query_audit_logs ::
  "(string \<Rightarrow> string \<Rightarrow> bool) \<Rightarrow> int option \<Rightarrow> int option \<Rightarrow> string option \<Rightarrow> string option
     \<Rightarrow> int option \<Rightarrow> int option \<Rightarrow> string option \<Rightarrow> nat \<Rightarrow> nat \<Rightarrow> ('a db_scheme)
     \<Rightarrow> (int \<times> audit_entry) list \<times> nat" where
  "query_audit_logs ilike user org action target start_date end_date search pageno psize w =
     (let rows = t_where (\<lambda>i e. audit_filter ilike user org action target start_date end_date search e)
                   (db_audit w)
      in (take psize (drop ((pageno - 1) * psize) (order_rows (al_created \<circ> snd) False rows)),
          length rows))"

section \<open>Deletions that cascade\<close>

text \<open>
  The relationships with \<^verbatim>\<open>cascade="all, delete-orphan"\<close>: an organization takes its memberships,
  invitations, events, projects and websites with it, a project its websites, a website its crawls,
  a crawl its pages and issues, and a page the issues that name it, whatever crawl these are of. The
  audits, leads, reports and jobs of a website, which go with it too, are tables outside this record.
  The audit log has only the foreign key of the database.
\<close>

definition delete_crawls :: "(crawl_job \<Rightarrow> bool) \<Rightarrow> ('a db_scheme) \<Rightarrow> ('a db_scheme)" where
  "delete_crawls P w =
     (let ids = map fst (t_where (\<lambda>i c. P c) (db_crawls w));
          pages = map fst (t_where (\<lambda>i p. cp_job p \<in> set ids) (db_pages w))
      in w\<lparr>db_crawls := t_delete_where (\<lambda>i c. P c) (db_crawls w),
          db_pages := t_delete_where (\<lambda>i p. cp_job p \<in> set ids) (db_pages w),
          db_issues := t_delete_where
            (\<lambda>i s. ci_job s \<in> set ids \<or> (case ci_page s of None \<Rightarrow> False | Some p \<Rightarrow> p \<in> set pages))
            (db_issues w)\<rparr>)"

definition delete_sites :: "(int \<Rightarrow> website \<Rightarrow> bool) \<Rightarrow> ('a db_scheme) \<Rightarrow> ('a db_scheme)" where
  "delete_sites P w =
     (let ids = map fst (t_where P (db_sites w))
      in (delete_crawls (\<lambda>c. cj_website c \<in> set ids) w)
           \<lparr>db_sites := t_delete_where P (db_sites w)\<rparr>)"

definition delete_project_row :: "int \<Rightarrow> ('a db_scheme) \<Rightarrow> ('a db_scheme)" where
  "delete_project_row pid w =
     (delete_sites (\<lambda>i s. w_project s = Some pid) w)\<lparr>db_projects := t_delete pid (db_projects w)\<rparr>"

definition delete_org_row :: "int \<Rightarrow> ('a db_scheme) \<Rightarrow> ('a db_scheme)" where
  "delete_org_row oid w =
     (let pids = map fst (t_where (\<lambda>i p. p_org p = oid) (db_projects w));
          w1 = delete_sites (\<lambda>i s. w_org s = Some oid \<or> (\<exists>p\<in>set pids. w_project s = Some p)) w
      in w1\<lparr>db_projects := t_delete_where (\<lambda>i p. p_org p = oid) (db_projects w1),
            db_members := t_delete_where (\<lambda>i m. m_org m = oid) (db_members w1),
            db_invs := t_delete_where (\<lambda>i v. i_org v = oid) (db_invs w1),
            db_events := t_delete_where (\<lambda>i e. oe_org e = oid) (db_events w1),
            db_audit := (if db_fk w1 then t_delete_where (\<lambda>i e. al_org e = Some oid) (db_audit w1)
                         else db_audit w1),
            db_orgs := t_delete oid (db_orgs w1)\<rparr>)"

section \<open>Slugs\<close>

text \<open>\<^verbatim>\<open>\w\<close> of a regular expression on ASCII text.\<close>

definition is_word :: "char \<Rightarrow> bool" where
  "is_word c \<longleftrightarrow> is_upper c \<or> is_lower c \<or> is_digit c \<or> c = CHR ''_''"

definition slug_keep :: "char \<Rightarrow> bool" where
  "slug_keep c \<longleftrightarrow> is_word c \<or> is_space c \<or> c = CHR ''-''"

definition slug_sep :: "char \<Rightarrow> bool" where
  "slug_sep c \<longleftrightarrow> is_space c \<or> c = CHR ''_'' \<or> c = CHR ''-''"

text \<open>\<^verbatim>\<open>re.sub(r'[\s_-]+', '-', s)\<close>\<close>

function collapse :: "string \<Rightarrow> string" where
  "collapse [] = []"
| "collapse (c # cs) =
     (if slug_sep c then CHR ''-'' # collapse (dropWhile slug_sep cs) else c # collapse cs)"
  by pat_completeness auto

termination collapse
  by (relation "measure length") (auto simp: le_imp_less_Suc length_dropWhile_le)

definition strip_dashes :: "string \<Rightarrow> string" where
  "strip_dashes s = rev (dropWhile (\<lambda>c. c = CHR ''-'') (rev (dropWhile (\<lambda>c. c = CHR ''-'') s)))"

definition slugify :: "string \<Rightarrow> string" where
  "slugify text = strip_dashes (collapse (filter slug_keep (str_strip (str_lower text))))"

definition slugify_text :: "string \<Rightarrow> string" where
  "slugify_text text =
     (let s = strip_dashes (collapse (filter slug_keep (str_strip (str_lower text))))
      in if s = [] then ''project'' else s)"

end
