(* ===== verification/Orgs.thy ===== *)
theory Orgs
  imports Tenant_DB
begin

text \<open>
  Organizations, memberships and invitations: their part of \<^verbatim>\<open>backend/database/crud.py\<close> and the
  handlers of \<^verbatim>\<open>backend/api/org_routes.py\<close>. A handler gets the user that \<^verbatim>\<open>get_current_user\<close>
  returned; the draws of \<^verbatim>\<open>secrets\<close> are arguments.
\<close>

section \<open>Roles\<close>

definition ROLE_HIERARCHY :: "(string, int) py_dict" where
  "ROLE_HIERARCHY = [(''Owner'', 5), (''Admin'', 4), (''Manager'', 3), (''Member'', 2), (''Viewer'', 1)]"

text \<open>\<^verbatim>\<open>ROLE_HIERARCHY.get(role, 0)\<close>\<close>

definition rank_of :: "string \<Rightarrow> int" where
  "rank_of role = (case d_get ROLE_HIERARCHY role of None \<Rightarrow> 0 | Some r \<Rightarrow> r)"

definition check_role_permission :: "string \<Rightarrow> string \<Rightarrow> bool" where
  "check_role_permission user_role required_role =
     ((case d_get ROLE_HIERARCHY required_role of None \<Rightarrow> 99 | Some r \<Rightarrow> r) \<le> rank_of user_role)"

section \<open>CRUD: organizations\<close>

definition create_org_audit_event :: "int \<Rightarrow> string \<Rightarrow> int option \<Rightarrow> kwargs \<Rightarrow> db \<Rightarrow> db" where
  "create_org_audit_event oid action actor details w =
     w\<lparr>db_events := snd (t_insert
        \<lparr>oe_org = oid, oe_actor = actor, oe_action = action, oe_details = details, oe_ip = None,
         oe_created = db_now w\<rparr> (db_events w))\<rparr>"

definition get_org_audit_events :: "db \<Rightarrow> int \<Rightarrow> nat \<Rightarrow> (int \<times> org_event) list" where
  "get_org_audit_events w oid n =
     take n (order_rows (oe_created \<circ> snd) False (t_where (\<lambda>i e. oe_org e = oid) (db_events w)))"

definition get_organization :: "db \<Rightarrow> int \<Rightarrow> (int \<times> organization) option" where
  "get_organization w oid = t_first (\<lambda>i r. i = oid) (db_orgs w)"

definition get_organization_by_slug :: "db \<Rightarrow> string \<Rightarrow> (int \<times> organization) option" where
  "get_organization_by_slug w slug = t_first (\<lambda>i r. o_slug r = slug) (db_orgs w)"

definition get_membership :: "db \<Rightarrow> int \<Rightarrow> int \<Rightarrow> (int \<times> membership) option" where
  "get_membership w oid uid = t_first (\<lambda>i m. m_org m = oid \<and> m_user m = uid) (db_members w)"

text \<open>The index on organization and user is unique.\<close>

definition add_membership :: "int \<Rightarrow> int \<Rightarrow> string \<Rightarrow> db \<Rightarrow> (int \<times> membership) outcome \<times> db" where
  "add_membership oid uid role w =
     (if get_membership w oid uid \<noteq> None then (Inl integrity_error, w)
      else
        let m = \<lparr>m_org = oid, m_user = uid, m_role = role, m_created = db_now w, m_updated = db_now w\<rparr>;
            (i, t) = t_insert m (db_members w)
        in (Inr (i, m), w\<lparr>db_members := t\<rparr>))"

definition crud_create_organization ::
  "string \<Rightarrow> string \<Rightarrow> int \<Rightarrow> string option \<Rightarrow> string option \<Rightarrow> kwargs option \<Rightarrow> db
     \<Rightarrow> (int \<times> organization) outcome \<times> db" where
  "crud_create_organization name slug creator logo color settings w =
     (if get_organization_by_slug w slug \<noteq> None then (Inl integrity_error, w)
      else
        let r = \<lparr>o_name = name, o_slug = slug, o_logo = logo, o_color = color,
                 o_settings = (case settings of None \<Rightarrow> [] | Some s \<Rightarrow> s), o_created = db_now w,
                 o_updated = db_now w\<rparr>;
            (oid, t) = t_insert r (db_orgs w)
        in and_then (add_membership oid creator ''Owner'' (w\<lparr>db_orgs := t\<rparr>)) (\<lambda>_ w1.
             (Inr (oid, r),
              create_org_audit_event oid ''organization.created'' (Some creator)
                [(''name'', PStr name), (''slug'', PStr slug)] w1)))"

definition get_user_organizations :: "db \<Rightarrow> int \<Rightarrow> (int \<times> organization) list" where
  "get_user_organizations w uid =
     order_rows (o_created \<circ> snd) False
       (t_where (\<lambda>i r. \<exists>m\<in>set (map snd (t_rows (db_members w))). m_org m = i \<and> m_user m = uid) (db_orgs w))"

definition old_new :: "string \<Rightarrow> string \<Rightarrow> pyval" where
  "old_new old new = PDict [(''old'', PStr old), (''new'', PStr new)]"

definition crud_update_organization ::
  "int \<times> organization \<Rightarrow> string option \<Rightarrow> string option \<Rightarrow> string option \<Rightarrow> string option
     \<Rightarrow> kwargs option \<Rightarrow> int option \<Rightarrow> db \<Rightarrow> (int \<times> organization) outcome \<times> db" where
  "crud_update_organization org name slug logo color settings actor w =
     (case org of (oid, r) \<Rightarrow>
        let changes = (case name of None \<Rightarrow> [] | Some n \<Rightarrow> [(''name'', old_new (o_name r) n)])
              @ (case slug of None \<Rightarrow> [] | Some s \<Rightarrow> [(''slug'', old_new (o_slug r) s)])
              @ (case logo of None \<Rightarrow> [] | Some l \<Rightarrow> [(''logo_url'', PStr l)])
              @ (case color of None \<Rightarrow> [] | Some c \<Rightarrow> [(''primary_color'', PStr c)])
              @ (case settings of None \<Rightarrow> [] | Some s \<Rightarrow> [(''settings'', PDict s)]);
            r' = r\<lparr>o_name := (case name of None \<Rightarrow> o_name r | Some n \<Rightarrow> n),
                   o_slug := (case slug of None \<Rightarrow> o_slug r | Some s \<Rightarrow> s),
                   o_logo := (case logo of None \<Rightarrow> o_logo r | Some l \<Rightarrow> Some l),
                   o_color := (case color of None \<Rightarrow> o_color r | Some c \<Rightarrow> Some c),
                   o_settings := (case settings of None \<Rightarrow> o_settings r | Some s \<Rightarrow> s),
                   o_updated := db_now w\<rparr>
        in if t_first (\<lambda>i q. o_slug q = o_slug r' \<and> i \<noteq> oid) (db_orgs w) \<noteq> None
           then (Inl integrity_error, w)
           else (Inr (oid, r'),
                 create_org_audit_event oid ''organization.updated'' actor changes
                   (w\<lparr>db_orgs := t_put oid r' (db_orgs w)\<rparr>)))"

definition crud_delete_organization :: "int \<times> organization \<Rightarrow> int option \<Rightarrow> db \<Rightarrow> db" where
  "crud_delete_organization org actor w =
     (case org of (oid, r) \<Rightarrow>
        delete_org_row oid
          (create_org_audit_event oid ''organization.deleted'' actor
             [(''name'', PStr (o_name r)), (''slug'', PStr (o_slug r))] w))"

section \<open>CRUD: memberships\<close>

definition get_org_members :: "db \<Rightarrow> int \<Rightarrow> (int \<times> membership) list" where
  "get_org_members w oid =
     order_rows (m_created \<circ> snd) True (t_where (\<lambda>i m. m_org m = oid) (db_members w))"

definition crud_update_member_role ::
  "int \<Rightarrow> int \<Rightarrow> string \<Rightarrow> int option \<Rightarrow> db \<Rightarrow> (int \<times> membership) option \<times> db" where
  "crud_update_member_role oid uid new_role actor w =
     (case get_membership w oid uid of
        None \<Rightarrow> (None, w)
      | Some (i, m) \<Rightarrow>
          let m' = m\<lparr>m_role := new_role, m_updated := db_now w\<rparr>
          in (Some (i, m'),
              create_org_audit_event oid ''member.role_updated'' actor
                [(''target_user_id'', PInt uid), (''old_role'', PStr (m_role m)),
                 (''new_role'', PStr new_role)]
                (w\<lparr>db_members := t_put i m' (db_members w)\<rparr>)))"

definition crud_remove_org_member :: "int \<Rightarrow> int \<Rightarrow> int option \<Rightarrow> db \<Rightarrow> bool \<times> db" where
  "crud_remove_org_member oid uid actor w =
     (case get_membership w oid uid of
        None \<Rightarrow> (False, w)
      | Some (i, m) \<Rightarrow>
          (True,
           create_org_audit_event oid ''member.removed'' actor
             [(''target_user_id'', PInt uid), (''removed_role'', PStr (m_role m))]
             (w\<lparr>db_members := t_delete i (db_members w)\<rparr>)))"

definition crud_transfer_ownership :: "int \<Rightarrow> int \<Rightarrow> int \<Rightarrow> db \<Rightarrow> bool \<times> db" where
  "crud_transfer_ownership oid current_owner new_owner w =
     (case (get_membership w oid current_owner, get_membership w oid new_owner) of
        (Some (i, m), Some (k, n)) \<Rightarrow>
          if m_role m \<noteq> ''Owner'' then (False, w)
          else
            (True,
             create_org_audit_event oid ''ownership.transferred'' (Some current_owner)
               [(''previous_owner_id'', PInt current_owner), (''new_owner_id'', PInt new_owner)]
               (w\<lparr>db_members := t_put k (n\<lparr>m_role := ''Owner'', m_updated := db_now w\<rparr>)
                   (t_put i (m\<lparr>m_role := ''Admin'', m_updated := db_now w\<rparr>) (db_members w))\<rparr>))
      | _ \<Rightarrow> (False, w))"

section \<open>CRUD: invitations\<close>

text \<open>The column \<^verbatim>\<open>token\<close> is unique.\<close>

definition crud_create_invitation ::
  "int \<Rightarrow> string \<Rightarrow> string \<Rightarrow> string \<Rightarrow> int \<Rightarrow> int \<Rightarrow> db \<Rightarrow> (int \<times> invitation) outcome \<times> db" where
  "crud_create_invitation oid email role token inviter expires w =
     (if t_first (\<lambda>i v. i_token v = token) (db_invs w) \<noteq> None then (Inl integrity_error, w)
      else
        let v = \<lparr>i_org = oid, i_email = str_strip (str_lower email), i_role = role, i_token = token,
                 i_status = ''pending'', i_invited_by = inviter, i_expires = expires,
                 i_created = db_now w\<rparr>;
            (i, t) = t_insert v (db_invs w)
        in (Inr (i, v),
            create_org_audit_event oid ''member.invited'' (Some inviter)
              [(''email'', PStr email), (''role'', PStr role)] (w\<lparr>db_invs := t\<rparr>)))"

definition get_invitation_by_token :: "db \<Rightarrow> string \<Rightarrow> (int \<times> invitation) option" where
  "get_invitation_by_token w token =
     t_first (\<lambda>i v. i_token v = token \<and> i_status v = ''pending'' \<and> db_now w < i_expires v) (db_invs w)"

definition get_org_invitations :: "db \<Rightarrow> int \<Rightarrow> (int \<times> invitation) list" where
  "get_org_invitations w oid =
     order_rows (i_created \<circ> snd) False
       (t_where (\<lambda>i v. i_org v = oid \<and> i_status v = ''pending'') (db_invs w))"

definition set_invitation_status :: "int \<times> invitation \<Rightarrow> string \<Rightarrow> db \<Rightarrow> db" where
  "set_invitation_status iv status w =
     (case iv of (i, v) \<Rightarrow> w\<lparr>db_invs := t_put i (v\<lparr>i_status := status\<rparr>) (db_invs w)\<rparr>)"

text \<open>The status and the membership are written by one commit.\<close>

definition crud_accept_invitation ::
  "int \<times> invitation \<Rightarrow> int \<times> user \<Rightarrow> db \<Rightarrow> (int \<times> membership) outcome \<times> db" where
  "crud_accept_invitation iv cu w =
     (let v = snd iv; uid = fst cu;
          w1 = set_invitation_status iv ''accepted'' w;
          finish = (\<lambda>mem w2. (Inr mem,
                   create_org_audit_event (i_org v) ''invitation.accepted'' (Some uid)
                     [(''email'', PStr (u_email (snd cu))), (''role'', PStr (i_role v))] w2))
      in case get_membership w (i_org v) uid of
           Some (i, m) \<Rightarrow>
             let m' = m\<lparr>m_role := i_role v, m_updated := db_now w\<rparr>
             in finish (i, m') (w1\<lparr>db_members := t_put i m' (db_members w1)\<rparr>)
         | None \<Rightarrow>
             (case add_membership (i_org v) uid (i_role v) w1 of
                (Inl e, _) \<Rightarrow> (Inl e, w)
              | (Inr mem, w2) \<Rightarrow> finish mem w2))"

definition crud_reject_invitation :: "int \<times> invitation \<Rightarrow> int \<times> user \<Rightarrow> db \<Rightarrow> db" where
  "crud_reject_invitation iv cu w =
     create_org_audit_event (i_org (snd iv)) ''invitation.rejected'' (Some (fst cu))
       [(''email'', PStr (u_email (snd cu)))] (set_invitation_status iv ''rejected'' w)"

definition crud_cancel_invitation :: "int \<times> invitation \<Rightarrow> int option \<Rightarrow> db \<Rightarrow> db" where
  "crud_cancel_invitation iv actor w =
     create_org_audit_event (i_org (snd iv)) ''invitation.cancelled'' actor
       [(''email'', PStr (i_email (snd iv)))] (set_invitation_status iv ''cancelled'' w)"

section \<open>Handlers\<close>

definition require_membership :: "int \<Rightarrow> int \<times> user \<Rightarrow> db \<Rightarrow> (int \<times> membership) outcome \<times> db" where
  "require_membership oid cu w =
     (case get_membership w oid (fst cu) of
        None \<Rightarrow> raise_app ForbiddenException ''You are not a member of this organization'' w
      | Some m \<Rightarrow> (Inr m, w))"

definition check_role_min :: "int \<times> membership \<Rightarrow> string \<Rightarrow> 'w \<Rightarrow> unit outcome \<times> 'w" where
  "check_role_min mem required_role w =
     (if \<not> check_role_permission (m_role (snd mem)) required_role
      then raise_app ForbiddenException
             (''Action requires at least '' @ CHR 39 # required_role @ CHR 39 # '' role in this organization'') w
      else (Inr (), w))"

text \<open>The two guards most handlers start with.\<close>

definition require_role :: "int \<Rightarrow> int \<times> user \<Rightarrow> string \<Rightarrow> db \<Rightarrow> (int \<times> membership) outcome \<times> db" where
  "require_role oid cu role w =
     and_then (require_membership oid cu w) (\<lambda>m w. and_then (check_role_min m role w) (\<lambda>_ w. (Inr m, w)))"

definition org_target :: "int \<Rightarrow> string" where
  "org_target oid = ''org:'' @ int_str oid"

definition user_target :: "int \<Rightarrow> string" where
  "user_target uid = ''user:'' @ int_str uid"

definition create_organization ::
  "string \<Rightarrow> string \<Rightarrow> string \<Rightarrow> string option \<Rightarrow> string option \<Rightarrow> string option \<Rightarrow> kwargs option
     \<Rightarrow> int \<times> user \<Rightarrow> db \<Rightarrow> (int \<times> organization) outcome \<times> db" where
  "create_organization hex4 hex3 name slug logo color settings cu w =
     (let s0 = or_else slug (slugify name);
          s1 = (if s0 = [] then ''org-'' @ hex4 else s0);
          s2 = (if get_organization_by_slug w s1 \<noteq> None then s1 @ ''-'' @ hex3 else s1)
      in and_then (crud_create_organization name s2 (fst cu) logo color settings w) (\<lambda>org w1.
           (Inr org,
            log_audit_event ''org.created'' (Some (fst cu)) (Some (fst org)) (Some (org_target (fst org)))
              None None [(''name'', PStr (o_name (snd org))), (''slug'', PStr (o_slug (snd org)))] w1)))"

definition get_organization_details :: "int \<Rightarrow> int \<times> user \<Rightarrow> db \<Rightarrow> (int \<times> organization) outcome \<times> db" where
  "get_organization_details oid cu w =
     and_then (require_membership oid cu w) (\<lambda>_ w.
       case get_organization w oid of
         None \<Rightarrow> raise_app ResourceNotFoundException ''Organization not found'' w
       | Some r \<Rightarrow> (Inr r, w))"

text \<open>The document \<open>dump\<close> is what \<^verbatim>\<open>org_in.model_dump(exclude_unset=True)\<close> gives.\<close>

definition update_organization ::
  "kwargs \<Rightarrow> int \<Rightarrow> string option \<Rightarrow> string option \<Rightarrow> string option \<Rightarrow> string option \<Rightarrow> kwargs option
     \<Rightarrow> int \<times> user \<Rightarrow> db \<Rightarrow> (int \<times> organization) outcome \<times> db" where
  "update_organization dump oid name slug logo color settings cu w =
     and_then (require_role oid cu ''Admin'' w) (\<lambda>_ w.
       case get_organization w oid of
         None \<Rightarrow> raise_app ResourceNotFoundException ''Organization not found'' w
       | Some org \<Rightarrow>
           if truthy slug \<and> the slug \<noteq> o_slug (snd org) \<and> get_organization_by_slug w (the slug) \<noteq> None
           then raise_app ConflictException ''Organization slug already taken'' w
           else and_then (crud_update_organization org name slug logo color settings (Some (fst cu)) w)
             (\<lambda>org' w1.
               (Inr org', log_audit_event ''settings.changed'' (Some (fst cu)) (Some oid)
                  (Some (org_target oid)) None None dump w1)))"

definition delete_organization :: "int \<Rightarrow> int \<times> user \<Rightarrow> db \<Rightarrow> unit outcome \<times> db" where
  "delete_organization oid cu w =
     and_then (require_role oid cu ''Owner'' w) (\<lambda>_ w.
       case get_organization w oid of
         None \<Rightarrow> raise_app ResourceNotFoundException ''Organization not found'' w
       | Some org \<Rightarrow>
           (Inr (), crud_delete_organization org (Some (fst cu))
              (log_audit_event ''org.deleted'' (Some (fst cu)) (Some oid) (Some (org_target oid))
                 None None [(''name'', PStr (o_name (snd org)))] w)))"

definition transfer_ownership :: "int \<Rightarrow> int \<Rightarrow> int \<times> user \<Rightarrow> db \<Rightarrow> unit outcome \<times> db" where
  "transfer_ownership oid new_owner cu w =
     and_then (require_role oid cu ''Owner'' w) (\<lambda>_ w.
       if new_owner = fst cu
       then raise_app ValidationErrorException ''You are already the owner of this organization'' w
       else
         (case crud_transfer_ownership oid (fst cu) new_owner w of (ok, w1) \<Rightarrow>
            if ok then (Inr (), w1)
            else raise_app ResourceNotFoundException
                   ''Target user is not a member of this organization'' w1))"

definition list_members :: "int \<Rightarrow> int \<times> user \<Rightarrow> db \<Rightarrow> ((int \<times> membership) list) outcome \<times> db" where
  "list_members oid cu w =
     and_then (require_membership oid cu w) (\<lambda>_ w. (Inr (get_org_members w oid), w))"

definition change_member_role ::
  "int \<Rightarrow> int \<Rightarrow> string \<Rightarrow> int \<times> user \<Rightarrow> db \<Rightarrow> ((int \<times> membership) option) outcome \<times> db" where
  "change_member_role oid uid role cu w =
     and_then (require_role oid cu ''Manager'' w) (\<lambda>actor w.
       if role \<notin> set (d_keys ROLE_HIERARCHY)
       then raise_app ValidationErrorException ''Invalid role specified'' w
       else if role = ''Owner''
       then raise_app ValidationErrorException
              ''Use the transfer-ownership endpoint to set a new Owner'' w
       else
         (case get_membership w oid uid of
            None \<Rightarrow> raise_app ResourceNotFoundException ''Member not found in organization'' w
          | Some target \<Rightarrow>
              if m_role (snd target) = ''Owner''
              then raise_app ForbiddenException ''Cannot change the role of the organization Owner'' w
              else if rank_of (m_role (snd actor)) \<le> rank_of (m_role (snd target))
              then raise_app ForbiddenException
                     ''You cannot modify the role of a member with equal or higher rank'' w
              else if rank_of (m_role (snd actor)) \<le> rank_of role
              then raise_app ForbiddenException
                     ''You cannot promote a member to a role equal to or higher than your own'' w
              else
                (case crud_update_member_role oid uid role (Some (fst cu)) w of (res, w1) \<Rightarrow>
                   (Inr res, log_audit_event ''role.changed'' (Some (fst cu)) (Some oid)
                      (Some (user_target uid)) None None [(''new_role'', PStr role)] w1))))"

definition remove_member :: "int \<Rightarrow> int \<Rightarrow> int \<times> user \<Rightarrow> db \<Rightarrow> string outcome \<times> db" where
  "remove_member oid uid cu w =
     and_then (require_membership oid cu w) (\<lambda>actor w.
       case get_membership w oid uid of
         None \<Rightarrow> raise_app ResourceNotFoundException ''Member not found in organization'' w
       | Some target \<Rightarrow>
           if uid = fst cu
           then if m_role (snd actor) = ''Owner''
                then raise_app ValidationErrorException
                       ''Organization Owner cannot leave without transferring ownership first'' w
                else (Inr ''You have left the organization'',
                      snd (crud_remove_org_member oid uid (Some (fst cu)) w))
           else
             and_then (check_role_min actor ''Manager'' w) (\<lambda>_ w.
               if m_role (snd target) = ''Owner''
               then raise_app ForbiddenException ''Cannot remove the organization Owner'' w
               else if rank_of (m_role (snd actor)) \<le> rank_of (m_role (snd target))
               then raise_app ForbiddenException
                      ''You cannot remove a member with equal or higher rank'' w
               else (Inr ''Member removed from organization'',
                     log_audit_event ''member.removed'' (Some (fst cu)) (Some oid)
                       (Some (user_target uid)) None None []
                       (snd (crud_remove_org_member oid uid (Some (fst cu)) w)))))"

definition invite_member ::
  "string \<Rightarrow> int \<Rightarrow> string \<Rightarrow> string \<Rightarrow> int \<times> user \<Rightarrow> db \<Rightarrow> (int \<times> invitation) outcome \<times> db" where
  "invite_member token oid email role cu w =
     and_then (require_role oid cu ''Manager'' w) (\<lambda>actor w.
       if role \<notin> set (d_keys ROLE_HIERARCHY)
       then raise_app ValidationErrorException ''Invalid role specified'' w
       else if role = ''Owner''
       then raise_app ValidationErrorException ''Cannot invite someone directly as Owner'' w
       else if rank_of (m_role (snd actor)) \<le> rank_of role
       then raise_app ForbiddenException
              ''You cannot invite a member with a role equal to or higher than your own'' w
       else if (case get_user_by_email w email of
                  None \<Rightarrow> False | Some u \<Rightarrow> get_membership w oid (fst u) \<noteq> None)
       then raise_app ConflictException ''User is already a member of this organization'' w
       else
         and_then (crud_create_invitation oid email role token (fst cu)
                     (db_now w + 7 * 86400 * 1000000) w) (\<lambda>iv w1.
           (Inr iv, log_audit_event ''invitation.sent'' (Some (fst cu)) (Some oid)
              (Some (''invitation:'' @ int_str (fst iv))) None None
              [(''email'', PStr email), (''role'', PStr role)] w1)))"

definition list_invitations :: "int \<Rightarrow> int \<times> user \<Rightarrow> db \<Rightarrow> ((int \<times> invitation) list) outcome \<times> db" where
  "list_invitations oid cu w =
     and_then (require_role oid cu ''Manager'' w) (\<lambda>_ w. (Inr (get_org_invitations w oid), w))"

text \<open>What \<^verbatim>\<open>accept\<close> and \<^verbatim>\<open>reject\<close> check first.\<close>

definition own_invitation :: "string \<Rightarrow> int \<times> user \<Rightarrow> db \<Rightarrow> (int \<times> invitation) outcome \<times> db" where
  "own_invitation token cu w =
     (case get_invitation_by_token w token of
        None \<Rightarrow> raise_app ResourceNotFoundException ''Invalid, expired, or used invitation token'' w
      | Some iv \<Rightarrow>
          if str_lower (i_email (snd iv)) \<noteq> str_lower (u_email (snd cu))
          then raise_app ForbiddenException ''This invitation was issued to a different email address'' w
          else (Inr iv, w))"

definition accept_invitation :: "string \<Rightarrow> int \<times> user \<Rightarrow> db \<Rightarrow> (int \<times> membership) outcome \<times> db" where
  "accept_invitation token cu w =
     and_then (own_invitation token cu w) (\<lambda>iv w.
       and_then (crud_accept_invitation iv cu w) (\<lambda>mem w1.
         (Inr mem, log_audit_event ''invitation.accepted'' (Some (fst cu)) (Some (m_org (snd mem)))
            (Some (''membership:'' @ int_str (fst mem))) None None
            [(''role'', PStr (m_role (snd mem)))] w1)))"

definition reject_invitation :: "string \<Rightarrow> int \<times> user \<Rightarrow> db \<Rightarrow> unit outcome \<times> db" where
  "reject_invitation token cu w =
     and_then (own_invitation token cu w) (\<lambda>iv w. (Inr (), crud_reject_invitation iv cu w))"

definition cancel_invitation :: "int \<Rightarrow> int \<Rightarrow> int \<times> user \<Rightarrow> db \<Rightarrow> unit outcome \<times> db" where
  "cancel_invitation oid iid cu w =
     and_then (require_role oid cu ''Manager'' w) (\<lambda>_ w.
       case List.find (\<lambda>(i, v). i = iid) (get_org_invitations w oid) of
         None \<Rightarrow> raise_app ResourceNotFoundException ''Invitation not found'' w
       | Some iv \<Rightarrow> (Inr (), crud_cancel_invitation iv (Some (fst cu)) w))"

definition list_audit_logs :: "int \<Rightarrow> nat \<Rightarrow> int \<times> user \<Rightarrow> db \<Rightarrow> ((int \<times> org_event) list) outcome \<times> db" where
  "list_audit_logs oid n cu w =
     and_then (require_role oid cu ''Admin'' w) (\<lambda>_ w. (Inr (get_org_audit_events w oid n), w))"

end
