(* ===== verification/Projects.thy ===== *)
theory Projects
  imports Orgs
begin

text \<open>
  Projects: their part of \<^verbatim>\<open>backend/database/crud.py\<close> and the handlers of
  \<^verbatim>\<open>backend/api/project_routes.py\<close>. The address and the user agent of the client are arguments.
  A project is named by a path segment that is its key or its slug.
\<close>

section \<open>CRUD\<close>

text \<open>\<^verbatim>\<open>s.isdigit()\<close> on ASCII text.\<close>

definition str_isdigit :: "string \<Rightarrow> bool" where
  "str_isdigit s \<longleftrightarrow> s \<noteq> [] \<and> list_all is_digit s"

definition get_project_row :: "db \<Rightarrow> int \<Rightarrow> (int \<times> project) option" where
  "get_project_row w pid = t_first (\<lambda>i p. i = pid) (db_projects w)"

definition get_project_by_slug :: "db \<Rightarrow> int \<Rightarrow> string \<Rightarrow> (int \<times> project) option" where
  "get_project_by_slug w oid slug = t_first (\<lambda>i p. p_org p = oid \<and> p_slug p = slug) (db_projects w)"

text \<open>A text of digits is a key first and a slug only when no project of the organization has the key.\<close>

definition get_project_by_id_or_slug :: "db \<Rightarrow> int \<Rightarrow> string \<Rightarrow> (int \<times> project) option" where
  "get_project_by_id_or_slug w oid ident =
     (if str_isdigit ident
      then (case t_first (\<lambda>i p. p_org p = oid \<and> i = int (digits_val ident)) (db_projects w) of
              Some r \<Rightarrow> Some r
            | None \<Rightarrow> get_project_by_slug w oid ident)
      else get_project_by_slug w oid ident)"

definition project_target :: "int \<Rightarrow> string" where
  "project_target pid = ''project:'' @ int_str pid"

text \<open>The two records of an action, in the audit log and among the events of the organization.\<close>

definition log_both ::
  "string \<Rightarrow> int option \<Rightarrow> int \<Rightarrow> string \<Rightarrow> string option \<Rightarrow> string option \<Rightarrow> kwargs \<Rightarrow> kwargs \<Rightarrow> db \<Rightarrow> db" where
  "log_both action actor oid target ip agent details event_details w =
     create_org_audit_event oid action actor event_details
       (log_audit_event action actor (Some oid) (Some target) ip agent details w)"

definition slug_taken :: "string \<Rightarrow> string" where
  "slug_taken slug =
     ''Project with slug '' @ CHR 39 # slug @ CHR 39 # '' already exists in this organization''"

definition crud_create_project ::
  "int \<Rightarrow> int \<Rightarrow> string \<Rightarrow> string option \<Rightarrow> string option \<Rightarrow> string \<Rightarrow> string option \<Rightarrow> string option
     \<Rightarrow> string \<Rightarrow> string \<Rightarrow> kwargs \<Rightarrow> string option \<Rightarrow> string option \<Rightarrow> db
     \<Rightarrow> (int \<times> project) outcome \<times> db" where
  "crud_create_project oid owner name slug description status color icon timezone language settings
     ip agent w =
     (let clean = str_strip name;
          final = (if \<not> truthy slug then slugify_text clean else slugify_text (the slug))
      in if get_project_by_slug w oid final \<noteq> None
         then raise_app ConflictException (slug_taken final) w
         else
           let p = \<lparr>p_org = oid, p_owner = owner, p_name = clean, p_slug = final,
                    p_description = (if truthy description then Some (str_strip (the description)) else None),
                    p_status = status, p_color = color, p_icon = icon, p_timezone = timezone,
                    p_language = language, p_settings = settings, p_archived = False,
                    p_created = db_now w, p_updated = db_now w\<rparr>;
               (i, t) = t_insert p (db_projects w)
           in (Inr (i, p),
               log_both ''project.created'' (Some owner) oid (project_target i) ip agent
                 [(''project_id'', PInt i), (''name'', PStr clean), (''slug'', PStr final),
                  (''status'', PStr status)]
                 [(''project_id'', PInt i), (''name'', PStr clean), (''slug'', PStr final)]
                 (w\<lparr>db_projects := t\<rparr>)))"

definition get_org_projects ::
  "(string \<Rightarrow> string \<Rightarrow> bool) \<Rightarrow> int \<Rightarrow> string option \<Rightarrow> string option \<Rightarrow> bool option \<Rightarrow> nat \<Rightarrow> nat \<Rightarrow> db
     \<Rightarrow> (int \<times> project) list \<times> nat" where
  "get_org_projects ilike oid search status archived skip cnt w =
     (let pat = CHR ''%'' # str_strip (the search) @ ''%'';
          rows = t_where (\<lambda>i p. p_org p = oid
             \<and> (truthy search \<longrightarrow> ilike (p_name p) pat \<or> ilike (p_slug p) pat
                  \<or> (case p_description p of None \<Rightarrow> False | Some d \<Rightarrow> ilike d pat))
             \<and> (truthy status \<longrightarrow> p_status p = the status)
             \<and> (case archived of None \<Rightarrow> True | Some a \<Rightarrow> p_archived p = a)) (db_projects w)
      in (take cnt (drop skip (order_rows (p_created \<circ> snd) False rows)), length rows))"

text \<open>The session does not flush by itself, so the query for the new slug sees the committed rows.\<close>

definition crud_update_project ::
  "int \<times> project \<Rightarrow> string option \<Rightarrow> string option \<Rightarrow> string option \<Rightarrow> string option \<Rightarrow> string option
     \<Rightarrow> string option \<Rightarrow> string option \<Rightarrow> string option \<Rightarrow> kwargs option \<Rightarrow> int option \<Rightarrow> string option
     \<Rightarrow> string option \<Rightarrow> db \<Rightarrow> (int \<times> project) outcome \<times> db" where
  "crud_update_project proj name slug description status color icon timezone language settings
     actor ip agent w =
     (case proj of (pid, p) \<Rightarrow>
        let settings_only = settings \<noteq> None \<and> name = None \<and> slug = None \<and> description = None
              \<and> status = None \<and> color = None \<and> icon = None \<and> timezone = None \<and> language = None;
            new_name = (case name of None \<Rightarrow> p_name p | Some n \<Rightarrow> str_strip n);
            new_slug = (case slug of None \<Rightarrow> p_slug p | Some s \<Rightarrow> slugify_text s);
            new_status = (case status of None \<Rightarrow> p_status p | Some s \<Rightarrow> s);
            set_to = (\<lambda>k c. case c of None \<Rightarrow> [] | Some v \<Rightarrow> [(k, PStr v)]);
            changes = (if new_name \<noteq> p_name p then [(''name'', old_new (p_name p) new_name)] else [])
              @ (if new_slug \<noteq> p_slug p then [(''slug'', old_new (p_slug p) new_slug)] else [])
              @ set_to ''description'' description
              @ (if new_status \<noteq> p_status p then [(''status'', old_new (p_status p) new_status)] else [])
              @ set_to ''color'' color @ set_to ''icon'' icon @ set_to ''timezone'' timezone
              @ set_to ''language'' language
              @ (case settings of None \<Rightarrow> [] | Some s \<Rightarrow> [(''settings'', PDict s)]);
            action = (if settings_only then ''settings.changed'' else ''project.updated'');
            p' = p\<lparr>p_name := new_name, p_slug := new_slug,
                   p_description := (case description of None \<Rightarrow> p_description p | Some d \<Rightarrow> Some d),
                   p_status := new_status,
                   p_color := (case color of None \<Rightarrow> p_color p | Some c \<Rightarrow> Some c),
                   p_icon := (case icon of None \<Rightarrow> p_icon p | Some c \<Rightarrow> Some c),
                   p_timezone := (case timezone of None \<Rightarrow> p_timezone p | Some z \<Rightarrow> z),
                   p_language := (case language of None \<Rightarrow> p_language p | Some l \<Rightarrow> l),
                   p_settings := (case settings of None \<Rightarrow> p_settings p | Some s \<Rightarrow> s),
                   p_updated := db_now w\<rparr>
        in if new_slug \<noteq> p_slug p
              \<and> (case get_project_by_slug w (p_org p) new_slug of None \<Rightarrow> False | Some (i, q) \<Rightarrow> i \<noteq> pid)
           then raise_app ConflictException (slug_taken new_slug) w
           else (Inr (pid, p'),
                 log_both action actor (p_org p) (project_target pid) ip agent changes
                   [(''project_id'', PInt pid), (''changes'', PDict changes)]
                   (w\<lparr>db_projects := t_put pid p' (db_projects w)\<rparr>)))"

definition set_project_archived ::
  "bool \<Rightarrow> string \<Rightarrow> string \<Rightarrow> int \<times> project \<Rightarrow> int option \<Rightarrow> string option \<Rightarrow> string option \<Rightarrow> db
     \<Rightarrow> (int \<times> project) \<times> db" where
  "set_project_archived flag status action proj actor ip agent w =
     (case proj of (pid, p) \<Rightarrow>
        let p' = p\<lparr>p_archived := flag, p_status := status, p_updated := db_now w\<rparr>;
            details = [(''project_id'', PInt pid), (''name'', PStr (p_name p))]
        in ((pid, p'), log_both action actor (p_org p) (project_target pid) ip agent details details
              (w\<lparr>db_projects := t_put pid p' (db_projects w)\<rparr>)))"

definition crud_archive_project ::
  "int \<times> project \<Rightarrow> int option \<Rightarrow> string option \<Rightarrow> string option \<Rightarrow> db \<Rightarrow> (int \<times> project) \<times> db" where
  "crud_archive_project = set_project_archived True ''archived'' ''project.archived''"

definition crud_restore_project ::
  "int \<times> project \<Rightarrow> int option \<Rightarrow> string option \<Rightarrow> string option \<Rightarrow> db \<Rightarrow> (int \<times> project) \<times> db" where
  "crud_restore_project = set_project_archived False ''active'' ''project.restored''"

definition crud_delete_project ::
  "int \<times> project \<Rightarrow> int option \<Rightarrow> string option \<Rightarrow> string option \<Rightarrow> db \<Rightarrow> db" where
  "crud_delete_project proj actor ip agent w =
     (case proj of (pid, p) \<Rightarrow>
        let details = [(''project_id'', PInt pid), (''name'', PStr (p_name p))]
        in delete_project_row pid
             (log_both ''project.deleted'' actor (p_org p) (project_target pid) ip agent details details w))"

text \<open>The entries about a project; the details are JSON that the code wrote with an integer key.\<close>

definition crud_get_project_activity :: "int \<Rightarrow> nat \<Rightarrow> db \<Rightarrow> (int \<times> audit_entry) list" where
  "crud_get_project_activity pid cnt w =
     take cnt (order_rows (al_created \<circ> snd) False
       (t_where (\<lambda>i e. al_target e = Some (project_target pid)
          \<or> d_get (al_details e) ''project_id'' = Some (PInt pid)) (db_audit w)))"

section \<open>Handlers\<close>

definition get_project_with_auth_check ::
  "int \<Rightarrow> string \<Rightarrow> string \<Rightarrow> int \<times> user \<Rightarrow> db \<Rightarrow> ((int \<times> project) \<times> int \<times> membership) outcome \<times> db" where
  "get_project_with_auth_check oid ident role cu w =
     and_then (require_role oid cu role w) (\<lambda>m w.
       case get_project_by_id_or_slug w oid ident of
         None \<Rightarrow> raise_app ResourceNotFoundException ''Project not found in this organization'' w
       | Some p \<Rightarrow> (Inr (p, m), w))"

text \<open>The handlers of a project run their body after that check.\<close>

definition with_project ::
  "int \<Rightarrow> string \<Rightarrow> string \<Rightarrow> int \<times> user \<Rightarrow> db \<Rightarrow> (int \<times> project \<Rightarrow> db \<Rightarrow> 'a outcome \<times> db)
     \<Rightarrow> 'a outcome \<times> db" where
  "with_project oid ident role cu w body =
     and_then (get_project_with_auth_check oid ident role cu w) (\<lambda>(p, _) w. body p w)"

definition create_project ::
  "int \<Rightarrow> string \<Rightarrow> string option \<Rightarrow> string option \<Rightarrow> string option \<Rightarrow> string option \<Rightarrow> string option
     \<Rightarrow> string option \<Rightarrow> string option \<Rightarrow> kwargs option \<Rightarrow> string option \<Rightarrow> string option
     \<Rightarrow> int \<times> user \<Rightarrow> db \<Rightarrow> (int \<times> project) outcome \<times> db" where
  "create_project oid name slug description status color icon timezone language settings ip agent cu w =
     and_then (require_role oid cu ''Member'' w) (\<lambda>_ w.
       crud_create_project oid (fst cu) name slug description (or_else status ''active'') color icon
         (or_else timezone ''UTC'') (or_else language ''en'')
         (case settings of None \<Rightarrow> [] | Some s \<Rightarrow> s) ip agent w)"

definition list_organization_projects ::
  "(string \<Rightarrow> string \<Rightarrow> bool) \<Rightarrow> int \<Rightarrow> string option \<Rightarrow> string option \<Rightarrow> bool option \<Rightarrow> nat \<Rightarrow> nat
     \<Rightarrow> int \<times> user \<Rightarrow> db \<Rightarrow> ((int \<times> project) list) outcome \<times> db" where
  "list_organization_projects ilike oid search status archived skip cnt cu w =
     and_then (require_role oid cu ''Viewer'' w) (\<lambda>_ w.
       (Inr (fst (get_org_projects ilike oid search status archived skip cnt w)), w))"

definition get_project :: "int \<Rightarrow> string \<Rightarrow> int \<times> user \<Rightarrow> db \<Rightarrow> (int \<times> project) outcome \<times> db" where
  "get_project oid ident cu w = with_project oid ident ''Viewer'' cu w (\<lambda>p w. (Inr p, w))"

definition update_project ::
  "int \<Rightarrow> string \<Rightarrow> string option \<Rightarrow> string option \<Rightarrow> string option \<Rightarrow> string option \<Rightarrow> string option
     \<Rightarrow> string option \<Rightarrow> string option \<Rightarrow> string option \<Rightarrow> kwargs option \<Rightarrow> string option \<Rightarrow> string option
     \<Rightarrow> int \<times> user \<Rightarrow> db \<Rightarrow> (int \<times> project) outcome \<times> db" where
  "update_project oid ident name slug description status color icon timezone language settings
     ip agent cu w =
     with_project oid ident ''Member'' cu w (\<lambda>p w.
       crud_update_project p name slug description status color icon timezone language settings
         (Some (fst cu)) ip agent w)"

definition delete_project ::
  "int \<Rightarrow> string \<Rightarrow> string option \<Rightarrow> string option \<Rightarrow> int \<times> user \<Rightarrow> db \<Rightarrow> int outcome \<times> db" where
  "delete_project oid ident ip agent cu w =
     with_project oid ident ''Admin'' cu w (\<lambda>p w.
       (Inr (fst p), crud_delete_project p (Some (fst cu)) ip agent w))"

definition archive_project ::
  "int \<Rightarrow> string \<Rightarrow> string option \<Rightarrow> string option \<Rightarrow> int \<times> user \<Rightarrow> db \<Rightarrow> (int \<times> project) outcome \<times> db" where
  "archive_project oid ident ip agent cu w =
     with_project oid ident ''Member'' cu w (\<lambda>p w.
       case crud_archive_project p (Some (fst cu)) ip agent w of (p', w1) \<Rightarrow> (Inr p', w1))"

definition restore_project ::
  "int \<Rightarrow> string \<Rightarrow> string option \<Rightarrow> string option \<Rightarrow> int \<times> user \<Rightarrow> db \<Rightarrow> (int \<times> project) outcome \<times> db" where
  "restore_project oid ident ip agent cu w =
     with_project oid ident ''Member'' cu w (\<lambda>p w.
       case crud_restore_project p (Some (fst cu)) ip agent w of (p', w1) \<Rightarrow> (Inr p', w1))"

definition get_project_settings :: "int \<Rightarrow> string \<Rightarrow> int \<times> user \<Rightarrow> db \<Rightarrow> (int \<times> kwargs) outcome \<times> db" where
  "get_project_settings oid ident cu w =
     with_project oid ident ''Viewer'' cu w (\<lambda>p w. (Inr (fst p, p_settings (snd p)), w))"

definition update_project_settings ::
  "int \<Rightarrow> string \<Rightarrow> kwargs \<Rightarrow> string option \<Rightarrow> string option \<Rightarrow> int \<times> user \<Rightarrow> db
     \<Rightarrow> (int \<times> project) outcome \<times> db" where
  "update_project_settings oid ident settings ip agent cu w =
     with_project oid ident ''Member'' cu w (\<lambda>p w.
       crud_update_project p None None None None None None None None (Some settings)
         (Some (fst cu)) ip agent w)"

record project_stats =
  ps_project :: int
  ps_org :: int
  ps_name :: string
  ps_slug :: string
  ps_status :: string
  ps_archived :: bool
  ps_days :: int
  ps_settings_keys :: nat
  ps_activities :: nat

definition day_us :: int where
  "day_us = 86400 * 1000000"

definition get_project_stats :: "int \<Rightarrow> string \<Rightarrow> int \<times> user \<Rightarrow> db \<Rightarrow> project_stats outcome \<times> db" where
  "get_project_stats oid ident cu w =
     with_project oid ident ''Viewer'' cu w (\<lambda>(pid, p) w.
       (Inr \<lparr>ps_project = pid, ps_org = p_org p, ps_name = p_name p, ps_slug = p_slug p,
             ps_status = p_status p, ps_archived = p_archived p,
             ps_days = max 0 ((db_now w - p_created p) div day_us),
             ps_settings_keys = length (p_settings p),
             ps_activities = length (crud_get_project_activity pid 500 w)\<rparr>, w))"

definition get_project_activity ::
  "int \<Rightarrow> string \<Rightarrow> nat \<Rightarrow> int \<times> user \<Rightarrow> db \<Rightarrow> ((int \<times> audit_entry) list) outcome \<times> db" where
  "get_project_activity oid ident cnt cu w =
     with_project oid ident ''Viewer'' cu w (\<lambda>p w. (Inr (crud_get_project_activity (fst p) cnt w), w))"

end
