(* ===== verification/Websites.thy ===== *)
theory Websites
  imports Projects
begin

text \<open>
  The websites of a project: domain names, their part of \<^verbatim>\<open>backend/database/crud.py\<close> and the handlers
  of \<^verbatim>\<open>backend/api/website_routes.py\<close>.
\<close>

section \<open>Domain names\<close>

text \<open>\<^verbatim>\<open>s.split(p, 1)[1]\<close> of a text that contains \<open>p\<close>.\<close>

fun after_first :: "string \<Rightarrow> string \<Rightarrow> string" where
  "after_first p [] = []"
| "after_first p (c # s) = (if starts_with (c # s) p then drop (length p) (c # s) else after_first p s)"

text \<open>\<^verbatim>\<open>s.split(c, 1)[0]\<close>\<close>

definition before_char :: "char \<Rightarrow> string \<Rightarrow> string" where
  "before_char c s = takeWhile (\<lambda>x. x \<noteq> c) s"

definition normalize_domain :: "string \<Rightarrow> string" where
  "normalize_domain domain =
     (if domain = [] then []
      else
        let d0 = str_lower (str_strip domain);
            d1 = (if str_contains d0 ''://'' then after_first ''://'' d0 else d0);
            d2 = before_char (CHR '':'') (before_char (CHR ''#'') (before_char (CHR ''?'')
                   (before_char (CHR ''/'') d1)));
            d3 = (if starts_with d2 ''www.'' then drop 4 d2 else d2)
        in str_strip d3)"

definition is_alpha :: "char \<Rightarrow> bool" where
  "is_alpha c \<longleftrightarrow> is_upper c \<or> is_lower c"

definition is_alnum :: "char \<Rightarrow> bool" where
  "is_alnum c \<longleftrightarrow> is_alpha c \<or> is_digit c"

text \<open>\<^verbatim>\<open>[a-zA-Z0-9](?:[a-zA-Z0-9-]{0,61}[a-zA-Z0-9])?\<close>\<close>

definition domain_label :: "string \<Rightarrow> bool" where
  "domain_label l \<longleftrightarrow> l \<noteq> [] \<and> length l \<le> 63 \<and> is_alnum (hd l) \<and> is_alnum (last l)
     \<and> list_all (\<lambda>c. is_alnum c \<or> c = CHR ''-'') l"

text \<open>
  \<^verbatim>\<open>DOMAIN_REGEX\<close>: labels that end in a dot, then a label of two letters or more. A label has no dot,
  so the match is the one that splits at the dots.
\<close>

definition DOMAIN_REGEX :: "string \<Rightarrow> bool" where
  "DOMAIN_REGEX s =
     (let ls = split_on (CHR ''.'') s
      in 2 \<le> length ls \<and> list_all domain_label (butlast ls)
         \<and> 2 \<le> length (last ls) \<and> list_all is_alpha (last ls))"

definition is_valid_domain :: "string \<Rightarrow> bool" where
  "is_valid_domain domain =
     (if domain = [] \<or> 253 < length domain then False
      else
        let ndom = normalize_domain domain
        in if ndom = [] then False else if ndom = ''localhost'' then True else DOMAIN_REGEX ndom)"

definition char_upper :: "char \<Rightarrow> char" where
  "char_upper c = (if is_lower c then char_of ((of_char c :: nat) - 32) else c)"

text \<open>\<^verbatim>\<open>s.replace("://", "")\<close>\<close>

function drop_separators :: "string \<Rightarrow> string" where
  "drop_separators [] = []"
| "drop_separators (c # s) =
     (if starts_with (c # s) ''://'' then drop_separators (drop 3 (c # s)) else c # drop_separators s)"
  by pat_completeness auto

termination drop_separators
  by (relation "measure length") auto

definition clean_protocol :: "string \<Rightarrow> string" where
  "clean_protocol p = str_strip (drop_separators (str_lower p))"

section \<open>CRUD\<close>

text \<open>A \<^verbatim>\<open>None\<close> compares as \<^verbatim>\<open>IS NULL\<close>; a key of zero counts as no key.\<close>

definition get_org_website_by_normalized_domain ::
  "db \<Rightarrow> int option \<Rightarrow> string \<Rightarrow> int option \<Rightarrow> (int \<times> website) option" where
  "get_org_website_by_normalized_domain w oid ndom exclude =
     t_first (\<lambda>i s. w_org s = oid \<and> w_norm s = ndom
        \<and> (case exclude of None \<Rightarrow> True | Some x \<Rightarrow> x = 0 \<or> i \<noteq> x)) (db_sites w)"

definition get_project_website_by_id_or_domain :: "db \<Rightarrow> int \<Rightarrow> string \<Rightarrow> (int \<times> website) option" where
  "get_project_website_by_id_or_domain w pid ident =
     (let ndom = normalize_domain ident
      in t_first (\<lambda>i s. w_project s = Some pid
           \<and> ((str_isdigit ident \<and> i = int (digits_val ident)) \<or> w_domain s = ident \<or> w_norm s = ndom))
           (db_sites w))"

definition get_project_websites ::
  "(string \<Rightarrow> string \<Rightarrow> bool) \<Rightarrow> int \<Rightarrow> string option \<Rightarrow> string option \<Rightarrow> bool option \<Rightarrow> nat \<Rightarrow> nat \<Rightarrow> db
     \<Rightarrow> (int \<times> website) list \<times> nat" where
  "get_project_websites ilike pid search status archived skip cnt w =
     (let pat = (\<lambda>s. CHR ''%'' # s @ ''%'');
          rows = t_where (\<lambda>i s. w_project s = Some pid
             \<and> (truthy search \<longrightarrow> ilike (w_domain s) (pat (the search))
                  \<or> ilike (w_norm s) (pat (normalize_domain (the search)))
                  \<or> (case w_company s of None \<Rightarrow> False | Some c \<Rightarrow> ilike c (pat (the search))))
             \<and> (truthy status \<longrightarrow> w_status s = the status)
             \<and> (case archived of None \<Rightarrow> True | Some a \<Rightarrow> w_archived s = a)) (db_sites w)
      in (take cnt (drop skip (order_rows (w_created \<circ> snd) False rows)), length rows))"

definition domain_taken :: "string \<Rightarrow> string" where
  "domain_taken ndom =
     ''Website with domain '' @ CHR 39 # ndom @ CHR 39 # '' already exists in this organization''"

definition website_target :: "int \<Rightarrow> string" where
  "website_target wid = ''website:'' @ int_str wid"

definition opt_int :: "int option \<Rightarrow> pyval" where
  "opt_int x = (case x of None \<Rightarrow> PNone | Some i \<Rightarrow> PInt i)"

definition create_project_website ::
  "int \<Rightarrow> int \<Rightarrow> int \<Rightarrow> string \<Rightarrow> string \<Rightarrow> string \<Rightarrow> string \<Rightarrow> string option \<Rightarrow> string option \<Rightarrow> string
     \<Rightarrow> string \<Rightarrow> kwargs \<Rightarrow> string option \<Rightarrow> string option \<Rightarrow> db \<Rightarrow> (int \<times> website) outcome \<times> db" where
  "create_project_website pid oid owner domain protocol status verification favicon country language
     timezone settings ip agent w =
     (let ndom = normalize_domain domain
      in if get_org_website_by_normalized_domain w (Some oid) ndom None \<noteq> None
         then raise_app ConflictException (domain_taken ndom) w
         else
           let proto = clean_protocol (if protocol = [] then ''https'' else protocol);
               s = \<lparr>w_project = Some pid, w_org = Some oid, w_owner = Some owner, w_user = Some owner,
                    w_url = Some (proto @ ''://'' @ ndom), w_domain = ndom, w_norm = ndom,
                    w_protocol = proto, w_status = (if status = [] then ''active'' else status),
                    w_verification = (if verification = [] then ''unverified'' else verification),
                    w_favicon = favicon, w_country = country,
                    w_language = (if language = [] then ''en'' else language),
                    w_timezone = (if timezone = [] then ''UTC'' else timezone),
                    w_settings = settings,
                    w_company = Some (map char_upper (before_char (CHR ''.'') ndom)),
                    w_last_scan = None, w_archived = False, w_created = db_now w, w_updated = db_now w\<rparr>;
               (i, t) = t_insert s (db_sites w);
               details = [(''website_id'', PInt i), (''project_id'', PInt pid), (''domain'', PStr ndom)]
           in (Inr (i, s),
               log_both ''website.created'' (Some owner) oid (website_target i) ip agent details details
                 (w\<lparr>db_sites := t\<rparr>)))"

definition website_details :: "int \<times> website \<Rightarrow> pyval \<Rightarrow> string \<Rightarrow> kwargs" where
  "website_details site v key =
     [(''website_id'', PInt (fst site)), (''project_id'', opt_int (w_project (snd site))), (key, v)]"

text \<open>
  The two records of an action on a website. Only websites of an organization reach these
  functions: the handlers refuse any other.
\<close>

definition log_website ::
  "string \<Rightarrow> int option \<Rightarrow> int \<times> website \<Rightarrow> string option \<Rightarrow> string option \<Rightarrow> kwargs \<Rightarrow> db \<Rightarrow> db" where
  "log_website action actor site ip agent details w =
     (let w1 = log_audit_event action actor (w_org (snd site)) (Some (website_target (fst site))) ip agent details w
      in case w_org (snd site) of None \<Rightarrow> w1 | Some oid \<Rightarrow> create_org_audit_event oid action actor details w1)"

definition update_project_website ::
  "int \<times> website \<Rightarrow> string option \<Rightarrow> string option \<Rightarrow> string option \<Rightarrow> string option \<Rightarrow> string option
     \<Rightarrow> string option \<Rightarrow> string option \<Rightarrow> string option \<Rightarrow> kwargs option \<Rightarrow> int option \<Rightarrow> string option
     \<Rightarrow> string option \<Rightarrow> db \<Rightarrow> (int \<times> website) outcome \<times> db" where
  "update_project_website site domain protocol status verification favicon country language timezone
     settings actor ip agent w =
     (case site of (i, s) \<Rightarrow>
        let moves = domain \<noteq> None \<and> the domain \<noteq> w_domain s;
            ndom = (if moves then normalize_domain (the domain) else w_norm s);
            proto = (case protocol of None \<Rightarrow> w_protocol s | Some p \<Rightarrow> clean_protocol p);
            key = (\<lambda>k given. if given then [PStr k] else []);
            changed = key ''domain'' moves @ key ''protocol'' (protocol \<noteq> None) @ key ''status'' (status \<noteq> None)
              @ key ''verification_status'' (verification \<noteq> None) @ key ''favicon'' (favicon \<noteq> None)
              @ key ''country'' (country \<noteq> None) @ key ''language'' (language \<noteq> None)
              @ key ''timezone'' (timezone \<noteq> None) @ key ''settings'' (settings \<noteq> None);
            s' = s\<lparr>w_domain := (if moves then the domain else w_domain s), w_norm := ndom,
                   w_protocol := proto,
                   w_url := (if ndom \<noteq> [] \<and> proto \<noteq> [] then Some (proto @ ''://'' @ ndom) else w_url s),
                   w_status := (case status of None \<Rightarrow> w_status s | Some x \<Rightarrow> x),
                   w_verification := (case verification of None \<Rightarrow> w_verification s | Some x \<Rightarrow> x),
                   w_favicon := (case favicon of None \<Rightarrow> w_favicon s | Some x \<Rightarrow> Some x),
                   w_country := (case country of None \<Rightarrow> w_country s | Some x \<Rightarrow> Some x),
                   w_language := (case language of None \<Rightarrow> w_language s | Some x \<Rightarrow> x),
                   w_timezone := (case timezone of None \<Rightarrow> w_timezone s | Some x \<Rightarrow> x),
                   w_settings := (case settings of None \<Rightarrow> w_settings s | Some x \<Rightarrow> x),
                   w_updated := db_now w\<rparr>;
            action = (if settings \<noteq> None \<and> length changed = 1 then ''website.settings_changed''
                      else ''website.updated'')
        in if moves \<and> get_org_website_by_normalized_domain w (w_org s) ndom (Some i) \<noteq> None
           then raise_app ConflictException (domain_taken ndom) w
           else (Inr (i, s'),
                 log_website action actor (i, s') ip agent
                   (website_details (i, s') (PList changed) ''changes'')
                   (w\<lparr>db_sites := t_put i s' (db_sites w)\<rparr>)))"

definition set_website_archived ::
  "bool \<Rightarrow> string \<Rightarrow> string \<Rightarrow> int \<times> website \<Rightarrow> int option \<Rightarrow> string option \<Rightarrow> string option \<Rightarrow> db
     \<Rightarrow> (int \<times> website) \<times> db" where
  "set_website_archived flag status action site actor ip agent w =
     (case site of (i, s) \<Rightarrow>
        let s' = s\<lparr>w_archived := flag, w_status := status, w_updated := db_now w\<rparr>
        in ((i, s'), log_website action actor (i, s') ip agent
              (website_details (i, s') (PStr (w_norm s)) ''domain'')
              (w\<lparr>db_sites := t_put i s' (db_sites w)\<rparr>)))"

definition archive_project_website ::
  "int \<times> website \<Rightarrow> int option \<Rightarrow> string option \<Rightarrow> string option \<Rightarrow> db \<Rightarrow> (int \<times> website) \<times> db" where
  "archive_project_website = set_website_archived True ''archived'' ''website.archived''"

definition restore_project_website ::
  "int \<times> website \<Rightarrow> int option \<Rightarrow> string option \<Rightarrow> string option \<Rightarrow> db \<Rightarrow> (int \<times> website) \<times> db" where
  "restore_project_website = set_website_archived False ''active'' ''website.restored''"

definition delete_project_website ::
  "int \<times> website \<Rightarrow> int option \<Rightarrow> string option \<Rightarrow> string option \<Rightarrow> db \<Rightarrow> db" where
  "delete_project_website site actor ip agent w =
     (case site of (i, s) \<Rightarrow>
        delete_sites (\<lambda>k _. k = i)
          (log_audit_event ''website.deleted'' actor (w_org s) (Some (website_target i)) ip agent
             (website_details site (PStr (if w_norm s = [] then w_domain s else w_norm s)) ''domain'') w))"

section \<open>Handlers\<close>

definition get_website_with_auth_check ::
  "int \<Rightarrow> string \<Rightarrow> string \<Rightarrow> string \<Rightarrow> int \<times> user \<Rightarrow> db
     \<Rightarrow> ((int \<times> website) \<times> (int \<times> project) \<times> int \<times> membership) outcome \<times> db" where
  "get_website_with_auth_check oid pident sident role cu w =
     and_then (get_project_with_auth_check oid pident role cu w) (\<lambda>(p, m) w.
       case get_project_website_by_id_or_domain w (fst p) sident of
         None \<Rightarrow> raise_app ResourceNotFoundException ''Website not found in this project'' w
       | Some s \<Rightarrow>
           if w_org (snd s) \<noteq> Some oid
           then raise_app ResourceNotFoundException ''Website not found in this project'' w
           else (Inr (s, p, m), w))"

definition with_website ::
  "int \<Rightarrow> string \<Rightarrow> string \<Rightarrow> string \<Rightarrow> int \<times> user \<Rightarrow> db \<Rightarrow> (int \<times> website \<Rightarrow> db \<Rightarrow> 'a outcome \<times> db)
     \<Rightarrow> 'a outcome \<times> db" where
  "with_website oid pident sident role cu w body =
     and_then (get_website_with_auth_check oid pident sident role cu w) (\<lambda>(s, _, _) w. body s w)"

definition create_website ::
  "int \<Rightarrow> string \<Rightarrow> string \<Rightarrow> string option \<Rightarrow> string option \<Rightarrow> string option \<Rightarrow> string option
     \<Rightarrow> string option \<Rightarrow> string option \<Rightarrow> string option \<Rightarrow> kwargs option \<Rightarrow> string option \<Rightarrow> string option
     \<Rightarrow> int \<times> user \<Rightarrow> db \<Rightarrow> (int \<times> website) outcome \<times> db" where
  "create_website oid pident domain protocol status verification favicon country language timezone
     settings ip agent cu w =
     with_project oid pident ''Member'' cu w (\<lambda>p w.
       if \<not> is_valid_domain domain
       then raise_app ValidationErrorException ''Invalid domain format'' w
       else create_project_website (fst p) oid (fst cu) domain (or_else protocol ''https'')
              (or_else status ''active'') (or_else verification ''unverified'') favicon country
              (or_else language ''en'') (or_else timezone ''UTC'')
              (case settings of None \<Rightarrow> [] | Some s \<Rightarrow> s) ip agent w)"

definition list_websites ::
  "(string \<Rightarrow> string \<Rightarrow> bool) \<Rightarrow> int \<Rightarrow> string \<Rightarrow> string option \<Rightarrow> string option \<Rightarrow> bool option \<Rightarrow> nat \<Rightarrow> nat
     \<Rightarrow> int \<times> user \<Rightarrow> db \<Rightarrow> ((int \<times> website) list) outcome \<times> db" where
  "list_websites ilike oid pident search status archived skip cnt cu w =
     with_project oid pident ''Viewer'' cu w (\<lambda>p w.
       (Inr (fst (get_project_websites ilike (fst p) search status archived skip cnt w)), w))"

definition get_website :: "int \<Rightarrow> string \<Rightarrow> string \<Rightarrow> int \<times> user \<Rightarrow> db \<Rightarrow> (int \<times> website) outcome \<times> db" where
  "get_website oid pident sident cu w = with_website oid pident sident ''Viewer'' cu w (\<lambda>s w. (Inr s, w))"

definition update_website ::
  "int \<Rightarrow> string \<Rightarrow> string \<Rightarrow> string option \<Rightarrow> string option \<Rightarrow> string option \<Rightarrow> string option
     \<Rightarrow> string option \<Rightarrow> string option \<Rightarrow> string option \<Rightarrow> string option \<Rightarrow> kwargs option \<Rightarrow> string option
     \<Rightarrow> string option \<Rightarrow> int \<times> user \<Rightarrow> db \<Rightarrow> (int \<times> website) outcome \<times> db" where
  "update_website oid pident sident domain protocol status verification favicon country language
     timezone settings ip agent cu w =
     with_website oid pident sident ''Member'' cu w (\<lambda>s w.
       if domain \<noteq> None \<and> \<not> is_valid_domain (the domain)
       then raise_app ValidationErrorException ''Invalid domain format'' w
       else update_project_website s domain protocol status verification favicon country language
              timezone settings (Some (fst cu)) ip agent w)"

definition delete_website ::
  "int \<Rightarrow> string \<Rightarrow> string \<Rightarrow> string option \<Rightarrow> string option \<Rightarrow> int \<times> user \<Rightarrow> db \<Rightarrow> int outcome \<times> db" where
  "delete_website oid pident sident ip agent cu w =
     with_website oid pident sident ''Admin'' cu w (\<lambda>s w.
       (Inr (fst s), delete_project_website s (Some (fst cu)) ip agent w))"

definition archive_website ::
  "int \<Rightarrow> string \<Rightarrow> string \<Rightarrow> string option \<Rightarrow> string option \<Rightarrow> int \<times> user \<Rightarrow> db
     \<Rightarrow> (int \<times> website) outcome \<times> db" where
  "archive_website oid pident sident ip agent cu w =
     with_website oid pident sident ''Member'' cu w (\<lambda>s w.
       case archive_project_website s (Some (fst cu)) ip agent w of (s', w1) \<Rightarrow> (Inr s', w1))"

definition restore_website ::
  "int \<Rightarrow> string \<Rightarrow> string \<Rightarrow> string option \<Rightarrow> string option \<Rightarrow> int \<times> user \<Rightarrow> db
     \<Rightarrow> (int \<times> website) outcome \<times> db" where
  "restore_website oid pident sident ip agent cu w =
     with_website oid pident sident ''Member'' cu w (\<lambda>s w.
       case restore_project_website s (Some (fst cu)) ip agent w of (s', w1) \<Rightarrow> (Inr s', w1))"

definition get_website_settings ::
  "int \<Rightarrow> string \<Rightarrow> string \<Rightarrow> int \<times> user \<Rightarrow> db \<Rightarrow> (int \<times> kwargs) outcome \<times> db" where
  "get_website_settings oid pident sident cu w =
     with_website oid pident sident ''Viewer'' cu w (\<lambda>s w. (Inr (fst s, w_settings (snd s)), w))"

definition update_website_settings ::
  "int \<Rightarrow> string \<Rightarrow> string \<Rightarrow> kwargs \<Rightarrow> string option \<Rightarrow> string option \<Rightarrow> int \<times> user \<Rightarrow> db
     \<Rightarrow> (int \<times> website) outcome \<times> db" where
  "update_website_settings oid pident sident settings ip agent cu w =
     with_website oid pident sident ''Member'' cu w (\<lambda>s w.
       update_project_website s None None None None None None None None (Some settings)
         (Some (fst cu)) ip agent w)"

end
