(* ===== verification/Crawls.thy ===== *)
theory Crawls
  imports Websites
begin

text \<open>
  The crawls of a website: their part of \<^verbatim>\<open>backend/database/crud.py\<close> and the handlers of
  \<^verbatim>\<open>backend/api/crawl_routes.py\<close>. A crawl has pages, and issues that may name a page.
\<close>

section \<open>CRUD\<close>

text \<open>\<^verbatim>\<open>int((b - a).total_seconds())\<close>, which truncates.\<close>

definition seconds_between :: "int \<Rightarrow> int \<Rightarrow> int" where
  "seconds_between a b = (if a \<le> b then (b - a) div 1000000 else - ((a - b) div 1000000))"

definition create_crawl :: "int \<Rightarrow> string \<Rightarrow> string \<Rightarrow> db \<Rightarrow> (int \<times> crawl_job) \<times> db" where
  "create_crawl wid triggered_by version w =
     (let c = \<lparr>cj_website = wid, cj_status = ''queued'', cj_progress = 0, cj_started = None,
               cj_finished = None, cj_pages = 0, cj_issues = 0, cj_duration = None,
               cj_triggered_by = triggered_by, cj_version = version, cj_error = None,
               cj_created = db_now w, cj_updated = db_now w\<rparr>;
          (i, t) = t_insert c (db_crawls w)
      in ((i, c), w\<lparr>db_crawls := t\<rparr>))"

definition get_crawl :: "db \<Rightarrow> int \<Rightarrow> (int \<times> crawl_job) option" where
  "get_crawl w cid = t_first (\<lambda>i c. i = cid) (db_crawls w)"

definition is_active :: "string \<Rightarrow> bool" where
  "is_active status \<longleftrightarrow> status \<in> {''queued'', ''running''}"

definition is_over :: "string \<Rightarrow> bool" where
  "is_over status \<longleftrightarrow> status \<in> {''completed'', ''failed'', ''cancelled''}"

definition get_active_crawl_for_website :: "db \<Rightarrow> int \<Rightarrow> (int \<times> crawl_job) option" where
  "get_active_crawl_for_website w wid =
     t_first (\<lambda>i c. cj_website c = wid \<and> is_active (cj_status c)) (db_crawls w)"

definition crud_list_crawl_jobs :: "int \<Rightarrow> nat \<Rightarrow> nat \<Rightarrow> db \<Rightarrow> (int \<times> crawl_job) list \<times> nat" where
  "crud_list_crawl_jobs wid skip cnt w =
     (let rows = t_where (\<lambda>i c. cj_website c = wid) (db_crawls w)
      in (take cnt (drop skip (order_rows (cj_created \<circ> snd) False rows)), length rows))"

definition write_crawl :: "int \<Rightarrow> crawl_job \<Rightarrow> db \<Rightarrow> db" where
  "write_crawl i c w = w\<lparr>db_crawls := t_put i c (db_crawls w)\<rparr>"

definition in_state :: "string \<Rightarrow> string" where
  "in_state s = CHR 39 # s @ [CHR 39]"

definition cancel_crawl :: "int \<times> crawl_job \<Rightarrow> db \<Rightarrow> (int \<times> crawl_job) outcome \<times> db" where
  "cancel_crawl crawl w =
     (case crawl of (i, c) \<Rightarrow>
        if is_over (cj_status c)
        then raise_app ConflictException
               (''Cannot cancel a crawl job that is already in state '' @ in_state (cj_status c)) w
        else
          let c' = c\<lparr>cj_status := ''cancelled'', cj_finished := Some (db_now w),
                     cj_duration := (case cj_started c of
                        None \<Rightarrow> cj_duration c | Some s \<Rightarrow> Some (seconds_between s (db_now w))),
                     cj_updated := db_now w\<rparr>
          in (Inr (i, c'), write_crawl i c' w))"

definition retry_crawl :: "int \<times> crawl_job \<Rightarrow> db \<Rightarrow> (int \<times> crawl_job) outcome \<times> db" where
  "retry_crawl crawl w =
     (case crawl of (i, c) \<Rightarrow>
        if is_active (cj_status c)
        then raise_app ConflictException
               (''Cannot retry a crawl job that is currently '' @ in_state (cj_status c)) w
        else
          let c' = c\<lparr>cj_status := ''queued'', cj_progress := 0, cj_pages := 0, cj_issues := 0,
                     cj_duration := None, cj_error := None, cj_started := None, cj_finished := None,
                     cj_updated := db_now w\<rparr>
          in (Inr (i, c'), write_crawl i c' w))"

definition crawl_to_status :: "int \<Rightarrow> string option \<Rightarrow> crawl_job \<Rightarrow> crawl_job" where
  "crawl_to_status now status c =
     (case status of
        None \<Rightarrow> c
      | Some s \<Rightarrow>
          (if s = ''running'' \<and> cj_status c = ''queued'' then c\<lparr>cj_started := Some now\<rparr>
           else if is_over s \<and> cj_finished c = None
           then c\<lparr>cj_finished := Some now,
                  cj_duration := (case cj_started c of
                     None \<Rightarrow> cj_duration c | Some b \<Rightarrow> Some (seconds_between b now))\<rparr>
           else c)\<lparr>cj_status := s\<rparr>)"

definition update_crawl_job_progress ::
  "int \<times> crawl_job \<Rightarrow> int option \<Rightarrow> string option \<Rightarrow> int option \<Rightarrow> int option \<Rightarrow> int option \<Rightarrow> string option
     \<Rightarrow> db \<Rightarrow> (int \<times> crawl_job) \<times> db" where
  "update_crawl_job_progress crawl progress status pages issues duration error w =
     (case crawl of (i, c) \<Rightarrow>
        let c1 = crawl_to_status (db_now w) status c;
            c' = c1\<lparr>cj_progress := (case progress of None \<Rightarrow> cj_progress c1 | Some x \<Rightarrow> x),
                    cj_pages := (case pages of None \<Rightarrow> cj_pages c1 | Some x \<Rightarrow> x),
                    cj_issues := (case issues of None \<Rightarrow> cj_issues c1 | Some x \<Rightarrow> x),
                    cj_duration := (case duration of None \<Rightarrow> cj_duration c1 | Some x \<Rightarrow> Some x),
                    cj_error := (case error of None \<Rightarrow> cj_error c1 | Some x \<Rightarrow> Some x),
                    cj_updated := db_now w\<rparr>
        in ((i, c'), write_crawl i c' w))"

text \<open>
  What a client sends as a page. Every key is present, with \<^verbatim>\<open>None\<close> when it was null; a column with a
  default stores the default for \<^verbatim>\<open>None\<close>.
\<close>

record page_data =
  pd_url :: string
  pd_depth :: "int option"
  pd_status_code :: "int option"
  pd_content_type :: "string option"
  pd_title :: "string option"
  pd_meta :: "string option"
  pd_canonical :: "string option"
  pd_h1 :: "string option"
  pd_words :: "int option"
  pd_internal :: "int option"
  pd_external :: "int option"
  pd_noindex :: "bool option"
  pd_nofollow :: "bool option"
  pd_redirect :: "string option"
  pd_response :: "int option"

definition given :: "'a \<Rightarrow> 'a option \<Rightarrow> 'a" where
  "given d x = (case x of None \<Rightarrow> d | Some v \<Rightarrow> v)"

definition mk_crawl_page :: "int \<Rightarrow> page_data \<Rightarrow> int \<Rightarrow> crawl_page" where
  "mk_crawl_page cid d now =
     \<lparr>cp_job = cid, cp_url = pd_url d, cp_depth = given 0 (pd_depth d), cp_status_code = pd_status_code d,
      cp_content_type = pd_content_type d, cp_title = pd_title d, cp_meta = pd_meta d,
      cp_canonical = pd_canonical d, cp_h1 = pd_h1 d, cp_words = given 0 (pd_words d),
      cp_internal = given 0 (pd_internal d), cp_external = given 0 (pd_external d),
      cp_noindex = given False (pd_noindex d), cp_nofollow = given False (pd_nofollow d),
      cp_redirect = pd_redirect d, cp_response = pd_response d, cp_created = now\<rparr>"

text \<open>The row of the page and the counter of the crawl are written one after the other.\<close>

definition create_crawl_page :: "int \<Rightarrow> page_data \<Rightarrow> db \<Rightarrow> (int \<times> crawl_page) \<times> db" where
  "create_crawl_page cid d w =
     (let p = mk_crawl_page cid d (db_now w);
          (i, t) = t_insert p (db_pages w);
          w1 = w\<lparr>db_pages := t\<rparr>
      in ((i, p), case get_crawl w1 cid of
                    None \<Rightarrow> w1
                  | Some (k, c) \<Rightarrow> write_crawl k (c\<lparr>cj_pages := cj_pages c + 1, cj_updated := db_now w\<rparr>) w1))"

record issue_data =
  is_page :: "int option"
  is_severity :: string
  is_category :: string
  is_message :: string
  is_recommendation :: "string option"

text \<open>The page is checked by the foreign key only, when the database enforces it.\<close>

definition create_crawl_issue :: "int \<Rightarrow> issue_data \<Rightarrow> db \<Rightarrow> (int \<times> crawl_issue) outcome \<times> db" where
  "create_crawl_issue cid d w =
     (if db_fk w \<and> is_page d \<noteq> None \<and> t_get (db_pages w) (the (is_page d)) = None
      then (Inl integrity_error, w)
      else
        let s = \<lparr>ci_job = cid, ci_page = is_page d, ci_severity = is_severity d,
                 ci_category = is_category d, ci_message = is_message d,
                 ci_recommendation = is_recommendation d, ci_created = db_now w\<rparr>;
            (i, t) = t_insert s (db_issues w);
            w1 = w\<lparr>db_issues := t\<rparr>
        in (Inr (i, s), case get_crawl w1 cid of
              None \<Rightarrow> w1
            | Some (k, c) \<Rightarrow> write_crawl k (c\<lparr>cj_issues := cj_issues c + 1, cj_updated := db_now w\<rparr>) w1))"

record crawl_stats =
  cs_total :: nat
  cs_html :: nat
  cs_redirects :: nat
  cs_broken :: nat
  cs_average :: rat
  cs_duration :: "int option"

text \<open>\<open>round2\<close> is \<^verbatim>\<open>round(x, 2)\<close> of a float.\<close>

definition page_is_html :: "crawl_page \<Rightarrow> bool" where
  "page_is_html p \<longleftrightarrow> truthy (cp_content_type p) \<and> str_contains (str_lower (the (cp_content_type p))) ''html''"

definition page_redirects :: "crawl_page \<Rightarrow> bool" where
  "page_redirects p \<longleftrightarrow>
     (case cp_status_code p of None \<Rightarrow> False | Some k \<Rightarrow> 300 \<le> k \<and> k < 400) \<or> truthy (cp_redirect p)"

definition page_is_broken :: "crawl_page \<Rightarrow> bool" where
  "page_is_broken p \<longleftrightarrow> (case cp_status_code p of None \<Rightarrow> True | Some k \<Rightarrow> k = 0 \<or> 400 \<le> k)"

definition calculate_crawl_stats :: "(rat \<Rightarrow> rat) \<Rightarrow> int \<Rightarrow> db \<Rightarrow> crawl_stats" where
  "calculate_crawl_stats round2 cid w =
     (let pages = map snd (t_where (\<lambda>i p. cp_job p = cid) (db_pages w));
          times = List.map_filter cp_response pages;
          duration = (case get_crawl w cid of
             None \<Rightarrow> None
           | Some (i, c) \<Rightarrow>
               (case (cj_duration c, cj_started c) of
                  (Some d, _) \<Rightarrow> Some d
                | (None, None) \<Rightarrow> None
                | (None, Some b) \<Rightarrow> Some (seconds_between b (given (db_now w) (cj_finished c)))))
      in \<lparr>cs_total = length pages, cs_html = length (filter page_is_html pages),
          cs_redirects = length (filter page_redirects pages),
          cs_broken = length (filter page_is_broken pages),
          cs_average = (if times = [] then 0
             else round2 (of_int (sum_list times) / of_nat (length times))),
          cs_duration = duration\<rparr>)"

section \<open>Handlers\<close>

text \<open>\<^verbatim>\<open>require_membership\<close> of a website's organization: nobody is a member of none.\<close>

definition require_site_role :: "int option \<Rightarrow> int \<times> user \<Rightarrow> string \<Rightarrow> db \<Rightarrow> (int \<times> membership) outcome \<times> db" where
  "require_site_role org cu role w =
     (case org of
        None \<Rightarrow> raise_app ForbiddenException ''You are not a member of this organization'' w
      | Some oid \<Rightarrow> require_role oid cu role w)"

definition get_website_and_project_auth ::
  "int \<Rightarrow> int \<Rightarrow> string \<Rightarrow> int \<times> user \<Rightarrow> db
     \<Rightarrow> ((int \<times> website) \<times> (int \<times> project) \<times> int \<times> membership) outcome \<times> db" where
  "get_website_and_project_auth pid wid role cu w =
     (case t_first (\<lambda>i s. i = wid) (db_sites w) of
        None \<Rightarrow> raise_app ResourceNotFoundException ''Website not found in specified project'' w
      | Some s \<Rightarrow>
          if w_project (snd s) \<noteq> Some pid
          then raise_app ResourceNotFoundException ''Website not found in specified project'' w
          else and_then (require_site_role (w_org (snd s)) cu role w) (\<lambda>m w.
            case get_project_row w pid of
              None \<Rightarrow> raise_app ResourceNotFoundException ''Project not found'' w
            | Some p \<Rightarrow> (Inr (s, p, m), w)))"

definition get_crawl_auth ::
  "int \<Rightarrow> string \<Rightarrow> int \<times> user \<Rightarrow> db
     \<Rightarrow> ((int \<times> crawl_job) \<times> (int \<times> website) \<times> int \<times> membership) outcome \<times> db" where
  "get_crawl_auth cid role cu w =
     (case get_crawl w cid of
        None \<Rightarrow> raise_app ResourceNotFoundException ''Crawl job not found'' w
      | Some c \<Rightarrow>
          (case t_first (\<lambda>i s. i = cj_website (snd c)) (db_sites w) of
             None \<Rightarrow> raise_app ResourceNotFoundException ''Associated website not found'' w
           | Some s \<Rightarrow> and_then (require_site_role (w_org (snd s)) cu role w) (\<lambda>m w. (Inr (c, s, m), w))))"

definition with_crawl ::
  "int \<Rightarrow> string \<Rightarrow> int \<times> user \<Rightarrow> db \<Rightarrow> (int \<times> crawl_job \<Rightarrow> db \<Rightarrow> 'a outcome \<times> db) \<Rightarrow> 'a outcome \<times> db" where
  "with_crawl cid role cu w body = and_then (get_crawl_auth cid role cu w) (\<lambda>(c, _, _) w. body c w)"

definition create_crawl_job ::
  "int \<Rightarrow> int \<Rightarrow> string option \<Rightarrow> string option \<Rightarrow> int \<times> user \<Rightarrow> db \<Rightarrow> (int \<times> crawl_job) outcome \<times> db" where
  "create_crawl_job pid wid triggered_by version cu w =
     and_then (get_website_and_project_auth pid wid ''Member'' cu w) (\<lambda>(s, _, _) w.
       case get_active_crawl_for_website w (fst s) of
         Some (i, c) \<Rightarrow>
           raise_app ConflictException
             (''An active crawl job (id='' @ int_str i @ '', status='' @ in_state (cj_status c)
               @ '') already exists for this website'') w
       | None \<Rightarrow>
           (case create_crawl (fst s) (or_else triggered_by ''manual'') (or_else version ''1.0.0'') w of
              (c, w1) \<Rightarrow> (Inr c, w1)))"

definition list_crawl_jobs ::
  "(rat \<Rightarrow> rat) \<Rightarrow> int \<Rightarrow> int \<Rightarrow> nat \<Rightarrow> nat \<Rightarrow> int \<times> user \<Rightarrow> db
     \<Rightarrow> (((int \<times> crawl_job) \<times> crawl_stats) list \<times> nat) outcome \<times> db" where
  "list_crawl_jobs round2 pid wid skip cnt cu w =
     and_then (get_website_and_project_auth pid wid ''Viewer'' cu w) (\<lambda>(s, _, _) w.
       case crud_list_crawl_jobs (fst s) skip cnt w of (jobs, n) \<Rightarrow>
         (Inr (map (\<lambda>c. (c, calculate_crawl_stats round2 (fst c) w)) jobs, n), w))"

definition get_crawl_job ::
  "(rat \<Rightarrow> rat) \<Rightarrow> int \<Rightarrow> int \<times> user \<Rightarrow> db \<Rightarrow> ((int \<times> crawl_job) \<times> crawl_stats) outcome \<times> db" where
  "get_crawl_job round2 cid cu w =
     with_crawl cid ''Viewer'' cu w (\<lambda>c w. (Inr (c, calculate_crawl_stats round2 (fst c) w), w))"

definition cancel_crawl_job ::
  "(rat \<Rightarrow> rat) \<Rightarrow> int \<Rightarrow> int \<times> user \<Rightarrow> db \<Rightarrow> ((int \<times> crawl_job) \<times> crawl_stats) outcome \<times> db" where
  "cancel_crawl_job round2 cid cu w =
     with_crawl cid ''Member'' cu w (\<lambda>c w.
       and_then (cancel_crawl c w) (\<lambda>c' w1. (Inr (c', calculate_crawl_stats round2 (fst c') w1), w1)))"

definition retry_crawl_job ::
  "(rat \<Rightarrow> rat) \<Rightarrow> int \<Rightarrow> int \<times> user \<Rightarrow> db \<Rightarrow> ((int \<times> crawl_job) \<times> crawl_stats) outcome \<times> db" where
  "retry_crawl_job round2 cid cu w =
     with_crawl cid ''Member'' cu w (\<lambda>c w.
       and_then (retry_crawl c w) (\<lambda>c' w1. (Inr (c', calculate_crawl_stats round2 (fst c') w1), w1)))"

definition list_crawl_pages ::
  "(string \<Rightarrow> string \<Rightarrow> bool) \<Rightarrow> int \<Rightarrow> int option \<Rightarrow> string option \<Rightarrow> nat \<Rightarrow> nat \<Rightarrow> int \<times> user \<Rightarrow> db
     \<Rightarrow> ((int \<times> crawl_page) list \<times> nat) outcome \<times> db" where
  "list_crawl_pages ilike cid code search skip cnt cu w =
     with_crawl cid ''Viewer'' cu w (\<lambda>_ w.
       let pat = CHR ''%'' # the search @ ''%'';
           rows = t_where (\<lambda>i p. cp_job p = cid
              \<and> (code \<noteq> None \<longrightarrow> cp_status_code p = code)
              \<and> (truthy search \<longrightarrow> ilike (cp_url p) pat
                   \<or> (case cp_title p of None \<Rightarrow> False | Some t \<Rightarrow> ilike t pat))) (db_pages w)
       in (Inr (take cnt (drop skip (order_rows fst True rows)), length rows), w))"

definition add_crawl_page :: "int \<Rightarrow> page_data \<Rightarrow> int \<times> user \<Rightarrow> db \<Rightarrow> (int \<times> crawl_page) outcome \<times> db" where
  "add_crawl_page cid d cu w =
     with_crawl cid ''Member'' cu w (\<lambda>_ w. case create_crawl_page cid d w of (p, w1) \<Rightarrow> (Inr p, w1))"

definition list_crawl_issues ::
  "int \<Rightarrow> string option \<Rightarrow> string option \<Rightarrow> nat \<Rightarrow> nat \<Rightarrow> int \<times> user \<Rightarrow> db
     \<Rightarrow> ((int \<times> crawl_issue) list \<times> nat) outcome \<times> db" where
  "list_crawl_issues cid severity category skip cnt cu w =
     with_crawl cid ''Viewer'' cu w (\<lambda>_ w.
       let rows = t_where (\<lambda>i s. ci_job s = cid
              \<and> (truthy severity \<longrightarrow> ci_severity s = the severity)
              \<and> (truthy category \<longrightarrow> ci_category s = the category)) (db_issues w)
       in (Inr (take cnt (drop skip (order_rows fst True rows)), length rows), w))"

definition add_crawl_issue :: "int \<Rightarrow> issue_data \<Rightarrow> int \<times> user \<Rightarrow> db \<Rightarrow> (int \<times> crawl_issue) outcome \<times> db" where
  "add_crawl_issue cid d cu w = with_crawl cid ''Member'' cu w (\<lambda>_ w. create_crawl_issue cid d w)"

definition update_crawl_progress ::
  "(rat \<Rightarrow> rat) \<Rightarrow> int \<Rightarrow> int option \<Rightarrow> string option \<Rightarrow> int option \<Rightarrow> int option \<Rightarrow> int option
     \<Rightarrow> string option \<Rightarrow> int \<times> user \<Rightarrow> db \<Rightarrow> ((int \<times> crawl_job) \<times> crawl_stats) outcome \<times> db" where
  "update_crawl_progress round2 cid progress status pages issues duration error cu w =
     with_crawl cid ''Member'' cu w (\<lambda>c w.
       case update_crawl_job_progress c progress status pages issues duration error w of (c', w1) \<Rightarrow>
         (Inr (c', calculate_crawl_stats round2 (fst c') w1), w1))"

end
