(* ===== verification/Slugs.thy ===== *)
theory Slugs
  imports Tenant_DB
begin

text \<open>
  The slugs that \<^verbatim>\<open>slugify_text\<close> makes have a canonical form, on which the function is the identity:
  lower case letters and digits, with single dashes between them.
\<close>

definition slug_char :: "char \<Rightarrow> bool" where
  "slug_char c \<longleftrightarrow> is_lower c \<or> is_digit c"

definition single_dashes :: "string \<Rightarrow> bool" where
  "single_dashes s \<longleftrightarrow> successively (\<lambda>a b. \<not> (a = CHR ''-'' \<and> b = CHR ''-'')) s"

definition slug_form :: "string \<Rightarrow> bool" where
  "slug_form s \<longleftrightarrow> list_all (\<lambda>c. slug_char c \<or> c = CHR ''-'') s \<and> single_dashes s
     \<and> (s \<noteq> [] \<longrightarrow> hd s \<noteq> CHR ''-'' \<and> last s \<noteq> CHR ''-'')"

lemma slug_char_facts:
  assumes "slug_char c \<or> c = CHR ''-''"
  shows "char_lower c = c" and "\<not> is_space c" and "slug_keep c" and "slug_sep c \<longleftrightarrow> c = CHR ''-''"
  using assms
  by (auto simp: slug_char_def char_lower_def is_upper_def is_lower_def is_digit_def is_space_def
      slug_keep_def slug_sep_def is_word_def)

lemma char_lower_word: "slug_keep (char_lower c) \<Longrightarrow> \<not> slug_sep (char_lower c) \<Longrightarrow> slug_char (char_lower c)"
  by (auto simp: slug_keep_def slug_sep_def is_word_def slug_char_def char_lower_def is_upper_def
      is_lower_def is_digit_def of_char_of split: if_splits)

lemma collapse_chars:
  assumes "\<forall>c\<in>set s. slug_sep c \<or> slug_char c"
  shows "list_all (\<lambda>c. slug_char c \<or> c = CHR ''-'') (collapse s)"
  using assms
proof (induction s rule: collapse.induct)
  case (2 c cs)
  then show ?case by (auto dest: set_dropWhileD)
qed simp

lemma collapse_single:
  assumes "\<forall>c\<in>set s. slug_sep c \<or> slug_char c"
  shows "single_dashes (collapse s) \<and> (s \<noteq> [] \<longrightarrow> \<not> slug_sep (hd s) \<longrightarrow> hd (collapse s) \<noteq> CHR ''-'')"
  using assms
proof (induction s rule: collapse.induct)
  case (2 c cs)
  show ?case
  proof (cases "slug_sep c")
    case True
    let ?r = "dropWhile slug_sep cs"
    have IH: "single_dashes (collapse ?r) \<and> (?r \<noteq> [] \<longrightarrow> hd (collapse ?r) \<noteq> CHR ''-'')"
      using "2.IH"(1) [OF True] "2.prems" hd_dropWhile [of slug_sep cs]
      by (auto dest: set_dropWhileD)
    show ?thesis
    proof (cases "?r = []")
      case r: True
      then show ?thesis using True by (simp only: collapse.simps if_True r) (simp add: single_dashes_def)
    next
      case False
      then show ?thesis using True IH by (auto simp: single_dashes_def successively_Cons)
    qed
  next
    case False
    then have "c \<noteq> CHR ''-''" by (auto simp: slug_sep_def)
    then show ?thesis using "2.IH"(2) [OF False] "2.prems" False
      by (auto simp: single_dashes_def successively_Cons)
  qed
qed (simp add: single_dashes_def)

lemma single_dashes_dropWhile: "single_dashes s \<Longrightarrow> single_dashes (dropWhile P s)"
  by (induction s) (auto simp: single_dashes_def successively_Cons)

lemma single_dashes_rev [simp]: "single_dashes (rev s) = single_dashes s"
  unfolding single_dashes_def successively_rev by (rule arg_cong [where f = "\<lambda>f. successively f s"]) auto

lemma dropWhile_ends:
  assumes "s = [] \<or> \<not> P (last s)"
  shows "dropWhile P s = [] \<or> \<not> P (last (dropWhile P s))"
  using assms by (induction s) (auto split: if_splits)

lemma hd_dropWhile_not: "dropWhile P s = [] \<or> \<not> P (hd (dropWhile P s))"
  using hd_dropWhile [of P s] by blast

lemma slug_form_strip:
  assumes "list_all (\<lambda>c. slug_char c \<or> c = CHR ''-'') s" and "single_dashes s"
  shows "slug_form (strip_dashes s)"
proof -
  let ?P = "\<lambda>c. c = CHR ''-''"
  let ?d = "dropWhile ?P s"
  let ?e = "dropWhile ?P (rev ?d)"
  have "set (strip_dashes s) \<subseteq> set s"
    unfolding strip_dashes_def by (auto dest!: set_dropWhileD)
  moreover have "single_dashes (strip_dashes s)"
    unfolding strip_dashes_def using assms(2) by (simp add: single_dashes_dropWhile)
  moreover have "?e = [] \<or> \<not> ?P (hd ?e)" by (rule hd_dropWhile_not)
  moreover have "?e = [] \<or> \<not> ?P (last ?e)"
    using hd_dropWhile_not [of ?P s] by (intro dropWhile_ends) (auto simp: last_rev)
  ultimately show ?thesis
    using assms(1) unfolding slug_form_def strip_dashes_def
    by (auto simp: list_all_iff hd_rev last_rev)
qed

lemma collapse_id: "\<forall>c\<in>set s. slug_sep c \<longrightarrow> c = CHR ''-'' \<Longrightarrow> single_dashes s \<Longrightarrow> collapse s = s"
proof (induction s rule: collapse.induct)
  case (2 c cs)
  show ?case
  proof (cases "slug_sep c")
    case True
    then have c: "c = CHR ''-''" using "2.prems" by auto
    have "dropWhile slug_sep cs = cs"
      using "2.prems" c by (cases cs) (auto simp: single_dashes_def slug_sep_def)
    moreover have "single_dashes cs" using "2.prems"(2) by (cases cs) (auto simp: single_dashes_def)
    ultimately have "collapse (dropWhile slug_sep cs) = dropWhile slug_sep cs"
      using "2.prems"(1) by (intro "2.IH"(1) [OF True]) auto
    then show ?thesis using True c \<open>dropWhile slug_sep cs = cs\<close> by simp
  next
    case False
    have "single_dashes cs" using "2.prems"(2) by (cases cs) (auto simp: single_dashes_def)
    then have "collapse cs = cs" using "2.prems"(1) by (intro "2.IH"(2) [OF False]) auto
    then show ?thesis using False by simp
  qed
qed simp

lemma dropWhile_id: "s = [] \<or> \<not> P (hd s) \<Longrightarrow> dropWhile P s = s"
  by (cases s) auto

lemma slug_form_fixed:
  assumes "slug_form s"
  shows "slugify s = s"
proof -
  have chars: "\<forall>c\<in>set s. slug_char c \<or> c = CHR ''-''" using assms by (simp add: slug_form_def list_all_iff)
  have "str_lower s = s"
    unfolding str_lower_def using chars slug_char_facts(1) by (simp add: map_idI)
  moreover have "str_strip s = s"
    unfolding str_strip_def using chars slug_char_facts(2)
    by (cases "s = []") (simp_all add: dropWhile_id hd_rev)
  moreover have "filter slug_keep s = s" using chars slug_char_facts(3) by (simp add: filter_id_conv)
  moreover have "collapse s = s"
    using chars slug_char_facts(4) assms by (intro collapse_id) (auto simp: slug_form_def)
  moreover have "strip_dashes s = s"
    using assms unfolding strip_dashes_def slug_form_def by (cases "s = []") (auto simp: dropWhile_id hd_rev)
  ultimately show ?thesis by (simp add: slugify_def)
qed

lemma slugify_form: "slug_form (slugify s)"
proof -
  let ?f = "filter slug_keep (str_strip (str_lower s))"
  have "set (str_strip (str_lower s)) \<subseteq> char_lower ` set s"
    unfolding str_strip_def str_lower_def by (auto dest!: set_dropWhileD)
  then have "\<forall>c\<in>set ?f. slug_sep c \<or> slug_char c" using char_lower_word by auto
  then show ?thesis
    unfolding slugify_def using collapse_chars collapse_single by (intro slug_form_strip) blast+
qed

lemma slugify_text_eq: "slugify_text s = (if slugify s = [] then ''project'' else slugify s)"
  by (simp add: slugify_text_def slugify_def Let_def)

lemma slugify_text_form: "slug_form (slugify_text s)" "slugify_text s \<noteq> []"
proof -
  have "slug_form ''project''" by code_simp
  then show "slug_form (slugify_text s)" using slugify_form by (simp add: slugify_text_eq)
  show "slugify_text s \<noteq> []" by (simp add: slugify_text_eq)
qed

lemma slugify_text_idem: "slugify_text (slugify_text s) = slugify_text s"
  using slug_form_fixed [OF slugify_text_form(1)] slugify_text_form(2)
  by (simp add: slugify_text_eq [of "slugify_text s"])

end
