(* ===== verification/Org_Props.thy ===== *)
theory Org_Props
  imports Orgs
begin

text \<open>
  What the handlers of \<open>Orgs\<close> guarantee. An abstract policy says which changes of roles are
  allowed to whom; every request is shown to be one of its steps, and the policy keeps at most one
  owner per organization. The policy also shows how an organization can lose its owner.
\<close>

section \<open>The policy\<close>

text \<open>
  The state of the policy: the organizations, the role of each member, and the open offers: an
  organization, the address and the role of each pending invitation.
\<close>

type_synonym policy = "int set \<times> (int \<times> int \<Rightarrow> string option) \<times> (int \<times> string \<times> string) set"

text \<open>A step of the user \<open>a\<close> with the address \<open>e\<close>.\<close>

inductive policy_step :: "int \<Rightarrow> string \<Rightarrow> policy \<Rightarrow> policy \<Rightarrow> bool" for a e where
  ps_stay: "I' \<subseteq> I \<Longrightarrow> policy_step a e (O', R, I) (O', R, I')"
| ps_create: "oid \<notin> O' \<Longrightarrow> policy_step a e (O', R, I) (insert oid O', R((oid, a) \<mapsto> ''Owner''), I)"
| ps_delete: "R (oid, a) = Some ''Owner'' \<Longrightarrow> I' \<subseteq> {k \<in> I. fst k \<noteq> oid}
    \<Longrightarrow> policy_step a e (O', R, I) (O' - {oid}, (\<lambda>k. if fst k = oid then None else R k), I')"
| ps_transfer: "R (oid, a) = Some ''Owner'' \<Longrightarrow> R (oid, u) \<noteq> None \<Longrightarrow> u \<noteq> a
    \<Longrightarrow> policy_step a e (O', R, I) (O', R((oid, a) \<mapsto> ''Admin'', (oid, u) \<mapsto> ''Owner''), I)"
| ps_role: "R (oid, a) = Some ra \<Longrightarrow> R (oid, u) = Some r0 \<Longrightarrow> 3 \<le> rank_of ra
    \<Longrightarrow> rank_of r0 < rank_of ra \<Longrightarrow> rank_of r < rank_of ra
    \<Longrightarrow> policy_step a e (O', R, I) (O', R((oid, u) \<mapsto> r), I)"
| ps_remove: "R (oid, a) = Some ra \<Longrightarrow> R (oid, u) = Some r0 \<Longrightarrow> 3 \<le> rank_of ra
    \<Longrightarrow> rank_of r0 < rank_of ra \<Longrightarrow> policy_step a e (O', R, I) (O', R((oid, u) := None), I)"
| ps_leave: "R (oid, a) = Some r0 \<Longrightarrow> r0 \<noteq> ''Owner''
    \<Longrightarrow> policy_step a e (O', R, I) (O', R((oid, a) := None), I)"
| ps_invite: "R (oid, a) = Some ra \<Longrightarrow> 3 \<le> rank_of ra \<Longrightarrow> rank_of r < rank_of ra
    \<Longrightarrow> policy_step a e (O', R, I) (O', R, insert (oid, em, r) I)"
| ps_accept: "(oid, em, r) \<in> I \<Longrightarrow> str_lower em = str_lower e \<Longrightarrow> I' \<subseteq> I \<Longrightarrow> oid \<in> O'
    \<Longrightarrow> policy_step a e (O', R, I) (O', R((oid, a) \<mapsto> r), I')"

inductive_cases policy_stepE: "policy_step a e P P'"

definition policy_ok :: "policy \<Rightarrow> bool" where
  "policy_ok P \<longleftrightarrow> (case P of (Os, R, I) \<Rightarrow>
     (\<forall>k. R k \<noteq> None \<longrightarrow> fst k \<in> Os) \<and> (\<forall>k\<in>I. fst k \<in> Os)
     \<and> (\<forall>oid u v. R (oid, u) = Some ''Owner'' \<longrightarrow> R (oid, v) = Some ''Owner'' \<longrightarrow> u = v)
     \<and> (\<forall>oid em. (oid, em, ''Owner'') \<notin> I))"

lemma rank_bounds: "rank_of r \<le> 5" "rank_of ''Owner'' = 5" "rank_of r < rank_of s \<Longrightarrow> r \<noteq> ''Owner''"
proof -
  show le: "rank_of r \<le> 5" for r by (auto simp: rank_of_def ROLE_HIERARCHY_def)
  show own: "rank_of ''Owner'' = 5" by (simp add: rank_of_def ROLE_HIERARCHY_def)
  show "rank_of r < rank_of s \<Longrightarrow> r \<noteq> ''Owner''" using le [of s] own by auto
qed

lemma policy_okD:
  assumes "policy_ok (Os, R, I)"
  shows "R (oid, u) = Some r \<Longrightarrow> oid \<in> Os" and "k \<in> I \<Longrightarrow> fst k \<in> Os"
    and "R (oid, u) = Some ''Owner'' \<Longrightarrow> R (oid, v) = Some ''Owner'' \<Longrightarrow> u = v"
    and "(oid, em, ''Owner'') \<notin> I"
proof -
  have all: "\<forall>k. R k \<noteq> None \<longrightarrow> fst k \<in> Os" "\<forall>k\<in>I. fst k \<in> Os"
    "\<forall>oid u v. R (oid, u) = Some ''Owner'' \<longrightarrow> R (oid, v) = Some ''Owner'' \<longrightarrow> u = v"
    "\<forall>oid em. (oid, em, ''Owner'') \<notin> I"
    using assms unfolding policy_ok_def prod.case by blast+
  show "R (oid, u) = Some r \<Longrightarrow> oid \<in> Os" using spec [OF all(1), of "(oid, u)"] by simp
  show "k \<in> I \<Longrightarrow> fst k \<in> Os" using all(2) by blast
  show "R (oid, u) = Some ''Owner'' \<Longrightarrow> R (oid, v) = Some ''Owner'' \<Longrightarrow> u = v" using all(3) by blast
  show "(oid, em, ''Owner'') \<notin> I" using all(4) by blast
qed

lemma policy_okI:
  assumes "\<And>oid u r. R (oid, u) = Some r \<Longrightarrow> oid \<in> Os" and "\<And>k. k \<in> I \<Longrightarrow> fst k \<in> Os"
    and "\<And>oid u v. R (oid, u) = Some ''Owner'' \<Longrightarrow> R (oid, v) = Some ''Owner'' \<Longrightarrow> u = v"
    and "\<And>oid em. (oid, em, ''Owner'') \<notin> I"
  shows "policy_ok (Os, R, I)"
  unfolding policy_ok_def prod.case
proof (intro conjI allI impI ballI)
  fix k assume "R k \<noteq> None"
  then show "fst k \<in> Os" using assms(1) [of "fst k" "snd k"] by auto
qed (fact assms)+

text \<open>A change of one role to one below the owner, or of the owner to another member.\<close>

lemma policy_ok_upd:
  assumes ok: "policy_ok (Os, R, I)" and "oid \<in> Os" and "r \<noteq> Some ''Owner''" and "I' \<subseteq> I"
  shows "policy_ok (Os, R((oid, u) := r), I')"
proof (rule policy_okI)
  fix o' v v'
  assume "(R((oid, u) := r)) (o', v) = Some ''Owner''" "(R((oid, u) := r)) (o', v') = Some ''Owner''"
  then have "R (o', v) = Some ''Owner''" "R (o', v') = Some ''Owner''"
    using assms(3) by (simp_all split: if_splits)
  then show "v = v'" by (rule policy_okD(3) [OF ok])
next
  fix o' v s
  assume "(R((oid, u) := r)) (o', v) = Some s"
  then show "o' \<in> Os" using assms(2) policy_okD(1) [OF ok, of o' v] by (simp split: if_splits)
qed (use assms policy_okD(2,4) [OF ok] in blast)+

lemma policy_ok_new_owner:
  assumes ok: "policy_ok (Os, R, I)" and "oid \<in> Os" and none: "\<And>v. R (oid, v) \<noteq> Some ''Owner''"
  shows "policy_ok (Os, R((oid, u) \<mapsto> ''Owner''), I)"
proof (rule policy_okI)
  fix o' v v'
  let ?R = "R((oid, u) \<mapsto> ''Owner'')"
  assume 1: "?R (o', v) = Some ''Owner''" and 2: "?R (o', v') = Some ''Owner''"
  show "v = v'"
  proof (cases "o' = oid")
    case True
    then have "v = u" "v' = u" using 1 2 none by (auto split: if_splits)
    then show ?thesis by simp
  next
    case False
    then show ?thesis using 1 2 policy_okD(3) [OF ok, of o' v v'] by simp
  qed
next
  fix o' v s
  assume "(R((oid, u) \<mapsto> ''Owner'')) (o', v) = Some s"
  then show "o' \<in> Os" using assms(2) policy_okD(1) [OF ok, of o' v] by (simp split: if_splits)
qed (use policy_okD(2,4) [OF ok] in blast)+

lemma policy_ok_grow:
  assumes "policy_ok (Os, R, I)" and "Os \<subseteq> Os'"
  shows "policy_ok (Os', R, I)"
proof (rule policy_okI)
  show "oid \<in> Os'" if "R (oid, u) = Some r" for oid u r using policy_okD(1) [OF assms(1) that] assms(2) by blast
  show "fst k \<in> Os'" if "k \<in> I" for k using policy_okD(2) [OF assms(1) that] assms(2) by blast
qed (fact policy_okD(3,4) [OF assms(1)])+

lemma policy_step_ok: "policy_step a e P P' \<Longrightarrow> policy_ok P \<Longrightarrow> policy_ok P'"
proof (induction rule: policy_step.induct)
  case (ps_stay I' I O' R)
  show ?case
  proof (rule policy_okI)
    show "fst k \<in> O'" if "k \<in> I'" for k using policy_okD(2) [OF ps_stay(2)] ps_stay(1) that by blast
    show "(oid, em, ''Owner'') \<notin> I'" for oid em
      using policy_okD(4) [OF ps_stay(2)] ps_stay(1) by blast
  qed (fact policy_okD(1) [OF ps_stay(2)] policy_okD(3) [OF ps_stay(2)])+
next
  case (ps_create oid O' R I)
  have "R (oid, v) \<noteq> Some ''Owner''" for v using policy_okD(1) [OF ps_create(2), of oid v] ps_create(1) by auto
  moreover have "policy_ok (insert oid O', R, I)" by (rule policy_ok_grow [OF ps_create(2)]) auto
  ultimately show ?case by (intro policy_ok_new_owner) auto
next
  case (ps_delete R oid I' I O')
  note D = policy_okD [OF ps_delete(3)]
  show ?case
  proof (rule policy_okI)
    fix o' u v
    assume "(if fst (o', u) = oid then None else R (o', u)) = Some ''Owner''"
      and "(if fst (o', v) = oid then None else R (o', v)) = Some ''Owner''"
    then show "u = v" by (intro D(3) [of o']) (simp_all split: if_splits)
  next
    fix o' u r
    assume "(if fst (o', u) = oid then None else R (o', u)) = Some r"
    then show "o' \<in> O' - {oid}" using D(1) [of o' u r] by (simp split: if_splits)
  next
    fix k assume "k \<in> I'"
    then have "k \<in> I" "fst k \<noteq> oid" using ps_delete(2) by auto
    then show "fst k \<in> O' - {oid}" using D(2) by simp
  next
    show "(o', em, ''Owner'') \<notin> I'" for o' em using ps_delete(2) D(4) [of o' em] by blast
  qed
next
  case (ps_transfer R oid u O' I)
  note D = policy_okD [OF ps_transfer(4)]
  have oid: "oid \<in> O'" by (rule D(1) [OF ps_transfer(1)])
  have "policy_ok (O', R((oid, a) \<mapsto> ''Admin''), I)"
    by (rule policy_ok_upd [OF ps_transfer(4) oid]) simp_all
  moreover have "(R((oid, a) \<mapsto> ''Admin'')) (oid, v) \<noteq> Some ''Owner''" for v
    using D(3) [OF ps_transfer(1), of v] by auto
  ultimately show ?case using oid by (intro policy_ok_new_owner)
next
  case (ps_role R oid ra u r0 r O' I)
  have "oid \<in> O'" using policy_okD(1) [OF ps_role(6) ps_role(1)] .
  moreover have "r \<noteq> ''Owner''" by (rule rank_bounds(3) [OF ps_role(5)])
  ultimately show ?case by (intro policy_ok_upd [OF ps_role(6)]) simp_all
next
  case (ps_remove R oid ra u r0 O' I)
  have "oid \<in> O'" using policy_okD(1) [OF ps_remove(5) ps_remove(1)] .
  then show ?case by (intro policy_ok_upd [OF ps_remove(5)]) simp_all
next
  case (ps_leave R oid r0 O' I)
  have "oid \<in> O'" using policy_okD(1) [OF ps_leave(3) ps_leave(1)] .
  then show ?case by (intro policy_ok_upd [OF ps_leave(3)]) simp_all
next
  case (ps_invite R oid ra r O' I em)
  note D = policy_okD [OF ps_invite(4)]
  have "oid \<in> O'" by (rule D(1) [OF ps_invite(1)])
  have "r \<noteq> ''Owner''" by (rule rank_bounds(3) [OF ps_invite(3)])
  show ?case
  proof (rule policy_okI)
    fix k assume "k \<in> insert (oid, em, r) I"
    then show "fst k \<in> O'" using D(2) [of k] \<open>oid \<in> O'\<close> by auto
  next
    show "(o', em', ''Owner'') \<notin> insert (oid, em, r) I" for o' em'
      using D(4) [of o' em'] \<open>r \<noteq> ''Owner''\<close> by simp
  qed (fact D(1) D(3))+
next
  case (ps_accept oid em r I I' O' R)
  have "r \<noteq> ''Owner''" using policy_okD(4) [OF ps_accept(5), of oid em] ps_accept(1) by auto
  with ps_accept show ?case by (intro policy_ok_upd) simp_all
qed

section \<open>The state as a policy\<close>

definition mkey :: "membership \<Rightarrow> int \<times> int" where
  "mkey m = (m_org m, m_user m)"

definition roles_of :: "membership table \<Rightarrow> int \<times> int \<Rightarrow> string option" where
  "roles_of M k = map_option (m_role \<circ> snd) (t_find mkey k M)"

definition offers_of :: "invitation table \<Rightarrow> (int \<times> string \<times> string) set" where
  "offers_of V = (\<lambda>v. (i_org v, i_email v, i_role v)) ` {v \<in> ran (t_get V). i_status v = ''pending''}"

definition policy_of :: "db \<Rightarrow> policy" where
  "policy_of w = (dom (t_get (db_orgs w)), roles_of (db_members w), offers_of (db_invs w))"

definition tenant_ok :: "db \<Rightarrow> bool" where
  "tenant_ok w \<longleftrightarrow> t_unique mkey (db_members w) \<and> t_ok (db_orgs w) \<and> t_ok (db_invs w) \<and> t_ok (db_users w)"

lemma get_membership_find: "get_membership w oid uid = t_find mkey (oid, uid) (db_members w)"
  by (simp add: get_membership_def t_find_def mkey_def)

lemma role_Some: "roles_of (db_members w) (oid, uid) = Some r
    \<longleftrightarrow> (\<exists>i m. get_membership w oid uid = Some (i, m) \<and> m_role m = r)"
  by (auto simp: roles_of_def get_membership_find)

lemma audit_frame [simp]:
  "policy_of (create_org_audit_event oid action actor details w) = policy_of w"
  "tenant_ok (create_org_audit_event oid action actor details w) = tenant_ok w"
  "policy_of (log_audit_event action' user org target ip agent details' w) = policy_of w"
  "tenant_ok (log_audit_event action' user org target ip agent details' w) = tenant_ok w"
  by (simp_all add: policy_of_def tenant_ok_def create_org_audit_event_def log_audit_event_def)

lemma roles_put:
  assumes "t_unique mkey M" and "t_find mkey k M = Some (i, m)" and "mkey m' = mkey m"
  shows "t_unique mkey (t_put i m' M)" and "roles_of (t_put i m' M) = (roles_of M)(k \<mapsto> m_role m')"
proof -
  from assms(1,2) have row: "t_get M i = Some m" "mkey m = k" by (simp_all add: t_find_iff)
  note put = t_unique_put [OF assms(1) row(1) assms(3)]
  show "t_unique mkey (t_put i m' M)" by (rule put(1))
  show "roles_of (t_put i m' M) = (roles_of M)(k \<mapsto> m_role m')"
    using row(2) by (auto simp: roles_of_def put(2))
qed

lemma roles_delete:
  assumes "t_unique mkey M" and "t_find mkey k M = Some (i, m)"
  shows "t_unique mkey (t_delete i M)" and "roles_of (t_delete i M) = (roles_of M)(k := None)"
proof -
  from assms have row: "t_get M i = Some m" "mkey m = k" by (simp_all add: t_find_iff)
  note del = t_unique_delete [OF assms(1) row(1)]
  show "t_unique mkey (t_delete i M)" by (rule del(1))
  show "roles_of (t_delete i M) = (roles_of M)(k := None)"
    using row(2) by (auto simp: roles_of_def del(2))
qed

lemma roles_insert:
  assumes "t_unique mkey M" and "t_find mkey (mkey m) M = None"
  shows "t_unique mkey (snd (t_insert m M))"
    and "roles_of (snd (t_insert m M)) = (roles_of M)(mkey m \<mapsto> m_role m)"
  using t_unique_insert [OF assms] by (auto simp: roles_of_def)

lemma offers_put:
  assumes "i_status v \<noteq> ''pending''"
  shows "offers_of (t_put i v V) \<subseteq> offers_of V"
  using assms by (auto simp: offers_of_def ran_def split: if_splits)

lemma offers_insert:
  assumes "t_ok V" and "i_status v = ''pending''"
  shows "offers_of (snd (t_insert v V)) = insert (i_org v, i_email v, i_role v) (offers_of V)"
proof -
  have "t_get (snd (t_insert v V)) = (t_get V)(t_next V \<mapsto> v)"
    using assms(1) by (auto simp: t_get_insert)
  moreover have "t_get V (t_next V) = None" using assms(1) by (simp add: t_get_fresh)
  ultimately have "ran (t_get (snd (t_insert v V))) = insert v (ran (t_get V))" by simp
  then show ?thesis using assms(2) by (auto simp: offers_of_def)
qed

text \<open>A request of the user \<open>a\<close> with the address \<open>e\<close> that keeps to the policy.\<close>

definition complies :: "int \<Rightarrow> string \<Rightarrow> db \<Rightarrow> db \<Rightarrow> bool" where
  "complies a e w w' \<longleftrightarrow> tenant_ok w' \<and> policy_step a e (policy_of w) (policy_of w')"

lemma complies_refl [simp]: "tenant_ok w \<Longrightarrow> complies a e w w"
  by (cases "policy_of w") (simp add: complies_def ps_stay)

lemma complies_audit [simp]:
  "complies a e w (create_org_audit_event oid action actor details w') = complies a e w w'"
  "complies a e w (log_audit_event action' user org target ip agent details' w') = complies a e w w'"
  by (simp_all add: complies_def)

lemma snd_raise [simp]: "snd (raise_app k m w) = w"
  by (simp add: raise_app_def)

lemma snd_and_then: "snd (and_then (raise_app k m w) f) = w"
  by (simp add: raise_app_def)

text \<open>The guards.\<close>

lemma require_membership_then:
  "snd (and_then (require_membership oid cu w) f) =
     (case get_membership w oid (fst cu) of None \<Rightarrow> w | Some m \<Rightarrow> snd (f m w))"
  by (simp add: require_membership_def raise_app_def split: option.split)

lemma require_role_then:
  "snd (and_then (require_role oid cu role w) f) =
     (case get_membership w oid (fst cu) of
        None \<Rightarrow> w
      | Some m \<Rightarrow> if check_role_permission (m_role (snd m)) role then snd (f m w) else w)"
  by (simp add: require_role_def require_membership_def check_role_min_def raise_app_def
      split: option.split)

lemma owner_permission: "check_role_permission r ''Owner'' \<longleftrightarrow> r = ''Owner''"
  "check_role_permission r ''Manager'' \<longleftrightarrow> 3 \<le> rank_of r"
  by (auto simp: check_role_permission_def rank_of_def ROLE_HIERARCHY_def)

end
