(* ===== verification/Asset_Props.thy ===== *)
theory Asset_Props
  imports Crawls Slugs Org_Props
begin

text \<open>
  What an organization owns: its projects, their websites, the crawls of these and their pages and
  issues. The relation \<open>asset_step\<close> is the abstract specification of one request on them, made in
  one organization by a member of it; the invariants are proved for its steps.
\<close>

section \<open>The assets\<close>

text \<open>
  The tables that matter: those of the people and those of the assets, not the two logs; with the
  assets, whether the database enforces its foreign keys.
\<close>

definition people :: "db \<Rightarrow> user table \<times> organization table \<times> membership table \<times> invitation table" where
  "people w = (db_users w, db_orgs w, db_members w, db_invs w)"

definition assets :: "db \<Rightarrow> bool \<times> project table \<times> website table \<times> crawl_job table \<times> crawl_page table
    \<times> crawl_issue table" where
  "assets w = (db_fk w, db_projects w, db_sites w, db_crawls w, db_pages w, db_issues w)"

definition core where "core w = (people w, assets w)"

lemmas core_defs = core_def people_def assets_def

definition pkey :: "project \<Rightarrow> int \<times> string" where
  "pkey p = (p_org p, p_slug p)"

definition skey :: "website \<Rightarrow> int option \<times> string" where
  "skey s = (w_org s, w_norm s)"

definition good_slug :: "project \<Rightarrow> bool" where
  "good_slug p \<longleftrightarrow> slug_form (p_slug p) \<and> p_slug p \<noteq> []"

text \<open>
  What a deletion of websites takes with it, stated on the rows: the crawls of the websites, the pages
  of these crawls, the issues of these crawls and the issues of any crawl that name such a page.
\<close>

definition page_under :: "(int \<Rightarrow> bool) \<Rightarrow> db \<Rightarrow> int \<Rightarrow> bool" where
  "page_under K w i \<longleftrightarrow> (\<exists>p c. t_get (db_pages w) i = Some p \<and> t_get (db_crawls w) (cp_job p) = Some c
     \<and> K (cj_website c))"

definition issue_under :: "(int \<Rightarrow> bool) \<Rightarrow> db \<Rightarrow> crawl_issue \<Rightarrow> bool" where
  "issue_under K w s \<longleftrightarrow> (\<exists>c. t_get (db_crawls w) (ci_job s) = Some c \<and> K (cj_website c))
     \<or> (\<exists>i. ci_page s = Some i \<and> page_under K w i)"

definition without_sites :: "(int \<Rightarrow> bool) \<Rightarrow> db \<Rightarrow> db" where
  "without_sites K w = w\<lparr>db_sites := t_delete_where (\<lambda>i _. K i) (db_sites w),
     db_crawls := t_delete_where (\<lambda>_ c. K (cj_website c)) (db_crawls w),
     db_pages := t_delete_where (\<lambda>i _. page_under K w i) (db_pages w),
     db_issues := t_delete_where (\<lambda>_ s. issue_under K w s) (db_issues w)\<rparr>"

definition of_project :: "int \<Rightarrow> db \<Rightarrow> int \<Rightarrow> bool" where
  "of_project pid w i \<longleftrightarrow> (\<exists>s. t_get (db_sites w) i = Some s \<and> w_project s = Some pid)"

inductive asset_step :: "int \<Rightarrow> string \<Rightarrow> db \<Rightarrow> db \<Rightarrow> bool" for oid :: int and role :: string where
  as_new_project: "2 \<le> rank_of role \<Longrightarrow> p_org p = oid \<Longrightarrow> good_slug p
    \<Longrightarrow> t_find pkey (pkey p) (db_projects w) = None \<Longrightarrow> t_get (db_orgs w) oid \<noteq> None
    \<Longrightarrow> core w' = core (w\<lparr>db_projects := snd (t_insert p (db_projects w))\<rparr>)
    \<Longrightarrow> asset_step oid role w w'"
| as_put_project: "2 \<le> rank_of role \<Longrightarrow> t_get (db_projects w) i = Some p \<Longrightarrow> p_org p = oid
    \<Longrightarrow> p_org p' = oid \<Longrightarrow> good_slug p'
    \<Longrightarrow> (\<And>j q. t_get (db_projects w) j = Some q \<Longrightarrow> pkey q = pkey p' \<Longrightarrow> j = i)
    \<Longrightarrow> core w' = core (w\<lparr>db_projects := t_put i p' (db_projects w)\<rparr>)
    \<Longrightarrow> asset_step oid role w w'"
| as_delete_project: "4 \<le> rank_of role \<Longrightarrow> t_get (db_projects w) i = Some p \<Longrightarrow> p_org p = oid
    \<Longrightarrow> core w' = core ((without_sites (of_project i w) w)\<lparr>db_projects := t_delete i (db_projects w)\<rparr>)
    \<Longrightarrow> asset_step oid role w w'"
| as_new_site: "2 \<le> rank_of role \<Longrightarrow> t_get (db_projects w) pid = Some p \<Longrightarrow> p_org p = oid
    \<Longrightarrow> w_project s = Some pid \<Longrightarrow> w_org s = Some oid \<Longrightarrow> t_find skey (skey s) (db_sites w) = None
    \<Longrightarrow> core w' = core (w\<lparr>db_sites := snd (t_insert s (db_sites w))\<rparr>)
    \<Longrightarrow> asset_step oid role w w'"
| as_put_site: "2 \<le> rank_of role \<Longrightarrow> t_get (db_sites w) i = Some s \<Longrightarrow> w_org s = Some oid
    \<Longrightarrow> w_org s' = w_org s \<Longrightarrow> w_project s' = w_project s
    \<Longrightarrow> (\<And>j q. t_get (db_sites w) j = Some q \<Longrightarrow> skey q = skey s' \<Longrightarrow> j = i)
    \<Longrightarrow> core w' = core (w\<lparr>db_sites := t_put i s' (db_sites w)\<rparr>)
    \<Longrightarrow> asset_step oid role w w'"
| as_delete_site: "4 \<le> rank_of role \<Longrightarrow> t_get (db_sites w) i = Some s \<Longrightarrow> w_org s = Some oid
    \<Longrightarrow> core w' = core (without_sites (\<lambda>k. k = i) w) \<Longrightarrow> asset_step oid role w w'"
| as_new_crawl: "2 \<le> rank_of role \<Longrightarrow> t_get (db_sites w) (cj_website c) = Some s \<Longrightarrow> w_org s = Some oid
    \<Longrightarrow> core w' = core (w\<lparr>db_crawls := snd (t_insert c (db_crawls w))\<rparr>)
    \<Longrightarrow> asset_step oid role w w'"
| as_put_crawl: "2 \<le> rank_of role \<Longrightarrow> t_get (db_crawls w) i = Some c
    \<Longrightarrow> t_get (db_sites w) (cj_website c) = Some s \<Longrightarrow> w_org s = Some oid \<Longrightarrow> cj_website c' = cj_website c
    \<Longrightarrow> core w' = core (w\<lparr>db_crawls := t_put i c' (db_crawls w)\<rparr>)
    \<Longrightarrow> asset_step oid role w w'"
| as_new_page: "2 \<le> rank_of role \<Longrightarrow> t_get (db_crawls w) i = Some c
    \<Longrightarrow> t_get (db_sites w) (cj_website c) = Some s \<Longrightarrow> w_org s = Some oid \<Longrightarrow> cj_website c' = cj_website c
    \<Longrightarrow> cp_job g = i
    \<Longrightarrow> core w' = core (w\<lparr>db_pages := snd (t_insert g (db_pages w)), db_crawls := t_put i c' (db_crawls w)\<rparr>)
    \<Longrightarrow> asset_step oid role w w'"
| as_new_issue: "2 \<le> rank_of role \<Longrightarrow> t_get (db_crawls w) i = Some c
    \<Longrightarrow> t_get (db_sites w) (cj_website c) = Some s \<Longrightarrow> w_org s = Some oid \<Longrightarrow> cj_website c' = cj_website c
    \<Longrightarrow> ci_job g = i \<Longrightarrow> (\<And>p. db_fk w \<Longrightarrow> ci_page g = Some p \<Longrightarrow> t_get (db_pages w) p \<noteq> None)
    \<Longrightarrow> core w' = core (w\<lparr>db_issues := snd (t_insert g (db_issues w)), db_crawls := t_put i c' (db_crawls w)\<rparr>)
    \<Longrightarrow> asset_step oid role w w'"

section \<open>Invariants\<close>

text \<open>
  Unique keys, slugs in canonical form, and every row below a row that exists: a website belongs to
  a project of its own organization, a crawl to a website, a page or an issue to a crawl. A database
  that enforces foreign keys has the page that an issue names.
\<close>

definition projects_ok :: "organization table \<Rightarrow> project table \<Rightarrow> bool" where
  "projects_ok Og P \<longleftrightarrow> t_unique pkey P \<and> 0 < t_next P
     \<and> (\<forall>i p. t_get P i = Some p \<longrightarrow> 0 < i \<and> good_slug p \<and> t_get Og (p_org p) \<noteq> None)"

definition sites_ok :: "project table \<Rightarrow> website table \<Rightarrow> bool" where
  "sites_ok P S \<longleftrightarrow> t_unique skey S
     \<and> (\<forall>i s. t_get S i = Some s \<longrightarrow>
          (\<exists>pid p. w_project s = Some pid \<and> t_get P pid = Some p \<and> w_org s = Some (p_org p)))"

definition below_ok :: "('b \<Rightarrow> int) \<Rightarrow> 'a table \<Rightarrow> 'b table \<Rightarrow> bool" where
  "below_ok parent T U \<longleftrightarrow> t_ok T \<and> t_ok U \<and> (\<forall>i u. t_get U i = Some u \<longrightarrow> t_get T (parent u) \<noteq> None)"

definition issue_pages :: "crawl_page table \<Rightarrow> crawl_issue table \<Rightarrow> bool" where
  "issue_pages G I \<longleftrightarrow> (\<forall>i s p. t_get I i = Some s \<longrightarrow> ci_page s = Some p \<longrightarrow> t_get G p \<noteq> None)"

definition assets_ok :: "db \<Rightarrow> bool" where
  "assets_ok w \<longleftrightarrow> projects_ok (db_orgs w) (db_projects w) \<and> sites_ok (db_projects w) (db_sites w)
     \<and> below_ok cj_website (db_sites w) (db_crawls w) \<and> below_ok cp_job (db_crawls w) (db_pages w)
     \<and> below_ok ci_job (db_crawls w) (db_issues w) \<and> (db_fk w \<longrightarrow> issue_pages (db_pages w) (db_issues w))"

lemma assets_ok_core: "assets_ok w \<Longrightarrow> core w' = core w \<Longrightarrow> assets_ok w'"
  by (simp add: core_defs assets_ok_def)

lemma projects_okD:
  assumes "projects_ok Og P"
  shows "t_unique pkey P" and "t_ok P" and "0 < t_next P"
    and "t_get P i = Some p \<Longrightarrow> 0 < i" and "t_get P i = Some p \<Longrightarrow> good_slug p"
    and "t_get P i = Some p \<Longrightarrow> t_get Og (p_org p) \<noteq> None"
  using assms by (auto simp: projects_ok_def intro: t_unique_ok)

lemma sites_okD:
  assumes "sites_ok P S"
  shows "t_unique skey S" and "t_ok S"
    and "t_get S i = Some s \<Longrightarrow>
      \<exists>pid p. w_project s = Some pid \<and> t_get P pid = Some p \<and> w_org s = Some (p_org p)"
  using assms by (auto simp: sites_ok_def intro: t_unique_ok)

lemma assets_okD:
  assumes "assets_ok w"
  shows "projects_ok (db_orgs w) (db_projects w)" and "sites_ok (db_projects w) (db_sites w)"
    and "below_ok cj_website (db_sites w) (db_crawls w)" and "below_ok cp_job (db_crawls w) (db_pages w)"
    and "below_ok ci_job (db_crawls w) (db_issues w)"
    and "t_ok (db_projects w)" and "t_ok (db_sites w)" and "t_ok (db_crawls w)" and "t_ok (db_pages w)"
    and "t_ok (db_issues w)" and "db_fk w \<Longrightarrow> issue_pages (db_pages w) (db_issues w)"
  using assms by (auto simp: assets_ok_def below_ok_def dest: projects_okD(2) sites_okD(2))

lemma below_okD: "below_ok parent T U \<Longrightarrow> t_get U i = Some u \<Longrightarrow> t_get T (parent u) \<noteq> None"
  by (simp add: below_ok_def)

text \<open>One row below another: inserted, changed without moving, or deleted.\<close>

lemma below_insert:
  assumes "below_ok parent T U" and "t_get T (parent u) \<noteq> None"
  shows "below_ok parent T (snd (t_insert u U))"
  using assms unfolding below_ok_def by (simp add: t_ok_insert t_get_insert)

lemma below_put:
  assumes "below_ok parent T U" and "t_get U i = Some u" and "parent u' = parent u"
  shows "below_ok parent T (t_put i u' U)"
  using assms unfolding below_ok_def by simp

lemma below_parent_insert: "below_ok parent T U \<Longrightarrow> below_ok parent (snd (t_insert r T)) U"
  unfolding below_ok_def by (simp add: t_ok_insert t_get_insert)

lemma below_parent_put: "below_ok parent T U \<Longrightarrow> below_ok parent (t_put i r T) U"
  unfolding below_ok_def by simp

text \<open>Deleting rows with everything below them.\<close>

lemma t_where_keys: "t_ok t \<Longrightarrow> i \<in> set (map fst (t_where P t)) \<longleftrightarrow> (\<exists>r. t_get t i = Some r \<and> P i r)"
proof -
  assume ok: "t_ok t"
  have "i \<in> set (map fst (t_where P t)) \<longleftrightarrow> (\<exists>r. (i, r) \<in> set (t_where P t))" by force
  then show ?thesis by (simp only: t_where_iff [OF ok])
qed

lemma filtered_get: "t_ok t \<Longrightarrow> t_get (t_delete_where P t) i = Some r \<longleftrightarrow> t_get t i = Some r \<and> \<not> P i r"
  by (auto split: option.splits if_splits)

lemma t_delete_where_cong:
  assumes "t_ok t" and "\<And>i r. t_get t i = Some r \<Longrightarrow> P i r = Q i r"
  shows "t_delete_where P t = t_delete_where Q t"
proof -
  have "filter (\<lambda>(k, v). \<not> P k v) (t_rows t) = filter (\<lambda>(k, v). \<not> Q k v) (t_rows t)"
    using assms by (intro filter_cong) (auto simp: t_ok_def t_get_def)
  then show ?thesis by (simp add: t_delete_where_def)
qed

lemma below_delete:
  assumes "below_ok parent T U" and "\<And>i u r. t_get T (parent u) = Some r \<Longrightarrow> P (parent u) r \<Longrightarrow> t_get U i = Some u \<Longrightarrow> D i u"
  shows "below_ok parent (t_delete_where P T) (t_delete_where D U)"
proof -
  have ok: "t_ok T" "t_ok U" using assms(1) by (simp_all add: below_ok_def)
  have "t_get (t_delete_where P T) (parent u) \<noteq> None" if "t_get (t_delete_where D U) i = Some u" for i u
  proof -
    have u: "t_get U i = Some u" "\<not> D i u" using that by (simp_all add: filtered_get [OF ok(2)] del: t_get_delete_where)
    then obtain r where "t_get T (parent u) = Some r" using below_okD [OF assms(1)] by fastforce
    with u assms(2) ok(1) show ?thesis by auto
  qed
  then show ?thesis using ok by (simp add: below_ok_def)
qed

lemma below_delete_leaf:
  "below_ok parent T U \<Longrightarrow> below_ok parent T (t_delete_where P U)"
  by (fastforce simp: below_ok_def split: option.splits if_splits)

lemma delete_crawls_core:
  "db_orgs (delete_crawls P w) = db_orgs w" "db_projects (delete_crawls P w) = db_projects w"
  "db_sites (delete_crawls P w) = db_sites w" "people (delete_crawls P w) = people w"
  by (simp_all add: delete_crawls_def people_def Let_def)

lemma delete_sites_core [simp]:
  "db_orgs (delete_sites P w) = db_orgs w" "db_projects (delete_sites P w) = db_projects w"
  "people (delete_sites P w) = people w" "db_sites (delete_sites P w) = t_delete_where P (db_sites w)"
  using delete_crawls_core
  by (simp_all add: delete_sites_def people_def Let_def)

lemma without_sites_core [simp]:
  "db_orgs (without_sites K w) = db_orgs w" "db_projects (without_sites K w) = db_projects w"
  "people (without_sites K w) = people w" "db_fk (without_sites K w) = db_fk w"
  "db_sites (without_sites K w) = t_delete_where (\<lambda>i _. K i) (db_sites w)"
  by (simp_all add: without_sites_def people_def)

text \<open>The cascade of the code is that of the specification.\<close>

lemma delete_sites_rows:
  assumes "assets_ok w"
  shows "delete_sites P w = without_sites (\<lambda>i. \<exists>s. t_get (db_sites w) i = Some s \<and> P i s) w"
proof -
  note ok = assets_okD [OF assms]
  define K where "K i \<longleftrightarrow> (\<exists>s. t_get (db_sites w) i = Some s \<and> P i s)" for i
  define ids where "ids = map fst (t_where P (db_sites w))"
  define jobs where "jobs = map fst (t_where (\<lambda>i c. cj_website c \<in> set ids) (db_crawls w))"
  define pages where "pages = map fst (t_where (\<lambda>i p. cp_job p \<in> set jobs) (db_pages w))"
  have ids: "i \<in> set ids \<longleftrightarrow> K i" for i unfolding ids_def t_where_keys [OF ok(7)] K_def ..
  have jobs: "i \<in> set jobs \<longleftrightarrow> (\<exists>c. t_get (db_crawls w) i = Some c \<and> K (cj_website c))" for i
    unfolding jobs_def t_where_keys [OF ok(8)] ids ..
  have pages: "i \<in> set pages \<longleftrightarrow> page_under K w i" for i
    unfolding pages_def t_where_keys [OF ok(9)] jobs page_under_def by blast
  have "t_delete_where P (db_sites w) = t_delete_where (\<lambda>i _. K i) (db_sites w)"
    by (rule t_delete_where_cong [OF ok(7)]) (simp add: K_def)
  moreover have "t_delete_where (\<lambda>i p. cp_job p \<in> set jobs) (db_pages w) = t_delete_where (\<lambda>i _. page_under K w i) (db_pages w)"
    by (rule t_delete_where_cong [OF ok(9)]) (simp add: jobs page_under_def)
  moreover have "t_delete_where (\<lambda>i s. ci_job s \<in> set jobs \<or> (case ci_page s of None \<Rightarrow> False | Some p \<Rightarrow> p \<in> set pages))
      (db_issues w) = t_delete_where (\<lambda>_ s. issue_under K w s) (db_issues w)"
    by (rule t_delete_where_cong [OF ok(10)]) (simp add: jobs pages issue_under_def split: option.split)
  moreover have "t_delete_where (\<lambda>i c. cj_website c \<in> set ids) (db_crawls w) = t_delete_where (\<lambda>_ c. K (cj_website c)) (db_crawls w)"
    by (simp add: ids)
  ultimately show ?thesis
    unfolding delete_sites_def delete_crawls_def Let_def ids_def [symmetric] jobs_def [symmetric] pages_def [symmetric]
      without_sites_def K_def [symmetric] by simp
qed

lemma without_sites_below:
  assumes "assets_ok w"
  shows "below_ok cj_website (db_sites (without_sites K w)) (db_crawls (without_sites K w))"
    and "below_ok cp_job (db_crawls (without_sites K w)) (db_pages (without_sites K w))"
    and "below_ok ci_job (db_crawls (without_sites K w)) (db_issues (without_sites K w))"
  using assets_okD(3-5) [OF assms]
  by (auto simp: without_sites_def page_under_def issue_under_def intro!: below_delete)

lemma without_sites_pages:
  assumes "assets_ok w" and "db_fk w"
  shows "issue_pages (db_pages (without_sites K w)) (db_issues (without_sites K w))"
proof -
  note ok = assets_okD [OF assms(1)]
  have "t_get (db_pages (without_sites K w)) p \<noteq> None"
    if "t_get (db_issues (without_sites K w)) i = Some s" and p: "ci_page s = Some p" for i s p
  proof -
    have s: "t_get (db_issues w) i = Some s" "\<not> issue_under K w s"
      using that(1) by (simp_all add: without_sites_def filtered_get [OF ok(10)] del: t_get_delete_where)
    then obtain g where "t_get (db_pages w) p = Some g" using ok(11) [OF assms(2)] p by (fastforce simp: issue_pages_def)
    moreover have "\<not> page_under K w p" using s(2) p by (simp add: issue_under_def)
    ultimately show ?thesis using ok(9) by (simp add: without_sites_def)
  qed
  then show ?thesis by (simp add: issue_pages_def)
qed

lemma sites_ok_filtered: "sites_ok P S \<Longrightarrow> sites_ok P (t_delete_where Q S)"
  using sites_okD(2) [of P S]
  unfolding sites_ok_def by (auto simp: t_unique_filtered filtered_get simp del: t_get_delete_where)

lemma assets_ok_without_sites: "assets_ok w \<Longrightarrow> assets_ok (without_sites K w)"
  using without_sites_below [of w K] without_sites_pages [of w K]
    sites_ok_filtered [of "db_projects w" "db_sites w" "\<lambda>i _. K i"]
  by (simp add: assets_ok_def)

lemma assets_ok_delete_sites: "assets_ok w \<Longrightarrow> assets_ok (delete_sites P w)"
  by (simp add: delete_sites_rows assets_ok_without_sites)

lemma sites_ok_moved:
  assumes "sites_ok P S" and "\<And>i p. t_get P i = Some p \<Longrightarrow> \<exists>p'. t_get P' i = Some p' \<and> p_org p' = p_org p"
  shows "sites_ok P' S"
  using assms unfolding sites_ok_def by metis

lemma sites_ok_more: "sites_ok P S \<Longrightarrow> t_ok P \<Longrightarrow> sites_ok (snd (t_insert p P)) S"
  by (erule sites_ok_moved) (use t_get_fresh [of P "t_next P"] in \<open>auto simp: t_get_insert\<close>)

lemma sites_ok_same_org:
  "sites_ok P S \<Longrightarrow> t_get P i = Some p \<Longrightarrow> p_org p' = p_org p \<Longrightarrow> sites_ok (t_put i p' P) S"
  by (erule sites_ok_moved) auto

lemma projects_ok_insert:
  assumes "projects_ok Og P" and "good_slug p" and "t_get Og (p_org p) \<noteq> None"
    and "t_find pkey (pkey p) P = None"
  shows "projects_ok Og (snd (t_insert p P))"
proof -
  have "0 < t_next (snd (t_insert p P))" using projects_okD(3) [OF assms(1)] by (simp add: t_insert_def)
  then show ?thesis
    using assms t_unique_insert(1) [OF projects_okD(1) [OF assms(1)] assms(4)] projects_okD(2) [OF assms(1)]
    by (auto simp: projects_ok_def t_get_insert split: if_splits)
qed

lemma projects_ok_put:
  assumes "projects_ok Og P" and "t_get P i = Some p" and "p_org p' = p_org p" and "good_slug p'"
    and "\<And>j q. t_get P j = Some q \<Longrightarrow> pkey q = pkey p' \<Longrightarrow> j = i"
  shows "projects_ok Og (t_put i p' P)"
  using assms t_unique_rekey [OF projects_okD(1) [OF assms(1)] assms(5)]
  by (auto simp: projects_ok_def)

lemma projects_ok_delete: "projects_ok Og P \<Longrightarrow> projects_ok Og (t_delete i P)"
  unfolding projects_ok_def t_unique_def by (simp add: t_ok_delete)

lemma sites_ok_insert:
  assumes "sites_ok P S" and "w_project s = Some pid" and "t_get P pid = Some p"
    and "w_org s = Some (p_org p)" and "t_find skey (skey s) S = None"
  shows "sites_ok P (snd (t_insert s S))"
  using assms t_unique_insert(1) [OF sites_okD(1) [OF assms(1)] assms(5)] sites_okD(2) [OF assms(1)]
  by (auto simp: sites_ok_def t_get_insert split: if_splits)

lemma sites_ok_put:
  assumes "sites_ok P S" and "t_get S i = Some s" and "w_org s' = w_org s" and "w_project s' = w_project s"
    and "\<And>j q. t_get S j = Some q \<Longrightarrow> skey q = skey s' \<Longrightarrow> j = i"
  shows "sites_ok P (t_put i s' S)"
  using assms t_unique_rekey [OF sites_okD(1) [OF assms(1)] assms(5)]
  by (auto simp: sites_ok_def)

lemma sites_ok_project_gone:
  assumes "sites_ok P S" and "t_ok P"
  shows "sites_ok (t_delete i P) (t_delete_where (\<lambda>k s. w_project s = Some i) S)"
  using assms sites_okD(2) [OF assms(1)]
  unfolding sites_ok_def
  by (simp add: t_unique_filtered filtered_get del: t_get_delete_where) (metis option.inject)

lemma delete_project_rows:
  "assets_ok w \<Longrightarrow> delete_project_row i w = (without_sites (of_project i w) w)\<lparr>db_projects := t_delete i (db_projects w)\<rparr>"
  by (simp add: delete_project_row_def delete_sites_rows of_project_def [abs_def])

lemma delete_site_rows: "assets_ok w \<Longrightarrow> t_get (db_sites w) i = Some s \<Longrightarrow> delete_sites (\<lambda>k _. k = i) w = without_sites (\<lambda>k. k = i) w"
proof -
  assume "assets_ok w" "t_get (db_sites w) i = Some s"
  moreover from this have "(\<lambda>k. \<exists>r. t_get (db_sites w) k = Some r \<and> k = i) = (\<lambda>k. k = i)" by auto
  ultimately show ?thesis by (simp only: delete_sites_rows)
qed

lemma assets_ok_delete_project: "assets_ok w \<Longrightarrow> assets_ok (delete_project_row i w)"
  using assets_ok_delete_sites [of w "\<lambda>k s. w_project s = Some i"]
    sites_ok_project_gone [of "db_projects w" "db_sites w" i] projects_ok_delete [of "db_orgs w" "db_projects w" i]
    assets_okD(6) [of w]
  by (simp add: assets_ok_def delete_project_row_def)

lemma asset_step_ok:
  assumes "asset_step oid role w w'" and "assets_ok w"
  shows "assets_ok w'"
  using assms(1)
proof cases
  case (as_new_project p)
  note ok = assets_okD [OF assms(2)]
  have "assets_ok (w\<lparr>db_projects := snd (t_insert p (db_projects w))\<rparr>)"
    using ok as_new_project projects_ok_insert [OF ok(1), of p]
      sites_ok_more [OF ok(2,6), of p]
    by (simp add: assets_ok_def)
  then show ?thesis by (rule assets_ok_core) (fact as_new_project)
next
  case (as_put_project i p p')
  note ok = assets_okD [OF assms(2)]
  have "assets_ok (w\<lparr>db_projects := t_put i p' (db_projects w)\<rparr>)"
    using ok as_put_project projects_ok_put [OF ok(1), of i p p']
      sites_ok_same_org [OF ok(2), of i p p']
    by (auto simp: assets_ok_def)
  then show ?thesis by (rule assets_ok_core) (fact as_put_project)
next
  case (as_delete_project i p)
  show ?thesis
    using assets_ok_core [OF assets_ok_delete_project [OF assms(2), of i]] as_delete_project(4) delete_project_rows [OF assms(2)] by simp
next
  case (as_new_site pid p s)
  note ok = assets_okD [OF assms(2)]
  have "assets_ok (w\<lparr>db_sites := snd (t_insert s (db_sites w))\<rparr>)"
    using ok as_new_site sites_ok_insert [OF ok(2), of s pid p] below_parent_insert [OF ok(3)]
    by (simp add: assets_ok_def)
  then show ?thesis by (rule assets_ok_core) (fact as_new_site)
next
  case (as_put_site i s s')
  note ok = assets_okD [OF assms(2)]
  have "assets_ok (w\<lparr>db_sites := t_put i s' (db_sites w)\<rparr>)"
    using ok as_put_site(2,4,5) sites_ok_put [OF ok(2), of i s s'] as_put_site(6) below_parent_put [OF ok(3)]
    by (simp add: assets_ok_def)
  then show ?thesis by (rule assets_ok_core) (fact as_put_site)
next
  case (as_delete_site i s)
  show ?thesis by (rule assets_ok_core [OF assets_ok_without_sites [OF assms(2)]]) (fact as_delete_site)
next
  case (as_new_crawl c s)
  note ok = assets_okD [OF assms(2)]
  have "assets_ok (w\<lparr>db_crawls := snd (t_insert c (db_crawls w))\<rparr>)"
    using ok as_new_crawl below_insert [OF ok(3), of c] below_parent_insert [OF ok(4)] below_parent_insert [OF ok(5)]
    by (simp add: assets_ok_def)
  then show ?thesis by (rule assets_ok_core) (fact as_new_crawl)
next
  case (as_put_crawl i c s c')
  note ok = assets_okD [OF assms(2)]
  have "assets_ok (w\<lparr>db_crawls := t_put i c' (db_crawls w)\<rparr>)"
    using ok as_put_crawl below_put [OF ok(3), of i c c'] below_parent_put [OF ok(4)] below_parent_put [OF ok(5)]
    by (simp add: assets_ok_def)
  then show ?thesis by (rule assets_ok_core) (fact as_put_crawl)
next
  case (as_new_page i c s c' g)
  note ok = assets_okD [OF assms(2)]
  have "below_ok cp_job (t_put i c' (db_crawls w)) (snd (t_insert g (db_pages w)))"
    using as_new_page below_parent_put [OF below_insert [OF ok(4), of g]] by simp
  then have "assets_ok (w\<lparr>db_pages := snd (t_insert g (db_pages w)), db_crawls := t_put i c' (db_crawls w)\<rparr>)"
    using ok as_new_page below_put [OF ok(3), of i c c'] below_parent_put [OF ok(5)]
    by (simp add: assets_ok_def issue_pages_def t_get_insert)
  then show ?thesis by (rule assets_ok_core) (fact as_new_page)
next
  case (as_new_issue i c s c' g)
  note ok = assets_okD [OF assms(2)]
  have "below_ok ci_job (t_put i c' (db_crawls w)) (snd (t_insert g (db_issues w)))"
    using as_new_issue below_parent_put [OF below_insert [OF ok(5), of g]] by simp
  moreover have "db_fk w \<Longrightarrow> issue_pages (db_pages w) (snd (t_insert g (db_issues w)))"
    using as_new_issue(7) ok(10,11) by (auto simp: issue_pages_def t_get_insert split: if_splits)
  ultimately have "assets_ok (w\<lparr>db_issues := snd (t_insert g (db_issues w)), db_crawls := t_put i c' (db_crawls w)\<rparr>)"
    using ok as_new_issue below_put [OF ok(3), of i c c'] below_parent_put [OF ok(4)]
    by (simp add: assets_ok_def)
  then show ?thesis by (rule assets_ok_core) (fact as_new_issue)
qed

section \<open>What belongs to an organization\<close>

definition site_org :: "website table \<Rightarrow> int \<Rightarrow> int option" where
  "site_org S i = (case t_get S i of None \<Rightarrow> None | Some s \<Rightarrow> w_org s)"

definition crawl_org :: "website table \<Rightarrow> crawl_job table \<Rightarrow> int \<Rightarrow> int option" where
  "crawl_org S C i = (case t_get C i of None \<Rightarrow> None | Some c \<Rightarrow> site_org S (cj_website c))"

definition owned_by :: "int \<Rightarrow> ('a \<Rightarrow> int option) \<Rightarrow> 'a table \<Rightarrow> int \<Rightarrow> 'a option" where
  "owned_by oid org_of t i =
     (case t_get t i of None \<Rightarrow> None | Some r \<Rightarrow> if org_of r = Some oid then Some r else None)"

definition assets_of where
  "assets_of oid w =
     (owned_by oid (Some \<circ> p_org) (db_projects w), owned_by oid w_org (db_sites w),
      owned_by oid (site_org (db_sites w) \<circ> cj_website) (db_crawls w),
      owned_by oid (crawl_org (db_sites w) (db_crawls w) \<circ> cp_job) (db_pages w))"

definition issues_of :: "int \<Rightarrow> db \<Rightarrow> int \<Rightarrow> crawl_issue option" where
  "issues_of oid w = owned_by oid (crawl_org (db_sites w) (db_crawls w) \<circ> ci_job) (db_issues w)"

text \<open>An issue names a page that is none of the organization's: nothing in the code prevents it.\<close>

definition foreign_page :: "int \<Rightarrow> db \<Rightarrow> crawl_issue \<Rightarrow> bool" where
  "foreign_page oid w s \<longleftrightarrow> (\<exists>p g. ci_page s = Some p \<and> t_get (db_pages w) p = Some g
     \<and> crawl_org (db_sites w) (db_crawls w) (cp_job g) \<noteq> Some oid)"

text \<open>
  A step spares an organization when its projects, websites, crawls and pages are what they were, and
  so are its issues, but for those with a page of another organization, which may be gone.
\<close>

definition spares_org :: "int \<Rightarrow> db \<Rightarrow> db \<Rightarrow> bool" where
  "spares_org oid w w' \<longleftrightarrow> assets_of oid w' = assets_of oid w
     \<and> (\<forall>i. issues_of oid w' i = issues_of oid w i
          \<or> (\<exists>s. issues_of oid w i = Some s \<and> foreign_page oid w s \<and> issues_of oid w' i = None))"

lemma spares_org_same: "assets_of oid w' = assets_of oid w \<Longrightarrow> issues_of oid w' = issues_of oid w \<Longrightarrow> spares_org oid w w'"
  by (simp add: spares_org_def)

lemma spares_org_from: "core w1 = core w \<Longrightarrow> spares_org oid w1 w' \<Longrightarrow> spares_org oid w w'"
  by (simp add: core_defs spares_org_def assets_of_def issues_of_def foreign_page_def)

lemma spares_org_core: "core w' = core w1 \<Longrightarrow> spares_org oid w w1 \<Longrightarrow> spares_org oid w w'"
  by (simp add: core_defs spares_org_def assets_of_def issues_of_def)

lemma owned_insert:
  "t_ok t \<Longrightarrow> org_of r \<noteq> Some oid \<Longrightarrow> owned_by oid org_of (snd (t_insert r t)) = owned_by oid org_of t"
  using t_get_fresh [of t "t_next t"] by (auto simp: owned_by_def t_get_insert fun_eq_iff)

lemma owned_put:
  "t_get t i = Some r \<Longrightarrow> org_of r \<noteq> Some oid \<Longrightarrow> org_of r' \<noteq> Some oid
     \<Longrightarrow> owned_by oid org_of (t_put i r' t) = owned_by oid org_of t"
  by (auto simp: owned_by_def fun_eq_iff)

text \<open>Rows may be deleted, and the rows above them moved, as long as no row of the organization is.\<close>

lemma owned_delete_where:
  assumes "t_ok t" and "\<And>i r. t_get t i = Some r \<Longrightarrow> P i r \<Longrightarrow> org_of r \<noteq> Some oid"
    and "\<And>i r. t_get t i = Some r \<Longrightarrow> \<not> P i r \<Longrightarrow> org_of' r = Some oid \<longleftrightarrow> org_of r = Some oid"
  shows "owned_by oid org_of' (t_delete_where P t) = owned_by oid org_of t"
  using assms by (auto simp: owned_by_def fun_eq_iff split: option.split)

lemma owned_cong:
  assumes "\<And>i r. t_get t i = Some r \<Longrightarrow> org_of r = Some oid \<longleftrightarrow> org_of' r = Some oid"
  shows "owned_by oid org_of t = owned_by oid org_of' t"
  using assms by (auto simp: owned_by_def fun_eq_iff split: option.split)

lemma site_org_insert:
  "t_ok S \<Longrightarrow> w_org s \<noteq> Some oid \<Longrightarrow> site_org (snd (t_insert s S)) i = Some oid \<longleftrightarrow> site_org S i = Some oid"
  using t_get_fresh [of S "t_next S"] by (auto simp: site_org_def t_get_insert)

lemma site_org_put: "t_get S i = Some s \<Longrightarrow> w_org s' = w_org s \<Longrightarrow> site_org (t_put i s' S) = site_org S"
  by (auto simp: site_org_def fun_eq_iff)

lemma crawl_org_cong:
  "(\<And>i. site_org S' i = Some oid \<longleftrightarrow> site_org S i = Some oid)
     \<Longrightarrow> crawl_org S' C i = Some oid \<longleftrightarrow> crawl_org S C i = Some oid"
  by (simp add: crawl_org_def split: option.split)

lemma crawl_org_site_put:
  "t_get S i = Some s \<Longrightarrow> w_org s' = w_org s \<Longrightarrow> crawl_org (t_put i s' S) = crawl_org S"
  using site_org_put [of S i s s'] by (simp add: crawl_org_def fun_eq_iff split: option.split)

lemma crawl_org_insert:
  "t_ok C \<Longrightarrow> site_org S (cj_website c) \<noteq> Some oid
     \<Longrightarrow> crawl_org S (snd (t_insert c C)) i = Some oid \<longleftrightarrow> crawl_org S C i = Some oid"
  using t_get_fresh [of C "t_next C"] by (auto simp: crawl_org_def t_get_insert)

lemma crawl_org_put:
  "t_get C i = Some c \<Longrightarrow> cj_website c' = cj_website c \<Longrightarrow> crawl_org S (t_put i c' C) = crawl_org S C"
  by (auto simp: crawl_org_def fun_eq_iff)

lemma without_sites_spares:
  assumes "assets_ok w" and "\<And>i s. K i \<Longrightarrow> t_get (db_sites w) i = Some s \<Longrightarrow> w_org s \<noteq> Some oid"
  shows "spares_org oid w (without_sites K w)"
proof -
  note ok = assets_okD [OF assms(1)]
  let ?w = "without_sites K w"
  have K: "site_org (db_sites w) i \<noteq> Some oid" if "K i" for i
    using that assms(2) by (auto simp: site_org_def split: option.splits)
  have S: "site_org (db_sites ?w) i = Some oid \<longleftrightarrow> site_org (db_sites w) i = Some oid" for i
    using assms(2) ok(7) by (auto simp: site_org_def split: option.split)
  have C: "crawl_org (db_sites ?w) (db_crawls ?w) i = Some oid \<longleftrightarrow> crawl_org (db_sites w) (db_crawls w) i = Some oid" for i
    using S K ok(8) by (auto simp: crawl_org_def without_sites_def split: option.split)
  have gone: "crawl_org (db_sites w) (db_crawls w) j \<noteq> Some oid" if "t_get (db_crawls w) j = Some c" "K (cj_website c)" for j c
    using that K by (simp add: crawl_org_def)
  have page: "crawl_org (db_sites w) (db_crawls w) (cp_job g) \<noteq> Some oid" if "page_under K w i" "t_get (db_pages w) i = Some g" for i g
    using that gone by (auto simp: page_under_def)
  have "owned_by oid w_org (db_sites ?w) = owned_by oid w_org (db_sites w)"
    unfolding without_sites_core using assms(2) ok(7) by (intro owned_delete_where) auto
  moreover have "owned_by oid (site_org (db_sites ?w) \<circ> cj_website) (db_crawls ?w) = owned_by oid (site_org (db_sites w) \<circ> cj_website) (db_crawls w)"
    using ok(8) K S unfolding without_sites_def by (auto intro!: owned_delete_where)
  moreover have "owned_by oid (crawl_org (db_sites ?w) (db_crawls ?w) \<circ> cp_job) (db_pages ?w)
      = owned_by oid (crawl_org (db_sites w) (db_crawls w) \<circ> cp_job) (db_pages w)"
    using ok(9) page C unfolding without_sites_def by (auto intro!: owned_delete_where)
  moreover have "issues_of oid ?w i = issues_of oid w i
      \<or> (\<exists>s. issues_of oid w i = Some s \<and> foreign_page oid w s \<and> issues_of oid ?w i = None)" for i
  proof (cases "t_get (db_issues w) i")
    case None
    then show ?thesis using ok(10) by (simp add: issues_of_def owned_by_def without_sites_def)
  next
    case (Some s)
    have I: "t_get (db_issues ?w) i = (if issue_under K w s then None else Some s)"
      using Some ok(10) by (simp add: without_sites_def)
    show ?thesis
    proof (cases "crawl_org (db_sites w) (db_crawls w) (ci_job s) = Some oid \<and> issue_under K w s")
      case True
      then obtain p where "ci_page s = Some p" "page_under K w p" using gone by (auto simp: issue_under_def)
      moreover from this obtain g where "t_get (db_pages w) p = Some g" by (auto simp: page_under_def)
      ultimately have "foreign_page oid w s" using page by (auto simp: foreign_page_def)
      then show ?thesis using True Some I by (simp add: issues_of_def owned_by_def)
    qed (use Some I C in \<open>auto simp: issues_of_def owned_by_def\<close>)
  qed
  ultimately show ?thesis by (simp add: spares_org_def assets_of_def)
qed

lemma asset_step_isolated:
  assumes "asset_step oid role w w'" and "assets_ok w" and "other \<noteq> oid"
  shows "spares_org other w w'"
  using assms(1)
proof cases
  case (as_new_project p)
  have "spares_org other w (w\<lparr>db_projects := snd (t_insert p (db_projects w))\<rparr>)"
    using assets_okD(6) [OF assms(2)] as_new_project assms(3)
    by (intro spares_org_same) (simp_all add: assets_of_def issues_of_def owned_insert)
  with as_new_project(6) show ?thesis by (rule spares_org_core)
next
  case (as_put_project i p p')
  have "spares_org other w (w\<lparr>db_projects := t_put i p' (db_projects w)\<rparr>)"
    using as_put_project assms(3) by (intro spares_org_same) (simp_all add: assets_of_def issues_of_def owned_put)
  with as_put_project(7) show ?thesis by (rule spares_org_core)
next
  case (as_delete_project i p)
  let ?d = "without_sites (of_project i w) w"
  have "w_org s \<noteq> Some other" if "of_project i w k" "t_get (db_sites w) k = Some s" for k s
    using sites_okD(3) [OF assets_okD(2) [OF assms(2)] that(2)] that as_delete_project assms(3)
    by (auto simp: of_project_def)
  then have "spares_org other w ?d" by (rule without_sites_spares [OF assms(2)])
  moreover have "owned_by other (Some \<circ> p_org) (t_delete i (db_projects w)) = owned_by other (Some \<circ> p_org) (db_projects w)"
    using as_delete_project assms(3) by (auto simp: owned_by_def fun_eq_iff)
  ultimately have "spares_org other w (?d\<lparr>db_projects := t_delete i (db_projects w)\<rparr>)"
    by (simp add: spares_org_def assets_of_def issues_of_def)
  with as_delete_project(4) show ?thesis by (rule spares_org_core)
next
  case (as_new_site pid p s)
  note ok = assets_okD [OF assms(2)]
  let ?S = "snd (t_insert s (db_sites w))"
  have S: "site_org ?S i = Some other \<longleftrightarrow> site_org (db_sites w) i = Some other" for i
    using ok(7) as_new_site assms(3) by (simp add: site_org_insert)
  have "spares_org other w (w\<lparr>db_sites := ?S\<rparr>)"
    using ok(7) as_new_site assms(3) S
    by (intro spares_org_same)
      (auto simp: assets_of_def issues_of_def owned_insert crawl_org_cong [of ?S, OF S] intro!: owned_cong)
  with as_new_site(7) show ?thesis by (rule spares_org_core)
next
  case (as_put_site i s s')
  have "spares_org other w (w\<lparr>db_sites := t_put i s' (db_sites w)\<rparr>)"
    using as_put_site assms(3)
    by (intro spares_org_same)
      (simp_all add: assets_of_def issues_of_def owned_put site_org_put [of _ _ s] crawl_org_site_put [of _ _ s])
  with as_put_site(7) show ?thesis by (rule spares_org_core)
next
  case (as_delete_site i s)
  have "spares_org other w (without_sites (\<lambda>k. k = i) w)"
    using as_delete_site assms(3) by (intro without_sites_spares [OF assms(2)]) auto
  with as_delete_site(4) show ?thesis by (rule spares_org_core)
next
  case (as_new_crawl c s)
  note ok = assets_okD [OF assms(2)]
  let ?C = "snd (t_insert c (db_crawls w))"
  have org: "site_org (db_sites w) (cj_website c) \<noteq> Some other"
    using as_new_crawl assms(3) by (simp add: site_org_def)
  have "spares_org other w (w\<lparr>db_crawls := ?C\<rparr>)"
    using ok(8) org
    by (intro spares_org_same) (auto simp: assets_of_def issues_of_def owned_insert crawl_org_insert intro!: owned_cong)
  with as_new_crawl(4) show ?thesis by (rule spares_org_core)
next
  case (as_put_crawl i c s c')
  then have org: "site_org (db_sites w) (cj_website c) \<noteq> Some other"
    using assms(3) by (simp add: site_org_def)
  have "spares_org other w (w\<lparr>db_crawls := t_put i c' (db_crawls w)\<rparr>)"
    using as_put_crawl(2,5) org
    by (intro spares_org_same) (simp_all add: assets_of_def issues_of_def owned_put crawl_org_put [of _ _ c])
  with as_put_crawl(6) show ?thesis by (rule spares_org_core)
next
  case (as_new_page i c s c' g)
  then have org: "site_org (db_sites w) (cj_website c) \<noteq> Some other" "crawl_org (db_sites w) (db_crawls w) (cp_job g) \<noteq> Some other"
    using assms(3) by (simp_all add: site_org_def crawl_org_def)
  have "spares_org other w (w\<lparr>db_pages := snd (t_insert g (db_pages w)), db_crawls := t_put i c' (db_crawls w)\<rparr>)"
    using as_new_page(2,5) org assets_okD(9) [OF assms(2)]
    by (intro spares_org_same)
      (simp_all add: assets_of_def issues_of_def owned_put owned_insert crawl_org_put [of _ _ c])
  with as_new_page(7) show ?thesis by (rule spares_org_core)
next
  case (as_new_issue i c s c' g)
  then have org: "site_org (db_sites w) (cj_website c) \<noteq> Some other" "crawl_org (db_sites w) (db_crawls w) (ci_job g) \<noteq> Some other"
    using assms(3) by (simp_all add: site_org_def crawl_org_def)
  have "spares_org other w (w\<lparr>db_issues := snd (t_insert g (db_issues w)), db_crawls := t_put i c' (db_crawls w)\<rparr>)"
    using as_new_issue(2,5) org assets_okD(10) [OF assms(2)]
    by (intro spares_org_same)
      (simp_all add: assets_of_def issues_of_def owned_put owned_insert crawl_org_put [of _ _ c])
  with as_new_issue(8) show ?thesis by (rule spares_org_core)
qed

end
