(* ===== verification/Org_Requests.thy ===== *)
theory Org_Requests
  imports Org_Props
begin

text \<open>
  Every request of \<open>Orgs\<close> is a step of the policy of \<open>Org_Props\<close>, the machine of requests, and the
  properties of its runs.
\<close>

section \<open>Each handler complies\<close>

lemma tenant_okD:
  assumes "tenant_ok w"
  shows "t_unique mkey (db_members w)" "t_ok (db_orgs w)" "t_ok (db_invs w)" "t_ok (db_users w)"
  using assms by (simp_all add: tenant_ok_def)

lemma get_membershipD:
  assumes "tenant_ok w" and "get_membership w oid uid = Some (i, m)"
  shows "t_find mkey (oid, uid) (db_members w) = Some (i, m)" and "m_org m = oid" and "m_user m = uid"
    and "mkey m = (oid, uid)" and "roles_of (db_members w) (oid, uid) = Some (m_role m)"
proof -
  show f: "t_find mkey (oid, uid) (db_members w) = Some (i, m)"
    using assms(2) by (simp add: get_membership_find)
  then show "mkey m = (oid, uid)" using t_find_iff [OF tenant_okD(1) [OF assms(1)]] by blast
  then show "m_org m = oid" "m_user m = uid" by (simp_all add: mkey_def)
  show "roles_of (db_members w) (oid, uid) = Some (m_role m)" using f by (simp add: roles_of_def)
qed

text \<open>Writing or deleting the row of one member.\<close>

lemma complies_put:
  assumes "tenant_ok w" and "get_membership w oid uid = Some (i, m)" and "mkey m' = mkey m"
    and "policy_step a e (policy_of w)
           (dom (t_get (db_orgs w)), (roles_of (db_members w))((oid, uid) \<mapsto> m_role m'), offers_of (db_invs w))"
  shows "complies a e w (w\<lparr>db_members := t_put i m' (db_members w)\<rparr>)"
  using assms(4) roles_put [OF tenant_okD(1) [OF assms(1)] get_membershipD(1) [OF assms(1,2)] assms(3)]
    tenant_okD [OF assms(1)]
  by (simp add: complies_def tenant_ok_def policy_of_def)

lemma complies_delete:
  assumes "tenant_ok w" and "get_membership w oid uid = Some (i, m)"
    and "policy_step a e (policy_of w)
           (dom (t_get (db_orgs w)), (roles_of (db_members w))((oid, uid) := None), offers_of (db_invs w))"
  shows "complies a e w (w\<lparr>db_members := t_delete i (db_members w)\<rparr>)"
  using assms(3) roles_delete [OF tenant_okD(1) [OF assms(1)] get_membershipD(1) [OF assms(1,2)]]
    tenant_okD [OF assms(1)]
  by (simp add: complies_def tenant_ok_def policy_of_def)

lemma complies_invs:
  assumes "tenant_ok w" and "i_status v \<noteq> ''pending''"
  shows "complies a e w (w\<lparr>db_invs := t_put i v (db_invs w)\<rparr>)"
  using offers_put [OF assms(2), of i "db_invs w"] tenant_okD [OF assms(1)]
  by (simp add: complies_def tenant_ok_def policy_of_def ps_stay)

lemma change_role_complies:
  assumes ok: "tenant_ok w"
  shows "complies (fst cu) e w (snd (change_member_role oid uid role cu w))"
proof (cases "get_membership w oid (fst cu)")
  case None
  then show ?thesis using ok by (simp add: change_member_role_def require_role_then)
next
  case (Some actor)
  show ?thesis
  proof (cases "get_membership w oid uid")
    case None
    then show ?thesis using ok Some by (simp add: change_member_role_def require_role_then)
  next
    case target: (Some im)
    obtain i m where im: "im = (i, m)" by (cases im)
    obtain k n where kn: "actor = (k, n)" by (cases actor)
    note T = get_membershipD [OF ok target [unfolded im]]
    note A = get_membershipD [OF ok Some [unfolded kn]]
    let ?m = "m\<lparr>m_role := role, m_updated := db_now w\<rparr>"
    have go: "complies (fst cu) e w (w\<lparr>db_members := t_put i ?m (db_members w)\<rparr>)"
      if "3 \<le> rank_of (m_role n)" "rank_of (m_role m) < rank_of (m_role n)" "rank_of role < rank_of (m_role n)"
      using that ps_role [where R = "roles_of (db_members w)", OF A(5) T(5), of role e]
      by (intro complies_put [OF ok target [unfolded im]]) (simp_all add: mkey_def policy_of_def)
    show ?thesis
      using Some target ok go
      by (simp add: change_member_role_def require_role_then kn im crud_update_member_role_def Let_def
          owner_permission not_le)
  qed
qed

lemma remove_member_complies:
  assumes ok: "tenant_ok w"
  shows "complies (fst cu) e w (snd (remove_member oid uid cu w))"
proof (cases "get_membership w oid (fst cu)")
  case None
  then show ?thesis using ok by (simp add: remove_member_def require_membership_then)
next
  case (Some actor)
  show ?thesis
  proof (cases "get_membership w oid uid")
    case None
    then show ?thesis using ok Some by (simp add: remove_member_def require_membership_then)
  next
    case target: (Some im)
    obtain i m where im: "im = (i, m)" by (cases im)
    obtain k n where kn: "actor = (k, n)" by (cases actor)
    note T = get_membershipD [OF ok target [unfolded im]]
    note A = get_membershipD [OF ok Some [unfolded kn]]
    have del: "complies (fst cu) e w (snd (crud_remove_org_member oid uid (Some (fst cu)) w))"
      if "policy_step (fst cu) e (policy_of w)
           (dom (t_get (db_orgs w)), (roles_of (db_members w))((oid, uid) := None), offers_of (db_invs w))"
      using complies_delete [OF ok target [unfolded im] that] target im
      by (simp add: crud_remove_org_member_def)
    show ?thesis
    proof (cases "uid = fst cu")
      case True
      then have "m = n" using Some target kn im by simp
      show ?thesis
        using True Some target ok del ps_leave [where R = "roles_of (db_members w)", OF A(5)] \<open>m = n\<close>
        by (simp add: remove_member_def require_membership_then kn im policy_of_def)
    next
      case False
      show ?thesis
        using False Some target ok del ps_remove [where R = "roles_of (db_members w)", OF A(5) T(5)]
        by (simp add: remove_member_def require_membership_then kn im policy_of_def
            check_role_min_def owner_permission not_le raise_app_def)
    qed
  qed
qed

lemma transfer_complies:
  assumes ok: "tenant_ok w"
  shows "complies (fst cu) e w (snd (transfer_ownership oid new_owner cu w))"
proof (cases "get_membership w oid (fst cu)")
  case None
  then show ?thesis using ok by (simp add: transfer_ownership_def require_role_then)
next
  case (Some actor)
  show ?thesis
  proof (cases "get_membership w oid new_owner")
    case None
    then show ?thesis using ok Some
      by (simp add: transfer_ownership_def require_role_then crud_transfer_ownership_def raise_app_def
          split: prod.split)
  next
    case target: (Some im)
    obtain i m where im: "im = (i, m)" by (cases im)
    obtain k n where kn: "actor = (k, n)" by (cases actor)
    note T = get_membershipD [OF ok target [unfolded im]]
    note A = get_membershipD [OF ok Some [unfolded kn]]
    let ?n = "n\<lparr>m_role := ''Admin'', m_updated := db_now w\<rparr>"
      and ?m = "m\<lparr>m_role := ''Owner'', m_updated := db_now w\<rparr>"
    let ?M = "t_put k ?n (db_members w)"
    have key: "mkey ?n = mkey n" "mkey ?m = mkey m" by (simp_all add: mkey_def)
    note p1 = roles_put [OF tenant_okD(1) [OF ok] A(1) key(1)]
    have go: "complies (fst cu) e w (w\<lparr>db_members := t_put i ?m ?M\<rparr>)"
      if own: "m_role n = ''Owner''" and ne: "new_owner \<noteq> fst cu"
    proof -
      have "t_find mkey (oid, new_owner) ?M = Some (i, m)"
        using T(1) ne A(4) t_unique_put(2) [OF tenant_okD(1) [OF ok] _ key(1), of k "(oid, new_owner)"]
          t_find_iff [OF tenant_okD(1) [OF ok], of "(oid, fst cu)" k n] A(1) by simp
      note p2 = roles_put [OF p1(1) this key(2)]
      have "policy_step (fst cu) e (policy_of w)
          (dom (t_get (db_orgs w)), (roles_of (db_members w))((oid, fst cu) \<mapsto> ''Admin'',
             (oid, new_owner) \<mapsto> ''Owner''), offers_of (db_invs w))"
        unfolding policy_of_def using A(5) T(5) own ne by (intro ps_transfer) simp_all
      then show ?thesis
        using p1(2) p2 tenant_okD [OF ok] by (simp add: complies_def tenant_ok_def policy_of_def)
    qed
    show ?thesis
      using Some target ok go
      by (simp add: transfer_ownership_def require_role_then crud_transfer_ownership_def kn im
          owner_permission raise_app_def)
  qed
qed

lemma dom_insert: "t_ok t \<Longrightarrow> dom (t_get (snd (t_insert r t))) = insert (t_next t) (dom (t_get t))"
  by (auto simp: t_get_insert dom_def)

text \<open>A step whose continuation only writes to the logs.\<close>

lemma complies_then:
  "(\<And>x w1. complies a e w (snd (f x w1)) = complies a e w w1)
    \<Longrightarrow> complies a e w (snd (and_then m f)) = complies a e w (snd m)"
  by (cases m; cases "fst m") (auto simp: and_then_def split: sum.split)

lemma crud_create_complies:
  assumes ok: "tenant_ok w" and pol: "policy_ok (policy_of w)"
  shows "complies uid e w (snd (crud_create_organization name slug uid logo color settings w))"
proof (cases "get_organization_by_slug w slug")
  case None
  let ?oid = "t_next (db_orgs w)"
  define r where "r = \<lparr>o_name = name, o_slug = slug, o_logo = logo, o_color = color,
       o_settings = (case settings of None \<Rightarrow> [] | Some s \<Rightarrow> s), o_created = db_now w, o_updated = db_now w\<rparr>"
  let ?T = "snd (t_insert r (db_orgs w))"
  let ?m = "\<lparr>m_org = ?oid, m_user = uid, m_role = ''Owner'', m_created = db_now w, m_updated = db_now w\<rparr>"
  have new: "?oid \<notin> dom (t_get (db_orgs w))"
    using t_get_fresh [OF tenant_okD(2) [OF ok], of ?oid] by (simp add: domIff)
  then have "roles_of (db_members w) (?oid, uid) = None"
    using policy_okD(1) [OF pol [unfolded policy_of_def], of ?oid uid] by (metis not_None_eq)
  then have none: "t_find mkey (?oid, uid) (db_members w) = None" by (simp add: roles_of_def)
  have ins: "t_unique mkey (snd (t_insert ?m (db_members w)))"
    "roles_of (snd (t_insert ?m (db_members w))) = (roles_of (db_members w))((?oid, uid) \<mapsto> ''Owner'')"
    using roles_insert [OF tenant_okD(1) [OF ok], of ?m] none by (simp_all add: mkey_def)
  have "complies uid e w (w\<lparr>db_orgs := ?T, db_members := snd (t_insert ?m (db_members w))\<rparr>)"
    using ps_create [OF new] ins tenant_okD [OF ok]
    by (simp add: complies_def tenant_ok_def policy_of_def t_ok_insert dom_insert)
  moreover have "snd (crud_create_organization name slug uid logo color settings w)
    = create_org_audit_event ?oid ''organization.created'' (Some uid) [(''name'', PStr name), (''slug'', PStr slug)]
        (w\<lparr>db_orgs := ?T, db_members := snd (t_insert ?m (db_members w))\<rparr>)"
    using None none
    by (simp add: crud_create_organization_def add_membership_def get_membership_find t_insert_def Let_def r_def)
  ultimately show ?thesis by simp
qed (simp add: crud_create_organization_def ok)

lemma create_organization_complies:
  assumes "tenant_ok w" and "policy_ok (policy_of w)"
  shows "complies (fst cu) e w (snd (create_organization h4 h3 name slug logo color settings cu w))"
  unfolding create_organization_def Let_def
  by (subst complies_then) (simp_all add: crud_create_complies assms)

lemma dom_put: "t_get t i \<noteq> None \<Longrightarrow> dom (t_get (t_put i r t)) = dom (t_get t)"
  by (auto simp: dom_def)

lemma crud_update_complies:
  assumes "tenant_ok w" and "get_organization w oid = Some org"
  shows "complies a e w (snd (crud_update_organization org name slug logo color settings actor w))"
proof -
  obtain i r where org: "org = (i, r)" by (cases org)
  from t_first_Some [OF tenant_okD(2) [OF assms(1)] assms(2) [unfolded get_organization_def org]]
  have "t_get (db_orgs w) i \<noteq> None" by auto
  then have "complies a e w (w\<lparr>db_orgs := t_put i q (db_orgs w)\<rparr>)" for q
    using tenant_okD [OF assms(1)] ps_stay [of "offers_of (db_invs w)" "offers_of (db_invs w)"]
    unfolding complies_def tenant_ok_def by (simp add: policy_of_def dom_put)
  then show ?thesis using assms(1) by (simp add: crud_update_organization_def org Let_def)
qed

lemma update_organization_complies:
  assumes "tenant_ok w"
  shows "complies (fst cu) e w (snd (update_organization dump oid name slug logo color settings cu w))"
proof -
  have "complies (fst cu) e w (snd (and_then
      (crud_update_organization org name slug logo color settings (Some (fst cu)) w)
      (\<lambda>org' w1. (Inr org', log_audit_event ''settings.changed'' (Some (fst cu)) (Some oid)
                  (Some (org_target oid)) None None dump w1))))"
    if "get_organization w oid = Some org" for org
    by (subst complies_then) (simp_all add: crud_update_complies [OF assms that])
  then show ?thesis
    using assms by (auto simp: update_organization_def require_role_then split: option.split)
qed

lemma delete_sites_frame [simp]:
  "db_members (delete_sites P w) = db_members w" "db_orgs (delete_sites P w) = db_orgs w"
  "db_invs (delete_sites P w) = db_invs w" "db_users (delete_sites P w) = db_users w"
  "db_projects (delete_sites P w) = db_projects w" "db_events (delete_sites P w) = db_events w"
  "db_audit (delete_sites P w) = db_audit w" "db_now (delete_sites P w) = db_now w"
  "db_fk (delete_sites P w) = db_fk w" "db_sites (delete_sites P w) = t_delete_where P (db_sites w)"
  by (simp_all add: delete_sites_def delete_crawls_def Let_def)

lemma delete_org_row_frame:
  "db_members (delete_org_row oid w) = t_delete_where (\<lambda>i m. m_org m = oid) (db_members w)"
  "db_invs (delete_org_row oid w) = t_delete_where (\<lambda>i v. i_org v = oid) (db_invs w)"
  "db_events (delete_org_row oid w) = t_delete_where (\<lambda>i e. oe_org e = oid) (db_events w)"
  "db_orgs (delete_org_row oid w) = t_delete oid (db_orgs w)" "db_users (delete_org_row oid w) = db_users w"
  by (simp_all add: delete_org_row_def Let_def)

lemma delete_row_complies:
  assumes ok: "tenant_ok w" and own: "roles_of (db_members w) (oid, a) = Some ''Owner''"
  shows "complies a e w (delete_org_row oid w)"
proof -
  let ?M = "t_delete_where (\<lambda>i m. m_org m = oid) (db_members w)"
  let ?V = "t_delete_where (\<lambda>i v. i_org v = oid) (db_invs w)"
  have M: "t_unique mkey ?M" "roles_of ?M = (\<lambda>k. if fst k = oid then None else roles_of (db_members w) k)"
    using t_unique_delete_where [OF tenant_okD(1) [OF ok], of "\<lambda>i m. m_org m = oid" "\<lambda>k. fst k = oid"]
    by (auto simp: roles_of_def mkey_def)
  have V: "offers_of ?V \<subseteq> {k \<in> offers_of (db_invs w). fst k \<noteq> oid}"
    using tenant_okD(3) [OF ok] by (auto simp: offers_of_def ran_def split: option.splits if_splits)
  have dom: "dom (t_get (t_delete oid (db_orgs w))) = dom (t_get (db_orgs w)) - {oid}"
    by (auto split: if_splits)
  show ?thesis
    using ps_delete [where R = "roles_of (db_members w)", OF own V] M tenant_okD [OF ok]
    by (simp add: complies_def tenant_ok_def policy_of_def delete_org_row_frame dom t_ok_delete)
qed

lemma delete_organization_complies:
  assumes ok: "tenant_ok w"
  shows "complies (fst cu) e w (snd (delete_organization oid cu w))"
proof (cases "get_membership w oid (fst cu)")
  case None
  then show ?thesis using ok by (simp add: delete_organization_def require_role_then)
next
  case (Some actor)
  obtain k n where kn: "actor = (k, n)" by (cases actor)
  note A = get_membershipD [OF ok Some [unfolded kn]]
  show ?thesis
  proof (cases "m_role n = ''Owner'' \<and> get_organization w oid \<noteq> None")
    case True
    then obtain r where org: "get_organization w oid = Some (oid, r)"
      using t_first_Some [OF tenant_okD(2) [OF ok], of "\<lambda>i r. i = oid"]
      by (fastforce simp: get_organization_def)
    let ?w = "create_org_audit_event oid ''organization.deleted'' (Some (fst cu))
        [(''name'', PStr (o_name r)), (''slug'', PStr (o_slug r))]
        (log_audit_event ''org.deleted'' (Some (fst cu)) (Some oid) (Some (org_target oid)) None None
           [(''name'', PStr (o_name r))] w)"
    have frame: "tenant_ok ?w" "policy_of ?w = policy_of w" using ok by simp_all
    have "roles_of (db_members ?w) (oid, fst cu) = Some ''Owner''"
      using A(5) True frame(2) by (simp add: policy_of_def)
    from delete_row_complies [OF frame(1) this] have "complies (fst cu) e w (delete_org_row oid ?w)"
      unfolding complies_def frame(2) .
    then show ?thesis
      using True Some org
      by (simp add: delete_organization_def require_role_then kn owner_permission crud_delete_organization_def)
  next
    case False
    then show ?thesis
      using Some ok
      by (auto simp: delete_organization_def require_role_then kn owner_permission split: option.split)
  qed
qed

lemma invite_member_complies:
  assumes ok: "tenant_ok w"
  shows "complies (fst cu) e w (snd (invite_member token oid email role cu w))"
proof (cases "get_membership w oid (fst cu)")
  case None
  then show ?thesis using ok by (simp add: invite_member_def require_role_then)
next
  case (Some actor)
  obtain k n where kn: "actor = (k, n)" by (cases actor)
  note A = get_membershipD [OF ok Some [unfolded kn]]
  define v where "v = \<lparr>i_org = oid, i_email = str_strip (str_lower email), i_role = role, i_token = token,
      i_status = ''pending'', i_invited_by = fst cu,
      i_expires = db_now w + 7 * 86400 * 1000000, i_created = db_now w\<rparr>"
  have "complies (fst cu) e w (w\<lparr>db_invs := snd (t_insert v (db_invs w))\<rparr>)"
    if "3 \<le> rank_of (m_role n)" "rank_of role < rank_of (m_role n)"
    using ps_invite [where R = "roles_of (db_members w)" and em = "i_email v", OF A(5) that]
      tenant_okD [OF ok] offers_insert [OF tenant_okD(3) [OF ok], of v]
    by (simp add: complies_def tenant_ok_def policy_of_def t_ok_insert) (simp add: v_def)
  then have "complies (fst cu) e w (snd (crud_create_invitation oid email role token (fst cu)
      (db_now w + 7 * 86400 * 1000000) w))"
    if "3 \<le> rank_of (m_role n)" "rank_of role < rank_of (m_role n)"
    using that ok by (simp add: crud_create_invitation_def Let_def v_def t_insert_def)
  then show ?thesis
    using Some ok by (simp add: invite_member_def require_role_then kn owner_permission not_le complies_then)
qed

lemma own_invitationD:
  assumes "tenant_ok w" and "own_invitation token cu w = (Inr (i, v), w')"
  shows "w' = w" and "t_get (db_invs w) i = Some v" and "i_status v = ''pending''"
    and "str_lower (i_email v) = str_lower (u_email (snd cu))"
    and "(i_org v, i_email v, i_role v) \<in> offers_of (db_invs w)"
proof -
  from assms(2) have g: "get_invitation_by_token w token = Some (i, v)" and "w' = w"
    and em: "str_lower (i_email v) = str_lower (u_email (snd cu))"
    by (auto simp: own_invitation_def raise_app_def split: option.splits if_splits)
  have row: "t_get (db_invs w) i = Some v \<and> i_status v = ''pending''"
    using t_first_Some [OF tenant_okD(3) [OF assms(1)] g [unfolded get_invitation_by_token_def]] by simp
  show "w' = w" by fact
  show "t_get (db_invs w) i = Some v" "i_status v = ''pending''" using row by simp_all
  show "str_lower (i_email v) = str_lower (u_email (snd cu))" by fact
  show "(i_org v, i_email v, i_role v) \<in> offers_of (db_invs w)"
    using row by (auto simp: offers_of_def ran_def)
qed

lemma own_invitation_state: "snd (own_invitation token cu w) = w"
  by (simp add: own_invitation_def raise_app_def split: option.split)

lemma and_then_own:
  assumes "tenant_ok w" and "complies a e w w"
    and "\<And>i v. own_invitation token cu w = (Inr (i, v), w) \<Longrightarrow> complies a e w (snd (f (i, v) w))"
  shows "complies a e w (snd (and_then (own_invitation token cu w) f))"
proof (cases "own_invitation token cu w")
  case (Pair res w')
  then have w': "w' = w" using own_invitation_state [of token cu w] by simp
  show ?thesis
  proof (cases res)
    case (Inl x)
    then show ?thesis using Pair w' assms(2) by simp
  next
    case (Inr iv)
    then show ?thesis using Pair w' assms(3) by (cases iv) simp
  qed
qed

lemma crud_accept_complies:
  assumes ok: "tenant_ok w" and pol: "policy_ok (policy_of w)"
    and own: "own_invitation token cu w = (Inr (i, v), w)" and e: "u_email (snd cu) = e"
  shows "complies (fst cu) e w (snd (crud_accept_invitation (i, v) cu w))"
proof -
  note O = own_invitationD [OF ok own]
  let ?V = "t_put i (v\<lparr>i_status := ''accepted''\<rparr>) (db_invs w)"
  have sub: "offers_of ?V \<subseteq> offers_of (db_invs w)" by (rule offers_put) simp
  have org: "i_org v \<in> dom (t_get (db_orgs w))"
    using policy_okD(2) [OF pol [unfolded policy_of_def] O(5)] by simp
  have step: "policy_step (fst cu) e (policy_of w)
      (dom (t_get (db_orgs w)), (roles_of (db_members w))((i_org v, fst cu) \<mapsto> i_role v), offers_of ?V)"
    unfolding policy_of_def by (rule ps_accept [OF O(5) _ sub org]) (use O(4) e in simp)
  show ?thesis
  proof (cases "get_membership w (i_org v) (fst cu)")
    case None
    let ?m = "\<lparr>m_org = i_org v, m_user = fst cu, m_role = i_role v, m_created = db_now w, m_updated = db_now w\<rparr>"
    have ins: "t_unique mkey (snd (t_insert ?m (db_members w)))"
      "roles_of (snd (t_insert ?m (db_members w))) = (roles_of (db_members w))((i_org v, fst cu) \<mapsto> i_role v)"
      using roles_insert [OF tenant_okD(1) [OF ok], of ?m] None by (simp_all add: mkey_def get_membership_find)
    have "complies (fst cu) e w (w\<lparr>db_invs := ?V, db_members := snd (t_insert ?m (db_members w))\<rparr>)"
      using step ins tenant_okD [OF ok] by (simp add: complies_def tenant_ok_def policy_of_def)
    then show ?thesis using None
      by (simp add: crud_accept_invitation_def Let_def set_invitation_status_def add_membership_def
          get_membership_def t_insert_def)
  next
    case (Some km)
    obtain k m where km: "km = (k, m)" by (cases km)
    let ?m = "m\<lparr>m_role := i_role v, m_updated := db_now w\<rparr>"
    have "mkey ?m = mkey m" by (simp add: mkey_def)
    note put = roles_put [OF tenant_okD(1) [OF ok] get_membershipD(1) [OF ok Some [unfolded km]] this]
    have "complies (fst cu) e w (w\<lparr>db_invs := ?V, db_members := t_put k ?m (db_members w)\<rparr>)"
      using step put tenant_okD [OF ok] by (simp add: complies_def tenant_ok_def policy_of_def)
    then show ?thesis using Some km
      by (simp add: crud_accept_invitation_def Let_def set_invitation_status_def)
  qed
qed

lemma accept_complies:
  assumes ok: "tenant_ok w" and pol: "policy_ok (policy_of w)" and e: "u_email (snd cu) = e"
  shows "complies (fst cu) e w (snd (accept_invitation token cu w))"
  unfolding accept_invitation_def
proof (rule and_then_own [OF ok])
  fix i v
  assume own: "own_invitation token cu w = (Inr (i, v), w)"
  show "complies (fst cu) e w (snd (and_then (crud_accept_invitation (i, v) cu w) (\<lambda>mem w1.
      (Inr mem, log_audit_event ''invitation.accepted'' (Some (fst cu)) (Some (m_org (snd mem)))
         (Some (''membership:'' @ int_str (fst mem))) None None [(''role'', PStr (m_role (snd mem)))] w1))))"
    by (subst complies_then) (simp_all add: crud_accept_complies [OF ok pol own e])
qed (simp add: ok)

lemma reject_complies:
  assumes ok: "tenant_ok w"
  shows "complies a e w (snd (reject_invitation token cu w))"
  unfolding reject_invitation_def
  by (rule and_then_own [OF ok])
    (simp_all add: ok crud_reject_invitation_def set_invitation_status_def complies_invs)

lemma cancel_complies:
  assumes ok: "tenant_ok w"
  shows "complies a e w (snd (cancel_invitation oid iid cu w))"
  using ok by (auto simp: cancel_invitation_def require_role_then crud_cancel_invitation_def
      set_invitation_status_def complies_invs split: option.split)

section \<open>The machine of requests\<close>

text \<open>
  A user signs up (by another part of the program), time passes, or a user that exists makes a
  request; the request of a user that does not exist is refused by \<^verbatim>\<open>get_current_user\<close>.
\<close>

datatype org_request =
    RCreate string string string "string option" "string option" "string option" "kwargs option"
  | RUpdate kwargs int "string option" "string option" "string option" "string option" "kwargs option"
  | RDelete int
  | RTransfer int int
  | RChangeRole int int string
  | RRemove int int
  | RInvite string int string string
  | RAccept string
  | RReject string
  | RCancel int int

fun handle :: "int \<times> user \<Rightarrow> org_request \<Rightarrow> db \<Rightarrow> db" where
  "handle cu (RCreate h4 h3 name slug logo color settings) w
     = snd (create_organization h4 h3 name slug logo color settings cu w)"
| "handle cu (RUpdate dump oid name slug logo color settings) w
     = snd (update_organization dump oid name slug logo color settings cu w)"
| "handle cu (RDelete oid) w = snd (delete_organization oid cu w)"
| "handle cu (RTransfer oid new) w = snd (transfer_ownership oid new cu w)"
| "handle cu (RChangeRole oid uid role) w = snd (change_member_role oid uid role cu w)"
| "handle cu (RRemove oid uid) w = snd (remove_member oid uid cu w)"
| "handle cu (RInvite token oid email role) w = snd (invite_member token oid email role cu w)"
| "handle cu (RAccept token) w = snd (accept_invitation token cu w)"
| "handle cu (RReject token) w = snd (reject_invitation token cu w)"
| "handle cu (RCancel oid iid) w = snd (cancel_invitation oid iid cu w)"

datatype tenant_event = SignUp string string | Tick nat | Request int org_request

fun tenant_step :: "db \<Rightarrow> tenant_event \<Rightarrow> db" where
  "tenant_step w (SignUp email name) = snd (create_user email name None False ''UTC'' ''en'' w)"
| "tenant_step w (Tick n) = w\<lparr>db_now := db_now w + int n\<rparr>"
| "tenant_step w (Request uid r) = (case get_user w uid of None \<Rightarrow> w | Some cu \<Rightarrow> handle cu r w)"

definition tenant_inv :: "db \<Rightarrow> bool" where
  "tenant_inv w \<longleftrightarrow> tenant_ok w \<and> policy_ok (policy_of w)"

lemma handle_complies:
  assumes "tenant_inv w" and "u_email (snd cu) = e"
  shows "complies (fst cu) e w (handle cu r w)"
  using assms unfolding tenant_inv_def
  by (cases r) (simp_all add: create_organization_complies update_organization_complies
      delete_organization_complies transfer_complies change_role_complies remove_member_complies
      invite_member_complies accept_complies reject_complies cancel_complies)

lemma complies_inv: "tenant_inv w \<Longrightarrow> complies a e w w' \<Longrightarrow> tenant_inv w'"
  by (auto simp: tenant_inv_def complies_def intro: policy_step_ok)

lemma tenant_step_inv:
  assumes "tenant_inv w"
  shows "tenant_inv (tenant_step w ev)"
proof (cases ev)
  case (SignUp email name)
  then show ?thesis using assms
    by (auto simp: create_user_def Let_def tenant_inv_def tenant_ok_def policy_of_def t_insert_def
        t_ok_insert [unfolded t_insert_def, simplified])
next
  case (Tick n)
  then show ?thesis using assms by (simp add: tenant_inv_def tenant_ok_def policy_of_def)
next
  case (Request uid r)
  then show ?thesis using assms complies_inv [OF assms handle_complies [OF assms refl]]
    by (simp split: option.split)
qed

interpretation tenants: machine tenant_step tenant_inv
  by unfold_locales (rule tenant_step_inv)

lemma tenant_init: "tenant_inv (db_empty fk now)"
proof -
  have "t_find mkey k t_empty = None" for k by (simp add: t_find_def t_first_def t_empty_def)
  then show ?thesis
    by (simp add: tenant_inv_def tenant_ok_def policy_of_def db_empty_def policy_ok_def roles_of_def
        offers_of_def ran_def)
qed

abbreviation tenant_run :: "bool \<Rightarrow> int \<Rightarrow> tenant_event list \<Rightarrow> db" where
  "tenant_run fk now evs \<equiv> foldl tenant_step (db_empty fk now) evs"

lemma tenant_run_inv: "tenant_inv (tenant_run fk now evs)"
  by (rule tenants.run_inv [OF tenant_init])

lemma get_userD: "tenant_inv w \<Longrightarrow> get_user w uid = Some cu \<Longrightarrow> fst cu = uid"
  using t_first_Some [of "db_users w" "\<lambda>i u. i = uid" "fst cu" "snd cu"]
  by (simp add: get_user_def tenant_inv_def tenant_ok_def)

section \<open>A run in which an organization loses its owner\<close>

definition demo_events :: "tenant_event list" where
  "demo_events =
     [SignUp ''ann@a.io'' ''ann'', SignUp ''bob@b.io'' ''bob'',
      Request 1 (RCreate ''00'' ''11'' ''Acme'' None None None None),
      Request 1 (RInvite ''t1'' 1 ''bob@b.io'' ''Member''),
      Request 1 (RInvite ''t2'' 1 ''bob@b.io'' ''Viewer''),
      Request 2 (RAccept ''t1''), Request 1 (RTransfer 1 2)]"

definition demo_tenants :: db where
  "demo_tenants = tenant_run False 0 demo_events"

lemma demo_values:
  "let w = demo_tenants
   in (map_option fst (get_user w 2), map_option (m_role \<circ> snd) (get_membership w 1 2),
       map_option (\<lambda>(i, v). (i_org v, i_role v, str_lower (i_email v))) (get_invitation_by_token w ''t2''),
       map_option (\<lambda>u. str_lower (u_email (snd u))) (get_user w 2))
      = (Some 2, Some ''Owner'', Some (1, ''Viewer'', ''bob@b.io''), Some ''bob@b.io'')"
  by code_simp

lemma demo_facts:
  "map_option fst (get_user demo_tenants 2) = Some 2"
  "map_option (m_role \<circ> snd) (get_membership demo_tenants 1 2) = Some ''Owner''"
  using demo_values by (simp_all add: Let_def)

lemma demo_offer:
  "map_option (\<lambda>(i, v). (i_org v, i_role v)) (get_invitation_by_token demo_tenants ''t2'') = Some (1, ''Viewer'')"
  "map_option (\<lambda>(i, v). str_lower (i_email v)) (get_invitation_by_token demo_tenants ''t2'') = Some ''bob@b.io''"
  "map_option (\<lambda>u. str_lower (u_email (snd u))) (get_user demo_tenants 2) = Some ''bob@b.io''"
  using demo_values by (auto simp: Let_def)

section \<open>Properties\<close>

text \<open>
  C1: Every request keeps to the policy. From every state that a run of sign-ups and requests
  reaches, what a request of a user changes in the organizations, roles and open invitations is one
  step the policy allows that user: nobody changes or removes a role as high as his own, hands out
  a role as high as his own, or acts in an organization without a role in it, other than by
  founding one or by accepting an invitation to his own address.
\<close>

theorem org_requests_follow_policy:
  assumes "get_user (tenant_run fk now evs) uid = Some cu"
  shows "policy_step uid (u_email (snd cu)) (policy_of (tenant_run fk now evs))
    (policy_of (handle cu r (tenant_run fk now evs)))"
  using handle_complies [OF tenant_run_inv refl, of cu fk now evs r] get_userD [OF tenant_run_inv assms]
  by (simp add: complies_def)

theorem org_requests_follow_policy_witness:
  "\<exists>cu. get_user demo_tenants 2 = Some cu
    \<and> policy_step 2 (u_email (snd cu)) (policy_of demo_tenants)
        (policy_of (handle cu (RChangeRole 1 1 ''Viewer'') demo_tenants))"
proof -
  obtain cu where cu: "get_user demo_tenants 2 = Some cu" using demo_facts(1) by auto
  show ?thesis using org_requests_follow_policy [OF cu [unfolded demo_tenants_def]] cu
    unfolding demo_tenants_def by blast
qed

text \<open>
  C2: At most one owner. In every reachable state an organization has at most one member with the
  role of owner, and a membership belongs to an organization that exists.
\<close>

theorem one_owner_per_organization:
  assumes "get_membership (tenant_run fk now evs) oid u = Some (i, m)"
    and "get_membership (tenant_run fk now evs) oid v = Some (k, n)"
    and "m_role m = ''Owner''" and "m_role n = ''Owner''"
  shows "u = v \<and> t_get (db_orgs (tenant_run fk now evs)) oid \<noteq> None"
proof -
  let ?w = "tenant_run fk now evs"
  have pol: "policy_ok (dom (t_get (db_orgs ?w)), roles_of (db_members ?w), offers_of (db_invs ?w))"
    using tenant_run_inv [of fk now evs] by (simp add: tenant_inv_def policy_of_def)
  have "roles_of (db_members ?w) (oid, u) = Some ''Owner''" "roles_of (db_members ?w) (oid, v) = Some ''Owner''"
    using assms by (simp_all add: role_Some)
  then show ?thesis using policy_okD(3) [OF pol, of oid u v] policy_okD(1) [OF pol, of oid u] by auto
qed

theorem one_owner_per_organization_witness:
  "t_get (db_orgs demo_tenants) 1 \<noteq> None"
proof -
  obtain i m where m: "get_membership demo_tenants 1 2 = Some (i, m)" "m_role m = ''Owner''"
    using demo_facts(2) by auto
  show ?thesis
    using one_owner_per_organization [OF m(1) [unfolded demo_tenants_def] m(1) [unfolded demo_tenants_def] m(2,2)]
    by (simp add: demo_tenants_def)
qed

text \<open>
  An organization can lose its owner. Accepting an invitation overwrites the role of a member,
  and the owner may hold an open one, sent before the ownership came to him: once he accepts it, no
  member of the organization has the role of owner, so that none of the requests that need it can
  succeed any more.
\<close>

theorem owner_can_be_lost:
  assumes "get_user (tenant_run fk now evs) uid = Some cu"
    and "get_membership (tenant_run fk now evs) oid uid = Some (k, m)" and "m_role m = ''Owner''"
    and "get_invitation_by_token (tenant_run fk now evs) token = Some (i, v)" and "i_org v = oid"
    and "str_lower (i_email v) = str_lower (u_email (snd cu))"
  shows "\<forall>u j n. get_membership (handle cu (RAccept token) (tenant_run fk now evs)) oid u = Some (j, n)
    \<longrightarrow> m_role n \<noteq> ''Owner''"
proof -
  let ?w = "tenant_run fk now evs"
  have inv: "tenant_inv ?w" by (rule tenant_run_inv)
  then have ok: "tenant_ok ?w" and pol: "policy_ok (policy_of ?w)" by (simp_all add: tenant_inv_def)
  have uid: "fst cu = uid" by (rule get_userD [OF inv assms(1)])
  have own: "own_invitation token cu ?w = (Inr (i, v), ?w)" using assms(4,6) by (simp add: own_invitation_def)
  note O = own_invitationD [OF ok own]
  let ?m = "m\<lparr>m_role := i_role v, m_updated := db_now ?w\<rparr>"
  have "mkey ?m = mkey m" by (simp add: mkey_def)
  note put = roles_put [OF tenant_okD(1) [OF ok] get_membershipD(1) [OF ok assms(2)] this]
  have members: "db_members (handle cu (RAccept token) ?w) = t_put k ?m (db_members ?w)"
    using own assms(2,5) uid
    by (simp add: accept_invitation_def crud_accept_invitation_def Let_def set_invitation_status_def
        create_org_audit_event_def log_audit_event_def)
  note D = policy_okD [OF pol [unfolded policy_of_def]]
  have sole: "roles_of (db_members ?w) (oid, u) = Some ''Owner'' \<Longrightarrow> u = uid" for u
    using D(3) [of oid u uid] get_membershipD(5) [OF ok assms(2)] assms(3) by simp
  have "i_role v \<noteq> ''Owner''" using O(5) D(4) by metis
  then have "roles_of (db_members (handle cu (RAccept token) ?w)) (oid, u) \<noteq> Some ''Owner''" for u
    using sole [of u] put(2) unfolding members by auto
  then show ?thesis by (metis role_Some)
qed

theorem owner_can_be_lost_witness:
  "\<exists>cu. get_user demo_tenants 2 = Some cu
    \<and> (\<forall>u j n. get_membership (handle cu (RAccept ''t2'') demo_tenants) 1 u = Some (j, n)
         \<longrightarrow> m_role n \<noteq> ''Owner'')"
proof -
  obtain cu where cu: "get_user demo_tenants 2 = Some cu" using demo_facts(1) by auto
  obtain k m where m: "get_membership demo_tenants 1 2 = Some (k, m)" "m_role m = ''Owner''"
    using demo_facts(2) by auto
  obtain i v where v: "get_invitation_by_token demo_tenants ''t2'' = Some (i, v)" "i_org v = 1"
    "str_lower (i_email v) = ''bob@b.io''" "str_lower (u_email (snd cu)) = ''bob@b.io''"
    using demo_offer cu by auto
  show ?thesis
    using owner_can_be_lost [OF cu [unfolded demo_tenants_def] m(1) [unfolded demo_tenants_def] m(2)
        v(1) [unfolded demo_tenants_def] v(2)] v(3,4) cu by (simp add: demo_tenants_def)
qed

text \<open>
  Outsiders are refused. A user without a membership gets the status 403 from every endpoint of
  an organization, whether or not it exists, and the request changes nothing.
\<close>

theorem outsiders_are_forbidden:
  assumes "get_membership w oid (fst cu) = None"
  shows "get_organization_details oid cu w = raise_app ForbiddenException ''You are not a member of this organization'' w
    \<and> update_organization dump oid name slug logo color settings cu w = raise_app ForbiddenException ''You are not a member of this organization'' w
    \<and> delete_organization oid cu w = raise_app ForbiddenException ''You are not a member of this organization'' w
    \<and> transfer_ownership oid uid cu w = raise_app ForbiddenException ''You are not a member of this organization'' w
    \<and> list_members oid cu w = raise_app ForbiddenException ''You are not a member of this organization'' w
    \<and> change_member_role oid uid role cu w = raise_app ForbiddenException ''You are not a member of this organization'' w
    \<and> remove_member oid uid cu w = raise_app ForbiddenException ''You are not a member of this organization'' w
    \<and> invite_member token oid email role cu w = raise_app ForbiddenException ''You are not a member of this organization'' w
    \<and> list_invitations oid cu w = raise_app ForbiddenException ''You are not a member of this organization'' w
    \<and> cancel_invitation oid iid cu w = raise_app ForbiddenException ''You are not a member of this organization'' w
    \<and> list_audit_logs oid n cu w = raise_app ForbiddenException ''You are not a member of this organization'' w"
  using assms
  by (simp add: get_organization_details_def update_organization_def delete_organization_def
      transfer_ownership_def list_members_def change_member_role_def remove_member_def invite_member_def
      list_invitations_def cancel_invitation_def list_audit_logs_def require_role_def
      require_membership_def raise_app_def)

theorem outsiders_are_forbidden_witness:
  "delete_organization 5 (2, new_user ''bob@b.io'' ''bob'' None False ''UTC'' ''en'' 0) demo_tenants
    = raise_app ForbiddenException ''You are not a member of this organization'' demo_tenants"
proof -
  have "get_membership demo_tenants 5 2 = None" by code_simp
  then show ?thesis
    using outsiders_are_forbidden [of demo_tenants 5 "(2, new_user ''bob@b.io'' ''bob'' None False ''UTC'' ''en'' 0)"]
    by simp
qed

text \<open>
  A deleted organization leaves no trail. The event \<^verbatim>\<open>organization.deleted\<close> is written and then
  deleted with the organization by the cascade of its relationship, and where the database enforces
  foreign keys the audit log loses every entry of the organization, the entry of the deletion
  included.
\<close>

theorem deleted_organization_leaves_no_trail:
  assumes "delete_organization oid cu w = (Inr (), w')"
    and "t_ok (db_events w)" and "t_ok (db_audit w)" and "t_ok (db_orgs w)"
  shows "(\<forall>i e. t_get (db_events w') i = Some e \<longrightarrow> oe_org e \<noteq> oid)
    \<and> (db_fk w \<longrightarrow> (\<forall>i e. t_get (db_audit w') i = Some e \<longrightarrow> al_org e \<noteq> Some oid))"
proof -
  from assms(1) obtain m org where m: "get_membership w oid (fst cu) = Some m" "get_organization w oid = Some org"
    and w': "w' = crud_delete_organization org (Some (fst cu))
              (log_audit_event ''org.deleted'' (Some (fst cu)) (Some oid) (Some (org_target oid))
                 None None [(''name'', PStr (o_name (snd org)))] w)"
    by (auto simp: delete_organization_def require_role_def require_membership_def check_role_min_def
        raise_app_def split: option.splits if_splits)
  have "fst org = oid"
    using t_first_Some [OF assms(4), of "\<lambda>i r. i = oid" "fst org" "snd org"] m(2)
    by (simp add: get_organization_def)
  then show ?thesis using assms(2,3) unfolding w'
    by (auto simp: crud_delete_organization_def delete_org_row_def Let_def create_org_audit_event_def
        log_audit_event_def t_ok_insert split: prod.splits option.splits if_splits)
qed

theorem deleted_organization_leaves_no_trail_witness:
  "\<exists>cu w'. get_user demo_tenants 2 = Some cu \<and> delete_organization 1 cu demo_tenants = (Inr (), w')
    \<and> (\<forall>i e. t_get (db_events w') i = Some e \<longrightarrow> oe_org e \<noteq> 1)"
proof -
  obtain cu where cu: "get_user demo_tenants 2 = Some cu" using demo_facts(1) by auto
  have "(case get_user demo_tenants 2 of None \<Rightarrow> False
      | Some cu \<Rightarrow> fst (delete_organization 1 cu demo_tenants) = Inr ())" by code_simp
  then obtain w' where w': "delete_organization 1 cu demo_tenants = (Inr (), w')"
    using cu by (cases "delete_organization 1 cu demo_tenants") simp
  have "let w = demo_tenants in t_ok (db_events w) \<and> t_ok (db_audit w) \<and> t_ok (db_orgs w)" by code_simp
  then have "t_ok (db_events demo_tenants)" "t_ok (db_audit demo_tenants)" "t_ok (db_orgs demo_tenants)"
    by (simp_all add: Let_def)
  with deleted_organization_leaves_no_trail [OF w'] cu w' show ?thesis by blast
qed

end
