(* ===== verification/Asset_Requests.thy ===== *)
theory Asset_Requests
  imports Asset_Props Org_Requests
begin

text \<open>
  The handlers of projects, websites and crawls keep to \<open>Asset_Props.asset_step\<close>; the machine of all
  requests on a tenant, and the properties of its runs.
\<close>

section \<open>Guards\<close>

definition acts_in :: "int \<times> user \<Rightarrow> db \<Rightarrow> db \<Rightarrow> bool" where
  "acts_in cu w w' \<longleftrightarrow> core w' = core w
     \<or> (\<exists>oid i m. get_membership w oid (fst cu) = Some (i, m) \<and> asset_step oid (m_role m) w w')"

lemma acts_refl [simp]: "acts_in cu w w"
  by (simp add: acts_in_def)

lemma actsI: "get_membership w oid (fst cu) = Some (i, m) \<Longrightarrow> asset_step oid (m_role m) w w' \<Longrightarrow> acts_in cu w w'"
  by (auto simp: acts_in_def)

lemma core_audit [simp]:
  "core (log_audit_event action user org target ip agent details w) = core w"
  "core (create_org_audit_event oid action actor details w) = core w"
  "core (log_both action actor oid target' ip agent details event_details w) = core w"
  "core (log_website action actor site ip agent details w) = core w"
  by (simp_all add: core_defs log_both_def log_website_def log_audit_event_def create_org_audit_event_def
      Let_def split: option.split)

lemma role_permission:
  "check_role_permission r ''Member'' \<longleftrightarrow> 2 \<le> rank_of r"
  "check_role_permission r ''Admin'' \<longleftrightarrow> 4 \<le> rank_of r"
  by (simp_all add: check_role_permission_def rank_of_def ROLE_HIERARCHY_def)

lemma project_lookupD:
  assumes "t_ok (db_projects w)" and "get_project_by_id_or_slug w oid ident = Some (i, p)"
  shows "t_get (db_projects w) i = Some p \<and> p_org p = oid"
  using assms(2) t_first_Some [OF assms(1), of _ i p]
  unfolding get_project_by_id_or_slug_def get_project_by_slug_def
  by (auto split: if_splits option.splits)

lemma site_lookupD:
  assumes "t_ok (db_sites w)" and "get_project_website_by_id_or_domain w pid ident = Some (i, s)"
  shows "t_get (db_sites w) i = Some s \<and> w_project s = Some pid"
  using assms(2) t_first_Some [OF assms(1), of _ i s]
  unfolding get_project_website_by_id_or_domain_def Let_def by blast

lemma with_project_acts:
  assumes "t_ok (db_projects w)"
    and "\<And>k m i p. get_membership w oid (fst cu) = Some (k, m) \<Longrightarrow> check_role_permission (m_role m) role
      \<Longrightarrow> t_get (db_projects w) i = Some p \<Longrightarrow> p_org p = oid \<Longrightarrow> acts_in cu w (snd (body (i, p) w))"
  shows "acts_in cu w (snd (with_project oid ident role cu w body))"
  using assms(2) project_lookupD [OF assms(1), of oid ident]
  by (auto simp: with_project_def get_project_with_auth_check_def require_role_def require_membership_def
      check_role_min_def raise_app_def split: option.split)

lemma with_website_acts:
  assumes "t_ok (db_projects w)" and "t_ok (db_sites w)"
    and "\<And>k m i s. get_membership w oid (fst cu) = Some (k, m) \<Longrightarrow> check_role_permission (m_role m) role
      \<Longrightarrow> t_get (db_sites w) i = Some s \<Longrightarrow> w_org s = Some oid \<Longrightarrow> acts_in cu w (snd (body (i, s) w))"
  shows "acts_in cu w (snd (with_website oid pident sident role cu w body))"
  using assms(3) project_lookupD [OF assms(1), of oid pident] site_lookupD [OF assms(2), of _ sident]
  by (auto simp: with_website_def get_website_with_auth_check_def get_project_with_auth_check_def
      require_role_def require_membership_def check_role_min_def raise_app_def split: option.split)

lemma with_crawl_acts:
  assumes "t_ok (db_crawls w)" and "t_ok (db_sites w)"
    and "\<And>oid k m c s. get_membership w oid (fst cu) = Some (k, m) \<Longrightarrow> check_role_permission (m_role m) role
      \<Longrightarrow> t_get (db_crawls w) cid = Some c \<Longrightarrow> t_get (db_sites w) (cj_website c) = Some s
      \<Longrightarrow> w_org s = Some oid \<Longrightarrow> acts_in cu w (snd (body (cid, c) w))"
  shows "acts_in cu w (snd (with_crawl cid role cu w body))"
proof -
  have c: "fst c = cid \<and> t_get (db_crawls w) cid = Some (snd c)" if "get_crawl w cid = Some c" for c
    using t_first_Some [OF assms(1), of "\<lambda>i c. i = cid" "fst c" "snd c"] that by (auto simp: get_crawl_def)
  have s: "t_get (db_sites w) k = Some (snd s)" if "t_first (\<lambda>i s. i = k) (db_sites w) = Some s" for k s
    using t_first_Some [OF assms(2), of "\<lambda>i s. i = k" "fst s" "snd s"] that by auto
  show ?thesis
  proof (cases "get_crawl w cid")
    case None
    then show ?thesis by (simp add: with_crawl_def get_crawl_auth_def raise_app_def)
  next
    case crawl: (Some c)
    then show ?thesis
      using c [OF crawl] s assms(3) [of _ _ _ "snd c"]
      by (cases c) (auto simp: with_crawl_def get_crawl_auth_def require_site_role_def require_role_def
          require_membership_def check_role_min_def raise_app_def split: option.split)
  qed
qed

section \<open>Each handler is a step\<close>

definition tenant_assets :: "db \<Rightarrow> bool" where
  "tenant_assets w \<longleftrightarrow> tenant_inv w \<and> assets_ok w"

lemma tenant_assetsD:
  assumes "tenant_assets w"
  shows "tenant_inv w" and "assets_ok w" and "t_ok (db_projects w)" and "t_ok (db_sites w)"
    and "t_ok (db_crawls w)" and "projects_ok (db_orgs w) (db_projects w)"
    and "sites_ok (db_projects w) (db_sites w)"
  using assms by (auto simp: tenant_assets_def dest: assets_okD)

lemma member_org:
  assumes "tenant_inv w" and "get_membership w oid uid = Some (i, m)"
  shows "t_get (db_orgs w) oid \<noteq> None"
proof -
  have pol: "policy_ok (dom (t_get (db_orgs w)), roles_of (db_members w), offers_of (db_invs w))"
    using assms(1) by (simp add: tenant_inv_def policy_of_def)
  have "roles_of (db_members w) (oid, uid) = Some (m_role m)"
    using assms(2) by (simp add: role_Some)
  then show ?thesis using policy_okD(1) [OF pol, of oid uid] by auto
qed

lemma by_slug_find: "get_project_by_slug w oid slug = t_find pkey (oid, slug) (db_projects w)"
  by (simp add: get_project_by_slug_def t_find_def pkey_def)

text \<open>The shapes of a change, with the records that follow it.\<close>

lemma new_project_acts:
  assumes "tenant_inv w" and m: "get_membership w oid (fst cu) = Some (k, m)" "2 \<le> rank_of (m_role m)"
    and "p_org p = oid" and "good_slug p" and "get_project_by_slug w oid (p_slug p) = None"
  shows "acts_in cu w (log_both action actor oid' target' ip agent details event_details
    (w\<lparr>db_projects := snd (t_insert p (db_projects w))\<rparr>))"
  using assms member_org [OF assms(1) m(1)]
  by (intro actsI [OF m(1)] as_new_project [OF m(2), of p]) (simp_all add: by_slug_find pkey_def)

lemma create_project_acts:
  assumes "tenant_assets w"
  shows "acts_in cu w (snd (create_project oid name slug description status color icon timezone
    language settings ip agent cu w))"
proof -
  have "acts_in cu w (snd (crud_create_project oid (fst cu) name slug description st color icon tz
      lang stg ip agent w))"
    if m: "get_membership w oid (fst cu) = Some (k, m)" "2 \<le> rank_of (m_role m)" for k m st tz lang stg
  proof -
    note acts = new_project_acts [OF tenant_assetsD(1) [OF assms] m]
    show ?thesis
      by (cases "truthy slug"; cases "get_project_by_slug w oid (slugify_text (str_strip name))";
          cases "get_project_by_slug w oid (slugify_text (the slug))")
        (simp_all add: crud_create_project_def Let_def case_prod_unfold acts good_slug_def
          slugify_text_form)
  qed
  then show ?thesis
    by (auto simp: create_project_def require_role_then role_permission split: option.split)
qed

lemma put_project_acts:
  assumes m: "get_membership w oid (fst cu) = Some (k, m)" "2 \<le> rank_of (m_role m)"
    and p: "t_get (db_projects w) i = Some p" "p_org p = oid" "p_org p' = oid" "good_slug p'"
    and unique: "\<And>j q. t_get (db_projects w) j = Some q \<Longrightarrow> pkey q = pkey p' \<Longrightarrow> j = i"
  shows "acts_in cu w (log_both action actor oid' target' ip agent details event_details
    (w\<lparr>db_projects := t_put i p' (db_projects w)\<rparr>))"
proof (rule actsI [OF m(1)], rule as_put_project [OF m(2) p])
  show "j = i" if "t_get (db_projects w) j = Some q" "pkey q = pkey p'" for j q
    using that by (rule unique)
qed simp

lemma keep_slug_acts:
  assumes "tenant_assets w" and "get_membership w oid (fst cu) = Some (k, m)" and "2 \<le> rank_of (m_role m)"
    and p: "t_get (db_projects w) i = Some p" "p_org p = oid" and "p_org p' = p_org p" and "p_slug p' = p_slug p"
  shows "acts_in cu w (log_both action actor oid' target' ip agent details event_details
    (w\<lparr>db_projects := t_put i p' (db_projects w)\<rparr>))"
proof (rule put_project_acts [OF assms(2,3) p])
  note ok = projects_okD [OF tenant_assetsD(6) [OF assms(1)]]
  show "p_org p' = oid" "good_slug p'" using assms ok(5) [OF p(1)] by (simp_all add: good_slug_def)
  show "j = i" if "t_get (db_projects w) j = Some q" "pkey q = pkey p'" for j q
    using ok(1) that p assms(6,7) unfolding t_unique_def by (simp add: pkey_def)
qed

lemma new_slug_acts:
  assumes "tenant_assets w" and "get_membership w oid (fst cu) = Some (k, m)" and "2 \<le> rank_of (m_role m)"
    and p: "t_get (db_projects w) i = Some p" "p_org p = oid" and "p_org p' = p_org p" and "good_slug p'"
    and free: "\<not> (case get_project_by_slug w oid (p_slug p') of None \<Rightarrow> False | Some (j, q) \<Rightarrow> j \<noteq> i)"
  shows "acts_in cu w (log_both action actor oid' target' ip agent details event_details
    (w\<lparr>db_projects := t_put i p' (db_projects w)\<rparr>))"
proof (rule put_project_acts [OF assms(2,3) p])
  note ok = projects_okD [OF tenant_assetsD(6) [OF assms(1)]]
  show "p_org p' = oid" "good_slug p'" using assms by simp_all
  show "j = i" if "t_get (db_projects w) j = Some q" "pkey q = pkey p'" for j q
  proof -
    have "get_project_by_slug w oid (p_slug p') = Some (j, q)"
      using that p assms(6) unfolding by_slug_find t_find_iff [OF ok(1)] by (simp add: pkey_def)
    with free show ?thesis by simp
  qed
qed

lemma crud_update_acts:
  assumes "tenant_assets w" and "get_membership w oid (fst cu) = Some (k, m)" and "2 \<le> rank_of (m_role m)"
    and p: "t_get (db_projects w) i = Some p" "p_org p = oid"
  shows "acts_in cu w (snd (crud_update_project (i, p) name slug description status color icon timezone
    language settings actor ip agent w))"
proof (cases slug)
  case None
  then show ?thesis
    by (simp add: crud_update_project_def Let_def keep_slug_acts [OF assms] split del: if_split)
next
  case (Some s)
  show ?thesis
  proof (cases "slugify_text s = p_slug p")
    case True
    with Some show ?thesis
      by (simp add: crud_update_project_def Let_def keep_slug_acts [OF assms] split del: if_split)
  next
    case False
    let ?taken = "case get_project_by_slug w oid (slugify_text s) of None \<Rightarrow> False | Some (j, q) \<Rightarrow> j \<noteq> i"
    show ?thesis
    proof (cases ?taken)
      case True
      with False Some p show ?thesis
        by (simp add: crud_update_project_def Let_def split del: if_split)
    next
      case free: False
      with False Some p show ?thesis
        by (simp add: crud_update_project_def Let_def new_slug_acts [OF assms] good_slug_def
            slugify_text_form split del: if_split)
    qed
  qed
qed

lemma core_deletes_cong:
  "core w' = core w \<Longrightarrow> core (delete_sites P w') = core (delete_sites P w)"
  "core w' = core w \<Longrightarrow> core (delete_project_row i w') = core (delete_project_row i w)"
  by (simp_all add: core_defs delete_project_row_def delete_sites_def delete_crawls_def Let_def)

lemmas core_deletes =
  core_deletes_cong(1) [OF core_audit(1)] core_deletes_cong(2) [OF core_audit(3)]

lemma snd_case_pair: "snd (case x of (p, w) \<Rightarrow> (Inr p, w)) = snd x"
  by (simp add: case_prod_unfold)

lemma set_archived_acts:
  assumes "tenant_assets w" and "get_membership w oid (fst cu) = Some (k, m)" and "2 \<le> rank_of (m_role m)"
    and "t_get (db_projects w) i = Some p" and "p_org p = oid"
  shows "acts_in cu w (snd (set_project_archived flag status action (i, p) actor ip agent w))"
  by (simp add: set_project_archived_def Let_def keep_slug_acts [OF assms])

lemma member_acts:
  assumes "tenant_assets w" and "\<And>k m i p. get_membership w oid (fst cu) = Some (k, m) \<Longrightarrow> 2 \<le> rank_of (m_role m)
      \<Longrightarrow> t_get (db_projects w) i = Some p \<Longrightarrow> p_org p = oid \<Longrightarrow> acts_in cu w (snd (body (i, p) w))"
  shows "acts_in cu w (snd (with_project oid ident ''Member'' cu w body))"
  using assms(2) by (intro with_project_acts [OF tenant_assetsD(3) [OF assms(1)]]) (simp add: role_permission)

lemma update_project_acts:
  assumes "tenant_assets w"
  shows "acts_in cu w (snd (update_project oid ident name slug description status color icon timezone
      language settings ip agent cu w))"
  unfolding update_project_def by (rule member_acts [OF assms]) (rule crud_update_acts [OF assms])

lemma update_project_settings_acts:
  assumes "tenant_assets w"
  shows "acts_in cu w (snd (update_project_settings oid ident settings ip agent cu w))"
  unfolding update_project_settings_def by (rule member_acts [OF assms]) (rule crud_update_acts [OF assms])

lemma archive_project_acts:
  assumes "tenant_assets w"
  shows "acts_in cu w (snd (archive_project oid ident ip agent cu w))"
  unfolding archive_project_def crud_archive_project_def
  by (rule member_acts [OF assms]) (simp only: snd_case_pair set_archived_acts [OF assms])

lemma restore_project_acts:
  assumes "tenant_assets w"
  shows "acts_in cu w (snd (restore_project oid ident ip agent cu w))"
  unfolding restore_project_def crud_restore_project_def
  by (rule member_acts [OF assms]) (simp only: snd_case_pair set_archived_acts [OF assms])

lemma delete_project_acts:
  assumes "tenant_assets w"
  shows "acts_in cu w (snd (delete_project oid ident ip agent cu w))"
  unfolding delete_project_def
proof (rule with_project_acts [OF tenant_assetsD(3) [OF assms]])
  fix k m i p
  assume m: "get_membership w oid (fst cu) = Some (k, m)" "check_role_permission (m_role m) ''Admin''"
    and p: "t_get (db_projects w) i = Some p" "p_org p = oid"
  from m show "acts_in cu w (snd (Inr (fst (i, p)), crud_delete_project (i, p) (Some (fst cu)) ip agent w))"
    by (intro actsI [OF m(1)] as_delete_project [OF _ p])
      (simp_all add: role_permission crud_delete_project_def Let_def core_deletes
        delete_project_rows [OF tenant_assetsD(2) [OF assms]])
qed

subsection \<open>Websites\<close>

lemma by_domain_find: "get_org_website_by_normalized_domain w org ndom None = t_find skey (org, ndom) (db_sites w)"
  by (simp add: get_org_website_by_normalized_domain_def t_find_def skey_def)

lemma new_site_acts:
  assumes m: "get_membership w oid (fst cu) = Some (k, m)" "2 \<le> rank_of (m_role m)"
    and p: "t_get (db_projects w) pid = Some p" "p_org p = oid"
    and s: "w_project s = Some pid" "w_org s = Some oid"
    and "get_org_website_by_normalized_domain w (Some oid) (w_norm s) None = None"
  shows "acts_in cu w (log_both action actor oid' target' ip agent details event_details
    (w\<lparr>db_sites := snd (t_insert s (db_sites w))\<rparr>))"
  using assms(7)
  by (intro actsI [OF m(1)] as_new_site [OF m(2) p s]) (simp_all add: by_domain_find skey_def s)

lemma create_website_acts:
  assumes "tenant_assets w"
  shows "acts_in cu w (snd (create_website oid pident domain protocol status verification favicon country
    language timezone settings ip agent cu w))"
  unfolding create_website_def
proof (rule member_acts [OF assms])
  fix k m i p
  assume "get_membership w oid (fst cu) = Some (k, m)" "2 \<le> rank_of (m_role m)"
    "t_get (db_projects w) i = Some p" "p_org p = oid"
  note new = new_site_acts [OF this]
  show "acts_in cu w (snd (if \<not> is_valid_domain domain
      then raise_app ValidationErrorException ''Invalid domain format'' w
      else create_project_website (fst (i, p)) oid (fst cu) domain (or_else protocol ''https'')
        (or_else status ''active'') (or_else verification ''unverified'') favicon country
        (or_else language ''en'') (or_else timezone ''UTC'')
        (case settings of None \<Rightarrow> [] | Some s \<Rightarrow> s) ip agent w))"
    by (cases "is_valid_domain domain";
        cases "get_org_website_by_normalized_domain w (Some oid) (normalize_domain domain) None")
      (simp_all add: create_project_website_def Let_def case_prod_unfold new split del: if_split)
qed

lemma put_site_acts:
  assumes "tenant_assets w" and m: "get_membership w oid (fst cu) = Some (k, m)" "2 \<le> rank_of (m_role m)"
    and s: "t_get (db_sites w) i = Some s" "w_org s = Some oid"
    and s': "w_org s' = w_org s" "w_project s' = w_project s"
    and "w_norm s' = w_norm s \<or> get_org_website_by_normalized_domain w (w_org s) (w_norm s') (Some i) = None"
  shows "acts_in cu w (log_website action actor site ip agent details (w\<lparr>db_sites := t_put i s' (db_sites w)\<rparr>))"
proof (rule actsI [OF m(1)], rule as_put_site [OF m(2) s s'])
  note ok = sites_okD [OF tenant_assetsD(7) [OF assms(1)]]
  show "j = i" if q: "t_get (db_sites w) j = Some q" "skey q = skey s'" for j q
  proof (cases "w_norm s' = w_norm s")
    case True
    then have "skey q = skey s" using q s' by (simp add: skey_def)
    with ok(1) q(1) s(1) show ?thesis unfolding t_unique_def by blast
  next
    case False
    then have "t_first (\<lambda>j q. w_org q = w_org s \<and> w_norm q = w_norm s' \<and> (i = 0 \<or> j \<noteq> i)) (db_sites w) = None"
      using assms(8) by (simp add: get_org_website_by_normalized_domain_def)
    then have "\<not> (w_org q = w_org s \<and> w_norm q = w_norm s' \<and> (i = 0 \<or> j \<noteq> i))"
      using q(1) unfolding t_first_None [OF ok(2)] by blast
    then show ?thesis using q(2) s' by (auto simp: skey_def)
  qed
qed simp

lemma member_site_acts:
  assumes "tenant_assets w" and "\<And>k m i s. get_membership w oid (fst cu) = Some (k, m) \<Longrightarrow> 2 \<le> rank_of (m_role m)
      \<Longrightarrow> t_get (db_sites w) i = Some s \<Longrightarrow> w_org s = Some oid \<Longrightarrow> acts_in cu w (snd (body (i, s) w))"
  shows "acts_in cu w (snd (with_website oid pident sident ''Member'' cu w body))"
  using assms(2) by (intro with_website_acts [OF tenant_assetsD(3,4) [OF assms(1)]]) (simp add: role_permission)

lemma update_site_acts:
  assumes "tenant_assets w" and "get_membership w oid (fst cu) = Some (k, m)" and "2 \<le> rank_of (m_role m)"
    and s: "t_get (db_sites w) i = Some s" "w_org s = Some oid"
  shows "acts_in cu w (snd (update_project_website (i, s) domain protocol status verification favicon country
    language timezone settings actor ip agent w))"
proof (cases domain)
  case None
  then show ?thesis
    by (simp add: update_project_website_def Let_def put_site_acts [OF assms] split del: if_split)
next
  case (Some d)
  then show ?thesis
    by (cases "d = w_domain s";
        cases "get_org_website_by_normalized_domain w (w_org s) (normalize_domain d) (Some i)")
      (simp_all add: update_project_website_def Let_def put_site_acts [OF assms] split del: if_split)
qed

lemma update_website_acts:
  assumes "tenant_assets w"
  shows "acts_in cu w (snd (update_website oid pident sident domain protocol status verification favicon
    country language timezone settings ip agent cu w))"
  unfolding update_website_def
  by (rule member_site_acts [OF assms]) (simp add: update_site_acts [OF assms])

lemma update_website_settings_acts:
  assumes "tenant_assets w"
  shows "acts_in cu w (snd (update_website_settings oid pident sident settings ip agent cu w))"
  unfolding update_website_settings_def
  by (rule member_site_acts [OF assms]) (rule update_site_acts [OF assms])

lemma set_site_archived_acts:
  assumes "tenant_assets w" and "get_membership w oid (fst cu) = Some (k, m)" and "2 \<le> rank_of (m_role m)"
    and s: "t_get (db_sites w) i = Some s" "w_org s = Some oid"
  shows "acts_in cu w (snd (set_website_archived flag status action (i, s) actor ip agent w))"
  by (simp add: set_website_archived_def Let_def put_site_acts [OF assms])

lemma archive_website_acts:
  assumes "tenant_assets w"
  shows "acts_in cu w (snd (archive_website oid pident sident ip agent cu w))"
  unfolding archive_website_def archive_project_website_def
  by (rule member_site_acts [OF assms]) (simp only: snd_case_pair set_site_archived_acts [OF assms])

lemma restore_website_acts:
  assumes "tenant_assets w"
  shows "acts_in cu w (snd (restore_website oid pident sident ip agent cu w))"
  unfolding restore_website_def restore_project_website_def
  by (rule member_site_acts [OF assms]) (simp only: snd_case_pair set_site_archived_acts [OF assms])

lemma delete_website_acts:
  assumes "tenant_assets w"
  shows "acts_in cu w (snd (delete_website oid pident sident ip agent cu w))"
  unfolding delete_website_def
proof (rule with_website_acts [OF tenant_assetsD(3,4) [OF assms]])
  fix k m i s
  assume m: "get_membership w oid (fst cu) = Some (k, m)" "check_role_permission (m_role m) ''Admin''"
    and s: "t_get (db_sites w) i = Some s" "w_org s = Some oid"
  from m show "acts_in cu w (snd (Inr (fst (i, s)), delete_project_website (i, s) (Some (fst cu)) ip agent w))"
    by (intro actsI [OF m(1)] as_delete_site [OF _ s])
      (simp_all add: role_permission delete_project_website_def core_deletes
        delete_site_rows [OF tenant_assetsD(2) [OF assms] s(1)])
qed

subsection \<open>Crawls\<close>

lemma write_crawl_acts:
  assumes m: "get_membership w oid (fst cu) = Some (k, m)" "2 \<le> rank_of (m_role m)"
    and c: "t_get (db_crawls w) i = Some c" "t_get (db_sites w) (cj_website c) = Some s" "w_org s = Some oid"
    and "cj_website c' = cj_website c"
  shows "acts_in cu w (write_crawl i c' w)"
  using assms(6) by (intro actsI [OF m(1)] as_put_crawl [OF m(2) c, of c']) (simp_all add: write_crawl_def)

lemma member_crawl_acts:
  assumes "tenant_assets w"
    and "\<And>oid k m c s. get_membership w oid (fst cu) = Some (k, m) \<Longrightarrow> 2 \<le> rank_of (m_role m)
      \<Longrightarrow> t_get (db_crawls w) cid = Some c \<Longrightarrow> t_get (db_sites w) (cj_website c) = Some s
      \<Longrightarrow> w_org s = Some oid \<Longrightarrow> acts_in cu w (snd (body (cid, c) w))"
  shows "acts_in cu w (snd (with_crawl cid ''Member'' cu w body))"
  using assms(2) by (intro with_crawl_acts [OF tenant_assetsD(5,4) [OF assms(1)]]) (simp add: role_permission)

lemma snd_then_keep: "snd (and_then x (\<lambda>a w. (Inr (f a w), w))) = snd x"
  by (cases x; cases "fst x") (auto simp: and_then_def)

lemma create_crawl_job_acts:
  assumes "tenant_assets w"
  shows "acts_in cu w (snd (create_crawl_job pid wid triggered_by version cu w))"
proof (cases "t_first (\<lambda>i s. i = wid) (db_sites w)")
  case None
  then show ?thesis
    by (simp add: create_crawl_job_def get_website_and_project_auth_def raise_app_def)
next
  case (Some ws)
  obtain k s where ws: "ws = (k, s)" by (cases ws)
  then have s: "k = wid" "t_get (db_sites w) wid = Some s"
    using t_first_Some [OF tenant_assetsD(4) [OF assms], of "\<lambda>i s. i = wid" k s] Some by auto
  have new: "acts_in cu w (w\<lparr>db_crawls := snd (t_insert c (db_crawls w))\<rparr>)"
    if m: "get_membership w oid (fst cu) = Some (j, m)" "check_role_permission (m_role m) ''Member''"
      and "w_org s = Some oid" "cj_website c = wid" for oid j m c
    using that s by (intro actsI [OF m(1)] as_new_crawl [of _ w c s]) (simp_all add: role_permission)
  show ?thesis
    using Some ws s new
    by (auto simp: create_crawl_job_def get_website_and_project_auth_def require_site_role_def
        require_role_def require_membership_def check_role_min_def raise_app_def create_crawl_def
        Let_def case_prod_unfold split: option.split)
qed

lemma cancel_crawl_job_acts:
  assumes "tenant_assets w"
  shows "acts_in cu w (snd (cancel_crawl_job round2 cid cu w))"
  unfolding cancel_crawl_job_def
  by (rule member_crawl_acts [OF assms])
    (simp add: snd_then_keep cancel_crawl_def Let_def write_crawl_acts)

lemma retry_crawl_job_acts:
  assumes "tenant_assets w"
  shows "acts_in cu w (snd (retry_crawl_job round2 cid cu w))"
  unfolding retry_crawl_job_def
  by (rule member_crawl_acts [OF assms])
    (simp add: snd_then_keep retry_crawl_def Let_def write_crawl_acts)

lemma crawl_to_status_site [simp]: "cj_website (crawl_to_status now status c) = cj_website c"
  by (simp add: crawl_to_status_def split: option.split)

lemma update_crawl_progress_acts:
  assumes "tenant_assets w"
  shows "acts_in cu w (snd (update_crawl_progress round2 cid progress status pages issues duration error cu w))"
  unfolding update_crawl_progress_def
  by (rule member_crawl_acts [OF assms])
    (simp add: update_crawl_job_progress_def Let_def write_crawl_acts)

lemma get_crawl_row:
  assumes "t_ok (db_crawls w)" and "t_get (db_crawls w) i = Some c"
  shows "get_crawl w i = Some (i, c)"
  using t_first_key [OF assms(1), of i "\<lambda>_. True"] assms(2) by (simp add: get_crawl_def)

lemma add_crawl_page_acts:
  assumes "tenant_assets w"
  shows "acts_in cu w (snd (add_crawl_page cid d cu w))"
  unfolding add_crawl_page_def
proof (rule member_crawl_acts [OF assms])
  fix oid k m c s
  assume m: "get_membership w oid (fst cu) = Some (k, m)" "2 \<le> rank_of (m_role m)"
    and c: "t_get (db_crawls w) cid = Some c" "t_get (db_sites w) (cj_website c) = Some s" "w_org s = Some oid"
  let ?p = "mk_crawl_page cid d (db_now w)"
  let ?c = "c\<lparr>cj_pages := cj_pages c + 1, cj_updated := db_now w\<rparr>"
  have "snd (create_crawl_page cid d w)
      = w\<lparr>db_pages := snd (t_insert ?p (db_pages w)), db_crawls := t_put cid ?c (db_crawls w)\<rparr>"
    using get_crawl_row [OF tenant_assetsD(5) [OF assms] c(1)]
    by (simp add: create_crawl_page_def Let_def case_prod_unfold write_crawl_def get_crawl_def)
  then show "acts_in cu w (snd (case create_crawl_page cid d w of (p, w1) \<Rightarrow> (Inr p, w1)))"
    unfolding snd_case_pair
    by (intro actsI [OF m(1)] as_new_page [OF m(2) c, of ?c ?p]) (simp_all add: mk_crawl_page_def)
qed

lemma add_crawl_issue_acts:
  assumes "tenant_assets w"
  shows "acts_in cu w (snd (add_crawl_issue cid d cu w))"
  unfolding add_crawl_issue_def
proof (rule member_crawl_acts [OF assms])
  fix oid k m c s
  assume m: "get_membership w oid (fst cu) = Some (k, m)" "2 \<le> rank_of (m_role m)"
    and c: "t_get (db_crawls w) cid = Some c" "t_get (db_sites w) (cj_website c) = Some s" "w_org s = Some oid"
  let ?c = "c\<lparr>cj_issues := cj_issues c + 1, cj_updated := db_now w\<rparr>"
  have step: "acts_in cu w (w\<lparr>db_issues := snd (t_insert g (db_issues w)), db_crawls := t_put cid ?c (db_crawls w)\<rparr>)"
    if "ci_job g = cid" and "\<And>p. db_fk w \<Longrightarrow> ci_page g = Some p \<Longrightarrow> t_get (db_pages w) p \<noteq> None" for g
    using that by (intro actsI [OF m(1)] as_new_issue [OF m(2) c, of ?c g]) simp_all
  show "acts_in cu w (snd (create_crawl_issue cid d w))"
    using get_crawl_row [OF tenant_assetsD(5) [OF assms] c(1)]
    by (auto simp: create_crawl_issue_def Let_def case_prod_unfold write_crawl_def get_crawl_def intro!: step)
qed

section \<open>The machine of all requests\<close>

datatype asset_request =
    PCreate int string "string option" "string option" "string option" "string option" "string option"
      "string option" "string option" "kwargs option"
  | PUpdate int string "string option" "string option" "string option" "string option" "string option"
      "string option" "string option" "string option" "kwargs option"
  | PDelete int string
  | PArchive int string
  | PRestore int string
  | PSettings int string kwargs
  | SCreate int string string "string option" "string option" "string option" "string option"
      "string option" "string option" "string option" "kwargs option"
  | SUpdate int string string "string option" "string option" "string option" "string option"
      "string option" "string option" "string option" "string option" "kwargs option"
  | SDelete int string string
  | SArchive int string string
  | SRestore int string string
  | SSettings int string string kwargs
  | CCreate int int "string option" "string option"
  | CCancel int
  | CRetry int
  | CPage int page_data
  | CIssue int issue_data
  | CProgress int "int option" "string option" "int option" "int option" "int option" "string option"

text \<open>The client's address and agent come with the request; rounding only shows in the responses.\<close>

fun handle_asset :: "string option \<Rightarrow> string option \<Rightarrow> int \<times> user \<Rightarrow> asset_request \<Rightarrow> db \<Rightarrow> db" where
  "handle_asset ip ag cu (PCreate oid name slug d st c ic tz l stg) w
     = snd (create_project oid name slug d st c ic tz l stg ip ag cu w)"
| "handle_asset ip ag cu (PUpdate oid p name slug d st c ic tz l stg) w
     = snd (update_project oid p name slug d st c ic tz l stg ip ag cu w)"
| "handle_asset ip ag cu (PDelete oid p) w = snd (delete_project oid p ip ag cu w)"
| "handle_asset ip ag cu (PArchive oid p) w = snd (archive_project oid p ip ag cu w)"
| "handle_asset ip ag cu (PRestore oid p) w = snd (restore_project oid p ip ag cu w)"
| "handle_asset ip ag cu (PSettings oid p stg) w = snd (update_project_settings oid p stg ip ag cu w)"
| "handle_asset ip ag cu (SCreate oid p dn pr st v f c l tz stg) w
     = snd (create_website oid p dn pr st v f c l tz stg ip ag cu w)"
| "handle_asset ip ag cu (SUpdate oid p s dn pr st v f c l tz stg) w
     = snd (update_website oid p s dn pr st v f c l tz stg ip ag cu w)"
| "handle_asset ip ag cu (SDelete oid p s) w = snd (delete_website oid p s ip ag cu w)"
| "handle_asset ip ag cu (SArchive oid p s) w = snd (archive_website oid p s ip ag cu w)"
| "handle_asset ip ag cu (SRestore oid p s) w = snd (restore_website oid p s ip ag cu w)"
| "handle_asset ip ag cu (SSettings oid p s stg) w = snd (update_website_settings oid p s stg ip ag cu w)"
| "handle_asset ip ag cu (CCreate pid wid t v) w = snd (create_crawl_job pid wid t v cu w)"
| "handle_asset ip ag cu (CCancel cid) w = snd (cancel_crawl_job id cid cu w)"
| "handle_asset ip ag cu (CRetry cid) w = snd (retry_crawl_job id cid cu w)"
| "handle_asset ip ag cu (CPage cid d) w = snd (add_crawl_page cid d cu w)"
| "handle_asset ip ag cu (CIssue cid d) w = snd (add_crawl_issue cid d cu w)"
| "handle_asset ip ag cu (CProgress cid pr st pg iss dur err) w
     = snd (update_crawl_progress id cid pr st pg iss dur err cu w)"

lemma handle_asset_acts: "tenant_assets w \<Longrightarrow> acts_in cu w (handle_asset ip ag cu r w)"
  by (cases r)
    (simp_all add: create_project_acts update_project_acts delete_project_acts archive_project_acts
      restore_project_acts update_project_settings_acts create_website_acts update_website_acts
      delete_website_acts archive_website_acts restore_website_acts update_website_settings_acts
      create_crawl_job_acts cancel_crawl_job_acts retry_crawl_job_acts add_crawl_page_acts
      add_crawl_issue_acts update_crawl_progress_acts)

end
