(* ===== verification/Tenancy.thy ===== *)
theory Tenancy
  imports Asset_Requests
begin

text \<open>
  Runs of all requests of organizations, projects, websites and crawls, and what holds in every
  state they reach.
\<close>

section \<open>Requests on organizations\<close>

text \<open>Apart from a deletion they leave the assets alone and no organization disappears.\<close>

definition keeps_assets :: "db \<Rightarrow> db \<Rightarrow> bool" where
  "keeps_assets w w' \<longleftrightarrow> assets w' = assets w
     \<and> (\<forall>i. t_get (db_orgs w) i \<noteq> None \<longrightarrow> t_get (db_orgs w') i \<noteq> None)"

lemma keeps_refl [simp]: "keeps_assets w w"
  by (simp add: keeps_assets_def)

lemma keeps_audit [simp]:
  "keeps_assets w (log_audit_event action user org target ip agent details w') = keeps_assets w w'"
  "keeps_assets w (create_org_audit_event oid action actor details w') = keeps_assets w w'"
  by (simp_all add: keeps_assets_def assets_def log_audit_event_def create_org_audit_event_def)

lemma keeps_members [simp]:
  "keeps_assets w (w'\<lparr>db_members := M\<rparr>) = keeps_assets w w'"
  "keeps_assets w (w'\<lparr>db_invs := V\<rparr>) = keeps_assets w w'"
  "keeps_assets w (w'\<lparr>db_users := U\<rparr>) = keeps_assets w w'"
  by (simp_all add: keeps_assets_def assets_def)

lemma keeps_then:
  "keeps_assets w (snd x) \<Longrightarrow> (\<And>a w'. keeps_assets w w' \<Longrightarrow> keeps_assets w (snd (f a w')))
     \<Longrightarrow> keeps_assets w (snd (and_then x f))"
  by (auto simp: and_then_def split: prod.split sum.split)

lemma keeps_add_membership: "keeps_assets w w' \<Longrightarrow> keeps_assets w (snd (add_membership oid uid role w'))"
  by (simp add: add_membership_def Let_def case_prod_unfold)

lemma keeps_orgs_insert:
  "t_ok (db_orgs w) \<Longrightarrow> keeps_assets w (w\<lparr>db_orgs := snd (t_insert r (db_orgs w))\<rparr>)"
  by (simp add: keeps_assets_def assets_def t_get_insert)

lemma keeps_orgs_put: "keeps_assets w (w\<lparr>db_orgs := t_put i r (db_orgs w)\<rparr>)"
  by (simp add: keeps_assets_def assets_def)

lemma own_invitation_keeps: "snd (own_invitation token cu w) = w"
  by (simp add: own_invitation_def raise_app_def split: option.split)

lemma create_organization_keeps:
  assumes "t_ok (db_orgs w)"
  shows "keeps_assets w (snd (create_organization h4 h3 name slug logo color settings cu w))"
proof -
  have "keeps_assets w (snd (crud_create_organization name s creator logo color settings w))" for s creator
    unfolding crud_create_organization_def Let_def case_prod_unfold
    using keeps_add_membership [OF keeps_orgs_insert [OF assms]] by (auto intro!: keeps_then)
  then show ?thesis
    unfolding create_organization_def Let_def
    by (intro keeps_then) auto
qed

lemma update_organization_keeps:
  "keeps_assets w (snd (update_organization dump oid name slug logo color settings cu w))"
proof -
  have "keeps_assets w (snd (crud_update_organization org name slug logo color settings actor w))" for org actor
    by (cases org) (simp add: crud_update_organization_def Let_def keeps_orgs_put)
  then have "keeps_assets w (snd (and_then (crud_update_organization org name slug logo color settings actor w)
      (\<lambda>org' w1. (Inr org', log_audit_event a b c d e f g w1))))" for org actor a b c d e f g
    by (intro keeps_then) auto
  then show ?thesis
    by (simp add: update_organization_def require_role_then split: option.split)
qed

lemma membership_requests_keep:
  "keeps_assets w (snd (transfer_ownership oid new cu w))"
  "keeps_assets w (snd (change_member_role oid uid role cu w))"
  "keeps_assets w (snd (remove_member oid uid cu w))"
  "keeps_assets w (snd (cancel_invitation oid iid cu w))"
  by (simp_all add: transfer_ownership_def change_member_role_def remove_member_def cancel_invitation_def
      require_role_then require_membership_then crud_transfer_ownership_def crud_update_member_role_def
      crud_remove_org_member_def crud_cancel_invitation_def set_invitation_status_def check_role_min_def
      Let_def raise_app_def case_prod_unfold split: option.split)

lemma invitation_requests_keep:
  "keeps_assets w (snd (invite_member token oid email role cu w))"
  "keeps_assets w (snd (accept_invitation token cu w))"
  "keeps_assets w (snd (reject_invitation token cu w))"
proof -
  have create: "keeps_assets w (snd (crud_create_invitation oid email role token inviter expires w))"
    for oid email role token inviter expires
    by (simp add: crud_create_invitation_def Let_def case_prod_unfold)
  have accept: "keeps_assets w (snd (crud_accept_invitation iv cu w'))" if k: "keeps_assets w w'" for iv w'
  proof -
    have w1: "keeps_assets w (set_invitation_status iv s w')" for s
      using k by (simp add: set_invitation_status_def case_prod_unfold)
    show ?thesis
      using keeps_add_membership [OF w1]
      by (auto simp: crud_accept_invitation_def Let_def w1 k split: option.split prod.split sum.split)
         (metis snd_conv)+
  qed
  show "keeps_assets w (snd (invite_member token oid email role cu w))"
    unfolding invite_member_def require_role_then
    using create by (auto split: option.split intro!: keeps_then)
  show "keeps_assets w (snd (accept_invitation token cu w))"
    unfolding accept_invitation_def
    using accept own_invitation_keeps [of token cu w]
    by (intro keeps_then) auto
  show "keeps_assets w (snd (reject_invitation token cu w))"
    unfolding reject_invitation_def crud_reject_invitation_def set_invitation_status_def
    using own_invitation_keeps [of token cu w]
    by (intro keeps_then) (auto simp: case_prod_unfold)
qed

lemma keeps_assets_ok:
  assumes "assets_ok w" and "keeps_assets w w'"
  shows "assets_ok w'"
  using assms unfolding assets_ok_def keeps_assets_def assets_def projects_ok_def by auto

section \<open>Deleting an organization\<close>

lemma assets_ok_delete_org:
  assumes "assets_ok w"
  shows "assets_ok (delete_org_row oid w)"
proof -
  let ?pids = "map fst (t_where (\<lambda>i p. p_org p = oid) (db_projects w))"
  let ?P = "\<lambda>i s. w_org s = Some oid \<or> (\<exists>p\<in>set ?pids. w_project s = Some p)"
  let ?Q = "\<lambda>i p. p_org p = oid"
  let ?w = "delete_sites ?P w"
  have ok: "assets_ok ?w" by (rule assets_ok_delete_sites [OF assms])
  note P = projects_okD [OF assets_okD(1) [OF assms]] and S = sites_okD [OF assets_okD(2) [OF assms]]
  have "projects_ok (t_delete oid (db_orgs w)) (t_delete_where ?Q (db_projects w))"
    using P
    by (auto simp: projects_ok_def t_unique_filtered filtered_get simp del: t_get_delete_where)
  moreover have "sites_ok (t_delete_where ?Q (db_projects w)) (t_delete_where ?P (db_sites w))"
    using assets_okD(2) [OF assms] P(2) S(1,2)
    by (fastforce simp: sites_ok_def t_unique_filtered filtered_get simp del: t_get_delete_where)
  ultimately show ?thesis using ok
    by (simp add: assets_ok_def delete_org_row_def Let_def)
qed

lemma delete_organization_ok:
  assumes "assets_ok w"
  shows "assets_ok (snd (delete_organization oid cu w))"
proof -
  have "assets_ok (log_audit_event a b c d e f g w)" and "assets_ok (create_org_audit_event i j k l w)"
    for a b c d e f g i j k l
    using assms by (simp_all add: keeps_assets_ok [OF assms])
  then have "assets_ok (delete_org_row i (create_org_audit_event a b c d (log_audit_event e f g h j k l w)))"
    for i a b c d e f g h j k l
    by (intro assets_ok_delete_org keeps_assets_ok [OF assms]) simp
  then show ?thesis using assms
    by (simp add: delete_organization_def require_role_then crud_delete_organization_def
        split: option.split prod.split)
qed

lemma handle_assets_ok:
  assumes "tenant_assets w"
  shows "assets_ok (handle cu r w)"
proof (cases r)
  case (RDelete oid)
  then show ?thesis using delete_organization_ok [OF tenant_assetsD(2) [OF assms]] by simp
next
  case (RCreate h4 h3 name slug logo color settings)
  have "t_ok (db_orgs w)"
    using tenant_assetsD(1) [OF assms] by (simp add: tenant_inv_def tenant_ok_def)
  then show ?thesis
    using RCreate keeps_assets_ok [OF tenant_assetsD(2) [OF assms] create_organization_keeps] by simp
qed (simp_all add: keeps_assets_ok [OF tenant_assetsD(2) [OF assms]] membership_requests_keep
    invitation_requests_keep update_organization_keeps)

text \<open>An organization that another one's request does not name keeps what it has.\<close>

lemma delete_org_spares:
  assumes "assets_ok w" and "other \<noteq> oid"
  shows "spares_org other w (delete_org_row oid w)"
proof -
  let ?pids = "map fst (t_where (\<lambda>i p. p_org p = oid) (db_projects w))"
  let ?P = "\<lambda>i s. w_org s = Some oid \<or> (\<exists>p\<in>set ?pids. w_project s = Some p)"
  note ok = assets_okD [OF assms(1)]
  have org: "w_org s = Some oid" if s: "t_get (db_sites w) i = Some s" "?P i s" for i s
  proof (cases "w_org s = Some oid")
    case False
    with s(2) obtain p where p: "p \<in> set ?pids" "w_project s = Some p" by blast
    then obtain q where "t_get (db_projects w) p = Some q" "p_org q = oid" unfolding t_where_keys [OF ok(6)] by blast
    note this p(2)
    then show ?thesis using sites_okD(3) [OF ok(2) s(1)] by auto
  qed simp
  have "spares_org other w (delete_sites ?P w)"
    unfolding delete_sites_rows [OF assms(1)] using org assms(2)
    by (intro without_sites_spares [OF assms(1)]) fastforce
  moreover have "owned_by other (Some \<circ> p_org) (t_delete_where (\<lambda>i p. p_org p = oid) (db_projects w))
      = owned_by other (Some \<circ> p_org) (db_projects w)"
    using ok(6) assms(2) by (intro owned_delete_where) auto
  ultimately show ?thesis
    by (simp add: spares_org_def assets_of_def issues_of_def delete_org_row_def Let_def)
qed

lemma keeps_assets_spares: "keeps_assets w w' \<Longrightarrow> spares_org oid w w'"
  by (simp add: keeps_assets_def assets_def spares_org_def assets_of_def issues_of_def)

lemma delete_organization_spares:
  assumes "assets_ok w" and "\<And>i m. get_membership w other (fst cu) = Some (i, m) \<Longrightarrow> rank_of (m_role m) < 2"
  shows "spares_org other w (snd (delete_organization oid cu w))"
proof -
  have logged: "spares_org other w (delete_org_row oid (create_org_audit_event a b c d (log_audit_event e f g h j k l w)))"
    if "other \<noteq> oid" for a b c d e f g h j k l
    using that by (intro spares_org_from [OF _ delete_org_spares] keeps_assets_ok [OF assms(1)]) simp_all
  have same: "spares_org other w w" by (simp add: spares_org_def)
  have row: "fst org = oid" if "get_organization w oid = Some org" for org
    using that unfolding get_organization_def t_first_def by (auto simp: find_Some_iff)
  show ?thesis
  proof (cases "get_membership w oid (fst cu)")
    case (Some im)
    have "other \<noteq> oid" if "check_role_permission (m_role (snd im)) ''Owner''"
      using assms(2) [of "fst im" "snd im"] Some that owner_permission by (auto simp: rank_of_def ROLE_HIERARCHY_def)
    then show ?thesis
      using logged same row Some
      by (auto simp: delete_organization_def require_role_then crud_delete_organization_def
          split: option.split prod.split)
  qed (simp add: delete_organization_def require_role_then same)
qed

lemma handle_spares:
  assumes "tenant_assets w" and "\<And>i m. get_membership w other (fst cu) = Some (i, m) \<Longrightarrow> rank_of (m_role m) < 2"
  shows "spares_org other w (handle cu r w)"
proof (cases r)
  case (RDelete oid)
  then show ?thesis using delete_organization_spares [OF tenant_assetsD(2) [OF assms(1)] assms(2)] by simp
next
  case (RCreate h4 h3 name slug logo color settings)
  have "t_ok (db_orgs w)" using tenant_assetsD(1) [OF assms(1)] by (simp add: tenant_inv_def tenant_ok_def)
  then show ?thesis using RCreate keeps_assets_spares [OF create_organization_keeps] by simp
qed (simp_all add: keeps_assets_spares membership_requests_keep invitation_requests_keep update_organization_keeps)

section \<open>The machine\<close>

datatype site_event =
    Account tenant_event
  | Asset "string option" "string option" int asset_request

fun site_step :: "db \<Rightarrow> site_event \<Rightarrow> db" where
  "site_step w (Account ev) = tenant_step w ev"
| "site_step w (Asset ip ag uid r) =
     (case get_user w uid of None \<Rightarrow> w | Some cu \<Rightarrow> handle_asset ip ag cu r w)"

lemma tenant_step_assets:
  assumes "tenant_assets w"
  shows "assets_ok (tenant_step w ev)"
proof (cases ev)
  case (SignUp email name)
  have "keeps_assets w (tenant_step w ev)"
    unfolding SignUp by (simp add: create_user_def Let_def case_prod_unfold)
  then show ?thesis by (rule keeps_assets_ok [OF tenant_assetsD(2) [OF assms]])
next
  case (Tick n)
  then show ?thesis
    by (intro keeps_assets_ok [OF tenant_assetsD(2) [OF assms]]) (simp add: keeps_assets_def assets_def)
next
  case (Request uid r)
  then show ?thesis using handle_assets_ok [OF assms] tenant_assetsD(2) [OF assms]
    by (simp split: option.split)
qed

lemma tenant_inv_people: "tenant_inv w \<Longrightarrow> people w' = people w \<Longrightarrow> tenant_inv w'"
  by (simp add: tenant_inv_def tenant_ok_def policy_of_def people_def)

lemma asset_step_people: "asset_step oid role w w' \<Longrightarrow> people w' = people w"
  by (induction rule: asset_step.induct)
    (simp_all add: core_def, simp_all add: people_def without_sites_def)

lemma acts_in_ok:
  assumes "tenant_assets w" and "acts_in cu w w'"
  shows "tenant_assets w'"
  using assms(2) unfolding acts_in_def
proof (elim disjE exE conjE)
  assume "core w' = core w"
  then show ?thesis
    using assms(1) tenant_inv_people [of w w'] assets_ok_core [of w w'] by (simp add: tenant_assets_def core_def)
next
  fix oid i m
  assume "asset_step oid (m_role m) w w'"
  then show ?thesis
    using assms(1) tenant_inv_people [of w w'] asset_step_people [of oid "m_role m" w w']
      asset_step_ok [of oid "m_role m" w w'] by (simp add: tenant_assets_def)
qed

interpretation sites: machine site_step tenant_assets
proof
  fix w e assume ok: "tenant_assets w"
  show "tenant_assets (site_step w e)"
  proof (cases e)
    case (Account ev)
    then show ?thesis using ok tenant_step_assets [OF ok] tenant_step_inv by (simp add: tenant_assets_def)
  next
    case (Asset ip ag uid r)
    then show ?thesis using ok acts_in_ok [OF ok handle_asset_acts [OF ok]] by (simp split: option.split)
  qed
qed

abbreviation site_run :: "bool \<Rightarrow> int \<Rightarrow> site_event list \<Rightarrow> db" where
  "site_run fk now evs \<equiv> foldl site_step (db_empty fk now) evs"

lemma site_init: "tenant_assets (db_empty fk now)"
proof -
  have "assets_ok (db_empty fk now)"
    by (simp add: assets_ok_def projects_ok_def sites_ok_def below_ok_def issue_pages_def db_empty_def)
      (simp add: t_empty_def)
  then show ?thesis using tenant_init by (simp add: tenant_assets_def)
qed

lemma site_run_inv: "tenant_assets (site_run fk now evs)"
  by (rule sites.run_inv [OF site_init])

section \<open>A run with a crawl that was cancelled and one that waits\<close>

definition demo_site_events :: "site_event list" where
  "demo_site_events =
     map Account (demo_events @ [SignUp ''eve@e.io'' ''eve'']) @ map (Asset None None 1)
       [PCreate 1 ''Web Shop'' None None None None None None None None,
        PCreate 1 ''1'' None None None None None None None None,
        SCreate 1 ''web-shop'' ''https://Example.com/home'' None None None None None None None None,
        CCreate 1 1 None None, CCancel 1, CCreate 1 1 None None]"

definition demo_sites :: db where
  "demo_sites = site_run False 0 demo_site_events"

definition demo_deleted :: "db \<Rightarrow> db" where
  "demo_deleted w =
     (case get_user w 1 of None \<Rightarrow> w | Some cu \<Rightarrow> handle_asset None None cu (PDelete 1 ''web-shop'') w)"

definition demo_auth :: "db \<Rightarrow> (int \<times> string) option" where
  "demo_auth w =
     (case get_user w 1 of
        None \<Rightarrow> None
      | Some cu \<Rightarrow>
          (case fst (get_crawl_auth 1 ''Member'' cu w) of
             Inl _ \<Rightarrow> None
           | Inr ((i, c), _, _) \<Rightarrow> Some (i, cj_status c)))"

lemma demo_sites_facts:
  "let w = demo_sites in
     (map_option p_slug (t_get (db_projects w) 1), map_option pkey (t_get (db_projects w) 2),
      map_option skey (t_get (db_sites w) 1), map_option cj_status (t_get (db_crawls w) 1),
      map_option cj_status (t_get (db_crawls w) 2), map_option cj_website (t_get (db_crawls w) 1),
      map_option cj_website (t_get (db_crawls w) 2), map_option fst (get_user w 1),
      map_option fst (get_user w 3), get_membership w 1 3,
      map_option p_slug (t_get (db_projects (demo_deleted w)) 1), map_option p_org (t_get (db_projects w) 1),
      demo_auth w)
     = (Some ''web-shop'', Some (1, ''1''), Some (Some 1, ''example.com''), Some ''cancelled'', Some ''queued'',
        Some 1, Some 1, Some 1, Some 3, None, None, Some 1, Some (1, ''cancelled''))"
  by code_simp

lemma demo_sites_rows:
  "map_option p_slug (t_get (db_projects demo_sites) 1) = Some ''web-shop''"
  "map_option pkey (t_get (db_projects demo_sites) 2) = Some (1, ''1'')"
  "map_option skey (t_get (db_sites demo_sites) 1) = Some (Some 1, ''example.com'')"
  "map_option cj_status (t_get (db_crawls demo_sites) 1) = Some ''cancelled''"
  "map_option cj_status (t_get (db_crawls demo_sites) 2) = Some ''queued''"
  "map_option cj_website (t_get (db_crawls demo_sites) 1) = Some 1"
  "map_option cj_website (t_get (db_crawls demo_sites) 2) = Some 1"
  "map_option fst (get_user demo_sites 1) = Some 1" "map_option fst (get_user demo_sites 3) = Some 3"
  "get_membership demo_sites 1 3 = None" "t_get (db_projects (demo_deleted demo_sites)) 1 = None"
  "map_option p_org (t_get (db_projects demo_sites) 1) = Some 1"
  "demo_auth demo_sites = Some (1, ''cancelled'')"
  using demo_sites_facts unfolding Let_def prod.inject by auto

section \<open>Properties\<close>

text \<open>
  C3: Every request keeps to the specification of the assets. From every state that a run of
  sign-ups, organization requests and asset requests reaches, a request on projects, websites or
  crawls either changes none of the tables of people and assets, or is one step of \<open>asset_step\<close> in
  an organization the user is a member of, with the role the step asks for: member to create and
  change, administrator to delete. The guards, the lookups and the cascades are those of the code.
\<close>

theorem asset_requests_follow_policy:
  assumes "get_user (site_run fk now evs) uid = Some cu"
  shows "core (handle_asset ip ag cu r (site_run fk now evs)) = core (site_run fk now evs)
    \<or> (\<exists>oid i m. get_membership (site_run fk now evs) oid uid = Some (i, m)
         \<and> asset_step oid (m_role m) (site_run fk now evs) (handle_asset ip ag cu r (site_run fk now evs)))"
proof -
  have "fst cu = uid" by (rule get_userD [OF tenant_assetsD(1) [OF site_run_inv] assms])
  with handle_asset_acts [OF site_run_inv, of cu fk now evs ip ag r] show ?thesis
    unfolding acts_in_def by simp
qed

theorem asset_requests_follow_policy_witness:
  "\<exists>cu. get_user demo_sites 1 = Some cu
    \<and> core (handle_asset None None cu (PDelete 1 ''web-shop'') demo_sites) \<noteq> core demo_sites
    \<and> (\<exists>oid i m. get_membership demo_sites oid 1 = Some (i, m)
         \<and> asset_step oid (m_role m) demo_sites (handle_asset None None cu (PDelete 1 ''web-shop'') demo_sites))"
proof -
  obtain cu where cu: "get_user demo_sites 1 = Some cu" using demo_sites_rows(8) by auto
  have "core (handle_asset None None cu (PDelete 1 ''web-shop'') demo_sites) \<noteq> core demo_sites"
    using cu demo_sites_rows(1,11) by (auto simp: core_defs demo_deleted_def)
  with asset_requests_follow_policy [OF cu [unfolded demo_sites_def], of None None "PDelete 1 ''web-shop''"] cu
  show ?thesis unfolding demo_sites_def by blast
qed

text \<open>
  C4: No orphans. In every state that sign-ups and the requests on organizations, projects, websites
  and crawls reach, a project belongs to an organization that exists, a website to a project of its
  own organization, a crawl to a website, and a page or an issue to a crawl: the deletions of
  organizations, projects and websites take everything below with them, whether the database enforces
  foreign keys or not. The page that an issue names exists when it does. (The websites of the user
  level interface, which have neither project nor organization, are not part of these runs.)
\<close>

theorem no_orphans:
  assumes "w = site_run fk now evs"
  shows "(\<forall>i p. t_get (db_projects w) i = Some p \<longrightarrow> t_get (db_orgs w) (p_org p) \<noteq> None)
    \<and> (\<forall>i s. t_get (db_sites w) i = Some s \<longrightarrow>
         (\<exists>pid p. w_project s = Some pid \<and> t_get (db_projects w) pid = Some p \<and> w_org s = Some (p_org p)))
    \<and> (\<forall>i c. t_get (db_crawls w) i = Some c \<longrightarrow> t_get (db_sites w) (cj_website c) \<noteq> None)
    \<and> (\<forall>i p. t_get (db_pages w) i = Some p \<longrightarrow> t_get (db_crawls w) (cp_job p) \<noteq> None)
    \<and> (\<forall>i s. t_get (db_issues w) i = Some s \<longrightarrow> t_get (db_crawls w) (ci_job s) \<noteq> None)
    \<and> (\<forall>i s p. db_fk w \<longrightarrow> t_get (db_issues w) i = Some s \<longrightarrow> ci_page s = Some p \<longrightarrow> t_get (db_pages w) p \<noteq> None)"
  using tenant_assetsD(2) [OF site_run_inv, of fk now evs]
  unfolding assms assets_ok_def projects_ok_def sites_ok_def below_ok_def issue_pages_def by blast

theorem no_orphans_witness:
  "\<exists>c. t_get (db_crawls demo_sites) 2 = Some c \<and> t_get (db_sites demo_sites) (cj_website c) \<noteq> None"
  using no_orphans [OF demo_sites_def] demo_sites_rows(5) by auto

text \<open>
  C5: Organizations are isolated. A request on organizations, projects, websites or crawls of a user
  who is not at least a member of an organization, whether a viewer of it or a stranger, changes none
  of its projects, websites, crawls and pages, however the request names organizations, projects,
  websites and crawls, and even when it deletes an organization of the user. It adds and changes none of its issues, and an issue that it removes is one that names
  a page of another organization: the key of the page is taken from the client unchecked, and the
  page takes the issue with it.
\<close>

theorem organizations_are_isolated:
  assumes "get_user (site_run fk now evs) uid = Some cu"
    and "\<And>i m. get_membership (site_run fk now evs) oid uid = Some (i, m) \<Longrightarrow> rank_of (m_role m) < 2"
  shows "spares_org oid (site_run fk now evs) (handle_asset ip ag cu r (site_run fk now evs))
    \<and> spares_org oid (site_run fk now evs) (handle cu q (site_run fk now evs))"
proof
  show "spares_org oid (site_run fk now evs) (handle cu q (site_run fk now evs))"
    using get_userD [OF tenant_assetsD(1) [OF site_run_inv] assms(1)] assms(2) by (intro handle_spares [OF site_run_inv]) auto
next
  let ?w = "site_run fk now evs" and ?w' = "handle_asset ip ag cu r (site_run fk now evs)"
  have cu: "fst cu = uid" by (rule get_userD [OF tenant_assetsD(1) [OF site_run_inv] assms(1)])
  show "spares_org oid ?w ?w'"
    using handle_asset_acts [OF site_run_inv, of cu fk now evs ip ag r] unfolding acts_in_def
  proof (elim disjE exE conjE)
    assume "core ?w' = core ?w"
    then show ?thesis by (rule spares_org_core) (simp add: spares_org_def)
  next
    fix a i m
    assume m: "get_membership ?w a (fst cu) = Some (i, m)" and step: "asset_step a (m_role m) ?w ?w'"
    from step have "2 \<le> rank_of (m_role m)" by cases simp_all
    with m cu assms(2) [of i m] have "oid \<noteq> a" by auto
    then show ?thesis by (rule asset_step_isolated [OF step tenant_assetsD(2) [OF site_run_inv]])
  qed
qed

theorem organizations_are_isolated_witness:
  "\<exists>cu. get_user demo_sites 3 = Some cu
    \<and> spares_org 1 demo_sites (handle_asset None None cu (CCancel 2) demo_sites)"
proof -
  obtain cu where cu: "get_user demo_sites 3 = Some cu" using demo_sites_rows(9) by auto
  show ?thesis
    using organizations_are_isolated [OF cu [unfolded demo_sites_def], of 1 None None "CCancel 2"]
      cu demo_sites_rows(10) unfolding demo_sites_def by auto
qed

text \<open>
  Such an issue is lost in fact. Cat's organization has a crawl with an issue that names the page 1 of
  a crawl of Dan's; Dan deletes his project, and the issue of the other organization is gone.
\<close>

definition page_1 :: page_data where
  "page_1 = \<lparr>pd_url = ''u'', pd_depth = None, pd_status_code = None, pd_content_type = None, pd_title = None,
     pd_meta = None, pd_canonical = None, pd_h1 = None, pd_words = None, pd_internal = None, pd_external = None,
     pd_noindex = None, pd_nofollow = None, pd_redirect = None, pd_response = None\<rparr>"

definition issue_on_page_1 :: issue_data where
  "issue_on_page_1 = \<lparr>is_page = Some 1, is_severity = ''low'', is_category = ''c'', is_message = ''m'',
     is_recommendation = None\<rparr>"

definition lost_issue_events :: "site_event list" where
  "lost_issue_events =
     map Account [SignUp ''dan@d.io'' ''dan'', SignUp ''cat@c.io'' ''cat'',
       Request 1 (RCreate ''00'' ''11'' ''D'' None None None None),
       Request 2 (RCreate ''22'' ''33'' ''C'' None None None None)]
     @ map (Asset None None 1)
       [PCreate 1 ''p'' None None None None None None None None,
        SCreate 1 ''p'' ''d.io'' None None None None None None None None,
        CCreate 1 1 None None, CPage 1 page_1]
     @ map (Asset None None 2)
       [PCreate 2 ''q'' None None None None None None None None,
        SCreate 2 ''q'' ''c.io'' None None None None None None None None,
        CCreate 2 2 None None, CIssue 2 issue_on_page_1]"

lemma issue_lost_with_foreign_page:
  "let w = site_run True 0 lost_issue_events; w' = site_step w (Asset None None 1 (PDelete 1 ''p''))
   in (map_option ci_job (issues_of 2 w 1), issues_of 2 w' 1, get_membership w 2 1)
      = (Some 2, None, None)"
  by code_simp

text \<open>
  What a project is found by. In every reachable state a project is found by its key, and it is
  found by its slug except when the slug is a text of digits that is the key of another project of
  the same organization: that one is found instead.
\<close>

theorem project_lookup_exact:
  assumes "w = site_run fk now evs" and "t_get (db_projects w) i = Some p"
  shows "get_project_by_id_or_slug w (p_org p) (int_str i) = Some (i, p)
    \<and> (get_project_by_id_or_slug w (p_org p) (p_slug p) = Some (i, p) \<longleftrightarrow>
         \<not> (str_isdigit (p_slug p) \<and> int (digits_val (p_slug p)) \<noteq> i
            \<and> (\<exists>q. t_get (db_projects w) (int (digits_val (p_slug p))) = Some q \<and> p_org q = p_org p)))"
proof -
  note ok = projects_okD [OF tenant_assetsD(6) [OF site_run_inv, of fk now evs], folded assms(1)]
  have by_slug: "get_project_by_slug w (p_org p) (p_slug p) = Some (i, p)"
    using assms(2) unfolding by_slug_find t_find_iff [OF ok(1)] by (simp add: pkey_def)
  have by_key: "t_first (\<lambda>j q. p_org q = p_org p \<and> j = k) (db_projects w)
      = (case t_get (db_projects w) k of None \<Rightarrow> None | Some q \<Rightarrow> if p_org q = p_org p then Some (k, q) else None)" for k
    using t_first_key [OF ok(2), of k "\<lambda>q. p_org q = p_org p"] by (simp add: conj_commute)
  have "0 < i" using ok(4) [OF assms(2)] .
  then have digits: "str_isdigit (int_str i)" "int (digits_val (int_str i)) = i"
    using nat_str_facts [of "nat i"] by (simp_all add: str_isdigit_def int_str_def)
  then have 1: "get_project_by_id_or_slug w (p_org p) (int_str i) = Some (i, p)"
    using assms(2) by (simp add: get_project_by_id_or_slug_def by_key)
  have 2: "get_project_by_id_or_slug w (p_org p) (p_slug p) = Some (i, p) \<longleftrightarrow>
         \<not> (str_isdigit (p_slug p) \<and> int (digits_val (p_slug p)) \<noteq> i
            \<and> (\<exists>q. t_get (db_projects w) (int (digits_val (p_slug p))) = Some q \<and> p_org q = p_org p))"
    using assms(2) by (auto simp: get_project_by_id_or_slug_def by_key by_slug split: option.split)
  from 1 2 show ?thesis by (rule conjI)
qed

theorem project_lookup_exact_witness:
  "\<exists>p. t_get (db_projects demo_sites) 2 = Some p \<and> p_slug p = ''1''
    \<and> get_project_by_id_or_slug demo_sites 1 ''1'' \<noteq> Some (2, p)"
proof -
  obtain p q where p: "t_get (db_projects demo_sites) 2 = Some p" "p_org p = 1" "p_slug p = ''1''"
    and q: "t_get (db_projects demo_sites) 1 = Some q"
    using demo_sites_rows(1,2) by (auto simp: pkey_def)
  have "t_get (db_projects demo_sites) 1 = Some q \<Longrightarrow> p_org q = 1"
    using demo_sites_rows(12) by simp
  then show ?thesis
    using project_lookup_exact [OF demo_sites_def p(1)] p q
    by (auto simp: str_isdigit_def is_digit_def digits_val_def digit_val_def)
qed

text \<open>
  C7: A domain once per organization. In every reachable state two websites of one organization
  have different normalized domains, in whatever projects they are, after any changes of domains.
\<close>

theorem domain_once_per_organization:
  assumes "w = site_run fk now evs" and "t_get (db_sites w) i = Some s" and "t_get (db_sites w) j = Some r"
    and "w_org s = w_org r" and "w_norm s = w_norm r"
  shows "i = j"
  using sites_okD(1) [OF tenant_assetsD(7) [OF site_run_inv, of fk now evs], folded assms(1)] assms(2-5)
  unfolding t_unique_def skey_def by blast

theorem domain_once_per_organization_witness:
  "\<exists>r. get_org_website_by_normalized_domain demo_sites (Some 1) ''example.com'' None = Some (1, r)"
proof -
  obtain s where s: "t_get (db_sites demo_sites) 1 = Some s" "w_org s = Some 1" "w_norm s = ''example.com''"
    using demo_sites_rows(3) by (auto simp: skey_def)
  have ok: "t_ok (db_sites demo_sites)"
    using tenant_assetsD(4) [OF site_run_inv] by (simp add: demo_sites_def)
  obtain j r where jr: "get_org_website_by_normalized_domain demo_sites (Some 1) ''example.com'' None = Some (j, r)"
    using t_find_None [OF ok, of skey "(Some 1, ''example.com'')"] s
    by (cases "get_org_website_by_normalized_domain demo_sites (Some 1) ''example.com'' None")
      (auto simp: by_domain_find skey_def)
  then have r: "t_get (db_sites demo_sites) j = Some r" "w_org r = Some 1" "w_norm r = ''example.com''"
    using t_first_Some [OF ok] by (auto simp: get_org_website_by_normalized_domain_def)
  have "1 = j" using domain_once_per_organization [OF demo_sites_def s(1) r(1)] s r by simp
  with jr show ?thesis by simp
qed

text \<open>
  A website can have two active crawls. A new crawl is refused while another one of the website
  is queued or running, but a retry only looks at the crawl itself: a finished crawl is queued again
  next to an active one. Its counters are reset while its old pages stay, so that the statistics
  count pages the crawl does not.
\<close>

theorem retry_makes_second_active:
  assumes "w = site_run fk now evs" and "get_crawl_auth b ''Member'' cu w = (Inr ((b, c), site, mem), w)"
    and "\<not> is_active (cj_status c)" and "t_get (db_crawls w) a = Some d" and "is_active (cj_status d)"
    and "cj_website d = cj_website c" and w': "w' = snd (retry_crawl_job round2 b cu w)"
  shows "\<exists>c'. t_get (db_crawls w') b = Some c' \<and> t_get (db_crawls w') a = Some d \<and> a \<noteq> b
    \<and> cj_website c' = cj_website d \<and> is_active (cj_status c') \<and> is_active (cj_status d)
    \<and> cj_pages c' = 0 \<and> db_pages w' = db_pages w
    \<and> cs_total (calculate_crawl_stats round2 b w') = cs_total (calculate_crawl_stats round2 b w)"
proof -
  have ok: "t_ok (db_crawls w)" using tenant_assetsD(5) [OF site_run_inv] assms(1) by simp
  have "get_crawl w b = Some (b, c)"
    using assms(2) by (auto simp: get_crawl_auth_def require_site_role_def raise_app_def and_then_def
        split: option.splits prod.splits sum.splits)
  then have c: "t_get (db_crawls w) b = Some c"
    using t_first_Some [OF ok, of "\<lambda>i c. i = b" b c] by (auto simp: get_crawl_def)
  then have "a \<noteq> b" using assms(3-5) by auto
  moreover have "w' = snd (retry_crawl (b, c) w)"
    unfolding w' retry_crawl_job_def with_crawl_def assms(2) by (simp add: snd_then_keep)
  ultimately show ?thesis
    using c assms(3-6)
    by (auto simp: retry_crawl_def Let_def write_crawl_def is_active_def calculate_crawl_stats_def)
qed

lemma get_crawl_auth_state: "snd (get_crawl_auth cid role cu w) = w"
  by (simp add: get_crawl_auth_def require_site_role_def require_role_def require_membership_def
      check_role_min_def raise_app_def split: option.split)

lemma get_crawl_auth_row:
  assumes "t_ok (db_crawls w)" and "fst (get_crawl_auth cid role cu w) = Inr ((i, c), s, m)"
  shows "i = cid \<and> t_get (db_crawls w) i = Some c"
proof -
  have "get_crawl w cid = Some (i, c)"
    using assms(2) by (auto simp: get_crawl_auth_def require_site_role_def require_role_def
        require_membership_def check_role_min_def raise_app_def split: option.splits if_splits)
  then show ?thesis
    using t_first_Some [OF assms(1), of "\<lambda>i c. i = cid" i c] by (auto simp: get_crawl_def)
qed

theorem retry_makes_second_active_witness:
  "\<exists>cu c d. get_user demo_sites 1 = Some cu
    \<and> t_get (db_crawls (snd (retry_crawl_job id 1 cu demo_sites))) 1 = Some c
    \<and> t_get (db_crawls (snd (retry_crawl_job id 1 cu demo_sites))) 2 = Some d
    \<and> cj_website c = cj_website d \<and> is_active (cj_status c) \<and> is_active (cj_status d)"
proof -
  have ok: "t_ok (db_crawls demo_sites)"
    using tenant_assetsD(5) [OF site_run_inv] by (simp add: demo_sites_def)
  obtain cu c s m where cu: "get_user demo_sites 1 = Some cu"
    and auth: "fst (get_crawl_auth 1 ''Member'' cu demo_sites) = Inr ((1, c), s, m)" "cj_status c = ''cancelled''"
    using demo_sites_rows(13) unfolding demo_auth_def
    by (auto split: option.splits sum.splits prod.splits)
  note c = get_crawl_auth_row [OF ok auth(1)]
  obtain d where d: "t_get (db_crawls demo_sites) 2 = Some d" "cj_status d = ''queued''" "cj_website d = cj_website c"
    using demo_sites_rows(5-7) c by auto
  have "get_crawl_auth 1 ''Member'' cu demo_sites = (Inr ((1, c), s, m), demo_sites)"
    using auth(1) get_crawl_auth_state [of 1 "''Member''" cu demo_sites] by (metis prod.collapse)
  from retry_makes_second_active [OF demo_sites_def this _ d(1) _ d(3) refl, of id] cu auth(2) d(2)
  show ?thesis by (auto simp: is_active_def)
qed

end
