(* ===== verification/Tokens.thy ===== *)
theory Tokens
  imports Tenant_DB
begin

text \<open>
  \<^verbatim>\<open>backend/auth/security.py\<close>: password rules and hashes, device names, and the signed tokens. The
  hash functions of \<^verbatim>\<open>hashlib\<close> and \<^verbatim>\<open>hmac\<close> and the text form of JSON are parameters, the settings and
  the draws of \<^verbatim>\<open>secrets\<close> arguments.
\<close>

section \<open>The environment\<close>

text \<open>
  \<open>ae_hmac\<close> is the digest of \<^verbatim>\<open>hmac.new(key, msg, sha256)\<close> as bytes, \<open>ae_sha256\<close> and \<open>ae_pbkdf2\<close> the hex
  digests, \<open>ae_dumps\<close> and \<open>ae_loads\<close> the JSON functions (\<^const>\<open>None\<close> is the error), \<open>ae_str\<close> is \<^verbatim>\<open>str\<close> of
  a JSON value.
\<close>

record auth_env =
  ae_hmac :: "string \<Rightarrow> string \<Rightarrow> string"
  ae_sha256 :: "string \<Rightarrow> string"
  ae_pbkdf2 :: "string \<Rightarrow> string \<Rightarrow> string"
  ae_dumps :: "kwargs \<Rightarrow> string"
  ae_loads :: "string \<Rightarrow> pyval option"
  ae_str :: "pyval \<Rightarrow> string"
  ae_secret :: string
  ae_production :: bool
  ae_minutes :: int

section \<open>Passwords\<close>

definition LOCKOUT_THRESHOLD :: int where "LOCKOUT_THRESHOLD = 5"
definition LOCKOUT_DURATION_MINUTES :: int where "LOCKOUT_DURATION_MINUTES = 15"
definition MAX_PASSWORD_HISTORY :: nat where "MAX_PASSWORD_HISTORY = 5"
definition IDLE_SESSION_TIMEOUT_HOURS :: int where "IDLE_SESSION_TIMEOUT_HOURS = 24"

definition COMMON_PASSWORDS :: "string list" where
  "COMMON_PASSWORDS =
     [''password'', ''12345678'', ''123456789'', ''123456'', ''admin123'', ''qwerty123'',
      ''letmein1'', ''welcome1'', ''iloveyou'', ''password123'', ''secret123'']"

text \<open>The class of special characters of the regular expression; the quotes are 39 and 34, the backslash is 92.\<close>

definition is_special :: "char \<Rightarrow> bool" where
  "is_special c \<longleftrightarrow> c \<in> set ''!@#$%^&*()_+-=[]{};:|,.<>/?'' \<or> (of_char c :: nat) \<in> {34, 39, 92}"

definition validate_password_strength :: "string \<Rightarrow> bool \<times> string list" where
  "validate_password_strength password =
     (let errors =
        (if length password < 8 then [''Password must be at least 8 characters long''] else [])
        @ (if \<not> list_ex is_upper password then [''Password must contain at least one uppercase letter''] else [])
        @ (if \<not> list_ex is_lower password then [''Password must contain at least one lowercase letter''] else [])
        @ (if \<not> list_ex is_digit password then [''Password must contain at least one numeric digit''] else [])
        @ (if \<not> list_ex is_special password then [''Password must contain at least one special character''] else [])
        @ (if str_lower password \<in> set COMMON_PASSWORDS then [''Password is too common or easily guessable''] else [])
      in (errors = [], errors))"

definition calculate_progressive_delay :: "int \<Rightarrow> rat" where
  "calculate_progressive_delay failed =
     (if failed \<le> 1 then 0 else if failed = 2 then 2 / 10 else if failed = 3 then 5 / 10
      else if failed = 4 then 1 else min 2 (5 / 10 * 2 ^ nat (failed - 3)))"

definition hash_token :: "auth_env \<Rightarrow> string \<Rightarrow> string" where
  "hash_token env s = ae_sha256 env s"

definition get_password_hash :: "auth_env \<Rightarrow> string \<Rightarrow> string \<Rightarrow> string" where
  "get_password_hash env salt password =
     (if password = [] then []
      else ''pbkdf2:sha256:100000$'' @ salt @ ''$'' @ ae_pbkdf2 env password salt)"

definition verify_password :: "auth_env \<Rightarrow> string \<Rightarrow> string option \<Rightarrow> bool" where
  "verify_password env plain hashed =
     (if \<not> truthy hashed then True
      else
        (case split_on (CHR ''$'') (the hashed) of
           [scheme, salt, expected] \<Rightarrow>
             scheme = ''pbkdf2:sha256:100000'' \<and> ae_pbkdf2 env plain salt = expected
         | _ \<Rightarrow> False))"

section \<open>Devices\<close>

record device =
  dv_name :: string
  dv_type :: string

definition parse_device_info :: "string option \<Rightarrow> device" where
  "parse_device_info agent =
     (if \<not> truthy agent then \<lparr>dv_name = ''Unknown Client'', dv_type = ''api''\<rparr>
      else
        let ua = str_lower (the agent);
            has = str_contains ua;
            kind = (if has ''mobile'' \<or> has ''android'' \<or> has ''iphone'' then ''mobile''
                    else if has ''tablet'' \<or> has ''ipad'' then ''tablet''
                    else if has ''curl'' \<or> has ''postman'' \<or> has ''python'' \<or> has ''httpclient'' then ''api''
                    else ''desktop'');
            browser = (if has ''edg'' then ''Microsoft Edge''
                       else if has ''chrome'' \<and> has ''safari'' then ''Google Chrome''
                       else if has ''safari'' \<and> \<not> has ''chrome'' then ''Apple Safari''
                       else if has ''firefox'' then ''Mozilla Firefox''
                       else if has ''python-requests'' then ''Python Requests''
                       else ''Unknown Browser'');
            os = (if has ''macintosh'' \<or> has ''mac os'' then ''macOS'' else if has ''windows'' then ''Windows''
                  else if has ''linux'' then ''Linux'' else if has ''iphone'' \<or> has ''ipad'' then ''iOS''
                  else if has ''android'' then ''Android'' else ''Unknown OS'')
        in \<lparr>dv_name = (if browser \<noteq> ''Unknown Browser'' then browser @ '' on '' @ os else take 60 (the agent)),
            dv_type = kind\<rparr>)"

section \<open>Tokens\<close>

definition b64url_encode :: "string \<Rightarrow> string" where
  "b64url_encode data = rev (dropWhile (\<lambda>c. c = CHR ''='') (rev (urlsafe_b64encode data)))"

definition b64url_decode :: "string \<Rightarrow> string option" where
  "b64url_decode s =
     urlsafe_b64decode (s @ replicate (if length s mod 4 \<noteq> 0 then 4 - length s mod 4 else 0) (CHR ''=''))"

definition sign_hs256 :: "auth_env \<Rightarrow> string \<Rightarrow> string \<Rightarrow> string" where
  "sign_hs256 env msg secret = b64url_encode (ae_hmac env secret msg)"

definition jwt_header :: kwargs where
  "jwt_header = [(''alg'', PStr ''HS256''), (''typ'', PStr ''JWT'')]"

text \<open>The common end of the two functions that make tokens.\<close>

definition sign_token :: "auth_env \<Rightarrow> kwargs \<Rightarrow> string" where
  "sign_token env payload =
     (let signing_input = b64url_encode (ae_dumps env jwt_header) @ ''.'' @ b64url_encode (ae_dumps env payload)
      in signing_input @ ''.'' @ sign_hs256 env signing_input (ae_secret env))"

text \<open>\<^verbatim>\<open>int(v)\<close> of a JSON value; the errors are caught.\<close>

fun py_int :: "pyval \<Rightarrow> int option" where
  "py_int (PInt i) = Some i"
| "py_int (PBool b) = Some (if b then 1 else 0)"
| "py_int (PFloat r) = Some (if 0 \<le> r then \<lfloor>r\<rfloor> else \<lceil>r\<rceil>)"
| "py_int (PStr s) = parse_int s"
| "py_int _ = None"

text \<open>
  When a token ends: \<open>now\<close> is \<^verbatim>\<open>int(time.time())\<close>, a given \<^verbatim>\<open>timedelta\<close> is in microseconds, its
  zero is false, and \<^verbatim>\<open>int\<close> drops the fraction.
\<close>

definition expires_at :: "int \<Rightarrow> int option \<Rightarrow> int \<Rightarrow> int" where
  "expires_at now delta stay =
     now + (case delta of
              None \<Rightarrow> stay
            | Some d \<Rightarrow> if d = 0 then stay
                        else if 0 < d then d div 1000000 else - (- d div 1000000))"

text \<open>
  \<^verbatim>\<open>payload.update(data)\<close> and the user's identity: the callers in the repository pass the key and the
  address.
\<close>

definition create_access_token ::
  "auth_env \<Rightarrow> int \<Rightarrow> int option \<Rightarrow> string option \<Rightarrow> int option \<Rightarrow> kwargs \<Rightarrow> string" where
  "create_access_token env now user_id email expires_delta data =
     (let expire = expires_at now expires_delta (ae_minutes env * 60);
          p0 = [(''iat'', PInt now), (''exp'', PInt expire), (''type'', PStr ''access'')];
          p1 = foldl (\<lambda>d (k, v). d_set k v d) p0 data;
          p2 = (case user_id of
                  Some u \<Rightarrow> d_set ''sub'' (PStr (int_str u)) (d_set ''user_id'' (PInt u) p1)
                | None \<Rightarrow>
                    (case d_get p1 ''sub'' of
                       None \<Rightarrow> p1
                     | Some v \<Rightarrow> (case py_int v of None \<Rightarrow> p1 | Some i \<Rightarrow> d_set ''user_id'' (PInt i) p1)));
          p3 = (case email of None \<Rightarrow> p2 | Some e \<Rightarrow> d_set ''email'' (PStr e) p2)
      in sign_token env p3)"

definition create_refresh_token ::
  "auth_env \<Rightarrow> int \<Rightarrow> string \<Rightarrow> int \<Rightarrow> string option \<Rightarrow> bool \<Rightarrow> int option \<Rightarrow> string" where
  "create_refresh_token env now jti user_id email remember_me expires_delta =
     (let expire = expires_at now expires_delta (if remember_me then 30 * 24 * 3600 else 7 * 24 * 3600);
          payload = [(''user_id'', PInt user_id), (''sub'', PStr (int_str user_id)),
                     (''type'', PStr ''refresh''), (''jti'', PStr jti), (''iat'', PInt now),
                     (''exp'', PInt expire)]
            @ (if truthy email then [(''email'', PStr (the email))] else [])
      in sign_token env payload)"

text \<open>
  \<^verbatim>\<open>float(exp)\<close> of a JSON value, for the texts that \<^verbatim>\<open>str\<close> writes for integers; \<^const>\<open>None\<close> is an error.
\<close>

fun py_float :: "pyval \<Rightarrow> rat option" where
  "py_float (PInt i) = Some (of_int i)"
| "py_float (PBool b) = Some (if b then 1 else 0)"
| "py_float (PFloat r) = Some r"
| "py_float (PStr s) = map_option of_int (parse_int s)"
| "py_float _ = None"

text \<open>\<open>now\<close> is in microseconds here, \<^verbatim>\<open>time.time()\<close> with its fraction.\<close>

definition token_expired :: "int \<Rightarrow> kwargs \<Rightarrow> bool option" where
  "token_expired now payload =
     (case d_get payload ''exp'' of
        None \<Rightarrow> Some False
      | Some PNone \<Rightarrow> Some False
      | Some v \<Rightarrow> map_option (\<lambda>e. e < of_int now / 1000000) (py_float v))"

definition fill_identity :: "auth_env \<Rightarrow> kwargs \<Rightarrow> kwargs" where
  "fill_identity env payload =
     (case (d_get payload ''sub'', d_get payload ''user_id'') of
        (Some s, None) \<Rightarrow>
          (case py_int s of None \<Rightarrow> payload | Some i \<Rightarrow> d_set ''user_id'' (PInt i) payload)
      | (None, Some u) \<Rightarrow> d_set ''sub'' (PStr (ae_str env u)) payload
      | _ \<Rightarrow> payload)"

definition dev_payload :: "string \<Rightarrow> int \<Rightarrow> string \<Rightarrow> string \<Rightarrow> kwargs" where
  "dev_payload sub uid email role =
     [(''sub'', PStr sub), (''user_id'', PInt uid), (''email'', PStr email), (''role'', PStr role)]"

text \<open>The static tokens that are accepted outside production.\<close>

definition legacy_token :: "string \<Rightarrow> kwargs option" where
  "legacy_token t =
     (if t \<in> {''mock_jwt_token_sample'', ''token_user_1'', ''jwt_admin''}
      then Some (dev_payload ''1'' 1 ''admin@seoagent.app'' ''admin'')
      else if t \<in> {''token_user_2'', ''jwt_user_b''}
      then Some (dev_payload ''2'' 2 ''userb@seoagent.app'' ''user'')
      else if starts_with t ''token_user_''
      then (case parse_int (str_remove ''token_user_'' t) of
              None \<Rightarrow> None
            | Some uid \<Rightarrow> Some (dev_payload (int_str uid) uid (''user'' @ int_str uid @ ''@seoagent.app'')
                                (if uid = 1 then ''admin'' else ''user'')))
      else None)"

definition signed_payload :: "auth_env \<Rightarrow> int \<Rightarrow> string \<Rightarrow> string \<Rightarrow> string \<Rightarrow> kwargs option" where
  "signed_payload env now header_b64 payload_b64 signature_b64 =
     (if signature_b64 \<noteq> sign_hs256 env (header_b64 @ ''.'' @ payload_b64) (ae_secret env) then None
      else
        (case b64url_decode payload_b64 of
           None \<Rightarrow> None
         | Some bytes \<Rightarrow>
             (case ae_loads env bytes of
                Some (PDict payload) \<Rightarrow>
                  (if token_expired now payload = Some False then Some (fill_identity env payload) else None)
              | _ \<Rightarrow> None)))"

definition decode_access_token :: "auth_env \<Rightarrow> int \<Rightarrow> string \<Rightarrow> kwargs option" where
  "decode_access_token env now token =
     (let clean = str_strip (str_remove ''Bearer '' token)
      in if token = [] \<or> clean = [] then None
         else
           (case split_on (CHR ''.'') clean of
              [h, p, s] \<Rightarrow> signed_payload env now h p s
            | _ \<Rightarrow> if ae_production env then None else legacy_token clean))"

section \<open>Round trips\<close>

definition b64_text :: "char \<Rightarrow> bool" where
  "b64_text c \<longleftrightarrow> is_upper c \<or> is_lower c \<or> is_digit c \<or> c = CHR ''-'' \<or> c = CHR ''_''"

lemma b64_text_char:
  assumes "v < 64"
  shows "b64_text (b64_char v)"
proof -
  consider "v < 62" | "v = 62" | "v = 63" using assms by linarith
  then show ?thesis
    using of_b64_char [OF assms]
    by cases (auto simp: b64_text_def is_upper_def is_lower_def is_digit_def b64_char_def)
qed

lemma b64_text_facts:
  assumes "b64_text c"
  shows "c \<noteq> CHR ''=''" and "c \<noteq> CHR ''.''" and "\<not> is_space c" and "c \<noteq> CHR '' ''"
  using assms by (auto simp: b64_text_def is_space_def is_upper_def is_lower_def is_digit_def)

text \<open>The encoder writes groups of four: a text and at most two signs of padding.\<close>

lemma b64_bytes_shape:
  "list_all (\<lambda>b. b < 256) bs \<Longrightarrow> \<exists>t k. b64_bytes bs = t @ replicate k (CHR ''='') \<and> k < 3
     \<and> list_all b64_text t \<and> (length t + k) mod 4 = 0"
proof (induction bs rule: b64_bytes.induct)
  case 1
  show ?case by (intro exI [of _ "[]"] exI [of _ 0]) simp
next
  case (2 a)
  have v: "a div 4 < 64" "a mod 4 * 16 < 64" using 2 by auto
  show ?case
    by (intro exI [of _ "[b64_char (a div 4), b64_char (a mod 4 * 16)]"] exI [of _ 2])
      (simp add: b64_text_char v numeral_2_eq_2)
next
  case (3 a b)
  have v: "a div 4 < 64" "a mod 4 * 16 + b div 16 < 64" "b mod 16 * 4 < 64" using 3 by auto
  show ?case
    by (intro exI [of _ "[b64_char (a div 4), b64_char (a mod 4 * 16 + b div 16), b64_char (b mod 16 * 4)]"]
        exI [of _ 1]) (simp add: b64_text_char v)
next
  case (4 a b c bs)
  have v: "a div 4 < 64" "a mod 4 * 16 + b div 16 < 64" "b mod 16 * 4 + c div 64 < 64" "c mod 64 < 64"
    using 4 by auto
  obtain t k where t: "b64_bytes bs = t @ replicate k (CHR ''='')" "k < 3" "list_all b64_text t"
    "(length t + k) mod 4 = 0" using 4 by auto
  have "Suc (Suc (Suc (Suc (length t + k)))) mod 4 = 0" using t(4) by presburger
  with t show ?case
    by (intro exI [of _ "b64_char (a div 4) # b64_char (a mod 4 * 16 + b div 16)
       # b64_char (b mod 16 * 4 + c div 64) # b64_char (c mod 64) # t"] exI [of _ k])
      (simp add: b64_text_char v)
qed

lemma b64url_shape:
  "\<exists>k. urlsafe_b64encode s = b64url_encode s @ replicate k (CHR ''='') \<and> k < 3
     \<and> list_all b64_text (b64url_encode s) \<and> (length (b64url_encode s) + k) mod 4 = 0"
proof -
  have "list_all (\<lambda>b. b < 256) (map (of_char :: char \<Rightarrow> nat) s)" by (simp add: list_all_iff)
  then obtain t k where t: "urlsafe_b64encode s = t @ replicate k (CHR ''='')"
    "k < 3" "list_all b64_text t" "(length t + k) mod 4 = 0"
    unfolding urlsafe_b64encode_def by (metis b64_bytes_shape)
  have "c \<noteq> CHR ''=''" if "c \<in> set (rev t)" for c
    using that t(3) b64_text_facts(1) by (auto simp: list_all_iff)
  then have "dropWhile (\<lambda>c. c = CHR ''='') (rev t) = rev t" by (cases "rev t") auto
  then have "b64url_encode s = t"
    by (simp add: b64url_encode_def t(1) dropWhile_append)
  with t show ?thesis by auto
qed

lemma b64url_text: "list_all b64_text (b64url_encode s)"
  using b64url_shape [of s] by blast

lemma b64url_roundtrip:
  assumes "ascii s"
  shows "b64url_decode (b64url_encode s) = Some s"
proof -
  from b64url_shape [of s] obtain k
    where k: "urlsafe_b64encode s = b64url_encode s @ replicate k (CHR ''='')" "k < 3"
      "(length (b64url_encode s) + k) mod 4 = 0" by (elim exE conjE)
  have "(if length (b64url_encode s) mod 4 \<noteq> 0 then 4 - length (b64url_encode s) mod 4 else 0) = k"
    using k(2,3) by presburger
  then show ?thesis using b64_roundtrip [OF assms] by (simp add: b64url_decode_def k(1))
qed

lemma b64url_free:
  "CHR ''.'' \<notin> set (b64url_encode s)" "CHR '' '' \<notin> set (b64url_encode s)"
proof -
  have "b64_text c" if "c \<in> set (b64url_encode s)" for c
    using that b64url_text by (simp add: list_all_iff)
  then show "CHR ''.'' \<notin> set (b64url_encode s)" "CHR '' '' \<notin> set (b64url_encode s)"
    using b64_text_facts(2,4) by metis+
qed

lemma str_strip_id: "\<forall>c\<in>set s. \<not> is_space c \<Longrightarrow> str_strip s = s"
proof -
  assume s: "\<forall>c\<in>set s. \<not> is_space c"
  have "dropWhile is_space t = t" if "set t \<subseteq> set s" for t
    using that s by (cases t) auto
  then show ?thesis by (simp add: str_strip_def)
qed

text \<open>A token the code signs is taken apart again, with and without the scheme in front.\<close>

lemma sign_token_clean:
  "str_strip (str_remove ''Bearer '' (sign_token env payload)) = sign_token env payload"
  "str_strip (str_remove ''Bearer '' (''Bearer '' @ sign_token env payload)) = sign_token env payload"
proof -
  have "b64_text c" if "c \<in> set (b64url_encode s)" for c s
    using that b64url_text by (simp add: list_all_iff)
  then have chars: "b64_text c \<or> c = CHR ''.''" if "c \<in> set (sign_token env payload)" for c
    using that by (auto simp: sign_token_def sign_hs256_def Let_def)
  have space: "\<not> is_space (CHR ''.'')" by (simp add: is_space_def)
  have clean: "\<forall>c\<in>set (sign_token env payload). \<not> is_space c"
    using chars space b64_text_facts(3) by metis
  have "is_space (CHR '' '')" by (simp add: is_space_def)
  with clean have "CHR '' '' \<notin> set (sign_token env payload)" by auto
  with clean show "str_strip (str_remove ''Bearer '' (sign_token env payload)) = sign_token env payload"
    "str_strip (str_remove ''Bearer '' (''Bearer '' @ sign_token env payload)) = sign_token env payload"
    by (simp_all add: str_remove_free [of "CHR '' ''"] str_strip_id)
qed

lemma sign_token_parts:
  "split_on (CHR ''.'') (sign_token env payload) =
     [b64url_encode (ae_dumps env jwt_header), b64url_encode (ae_dumps env payload),
      sign_hs256 env (b64url_encode (ae_dumps env jwt_header) @ ''.'' @ b64url_encode (ae_dumps env payload))
        (ae_secret env)]"
  unfolding sign_token_def sign_hs256_def Let_def
  by (simp add: split_on_append split_on_free b64url_free)

lemma sign_token_nonempty: "sign_token env payload \<noteq> []"
  by (simp add: sign_token_def Let_def)

text \<open>
  What the documentation of \<^verbatim>\<open>json\<close> says of a dictionary with texts as keys, and texts and integers as
  values: \<^verbatim>\<open>dumps\<close> writes ASCII text, from which \<^verbatim>\<open>loads\<close> reads the dictionary back.
\<close>

definition json_reads :: "auth_env \<Rightarrow> kwargs \<Rightarrow> bool" where
  "json_reads env d \<longleftrightarrow> ascii (ae_dumps env d) \<and> ae_loads env (ae_dumps env d) = Some (PDict d)"

lemma decode_signed:
  assumes "json_reads env payload"
  shows "decode_access_token env now (sign_token env payload)
      = (if token_expired now payload = Some False then Some (fill_identity env payload) else None)"
    and "decode_access_token env now (''Bearer '' @ sign_token env payload)
      = (if token_expired now payload = Some False then Some (fill_identity env payload) else None)"
proof -
  have "ascii (ae_dumps env payload)" "ae_loads env (ae_dumps env payload) = Some (PDict payload)"
    using assms by (simp_all add: json_reads_def)
  then show "decode_access_token env now (sign_token env payload)
      = (if token_expired now payload = Some False then Some (fill_identity env payload) else None)"
    "decode_access_token env now (''Bearer '' @ sign_token env payload)
      = (if token_expired now payload = Some False then Some (fill_identity env payload) else None)"
    by (simp_all add: decode_access_token_def sign_token_clean sign_token_parts sign_token_nonempty
        signed_payload_def b64url_roundtrip)
qed

end
