(* ===== verification/Auth.thy ===== *)
theory Auth
  imports Tokens
begin

text \<open>
  Accounts and sessions: their part of \<^verbatim>\<open>backend/database/crud.py\<close>, \<^verbatim>\<open>backend/auth/dependencies.py\<close> and
  the handlers of \<^verbatim>\<open>backend/api/auth_routes.py\<close>. The draws of \<^verbatim>\<open>secrets\<close>, the address and the agent of
  the client are arguments. The handlers raise \<^verbatim>\<open>BadRequestException\<close> and \<^verbatim>\<open>NotFoundException\<close>, which
  \<^verbatim>\<open>backend/exceptions.py\<close> does not define, and FastAPI's \<^verbatim>\<open>HTTPException\<close>; the model names them. Each
  CRUD function commits, so an exception later in a handler leaves what was written.
\<close>

section \<open>Rows\<close>

record user_session =
  us_user :: int
  us_token :: string
  us_refresh :: string
  us_ip :: "string option"
  us_last_ip :: "string option"
  us_agent :: "string option"
  us_device :: "string option"
  us_type :: "string option"
  us_active :: bool
  us_remember :: bool
  us_expires :: int
  us_last_active :: "int option"
  us_created :: int
  us_updated :: int

record password_entry =
  ph_user :: int
  ph_hash :: string
  ph_created :: int

record used_token =
  ut_user :: int
  ut_session :: "int option"
  ut_hash :: string
  ut_revoked :: int
  ut_created :: int

record security_event =
  se_user :: "int option"
  se_type :: string
  se_status :: string
  se_ip :: "string option"
  se_agent :: "string option"
  se_device :: "string option"
  se_details :: kwargs
  se_created :: int

text \<open>The tables of reset and of verification tokens have the same columns.\<close>

record one_time_token =
  ot_user :: int
  ot_token :: string
  ot_used :: bool
  ot_expires :: int
  ot_created :: int

record auth_db = db +
  adb_sessions :: "user_session table"
  adb_history :: "password_entry table"
  adb_used :: "used_token table"
  adb_security :: "security_event table"
  adb_resets :: "one_time_token table"
  adb_verifs :: "one_time_token table"

definition auth_empty :: "int \<Rightarrow> auth_db" where
  "auth_empty now = db.extend (db_empty False now)
     (auth_db.fields t_empty t_empty t_empty t_empty t_empty t_empty)"

section \<open>CRUD: users\<close>

definition put_user :: "int \<times> user \<Rightarrow> auth_db \<Rightarrow> auth_db" where
  "put_user cu w = w\<lparr>db_users := t_put (fst cu) (snd cu) (db_users w)\<rparr>"

text \<open>The columns \<^verbatim>\<open>email\<close> and \<^verbatim>\<open>username\<close> are unique.\<close>

definition update_user_profile ::
  "int \<times> user \<Rightarrow> string option \<Rightarrow> string option \<Rightarrow> string option \<Rightarrow> string option \<Rightarrow> kwargs option
     \<Rightarrow> string option \<Rightarrow> auth_db \<Rightarrow> (int \<times> user) outcome \<times> auth_db" where
  "update_user_profile cu username email timezone language notify avatar w =
     (case cu of (uid, u) \<Rightarrow>
        let u' = u\<lparr>u_username := (case username of None \<Rightarrow> u_username u | Some x \<Rightarrow> x),
                   u_email := (case email of None \<Rightarrow> u_email u | Some x \<Rightarrow> x),
                   u_timezone := (case timezone of None \<Rightarrow> u_timezone u | Some x \<Rightarrow> x),
                   u_language := (case language of None \<Rightarrow> u_language u | Some x \<Rightarrow> x),
                   u_notify := (case notify of None \<Rightarrow> u_notify u | Some x \<Rightarrow> x),
                   u_avatar := (case avatar of None \<Rightarrow> u_avatar u | Some x \<Rightarrow> Some x)\<rparr>
        in if t_first (\<lambda>i v. i \<noteq> uid \<and> (u_email v = u_email u' \<or> u_username v = u_username u')) (db_users w) \<noteq> None
           then (Inl integrity_error, w)
           else (Inr (uid, u'), put_user (uid, u') w))"

definition update_user_password :: "int \<times> user \<Rightarrow> string \<Rightarrow> auth_db \<Rightarrow> (int \<times> user) \<times> auth_db" where
  "update_user_password cu hashed w =
     (let cu' = (fst cu, (snd cu)\<lparr>u_hash := Some hashed\<rparr>) in (cu', put_user cu' w))"

definition verify_user_email :: "int \<times> user \<Rightarrow> auth_db \<Rightarrow> (int \<times> user) \<times> auth_db" where
  "verify_user_email cu w =
     (let cu' = (fst cu, (snd cu)\<lparr>u_verified := True\<rparr>) in (cu', put_user cu' w))"

definition is_account_locked :: "user \<Rightarrow> int \<Rightarrow> bool \<times> int" where
  "is_account_locked u now =
     (case u_locked_until u of
        None \<Rightarrow> (False, 0)
      | Some t \<Rightarrow> if now < t then (True, max 1 ((t - now) div 1000000)) else (False, 0))"

definition record_login_failure :: "int \<times> user \<Rightarrow> auth_db \<Rightarrow> (bool \<times> int \<times> int) \<times> (int \<times> user) \<times> auth_db" where
  "record_login_failure cu w =
     (let n = u_failed (snd cu) + 1;
          locked = LOCKOUT_THRESHOLD \<le> n;
          u' = (snd cu)\<lparr>u_failed := n,
                 u_locked_until := (if locked then Some (db_now w + LOCKOUT_DURATION_MINUTES * 60 * 1000000)
                                    else u_locked_until (snd cu))\<rparr>;
          cu' = (fst cu, u')
      in ((locked, max 0 (LOCKOUT_THRESHOLD - n), if locked then LOCKOUT_DURATION_MINUTES * 60 else 0),
          cu', put_user cu' w))"

definition record_login_success :: "int \<times> user \<Rightarrow> string option \<Rightarrow> auth_db \<Rightarrow> (int \<times> user) \<times> auth_db" where
  "record_login_success cu ip w =
     (let u' = (snd cu)\<lparr>u_failed := 0, u_locked_until := None, u_last_login := Some (db_now w),
                 u_last_ip := (if truthy ip then ip else u_last_ip (snd cu))\<rparr>;
          cu' = (fst cu, u')
      in (cu', put_user cu' w))"

section \<open>CRUD: passwords, tokens and events\<close>

definition add_password_history :: "int \<Rightarrow> string \<Rightarrow> auth_db \<Rightarrow> auth_db" where
  "add_password_history uid hashed w =
     w\<lparr>adb_history := snd (t_insert \<lparr>ph_user = uid, ph_hash = hashed, ph_created = db_now w\<rparr> (adb_history w))\<rparr>"

definition check_password_history :: "auth_env \<Rightarrow> int \<Rightarrow> string \<Rightarrow> nat \<Rightarrow> auth_db \<Rightarrow> bool" where
  "check_password_history env uid plain max_history w =
     list_ex (\<lambda>(i, h). verify_password env plain (Some (ph_hash h)))
       (take max_history (order_rows (ph_created \<circ> snd) False
          (t_where (\<lambda>i h. ph_user h = uid) (adb_history w))))"

text \<open>The column \<^verbatim>\<open>token_hash\<close> is unique.\<close>

definition register_used_refresh_token ::
  "auth_env \<Rightarrow> int \<Rightarrow> string \<Rightarrow> int option \<Rightarrow> auth_db \<Rightarrow> unit outcome \<times> auth_db" where
  "register_used_refresh_token env uid token sid w =
     (let h = hash_token env token
      in if t_first (\<lambda>i t. ut_hash t = h) (adb_used w) \<noteq> None then (Inl integrity_error, w)
         else (Inr (), w\<lparr>adb_used := snd (t_insert
                \<lparr>ut_user = uid, ut_session = sid, ut_hash = h, ut_revoked = db_now w,
                 ut_created = db_now w\<rparr> (adb_used w))\<rparr>))"

definition is_refresh_token_reused :: "auth_env \<Rightarrow> string \<Rightarrow> auth_db \<Rightarrow> bool \<times> int option" where
  "is_refresh_token_reused env token w =
     (case t_first (\<lambda>i t. ut_hash t = hash_token env token) (adb_used w) of
        None \<Rightarrow> (False, None)
      | Some (i, t) \<Rightarrow> (True, Some (ut_user t)))"

definition create_security_event ::
  "string \<Rightarrow> int option \<Rightarrow> string \<Rightarrow> string option \<Rightarrow> string option \<Rightarrow> string option \<Rightarrow> kwargs \<Rightarrow> auth_db \<Rightarrow> auth_db" where
  "create_security_event kind uid status ip agent device details w =
     w\<lparr>adb_security := snd (t_insert
        \<lparr>se_user = uid, se_type = kind, se_status = status, se_ip = ip, se_agent = agent,
         se_device = device, se_details = details, se_created = db_now w\<rparr> (adb_security w))\<rparr>"

definition get_security_events :: "int option \<Rightarrow> nat \<Rightarrow> nat \<Rightarrow> auth_db \<Rightarrow> (int \<times> security_event) list" where
  "get_security_events uid cnt skip w =
     take cnt (drop skip (order_rows (se_created \<circ> snd) False
       (t_where (\<lambda>i e. uid = None \<or> se_user e = uid) (adb_security w))))"

section \<open>CRUD: sessions\<close>

text \<open>The columns \<^verbatim>\<open>session_token\<close> and \<^verbatim>\<open>refresh_token\<close> are unique.\<close>

definition create_session ::
  "int \<Rightarrow> string \<Rightarrow> string \<Rightarrow> int \<Rightarrow> string option \<Rightarrow> string option \<Rightarrow> device \<Rightarrow> bool \<Rightarrow> auth_db
     \<Rightarrow> (int \<times> user_session) outcome \<times> auth_db" where
  "create_session uid token refresh expires ip agent device remember w =
     (if t_first (\<lambda>i s. us_token s = token \<or> us_refresh s = refresh) (adb_sessions w) \<noteq> None
      then (Inl integrity_error, w)
      else
        let s = \<lparr>us_user = uid, us_token = token, us_refresh = refresh, us_ip = ip, us_last_ip = ip,
                 us_agent = agent, us_device = Some (dv_name device), us_type = Some (dv_type device),
                 us_active = True, us_remember = remember, us_expires = expires,
                 us_last_active = Some (db_now w), us_created = db_now w, us_updated = db_now w\<rparr>;
            (i, t) = t_insert s (adb_sessions w)
        in (Inr (i, s), w\<lparr>adb_sessions := t\<rparr>))"

definition put_session :: "int \<Rightarrow> user_session \<Rightarrow> auth_db \<Rightarrow> auth_db" where
  "put_session i s w = w\<lparr>adb_sessions := t_put i (s\<lparr>us_updated := db_now w\<rparr>) (adb_sessions w)\<rparr>"

definition touch_session_activity :: "int \<times> user_session \<Rightarrow> string option \<Rightarrow> auth_db \<Rightarrow> auth_db" where
  "touch_session_activity session ip w =
     put_session (fst session) ((snd session)\<lparr>us_last_active := Some (db_now w),
       us_last_ip := (if truthy ip then ip else us_last_ip (snd session))\<rparr>) w"

definition get_session_by_refresh_token :: "string \<Rightarrow> auth_db \<Rightarrow> (int \<times> user_session) option" where
  "get_session_by_refresh_token token w =
     t_first (\<lambda>i s. us_refresh s = token \<and> us_active s) (adb_sessions w)"

definition get_session_by_token :: "string \<Rightarrow> auth_db \<Rightarrow> (int \<times> user_session) option" where
  "get_session_by_token token w = t_first (\<lambda>i s. us_token s = token \<and> us_active s) (adb_sessions w)"

definition get_user_sessions :: "int \<Rightarrow> auth_db \<Rightarrow> (int \<times> user_session) list" where
  "get_user_sessions uid w =
     order_rows (us_created \<circ> snd) False (t_where (\<lambda>i s. us_user s = uid \<and> us_active s) (adb_sessions w))"

definition crud_revoke_session :: "int \<Rightarrow> int \<Rightarrow> auth_db \<Rightarrow> bool \<times> auth_db" where
  "crud_revoke_session sid uid w =
     (case t_first (\<lambda>i s. i = sid \<and> us_user s = uid) (adb_sessions w) of
        None \<Rightarrow> (False, w)
      | Some (i, s) \<Rightarrow> (True, put_session i (s\<lparr>us_active := False\<rparr>) w))"

definition revoke_all_user_sessions :: "int \<Rightarrow> int option \<Rightarrow> auth_db \<Rightarrow> nat \<times> auth_db" where
  "revoke_all_user_sessions uid except w =
     (let P = (\<lambda>i s. us_user s = uid \<and> us_active s \<and> except \<noteq> Some i)
      in (length (t_where P (adb_sessions w)),
          w\<lparr>adb_sessions := t_update_where P (\<lambda>s. s\<lparr>us_active := False, us_updated := db_now w\<rparr>)
                              (adb_sessions w)\<rparr>))"

section \<open>CRUD: reset and verification tokens\<close>

text \<open>The column \<^verbatim>\<open>token\<close> is unique.\<close>

definition add_token :: "int \<Rightarrow> string \<Rightarrow> int \<Rightarrow> int \<Rightarrow> one_time_token table \<Rightarrow> one_time_token table option" where
  "add_token uid token expires now T =
     (if t_first (\<lambda>i t. ot_token t = token) T \<noteq> None then None
      else Some (snd (t_insert \<lparr>ot_user = uid, ot_token = token, ot_used = False, ot_expires = expires,
                                ot_created = now\<rparr> T)))"

definition live_token :: "string \<Rightarrow> int \<Rightarrow> one_time_token table \<Rightarrow> (int \<times> one_time_token) option" where
  "live_token token now T = t_first (\<lambda>i t. ot_token t = token \<and> \<not> ot_used t \<and> now < ot_expires t) T"

definition create_password_reset_token :: "int \<Rightarrow> string \<Rightarrow> int \<Rightarrow> auth_db \<Rightarrow> unit outcome \<times> auth_db" where
  "create_password_reset_token uid token expires w =
     (case add_token uid token expires (db_now w) (adb_resets w) of
        None \<Rightarrow> (Inl integrity_error, w)
      | Some T \<Rightarrow> (Inr (), w\<lparr>adb_resets := T\<rparr>))"

definition get_password_reset_token :: "string \<Rightarrow> auth_db \<Rightarrow> (int \<times> one_time_token) option" where
  "get_password_reset_token token w = live_token token (db_now w) (adb_resets w)"

definition mark_password_reset_token_used :: "int \<times> one_time_token \<Rightarrow> auth_db \<Rightarrow> auth_db" where
  "mark_password_reset_token_used t w =
     w\<lparr>adb_resets := t_put (fst t) ((snd t)\<lparr>ot_used := True\<rparr>) (adb_resets w)\<rparr>"

definition create_email_verification_token :: "int \<Rightarrow> string \<Rightarrow> int \<Rightarrow> auth_db \<Rightarrow> unit outcome \<times> auth_db" where
  "create_email_verification_token uid token expires w =
     (case add_token uid token expires (db_now w) (adb_verifs w) of
        None \<Rightarrow> (Inl integrity_error, w)
      | Some T \<Rightarrow> (Inr (), w\<lparr>adb_verifs := T\<rparr>))"

definition get_email_verification_token :: "string \<Rightarrow> auth_db \<Rightarrow> (int \<times> one_time_token) option" where
  "get_email_verification_token token w = live_token token (db_now w) (adb_verifs w)"

definition mark_email_verification_token_used :: "int \<times> one_time_token \<Rightarrow> auth_db \<Rightarrow> auth_db" where
  "mark_email_verification_token_used t w =
     w\<lparr>adb_verifs := t_put (fst t) ((snd t)\<lparr>ot_used := True\<rparr>) (adb_verifs w)\<rparr>"

section \<open>The current user\<close>

definition seconds_now :: "auth_db \<Rightarrow> int" where
  "seconds_now w = db_now w div 1000000"

text \<open>
  The identity of a payload: the code's own tokens have an integer \<^verbatim>\<open>user_id\<close>; a query with any
  other value finds nobody. An unknown user with an address is created on the spot.
\<close>

definition payload_user :: "auth_db \<Rightarrow> kwargs \<Rightarrow> (int \<times> user) option" where
  "payload_user w payload = (case d_get payload ''user_id'' of Some (PInt uid) \<Rightarrow> get_user w uid | _ \<Rightarrow> None)"

definition payload_email :: "kwargs \<Rightarrow> string" where
  "payload_email payload = (case d_get payload ''email'' of Some (PStr e) \<Rightarrow> e | _ \<Rightarrow> [])"

definition get_current_user :: "auth_env \<Rightarrow> string option \<Rightarrow> auth_db \<Rightarrow> (int \<times> user) outcome \<times> auth_db" where
  "get_current_user env authorization w =
     (let refuse = raise_app UnauthorizedException ''Authentication credentials were missing or invalid'' w
      in if \<not> truthy authorization then refuse
         else
           (case decode_access_token env (db_now w) (the authorization) of
              None \<Rightarrow> refuse
            | Some payload \<Rightarrow>
                if payload = [] then refuse
                else
                  (case payload_user w payload of
                     Some cu \<Rightarrow> (Inr cu, w)
                   | None \<Rightarrow>
                       let email = payload_email payload
                       in if email = [] then raise_app UnauthorizedException ''User account not found'' w
                          else create_user email (takeWhile (\<lambda>c. c \<noteq> CHR ''@'') email) None False
                                 ''UTC'' ''en'' w)))"

definition get_current_admin_user :: "auth_env \<Rightarrow> string option \<Rightarrow> auth_db \<Rightarrow> (int \<times> user) outcome \<times> auth_db" where
  "get_current_admin_user env authorization w =
     and_then (get_current_user env authorization w) (\<lambda>cu w.
       if u_role (snd cu) \<notin> {''admin'', ''superuser''} \<and> fst cu \<noteq> 1
       then raise_app ForbiddenException ''Forbidden: Administrative privileges required'' w
       else (Inr cu, w))"

definition require_verified_email :: "auth_env \<Rightarrow> string option \<Rightarrow> auth_db \<Rightarrow> (int \<times> user) outcome \<times> auth_db" where
  "require_verified_email env authorization w =
     and_then (get_current_user env authorization w) (\<lambda>cu w.
       if \<not> u_verified (snd cu)
       then raise_app ForbiddenException ''Email verification required to access this resource'' w
       else (Inr cu, w))"

end
