(* ===== verification/Auth_Routes.thy ===== *)
theory Auth_Routes
  imports Auth
begin

text \<open>
  The handlers of \<^verbatim>\<open>backend/api/auth_routes.py\<close>. The response's cookie holds the refresh token that is
  returned too. A handler that depends on \<^verbatim>\<open>get_current_user\<close> gets the user.
\<close>

section \<open>Errors and results\<close>

definition raise_named :: "string \<Rightarrow> string \<Rightarrow> 'w \<Rightarrow> 'a outcome \<times> 'w" where
  "raise_named cls message w = (Inl (OtherException (cls @ '': '' @ message)), w)"

definition http_error :: "int \<Rightarrow> string \<Rightarrow> 'w \<Rightarrow> 'a outcome \<times> 'w" where
  "http_error code detail w = raise_named (''HTTPException '' @ int_str code) detail w"

fun join_with :: "string \<Rightarrow> string list \<Rightarrow> string" where
  "join_with sep [] = []"
| "join_with sep [x] = x"
| "join_with sep (x # y # xs) = x @ sep @ join_with sep (y # xs)"

record client =
  cl_ip :: "string option"
  cl_agent :: "string option"

text \<open>What a login draws: the salt, the identifier of the refresh token, the session and verification tokens.\<close>

record draws =
  dr_salt :: string
  dr_jti :: string
  dr_session :: string
  dr_verify :: string

record login_out =
  lo_access :: string
  lo_refresh :: string
  lo_user :: int
  lo_username :: string
  lo_verified :: bool
  lo_last_login :: "int option"
  lo_last_ip :: "string option"
  lo_verification :: "string option"

definition account_target :: "int \<Rightarrow> string" where
  "account_target uid = ''user:'' @ int_str uid"

definition days_us :: "int \<Rightarrow> int" where
  "days_us d = d * 24 * 3600 * 1000000"

definition stay_days :: "bool \<Rightarrow> int" where
  "stay_days remember = (if remember then 30 else 7)"

section \<open>Registration and login\<close>

text \<open>A new account with its first password in the history.\<close>

definition new_account ::
  "auth_env \<Rightarrow> string \<Rightarrow> string \<Rightarrow> string \<Rightarrow> string option \<Rightarrow> auth_db \<Rightarrow> (int \<times> user) outcome \<times> auth_db" where
  "new_account env salt email username password w =
     (let hashed = (if truthy password then Some (get_password_hash env salt (the password)) else None)
      in and_then (create_user email username hashed False ''UTC'' ''en'' w) (\<lambda>cu w.
           (Inr cu, if truthy hashed then add_password_history (fst cu) (the hashed) w else w)))"

text \<open>The tokens and the session of a user; \<open>dr_session\<close> is drawn before the session is stored.\<close>

definition open_session ::
  "auth_env \<Rightarrow> draws \<Rightarrow> bool \<Rightarrow> client \<Rightarrow> device \<Rightarrow> int \<times> user \<Rightarrow> auth_db
     \<Rightarrow> (string \<times> string \<times> int) outcome \<times> auth_db" where
  "open_session env dr remember cl dev cu w =
     (let access = create_access_token env (seconds_now w) (Some (fst cu)) (Some (u_email (snd cu))) None [];
          refresh = create_refresh_token env (seconds_now w) (dr_jti dr) (fst cu)
                      (Some (u_email (snd cu))) remember None;
          expires = db_now w + days_us (stay_days remember)
      in and_then (create_session (fst cu) (dr_session dr) refresh expires (cl_ip cl) (cl_agent cl) dev remember w)
           (\<lambda>s w. (Inr (access, refresh, fst s), w)))"

text \<open>The end of a registration: the session, the token for the address and the event.\<close>

definition greet_user ::
  "auth_env \<Rightarrow> draws \<Rightarrow> bool \<Rightarrow> client \<Rightarrow> device \<Rightarrow> int \<times> user \<Rightarrow> auth_db
     \<Rightarrow> login_out outcome \<times> auth_db" where
  "greet_user env dr remember cl dev cu w =
     and_then (open_session env dr remember cl dev cu w) (\<lambda>(access, refresh, sid) w.
     and_then (create_email_verification_token (fst cu) (dr_verify dr) (db_now w + days_us 1) w) (\<lambda>_ w.
       (Inr \<lparr>lo_access = access, lo_refresh = refresh, lo_user = fst cu,
             lo_username = u_username (snd cu), lo_verified = u_verified (snd cu),
             lo_last_login = None, lo_last_ip = None, lo_verification = Some (dr_verify dr)\<rparr>,
        create_security_event ''auth.register.success'' (Some (fst cu)) ''success'' (cl_ip cl)
          (cl_agent cl) (Some (dv_name dev)) [(''email'', PStr (u_email (snd cu)))] w)))"

definition register ::
  "auth_env \<Rightarrow> draws \<Rightarrow> string \<Rightarrow> string \<Rightarrow> string option \<Rightarrow> bool \<Rightarrow> client \<Rightarrow> auth_db
     \<Rightarrow> login_out outcome \<times> auth_db" where
  "register env dr email username password remember cl w =
     (case (if truthy password then validate_password_strength (the password) else (True, [])) of
        (valid, errs) \<Rightarrow>
          if \<not> valid then raise_named ''BadRequestException'' (join_with ''; '' errs) w
          else
            and_then (case get_user_by_email w email of
                        Some cu \<Rightarrow> (Inr cu, w)
                      | None \<Rightarrow> new_account env (dr_salt dr) email username password w)
              (greet_user env dr remember cl (parse_device_info (cl_agent cl))))"

text \<open>\<^verbatim>\<open>asyncio.sleep\<close> lets the clock run.\<close>

definition login_delay :: "user \<Rightarrow> int" where
  "login_delay u = \<lfloor>calculate_progressive_delay (u_failed u) * 1000000\<rfloor>"

definition wrong_password ::
  "client \<Rightarrow> device \<Rightarrow> int \<times> user \<Rightarrow> auth_db \<Rightarrow> 'a outcome \<times> auth_db" where
  "wrong_password cl dev cu w =
     (case record_login_failure cu w of ((locked, remaining, secs), cu', w1) \<Rightarrow>
        let w2 = create_security_event ''auth.login.failed'' (Some (fst cu))
                   (if locked then ''critical'' else ''warning'') (cl_ip cl) (cl_agent cl) (Some (dv_name dev))
                   [(''failed_attempts'', PInt (u_failed (snd cu'))), (''locked'', PBool locked),
                    (''remaining_attempts'', PInt remaining)] w1
        in if locked
           then http_error 423 (''Account is now locked for '' @ int_str LOCKOUT_DURATION_MINUTES
                  @ '' minutes due to multiple failed login attempts.'') w2
           else raise_app UnauthorizedException (''Invalid email or password. '' @ int_str remaining
                  @ '' attempts remaining before lockout.'') w2)"

text \<open>The part after the checks.\<close>

definition admit_user ::
  "auth_env \<Rightarrow> draws \<Rightarrow> bool \<Rightarrow> client \<Rightarrow> device \<Rightarrow> int \<times> user \<Rightarrow> auth_db
     \<Rightarrow> login_out outcome \<times> auth_db" where
  "admit_user env dr remember cl dev cu w =
     (case record_login_success cu (cl_ip cl) w of (cu', w1) \<Rightarrow>
        and_then (open_session env dr remember cl dev cu' w1) (\<lambda>(access, refresh, sid) w2.
          let w3 = create_security_event ''auth.login.success'' (Some (fst cu)) ''success'' (cl_ip cl)
                     (cl_agent cl) (Some (dv_name dev))
                     [(''session_id'', PInt sid), (''remember_me'', PBool remember)] w2;
              w4 = log_audit_event ''user.login'' (Some (fst cu)) None (Some (account_target (fst cu)))
                     (cl_ip cl) (cl_agent cl)
                     [(''email'', PStr (u_email (snd cu'))), (''remember_me'', PBool remember),
                      (''device'', PStr (dv_name dev))] w3
          in (Inr \<lparr>lo_access = access, lo_refresh = refresh, lo_user = fst cu,
                  lo_username = u_username (snd cu'), lo_verified = u_verified (snd cu'),
                  lo_last_login = u_last_login (snd cu'), lo_last_ip = u_last_ip (snd cu'),
                  lo_verification = None\<rparr>, w4)))"

definition login_user ::
  "auth_env \<Rightarrow> draws \<Rightarrow> string option \<Rightarrow> bool \<Rightarrow> client \<Rightarrow> device \<Rightarrow> int \<times> user \<Rightarrow> auth_db
     \<Rightarrow> login_out outcome \<times> auth_db" where
  "login_user env dr password remember cl dev cu w =
     (case is_account_locked (snd cu) (db_now w) of (locked, remaining) \<Rightarrow>
        if locked
        then http_error 423 (''Account is temporarily locked due to excessive failed attempts. Please try again in ''
               @ int_str remaining @ '' seconds.'')
               (create_security_event ''auth.login.blocked_locked'' (Some (fst cu)) ''warning'' (cl_ip cl)
                  (cl_agent cl) (Some (dv_name dev)) [(''remaining_seconds'', PInt remaining)] w)
        else
          (let w0 = w\<lparr>db_now := db_now w + login_delay (snd cu)\<rparr>
           in if truthy (u_hash (snd cu)) \<and> truthy password \<and> \<not> verify_password env (the password) (u_hash (snd cu))
              then wrong_password cl dev cu w0
              else admit_user env dr remember cl dev cu w0))"

definition login ::
  "auth_env \<Rightarrow> draws \<Rightarrow> string \<Rightarrow> string \<Rightarrow> string option \<Rightarrow> bool \<Rightarrow> client \<Rightarrow> auth_db
     \<Rightarrow> login_out outcome \<times> auth_db" where
  "login env dr email username password remember cl w =
     (let dev = parse_device_info (cl_agent cl);
          known = (case get_user_by_email w email of
                     Some cu \<Rightarrow> Some cu
                   | None \<Rightarrow> if username \<noteq> [] then get_user_by_username w username else None)
      in case known of
           Some cu \<Rightarrow> login_user env dr password remember cl dev cu w
         | None \<Rightarrow>
             if username \<noteq> []
             then and_then (new_account env (dr_salt dr) email username password w)
                    (login_user env dr password remember cl dev)
             else raise_app UnauthorizedException ''Invalid email or password''
                    (create_security_event ''auth.login.failed'' None ''failure'' (cl_ip cl) (cl_agent cl)
                       (Some (dv_name dev))
                       [(''email'', PStr email), (''reason'', PStr ''User not found'')] w))"

section \<open>Refreshing\<close>

definition close_session :: "int \<times> user_session \<Rightarrow> auth_db \<Rightarrow> auth_db" where
  "close_session s w = put_session (fst s) ((snd s)\<lparr>us_active := False\<rparr>) w"

definition rotated :: "string \<Rightarrow> string option \<Rightarrow> int \<Rightarrow> user_session \<Rightarrow> user_session" where
  "rotated refresh ip now s =
     s\<lparr>us_refresh := refresh, us_expires := now + days_us (stay_days (us_remember s)),
       us_last_active := Some now, us_last_ip := (if truthy ip then ip else us_last_ip s)\<rparr>"

definition rotate_session ::
  "auth_env \<Rightarrow> string \<Rightarrow> string \<Rightarrow> client \<Rightarrow> device \<Rightarrow> int \<times> user_session \<Rightarrow> int \<times> user \<Rightarrow> auth_db
     \<Rightarrow> (string \<times> string) outcome \<times> auth_db" where
  "rotate_session env jti token cl dev session cu w =
     and_then (register_used_refresh_token env (fst cu) token (Some (fst session)) w) (\<lambda>_ w.
       let access = create_access_token env (seconds_now w) (Some (fst cu)) (Some (u_email (snd cu))) None [];
           refresh = create_refresh_token env (seconds_now w) jti (fst cu) (Some (u_email (snd cu)))
                       (us_remember (snd session)) None
       in if t_first (\<lambda>i r. us_refresh r = refresh \<and> i \<noteq> fst session) (adb_sessions w) \<noteq> None
          then (Inl integrity_error, w)
          else (Inr (access, refresh),
                create_security_event ''auth.token_refreshed'' (Some (fst cu)) ''success'' (cl_ip cl)
                  (cl_agent cl) (Some (dv_name dev)) [(''session_id'', PInt (fst session))]
                  (put_session (fst session) (rotated refresh (cl_ip cl) (db_now w) (snd session)) w)))"

text \<open>A token that was rotated before comes again: every session of its user ends.\<close>

definition refuse_replay :: "client \<Rightarrow> device \<Rightarrow> int \<Rightarrow> auth_db \<Rightarrow> 'a outcome \<times> auth_db" where
  "refuse_replay cl dev uid w =
     (case revoke_all_user_sessions uid None w of (n, w1) \<Rightarrow>
        http_error 401 ''Suspicious token activity detected. All active sessions have been revoked for your security.''
          (create_security_event ''auth.refresh_token_reuse_detected'' (Some uid) ''critical'' (cl_ip cl)
             (cl_agent cl) (Some (dv_name dev))
             [(''action'', PStr ''mass_session_revocation''), (''revoked_sessions_count'', PInt (int n)),
              (''warning'', PStr ''Attempted replay of invalidated refresh token'')] w1))"

text \<open>The message, when a session is over.\<close>

definition session_over :: "user_session \<Rightarrow> int \<Rightarrow> string option" where
  "session_over s now =
     (if us_expires s < now then Some ''Refresh token has expired. Please log in again.''
      else
        (case us_last_active s of
           None \<Rightarrow> None
         | Some t \<Rightarrow> if IDLE_SESSION_TIMEOUT_HOURS * 3600 * 1000000 < now - t
                     then Some ''Session expired due to inactivity. Please log in again.'' else None))"

text \<open>The token is the one of the body, or else the one of the cookie.\<close>

definition sent_token :: "string option \<Rightarrow> string option \<Rightarrow> string" where
  "sent_token body cookie = (if truthy body then the body else or_else cookie [])"

definition refresh_tokens ::
  "auth_env \<Rightarrow> string \<Rightarrow> string option \<Rightarrow> string option \<Rightarrow> client \<Rightarrow> auth_db
     \<Rightarrow> (string \<times> string) outcome \<times> auth_db" where
  "refresh_tokens env jti body cookie cl w =
     (let dev = parse_device_info (cl_agent cl);
          token = sent_token body cookie
      in if token = [] then raise_app UnauthorizedException ''Refresh token is missing'' w
         else
           (case is_refresh_token_reused env token w of
              (True, Some uid) \<Rightarrow> refuse_replay cl dev uid w
            | _ \<Rightarrow>
                (case get_session_by_refresh_token token w of
                   None \<Rightarrow> raise_app UnauthorizedException ''Invalid or revoked refresh token'' w
                 | Some session \<Rightarrow>
                     (case session_over (snd session) (db_now w) of
                        Some message \<Rightarrow> raise_app UnauthorizedException message (close_session session w)
                      | None \<Rightarrow>
                          (case get_user w (us_user (snd session)) of
                             None \<Rightarrow> raise_app UnauthorizedException ''User account not found'' w
                           | Some cu \<Rightarrow> rotate_session env jti token cl dev session cu w)))))"

section \<open>Logout and passwords\<close>

definition logout :: "client \<Rightarrow> int \<times> user \<Rightarrow> auth_db \<Rightarrow> unit outcome \<times> auth_db" where
  "logout cl cu w =
     (Inr (), log_audit_event ''user.logout'' (Some (fst cu)) None (Some (account_target (fst cu))) None None []
        (create_security_event ''auth.logout'' (Some (fst cu)) ''success'' (cl_ip cl) (cl_agent cl) None
           [(''all_sessions_revoked'', PBool True)] (snd (revoke_all_user_sessions (fst cu) None w))))"

definition reuses_password :: "auth_env \<Rightarrow> int \<times> user \<Rightarrow> string \<Rightarrow> auth_db \<Rightarrow> bool" where
  "reuses_password env cu plain w \<longleftrightarrow>
     check_password_history env (fst cu) plain MAX_PASSWORD_HISTORY w
     \<or> (truthy (u_hash (snd cu)) \<and> verify_password env plain (u_hash (snd cu)))"

definition reuse_message :: string where
  "reuse_message = ''Cannot reuse any of your last '' @ int_str (int MAX_PASSWORD_HISTORY)
     @ '' passwords. Please choose a new password.''"

definition change_password ::
  "auth_env \<Rightarrow> string \<Rightarrow> string \<Rightarrow> string \<Rightarrow> client \<Rightarrow> int \<times> user \<Rightarrow> auth_db \<Rightarrow> unit outcome \<times> auth_db" where
  "change_password env salt current_pw new_pw cl cu w =
     (if truthy (u_hash (snd cu)) \<and> \<not> verify_password env current_pw (u_hash (snd cu))
      then raise_app UnauthorizedException ''Current password does not match''
             (create_security_event ''auth.password_change.failed'' (Some (fst cu)) ''warning'' (cl_ip cl)
                (cl_agent cl) None [(''reason'', PStr ''Incorrect current password'')] w)
      else
        (case validate_password_strength new_pw of (valid, errs) \<Rightarrow>
           if \<not> valid then raise_named ''BadRequestException'' (join_with ''; '' errs) w
           else if reuses_password env cu new_pw w then raise_named ''BadRequestException'' reuse_message w
           else
             (let hashed = get_password_hash env salt new_pw;
                  w1 = add_password_history (fst cu) hashed (snd (update_user_password cu hashed w));
                  w2 = snd (revoke_all_user_sessions (fst cu) None w1)
              in (Inr (), log_audit_event ''user.password_change'' (Some (fst cu)) None
                    (Some (account_target (fst cu))) None None []
                    (create_security_event ''auth.password_change.success'' (Some (fst cu)) ''success''
                       (cl_ip cl) (cl_agent cl) None [] w2)))))"

text \<open>The reset: a request answers with the token, if the address is known, and a confirmation uses it.\<close>

definition request_password_reset ::
  "string \<Rightarrow> string \<Rightarrow> auth_db \<Rightarrow> (string option) outcome \<times> auth_db" where
  "request_password_reset token email w =
     (case get_user_by_email w email of
        None \<Rightarrow> (Inr None, w)
      | Some cu \<Rightarrow>
          and_then (create_password_reset_token (fst cu) token (db_now w + 3600 * 1000000) w)
            (\<lambda>_ w. (Inr (Some token), w)))"

definition confirm_password_reset ::
  "auth_env \<Rightarrow> string \<Rightarrow> string \<Rightarrow> string \<Rightarrow> auth_db \<Rightarrow> unit outcome \<times> auth_db" where
  "confirm_password_reset env salt token new_pw w =
     (case validate_password_strength new_pw of (valid, errs) \<Rightarrow>
        if \<not> valid then raise_named ''BadRequestException'' (join_with ''; '' errs) w
        else
          (case get_password_reset_token token w of
             None \<Rightarrow> raise_named ''BadRequestException'' ''Invalid, used, or expired password reset token'' w
           | Some t \<Rightarrow>
               (case get_user w (ot_user (snd t)) of
                  None \<Rightarrow> raise_named ''NotFoundException'' ''User not found'' w
                | Some cu \<Rightarrow>
                    if reuses_password env cu new_pw w then raise_named ''BadRequestException'' reuse_message w
                    else
                      (let hashed = get_password_hash env salt new_pw;
                           w1 = add_password_history (fst cu) hashed (snd (update_user_password cu hashed w));
                           w2 = snd (revoke_all_user_sessions (fst cu) None
                                       (mark_password_reset_token_used t w1))
                       in (Inr (), log_audit_event ''user.password_change'' (Some (fst cu)) None
                             (Some (account_target (fst cu))) None None []
                             (create_security_event ''auth.password_reset.success'' (Some (fst cu)) ''success''
                                None None None [] w2))))))"

section \<open>Verification of the address\<close>

definition request_email_verification ::
  "string \<Rightarrow> string option \<Rightarrow> int \<times> user \<Rightarrow> auth_db \<Rightarrow> string outcome \<times> auth_db" where
  "request_email_verification token email cu w =
     (case (if truthy email then get_user_by_email w (the email) else Some cu) of
        None \<Rightarrow> raise_named ''NotFoundException'' ''User account not found'' w
      | Some target \<Rightarrow>
          and_then (create_email_verification_token (fst target) token (db_now w + days_us 1) w)
            (\<lambda>_ w. (Inr token, w)))"

definition confirm_email_verification :: "string \<Rightarrow> auth_db \<Rightarrow> unit outcome \<times> auth_db" where
  "confirm_email_verification token w =
     (case get_email_verification_token token w of
        None \<Rightarrow> raise_named ''BadRequestException'' ''Invalid, used, or expired verification token'' w
      | Some t \<Rightarrow>
          (case get_user w (ot_user (snd t)) of
             None \<Rightarrow> raise_named ''NotFoundException'' ''User not found'' w
           | Some cu \<Rightarrow>
               (Inr (), create_security_event ''auth.email_verified'' (Some (fst cu)) ''success'' None None None
                  [(''email'', PStr (u_email (snd cu)))]
                  (mark_email_verification_token_used t (snd (verify_user_email cu w))))))"

section \<open>Profile, sessions and keys\<close>

definition list_security_events :: "nat \<Rightarrow> nat \<Rightarrow> int \<times> user \<Rightarrow> auth_db \<Rightarrow> ((int \<times> security_event) list) outcome \<times> auth_db" where
  "list_security_events cnt skip cu w = (Inr (get_security_events (Some (fst cu)) cnt skip w), w)"

text \<open>The document \<open>dump\<close> is what \<^verbatim>\<open>profile_in.model_dump(exclude_unset=True)\<close> gives.\<close>

definition update_profile ::
  "kwargs \<Rightarrow> string option \<Rightarrow> string option \<Rightarrow> string option \<Rightarrow> string option \<Rightarrow> kwargs option
     \<Rightarrow> string option \<Rightarrow> int \<times> user \<Rightarrow> auth_db \<Rightarrow> (int \<times> user) outcome \<times> auth_db" where
  "update_profile dump username email timezone language notify avatar cu w =
     and_then (update_user_profile cu username email timezone language notify avatar w) (\<lambda>cu' w.
       (Inr cu', log_audit_event ''user.profile_update'' (Some (fst cu)) None (Some (account_target (fst cu)))
          None None dump w))"

definition update_avatar :: "string \<Rightarrow> int \<times> user \<Rightarrow> auth_db \<Rightarrow> (string option) outcome \<times> auth_db" where
  "update_avatar avatar cu w =
     and_then (update_user_profile cu None None None None None (Some avatar) w) (\<lambda>cu' w.
       (Inr (u_avatar (snd cu')), log_audit_event ''user.profile_update'' (Some (fst cu)) None
          (Some (account_target (fst cu))) None None [(''avatar_url'', PStr avatar)] w))"

definition list_sessions :: "client \<Rightarrow> int \<times> user \<Rightarrow> auth_db \<Rightarrow> ((bool \<times> int \<times> user_session) list) outcome \<times> auth_db" where
  "list_sessions cl cu w =
     (Inr (map (\<lambda>(i, s). (truthy (cl_ip cl) \<and> us_ip s = cl_ip cl, i, s)) (get_user_sessions (fst cu) w)), w)"

definition revoke_session :: "int \<Rightarrow> int \<times> user \<Rightarrow> auth_db \<Rightarrow> unit outcome \<times> auth_db" where
  "revoke_session sid cu w =
     (case crud_revoke_session sid (fst cu) w of (ok, w1) \<Rightarrow>
        if \<not> ok then raise_named ''NotFoundException'' ''Session not found or already revoked'' w1
        else (Inr (), create_security_event ''auth.session_revoked'' (Some (fst cu)) ''info'' None None None
                [(''session_id'', PInt sid)] w1))"

definition revoke_all_sessions :: "int \<times> user \<Rightarrow> auth_db \<Rightarrow> nat outcome \<times> auth_db" where
  "revoke_all_sessions cu w =
     (case revoke_all_user_sessions (fst cu) None w of (n, w1) \<Rightarrow>
        (Inr n, create_security_event ''auth.sessions_revoked_all'' (Some (fst cu)) ''warning'' None None None
           [(''revoked_count'', PInt (int n))] w1))"

text \<open>The key is shown once and not stored; \<open>hex6\<close> and \<open>secret24\<close> are the draws.\<close>

definition create_api_key ::
  "string \<Rightarrow> string \<Rightarrow> string \<Rightarrow> int \<times> user \<Rightarrow> auth_db \<Rightarrow> (string \<times> string) outcome \<times> auth_db" where
  "create_api_key hex6 secret24 name cu w =
     (let key_id = ''key_'' @ hex6;
          w1 = log_audit_event ''api_key.created'' (Some (fst cu)) None (Some (''api_key:'' @ key_id)) None None
                 [(''name'', PStr name), (''key_id'', PStr key_id)] w;
          w2 = create_security_event ''auth.api_key_created'' (Some (fst cu)) ''info'' None None None
                 [(''key_id'', PStr key_id), (''name'', PStr name)] w1
      in (Inr (key_id, ''sk_live_'' @ secret24), w2))"

end
