(* ===== verification/Auth_State.thy ===== *)
theory Auth_State
  imports Auth_Routes
begin

text \<open>
  The invariant of the account tables - unique addresses, names, tokens and hashes, and rows that
  belong to users that exist - and how a request may change them: \<open>evolves\<close>. Every handler of
  \<^verbatim>\<open>auth_routes.py\<close> evolves the state; runs of requests with their clock are at the end.
\<close>

section \<open>The invariant\<close>

definition owned :: "('a \<Rightarrow> int) \<Rightarrow> 'a table \<Rightarrow> user table \<Rightarrow> bool" where
  "owned f T us \<longleftrightarrow> (\<forall>i r. t_get T i = Some r \<longrightarrow> t_get us (f r) \<noteq> None)"

definition auth_ok :: "auth_db \<Rightarrow> bool" where
  "auth_ok w \<longleftrightarrow>
     t_unique u_email (db_users w) \<and> t_unique u_username (db_users w)
     \<and> t_unique us_token (adb_sessions w) \<and> t_unique us_refresh (adb_sessions w)
     \<and> t_unique ut_hash (adb_used w) \<and> t_unique ot_token (adb_resets w)
     \<and> t_unique ot_token (adb_verifs w) \<and> t_ok (adb_history w)
     \<and> owned us_user (adb_sessions w) (db_users w) \<and> owned ut_user (adb_used w) (db_users w)
     \<and> owned ot_user (adb_resets w) (db_users w) \<and> owned ot_user (adb_verifs w) (db_users w)
     \<and> owned ph_user (adb_history w) (db_users w)"

lemma auth_okD:
  assumes "auth_ok w"
  shows "t_unique u_email (db_users w)" "t_unique u_username (db_users w)"
    "t_unique us_token (adb_sessions w)" "t_unique us_refresh (adb_sessions w)"
    "t_unique ut_hash (adb_used w)" "t_unique ot_token (adb_resets w)" "t_unique ot_token (adb_verifs w)"
    "t_ok (adb_history w)" "owned us_user (adb_sessions w) (db_users w)"
    "owned ut_user (adb_used w) (db_users w)" "owned ot_user (adb_resets w) (db_users w)"
    "owned ot_user (adb_verifs w) (db_users w)" "owned ph_user (adb_history w) (db_users w)"
    "t_ok (db_users w)" "t_ok (adb_sessions w)" "t_ok (adb_used w)" "t_ok (adb_resets w)"
    "t_ok (adb_verifs w)"
proof -
  show tables: "t_unique u_email (db_users w)" "t_unique u_username (db_users w)"
    "t_unique us_token (adb_sessions w)" "t_unique us_refresh (adb_sessions w)"
    "t_unique ut_hash (adb_used w)" "t_unique ot_token (adb_resets w)" "t_unique ot_token (adb_verifs w)"
    "t_ok (adb_history w)" "owned us_user (adb_sessions w) (db_users w)"
    "owned ut_user (adb_used w) (db_users w)" "owned ot_user (adb_resets w) (db_users w)"
    "owned ot_user (adb_verifs w) (db_users w)" "owned ph_user (adb_history w) (db_users w)"
    using assms by (simp_all add: auth_ok_def)
  show "t_ok (db_users w)" "t_ok (adb_sessions w)" "t_ok (adb_used w)" "t_ok (adb_resets w)"
    "t_ok (adb_verifs w)" using tables(1,3,5,6,7) by (simp_all only: t_unique_ok)
qed

lemma owned_row_insert: "t_ok T \<Longrightarrow> owned f T us \<Longrightarrow> t_get us (f r) \<noteq> None \<Longrightarrow> owned f (snd (t_insert r T)) us"
  by (simp add: owned_def t_get_insert)

lemma owned_row_put: "owned f T us \<Longrightarrow> t_get T i = Some r \<Longrightarrow> f r' = f r \<Longrightarrow> owned f (t_put i r' T) us"
  by (auto simp: owned_def)

lemma owned_update: "owned f T us \<Longrightarrow> (\<And>r. f (g r) = f r) \<Longrightarrow> owned f (t_update_where P g T) us"
  by (fastforce simp: owned_def)

lemma owned_mono: "owned f T us \<Longrightarrow> (\<And>i. t_get us i \<noteq> None \<Longrightarrow> t_get us' i \<noteq> None) \<Longrightarrow> owned f T us'"
  by (auto simp: owned_def)

lemma t_unique_update:
  assumes "t_unique k T" and "\<And>r. k (f r) = k r"
  shows "t_unique k (t_update_where P f T)"
  unfolding t_unique_def
proof (intro conjI allI impI)
  show "t_ok (t_update_where P f T)" using t_unique_ok [OF assms(1)] by simp
  fix i j r s
  assume r: "t_get (t_update_where P f T) i = Some r" "t_get (t_update_where P f T) j = Some s" "k r = k s"
  obtain r0 where i: "t_get T i = Some r0" "k r0 = k r" using r(1) assms(2) by (auto split: if_splits)
  obtain s0 where j: "t_get T j = Some s0" "k s0 = k s" using r(2) assms(2) by (auto split: if_splits)
  show "i = j" using assms(1) i j r(3) unfolding t_unique_def by simp
qed

lemma auth_ok_empty [simp]: "auth_ok (auth_empty now)"
  by (simp add: auth_ok_def auth_empty_def db_empty_def db.defs auth_db.defs owned_def)

section \<open>How the tables change\<close>

definition evolves :: "auth_db \<Rightarrow> auth_db \<Rightarrow> bool" where
  "evolves w w' \<longleftrightarrow> auth_ok w'
     \<and> (\<forall>i t. t_get (adb_used w) i = Some t \<longrightarrow> t_get (adb_used w') i = Some t)
     \<and> (\<forall>i. t_get (db_users w) i \<noteq> None \<longrightarrow> t_get (db_users w') i \<noteq> None)"

abbreviation known :: "auth_db \<Rightarrow> int \<times> user \<Rightarrow> bool" where
  "known w cu \<equiv> t_get (db_users w) (fst cu) = Some (snd cu)"

abbreviation exists_user :: "auth_db \<Rightarrow> int \<Rightarrow> bool" where
  "exists_user w uid \<equiv> t_get (db_users w) uid \<noteq> None"

lemma evolves_refl: "auth_ok w \<Longrightarrow> evolves w w"
  by (simp add: evolves_def)

lemma evolves_trans [trans]: "evolves w w' \<Longrightarrow> evolves w' w'' \<Longrightarrow> evolves w w''"
  by (simp add: evolves_def)

lemma evolvesD: "evolves w w' \<Longrightarrow> auth_ok w'" "evolves w w' \<Longrightarrow> exists_user w uid \<Longrightarrow> exists_user w' uid"
  by (simp_all add: evolves_def)

text \<open>What only writes the logs or moves the clock changes nothing the invariant speaks of.\<close>

lemma evolves_logs [simp]:
  "evolves w (create_security_event a b c d e f g w') = evolves w w'"
  "evolves w (log_audit_event a' b' c' d' e' f' g' w') = evolves w w'"
  "evolves w (w'\<lparr>db_now := t\<rparr>) = evolves w w'"
  by (simp_all add: evolves_def auth_ok_def create_security_event_def log_audit_event_def)

lemma evolves_from_clock [simp]: "evolves (w\<lparr>db_now := t\<rparr>) w' = evolves w w'"
  by (simp add: evolves_def)

lemma auth_ok_clock [simp]: "auth_ok (w\<lparr>db_now := t\<rparr>) = auth_ok w"
  by (simp add: auth_ok_def)

lemma evolves_and_then:
  assumes "evolves w (snd m)"
    and "\<And>a w'. m = (Inr a, w') \<Longrightarrow> evolves w w' \<Longrightarrow> evolves w (snd (f a w'))"
  shows "evolves w (snd (and_then m f))"
  using assms by (cases m; cases "fst m") auto

text \<open>A change of one table.\<close>

lemma evolves_users:
  assumes "auth_ok w" and "t_unique u_email us" and "t_unique u_username us"
    and "\<And>i. t_get (db_users w) i \<noteq> None \<Longrightarrow> t_get us i \<noteq> None"
  shows "evolves w (w\<lparr>db_users := us\<rparr>)"
proof -
  have "auth_ok (w\<lparr>db_users := us\<rparr>)"
    unfolding auth_ok_def using assms(2,3) auth_okD [OF assms(1)]
    by (auto intro: owned_mono [OF _ assms(4)])
  then show ?thesis using assms(4) by (simp add: evolves_def)
qed

lemma evolves_put_user:
  assumes "auth_ok w" and "known w cu" and "u_email u = u_email (snd cu)" and "u_username u = u_username (snd cu)"
  shows "evolves w (put_user (fst cu, u) w)"
  unfolding put_user_def using auth_okD(1,2) [OF assms(1)] assms(2-4)
  by (auto intro!: evolves_users assms(1) t_unique_put(1))

lemma evolves_sessions:
  assumes "auth_ok w" and "t_unique us_token S" and "t_unique us_refresh S" and "owned us_user S (db_users w)"
  shows "evolves w (w\<lparr>adb_sessions := S\<rparr>)"
  using auth_okD [OF assms(1)] assms by (simp add: evolves_def auth_ok_def)

lemma evolves_tokens:
  assumes "auth_ok w" and "t_unique ot_token T" and "owned ot_user T (db_users w)"
  shows "evolves w (w\<lparr>adb_resets := T\<rparr>)" and "evolves w (w\<lparr>adb_verifs := T\<rparr>)"
  using auth_okD [OF assms(1)] assms by (simp_all add: evolves_def auth_ok_def)

section \<open>The operations\<close>

lemma t_first_row:
  "t_ok T \<Longrightarrow> t_first P T = Some c \<Longrightarrow> t_get T (fst c) = Some (snd c) \<and> P (fst c) (snd c)"
  using t_first_Some [of T P "fst c" "snd c"] by simp

lemma users_by_key:
  assumes "auth_ok w" and "get_user w uid = Some cu"
  shows "known w cu" and "fst cu = uid"
  using t_first_row [OF auth_okD(14) [OF assms(1)] assms(2) [unfolded get_user_def]] by auto

lemma users_by_field:
  assumes "auth_ok w"
  shows "get_user_by_email w e = Some cu \<Longrightarrow> known w cu \<and> u_email (snd cu) = e"
    and "get_user_by_username w n = Some cu \<Longrightarrow> known w cu \<and> u_username (snd cu) = n"
  unfolding get_user_by_email_def get_user_by_username_def
  by (drule t_first_row [OF auth_okD(14) [OF assms]], simp)+

lemma finds_user: "auth_ok w \<Longrightarrow> known w (uid, u) \<Longrightarrow> get_user w uid = Some (uid, u)"
  unfolding get_user_def using t_first_key [OF auth_okD(14), of w uid "\<lambda>_. True"] by simp

lemma finds_by_email: "auth_ok w \<Longrightarrow> known w cu \<Longrightarrow> get_user_by_email w (u_email (snd cu)) = Some cu"
  unfolding get_user_by_email_def t_find_def [symmetric]
  using t_find_iff [OF auth_okD(1), of w "u_email (snd cu)" "fst cu" "snd cu"] by simp

lemma evolves_create_user:
  assumes "auth_ok w"
  shows "evolves w (snd (create_user e n h v tz l w))"
proof (cases "get_user_by_email w e \<noteq> None \<or> get_user_by_username w n \<noteq> None")
  case True
  then show ?thesis using assms by (simp add: create_user_def evolves_refl)
next
  case False
  let ?u = "new_user e n h v tz l (db_now w)"
  have "t_find u_email (u_email ?u) (db_users w) = None" "t_find u_username (u_username ?u) (db_users w) = None"
    using False unfolding t_find_def get_user_by_email_def get_user_by_username_def new_user_def
    by (simp_all del: not_None_eq)
  then have "evolves w (w\<lparr>db_users := snd (t_insert ?u (db_users w))\<rparr>)"
    using auth_okD [OF assms]
    by (intro evolves_users assms t_unique_insert(1)) (auto simp: t_get_insert)
  with False show ?thesis by (simp add: create_user_def Let_def split_beta)
qed

lemma create_user_known:
  assumes "auth_ok w" and "create_user e n h v tz l w = (Inr cu, w')"
  shows "known w' cu" and "u_locked_until (snd cu) = None"
  using assms(2) t_get_insert [OF auth_okD(14) [OF assms(1)]]
  by (auto simp: create_user_def Let_def split_beta new_user_def t_insert_def split: if_splits)

lemma evolves_profile:
  assumes "auth_ok w" and "known w cu"
  shows "evolves w (snd (update_user_profile cu n e tz l nt av w))"
proof -
  obtain uid u where cu: "cu = (uid, u)" by (cases cu)
  define u' where "u' = u\<lparr>u_username := (case n of None \<Rightarrow> u_username u | Some x \<Rightarrow> x),
      u_email := (case e of None \<Rightarrow> u_email u | Some x \<Rightarrow> x),
      u_timezone := (case tz of None \<Rightarrow> u_timezone u | Some x \<Rightarrow> x),
      u_language := (case l of None \<Rightarrow> u_language u | Some x \<Rightarrow> x),
      u_notify := (case nt of None \<Rightarrow> u_notify u | Some x \<Rightarrow> x),
      u_avatar := (case av of None \<Rightarrow> u_avatar u | Some x \<Rightarrow> Some x)\<rparr>"
  let ?P = "\<lambda>i v. i \<noteq> uid \<and> (u_email v = u_email u' \<or> u_username v = u_username u')"
  have run: "update_user_profile cu n e tz l nt av w =
      (if t_first ?P (db_users w) \<noteq> None then (Inl integrity_error, w) else (Inr (uid, u'), put_user (uid, u') w))"
    unfolding update_user_profile_def cu u'_def Let_def prod.case by (rule refl)
  show ?thesis
  proof (cases "t_first ?P (db_users w)")
    case None
    then have free: "\<not> ?P i v" if "t_get (db_users w) i = Some v" for i v
      using that t_first_None [OF auth_okD(14) [OF assms(1)]] by simp
    have "t_unique u_email (t_put uid u' (db_users w))" "t_unique u_username (t_put uid u' (db_users w))"
      using free by (blast intro: t_unique_rekey auth_okD(1,2) [OF assms(1)])+
    then have "evolves w (put_user (uid, u') w)"
      unfolding put_user_def fst_conv snd_conv by (intro evolves_users assms(1)) auto
    then show ?thesis unfolding run using None by simp
  qed (simp add: run evolves_refl assms(1))
qed

lemma evolves_update_password:
  "auth_ok w \<Longrightarrow> known w cu \<Longrightarrow> evolves w (snd (update_user_password cu h w))"
  "auth_ok w \<Longrightarrow> known w cu \<Longrightarrow> evolves w (snd (verify_user_email cu w))"
  by (simp_all add: update_user_password_def verify_user_email_def Let_def evolves_put_user)

lemma evolves_login_count:
  assumes "auth_ok w" and "known w cu"
  shows "record_login_failure cu w = (r, cu', w') \<Longrightarrow> evolves w w' \<and> known w' cu' \<and> fst cu' = fst cu"
    and "record_login_success cu ip w = (cu', w') \<Longrightarrow> evolves w w' \<and> known w' cu' \<and> fst cu' = fst cu"
proof -
  have put: "evolves w (put_user (fst cu, u) w) \<and> known (put_user (fst cu, u) w) (fst cu, u)"
    if "u_email u = u_email (snd cu)" "u_username u = u_username (snd cu)" for u
    using evolves_put_user [OF assms that] assms(2) by (simp add: put_user_def)
  show "record_login_failure cu w = (r, cu', w') \<Longrightarrow> evolves w w' \<and> known w' cu' \<and> fst cu' = fst cu"
    unfolding record_login_failure_def Let_def prod.inject by (elim conjE, hypsubst) (use put in simp)
  show "record_login_success cu ip w = (cu', w') \<Longrightarrow> evolves w w' \<and> known w' cu' \<and> fst cu' = fst cu"
    unfolding record_login_success_def Let_def prod.inject by (elim conjE, hypsubst) (use put in simp)
qed

lemma evolves_history:
  assumes "auth_ok w" and "exists_user w uid"
  shows "evolves w (add_password_history uid h w)"
  unfolding add_password_history_def evolves_def auth_ok_def
  using auth_okD [OF assms(1)] assms(2) by (auto intro!: owned_row_insert t_ok_insert)

lemma evolves_register_used:
  assumes "auth_ok w" and "exists_user w uid"
  shows "evolves w (snd (register_used_refresh_token env uid token sid w))"
proof (cases "t_first (\<lambda>i t. ut_hash t = hash_token env token) (adb_used w)")
  case None
  let ?t = "\<lparr>ut_user = uid, ut_session = sid, ut_hash = hash_token env token, ut_revoked = db_now w,
    ut_created = db_now w\<rparr>"
  have "t_find ut_hash (ut_hash ?t) (adb_used w) = None" using None by (simp add: t_find_def)
  moreover have "t_get (snd (t_insert ?t (adb_used w))) i = Some t"
    if "t_get (adb_used w) i = Some t" for i t
    using that t_get_insert [OF auth_okD(16) [OF assms(1)]] t_get_fresh [OF auth_okD(16) [OF assms(1)]] by auto
  ultimately have "evolves w (w\<lparr>adb_used := snd (t_insert ?t (adb_used w))\<rparr>)"
    unfolding evolves_def auth_ok_def using auth_okD [OF assms(1)] assms(2)
    by (auto intro!: owned_row_insert t_unique_insert(1))
  with None show ?thesis by (simp add: register_used_refresh_token_def Let_def)
qed (simp add: register_used_refresh_token_def Let_def evolves_refl assms)

lemma evolves_create_session:
  assumes "auth_ok w" and "exists_user w uid"
  shows "evolves w (snd (create_session uid token refresh expires ip agent dev remember w))"
proof (cases "t_first (\<lambda>i s. us_token s = token \<or> us_refresh s = refresh) (adb_sessions w)")
  case None
  then have "t_find us_token token (adb_sessions w) = None" "t_find us_refresh refresh (adb_sessions w) = None"
    using auth_okD(15) [OF assms(1)] by (simp_all add: t_first_None t_find_None)
  then show ?thesis using None auth_okD [OF assms(1)] assms(2)
    by (auto simp: create_session_def Let_def split_beta
        intro!: evolves_sessions assms(1) t_unique_insert(1) owned_row_insert)
qed (simp add: create_session_def evolves_refl assms)

lemma evolves_put_session:
  assumes "auth_ok w" and "t_get (adb_sessions w) i = Some s"
    and "us_user s' = us_user s" "us_token s' = us_token s"
    and "\<And>j r. t_get (adb_sessions w) j = Some r \<Longrightarrow> us_refresh r = us_refresh s' \<Longrightarrow> j = i"
  shows "evolves w (put_session i s' w)"
  unfolding put_session_def
proof (rule evolves_sessions [OF assms(1)])
  let ?s = "s'\<lparr>us_updated := db_now w\<rparr>"
  show "t_unique us_token (t_put i ?s (adb_sessions w))"
    using assms(4) by (intro t_unique_put(1) [OF auth_okD(3) [OF assms(1)] assms(2)]) simp
  show "t_unique us_refresh (t_put i ?s (adb_sessions w))"
    using assms(5) by (intro t_unique_rekey [OF auth_okD(4) [OF assms(1)]]) simp
  show "owned us_user (t_put i ?s (adb_sessions w)) (db_users w)"
    using assms(3) by (intro owned_row_put [OF auth_okD(9) [OF assms(1)] assms(2)]) simp
qed

lemma evolves_same_session:
  assumes "auth_ok w" and "t_get (adb_sessions w) i = Some s"
    and "us_user s' = us_user s" "us_token s' = us_token s" "us_refresh s' = us_refresh s"
  shows "evolves w (put_session i s' w)"
proof (rule evolves_put_session [OF assms(1-4)])
  show "j = i" if "t_get (adb_sessions w) j = Some r" "us_refresh r = us_refresh s'" for j r
    using auth_okD(4) [OF assms(1)] that assms(2,5) unfolding t_unique_def by simp
qed

lemma evolves_revoke:
  assumes "auth_ok w"
  shows "evolves w (snd (crud_revoke_session sid uid w))"
    and "evolves w (snd (revoke_all_user_sessions uid except w))"
proof -
  show "evolves w (snd (crud_revoke_session sid uid w))"
  proof (cases "t_first (\<lambda>i s. i = sid \<and> us_user s = uid) (adb_sessions w)")
    case (Some s)
    then have "t_get (adb_sessions w) (fst s) = Some (snd s)"
      using t_first_row [OF auth_okD(15) [OF assms]] by blast
    then show ?thesis using Some
      by (auto simp: crud_revoke_session_def split_beta intro!: evolves_same_session assms)
  qed (simp add: crud_revoke_session_def evolves_refl assms)
  show "evolves w (snd (revoke_all_user_sessions uid except w))"
    unfolding revoke_all_user_sessions_def Let_def snd_conv using auth_okD [OF assms]
    by (intro evolves_sessions assms t_unique_update owned_update) simp_all
qed

lemma evolves_add_token:
  assumes "auth_ok w" and "exists_user w uid"
  shows "evolves w (snd (create_password_reset_token uid token e w))"
    and "evolves w (snd (create_email_verification_token uid token e w))"
proof -
  have ok: "t_unique ot_token T' \<and> owned ot_user T' (db_users w)"
    if "add_token uid token e t T = Some T'" "t_unique ot_token T" "owned ot_user T (db_users w)" for t T T'
  proof -
    have "t_find ot_token token T = None"
      using that(1) unfolding add_token_def t_find_def by (cases "t_first (\<lambda>i t. ot_token t = token) T") simp_all
    with that assms(2) show ?thesis
      by (auto simp: add_token_def t_unique_ok split: if_splits intro!: t_unique_insert(1) owned_row_insert)
  qed
  show "evolves w (snd (create_password_reset_token uid token e w))"
    using ok auth_okD [OF assms(1)]
    by (auto simp: create_password_reset_token_def evolves_refl assms(1) split: option.split
        intro!: evolves_tokens(1))
  show "evolves w (snd (create_email_verification_token uid token e w))"
    using ok auth_okD [OF assms(1)]
    by (auto simp: create_email_verification_token_def evolves_refl assms(1) split: option.split
        intro!: evolves_tokens(2))
qed

lemma evolves_mark:
  assumes "auth_ok w"
  shows "t_get (adb_resets w) (fst t) = Some (snd t) \<Longrightarrow> evolves w (mark_password_reset_token_used t w)"
    and "t_get (adb_verifs w) (fst t) = Some (snd t) \<Longrightarrow> evolves w (mark_email_verification_token_used t w)"
  unfolding mark_password_reset_token_used_def mark_email_verification_token_used_def
  using auth_okD [OF assms]
  by (auto intro!: evolves_tokens assms t_unique_put(1) owned_row_put)

end
