(* ===== verification/Auth_Requests.thy ===== *)
theory Auth_Requests
  imports Auth_State
begin

text \<open>
  The requests of \<^verbatim>\<open>auth_routes.py\<close> with their authentication as one machine, and the lemmas that
  every handler keeps the invariant of \<^verbatim>\<open>Auth_State\<close>.
\<close>

section \<open>Who asks\<close>

lemma current_user_known:
  assumes "auth_ok w"
  shows "evolves w (snd (get_current_user env a w))"
    and "get_current_user env a w = (Inr cu, w') \<Longrightarrow> known w' cu"
proof -
  consider e where "get_current_user env a w = (Inl e, w)"
    | p cu where "get_current_user env a w = (Inr cu, w)" "payload_user w p = Some cu"
    | e n where "get_current_user env a w = create_user e n None False ''UTC'' ''en'' w"
  proof (cases "truthy a")
    case True
    note run = get_current_user_def [of env a w, unfolded Let_def]
    show ?thesis
    proof (cases "decode_access_token env (db_now w) (the a)")
      case (Some payload)
      then show ?thesis
      proof (cases "payload = []")
        case False
        show ?thesis
        proof (cases "payload_user w payload")
          case None
          then show ?thesis using that(1,3) True Some False unfolding run
            by (cases "payload_email payload = []") (simp_all add: raise_app_def)
        next
          case found: (Some cu)
          then show ?thesis using that(2) True Some False by (simp add: run)
        qed
      qed (use that(1) True in \<open>simp add: run raise_app_def\<close>)
    qed (use that(1) True in \<open>simp add: run raise_app_def\<close>)
  qed (use that(1) in \<open>simp add: get_current_user_def Let_def raise_app_def\<close>)
  note runs = this
  show "evolves w (snd (get_current_user env a w))"
    using runs by cases (simp_all add: evolves_refl assms evolves_create_user)
  show "known w' cu" if "get_current_user env a w = (Inr cu, w')"
    using runs
  proof cases
    case (2 p cu')
    obtain uid where "get_user w uid = Some cu'" using 2(2) by (auto simp: payload_user_def split: option.splits pyval.splits)
    then show ?thesis using 2(1) that users_by_key(1) [OF assms] by simp
  next
    case 3
    then show ?thesis using that create_user_known(1) [OF assms] by simp
  qed (use that in simp)
qed

definition as_user ::
  "auth_env \<Rightarrow> string option \<Rightarrow> (int \<times> user \<Rightarrow> auth_db \<Rightarrow> 'a outcome \<times> auth_db) \<Rightarrow> auth_db
     \<Rightarrow> 'a outcome \<times> auth_db" where
  "as_user env authorization h w = and_then (get_current_user env authorization w) h"

lemma evolves_as_user:
  assumes "auth_ok w" and "\<And>cu w'. auth_ok w' \<Longrightarrow> known w' cu \<Longrightarrow> evolves w' (snd (h cu w'))"
  shows "evolves w (snd (as_user env a h w))"
  unfolding as_user_def
proof (rule evolves_and_then [OF current_user_known(1) [OF assms(1)]])
  fix cu w'
  assume c: "get_current_user env a w = (Inr cu, w')" and e: "evolves w w'"
  show "evolves w (snd (h cu w'))"
    by (rule evolves_trans [OF e assms(2) [OF evolvesD(1) [OF e] current_user_known(2) [OF assms(1) c]]])
qed

section \<open>Registration and login\<close>

lemma new_account_keeps:
  assumes "auth_ok w"
  shows "evolves w (snd (new_account env salt e n p w))"
    and "new_account env salt e n p w = (Inr cu, w') \<Longrightarrow> known w' cu \<and> u_locked_until (snd cu) = None"
proof -
  let ?h = "if truthy p then Some (get_password_hash env salt (the p)) else None"
  obtain r w1 where c: "create_user e n ?h False ''UTC'' ''en'' w = (r, w1)" by fastforce
  have e: "evolves w w1" using evolves_create_user [OF assms, of e n ?h False "''UTC''" "''en''"] c by simp
  show "evolves w (snd (new_account env salt e n p w))"
  proof (cases r)
    case (Inr cu)
    have "exists_user w1 (fst cu)" using create_user_known(1) [OF assms] c Inr by simp
    then show ?thesis
      using evolves_trans [OF e evolves_history [OF evolvesD(1) [OF e]]] e c Inr
      by (simp add: new_account_def Let_def)
  qed (use c e in \<open>simp add: new_account_def Let_def\<close>)
  show "known w' cu \<and> u_locked_until (snd cu) = None" if "new_account env salt e n p w = (Inr cu, w')"
  proof (cases r)
    case (Inr cu1)
    have "db_users (add_password_history i h w1) = db_users w1" for i h by (simp add: add_password_history_def)
    then show ?thesis
      using that create_user_known [OF assms] c Inr
      by (auto simp: new_account_def Let_def split: if_splits)
  qed (use that c in \<open>simp add: new_account_def Let_def\<close>)
qed

lemma open_session_keeps:
  "auth_ok w \<Longrightarrow> exists_user w (fst cu) \<Longrightarrow> evolves w (snd (open_session env dr rem cl dev cu w))"
  unfolding open_session_def Let_def
  by (rule evolves_and_then [OF evolves_create_session]) auto

lemma admit_user_keeps:
  assumes "auth_ok w" and "known w cu"
  shows "evolves w (snd (admit_user env dr rem cl dev cu w))"
proof -
  obtain cu1 w1 where s: "record_login_success cu (cl_ip cl) w = (cu1, w1)" by fastforce
  have e: "evolves w w1" "known w1 cu1" using evolves_login_count(2) [OF assms s] by blast+
  have "evolves w1 (snd (open_session env dr rem cl dev cu1 w1))"
    by (rule open_session_keeps [OF evolvesD(1) [OF e(1)]]) (metis e(2) option.distinct(1))
  then have opened: "evolves w (snd (open_session env dr rem cl dev cu1 w1))" by (rule evolves_trans [OF e(1)])
  show ?thesis
    unfolding admit_user_def s prod.case by (rule evolves_and_then [OF opened]) (auto simp: Let_def)
qed

lemma login_user_keeps:
  assumes "auth_ok w" and "known w cu"
  shows "evolves w (snd (login_user env dr p rem cl dev cu w))"
proof -
  let ?w0 = "w\<lparr>db_now := db_now w + login_delay (snd cu)\<rparr>"
  have w0: "auth_ok ?w0" "known ?w0 cu" using assms by simp_all
  obtain r cu1 w1 where f: "record_login_failure cu ?w0 = (r, cu1, w1)" by (metis prod_cases3)
  have wrong: "evolves w (snd (wrong_password cl dev cu ?w0 :: login_out outcome \<times> auth_db))"
    using evolves_login_count(1) [OF w0 f]
    by (simp add: wrong_password_def f split_beta Let_def http_error_def raise_named_def raise_app_def)
  have admit: "evolves w (snd (admit_user env dr rem cl dev cu ?w0))"
    using admit_user_keeps [OF w0] by simp
  show ?thesis
    using assms wrong admit
    by (simp add: login_user_def split_beta Let_def http_error_def raise_named_def evolves_refl)
qed

lemma login_keeps:
  assumes "auth_ok w"
  shows "evolves w (snd (login env dr e n p rem cl w))"
proof -
  let ?known = "case get_user_by_email w e of Some cu \<Rightarrow> Some cu
    | None \<Rightarrow> if n \<noteq> [] then get_user_by_username w n else None"
  show ?thesis
  proof (cases ?known)
    case (Some cu)
    then have "known w cu"
      using users_by_field [OF assms] by (auto split: option.splits if_splits)
    then show ?thesis using Some login_user_keeps [OF assms] by (simp add: login_def Let_def)
  next
    case None
    show ?thesis
    proof (cases "n = []")
      case True
      then have "get_user_by_email w e = None" using None by (simp split: option.splits)
      with True show ?thesis using assms by (simp add: login_def Let_def raise_app_def evolves_refl)
    next
      case False
      have "evolves w (snd (and_then (new_account env (dr_salt dr) e n p w)
             (login_user env dr p rem cl (parse_device_info (cl_agent cl)))))"
      proof (rule evolves_and_then [OF new_account_keeps(1) [OF assms]])
        fix cu w'
        assume a: "new_account env (dr_salt dr) e n p w = (Inr cu, w')" and "evolves w w'"
        moreover have "known w' cu" using new_account_keeps(2) [OF assms a] by simp
        ultimately show "evolves w (snd (login_user env dr p rem cl (parse_device_info (cl_agent cl)) cu w'))"
          using evolves_trans login_user_keeps evolvesD(1) by blast
      qed
      with None False show ?thesis by (simp add: login_def Let_def)
    qed
  qed
qed

lemma greet_user_keeps:
  assumes "auth_ok w" and "exists_user w (fst cu)"
  shows "evolves w (snd (greet_user env dr rem cl dev cu w))"
  unfolding greet_user_def
proof (rule evolves_and_then [OF open_session_keeps [OF assms]], clarify, rule evolves_and_then)
  fix access refresh sid w1
  assume e: "evolves w w1"
  show "evolves w (snd (create_email_verification_token (fst cu) (dr_verify dr) (db_now w1 + days_us 1) w1))"
    by (rule evolves_trans [OF e evolves_add_token(2) [OF evolvesD(1) [OF e] evolvesD(2) [OF e assms(2)]]])
qed simp

lemma register_keeps:
  assumes "auth_ok w"
  shows "evolves w (snd (register env dr e n p rem cl w))"
proof -
  let ?found = "case get_user_by_email w e of Some cu \<Rightarrow> (Inr cu, w)
    | None \<Rightarrow> new_account env (dr_salt dr) e n p w"
  have found: "evolves w (snd ?found)"
    using new_account_keeps(1) [OF assms] evolves_refl [OF assms] by (cases "get_user_by_email w e") simp_all
  have "evolves w (snd (and_then ?found (greet_user env dr rem cl (parse_device_info (cl_agent cl)))))"
  proof (rule evolves_and_then [OF found])
    fix cu w'
    assume a: "?found = (Inr cu, w')" and e: "evolves w w'"
    have "known w' cu"
      using a new_account_keeps(2) [OF assms] users_by_field(1) [OF assms]
      by (cases "get_user_by_email w e") auto
    then have ex: "exists_user w' (fst cu)" by simp
    show "evolves w (snd (greet_user env dr rem cl (parse_device_info (cl_agent cl)) cu w'))"
      by (rule evolves_trans [OF e greet_user_keeps [OF evolvesD(1) [OF e] ex]])
  qed
  then show ?thesis
    using assms by (auto simp: register_def raise_named_def evolves_refl split: prod.split)
qed

section \<open>Refreshing\<close>

lemma rotate_session_keeps:
  assumes "auth_ok w" and "exists_user w (fst cu)" and "t_get (adb_sessions w) (fst session) = Some (snd session)"
  shows "evolves w (snd (rotate_session env jti token cl dev session cu w))"
  unfolding rotate_session_def
proof (rule evolves_and_then [OF evolves_register_used [OF assms(1,2)]])
  fix a w1
  assume r: "register_used_refresh_token env (fst cu) token (Some (fst session)) w = (Inr a, w1)"
    and e: "evolves w w1"
  have S: "adb_sessions w1 = adb_sessions w"
    using r by (auto simp: register_used_refresh_token_def Let_def split: if_splits)
  have put: "evolves w (put_session (fst session) (rotated refresh ip t (snd session)) w1)"
    if none: "t_first (\<lambda>i r. us_refresh r = refresh \<and> i \<noteq> fst session) (adb_sessions w1) = None" for refresh ip t
  proof (rule evolves_trans [OF e evolves_put_session [OF evolvesD(1) [OF e]]])
    show "t_get (adb_sessions w1) (fst session) = Some (snd session)" by (simp add: S assms(3))
    fix j q
    assume "t_get (adb_sessions w1) j = Some q" "us_refresh q = us_refresh (rotated refresh ip t (snd session))"
    then show "j = fst session"
      using none t_first_None [OF auth_okD(15) [OF evolvesD(1) [OF e]]] by (auto simp: rotated_def)
  qed (simp_all add: rotated_def)
  let ?refresh = "create_refresh_token env (seconds_now w1) jti (fst cu) (Some (u_email (snd cu)))
    (us_remember (snd session)) None"
  show "evolves w (snd (let access = create_access_token env (seconds_now w1) (Some (fst cu))
             (Some (u_email (snd cu))) None []; refresh = ?refresh
       in if t_first (\<lambda>i r. us_refresh r = refresh \<and> i \<noteq> fst session) (adb_sessions w1) \<noteq> None
          then (Inl integrity_error, w1)
          else (Inr (access, refresh),
                create_security_event ''auth.token_refreshed'' (Some (fst cu)) ''success'' (cl_ip cl)
                  (cl_agent cl) (Some (dv_name dev)) [(''session_id'', PInt (fst session))]
                  (put_session (fst session) (rotated refresh (cl_ip cl) (db_now w1) (snd session)) w1))))"
    unfolding Let_def using e put by (simp del: not_None_eq split_paired_All)
qed

lemma refuse_replay_keeps: "auth_ok w \<Longrightarrow> evolves w (snd (refuse_replay cl dev uid w))"
  using evolves_revoke(2) by (simp add: refuse_replay_def split_beta http_error_def raise_named_def)

lemma refresh_tokens_keeps:
  assumes "auth_ok w"
  shows "evolves w (snd (refresh_tokens env jti body cookie cl w))"
proof -
  let ?token = "sent_token body cookie"
  let ?dev = "parse_device_info (cl_agent cl)"
  have row: "t_get (adb_sessions w) (fst s) = Some (snd s)" if "get_session_by_refresh_token ?token w = Some s" for s
    using t_first_row [OF auth_okD(15) [OF assms] that [unfolded get_session_by_refresh_token_def]] by blast
  have "evolves w (close_session s w)" if "get_session_by_refresh_token ?token w = Some s" for s
    unfolding close_session_def by (rule evolves_same_session [OF assms row [OF that]]) simp_all
  moreover have "evolves w (snd (rotate_session env jti ?token cl ?dev s cu w))"
    if "get_session_by_refresh_token ?token w = Some s" "get_user w (us_user (snd s)) = Some cu" for s cu
  proof -
    have "exists_user w (fst cu)" using users_by_key(1) [OF assms that(2)] by simp
    then show ?thesis by (rule rotate_session_keeps [OF assms _ row [OF that(1)]])
  qed
  ultimately show ?thesis
    using refuse_replay_keeps [OF assms] evolves_refl [OF assms]
    unfolding refresh_tokens_def Let_def raise_app_def
    by (auto simp del: split_paired_All not_None_eq split: prod.split bool.split option.split)
qed

section \<open>Passwords, verification and sessions\<close>

lemma logout_keeps: "auth_ok w \<Longrightarrow> evolves w (snd (logout cl cu w))"
  by (simp add: logout_def evolves_revoke)

text \<open>A new hash, its entry in the history, and what is revoked with it.\<close>

lemma set_password_keeps:
  assumes "auth_ok w" and "known w cu"
  shows "evolves w (add_password_history (fst cu) h (snd (update_user_password cu h w)))"
proof -
  have e: "evolves w (snd (update_user_password cu h w))" by (rule evolves_update_password [OF assms])
  have "exists_user w (fst cu)" using assms(2) by simp
  with e have "exists_user (snd (update_user_password cu h w)) (fst cu)" by (rule evolvesD(2))
  then show ?thesis by (rule evolves_trans [OF e evolves_history [OF evolvesD(1) [OF e]]])
qed

lemma change_password_keeps:
  assumes "auth_ok w" and "known w cu"
  shows "evolves w (snd (change_password env salt cur new cl cu w))"
proof -
  have "evolves w (snd (revoke_all_user_sessions (fst cu) None
      (add_password_history (fst cu) h (snd (update_user_password cu h w)))))" for h
    using set_password_keeps [OF assms, of h] evolves_revoke(2) evolvesD(1) evolves_trans by blast
  then show ?thesis using assms(1)
    by (auto simp: change_password_def Let_def raise_app_def raise_named_def evolves_refl split: prod.split)
qed

lemma confirm_password_reset_keeps:
  assumes "auth_ok w"
  shows "evolves w (snd (confirm_password_reset env salt token new w))"
proof -
  have "evolves w (snd (revoke_all_user_sessions (fst cu) None (mark_password_reset_token_used t
      (add_password_history (fst cu) h (snd (update_user_password cu h w))))))"
    if "get_password_reset_token token w = Some t" "get_user w (ot_user (snd t)) = Some cu" for t cu h
  proof -
    have e: "evolves w (add_password_history (fst cu) h (snd (update_user_password cu h w)))"
      by (rule set_password_keeps [OF assms users_by_key(1) [OF assms that(2)]])
    have "t_get (adb_resets w) (fst t) = Some (snd t)"
      using t_first_row [OF auth_okD(17) [OF assms] that(1) [unfolded get_password_reset_token_def live_token_def]]
      by blast
    then have "t_get (adb_resets (add_password_history (fst cu) h (snd (update_user_password cu h w)))) (fst t)
        = Some (snd t)" by (simp add: add_password_history_def update_user_password_def Let_def put_user_def)
    then show ?thesis
      using e evolves_mark(1) evolves_revoke(2) evolvesD(1) evolves_trans by meson
  qed
  then show ?thesis using assms
    by (auto simp: confirm_password_reset_def Let_def raise_named_def evolves_refl split: prod.split option.split)
qed

lemma request_password_reset_keeps:
  assumes "auth_ok w"
  shows "evolves w (snd (request_password_reset token e w))"
proof (cases "get_user_by_email w e")
  case (Some cu)
  then have "exists_user w (fst cu)" using users_by_field(1) [OF assms] by blast
  then show ?thesis
    by (simp add: request_password_reset_def Some) (rule evolves_and_then [OF evolves_add_token(1) [OF assms]], simp_all)
qed (simp add: request_password_reset_def evolves_refl assms)

lemma request_email_verification_keeps:
  assumes "auth_ok w" and "known w cu"
  shows "evolves w (snd (request_email_verification token e cu w))"
proof (cases "if truthy e then get_user_by_email w (the e) else Some cu")
  case (Some target)
  then have "exists_user w (fst target)"
    using assms(2) users_by_field(1) [OF assms(1)] by (auto split: if_splits)
  then show ?thesis unfolding request_email_verification_def Some option.case
    by (intro evolves_and_then [OF evolves_add_token(2) [OF assms(1)]]) simp_all
qed (simp add: request_email_verification_def raise_named_def evolves_refl assms(1))

lemma confirm_email_verification_keeps:
  assumes "auth_ok w"
  shows "evolves w (snd (confirm_email_verification token w))"
proof -
  have "evolves w (mark_email_verification_token_used t (snd (verify_user_email cu w)))"
    if "get_email_verification_token token w = Some t" "get_user w (ot_user (snd t)) = Some cu" for t cu
  proof -
    have e: "evolves w (snd (verify_user_email cu w))"
      by (rule evolves_update_password(2) [OF assms users_by_key(1) [OF assms that(2)]])
    have "t_get (adb_verifs w) (fst t) = Some (snd t)"
      using t_first_row [OF auth_okD(18) [OF assms] that(1) [unfolded get_email_verification_token_def live_token_def]]
      by blast
    then have "t_get (adb_verifs (snd (verify_user_email cu w))) (fst t) = Some (snd t)"
      by (simp add: verify_user_email_def Let_def put_user_def)
    then show ?thesis by (rule evolves_trans [OF e evolves_mark(2) [OF evolvesD(1) [OF e]]])
  qed
  then show ?thesis using assms
    by (auto simp: confirm_email_verification_def raise_named_def evolves_refl split: option.split)
qed

lemma update_profile_keeps:
  assumes "auth_ok w" and "known w cu"
  shows "evolves w (snd (update_profile dump n e tz l nt av cu w))"
    and "evolves w (snd (update_avatar a cu w))"
  unfolding update_profile_def update_avatar_def
  by (rule evolves_and_then [OF evolves_profile [OF assms]], simp)+

lemma revoke_session_keeps:
  assumes "auth_ok w"
  shows "evolves w (snd (revoke_session sid cu w))" and "evolves w (snd (revoke_all_sessions cu w))"
  using evolves_revoke [OF assms]
  by (simp_all add: revoke_session_def revoke_all_sessions_def raise_named_def split_beta)

lemma create_api_key_keeps: "auth_ok w \<Longrightarrow> evolves w (snd (create_api_key h k n cu w))"
  by (simp add: create_api_key_def Let_def evolves_refl)

section \<open>The machine\<close>

text \<open>The first argument of a request that needs a user is its \<^verbatim>\<open>Authorization\<close> header.\<close>

datatype auth_request =
    ARegister draws string string "string option" bool client
  | ALogin draws string string "string option" bool client
  | ARefresh string "string option" "string option" client
  | ALogout "string option" client
  | APassword "string option" string string string client
  | AResetRequest string string
  | AResetConfirm string string string
  | AVerifyRequest "string option" string "string option"
  | AVerifyConfirm string
  | AProfile "string option" kwargs "string option" "string option" "string option" "string option"
      "kwargs option" "string option"
  | AAvatar "string option" string
  | ARevoke "string option" int
  | ARevokeAll "string option"
  | AKey "string option" string string string
  | ATick nat

fun auth_step :: "auth_env \<Rightarrow> auth_db \<Rightarrow> auth_request \<Rightarrow> auth_db" where
  "auth_step env w (ARegister dr e n p rem cl) = snd (register env dr e n p rem cl w)"
| "auth_step env w (ALogin dr e n p rem cl) = snd (login env dr e n p rem cl w)"
| "auth_step env w (ARefresh jti body cookie cl) = snd (refresh_tokens env jti body cookie cl w)"
| "auth_step env w (ALogout a cl) = snd (as_user env a (logout cl) w)"
| "auth_step env w (APassword a salt cur new cl) = snd (as_user env a (change_password env salt cur new cl) w)"
| "auth_step env w (AResetRequest token e) = snd (request_password_reset token e w)"
| "auth_step env w (AResetConfirm salt token new) = snd (confirm_password_reset env salt token new w)"
| "auth_step env w (AVerifyRequest a token e) = snd (as_user env a (request_email_verification token e) w)"
| "auth_step env w (AVerifyConfirm token) = snd (confirm_email_verification token w)"
| "auth_step env w (AProfile a dump n e tz l nt av) = snd (as_user env a (update_profile dump n e tz l nt av) w)"
| "auth_step env w (AAvatar a av) = snd (as_user env a (update_avatar av) w)"
| "auth_step env w (ARevoke a sid) = snd (as_user env a (revoke_session sid) w)"
| "auth_step env w (ARevokeAll a) = snd (as_user env a revoke_all_sessions w)"
| "auth_step env w (AKey a h k n) =
     snd (and_then (require_verified_email env a w) (create_api_key h k n))"
| "auth_step env w (ATick n) = w\<lparr>db_now := db_now w + int n\<rparr>"

lemma verified_keeps:
  assumes "auth_ok w"
  shows "evolves w (snd (require_verified_email env a w))"
  unfolding require_verified_email_def
  by (rule evolves_and_then [OF current_user_known(1) [OF assms]]) (simp add: raise_app_def)

lemma auth_step_evolves:
  assumes "auth_ok w"
  shows "evolves w (auth_step env w r)"
proof (cases r)
  case (AKey a h k n)
  have "evolves w (snd (and_then (require_verified_email env a w) (create_api_key h k n)))"
    by (rule evolves_and_then [OF verified_keeps [OF assms]])
      (blast intro: evolves_trans create_api_key_keeps evolvesD(1))
  then show ?thesis by (simp add: AKey)
qed (simp_all add: assms register_keeps login_keeps refresh_tokens_keeps evolves_as_user logout_keeps
    change_password_keeps request_password_reset_keeps confirm_password_reset_keeps
    request_email_verification_keeps confirm_email_verification_keeps update_profile_keeps
    revoke_session_keeps evolves_refl)

text \<open>A refresh token of this hash was rotated away from this user.\<close>

definition spent :: "string \<Rightarrow> int \<Rightarrow> auth_db \<Rightarrow> bool" where
  "spent h uid w \<longleftrightarrow> (\<exists>i t. t_get (adb_used w) i = Some t \<and> ut_hash t = h \<and> ut_user t = uid)"

interpretation accounts: absorbing_machine "auth_step env" auth_ok "spent h uid" for env h uid
proof unfold_locales
  fix w r
  assume "auth_ok w"
  note e = auth_step_evolves [OF this, of env r]
  then show "auth_ok (auth_step env w r)" by (rule evolvesD(1))
  show "spent h uid (auth_step env w r)" if "spent h uid w"
    using e that unfolding evolves_def spent_def by blast
qed

end
