(* ===== verification/Auth_Props.thy ===== *)
theory Auth_Props
  imports Auth_Requests
begin

text \<open>
  Properties of tokens, logins, lockout, refresh tokens and passwords, and concrete runs that
  their hypotheses hold on.
\<close>

section \<open>Tokens\<close>

definition access_claims :: "auth_env \<Rightarrow> int \<Rightarrow> int \<Rightarrow> string \<Rightarrow> kwargs" where
  "access_claims env now uid email =
     [(''iat'', PInt now), (''exp'', PInt (now + ae_minutes env * 60)), (''type'', PStr ''access''),
      (''user_id'', PInt uid), (''sub'', PStr (int_str uid)), (''email'', PStr email)]"

definition refresh_claims :: "int \<Rightarrow> string \<Rightarrow> int \<Rightarrow> string \<Rightarrow> bool \<Rightarrow> kwargs" where
  "refresh_claims now jti uid email remember =
     [(''user_id'', PInt uid), (''sub'', PStr (int_str uid)), (''type'', PStr ''refresh''), (''jti'', PStr jti),
      (''iat'', PInt now), (''exp'', PInt (now + (if remember then 30 * 24 * 3600 else 7 * 24 * 3600)))]
     @ (if email = [] then [] else [(''email'', PStr email)])"

lemma access_token_claims:
  "create_access_token env now (Some uid) (Some email) None [] = sign_token env (access_claims env now uid email)"
  by (simp add: create_access_token_def access_claims_def expires_at_def Let_def)

lemma refresh_token_claims:
  "create_refresh_token env now jti uid (Some email) rem None = sign_token env (refresh_claims now jti uid email rem)"
  by (simp add: create_refresh_token_def refresh_claims_def expires_at_def Let_def truthy_def)

lemma expired_iff:
  "d_get p ''exp'' = Some (PInt e) \<Longrightarrow> token_expired now p = Some (e * 1000000 < now)"
proof -
  assume p: "d_get p ''exp'' = Some (PInt e)"
  have "(of_int e :: rat) < of_int now / 1000000 \<longleftrightarrow> (of_int (e * 1000000) :: rat) < of_int now"
    by (simp add: field_simps)
  also have "\<dots> \<longleftrightarrow> e * 1000000 < now" by (rule of_int_less_iff)
  finally show ?thesis by (simp add: token_expired_def p)
qed

lemma claims_facts:
  "token_expired t (access_claims env now uid email) = Some ((now + ae_minutes env * 60) * 1000000 < t)"
  "fill_identity env (access_claims env now uid email) = access_claims env now uid email"
  "payload_user w (access_claims env now uid email) = get_user w uid"
  "token_expired t (refresh_claims now jti uid email rem)
     = Some ((now + (if rem then 30 * 24 * 3600 else 7 * 24 * 3600)) * 1000000 < t)"
  "fill_identity env (refresh_claims now jti uid email rem) = refresh_claims now jti uid email rem"
  "payload_user w (refresh_claims now jti uid email rem) = get_user w uid"
  "access_claims env now uid email \<noteq> []" "refresh_claims now jti uid email rem \<noteq> []"
  by (simp_all add: access_claims_def refresh_claims_def expired_iff fill_identity_def payload_user_def)

text \<open>
  C20: an access token the code makes for a user is accepted until its expiry, with and without the
  scheme in front, and read back as the claims it was made of; after its expiry it is refused. The
  hypothesis is what the documentation of the JSON functions says of these claims.
\<close>

theorem access_token_roundtrip:
  assumes "json_reads env (access_claims env now uid email)"
  shows "decode_access_token env t (create_access_token env now (Some uid) (Some email) None [])
      = (if t \<le> (now + ae_minutes env * 60) * 1000000 then Some (access_claims env now uid email) else None)
    \<and> decode_access_token env t (''Bearer '' @ create_access_token env now (Some uid) (Some email) None [])
      = (if t \<le> (now + ae_minutes env * 60) * 1000000 then Some (access_claims env now uid email) else None)"
  unfolding access_token_claims decode_signed [OF assms] claims_facts by auto

text \<open>
  C18: whatever text is accepted as a token carries a signature made with the secret over its first two
  parts and is not expired - or it is one of the static development tokens, which production refuses.
\<close>

theorem accepted_tokens_are_signed:
  assumes "decode_access_token env t token = Some p"
  shows "(\<exists>h b s claims. split_on (CHR ''.'') (str_strip (str_remove ''Bearer '' token)) = [h, b, s]
      \<and> s = sign_hs256 env (h @ ''.'' @ b) (ae_secret env)
      \<and> b64url_decode b \<noteq> None \<and> ae_loads env (the (b64url_decode b)) = Some (PDict claims)
      \<and> token_expired t claims = Some False \<and> p = fill_identity env claims)
    \<or> (\<not> ae_production env \<and> legacy_token (str_strip (str_remove ''Bearer '' token)) = Some p)"
  using assms
  by (auto simp: decode_access_token_def signed_payload_def Let_def
      split: if_splits list.splits option.splits pyval.splits)

section \<open>Refresh tokens\<close>

lemma sessions_after_logs [simp]:
  "get_user_sessions uid (create_security_event a b c d e f g w) = get_user_sessions uid w"
  "get_user_sessions uid (log_audit_event a' b' c' d' e' f' g' w) = get_user_sessions uid w"
  by (simp_all add: get_user_sessions_def create_security_event_def log_audit_event_def)

lemma order_rows_Nil [simp]: "order_rows k asc [] = []"
  by (simp add: order_rows_def)

lemma all_revoked [simp]: "get_user_sessions uid (snd (revoke_all_user_sessions uid None w)) = []"
proof -
  have "t_where (\<lambda>i s. us_user s = uid \<and> us_active s)
     (adb_sessions (snd (revoke_all_user_sessions uid None w))) = []"
    by (auto simp: revoke_all_user_sessions_def t_where_def t_update_where_def filter_empty_conv Let_def
        split: if_splits)
  then show ?thesis by (simp add: get_user_sessions_def)
qed

lemma spent_is_reused:
  assumes "auth_ok w" and "spent (hash_token env token) uid w"
  shows "is_refresh_token_reused env token w = (True, Some uid)"
proof -
  obtain i t where t: "t_get (adb_used w) i = Some t" "ut_hash t = hash_token env token" "ut_user t = uid"
    using assms(2) unfolding spent_def by blast
  have "t_find ut_hash (hash_token env token) (adb_used w) = Some (i, t)"
    using t t_find_iff [OF auth_okD(5) [OF assms(1)]] by simp
  with t(3) show ?thesis by (simp add: is_refresh_token_reused_def t_find_def)
qed

lemma refresh_spends:
  assumes "auth_ok w" and "refresh_tokens env jti body cookie cl w = (Inr r, w')"
  shows "sent_token body cookie \<noteq> []
    \<and> (\<exists>s. get_session_by_refresh_token (sent_token body cookie) w = Some s
         \<and> spent (hash_token env (sent_token body cookie)) (us_user (snd s)) w')"
proof -
  let ?token = "sent_token body cookie"
  have token: "?token \<noteq> []" using assms(2) by (auto simp: refresh_tokens_def raise_app_def)
  obtain s cu where s: "get_session_by_refresh_token ?token w = Some s" "get_user w (us_user (snd s)) = Some cu"
    and rot: "rotate_session env jti ?token cl (parse_device_info (cl_agent cl)) s cu w = (Inr r, w')"
    using assms(2) token
    by (auto simp: refresh_tokens_def Let_def raise_app_def refuse_replay_def split_beta http_error_def
        raise_named_def split: prod.splits bool.splits option.splits)
  have uid: "fst cu = us_user (snd s)" using users_by_key(2) [OF assms(1) s(2)] .
  obtain w1 where reg: "register_used_refresh_token env (fst cu) ?token (Some (fst s)) w = (Inr (), w1)"
    using rot by (cases "register_used_refresh_token env (fst cu) ?token (Some (fst s)) w")
      (auto simp: rotate_session_def and_then_def split: sum.splits)
  then have "adb_used w1 = snd (t_insert \<lparr>ut_user = fst cu, ut_session = Some (fst s),
      ut_hash = hash_token env ?token, ut_revoked = db_now w, ut_created = db_now w\<rparr> (adb_used w))"
    by (auto simp: register_used_refresh_token_def Let_def split: if_splits)
  moreover have "adb_used w' = adb_used w1"
    using rot reg by (auto simp: rotate_session_def Let_def create_security_event_def put_session_def split: if_splits)
  ultimately have "spent (hash_token env ?token) (us_user (snd s)) w'"
    using uid t_get_insert [OF auth_okD(16) [OF assms(1)]] unfolding spent_def by fastforce
  with token s(1) show ?thesis by blast
qed

text \<open>
  C8: a refresh token that was rotated never works again. Whatever requests follow the rotation, sending
  the old token is refused and ends every session of its user, the one that holds the new token too.
\<close>

theorem rotated_token_is_dead:
  assumes "w = foldl (auth_step env) (auth_empty now) rs"
    and "refresh_tokens env jti body cookie cl w = (Inr r, w1)"
    and "sent_token body' cookie' = sent_token body cookie"
  shows "\<exists>s e w2. get_session_by_refresh_token (sent_token body cookie) w = Some s
    \<and> refresh_tokens env jti' body' cookie' cl' (foldl (auth_step env) w1 rs') = (Inl e, w2)
    \<and> get_user_sessions (us_user (snd s)) w2 = []"
proof -
  have ok: "auth_ok w" unfolding assms(1) by (rule accounts.run_inv) simp
  obtain s where s: "sent_token body cookie \<noteq> []" "get_session_by_refresh_token (sent_token body cookie) w = Some s"
    "spent (hash_token env (sent_token body cookie)) (us_user (snd s)) w1"
    using refresh_spends [OF ok assms(2)] by blast
  have ok1: "auth_ok w1" using refresh_tokens_keeps [OF ok, of env jti body cookie cl] assms(2) by (simp add: evolvesD)
  let ?w = "foldl (auth_step env) w1 rs'"
  have "is_refresh_token_reused env (sent_token body cookie) ?w = (True, Some (us_user (snd s)))"
    by (rule spent_is_reused [OF accounts.run_inv [OF ok1] accounts.run_final [OF ok1 s(3)]])
  then have "\<exists>e w2. refresh_tokens env jti' body' cookie' cl' ?w = (Inl e, w2)
      \<and> get_user_sessions (us_user (snd s)) w2 = []"
    using s(1) assms(3)
    by (simp add: refresh_tokens_def Let_def refuse_replay_def split_beta http_error_def raise_named_def)
  with s(2) show ?thesis by blast
qed

text \<open>
  C17: every run of requests keeps the account tables consistent: addresses, names, session, refresh and
  one-time tokens occur once, and every row of a user belongs to a user that exists.
\<close>

theorem accounts_stay_consistent: "auth_ok (foldl (auth_step env) (auth_empty now) rs)"
  by (rule accounts.run_inv) simp

section \<open>Logout\<close>

lemma bearer_of_claims:
  assumes "json_reads env p" and "token_expired (db_now w) p = Some False" and "p \<noteq> []"
    and "fill_identity env p = p" and "payload_user w p = Some cu"
  shows "get_current_user env (Some (''Bearer '' @ sign_token env p)) w = (Inr cu, w)"
  using assms decode_signed(2) [OF assms(1), of "db_now w"]
  by (simp add: get_current_user_def truthy_def)

lemma users_after_logout: "db_users (snd (logout cl cu w)) = db_users w" "db_now (snd (logout cl cu w)) = db_now w"
  by (simp_all add: logout_def log_audit_event_def create_security_event_def revoke_all_user_sessions_def Let_def)

lemma open_session_result:
  assumes "open_session env dr rem cl dev cu w = (Inr (acc, ref, sid), w')"
  shows "acc = sign_token env (access_claims env (seconds_now w) (fst cu) (u_email (snd cu)))"
    and "ref = sign_token env (refresh_claims (seconds_now w) (dr_jti dr) (fst cu) (u_email (snd cu)) rem)"
    and "db_users w' = db_users w" "db_now w' = db_now w"
  using assms unfolding access_token_claims [symmetric] refresh_token_claims [symmetric]
  by (auto simp: open_session_def Let_def create_session_def split_beta and_then_def split: if_splits)

text \<open>
  the tokens of a session still authenticate its user after the logout that revoked every session:
  the access token, because no handler looks the session up, and the refresh token too, because no
  handler looks at the type of a token.
\<close>

theorem tokens_survive_logout:
  assumes "auth_ok w" and "t_get (db_users w) (fst cu) = Some (snd cu)" and "0 < ae_minutes env"
    and "open_session env dr rem cl dev cu w = (Inr (acc, ref, sid), w1)"
    and "json_reads env (access_claims env (seconds_now w) (fst cu) (u_email (snd cu)))"
    and "json_reads env (refresh_claims (seconds_now w) (dr_jti dr) (fst cu) (u_email (snd cu)) rem)"
  shows "get_user_sessions (fst cu) (snd (logout cl' cu w1)) = []
    \<and> get_current_user env (Some (''Bearer '' @ acc)) (snd (logout cl' cu w1)) = (Inr cu, snd (logout cl' cu w1))
    \<and> get_current_user env (Some (''Bearer '' @ ref)) (snd (logout cl' cu w1)) = (Inr cu, snd (logout cl' cu w1))"
proof -
  note o = open_session_result [OF assms(4)]
  let ?w = "snd (logout cl' cu w1)"
  have "get_user ?w (fst cu) = get_user w (fst cu)" by (simp add: get_user_def users_after_logout o(3))
  then have user: "get_user ?w (fst cu) = Some cu"
    using finds_user [OF assms(1), of "fst cu" "snd cu"] assms(2) by simp
  have now: "db_now ?w = db_now w" by (simp add: users_after_logout o(4))
  have "db_now w < seconds_now w * 1000000 + 1000000"
    unfolding seconds_now_def using minus_mod_eq_div_mult [of "db_now w" 1000000]
      pos_mod_bound [of 1000000 "db_now w"] by linarith
  then have fresh: "token_expired (db_now ?w) (access_claims env (seconds_now w) (fst cu) (u_email (snd cu))) = Some False"
    "token_expired (db_now ?w) (refresh_claims (seconds_now w) (dr_jti dr) (fst cu) (u_email (snd cu)) rem) = Some False"
    using assms(3) by (simp_all add: claims_facts now)
  have gone: "get_user_sessions (fst cu) ?w = []" by (simp add: logout_def)
  show ?thesis
    unfolding o(1,2) using gone user
    by (intro conjI bearer_of_claims [OF assms(5) fresh(1)] bearer_of_claims [OF assms(6) fresh(2)])
      (simp_all add: claims_facts)
qed

section \<open>Lockout and login\<close>

lemma wrong_login_step:
  assumes "auth_ok w" and "get_user_by_email w e = Some (uid, u)" and "u_locked_until u = None"
    and "truthy (u_hash u)" "p \<noteq> []" "\<not> verify_password env p (u_hash u)"
  shows "get_user_by_email (snd (login env dr e n (Some p) rem cl w)) e =
    Some (uid, u\<lparr>u_failed := u_failed u + 1,
      u_locked_until := (if LOCKOUT_THRESHOLD \<le> u_failed u + 1
        then Some (db_now (snd (login env dr e n (Some p) rem cl w)) + LOCKOUT_DURATION_MINUTES * 60 * 1000000)
        else None)\<rparr>)"
proof -
  let ?w0 = "w\<lparr>db_now := db_now w + login_delay u\<rparr>"
  define u' where "u' = u\<lparr>u_failed := u_failed u + 1,
      u_locked_until := (if LOCKOUT_THRESHOLD \<le> u_failed u + 1
        then Some (db_now ?w0 + LOCKOUT_DURATION_MINUTES * 60 * 1000000) else None)\<rparr>"
  let ?w' = "snd (login env dr e n (Some p) rem cl w)"
  have "?w' = snd (wrong_password cl (parse_device_info (cl_agent cl)) (uid, u) ?w0 :: login_out outcome \<times> auth_db)"
    using assms by (simp add: login_def login_user_def is_account_locked_def truthy_def)
  moreover have "db_users (snd (wrong_password cl (parse_device_info (cl_agent cl)) (uid, u) ?w0 :: login_out outcome \<times> auth_db))
      = t_put uid u' (db_users w)
    \<and> db_now (snd (wrong_password cl (parse_device_info (cl_agent cl)) (uid, u) ?w0 :: login_out outcome \<times> auth_db))
      = db_now ?w0"
    using assms(3)
    by (simp add: wrong_password_def record_login_failure_def Let_def put_user_def create_security_event_def
        http_error_def raise_named_def raise_app_def u'_def)
  ultimately have run: "db_users ?w' = t_put uid u' (db_users w)" "db_now ?w' = db_now ?w0" by simp_all
  have known: "t_get (db_users w) uid = Some u" "u_email u = e"
    using users_by_field(1) [OF assms(1,2)] by simp_all
  have "t_find u_email e (t_put uid u' (db_users w)) = Some (uid, u')"
    using t_unique_put(2) [OF auth_okD(1) [OF assms(1)] known(1), of u'] known(2) by (simp add: u'_def)
  then show ?thesis
    unfolding get_user_by_email_def run t_find_def by (simp add: u'_def)
qed

abbreviation fail_logins ::
  "auth_env \<Rightarrow> string \<Rightarrow> string \<Rightarrow> (draws \<times> string \<times> bool \<times> client) list \<Rightarrow> auth_db \<Rightarrow> auth_db" where
  "fail_logins env e n tries w \<equiv> foldl (\<lambda>w (dr, p, rem, cl). snd (login env dr e n (Some p) rem cl w)) w tries"

lemma fail_logins_lock:
  assumes "auth_ok w" and "get_user_by_email w e = Some (uid, u)" and "u_locked_until u = None"
    and "truthy (u_hash u)" and "\<forall>(dr, p, rem, cl)\<in>set tries. p \<noteq> [] \<and> \<not> verify_password env p (u_hash u)"
    and "u_failed u + int (length tries) = LOCKOUT_THRESHOLD" and "tries \<noteq> []"
  shows "get_user_by_email (fail_logins env e n tries w) e = Some (uid, u\<lparr>u_failed := LOCKOUT_THRESHOLD,
    u_locked_until := Some (db_now (fail_logins env e n tries w) + LOCKOUT_DURATION_MINUTES * 60 * 1000000)\<rparr>)"
  using assms
proof (induction tries arbitrary: w u)
  case (Cons t tries)
  obtain dr p rem cl where t: "t = (dr, p, rem, cl)" by (metis prod_cases4)
  let ?w' = "snd (login env dr e n (Some p) rem cl w)"
  have p: "p \<noteq> []" "\<not> verify_password env p (u_hash u)" using Cons.prems(5) by (simp_all add: t)
  note step = wrong_login_step [OF Cons.prems(1-4) p, of dr n rem cl]
  have ok: "auth_ok ?w'" by (rule evolvesD(1) [OF login_keeps [OF Cons.prems(1)]])
  show ?case
  proof (cases "tries = []")
    case True
    then show ?thesis using step Cons.prems(6) by (simp add: t)
  next
    case False
    then have "\<not> LOCKOUT_THRESHOLD \<le> u_failed u + 1"
      using Cons.prems(6) by (cases tries) simp_all
    then have e': "get_user_by_email ?w' e = Some (uid, u\<lparr>u_failed := u_failed u + 1, u_locked_until := None\<rparr>)"
      using step by simp
    show ?thesis
      using Cons.IH [OF ok e'] Cons.prems(4-6) False by (simp add: t)
  qed
qed simp

lemma locked_login:
  assumes "get_user_by_email w e = Some (uid, u)" and "u_locked_until u = Some t" and "later < t"
  shows "\<exists>m w'. login env dr e n p rem cl (w\<lparr>db_now := later\<rparr>) = http_error 423 m w'
    \<and> db_users w' = db_users w \<and> adb_sessions w' = adb_sessions w"
proof -
  have "get_user_by_email (w\<lparr>db_now := later\<rparr>) e = Some (uid, u)"
    using assms(1) by (simp add: get_user_by_email_def)
  then show ?thesis
    using assms(2,3)
    by (simp add: login_def login_user_def is_account_locked_def)
      (rule exI, rule exI, rule conjI [OF refl], simp add: create_security_event_def)
qed

text \<open>
  C9: after five wrong passwords in a row the account is locked for fifteen minutes: no login succeeds
  before the lock ends, with the right password or with none, and the state only gains an event.
\<close>

theorem lockout_after_five_failures:
  assumes "auth_ok w" and "get_user_by_email w e = Some (uid, u)" and "truthy (u_hash u)"
    and "u_failed u = 0" "u_locked_until u = None" and "length tries = 5"
    and "\<forall>(dr, p, rem, cl)\<in>set tries. p \<noteq> [] \<and> \<not> verify_password env p (u_hash u)"
    and "later < db_now (fail_logins env e n tries w) + 15 * 60 * 1000000"
  shows "\<exists>m w'. login env dr e n' password rem cl ((fail_logins env e n tries w)\<lparr>db_now := later\<rparr>)
      = http_error 423 m w'
    \<and> db_users w' = db_users (fail_logins env e n tries w)
    \<and> adb_sessions w' = adb_sessions (fail_logins env e n tries w)"
proof -
  let ?w = "fail_logins env e n tries w"
  have "get_user_by_email ?w e = Some (uid, u\<lparr>u_failed := LOCKOUT_THRESHOLD,
      u_locked_until := Some (db_now ?w + LOCKOUT_DURATION_MINUTES * 60 * 1000000)\<rparr>)"
    using assms(4-7) by (intro fail_logins_lock assms(1-3)) (auto simp: LOCKOUT_THRESHOLD_def)
  then show ?thesis
    by (rule locked_login) (use assms(8) in \<open>simp_all add: LOCKOUT_DURATION_MINUTES_def\<close>)
qed

text \<open>
  a login that sends no password is not refused: for any account that is not locked it stores a
  session and answers with the account's access token, if the draws are new.
\<close>

theorem login_without_password:
  assumes "auth_ok w" and "get_user_by_email w e = Some (uid, u)" and "u_locked_until u = None"
    and "\<forall>i s. t_get (adb_sessions w) i = Some s \<longrightarrow> us_token s \<noteq> dr_session dr
      \<and> us_refresh s \<noteq> create_refresh_token env ((db_now w + login_delay u) div 1000000) (dr_jti dr) uid (Some e) rem None"
  shows "\<exists>out w'. login env dr e n None rem cl w = (Inr out, w') \<and> lo_user out = uid
    \<and> lo_access out = create_access_token env ((db_now w + login_delay u) div 1000000) (Some uid) (Some e) None []"
proof -
  have e: "u_email u = e" using users_by_field(1) [OF assms(1,2)] by simp
  have "t_first (\<lambda>i s. us_token s = dr_session dr \<or> us_refresh s =
      create_refresh_token env ((db_now w + login_delay u) div 1000000) (dr_jti dr) uid (Some e) rem None)
      (adb_sessions w) = None"
    using assms(4) t_first_None [OF auth_okD(15) [OF assms(1)]] by blast
  then show ?thesis
    using assms(2,3) e
    by (simp add: login_def login_user_def is_account_locked_def truthy_def admit_user_def Let_def
        record_login_success_def open_session_def put_user_def create_session_def seconds_now_def split_beta)
qed

section \<open>Passwords\<close>

lemma live_token_find:
  assumes "t_unique ot_token T"
  shows "live_token token now T =
    (case t_find ot_token token T of
       None \<Rightarrow> None
     | Some (i, t) \<Rightarrow> if \<not> ot_used t \<and> now < ot_expires t then Some (i, t) else None)"
proof -
  have ok: "t_ok T" by (rule t_unique_ok [OF assms])
  have iff: "live_token token now T = Some (i, t) \<longleftrightarrow>
      t_find ot_token token T = Some (i, t) \<and> \<not> ot_used t \<and> now < ot_expires t" for i t
  proof
    assume "live_token token now T = Some (i, t)"
    then show "t_find ot_token token T = Some (i, t) \<and> \<not> ot_used t \<and> now < ot_expires t"
      using t_first_Some [OF ok] t_find_iff [OF assms] by (auto simp: live_token_def)
  next
    assume t: "t_find ot_token token T = Some (i, t) \<and> \<not> ot_used t \<and> now < ot_expires t"
    then have row: "t_get T i = Some t" "ot_token t = token" using t_find_iff [OF assms] by simp_all
    show "live_token token now T = Some (i, t)"
    proof (cases "live_token token now T")
      case None
      then show ?thesis using t row t_first_None [OF ok] by (auto simp: live_token_def)
    next
      case (Some c)
      then have "t_find ot_token token T = Some c"
        using t_first_Some [OF ok] t_find_iff [OF assms] by (cases c) (auto simp: live_token_def)
      with Some t show ?thesis by simp
    qed
  qed
  show ?thesis
  proof (cases "live_token token now T")
    case None
    then show ?thesis using iff by (auto split: option.split)
  next
    case (Some c)
    then show ?thesis using iff [of "fst c" "snd c"] by (simp add: split_beta)
  qed
qed

text \<open>
  who asks for a reset of the password of a known address gets the token in the answer; with it
  any strong password that is not among the recent ones becomes the password of the account, every
  session ends, and the token works this once only.
\<close>

theorem reset_token_works_once:
  assumes "auth_ok w" and "get_user_by_email w e = Some cu"
    and "t_first (\<lambda>i t. ot_token t = token) (adb_resets w) = None"
    and "fst (validate_password_strength new)" and "\<not> reuses_password env cu new w"
  shows "\<exists>w1 w2. request_password_reset token e w = (Inr (Some token), w1)
    \<and> confirm_password_reset env salt token new w1 = (Inr (), w2)
    \<and> get_user w2 (fst cu) = Some (fst cu, (snd cu)\<lparr>u_hash := Some (get_password_hash env salt new)\<rparr>)
    \<and> get_user_sessions (fst cu) w2 = []
    \<and> (\<forall>salt' new' t. \<exists>err. fst (confirm_password_reset env salt' token new' (w2\<lparr>db_now := t\<rparr>)) = Inl err)"
proof -
  let ?row = "\<lparr>ot_user = fst cu, ot_token = token, ot_used = False, ot_expires = db_now w + 3600 * 1000000,
    ot_created = db_now w\<rparr>"
  let ?i = "t_next (adb_resets w)" and ?T = "snd (t_insert ?row (adb_resets w))"
  let ?h = "get_password_hash env salt new"
  let ?w1 = "w\<lparr>adb_resets := ?T\<rparr>"
  let ?w' = "add_password_history (fst cu) ?h (snd (update_user_password cu ?h ?w1))"
  let ?w2 = "log_audit_event ''user.password_change'' (Some (fst cu)) None (Some (account_target (fst cu))) None None []
    (create_security_event ''auth.password_reset.success'' (Some (fst cu)) ''success'' None None None []
      (snd (revoke_all_user_sessions (fst cu) None (mark_password_reset_token_used (?i, ?row) ?w'))))"
  have known: "known w cu" using users_by_field(1) [OF assms(1,2)] by simp
  have uniq: "t_unique ot_token ?T" "t_find ot_token token ?T = Some (?i, ?row)"
    using t_unique_insert [OF auth_okD(6) [OF assms(1)], of ?row] assms(3) by (simp_all add: t_find_def)
  have request: "request_password_reset token e w = (Inr (Some token), ?w1)"
    using assms(2,3) by (simp add: request_password_reset_def create_password_reset_token_def add_token_def)
  have "get_user ?w1 (fst cu) = Some cu"
    using finds_user [OF assms(1), of "fst cu" "snd cu"] known by (simp add: get_user_def)
  moreover have "get_password_reset_token token ?w1 = Some (?i, ?row)"
    using uniq by (simp add: get_password_reset_token_def live_token_find)
  moreover have "\<not> reuses_password env cu new ?w1"
    using assms(5) by (simp add: reuses_password_def check_password_history_def)
  ultimately have confirm: "confirm_password_reset env salt token new ?w1 = (Inr (), ?w2)"
    using assms(4) by (simp add: confirm_password_reset_def Let_def split_beta)
  have users: "db_users ?w2 = t_put (fst cu) ((snd cu)\<lparr>u_hash := Some ?h\<rparr>) (db_users w)"
    and resets: "adb_resets ?w2 = t_put ?i (?row\<lparr>ot_used := True\<rparr>) ?T"
    by (simp_all add: log_audit_event_def create_security_event_def revoke_all_user_sessions_def Let_def
        mark_password_reset_token_used_def add_password_history_def update_user_password_def put_user_def)
  have "auth_ok ?w1" using request_password_reset_keeps [OF assms(1), of token e] request by (simp add: evolvesD)
  then have ok: "auth_ok ?w2" using confirm_password_reset_keeps [of ?w1 env salt token new] confirm by (simp add: evolvesD)
  have "get_user ?w2 (fst cu) = Some (fst cu, (snd cu)\<lparr>u_hash := Some ?h\<rparr>)"
    by (rule finds_user [OF ok], unfold users) (simp add: known)
  moreover have "t_find ot_token token (adb_resets ?w2) = Some (?i, ?row\<lparr>ot_used := True\<rparr>)"
  proof -
    have "t_get ?T ?i = Some ?row" using t_find_iff [OF uniq(1)] uniq(2) by simp
    then show ?thesis unfolding resets using t_unique_put(2) [OF uniq(1), of ?i ?row "?row\<lparr>ot_used := True\<rparr>" token] by simp
  qed
  then have "get_password_reset_token token (?w2\<lparr>db_now := t\<rparr>) = None" for t
    using auth_okD(6) [OF ok] by (simp add: get_password_reset_token_def live_token_find)
  then have "\<exists>err. fst (confirm_password_reset env salt' token new' (?w2\<lparr>db_now := t\<rparr>)) = Inl err" for salt' new' t
    by (simp add: confirm_password_reset_def raise_named_def split_beta)
  moreover have "get_user_sessions (fst cu) ?w2 = []" by simp
  ultimately show ?thesis using request confirm by blast
qed

lemma verify_own_hash:
  assumes "new \<noteq> []" and "CHR ''$'' \<notin> set salt" and "CHR ''$'' \<notin> set (ae_pbkdf2 env new salt)"
  shows "verify_password env new (Some (get_password_hash env salt new))"
proof -
  have "split_on (CHR ''$'') (''pbkdf2:sha256:100000$'' @ salt @ ''$'' @ ae_pbkdf2 env new salt)
      = [''pbkdf2:sha256:100000'', salt, ae_pbkdf2 env new salt]"
    using assms(2,3) split_on_append [of "CHR ''$''" "''pbkdf2:sha256:100000''"]
    by (simp add: split_on_append split_on_free)
  then show ?thesis using assms(1) by (simp add: verify_password_def get_password_hash_def truthy_def)
qed

text \<open>
  a password change that succeeds had the right current password, and its new password is strong and
  matches neither the current hash nor any of the last five; afterwards the new password verifies against
  the stored hash and no session is left.
\<close>

theorem password_change_effect:
  assumes "auth_ok w" and "t_get (db_users w) (fst cu) = Some (snd cu)"
    and "change_password env salt old new cl cu w = (Inr (), w')"
    and "CHR ''$'' \<notin> set salt" and "\<forall>p s. CHR ''$'' \<notin> set (ae_pbkdf2 env p s)"
  shows "(truthy (u_hash (snd cu)) \<longrightarrow> verify_password env old (u_hash (snd cu))
      \<and> \<not> verify_password env new (u_hash (snd cu)))
    \<and> fst (validate_password_strength new)
    \<and> (\<forall>r\<in>set (take 5 (order_rows (ph_created \<circ> snd) False
          (t_where (\<lambda>i h. ph_user h = fst cu) (adb_history w)))).
        \<not> verify_password env new (Some (ph_hash (snd r))))
    \<and> get_user w' (fst cu) = Some (fst cu, (snd cu)\<lparr>u_hash := Some (get_password_hash env salt new)\<rparr>)
    \<and> verify_password env new (Some (get_password_hash env salt new))
    \<and> get_user_sessions (fst cu) w' = []"
proof -
  let ?h = "get_password_hash env salt new"
  have checks: "truthy (u_hash (snd cu)) \<longrightarrow> verify_password env old (u_hash (snd cu))"
    "fst (validate_password_strength new)" "\<not> reuses_password env cu new w"
    using assms(3) by (auto simp: change_password_def raise_app_def raise_named_def split_beta split: if_splits)
  then have w': "w' = log_audit_event ''user.password_change'' (Some (fst cu)) None
      (Some (account_target (fst cu))) None None []
      (create_security_event ''auth.password_change.success'' (Some (fst cu)) ''success'' (cl_ip cl) (cl_agent cl)
         None [] (snd (revoke_all_user_sessions (fst cu) None
           (add_password_history (fst cu) ?h (snd (update_user_password cu ?h w))))))"
    using assms(3) by (auto simp: change_password_def Let_def split_beta)
  have ok: "auth_ok w'" using change_password_keeps [OF assms(1,2), of env salt old new cl] assms(3) by (simp add: evolvesD)
  have "db_users w' = t_put (fst cu) ((snd cu)\<lparr>u_hash := Some ?h\<rparr>) (db_users w)"
    by (simp add: w' log_audit_event_def create_security_event_def revoke_all_user_sessions_def Let_def
        add_password_history_def update_user_password_def put_user_def)
  then have "get_user w' (fst cu) = Some (fst cu, (snd cu)\<lparr>u_hash := Some ?h\<rparr>)"
    using assms(2) by (intro finds_user [OF ok]) simp
  moreover have "new \<noteq> []" using checks(2) by (auto simp: validate_password_strength_def)
  then have "verify_password env new (Some ?h)" using assms(4,5) by (intro verify_own_hash) simp_all
  moreover have "get_user_sessions (fst cu) w' = []" by (simp add: w')
  moreover have "\<not> verify_password env new (Some (ph_hash (snd r)))"
    if "r \<in> set (take 5 (order_rows (ph_created \<circ> snd) False (t_where (\<lambda>i h. ph_user h = fst cu) (adb_history w))))" for r
    using checks(3) that
    by (auto simp: reuses_password_def check_password_history_def MAX_PASSWORD_HISTORY_def list_ex_iff split_beta)
  ultimately show ?thesis using checks by (simp add: reuses_password_def)
qed

section \<open>Concrete runs\<close>

text \<open>
  An environment to run requests in: the text of claims is the identifier of a refresh token or else a
  letter, read back from the list of claims that are given, and the digests are simple functions.
\<close>

definition demo_dumps :: "kwargs \<Rightarrow> string" where
  "demo_dumps p = (case d_get p ''jti'' of Some (PStr s) \<Rightarrow> s | _ \<Rightarrow> ''a'')"

definition demo_env :: "kwargs list \<Rightarrow> auth_env" where
  "demo_env ps =
     \<lparr>ae_hmac = (\<lambda>k m. []), ae_sha256 = (\<lambda>s. s), ae_pbkdf2 = (\<lambda>p s. nat_str (length p)),
      ae_dumps = demo_dumps,
      ae_loads = (\<lambda>s. map_option PDict (List.find (\<lambda>p. demo_dumps p = s) ps)),
      ae_str = (\<lambda>_. []), ae_secret = ''k'', ae_production = True, ae_minutes = 60\<rparr>"

definition demo_client :: client where
  "demo_client = \<lparr>cl_ip = Some ''ip'', cl_agent = None\<rparr>"

definition demo_draws :: "string \<Rightarrow> draws" where
  "demo_draws n = \<lparr>dr_salt = ''s'', dr_jti = n, dr_session = n, dr_verify = n\<rparr>"

text \<open>An account with the password \<^verbatim>\<open>pw\<close>: its hash has the digest 2.\<close>

definition demo_hash :: string where
  "demo_hash = ''pbkdf2:sha256:100000$s$2''"

definition demo_account :: auth_db where
  "demo_account = snd (create_user ''a@b'' ''a'' (Some demo_hash) False ''UTC'' ''en'' (auth_empty 0))"

definition demo_user :: user where
  "demo_user = new_user ''a@b'' ''a'' (Some demo_hash) False ''UTC'' ''en'' 0"

lemma demo_account_ok: "auth_ok demo_account"
  unfolding demo_account_def by (rule evolvesD(1) [OF evolves_create_user]) simp

lemma demo_account_facts:
  "get_user_by_email demo_account ''a@b'' = Some (1, demo_user)" "adb_sessions demo_account = t_empty"
  "adb_resets demo_account = t_empty" "adb_history demo_account = t_empty" "db_now demo_account = 0"
  "t_get (db_users demo_account) 1 = Some demo_user"
  by (simp_all add: demo_account_def create_user_def auth_empty_def db_empty_def db.defs auth_db.defs
      get_user_by_email_def get_user_by_username_def t_first_def t_empty_def t_insert_def t_get_def
      demo_user_def new_user_def Let_def)

lemma demo_user_facts [simp]:
  "u_hash demo_user = Some demo_hash" "u_failed demo_user = 0" "u_locked_until demo_user = None"
  "u_email demo_user = ''a@b''" "truthy (Some demo_hash)"
  by (simp_all add: demo_user_def new_user_def truthy_def demo_hash_def)

lemma demo_verify:
  "verify_password (demo_env []) ''pw'' (Some demo_hash)"
  "\<not> verify_password (demo_env []) ''bad'' (Some demo_hash)"
  "\<not> verify_password (demo_env []) ''Abcdef1!'' (Some demo_hash)"
  by code_simp+

theorem access_token_roundtrip_witness:
  "decode_access_token (demo_env [access_claims (demo_env []) 7 1 ''a@b'']) 9000000
     (create_access_token (demo_env [access_claims (demo_env []) 7 1 ''a@b'']) 7 (Some 1) (Some ''a@b'') None [])
   = Some (access_claims (demo_env []) 7 1 ''a@b'')"
proof -
  let ?p = "access_claims (demo_env []) 7 1 ''a@b''"
  have p: "access_claims (demo_env [?p]) 7 1 ''a@b'' = ?p" by (simp add: access_claims_def demo_env_def)
  have "json_reads (demo_env [?p]) (access_claims (demo_env [?p]) 7 1 ''a@b'')"
    unfolding p by (simp add: json_reads_def demo_env_def demo_dumps_def ascii_def access_claims_def)
  then show ?thesis
    using access_token_roundtrip [of "demo_env [?p]" 7 1 "''a@b''" 9000000] unfolding p
    by (simp add: demo_env_def)
qed

theorem lockout_after_five_failures_witness:
  "\<exists>m w'. login (demo_env []) (demo_draws ''z'') ''a@b'' ''a'' (Some ''pw'') False demo_client
      ((fail_logins (demo_env []) ''a@b'' ''a''
          (replicate 5 (demo_draws ''z'', ''bad'', False, demo_client)) demo_account)
        \<lparr>db_now := db_now (fail_logins (demo_env []) ''a@b'' ''a''
           (replicate 5 (demo_draws ''z'', ''bad'', False, demo_client)) demo_account)\<rparr>)
      = http_error 423 m w'"
proof -
  let ?tries = "replicate 5 (demo_draws ''z'', ''bad'', False, demo_client)"
  have "\<not> verify_password (demo_env []) ''bad'' (u_hash demo_user)"
    by (simp add: demo_verify)
  then have "\<forall>(dr, p, rem, cl)\<in>set ?tries. p \<noteq> [] \<and> \<not> verify_password (demo_env []) p (u_hash demo_user)" by simp
  from lockout_after_five_failures [OF demo_account_ok demo_account_facts(1) _ _ _ _ this,
      where later = "db_now (fail_logins (demo_env []) ''a@b'' ''a'' ?tries demo_account)" and n' = "''a''"
        and password = "Some ''pw''" and dr = "demo_draws ''z''" and rem = False and cl = demo_client and n = "''a''"]
  show ?thesis by (auto simp: demo_hash_def)
qed

theorem login_without_password_witness:
  "\<exists>out w'. login (demo_env []) (demo_draws ''z'') ''a@b'' ''a'' None False demo_client demo_account = (Inr out, w')
    \<and> lo_user out = 1"
  using login_without_password [OF demo_account_ok demo_account_facts(1), of "demo_draws ''z''" "demo_env []" False
      "''a''" demo_client] demo_account_facts(2) by auto

theorem accepted_tokens_are_signed_witness:
  "\<exists>h b s claims. split_on (CHR ''.'') (str_strip (str_remove ''Bearer ''
       (create_access_token (demo_env [access_claims (demo_env []) 7 1 ''a@b'']) 7 (Some 1) (Some ''a@b'') None [])))
      = [h, b, s]
    \<and> s = sign_hs256 (demo_env []) (h @ ''.'' @ b) ''k'' \<and> access_claims (demo_env []) 7 1 ''a@b'' = claims"
  using accepted_tokens_are_signed [OF access_token_roundtrip_witness]
  by (auto simp: demo_env_def sign_hs256_def)

definition demo_reset :: "auth_db \<times> auth_db" where
  "demo_reset =
     (let w1 = snd (request_password_reset ''r'' ''a@b'' demo_account)
      in (w1, snd (confirm_password_reset (demo_env []) ''s'' ''r'' ''Abcdef1!'' w1)))"

lemma demo_strong: "fst (validate_password_strength ''Abcdef1!'')"
  by (simp add: validate_password_strength_def is_upper_def is_lower_def is_digit_def is_special_def
      str_lower_def char_lower_def COMMON_PASSWORDS_def)

lemma demo_no_reuse: "\<not> reuses_password (demo_env []) (1, demo_user) ''Abcdef1!'' demo_account"
  by (simp add: reuses_password_def check_password_history_def demo_account_facts t_where_def t_empty_def
      demo_verify)

theorem reset_token_works_once_witness:
  "\<exists>w1 w2. request_password_reset ''r'' ''a@b'' demo_account = (Inr (Some ''r''), w1)
    \<and> confirm_password_reset (demo_env []) ''s'' ''r'' ''Abcdef1!'' w1 = (Inr (), w2)
    \<and> map_option (u_hash \<circ> snd) (get_user w2 1) = Some (Some (get_password_hash (demo_env []) ''s'' ''Abcdef1!''))"
proof -
  have "t_first (\<lambda>i t. ot_token t = ''r'') (adb_resets demo_account) = None"
    by (simp add: demo_account_facts t_first_def t_empty_def)
  from reset_token_works_once [OF demo_account_ok demo_account_facts(1) this demo_strong demo_no_reuse, of "''s''"]
  show ?thesis by (elim exE conjE) (intro exI conjI, assumption, assumption, simp)
qed

theorem password_change_effect_witness:
  "\<exists>w'. change_password (demo_env []) ''s'' ''pw'' ''Abcdef1!'' demo_client (1, demo_user) demo_account = (Inr (), w')
    \<and> get_user_sessions 1 w' = []"
proof -
  have "fst (change_password (demo_env []) ''s'' ''pw'' ''Abcdef1!'' demo_client (1, demo_user) demo_account) = Inr ()"
    using demo_strong demo_no_reuse
    by (simp add: change_password_def demo_verify split_beta Let_def)
  then obtain w' where w': "change_password (demo_env []) ''s'' ''pw'' ''Abcdef1!'' demo_client (1, demo_user) demo_account
      = (Inr (), w')" by (metis prod.collapse)
  have "CHR ''$'' \<notin> set (ae_pbkdf2 (demo_env []) p s)" for p s
    using nat_str_facts [of "length p"] by (auto simp: demo_env_def list_all_iff is_digit_def)
  then have "get_user_sessions 1 w' = []"
    using password_change_effect [OF demo_account_ok _ w'] demo_account_facts(6) by simp
  with w' show ?thesis by blast
qed

definition demo_token :: string where
  "demo_token = create_refresh_token (demo_env []) 0 ''j'' 1 (Some ''a@b'') False None"

definition demo_signups :: "auth_request list" where
  "demo_signups = [ARegister (demo_draws ''j'') ''a@b'' ''a'' None False demo_client]"

lemma demo_rotation:
  "case_sum (\<lambda>_. False) (\<lambda>_. True) (fst (refresh_tokens (demo_env []) ''i'' (Some demo_token) None demo_client
     (foldl (auth_step (demo_env [])) (auth_empty 0) demo_signups)))"
  by code_simp

theorem rotated_token_is_dead_witness:
  "\<exists>r w1 e w2. refresh_tokens (demo_env []) ''i'' (Some demo_token) None demo_client
      (foldl (auth_step (demo_env [])) (auth_empty 0) demo_signups) = (Inr r, w1)
    \<and> refresh_tokens (demo_env []) ''h'' (Some demo_token) None demo_client
       (foldl (auth_step (demo_env [])) w1 [ATick 60]) = (Inl e, w2)"
proof -
  obtain r w1 where w1: "refresh_tokens (demo_env []) ''i'' (Some demo_token) None demo_client
      (foldl (auth_step (demo_env [])) (auth_empty 0) demo_signups) = (Inr r, w1)"
    using demo_rotation
    by (cases "refresh_tokens (demo_env []) ''i'' (Some demo_token) None demo_client
      (foldl (auth_step (demo_env [])) (auth_empty 0) demo_signups)") (auto split: sum.splits)
  from rotated_token_is_dead [OF refl this refl, of "''h''" demo_client "[ATick 60]"] w1
  show ?thesis by blast
qed

definition demo_claims :: "kwargs list" where
  "demo_claims = [access_claims (demo_env []) 0 1 ''a@b'', refresh_claims 0 ''j'' 1 ''a@b'' False]"

lemma demo_claims_env: "access_claims (demo_env ps) now uid e = access_claims (demo_env []) now uid e"
  by (simp add: access_claims_def demo_env_def)

theorem tokens_survive_logout_witness:
  "\<exists>acc ref w1. open_session (demo_env demo_claims) (demo_draws ''j'') False demo_client
        \<lparr>dv_name = [], dv_type = []\<rparr> (1, demo_user) demo_account = (Inr (acc, ref, 1), w1)
    \<and> get_current_user (demo_env demo_claims) (Some (''Bearer '' @ ref)) (snd (logout demo_client (1, demo_user) w1))
      = (Inr (1, demo_user), snd (logout demo_client (1, demo_user) w1))"
proof -
  have "\<exists>acc ref w1. open_session (demo_env demo_claims) (demo_draws ''j'') False demo_client
        \<lparr>dv_name = [], dv_type = []\<rparr> (1, demo_user) demo_account = (Inr (acc, ref, 1), w1)"
    by (simp add: open_session_def create_session_def demo_account_facts t_empty_def t_first_def t_insert_def Let_def)
  then obtain acc ref w1 where o: "open_session (demo_env demo_claims) (demo_draws ''j'') False demo_client
        \<lparr>dv_name = [], dv_type = []\<rparr> (1, demo_user) demo_account = (Inr (acc, ref, 1), w1)" by blast
  have now: "seconds_now demo_account = 0" by (simp add: seconds_now_def demo_account_facts)
  have j1: "json_reads (demo_env demo_claims) (access_claims (demo_env demo_claims) 0 1 ''a@b'')"
    by (simp add: json_reads_def demo_claims_env demo_claims_def demo_dumps_def ascii_def
        access_claims_def demo_env_def)
  have j2: "json_reads (demo_env demo_claims) (refresh_claims 0 ''j'' 1 ''a@b'' False)"
    by (simp add: json_reads_def demo_claims_env demo_claims_def demo_dumps_def ascii_def
        access_claims_def refresh_claims_def demo_env_def)
  have "0 < ae_minutes (demo_env demo_claims)" by (simp add: demo_env_def)
  from tokens_survive_logout [OF demo_account_ok _ this o, of demo_client] o j1 j2 demo_account_facts(6) now
  show ?thesis by (auto simp: demo_draws_def)
qed

end
