(* ===== verification/Urls.thy ===== *)
theory Urls
  imports Prelude
begin

text \<open>
  What the crawling services use of Python's \<^verbatim>\<open>urllib.parse\<close> (version 3.11), on ASCII text: \<^verbatim>\<open>urlparse\<close>
  and \<^verbatim>\<open>urljoin\<close>. \<^const>\<open>None\<close> is a ValueError, for brackets that do not match in the network location; an
  address between brackets is taken as valid. Then \<^verbatim>\<open>normalize_url\<close>, which \<^verbatim>\<open>url_discovery_service.py\<close> and
  \<^verbatim>\<open>link_graph_service.py\<close> both have, when it is idempotent, and that it is not in general.
\<close>

section \<open>Splitting\<close>

text \<open>The text before the first \<open>c\<close>, and the text after it.\<close>

definition before :: "char \<Rightarrow> string \<Rightarrow> string" where
  "before c s = takeWhile (\<lambda>x. x \<noteq> c) s"

definition behind :: "char \<Rightarrow> string \<Rightarrow> string" where
  "behind c s = drop 1 (dropWhile (\<lambda>x. x \<noteq> c) s)"

definition scheme_char :: "char \<Rightarrow> bool" where
  "scheme_char c \<longleftrightarrow> is_upper c \<or> is_lower c \<or> is_digit c \<or> c \<in> set ''+-.''"

definition uses_params :: "string list" where
  "uses_params = [[], ''ftp'', ''hdl'', ''prospero'', ''http'', ''imap'', ''https'', ''shttp'', ''rtsp'', ''rtsps'',
     ''rtspu'', ''sip'', ''sips'', ''mms'', ''sftp'', ''tel'']"

definition uses_relative :: "string list" where
  "uses_relative = [[], ''ftp'', ''http'', ''gopher'', ''nntp'', ''imap'', ''wais'', ''file'', ''https'', ''shttp'',
     ''mms'', ''prospero'', ''rtsp'', ''rtsps'', ''rtspu'', ''sftp'', ''svn'', ''svn+ssh'', ''ws'', ''wss'']"

definition uses_netloc :: "string list" where
  "uses_netloc = [[], ''ftp'', ''http'', ''gopher'', ''nntp'', ''telnet'', ''imap'', ''wais'', ''file'', ''mms'',
     ''https'', ''shttp'', ''snews'', ''prospero'', ''rtsp'', ''rtsps'', ''rtspu'', ''rsync'', ''svn'',
     ''svn+ssh'', ''sftp'', ''nfs'', ''git'', ''git+ssh'', ''ws'', ''wss'', ''itms-services'']"

record url_parts =
  up_scheme :: string
  up_netloc :: string
  up_path :: string
  up_params :: string
  up_query :: string
  up_fragment :: string

text \<open>Leading blanks and control characters go, and every tab and line end.\<close>

definition url_clean :: "string \<Rightarrow> string" where
  "url_clean u = filter (\<lambda>c. (of_char c :: nat) \<notin> {9, 10, 13}) (dropWhile (\<lambda>c. (of_char c :: nat) \<le> 32) u)"

definition split_scheme :: "string \<Rightarrow> string \<Rightarrow> string \<times> string" where
  "split_scheme dflt u =
     (let s = before (CHR '':'') u
      in if CHR '':'' \<in> set u \<and> s \<noteq> [] \<and> (is_upper (hd s) \<or> is_lower (hd s)) \<and> list_all scheme_char s
         then (str_lower s, behind (CHR '':'') u) else (dflt, u))"

definition net_char :: "char \<Rightarrow> bool" where
  "net_char c \<longleftrightarrow> c \<notin> set ''/?#''"

definition split_netloc :: "string \<Rightarrow> string \<times> string" where
  "split_netloc u =
     (if take 2 u = ''//'' then (takeWhile net_char (drop 2 u), dropWhile net_char (drop 2 u)) else ([], u))"

text \<open>The text before the last slash with the slash, and the rest.\<close>

definition dir_part :: "string \<Rightarrow> string" where
  "dir_part u = rev (dropWhile (\<lambda>c. c \<noteq> CHR ''/'') (rev u))"

definition last_part :: "string \<Rightarrow> string" where
  "last_part u = rev (takeWhile (\<lambda>c. c \<noteq> CHR ''/'') (rev u))"

definition split_params :: "string \<Rightarrow> string \<times> string" where
  "split_params u = (dir_part u @ before (CHR '';'') (last_part u), behind (CHR '';'') (last_part u))"

definition urlparse_with :: "string \<Rightarrow> string \<Rightarrow> url_parts option" where
  "urlparse_with dflt url =
     (case split_scheme dflt (url_clean url) of (scheme, r1) \<Rightarrow>
        (case split_netloc r1 of (netloc, r2) \<Rightarrow>
           if (CHR ''['' \<in> set netloc) \<noteq> (CHR '']'' \<in> set netloc) then None
           else
             (let fragment = behind (CHR ''#'') r2; r3 = before (CHR ''#'') r2;
                  query = behind (CHR ''?'') r3; r4 = before (CHR ''?'') r3;
                  (path, params) = (if scheme \<in> set uses_params then split_params r4 else (r4, []))
              in Some \<lparr>up_scheme = scheme, up_netloc = netloc, up_path = path, up_params = params,
                       up_query = query, up_fragment = fragment\<rparr>)))"

definition urlparse :: "string \<Rightarrow> url_parts option" where
  "urlparse url = urlparse_with [] url"

section \<open>Joining\<close>

definition urlunparse :: "url_parts \<Rightarrow> string" where
  "urlunparse p =
     (let u0 = up_path p @ (if up_params p = [] then [] else CHR '';'' # up_params p);
          u1 = (if up_netloc p \<noteq> [] \<or> (up_scheme p \<noteq> [] \<and> up_scheme p \<in> set uses_netloc \<and> take 2 u0 \<noteq> ''//'')
                then ''//'' @ up_netloc p @ (if u0 \<noteq> [] \<and> take 1 u0 \<noteq> ''/'' then CHR ''/'' # u0 else u0) else u0);
          u2 = (if up_scheme p = [] then u1 else up_scheme p @ '':'' @ u1)
      in u2 @ (if up_query p = [] then [] else CHR ''?'' # up_query p)
            @ (if up_fragment p = [] then [] else CHR ''#'' # up_fragment p))"

text \<open>The segments between the first and the last lose the empty ones.\<close>

definition squeeze :: "string list \<Rightarrow> string list" where
  "squeeze segs =
     (if length segs \<le> 1 then segs
      else [hd segs] @ filter (\<lambda>s. s \<noteq> []) (butlast (tl segs)) @ [last segs])"

fun resolve_dots :: "string list \<Rightarrow> string list \<Rightarrow> string list" where
  "resolve_dots acc [] = acc"
| "resolve_dots acc (s # ss) =
     (if s = ''..'' then resolve_dots (butlast acc) ss
      else if s = ''.'' then resolve_dots acc ss
      else resolve_dots (acc @ [s]) ss)"

fun join_slash :: "string list \<Rightarrow> string" where
  "join_slash [] = []"
| "join_slash [s] = s"
| "join_slash (s # t # ss) = s @ CHR ''/'' # join_slash (t # ss)"

definition join_path :: "string \<Rightarrow> string \<Rightarrow> string" where
  "join_path bpath path =
     (let parts = split_on (CHR ''/'') bpath;
          base = (if last parts \<noteq> [] then butlast parts else parts);
          segs = (if take 1 path = ''/'' then split_on (CHR ''/'') path
                  else squeeze (base @ split_on (CHR ''/'') path));
          out = resolve_dots [] segs @ (if last segs \<in> {''.'', ''..''} then [[]] else []);
          joined = join_slash out
      in if joined = [] then ''/'' else joined)"

definition urljoin :: "string \<Rightarrow> string \<Rightarrow> string option" where
  "urljoin base url =
     (if base = [] then Some url
      else if url = [] then Some base
      else
        (case urlparse base of
           None \<Rightarrow> None
         | Some b \<Rightarrow>
             (case urlparse_with (up_scheme b) url of
                None \<Rightarrow> None
              | Some p \<Rightarrow>
                  if up_scheme p \<noteq> up_scheme b \<or> up_scheme p \<notin> set uses_relative then Some url
                  else if up_scheme p \<in> set uses_netloc \<and> up_netloc p \<noteq> [] then Some (urlunparse p)
                  else
                    (let p = (if up_scheme p \<in> set uses_netloc then p\<lparr>up_netloc := up_netloc b\<rparr> else p)
                     in if up_path p = [] \<and> up_params p = []
                        then Some (urlunparse (p\<lparr>up_path := up_path b, up_params := up_params b,
                               up_query := (if up_query p = [] then up_query b else up_query p)\<rparr>))
                        else Some (urlunparse (p\<lparr>up_path := join_path (up_path b) (up_path p)\<rparr>))))))"

section \<open>Normalization\<close>

definition trim_path :: "string \<Rightarrow> string" where
  "trim_path path =
     (if path = ''/'' then []
      else if length path > 1 \<and> last path = CHR ''/'' then butlast path else path)"

definition print_url :: "string \<Rightarrow> string \<Rightarrow> string \<Rightarrow> string \<Rightarrow> string" where
  "print_url scheme netloc path query =
     scheme @ ''://'' @ netloc @ path @ (if query = [] then [] else CHR ''?'' # query)"

definition normalize_url :: "string \<Rightarrow> string" where
  "normalize_url raw =
     (if raw = [] then []
      else
        (case urlparse raw of
           None \<Rightarrow> str_strip raw
         | Some p \<Rightarrow>
             print_url (if up_scheme p = [] then ''http'' else str_lower (up_scheme p))
               (str_lower (up_netloc p)) (trim_path (up_path p)) (up_query p)))"

lemma normalize_examples:
  "normalize_url ''HTTP://Ex.com/A/?q#f'' = ''http://ex.com/A?q''"
  "normalize_url ''a.com'' = ''http://a.com''"
  "urljoin ''http://a.com/b/c'' ''../d'' = Some ''http://a.com/d''"
  "urljoin ''http://a.com/b/c'' ''?x=1'' = Some ''http://a.com/b/c?x=1''"
  "urljoin ''http://a.com/b/'' ''//h/x'' = Some ''http://h/x''"
  "urljoin ''http://a.com'' ''mailto:x'' = Some ''mailto:x''"
  by code_simp+

section \<open>Printing and parsing again\<close>

lemma before_free [simp]: "c \<notin> set (before c s)"
  unfolding before_def using set_takeWhileD by fastforce

lemma before_subset: "set (before c s) \<subseteq> set s" "set (behind c s) \<subseteq> set s"
  unfolding before_def behind_def by (auto dest: set_takeWhileD in_set_dropD set_dropWhileD)

lemma before_append: "c \<notin> set a \<Longrightarrow> before c (a @ c # b) = a" "c \<notin> set a \<Longrightarrow> behind c (a @ c # b) = b"
  "c \<notin> set a \<Longrightarrow> before c a = a" "c \<notin> set a \<Longrightarrow> behind c a = []"
  unfolding before_def behind_def by (induction a) auto

lemma dir_last: "dir_part u @ last_part u = u"
  unfolding dir_part_def last_part_def by (metis rev_append rev_rev_ident takeWhile_dropWhile_id)

lemma dir_part_hd: "u \<noteq> [] \<Longrightarrow> hd u = CHR ''/'' \<Longrightarrow> dir_part u \<noteq> [] \<and> hd (dir_part u) = CHR ''/''"
proof -
  assume u: "u \<noteq> []" "hd u = CHR ''/''"
  then have "CHR ''/'' \<in> set u" by (cases u) auto
  then have "dir_part u \<noteq> []" by (simp add: dir_part_def dropWhile_eq_Nil_conv)
  moreover have "hd (dir_part u @ last_part u) = CHR ''/''" using u by (simp add: dir_last)
  ultimately show ?thesis by simp
qed

definition valid_scheme :: "string \<Rightarrow> bool" where
  "valid_scheme s \<longleftrightarrow> s \<noteq> [] \<and> is_lower (hd s) \<and> list_all scheme_char s \<and> str_lower s = s"

definition clean_text :: "string \<Rightarrow> bool" where
  "clean_text s \<longleftrightarrow> (\<forall>c\<in>set s. (of_char c :: nat) \<notin> {9, 10, 13})"

lemma clean_url: "clean_text (url_clean u)"
  by (simp add: clean_text_def url_clean_def)

lemma clean_mono: "clean_text s \<Longrightarrow> set t \<subseteq> set s \<Longrightarrow> clean_text t"
  by (auto simp: clean_text_def)

lemma of_char_lower:
  "(of_char (char_lower c) :: nat) = (if 65 \<le> (of_char c :: nat) \<and> (of_char c :: nat) \<le> 90 then of_char c + 32 else of_char c)"
  by (simp add: char_lower_def is_upper_def of_char_of)

lemma lower_keeps:
  "scheme_char c \<Longrightarrow> scheme_char (char_lower c)" "net_char (char_lower c) = net_char c"
  "is_upper c \<or> is_lower c \<Longrightarrow> is_lower (char_lower c)"
  "(char_lower c = CHR ''['') = (c = CHR ''['')" "(char_lower c = CHR '']'') = (c = CHR '']'')"
proof -
  have eq: "(char_lower c = d) = (c = d)" if "of_char d < (65::nat) \<or> (90::nat) < of_char d \<and> (of_char d :: nat) < 97" for d
  proof (cases "is_upper c")
    case True
    then have "(97::nat) \<le> of_char (char_lower c)" "(of_char c :: nat) \<le> 90" "(65::nat) \<le> of_char c"
      by (simp_all add: of_char_lower is_upper_def)
    with that show ?thesis by fastforce
  qed (simp add: char_lower_def)
  show "scheme_char (char_lower c)" if "scheme_char c"
    using that by (auto simp: scheme_char_def is_upper_def is_lower_def is_digit_def of_char_lower eq)
  show "net_char (char_lower c) = net_char c" by (simp add: net_char_def eq)
  show "is_lower (char_lower c)" if "is_upper c \<or> is_lower c"
    using that by (auto simp: is_upper_def is_lower_def of_char_lower)
  show "(char_lower c = CHR ''['') = (c = CHR ''['')" "(char_lower c = CHR '']'') = (c = CHR '']'')"
    by (simp_all add: eq)
qed

lemma clean_lower: "clean_text s \<Longrightarrow> clean_text (str_lower s)"
  by (auto simp: clean_text_def str_lower_def of_char_lower)

text \<open>The parts of a text that was parsed.\<close>

lemma split_scheme_facts:
  "fst (split_scheme [] u) = [] \<or> valid_scheme (fst (split_scheme [] u))"
  "set (snd (split_scheme [] u)) \<subseteq> set u"
proof -
  show "fst (split_scheme [] u) = [] \<or> valid_scheme (fst (split_scheme [] u))"
    using lower_keeps(1,3)
    by (auto simp: split_scheme_def Let_def valid_scheme_def str_lower_def list_all_iff hd_map)
  show "set (snd (split_scheme [] u)) \<subseteq> set u"
    using before_subset(2) by (auto simp: split_scheme_def Let_def)
qed

lemma split_netloc_facts:
  assumes "split_netloc u = (n, r)"
  shows "list_all net_char n" "set n \<subseteq> set u" "set r \<subseteq> set u" "n \<noteq> [] \<Longrightarrow> r = [] \<or> \<not> net_char (hd r)"
  using assms unfolding split_netloc_def list_all_iff
  by (auto split: if_splits dest: set_takeWhileD set_dropWhileD in_set_dropD hd_dropWhile)

lemma split_params_path:
  "set (fst (split_params u)) \<subseteq> set u"
  "u = [] \<or> hd u = CHR ''/'' \<Longrightarrow> fst (split_params u) = [] \<or> hd (fst (split_params u)) = CHR ''/''"
proof -
  have "set (dir_part u) \<union> set (last_part u) = set u" using dir_last [of u] by (metis set_append)
  then show "set (fst (split_params u)) \<subseteq> set u"
    using before_subset(1) by (fastforce simp: split_params_def)
  show "fst (split_params u) = [] \<or> hd (fst (split_params u)) = CHR ''/''" if "u = [] \<or> hd u = CHR ''/''"
  proof (cases "u = []")
    case True
    then show ?thesis by (simp add: split_params_def dir_part_def last_part_def before_def)
  next
    case False
    then show ?thesis using that dir_part_hd [of u] by (simp add: split_params_def)
  qed
qed

lemma urlparse_facts:
  assumes "urlparse u = Some p"
  shows "up_scheme p = [] \<or> valid_scheme (up_scheme p)"
    and "list_all net_char (up_netloc p)"
    and "clean_text (up_netloc p)" "clean_text (up_path p)" "clean_text (up_query p)"
    and "CHR ''?'' \<notin> set (up_path p)" "CHR ''#'' \<notin> set (up_path p)" "CHR ''#'' \<notin> set (up_query p)"
    and "(CHR ''['' \<in> set (up_netloc p)) = (CHR '']'' \<in> set (up_netloc p))"
    and "up_netloc p \<noteq> [] \<Longrightarrow> up_path p = [] \<or> hd (up_path p) = CHR ''/''"
proof -
  obtain sch r1 where s: "split_scheme [] (url_clean u) = (sch, r1)" by fastforce
  obtain n r2 where n: "split_netloc r1 = (n, r2)" by fastforce
  define r3 where "r3 = before (CHR ''#'') r2"
  define r4 where "r4 = before (CHR ''?'') r3"
  define path where "path = (if sch \<in> set uses_params then fst (split_params r4) else r4)"
  have p: "up_scheme p = sch" "up_netloc p = n" "up_query p = behind (CHR ''?'') r3" "up_path p = path"
    and brackets: "(CHR ''['' \<in> set n) = (CHR '']'' \<in> set n)"
    using assms
    by (auto simp: urlparse_def urlparse_with_def s n Let_def r3_def r4_def path_def split_beta split: if_splits)
  note sf = split_scheme_facts [of "url_clean u", unfolded s fst_conv snd_conv]
  note nf = split_netloc_facts [OF n]
  have sub: "set r2 \<subseteq> set (url_clean u)" "set n \<subseteq> set (url_clean u)" using sf(2) nf by auto
  have r3: "set r3 \<subseteq> set r2" "CHR ''#'' \<notin> set r3" unfolding r3_def using before_subset(1) by auto
  have r4: "set r4 \<subseteq> set r3" "CHR ''?'' \<notin> set r4" unfolding r4_def using before_subset(1) by auto
  have path: "set path \<subseteq> set r4" unfolding path_def using split_params_path(1) by auto
  show "up_scheme p = [] \<or> valid_scheme (up_scheme p)" unfolding p by (rule sf(1))
  show "list_all net_char (up_netloc p)" unfolding p by (rule nf(1))
  show "clean_text (up_netloc p)" "clean_text (up_path p)" unfolding p
    using clean_mono [OF clean_url] sub path r4(1) r3(1) by blast+
  show "clean_text (up_query p)" unfolding p
    using clean_mono [OF clean_url] sub before_subset(2) [of "CHR ''?''" r3] r3(1) by blast
  show "CHR ''?'' \<notin> set (up_path p)" "CHR ''#'' \<notin> set (up_path p)" "CHR ''#'' \<notin> set (up_query p)"
    unfolding p using path r4 r3 before_subset(2) [of "CHR ''?''" r3] by blast+
  show "(CHR ''['' \<in> set (up_netloc p)) = (CHR '']'' \<in> set (up_netloc p))" unfolding p by (rule brackets)
  show "up_path p = [] \<or> hd (up_path p) = CHR ''/''" if "up_netloc p \<noteq> []"
  proof -
    have "r2 = [] \<or> \<not> net_char (hd r2)" using nf(4) that p by simp
    then have "r4 = [] \<or> hd r4 = CHR ''/''"
      by (cases r2) (auto simp: r4_def r3_def before_def net_char_def)
    then show ?thesis unfolding p path_def using split_params_path(2) by auto
  qed
qed

lemma split_scheme_print:
  assumes "valid_scheme s"
  shows "split_scheme dflt (s @ CHR '':'' # r) = (s, r)"
proof -
  have s: "s \<noteq> []" "is_lower (hd s)" "list_all scheme_char s" "str_lower s = s"
    using assms by (simp_all add: valid_scheme_def)
  have "CHR '':'' \<notin> set s" using s(3) by (auto simp: list_all_iff scheme_char_def is_upper_def is_lower_def is_digit_def)
  with s show ?thesis by (simp add: split_scheme_def Let_def before_append)
qed

text \<open>A printed URL without parameters is parsed into its parts again.\<close>

lemma urlparse_print:
  assumes s: "valid_scheme s" and n: "list_all net_char n" "clean_text n"
    and b: "(CHR ''['' \<in> set n) = (CHR '']'' \<in> set n)"
    and q: "q = [] \<or> hd q = CHR ''/''" "clean_text q" "CHR ''?'' \<notin> set q" "CHR ''#'' \<notin> set q"
      "CHR '';'' \<notin> set (last_part q)"
    and t: "clean_text t" "CHR ''#'' \<notin> set t"
  shows "urlparse (print_url s n q t) = Some \<lparr>up_scheme = s, up_netloc = n, up_path = q, up_params = [],
    up_query = t, up_fragment = []\<rparr>"
proof -
  let ?tail = "q @ (if t = [] then [] else CHR ''?'' # t)"
  have s': "s \<noteq> []" "is_lower (hd s)" "list_all scheme_char s" using s by (simp_all add: valid_scheme_def)
  have "clean_text s" using s'(3)
    by (auto simp: clean_text_def list_all_iff scheme_char_def is_upper_def is_lower_def is_digit_def)
  then have "clean_text (print_url s n q t)"
    using n q t by (auto simp: clean_text_def print_url_def)
  moreover have "(32::nat) < of_char (hd (print_url s n q t))" "print_url s n q t \<noteq> []"
    using s' by (simp_all add: print_url_def is_lower_def)
  ultimately have "url_clean (print_url s n q t) = print_url s n q t"
    unfolding url_clean_def clean_text_def by (cases "print_url s n q t") auto
  moreover have "print_url s n q t = s @ CHR '':'' # (''//'' @ n @ ?tail)" by (simp add: print_url_def)
  moreover have "takeWhile net_char (n @ ?tail) = n" "dropWhile net_char (n @ ?tail) = ?tail"
  proof -
    have "?tail = [] \<or> \<not> net_char (hd ?tail)" using q(1) by (cases q) (auto simp: net_char_def)
    then have "takeWhile net_char ?tail = []" "dropWhile net_char ?tail = ?tail"
      by (cases ?tail; simp add: net_char_def)+
    moreover have "\<And>x. x \<in> set n \<Longrightarrow> net_char x" using n(1) by (simp add: list_all_iff)
    ultimately show "takeWhile net_char (n @ ?tail) = n" "dropWhile net_char (n @ ?tail) = ?tail"
      by (simp_all only: takeWhile_append2 dropWhile_append2 append_Nil2)
  qed
  moreover have "before (CHR ''#'') ?tail = ?tail" "behind (CHR ''#'') ?tail = []"
    using q(4) t(2) by (simp_all add: before_append)
  moreover have "before (CHR ''?'') ?tail = q" "behind (CHR ''?'') ?tail = t"
    using q(3) by (simp_all add: before_append)
  moreover have "split_params q = (q, [])"
    using q(5) dir_last [of q] by (simp add: split_params_def before_append)
  ultimately show ?thesis
    using b by (simp add: urlparse_def urlparse_with_def split_scheme_print [OF s] split_netloc_def del: append_assoc)
qed

text \<open>
  A URL with a host whose trimmed path ends in no slash and has no semicolon in its last segment is
  normalized once and for all.
\<close>

definition settled :: "url_parts \<Rightarrow> bool" where
  "settled p \<longleftrightarrow> up_netloc p \<noteq> []
     \<and> (trim_path (up_path p) = [] \<or> last (trim_path (up_path p)) \<noteq> CHR ''/'')
     \<and> CHR '';'' \<notin> set (last_part (trim_path (up_path p)))"

lemma trim_settled: "q = [] \<or> last q \<noteq> CHR ''/'' \<Longrightarrow> trim_path q = q"
  by (auto simp: trim_path_def)

lemma trim_subset: "set (trim_path q) \<subseteq> set q"
  by (auto simp: trim_path_def dest: in_set_butlastD)

lemma trim_hd: "q = [] \<or> hd q = c \<Longrightarrow> trim_path q = [] \<or> hd (trim_path q) = c"
  by (cases q) (auto simp: trim_path_def)

lemma normalize_parsed:
  "u \<noteq> [] \<Longrightarrow> urlparse u = Some p \<Longrightarrow> normalize_url u =
     print_url (if up_scheme p = [] then ''http'' else str_lower (up_scheme p))
       (str_lower (up_netloc p)) (trim_path (up_path p)) (up_query p)"
  by (simp add: normalize_url_def)

lemma normalize_idempotent:
  assumes "urlparse u = Some p" and "settled p" and "u \<noteq> []"
  shows "normalize_url (normalize_url u) = normalize_url u"
proof -
  note f = urlparse_facts [OF assms(1)]
  define sch where "sch = (if up_scheme p = [] then ''http'' else str_lower (up_scheme p))"
  let ?n = "str_lower (up_netloc p)" and ?q = "trim_path (up_path p)" and ?t = "up_query p"
  have u: "normalize_url u = print_url sch ?n ?q ?t" unfolding sch_def by (rule normalize_parsed [OF assms(3,1)])
  have s: "valid_scheme sch"
    using f(1) by (auto simp: sch_def valid_scheme_def is_lower_def scheme_char_def str_lower_def char_lower_def is_upper_def)
  have n: "list_all net_char ?n" "clean_text ?n" "(CHR ''['' \<in> set ?n) = (CHR '']'' \<in> set ?n)"
    using f(2,3,9) lower_keeps(2,4,5)
    by (auto simp: list_all_iff str_lower_def clean_lower [unfolded str_lower_def] image_iff eq_commute)
  have q: "?q = [] \<or> hd ?q = CHR ''/''" using trim_hd f(10) assms(2) by (simp add: settled_def)
  have q': "clean_text ?q" "CHR ''?'' \<notin> set ?q" "CHR ''#'' \<notin> set ?q" "CHR '';'' \<notin> set (last_part ?q)"
    using clean_mono [OF f(4) trim_subset] f(6,7) trim_subset [of "up_path p"] assms(2)
    by (auto simp: settled_def)
  have "urlparse (print_url sch ?n ?q ?t) = Some \<lparr>up_scheme = sch, up_netloc = ?n, up_path = ?q, up_params = [],
    up_query = ?t, up_fragment = []\<rparr>"
    by (rule urlparse_print [OF s n q q' f(5) f(8)])
  moreover have "str_lower sch = sch" using s by (simp add: valid_scheme_def)
  moreover have "trim_path ?q = ?q" using assms(2) by (simp add: settled_def trim_settled)
  moreover have "sch \<noteq> []" using s unfolding valid_scheme_def by simp
  moreover have "print_url sch ?n ?q ?t \<noteq> []" by (simp add: print_url_def)
  ultimately show ?thesis unfolding u
    using normalize_parsed [of "print_url sch ?n ?q ?t"] by simp
qed

end
