(* ===== verification/Discovery.thy ===== *)
theory Discovery
  imports Urls
begin

text \<open>
  \<^verbatim>\<open>backend/services/url_discovery_service.py\<close>: the frontier of a crawl with its four tables. The random
  identifiers and the time stamps of the items are not modelled. A value that \<^verbatim>\<open>config\<close> leaves out has
  the default of the constructor.
\<close>

section \<open>Items and tables\<close>

record discovery_config =
  dc_max_depth :: int
  dc_max_pages :: int
  dc_max_redirects :: int
  dc_timeout :: rat
  dc_retry :: int
  dc_domains :: "string list"

definition default_config :: discovery_config where
  "default_config = \<lparr>dc_max_depth = 3, dc_max_pages = 100, dc_max_redirects = 5, dc_timeout = 10,
     dc_retry = 3, dc_domains = []\<rparr>"

record url_item =
  ui_url :: string
  ui_depth :: int
  ui_from :: "string option"
  ui_status :: string
  ui_attempts :: int
  ui_redirects :: int
  ui_error :: "string option"
  ui_code :: "int option"

record discovery =
  ds_seed :: string
  ds_config :: discovery_config
  ds_queue :: "(string, url_item) py_dict"
  ds_pending :: "(string, url_item) py_dict"
  ds_visited :: "(string, url_item) py_dict"
  ds_failed :: "(string, url_item) py_dict"

definition mk_item :: "string \<Rightarrow> int \<Rightarrow> string option \<Rightarrow> url_item" where
  "mk_item url depth source =
     \<lparr>ui_url = url, ui_depth = depth, ui_from = source, ui_status = ''queue'', ui_attempts = 0,
      ui_redirects = 0, ui_error = None, ui_code = None\<rparr>"

definition is_url_tracked :: "string \<Rightarrow> discovery \<Rightarrow> bool" where
  "is_url_tracked url s \<longleftrightarrow>
     url \<in> set (d_keys (ds_queue s)) \<or> url \<in> set (d_keys (ds_pending s))
     \<or> url \<in> set (d_keys (ds_visited s)) \<or> url \<in> set (d_keys (ds_failed s))"

definition total_tracked :: "discovery \<Rightarrow> int" where
  "total_tracked s =
     int (length (ds_queue s) + length (ds_pending s) + length (ds_visited s) + length (ds_failed s))"

definition domain_allowed :: "string list \<Rightarrow> string \<Rightarrow> bool" where
  "domain_allowed domains url =
     (domains = []
      \<or> (case urlparse url of
            None \<Rightarrow> False
          | Some p \<Rightarrow> list_ex (\<lambda>d. str_lower (up_netloc p) = d
                                   \<or> ends_with (str_lower (up_netloc p)) (CHR ''.'' # d)) domains))"

section \<open>Operations\<close>

definition disc_enqueue :: "string \<Rightarrow> int \<Rightarrow> string option \<Rightarrow> discovery \<Rightarrow> bool \<times> discovery" where
  "disc_enqueue url depth source s =
     (let n = normalize_url url
      in if n = [] then (False, s)
         else if dc_max_depth (ds_config s) < depth then (False, s)
         else if is_url_tracked n s then (False, s)
         else if dc_max_pages (ds_config s) \<le> total_tracked s then (False, s)
         else if \<not> domain_allowed (dc_domains (ds_config s)) n then (False, s)
         else (True, s\<lparr>ds_queue := d_set n (mk_item n depth source) (ds_queue s)\<rparr>))"

definition new_discovery :: "string \<Rightarrow> discovery_config \<Rightarrow> discovery" where
  "new_discovery seed cfg =
     (let n = normalize_url seed;
          s = \<lparr>ds_seed = n, ds_config = cfg, ds_queue = [], ds_pending = [], ds_visited = [], ds_failed = []\<rparr>
      in if n = [] then s else snd (disc_enqueue n 0 None s))"

text \<open>A link that \<^verbatim>\<open>urljoin\<close> cannot resolve is taken as it is.\<close>

fun discover_each :: "string list \<Rightarrow> int \<Rightarrow> string \<Rightarrow> discovery \<Rightarrow> int \<times> discovery" where
  "discover_each [] depth source s = (0, s)"
| "discover_each (raw # urls) depth source s =
     (let resolved = (case urljoin source raw of None \<Rightarrow> raw | Some u \<Rightarrow> u)
      in case disc_enqueue resolved depth (Some source) s of
           (ok, s1) \<Rightarrow>
             (case discover_each urls depth source s1 of
                (n, s2) \<Rightarrow> ((if ok then n + 1 else n), s2)))"

definition add_discovered_urls :: "string list \<Rightarrow> int \<Rightarrow> string \<Rightarrow> discovery \<Rightarrow> int \<times> discovery" where
  "add_discovered_urls urls current source s = discover_each urls (current + 1) source s"

definition disc_next :: "discovery \<Rightarrow> url_item option \<times> discovery" where
  "disc_next s =
     (case ds_queue s of
        [] \<Rightarrow> (None, s)
      | (key, item) # rest \<Rightarrow>
          let item' = item\<lparr>ui_status := ''pending'', ui_attempts := ui_attempts item + 1\<rparr>
          in (Some item', s\<lparr>ds_queue := rest, ds_pending := d_set key item' (ds_pending s)\<rparr>))"

text \<open>\<^verbatim>\<open>self.pending.pop(k, None) or self.queue.pop(k, None)\<close>; an item is true.\<close>

definition take_item :: "string \<Rightarrow> discovery \<Rightarrow> (url_item \<times> discovery) option" where
  "take_item key s =
     (case d_get (ds_pending s) key of
        Some item \<Rightarrow> Some (item, s\<lparr>ds_pending := d_del key (ds_pending s)\<rparr>)
      | None \<Rightarrow>
          (case d_get (ds_queue s) key of
             Some item \<Rightarrow> Some (item, s\<lparr>ds_queue := d_del key (ds_queue s)\<rparr>)
           | None \<Rightarrow> None))"

definition mark_visited :: "string \<Rightarrow> int \<Rightarrow> int \<Rightarrow> discovery \<Rightarrow> bool \<times> discovery" where
  "mark_visited url code redirects s =
     (let n = normalize_url url
      in case take_item n s of
           None \<Rightarrow> (False, s)
         | Some (item, s1) \<Rightarrow>
             (True, s1\<lparr>ds_visited := d_set n
                (item\<lparr>ui_status := ''visited'', ui_code := Some code, ui_redirects := redirects\<rparr>)
                (ds_visited s1)\<rparr>))"

definition mark_failed :: "string \<Rightarrow> string \<Rightarrow> int option \<Rightarrow> discovery \<Rightarrow> bool \<times> discovery" where
  "mark_failed url err code s =
     (let n = normalize_url url
      in case take_item n s of
           None \<Rightarrow> (False, s)
         | Some (item, s1) \<Rightarrow>
             let item1 = item\<lparr>ui_error := Some err,
                    ui_code := (case code of Some c \<Rightarrow> if c \<noteq> 0 then Some c else ui_code item
                                | None \<Rightarrow> ui_code item)\<rparr>
             in (True,
                 if ui_attempts item < dc_retry (ds_config s)
                 then s1\<lparr>ds_queue := d_set n (item1\<lparr>ui_status := ''queue''\<rparr>) (ds_queue s1)\<rparr>
                 else s1\<lparr>ds_failed := d_set n (item1\<lparr>ui_status := ''failed''\<rparr>) (ds_failed s1)\<rparr>))"

record discovery_stats =
  st_discovered :: int
  st_queue :: int
  st_pending :: int
  st_visited :: int
  st_failed :: int

definition disc_stats :: "discovery \<Rightarrow> discovery_stats" where
  "disc_stats s =
     \<lparr>st_discovered = total_tracked s, st_queue = int (length (ds_queue s)),
      st_pending = int (length (ds_pending s)), st_visited = int (length (ds_visited s)),
      st_failed = int (length (ds_failed s))\<rparr>"

definition get_urls_by_status :: "string option \<Rightarrow> discovery \<Rightarrow> url_item list" where
  "get_urls_by_status status s =
     (let vals = map snd
      in if status = Some ''queue'' then vals (ds_queue s)
         else if status = Some ''pending'' then vals (ds_pending s)
         else if status = Some ''visited'' then vals (ds_visited s)
         else if status = Some ''failed'' then vals (ds_failed s)
         else vals (ds_visited s) @ vals (ds_pending s) @ vals (ds_queue s) @ vals (ds_failed s))"

end
