(* ===== verification/Discovery_Props.thy ===== *)
theory Discovery_Props
  imports Discovery "HOL-Library.Multiset"
begin

text \<open>
  What holds of the frontier in every run: each URL is in one table with the matching status, the number
  of URLs, their depths and their attempts are bounded, so a crawl hands out at most \<^verbatim>\<open>maxPages\<close> times
  the number of attempts, and a visited URL is final.
\<close>

section \<open>The invariant\<close>

definition budget :: "discovery_config \<Rightarrow> int" where
  "budget cfg = max 1 (dc_retry cfg)"

definition item_ok :: "discovery_config \<Rightarrow> string \<Rightarrow> int \<Rightarrow> int \<Rightarrow> string \<times> url_item \<Rightarrow> bool" where
  "item_ok cfg status lo hi r \<longleftrightarrow>
     ui_url (snd r) = fst r \<and> ui_status (snd r) = status \<and> lo \<le> ui_attempts (snd r)
     \<and> ui_attempts (snd r) \<le> hi \<and> ui_depth (snd r) \<le> dc_max_depth cfg"

definition disc_all :: "discovery \<Rightarrow> (string \<times> url_item) list" where
  "disc_all s = ds_queue s @ ds_pending s @ ds_visited s @ ds_failed s"

definition tables_ok :: "discovery \<Rightarrow> bool" where
  "tables_ok s \<longleftrightarrow>
     list_all (item_ok (ds_config s) ''queue'' 0 (budget (ds_config s) - 1)) (ds_queue s)
     \<and> list_all (item_ok (ds_config s) ''pending'' 1 (budget (ds_config s))) (ds_pending s)
     \<and> list_all (item_ok (ds_config s) ''visited'' 0 (budget (ds_config s))) (ds_visited s)
     \<and> list_all (item_ok (ds_config s) ''failed'' 0 (budget (ds_config s))) (ds_failed s)"

definition disc_ok :: "discovery \<Rightarrow> bool" where
  "disc_ok s \<longleftrightarrow> distinct (map fst (disc_all s)) \<and> tables_ok s
     \<and> int (length (disc_all s)) \<le> max 0 (dc_max_pages (ds_config s))"

definition fetches :: "discovery \<Rightarrow> int" where
  "fetches s = sum_list (map (ui_attempts \<circ> snd) (disc_all s))"

lemma total_all: "total_tracked s = int (length (disc_all s))"
  by (simp add: total_tracked_def disc_all_def)

lemma tracked_all: "is_url_tracked k s \<longleftrightarrow> k \<in> set (map fst (disc_all s))"
  by (auto simp: is_url_tracked_def disc_all_def)

lemma d_del_mset: "distinct (d_keys d) \<Longrightarrow> d_get d k = Some v \<Longrightarrow> mset d = add_mset (k, v) (mset (d_del k d))"
proof (induction d)
  case (Cons a d)
  show ?case
  proof (cases "fst a = k")
    case True
    then have "k \<notin> set (d_keys d)" using Cons.prems(1) by auto
    then have "d_del k d = d" by (simp add: delete_id)
    then show ?thesis using True Cons.prems(2) by (cases a) simp
  next
    case False
    then show ?thesis using Cons by (cases a) auto
  qed
qed simp

lemma d_del_subset: "set (d_del k d) \<subseteq> set d"
  by (induction d) auto

lemma list_all_del: "list_all P d \<Longrightarrow> list_all P (d_del k d)"
  using d_del_subset by (fastforce simp: list_all_iff)

lemma same_rows:
  assumes "mset (disc_all s) = mset (r # disc_all s')"
  shows "distinct (map fst (disc_all s)) \<longleftrightarrow> fst r \<notin> set (map fst (disc_all s')) \<and> distinct (map fst (disc_all s'))"
    and "length (disc_all s) = Suc (length (disc_all s'))"
    and "fetches s = ui_attempts (snd r) + fetches s'"
proof -
  have "mset (map fst (disc_all s)) = mset (map fst (r # disc_all s'))" using assms by (metis mset_map)
  then have "distinct (map fst (disc_all s)) = distinct (map fst (r # disc_all s'))"
    by (rule mset_eq_imp_distinct_iff)
  then show "distinct (map fst (disc_all s)) \<longleftrightarrow> fst r \<notin> set (map fst (disc_all s')) \<and> distinct (map fst (disc_all s'))"
    by simp
  show "length (disc_all s) = Suc (length (disc_all s'))" using mset_eq_length [OF assms] by simp
  have "mset (map (ui_attempts \<circ> snd) (disc_all s)) = mset (map (ui_attempts \<circ> snd) (r # disc_all s'))"
    using assms by (metis mset_map)
  then show "fetches s = ui_attempts (snd r) + fetches s'"
    unfolding fetches_def sum_mset_sum_list [symmetric] by simp
qed

section \<open>Steps\<close>

lemma enqueue_ok:
  assumes "disc_ok s"
  shows "disc_ok (snd (disc_enqueue url depth src s))"
    and "fetches (snd (disc_enqueue url depth src s)) = fetches s"
    and "set (ds_visited (snd (disc_enqueue url depth src s))) = set (ds_visited s)"
    and "ds_config (snd (disc_enqueue url depth src s)) = ds_config s"
proof -
  let ?n = "normalize_url url" and ?s' = "snd (disc_enqueue url depth src s)"
  have cases: "?s' = s \<or> (\<not> is_url_tracked ?n s \<and> depth \<le> dc_max_depth (ds_config s)
      \<and> total_tracked s < dc_max_pages (ds_config s)
      \<and> ?s' = s\<lparr>ds_queue := d_set ?n (mk_item ?n depth src) (ds_queue s)\<rparr>)"
    by (auto simp: disc_enqueue_def Let_def)
  have new: "disc_ok ?s' \<and> fetches ?s' = fetches s"
    if fresh: "\<not> is_url_tracked ?n s" and small: "depth \<le> dc_max_depth (ds_config s)"
      "total_tracked s < dc_max_pages (ds_config s)"
      and s': "?s' = s\<lparr>ds_queue := d_set ?n (mk_item ?n depth src) (ds_queue s)\<rparr>"
  proof -
    have q: "d_set ?n (mk_item ?n depth src) (ds_queue s) = ds_queue s @ [(?n, mk_item ?n depth src)]"
      using fresh by (intro d_set_fresh) (simp add: is_url_tracked_def)
    have rows: "mset (disc_all ?s') = mset ((?n, mk_item ?n depth src) # disc_all s)"
      unfolding s' q by (simp add: disc_all_def)
    have "item_ok (ds_config s) ''queue'' 0 (budget (ds_config s) - 1) (?n, mk_item ?n depth src)"
      using small(1) by (simp add: item_ok_def mk_item_def budget_def)
    then have "tables_ok ?s'" using assms unfolding s' q by (simp add: disc_ok_def tables_ok_def)
    moreover have "ds_config ?s' = ds_config s" unfolding s' by simp
    ultimately show ?thesis
      using same_rows [OF rows] assms fresh small(2)
      by (simp add: disc_ok_def tracked_all total_all mk_item_def)
  qed
  show "disc_ok ?s'" "fetches ?s' = fetches s" using cases new assms by auto
  show "set (ds_visited ?s') = set (ds_visited s)" "ds_config ?s' = ds_config s" using cases by auto
qed

lemma discover_ok:
  assumes "disc_ok s"
  shows "disc_ok (snd (discover_each urls depth src s)) \<and> fetches (snd (discover_each urls depth src s)) = fetches s
    \<and> set (ds_visited (snd (discover_each urls depth src s))) = set (ds_visited s)
    \<and> ds_config (snd (discover_each urls depth src s)) = ds_config s"
  using assms
proof (induction urls arbitrary: s)
  case (Cons raw urls)
  let ?r = "case urljoin src raw of None \<Rightarrow> raw | Some u \<Rightarrow> u"
  note e = enqueue_ok [OF Cons.prems, of ?r depth "Some src"]
  then show ?case using Cons.IH [OF e(1)] by (simp add: Let_def split_beta)
qed simp

lemma next_ok:
  assumes "disc_ok s"
  shows "disc_ok (snd (disc_next s))
    \<and> fetches (snd (disc_next s)) = fetches s + (if fst (disc_next s) = None then 0 else 1)
    \<and> ds_visited (snd (disc_next s)) = ds_visited s \<and> ds_config (snd (disc_next s)) = ds_config s"
proof (cases "ds_queue s")
  case Nil
  then show ?thesis using assms by (simp add: disc_next_def)
next
  case (Cons r rest)
  obtain k it where r: "r = (k, it)" by fastforce
  let ?it = "it\<lparr>ui_status := ''pending'', ui_attempts := ui_attempts it + 1\<rparr>"
  let ?s0 = "s\<lparr>ds_queue := rest\<rparr>"
  have rows: "mset (disc_all s) = mset ((k, it) # disc_all ?s0)" by (simp add: disc_all_def Cons r)
  have fresh: "k \<notin> set (map fst (disc_all ?s0))" "distinct (map fst (disc_all ?s0))"
    using same_rows(1) [OF rows] assms by (simp_all add: disc_ok_def)
  then have p: "d_set k ?it (ds_pending s) = ds_pending s @ [(k, ?it)]"
    by (intro d_set_fresh) (simp add: disc_all_def)
  have step: "disc_next s = (Some ?it, ?s0\<lparr>ds_pending := ds_pending s @ [(k, ?it)]\<rparr>)"
    by (simp add: disc_next_def Cons r Let_def p [simplified])
  have rows': "mset (disc_all (snd (disc_next s))) = mset ((k, ?it) # disc_all ?s0)"
    unfolding step by (simp add: disc_all_def)
  have "item_ok (ds_config s) ''queue'' 0 (budget (ds_config s) - 1) (k, it)"
    using assms Cons r by (simp add: disc_ok_def tables_ok_def)
  then have "item_ok (ds_config s) ''pending'' 1 (budget (ds_config s)) (k, ?it)" by (simp add: item_ok_def)
  then have "tables_ok (snd (disc_next s))"
    using assms Cons unfolding step by (simp add: disc_ok_def tables_ok_def)
  then have "disc_ok (snd (disc_next s))"
    using same_rows(1,2) [OF rows'] same_rows(2) [OF rows] fresh assms step
    by (simp add: disc_ok_def)
  then show ?thesis
    using same_rows(3) [OF rows'] same_rows(3) [OF rows] step by simp
qed

lemma next_item:
  assumes "fst (disc_next s) = Some it"
  obtains k it0 rest where "ds_queue s = (k, it0) # rest" "ui_url it = ui_url it0"
    "k \<in> set (d_keys (ds_pending (snd (disc_next s))))"
proof (cases "ds_queue s")
  case Nil
  then show ?thesis using assms by (simp add: disc_next_def)
next
  case (Cons r rest)
  obtain k it0 where r: "r = (k, it0)" by fastforce
  have "ui_url it = ui_url it0" "k \<in> set (d_keys (ds_pending (snd (disc_next s))))"
    using assms by (auto simp: disc_next_def Cons r Let_def dom_update)
  then show ?thesis using that Cons r by blast
qed

lemma take_item_rows:
  assumes "disc_ok s" and "take_item k s = Some (it, s1)"
  shows "mset (disc_all s) = mset ((k, it) # disc_all s1)"
    and "tables_ok s1" "ds_config s1 = ds_config s" "ds_visited s1 = ds_visited s" "ds_failed s1 = ds_failed s"
    and "ui_url it = k" "0 \<le> ui_attempts it" "ui_attempts it \<le> budget (ds_config s)"
      "ui_depth it \<le> dc_max_depth (ds_config s)"
proof -
  have d: "distinct (d_keys (ds_queue s))" "distinct (d_keys (ds_pending s))"
    using assms(1) by (simp_all add: disc_ok_def disc_all_def)
  have t: "tables_ok s" using assms(1) by (simp add: disc_ok_def)
  consider (pending) "d_get (ds_pending s) k = Some it" "s1 = s\<lparr>ds_pending := d_del k (ds_pending s)\<rparr>"
    | (queue) "d_get (ds_queue s) k = Some it" "s1 = s\<lparr>ds_queue := d_del k (ds_queue s)\<rparr>"
    using assms(2) by (auto simp: take_item_def split: option.splits)
  then have "mset (disc_all s) = mset ((k, it) # disc_all s1) \<and> tables_ok s1 \<and> ds_config s1 = ds_config s
    \<and> ds_visited s1 = ds_visited s \<and> ds_failed s1 = ds_failed s \<and> ui_url it = k \<and> 0 \<le> ui_attempts it
    \<and> ui_attempts it \<le> budget (ds_config s) \<and> ui_depth it \<le> dc_max_depth (ds_config s)"
  proof cases
    case pending
    then have "item_ok (ds_config s) ''pending'' 1 (budget (ds_config s)) (k, it)"
      using t by (auto simp: tables_ok_def list_all_iff dest: map_of_SomeD)
    then show ?thesis
      using pending d_del_mset [OF d(2) pending(1)] t
      by (simp add: disc_all_def tables_ok_def list_all_del item_ok_def)
  next
    case queue
    then have "item_ok (ds_config s) ''queue'' 0 (budget (ds_config s) - 1) (k, it)"
      using t by (auto simp: tables_ok_def list_all_iff dest: map_of_SomeD)
    then show ?thesis
      using queue d_del_mset [OF d(1) queue(1)] t
      by (simp add: disc_all_def tables_ok_def list_all_del item_ok_def)
  qed
  then show "mset (disc_all s) = mset ((k, it) # disc_all s1)"
    "tables_ok s1" "ds_config s1 = ds_config s" "ds_visited s1 = ds_visited s" "ds_failed s1 = ds_failed s"
    "ui_url it = k" "0 \<le> ui_attempts it" "ui_attempts it \<le> budget (ds_config s)"
    "ui_depth it \<le> dc_max_depth (ds_config s)" by blast+
qed

lemma put_back:
  assumes "disc_ok s" and "take_item k s = Some (it, s1)"
    and "mset (disc_all s') = mset ((k, it') # disc_all s1)" and "tables_ok s'" and "ds_config s' = ds_config s"
    and "ui_attempts it' = ui_attempts it"
  shows "disc_ok s' \<and> fetches s' = fetches s \<and> ds_config s' = ds_config s"
proof -
  note r = same_rows [OF take_item_rows(1) [OF assms(1,2)]]
  note r' = same_rows [OF assms(3)]
  show ?thesis using assms(1,4-6) r r' by (simp add: disc_ok_def)
qed

lemma take_item_fresh:
  assumes "disc_ok s" and "take_item k s = Some (it, s1)"
  shows "k \<notin> set (d_keys (ds_queue s1))" "k \<notin> set (d_keys (ds_visited s1))" "k \<notin> set (d_keys (ds_failed s1))"
proof -
  have "k \<notin> set (map fst (disc_all s1))"
    using same_rows(1) [OF take_item_rows(1) [OF assms]] assms(1) by (simp add: disc_ok_def)
  then show "k \<notin> set (d_keys (ds_queue s1))" "k \<notin> set (d_keys (ds_visited s1))" "k \<notin> set (d_keys (ds_failed s1))"
    by (simp_all add: disc_all_def)
qed

lemma visited_ok:
  assumes "disc_ok s"
  shows "disc_ok (snd (mark_visited url code rd s)) \<and> fetches (snd (mark_visited url code rd s)) = fetches s
    \<and> ds_config (snd (mark_visited url code rd s)) = ds_config s
    \<and> set (ds_visited s) \<subseteq> set (ds_visited (snd (mark_visited url code rd s)))"
proof (cases "take_item (normalize_url url) s")
  case None
  then show ?thesis using assms by (simp add: mark_visited_def)
next
  case (Some r)
  obtain it s1 where t: "take_item (normalize_url url) s = Some (it, s1)" using Some by (cases r) simp
  note f = take_item_rows [OF assms t]
  let ?it = "it\<lparr>ui_status := ''visited'', ui_code := Some code, ui_redirects := rd\<rparr>"
  let ?s' = "s1\<lparr>ds_visited := ds_visited s1 @ [(normalize_url url, ?it)]\<rparr>"
  have step: "snd (mark_visited url code rd s) = ?s'"
    by (simp add: mark_visited_def t Let_def d_set_fresh [OF take_item_fresh(2) [OF assms t]])
  have "tables_ok ?s'"
    using f(2-9) by (simp add: tables_ok_def item_ok_def)
  then have "disc_ok ?s' \<and> fetches ?s' = fetches s \<and> ds_config ?s' = ds_config s"
    by (intro put_back [OF assms t, where it' = ?it]) (simp_all add: disc_all_def f(3))
  then show ?thesis unfolding step using f(4) by auto
qed

lemma failed_ok:
  assumes "disc_ok s"
  shows "disc_ok (snd (mark_failed url err code s)) \<and> fetches (snd (mark_failed url err code s)) = fetches s
    \<and> ds_config (snd (mark_failed url err code s)) = ds_config s
    \<and> ds_visited (snd (mark_failed url err code s)) = ds_visited s"
proof (cases "take_item (normalize_url url) s")
  case None
  then show ?thesis using assms by (simp add: mark_failed_def)
next
  case (Some r)
  obtain it s1 where t: "take_item (normalize_url url) s = Some (it, s1)" using Some by (cases r) simp
  note f = take_item_rows [OF assms t]
  note fresh = take_item_fresh [OF assms t]
  define it1 where "it1 = it\<lparr>ui_error := Some err,
    ui_code := (case code of Some c \<Rightarrow> if c \<noteq> 0 then Some c else ui_code it | None \<Rightarrow> ui_code it)\<rparr>"
  let ?k = "normalize_url url"
  let ?q = "it1\<lparr>ui_status := ''queue''\<rparr>" and ?f = "it1\<lparr>ui_status := ''failed''\<rparr>"
  have step: "snd (mark_failed url err code s) = (if ui_attempts it < dc_retry (ds_config s)
      then s1\<lparr>ds_queue := ds_queue s1 @ [(?k, ?q)]\<rparr> else s1\<lparr>ds_failed := ds_failed s1 @ [(?k, ?f)]\<rparr>)"
    by (simp add: mark_failed_def t Let_def it1_def d_set_fresh [OF fresh(1)] d_set_fresh [OF fresh(3)])
  have same: "ui_url it1 = ?k" "ui_attempts it1 = ui_attempts it" "ui_depth it1 = ui_depth it"
    using f(6) by (simp_all add: it1_def)
  show ?thesis
  proof (cases "ui_attempts it < dc_retry (ds_config s)")
    case True
    let ?s' = "s1\<lparr>ds_queue := ds_queue s1 @ [(?k, ?q)]\<rparr>"
    have "tables_ok ?s'" using f(2-9) True same by (simp add: tables_ok_def item_ok_def budget_def)
    then have "disc_ok ?s' \<and> fetches ?s' = fetches s \<and> ds_config ?s' = ds_config s"
      by (intro put_back [OF assms t, where it' = ?q]) (simp_all add: disc_all_def f(3) same)
    then show ?thesis unfolding step using True f(4) by simp
  next
    case False
    let ?s' = "s1\<lparr>ds_failed := ds_failed s1 @ [(?k, ?f)]\<rparr>"
    have "tables_ok ?s'" using f(2-9) same by (simp add: tables_ok_def item_ok_def)
    then have "disc_ok ?s' \<and> fetches ?s' = fetches s \<and> ds_config ?s' = ds_config s"
      by (intro put_back [OF assms t, where it' = ?f]) (simp_all add: disc_all_def f(3) same)
    then show ?thesis unfolding step using False f(4) by simp
  qed
qed

section \<open>Runs\<close>

datatype disc_op =
    DEnqueue string int "string option"
  | DDiscover "string list" int string
  | DNext
  | DVisited string int int
  | DFailed string string "int option"

fun disc_step :: "discovery \<Rightarrow> disc_op \<Rightarrow> discovery" where
  "disc_step s (DEnqueue url depth src) = snd (disc_enqueue url depth src s)"
| "disc_step s (DDiscover urls depth src) = snd (add_discovered_urls urls depth src s)"
| "disc_step s DNext = snd (disc_next s)"
| "disc_step s (DVisited url code rd) = snd (mark_visited url code rd s)"
| "disc_step s (DFailed url err code) = snd (mark_failed url err code s)"

text \<open>How many items a run hands out.\<close>

fun served :: "disc_op list \<Rightarrow> discovery \<Rightarrow> nat" where
  "served [] s = 0"
| "served (e # es) s =
     (if e = DNext \<and> fst (disc_next s) \<noteq> None then 1 else 0) + served es (disc_step s e)"

lemma step_ok:
  assumes "disc_ok s"
  shows "disc_ok (disc_step s e)
    \<and> fetches (disc_step s e) = fetches s + (if e = DNext \<and> fst (disc_next s) \<noteq> None then 1 else 0)
    \<and> set (ds_visited s) \<subseteq> set (ds_visited (disc_step s e)) \<and> ds_config (disc_step s e) = ds_config s"
  using enqueue_ok [OF assms] discover_ok [OF assms] next_ok [OF assms] visited_ok [OF assms] failed_ok [OF assms]
  by (cases e) (auto simp: add_discovered_urls_def)

interpretation frontier: absorbing_machine disc_step disc_ok "\<lambda>s. url \<in> set (d_keys (ds_visited s))" for url
proof unfold_locales
  fix s e
  assume "disc_ok s"
  note e = step_ok [OF this, of e]
  then show "disc_ok (disc_step s e)" by blast
  show "url \<in> set (d_keys (ds_visited (disc_step s e)))" if "url \<in> set (d_keys (ds_visited s))"
    using e that by (metis (no_types, lifting) image_mono list.set_map subset_iff)
qed

lemma new_ok: "disc_ok (new_discovery seed cfg)" "fetches (new_discovery seed cfg) = 0"
  "ds_config (new_discovery seed cfg) = cfg"
proof -
  define s where "s = \<lparr>ds_seed = normalize_url seed, ds_config = cfg, ds_queue = [], ds_pending = [],
    ds_visited = [], ds_failed = []\<rparr>"
  have s: "disc_ok s" "fetches s = 0" "ds_config s = cfg"
    by (simp_all add: s_def disc_ok_def disc_all_def tables_ok_def fetches_def)
  have "new_discovery seed cfg = (if normalize_url seed = [] then s else snd (disc_enqueue (normalize_url seed) 0 None s))"
    by (simp add: new_discovery_def Let_def s_def)
  with s show "disc_ok (new_discovery seed cfg)" "fetches (new_discovery seed cfg) = 0"
    "ds_config (new_discovery seed cfg) = cfg"
    using enqueue_ok [OF s(1)] by simp_all
qed

lemma run_fetches:
  "disc_ok s \<Longrightarrow> fetches (foldl disc_step s es) = fetches s + int (served es s)
     \<and> ds_config (foldl disc_step s es) = ds_config s"
proof (induction es arbitrary: s)
  case (Cons e es)
  then show ?case using step_ok [OF Cons.prems, of e] by simp
qed simp

lemma fetches_bound:
  assumes "disc_ok s"
  shows "fetches s \<le> max 0 (dc_max_pages (ds_config s)) * budget (ds_config s)"
proof -
  have "\<forall>r\<in>set (disc_all s). ui_attempts (snd r) \<le> budget (ds_config s)"
    using assms by (auto simp: disc_ok_def disc_all_def tables_ok_def list_all_iff item_ok_def)
  then have "fetches s \<le> sum_list (map (\<lambda>_. budget (ds_config s)) (disc_all s))"
    unfolding fetches_def by (intro sum_list_mono) auto
  also have "\<dots> = int (length (disc_all s)) * budget (ds_config s)" by (simp add: sum_list_triv)
  also have "\<dots> \<le> max 0 (dc_max_pages (ds_config s)) * budget (ds_config s)"
    using assms by (intro mult_right_mono) (simp_all add: disc_ok_def budget_def)
  finally show ?thesis .
qed

text \<open>
  C10: whatever a crawler enqueues, discovers and reports, \<^verbatim>\<open>next\<close> hands out at most \<^verbatim>\<open>maxPages\<close> times
  \<^verbatim>\<open>retry\<close> items (once per page when there is no retry): every crawl ends.
\<close>

theorem crawl_ends:
  "int (served es (new_discovery seed cfg)) \<le> max 0 (dc_max_pages cfg) * max 1 (dc_retry cfg)"
proof -
  note ok = new_ok [of seed cfg]
  have "fetches (foldl disc_step (new_discovery seed cfg) es) = int (served es (new_discovery seed cfg))"
    using run_fetches [OF ok(1)] ok(2) by simp
  moreover have "ds_config (foldl disc_step (new_discovery seed cfg) es) = cfg"
    using run_fetches [OF ok(1)] ok(3) by simp
  ultimately show ?thesis
    using fetches_bound [OF frontier.run_inv [OF ok(1)], of es] by (simp add: budget_def)
qed

text \<open>
  C16: in every run each URL is in one table, under its own key and with the status of the table, not
  deeper than \<^verbatim>\<open>maxDepth\<close>, with its attempts within the retries, and there are at most \<^verbatim>\<open>maxPages\<close> URLs.
\<close>

theorem frontier_is_consistent: "disc_ok (foldl disc_step (new_discovery seed cfg) es)"
  by (rule frontier.run_inv) (rule new_ok)

text \<open>a visited URL is never handed out again and never enqueued again.\<close>

theorem visited_is_final:
  assumes "s = foldl disc_step (new_discovery seed cfg) es"
    and "normalize_url url \<in> set (d_keys (ds_visited s))"
  shows "(case fst (disc_next (foldl disc_step s fs)) of None \<Rightarrow> True | Some it \<Rightarrow> ui_url it \<noteq> normalize_url url)
    \<and> \<not> fst (disc_enqueue url depth src (foldl disc_step s fs))"
proof -
  have s: "disc_ok s" unfolding assms(1) by (rule frontier.run_inv) (rule new_ok)
  let ?s = "foldl disc_step s fs" and ?k = "normalize_url url"
  have ok: "disc_ok ?s" by (rule frontier.run_inv [OF s])
  have v: "?k \<in> set (d_keys (ds_visited ?s))" by (rule frontier.run_final [OF s assms(2)])
  then have "\<not> fst (disc_enqueue url depth src ?s)"
    by (simp add: disc_enqueue_def Let_def is_url_tracked_def)
  moreover have "ui_url it \<noteq> ?k" if got: "fst (disc_next ?s) = Some it" for it
  proof -
    obtain k it0 rest where q: "ds_queue ?s = (k, it0) # rest" "ui_url it = ui_url it0"
      by (rule next_item [OF got])
    have "ui_url it0 = k" using ok q(1) by (simp add: disc_ok_def tables_ok_def item_ok_def)
    moreover have "k \<noteq> ?k" using ok q(1) v by (auto simp: disc_ok_def disc_all_def)
    ultimately show ?thesis using q(2) by simp
  qed
  ultimately show ?thesis by (auto split: option.split)
qed

text \<open>
  the reports normalize the URL of an item once more. An item whose URL this changes - one that ends
  in a slash after its normalization, say - cannot be reported: visited or failed, it stays pending.
\<close>

theorem unsettled_url_stays_pending:
  assumes "s = foldl disc_step (new_discovery seed cfg) es"
    and "disc_next s = (Some it, s1)"
    and "normalize_url (ui_url it) \<noteq> ui_url it" and "\<not> is_url_tracked (normalize_url (ui_url it)) s1"
  shows "mark_visited (ui_url it) code rd s1 = (False, s1) \<and> mark_failed (ui_url it) err c s1 = (False, s1)
    \<and> ui_url it \<in> set (d_keys (ds_pending s1))"
proof -
  have s: "disc_ok s" unfolding assms(1) by (rule frontier.run_inv) (rule new_ok)
  obtain k it0 rest where q: "ds_queue s = (k, it0) # rest" "ui_url it = ui_url it0" "k \<in> set (d_keys (ds_pending s1))"
    by (rule next_item [of s it]) (use assms(2) in simp_all)
  have "ui_url it0 = k" using s q(1) by (simp add: disc_ok_def tables_ok_def item_ok_def)
  moreover have "take_item (normalize_url (ui_url it)) s1 = None"
    using assms(4) by (auto simp: take_item_def is_url_tracked_def map_of_eq_None_iff split: option.splits)
  ultimately show ?thesis using q by (simp add: mark_visited_def mark_failed_def Let_def)
qed

section \<open>Concrete runs\<close>

definition demo_frontier :: discovery where
  "demo_frontier = new_discovery ''http://a.b///'' default_config"

theorem unsettled_url_stays_pending_witness:
  "\<exists>it s1. disc_next demo_frontier = (Some it, s1) \<and> mark_visited (ui_url it) 200 0 s1 = (False, s1)"
proof -
  have run: "case disc_next demo_frontier of (Some it, s1) \<Rightarrow> normalize_url (ui_url it) \<noteq> ui_url it
      \<and> \<not> is_url_tracked (normalize_url (ui_url it)) s1 | _ \<Rightarrow> False" by code_simp
  then obtain it s1 where n: "disc_next demo_frontier = (Some it, s1)"
    by (cases "disc_next demo_frontier") (auto split: option.splits)
  with run have "normalize_url (ui_url it) \<noteq> ui_url it" "\<not> is_url_tracked (normalize_url (ui_url it)) s1" by simp_all
  from unsettled_url_stays_pending [OF _ n this, of _ _ "[]"] n show ?thesis
    by (auto simp: demo_frontier_def)
qed

theorem visited_is_final_witness:
  "\<not> fst (disc_enqueue ''HTTP://A.b/'' 1 None
      (foldl disc_step (new_discovery ''http://a.b'' default_config) [DNext, DVisited ''http://a.b'' 200 0]))"
proof -
  let ?s = "foldl disc_step (new_discovery ''http://a.b'' default_config) [DNext, DVisited ''http://a.b'' 200 0]"
  have "normalize_url ''HTTP://A.b/'' \<in> set (d_keys (ds_visited ?s))" by code_simp
  from visited_is_final [OF refl this, of "[]" 1 None] show ?thesis by simp
qed

end
