(* ===== verification/Link_Graph.thy ===== *)
theory Link_Graph
  imports Urls
begin

text \<open>
  \<^verbatim>\<open>backend/services/link_graph_service.py\<close>: the pages and links of a crawl, with the reports on internal,
  external and broken links, orphan pages and redirect chains. The random identifiers of the edges are not
  modelled. A node is found through its key in the table of pages, so what \<^verbatim>\<open>add_link\<close> changes through a
  reference is a change of the table here.
\<close>

section \<open>Pages and links\<close>

record page_node =
  pn_url :: string
  pn_code :: int
  pn_redirect :: "string option"
  pn_external :: bool
  pn_in :: int
  pn_out :: int

record link_edge =
  le_source :: string
  le_target :: string
  le_anchor :: string
  le_rel :: string
  le_internal :: bool
  le_broken :: bool

record link_graph =
  lg_base :: string
  lg_pages :: "(string, page_node) py_dict"
  lg_edges :: "link_edge list"

definition mk_node :: "string \<Rightarrow> int \<Rightarrow> string option \<Rightarrow> bool \<Rightarrow> page_node" where
  "mk_node url code redirect external =
     \<lparr>pn_url = url, pn_code = code, pn_redirect = redirect, pn_external = external, pn_in = 0, pn_out = 0\<rparr>"

definition mk_edge :: "string \<Rightarrow> string \<Rightarrow> string \<Rightarrow> string \<Rightarrow> bool \<Rightarrow> bool \<Rightarrow> link_edge" where
  "mk_edge source target anchor rel internal broken =
     \<lparr>le_source = source, le_target = target, le_anchor = str_strip anchor, le_rel = str_strip rel,
      le_internal = internal, le_broken = broken\<rparr>"

definition mk_graph :: "string \<Rightarrow> link_graph" where
  "mk_graph base = \<lparr>lg_base = normalize_url base, lg_pages = [], lg_edges = []\<rparr>"

definition is_internal_url :: "string \<Rightarrow> string \<Rightarrow> bool" where
  "is_internal_url base url =
     (case (urlparse url, urlparse base) of
        (Some t, Some b) \<Rightarrow>
          str_lower (up_netloc t) = str_lower (up_netloc b)
          \<or> ends_with (str_lower (up_netloc t)) (CHR ''.'' # str_lower (up_netloc b))
      | _ \<Rightarrow> False)"

text \<open>The key of the page that is returned, and the graph.\<close>

definition add_page :: "string \<Rightarrow> int \<Rightarrow> string option \<Rightarrow> bool option \<Rightarrow> link_graph \<Rightarrow> string \<times> link_graph" where
  "add_page url code redirect external g =
     (let n = normalize_url url;
          ext = (case external of Some e \<Rightarrow> e | None \<Rightarrow> \<not> is_internal_url (lg_base g) n);
          red = (if truthy redirect then Some (normalize_url (or_else redirect [])) else None);
          node = (case d_get (lg_pages g) n of
                    None \<Rightarrow> mk_node n code red ext
                  | Some nd \<Rightarrow> nd\<lparr>pn_code := code, pn_redirect := red, pn_external := ext\<rparr>)
      in (n, g\<lparr>lg_pages := d_set n node (lg_pages g)\<rparr>))"

definition change_node :: "string \<Rightarrow> (page_node \<Rightarrow> page_node) \<Rightarrow> link_graph \<Rightarrow> link_graph" where
  "change_node k f g =
     (case d_get (lg_pages g) k of
        None \<Rightarrow> g
      | Some nd \<Rightarrow> g\<lparr>lg_pages := d_set k (f nd) (lg_pages g)\<rparr>)"

definition node_code :: "string \<Rightarrow> link_graph \<Rightarrow> int" where
  "node_code k g = (case d_get (lg_pages g) k of None \<Rightarrow> 0 | Some nd \<Rightarrow> pn_code nd)"

definition add_link :: "string \<Rightarrow> string \<Rightarrow> string \<Rightarrow> string \<Rightarrow> link_graph \<Rightarrow> link_edge \<times> link_graph" where
  "add_link source target anchor rel g =
     (let src = normalize_url source; tgt = normalize_url target;
          g1 = snd (add_page src 200 None None g);
          (tkey, g2) = (case d_get (lg_pages g1) tgt of
                          Some _ \<Rightarrow> (tgt, g1) | None \<Rightarrow> add_page tgt 200 None None g1);
          edge = mk_edge src tgt anchor rel (is_internal_url (lg_base g) tgt) (400 \<le> node_code tkey g2);
          g3 = g2\<lparr>lg_edges := lg_edges g2 @ [edge]\<rparr>;
          g4 = change_node src (\<lambda>nd. nd\<lparr>pn_out := pn_out nd + 1\<rparr>) g3
      in (edge, change_node tkey (\<lambda>nd. nd\<lparr>pn_in := pn_in nd + 1\<rparr>) g4))"

section \<open>Reports\<close>

definition from_source :: "string option \<Rightarrow> link_edge list \<Rightarrow> link_edge list" where
  "from_source source es =
     (if truthy source then filter (\<lambda>e. le_source e = normalize_url (or_else source [])) es else es)"

definition get_internal_links :: "string option \<Rightarrow> link_graph \<Rightarrow> link_edge list" where
  "get_internal_links source g = from_source source (filter le_internal (lg_edges g))"

definition get_external_links :: "string option \<Rightarrow> link_graph \<Rightarrow> link_edge list" where
  "get_external_links source g = from_source source (filter (\<lambda>e. \<not> le_internal e) (lg_edges g))"

definition get_broken_links :: "link_graph \<Rightarrow> link_edge list" where
  "get_broken_links g =
     filter (\<lambda>e. le_broken e
                 \<or> (case d_get (lg_pages g) (le_target e) of None \<Rightarrow> False | Some nd \<Rightarrow> 400 \<le> pn_code nd))
       (lg_edges g)"

definition get_orphan_pages :: "link_graph \<Rightarrow> page_node list" where
  "get_orphan_pages g =
     (let seed = normalize_url (lg_base g)
      in map snd (filter (\<lambda>(url, nd). \<not> pn_external nd \<and> url \<noteq> seed
                            \<and> filter (\<lambda>e. le_target e = url \<and> le_internal e) (lg_edges g) = [])
                    (lg_pages g)))"

text \<open>
  The loop of \<^verbatim>\<open>get_redirect_chains\<close>: the addresses seen, the hops so far and the next address. The
  result is the list of hops, whether it runs into itself, and the status it ends with.
\<close>

function (sequential) follow ::
  "(string, page_node) py_dict \<Rightarrow> string list \<Rightarrow> string list \<Rightarrow> string \<Rightarrow> string list \<times> bool \<times> int option"
where
  "follow pages visited hops cur =
     (if cur = [] then (hops, False, None)
      else if cur \<in> set visited then (hops @ [cur], True, None)
      else
        (case d_get pages cur of
           None \<Rightarrow> (hops @ [cur], False, None)
         | Some nd \<Rightarrow>
             if truthy (pn_redirect nd)
             then follow pages (cur # visited) (hops @ [cur]) (or_else (pn_redirect nd) [])
             else (hops @ [cur], False, Some (pn_code nd))))"
  by pat_completeness auto

text \<open>Every further hop leaves a page that was not seen before.\<close>

lemma unseen_less:
  assumes "d_get pages cur = Some nd" and "cur \<notin> set visited"
  shows "card (set (d_keys pages) - set (cur # visited)) < card (set (d_keys pages) - set visited)"
proof (rule psubset_card_mono)
  have "cur \<in> set (d_keys pages)" using assms(1) by (metis domI dom_map_of_conv_image_fst image_set)
  then show "set (d_keys pages) - set (cur # visited) \<subset> set (d_keys pages) - set visited"
    using assms(2) by auto
qed simp

termination follow
  by (relation "measure (\<lambda>(pages, visited, hops, cur). card (set (d_keys pages) - set visited))")
    (use unseen_less in auto)

declare follow.simps [simp del]

record redirect_chain =
  rc_start :: string
  rc_chain :: "string list"
  rc_final :: string
  rc_status :: "int option"
  rc_hops :: int
  rc_loop :: bool

definition chain_from :: "(string, page_node) py_dict \<Rightarrow> string \<times> page_node \<Rightarrow> redirect_chain list" where
  "chain_from pages r =
     (if truthy (pn_redirect (snd r))
      then (case follow pages [fst r] [fst r] (or_else (pn_redirect (snd r)) []) of
              (hops, loops, final) \<Rightarrow>
                if 2 \<le> length hops
                then [\<lparr>rc_start = fst r, rc_chain = hops, rc_final = last hops, rc_status = final,
                       rc_hops = int (length hops) - 1, rc_loop = loops\<rparr>]
                else [])
      else [])"

definition get_redirect_chains :: "link_graph \<Rightarrow> redirect_chain list" where
  "get_redirect_chains g = concat (map (chain_from (lg_pages g)) (lg_pages g))"

record graph_summary =
  gs_nodes :: int
  gs_internal_nodes :: int
  gs_external_nodes :: int
  gs_edges :: int
  gs_internal_edges :: int
  gs_external_edges :: int
  gs_broken :: int
  gs_orphans :: int
  gs_chains :: int

definition get_summary :: "link_graph \<Rightarrow> graph_summary" where
  "get_summary g =
     \<lparr>gs_nodes = int (length (lg_pages g)),
      gs_internal_nodes = int (length (filter (\<lambda>r. \<not> pn_external (snd r)) (lg_pages g))),
      gs_external_nodes = int (length (filter (\<lambda>r. pn_external (snd r)) (lg_pages g))),
      gs_edges = int (length (lg_edges g)),
      gs_internal_edges = int (length (get_internal_links None g)),
      gs_external_edges = int (length (get_external_links None g)),
      gs_broken = int (length (get_broken_links g)),
      gs_orphans = int (length (get_orphan_pages g)),
      gs_chains = int (length (get_redirect_chains g))\<rparr>"

section \<open>Redirect chains\<close>

text \<open>A page with a redirect.\<close>

definition redirects :: "(string, page_node) py_dict \<Rightarrow> string \<Rightarrow> string option" where
  "redirects pages u =
     (case d_get pages u of None \<Rightarrow> None
      | Some nd \<Rightarrow> if truthy (pn_redirect nd) then Some (or_else (pn_redirect nd) []) else None)"

text \<open>A list of hops, each the redirect of the one before.\<close>

fun hop_path :: "(string, page_node) py_dict \<Rightarrow> string list \<Rightarrow> bool" where
  "hop_path pages (a # b # hs) \<longleftrightarrow> redirects pages a = Some b \<and> hop_path pages (b # hs)"
| "hop_path pages hs \<longleftrightarrow> True"

definition chain_ok :: "(string, page_node) py_dict \<Rightarrow> string list \<Rightarrow> bool \<Rightarrow> int option \<Rightarrow> bool" where
  "chain_ok pages hops loops final \<longleftrightarrow>
     hop_path pages hops \<and> distinct (butlast hops)
     \<and> set (butlast hops) \<subseteq> set (d_keys pages)
     \<and> loops = (last hops \<in> set (butlast hops))
     \<and> (if loops then final = None
        else redirects pages (last hops) = None \<and> final = map_option pn_code (d_get pages (last hops)))"

lemma hop_path_snoc:
  "hs \<noteq> [] \<Longrightarrow> hop_path pages (hs @ [x]) \<longleftrightarrow> hop_path pages hs \<and> redirects pages (last hs) = Some x"
  by (induction pages hs rule: hop_path.induct) auto

lemma redirects_page: "redirects pages u = Some v \<Longrightarrow> u \<in> set (d_keys pages) \<and> v \<noteq> []"
  by (auto simp: redirects_def or_else_def truthy_def split: option.splits if_splits dest!: map_of_SomeD)
    (metis fst_conv image_iff)

lemma follow_ok:
  "hops \<noteq> [] \<Longrightarrow> set visited = set hops \<Longrightarrow> distinct hops \<Longrightarrow> hop_path pages hops
     \<Longrightarrow> redirects pages (last hops) = Some cur \<Longrightarrow> set hops \<subseteq> set (d_keys pages)
     \<Longrightarrow> follow pages visited hops cur = (hs, loops, final)
     \<Longrightarrow> chain_ok pages hs loops final \<and> 2 \<le> length hs \<and> hd hs = hd hops"
proof (induction pages visited hops cur rule: follow.induct)
  case (1 pages visited hops cur)
  have c: "cur \<noteq> []" using redirects_page [OF "1.prems"(5)] by simp
  have p: "hop_path pages (hops @ [cur])" using "1.prems" by (simp add: hop_path_snoc)
  have two: "2 \<le> length (hops @ [cur])" using "1.prems"(1) by (cases hops) auto
  have d: "d_get pages cur = None \<longleftrightarrow> cur \<notin> set (d_keys pages)" by (simp add: map_of_eq_None_iff)
  note f = "1.prems"(7)
  show ?case
  proof (cases "cur \<in> set visited")
    case True
    then have "hs = hops @ [cur] \<and> loops \<and> final = None"
      using f c by (subst (asm) follow.simps) simp
    then show ?thesis using p two True "1.prems" by (simp add: chain_ok_def)
  next
    case new: False
    show ?thesis
    proof (cases "redirects pages cur")
      case None
      then have "hs = hops @ [cur] \<and> \<not> loops \<and> final = map_option pn_code (d_get pages cur)"
        using f c new by (subst (asm) follow.simps) (auto simp: redirects_def split: option.splits if_splits)
      then show ?thesis using p two new None "1.prems" by (simp add: chain_ok_def)
    next
      case (Some v)
      then obtain nd where nd: "d_get pages cur = Some nd" "truthy (pn_redirect nd)" "or_else (pn_redirect nd) [] = v"
        by (auto simp: redirects_def split: option.splits if_splits)
      have "follow pages (cur # visited) (hops @ [cur]) v = (hs, loops, final)"
        using f c new nd by (subst (asm) follow.simps) simp
      then show ?thesis
        using "1.IH" [OF c new nd(1,2)] "1.prems" new p Some nd(3) redirects_page [OF Some] by simp
    qed
  qed
qed

lemma chain_from_ok:
  assumes "d_wf pages" and "r \<in> set pages" and "c \<in> set (chain_from pages r)"
  shows "rc_start c = fst r \<and> hd (rc_chain c) = fst r \<and> 2 \<le> length (rc_chain c)
    \<and> chain_ok pages (rc_chain c) (rc_loop c) (rc_status c)
    \<and> rc_final c = last (rc_chain c) \<and> rc_hops c = int (length (rc_chain c)) - 1"
proof -
  obtain u nd where r: "r = (u, nd)" by fastforce
  obtain hs loops final where f: "follow pages [u] [u] (or_else (pn_redirect nd) []) = (hs, loops, final)"
    by (cases "follow pages [u] [u] (or_else (pn_redirect nd) [])") auto
  have t: "truthy (pn_redirect nd)" using assms(3) by (cases "truthy (pn_redirect nd)") (simp_all add: chain_from_def r)
  have g: "d_get pages u = Some nd" using assms(1,2) by (simp add: d_wf_def r)
  then have "redirects pages u = Some (or_else (pn_redirect nd) [])" using t by (simp add: redirects_def)
  then have "chain_ok pages hs loops final \<and> 2 \<le> length hs \<and> hd hs = u"
    using follow_ok [OF _ _ _ _ _ _ f] redirects_page by simp
  then show ?thesis using assms(3) t f by (simp add: chain_from_def r)
qed

end
