(* ===== verification/Link_Graph_Props.thy ===== *)
theory Link_Graph_Props
  imports Link_Graph
begin

text \<open>
  What holds of the link graph in every run: one page per address, redirect chains that are chains of
  redirects and end; and, when the addresses are settled, link counts and orphan pages that are exact.
\<close>

section \<open>Runs\<close>

datatype graph_event =
    GPage string int "string option" "bool option"
  | GLink string string string string

fun graph_step :: "link_graph \<Rightarrow> graph_event \<Rightarrow> link_graph" where
  "graph_step g (GPage url code red ext) = snd (add_page url code red ext g)"
| "graph_step g (GLink s t a r) = snd (add_link s t a r g)"

definition pages_ok :: "link_graph \<Rightarrow> bool" where
  "pages_ok g \<longleftrightarrow> d_wf (lg_pages g) \<and> (\<forall>(k, nd)\<in>set (lg_pages g). pn_url nd = k)"

lemma pages_get: "d_wf (lg_pages g) \<Longrightarrow> (k, nd) \<in> set (lg_pages g) \<longleftrightarrow> d_get (lg_pages g) k = Some nd"
  by (auto simp: d_wf_def dest: map_of_SomeD)

lemma pages_ok_get:
  "pages_ok g \<longleftrightarrow> d_wf (lg_pages g) \<and> (\<forall>k nd. d_get (lg_pages g) k = Some nd \<longrightarrow> pn_url nd = k)"
  using pages_get [of g] by (auto simp: pages_ok_def) (metis (mono_tags, lifting) case_prodD)

lemma add_page_facts:
  "fst (add_page url code red ext g) = normalize_url url"
  "lg_base (snd (add_page url code red ext g)) = lg_base g"
  "lg_edges (snd (add_page url code red ext g)) = lg_edges g"
  "d_wf (lg_pages g) \<Longrightarrow> d_wf (lg_pages (snd (add_page url code red ext g)))"
  by (simp_all add: add_page_def Let_def)

lemma add_page_get:
  "d_get (lg_pages (snd (add_page url code red ext g))) k =
     (if k = normalize_url url
      then Some ((case d_get (lg_pages g) k of None \<Rightarrow> mk_node k 0 None False | Some nd \<Rightarrow> nd)
             \<lparr>pn_code := code,
              pn_redirect := (if truthy red then Some (normalize_url (or_else red [])) else None),
              pn_external := (case ext of Some e \<Rightarrow> e | None \<Rightarrow> \<not> is_internal_url (lg_base g) k)\<rparr>)
      else d_get (lg_pages g) k)"
  by (auto simp: add_page_def Let_def mk_node_def split: option.splits)

lemma change_node_facts [simp]:
  "lg_base (change_node k f g) = lg_base g" "lg_edges (change_node k f g) = lg_edges g"
  "d_wf (lg_pages g) \<Longrightarrow> d_wf (lg_pages (change_node k f g))"
  "d_get (lg_pages (change_node k f g)) k' =
     (if k' = k then map_option f (d_get (lg_pages g) k) else d_get (lg_pages g) k')"
  by (auto simp: change_node_def split: option.splits)

text \<open>The graph in which \<^verbatim>\<open>add_link\<close> has its two pages, the key of the target, and the result.\<close>

definition link_pages :: "string \<Rightarrow> string \<Rightarrow> link_graph \<Rightarrow> string \<times> link_graph" where
  "link_pages src tgt g =
     (let g1 = snd (add_page src 200 None None g)
      in case d_get (lg_pages g1) tgt of Some _ \<Rightarrow> (tgt, g1) | None \<Rightarrow> add_page tgt 200 None None g1)"

lemma add_link_pages:
  "\<exists>edge. fst (add_link s t a r g) = edge \<and> le_source edge = normalize_url s \<and> le_target edge = normalize_url t
     \<and> le_internal edge = is_internal_url (lg_base g) (normalize_url t)
     \<and> snd (add_link s t a r g) =
         change_node (fst (link_pages (normalize_url s) (normalize_url t) g)) (\<lambda>nd. nd\<lparr>pn_in := pn_in nd + 1\<rparr>)
           (change_node (normalize_url s) (\<lambda>nd. nd\<lparr>pn_out := pn_out nd + 1\<rparr>)
             (let g2 = snd (link_pages (normalize_url s) (normalize_url t) g) in g2\<lparr>lg_edges := lg_edges g2 @ [edge]\<rparr>))"
  by (simp add: add_link_def link_pages_def Let_def split_beta mk_edge_def)

lemma link_pages_facts:
  "lg_base (snd (link_pages s t g)) = lg_base g" "lg_edges (snd (link_pages s t g)) = lg_edges g"
  "d_wf (lg_pages g) \<Longrightarrow> d_wf (lg_pages (snd (link_pages s t g)))"
  by (auto simp: link_pages_def Let_def add_page_facts split: option.split)

lemma pages_ok_step:
  assumes "pages_ok g"
  shows "pages_ok (graph_step g e)"
proof (cases e)
  case (GPage url code red ext)
  then show ?thesis using assms
    by (auto simp: pages_ok_get add_page_facts add_page_get mk_node_def split: option.splits)
next
  case (GLink s t a r)
  obtain edge where l: "snd (add_link s t a r g) =
         change_node (fst (link_pages (normalize_url s) (normalize_url t) g)) (\<lambda>nd. nd\<lparr>pn_in := pn_in nd + 1\<rparr>)
           (change_node (normalize_url s) (\<lambda>nd. nd\<lparr>pn_out := pn_out nd + 1\<rparr>)
             (let g2 = snd (link_pages (normalize_url s) (normalize_url t) g) in g2\<lparr>lg_edges := lg_edges g2 @ [edge]\<rparr>))"
    using add_link_pages by blast
  have "pages_ok (snd (link_pages (normalize_url s) (normalize_url t) g))"
    using assms link_pages_facts(3)
    by (auto simp: pages_ok_get link_pages_def Let_def add_page_facts add_page_get mk_node_def split: option.splits if_splits)
  then show ?thesis unfolding GLink graph_step.simps l pages_ok_get by (auto simp: Let_def)
qed

interpretation graph_runs: machine graph_step pages_ok
  by unfold_locales (rule pages_ok_step)

lemma mk_graph_ok: "pages_ok (mk_graph base)"
  by (simp add: mk_graph_def pages_ok_def)

section \<open>Redirect chains\<close>

text \<open>
  C30: every chain that is reported starts at its page, each hop is the redirect of the page before, all
  hops but the last are different pages; it is marked as a loop exactly when its last hop is one of the
  others, and otherwise it ends at an address that redirects no further and has its status.
\<close>

theorem redirect_chains_are_followed:
  assumes "g = foldl graph_step (mk_graph base) es" and "c \<in> set (get_redirect_chains g)"
  shows "hd (rc_chain c) = rc_start c \<and> last (rc_chain c) = rc_final c
    \<and> chain_ok (lg_pages g) (rc_chain c) (rc_loop c) (rc_status c)
    \<and> 1 \<le> rc_hops c \<and> rc_hops c \<le> int (length (lg_pages g))"
proof -
  have "d_wf (lg_pages g)"
    using graph_runs.run_inv [OF mk_graph_ok, of base es] by (simp add: assms(1) pages_ok_def)
  moreover obtain r where "r \<in> set (lg_pages g)" "c \<in> set (chain_from (lg_pages g) r)"
    using assms(2) by (auto simp: get_redirect_chains_def)
  ultimately have c: "rc_start c = fst r" "hd (rc_chain c) = fst r" "2 \<le> length (rc_chain c)"
    "chain_ok (lg_pages g) (rc_chain c) (rc_loop c) (rc_status c)"
    "rc_final c = last (rc_chain c)" "rc_hops c = int (length (rc_chain c)) - 1"
    using chain_from_ok [of "lg_pages g" r c] by blast+
  then have "distinct (butlast (rc_chain c))" "set (butlast (rc_chain c)) \<subseteq> set (d_keys (lg_pages g))"
    by (simp_all add: chain_ok_def)
  then have "length (butlast (rc_chain c)) \<le> card (set (d_keys (lg_pages g)))"
    by (metis card_mono distinct_card finite_set)
  also have "\<dots> \<le> length (lg_pages g)" by (metis card_length length_map)
  finally show ?thesis using c by simp
qed

theorem redirect_chains_are_followed_witness:
  "chain_ok (lg_pages (foldl graph_step (mk_graph ''http://a.b'')
      [GPage ''http://a.b/1'' 301 (Some ''http://a.b/2'') None, GPage ''http://a.b/2'' 301 (Some ''http://a.b/1'') None]))
     [''http://a.b/1'', ''http://a.b/2'', ''http://a.b/1''] True None"
proof -
  let ?g = "foldl graph_step (mk_graph ''http://a.b'')
      [GPage ''http://a.b/1'' 301 (Some ''http://a.b/2'') None, GPage ''http://a.b/2'' 301 (Some ''http://a.b/1'') None]"
  let ?c = "\<lparr>rc_start = ''http://a.b/1'', rc_chain = [''http://a.b/1'', ''http://a.b/2'', ''http://a.b/1''],
    rc_final = ''http://a.b/1'', rc_status = None, rc_hops = 2, rc_loop = True\<rparr>"
  have "get_redirect_chains ?g = [?c, \<lparr>rc_start = ''http://a.b/2'',
    rc_chain = [''http://a.b/2'', ''http://a.b/1'', ''http://a.b/2''],
    rc_final = ''http://a.b/2'', rc_status = None, rc_hops = 2, rc_loop = True\<rparr>]" by code_simp
  then have "?c \<in> set (get_redirect_chains ?g)" by simp
  from redirect_chains_are_followed [OF refl this] show ?thesis by simp
qed

section \<open>Exact counts\<close>

definition count_links :: "(link_edge \<Rightarrow> string) \<Rightarrow> string \<Rightarrow> link_graph \<Rightarrow> int" where
  "count_links part k g = int (length (filter (\<lambda>e. part e = k) (lg_edges g)))"

definition node_exact :: "link_graph \<Rightarrow> string \<Rightarrow> page_node \<Rightarrow> bool" where
  "node_exact g k nd \<longleftrightarrow>
     pn_url nd = k \<and> pn_out nd = count_links le_source k g \<and> pn_in nd = count_links le_target k g
     \<and> pn_external nd = (\<not> is_internal_url (lg_base g) k)"

definition edge_exact :: "link_graph \<Rightarrow> link_edge \<Rightarrow> bool" where
  "edge_exact g e \<longleftrightarrow> d_get (lg_pages g) (le_source e) \<noteq> None \<and> d_get (lg_pages g) (le_target e) \<noteq> None
     \<and> le_internal e = is_internal_url (lg_base g) (le_target e)"

definition graph_exact :: "link_graph \<Rightarrow> bool" where
  "graph_exact g \<longleftrightarrow> d_wf (lg_pages g) \<and> (\<forall>k nd. d_get (lg_pages g) k = Some nd \<longrightarrow> node_exact g k nd)
     \<and> (\<forall>e\<in>set (lg_edges g). edge_exact g e)"

text \<open>An event whose addresses are settled and that leaves the external flag to the graph.\<close>

fun plain_event :: "graph_event \<Rightarrow> bool" where
  "plain_event (GPage url code red ext) \<longleftrightarrow> ext = None"
| "plain_event (GLink s t a r) \<longleftrightarrow>
     normalize_url (normalize_url s) = normalize_url s \<and> normalize_url (normalize_url t) = normalize_url t"

lemma no_links:
  assumes "graph_exact g" and "d_get (lg_pages g) k = None"
  shows "count_links le_source k g = 0" "count_links le_target k g = 0"
proof -
  have "\<forall>e\<in>set (lg_edges g). le_source e \<noteq> k \<and> le_target e \<noteq> k"
    using assms by (auto simp: graph_exact_def edge_exact_def)
  then show "count_links le_source k g = 0" "count_links le_target k g = 0"
    by (simp_all add: count_links_def filter_empty_conv)
qed

lemma add_page_exact:
  assumes "graph_exact g"
  shows "graph_exact (snd (add_page url code red None g))"
proof -
  let ?g = "snd (add_page url code red None g)"
  have n: "count_links part k ?g = count_links part k g" for part k
    by (simp add: count_links_def add_page_facts)
  have "node_exact ?g k nd" if "d_get (lg_pages ?g) k = Some nd" for k nd
  proof (cases "d_get (lg_pages g) k")
    case None
    then show ?thesis using that no_links [OF assms None]
      by (auto simp: add_page_get node_exact_def n add_page_facts mk_node_def split: if_splits)
  next
    case (Some nd0)
    then have "node_exact g k nd0" using assms by (simp add: graph_exact_def)
    with Some that show ?thesis
      by (auto simp: add_page_get node_exact_def n add_page_facts split: if_splits)
  qed
  moreover have "edge_exact ?g e" if "e \<in> set (lg_edges ?g)" for e
    using assms that by (auto simp: graph_exact_def edge_exact_def add_page_facts add_page_get)
  ultimately show ?thesis using assms by (simp add: graph_exact_def add_page_facts)
qed

lemma link_pages_exact:
  assumes "graph_exact g" and "normalize_url s = s" and "normalize_url t = t"
  shows "graph_exact (snd (link_pages s t g))" "fst (link_pages s t g) = t"
    "d_get (lg_pages (snd (link_pages s t g))) s \<noteq> None" "d_get (lg_pages (snd (link_pages s t g))) t \<noteq> None"
  using add_page_exact [OF assms(1)] add_page_exact [OF add_page_exact [OF assms(1)]] assms(2,3)
  by (auto simp: link_pages_def Let_def add_page_facts add_page_get split: option.splits)

lemma link_exact:
  assumes "graph_exact g" and "plain_event (GLink s t a r)"
  shows "graph_exact (snd (add_link s t a r g))"
proof -
  let ?s = "normalize_url s" and ?t = "normalize_url t"
  obtain edge where e: "le_source edge = ?s" "le_target edge = ?t"
    "le_internal edge = is_internal_url (lg_base g) ?t"
    and l: "snd (add_link s t a r g) =
      change_node (fst (link_pages ?s ?t g)) (\<lambda>nd. nd\<lparr>pn_in := pn_in nd + 1\<rparr>)
        (change_node ?s (\<lambda>nd. nd\<lparr>pn_out := pn_out nd + 1\<rparr>)
          (let g2 = snd (link_pages ?s ?t g) in g2\<lparr>lg_edges := lg_edges g2 @ [edge]\<rparr>))"
    using add_link_pages by blast
  define g2 where "g2 = snd (link_pages ?s ?t g)"
  note p = link_pages_exact [OF assms(1), of ?s ?t, folded g2_def]
  have g2: "graph_exact g2" "d_get (lg_pages g2) ?s \<noteq> None" "d_get (lg_pages g2) ?t \<noteq> None"
    and k: "fst (link_pages ?s ?t g) = ?t" using p assms(2) by simp_all
  have b: "lg_base g2 = lg_base g" by (simp add: g2_def link_pages_facts)
  define g' where "g' = snd (add_link s t a r g)"
  have g': "g' = change_node ?t (\<lambda>nd. nd\<lparr>pn_in := pn_in nd + 1\<rparr>)
        (change_node ?s (\<lambda>nd. nd\<lparr>pn_out := pn_out nd + 1\<rparr>) (g2\<lparr>lg_edges := lg_edges g2 @ [edge]\<rparr>))"
    unfolding g'_def l k by (simp add: g2_def Let_def)
  have n: "count_links part k g' = count_links part k g2 + (if part edge = k then 1 else 0)" for part k
    by (simp add: count_links_def g')
  have base: "lg_base g' = lg_base g2" by (simp add: g')
  have "node_exact g' k nd" if nd: "d_get (lg_pages g') k = Some nd" for k nd
  proof -
    obtain nd0 where nd0: "d_get (lg_pages g2) k = Some nd0"
      and nd': "nd = nd0\<lparr>pn_out := pn_out nd0 + (if k = ?s then 1 else 0), pn_in := pn_in nd0 + (if k = ?t then 1 else 0)\<rparr>"
      using nd by (cases "d_get (lg_pages g2) k") (auto simp: g' split: if_splits)
    have "node_exact g2 k nd0" using g2(1) nd0 by (simp add: graph_exact_def)
    then show ?thesis by (simp add: nd' node_exact_def n e base)
  qed
  moreover have "edge_exact g' x" if "x \<in> set (lg_edges g')" for x
    using g2 that e b by (auto simp: g' graph_exact_def edge_exact_def)
  moreover have "d_wf (lg_pages g')" using g2(1) by (simp add: g' graph_exact_def)
  ultimately show ?thesis by (simp add: graph_exact_def g'_def)
qed

lemma run_exact:
  "graph_exact g \<Longrightarrow> list_all plain_event es \<Longrightarrow> graph_exact (foldl graph_step g es)"
proof (induction es arbitrary: g)
  case (Cons e es)
  have "graph_exact (graph_step g e)"
    using Cons.prems link_exact add_page_exact by (cases e) auto
  then show ?case using Cons by simp
qed simp

lemma exact_orphan:
  assumes "graph_exact g" and "(k, nd) \<in> set (lg_pages g)" and "\<not> pn_external nd"
  shows "filter (\<lambda>e. le_target e = k \<and> le_internal e) (lg_edges g) = [] \<longleftrightarrow> pn_in nd = 0"
proof -
  have nd: "node_exact g k nd"
    using assms(1,2) pages_get [of g k nd] by (simp add: graph_exact_def)
  then have "is_internal_url (lg_base g) k" using assms(3) by (simp add: node_exact_def)
  then have "filter (\<lambda>e. le_target e = k \<and> le_internal e) (lg_edges g) = filter (\<lambda>e. le_target e = k) (lg_edges g)"
    using assms(1) by (intro filter_cong) (auto simp: graph_exact_def edge_exact_def)
  then show ?thesis using nd by (simp add: node_exact_def count_links_def)
qed

text \<open>
  An address whose trimmed path has no slash at its end and no semicolon in its last segment is such an
  address; one with a second slash at its end is not, and a link from it is lost to the counts.
\<close>

lemma settled_link_plain:
  assumes "s \<noteq> []" and "urlparse s = Some p" and "settled p" and "t \<noteq> []" and "urlparse t = Some q" and "settled q"
  shows "plain_event (GLink s t a r)"
  using normalize_idempotent [OF assms(2,3,1)] normalize_idempotent [OF assms(5,6,4)] by simp

lemma unsettled_link_is_lost:
  "let g = graph_step (mk_graph ''http://a.b'') (GLink ''http://a.b/c//'' ''http://a.b/d'' [] []) in
     (map le_source (lg_edges g), map_option pn_out (d_get (lg_pages g) ''http://a.b/c/''),
      map_option pn_out (d_get (lg_pages g) ''http://a.b/c''))
     = ([''http://a.b/c/''], None, Some 0)"
  by code_simp

text \<open>
  C32: in a run whose pages leave the external flag to the graph and whose links join addresses that one
  normalization settles, the counts of every page are the numbers of links that leave it and reach it,
  every link joins two pages, and the orphan pages are the internal pages, other than the base page, that
  no link reaches.
\<close>

theorem link_counts_are_exact:
  assumes "g = foldl graph_step (mk_graph base) es" and "list_all plain_event es"
  shows "graph_exact g
    \<and> get_orphan_pages g = map snd (filter (\<lambda>(url, nd). \<not> pn_external nd \<and> url \<noteq> normalize_url (lg_base g)
                                                     \<and> pn_in nd = 0) (lg_pages g))"
proof
  have "graph_exact (mk_graph base)" by (simp add: graph_exact_def mk_graph_def)
  then show ok: "graph_exact g" unfolding assms(1) by (rule run_exact [OF _ assms(2)])
  show "get_orphan_pages g = map snd (filter (\<lambda>(url, nd). \<not> pn_external nd \<and> url \<noteq> normalize_url (lg_base g)
    \<and> pn_in nd = 0) (lg_pages g))"
    unfolding get_orphan_pages_def Let_def
    using exact_orphan [OF ok] by (intro arg_cong [where f = "map snd"] filter_cong) auto
qed

theorem link_counts_are_exact_witness:
  "\<exists>nd. d_get (lg_pages (foldl graph_step (mk_graph ''http://a.b'')
      [GPage ''http://a.b/1'' 200 None None, GLink ''http://a.b/1/'' ''http://a.b/2/'' [] []])) ''http://a.b/2'' = Some nd
    \<and> pn_in nd = 1 \<and> pn_out nd = 0"
proof -
  let ?es = "[GPage ''http://a.b/1'' 200 None None, GLink ''http://a.b/1/'' ''http://a.b/2/'' [] []]"
  let ?g = "foldl graph_step (mk_graph ''http://a.b'') ?es"
  have "list_all plain_event ?es" by code_simp
  from link_counts_are_exact [OF refl this, of "''http://a.b''"] have g: "graph_exact ?g" ..
  have run: "(d_get (lg_pages ?g) ''http://a.b/2'' \<noteq> None, count_links le_target ''http://a.b/2'' ?g,
      count_links le_source ''http://a.b/2'' ?g) = (True, 1, 0)" by code_simp
  then obtain nd where "d_get (lg_pages ?g) ''http://a.b/2'' = Some nd" by auto
  moreover from this g have "node_exact ?g ''http://a.b/2'' nd" by (simp only: graph_exact_def)
  ultimately show ?thesis using run by (simp add: node_exact_def del: foldl.simps)
qed

text \<open>
  adding a link enters its source as a page with status 200 and no redirect, whatever the page had
  before: a page that was recorded as a redirect or as broken is one no more.
\<close>

theorem link_resets_its_source:
  assumes "normalize_url (normalize_url s) = normalize_url s"
    and "normalize_url (normalize_url t) = normalize_url t"
  shows "\<exists>nd. d_get (lg_pages (snd (add_link s t a r g))) (normalize_url s) = Some nd
    \<and> pn_code nd = 200 \<and> pn_redirect nd = None"
proof -
  have "\<exists>nd. d_get (lg_pages (snd (link_pages (normalize_url s) (normalize_url t) g))) (normalize_url s) = Some nd
    \<and> pn_code nd = 200 \<and> pn_redirect nd = None"
    using assms by (auto simp: link_pages_def Let_def add_page_get split: option.splits)
  then show ?thesis using add_link_pages [of s t a r g] by (auto simp: Let_def)
qed

theorem link_resets_its_source_witness:
  "\<exists>nd. d_get (lg_pages (snd (add_link ''http://a.b/1'' ''http://a.b/2'' [] []
       (snd (add_page ''http://a.b/1'' 404 (Some ''http://a.b/3'') None (mk_graph ''http://a.b'')))))) ''http://a.b/1'' = Some nd
     \<and> pn_code nd = 200 \<and> pn_redirect nd = None"
proof -
  have n: "normalize_url ''http://a.b/1'' = ''http://a.b/1''" "normalize_url ''http://a.b/2'' = ''http://a.b/2''"
    by code_simp+
  from link_resets_its_source [of "''http://a.b/1''" "''http://a.b/2''"] n show ?thesis by simp
qed

end
