(* ===== verification/Robots.thy ===== *)
theory Robots
  imports Urls
begin

text \<open>
  \<^verbatim>\<open>backend/services/robots_service.py\<close>: the parser of \<^verbatim>\<open>robots.txt\<close>, the rule of an agent and the test of
  a path. The regular expressions that \<^verbatim>\<open>_path_matches\<close> builds have characters, \<^verbatim>\<open>.*\<close>, \<^verbatim>\<open>^\<close> and \<^verbatim>\<open>$\<close> only, and
  are modelled as lists of items. \<^verbatim>\<open>float\<close> is modelled on decimal numerals; that it reads \<^verbatim>\<open>inf\<close>, \<^verbatim>\<open>nan\<close> and
  underscores too is outside the model.
\<close>

section \<open>Text\<close>

definition is_break :: "char \<Rightarrow> bool" where
  "is_break c \<longleftrightarrow> (of_char c :: nat) \<in> {10, 11, 12, 13, 28, 29, 30}"

text \<open>\<^verbatim>\<open>s.splitlines()\<close>\<close>

function split_lines :: "string \<Rightarrow> string list" where
  "split_lines [] = []"
| "split_lines (c # s) =
     (if is_break c
      then [] # split_lines (if c = CHR 0x0D \<and> take 1 s = [CHR 0x0A] then drop 1 s else s)
      else (case split_lines s of [] \<Rightarrow> [[c]] | l # ls \<Rightarrow> (c # l) # ls))"
  by pat_completeness auto

termination split_lines
  by (relation "measure length") auto

definition parse_sign :: "string \<Rightarrow> rat \<times> string" where
  "parse_sign s = (if take 1 s = ''-'' then (- 1, drop 1 s) else if take 1 s = ''+'' then (1, drop 1 s) else (1, s))"

text \<open>\<^verbatim>\<open>float(s)\<close>; \<^const>\<open>None\<close> is the ValueError.\<close>

definition parse_float :: "string \<Rightarrow> rat option" where
  "parse_float s =
     (case parse_sign (str_strip s) of (sg, t) \<Rightarrow>
        (let m = takeWhile (\<lambda>c. c \<notin> set ''eE'') t; x = dropWhile (\<lambda>c. c \<notin> set ''eE'') t;
             whole = before (CHR ''.'') m; frac = behind (CHR ''.'') m;
             (esg, e) = parse_sign (drop 1 x)
         in if list_all is_digit (whole @ frac @ e) \<and> whole @ frac \<noteq> [] \<and> (x = [] \<or> e \<noteq> [])
            then Some (sg * of_nat (digits_val (whole @ frac)) / 10 ^ length frac
                       * (if x = [] then 1 else if esg = 1 then 10 ^ digits_val e else 1 / 10 ^ digits_val e))
            else None))"

section \<open>Parsing\<close>

record robots_rule =
  rr_agent :: string
  rr_allow :: "string list"
  rr_disallow :: "string list"
  rr_delay :: "rat option"

definition mk_rule :: "string \<Rightarrow> robots_rule" where
  "mk_rule agent = \<lparr>rr_agent = str_lower (str_strip agent), rr_allow = [], rr_disallow = [], rr_delay = None\<rparr>"

record robots =
  rs_raw :: string
  rs_sitemaps :: "string list"
  rs_rules :: "(string, robots_rule) py_dict"

text \<open>The agents of the current group, whether it has a directive, and the tables.\<close>

record robots_parser =
  rp_agents :: "string list"
  rp_expecting :: bool
  rp_sitemaps :: "string list"
  rp_rules :: "(string, robots_rule) py_dict"

definition add_rule :: "(string, robots_rule) py_dict \<Rightarrow> string \<Rightarrow> (string, robots_rule) py_dict" where
  "add_rule rules ag = (if ag \<in> set (d_keys rules) then rules else d_set ag (mk_rule ag) rules)"

definition directive :: "string \<Rightarrow> string \<Rightarrow> robots_rule \<Rightarrow> robots_rule" where
  "directive key val rule =
     (if key = ''allow'' then if val \<noteq> [] then rule\<lparr>rr_allow := rr_allow rule @ [val]\<rparr> else rule
      else if key = ''disallow'' then if val \<noteq> [] then rule\<lparr>rr_disallow := rr_disallow rule @ [val]\<rparr> else rule
      else if key = ''crawl-delay''
      then (case parse_float val of None \<Rightarrow> rule | Some d \<Rightarrow> rule\<lparr>rr_delay := Some d\<rparr>)
      else rule)"

definition apply_directive ::
  "string \<Rightarrow> string \<Rightarrow> (string, robots_rule) py_dict \<Rightarrow> string \<Rightarrow> (string, robots_rule) py_dict" where
  "apply_directive key val rules ag =
     (case d_get rules ag of None \<Rightarrow> rules | Some rule \<Rightarrow> d_set ag (directive key val rule) rules)"

definition parse_entry :: "string \<Rightarrow> string \<Rightarrow> robots_parser \<Rightarrow> robots_parser" where
  "parse_entry key val p =
     (if key = ''user-agent''
      then (let agent = str_lower val;
                agents = (if rp_expecting p then [agent]
                          else if agent \<in> set (rp_agents p) then rp_agents p else rp_agents p @ [agent])
            in p\<lparr>rp_agents := agents, rp_expecting := False, rp_rules := foldl add_rule (rp_rules p) agents\<rparr>)
      else if key = ''sitemap''
      then (if val \<noteq> [] \<and> val \<notin> set (rp_sitemaps p) then p\<lparr>rp_sitemaps := rp_sitemaps p @ [val]\<rparr> else p)
      else if rp_agents p \<noteq> []
      then p\<lparr>rp_expecting := True, rp_rules := foldl (apply_directive key val) (rp_rules p) (rp_agents p)\<rparr>
      else p)"

definition parse_line :: "robots_parser \<Rightarrow> string \<Rightarrow> robots_parser" where
  "parse_line p raw =
     (let line = str_strip (before (CHR ''#'') raw)
      in if line = [] \<or> CHR '':'' \<notin> set line then p
         else parse_entry (str_lower (str_strip (before (CHR '':'') line))) (str_strip (behind (CHR '':'') line)) p)"

definition robots_parse :: "string \<Rightarrow> robots" where
  "robots_parse content =
     (let p = foldl parse_line \<lparr>rp_agents = [], rp_expecting = False, rp_sitemaps = [], rp_rules = []\<rparr>
                (split_lines content)
      in \<lparr>rs_raw = content, rs_sitemaps = rp_sitemaps p, rs_rules = rp_rules p\<rparr>)"

definition mk_robots :: "string \<Rightarrow> robots" where
  "mk_robots content =
     (if content \<noteq> [] then robots_parse content else \<lparr>rs_raw = content, rs_sitemaps = [], rs_rules = []\<rparr>)"

section \<open>The test of a path\<close>

definition get_rule_for_agent :: "string \<Rightarrow> robots \<Rightarrow> robots_rule option" where
  "get_rule_for_agent agent rb =
     (case d_get (rs_rules rb) (str_lower agent) of
        Some r \<Rightarrow> Some r
      | None \<Rightarrow> d_get (rs_rules rb) ''*'')"

datatype pat_item = Lit char | AnyText

definition pat_items :: "string \<Rightarrow> pat_item list" where
  "pat_items pattern = map (\<lambda>c. if c = CHR ''*'' then AnyText else Lit c) pattern"

text \<open>
  The match of a regular expression at a position: the dot is no line end, and \<^verbatim>\<open>$\<close> is the end of the
  text or the place before a last line end.
\<close>

function (sequential) match_items :: "bool \<Rightarrow> pat_item list \<Rightarrow> string \<Rightarrow> bool" where
  "match_items dollar [] s \<longleftrightarrow> (if dollar then s = [] \<or> s = [CHR 0x0A] else True)"
| "match_items dollar (Lit c # ps) s \<longleftrightarrow> (case s of [] \<Rightarrow> False | x # t \<Rightarrow> x = c \<and> match_items dollar ps t)"
| "match_items dollar (AnyText # ps) s \<longleftrightarrow>
     match_items dollar ps s
     \<or> (case s of [] \<Rightarrow> False | x # t \<Rightarrow> x \<noteq> CHR 0x0A \<and> match_items dollar (AnyText # ps) t)"
  by pat_completeness auto

termination match_items
  by (relation "measures [\<lambda>(d, ps, s). length s, \<lambda>(d, ps, s). length ps]") auto

fun search_items :: "bool \<Rightarrow> pat_item list \<Rightarrow> string \<Rightarrow> bool" where
  "search_items dollar ps [] \<longleftrightarrow> match_items dollar ps []"
| "search_items dollar ps (c # s) \<longleftrightarrow> match_items dollar ps (c # s) \<or> search_items dollar ps s"

text \<open>An expression that ends in \<^verbatim>\<open>$\<close> is searched, every other one has to match at the start.\<close>

definition path_matches :: "string \<Rightarrow> string \<Rightarrow> bool" where
  "path_matches path pattern \<longleftrightarrow>
     pattern \<noteq> []
     \<and> (if last pattern = CHR ''$'' then search_items True (pat_items (butlast pattern)) path
        else match_items False (pat_items pattern) path)"

fun disallow_loop :: "string \<Rightarrow> string list \<Rightarrow> int \<times> bool \<Rightarrow> int \<times> bool" where
  "disallow_loop path [] a = a"
| "disallow_loop path (d # ds) (longest, allowed) =
     disallow_loop path ds
       (if path_matches path d \<and> longest < int (length d) then (int (length d), False) else (longest, allowed))"

fun allow_loop :: "string \<Rightarrow> string list \<Rightarrow> int \<times> bool \<Rightarrow> int \<times> bool" where
  "allow_loop path [] a = a"
| "allow_loop path (d # ds) (longest, allowed) =
     allow_loop path ds
       (if path_matches path d \<and> longest \<le> int (length d) then (int (length d), True) else (longest, allowed))"

definition is_allowed :: "string \<Rightarrow> string \<Rightarrow> robots \<Rightarrow> bool" where
  "is_allowed path agent rb =
     (case get_rule_for_agent agent rb of
        None \<Rightarrow> True
      | Some rule \<Rightarrow>
          snd (allow_loop path (rr_allow rule) (disallow_loop path (rr_disallow rule) (- 1, True))))"

definition get_crawl_delay :: "string \<Rightarrow> robots \<Rightarrow> rat option" where
  "get_crawl_delay agent rb = (case get_rule_for_agent agent rb of None \<Rightarrow> None | Some r \<Rightarrow> rr_delay r)"

text \<open>The answer of \<^verbatim>\<open>to_dict\<close>.\<close>

record robots_view =
  rv_sitemaps :: "string list"
  rv_agent :: string
  rv_delay :: "rat option"
  rv_allow :: "string list"
  rv_disallow :: "string list"
  rv_rules :: "(string, robots_rule) py_dict"

definition robots_dict :: "string \<Rightarrow> robots \<Rightarrow> robots_view" where
  "robots_dict agent rb =
     (let rule = get_rule_for_agent agent rb
      in \<lparr>rv_sitemaps = rs_sitemaps rb, rv_agent = agent,
          rv_delay = (case rule of None \<Rightarrow> None | Some r \<Rightarrow> rr_delay r),
          rv_allow = (case rule of None \<Rightarrow> [] | Some r \<Rightarrow> rr_allow r),
          rv_disallow = (case rule of None \<Rightarrow> [] | Some r \<Rightarrow> rr_disallow r),
          rv_rules = rs_rules rb\<rparr>)"

end
