(* ===== verification/Robots_Props.thy ===== *)
theory Robots_Props
  imports Robots
begin

text \<open>
  The test of a path against its specifications - the language of a pattern and the longest match among
  the rules - and the parser on the text that a writer of rules prints.
\<close>

section \<open>The language of a pattern\<close>

inductive lang :: "pat_item list \<Rightarrow> string \<Rightarrow> bool" where
  lang_Nil: "lang [] []"
| lang_Lit: "lang ps u \<Longrightarrow> lang (Lit c # ps) (c # u)"
| lang_Any: "lang ps u \<Longrightarrow> lang (AnyText # ps) u"
| lang_More: "x \<noteq> CHR 0x0A \<Longrightarrow> lang (AnyText # ps) u \<Longrightarrow> lang (AnyText # ps) (x # u)"

inductive_cases lang_NilE: "lang [] u"
inductive_cases lang_LitE: "lang (Lit c # ps) u"
inductive_cases lang_AnyE: "lang (AnyText # ps) u"
inductive_simps lang_simps: "lang [] u" "lang (Lit c # ps) u"

definition line_end :: "string \<Rightarrow> bool" where
  "line_end t \<longleftrightarrow> t = [] \<or> t = [CHR 0x0A]"

lemma match_items_lang:
  "match_items dollar ps s \<longleftrightarrow> (\<exists>u t. s = u @ t \<and> lang ps u \<and> (dollar \<longrightarrow> line_end t))"
proof (induction dollar ps s rule: match_items.induct)
  case (1 dollar s)
  then show ?case by (auto simp: lang_simps line_end_def)
next
  case (2 dollar c ps s)
  show ?case
  proof (cases s)
    case (Cons x t)
    have "match_items dollar (Lit c # ps) s \<longleftrightarrow> x = c \<and> (\<exists>u v. t = u @ v \<and> lang ps u \<and> (dollar \<longrightarrow> line_end v))"
      using 2 Cons by simp
    also have "\<dots> \<longleftrightarrow> (\<exists>u v. s = u @ v \<and> lang (Lit c # ps) u \<and> (dollar \<longrightarrow> line_end v))"
      unfolding Cons lang_simps by (blast intro: append_Cons [symmetric] dest: Cons_eq_append_conv [THEN iffD1])
    finally show ?thesis .
  qed (auto simp: lang_simps)
next
  case (3 dollar ps s)
  show ?case
  proof
    assume "match_items dollar (AnyText # ps) s"
    then show "\<exists>u t. s = u @ t \<and> lang (AnyText # ps) u \<and> (dollar \<longrightarrow> line_end t)"
    proof (cases "match_items dollar ps s")
      case True
      then show ?thesis using "3.IH"(1) lang_Any by blast
    next
      case False
      with \<open>match_items dollar (AnyText # ps) s\<close> obtain x s' where s: "s = x # s'" "x \<noteq> CHR 0x0A"
        "match_items dollar (AnyText # ps) s'" by (cases s) auto
      then obtain u t where "s' = u @ t" "lang (AnyText # ps) u" "dollar \<longrightarrow> line_end t"
        using "3.IH"(2) by blast
      then show ?thesis using s lang_More by (metis append_Cons)
    qed
  next
    assume "\<exists>u t. s = u @ t \<and> lang (AnyText # ps) u \<and> (dollar \<longrightarrow> line_end t)"
    then obtain u t where ut: "s = u @ t" "lang (AnyText # ps) u" "dollar \<longrightarrow> line_end t" by blast
    consider "lang ps u" | x v where "u = x # v" "x \<noteq> CHR 0x0A" "lang (AnyText # ps) v"
      using lang_AnyE [OF ut(2)] by metis
    then show "match_items dollar (AnyText # ps) s"
    proof cases
      case 1
      then have "match_items dollar ps s" using ut "3.IH"(1) by blast
      then show ?thesis by simp
    next
      case (2 x v)
      then have "match_items dollar (AnyText # ps) (v @ t)" using ut "3.IH"(2) [of x "v @ t"] by auto
      then show ?thesis using 2 ut(1) by simp
    qed
  qed
qed

lemma search_items_match: "search_items dollar ps s \<longleftrightarrow> (\<exists>x t. s = x @ t \<and> match_items dollar ps t)"
proof (induction s)
  case (Cons c s)
  show ?case
    unfolding search_items.simps Cons.IH by (auto simp: Cons_eq_append_conv)
qed simp

lemma split_path:
  "(\<exists>x t. path = x @ t \<and> (\<exists>u v. t = u @ v \<and> P u v)) \<longleftrightarrow> (\<exists>x u v. path = x @ u @ v \<and> P u v)"
  by blast

lemma path_matches_iff:
  "path_matches path pattern =
     (pattern \<noteq> []
      \<and> (if last pattern = CHR ''$''
         then \<exists>x u t. path = x @ u @ t \<and> lang (pat_items (butlast pattern)) u \<and> line_end t
         else \<exists>u t. path = u @ t \<and> lang (pat_items pattern) u))"
proof (cases "last pattern = CHR ''$''")
  case True
  have "search_items True (pat_items (butlast pattern)) path
      = (\<exists>x t. path = x @ t \<and> (\<exists>u v. t = u @ v \<and> (lang (pat_items (butlast pattern)) u \<and> line_end v)))"
    unfolding search_items_match match_items_lang by simp
  also have "\<dots> = (\<exists>x u t. path = x @ u @ t \<and> lang (pat_items (butlast pattern)) u \<and> line_end t)"
    by (rule split_path)
  finally show ?thesis using True by (simp only: path_matches_def if_True simp_thms)
next
  case False
  then show ?thesis by (simp only: path_matches_def match_items_lang if_False simp_thms)
qed

text \<open>
  C14: a pattern matches a path when the path starts with a text of the pattern's language, where a star
  stands for any text without a line end; a pattern that ends in a dollar sign matches when the path ends
  with such a text, wherever the text starts.
\<close>

theorem path_matches_language:
  "path_matches path pattern =
     (pattern \<noteq> []
      \<and> (if last pattern = CHR ''$''
         then \<exists>x u t. path = x @ u @ t \<and> lang (pat_items (butlast pattern)) u \<and> line_end t
         else \<exists>u t. path = u @ t \<and> lang (pat_items pattern) u))"
  by (rule path_matches_iff)

lemma lang_literal: "CHR ''*'' \<notin> set p \<Longrightarrow> lang (pat_items p) p"
  by (induction p) (auto simp: pat_items_def intro: lang.intros)

text \<open>
  a pattern that ends in a dollar sign is not tied to the start of the path: it matches every path
  that ends with its text, in whatever directory.
\<close>

theorem dollar_pattern_is_unanchored:
  assumes "CHR ''*'' \<notin> set p"
  shows "path_matches (prefix @ p) (p @ ''$'')"
proof -
  have "lang (pat_items (butlast (p @ ''$''))) p" using lang_literal [OF assms] by simp
  moreover have "line_end []" by (simp add: line_end_def)
  moreover have "prefix @ p = prefix @ p @ []" by simp
  ultimately have "\<exists>x u t. prefix @ p = x @ u @ t \<and> lang (pat_items (butlast (p @ ''$''))) u \<and> line_end t" by blast
  then show ?thesis by (simp add: path_matches_iff)
qed

theorem dollar_pattern_is_unanchored_witness: "path_matches (''/shop'' @ ''/a'') (''/a'' @ ''$'')"
  by (rule dollar_pattern_is_unanchored) simp

section \<open>The longest match\<close>

definition best :: "string \<Rightarrow> string list \<Rightarrow> int" where
  "best path ps = foldr (\<lambda>p m. if path_matches path p then max (int (length p)) m else m) ps (- 1)"

lemma best_ge: "- 1 \<le> best path ps"
  by (induction ps) (auto simp: best_def)

lemma best_upper: "p \<in> set ps \<Longrightarrow> path_matches path p \<Longrightarrow> int (length p) \<le> best path ps"
  by (induction ps) (auto simp: best_def)

lemma best_attained: "best path ps = - 1 \<or> (\<exists>p\<in>set ps. path_matches path p \<and> best path ps = int (length p))"
  by (induction ps) (auto simp: best_def max_def)

lemma disallow_loop_best:
  "- 1 \<le> l \<Longrightarrow> disallow_loop path ds (l, al) = (max l (best path ds), al \<and> best path ds \<le> l)"
proof (induction ds arbitrary: l al)
  case Nil
  then show ?case by (simp add: best_def)
next
  case (Cons d ds)
  show ?case
  proof (cases "path_matches path d \<and> l < int (length d)")
    case True
    have "disallow_loop path (d # ds) (l, al) = (max (int (length d)) (best path ds), False)"
      using True Cons.IH [of "int (length d)" False] Cons.prems by simp
    moreover have "best path (d # ds) = max (int (length d)) (best path ds)" using True by (simp add: best_def)
    ultimately show ?thesis using True by auto
  next
    case False
    have "disallow_loop path (d # ds) (l, al) = (max l (best path ds), al \<and> best path ds \<le> l)"
      using False Cons.IH [OF Cons.prems] by auto
    then show ?thesis using False by (auto simp: best_def)
  qed
qed

lemma allow_loop_best:
  "- 1 \<le> l \<Longrightarrow> snd (allow_loop path as (l, al)) = (al \<or> list_ex (\<lambda>a. path_matches path a \<and> l \<le> int (length a)) as)"
proof (induction as arbitrary: l al)
  case (Cons a as)
  then show ?case
    using Cons.IH [of "int (length a)" True] Cons.IH [of l al] by auto
qed simp

text \<open>
  C15: the two loops decide by the longest match: a path is refused when some disallow pattern matches it
  and no allow pattern that is at least as long does.
\<close>

theorem is_allowed_longest_match:
  "is_allowed path agent rb =
     (case get_rule_for_agent agent rb of
        None \<Rightarrow> True
      | Some r \<Rightarrow>
          \<not> list_ex (\<lambda>d. path_matches path d
                \<and> \<not> list_ex (\<lambda>a. path_matches path a \<and> length d \<le> length a) (rr_allow r)) (rr_disallow r))"
proof (cases "get_rule_for_agent agent rb")
  case (Some r)
  let ?d = "best path (rr_disallow r)" and ?as = "rr_allow r"
  have "is_allowed path agent rb = (?d \<le> - 1 \<or> list_ex (\<lambda>a. path_matches path a \<and> ?d \<le> int (length a)) ?as)"
    using best_ge [of path "rr_disallow r"]
    by (simp add: is_allowed_def Some disallow_loop_best allow_loop_best max_def)
  also have "\<dots> = (\<not> list_ex (\<lambda>d. path_matches path d
                \<and> \<not> list_ex (\<lambda>a. path_matches path a \<and> length d \<le> length a) ?as) (rr_disallow r))"
  proof (cases "?d \<le> - 1")
    case True
    then have "\<not> list_ex (path_matches path) (rr_disallow r)"
      using best_upper [of _ "rr_disallow r" path] by (fastforce simp: list_ex_iff)
    with True show ?thesis by (auto simp: list_ex_iff)
  next
    case False
    then obtain m where m: "m \<in> set (rr_disallow r)" "path_matches path m" "?d = int (length m)"
      using best_attained [of path "rr_disallow r"] by force
    have up: "length d \<le> length m" if "d \<in> set (rr_disallow r)" "path_matches path d" for d
      using best_upper [OF that] m(3) by simp
    have "(?d \<le> - 1 \<or> list_ex (\<lambda>a. path_matches path a \<and> ?d \<le> int (length a)) ?as)
        = list_ex (\<lambda>a. path_matches path a \<and> length m \<le> length a) ?as"
      using False m(3) by simp
    also have "\<dots> = (\<not> list_ex (\<lambda>d. path_matches path d
        \<and> \<not> list_ex (\<lambda>a. path_matches path a \<and> length d \<le> length a) ?as) (rr_disallow r))"
      unfolding list_ex_iff using m(1,2) up le_trans by blast
    finally show ?thesis .
  qed
  finally show ?thesis by (simp add: Some)
qed (simp add: is_allowed_def)

section \<open>Printing and parsing\<close>

text \<open>A writer of rules: one group per agent, with its allow and disallow patterns.\<close>

type_synonym robots_group = "string \<times> string list \<times> string list"

definition print_line :: "string \<Rightarrow> string \<Rightarrow> string" where
  "print_line key val = key @ '': '' @ val"

definition group_lines :: "robots_group \<Rightarrow> string list" where
  "group_lines = (\<lambda>(agent, allow, disallow).
     print_line ''User-agent'' agent # map (print_line ''Allow'') allow @ map (print_line ''Disallow'') disallow)"

definition print_robots :: "robots_group list \<Rightarrow> string" where
  "print_robots gs = concat (map (\<lambda>l. l @ [CHR 0x0A]) (concat (map group_lines gs)))"

definition clean_value :: "string \<Rightarrow> bool" where
  "clean_value v \<longleftrightarrow> v \<noteq> [] \<and> \<not> is_space (hd v) \<and> \<not> is_space (last v) \<and> CHR ''#'' \<notin> set v
     \<and> list_all (\<lambda>c. \<not> is_break c) v"

definition group_ok :: "robots_group \<Rightarrow> bool" where
  "group_ok = (\<lambda>(agent, allow, disallow).
     clean_value agent \<and> str_lower agent = agent \<and> list_all clean_value (allow @ disallow) \<and> allow @ disallow \<noteq> [])"

definition group_rule :: "robots_group \<Rightarrow> string \<times> robots_rule" where
  "group_rule = (\<lambda>(agent, allow, disallow).
     (agent, \<lparr>rr_agent = agent, rr_allow = allow, rr_disallow = disallow, rr_delay = None\<rparr>))"

lemma split_lines_break: "list_all (\<lambda>c. \<not> is_break c) l \<Longrightarrow> split_lines (l @ CHR 0x0A # s) = l # split_lines s"
  by (induction l) (simp_all add: is_break_def)

lemma split_lines_concat:
  "list_all (list_all (\<lambda>c. \<not> is_break c)) ls \<Longrightarrow> split_lines (concat (map (\<lambda>l. l @ [CHR 0x0A]) ls)) = ls"
  by (induction ls) (simp_all add: split_lines_break)

lemma strip_clean: "v \<noteq> [] \<Longrightarrow> \<not> is_space (hd v) \<Longrightarrow> \<not> is_space (last v) \<Longrightarrow> str_strip v = v"
proof -
  assume v: "v \<noteq> []" "\<not> is_space (hd v)" "\<not> is_space (last v)"
  then have "dropWhile is_space v = v" by (cases v) auto
  moreover have "dropWhile is_space (rev v) = rev v" using v(1,3) by (cases v rule: rev_cases) auto
  ultimately show ?thesis by (simp add: str_strip_def)
qed

lemma strip_blank: "str_strip (CHR '' '' # v) = str_strip v"
  by (simp add: str_strip_def is_space_def)

text \<open>Keys of the writer.\<close>

definition key_ok :: "string \<Rightarrow> bool" where
  "key_ok k \<longleftrightarrow> k \<noteq> [] \<and> \<not> is_space (hd k) \<and> \<not> is_space (last k) \<and> CHR ''#'' \<notin> set k \<and> CHR '':'' \<notin> set k
     \<and> list_all (\<lambda>c. \<not> is_break c) k"

lemma print_line_break: "key_ok k \<Longrightarrow> clean_value v \<Longrightarrow> list_all (\<lambda>c. \<not> is_break c) (print_line k v)"
  by (simp add: print_line_def key_ok_def clean_value_def is_break_def)

lemma parse_print_line:
  assumes k: "key_ok k" and v: "clean_value v"
  shows "parse_line p (print_line k v) = parse_entry (str_lower k) v p"
proof -
  let ?l = "print_line k v"
  have "CHR ''#'' \<notin> set ?l" using k v by (simp add: print_line_def key_ok_def clean_value_def)
  then have h: "before (CHR ''#'') ?l = ?l" by (rule before_append)
  have s: "str_strip ?l = ?l"
    using k v by (intro strip_clean) (auto simp: print_line_def key_ok_def clean_value_def)
  have c: "?l = k @ CHR '':'' # CHR '' '' # v" by (simp add: print_line_def)
  have kc: "CHR '':'' \<notin> set k" using k by (simp add: key_ok_def)
  have parts: "before (CHR '':'') ?l = k" "behind (CHR '':'') ?l = CHR '' '' # v" "?l \<noteq> []" "CHR '':'' \<in> set ?l"
    unfolding c using before_append(1,2) [OF kc, of "CHR '' '' # v"] by simp_all
  have "str_strip k = k" using k by (intro strip_clean) (simp_all add: key_ok_def)
  moreover have "str_strip (CHR '' '' # v) = v"
    unfolding strip_blank using v by (intro strip_clean) (simp_all add: clean_value_def)
  ultimately show ?thesis by (simp add: parse_line_def h s parts Let_def)
qed

lemma keys_ok: "key_ok ''User-agent''" "key_ok ''Allow''" "key_ok ''Disallow''"
  "str_lower ''User-agent'' = ''user-agent''" "str_lower ''Allow'' = ''allow''" "str_lower ''Disallow'' = ''disallow''"
  by code_simp+

lemma d_set_last: "k \<notin> set (d_keys d) \<Longrightarrow> d_set k v (d @ [(k, w)]) = d @ [(k, v)]"
  by (induction d) auto

text \<open>Directives of the last group.\<close>

definition in_group :: "robots_parser \<Rightarrow> (string, robots_rule) py_dict \<Rightarrow> string \<Rightarrow> robots_rule \<Rightarrow> bool" where
  "in_group p rules agent rule \<longleftrightarrow> rp_agents p = [agent] \<and> rp_rules p = rules @ [(agent, rule)]
     \<and> agent \<notin> set (d_keys rules)"

lemma directive_in_group:
  assumes "in_group p rules agent rule" and "key = ''allow'' \<or> key = ''disallow''"
  shows "in_group (parse_entry key v p) rules agent (directive key v rule) \<and> rp_expecting (parse_entry key v p)"
proof -
  have "d_get (rules @ [(agent, rule)]) agent = Some rule"
    using assms(1) by (simp add: in_group_def map_add_def map_of_eq_None_iff [THEN iffD2] split: option.split)
  then show ?thesis
    using assms by (auto simp: in_group_def parse_entry_def apply_directive_def d_set_last)
qed

lemma directives_in_group:
  assumes "in_group p rules agent rule" and "list_all clean_value vs"
  shows "in_group (foldl parse_line p (map (print_line ''Allow'') vs)) rules agent (rule\<lparr>rr_allow := rr_allow rule @ vs\<rparr>)
      \<and> rp_expecting (foldl parse_line p (map (print_line ''Allow'') vs)) = (rp_expecting p \<or> vs \<noteq> [])"
    and "in_group (foldl parse_line p (map (print_line ''Disallow'') vs)) rules agent (rule\<lparr>rr_disallow := rr_disallow rule @ vs\<rparr>)
      \<and> rp_expecting (foldl parse_line p (map (print_line ''Disallow'') vs)) = (rp_expecting p \<or> vs \<noteq> [])"
  using assms
proof (induction vs arbitrary: p rule)
  case Nil
  case 1
  then show ?case by simp
next
  case Nil
  case 2
  then show ?case by simp
next
  case (Cons v vs)
  case 1
  note d = directive_in_group [OF 1(1), of "''allow''" v]
  show ?case
    using Cons.IH(1) [of "parse_entry ''allow'' v p" "directive ''allow'' v rule"] d 1(2)
    by (simp add: parse_print_line keys_ok directive_def clean_value_def)
next
  case (Cons v vs)
  case 2
  note d = directive_in_group [OF 2(1), of "''disallow''" v]
  show ?case
    using Cons.IH(2) [of "parse_entry ''disallow'' v p" "directive ''disallow'' v rule"] d 2(2)
    by (simp add: parse_print_line keys_ok directive_def clean_value_def)
qed

lemma group_parsed:
  assumes "group_ok (agent, allow, disallow)" and "rp_expecting p \<or> rp_agents p = []"
    and "agent \<notin> set (d_keys (rp_rules p))"
  shows "rp_expecting (foldl parse_line p (group_lines (agent, allow, disallow)))
    \<and> rp_rules (foldl parse_line p (group_lines (agent, allow, disallow)))
        = rp_rules p @ [group_rule (agent, allow, disallow)]"
proof -
  have g: "clean_value agent" "str_lower agent = agent" "list_all clean_value allow" "list_all clean_value disallow"
    "allow \<noteq> [] \<or> disallow \<noteq> []" using assms(1) by (auto simp: group_ok_def)
  define p1 where "p1 = parse_line p (print_line ''User-agent'' agent)"
  have "d_set agent r (rp_rules p) = rp_rules p @ [(agent, r)]" for r
    using assms(3) by (rule d_set_fresh)
  moreover have "str_strip agent = agent" using g(1) by (simp add: clean_value_def strip_clean)
  ultimately have "in_group p1 (rp_rules p) agent \<lparr>rr_agent = agent, rr_allow = [], rr_disallow = [], rr_delay = None\<rparr>"
    using assms(2,3) g(1,2)
    by (auto simp: p1_def parse_print_line keys_ok parse_entry_def Let_def add_rule_def in_group_def mk_rule_def)
  note a = directives_in_group(1) [OF this g(3)]
  note b = directives_in_group(2) [OF conjunct1 [OF a] g(4)]
  show ?thesis
    using a b g(5) by (simp add: group_lines_def group_rule_def in_group_def p1_def)
qed

lemma groups_parsed:
  assumes "list_all group_ok gs" and "distinct (map fst gs)" and "rp_expecting p \<or> rp_agents p = []"
    and "set (map fst gs) \<inter> set (d_keys (rp_rules p)) = {}"
  shows "rp_rules (foldl parse_line p (concat (map group_lines gs))) = rp_rules p @ map group_rule gs"
  using assms
proof (induction gs arbitrary: p)
  case (Cons g gs)
  obtain agent allow disallow where g: "g = (agent, allow, disallow)" by (cases g) auto
  note s = group_parsed [of agent allow disallow p, folded g]
  show ?case
    using Cons.IH [of "foldl parse_line p (group_lines g)"] s Cons.prems
    by (auto simp: g group_rule_def)
qed simp

text \<open>
  what a writer prints - one group per agent, each with at least a pattern, in text without
  surrounding blanks, comments and line ends - is parsed into exactly those rules.
\<close>

theorem robots_roundtrip:
  assumes "list_all group_ok gs" and "distinct (map fst gs)"
  shows "rs_rules (mk_robots (print_robots gs)) = map group_rule gs"
proof -
  have "list_all (list_all (\<lambda>c. \<not> is_break c)) (concat (map group_lines gs))"
    using assms(1) keys_ok print_line_break
    by (induction gs) (auto simp: group_lines_def group_ok_def list_all_iff [of clean_value]
        list_all_iff [of "list_all (\<lambda>c. \<not> is_break c)"])
  then have l: "split_lines (print_robots gs) = concat (map group_lines gs)"
    unfolding print_robots_def by (rule split_lines_concat)
  have "rs_rules (robots_parse (print_robots gs)) = map group_rule gs"
    using groups_parsed [OF assms] by (simp add: robots_parse_def l Let_def)
  moreover have "rs_rules (robots_parse []) = []" by (simp add: robots_parse_def Let_def)
  ultimately show ?thesis by (auto simp: mk_robots_def)
qed

theorem robots_roundtrip_witness:
  "rs_rules (mk_robots (print_robots [(''*'', [''/a''], [''/'']), (''bot'', [], [''/x*''])]))
   = [group_rule (''*'', [''/a''], [''/'']), group_rule (''bot'', [], [''/x*''])]"
proof -
  have ok: "list_all group_ok [(''*'', [''/a''], [''/'']), (''bot'', [], [''/x*''])]" by code_simp
  from robots_roundtrip [OF this] show ?thesis by simp
qed

end
