(* ===== verification/Ssrf.thy ===== *)
theory Ssrf
  imports Urls Errors "HOL-Library.Word"
begin

text \<open>
  \<^verbatim>\<open>backend/ssrf_protection.py\<close>: the networks and host names that a request must not reach, the test of
  an address and the validation of a URL. What it uses of Python's \<^verbatim>\<open>ipaddress\<close> (version 3.11) is modelled:
  the parsers of addresses and the tests of classes of addresses. An IPv4 address is a 32 bit word, an IPv6 address
  a 128 bit word; its scope is no part of any test. The resolver of host names is a parameter: it returns
  the addresses as text or raises.
\<close>

unbundle bit_operations_syntax

section \<open>Addresses\<close>

datatype ip_addr = IPv4 "32 word" | IPv6 "128 word"

definition ip4 :: "int \<Rightarrow> int \<Rightarrow> int \<Rightarrow> int \<Rightarrow> 32 word" where
  "ip4 a b c d = word_of_int (((a * 256 + b) * 256 + c) * 256 + d)"

text \<open>The first two groups of an address, the rest zero.\<close>

definition ip6 :: "int \<Rightarrow> int \<Rightarrow> 128 word" where
  "ip6 a b = push_bit 96 (word_of_int (a * 65536 + b))"

text \<open>An octet: one to three digits, no leading zero, at most 255.\<close>

definition parse_octet :: "string \<Rightarrow> nat option" where
  "parse_octet s =
     (if s = [] \<or> \<not> list_all is_digit s \<or> 3 < length s then None
      else if s \<noteq> ''0'' \<and> hd s = CHR ''0'' then None
      else if 255 < digits_val s then None
      else Some (digits_val s))"

definition parse_ip4 :: "string \<Rightarrow> 32 word option" where
  "parse_ip4 s =
     (case map parse_octet (split_on (CHR ''.'') s) of
        [Some a, Some b, Some c, Some d] \<Rightarrow> Some (ip4 (int a) (int b) (int c) (int d))
      | _ \<Rightarrow> None)"

definition hex_val :: "char \<Rightarrow> int" where
  "hex_val c =
     (if is_digit c then of_char c - 48 else of_char (char_lower c) - 87)"

definition is_hex :: "char \<Rightarrow> bool" where
  "is_hex c \<longleftrightarrow> is_digit c \<or> (97 \<le> (of_char (char_lower c) :: nat) \<and> (of_char (char_lower c) :: nat) \<le> 102)"

definition parse_hextet :: "string \<Rightarrow> int option" where
  "parse_hextet s =
     (if s = [] \<or> \<not> list_all is_hex s \<or> 4 < length s then None
      else Some (foldl (\<lambda>a c. 16 * a + hex_val c) 0 s))"

fun all_hextets :: "string list \<Rightarrow> int list option" where
  "all_hextets [] = Some []"
| "all_hextets (p # ps) =
     (case (parse_hextet p, all_hextets ps) of (Some h, Some hs) \<Rightarrow> Some (h # hs) | _ \<Rightarrow> None)"

definition join_hextets :: "int list \<Rightarrow> 128 word" where
  "join_hextets hs = foldl (\<lambda>a h. push_bit 16 a OR word_of_int h) 0 hs"

text \<open>
  The groups between the colons; a last group with a dot is an IPv4 address and stands for two groups,
  which are passed on as numbers.
\<close>

definition split_groups :: "string \<Rightarrow> (string list \<times> int list) option" where
  "split_groups s =
     (let parts = split_on (CHR '':'') s
      in if length parts < 3 then None
         else if CHR ''.'' \<in> set (last parts)
         then (case parse_ip4 (last parts) of
                 None \<Rightarrow> None
               | Some w \<Rightarrow> Some (butlast parts, [uint (drop_bit 16 w), uint (w AND 0xFFFF)]))
         else Some (parts, []))"

text \<open>The empty groups other than the first and the last one.\<close>

definition inner_empty :: "nat \<Rightarrow> string list \<Rightarrow> nat list" where
  "inner_empty n parts = filter (\<lambda>i. 0 < i \<and> i + 1 < n \<and> parts ! i = []) [0..<length parts]"

definition parse_ip6_groups :: "string list \<Rightarrow> int list \<Rightarrow> 128 word option" where
  "parse_ip6_groups parts tail =
     (let n = length parts + length tail;
          last_empty = (tail = [] \<and> last parts = [])
      in if 9 < n then None
         else
           (case inner_empty n parts of
              [] \<Rightarrow>
                if n \<noteq> 8 \<or> hd parts = [] \<or> last_empty then None
                else map_option (\<lambda>hs. join_hextets (hs @ tail)) (all_hextets parts)
            | [k] \<Rightarrow>
                let hi = (if hd parts = [] then k - 1 else k);
                    lo = (if last_empty then n - k - 2 else n - k - 1)
                in if hd parts = [] \<and> hi \<noteq> 0 then None
                   else if last_empty \<and> lo \<noteq> 0 then None
                   else if 8 < hi + lo + 1 then None
                   else
                     (case (all_hextets (take hi parts), all_hextets (if last_empty then [] else drop (k + 1) parts)) of
                        (Some hs, Some ls) \<Rightarrow>
                          Some (join_hextets (hs @ replicate (8 - (hi + lo)) 0 @ ls @ tail))
                      | _ \<Rightarrow> None)
            | _ \<Rightarrow> None))"

definition parse_ip6 :: "string \<Rightarrow> 128 word option" where
  "parse_ip6 s =
     (if CHR ''/'' \<in> set s then None
      else
        let addr = before (CHR ''%'') s; scope = behind (CHR ''%'') s
        in if CHR ''%'' \<in> set s \<and> (scope = [] \<or> CHR ''%'' \<in> set scope) then None
           else (case split_groups addr of None \<Rightarrow> None | Some (parts, tail) \<Rightarrow> parse_ip6_groups parts tail))"

text \<open>\<^verbatim>\<open>ipaddress.ip_address(s)\<close>; \<^const>\<open>None\<close> is the ValueError.\<close>

definition ip_address :: "string \<Rightarrow> ip_addr option" where
  "ip_address s =
     (case parse_ip4 s of
        Some w \<Rightarrow> Some (IPv4 w)
      | None \<Rightarrow> map_option IPv6 (parse_ip6 s))"

lemma ip_examples:
  "ip_address ''127.0.0.1'' = Some (IPv4 0x7F000001)"
  "ip_address ''127.0.0.01'' = None"
  "ip_address ''2130706433'' = None"
  "ip_address ''::1'' = Some (IPv6 1)"
  "ip_address ''::'' = Some (IPv6 0)"
  "ip_address ''fe80::1%eth0'' = Some (IPv6 0xfe800000000000000000000000000001)"
  "ip_address ''::ffff:10.0.0.1'' = Some (IPv6 0xffff0a000001)"
  "ip_address ''2001:db8:0:0:0:0:0:1'' = Some (IPv6 0x20010db8000000000000000000000001)"
  "ip_address ''1::2::3'' = None" "ip_address '':1:2:3:4:5:6:7'' = None" "ip_address ''1:2'' = None"
  by code_simp+

section \<open>Networks\<close>

definition in_net :: "'a::len word \<Rightarrow> 'a word \<times> nat \<Rightarrow> bool" where
  "in_net w net \<longleftrightarrow> drop_bit (LENGTH('a) - snd net) w = drop_bit (LENGTH('a) - snd net) (fst net)"

definition BLOCKED_IP4_NETWORKS :: "(32 word \<times> nat) list" where
  "BLOCKED_IP4_NETWORKS =
     [(ip4 0 0 0 0, 8), (ip4 10 0 0 0, 8), (ip4 100 64 0 0, 10), (ip4 127 0 0 0, 8), (ip4 169 254 0 0, 16),
      (ip4 172 16 0 0, 12), (ip4 192 0 0 0, 24), (ip4 192 0 2 0, 24), (ip4 192 88 99 0, 24), (ip4 192 168 0 0, 16),
      (ip4 198 18 0 0, 15), (ip4 198 51 100 0, 24), (ip4 203 0 113 0, 24), (ip4 224 0 0 0, 4), (ip4 240 0 0 0, 4),
      (ip4 255 255 255 255, 32)]"

definition BLOCKED_IP6_NETWORKS :: "(128 word \<times> nat) list" where
  "BLOCKED_IP6_NETWORKS =
     [(0, 128), (1, 128), (ip6 0xfc00 0, 7), (ip6 0xfe80 0, 10), (0xffff00000000, 96)]"

text \<open>
  \<^verbatim>\<open>is_loopback\<close>, \<^verbatim>\<open>is_private\<close>, \<^verbatim>\<open>is_link_local\<close>, \<^verbatim>\<open>is_multicast\<close>, \<^verbatim>\<open>is_reserved\<close> and \<^verbatim>\<open>is_unspecified\<close> as lists of
  networks.
\<close>

definition PY_IP4_CLASSES :: "(32 word \<times> nat) list" where
  "PY_IP4_CLASSES =
     [(ip4 127 0 0 0, 8),
      (ip4 0 0 0 0, 8), (ip4 10 0 0 0, 8), (ip4 127 0 0 0, 8), (ip4 169 254 0 0, 16), (ip4 172 16 0 0, 12),
      (ip4 192 0 0 0, 29), (ip4 192 0 0 170, 31), (ip4 192 0 2 0, 24), (ip4 192 168 0 0, 16), (ip4 198 18 0 0, 15),
      (ip4 198 51 100 0, 24), (ip4 203 0 113 0, 24), (ip4 240 0 0 0, 4), (ip4 255 255 255 255, 32),
      (ip4 169 254 0 0, 16), (ip4 224 0 0 0, 4), (ip4 240 0 0 0, 4), (ip4 0 0 0 0, 32)]"

definition PY_IP6_CLASSES :: "(128 word \<times> nat) list" where
  "PY_IP6_CLASSES =
     [(1, 128),
      (1, 128), (0, 128), (0xffff00000000, 96), (ip6 0x100 0, 64), (ip6 0x2001 0, 23), (ip6 0x2001 0x0002, 48),
      (ip6 0x2001 0x0db8, 32), (ip6 0x2001 0x0010, 28), (ip6 0xfc00 0, 7), (ip6 0xfe80 0, 10),
      (ip6 0xfe80 0, 10), (ip6 0xff00 0, 8),
      (0, 8), (ip6 0x100 0, 8), (ip6 0x200 0, 7), (ip6 0x400 0, 6), (ip6 0x800 0, 5), (ip6 0x1000 0, 4),
      (ip6 0x4000 0, 3), (ip6 0x6000 0, 3), (ip6 0x8000 0, 3), (ip6 0xa000 0, 3), (ip6 0xc000 0, 3),
      (ip6 0xe000 0, 4), (ip6 0xf000 0, 5), (ip6 0xf800 0, 6), (ip6 0xfe00 0, 9), (0, 128)]"

fun addr_blocked :: "ip_addr \<Rightarrow> bool" where
  "addr_blocked (IPv4 w) \<longleftrightarrow> list_ex (in_net w) PY_IP4_CLASSES \<or> list_ex (in_net w) BLOCKED_IP4_NETWORKS"
| "addr_blocked (IPv6 w) \<longleftrightarrow> list_ex (in_net w) PY_IP6_CLASSES \<or> list_ex (in_net w) BLOCKED_IP6_NETWORKS"

text \<open>A text that is no address is blocked.\<close>

definition is_ip_blocked :: "string \<Rightarrow> bool" where
  "is_ip_blocked s = (case ip_address s of None \<Rightarrow> True | Some ip \<Rightarrow> addr_blocked ip)"

section \<open>The validation of a URL\<close>

definition BLOCKED_HOSTNAMES :: "string list" where
  "BLOCKED_HOSTNAMES = [''localhost'', ''loopback'', ''metadata.google.internal'', ''169.254.169.254'',
     ''kubernetes.default.svc'', ''kubernetes.default'', ''host.docker.internal'']"

text \<open>The text behind the last \<open>c\<close>, or the whole text.\<close>

definition after_last :: "char \<Rightarrow> string \<Rightarrow> string" where
  "after_last c s = rev (takeWhile (\<lambda>x. x \<noteq> c) (rev s))"

text \<open>\<^verbatim>\<open>_hostinfo\<close>: the host and the text of the port.\<close>

definition hostinfo :: "string \<Rightarrow> string \<times> string" where
  "hostinfo netloc =
     (let info = after_last (CHR ''@'') netloc
      in if CHR ''['' \<in> set info
         then (let br = behind (CHR ''['') info
               in (before (CHR '']'') br, behind (CHR '':'') (behind (CHR '']'') br)))
         else (before (CHR '':'') info, behind (CHR '':'') info))"

text \<open>\<^verbatim>\<open>parsed.hostname\<close> in lower case but for a zone; empty when there is none.\<close>

definition url_hostname :: "url_parts \<Rightarrow> string" where
  "url_hostname p =
     (let h = fst (hostinfo (up_netloc p))
      in str_lower (before (CHR ''%'') h)
         @ (if CHR ''%'' \<in> set h then CHR ''%'' # behind (CHR ''%'') h else []))"

text \<open>\<^verbatim>\<open>parsed.port\<close>: absent, a number, or a ValueError.\<close>

definition url_port :: "url_parts \<Rightarrow> int option outcome" where
  "url_port p =
     (let t = snd (hostinfo (up_netloc p))
      in if t = [] then Inr None
         else if \<not> list_all is_digit t then Inl (ValueError ''Port could not be cast to integer value'')
         else if 65535 < digits_val t then Inl (ValueError ''Port out of range 0-65535'')
         else Inr (Some (int (digits_val t))))"

definition ssrf_error :: "string \<Rightarrow> py_exc" where
  "ssrf_error m = AppError (app_error ValidationErrorException (''SSRF Protection: '' @ m))"

definition blocked_hostname :: "string \<Rightarrow> bool" where
  "blocked_hostname h \<longleftrightarrow> h \<in> set BLOCKED_HOSTNAMES \<or> ends_with h ''.local'' \<or> ends_with h ''.internal''"

text \<open>
  The resolution of a host: \<^verbatim>\<open>socket.gaierror\<close> is caught, any other exception is not. The addresses are a set,
  tested in any order; the message names the first one that is found.
\<close>

definition check_resolved :: "string \<Rightarrow> string list outcome \<Rightarrow> unit outcome" where
  "check_resolved host res =
     (case res of
        Inl e \<Rightarrow>
          if e = OtherException ''gaierror''
          then Inl (ssrf_error (''Could not resolve hostname '' @ [CHR 0x27] @ host @ [CHR 0x27, CHR ''.'']))
          else Inl e
      | Inr [] \<Rightarrow> Inl (ssrf_error (''Unable to resolve hostname '' @ [CHR 0x27] @ host @ [CHR 0x27, CHR ''.'']))
      | Inr ips \<Rightarrow>
          (case List.find is_ip_blocked ips of
             Some ip \<Rightarrow> Inl (ssrf_error (''Domain '' @ [CHR 0x27] @ host @ [CHR 0x27]
                 @ '' resolves to restricted IP address '' @ [CHR 0x27] @ ip @ [CHR 0x27, CHR ''.'']))
           | None \<Rightarrow> Inr ()))"

definition default_port :: "url_parts \<Rightarrow> int option \<Rightarrow> int" where
  "default_port p port =
     (let dflt = (if str_lower (up_scheme p) = ''https'' then 443 else 80)
      in case port of Some n \<Rightarrow> if n \<noteq> 0 then n else dflt | None \<Rightarrow> dflt)"

text \<open>
  The test of the host. \<^verbatim>\<open>is_ip_blocked(str(ip_obj))\<close> reads the address that was printed: it is the test of
  the address itself.
\<close>

definition check_address :: "(string \<Rightarrow> int \<Rightarrow> string list outcome) \<Rightarrow> url_parts \<Rightarrow> string \<Rightarrow> unit outcome" where
  "check_address resolve p host =
     (case ip_address host of
        Some ip \<Rightarrow>
          if addr_blocked ip
          then Inl (ssrf_error (''Access to IP address '' @ [CHR 0x27] @ host @ [CHR 0x27] @ '' is restricted.''))
          else Inr ()
      | None \<Rightarrow>
          (case url_port p of
             Inl e \<Rightarrow> Inl e
           | Inr port \<Rightarrow> check_resolved host (resolve host (default_port p port))))"

definition check_url :: "(string \<Rightarrow> int \<Rightarrow> string list outcome) \<Rightarrow> url_parts \<Rightarrow> unit outcome" where
  "check_url resolve p =
     (if str_lower (up_scheme p) \<noteq> ''http'' \<and> str_lower (up_scheme p) \<noteq> ''https''
      then Inl (ssrf_error (''Forbidden URL scheme '' @ [CHR 0x27] @ up_scheme p @ [CHR 0x27, CHR ''.'']
             @ '' Only 'http' and 'https' are allowed.''))
      else if url_hostname p = [] then Inl (ssrf_error ''Unable to parse valid hostname from URL.'')
      else
        let host = str_strip (str_lower (url_hostname p))
        in if blocked_hostname host
           then Inl (ssrf_error (''Access to internal host '' @ [CHR 0x27] @ host @ [CHR 0x27]
                  @ '' is strictly blocked.''))
           else check_address resolve p host)"

definition validate_url_ssrf :: "(string \<Rightarrow> int \<Rightarrow> string list outcome) \<Rightarrow> string \<Rightarrow> string outcome" where
  "validate_url_ssrf resolve url =
     (if url = [] then Inl (ssrf_error ''Invalid URL provided.'')
      else
        (case urlparse (str_strip url) of
           None \<Rightarrow> Inl (ValueError ''Invalid IPv6 URL'')
         | Some p \<Rightarrow>
             (case check_url resolve p of Inl e \<Rightarrow> Inl e | Inr _ \<Rightarrow> Inr (str_strip url))))"

end
