(* ===== verification/Ssrf_Props.thy ===== *)
theory Ssrf_Props
  imports Ssrf
begin

text \<open>
  The ranges of addresses that are blocked, and that a URL that is accepted leads to none of them.
\<close>

section \<open>Ranges\<close>

lemma div_aligned:
  assumes "(2 :: nat) ^ k dvd n"
  shows "w div 2 ^ k = n div 2 ^ k \<longleftrightarrow> n \<le> w \<and> w \<le> n + (2 ^ k - 1)"
proof -
  obtain m where n: "n = 2 ^ k * m" using assms by blast
  have "w div 2 ^ k = m \<longleftrightarrow> m * 2 ^ k \<le> w \<and> w < Suc m * 2 ^ k"
    by (metis div_nat_eqI dividend_less_times_div div_times_less_eq_dividend mult.commute
        mult_Suc_right zero_less_numeral zero_less_power)
  also have "\<dots> \<longleftrightarrow> n \<le> w \<and> w \<le> n + (2 ^ k - 1)"
  proof -
    obtain p where "(2 :: nat) ^ k = Suc p" by (metis gr0_conv_Suc zero_less_numeral zero_less_power)
    then show ?thesis by (auto simp: n mult.commute)
  qed
  finally show ?thesis by (simp add: n)
qed

lemma in_net_range:
  fixes w n :: "'a::len word"
  assumes "(2 :: nat) ^ (LENGTH('a) - l) dvd unat n"
  shows "in_net w (n, l) \<longleftrightarrow> unat n \<le> unat w \<and> unat w \<le> unat n + (2 ^ (LENGTH('a) - l) - 1)"
  unfolding in_net_def snd_conv fst_conv
  unfolding word_unat_eq_iff unat_drop_bit_eq unfolding drop_bit_eq_div by (rule div_aligned [OF assms])

definition INTERNAL_RANGES :: "(32 word \<times> 32 word) list" where
  "INTERNAL_RANGES =
     [(ip4 0 0 0 0, ip4 0 255 255 255), (ip4 10 0 0 0, ip4 10 255 255 255), (ip4 100 64 0 0, ip4 100 127 255 255),
      (ip4 127 0 0 0, ip4 127 255 255 255), (ip4 169 254 0 0, ip4 169 254 255 255),
      (ip4 172 16 0 0, ip4 172 31 255 255), (ip4 192 0 0 0, ip4 192 0 0 255), (ip4 192 0 2 0, ip4 192 0 2 255),
      (ip4 192 88 99 0, ip4 192 88 99 255), (ip4 192 168 0 0, ip4 192 168 255 255),
      (ip4 198 18 0 0, ip4 198 19 255 255), (ip4 198 51 100 0, ip4 198 51 100 255),
      (ip4 203 0 113 0, ip4 203 0 113 255), (ip4 224 0 0 0, ip4 239 255 255 255),
      (ip4 240 0 0 0, ip4 255 255 255 255), (ip4 255 255 255 255, ip4 255 255 255 255)]"

lemma blocked_nets_ranges:
  "list_ex (in_net w) BLOCKED_IP4_NETWORKS \<longleftrightarrow> list_ex (\<lambda>(lo, hi). lo \<le> w \<and> w \<le> hi) INTERNAL_RANGES"
  unfolding BLOCKED_IP4_NETWORKS_def INTERNAL_RANGES_def ip4_def
  by (simp add: in_net_range word_le_nat_alt)

lemma py_classes_blocked: "list_ex (in_net w) PY_IP4_CLASSES \<Longrightarrow> list_ex (in_net w) BLOCKED_IP4_NETWORKS"
  unfolding PY_IP4_CLASSES_def BLOCKED_IP4_NETWORKS_def ip4_def
  by (simp add: in_net_range) (elim disjE; simp)

text \<open>
  The IPv6 addresses that are let through: the global unicast block 2000::/3 without the special
  purpose block 2001::/23 and the documentation block 2001:db8::/32, and the site-local block
  fec0::/10, which no test of the code knows.
\<close>

definition GLOBAL_IP6 :: "128 word \<Rightarrow> bool" where
  "GLOBAL_IP6 w \<longleftrightarrow> ip6 0x2000 0 \<le> w \<and> w < ip6 0x4000 0
     \<and> \<not> (ip6 0x2001 0 \<le> w \<and> w < ip6 0x2001 0x0200) \<and> \<not> (ip6 0x2001 0x0db8 \<le> w \<and> w < ip6 0x2001 0x0db9)"

definition SITE_LOCAL_IP6 :: "128 word \<Rightarrow> bool" where
  "SITE_LOCAL_IP6 w \<longleftrightarrow> ip6 0xfec0 0 \<le> w \<and> w < ip6 0xff00 0"

fun reachable_ip :: "ip_addr \<Rightarrow> bool" where
  "reachable_ip (IPv4 w) \<longleftrightarrow> \<not> list_ex (\<lambda>(lo, hi). lo \<le> w \<and> w \<le> hi) INTERNAL_RANGES"
| "reachable_ip (IPv6 w) \<longleftrightarrow> GLOBAL_IP6 w \<or> SITE_LOCAL_IP6 w"

lemma ip4_blocked: "addr_blocked (IPv4 w) \<longleftrightarrow> \<not> reachable_ip (IPv4 w)"
  using py_classes_blocked [of w] blocked_nets_ranges [of w] by auto

text \<open>The same as ranges of numbers.\<close>

definition IP6_RANGES :: "(nat \<times> nat) list" where
  "IP6_RANGES =
     [(0x1, 0x1),
      (0x0, 0x0),
      (0xffff00000000, 0xffffffffffff),
      (0x1000000000000000000000000000000, 0x100000000000000ffffffffffffffff),
      (0x20010000000000000000000000000000, 0x200101ffffffffffffffffffffffffff),
      (0x20010002000000000000000000000000, 0x200100020000ffffffffffffffffffff),
      (0x20010db8000000000000000000000000, 0x20010db8ffffffffffffffffffffffff),
      (0x20010010000000000000000000000000, 0x2001001fffffffffffffffffffffffff),
      (0xfc000000000000000000000000000000, 0xfdffffffffffffffffffffffffffffff),
      (0xfe800000000000000000000000000000, 0xfebfffffffffffffffffffffffffffff),
      (0xff000000000000000000000000000000, 0xffffffffffffffffffffffffffffffff),
      (0x0, 0xffffffffffffffffffffffffffffff),
      (0x1000000000000000000000000000000, 0x1ffffffffffffffffffffffffffffff),
      (0x2000000000000000000000000000000, 0x3ffffffffffffffffffffffffffffff),
      (0x4000000000000000000000000000000, 0x7ffffffffffffffffffffffffffffff),
      (0x8000000000000000000000000000000, 0xfffffffffffffffffffffffffffffff),
      (0x10000000000000000000000000000000, 0x1fffffffffffffffffffffffffffffff),
      (0x40000000000000000000000000000000, 0x5fffffffffffffffffffffffffffffff),
      (0x60000000000000000000000000000000, 0x7fffffffffffffffffffffffffffffff),
      (0x80000000000000000000000000000000, 0x9fffffffffffffffffffffffffffffff),
      (0xa0000000000000000000000000000000, 0xbfffffffffffffffffffffffffffffff),
      (0xc0000000000000000000000000000000, 0xdfffffffffffffffffffffffffffffff),
      (0xe0000000000000000000000000000000, 0xefffffffffffffffffffffffffffffff),
      (0xf0000000000000000000000000000000, 0xf7ffffffffffffffffffffffffffffff),
      (0xf8000000000000000000000000000000, 0xfbffffffffffffffffffffffffffffff),
      (0xfe000000000000000000000000000000, 0xfe7fffffffffffffffffffffffffffff)]"

lemma ip6_blocked_ranges: "addr_blocked (IPv6 w) \<longleftrightarrow> list_ex (\<lambda>(lo, hi). lo \<le> unat w \<and> unat w \<le> hi) IP6_RANGES"
  unfolding addr_blocked.simps PY_IP6_CLASSES_def BLOCKED_IP6_NETWORKS_def IP6_RANGES_def ip6_def
  by (simp add: in_net_range) argo

lemma ip6_blocked_unreachable: "addr_blocked (IPv6 w) \<Longrightarrow> \<not> reachable_ip (IPv6 w)"
  unfolding ip6_blocked_ranges reachable_ip.simps GLOBAL_IP6_def SITE_LOCAL_IP6_def ip6_def
  by (simp add: IP6_RANGES_def word_le_nat_alt word_less_nat_alt) (elim disjE; simp)

lemma ip6_blocked_range:
  "(lo, hi) \<in> set IP6_RANGES \<Longrightarrow> lo \<le> unat w \<Longrightarrow> unat w \<le> hi \<Longrightarrow> addr_blocked (IPv6 w)"
  unfolding ip6_blocked_ranges list_ex_iff by fast

lemma ip6_blocked_cells:
  fixes w :: "128 word"
  defines "x \<equiv> unat w"
  shows "0 \<le> x \<Longrightarrow> x < 0x1000000000000000000000000000000 \<Longrightarrow> addr_blocked (IPv6 w)"
    and "0x1000000000000000000000000000000 \<le> x \<Longrightarrow> x < 0x2000000000000000000000000000000 \<Longrightarrow> addr_blocked (IPv6 w)"
    and "0x2000000000000000000000000000000 \<le> x \<Longrightarrow> x < 0x4000000000000000000000000000000 \<Longrightarrow> addr_blocked (IPv6 w)"
    and "0x4000000000000000000000000000000 \<le> x \<Longrightarrow> x < 0x8000000000000000000000000000000 \<Longrightarrow> addr_blocked (IPv6 w)"
    and "0x8000000000000000000000000000000 \<le> x \<Longrightarrow> x < 0x10000000000000000000000000000000 \<Longrightarrow> addr_blocked (IPv6 w)"
    and "0x10000000000000000000000000000000 \<le> x \<Longrightarrow> x < 0x20000000000000000000000000000000 \<Longrightarrow> addr_blocked (IPv6 w)"
    and "0x40000000000000000000000000000000 \<le> x \<Longrightarrow> x < 0x60000000000000000000000000000000 \<Longrightarrow> addr_blocked (IPv6 w)"
    and "0x60000000000000000000000000000000 \<le> x \<Longrightarrow> x < 0x80000000000000000000000000000000 \<Longrightarrow> addr_blocked (IPv6 w)"
    and "0x80000000000000000000000000000000 \<le> x \<Longrightarrow> x < 0xa0000000000000000000000000000000 \<Longrightarrow> addr_blocked (IPv6 w)"
    and "0xa0000000000000000000000000000000 \<le> x \<Longrightarrow> x < 0xc0000000000000000000000000000000 \<Longrightarrow> addr_blocked (IPv6 w)"
    and "0xc0000000000000000000000000000000 \<le> x \<Longrightarrow> x < 0xe0000000000000000000000000000000 \<Longrightarrow> addr_blocked (IPv6 w)"
    and "0xe0000000000000000000000000000000 \<le> x \<Longrightarrow> x < 0xf0000000000000000000000000000000 \<Longrightarrow> addr_blocked (IPv6 w)"
    and "0xf0000000000000000000000000000000 \<le> x \<Longrightarrow> x < 0xf8000000000000000000000000000000 \<Longrightarrow> addr_blocked (IPv6 w)"
    and "0xf8000000000000000000000000000000 \<le> x \<Longrightarrow> x < 0xfc000000000000000000000000000000 \<Longrightarrow> addr_blocked (IPv6 w)"
    and "0xfc000000000000000000000000000000 \<le> x \<Longrightarrow> x < 0xfe000000000000000000000000000000 \<Longrightarrow> addr_blocked (IPv6 w)"
    and "0xfe000000000000000000000000000000 \<le> x \<Longrightarrow> x < 0xfe800000000000000000000000000000 \<Longrightarrow> addr_blocked (IPv6 w)"
    and "0xfe800000000000000000000000000000 \<le> x \<Longrightarrow> x < 0xfec00000000000000000000000000000 \<Longrightarrow> addr_blocked (IPv6 w)"
    and "0x20010000000000000000000000000000 \<le> x \<Longrightarrow> x < 0x20010200000000000000000000000000 \<Longrightarrow> addr_blocked (IPv6 w)"
    and "0x20010db8000000000000000000000000 \<le> x \<Longrightarrow> x < 0x20010db9000000000000000000000000 \<Longrightarrow> addr_blocked (IPv6 w)"
    and "0xff000000000000000000000000000000 \<le> x \<Longrightarrow> x < 0x100000000000000000000000000000000 \<Longrightarrow> addr_blocked (IPv6 w)"
  unfolding x_def
  subgoal by (rule ip6_blocked_range [of "0x0" "0xffffffffffffffffffffffffffffff"]) (simp_all add: IP6_RANGES_def)
  subgoal by (rule ip6_blocked_range [of "0x1000000000000000000000000000000" "0x1ffffffffffffffffffffffffffffff"]) (simp_all add: IP6_RANGES_def)
  subgoal by (rule ip6_blocked_range [of "0x2000000000000000000000000000000" "0x3ffffffffffffffffffffffffffffff"]) (simp_all add: IP6_RANGES_def)
  subgoal by (rule ip6_blocked_range [of "0x4000000000000000000000000000000" "0x7ffffffffffffffffffffffffffffff"]) (simp_all add: IP6_RANGES_def)
  subgoal by (rule ip6_blocked_range [of "0x8000000000000000000000000000000" "0xfffffffffffffffffffffffffffffff"]) (simp_all add: IP6_RANGES_def)
  subgoal by (rule ip6_blocked_range [of "0x10000000000000000000000000000000" "0x1fffffffffffffffffffffffffffffff"]) (simp_all add: IP6_RANGES_def)
  subgoal by (rule ip6_blocked_range [of "0x40000000000000000000000000000000" "0x5fffffffffffffffffffffffffffffff"]) (simp_all add: IP6_RANGES_def)
  subgoal by (rule ip6_blocked_range [of "0x60000000000000000000000000000000" "0x7fffffffffffffffffffffffffffffff"]) (simp_all add: IP6_RANGES_def)
  subgoal by (rule ip6_blocked_range [of "0x80000000000000000000000000000000" "0x9fffffffffffffffffffffffffffffff"]) (simp_all add: IP6_RANGES_def)
  subgoal by (rule ip6_blocked_range [of "0xa0000000000000000000000000000000" "0xbfffffffffffffffffffffffffffffff"]) (simp_all add: IP6_RANGES_def)
  subgoal by (rule ip6_blocked_range [of "0xc0000000000000000000000000000000" "0xdfffffffffffffffffffffffffffffff"]) (simp_all add: IP6_RANGES_def)
  subgoal by (rule ip6_blocked_range [of "0xe0000000000000000000000000000000" "0xefffffffffffffffffffffffffffffff"]) (simp_all add: IP6_RANGES_def)
  subgoal by (rule ip6_blocked_range [of "0xf0000000000000000000000000000000" "0xf7ffffffffffffffffffffffffffffff"]) (simp_all add: IP6_RANGES_def)
  subgoal by (rule ip6_blocked_range [of "0xf8000000000000000000000000000000" "0xfbffffffffffffffffffffffffffffff"]) (simp_all add: IP6_RANGES_def)
  subgoal by (rule ip6_blocked_range [of "0xfc000000000000000000000000000000" "0xfdffffffffffffffffffffffffffffff"]) (simp_all add: IP6_RANGES_def)
  subgoal by (rule ip6_blocked_range [of "0xfe000000000000000000000000000000" "0xfe7fffffffffffffffffffffffffffff"]) (simp_all add: IP6_RANGES_def)
  subgoal by (rule ip6_blocked_range [of "0xfe800000000000000000000000000000" "0xfebfffffffffffffffffffffffffffff"]) (simp_all add: IP6_RANGES_def)
  subgoal by (rule ip6_blocked_range [of "0x20010000000000000000000000000000" "0x200101ffffffffffffffffffffffffff"]) (simp_all add: IP6_RANGES_def)
  subgoal by (rule ip6_blocked_range [of "0x20010db8000000000000000000000000" "0x20010db8ffffffffffffffffffffffff"]) (simp_all add: IP6_RANGES_def)
  subgoal by (rule ip6_blocked_range [of "0xff000000000000000000000000000000" "0xffffffffffffffffffffffffffffffff"]) (simp_all add: IP6_RANGES_def)
  done

lemma ip6_unreachable_blocked:
  assumes "\<not> reachable_ip (IPv6 w)"
  shows "addr_blocked (IPv6 w)"
proof -
  note cell = ip6_blocked_cells [of w]
  have low: "unat w < 0x20000000000000000000000000000000 \<Longrightarrow> addr_blocked (IPv6 w)" using cell(1-6) by (metis not_le zero_le)
  have high: "0x40000000000000000000000000000000 \<le> unat w \<Longrightarrow> unat w < 0xfec00000000000000000000000000000 \<Longrightarrow> addr_blocked (IPv6 w)"
    using cell(7-17) by (metis not_le)
  have top: "unat w < 0x100000000000000000000000000000000" by (rule order.strict_trans2 [OF unsigned_less]) simp
  consider "unat w < 0x20000000000000000000000000000000" | "0x20010000000000000000000000000000 \<le> unat w" "unat w < 0x20010200000000000000000000000000" | "0x20010db8000000000000000000000000 \<le> unat w" "unat w < 0x20010db9000000000000000000000000"
    | "0x40000000000000000000000000000000 \<le> unat w" "unat w < 0xfec00000000000000000000000000000" | "0xff000000000000000000000000000000 \<le> unat w"
    using assms unfolding reachable_ip.simps GLOBAL_IP6_def SITE_LOCAL_IP6_def ip6_def
    by (simp add: word_le_nat_alt word_less_nat_alt) linarith
  then show ?thesis using low high cell(18-20) top by cases blast+
qed

lemma blocked_iff: "addr_blocked ip \<longleftrightarrow> \<not> reachable_ip ip"
  by (cases ip) (use ip4_blocked ip6_blocked_unreachable ip6_unreachable_blocked in blast)+

section \<open>Accepted URLs\<close>

definition public_address :: "string \<Rightarrow> bool" where
  "public_address s \<longleftrightarrow> (case ip_address s of None \<Rightarrow> False | Some ip \<Rightarrow> reachable_ip ip)"

lemma not_blocked_public: "\<not> is_ip_blocked s \<longleftrightarrow> public_address s"
  by (simp add: is_ip_blocked_def public_address_def blocked_iff split: option.split)

lemma check_resolved_ok:
  "check_resolved host res = Inr () \<longleftrightarrow> (\<exists>ips. res = Inr ips \<and> ips \<noteq> [] \<and> list_all public_address ips)"
proof (cases res)
  case (Inr ips)
  then show ?thesis
  proof (cases ips)
    case (Cons i rest)
    have "check_resolved host res = Inr () \<longleftrightarrow> List.find is_ip_blocked ips = None"
      by (simp add: check_resolved_def Inr Cons del: List.find.simps split: option.split)
    then show ?thesis by (auto simp: Inr Cons find_None_iff list_all_iff not_blocked_public [symmetric] simp del: List.find.simps)
  qed (simp add: check_resolved_def)
qed (simp add: check_resolved_def)

lemma check_address_ok:
  "check_address resolve p host = Inr () \<longleftrightarrow>
     public_address host
     \<or> (ip_address host = None
        \<and> (\<exists>port ips. url_port p = Inr port \<and> resolve host (default_port p port) = Inr ips
                     \<and> ips \<noteq> [] \<and> list_all public_address ips))"
  by (simp add: check_address_def public_address_def blocked_iff check_resolved_ok split: option.split sum.split)

lemma check_url_ok:
  assumes "check_url resolve p = Inr ()"
  shows "str_lower (up_scheme p) = ''http'' \<or> str_lower (up_scheme p) = ''https''"
    and "\<not> blocked_hostname (str_strip (str_lower (url_hostname p)))"
    and "check_address resolve p (str_strip (str_lower (url_hostname p))) = Inr ()"
proof -
  show s: "str_lower (up_scheme p) = ''http'' \<or> str_lower (up_scheme p) = ''https''"
    by (rule ccontr) (use assms in \<open>simp add: check_url_def\<close>)
  have h: "url_hostname p \<noteq> []"
    using assms s by (cases "url_hostname p = []") (auto simp: check_url_def)
  show b: "\<not> blocked_hostname (str_strip (str_lower (url_hostname p)))"
    by (rule notI) (use assms s h in \<open>auto simp: check_url_def Let_def\<close>)
  show "check_address resolve p (str_strip (str_lower (url_hostname p))) = Inr ()"
    using assms s h b by (auto simp: check_url_def Let_def)
qed

text \<open>
  C12: a URL that is accepted is the text without its outer blanks; its scheme is HTTP or HTTPS, its host
  is no internal name, and its host is a reachable address or a name that was resolved to one address or
  more, all of them reachable. Reachable is an IPv4 address outside the internal ranges (this network,
  private, shared, loopback, link-local with the metadata services, documentation, benchmark, multicast,
  reserved) and an IPv6 address that is global unicast and neither special nor documentation, or
  site-local: the site-local addresses, though not public, are the one gap.
\<close>

theorem accepted_urls_are_public:
  assumes "validate_url_ssrf resolve url = Inr u"
  shows "\<exists>p host. u = str_strip url \<and> urlparse u = Some p \<and> str_lower (up_scheme p) \<in> {''http'', ''https''}
    \<and> host = str_strip (str_lower (url_hostname p)) \<and> \<not> blocked_hostname host
    \<and> (public_address host
       \<or> (ip_address host = None
          \<and> (\<exists>port ips. resolve host port = Inr ips \<and> ips \<noteq> [] \<and> list_all public_address ips)))"
proof -
  have "url \<noteq> []" using assms by (auto simp: validate_url_ssrf_def)
  then obtain p where "urlparse (str_strip url) = Some p" "check_url resolve p = Inr ()" "u = str_strip url"
    using assms by (auto simp: validate_url_ssrf_def split: option.splits sum.splits)
  with check_url_ok [of resolve p] show ?thesis
    unfolding check_address_ok by blast
qed

theorem accepted_urls_are_public_witness:
  "validate_url_ssrf (\<lambda>h n. Inr [''93.184.216.34'']) '' https://a.b/x '' = Inr ''https://a.b/x''
   \<and> public_address ''93.184.216.34''"
proof -
  have v: "validate_url_ssrf (\<lambda>h n. Inr [''93.184.216.34'']) '' https://a.b/x '' = Inr ''https://a.b/x''"
    by code_simp
  from accepted_urls_are_public [OF v] obtain p where "urlparse ''https://a.b/x'' = Some p"
    and *: "public_address (str_strip (str_lower (url_hostname p))) \<or> list_all public_address [''93.184.216.34'']"
    by auto
  moreover have "map_option (\<lambda>p. public_address (str_strip (str_lower (url_hostname p)))) (urlparse ''https://a.b/x'')
      = Some False" by code_simp
  ultimately show ?thesis using v by simp
qed

text \<open>The gap is real: the block list of the code has no range for the site-local address \<^verbatim>\<open>fec0::1\<close>.\<close>

lemma site_local_is_accepted: "\<not> addr_blocked (IPv6 (ip6 0xfec0 0 + 1))"
  by (simp add: blocked_iff SITE_LOCAL_IP6_def ip6_def)

end
