(* ===== verification/Seo_DB.thy ===== *)
theory Seo_DB
  imports Websites Jobs
begin

text \<open>
  The tables and functions of \<^verbatim>\<open>backend/database/crud.py\<close> behind the user level interface: websites by
  their owning user, audits, leads, reports, keywords and rank checks. A synchronous function and its
  asynchronous twin compute the same and have one definition. The state extends the database of the
  tenants by the further tables; the jobs with their own clock and channel are one component of it.
\<close>

section \<open>Rows\<close>

record audit_result =
  ar_website :: int
  ar_user :: int
  ar_score :: int
  ar_title :: "string option"
  ar_title_length :: int
  ar_meta :: "string option"
  ar_meta_length :: int
  ar_h1 :: "string list"
  ar_canonical :: "string option"
  ar_viewport :: string
  ar_images :: int
  ar_no_alt :: int
  ar_structured :: bool
  ar_sitemap :: bool
  ar_robots :: bool
  ar_broken :: int
  ar_created :: int

record lead =
  ld_website :: "int option"
  ld_user :: int
  ld_email :: string
  ld_phone :: "string option"
  ld_source :: string
  ld_created :: int

record report =
  rp_website :: int
  rp_user :: int
  rp_title :: string
  rp_format :: string
  rp_created :: int

record keyword_result =
  kr_user :: int
  kr_seed :: string
  kr_keyword :: string
  kr_intent :: string
  kr_volume :: int
  kr_kd :: int
  kr_cpc :: string
  kr_cluster :: string
  kr_created :: int

record rank_check =
  rk_website :: "int option"
  rk_user :: int
  rk_keyword :: string
  rk_domain :: string
  rk_position :: int
  rk_checked :: int
  rk_source :: string
  rk_created :: int

record seo_db = db +
  sd_audits :: "audit_result table"
  sd_leads :: "lead table"
  sd_reports :: "report table"
  sd_keywords :: "keyword_result table"
  sd_ranks :: "rank_check table"
  sd_jobs :: jobs_world

text \<open>The foreign keys of a row, when the database enforces them.\<close>

definition refs_ok :: "int \<Rightarrow> int option \<Rightarrow> ('a seo_db_scheme) \<Rightarrow> bool" where
  "refs_ok uid site w \<longleftrightarrow>
     \<not> db_fk w
     \<or> (t_get (db_users w) uid \<noteq> None
        \<and> (case site of None \<Rightarrow> True | Some s \<Rightarrow> t_get (db_sites w) s \<noteq> None))"

section \<open>Websites\<close>

text \<open>
  The columns a listing can be sorted by; a name that is not an attribute counts as \<^verbatim>\<open>id\<close>. Columns that
  are no numbers order as the database does, the parameter \<open>db_order\<close>.
\<close>

definition sort_by_column ::
  "(string \<times> ('r \<Rightarrow> int)) list \<Rightarrow> string list \<Rightarrow> (string \<Rightarrow> int \<times> 'r \<Rightarrow> int) \<Rightarrow> string \<Rightarrow> int \<times> 'r \<Rightarrow> int" where
  "sort_by_column numeric others db_order name =
     (case map_of numeric name of
        Some f \<Rightarrow> f \<circ> snd
      | None \<Rightarrow> if name \<in> set others then db_order name else fst)"

definition website_column :: "(string \<Rightarrow> int \<times> website \<Rightarrow> int) \<Rightarrow> string \<Rightarrow> int \<times> website \<Rightarrow> int" where
  "website_column = sort_by_column [(''created_at'', w_created), (''updated_at'', w_updated)]
     [''project_id'', ''organization_id'', ''owner_id'', ''user_id'', ''url'', ''domain'', ''normalized_domain'',
      ''protocol'', ''status'', ''verification_status'', ''favicon'', ''country'', ''language'', ''timezone'',
      ''settings'', ''company_name'', ''last_scan_at'', ''archived'']"

definition website_matches :: "(string \<Rightarrow> string \<Rightarrow> bool) \<Rightarrow> string \<Rightarrow> website \<Rightarrow> bool" where
  "website_matches ilike search s \<longleftrightarrow>
     (let pattern = CHR ''%'' # search @ ''%'';
          opt = (\<lambda>v. case v of None \<Rightarrow> False | Some t \<Rightarrow> ilike t pattern)
      in ilike (w_domain s) pattern \<or> opt (w_url s) \<or> opt (w_company s))"

definition get_user_websites ::
  "(string \<Rightarrow> string \<Rightarrow> bool) \<Rightarrow> (string \<Rightarrow> int \<times> website \<Rightarrow> int) \<Rightarrow> int \<Rightarrow> int \<Rightarrow> int \<Rightarrow> string option
     \<Rightarrow> string \<Rightarrow> string \<Rightarrow> ('a seo_db_scheme) \<Rightarrow> (int \<times> website) list" where
  "get_user_websites ilike db_order uid skip limit search sort_by order w =
     paginate skip limit 100
       (order_rows (website_column db_order sort_by) (str_lower order \<noteq> ''desc'')
          (t_where (\<lambda>i s. w_user s = Some uid \<and> (\<not> truthy search \<or> website_matches ilike (the search) s))
             (db_sites w)))"

definition get_website_by_id :: "int \<Rightarrow> int \<Rightarrow> ('a seo_db_scheme) \<Rightarrow> (int \<times> website) option" where
  "get_website_by_id sid uid w = t_first (\<lambda>i s. i = sid \<and> w_user s = Some uid) (db_sites w)"

definition get_website_by_id_unfiltered :: "int \<Rightarrow> ('a seo_db_scheme) \<Rightarrow> (int \<times> website) option" where
  "get_website_by_id_unfiltered sid w = t_first (\<lambda>i s. i = sid) (db_sites w)"

text \<open>\<^verbatim>\<open>domain.replace("https://", "").replace("http://", "").split("/")[0].lower()\<close>\<close>

definition clean_domain :: "string \<Rightarrow> string" where
  "clean_domain d = str_lower (before_char (CHR ''/'') (str_remove ''http://'' (str_remove ''https://'' d)))"

definition get_website_by_domain_unfiltered :: "string \<Rightarrow> ('a seo_db_scheme) \<Rightarrow> (int \<times> website) option" where
  "get_website_by_domain_unfiltered d w = t_first (\<lambda>i s. w_domain s = clean_domain d) (db_sites w)"

definition new_website :: "int \<Rightarrow> string option \<Rightarrow> string \<Rightarrow> string option \<Rightarrow> int \<Rightarrow> website" where
  "new_website uid url d company now =
     \<lparr>w_project = None, w_org = None, w_owner = Some uid, w_user = Some uid, w_url = url, w_domain = d,
      w_norm = normalize_domain d, w_protocol = ''https'', w_status = ''active'',
      w_verification = ''unverified'', w_favicon = None, w_country = None, w_language = ''en'',
      w_timezone = ''UTC'', w_settings = [], w_company = company, w_last_scan = None, w_archived = False,
      w_created = now, w_updated = now\<rparr>"

text \<open>The unique index on the organization and the domain does not act: the organization is null.\<close>

definition crud_create_website ::
  "int \<Rightarrow> string option \<Rightarrow> string \<Rightarrow> string option \<Rightarrow> ('a seo_db_scheme)
     \<Rightarrow> (int \<times> website) outcome \<times> ('a seo_db_scheme)" where
  "crud_create_website uid url d company w =
     (if \<not> refs_ok uid None w then (Inl integrity_error, w)
      else
        let s = new_website uid url d company (db_now w);
            (i, t) = t_insert s (db_sites w)
        in (Inr (i, s), w\<lparr>db_sites := t\<rparr>))"

text \<open>
  The relationships of a website cascade: its audits, leads, reports, jobs and crawls go with it. The
  rank checks have only the foreign key of the database.
\<close>

definition delete_website_instance :: "int \<Rightarrow> ('a seo_db_scheme) \<Rightarrow> ('a seo_db_scheme)" where
  "delete_website_instance sid w =
     (let w1 = delete_sites (\<lambda>i s. i = sid) w
      in w1\<lparr>sd_audits := t_delete_where (\<lambda>i a. ar_website a = sid) (sd_audits w1),
            sd_leads := t_delete_where (\<lambda>i l. ld_website l = Some sid) (sd_leads w1),
            sd_reports := t_delete_where (\<lambda>i r. rp_website r = sid) (sd_reports w1),
            sd_ranks := (if db_fk w1 then t_delete_where (\<lambda>i r. rk_website r = Some sid) (sd_ranks w1)
                         else sd_ranks w1),
            sd_jobs := (sd_jobs w1)\<lparr>jw_jobs :=
              t_delete_where (\<lambda>i j. j_website_id j = Some sid) (jw_jobs (sd_jobs w1))\<rparr>\<rparr>)"

definition delete_user_website :: "int \<Rightarrow> int \<Rightarrow> ('a seo_db_scheme) \<Rightarrow> bool \<times> ('a seo_db_scheme)" where
  "delete_user_website sid uid w =
     (case get_website_by_id sid uid w of
        None \<Rightarrow> (False, w)
      | Some (i, s) \<Rightarrow> (True, delete_website_instance i w))"

section \<open>Audits\<close>

definition get_audit_by_id_unfiltered :: "int \<Rightarrow> ('a seo_db_scheme) \<Rightarrow> (int \<times> audit_result) option" where
  "get_audit_by_id_unfiltered aid w = t_first (\<lambda>i a. i = aid) (sd_audits w)"

definition audit_column :: "(string \<Rightarrow> int \<times> audit_result \<Rightarrow> int) \<Rightarrow> string \<Rightarrow> int \<times> audit_result \<Rightarrow> int" where
  "audit_column = sort_by_column
     [(''website_id'', ar_website), (''user_id'', ar_user), (''score'', ar_score), (''title_length'', ar_title_length),
      (''meta_description_length'', ar_meta_length), (''images_count'', ar_images),
      (''images_without_alt'', ar_no_alt), (''broken_links_count'', ar_broken), (''created_at'', ar_created)]
     [''title'', ''meta_description'', ''h1_tags'', ''canonical_url'', ''viewport'', ''has_structured_data'',
      ''has_sitemap'', ''has_robots_txt'']"

definition get_user_audits_for_website ::
  "(string \<Rightarrow> int \<times> audit_result \<Rightarrow> int) \<Rightarrow> int \<Rightarrow> int \<Rightarrow> int \<Rightarrow> int \<Rightarrow> string \<Rightarrow> string \<Rightarrow> ('a seo_db_scheme)
     \<Rightarrow> (int \<times> audit_result) list" where
  "get_user_audits_for_website db_order sid uid skip limit sort_by order w =
     paginate skip limit 100
       (order_rows (audit_column db_order sort_by) (is_asc order)
          (t_where (\<lambda>i a. ar_website a = sid \<and> ar_user a = uid) (sd_audits w)))"

definition opt_length :: "string option \<Rightarrow> int" where
  "opt_length t = (case t of None \<Rightarrow> 0 | Some s \<Rightarrow> int (length s))"

definition new_audit ::
  "int \<Rightarrow> int \<Rightarrow> int \<Rightarrow> string option \<Rightarrow> string option \<Rightarrow> string list \<Rightarrow> string option \<Rightarrow> int \<Rightarrow> int \<Rightarrow> int
     \<Rightarrow> int \<Rightarrow> audit_result" where
  "new_audit sid uid score title meta h1s canonical images no_alt broken now =
     \<lparr>ar_website = sid, ar_user = uid, ar_score = score, ar_title = title, ar_title_length = opt_length title,
      ar_meta = meta, ar_meta_length = opt_length meta, ar_h1 = h1s, ar_canonical = canonical,
      ar_viewport = ''width=device-width, initial-scale=1.0'', ar_images = images, ar_no_alt = no_alt,
      ar_structured = True, ar_sitemap = True, ar_robots = True, ar_broken = broken, ar_created = now\<rparr>"

definition create_audit ::
  "int \<Rightarrow> int \<Rightarrow> int \<Rightarrow> string option \<Rightarrow> string option \<Rightarrow> string list \<Rightarrow> string option \<Rightarrow> int \<Rightarrow> int \<Rightarrow> int
     \<Rightarrow> ('a seo_db_scheme) \<Rightarrow> (int \<times> audit_result) outcome \<times> ('a seo_db_scheme)" where
  "create_audit sid uid score title meta h1s canonical images no_alt broken w =
     (if \<not> refs_ok uid (Some sid) w then (Inl integrity_error, w)
      else
        let a = new_audit sid uid score title meta h1s canonical images no_alt broken (db_now w);
            (i, t) = t_insert a (sd_audits w)
        in (Inr (i, a), w\<lparr>sd_audits := t\<rparr>))"

section \<open>Leads and reports\<close>

definition lead_column :: "(string \<Rightarrow> int \<times> lead \<Rightarrow> int) \<Rightarrow> string \<Rightarrow> int \<times> lead \<Rightarrow> int" where
  "lead_column = sort_by_column [(''user_id'', ld_user), (''created_at'', ld_created)]
     [''website_id'', ''email'', ''phone'', ''source'']"

definition get_user_leads_for_website ::
  "(string \<Rightarrow> int \<times> lead \<Rightarrow> int) \<Rightarrow> int \<Rightarrow> int \<Rightarrow> int \<Rightarrow> int \<Rightarrow> string option \<Rightarrow> string \<Rightarrow> string
     \<Rightarrow> ('a seo_db_scheme) \<Rightarrow> (int \<times> lead) list" where
  "get_user_leads_for_website db_order sid uid skip limit source sort_by order w =
     paginate skip limit 100
       (order_rows (lead_column db_order sort_by) (is_asc order)
          (t_where (\<lambda>i l. ld_website l = Some sid \<and> ld_user l = uid
                          \<and> (\<not> truthy source \<or> ld_source l = the source)) (sd_leads w)))"

definition create_lead ::
  "int \<Rightarrow> int \<Rightarrow> string \<Rightarrow> string \<Rightarrow> ('a seo_db_scheme) \<Rightarrow> (int \<times> lead) outcome \<times> ('a seo_db_scheme)" where
  "create_lead sid uid email source w =
     (if \<not> refs_ok uid (Some sid) w then (Inl integrity_error, w)
      else
        let l = \<lparr>ld_website = Some sid, ld_user = uid, ld_email = email, ld_phone = None, ld_source = source,
                 ld_created = db_now w\<rparr>;
            (i, t) = t_insert l (sd_leads w)
        in (Inr (i, l), w\<lparr>sd_leads := t\<rparr>))"

definition report_column :: "(string \<Rightarrow> int \<times> report \<Rightarrow> int) \<Rightarrow> string \<Rightarrow> int \<times> report \<Rightarrow> int" where
  "report_column = sort_by_column
     [(''website_id'', rp_website), (''user_id'', rp_user), (''created_at'', rp_created)] [''title'', ''format'']"

definition get_user_reports_for_website ::
  "(string \<Rightarrow> int \<times> report \<Rightarrow> int) \<Rightarrow> int \<Rightarrow> int \<Rightarrow> int \<Rightarrow> int \<Rightarrow> string option \<Rightarrow> string \<Rightarrow> string
     \<Rightarrow> ('a seo_db_scheme) \<Rightarrow> (int \<times> report) list" where
  "get_user_reports_for_website db_order sid uid skip limit fmt sort_by order w =
     paginate skip limit 100
       (order_rows (report_column db_order sort_by) (is_asc order)
          (t_where (\<lambda>i r. rp_website r = sid \<and> rp_user r = uid
                          \<and> (\<not> truthy fmt \<or> rp_format r = the fmt)) (sd_reports w)))"

definition create_report ::
  "int \<Rightarrow> int \<Rightarrow> string \<Rightarrow> string \<Rightarrow> ('a seo_db_scheme) \<Rightarrow> (int \<times> report) outcome \<times> ('a seo_db_scheme)" where
  "create_report sid uid title fmt w =
     (if \<not> refs_ok uid (Some sid) w then (Inl integrity_error, w)
      else
        let r = \<lparr>rp_website = sid, rp_user = uid, rp_title = title, rp_format = fmt, rp_created = db_now w\<rparr>;
            (i, t) = t_insert r (sd_reports w)
        in (Inr (i, r), w\<lparr>sd_reports := t\<rparr>))"

section \<open>Bulk insertions\<close>

text \<open>
  The items are dictionaries; a field is \<^const>\<open>None\<close> when the key is missing. The columns \<^verbatim>\<open>email\<close>,
  \<^verbatim>\<open>keyword\<close> and \<^verbatim>\<open>domain\<close> are not nullable: a missing value fails the commit, and no row is kept.
\<close>

fun t_insert_all :: "'r list \<Rightarrow> 'r table \<Rightarrow> (int \<times> 'r) list \<times> 'r table" where
  "t_insert_all [] t = ([], t)"
| "t_insert_all (r # rs) t =
     (case t_insert r t of (i, t1) \<Rightarrow> (case t_insert_all rs t1 of (rows, t2) \<Rightarrow> ((i, r) # rows, t2)))"

record keyword_item =
  ki_seed :: "string option"
  ki_keyword :: "string option"
  ki_intent :: "string option"
  ki_volume :: "int option"
  ki_kd :: "int option"
  ki_cpc :: "string option"
  ki_cluster :: "string option"

definition keyword_row :: "int \<Rightarrow> int \<Rightarrow> keyword_item \<Rightarrow> keyword_result" where
  "keyword_row uid now it =
     \<lparr>kr_user = uid, kr_seed = set_opt (ki_seed it) [], kr_keyword = set_opt (ki_keyword it) [],
      kr_intent = set_opt (ki_intent it) ''Informational'', kr_volume = set_opt (ki_volume it) 0,
      kr_kd = set_opt (ki_kd it) 0, kr_cpc = set_opt (ki_cpc it) ''0.00'',
      kr_cluster = set_opt (ki_cluster it) ''General'', kr_created = now\<rparr>"

definition bulk_create_keywords ::
  "int \<Rightarrow> keyword_item list \<Rightarrow> ('a seo_db_scheme) \<Rightarrow> (int \<times> keyword_result) list outcome \<times> ('a seo_db_scheme)" where
  "bulk_create_keywords uid items w =
     (if items = [] then (Inr [], w)
      else if \<not> refs_ok uid None w then (Inl integrity_error, w)
      else (case t_insert_all (map (keyword_row uid (db_now w)) items) (sd_keywords w) of
              (rows, t) \<Rightarrow> (Inr rows, w\<lparr>sd_keywords := t\<rparr>)))"

record lead_item =
  li_email :: "string option"
  li_phone :: "string option"
  li_source :: "string option"

definition lead_row :: "int \<Rightarrow> int option \<Rightarrow> int \<Rightarrow> lead_item \<Rightarrow> lead" where
  "lead_row uid site now it =
     \<lparr>ld_website = site, ld_user = uid, ld_email = set_opt (li_email it) [], ld_phone = li_phone it,
      ld_source = set_opt (li_source it) ''audit'', ld_created = now\<rparr>"

definition bulk_create_leads ::
  "int \<Rightarrow> int option \<Rightarrow> lead_item list \<Rightarrow> ('a seo_db_scheme) \<Rightarrow> (int \<times> lead) list outcome \<times> ('a seo_db_scheme)" where
  "bulk_create_leads uid site items w =
     (if items = [] then (Inr [], w)
      else if \<not> refs_ok uid site w \<or> list_ex (\<lambda>it. li_email it = None) items then (Inl integrity_error, w)
      else (case t_insert_all (map (lead_row uid site (db_now w)) items) (sd_leads w) of
              (rows, t) \<Rightarrow> (Inr rows, w\<lparr>sd_leads := t\<rparr>)))"

record rank_item =
  ri_website :: "int option"
  ri_keyword :: "string option"
  ri_domain :: "string option"
  ri_position :: "int option"
  ri_checked :: "int option"
  ri_source :: "string option"

definition rank_row :: "int \<Rightarrow> int \<Rightarrow> rank_item \<Rightarrow> rank_check" where
  "rank_row uid now it =
     \<lparr>rk_website = ri_website it, rk_user = uid, rk_keyword = set_opt (ri_keyword it) [],
      rk_domain = set_opt (ri_domain it) [], rk_position = set_opt (ri_position it) 100,
      rk_checked = set_opt (ri_checked it) 30, rk_source = set_opt (ri_source it) ''free_tracker'',
      rk_created = now\<rparr>"

definition bulk_create_rank_checks ::
  "int \<Rightarrow> rank_item list \<Rightarrow> ('a seo_db_scheme) \<Rightarrow> (int \<times> rank_check) list outcome \<times> ('a seo_db_scheme)" where
  "bulk_create_rank_checks uid items w =
     (if items = [] then (Inr [], w)
      else if list_ex (\<lambda>it. \<not> refs_ok uid (ri_website it) w \<or> ri_keyword it = None \<or> ri_domain it = None) items
      then (Inl integrity_error, w)
      else (case t_insert_all (map (rank_row uid (db_now w)) items) (sd_ranks w) of
              (rows, t) \<Rightarrow> (Inr rows, w\<lparr>sd_ranks := t\<rparr>)))"

section \<open>Cursors\<close>

definition get_user_websites_cursor ::
  "(string \<Rightarrow> bool \<Rightarrow> (int \<times> website) list \<Rightarrow> ((int \<times> website) list) outcome) \<Rightarrow> int \<Rightarrow> string option \<Rightarrow> int
     \<Rightarrow> string \<Rightarrow> ('a seo_db_scheme) \<Rightarrow> ((int \<times> website) list \<times> string option \<times> bool) outcome" where
  "get_user_websites_cursor text_cmp uid cursor limit order w =
     cursor_paginate text_cmp fst (t_where (\<lambda>i s. w_user s = Some uid) (db_sites w)) cursor limit 100 order"

definition get_user_audits_cursor ::
  "(string \<Rightarrow> bool \<Rightarrow> (int \<times> audit_result) list \<Rightarrow> ((int \<times> audit_result) list) outcome) \<Rightarrow> int \<Rightarrow> int
     \<Rightarrow> string option \<Rightarrow> int \<Rightarrow> string \<Rightarrow> ('a seo_db_scheme)
     \<Rightarrow> ((int \<times> audit_result) list \<times> string option \<times> bool) outcome" where
  "get_user_audits_cursor text_cmp sid uid cursor limit order w =
     cursor_paginate text_cmp fst (t_where (\<lambda>i a. ar_website a = sid \<and> ar_user a = uid) (sd_audits w)) cursor
       limit 100 order"

definition get_user_leads_cursor ::
  "(string \<Rightarrow> bool \<Rightarrow> (int \<times> lead) list \<Rightarrow> ((int \<times> lead) list) outcome) \<Rightarrow> int \<Rightarrow> int
     \<Rightarrow> string option \<Rightarrow> int \<Rightarrow> string \<Rightarrow> ('a seo_db_scheme)
     \<Rightarrow> ((int \<times> lead) list \<times> string option \<times> bool) outcome" where
  "get_user_leads_cursor text_cmp sid uid cursor limit order w =
     cursor_paginate text_cmp fst (t_where (\<lambda>i l. ld_website l = Some sid \<and> ld_user l = uid) (sd_leads w)) cursor
       limit 100 order"

section \<open>Ownership\<close>

text \<open>\<^verbatim>\<open>backend/api/dependencies.py\<close>: 404 when there is no such row, 403 when it is not the user's.\<close>

definition verify_website_ownership :: "int \<Rightarrow> int \<Rightarrow> ('a seo_db_scheme) \<Rightarrow> (int \<times> website) outcome" where
  "verify_website_ownership sid uid w =
     (case get_website_by_id_unfiltered sid w of
        None \<Rightarrow> Inl (AppError (app_error ResourceNotFoundException ''Website not found''))
      | Some (i, s) \<Rightarrow>
          if w_user s \<noteq> Some uid
          then Inl (AppError (app_error ForbiddenException ''Forbidden: You do not own this website''))
          else Inr (i, s))"

definition verify_audit_ownership :: "int \<Rightarrow> int \<Rightarrow> ('a seo_db_scheme) \<Rightarrow> (int \<times> audit_result) outcome" where
  "verify_audit_ownership aid uid w =
     (case get_audit_by_id_unfiltered aid w of
        None \<Rightarrow> Inl (AppError (app_error ResourceNotFoundException ''Audit result not found''))
      | Some (i, a) \<Rightarrow>
          if ar_user a \<noteq> uid
          then Inl (AppError (app_error ForbiddenException ''Forbidden: You do not own this audit''))
          else Inr (i, a))"

definition verify_domain_ownership ::
  "string \<Rightarrow> int \<Rightarrow> ('a seo_db_scheme) \<Rightarrow> (int \<times> website) option outcome" where
  "verify_domain_ownership d uid w =
     (case get_website_by_domain_unfiltered d w of
        None \<Rightarrow> Inr None
      | Some (i, s) \<Rightarrow>
          if w_user s \<noteq> Some uid
          then Inl (AppError (app_error ForbiddenException ''Forbidden: Domain belongs to another user''))
          else Inr (Some (i, s)))"

definition verify_job_ownership :: "int \<Rightarrow> int \<Rightarrow> jobs_world \<Rightarrow> job_ref outcome" where
  "verify_job_ownership jid uid jw =
     (case get_job_by_id_unfiltered jw jid of
        None \<Rightarrow> Inl (AppError (app_error ResourceNotFoundException ''Job not found''))
      | Some ref \<Rightarrow>
          (case ref_load ref jw of
             Inl e \<Rightarrow> Inl e
           | Inr (j, ref1) \<Rightarrow>
               if j_user_id j \<noteq> uid
               then Inl (AppError (app_error ForbiddenException ''Forbidden: You do not own this job''))
               else Inr ref1))"

end
