(* ===== verification/Seo_Page.thy ===== *)
theory Seo_Page
  imports Websites Urls
begin

text \<open>
  \<^verbatim>\<open>SEOHTMLParser\<close> and \<^verbatim>\<open>calculate_seo_score\<close> of \<^verbatim>\<open>backend/services/scraper_service.py\<close>. The tokenizer of Python's
  \<^verbatim>\<open>html.parser\<close> is not modelled: the handlers run on the list of the events it calls them with.
\<close>

section \<open>Email addresses in a text\<close>

definition local_char :: "char \<Rightarrow> bool" where
  "local_char c \<longleftrightarrow> is_alnum c \<or> c \<in> set ''._%+-''"

definition host_char :: "char \<Rightarrow> bool" where
  "host_char c \<longleftrightarrow> is_alnum c \<or> c = CHR ''.'' \<or> c = CHR ''-''"

text \<open>
  The length of \<^verbatim>\<open>[a-zA-Z0-9.-]+\.[a-zA-Z]{2,}\<close> at the start of a run of its characters: the last dot that is
  not the first character and has two letters or more behind it, and those letters.
\<close>

definition host_match :: "string \<Rightarrow> nat option" where
  "host_match run =
     (case filter (\<lambda>j. run ! j = CHR ''.'' \<and> 2 \<le> length (takeWhile is_alpha (drop (j + 1) run))) [1..<length run] of
        [] \<Rightarrow> None
      | js \<Rightarrow> Some (last js + 1 + length (takeWhile is_alpha (drop (last js + 1) run))))"

text \<open>The length of \<^verbatim>\<open>[a-zA-Z0-9._%+-]+@[a-zA-Z0-9.-]+\.[a-zA-Z]{2,}\<close> at the start of a text.\<close>

definition email_match :: "string \<Rightarrow> nat option" where
  "email_match s =
     (let l = takeWhile local_char s; r = dropWhile local_char s
      in if l = [] \<or> take 1 r \<noteq> ''@'' then None
         else map_option (\<lambda>n. length l + 1 + n) (host_match (takeWhile host_char (drop 1 r))))"

text \<open>\<^verbatim>\<open>re.findall\<close>\<close>

function find_emails :: "string \<Rightarrow> string list" where
  "find_emails [] = []"
| "find_emails (c # s) =
     (case email_match (c # s) of
        None \<Rightarrow> find_emails s
      | Some n \<Rightarrow> take n (c # s) # find_emails (drop (n - 1) s))"
  by pat_completeness auto

termination find_emails
  by (relation "measure length") auto

lemma find_emails_examples:
  "find_emails ''write to a.b@x.co.uk, or c@d'' = [''a.b@x.co.uk'']"
  "find_emails ''x@y.png z@w.com.'' = [''x@y.png'', ''z@w.com'']"
  by code_simp+

section \<open>The handlers\<close>

datatype html_event =
    StartTag string "(string \<times> string option) list"
  | EndTag string
  | HtmlData string

record seo_parser =
  sp_title :: "string option"
  sp_description :: "string option"
  sp_canonical :: "string option"
  sp_h1 :: "string list"
  sp_images :: int
  sp_no_alt :: int
  sp_emails :: "string list"
  sp_opengraph :: bool
  sp_in_title :: bool
  sp_in_h1 :: bool
  sp_h1_text :: "string list"

definition new_parser :: seo_parser where
  "new_parser =
     \<lparr>sp_title = None, sp_description = None, sp_canonical = None, sp_h1 = [], sp_images = 0, sp_no_alt = 0,
      sp_emails = [], sp_opengraph = False, sp_in_title = False, sp_in_h1 = False, sp_h1_text = []\<rparr>"

definition attr_dict :: "(string \<times> string option) list \<Rightarrow> (string, string) py_dict" where
  "attr_dict attrs = foldl (\<lambda>d (k, v). d_set (str_lower k) (or_else v []) d) [] attrs"

definition attr_or :: "(string, string) py_dict \<Rightarrow> string \<Rightarrow> string" where
  "attr_or d k = (case d_get d k of None \<Rightarrow> [] | Some v \<Rightarrow> v)"

definition meta_tag :: "(string, string) py_dict \<Rightarrow> seo_parser \<Rightarrow> seo_parser" where
  "meta_tag d p =
     (let name = str_lower (attr_or d ''name''); prop = str_lower (attr_or d ''property'');
          content = attr_or d ''content''
      in if name = ''description'' then p\<lparr>sp_description := Some content\<rparr>
         else if starts_with prop ''og:'' \<or> starts_with name ''twitter:''
         then (if prop = ''og:description'' \<and> \<not> truthy (sp_description p)
               then p\<lparr>sp_opengraph := True, sp_description := Some content\<rparr>
               else p\<lparr>sp_opengraph := True\<rparr>)
         else p)"

definition img_tag :: "(string, string) py_dict \<Rightarrow> seo_parser \<Rightarrow> seo_parser" where
  "img_tag d p =
     (let p1 = p\<lparr>sp_images := sp_images p + 1\<rparr>
      in if (case d_get d ''alt'' of None \<Rightarrow> True | Some alt \<Rightarrow> str_strip alt = [])
         then p1\<lparr>sp_no_alt := sp_no_alt p1 + 1\<rparr> else p1)"

definition anchor_tag :: "(string, string) py_dict \<Rightarrow> seo_parser \<Rightarrow> seo_parser" where
  "anchor_tag d p =
     (let href = attr_or d ''href''
      in if starts_with href ''mailto:''
         then (let email = str_strip (before (CHR ''?'') (str_remove ''mailto:'' href))
               in if email \<noteq> [] \<and> CHR ''@'' \<in> set email \<and> email \<notin> set (sp_emails p)
                  then p\<lparr>sp_emails := sp_emails p @ [email]\<rparr> else p)
         else p)"

definition handle_starttag :: "string \<Rightarrow> (string \<times> string option) list \<Rightarrow> seo_parser \<Rightarrow> seo_parser" where
  "handle_starttag tag attrs p =
     (let d = attr_dict attrs; t = str_lower tag
      in if t = ''title'' then p\<lparr>sp_in_title := True\<rparr>
         else if t = ''h1'' then p\<lparr>sp_in_h1 := True, sp_h1_text := []\<rparr>
         else if t = ''meta'' then meta_tag d p
         else if t = ''link''
         then (if str_lower (attr_or d ''rel'') = ''canonical'' then p\<lparr>sp_canonical := d_get d ''href''\<rparr> else p)
         else if t = ''img'' then img_tag d p
         else if t = ''a'' then anchor_tag d p
         else p)"

definition handle_endtag :: "string \<Rightarrow> seo_parser \<Rightarrow> seo_parser" where
  "handle_endtag tag p =
     (let t = str_lower tag
      in if t = ''title'' then p\<lparr>sp_in_title := False\<rparr>
         else if t = ''h1''
         then (let h = str_strip (concat (sp_h1_text p)); p1 = p\<lparr>sp_in_h1 := False\<rparr>
               in if h \<noteq> [] then p1\<lparr>sp_h1 := sp_h1 p1 @ [h]\<rparr> else p1)
         else p)"

definition image_suffix :: "string \<Rightarrow> bool" where
  "image_suffix s \<longleftrightarrow> list_ex (ends_with s) [''.png'', ''.jpg'', ''.gif'', ''.svg'']"

definition add_found :: "seo_parser \<Rightarrow> string \<Rightarrow> seo_parser" where
  "add_found p em =
     (if str_lower em \<notin> set (sp_emails p) \<and> \<not> image_suffix em
      then p\<lparr>sp_emails := sp_emails p @ [str_lower em]\<rparr> else p)"

definition handle_data :: "string \<Rightarrow> seo_parser \<Rightarrow> seo_parser" where
  "handle_data text p =
     (let p1 = (if sp_in_title p
                then p\<lparr>sp_title := Some (case sp_title p of
                         None \<Rightarrow> str_strip text | Some t \<Rightarrow> t @ '' '' @ str_strip text)\<rparr>
                else if sp_in_h1 p then p\<lparr>sp_h1_text := sp_h1_text p @ [text]\<rparr>
                else p)
      in foldl add_found p1 (find_emails text))"

fun handle_event :: "seo_parser \<Rightarrow> html_event \<Rightarrow> seo_parser" where
  "handle_event p (StartTag tag attrs) = handle_starttag tag attrs p"
| "handle_event p (EndTag tag) = handle_endtag tag p"
| "handle_event p (HtmlData text) = handle_data text p"

definition feed :: "html_event list \<Rightarrow> seo_parser" where
  "feed es = foldl handle_event new_parser es"

section \<open>The score\<close>

definition title_points :: "string option \<Rightarrow> int" where
  "title_points t =
     (if truthy t
      then (let n = length (or_else t [])
            in if 50 \<le> n \<and> n \<le> 60 then 25 else if 30 \<le> n \<and> n \<le> 70 then 20 else 10)
      else 0)"

definition description_points :: "string option \<Rightarrow> int" where
  "description_points t =
     (if truthy t
      then (let n = length (or_else t [])
            in if 120 \<le> n \<and> n \<le> 160 then 20 else if 80 \<le> n \<and> n \<le> 200 then 15 else 10)
      else 0)"

definition h1_points :: "string list \<Rightarrow> int" where
  "h1_points hs = (if length hs = 1 then 15 else if 1 < length hs then 10 else 0)"

text \<open>\<^verbatim>\<open>int(x)\<close> of a number cuts towards zero.\<close>

definition cut :: "rat \<Rightarrow> int" where
  "cut x = (if 0 \<le> x then \<lfloor>x\<rfloor> else \<lceil>x\<rceil>)"

definition image_points :: "int \<Rightarrow> int \<Rightarrow> int" where
  "image_points images no_alt =
     (if images = 0 then 15 else cut (of_int (images - no_alt) / of_int images * 15))"

definition raw_score ::
  "string option \<Rightarrow> string option \<Rightarrow> string list \<Rightarrow> string option \<Rightarrow> int \<Rightarrow> int \<Rightarrow> bool \<Rightarrow> bool \<Rightarrow> int" where
  "raw_score title desc h1s canonical images no_alt opengraph https =
     title_points title + description_points desc + h1_points h1s
     + (if truthy canonical then 10 else 0) + image_points images no_alt
     + (if opengraph then 10 else 0) + (if https then 5 else 0)"

definition calculate_seo_score ::
  "string option \<Rightarrow> string option \<Rightarrow> string list \<Rightarrow> string option \<Rightarrow> int \<Rightarrow> int \<Rightarrow> bool \<Rightarrow> bool \<Rightarrow> int" where
  "calculate_seo_score title desc h1s canonical images no_alt opengraph https =
     max 0 (min 100 (raw_score title desc h1s canonical images no_alt opengraph https))"

section \<open>Bounds\<close>

definition parser_ok :: "seo_parser \<Rightarrow> bool" where
  "parser_ok p \<longleftrightarrow> 0 \<le> sp_no_alt p \<and> sp_no_alt p \<le> sp_images p \<and> list_all (\<lambda>h. h \<noteq> []) (sp_h1 p)
     \<and> distinct (sp_emails p)"

lemma add_found_ok: "parser_ok p \<Longrightarrow> parser_ok (foldl add_found p ems)"
  by (induction ems arbitrary: p) (auto simp: add_found_def parser_ok_def)

lemma event_ok:
  assumes "parser_ok p"
  shows "parser_ok (handle_event p e)"
proof (cases e)
  case (StartTag tag attrs)
  have "parser_ok (meta_tag d p)" "parser_ok (img_tag d p)" "parser_ok (anchor_tag d p)" for d
    using assms by (auto simp: parser_ok_def meta_tag_def img_tag_def anchor_tag_def Let_def split: option.splits)
  then show ?thesis using assms
    by (auto simp: StartTag handle_starttag_def Let_def) (auto simp: parser_ok_def)
next
  case (EndTag tag)
  then show ?thesis using assms by (auto simp: handle_endtag_def Let_def parser_ok_def)
next
  case (HtmlData s)
  have "parser_ok (p\<lparr>sp_title := t\<rparr>)" "parser_ok (p\<lparr>sp_h1_text := h\<rparr>)" for t h
    using assms by (simp_all add: parser_ok_def)
  then show ?thesis using assms add_found_ok by (simp add: HtmlData handle_data_def Let_def)
qed

interpretation parsing: machine handle_event parser_ok
  by unfold_locales (rule event_ok)

lemma feed_ok: "parser_ok (feed es)"
  unfolding feed_def by (rule parsing.run_inv) (simp add: parser_ok_def new_parser_def)

lemma image_points_bounds:
  assumes "0 \<le> m" and "m \<le> n"
  shows "0 \<le> image_points n m" "image_points n m \<le> 15" "image_points n m = 15 \<longleftrightarrow> m = 0"
proof -
  have "0 \<le> image_points n m \<and> image_points n m \<le> 15 \<and> (image_points n m = 15 \<longleftrightarrow> m = 0)"
  proof (cases "n = 0")
    case True
    then show ?thesis using assms by (simp add: image_points_def)
  next
    case False
    define x :: rat where "x = of_int (n - m) / of_int n * 15"
    have n: "0 < n" using assms False by simp
    then have x: "0 \<le> x" "x \<le> 15" "x = 15 \<longleftrightarrow> m = 0"
      using assms by (simp_all add: x_def field_simps)
    have "image_points n m = \<lfloor>x\<rfloor>" using False x(1) by (simp add: image_points_def cut_def x_def)
    moreover have "0 \<le> \<lfloor>x\<rfloor>" using x(1) by simp
    moreover have "\<lfloor>x\<rfloor> \<le> 15" using x(2) by (simp add: floor_le_iff)
    moreover have "\<lfloor>x\<rfloor> = 15 \<longleftrightarrow> x = 15" using x(2) by (auto simp: floor_eq_iff)
    ultimately show ?thesis using x(3) by simp
  qed
  then show "0 \<le> image_points n m" "image_points n m \<le> 15" "image_points n m = 15 \<longleftrightarrow> m = 0" by auto
qed

lemma points_bounds:
  "0 \<le> title_points t" "title_points t \<le> 25" "0 \<le> description_points t" "description_points t \<le> 20"
  "0 \<le> h1_points hs" "h1_points hs \<le> 15"
  "title_points t = 25 \<longleftrightarrow> 50 \<le> length (or_else t []) \<and> length (or_else t []) \<le> 60"
  "description_points t = 20 \<longleftrightarrow> 120 \<le> length (or_else t []) \<and> length (or_else t []) \<le> 160"
  "h1_points hs = 15 \<longleftrightarrow> length hs = 1"
  by (cases t; auto simp: title_points_def description_points_def h1_points_def Let_def truthy_def or_else_def)+

lemma score_bounds:
  assumes "0 \<le> m" and "m \<le> n"
  shows "calculate_seo_score t d h c n m og https = raw_score t d h c n m og https"
    and "raw_score t d h c n m og https \<le> 100"
proof -
  have c: "0 \<le> (if truthy c then 10 else 0 :: int)" "(if truthy c then 10 else 0 :: int) \<le> 10"
    "0 \<le> (if og then 10 else 0 :: int)" "(if og then 10 else 0 :: int) \<le> 10"
    "0 \<le> (if https then 5 else 0 :: int)" "(if https then 5 else 0 :: int) \<le> 5" by simp_all
  note b = points_bounds(1,2) [of t] points_bounds(3,4) [of d] points_bounds(5,6) [of h]
    image_points_bounds(1,2) [OF assms]
  show "raw_score t d h c n m og https \<le> 100" unfolding raw_score_def using b c by linarith
  moreover have "0 \<le> raw_score t d h c n m og https" unfolding raw_score_def using b c by linarith
  ultimately show "calculate_seo_score t d h c n m og https = raw_score t d h c n m og https"
    by (simp add: calculate_seo_score_def)
qed

text \<open>
  the score of a page that was parsed is the sum of its seven parts, the bounds of the code never
  act, and it is 100 exactly for a page with a title of 50 to 60 characters, a description of 120 to 160,
  one heading, a canonical address, alternative texts on all images, OpenGraph and HTTPS.
\<close>

theorem score_is_the_sum:
  "calculate_seo_score t d h c (sp_images (feed es)) (sp_no_alt (feed es)) og https
     = raw_score t d h c (sp_images (feed es)) (sp_no_alt (feed es)) og https
   \<and> (raw_score t d h c (sp_images (feed es)) (sp_no_alt (feed es)) og https = 100) =
      (50 \<le> length (or_else t []) \<and> length (or_else t []) \<le> 60
       \<and> 120 \<le> length (or_else d []) \<and> length (or_else d []) \<le> 160
       \<and> length h = 1 \<and> truthy c \<and> sp_no_alt (feed es) = 0 \<and> og \<and> https)"
proof -
  have p: "0 \<le> sp_no_alt (feed es)" "sp_no_alt (feed es) \<le> sp_images (feed es)"
    using feed_ok [of es] by (simp_all add: parser_ok_def)
  let ?n = "sp_images (feed es)" and ?m = "sp_no_alt (feed es)"
  have "raw_score t d h c ?n ?m og https = 100 \<longleftrightarrow>
      title_points t = 25 \<and> description_points d = 20 \<and> h1_points h = 15 \<and> truthy c
      \<and> image_points ?n ?m = 15 \<and> og \<and> https"
    using points_bounds(1,2) [of t] points_bounds(3,4) [of d] points_bounds(5,6) [of h]
      image_points_bounds(1,2) [OF p]
    unfolding raw_score_def by (cases "truthy c"; cases og; cases https) auto
  then show ?thesis
    using score_bounds(1) [OF p] image_points_bounds(3) [OF p] points_bounds(7) [of t] points_bounds(8) [of d]
      points_bounds(9) [of h] by auto
qed

end
