(* ===== verification/Seo_Audit.thy ===== *)
theory Seo_Audit
  imports Seo_DB Seo_Page Ssrf_Props
begin

text \<open>
  \<^verbatim>\<open>ScraperService\<close> of \<^verbatim>\<open>backend/services/scraper_service.py\<close>: the fetch of a page behind the SSRF checks, the
  audit of a website, synchronous and asynchronous, and the readers of \<^verbatim>\<open>robots.txt\<close>, sitemaps and WHOIS
  answers. The resolver, the HTTP client, the tokenizer of HTML and the XML parser are parameters.
\<close>

section \<open>Fetching a page\<close>

record http_response =
  hr_url :: string
  hr_status :: int
  hr_redirect :: bool
  hr_location :: "string option"
  hr_type :: string
  hr_text :: string
  hr_length :: int

text \<open>
  \<open>client u follow\<close> is a request of the shared client; with \<open>follow\<close> it goes on to the end of the redirects.
  The second request of the code leaves \<^verbatim>\<open>follow_redirects\<close> to the client, which is built with \<^verbatim>\<open>True\<close>.
\<close>

definition fetch_page_content ::
  "(string \<Rightarrow> int \<Rightarrow> string list outcome) \<Rightarrow> (string \<Rightarrow> bool \<Rightarrow> http_response outcome) \<Rightarrow> string
     \<Rightarrow> http_response outcome" where
  "fetch_page_content resolve client url =
     (case validate_url_ssrf resolve url of
        Inl e \<Rightarrow> Inl e
      | Inr safe \<Rightarrow>
          (case client safe False of
             Inl e \<Rightarrow> Inl e
           | Inr r \<Rightarrow>
               (case (if hr_redirect r then hr_location r else None) of
                  None \<Rightarrow> Inr r
                | Some loc \<Rightarrow>
                    (case validate_url_ssrf resolve loc of
                       Inl e \<Rightarrow> Inl e
                     | Inr safe_redirect \<Rightarrow> client safe_redirect True))))"

section \<open>The audit of a website\<close>

record audit_out =
  ao_website :: "int \<times> website"
  ao_audit :: "int \<times> audit_result"
  ao_leads :: int

definition url_domain :: "string \<Rightarrow> string" where
  "url_domain url =
     (case urlparse url of
        None \<Rightarrow> []
      | Some p \<Rightarrow> if up_netloc p \<noteq> [] then up_netloc p else before_char (CHR ''/'') (up_path p))"

definition str_upper :: "string \<Rightarrow> string" where
  "str_upper s = map char_upper s"

text \<open>The website of an audit and the address that is fetched, which may be missing.\<close>

definition audit_target ::
  "(string \<Rightarrow> int \<Rightarrow> string list outcome) \<Rightarrow> string option \<Rightarrow> int option \<Rightarrow> int \<Rightarrow> ('a seo_db_scheme)
     \<Rightarrow> (string option \<times> int \<times> website) outcome \<times> ('a seo_db_scheme)" where
  "audit_target resolve url website_id uid w =
     (if website_id \<noteq> None \<and> website_id \<noteq> Some 0
      then (case verify_website_ownership (the website_id) uid w of
              Inl e \<Rightarrow> (Inl e, w)
            | Inr (i, s) \<Rightarrow> (Inr (w_url s, i, s), w))
      else if truthy url
      then (case validate_url_ssrf resolve (the url) of
              Inl e \<Rightarrow> (Inl e, w)
            | Inr target \<Rightarrow>
                (case verify_domain_ownership (url_domain target) uid w of
                   Inl e \<Rightarrow> (Inl e, w)
                 | Inr (Some (i, s)) \<Rightarrow> (Inr (Some target, i, s), w)
                 | Inr None \<Rightarrow>
                     and_then (crud_create_website uid (Some target) (url_domain target)
                                 (Some (str_upper (before_char (CHR ''.'') (url_domain target)))) w)
                       (\<lambda>site w1. (Inr (Some target, site), w1))))
      else raise_app ValidationErrorException ''URL or website_id is required'' w)"

text \<open>\<^verbatim>\<open>website.company_name or website.domain\<close>\<close>

definition site_name :: "website \<Rightarrow> string" where
  "site_name s = or_else (w_company s) (w_domain s)"

fun create_leads :: "int \<Rightarrow> int \<Rightarrow> string list \<Rightarrow> ('a seo_db_scheme) \<Rightarrow> int outcome \<times> ('a seo_db_scheme)" where
  "create_leads sid uid [] w = (Inr 0, w)"
| "create_leads sid uid (em # ems) w =
     and_then (create_lead sid uid em ''website_scrape'' w)
       (\<lambda>_ w1. and_then (create_leads sid uid ems w1) (\<lambda>n w2. (Inr (n + 1), w2)))"

text \<open>What is stored when the page has been parsed.\<close>

definition store_audit ::
  "seo_parser \<Rightarrow> string \<Rightarrow> int \<times> website \<Rightarrow> int \<Rightarrow> ('a seo_db_scheme)
     \<Rightarrow> audit_out outcome \<times> ('a seo_db_scheme)" where
  "store_audit p target site uid w =
     (let s = snd site;
          score = calculate_seo_score (sp_title p) (sp_description p) (sp_h1 p)
                    (if truthy (sp_canonical p) then sp_canonical p else Some target)
                    (sp_images p) (sp_no_alt p) (sp_opengraph p) (starts_with target ''https://'');
          title = or_else (sp_title p) (site_name s @ '' - Official Website'');
          meta = or_else (sp_description p) (''Official website and products for '' @ w_domain s @ ''.'');
          h1s = (if sp_h1 p \<noteq> [] then sp_h1 p else [''Welcome to '' @ site_name s]);
          canonical = (if truthy (sp_canonical p) then sp_canonical p else w_url s);
          emails = (if sp_emails p \<noteq> [] then sp_emails p else [''info@'' @ w_domain s])
      in and_then (create_audit (fst site) uid score (Some title) (Some meta) h1s canonical
                     (sp_images p) (sp_no_alt p) 0 w)
           (\<lambda>a w1. and_then (create_leads (fst site) uid (take 3 emails) w1)
             (\<lambda>n w2. (Inr \<lparr>ao_website = site, ao_audit = a, ao_leads = n\<rparr>, w2))))"

text \<open>
  The text of the page; every exception of the request is swallowed. The synchronous audit lets its own client
  follow the redirects, without the checks of \<^verbatim>\<open>fetch_page_content_async\<close>.
\<close>

definition page_text_sync :: "(string \<Rightarrow> bool \<Rightarrow> http_response outcome) \<Rightarrow> string \<Rightarrow> string" where
  "page_text_sync client target = (case client target True of Inl e \<Rightarrow> [] | Inr r \<Rightarrow> hr_text r)"

definition page_text_async ::
  "(string \<Rightarrow> int \<Rightarrow> string list outcome) \<Rightarrow> (string \<Rightarrow> bool \<Rightarrow> http_response outcome) \<Rightarrow> string \<Rightarrow> string" where
  "page_text_async resolve client target =
     (case fetch_page_content resolve client target of Inl e \<Rightarrow> [] | Inr r \<Rightarrow> hr_text r)"

text \<open>\<open>tokenize\<close> gives the events of a text up to its end or to an exception, which is swallowed.\<close>

definition audit_page ::
  "(string \<Rightarrow> string) \<Rightarrow> (string \<Rightarrow> html_event list) \<Rightarrow> (string option \<times> int \<times> website) outcome \<times> ('a seo_db_scheme)
     \<Rightarrow> int \<Rightarrow> audit_out outcome \<times> ('a seo_db_scheme)" where
  "audit_page page_text tokenize target uid =
     and_then target
       (\<lambda>(address, site) w1.
          case address of
            None \<Rightarrow> (Inl (AttributeError ''startswith''), w1)
          | Some u \<Rightarrow>
              (let text = page_text u
               in store_audit (if text = [] then new_parser else feed (tokenize text)) u site uid w1))"

definition audit_website ::
  "(string \<Rightarrow> int \<Rightarrow> string list outcome) \<Rightarrow> (string \<Rightarrow> bool \<Rightarrow> http_response outcome) \<Rightarrow> (string \<Rightarrow> html_event list)
     \<Rightarrow> string option \<Rightarrow> int option \<Rightarrow> int \<Rightarrow> ('a seo_db_scheme) \<Rightarrow> audit_out outcome \<times> ('a seo_db_scheme)" where
  "audit_website resolve client tokenize url website_id uid w =
     audit_page (page_text_sync client) tokenize (audit_target resolve url website_id uid w) uid"

definition audit_website_async ::
  "(string \<Rightarrow> int \<Rightarrow> string list outcome) \<Rightarrow> (string \<Rightarrow> bool \<Rightarrow> http_response outcome) \<Rightarrow> (string \<Rightarrow> html_event list)
     \<Rightarrow> string option \<Rightarrow> int option \<Rightarrow> int \<Rightarrow> ('a seo_db_scheme) \<Rightarrow> audit_out outcome \<times> ('a seo_db_scheme)" where
  "audit_website_async resolve client tokenize url website_id uid w =
     audit_page (page_text_async resolve client) tokenize (audit_target resolve url website_id uid w) uid"

section \<open>What an audit writes\<close>

definition insert_all :: "'r list \<Rightarrow> 'r table \<Rightarrow> 'r table" where
  "insert_all rs t = foldl (\<lambda>t r. snd (t_insert r t)) t rs"

text \<open>
  The state after a complete audit: one new audit of the website, with a score from 0 to 100, one to
  three new leads of the website, all of them of the user, and nothing else, except for the website when
  it is new. The website is the user's.
\<close>

definition one_audit :: "int \<Rightarrow> ('a seo_db_scheme) \<Rightarrow> audit_out \<Rightarrow> ('a seo_db_scheme) \<Rightarrow> bool" where
  "one_audit uid w r w' \<longleftrightarrow>
     (\<exists>sites leads.
        (sites = db_sites w \<and> ao_website r \<in> set (t_rows (db_sites w))
         \<or> (fst (ao_website r), sites) = t_insert (snd (ao_website r)) (db_sites w))
        \<and> w_user (snd (ao_website r)) = Some uid
        \<and> w' = w\<lparr>db_sites := sites, sd_audits := snd (t_insert (snd (ao_audit r)) (sd_audits w)),
                 sd_leads := insert_all leads (sd_leads w)\<rparr>
        \<and> fst (ao_audit r) = t_next (sd_audits w)
        \<and> ar_website (snd (ao_audit r)) = fst (ao_website r) \<and> ar_user (snd (ao_audit r)) = uid
        \<and> 0 \<le> ar_score (snd (ao_audit r)) \<and> ar_score (snd (ao_audit r)) \<le> 100
        \<and> ao_leads r = int (length leads) \<and> 1 \<le> length leads \<and> length leads \<le> 3
        \<and> list_all (\<lambda>l. ld_website l = Some (fst (ao_website r)) \<and> ld_user l = uid) leads)"

definition audit_effect :: "int \<Rightarrow> ('a seo_db_scheme) \<Rightarrow> audit_out outcome \<times> ('a seo_db_scheme) \<Rightarrow> bool" where
  "audit_effect uid w res \<longleftrightarrow>
     (case fst res of Inl e \<Rightarrow> snd res = w | Inr r \<Rightarrow> one_audit uid w r (snd res))"

lemma refs_ok_other_tables [simp]:
  "refs_ok uid site (w\<lparr>sd_audits := A\<rparr>) = refs_ok uid site w" "refs_ok uid site (w\<lparr>sd_leads := L\<rparr>) = refs_ok uid site w"
  by (cases site; simp add: refs_ok_def)+

lemma create_leads_all:
  "refs_ok uid (Some sid) w \<Longrightarrow> \<exists>leads. length leads = length ems
     \<and> list_all (\<lambda>l. ld_website l = Some sid \<and> ld_user l = uid) leads
     \<and> create_leads sid uid ems w = (Inr (int (length ems)), w\<lparr>sd_leads := insert_all leads (sd_leads w)\<rparr>)"
proof (induction ems arbitrary: w)
  case Nil
  then show ?case by (auto simp: insert_all_def)
next
  case (Cons em ems)
  let ?l = "\<lparr>ld_website = Some sid, ld_user = uid, ld_email = em, ld_phone = None, ld_source = ''website_scrape'',
    ld_created = db_now w\<rparr>"
  let ?w = "w\<lparr>sd_leads := snd (t_insert ?l (sd_leads w))\<rparr>"
  have l: "create_lead sid uid em ''website_scrape'' w = (Inr (t_next (sd_leads w), ?l), ?w)"
    using Cons.prems by (simp add: create_lead_def Let_def t_insert_def)
  obtain leads where "length leads = length ems" "list_all (\<lambda>l. ld_website l = Some sid \<and> ld_user l = uid) leads"
    "create_leads sid uid ems ?w = (Inr (int (length ems)), ?w\<lparr>sd_leads := insert_all leads (sd_leads ?w)\<rparr>)"
    using Cons.IH [of ?w] Cons.prems by auto
  then show ?case by (intro exI [of _ "?l # leads"]) (simp add: l insert_all_def)
qed

text \<open>Storing succeeds exactly when the rows that are referred to exist, and then completely.\<close>

lemma store_audit_fails:
  "\<not> refs_ok uid (Some (fst site)) w \<Longrightarrow> store_audit p u site uid w = (Inl integrity_error, w)"
  by (simp add: store_audit_def Let_def create_audit_def)

lemma store_audit_stores:
  assumes "refs_ok uid (Some (fst site)) w"
  shows "\<exists>r leads. store_audit p u site uid w = (Inr r, w\<lparr>sd_audits := snd (t_insert (snd (ao_audit r)) (sd_audits w)),
                                                      sd_leads := insert_all leads (sd_leads w)\<rparr>)
    \<and> ao_website r = site \<and> fst (ao_audit r) = t_next (sd_audits w)
    \<and> ar_website (snd (ao_audit r)) = fst site \<and> ar_user (snd (ao_audit r)) = uid
    \<and> 0 \<le> ar_score (snd (ao_audit r)) \<and> ar_score (snd (ao_audit r)) \<le> 100
    \<and> ao_leads r = int (length leads) \<and> 1 \<le> length leads \<and> length leads \<le> 3
    \<and> list_all (\<lambda>l. ld_website l = Some (fst site) \<and> ld_user l = uid) leads"
proof -
  let ?ems = "take 3 (if sp_emails p \<noteq> [] then sp_emails p else [''info@'' @ w_domain (snd site)])"
  have ems: "1 \<le> length ?ems" "length ?ems \<le> 3" by (auto simp: Suc_le_eq)
  have audit: "create_audit (fst site) uid sc t d h c n m b w = (let a = new_audit (fst site) uid sc t d h c n m b (db_now w)
      in (Inr (t_next (sd_audits w), a), w\<lparr>sd_audits := snd (t_insert a (sd_audits w))\<rparr>))" for sc t d h c n m b
    using assms by (simp add: create_audit_def Let_def t_insert_def)
  have "\<exists>a. store_audit p u site uid w =
      and_then (Inr (t_next (sd_audits w), a), w\<lparr>sd_audits := snd (t_insert a (sd_audits w))\<rparr>)
        (\<lambda>a w1. and_then (create_leads (fst site) uid ?ems w1)
          (\<lambda>n w2. (Inr \<lparr>ao_website = site, ao_audit = a, ao_leads = n\<rparr>, w2)))
      \<and> ar_website a = fst site \<and> ar_user a = uid \<and> 0 \<le> ar_score a \<and> ar_score a \<le> 100"
    unfolding store_audit_def Let_def audit [unfolded Let_def]
    by (intro exI conjI, rule refl) (simp_all add: new_audit_def calculate_seo_score_def)
  then obtain a where a: "ar_website a = fst site" "ar_user a = uid" "0 \<le> ar_score a" "ar_score a \<le> 100"
    and store: "store_audit p u site uid w =
      and_then (Inr (t_next (sd_audits w), a), w\<lparr>sd_audits := snd (t_insert a (sd_audits w))\<rparr>)
        (\<lambda>a w1. and_then (create_leads (fst site) uid ?ems w1)
          (\<lambda>n w2. (Inr \<lparr>ao_website = site, ao_audit = a, ao_leads = n\<rparr>, w2)))"
    by blast
  obtain leads where "length leads = length ?ems" "list_all (\<lambda>l. ld_website l = Some (fst site) \<and> ld_user l = uid) leads"
    "create_leads (fst site) uid ?ems (w\<lparr>sd_audits := snd (t_insert a (sd_audits w))\<rparr>) = (Inr (int (length ?ems)),
       w\<lparr>sd_audits := snd (t_insert a (sd_audits w)), sd_leads := insert_all leads (sd_leads w)\<rparr>)"
    using create_leads_all [of uid "fst site" "w\<lparr>sd_audits := snd (t_insert a (sd_audits w))\<rparr>" ?ems] assms by auto
  with a ems show ?thesis
    unfolding store
    by (intro exI [of _ "\<lparr>ao_website = site, ao_audit = (t_next (sd_audits w), a), ao_leads = int (length leads)\<rparr>"]
        exI [of _ leads]) simp
qed

text \<open>The website of an audit is one of the user's, or a new one; only the new one changes the tables.\<close>

lemma audit_target_cases:
  obtains (failed) e where "audit_target resolve url website_id uid w = (Inl e, w)"
  | (old) addr i s where "audit_target resolve url website_id uid w = (Inr (addr, i, s), w)"
      "(i, s) \<in> set (t_rows (db_sites w))" "w_user s = Some uid"
  | (new) addr i s T where "audit_target resolve url website_id uid w = (Inr (Some addr, i, s), w\<lparr>db_sites := T\<rparr>)"
      "(i, T) = t_insert s (db_sites w)" "w_user s = Some uid" "refs_ok uid None w"
proof -
  have site: "(i, s) \<in> set (t_rows (db_sites w)) \<and> w_user s = Some uid"
    if "verify_website_ownership k uid w = Inr (i, s)" for k i s
    using that
    by (auto simp: verify_website_ownership_def get_website_by_id_unfiltered_def t_first_def find_Some_iff
        split: option.splits if_splits dest!: nth_mem)
  have domain: "(i, s) \<in> set (t_rows (db_sites w)) \<and> w_user s = Some uid"
    if "verify_domain_ownership d uid w = Inr (Some (i, s))" for d i s
    using that
    by (auto simp: verify_domain_ownership_def get_website_by_domain_unfiltered_def t_first_def find_Some_iff
        split: option.splits if_splits dest!: nth_mem)
  have created: "(\<exists>e. crud_create_website uid u d c w = (Inl e, w))
      \<or> (\<exists>i s T. crud_create_website uid u d c w = (Inr (i, s), w\<lparr>db_sites := T\<rparr>) \<and> (i, T) = t_insert s (db_sites w)
           \<and> w_user s = Some uid \<and> refs_ok uid None w)" for u d c
    by (auto simp: crud_create_website_def Let_def t_insert_def new_website_def)
  show thesis
  proof (cases "website_id \<noteq> None \<and> website_id \<noteq> Some 0")
    case True
    then show thesis
      using site [of "the website_id"] that(1,2)
      by (cases "verify_website_ownership (the website_id) uid w") (auto simp: audit_target_def)
  next
    case no_id: False
    show thesis
    proof (cases "truthy url")
      case False
      with no_id show thesis by (intro that(1)) (auto simp: audit_target_def raise_app_def)
    next
      case True
      show thesis
      proof (cases "validate_url_ssrf resolve (the url)")
        case (Inl e)
        with no_id True show thesis by (intro that(1)) (auto simp: audit_target_def)
      next
        case url: (Inr target)
        show thesis
        proof (cases "verify_domain_ownership (url_domain target) uid w")
          case (Inl e)
          with no_id True url show thesis by (intro that(1)) (auto simp: audit_target_def)
        next
          case (Inr r)
          show thesis
          proof (cases r)
            case (Some p)
            obtain i s where "p = (i, s)" by (cases p)
            with Inr Some no_id True url domain show thesis by (intro that(2)) (auto simp: audit_target_def)
          next
            case None
            let ?c = "crud_create_website uid (Some target) (url_domain target)
              (Some (str_upper (before_char (CHR ''.'') (url_domain target)))) w"
            have t: "audit_target resolve url website_id uid w = and_then ?c (\<lambda>site w1. (Inr (Some target, site), w1))"
              using no_id True url Inr None by (auto simp: audit_target_def)
            from created [of "Some target" "url_domain target"
                "Some (str_upper (before_char (CHR ''.'') (url_domain target)))"] show thesis
            proof (elim disjE exE conjE)
              fix e assume "?c = (Inl e, w)"
              then show thesis by (intro that(1)) (simp add: t)
            next
              fix i s T assume "?c = (Inr (i, s), w\<lparr>db_sites := T\<rparr>)" "(i, T) = t_insert s (db_sites w)"
                "w_user s = Some uid" "refs_ok uid None w"
              then show thesis by (intro that(3)) (simp_all add: t)
            qed
          qed
        qed
      qed
    qed
  qed
qed

definition audit_succeeds :: "int \<Rightarrow> (string option \<times> int \<times> website) outcome \<times> ('a seo_db_scheme) \<Rightarrow> bool" where
  "audit_succeeds uid target \<longleftrightarrow>
     (case fst target of Inr (Some u, i, s) \<Rightarrow> refs_ok uid (Some i) (snd target) | _ \<Rightarrow> False)"

lemma page_audit_effect:
  "audit_effect uid w (audit_page f tokenize (audit_target resolve url website_id uid w) uid)
   \<and> ((\<exists>r. fst (audit_page f tokenize (audit_target resolve url website_id uid w) uid) = Inr r)
      \<longleftrightarrow> audit_succeeds uid (audit_target resolve url website_id uid w))"
proof -
  let ?p = "\<lambda>u. if f u = [] then new_parser else feed (tokenize (f u))"
  note defs = audit_page_def audit_effect_def audit_succeeds_def Let_def
  show ?thesis
  proof (cases rule: audit_target_cases [of resolve url website_id uid w])
    case (failed e)
    then show ?thesis by (simp add: defs)
  next
    case (old addr i s)
    show ?thesis
    proof (cases addr)
      case None
      then show ?thesis by (simp add: defs old(1))
    next
      case (Some u)
      show ?thesis
      proof (cases "refs_ok uid (Some i) w")
        case True
        with store_audit_stores [of uid "(i, s)" w "?p u" u] old show ?thesis
          by (fastforce simp: defs Some one_audit_def)
      next
        case False
        then show ?thesis using store_audit_fails [of uid "(i, s)" w "?p u" u] by (simp add: defs old(1) Some)
      qed
    qed
  next
    case (new u i s T)
    have "refs_ok uid (Some i) (w\<lparr>db_sites := T\<rparr>)"
      using new(2,4) by (auto simp: refs_ok_def t_insert_def t_get_def map_add_def split: option.split)
    with store_audit_stores [of uid "(i, s)" "w\<lparr>db_sites := T\<rparr>" "?p u" u] new show ?thesis
      by (fastforce simp: defs one_audit_def)
  qed
qed

text \<open>
  C33: an audit, synchronous or asynchronous, is complete or leaves the database as it was. A complete one
  adds one audit with a score from 0 to 100, one to three leads, and the website if it is new, all of them
  of the user who asked and of one website of this user, and changes no other row of any table. It is
  complete exactly when the website with its address is found or made and the rows it refers to exist.
\<close>

theorem audit_writes_own_rows:
  "audit_effect uid w (audit_website resolve client tokenize url website_id uid w)
   \<and> audit_effect uid w (audit_website_async resolve client tokenize url website_id uid w)
   \<and> ((\<exists>r. fst (audit_website resolve client tokenize url website_id uid w) = Inr r)
      \<longleftrightarrow> audit_succeeds uid (audit_target resolve url website_id uid w))
   \<and> ((\<exists>r. fst (audit_website_async resolve client tokenize url website_id uid w) = Inr r)
      \<longleftrightarrow> audit_succeeds uid (audit_target resolve url website_id uid w))"
  unfolding audit_website_def audit_website_async_def using page_audit_effect by blast

end
