(* ===== verification/Seo_Audit_Props.thy ===== *)
theory Seo_Audit_Props
  imports Seo_Audit
begin

text \<open>
  Error paths of the audits: a site that cannot be fetched, redirects after the second request, and domains
  with capital letters.
\<close>

section \<open>A site that cannot be fetched\<close>

lemma empty_page_score:
  "u \<noteq> [] \<Longrightarrow> calculate_seo_score None None [] (Some u) 0 0 False https = (if https then 30 else 25)"
  by (simp add: calculate_seo_score_def raw_score_def title_points_def description_points_def h1_points_def
      image_points_def)

lemma create_audit_keeps:
  "refs_ok uid (Some sid) w \<Longrightarrow> \<exists>a w1. create_audit sid uid sc t d h c n m b w = (Inr a, w1)
     \<and> snd a = new_audit sid uid sc t d h c n m b (db_now w) \<and> refs_ok uid (Some sid) w1"
  by (simp add: create_audit_def Let_def t_insert_def refs_ok_def)

lemma create_lead_keeps:
  "refs_ok uid (Some sid) w \<Longrightarrow> \<exists>l w1. create_lead sid uid em src w = (Inr l, w1) \<and> refs_ok uid (Some sid) w1"
  by (simp add: create_lead_def Let_def t_insert_def refs_ok_def)

text \<open>
  when the page of a website cannot be fetched, the audit does not fail: it is stored with a score of 25,
  or 30 with HTTPS, an invented title, description and heading, and one invented lead.
\<close>

theorem unreachable_site_is_scored:
  assumes "verify_website_ownership sid uid w = Inr (i, s)" and "sid \<noteq> 0" and "w_url s = Some u" and "u \<noteq> []"
    and "refs_ok uid (Some i) w" and "client u True = Inl err"
  shows "\<exists>r w'. audit_website resolve client tokenize url (Some sid) uid w = (Inr r, w')
    \<and> ar_score (snd (ao_audit r)) = (if starts_with u ''https://'' then 30 else 25)
    \<and> ar_title (snd (ao_audit r)) = Some (site_name s @ '' - Official Website'')
    \<and> ar_h1 (snd (ao_audit r)) = [''Welcome to '' @ site_name s] \<and> ao_leads r = 1"
proof -
  have t: "audit_target resolve url (Some sid) uid w = (Inr (Some u, i, s), w)"
    using assms(1-3) by (simp add: audit_target_def)
  have p: "page_text_sync client u = []" using assms(6) by (simp add: page_text_sync_def)
  have run: "audit_website resolve client tokenize url (Some sid) uid w = store_audit new_parser u (i, s) uid w"
    by (simp add: audit_website_def audit_page_def t p)
  let ?sc = "if starts_with u ''https://'' then 30 else 25 :: int"
  let ?title = "Some (site_name s @ '' - Official Website'')"
  let ?meta = "Some (''Official website and products for '' @ w_domain s @ ''.'')"
  let ?h1 = "[''Welcome to '' @ site_name s]"
  obtain a w1 where a: "create_audit i uid ?sc ?title ?meta ?h1 (w_url s) 0 0 0 w = (Inr a, w1)"
    "snd a = new_audit i uid ?sc ?title ?meta ?h1 (w_url s) 0 0 0 (db_now w)" "refs_ok uid (Some i) w1"
    using create_audit_keeps [OF assms(5)] by blast
  obtain l w2 where l: "create_lead i uid (''info@'' @ w_domain s) ''website_scrape'' w1 = (Inr l, w2)"
    using create_lead_keeps [OF a(3)] by blast
  have "store_audit new_parser u (i, s) uid w = (Inr \<lparr>ao_website = (i, s), ao_audit = a, ao_leads = 1\<rparr>, w2)"
    using a(1) l by (simp add: store_audit_def Let_def new_parser_def empty_page_score [OF assms(4)])
  then show ?thesis by (simp add: run a(2) new_audit_def)
qed

definition demo_seo :: seo_db where
  "demo_seo = db.extend ((db_empty False 5)\<lparr>db_users := snd (t_insert (new_user ''a@b'' ''a'' None True [] [] 0) t_empty),
       db_sites := snd (t_insert (new_website 1 (Some ''http://a.b'') ''a.b'' None 0) t_empty)\<rparr>)
     (seo_db.fields t_empty t_empty t_empty t_empty t_empty
        \<lparr>jw_jobs = t_empty, jw_now = 5, jw_pubsub = False, jw_published = []\<rparr>)"

lemma demo_site:
  "verify_website_ownership 1 1 demo_seo = Inr (1, new_website 1 (Some ''http://a.b'') ''a.b'' None 0)"
  by (simp add: verify_website_ownership_def get_website_by_id_unfiltered_def demo_seo_def db.defs t_first_def
      t_insert_def t_empty_def new_website_def)

theorem unreachable_site_is_scored_witness:
  "\<exists>r w'. audit_website (\<lambda>h n. Inr []) (\<lambda>u f. Inl (OtherException ''ConnectError'')) (\<lambda>t. []) None (Some 1) 1 demo_seo
       = (Inr r, w') \<and> ar_score (snd (ao_audit r)) = 25 \<and> ao_leads r = 1"
proof -
  have "refs_ok 1 (Some 1) demo_seo" by (simp add: refs_ok_def demo_seo_def db.defs db_empty_def)
  then obtain r w' where r: "audit_website (\<lambda>h n. Inr []) (\<lambda>u f. Inl (OtherException ''ConnectError'')) (\<lambda>t. []) None
      (Some 1) 1 demo_seo = (Inr r, w')" "ar_score (snd (ao_audit r)) = 25" "ao_leads r = 1"
    using unreachable_site_is_scored [OF demo_site, of "''http://a.b''" "\<lambda>u f. Inl (OtherException ''ConnectError'')"
        "OtherException ''ConnectError''" "\<lambda>h n. Inr []" "\<lambda>t. []" None]
    by (auto simp: new_website_def)
  then show ?thesis by blast
qed

section \<open>Redirects\<close>

text \<open>
  A client that goes on to the end of the redirects when it is asked to, as the client of the code does by
  default, at most \<open>n\<close> times; \<open>web\<close> is the answer of an address.
\<close>

fun following_client :: "(string \<Rightarrow> http_response) \<Rightarrow> nat \<Rightarrow> string \<Rightarrow> bool \<Rightarrow> http_response outcome" where
  "following_client web 0 u follow =
     (if follow \<and> hr_redirect (web u) then Inl (OtherException ''TooManyRedirects'') else Inr (web u))"
| "following_client web (Suc n) u follow =
     (if follow \<and> hr_redirect (web u) \<and> hr_location (web u) \<noteq> None
      then following_client web n (the (hr_location (web u))) follow else Inr (web u))"

text \<open>
  the fetch checks the address and its first redirect only: an address behind the second redirect is
  requested and its answer returned, whatever the address is.
\<close>

theorem second_redirect_is_not_checked:
  assumes "validate_url_ssrf resolve a = Inr a" and "validate_url_ssrf resolve b = Inr b"
    and "hr_redirect (web a)" and "hr_location (web a) = Some b"
    and "hr_redirect (web b)" and "hr_location (web b) = Some c" and "\<not> hr_redirect (web c)"
  shows "fetch_page_content resolve (following_client web (Suc n)) a = Inr (web c)"
proof -
  have "following_client web n c True = Inr (web c)" using assms(7) by (cases n) simp_all
  then show ?thesis using assms by (simp add: fetch_page_content_def)
qed

definition demo_web :: "string \<Rightarrow> http_response" where
  "demo_web u =
     \<lparr>hr_url = u, hr_status = 302, hr_redirect = (u = ''http://a.b'' \<or> u = ''http://a.c''),
      hr_location = (if u = ''http://a.b'' then Some ''http://a.c'' else Some ''http://169.254.169.254/x''),
      hr_type = ''text/html'', hr_text = ''secret'', hr_length = 6\<rparr>"

theorem second_redirect_is_not_checked_witness:
  "fetch_page_content (\<lambda>h n. Inr [''93.184.216.34'']) (following_client demo_web 20) ''http://a.b''
     = Inr (demo_web ''http://169.254.169.254/x'')
   \<and> (\<forall>u. validate_url_ssrf (\<lambda>h n. Inr [''93.184.216.34'']) ''http://169.254.169.254/x'' \<noteq> Inr u)"
proof
  let ?res = "\<lambda>(h :: string) (n :: int). Inr [''93.184.216.34''] :: string list outcome"
  have v: "validate_url_ssrf ?res ''http://a.b'' = Inr ''http://a.b''"
    "validate_url_ssrf ?res ''http://a.c'' = Inr ''http://a.c''" by code_simp+
  have "fetch_page_content ?res (following_client demo_web (Suc 19)) ''http://a.b''
      = Inr (demo_web ''http://169.254.169.254/x'')"
    by (rule second_redirect_is_not_checked [OF v]) (simp_all add: demo_web_def)
  then show "fetch_page_content ?res (following_client demo_web 20) ''http://a.b''
      = Inr (demo_web ''http://169.254.169.254/x'')" by (simp add: numeral_eq_Suc)
  have "isl (validate_url_ssrf ?res ''http://169.254.169.254/x'')" by code_simp
  then show "\<forall>u. validate_url_ssrf ?res ''http://169.254.169.254/x'' \<noteq> Inr u" by auto
qed

section \<open>Domains with capital letters\<close>

fun audit_again :: "(string \<Rightarrow> int \<Rightarrow> string list outcome) \<Rightarrow> string \<Rightarrow> int list \<Rightarrow> seo_db \<Rightarrow> seo_db" where
  "audit_again resolve url [] w = w"
| "audit_again resolve url (uid # uids) w =
     audit_again resolve url uids (snd (audit_target resolve (Some url) None uid w))"

definition no_lower_site :: "string \<Rightarrow> ('a seo_db_scheme) \<Rightarrow> bool" where
  "no_lower_site d w \<longleftrightarrow> list_all (\<lambda>(i, s). w_domain s \<noteq> clean_domain d) (t_rows (db_sites w))"

lemma clean_domain_lower: "str_lower (clean_domain d) = clean_domain d"
  by (simp add: clean_domain_def)

text \<open>
  the domain of a new website keeps its capital letters, and the lookup is in lower case: every audit
  of such an address, of whatever user, creates the website once more.
\<close>

theorem capital_domain_is_created_again:
  assumes "validate_url_ssrf resolve url = Inr target" and "url \<noteq> []"
    and "str_lower (url_domain target) \<noteq> url_domain target"
    and "\<not> db_fk w" and "no_lower_site (url_domain target) w"
  shows "map (w_domain \<circ> snd) (t_rows (db_sites (audit_again resolve url uids w)))
    = map (w_domain \<circ> snd) (t_rows (db_sites w)) @ replicate (length uids) (url_domain target)"
  using assms(4,5)
proof (induction uids arbitrary: w)
  case (Cons uid uids)
  let ?d = "url_domain target"
  let ?s = "new_website uid (Some target) ?d (Some (str_upper (before_char (CHR ''.'') ?d))) (db_now w)"
  let ?w1 = "w\<lparr>db_sites := snd (t_insert ?s (db_sites w))\<rparr>"
  have "get_website_by_domain_unfiltered ?d w = None"
    using Cons.prems(2)
    by (auto simp: get_website_by_domain_unfiltered_def t_first_def no_lower_site_def find_None_iff list_all_iff)
  then have w1: "snd (audit_target resolve (Some url) None uid w) = ?w1"
    using assms(1,2) Cons.prems(1)
    by (simp add: audit_target_def verify_domain_ownership_def crud_create_website_def refs_ok_def Let_def t_insert_def)
  have "?d \<noteq> clean_domain ?d" using assms(3) clean_domain_lower by metis
  then have "no_lower_site ?d ?w1"
    using Cons.prems(2) by (simp add: no_lower_site_def t_insert_def new_website_def)
  then show ?case
    using Cons.IH [of ?w1] Cons.prems(1) by (simp add: w1 t_insert_def new_website_def)
qed simp

theorem capital_domain_is_created_again_witness:
  "length (t_rows (db_sites (audit_again (\<lambda>h n. Inr [''93.184.216.34'']) ''http://A.c'' [1, 2, 1] demo_seo))) = 4"
proof -
  let ?res = "\<lambda>(h :: string) (n :: int). Inr [''93.184.216.34''] :: string list outcome"
  have v: "validate_url_ssrf ?res ''http://A.c'' = Inr ''http://A.c''" by code_simp
  have d: "url_domain ''http://A.c'' = ''A.c''" "clean_domain ''A.c'' = ''a.c''" "str_lower ''A.c'' = ''a.c''"
    by code_simp+
  have "no_lower_site ''A.c'' demo_seo" "\<not> db_fk demo_seo"
    by (simp_all add: no_lower_site_def d demo_seo_def db.defs t_insert_def t_empty_def new_website_def db_empty_def)
  from capital_domain_is_created_again [OF v, unfolded d, OF _ _ this(2,1), of "[1, 2, 1]"]
  have "map (w_domain \<circ> snd) (t_rows (db_sites (audit_again ?res ''http://A.c'' [1, 2, 1] demo_seo)))
    = map (w_domain \<circ> snd) (t_rows (db_sites demo_seo)) @ replicate 3 ''A.c''"
    by (simp del: audit_again.simps add: numeral_eq_Suc)
  from arg_cong [OF this, of length] show ?thesis
    by (simp del: audit_again.simps add: demo_seo_def db.defs t_insert_def t_empty_def)
qed

end
