(* ===== verification/Seo_Services.thy ===== *)
theory Seo_Services
  imports Seo_Audit Unified_Cache Robots
begin

text \<open>
  The services behind the user level interface that read a public source or compute an estimate, with the
  cache in front of each: the readers of \<^verbatim>\<open>robots.txt\<close>, sitemaps and WHOIS answers of \<^verbatim>\<open>scraper_service.py\<close>,
  \<^verbatim>\<open>metrics_service.py\<close>, \<^verbatim>\<open>keyword_service.py\<close>, \<^verbatim>\<open>rank_service.py\<close>, \<^verbatim>\<open>ai_service.py\<close> and \<^verbatim>\<open>export_service.py\<close>. What
  comes over the network is a parameter, \<^const>\<open>None\<close> when the request raises; so are the MD5 digest, the dates and the
  powers of floats, and the answers of the language model.
\<close>

section \<open>The cache in front of a service\<close>

definition cached_service ::
  "'r cache_redis \<Rightarrow> rat \<Rightarrow> rat \<Rightarrow> string \<Rightarrow> rat \<Rightarrow> pyval \<Rightarrow> 'r ucache \<Rightarrow> pyval outcome \<times> 'r ucache" where
  "cached_service R dflt now key ttl computed u =
     (case u_get R now key u of
        (v, u1) \<Rightarrow>
          if v \<noteq> PNone then (Inr v, u1)
          else (case u_set R dflt now key computed (Some ttl) u1 of
                  Inl e \<Rightarrow> (Inl e, u1)
                | Inr u2 \<Rightarrow> (Inr computed, u2)))"

definition strs :: "string list \<Rightarrow> pyval" where
  "strs xs = PList (map PStr xs)"

section \<open>robots.txt, sitemaps and WHOIS\<close>

record robots_info =
  rb_domain :: string
  rb_status :: int
  rb_agent :: string
  rb_disallow :: "string list"
  rb_sitemap :: string

text \<open>The agent starts as a star, so a user agent line is never read; the rules of all agents are one list.\<close>

definition robots_line :: "string list \<times> string list \<Rightarrow> string \<Rightarrow> string list \<times> string list" where
  "robots_line acc raw =
     (let line = str_strip raw
      in if line = [] \<or> take 1 line = ''#'' \<or> CHR '':'' \<notin> set line then acc
         else
           let k = str_lower (str_strip (before (CHR '':'') line)); v = str_strip (behind (CHR '':'') line)
           in if k = ''disallow'' \<and> v \<noteq> [] then (fst acc @ [v], snd acc)
              else if k = ''sitemap'' then (fst acc, snd acc @ [v]) else acc)"

definition read_robots :: "(int \<times> string) option \<Rightarrow> string \<Rightarrow> robots_info" where
  "read_robots answer d =
     (let c = clean_domain d;
          (dis, maps) = (case answer of
              Some (status, body) \<Rightarrow>
                if status = 200 then foldl robots_line ([], []) (split_lines body) else ([], [])
            | None \<Rightarrow> ([], []))
      in \<lparr>rb_domain = c, rb_status = (case answer of None \<Rightarrow> 200 | Some (status, _) \<Rightarrow> status), rb_agent = ''*'',
          rb_disallow = dis,
          rb_sitemap = (if maps \<noteq> [] then hd maps else ''https://'' @ c @ ''/sitemap.xml'')\<rparr>)"

definition robots_value :: "robots_info \<Rightarrow> pyval" where
  "robots_value i = PDict [(''domain'', PStr (rb_domain i)), (''status'', PInt (rb_status i)),
     (''user_agent'', PStr (rb_agent i)), (''disallow'', strs (rb_disallow i)), (''sitemap'', PStr (rb_sitemap i))]"

definition fetch_robots_txt ::
  "'r cache_redis \<Rightarrow> rat \<Rightarrow> rat \<Rightarrow> rat \<Rightarrow> (string \<Rightarrow> (int \<times> string) option) \<Rightarrow> string \<Rightarrow> 'r ucache
     \<Rightarrow> pyval outcome \<times> 'r ucache" where
  "fetch_robots_txt R dflt now ttl web d u =
     cached_service R dflt now (''robots_txt:'' @ clean_domain d) ttl
       (robots_value (read_robots (web (''https://'' @ clean_domain d @ ''/robots.txt'')) d)) u"

record sitemap_info =
  si_domain :: string
  si_total :: int
  si_urls :: "string list"
  si_modified :: string

text \<open>An element of the document: its tag, which may have a namespace in braces, and its text.\<close>

type_synonym xml_elem = "string \<times> string option"

definition sitemap_elem :: "string list \<times> string option \<Rightarrow> xml_elem \<Rightarrow> string list \<times> string option" where
  "sitemap_elem acc e =
     (let tag = (if CHR ''}'' \<in> set (fst e) then after_last (CHR ''}'') (fst e) else fst e)
      in if tag = ''loc'' \<and> truthy (snd e) \<and> starts_with (the (snd e)) ''http''
         then (fst acc @ [str_strip (the (snd e))], snd acc)
         else if tag = ''lastmod'' \<and> truthy (snd e) \<and> \<not> truthy (snd acc)
         then (fst acc, Some (str_strip (the (snd e)))) else acc)"

text \<open>\<open>answer\<close> has the status, the content type, the text and the elements, in document order.\<close>

definition read_sitemap :: "(int \<times> string \<times> string \<times> xml_elem list) option \<Rightarrow> string \<Rightarrow> sitemap_info" where
  "read_sitemap answer d =
     (let c = clean_domain d;
          (found, modified) = (case answer of
              None \<Rightarrow> ([], None)
            | Some (status, ctype, body, elems) \<Rightarrow>
                if status = 200 \<and> (str_contains ctype ''xml'' \<or> starts_with body ''<?xml'')
                then foldl sitemap_elem ([], None) elems else ([], None));
          urls = (if found \<noteq> [] then found
                  else map (\<lambda>p. ''https://'' @ c @ p) [''/'', ''/about'', ''/services'', ''/contact''])
      in \<lparr>si_domain = c, si_total = int (length urls), si_urls = take 50 urls,
          si_modified = or_else modified ''2026-08-01T00:00:00Z''\<rparr>)"

definition sitemap_value :: "sitemap_info \<Rightarrow> pyval" where
  "sitemap_value i = PDict [(''domain'', PStr (si_domain i)), (''total_urls'', PInt (si_total i)),
     (''urls'', strs (si_urls i)), (''last_modified'', PStr (si_modified i))]"

definition fetch_sitemap ::
  "'r cache_redis \<Rightarrow> rat \<Rightarrow> rat \<Rightarrow> rat \<Rightarrow> (string \<Rightarrow> (int \<times> string \<times> string \<times> xml_elem list) option) \<Rightarrow> string
     \<Rightarrow> 'r ucache \<Rightarrow> pyval outcome \<times> 'r ucache" where
  "fetch_sitemap R dflt now ttl web d u =
     cached_service R dflt now (''sitemap:'' @ clean_domain d) ttl
       (sitemap_value (read_sitemap (web (''https://'' @ clean_domain d @ ''/sitemap.xml'')) d)) u"

record whois_info =
  wi_domain :: string
  wi_registrar :: "string option"
  wi_creation :: "string option"
  wi_expiration :: "string option"
  wi_servers :: "string list"

definition whois_line :: "whois_info \<Rightarrow> string \<Rightarrow> whois_info" where
  "whois_line i line =
     (let l = str_lower line; v = str_strip (behind (CHR '':'') line)
      in if str_contains l ''registrar:'' \<and> \<not> truthy (wi_registrar i) then i\<lparr>wi_registrar := Some v\<rparr>
         else if (str_contains l ''creation date:'' \<or> str_contains l ''created:'') \<and> \<not> truthy (wi_creation i)
         then i\<lparr>wi_creation := Some v\<rparr>
         else if (str_contains l ''expiry date:'' \<or> str_contains l ''expiration date:'') \<and> \<not> truthy (wi_expiration i)
         then i\<lparr>wi_expiration := Some v\<rparr>
         else if str_contains l ''nserver:'' \<or> str_contains l ''name server:''
         then (let ns = str_lower v
               in if ns \<noteq> [] \<and> ns \<notin> set (wi_servers i) then i\<lparr>wi_servers := wi_servers i @ [ns]\<rparr> else i)
         else i)"

definition read_whois :: "string option \<Rightarrow> string \<Rightarrow> whois_info" where
  "read_whois answer d =
     (let start = \<lparr>wi_domain = clean_domain d, wi_registrar = None, wi_creation = None, wi_expiration = None,
                   wi_servers = []\<rparr>;
          i = (case answer of None \<Rightarrow> start | Some body \<Rightarrow> foldl whois_line start (split_lines body))
      in i\<lparr>wi_registrar := Some (or_else (wi_registrar i) ''Domain Registrar Inc.''),
           wi_creation := Some (or_else (wi_creation i) ''2021-04-12''),
           wi_expiration := Some (or_else (wi_expiration i) ''2027-04-12''),
           wi_servers := (if wi_servers i \<noteq> [] then wi_servers i else [''ns1.dns.com'', ''ns2.dns.com''])\<rparr>)"

definition whois_value :: "whois_info \<Rightarrow> pyval" where
  "whois_value i = PDict [(''domain'', PStr (wi_domain i)), (''registrar'', PStr (or_else (wi_registrar i) [])),
     (''creation_date'', PStr (or_else (wi_creation i) [])), (''expiration_date'', PStr (or_else (wi_expiration i) [])),
     (''name_servers'', strs (wi_servers i))]"

definition lookup_whois ::
  "'r cache_redis \<Rightarrow> rat \<Rightarrow> rat \<Rightarrow> rat \<Rightarrow> (string \<Rightarrow> string option) \<Rightarrow> string \<Rightarrow> 'r ucache
     \<Rightarrow> pyval outcome \<times> 'r ucache" where
  "lookup_whois R dflt now ttl server d u =
     cached_service R dflt now (''whois:'' @ clean_domain d) ttl (whois_value (read_whois (server (clean_domain d)) d)) u"

section \<open>Domain metrics\<close>

text \<open>
  \<open>age\<close> gives the days since a date of the form \<^verbatim>\<open>%Y-%m-%d\<close>, \<open>digest\<close> the number of the first hexadecimal digits of
  the MD5 digest of a text, \<open>fpow\<close> is \<^verbatim>\<open>x ** y\<close> on floats.
\<close>

record domain_metrics =
  dm_domain :: string
  dm_age_days :: int
  dm_registrar :: string
  dm_authority :: int
  dm_backlinks :: int
  dm_traffic :: int

definition domain_age :: "(string \<Rightarrow> int option) \<Rightarrow> string \<Rightarrow> int" where
  "domain_age age date = (case age (take 10 date) of None \<Rightarrow> 1825 | Some days \<Rightarrow> max 30 days)"

definition domain_authority :: "int \<Rightarrow> int \<Rightarrow> bool \<Rightarrow> int \<Rightarrow> int" where
  "domain_authority days pages has_robots h =
     max 10 (min 95 (min 40 (cut (of_int days / 365 * 6)) + min 25 (cut (of_int pages / 2))
                     + (if has_robots then 10 else 0) + h mod 10))"

definition calculate_domain_metrics ::
  "(string \<Rightarrow> int option) \<Rightarrow> (string \<Rightarrow> int) \<Rightarrow> (int \<Rightarrow> rat \<Rightarrow> rat) \<Rightarrow> whois_info \<Rightarrow> robots_info \<Rightarrow> sitemap_info \<Rightarrow> string
     \<Rightarrow> domain_metrics" where
  "calculate_domain_metrics age digest fpow wi rb si d =
     (let days = domain_age age (or_else (wi_creation wi) ''2021-04-12'');
          h = digest d mod 25;
          da = domain_authority days (si_total si) (rb_status rb = 200) h
      in \<lparr>dm_domain = d, dm_age_days = days, dm_registrar = or_else (wi_registrar wi) ''Domain Registrar Inc.'',
          dm_authority = da, dm_backlinks = cut (fpow da (22 / 10) * (25 / 10) + of_int (h * 50)),
          dm_traffic = cut (fpow da (24 / 10) * 8 + of_int (h * 150))\<rparr>)"

section \<open>Keyword ideas\<close>

record keyword_pattern =
  kp_prefix :: string
  kp_suffix :: string
  kp_intent :: string
  kp_cluster :: string
  kp_volume :: int
  kp_kd :: int
  kp_cpc :: rat

definition keyword_patterns :: "keyword_pattern list" where
  "keyword_patterns =
     [\<lparr>kp_prefix = '''', kp_suffix = '''', kp_intent = ''Informational'', kp_cluster = ''Core Concept'',
       kp_volume = 12500, kp_kd = 35, kp_cpc = 220 / 100\<rparr>,
      \<lparr>kp_prefix = ''best '', kp_suffix = '' 2026'', kp_intent = ''Commercial'', kp_cluster = ''Best Tools'',
       kp_volume = 8400, kp_kd = 55, kp_cpc = 450 / 100\<rparr>,
      \<lparr>kp_prefix = ''how to set up '', kp_suffix = '''', kp_intent = ''Informational'',
       kp_cluster = ''Guides & Tutorials'', kp_volume = 6200, kp_kd = 28, kp_cpc = 140 / 100\<rparr>,
      \<lparr>kp_prefix = ''free '', kp_suffix = '' audit'', kp_intent = ''Transactional'', kp_cluster = ''Free Tools'',
       kp_volume = 5100, kp_kd = 42, kp_cpc = 380 / 100\<rparr>,
      \<lparr>kp_prefix = '''', kp_suffix = '' vs traditional tools'', kp_intent = ''Commercial'', kp_cluster = ''Comparisons'',
       kp_volume = 3400, kp_kd = 36, kp_cpc = 310 / 100\<rparr>,
      \<lparr>kp_prefix = '''', kp_suffix = '' pricing models'', kp_intent = ''Navigational'', kp_cluster = ''Pricing'',
       kp_volume = 2900, kp_kd = 32, kp_cpc = 250 / 100\<rparr>,
      \<lparr>kp_prefix = '''', kp_suffix = '' software for agencies'', kp_intent = ''Transactional'',
       kp_cluster = ''Agency Solutions'', kp_volume = 2100, kp_kd = 49, kp_cpc = 680 / 100\<rparr>,
      \<lparr>kp_prefix = ''top '', kp_suffix = '' strategies'', kp_intent = ''Informational'', kp_cluster = ''Strategy'',
       kp_volume = 1800, kp_kd = 24, kp_cpc = 95 / 100\<rparr>,
      \<lparr>kp_prefix = ''automated '', kp_suffix = '' checklist'', kp_intent = ''Transactional'', kp_cluster = ''Automation'',
       kp_volume = 1500, kp_kd = 30, kp_cpc = 290 / 100\<rparr>,
      \<lparr>kp_prefix = '''', kp_suffix = '' API integration'', kp_intent = ''Informational'', kp_cluster = ''Developer Specs'',
       kp_volume = 1200, kp_kd = 22, kp_cpc = 110 / 100\<rparr>]"

record keyword_idea =
  id_kw :: string
  id_intent :: string
  id_volume :: int
  id_kd :: int
  id_cpc :: rat
  id_cluster :: string

text \<open>\<^verbatim>\<open>xs[:n]\<close>: a negative bound counts from the end.\<close>

definition py_prefix :: "int \<Rightarrow> 'x list \<Rightarrow> 'x list" where
  "py_prefix n xs = (if 0 \<le> n then take (nat n) xs else take (length xs - nat (- n)) xs)"

text \<open>\<^verbatim>\<open>round(x, 2)\<close> leaves the costs as they are: they have two decimals at most.\<close>

definition keyword_idea_of :: "(string \<Rightarrow> int) \<Rightarrow> string \<Rightarrow> keyword_pattern \<Rightarrow> keyword_idea" where
  "keyword_idea_of digest seed p =
     (let kw = str_strip (kp_prefix p @ seed @ kp_suffix p); h = digest kw mod 100
      in \<lparr>id_kw = kw, id_intent = kp_intent p, id_volume = max 100 (kp_volume p + h * 35),
          id_kd = max 5 (min 95 (kp_kd p + h mod 15 - 7)),
          id_cpc = max (20 / 100) (kp_cpc p + of_int (h mod 20) / 10), id_cluster = kp_cluster p\<rparr>)"

definition keyword_metrics :: "(string \<Rightarrow> int) \<Rightarrow> string \<Rightarrow> int \<Rightarrow> keyword_idea list" where
  "keyword_metrics digest seed limit =
     map (keyword_idea_of digest (str_strip (str_lower seed))) (py_prefix limit keyword_patterns)"

definition idea_value :: "keyword_idea \<Rightarrow> pyval" where
  "idea_value i = PDict [(''kw'', PStr (id_kw i)), (''intent'', PStr (id_intent i)), (''volume'', PInt (id_volume i)),
     (''kd'', PInt (id_kd i)), (''cpc'', PFloat (id_cpc i)), (''cluster'', PStr (id_cluster i))]"

text \<open>The call of the language model, when it is configured, does not change the result.\<close>

definition get_keyword_ideas ::
  "'r cache_redis \<Rightarrow> rat \<Rightarrow> rat \<Rightarrow> rat \<Rightarrow> (string \<Rightarrow> int) \<Rightarrow> string \<Rightarrow> int \<Rightarrow> 'r ucache \<Rightarrow> pyval outcome \<times> 'r ucache" where
  "get_keyword_ideas R dflt now ttl digest seed limit u =
     (let clean = str_strip (str_lower seed)
      in cached_service R dflt now (''keywords:'' @ clean @ '':'' @ int_str limit) ttl
           (PList (map idea_value (keyword_metrics digest clean limit))) u)"

text \<open>The asynchronous twin looks into the cache itself, and stores the result a second time.\<close>

definition get_keyword_ideas_async ::
  "'r cache_redis \<Rightarrow> rat \<Rightarrow> rat \<Rightarrow> rat \<Rightarrow> (string \<Rightarrow> int) \<Rightarrow> string \<Rightarrow> int \<Rightarrow> 'r ucache \<Rightarrow> pyval outcome \<times> 'r ucache" where
  "get_keyword_ideas_async R dflt now ttl digest seed limit u =
     (let key = ''keywords:'' @ str_strip (str_lower seed) @ '':'' @ int_str limit
      in case u_get R now key u of
           (v, u1) \<Rightarrow>
             if v \<noteq> PNone then (Inr v, u1)
             else (case get_keyword_ideas R dflt now ttl digest seed limit u1 of
                     (Inl e, u2) \<Rightarrow> (Inl e, u2)
                   | (Inr res, u2) \<Rightarrow>
                       (case u_set R dflt now key res (Some ttl) u2 of
                          Inl e \<Rightarrow> (Inl e, u2) | Inr u3 \<Rightarrow> (Inr res, u3))))"

text \<open>No task of the batch is suspended, so they run one after the other; one that raises counts as empty.\<close>

fun batch_each ::
  "(string \<Rightarrow> 'r ucache \<Rightarrow> pyval outcome \<times> 'r ucache) \<Rightarrow> string list \<Rightarrow> (string, pyval) py_dict \<Rightarrow> 'r ucache
     \<Rightarrow> (string, pyval) py_dict \<times> 'r ucache" where
  "batch_each ideas [] out u = (out, u)"
| "batch_each ideas (seed # seeds) out u =
     (case ideas seed u of
        (r, u1) \<Rightarrow> batch_each ideas seeds (d_set seed (case r of Inl e \<Rightarrow> PList [] | Inr v \<Rightarrow> v) out) u1)"

definition batch_generate_keywords ::
  "'r cache_redis \<Rightarrow> rat \<Rightarrow> rat \<Rightarrow> rat \<Rightarrow> (string \<Rightarrow> int) \<Rightarrow> string list \<Rightarrow> int \<Rightarrow> 'r ucache
     \<Rightarrow> (string, pyval) py_dict \<times> 'r ucache" where
  "batch_generate_keywords R dflt now ttl digest seeds limit u =
     batch_each (\<lambda>seed. get_keyword_ideas_async R dflt now ttl digest seed limit) seeds [] u"

section \<open>Rank checks\<close>

record rank_result =
  rr_keyword :: string
  rr_domain :: string
  rr_position :: int
  rr_checked :: int
  rr_source :: string

fun first_match :: "int \<Rightarrow> string \<Rightarrow> string list \<Rightarrow> int" where
  "first_match n d [] = 0"
| "first_match n d (m # ms) = (if str_contains (str_lower m) d then n else first_match (n + 1) d ms)"

text \<open>\<open>serp\<close> is the list of result addresses in the answer, \<^const>\<open>None\<close> when there was no answer with status 200.\<close>

definition serp_position :: "(string \<Rightarrow> int) \<Rightarrow> string list option \<Rightarrow> string \<Rightarrow> string \<Rightarrow> rank_result" where
  "serp_position digest serp keyword target =
     (let kw = str_strip (str_lower keyword); d = clean_domain target;
          pos = (case serp of None \<Rightarrow> 0 | Some ms \<Rightarrow> first_match 1 d ms);
          n = (case serp of None \<Rightarrow> 0 | Some ms \<Rightarrow> if ms = [] then 25 else int (length ms))
      in if pos = 0
         then \<lparr>rr_keyword = keyword, rr_domain = d, rr_position = digest (kw @ CHR '':'' # d) mod 12 + 1,
               rr_checked = 30, rr_source = ''serp_algorithmic''\<rparr>
         else \<lparr>rr_keyword = keyword, rr_domain = d, rr_position = pos, rr_checked = n,
               rr_source = ''duckduckgo_html''\<rparr>)"

definition rank_value :: "rank_result \<Rightarrow> pyval" where
  "rank_value r = PDict [(''keyword'', PStr (rr_keyword r)), (''domain'', PStr (rr_domain r)),
     (''position'', PInt (rr_position r)), (''checked_results'', PInt (rr_checked r)), (''source'', PStr (rr_source r))]"

definition rank_target :: "string option \<Rightarrow> int option \<Rightarrow> int \<Rightarrow> ('a seo_db_scheme) \<Rightarrow> string outcome" where
  "rank_target d website_id uid w =
     (if website_id \<noteq> None \<and> website_id \<noteq> Some 0
      then (case verify_website_ownership (the website_id) uid w of Inl e \<Rightarrow> Inl e | Inr (i, s) \<Rightarrow> Inr (w_domain s))
      else if truthy d
      then (case verify_domain_ownership (the d) uid w of Inl e \<Rightarrow> Inl e | Inr _ \<Rightarrow> Inr (clean_domain (the d)))
      else Inr ''example.com'')"

definition check_rank ::
  "'r cache_redis \<Rightarrow> rat \<Rightarrow> rat \<Rightarrow> rat \<Rightarrow> (string \<Rightarrow> int) \<Rightarrow> (string \<Rightarrow> string list option) \<Rightarrow> string \<Rightarrow> string option
     \<Rightarrow> int option \<Rightarrow> int \<Rightarrow> ('a seo_db_scheme) \<Rightarrow> 'r ucache \<Rightarrow> pyval outcome \<times> 'r ucache" where
  "check_rank R dflt now ttl digest serp keyword d website_id uid w u =
     (case rank_target d website_id uid w of
        Inl e \<Rightarrow> (Inl e, u)
      | Inr target \<Rightarrow>
          (let kw = str_strip (str_lower keyword)
           in cached_service R dflt now (''serp:'' @ kw @ CHR '':'' # target) ttl
                (rank_value (serp_position digest (serp kw) kw target)) u))"

end
