(* ===== verification/Seo_Reports.thy ===== *)
theory Seo_Reports
  imports Seo_Services
begin

text \<open>
  The recommendations of \<^verbatim>\<open>ai_service.py\<close>, the metrics of a domain behind the ownership checks
  (\<^verbatim>\<open>metrics_service.py\<close>) and the exports of \<^verbatim>\<open>export_service.py\<close>, with what holds of them and of the services.
\<close>

section \<open>Recommendations\<close>

record recommendation =
  rc_priority :: string
  rc_title :: string
  rc_detail :: string

definition rec :: "string \<Rightarrow> string \<Rightarrow> string \<Rightarrow> recommendation" where
  "rec priority title detail = \<lparr>rc_priority = priority, rc_title = title, rc_detail = detail\<rparr>"

definition title_advice :: "audit_result \<Rightarrow> recommendation list" where
  "title_advice a =
     (if \<not> truthy (ar_title a)
      then [rec ''HIGH'' ''Missing Title Tag'' ''No <title> tag was found on the homepage. Search engines rely heavily on title tags to index pages.'']
      else if ar_title_length a < 30 \<or> 70 < ar_title_length a
      then [rec ''MEDIUM'' ''Optimize Title Tag Length'' (''Title tag length is currently '' @ int_str (ar_title_length a)
              @ '' characters. Recommended length is between 50 and 60 characters to avoid truncation in SERPs.'')]
      else [])"

definition image_advice :: "audit_result \<Rightarrow> recommendation list" where
  "image_advice a =
     (if 0 < ar_no_alt a
      then [rec ''HIGH'' ''Fix Missing Image Alt Text'' (''Found '' @ int_str (ar_no_alt a)
              @ '' images missing alternative text. Alt text improves accessibility and helps image search rankings.'')]
      else [])"

definition meta_advice :: "audit_result \<Rightarrow> recommendation list" where
  "meta_advice a =
     (let n = length (or_else (ar_meta a) [])
      in if n = 0
         then [rec ''HIGH'' ''Add Meta Description Tag'' ''Meta description is missing. Add an informative snippet between 120-160 characters to increase click-through rates.'']
         else if n < 80 \<or> 180 < n
         then [rec ''LOW'' ''Refine Meta Description Length'' (''Current meta description is '' @ nat_str n
                 @ '' characters. Target 120-160 characters for optimal snippet formatting.'')]
         else [])"

definition h1_advice :: "audit_result \<Rightarrow> recommendation list" where
  "h1_advice a =
     (if ar_h1 a = []
      then [rec ''HIGH'' ''Add Primary H1 Heading'' ''No <h1> heading found on the page. Every page should have exactly one clear H1 heading defining its core subject.'']
      else if 1 < length (ar_h1 a)
      then [rec ''MEDIUM'' ''Consolidate Multiple H1 Headings'' (''Found '' @ nat_str (length (ar_h1 a))
              @ '' <h1> tags on the page. Consolidate into a single primary H1 tag for clear content hierarchy.'')]
      else [])"

definition canonical_advice :: "audit_result \<Rightarrow> recommendation list" where
  "canonical_advice a =
     (if \<not> truthy (ar_canonical a)
      then [rec ''MEDIUM'' ''Specify Canonical Tag'' (''No canonical link tag specified. Define rel='' @ [CHR 0x27] @ ''canonical''
              @ [CHR 0x27] @ '' to avoid duplicate content penalties.'')]
      else [])"

definition keep_quality :: recommendation where
  "keep_quality = rec ''LOW'' ''Maintain High On-Page Quality'' ''On-page elements match search engine guidelines. Continue monitoring backlinks and content freshness.''"

definition generate_recommendations :: "audit_result \<Rightarrow> recommendation list" where
  "generate_recommendations a =
     (let rs = title_advice a @ image_advice a @ meta_advice a @ h1_advice a @ canonical_advice a
      in if rs = [] then [keep_quality] else rs)"

definition audit_summary :: "int \<Rightarrow> int \<Rightarrow> string" where
  "audit_summary aid score =
     ''Technical audit for Audit #'' @ int_str aid @ '' scores '' @ int_str score @ ''/100. ''
     @ (if 80 \<le> score then ''Overall technical structure is strong with minor optimization opportunities.''
        else if 50 \<le> score then ''Moderate technical health. Key meta tags and image attributes require attention.''
        else ''Critical technical issues detected that may impede organic search visibility.'')"

definition rec_value :: "recommendation \<Rightarrow> pyval" where
  "rec_value r = PDict [(''priority'', PStr (rc_priority r)), (''title'', PStr (rc_title r)), (''detail'', PStr (rc_detail r))]"

definition recs_value :: "audit_result \<Rightarrow> pyval" where
  "recs_value a = PList (map rec_value (generate_recommendations a))"

text \<open>
  \<open>model\<close> is \<^const>\<open>None\<close> without a key, otherwise it is called with the audit; its answer is \<^const>\<open>None\<close> when it
  raises, and may be empty.
\<close>

definition analyze_computed :: "(int \<times> audit_result \<Rightarrow> string option) option \<Rightarrow> int \<times> audit_result \<Rightarrow> pyval" where
  "analyze_computed model au =
     (let answer = (case model of None \<Rightarrow> None | Some m \<Rightarrow> m au)
      in if truthy answer
         then PDict [(''provider'', PStr ''gemini-2.5-flash''),
                     (''summary'', PStr (''Gemini Analysis for Audit #'' @ int_str (fst au) @ '': ''
                        @ take 200 (or_else answer []) @ ''...'')),
                     (''recommendations'', recs_value (snd au))]
         else PDict [(''provider'', PStr (if model \<noteq> None then ''gemini-3.6-flash'' else ''rule-engine'')),
                     (''summary'', PStr (audit_summary (fst au) (ar_score (snd au)))),
                     (''recommendations'', recs_value (snd au))])"

definition analyze_audit ::
  "'r cache_redis \<Rightarrow> rat \<Rightarrow> rat \<Rightarrow> rat \<Rightarrow> (int \<times> audit_result \<Rightarrow> string option) option \<Rightarrow> int \<Rightarrow> int
     \<Rightarrow> ('a seo_db_scheme) \<Rightarrow> 'r ucache \<Rightarrow> pyval outcome \<times> 'r ucache" where
  "analyze_audit R dflt now ttl model aid uid w u =
     (case verify_audit_ownership aid uid w of
        Inl e \<Rightarrow> (Inl e, u)
      | Inr au \<Rightarrow> cached_service R dflt now (''ai_recommendations:'' @ int_str aid) ttl (analyze_computed model au) u)"

text \<open>
  the advice that all is well is given exactly to the audits with a title of 30 to 70 characters, no image
  without a text, a description of 80 to 180, one heading and a canonical address, and no list is empty.
\<close>

theorem all_is_well_exactly:
  "(generate_recommendations a = [keep_quality]) =
     (truthy (ar_title a) \<and> 30 \<le> ar_title_length a \<and> ar_title_length a \<le> 70 \<and> ar_no_alt a \<le> 0
      \<and> 80 \<le> length (or_else (ar_meta a) []) \<and> length (or_else (ar_meta a) []) \<le> 180
      \<and> length (ar_h1 a) = 1 \<and> truthy (ar_canonical a))
   \<and> generate_recommendations a \<noteq> []"
proof -
  have "keep_quality \<notin> set (title_advice a @ image_advice a @ meta_advice a @ h1_advice a @ canonical_advice a)"
    by (simp add: keep_quality_def rec_def title_advice_def image_advice_def meta_advice_def h1_advice_def
        canonical_advice_def Let_def)
  then have "generate_recommendations a = [keep_quality] \<longleftrightarrow>
      title_advice a = [] \<and> image_advice a = [] \<and> meta_advice a = [] \<and> h1_advice a = [] \<and> canonical_advice a = []"
    by (auto simp: generate_recommendations_def Let_def simp del: append_is_Nil_conv dest!: arg_cong [where f = set])
  moreover have "title_advice a = [] \<longleftrightarrow> truthy (ar_title a) \<and> 30 \<le> ar_title_length a \<and> ar_title_length a \<le> 70"
    by (auto simp: title_advice_def)
  moreover have "image_advice a = [] \<longleftrightarrow> ar_no_alt a \<le> 0" by (auto simp: image_advice_def)
  moreover have "meta_advice a = [] \<longleftrightarrow> 80 \<le> length (or_else (ar_meta a) []) \<and> length (or_else (ar_meta a) []) \<le> 180"
    by (auto simp: meta_advice_def Let_def)
  moreover have "h1_advice a = [] \<longleftrightarrow> length (ar_h1 a) = 1"
    by (cases "ar_h1 a") (auto simp: h1_advice_def)
  moreover have "canonical_advice a = [] \<longleftrightarrow> truthy (ar_canonical a)" by (simp add: canonical_advice_def)
  moreover have "generate_recommendations a \<noteq> []" by (simp add: generate_recommendations_def Let_def)
  ultimately show ?thesis by blast
qed

section \<open>Metrics of a domain\<close>

text \<open>The domain that is measured; \<open>db\<close> is \<^const>\<open>None\<close> when no session is passed.\<close>

definition metrics_target :: "string option \<Rightarrow> int option \<Rightarrow> int \<Rightarrow> ('a seo_db_scheme) option \<Rightarrow> string outcome" where
  "metrics_target d website_id uid db =
     (if website_id \<noteq> None \<and> website_id \<noteq> Some 0 \<and> db \<noteq> None
      then (case verify_website_ownership (the website_id) uid (the db) of Inl e \<Rightarrow> Inl e | Inr (i, s) \<Rightarrow> Inr (w_domain s))
      else if truthy d
      then (case (case db of None \<Rightarrow> Inr None | Some w \<Rightarrow> verify_domain_ownership (the d) uid w) of
              Inl e \<Rightarrow> Inl e | Inr _ \<Rightarrow> Inr (clean_domain (the d)))
      else Inl (AppError (app_error ValidationErrorException ''Either domain or website_id must be provided'')))"

definition metrics_value :: "domain_metrics \<Rightarrow> pyval" where
  "metrics_value m = PDict [(''domain'', PStr (dm_domain m)), (''provider'', PStr ''whois_analyzer''),
     (''domain_age_days'', PInt (dm_age_days m)), (''registrar'', PStr (dm_registrar m)),
     (''domain_authority'', PInt (dm_authority m)), (''backlinks_estimate'', PInt (dm_backlinks m)),
     (''organic_traffic_monthly'', PInt (dm_traffic m))]"

definition get_domain_metrics ::
  "'r cache_redis \<Rightarrow> rat \<Rightarrow> rat \<Rightarrow> rat \<Rightarrow> (string \<Rightarrow> domain_metrics) \<Rightarrow> string option \<Rightarrow> int option \<Rightarrow> int
     \<Rightarrow> ('a seo_db_scheme) option \<Rightarrow> 'r ucache \<Rightarrow> pyval outcome \<times> 'r ucache" where
  "get_domain_metrics R dflt now ttl metrics d website_id uid db u =
     (case metrics_target d website_id uid db of
        Inl e \<Rightarrow> (Inl e, u)
      | Inr c \<Rightarrow> cached_service R dflt now (''metrics:'' @ c) ttl (metrics_value (metrics c)) u)"

text \<open>
  a host whose \<^verbatim>\<open>robots.txt\<close> could not be fetched is reported with status 200, and its domain gets the ten
  points that the file is worth.
\<close>

theorem missing_robots_counts_as_found:
  "rb_status (read_robots None d) = 200
   \<and> dm_authority (calculate_domain_metrics age digest fpow wi (read_robots None d) si d)
     = dm_authority (calculate_domain_metrics age digest fpow wi (read_robots (Some (200, body)) d) si d)"
  by (simp add: read_robots_def calculate_domain_metrics_def Let_def split_beta)

lemma first_match_place:
  "0 < n \<Longrightarrow> first_match n d ms =
     (let k = length (takeWhile (\<lambda>m. \<not> str_contains (str_lower m) d) ms) in if k = length ms then 0 else n + int k)"
  by (induction ms arbitrary: n) (auto simp: Let_def)

text \<open>
  the rank of a domain is its place in the results, the first that contains it; a domain that is not among
  them, or when there are no results, is not reported as absent but gets a made-up place from 1 to 12.
\<close>

theorem rank_is_place_or_invented:
  "let r = serp_position digest serp keyword target;
       ms = (case serp of None \<Rightarrow> [] | Some xs \<Rightarrow> xs);
       k = length (takeWhile (\<lambda>m. \<not> str_contains (str_lower m) (clean_domain target)) ms)
   in if k = length ms
      then rr_source r = ''serp_algorithmic'' \<and> rr_checked r = 30 \<and> rr_position r \<in> {1..12}
      else rr_source r = ''duckduckgo_html'' \<and> rr_checked r = int (length ms) \<and> rr_position r = int k + 1"
proof -
  have "k \<le> length (xs :: string list) \<Longrightarrow> k \<noteq> length xs \<Longrightarrow> xs \<noteq> []" for k xs by auto
  then show ?thesis
    by (cases serp) (auto simp: serp_position_def Let_def first_match_place [OF zero_less_one] length_takeWhile_le)
qed

section \<open>Exports\<close>

text \<open>
  \<open>stamp\<close> and \<open>show_time\<close> print a time as \<^verbatim>\<open>isoformat\<close> and \<^verbatim>\<open>str\<close> do. The functions of crud.py are called with their
  defaults: at most 50 audits, the latest first.
\<close>

record export_info =
  ei_website :: int
  ei_domain :: string
  ei_format :: string
  ei_download :: string
  ei_stamp :: string

definition export_report ::
  "(int \<Rightarrow> string) \<Rightarrow> int \<Rightarrow> int \<Rightarrow> string option \<Rightarrow> ('a seo_db_scheme) \<Rightarrow> export_info outcome" where
  "export_report stamp website_id uid format w =
     (case verify_website_ownership website_id uid w of
        Inl e \<Rightarrow> Inl e
      | Inr (i, s) \<Rightarrow>
          (let fmt = str_lower (or_else format ''pdf'')
           in Inr \<lparr>ei_website = i, ei_domain = w_domain s, ei_format = fmt,
                   ei_download = ''/api/v1/reports/download/'' @ int_str i @ CHR ''.'' # fmt,
                   ei_stamp = stamp (db_now w)\<rparr>))"

text \<open>
  The lines of \<^verbatim>\<open>csv.writer\<close> with its defaults: a field is quoted when it has a comma, a quote or an end of line,
  and its quotes are doubled.
\<close>

definition csv_special :: "string \<Rightarrow> bool" where
  "csv_special f \<longleftrightarrow> list_ex (\<lambda>c. c = CHR '','' \<or> c = CHR 0x22 \<or> c = CHR 0x0D \<or> c = CHR 0x0A) f"

definition csv_field :: "string \<Rightarrow> string" where
  "csv_field f =
     (if csv_special f
      then CHR 0x22 # concat (map (\<lambda>c. if c = CHR 0x22 then [CHR 0x22, CHR 0x22] else [c]) f) @ [CHR 0x22]
      else f)"

fun csv_fields :: "string list \<Rightarrow> string" where
  "csv_fields [] = []"
| "csv_fields [f] = csv_field f"
| "csv_fields (f # g # fs) = csv_field f @ CHR '','' # csv_fields (g # fs)"

definition csv_line :: "string list \<Rightarrow> string" where
  "csv_line fs = csv_fields fs @ [CHR 0x0D, CHR 0x0A]"

definition csv_header :: "string list" where
  "csv_header = [''Audit ID'', ''Website ID'', ''Domain'', ''Score'', ''Meta Title'', ''Meta Description'', ''Created At'']"

text \<open>\<^verbatim>\<open>getattr(audit, "description", None)\<close> is always \<^verbatim>\<open>None\<close>: the column is called \<^verbatim>\<open>meta_description\<close>.\<close>

definition csv_audit :: "(int \<Rightarrow> string) \<Rightarrow> int \<times> website \<Rightarrow> int \<times> audit_result \<Rightarrow> string list" where
  "csv_audit show_time site a =
     [int_str (fst a), int_str (fst site), w_domain (snd site), int_str (ar_score (snd a)),
      (case ar_title (snd a) of None \<Rightarrow> [] | Some t \<Rightarrow> t), [], show_time (ar_created (snd a))]"

function chunks :: "nat \<Rightarrow> 'x list \<Rightarrow> 'x list list" where
  "chunks n xs = (if xs = [] \<or> n = 0 then [] else take n xs # chunks n (drop n xs))"
  by auto
termination
  by (relation "measure (length \<circ> snd)") (auto simp: length_greater_0_conv [symmetric] simp del: length_greater_0_conv)

declare chunks.simps [simp del]

definition stream_csv_audits ::
  "(string \<Rightarrow> int \<times> audit_result \<Rightarrow> int) \<Rightarrow> (int \<Rightarrow> string) \<Rightarrow> int \<Rightarrow> int \<Rightarrow> ('a seo_db_scheme) \<Rightarrow> string list outcome" where
  "stream_csv_audits db_order show_time website_id uid w =
     (case verify_website_ownership website_id uid w of
        Inl e \<Rightarrow> Inl e
      | Inr site \<Rightarrow>
          (let audits = get_user_audits_for_website db_order (fst site) uid 0 50 ''id'' ''desc'' w
           in Inr (csv_line csv_header
                   # map (\<lambda>chunk. concat (map (\<lambda>a. csv_line (csv_audit show_time site a)) chunk)) (chunks 100 audits))))"

record sheets_payload =
  gs_title :: string
  gs_domain :: string
  gs_total :: int
  gs_values :: "string list list"

definition generate_sheets_payload ::
  "(string \<Rightarrow> int \<times> audit_result \<Rightarrow> int) \<Rightarrow> (int \<Rightarrow> string) \<Rightarrow> int \<Rightarrow> int \<Rightarrow> ('a seo_db_scheme) \<Rightarrow> sheets_payload outcome" where
  "generate_sheets_payload db_order show_time website_id uid w =
     (case verify_website_ownership website_id uid w of
        Inl e \<Rightarrow> Inl e
      | Inr (i, s) \<Rightarrow>
          (let audits = get_user_audits_for_website db_order i uid 0 50 ''id'' ''desc'' w;
               rows = [''Audit ID'', ''Score'', ''Title Length'', ''Images Without Alt'', ''Created At'']
                      # map (\<lambda>(k, a). [int_str k, int_str (ar_score a), int_str (ar_title_length a),
                                       int_str (ar_no_alt a), show_time (ar_created a)]) audits
           in Inr \<lparr>gs_title = ''SEO Report - '' @ w_domain s, gs_domain = w_domain s, gs_total = int (length rows),
                   gs_values = rows\<rparr>))"

lemma concat_chunks: "0 < n \<Longrightarrow> concat (chunks n xs) = xs"
proof (induction n xs rule: chunks.induct)
  case (1 n xs)
  then show ?case by (subst chunks.simps) auto
qed

lemma concat_map_chunks: "0 < n \<Longrightarrow> concat (map (\<lambda>c. concat (map f c)) (chunks n xs)) = concat (map f xs)"
proof -
  assume "0 < n"
  have "concat (map (\<lambda>c. concat (map f c)) yss) = concat (map f (concat yss))" for yss
    by (induction yss) simp_all
  with concat_chunks [OF \<open>0 < n\<close>] show ?thesis by metis
qed

text \<open>
  the export of the audits of an owned website has their lines in the order of their keys, the latest first, but
  of the fifty latest audits only: older ones are silently left out.
\<close>

theorem export_has_fifty_audits:
  assumes "verify_website_ownership website_id uid w = Inr (i, s)"
  shows "map_sum id concat (stream_csv_audits db_order show_time website_id uid w) =
     Inr (csv_line csv_header @ concat (map (\<lambda>a. csv_line (csv_audit show_time (i, s) a))
       (take 50 (order_rows fst False (t_where (\<lambda>k a. ar_website a = i \<and> ar_user a = uid) (sd_audits w))))))"
proof -
  have desc: "is_asc ''desc'' = False" by code_simp
  have order: "get_user_audits_for_website db_order i uid 0 50 ''id'' ''desc'' w =
    take 50 (order_rows fst False (t_where (\<lambda>k a. ar_website a = i \<and> ar_user a = uid) (sd_audits w)))"
    by (simp add: get_user_audits_for_website_def audit_column_def sort_by_column_def paginate_def PaginatedParams_def
        Let_def desc)
  show ?thesis
    by (simp add: stream_csv_audits_def assms Let_def order concat_map_chunks)
qed

end
