(* ===== verification/Headings.thy ===== *)
theory Headings
  imports Prelude
begin

text \<open>
  \<^verbatim>\<open>backend/services/heading_extractor.py\<close> on the headings that BeautifulSoup finds, in document order: the
  flat list with the skipped levels, the counts and the tree that a stack of open headings builds. The nodes
  of the tree are shared objects in the code; here they are indices into the flat list with a list of children each.
\<close>

section \<open>The flat list\<close>

record heading_elem =
  he_level :: nat
  he_text :: string
  he_id :: "string option"
  he_class :: "string option"

record heading_item =
  hd_id :: string
  hd_tag :: string
  hd_level :: nat
  hd_text :: string
  hd_element :: "string option"
  hd_class :: "string option"
  hd_skipped :: bool
  hd_parent :: "string option"

definition tag_name :: "nat \<Rightarrow> string" where
  "tag_name level = CHR ''h'' # nat_str level"

definition skips :: "nat \<Rightarrow> nat \<Rightarrow> bool" where
  "skips previous level \<longleftrightarrow> 0 < previous \<and> previous + 1 < level"

text \<open>The loop with its counter and the level of the heading before.\<close>

fun flat_items :: "nat \<Rightarrow> nat \<Rightarrow> heading_elem list \<Rightarrow> heading_item list" where
  "flat_items idx previous [] = []"
| "flat_items idx previous (e # es) =
     \<lparr>hd_id = ''h_'' @ nat_str (idx + 1), hd_tag = tag_name (he_level e), hd_level = he_level e,
      hd_text = str_strip (he_text e), hd_element = he_id e, hd_class = he_class e,
      hd_skipped = skips previous (he_level e), hd_parent = None\<rparr>
     # flat_items (idx + 1) (he_level e) es"

section \<open>The tree\<close>

text \<open>The roots, the children of each node, the parent tags, and the stack, its top first.\<close>

record heading_tree =
  ht_roots :: "nat list"
  ht_children :: "nat list list"
  ht_parents :: "nat option list"
  ht_stack :: "nat list"

definition push_heading :: "nat list \<Rightarrow> heading_tree \<Rightarrow> nat \<Rightarrow> heading_tree" where
  "push_heading levels t i =
     (let st = dropWhile (\<lambda>j. levels ! i \<le> levels ! j) (ht_stack t)
      in case st of
           [] \<Rightarrow> t\<lparr>ht_roots := ht_roots t @ [i], ht_children := ht_children t @ [[]],
                  ht_parents := ht_parents t @ [None], ht_stack := [i]\<rparr>
         | p # _ \<Rightarrow>
             t\<lparr>ht_children := (ht_children t)[p := ht_children t ! p @ [i]] @ [[]],
               ht_parents := ht_parents t @ [Some p], ht_stack := i # st\<rparr>)"

definition build_tree :: "nat list \<Rightarrow> heading_tree" where
  "build_tree levels =
     foldl (push_heading levels) \<lparr>ht_roots = [], ht_children = [], ht_parents = [], ht_stack = []\<rparr> [0..<length levels]"

record heading_report =
  hr_total :: nat
  hr_counts :: "nat list"
  hr_missing_h1 :: bool
  hr_multiple_h1 :: bool
  hr_skipped :: bool
  hr_empty :: nat
  hr_flat :: "heading_item list"
  hr_tree :: heading_tree

definition level_count :: "nat \<Rightarrow> heading_elem list \<Rightarrow> nat" where
  "level_count l es = length (filter (\<lambda>e. he_level e = l) es)"

definition extract_headings :: "heading_elem list \<Rightarrow> heading_report" where
  "extract_headings es =
     (let items = flat_items 0 0 es; t = build_tree (map he_level es);
          tagged = map (\<lambda>(it, p). it\<lparr>hd_parent := map_option (\<lambda>j. hd_tag (items ! j)) p\<rparr>) (zip items (ht_parents t))
      in \<lparr>hr_total = length items, hr_counts = map (\<lambda>l. level_count l es) [1, 2, 3, 4, 5, 6],
          hr_missing_h1 = (level_count 1 es = 0), hr_multiple_h1 = (1 < level_count 1 es),
          hr_skipped = list_ex hd_skipped items,
          hr_empty = length (filter (\<lambda>e. str_strip (he_text e) = []) es),
          hr_flat = tagged, hr_tree = t\<rparr>)"

section \<open>The nearest heading above\<close>

text \<open>The specification: the last heading before with a smaller level.\<close>

definition nearest_above :: "nat list \<Rightarrow> nat \<Rightarrow> nat option" where
  "nearest_above levels i = List.find (\<lambda>j. levels ! j < levels ! i) (rev [0..<i])"

lemma find_dropWhile: "(\<And>j. Q j \<Longrightarrow> \<not> P j) \<Longrightarrow> List.find P (dropWhile Q xs) = List.find P xs"
  by (induction xs) auto

lemma find_head: "List.find P xs = (case dropWhile (\<lambda>x. \<not> P x) xs of [] \<Rightarrow> None | x # _ \<Rightarrow> Some x)"
  by (induction xs) auto

text \<open>What the tree looks like when the first \<open>n\<close> headings have been pushed.\<close>

definition tree_inv :: "nat list \<Rightarrow> nat \<Rightarrow> heading_tree \<Rightarrow> bool" where
  "tree_inv levels n t \<longleftrightarrow>
     (\<forall>x. List.find (\<lambda>j. levels ! j < x) (ht_stack t) = List.find (\<lambda>j. levels ! j < x) (rev [0..<n]))
     \<and> (\<forall>j\<in>set (ht_stack t). j < n)
     \<and> ht_parents t = map (nearest_above levels) [0..<n]
     \<and> ht_roots t = filter (\<lambda>i. nearest_above levels i = None) [0..<n]
     \<and> ht_children t = map (\<lambda>p. filter (\<lambda>i. nearest_above levels i = Some p) [0..<n]) [0..<n]"

lemma nearest_less: "nearest_above levels i = Some p \<Longrightarrow> p < i"
  by (auto simp: nearest_above_def find_Some_iff in_set_conv_nth) (metis diff_less_Suc length_upt less_imp_diff_less
      minus_nat.diff_0 nth_mem rev_nth set_rev set_upt atLeastLessThan_iff length_rev)

lemma push_inv:
  assumes "tree_inv levels n t"
  shows "tree_inv levels (Suc n) (push_heading levels t n)"
proof -
  define above where "above = dropWhile (\<lambda>j. levels ! n \<le> levels ! j) (ht_stack t)"
  have st: "\<And>x. List.find (\<lambda>j. levels ! j < x) (ht_stack t) = List.find (\<lambda>j. levels ! j < x) (rev [0..<n])"
    and small: "\<forall>j\<in>set (ht_stack t). j < n"
    using assms by (simp_all add: tree_inv_def)
  have near: "nearest_above levels n = (case above of [] \<Rightarrow> None | p # _ \<Rightarrow> Some p)"
    using st [of "levels ! n"] find_head [of "\<lambda>j. levels ! j < levels ! n" "ht_stack t"]
    by (simp add: nearest_above_def not_less above_def)
  have find: "List.find (\<lambda>j. levels ! j < x) (n # above) = List.find (\<lambda>j. levels ! j < x) (rev [0..<Suc n])" for x
  proof (cases "levels ! n < x")
    case False
    then have "List.find (\<lambda>j. levels ! j < x) above = List.find (\<lambda>j. levels ! j < x) (ht_stack t)"
      unfolding above_def by (intro find_dropWhile) simp
    with False st show ?thesis by simp
  qed simp
  have stack: "ht_stack (push_heading levels t n) = n # above"
    by (auto simp: push_heading_def Let_def above_def [symmetric] split: list.split)
  have below: "\<forall>j\<in>set (n # above). j < Suc n"
    using small unfolding above_def by (auto dest: set_dropWhileD less_SucI)
  have none: "filter (\<lambda>i. nearest_above levels i = Some n) [0..<Suc n] = []"
    by (auto simp: filter_empty_conv dest: nearest_less)
  show ?thesis
  proof (cases above)
    case Nil
    then show ?thesis
      using assms find stack below near none
      by (auto simp: tree_inv_def push_heading_def Let_def above_def [symmetric])
  next
    case (Cons p rest)
    have "p \<in> set (ht_stack t)" using Cons unfolding above_def by (metis list.set_intros(1) set_dropWhileD)
    then have p: "p < n" using small by blast
    have n: "nearest_above levels n = Some p" using near Cons by simp
    have "(ht_children t)[p := ht_children t ! p @ [n]]
        = map (\<lambda>q. filter (\<lambda>i. nearest_above levels i = Some q) [0..<Suc n]) [0..<n]"
      using assms p n by (intro nth_equalityI) (auto simp: tree_inv_def nth_list_update)
    then show ?thesis
      using assms find stack below n none Cons p
      by (auto simp: tree_inv_def push_heading_def Let_def above_def [symmetric])
  qed
qed

lemma build_inv: "tree_inv levels (length levels) (build_tree levels)"
proof -
  have "tree_inv levels n (foldl (push_heading levels)
      \<lparr>ht_roots = [], ht_children = [], ht_parents = [], ht_stack = []\<rparr> [0..<n])" for n
  proof (induction n)
    case (Suc n)
    then show ?case using push_inv [OF Suc] by simp
  qed (simp add: tree_inv_def)
  then show ?thesis by (simp add: build_tree_def)
qed

text \<open>
  C34: the stack gives every heading the nearest heading before it with a smaller level as its parent: the
  roots are the headings without one, and the children of a heading are, in order, those it is the parent of.
\<close>

theorem heading_tree_is_nearest_above:
  "ht_parents (build_tree levels) = map (nearest_above levels) [0..<length levels]
   \<and> ht_roots (build_tree levels) = filter (\<lambda>i. nearest_above levels i = None) [0..<length levels]
   \<and> ht_children (build_tree levels) =
       map (\<lambda>p. filter (\<lambda>i. nearest_above levels i = Some p) [0..<length levels]) [0..<length levels]"
  using build_inv [of levels] by (simp add: tree_inv_def)

lemma heading_example:
  "ht_parents (build_tree [1, 2, 4, 2, 3, 1]) = [None, Some 0, Some 1, Some 0, Some 3, None]"
  by code_simp

end
