(* ===== verification/Browser_Pool.thy ===== *)
theory Browser_Pool
  imports Errors
begin

text \<open>
  \<^verbatim>\<open>backend/browser_pool.py\<close>: the pool of browsers behind the page renderer. The \<^verbatim>\<open>PooledBrowser\<close> objects live in a
  table by their identifiers, because a context keeps its browser after the pool has dropped it. The
  coroutines inside \<^verbatim>\<open>get_context\<close> are part of the state: those that hold a permit of the semaphore and have no
  browser yet are counted, those with an open context are listed by their browsers. Each event is a piece
  of code that no other coroutine interrupts.
\<close>

section \<open>Browsers\<close>

record pooled =
  pb_created :: rat
  pb_used :: rat
  pb_active :: int
  pb_healthy :: bool
  pb_connected :: bool

definition mk_pooled :: "rat \<Rightarrow> pooled" where
  "mk_pooled now = \<lparr>pb_created = now, pb_used = now, pb_active = 0, pb_healthy = True, pb_connected = True\<rparr>"

definition is_idle :: "rat \<Rightarrow> rat \<Rightarrow> pooled \<Rightarrow> bool" where
  "is_idle now timeout b \<longleftrightarrow> pb_active b = 0 \<and> timeout < now - pb_used b"

definition is_connected :: "pooled \<Rightarrow> bool" where
  "is_connected b \<longleftrightarrow> pb_healthy b \<and> pb_connected b"

definition close_pooled :: "pooled \<Rightarrow> pooled" where
  "close_pooled b = b\<lparr>pb_healthy := False, pb_connected := False\<rparr>"

section \<open>The pool\<close>

record browser_pool =
  bp_size :: int
  bp_timeout :: rat
  bp_driver :: bool
  bp_sem :: "int option"
  bp_objects :: "(int, pooled) py_dict"
  bp_listed :: "int list"
  bp_counter :: int
  bp_closed :: bool
  bp_entering :: int
  bp_contexts :: "int list"

definition mk_pool :: "int \<Rightarrow> rat \<Rightarrow> browser_pool" where
  "mk_pool limit timeout =
     \<lparr>bp_size = limit, bp_timeout = timeout, bp_driver = False, bp_sem = None, bp_objects = [], bp_listed = [],
      bp_counter = 0, bp_closed = False, bp_entering = 0, bp_contexts = []\<rparr>"

definition pool_get :: "browser_pool \<Rightarrow> int \<Rightarrow> pooled" where
  "pool_get p i = (case d_get (bp_objects p) i of None \<Rightarrow> mk_pooled 0 | Some b \<Rightarrow> b)"

definition pool_change :: "int \<Rightarrow> (pooled \<Rightarrow> pooled) \<Rightarrow> browser_pool \<Rightarrow> browser_pool" where
  "pool_change i f p = p\<lparr>bp_objects := map (\<lambda>(k, b). (k, if k = i then f b else b)) (bp_objects p)\<rparr>"

text \<open>\<open>starts\<close> is whether the driver starts. A negative size fails when the semaphore is made.\<close>

definition pool_initialize :: "bool \<Rightarrow> browser_pool \<Rightarrow> unit outcome \<times> browser_pool" where
  "pool_initialize starts p =
     (if bp_driver p \<or> bp_closed p then (Inr (), p)
      else if \<not> starts then (Inl (OtherException ''playwright''), p)
      else if bp_size p < 0 then (Inl (ValueError ''Semaphore initial value must be >= 0''), p\<lparr>bp_driver := True\<rparr>)
      else (Inr (), p\<lparr>bp_driver := True, bp_sem := Some (bp_size p)\<rparr>))"

text \<open>\<open>launches\<close> is whether the browser starts; the counter has moved when it does not.\<close>

definition launch_pooled :: "bool \<Rightarrow> rat \<Rightarrow> browser_pool \<Rightarrow> int outcome \<times> browser_pool" where
  "launch_pooled launches now p =
     (if \<not> bp_driver p then (Inl (OtherException ''BrowserPool is not initialized or has been closed.''), p)
      else
        let i = bp_counter p + 1; p1 = p\<lparr>bp_counter := i\<rparr>
        in if \<not> launches then (Inl (OtherException ''launch''), p1)
           else (Inr i, p1\<lparr>bp_objects := d_set i (mk_pooled now) (bp_objects p1), bp_listed := bp_listed p1 @ [i]\<rparr>))"

definition drop_browsers :: "(pooled \<Rightarrow> bool) \<Rightarrow> browser_pool \<Rightarrow> browser_pool" where
  "drop_browsers dead p =
     (let gone = (\<lambda>i. i \<in> set (bp_listed p) \<and> dead (pool_get p i))
      in p\<lparr>bp_listed := filter (\<lambda>i. \<not> gone i) (bp_listed p),
           bp_objects := map (\<lambda>(k, b). (k, if gone k then close_pooled b else b)) (bp_objects p)\<rparr>)"

definition order_browsers :: "browser_pool \<Rightarrow> browser_pool" where
  "order_browsers p = p\<lparr>bp_listed := sort_key (\<lambda>i. pb_active (pool_get p i)) (bp_listed p)\<rparr>"

definition choose_browser :: "bool \<Rightarrow> rat \<Rightarrow> browser_pool \<Rightarrow> int outcome \<times> browser_pool" where
  "choose_browser launches now p =
     (case bp_listed p of
        [] \<Rightarrow> launch_pooled launches now p
      | i # _ \<Rightarrow>
          if int (length (bp_listed p)) < bp_size p \<and> 0 < pb_active (pool_get p i)
          then launch_pooled launches now p else (Inr i, p))"

text \<open>The part of \<^verbatim>\<open>acquire_browser\<close> under the lock.\<close>

definition acquire_locked :: "bool \<Rightarrow> rat \<Rightarrow> browser_pool \<Rightarrow> int outcome \<times> browser_pool" where
  "acquire_locked launches now p =
     (case choose_browser launches now (order_browsers (drop_browsers (\<lambda>b. \<not> is_connected b) p)) of
        (Inl e, p1) \<Rightarrow> (Inl e, p1)
      | (Inr i, p1) \<Rightarrow> (Inr i, pool_change i (\<lambda>b. b\<lparr>pb_active := pb_active b + 1, pb_used := now\<rparr>) p1))"

text \<open>Between the test of \<^verbatim>\<open>_is_closed\<close> and the lock the pool may be closed: then \<open>late\<close> holds.\<close>

definition acquire_browser :: "bool \<Rightarrow> bool \<Rightarrow> bool \<Rightarrow> rat \<Rightarrow> browser_pool \<Rightarrow> int outcome \<times> browser_pool" where
  "acquire_browser late starts launches now p =
     (if \<not> late \<and> bp_closed p then (Inl (OtherException ''BrowserPool is closed.''), p)
      else (case pool_initialize starts p of
              (Inl e, p1) \<Rightarrow> (Inl e, p1)
            | (Inr _, p1) \<Rightarrow> acquire_locked launches now p1))"

definition release_browser :: "int \<Rightarrow> rat \<Rightarrow> browser_pool \<Rightarrow> browser_pool" where
  "release_browser i now p = pool_change i (\<lambda>b. b\<lparr>pb_active := max 0 (pb_active b - 1), pb_used := now\<rparr>) p"

definition cleanup_idle_browsers :: "rat \<Rightarrow> browser_pool \<Rightarrow> browser_pool" where
  "cleanup_idle_browsers now p = drop_browsers (\<lambda>b. is_idle now (bp_timeout p) b \<or> \<not> is_connected b) p"

definition pool_close :: "browser_pool \<Rightarrow> browser_pool" where
  "pool_close p = (drop_browsers (\<lambda>b. True) (p\<lparr>bp_closed := True\<rparr>))\<lparr>bp_driver := False\<rparr>"

section \<open>Contexts\<close>

text \<open>
  \<^verbatim>\<open>get_context\<close> up to the permit: without a free one the coroutine waits, which changes nothing; without a
  semaphore the assertion fails.
\<close>

definition take_permit :: "bool \<Rightarrow> browser_pool \<Rightarrow> browser_pool" where
  "take_permit starts p =
     (let p1 = (if bp_sem p = None then snd (pool_initialize starts p) else p)
      in case bp_sem p1 of
           None \<Rightarrow> p1
         | Some free \<Rightarrow>
             if 0 < free then p1\<lparr>bp_sem := Some (free - 1), bp_entering := bp_entering p1 + 1\<rparr> else p1)"

definition give_permit :: "browser_pool \<Rightarrow> browser_pool" where
  "give_permit p = p\<lparr>bp_sem := map_option (\<lambda>free. free + 1) (bp_sem p)\<rparr>"

definition enter_context :: "bool \<Rightarrow> bool \<Rightarrow> bool \<Rightarrow> rat \<Rightarrow> browser_pool \<Rightarrow> browser_pool" where
  "enter_context late starts launches now p =
     (if bp_entering p \<le> 0 then p
      else
        case acquire_browser late starts launches now p of
          (Inl _, p1) \<Rightarrow> give_permit (p1\<lparr>bp_entering := bp_entering p1 - 1\<rparr>)
        | (Inr i, p1) \<Rightarrow> p1\<lparr>bp_entering := bp_entering p1 - 1, bp_contexts := bp_contexts p1 @ [i]\<rparr>)"

text \<open>An exception inside a context, also of \<^verbatim>\<open>new_context\<close>, marks its browser.\<close>

definition fail_context :: "int \<Rightarrow> browser_pool \<Rightarrow> browser_pool" where
  "fail_context i p = (if i \<in> set (bp_contexts p) then pool_change i (\<lambda>b. b\<lparr>pb_healthy := False\<rparr>) p else p)"

definition leave_context :: "int \<Rightarrow> rat \<Rightarrow> browser_pool \<Rightarrow> browser_pool" where
  "leave_context i now p =
     (if i \<in> set (bp_contexts p)
      then give_permit ((release_browser i now p)\<lparr>bp_contexts := remove1 i (bp_contexts p)\<rparr>) else p)"

datatype pool_event =
    TakePermit bool
  | EnterContext bool bool bool rat
  | FailContext int
  | LeaveContext int rat
  | CrashBrowser int
  | CleanupIdle rat
  | ClosePool

fun pool_step :: "browser_pool \<Rightarrow> pool_event \<Rightarrow> browser_pool" where
  "pool_step p (TakePermit starts) = take_permit starts p"
| "pool_step p (EnterContext late starts launches now) = enter_context late starts launches now p"
| "pool_step p (FailContext i) = fail_context i p"
| "pool_step p (LeaveContext i now) = leave_context i now p"
| "pool_step p (CrashBrowser i) = pool_change i (\<lambda>b. b\<lparr>pb_connected := False\<rparr>) p"
| "pool_step p (CleanupIdle now) = cleanup_idle_browsers now p"
| "pool_step p ClosePool = pool_close p"

section \<open>The global pool\<close>

definition get_browser_pool :: "int \<Rightarrow> rat \<Rightarrow> browser_pool option \<Rightarrow> browser_pool" where
  "get_browser_pool limit timeout g =
     (case g of None \<Rightarrow> mk_pool limit timeout | Some p \<Rightarrow> if bp_closed p then mk_pool limit timeout else p)"

text \<open>A pool that is closed already stays where it is.\<close>

definition close_browser_pool :: "browser_pool option \<Rightarrow> browser_pool option" where
  "close_browser_pool g = (case g of None \<Rightarrow> None | Some p \<Rightarrow> if bp_closed p then g else None)"

section \<open>One context for a browser\<close>

definition permits_ok :: "browser_pool \<Rightarrow> bool" where
  "permits_ok p \<longleftrightarrow>
     (case bp_sem p of
        None \<Rightarrow> bp_entering p = 0 \<and> bp_contexts p = [] \<and> bp_listed p = []
      | Some free \<Rightarrow> 0 \<le> free \<and> free + bp_entering p + int (length (bp_contexts p)) = bp_size p
                     \<and> (bp_driver p \<or> bp_closed p))
     \<and> 0 \<le> bp_entering p \<and> int (length (bp_listed p)) \<le> max 0 (bp_size p)"

definition ids_ok :: "browser_pool \<Rightarrow> bool" where
  "ids_ok p \<longleftrightarrow>
     d_wf (bp_objects p) \<and> distinct (bp_listed p) \<and> distinct (bp_contexts p)
     \<and> set (bp_listed p) \<subseteq> set (d_keys (bp_objects p)) \<and> set (bp_contexts p) \<subseteq> set (d_keys (bp_objects p))
     \<and> (\<forall>k\<in>set (d_keys (bp_objects p)). k \<le> bp_counter p)"

text \<open>A browser counts its contexts, and one that works is not dropped while it has one.\<close>

definition browser_ok :: "browser_pool \<Rightarrow> int \<times> pooled \<Rightarrow> bool" where
  "browser_ok p kb \<longleftrightarrow>
     pb_active (snd kb) = (if fst kb \<in> set (bp_contexts p) then 1 else 0)
     \<and> (fst kb \<in> set (bp_contexts p) \<longrightarrow> is_connected (snd kb) \<longrightarrow> fst kb \<in> set (bp_listed p))"

definition pool_ok :: "browser_pool \<Rightarrow> bool" where
  "pool_ok p \<longleftrightarrow> permits_ok p \<and> ids_ok p \<and> (\<forall>kb\<in>set (bp_objects p). browser_ok p kb)"

lemma fst_change [simp]: "fst (case kb of (k, b) \<Rightarrow> (k, f k b)) = fst kb"
  by (cases kb) simp

lemma comp_change [simp]: "fst \<circ> (\<lambda>(k, b). (k, f k b)) = fst"
  by auto

lemma change_fields [simp]:
  "bp_sem (pool_change i f p) = bp_sem p" "bp_listed (pool_change i f p) = bp_listed p"
  "bp_contexts (pool_change i f p) = bp_contexts p" "bp_counter (pool_change i f p) = bp_counter p"
  "bp_entering (pool_change i f p) = bp_entering p" "bp_size (pool_change i f p) = bp_size p"
  "bp_driver (pool_change i f p) = bp_driver p" "bp_closed (pool_change i f p) = bp_closed p"
  "d_keys (bp_objects (pool_change i f p)) = d_keys (bp_objects p)"
  by (simp_all add: pool_change_def)

lemma drop_fields [simp]:
  "bp_sem (drop_browsers f p) = bp_sem p" "bp_contexts (drop_browsers f p) = bp_contexts p"
  "bp_counter (drop_browsers f p) = bp_counter p" "bp_entering (drop_browsers f p) = bp_entering p"
  "bp_size (drop_browsers f p) = bp_size p" "bp_driver (drop_browsers f p) = bp_driver p"
  "bp_closed (drop_browsers f p) = bp_closed p" "d_keys (bp_objects (drop_browsers f p)) = d_keys (bp_objects p)"
  by (simp_all add: drop_browsers_def Let_def)

lemma change_ids [simp]: "ids_ok (pool_change i f p) = ids_ok p"
  by (simp add: ids_ok_def pool_change_def d_wf_def)

lemma change_permits [simp]: "permits_ok (pool_change i f p) = permits_ok p"
  by (cases "bp_sem p") (simp_all add: permits_ok_def)

lemma pool_get_object: "ids_ok p \<Longrightarrow> (k, b) \<in> set (bp_objects p) \<Longrightarrow> pool_get p k = b"
  by (auto simp: pool_get_def ids_ok_def d_wf_def split: option.split)

lemma drop_ok:
  assumes "pool_ok p"
  shows "pool_ok (drop_browsers dead p)"
proof -
  let ?q = "drop_browsers dead p"
  have "permits_ok ?q"
    using assms
    by (auto simp: pool_ok_def permits_ok_def drop_browsers_def Let_def split: option.splits
        intro: order_trans [OF of_nat_mono [OF length_filter_le]])
  moreover have "ids_ok ?q"
    using assms by (auto simp: pool_ok_def ids_ok_def drop_browsers_def Let_def d_wf_def)
  moreover have "browser_ok ?q kb" if kb: "kb \<in> set (bp_objects ?q)" for kb
  proof -
    obtain k b where b: "(k, b) \<in> set (bp_objects p)" "fst kb = k"
      "snd kb = (if k \<in> set (bp_listed p) \<and> dead (pool_get p k) then close_pooled b else b)"
      using kb by (auto simp: drop_browsers_def Let_def)
    then have "browser_ok p (k, b)" using assms by (simp add: pool_ok_def)
    then show ?thesis using b
      by (auto simp: browser_ok_def close_pooled_def is_connected_def drop_browsers_def Let_def)
  qed
  ultimately show ?thesis by (simp add: pool_ok_def)
qed

lemma order_fields [simp]:
  "bp_sem (order_browsers p) = bp_sem p" "bp_contexts (order_browsers p) = bp_contexts p"
  "bp_counter (order_browsers p) = bp_counter p" "bp_entering (order_browsers p) = bp_entering p"
  "bp_size (order_browsers p) = bp_size p" "bp_driver (order_browsers p) = bp_driver p"
  "bp_closed (order_browsers p) = bp_closed p" "bp_objects (order_browsers p) = bp_objects p"
  "set (bp_listed (order_browsers p)) = set (bp_listed p)"
  "length (bp_listed (order_browsers p)) = length (bp_listed p)"
  by (simp_all add: order_browsers_def)

lemma order_ok: "pool_ok p \<Longrightarrow> pool_ok (order_browsers p)"
  by (auto simp: pool_ok_def permits_ok_def ids_ok_def browser_ok_def order_browsers_def split: option.splits)

lemma entering_facts:
  assumes "pool_ok p" and "0 < bp_entering p"
  obtains free where "bp_sem p = Some free" "0 \<le> free" "free + bp_entering p + int (length (bp_contexts p)) = bp_size p"
    "bp_driver p \<or> bp_closed p" "int (length (bp_contexts p)) < bp_size p" "int (length (bp_listed p)) \<le> bp_size p"
  using assms by (cases "bp_sem p") (auto simp: pool_ok_def permits_ok_def)

lemma key_object: "k \<in> set (d_keys (bp_objects p)) \<Longrightarrow> ids_ok p \<Longrightarrow> (k, pool_get p k) \<in> set (bp_objects p)"
  using pool_get_object by fastforce

lemma active_iff:
  assumes "pool_ok p" and "k \<in> set (bp_listed p)"
  shows "pb_active (pool_get p k) = (if k \<in> set (bp_contexts p) then 1 else 0)"
proof -
  have "(k, pool_get p k) \<in> set (bp_objects p)"
  proof (rule key_object)
    show "ids_ok p" using assms by (simp add: pool_ok_def)
    then show "k \<in> set (d_keys (bp_objects p))" using assms by (auto simp: ids_ok_def)
  qed
  then show ?thesis using assms(1) by (auto simp: pool_ok_def browser_ok_def)
qed

text \<open>The pool is never so full that the least busy browser of a newcomer is taken.\<close>

lemma chosen_is_free:
  assumes p: "pool_ok p" and e: "0 < bp_entering p" and l: "bp_listed p = i # is"
    and s: "sorted (map (\<lambda>j. pb_active (pool_get p j)) (bp_listed p))"
    and full: "int (length (bp_listed p)) < bp_size p \<longrightarrow> pb_active (pool_get p i) \<le> 0"
  shows "i \<notin> set (bp_contexts p)"
proof
  assume i: "i \<in> set (bp_contexts p)"
  have "pb_active (pool_get p i) = 1" using active_iff [OF p, of i] i l by simp
  then have "1 \<le> pb_active (pool_get p j)" if "j \<in> set (bp_listed p)" for j
    using s that by (auto simp: l)
  then have "j \<in> set (bp_contexts p)" if "j \<in> set (bp_listed p)" for j
    using that active_iff [OF p that] by (metis not_one_le_zero)
  then have "set (bp_listed p) \<subseteq> set (bp_contexts p)" by blast
  moreover have "distinct (bp_listed p)" "distinct (bp_contexts p)" using p by (simp_all add: pool_ok_def ids_ok_def)
  ultimately have "length (bp_listed p) \<le> length (bp_contexts p)"
    by (metis card_mono distinct_card finite_set)
  moreover obtain free where "int (length (bp_contexts p)) < bp_size p" using entering_facts [OF p e] by blast
  ultimately show False using full \<open>pb_active (pool_get p i) = 1\<close> by simp
qed

lemma launch_ok:
  assumes p: "pool_ok p" and e: "0 < bp_entering p" and l: "int (length (bp_listed p)) < bp_size p"
    and r: "launch_pooled launches now p = (r, q)"
  shows "pool_ok q" "bp_entering q = bp_entering p"
    "r = Inr i \<Longrightarrow> i \<in> set (bp_listed q) \<and> i \<notin> set (bp_contexts q)"
proof -
  let ?i = "bp_counter p + 1"
  have new: "?i \<notin> set (d_keys (bp_objects p))" using p by (auto simp: pool_ok_def ids_ok_def)
  moreover have "set (bp_contexts p) \<subseteq> set (d_keys (bp_objects p))" "set (bp_listed p) \<subseteq> set (d_keys (bp_objects p))"
    using p by (simp_all add: pool_ok_def ids_ok_def)
  ultimately have out: "?i \<notin> set (bp_contexts p)" "?i \<notin> set (bp_listed p)" by blast+
  consider "q = p" "\<And>i. r \<noteq> Inr i" | "q = p\<lparr>bp_counter := ?i\<rparr>" "\<And>i. r \<noteq> Inr i"
    | "r = Inr ?i" "q = p\<lparr>bp_counter := ?i, bp_objects := bp_objects p @ [(?i, mk_pooled now)],
         bp_listed := bp_listed p @ [?i]\<rparr>"
  proof (cases "bp_driver p \<and> launches")
    case True
    then have "r = Inr ?i" "q = p\<lparr>bp_counter := ?i, bp_objects := bp_objects p @ [(?i, mk_pooled now)],
        bp_listed := bp_listed p @ [?i]\<rparr>"
      using r by (simp_all add: launch_pooled_def Let_def d_set_fresh [OF new])
    then show thesis by (rule that(3))
  next
    case False
    then have "(\<forall>i. r \<noteq> Inr i) \<and> (q = p \<or> q = p\<lparr>bp_counter := ?i\<rparr>)"
      using r by (auto simp: launch_pooled_def Let_def split: if_splits)
    then show thesis using that(1,2) by blast
  qed
  then have "pool_ok q \<and> bp_entering q = bp_entering p
    \<and> (r = Inr i \<longrightarrow> i \<in> set (bp_listed q) \<and> i \<notin> set (bp_contexts q))"
  proof cases
    case 3
    have "permits_ok q" using p l e by (cases "bp_sem p") (auto simp: 3 pool_ok_def permits_ok_def)
    moreover have "ids_ok q" using p new out by (auto simp: 3 pool_ok_def ids_ok_def d_wf_def)
    moreover have "\<forall>kb\<in>set (bp_objects q). browser_ok q kb"
      using p out by (auto simp: 3 pool_ok_def browser_ok_def mk_pooled_def)
    ultimately show ?thesis using 3 out by (auto simp: pool_ok_def)
  qed (use p in \<open>auto simp: pool_ok_def permits_ok_def ids_ok_def browser_ok_def split: option.splits\<close>)
  then show "pool_ok q" "bp_entering q = bp_entering p"
    "r = Inr i \<Longrightarrow> i \<in> set (bp_listed q) \<and> i \<notin> set (bp_contexts q)" by auto
qed

lemma browsers_change:
  "(\<And>k b. (k, b) \<in> set (bp_objects p) \<Longrightarrow> browser_ok q (k, if k = i then f b else b))
    \<Longrightarrow> \<forall>kb\<in>set (bp_objects (pool_change i f p)). browser_ok q kb"
  by (auto simp: pool_change_def)

lemma object_ok: "pool_ok p \<Longrightarrow> (k, b) \<in> set (bp_objects p) \<Longrightarrow> browser_ok p (k, b)"
  by (simp add: pool_ok_def)

lemma choose_ok:
  assumes p: "pool_ok p" and e: "0 < bp_entering p"
    and s: "sorted (map (\<lambda>j. pb_active (pool_get p j)) (bp_listed p))"
    and r: "choose_browser launches now p = (r, q)"
  shows "pool_ok q" "bp_entering q = bp_entering p"
    "r = Inr i \<Longrightarrow> i \<in> set (bp_listed q) \<and> i \<notin> set (bp_contexts q)"
proof -
  obtain free where size: "int (length (bp_contexts p)) < bp_size p" using entering_facts [OF p e] by blast
  have "pool_ok q \<and> bp_entering q = bp_entering p
    \<and> (r = Inr i \<longrightarrow> i \<in> set (bp_listed q) \<and> i \<notin> set (bp_contexts q))"
  proof (cases "launch_pooled launches now p = (r, q) \<and> int (length (bp_listed p)) < bp_size p")
    case True
    with launch_ok [OF p e] show ?thesis by blast
  next
    case False
    with r size obtain k ks where k: "bp_listed p = k # ks" "r = Inr k" "q = p"
      "int (length (bp_listed p)) < bp_size p \<longrightarrow> pb_active (pool_get p k) \<le> 0"
    proof (cases "bp_listed p")
      case Nil
      then show thesis using r False size by (simp add: choose_browser_def)
    next
      case (Cons k ks)
      show thesis
      proof (cases "int (length (bp_listed p)) < bp_size p \<and> 0 < pb_active (pool_get p k)")
        case True
        then have "launch_pooled launches now p = (r, q)" using r Cons by (simp add: choose_browser_def)
        then show thesis using True False by blast
      next
        case full: False
        then have "r = Inr k" "q = p" using r Cons by (auto simp: choose_browser_def)
        then show thesis using full by (intro that [OF Cons]) auto
      qed
    qed
    from chosen_is_free [OF p e k(1) s k(4)] show ?thesis using p k by auto
  qed
  then show "pool_ok q" "bp_entering q = bp_entering p"
    "r = Inr i \<Longrightarrow> i \<in> set (bp_listed q) \<and> i \<notin> set (bp_contexts q)" by blast+
qed

lemma locked_ok:
  assumes p: "pool_ok p" and e: "0 < bp_entering p" and r: "acquire_locked launches now p = (r, q)"
  shows "case r of Inl x \<Rightarrow> pool_ok (give_permit (q\<lparr>bp_entering := bp_entering q - 1\<rparr>))
    | Inr i \<Rightarrow> pool_ok (q\<lparr>bp_entering := bp_entering q - 1, bp_contexts := bp_contexts q @ [i]\<rparr>)"
proof -
  let ?p = "order_browsers (drop_browsers (\<lambda>b. \<not> is_connected b) p)"
  have ok: "pool_ok ?p" by (intro order_ok drop_ok p)
  have en: "0 < bp_entering ?p" using e by simp
  have same: "pool_get ?p = pool_get (drop_browsers (\<lambda>b. \<not> is_connected b) p)" by (simp add: pool_get_def fun_eq_iff)
  have srt: "sorted (map (\<lambda>j. pb_active (pool_get ?p j)) (bp_listed ?p))"
    unfolding same by (simp add: order_browsers_def)
  obtain r1 q1 where c: "choose_browser launches now ?p = (r1, q1)" by fastforce
  note chosen = choose_ok [OF ok en srt c]
  have en1: "0 < bp_entering q1" using chosen(2) en by simp
  show ?thesis
  proof (cases r1)
    case (Inl x)
    have "permits_ok (give_permit (q1\<lparr>bp_entering := bp_entering q1 - 1\<rparr>))"
      using chosen(1) en1 by (cases "bp_sem q1") (auto simp: pool_ok_def permits_ok_def give_permit_def)
    then show ?thesis using r c Inl chosen(1)
      by (auto simp: acquire_locked_def pool_ok_def ids_ok_def browser_ok_def give_permit_def)
  next
    case (Inr i)
    then have i: "i \<in> set (bp_listed q1)" "i \<notin> set (bp_contexts q1)" using chosen(3) by blast+
    have "i \<in> set (d_keys (bp_objects q1))" using i chosen(1) by (auto simp: pool_ok_def ids_ok_def)
    moreover have rq: "r = Inr i" "q = pool_change i (\<lambda>b. b\<lparr>pb_active := pb_active b + 1, pb_used := now\<rparr>) q1"
      using r c Inr by (auto simp: acquire_locked_def)
    ultimately have "ids_ok (q\<lparr>bp_entering := bp_entering q - 1, bp_contexts := bp_contexts q @ [i]\<rparr>)"
      using chosen(1) i by (simp add: pool_ok_def ids_ok_def pool_change_def d_wf_def)
    moreover have "permits_ok (q\<lparr>bp_entering := bp_entering q - 1, bp_contexts := bp_contexts q @ [i]\<rparr>)"
      using chosen(1) en1 rq by (cases "bp_sem q1") (auto simp: pool_ok_def permits_ok_def)
    moreover have "\<forall>kb\<in>set (bp_objects q). browser_ok (q\<lparr>bp_entering := bp_entering q - 1, bp_contexts := bp_contexts q @ [i]\<rparr>) kb"
      unfolding rq(2)
    proof (rule browsers_change)
      fix k b assume "(k, b) \<in> set (bp_objects q1)"
      from object_ok [OF chosen(1) this] i
      show "browser_ok ((pool_change i (\<lambda>b. b\<lparr>pb_active := pb_active b + 1, pb_used := now\<rparr>) q1)
          \<lparr>bp_entering := bp_entering (pool_change i (\<lambda>b. b\<lparr>pb_active := pb_active b + 1, pb_used := now\<rparr>) q1) - 1,
           bp_contexts := bp_contexts (pool_change i (\<lambda>b. b\<lparr>pb_active := pb_active b + 1, pb_used := now\<rparr>) q1) @ [i]\<rparr>)
          (k, if k = i then b\<lparr>pb_active := pb_active b + 1, pb_used := now\<rparr> else b)"
        by (auto simp: browser_ok_def is_connected_def)
    qed
    ultimately show ?thesis using rq(1) by (simp add: pool_ok_def)
  qed
qed

lemma enter_ok:
  assumes p: "pool_ok p"
  shows "pool_ok (enter_context late starts launches now p)"
proof (cases "bp_entering p \<le> 0")
  case False
  then obtain free where d: "bp_sem p = Some free" "bp_driver p \<or> bp_closed p"
    using entering_facts [OF p] by force
  have given: "pool_ok (give_permit (p\<lparr>bp_entering := bp_entering p - 1\<rparr>))"
    using p False d by (auto simp: pool_ok_def permits_ok_def ids_ok_def browser_ok_def give_permit_def)
  obtain r q where r: "acquire_locked launches now p = (r, q)" by fastforce
  have "pool_initialize starts p = (Inr (), p)" using d(2) by (auto simp: pool_initialize_def)
  then show ?thesis using False given locked_ok [OF p _ r] r
    by (auto simp: enter_context_def acquire_browser_def split: sum.splits)
qed (use p in \<open>simp add: enter_context_def\<close>)

lemma take_permit_ok:
  assumes p: "pool_ok p"
  shows "pool_ok (take_permit starts p)"
proof -
  define p1 where "p1 = (if bp_sem p = None then snd (pool_initialize starts p) else p)"
  have "pool_ok p1"
  proof (cases "bp_sem p")
    case None
    then show ?thesis using p
      by (auto simp: p1_def pool_initialize_def pool_ok_def permits_ok_def ids_ok_def browser_ok_def)
  qed (use p in \<open>simp add: p1_def\<close>)
  then show ?thesis unfolding take_permit_def p1_def [symmetric] Let_def
    by (auto simp: pool_ok_def permits_ok_def ids_ok_def browser_ok_def split: option.splits)
qed

lemma change_ok:
  assumes p: "pool_ok p" and "\<And>b. pb_active (f b) = pb_active b" and "\<And>b. is_connected (f b) \<Longrightarrow> is_connected b"
  shows "pool_ok (pool_change i f p)"
proof -
  have "\<forall>kb\<in>set (bp_objects (pool_change i f p)). browser_ok (pool_change i f p) kb"
  proof (rule browsers_change)
    fix k b assume "(k, b) \<in> set (bp_objects p)"
    from object_ok [OF p this] assms(2,3) show "browser_ok (pool_change i f p) (k, if k = i then f b else b)"
      by (auto simp: browser_ok_def)
  qed
  then show ?thesis using p by (simp add: pool_ok_def)
qed

lemma leave_ok:
  assumes p: "pool_ok p"
  shows "pool_ok (leave_context i now p)"
proof (cases "i \<in> set (bp_contexts p)")
  case True
  let ?q = "give_permit ((release_browser i now p)\<lparr>bp_contexts := remove1 i (bp_contexts p)\<rparr>)"
  have dist: "distinct (bp_contexts p)" using p by (simp add: pool_ok_def ids_ok_def)
  have pos: "0 < length (bp_contexts p)" using True by (cases "bp_contexts p") auto
  have "permits_ok ?q"
    using p True pos by (cases "bp_sem p")
      (auto simp: pool_ok_def permits_ok_def give_permit_def release_browser_def length_remove1 of_nat_diff Suc_le_eq)
  moreover have "ids_ok ?q"
    using p set_remove1_subset [of i "bp_contexts p"]
    by (auto simp: pool_ok_def ids_ok_def give_permit_def release_browser_def pool_change_def d_wf_def)
  moreover have "\<forall>kb\<in>set (bp_objects (pool_change i (\<lambda>b. b\<lparr>pb_active := max 0 (pb_active b - 1), pb_used := now\<rparr>) p)).
      browser_ok ?q kb"
  proof (rule browsers_change)
    fix k b assume "(k, b) \<in> set (bp_objects p)"
    from object_ok [OF p this] dist True
    show "browser_ok ?q (k, if k = i then b\<lparr>pb_active := max 0 (pb_active b - 1), pb_used := now\<rparr> else b)"
      by (auto simp: browser_ok_def give_permit_def release_browser_def is_connected_def)
  qed
  ultimately show ?thesis using True by (simp add: leave_context_def pool_ok_def give_permit_def release_browser_def)
qed (use p in \<open>simp add: leave_context_def\<close>)

lemma close_ok: "pool_ok p \<Longrightarrow> pool_ok (pool_close p)"
proof -
  assume p: "pool_ok p"
  then have "pool_ok (p\<lparr>bp_closed := True\<rparr>)"
    by (auto simp: pool_ok_def permits_ok_def ids_ok_def browser_ok_def split: option.splits)
  from drop_ok [OF this, of "\<lambda>b. True"] show ?thesis
    by (auto simp: pool_close_def pool_ok_def permits_ok_def ids_ok_def browser_ok_def split: option.splits)
qed

lemma pool_step_ok: "pool_ok p \<Longrightarrow> pool_ok (pool_step p e)"
  by (cases e) (auto simp: take_permit_ok enter_ok leave_ok close_ok drop_ok cleanup_idle_browsers_def fail_context_def
      is_connected_def intro!: change_ok)

lemma mk_pool_ok: "pool_ok (mk_pool limit timeout)"
  by (simp add: mk_pool_def pool_ok_def permits_ok_def ids_ok_def)

interpretation pool_runs: machine pool_step pool_ok
  by unfold_locales (rule pool_step_ok)

lemma drop_size [simp]: "bp_size (pool_close p) = bp_size p" "bp_size (give_permit p) = bp_size p"
  by (simp_all add: pool_close_def give_permit_def)

lemma acquire_size: "bp_size (snd (acquire_locked launches now p)) = bp_size p"
  by (auto simp: acquire_locked_def choose_browser_def launch_pooled_def Let_def split: list.splits if_splits sum.splits prod.splits)

lemma initialize_size: "bp_size (snd (pool_initialize starts p)) = bp_size p"
  by (simp add: pool_initialize_def)

lemma step_size: "bp_size (pool_step p e) = bp_size p"
proof (cases e)
  case (EnterContext late starts launches now)
  have "bp_size (snd (acquire_browser late starts launches now p)) = bp_size p"
    using initialize_size [of starts p] acquire_size
    by (auto simp: acquire_browser_def split: sum.splits prod.splits)
  then show ?thesis
    by (auto simp: EnterContext enter_context_def split: sum.splits prod.splits)
qed (auto simp: take_permit_def initialize_size fail_context_def leave_context_def release_browser_def
    cleanup_idle_browsers_def Let_def split: option.splits)

lemma run_size: "bp_size (foldl pool_step p es) = bp_size p"
  by (induction es arbitrary: p) (simp_all add: step_size)

text \<open>
  C11: however the coroutines interleave, browsers crash and contexts fail, a browser never serves two open contexts,
  and neither the open contexts nor the browsers of the pool exceed its size.
\<close>

theorem one_context_per_browser:
  "let p = foldl pool_step (mk_pool limit timeout) es
   in distinct (bp_contexts p) \<and> int (length (bp_contexts p)) \<le> max 0 limit
      \<and> int (length (bp_listed p)) \<le> max 0 limit"
proof -
  define p where "p = foldl pool_step (mk_pool limit timeout) es"
  have "pool_ok p" unfolding p_def by (rule pool_runs.run_inv) (rule mk_pool_ok)
  moreover have "bp_size p = limit" unfolding p_def run_size by (simp add: mk_pool_def)
  ultimately show ?thesis
    unfolding p_def [symmetric] Let_def
    by (cases "bp_sem p") (auto simp: pool_ok_def permits_ok_def ids_ok_def)
qed

section \<open>A browser in use is kept\<close>

definition works :: "int \<Rightarrow> browser_pool \<Rightarrow> bool" where
  "works i p \<longleftrightarrow> i \<in> set (bp_listed p) \<and> is_connected (pool_get p i)"

lemma get_mapped: "d_get (map (\<lambda>(k, b). (k, f k b)) d) i = map_option (f i) (d_get d i)"
  by (induction d) auto

lemma is_connected_fresh [simp]: "is_connected (mk_pooled now)"
  by (simp add: is_connected_def mk_pooled_def)

lemma works_change: "works i p \<Longrightarrow> (\<And>b. k = i \<Longrightarrow> is_connected b \<Longrightarrow> is_connected (f b)) \<Longrightarrow> works i (pool_change k f p)"
  by (auto simp: works_def pool_get_def pool_change_def get_mapped split: option.splits)

lemma works_drop: "works i p \<Longrightarrow> \<not> dead (pool_get p i) \<Longrightarrow> works i (drop_browsers dead p)"
  by (auto simp: works_def pool_get_def drop_browsers_def Let_def get_mapped split: option.splits)

lemma works_order: "works i p \<Longrightarrow> works i (order_browsers p)"
  by (auto simp: works_def pool_get_def order_browsers_def)

lemma works_choose: "works i p \<Longrightarrow> works i (snd (choose_browser launches now p))"
  by (auto simp: works_def choose_browser_def launch_pooled_def pool_get_def Let_def split: list.splits)

lemma works_locked: "works i p \<Longrightarrow> works i (snd (acquire_locked launches now p))"
proof -
  assume w: "works i p"
  let ?p = "order_browsers (drop_browsers (\<lambda>b. \<not> is_connected b) p)"
  have "works i ?p" using w by (intro works_order works_drop) (simp_all add: works_def)
  then have "works i (snd (choose_browser launches now ?p))" by (rule works_choose)
  then show ?thesis
    by (auto simp: acquire_locked_def is_connected_def split: prod.splits sum.splits intro!: works_change)
qed

lemma works_fields [simp]:
  "works i (p\<lparr>bp_entering := n\<rparr>) = works i p" "works i (p\<lparr>bp_contexts := c\<rparr>) = works i p"
  "works i (p\<lparr>bp_sem := s\<rparr>) = works i p" "works i (p\<lparr>bp_driver := b\<rparr>) = works i p"
  by (simp_all add: works_def pool_get_def)

lemma works_acquire:
  assumes "works i p" shows "works i (snd (acquire_browser late starts launches now p))"
proof -
  have "works i (snd (pool_initialize starts p))" using assms by (simp add: pool_initialize_def)
  then show ?thesis
    using assms works_locked [of i "snd (pool_initialize starts p)" launches now]
    by (cases "pool_initialize starts p") (simp add: acquire_browser_def split: sum.split)
qed

lemma works_enter:
  assumes "works i p" shows "works i (enter_context late starts launches now p)"
proof -
  obtain x p1 where a: "acquire_browser late starts launches now p = (x, p1)" by fastforce
  then have "works i p1" using works_acquire [OF assms, of late starts launches now] by simp
  with assms a show ?thesis by (simp add: enter_context_def give_permit_def split: sum.split)
qed

text \<open>
  a browser that works and has an open context is dropped neither by the clean up of the idle ones nor by the
  recovery from crashes, whatever the other contexts do.
\<close>

theorem busy_browser_is_kept:
  assumes p: "p = foldl pool_step (mk_pool limit timeout) es"
    and i: "i \<in> set (bp_contexts p)" "is_connected (pool_get p i)"
    and e: "e \<noteq> ClosePool" "e \<noteq> CrashBrowser i" "e \<noteq> FailContext i"
  shows "i \<in> set (bp_listed (pool_step p e)) \<and> is_connected (pool_get (pool_step p e) i)"
proof -
  have ok: "pool_ok p" unfolding p by (rule pool_runs.run_inv) (rule mk_pool_ok)
  have "(i, pool_get p i) \<in> set (bp_objects p)"
    using ok i(1) by (intro key_object) (auto simp: pool_ok_def ids_ok_def)
  from object_ok [OF ok this] i have b: "works i p" "pb_active (pool_get p i) = 1"
    by (auto simp: browser_ok_def works_def)
  have "works i (pool_step p e)"
  proof (cases e)
    case (EnterContext late starts launches now)
    then show ?thesis using works_enter [OF b(1)] by simp
  next
    case (CleanupIdle now)
    show ?thesis unfolding CleanupIdle using b
      by (auto simp: cleanup_idle_browsers_def is_idle_def works_def intro!: works_drop [unfolded works_def])
  next
    case (TakePermit starts)
    then show ?thesis using b by (auto simp: take_permit_def pool_initialize_def Let_def split: option.splits)
  next
    case (LeaveContext k now)
    then show ?thesis using b
      by (auto simp: leave_context_def give_permit_def release_browser_def is_connected_def intro!: works_change)
  qed (use b e in \<open>auto simp: fail_context_def intro!: works_change\<close>)
  then show ?thesis by (simp add: works_def)
qed

theorem busy_browser_is_kept_witness:
  "1 \<in> set (bp_listed (pool_step (foldl pool_step (mk_pool 2 60) [TakePermit True, EnterContext False True True 0])
      (CleanupIdle 1000)))
   \<and> is_connected (pool_get (pool_step (foldl pool_step (mk_pool 2 60) [TakePermit True, EnterContext False True True 0])
      (CleanupIdle 1000)) 1)"
  by (rule busy_browser_is_kept [OF refl])
    (simp_all add: mk_pool_def take_permit_def pool_initialize_def enter_context_def acquire_browser_def
      acquire_locked_def choose_browser_def launch_pooled_def order_browsers_def drop_browsers_def pool_change_def
      pool_get_def is_connected_def mk_pooled_def)

end
