(* ===== verification/Schemas.thy ===== *)
theory Schemas
  imports Urls Tokens Websites
begin

text \<open>
  The validators of \<^verbatim>\<open>backend/database/schemas.py\<close> and the requests they guard. The limits of a field are
  tested before its validator; whatever fails is one \<^const>\<open>PydanticValidationError\<close> for the caller, the
  validators themselves raise \<^const>\<open>ValueError\<close>.
\<close>

section \<open>Validators\<close>

definition validate_url_str :: "string option \<Rightarrow> string option outcome" where
  "validate_url_str v =
     (case v of
        None \<Rightarrow> Inr None
      | Some raw \<Rightarrow>
          (let s = str_strip raw
           in if s = [] then Inl (ValueError ''URL cannot be empty'')
              else
                let u = (if starts_with s ''http://'' \<or> starts_with s ''https://'' then s else ''https://'' @ s)
                in case urlparse u of
                     None \<Rightarrow> Inl (ValueError ''Invalid IPv6 URL'')
                   | Some p \<Rightarrow>
                       if up_netloc p = [] then Inl (ValueError ''Invalid URL format'') else Inr (Some u)))"

definition domain_char :: "char \<Rightarrow> bool" where
  "domain_char c \<longleftrightarrow> is_alnum c \<or> c = CHR ''.'' \<or> c = CHR ''-''"

text \<open>
  \<^verbatim>\<open>re.match(r"^[a-zA-Z0-9.-]+\.[a-zA-Z]{2,}$", v)\<close>: the letters behind the last dot, at least one character before it. The
  dollar also matches before a line end at the very end.
\<close>

definition domain_pattern :: "string \<Rightarrow> bool" where
  "domain_pattern v =
     (let u = (if v \<noteq> [] \<and> last v = CHR 0x0A then butlast v else v);
          label = rev (takeWhile (\<lambda>c. c \<noteq> CHR ''.'') (rev u));
          front = take (length u - length label) u
      in 2 \<le> length label \<and> list_all is_alpha label \<and> 2 \<le> length front \<and> list_all domain_char front)"

definition domain_host :: "string \<Rightarrow> string outcome" where
  "domain_host s =
     (if starts_with s ''http://'' \<or> starts_with s ''https://''
      then (case urlparse s of
              None \<Rightarrow> Inl (ValueError ''Invalid IPv6 URL'')
            | Some p \<Rightarrow> Inr (if up_netloc p = [] then s else up_netloc p))
      else Inr s)"

definition validate_domain_str :: "string option \<Rightarrow> string option outcome" where
  "validate_domain_str v =
     (case v of
        None \<Rightarrow> Inr None
      | Some raw \<Rightarrow>
          (let s = str_lower (str_strip raw)
           in if s = [] then Inr None
              else
                (case domain_host s of
                   Inl e \<Rightarrow> Inl e
                 | Inr host \<Rightarrow>
                     (let d = before (CHR '':'') (before (CHR ''/'') host)
                      in if domain_pattern d then Inr (Some d)
                         else Inl (ValueError ''Invalid domain name format'')))))"

definition validate_keyword_str :: "string \<Rightarrow> string outcome" where
  "validate_keyword_str v =
     (if v = [] \<or> str_strip v = [] then Inl (ValueError ''Keyword cannot be empty'') else Inr (str_strip v))"

definition schema_common :: "string list" where
  "schema_common = [''password'', ''12345678'', ''123456789'', ''admin123'', ''qwerty123'', ''letmein1'', ''welcome1'',
     ''iloveyou'']"

definition validate_password_strength_str :: "string option \<Rightarrow> string option outcome" where
  "validate_password_strength_str v =
     (case v of
        None \<Rightarrow> Inr None
      | Some raw \<Rightarrow>
          (let s = str_strip raw
           in if length s < 8 then Inl (ValueError ''Password must be at least 8 characters long'')
              else if \<not> list_ex is_upper s
              then Inl (ValueError ''Password must contain at least one uppercase letter'')
              else if \<not> list_ex is_lower s
              then Inl (ValueError ''Password must contain at least one lowercase letter'')
              else if \<not> list_ex is_digit s
              then Inl (ValueError ''Password must contain at least one numeric digit'')
              else if \<not> list_ex is_special s
              then Inl (ValueError ''Password must contain at least one special character'')
              else if str_lower s \<in> set schema_common
              then Inl (ValueError ''Password is too common or easily guessable'')
              else Inr (Some s)))"

definition validate_username :: "string \<Rightarrow> string outcome" where
  "validate_username v =
     (if str_strip v = [] then Inl (ValueError ''Username cannot be empty or blank'') else Inr (str_strip v))"

definition validate_project_name :: "string option \<Rightarrow> string option outcome" where
  "validate_project_name v =
     (case v of
        None \<Rightarrow> Inr None
      | Some raw \<Rightarrow>
          if str_strip raw = [] then Inl (ValueError ''Project name cannot be empty'')
          else Inr (Some (str_strip raw)))"

text \<open>\<^verbatim>\<open>^[a-z0-9-]+$\<close> on a text that does not end in a line end\<close>

definition validate_project_slug :: "string option \<Rightarrow> string option outcome" where
  "validate_project_slug v =
     (case v of
        None \<Rightarrow> Inr None
      | Some raw \<Rightarrow>
          (let s = str_lower (str_strip raw)
           in if s = [] then Inr None
              else if list_all (\<lambda>c. is_lower c \<or> is_digit c \<or> c = CHR ''-'') s then Inr (Some s)
              else Inl (ValueError ''Slug must contain only lowercase letters, numbers, and hyphens'')))"

text \<open>The statuses, and what a missing one becomes: \<open>active\<close> at the creation, nothing at an update.\<close>

definition PROJECT_STATUSES :: "string list" where
  "PROJECT_STATUSES = [''active'', ''draft'', ''paused'', ''archived'', ''completed'']"

definition validate_project_status :: "string option \<Rightarrow> string option \<Rightarrow> string option outcome" where
  "validate_project_status missing v =
     (case v of
        None \<Rightarrow> Inr missing
      | Some raw \<Rightarrow>
          (let s = str_lower (str_strip raw)
           in if s \<in> set PROJECT_STATUSES then Inr (Some s) else Inl (ValueError ''Status must be one of'')))"

section \<open>Requests\<close>

definition field_length :: "nat \<Rightarrow> nat \<Rightarrow> string \<Rightarrow> bool" where
  "field_length least most s \<longleftrightarrow> least \<le> length s \<and> length s \<le> most"

definition id_ok :: "int option \<Rightarrow> bool" where
  "id_ok k \<longleftrightarrow> (case k of None \<Rightarrow> True | Some i \<Rightarrow> 1 \<le> i)"

definition limit_ok :: "int option \<Rightarrow> bool" where
  "limit_ok k \<longleftrightarrow> (case k of None \<Rightarrow> True | Some i \<Rightarrow> 1 \<le> i \<and> i \<le> 100)"

definition validated :: "'a outcome \<Rightarrow> 'a outcome" where
  "validated r = (case r of Inl e \<Rightarrow> Inl (PydanticValidationError (exc_str e)) | Inr a \<Rightarrow> Inr a)"

text \<open>\<^verbatim>\<open>AuditCreate\<close>, \<^verbatim>\<open>CrawlJobRequest\<close> and \<^verbatim>\<open>AuditJobRequest\<close> are the same class three times.\<close>

record site_request =
  sq_url :: "string option"
  sq_website :: "int option"

definition mk_site_request :: "string option \<Rightarrow> int option \<Rightarrow> site_request outcome" where
  "mk_site_request url website_id =
     (if \<not> id_ok website_id then Inl (PydanticValidationError ''website_id'')
      else (case validated (validate_url_str url) of
              Inl e \<Rightarrow> Inl e | Inr u \<Rightarrow> Inr \<lparr>sq_url = u, sq_website = website_id\<rparr>))"

text \<open>\<^verbatim>\<open>KeywordRequest\<close> and \<^verbatim>\<open>KeywordJobRequest\<close>; a limit that is left out is 10, one that is null stays so.\<close>

record keyword_request =
  kq_seed :: string
  kq_limit :: "int option"

definition mk_keyword_request :: "string \<Rightarrow> int option \<Rightarrow> keyword_request outcome" where
  "mk_keyword_request seed limit =
     (if \<not> field_length 1 100 seed \<or> \<not> limit_ok limit then Inl (PydanticValidationError ''seed_keyword'')
      else (case validated (validate_keyword_str seed) of
              Inl e \<Rightarrow> Inl e | Inr k \<Rightarrow> Inr \<lparr>kq_seed = k, kq_limit = limit\<rparr>))"

text \<open>\<^verbatim>\<open>RankCheckRequest\<close> and \<^verbatim>\<open>RankJobRequest\<close>\<close>

record rank_request =
  rq_keyword :: string
  rq_domain :: "string option"
  rq_website :: "int option"

definition mk_rank_request :: "string \<Rightarrow> string option \<Rightarrow> int option \<Rightarrow> rank_request outcome" where
  "mk_rank_request keyword d website_id =
     (if \<not> field_length 1 150 keyword \<or> \<not> id_ok website_id
         \<or> (case d of None \<Rightarrow> False | Some s \<Rightarrow> 255 < length s)
      then Inl (PydanticValidationError ''keyword'')
      else (case (validated (validate_keyword_str keyword), validated (validate_domain_str d)) of
              (Inr k, Inr c) \<Rightarrow> Inr \<lparr>rq_keyword = k, rq_domain = c, rq_website = website_id\<rparr>
            | (Inl e, _) \<Rightarrow> Inl e
            | (_, Inl e) \<Rightarrow> Inl e))"

text \<open>\<^verbatim>\<open>DomainMetricsRequest\<close>: its domain\<close>

definition mk_domain_request :: "string \<Rightarrow> string outcome" where
  "mk_domain_request d =
     (if \<not> field_length 1 255 d then Inl (PydanticValidationError ''domain'')
      else (case validated (validate_domain_str (Some d)) of
              Inl e \<Rightarrow> Inl e
            | Inr c \<Rightarrow>
                if truthy c then Inr (the c)
                else Inl (PydanticValidationError ''Domain is required and must be valid'')))"

text \<open>\<^verbatim>\<open>ReportExportRequest\<close>: the website and the format\<close>

definition mk_report_request :: "int \<Rightarrow> string option \<Rightarrow> (int \<times> string option) outcome" where
  "mk_report_request website_id format =
     (if 1 \<le> website_id \<and> (case format of None \<Rightarrow> True | Some f \<Rightarrow> f \<in> {''pdf'', ''csv'', ''json'', ''html''})
      then Inr (website_id, format) else Inl (PydanticValidationError ''format''))"

section \<open>What the validators guarantee\<close>

text \<open>
  the validator of the requests and the one of the accounts accept the same passwords, up to the blanks around
  them, although their lists of common passwords differ: a common password has no special character, so
  both tests of the lists never decide.
\<close>

theorem password_checks_agree:
  "validate_password_strength_str (Some p) = Inr (Some q) \<longleftrightarrow>
     q = str_strip p \<and> fst (validate_password_strength (str_strip p))"
proof -
  have "\<not> list_ex is_special s" if "str_lower s \<in> set (COMMON_PASSWORDS @ schema_common)" for s
  proof
    assume sp: "list_ex is_special s"
    have "is_special c \<Longrightarrow> is_special (char_lower c)" for c
      by (auto simp: is_special_def char_lower_def is_upper_def)
    then have "list_ex is_special (str_lower s)" using sp by (auto simp: list_ex_iff str_lower_def)
    moreover have "list_all (\<lambda>w. \<not> list_ex is_special w) (COMMON_PASSWORDS @ schema_common)" by code_simp
    ultimately show False using that by (auto simp: list_all_iff)
  qed
  then show ?thesis
    by (auto simp: validate_password_strength_str_def validate_password_strength_def Let_def)
qed

lemma pattern_chars:
  "domain_pattern v \<Longrightarrow> \<exists>u. u \<noteq> [] \<and> list_all domain_char u \<and> (v = u \<or> v = u @ [CHR 0x0A])"
proof -
  define u where "u = (if v \<noteq> [] \<and> last v = CHR 0x0A then butlast v else v)"
  define label where "label = rev (takeWhile (\<lambda>c. c \<noteq> CHR ''.'') (rev u))"
  assume "domain_pattern v"
  then have d: "2 \<le> length label" "list_all is_alpha label" "list_all domain_char (take (length u - length label) u)"
    by (auto simp: domain_pattern_def u_def label_def Let_def)
  have "u = rev (dropWhile (\<lambda>c. c \<noteq> CHR ''.'') (rev u)) @ label"
    unfolding label_def by (metis rev_append rev_rev_ident takeWhile_dropWhile_id)
  then have "u = take (length u - length label) u @ label"
    by (metis append_eq_conv_conj diff_add_inverse2 length_append)
  then have "set u = set (take (length u - length label) u) \<union> set label" by (metis set_append)
  moreover have "\<forall>c\<in>set label. domain_char c"
    using d(2) by (simp add: list_all_iff domain_char_def is_alnum_def)
  ultimately have u: "\<forall>c\<in>set u. domain_char c" using d(3) unfolding list_all_iff by blast
  have v: "v = u \<or> v = u @ [CHR 0x0A]"
    by (cases v rule: rev_cases) (auto simp: u_def)
  have "u \<noteq> []" using d(1) by (auto simp: label_def)
  with u v show ?thesis by (auto simp: list_all_iff)
qed

lemma lower_char_facts: "\<not> is_upper (char_lower c)"
  using char_lower_idem [of c] by (auto simp: char_lower_def is_upper_def of_char_of split: if_splits)

text \<open>The host of a lower case text is lower case.\<close>

lemma urlparse_netloc: "urlparse s = Some p \<Longrightarrow> set (up_netloc p) \<subseteq> set s"
proof -
  have "set (fst (split_netloc u)) \<subseteq> set u" for u
    by (auto simp: split_netloc_def dest: set_takeWhileD in_set_dropD)
  moreover have "set (snd (split_scheme d u)) \<subseteq> set u" for d u
    by (auto simp: split_scheme_def behind_def Let_def dest: in_set_dropD set_dropWhileD)
  moreover have "set (url_clean u) \<subseteq> set u" for u
    by (auto simp: url_clean_def dest: set_dropWhileD)
  moreover assume "urlparse s = Some p"
  then have "up_netloc p = fst (split_netloc (snd (split_scheme [] (url_clean s))))"
    by (auto simp: urlparse_def urlparse_with_def Let_def split: prod.splits if_splits)
  ultimately show ?thesis by (metis order_trans)
qed

lemma domain_char_facts:
  assumes "domain_char c" and "\<not> is_upper c"
  shows "char_lower c = c" "\<not> is_space c" "c \<noteq> CHR '':''" "c \<noteq> CHR ''/''"
  using assms
  by (auto simp: domain_char_def is_alnum_def is_alpha_def is_lower_def is_upper_def is_digit_def char_lower_def is_space_def)

text \<open>
  a domain that the validator lets through is a fixed point of it, unless it ends in a line end: it is in lower case
  without a scheme, a path or a port.
\<close>

theorem valid_domain_is_fixed:
  assumes "validate_domain_str v = Inr (Some d)" and "last d \<noteq> CHR 0x0A"
  shows "validate_domain_str (Some d) = Inr (Some d)"
proof -
  obtain raw host where host: "set host \<subseteq> set (str_lower (str_strip raw))"
    and d: "d = before (CHR '':'') (before (CHR ''/'') host)" "domain_pattern d"
  proof -
    obtain raw host where "v = Some raw" "domain_host (str_lower (str_strip raw)) = Inr host"
      "d = before (CHR '':'') (before (CHR ''/'') host)" "domain_pattern d"
      using assms(1) by (auto simp: validate_domain_str_def Let_def split: option.splits if_splits sum.splits)
    moreover have "set host \<subseteq> set s" if "domain_host s = Inr host" for s
      using that urlparse_netloc by (auto simp: domain_host_def split: if_splits option.splits)
    ultimately show thesis using that by blast
  qed
  have "set d \<subseteq> set host" by (auto simp: d(1) before_def dest: set_takeWhileD)
  then have low: "\<forall>c\<in>set d. \<not> is_upper c"
    using host lower_char_facts by (fastforce simp: str_lower_def)
  from pattern_chars [OF d(2)] assms(2) have dc: "d \<noteq> []" "\<forall>c\<in>set d. domain_char c" by (auto simp: list_all_iff)
  have "str_strip d = d" by (rule str_strip_id) (use dc low domain_char_facts in blast)
  moreover have "str_lower d = d" unfolding str_lower_def by (rule map_idI) (use dc low domain_char_facts in blast)
  moreover have colon: "CHR '':'' \<notin> set d" and slash: "CHR ''/'' \<notin> set d" using dc low domain_char_facts by blast+
  have "before (CHR ''/'') d = d" "before (CHR '':'') d = d"
    unfolding before_def takeWhile_eq_all_conv using colon slash by auto
  moreover have "\<not> starts_with d ''http://''" "\<not> starts_with d ''https://''"
    using colon by (auto simp: starts_with_iff)
  ultimately show ?thesis using dc(1) d(2) by (simp only: validate_domain_str_def domain_host_def option.case sum.case Let_def if_False if_True simp_thms)
qed

theorem valid_domain_is_fixed_witness:
  "validate_domain_str (Some ''example.com'') = Inr (Some ''example.com'')"
  by (rule valid_domain_is_fixed [of "Some ''  HTTPS://Example.com:8080/path''"]) code_simp+

end
