(* ===== verification/User_Api.thy ===== *)
theory User_Api
  imports Seo_Reports Job_Queue Schemas
begin

text \<open>
  The user level handlers of \<^verbatim>\<open>backend/api/routes.py\<close>, after the token of the request gave its user \<open>uid\<close> and the rate
  limiter let it pass. A request body has been validated (\<^theory_text>\<open>Schemas\<close>); the limits of the query parameters are the guard
  \<open>page_query\<close>. The state of a handler that creates a job has the database, the queue and the tasks
  that run in the process after the response.
\<close>

section \<open>Queries\<close>

definition page_query :: "int \<Rightarrow> int \<Rightarrow> string list \<Rightarrow> string \<Rightarrow> string \<Rightarrow> bool" where
  "page_query skip limit columns sort_by order \<longleftrightarrow>
     0 \<le> skip \<and> 1 \<le> limit \<and> limit \<le> 100 \<and> sort_by \<in> set columns \<and> order \<in> {''asc'', ''desc''}"

definition cursor_query :: "int \<Rightarrow> string \<Rightarrow> bool" where
  "cursor_query limit order \<longleftrightarrow> 1 \<le> limit \<and> limit \<le> 100 \<and> order \<in> {''asc'', ''desc''}"

definition bad_query :: py_exc where
  "bad_query = PydanticValidationError ''query''"

definition key_given :: "int option \<Rightarrow> bool" where
  "key_given k \<longleftrightarrow> k \<noteq> None \<and> k \<noteq> Some 0"

text \<open>The handlers with a path parameter verify that the website belongs to the user and then list its rows.\<close>

definition owned_rows ::
  "bool \<Rightarrow> int \<Rightarrow> int \<Rightarrow> ('a seo_db_scheme) \<Rightarrow> 'x outcome \<Rightarrow> 'x outcome" where
  "owned_rows query_ok sid uid w rows =
     (if \<not> query_ok then Inl bad_query
      else (case verify_website_ownership sid uid w of Inl e \<Rightarrow> Inl e | Inr _ \<Rightarrow> rows))"

section \<open>Websites\<close>

text \<open>The schema of the request has neither \<^verbatim>\<open>url\<close> nor \<^verbatim>\<open>company_name\<close>; its domain is never empty.\<close>

definition api_create_website :: "string \<Rightarrow> ('a seo_db_scheme) \<Rightarrow> (int \<times> website) outcome \<times> ('a seo_db_scheme)" where
  "api_create_website d w = (Inl (AttributeError ''url''), w)"

definition api_list_websites ::
  "(string \<Rightarrow> string \<Rightarrow> bool) \<Rightarrow> (string \<Rightarrow> int \<times> website \<Rightarrow> int) \<Rightarrow> int \<Rightarrow> int \<Rightarrow> int \<Rightarrow> string option \<Rightarrow> string
     \<Rightarrow> string \<Rightarrow> ('a seo_db_scheme) \<Rightarrow> (int \<times> website) list outcome" where
  "api_list_websites ilike db_order uid skip limit search sort_by order w =
     (if page_query skip limit [''id'', ''created_at'', ''domain'', ''url'', ''company_name''] sort_by order
      then Inr (get_user_websites ilike db_order uid skip limit search sort_by order w) else Inl bad_query)"

definition api_get_website :: "int \<Rightarrow> int \<Rightarrow> ('a seo_db_scheme) \<Rightarrow> (int \<times> website) outcome" where
  "api_get_website sid uid w = verify_website_ownership sid uid w"

definition text_or_null :: "string option \<Rightarrow> pyval" where
  "text_or_null s = (case s of None \<Rightarrow> PNone | Some t \<Rightarrow> PStr t)"

definition api_delete_website :: "int \<Rightarrow> int \<Rightarrow> ('a seo_db_scheme) \<Rightarrow> int outcome \<times> ('a seo_db_scheme)" where
  "api_delete_website sid uid w =
     (case verify_website_ownership sid uid w of
        Inl e \<Rightarrow> (Inl e, w)
      | Inr (i, s) \<Rightarrow>
          (Inr sid,
           delete_website_instance i
             (log_audit_event ''project.deleted'' (Some uid) None (Some (''project:'' @ int_str sid)) None None
                [(''domain'', PStr (w_domain s)), (''url'', text_or_null (w_url s))] w)))"

section \<open>Audits\<close>

definition api_create_audit ::
  "(string \<Rightarrow> int \<Rightarrow> string list outcome) \<Rightarrow> (string \<Rightarrow> bool \<Rightarrow> http_response outcome) \<Rightarrow> (string \<Rightarrow> html_event list)
     \<Rightarrow> site_request \<Rightarrow> int \<Rightarrow> ('a seo_db_scheme) \<Rightarrow> audit_out outcome \<times> ('a seo_db_scheme)" where
  "api_create_audit resolve client tokenize req uid w =
     (if \<not> truthy (sq_url req) \<and> \<not> key_given (sq_website req)
      then raise_app ValidationErrorException ''URL or website_id is required'' w
      else audit_website_async resolve client tokenize (sq_url req) (sq_website req) uid w)"

definition api_audits ::
  "(string \<Rightarrow> int \<times> audit_result \<Rightarrow> int) \<Rightarrow> int \<Rightarrow> int \<Rightarrow> int \<Rightarrow> int \<Rightarrow> string \<Rightarrow> string \<Rightarrow> ('a seo_db_scheme)
     \<Rightarrow> (int \<times> audit_result) list outcome" where
  "api_audits db_order sid uid skip limit sort_by order w =
     owned_rows (page_query skip limit [''id'', ''created_at'', ''score''] sort_by order) sid uid w
       (Inr (get_user_audits_for_website db_order sid uid skip limit sort_by order w))"

text \<open>The answer does not depend on the site: both files are reported as found, next to an address that may be \<^verbatim>\<open>None\<close>.\<close>

definition api_site_level_audit ::
  "(string \<Rightarrow> int \<Rightarrow> string list outcome) \<Rightarrow> int option \<Rightarrow> string option \<Rightarrow> int \<Rightarrow> ('a seo_db_scheme)
     \<Rightarrow> (string \<times> string) outcome" where
  "api_site_level_audit resolve website_id url uid w =
     (case (if truthy url then map_sum id Some (validate_url_ssrf resolve (the url)) else Inr url) of
        Inl e \<Rightarrow> Inl e
      | Inr u \<Rightarrow>
          (let found = Inr ((case u of None \<Rightarrow> ''None'' | Some t \<Rightarrow> t) @ ''/sitemap.xml'',
                            (case u of None \<Rightarrow> ''None'' | Some t \<Rightarrow> t) @ ''/robots.txt'')
           in if key_given website_id
              then (case verify_website_ownership (the website_id) uid w of Inl e \<Rightarrow> Inl e | Inr _ \<Rightarrow> found)
              else if truthy u
              then (case verify_domain_ownership (url_domain (the u)) uid w of Inl e \<Rightarrow> Inl e | Inr _ \<Rightarrow> found)
              else found))"

text \<open>The three readers of public data verify that the domain is not another user's.\<close>

definition domain_service ::
  "string \<Rightarrow> int \<Rightarrow> ('a seo_db_scheme) \<Rightarrow> ('r ucache \<Rightarrow> pyval outcome \<times> 'r ucache) \<Rightarrow> 'r ucache
     \<Rightarrow> pyval outcome \<times> 'r ucache" where
  "domain_service d uid w service u =
     (case verify_domain_ownership d uid w of Inl e \<Rightarrow> (Inl e, u) | Inr _ \<Rightarrow> service u)"

definition api_robots_txt ::
  "'r cache_redis \<Rightarrow> rat \<Rightarrow> rat \<Rightarrow> rat \<Rightarrow> (string \<Rightarrow> (int \<times> string) option) \<Rightarrow> string \<Rightarrow> int \<Rightarrow> ('a seo_db_scheme)
     \<Rightarrow> 'r ucache \<Rightarrow> pyval outcome \<times> 'r ucache" where
  "api_robots_txt R dflt now ttl web d uid w = domain_service d uid w (fetch_robots_txt R dflt now ttl web d)"

definition api_sitemap ::
  "'r cache_redis \<Rightarrow> rat \<Rightarrow> rat \<Rightarrow> rat \<Rightarrow> (string \<Rightarrow> (int \<times> string \<times> string \<times> xml_elem list) option) \<Rightarrow> string \<Rightarrow> int
     \<Rightarrow> ('a seo_db_scheme) \<Rightarrow> 'r ucache \<Rightarrow> pyval outcome \<times> 'r ucache" where
  "api_sitemap R dflt now ttl web d uid w = domain_service d uid w (fetch_sitemap R dflt now ttl web d)"

definition api_whois ::
  "'r cache_redis \<Rightarrow> rat \<Rightarrow> rat \<Rightarrow> rat \<Rightarrow> (string \<Rightarrow> string option) \<Rightarrow> string \<Rightarrow> int \<Rightarrow> ('a seo_db_scheme)
     \<Rightarrow> 'r ucache \<Rightarrow> pyval outcome \<times> 'r ucache" where
  "api_whois R dflt now ttl server d uid w = domain_service d uid w (lookup_whois R dflt now ttl server d)"

section \<open>Leads, reports, keywords and ranks\<close>

definition api_leads ::
  "(string \<Rightarrow> int \<times> lead \<Rightarrow> int) \<Rightarrow> int \<Rightarrow> int \<Rightarrow> int \<Rightarrow> int \<Rightarrow> string option \<Rightarrow> string \<Rightarrow> string
     \<Rightarrow> ('a seo_db_scheme) \<Rightarrow> (int \<times> lead) list outcome" where
  "api_leads db_order sid uid skip limit source sort_by order w =
     owned_rows (page_query skip limit [''id'', ''created_at'', ''email'', ''source''] sort_by order) sid uid w
       (Inr (get_user_leads_for_website db_order sid uid skip limit source sort_by order w))"

text \<open>Nothing is sent: the handler answers with the recipient and the subject it got.\<close>

definition api_send_outreach_email ::
  "int option \<Rightarrow> string option \<Rightarrow> string option \<Rightarrow> int \<Rightarrow> ('a seo_db_scheme) \<Rightarrow> (string option \<times> string option) outcome" where
  "api_send_outreach_email website_id to_email subject uid w =
     (if key_given website_id
      then (case verify_website_ownership (the website_id) uid w of Inl e \<Rightarrow> Inl e | Inr _ \<Rightarrow> Inr (to_email, subject))
      else Inr (to_email, subject))"

definition api_reports ::
  "(string \<Rightarrow> int \<times> report \<Rightarrow> int) \<Rightarrow> int \<Rightarrow> int \<Rightarrow> int \<Rightarrow> int \<Rightarrow> string option \<Rightarrow> string \<Rightarrow> string
     \<Rightarrow> ('a seo_db_scheme) \<Rightarrow> (int \<times> report) list outcome" where
  "api_reports db_order sid uid skip limit fmt sort_by order w =
     owned_rows (page_query skip limit [''id'', ''created_at'', ''title'', ''format''] sort_by order) sid uid w
       (Inr (get_user_reports_for_website db_order sid uid skip limit fmt sort_by order w))"

definition api_export_report ::
  "(int \<Rightarrow> string) \<Rightarrow> int \<times> string option \<Rightarrow> int \<Rightarrow> ('a seo_db_scheme) \<Rightarrow> export_info outcome" where
  "api_export_report stamp req uid w = export_report stamp (fst req) uid (Some (or_else (snd req) ''pdf'')) w"

definition api_stream_csv ::
  "(string \<Rightarrow> int \<times> audit_result \<Rightarrow> int) \<Rightarrow> (int \<Rightarrow> string) \<Rightarrow> int \<Rightarrow> int \<Rightarrow> ('a seo_db_scheme) \<Rightarrow> string list outcome" where
  "api_stream_csv db_order show_time sid uid w =
     owned_rows True sid uid w (stream_csv_audits db_order show_time sid uid w)"

definition api_sheets ::
  "(string \<Rightarrow> int \<times> audit_result \<Rightarrow> int) \<Rightarrow> (int \<Rightarrow> string) \<Rightarrow> int \<Rightarrow> int \<Rightarrow> ('a seo_db_scheme) \<Rightarrow> sheets_payload outcome" where
  "api_sheets db_order show_time sid uid w =
     owned_rows True sid uid w (generate_sheets_payload db_order show_time sid uid w)"

definition api_keyword_ideas ::
  "'r cache_redis \<Rightarrow> rat \<Rightarrow> rat \<Rightarrow> rat \<Rightarrow> (string \<Rightarrow> int) \<Rightarrow> keyword_request \<Rightarrow> 'r ucache \<Rightarrow> pyval outcome \<times> 'r ucache" where
  "api_keyword_ideas R dflt now ttl digest req u =
     get_keyword_ideas_async R dflt now ttl digest (kq_seed req)
       (case kq_limit req of None \<Rightarrow> 10 | Some n \<Rightarrow> n) u"

definition api_check_rank ::
  "'r cache_redis \<Rightarrow> rat \<Rightarrow> rat \<Rightarrow> rat \<Rightarrow> (string \<Rightarrow> int) \<Rightarrow> (string \<Rightarrow> string list option) \<Rightarrow> rank_request \<Rightarrow> int
     \<Rightarrow> ('a seo_db_scheme) \<Rightarrow> 'r ucache \<Rightarrow> pyval outcome \<times> 'r ucache" where
  "api_check_rank R dflt now ttl digest serp req uid w u =
     check_rank R dflt now ttl digest serp (rq_keyword req) (rq_domain req) (rq_website req) uid w u"

definition api_domain_metrics ::
  "'r cache_redis \<Rightarrow> rat \<Rightarrow> rat \<Rightarrow> rat \<Rightarrow> (string \<Rightarrow> domain_metrics) \<Rightarrow> string \<Rightarrow> int \<Rightarrow> ('a seo_db_scheme) \<Rightarrow> 'r ucache
     \<Rightarrow> pyval outcome \<times> 'r ucache" where
  "api_domain_metrics R dflt now ttl metrics d uid w u = get_domain_metrics R dflt now ttl metrics (Some d) None uid (Some w) u"

section \<open>Cursors\<close>

definition api_websites_cursor ::
  "(string \<Rightarrow> bool \<Rightarrow> (int \<times> website) list \<Rightarrow> ((int \<times> website) list) outcome) \<Rightarrow> int \<Rightarrow> string option \<Rightarrow> int
     \<Rightarrow> string \<Rightarrow> ('a seo_db_scheme) \<Rightarrow> ((int \<times> website) list \<times> string option \<times> bool) outcome" where
  "api_websites_cursor text_cmp uid cursor limit order w =
     (if cursor_query limit order then get_user_websites_cursor text_cmp uid cursor limit order w else Inl bad_query)"

definition api_audits_cursor ::
  "(string \<Rightarrow> bool \<Rightarrow> (int \<times> audit_result) list \<Rightarrow> ((int \<times> audit_result) list) outcome) \<Rightarrow> int \<Rightarrow> int
     \<Rightarrow> string option \<Rightarrow> int \<Rightarrow> string \<Rightarrow> ('a seo_db_scheme)
     \<Rightarrow> ((int \<times> audit_result) list \<times> string option \<times> bool) outcome" where
  "api_audits_cursor text_cmp sid uid cursor limit order w =
     owned_rows (cursor_query limit order) sid uid w (get_user_audits_cursor text_cmp sid uid cursor limit order w)"

definition api_leads_cursor ::
  "(string \<Rightarrow> bool \<Rightarrow> (int \<times> lead) list \<Rightarrow> ((int \<times> lead) list) outcome) \<Rightarrow> int \<Rightarrow> int
     \<Rightarrow> string option \<Rightarrow> int \<Rightarrow> string \<Rightarrow> ('a seo_db_scheme)
     \<Rightarrow> ((int \<times> lead) list \<times> string option \<times> bool) outcome" where
  "api_leads_cursor text_cmp sid uid cursor limit order w =
     owned_rows (cursor_query limit order) sid uid w (get_user_leads_cursor text_cmp sid uid cursor limit order w)"

definition api_jobs_cursor ::
  "(string \<Rightarrow> bool \<Rightarrow> (int \<times> job) list \<Rightarrow> ((int \<times> job) list) outcome) \<Rightarrow> int \<Rightarrow> string option \<Rightarrow> int
     \<Rightarrow> string \<Rightarrow> ('a seo_db_scheme) \<Rightarrow> ((int \<times> job) list \<times> string option \<times> bool) outcome" where
  "api_jobs_cursor text_cmp uid cursor limit order w =
     (if cursor_query limit order then get_user_jobs_cursor text_cmp (sd_jobs w) uid cursor limit order
      else Inl bad_query)"

section \<open>Jobs\<close>

record 'r user_world =
  uw_db :: seo_db
  uw_queue :: "'r job_queue"
  uw_tasks :: "(string \<times> kwargs) list"

definition key_or_null :: "int option \<Rightarrow> pyval" where
  "key_or_null k = (case k of None \<Rightarrow> PNone | Some i \<Rightarrow> PInt i)"

text \<open>
  A job of the user is stored and handed to the queue when Redis is there, otherwise to the tasks of the
  response, with the runner and its arguments.
\<close>

definition start_api_job ::
  "bool \<Rightarrow> 'r queue_redis \<Rightarrow> rat \<Rightarrow> string \<Rightarrow> string \<Rightarrow> int option \<Rightarrow> kwargs \<Rightarrow> int \<Rightarrow> 'r user_world
     \<Rightarrow> job_ref outcome \<times> 'r user_world" where
  "start_api_job use R now job_type runner website_id args uid u =
     (let (ref, jw) = create_job uid job_type website_id (Some args) (sd_jobs (uw_db u));
          u1 = u\<lparr>uw_db := (uw_db u)\<lparr>sd_jobs := jw\<rparr>\<rparr>;
          (up, q1) = q_is_redis_active use R (uw_queue u1);
          u2 = u1\<lparr>uw_queue := q1\<rparr>
      in if up
         then (case q_enqueue use R now job_type (ref_id ref) uid (Some runner) (PStr ''normal'') None None args q1 of
                 (Inl e, q2) \<Rightarrow> (Inl e, u2\<lparr>uw_queue := q2\<rparr>)
               | (Inr _, q2) \<Rightarrow> (Inr ref, u2\<lparr>uw_queue := q2\<rparr>))
         else (Inr ref, u2\<lparr>uw_tasks := uw_tasks u2 @
                 [(runner, [(''job_id'', PInt (ref_id ref)), (''user_id'', PInt uid)] @ args)]\<rparr>))"

definition check_site_request :: "site_request \<Rightarrow> int \<Rightarrow> ('a seo_db_scheme) \<Rightarrow> unit outcome" where
  "check_site_request req uid w =
     (if \<not> truthy (sq_url req) \<and> \<not> key_given (sq_website req)
      then Inl (AppError (app_error ValidationErrorException ''URL or website_id is required''))
      else if key_given (sq_website req)
      then (case verify_website_ownership (the (sq_website req)) uid w of Inl e \<Rightarrow> Inl e | Inr _ \<Rightarrow> Inr ())
      else
        let u = the (sq_url req); target = (if starts_with u ''http'' then u else ''https://'' @ u)
        in (case verify_domain_ownership (url_domain target) uid w of Inl e \<Rightarrow> Inl e | Inr _ \<Rightarrow> Inr ()))"

definition site_args :: "site_request \<Rightarrow> kwargs" where
  "site_args req = [(''url'', text_or_null (sq_url req)), (''website_id'', key_or_null (sq_website req))]"

definition api_crawl_job ::
  "bool \<Rightarrow> 'r queue_redis \<Rightarrow> rat \<Rightarrow> site_request \<Rightarrow> int \<Rightarrow> 'r user_world \<Rightarrow> job_ref outcome \<times> 'r user_world" where
  "api_crawl_job use R now req uid u =
     (case check_site_request req uid (uw_db u) of
        Inl e \<Rightarrow> (Inl e, u)
      | Inr _ \<Rightarrow> start_api_job use R now ''crawl'' ''run_crawl_job'' (sq_website req) (site_args req) uid u)"

definition api_audit_job ::
  "bool \<Rightarrow> 'r queue_redis \<Rightarrow> rat \<Rightarrow> site_request \<Rightarrow> int \<Rightarrow> 'r user_world \<Rightarrow> job_ref outcome \<times> 'r user_world" where
  "api_audit_job use R now req uid u =
     (case check_site_request req uid (uw_db u) of
        Inl e \<Rightarrow> (Inl e, u)
      | Inr _ \<Rightarrow> start_api_job use R now ''audit'' ''run_audit_job'' (sq_website req) (site_args req) uid u)"

definition api_keywords_job ::
  "bool \<Rightarrow> 'r queue_redis \<Rightarrow> rat \<Rightarrow> keyword_request \<Rightarrow> int \<Rightarrow> 'r user_world \<Rightarrow> job_ref outcome \<times> 'r user_world" where
  "api_keywords_job use R now req uid u =
     (if kq_seed req = [] then raise_app ValidationErrorException ''seed_keyword is required'' u
      else start_api_job use R now ''keywords'' ''run_keywords_job'' None
             [(''seed_keyword'', PStr (kq_seed req)),
              (''limit'', PInt (case kq_limit req of None \<Rightarrow> 10 | Some n \<Rightarrow> n))] uid u)"

definition check_rank_request :: "rank_request \<Rightarrow> int \<Rightarrow> ('a seo_db_scheme) \<Rightarrow> unit outcome" where
  "check_rank_request req uid w =
     (if rq_keyword req = [] \<or> (\<not> truthy (rq_domain req) \<and> \<not> key_given (rq_website req))
      then Inl (AppError (app_error ValidationErrorException ''keyword and domain or website_id are required''))
      else if key_given (rq_website req)
      then (case verify_website_ownership (the (rq_website req)) uid w of Inl e \<Rightarrow> Inl e | Inr _ \<Rightarrow> Inr ())
      else (case verify_domain_ownership (the (rq_domain req)) uid w of Inl e \<Rightarrow> Inl e | Inr _ \<Rightarrow> Inr ()))"

definition api_rank_job ::
  "bool \<Rightarrow> 'r queue_redis \<Rightarrow> rat \<Rightarrow> rank_request \<Rightarrow> int \<Rightarrow> 'r user_world \<Rightarrow> job_ref outcome \<times> 'r user_world" where
  "api_rank_job use R now req uid u =
     (case check_rank_request req uid (uw_db u) of
        Inl e \<Rightarrow> (Inl e, u)
      | Inr _ \<Rightarrow>
          start_api_job use R now ''rank'' ''run_rank_job'' (rq_website req)
            [(''keyword'', PStr (rq_keyword req)), (''domain'', text_or_null (rq_domain req)),
             (''website_id'', key_or_null (rq_website req))] uid u)"

definition api_list_jobs ::
  "(string \<Rightarrow> int \<times> job \<Rightarrow> int) \<Rightarrow> int \<Rightarrow> string option \<Rightarrow> string option \<Rightarrow> int option \<Rightarrow> int \<Rightarrow> int \<Rightarrow> string
     \<Rightarrow> string \<Rightarrow> ('a seo_db_scheme) \<Rightarrow> (int \<times> job) list outcome" where
  "api_list_jobs db_order uid job_type status website_id skip limit sort_by order w =
     (if page_query skip limit [''id'', ''created_at'', ''updated_at'', ''status'', ''job_type'', ''progress''] sort_by order
      then Inr (get_user_jobs db_order (sd_jobs w) uid job_type status website_id skip limit sort_by order)
      else Inl bad_query)"

definition api_get_job :: "int \<Rightarrow> int \<Rightarrow> ('a seo_db_scheme) \<Rightarrow> job_ref outcome" where
  "api_get_job jid uid w = verify_job_ownership jid uid (sd_jobs w)"

definition api_cancel_job :: "int \<Rightarrow> int \<Rightarrow> ('a seo_db_scheme) \<Rightarrow> job_ref option outcome \<times> ('a seo_db_scheme)" where
  "api_cancel_job jid uid w =
     (case verify_job_ownership jid uid (sd_jobs w) of
        Inl e \<Rightarrow> (Inl e, w)
      | Inr ref \<Rightarrow>
          (case cancel_job False (JObj ref) uid (sd_jobs w) of (r, jw) \<Rightarrow> (r, w\<lparr>sd_jobs := jw\<rparr>)))"

definition api_delete_job :: "int \<Rightarrow> int \<Rightarrow> ('a seo_db_scheme) \<Rightarrow> int outcome \<times> ('a seo_db_scheme)" where
  "api_delete_job jid uid w =
     (case verify_job_ownership jid uid (sd_jobs w) of
        Inl e \<Rightarrow> (Inl e, w)
      | Inr ref \<Rightarrow> (Inr jid, w\<lparr>sd_jobs := delete_job_instance ref (sd_jobs w)\<rparr>))"

text \<open>For administrators only.\<close>

definition api_cleanup_stale_jobs :: "int \<Rightarrow> ('a seo_db_scheme) \<Rightarrow> nat outcome \<times> ('a seo_db_scheme)" where
  "api_cleanup_stale_jobs max_age w =
     (if max_age < 60 then (Inl bad_query, w)
      else (case cleanup_stale_jobs False max_age (sd_jobs w) of (r, jw) \<Rightarrow> (r, w\<lparr>sd_jobs := jw\<rparr>)))"

text \<open>
  The stream of a job starts with its state and ends there when the job is finished; otherwise the next line
  reads \<^verbatim>\<open>settings\<close>, a name that the module does not have.
\<close>

definition api_stream_job ::
  "int \<Rightarrow> int \<Rightarrow> ('a seo_db_scheme) \<Rightarrow> ((int \<times> string \<times> int \<times> string option) list \<times> py_exc option) outcome" where
  "api_stream_job jid uid w =
     (case verify_job_ownership jid uid (sd_jobs w) of
        Inl e \<Rightarrow> Inl e
      | Inr _ \<Rightarrow>
          (case t_first (\<lambda>i j. i = jid \<and> j_user_id j = uid) (jw_jobs (sd_jobs w)) of
             None \<Rightarrow> Inr ([], None)
           | Some (i, j) \<Rightarrow>
               Inr ([(i, j_status j, j_progress j, j_error_message j)],
                    if j_status j \<in> {''completed'', ''failed'', ''cancelled''} then None
                    else Some (OtherException ''NameError''))))"

end
