(* ===== verification/User_Api_Props.thy ===== *)
theory User_Api_Props
  imports User_Api Job_Props Queue_Props Seo_Audit_Props
begin

text \<open>
  What holds of the user level interface: a user never changes what another one has, the jobs that are
  created belong to their user, and where the ownership of domains can be evaded.
\<close>

section \<open>Rows of a user\<close>

definition mine :: "('r \<Rightarrow> bool) \<Rightarrow> 'r table \<Rightarrow> int \<Rightarrow> 'r option" where
  "mine P t i = (case t_get t i of None \<Rightarrow> None | Some r \<Rightarrow> if P r then Some r else None)"

lemma mine_insert: "t_ok t \<Longrightarrow> \<not> P r \<Longrightarrow> mine P (snd (t_insert r t)) = mine P t"
  using t_get_fresh [of t "t_next t"] by (auto simp: mine_def t_get_insert fun_eq_iff)

lemma mine_put:
  "t_get t i = Some r0 \<Longrightarrow> \<not> P r0 \<Longrightarrow> \<not> P r \<Longrightarrow> mine P (t_put i r t) = mine P t"
  by (auto simp: mine_def fun_eq_iff)

lemma mine_delete: "t_get t i = Some r \<Longrightarrow> \<not> P r \<Longrightarrow> mine P (t_delete i t) = mine P t"
  by (auto simp: mine_def fun_eq_iff)

lemma mine_delete_where:
  "t_ok t \<Longrightarrow> (\<And>i r. t_get t i = Some r \<Longrightarrow> Q i r \<Longrightarrow> \<not> P r) \<Longrightarrow> mine P (t_delete_where Q t) = mine P t"
  by (auto simp: mine_def fun_eq_iff split: option.splits)

text \<open>
  A table whose rows may name a website: a website that is named belongs to the user of the row, and no row
  names a key that is still to come.
\<close>

definition site_rows :: "website table \<Rightarrow> ('r \<Rightarrow> int option) \<Rightarrow> ('r \<Rightarrow> int) \<Rightarrow> 'r table \<Rightarrow> bool" where
  "site_rows sites site usr t \<longleftrightarrow> t_ok t \<and>
     (\<forall>i r k. t_get t i = Some r \<longrightarrow> site r = Some k \<longrightarrow>
        k < t_next sites \<and> (\<forall>s. t_get sites k = Some s \<longrightarrow> w_user s = Some (usr r)))"

lemma site_rows_insert:
  assumes "site_rows sites site usr t"
    and "\<And>k. site r = Some k \<Longrightarrow> k < t_next sites \<and> (\<forall>s. t_get sites k = Some s \<longrightarrow> w_user s = Some (usr r))"
  shows "site_rows sites site usr (snd (t_insert r t))"
  using assms by (auto simp: site_rows_def t_ok_insert t_get_insert split: if_splits)

lemma site_rows_put:
  "\<lbrakk>site_rows sites site usr t; t_get t i = Some r0; site r = site r0; usr r = usr r0\<rbrakk>
     \<Longrightarrow> site_rows sites site usr (t_put i r t)"
  by (auto simp: site_rows_def split: if_splits)

lemma site_rows_delete: "site_rows sites site usr t \<Longrightarrow> site_rows sites site usr (t_delete i t)"
  by (auto simp: site_rows_def t_ok_delete split: if_splits)

lemma site_rows_filter: "site_rows sites site usr t \<Longrightarrow> site_rows sites site usr (t_delete_where Q t)"
  by (auto simp: site_rows_def split: option.splits if_splits)

lemma site_rows_new_site: "t_ok sites \<Longrightarrow> site_rows sites site usr t \<Longrightarrow> site_rows (snd (t_insert s sites)) site usr t"
proof -
  assume ok: "t_ok sites" "site_rows sites site usr t"
  have "t_next (snd (t_insert s sites)) = t_next sites + 1" by (simp add: t_insert_def)
  moreover have "k < t_next sites \<Longrightarrow> t_get (snd (t_insert s sites)) k = t_get sites k" for k
    using ok(1) by (simp add: t_get_insert)
  ultimately show ?thesis using ok(2) by (fastforce simp: site_rows_def)
qed

lemma site_rows_less_sites:
  "t_ok sites \<Longrightarrow> site_rows sites site usr t \<Longrightarrow> site_rows (t_delete_where Q sites) site usr t"
  by (fastforce simp: site_rows_def split: option.splits if_splits)

definition user_ok :: "('a seo_db_scheme) \<Rightarrow> bool" where
  "user_ok w \<longleftrightarrow> t_ok (db_sites w)
     \<and> site_rows (db_sites w) (Some \<circ> ar_website) ar_user (sd_audits w)
     \<and> site_rows (db_sites w) ld_website ld_user (sd_leads w)
     \<and> site_rows (db_sites w) (Some \<circ> rp_website) rp_user (sd_reports w)
     \<and> site_rows (db_sites w) rk_website rk_user (sd_ranks w)
     \<and> site_rows (db_sites w) j_website_id j_user_id (jw_jobs (sd_jobs w))"

definition user_view ::
  "int \<Rightarrow> ('a seo_db_scheme) \<Rightarrow> (int \<Rightarrow> website option) \<times> (int \<Rightarrow> audit_result option) \<times> (int \<Rightarrow> lead option)
     \<times> (int \<Rightarrow> report option) \<times> (int \<Rightarrow> keyword_result option) \<times> (int \<Rightarrow> rank_check option) \<times> (int \<Rightarrow> job option)" where
  "user_view uid w =
     (mine (\<lambda>s. w_user s = Some uid) (db_sites w), mine (\<lambda>a. ar_user a = uid) (sd_audits w),
      mine (\<lambda>l. ld_user l = uid) (sd_leads w), mine (\<lambda>r. rp_user r = uid) (sd_reports w),
      mine (\<lambda>k. kr_user k = uid) (sd_keywords w), mine (\<lambda>r. rk_user r = uid) (sd_ranks w),
      mine (\<lambda>j. j_user_id j = uid) (jw_jobs (sd_jobs w)))"

text \<open>A step that keeps the tables consistent and what every user but \<open>uid\<close> has.\<close>

definition spares :: "int \<Rightarrow> ('a seo_db_scheme) \<Rightarrow> ('a seo_db_scheme) \<Rightarrow> bool" where
  "spares uid w w' \<longleftrightarrow> user_ok w \<longrightarrow> user_ok w' \<and> (\<forall>other. other \<noteq> uid \<longrightarrow> user_view other w' = user_view other w)"

lemma spares_refl [simp]: "spares uid w w"
  by (simp add: spares_def)

lemma spares_trans: "spares uid w w1 \<Longrightarrow> spares uid w1 w2 \<Longrightarrow> spares uid w w2"
  by (simp add: spares_def)

lemma verify_website_owner:
  assumes "t_ok (db_sites w)" and "verify_website_ownership sid uid w = Inr (i, s)"
  shows "i = sid" "t_get (db_sites w) sid = Some s" "w_user s = Some uid"
  using assms(2) t_first_Some [OF assms(1), of "\<lambda>i s. i = sid" i s]
  by (auto simp: verify_website_ownership_def get_website_by_id_unfiltered_def split: option.splits if_splits)

lemma verify_domain_owner:
  assumes "t_ok (db_sites w)" and "verify_domain_ownership d uid w = Inr (Some (i, s))"
  shows "t_get (db_sites w) i = Some s" "w_user s = Some uid"
  using assms(2) t_first_Some [OF assms(1), of "\<lambda>i s. w_domain s = clean_domain d" i s]
  by (auto simp: verify_domain_ownership_def get_website_by_domain_unfiltered_def split: option.splits if_splits)

lemma verify_job_owner:
  assumes "t_ok (jw_jobs jw)" and "verify_job_ownership jid uid jw = Inr ref"
  shows "ref_id ref = jid" "\<exists>j. t_get (jw_jobs jw) jid = Some j \<and> ref_row ref = Some j \<and> j_user_id j = uid"
  using assms(2) t_first_Some [OF assms(1), of "\<lambda>i j. i = jid"]
  by (auto simp: verify_job_ownership_def get_job_by_id_unfiltered_def ref_load_def split: option.splits if_splits sum.splits)

section \<open>Single writes\<close>

lemma spares_new_site: "spares uid w (snd (crud_create_website uid url d c w))"
proof -
  let ?s = "new_website uid url d c (db_now w)"
  have "user_ok w \<Longrightarrow> user_ok (w\<lparr>db_sites := snd (t_insert ?s (db_sites w))\<rparr>)"
    by (simp add: user_ok_def t_ok_insert site_rows_new_site)
  moreover have "user_ok w \<Longrightarrow> other \<noteq> uid \<Longrightarrow>
      mine (\<lambda>s. w_user s = Some other) (snd (t_insert ?s (db_sites w))) = mine (\<lambda>s. w_user s = Some other) (db_sites w)" for other
    by (rule mine_insert) (auto simp: user_ok_def new_website_def)
  ultimately show ?thesis
    by (auto simp: spares_def crud_create_website_def Let_def user_view_def split: prod.split)
qed

lemma spares_audit:
  assumes "t_get (db_sites w) sid = Some s" and "w_user s = Some uid"
  shows "spares uid w (snd (create_audit sid uid score t m hs c n b k w))"
proof -
  let ?a = "new_audit sid uid score t m hs c n b k (db_now w)"
  have "user_ok w \<Longrightarrow> site_rows (db_sites w) (Some \<circ> ar_website) ar_user (snd (t_insert ?a (sd_audits w)))"
  proof (rule site_rows_insert)
    assume ok: "user_ok w"
    then show "site_rows (db_sites w) (Some \<circ> ar_website) ar_user (sd_audits w)" by (simp add: user_ok_def)
    have "sid < t_next (db_sites w)" using ok assms(1) t_get_fresh [of "db_sites w" sid] by (force simp: user_ok_def)
    moreover fix k assume "(Some \<circ> ar_website) ?a = Some k"
    ultimately show "k < t_next (db_sites w) \<and> (\<forall>s. t_get (db_sites w) k = Some s \<longrightarrow> w_user s = Some (ar_user ?a))"
      using assms by (simp add: new_audit_def)
  qed
  moreover have "user_ok w \<Longrightarrow> other \<noteq> uid \<Longrightarrow>
      mine (\<lambda>a. ar_user a = other) (snd (t_insert ?a (sd_audits w))) = mine (\<lambda>a. ar_user a = other) (sd_audits w)" for other
    by (rule mine_insert) (auto simp: user_ok_def site_rows_def new_audit_def)
  ultimately show ?thesis
    by (auto simp: spares_def create_audit_def Let_def user_view_def user_ok_def split: prod.split)
qed

lemma spares_lead:
  assumes "t_get (db_sites w) sid = Some s" and "w_user s = Some uid"
  shows "spares uid w (snd (create_lead sid uid em src w))"
proof -
  let ?l = "\<lparr>ld_website = Some sid, ld_user = uid, ld_email = em, ld_phone = None, ld_source = src, ld_created = db_now w\<rparr>"
  have "user_ok w \<Longrightarrow> site_rows (db_sites w) ld_website ld_user (snd (t_insert ?l (sd_leads w)))"
  proof (rule site_rows_insert)
    assume ok: "user_ok w"
    then show "site_rows (db_sites w) ld_website ld_user (sd_leads w)" by (simp add: user_ok_def)
    have "sid < t_next (db_sites w)" using ok assms(1) t_get_fresh [of "db_sites w" sid] by (force simp: user_ok_def)
    moreover fix k assume "ld_website ?l = Some k"
    ultimately show "k < t_next (db_sites w) \<and> (\<forall>s. t_get (db_sites w) k = Some s \<longrightarrow> w_user s = Some (ld_user ?l))"
      using assms by simp
  qed
  moreover have "user_ok w \<Longrightarrow> other \<noteq> uid \<Longrightarrow>
      mine (\<lambda>l. ld_user l = other) (snd (t_insert ?l (sd_leads w))) = mine (\<lambda>l. ld_user l = other) (sd_leads w)" for other
    by (rule mine_insert) (auto simp: user_ok_def site_rows_def)
  ultimately show ?thesis
    by (auto simp: spares_def create_lead_def Let_def user_view_def user_ok_def split: prod.split)
qed

lemma delete_sites_fields [simp]:
  "sd_audits (delete_sites P w) = sd_audits w" "sd_leads (delete_sites P w) = sd_leads w"
  "sd_reports (delete_sites P w) = sd_reports w" "sd_ranks (delete_sites P w) = sd_ranks w"
  "sd_keywords (delete_sites P w) = sd_keywords w" "sd_jobs (delete_sites P w) = sd_jobs w"
  "db_sites (delete_sites P w) = t_delete_where P (db_sites w)" "db_fk (delete_sites P w) = db_fk w"
  by (simp_all add: delete_sites_def delete_crawls_def Let_def)

lemma site_rows_user:
  "\<lbrakk>site_rows sites site usr t; t_get sites k = Some s; t_get t i = Some r; site r = Some k\<rbrakk> \<Longrightarrow> w_user s = Some (usr r)"
  by (auto simp: site_rows_def)

lemma mine_site_rows:
  assumes "site_rows sites site usr t" and "t_get sites sid = Some s" and "w_user s = Some uid" and "other \<noteq> uid"
  shows "mine (\<lambda>r. usr r = other) (t_delete_where (\<lambda>i r. site r = Some sid) t) = mine (\<lambda>r. usr r = other) t"
proof (rule mine_delete_where)
  show "t_ok t" using assms(1) by (simp add: site_rows_def)
  fix i r assume "t_get t i = Some r" "site r = Some sid"
  from site_rows_user [OF assms(1,2) this] assms(3,4) show "usr r \<noteq> other" by auto
qed

lemma spares_delete_site:
  assumes s: "t_get (db_sites w) sid = Some s" and u: "w_user s = Some uid"
  shows "spares uid w (delete_website_instance sid w)"
  unfolding spares_def
proof (intro impI conjI allI)
  assume ok: "user_ok w"
  show "user_ok (delete_website_instance sid w)"
    using ok by (simp add: user_ok_def delete_website_instance_def Let_def site_rows_less_sites site_rows_filter)
  fix other assume o: "other \<noteq> uid"
  have rows: "site_rows (db_sites w) (Some \<circ> ar_website) ar_user (sd_audits w)"
    "site_rows (db_sites w) ld_website ld_user (sd_leads w)"
    "site_rows (db_sites w) (Some \<circ> rp_website) rp_user (sd_reports w)"
    "site_rows (db_sites w) rk_website rk_user (sd_ranks w)"
    "site_rows (db_sites w) j_website_id j_user_id (jw_jobs (sd_jobs w))"
    using ok by (simp_all add: user_ok_def)
  have "mine (\<lambda>s. w_user s = Some other) (t_delete_where (\<lambda>i s. i = sid) (db_sites w)) = mine (\<lambda>s. w_user s = Some other) (db_sites w)"
    using ok s u o by (intro mine_delete_where) (auto simp: user_ok_def)
  moreover note mine_site_rows [OF rows(1) s u o, simplified] mine_site_rows [OF rows(2) s u o]
    mine_site_rows [OF rows(3) s u o, simplified] mine_site_rows [OF rows(4) s u o] mine_site_rows [OF rows(5) s u o]
  ultimately show "user_view other (delete_website_instance sid w) = user_view other w"
    by (simp add: user_view_def delete_website_instance_def Let_def)
qed

lemma log_fields [simp]:
  "db_sites (log_audit_event a u g t ip ag d w) = db_sites w" "sd_audits (log_audit_event a u g t ip ag d w) = sd_audits w"
  "sd_leads (log_audit_event a u g t ip ag d w) = sd_leads w" "sd_reports (log_audit_event a u g t ip ag d w) = sd_reports w"
  "sd_keywords (log_audit_event a u g t ip ag d w) = sd_keywords w" "sd_ranks (log_audit_event a u g t ip ag d w) = sd_ranks w"
  "sd_jobs (log_audit_event a u g t ip ag d w) = sd_jobs w"
  by (simp_all add: log_audit_event_def)

lemma spares_log: "spares uid w (log_audit_event a u g t ip ag d w)"
  by (simp add: spares_def user_ok_def user_view_def)

text \<open>A change of the jobs table alone.\<close>

lemma spares_jobs:
  assumes "user_ok w \<Longrightarrow> site_rows (db_sites w) j_website_id j_user_id (jw_jobs jw)"
    and "\<And>other. user_ok w \<Longrightarrow> other \<noteq> uid \<Longrightarrow> mine (\<lambda>j. j_user_id j = other) (jw_jobs jw) = mine (\<lambda>j. j_user_id j = other) (jw_jobs (sd_jobs w))"
  shows "spares uid w (w\<lparr>sd_jobs := jw\<rparr>)"
  using assms by (auto simp: spares_def user_ok_def user_view_def)

section \<open>Handlers\<close>

lemma spares_leads:
  "t_get (db_sites w) sid = Some s \<Longrightarrow> w_user s = Some uid \<Longrightarrow> spares uid w (snd (create_leads sid uid ems w))"
proof (induction ems arbitrary: w)
  case (Cons em ems)
  obtain r w1 where l: "create_lead sid uid em ''website_scrape'' w = (r, w1)" by fastforce
  have "db_sites w1 = db_sites w" using l by (auto simp: create_lead_def Let_def split: if_splits prod.splits)
  with Cons have "spares uid w1 (snd (create_leads sid uid ems w1))" by simp
  moreover have "spares uid w w1" using spares_lead [OF Cons.prems, of em "''website_scrape''"] l by simp
  ultimately show ?case
    by (cases r; cases "create_leads sid uid ems w1"; cases "fst (create_leads sid uid ems w1)")
      (auto simp: l intro: spares_trans)
qed simp

lemma spares_store:
  assumes "t_get (db_sites w) (fst site) = Some s" and "w_user s = Some uid"
  shows "spares uid w (snd (store_audit p target site uid w))"
proof -
  have sites: "db_sites (snd (create_audit (fst site) uid score t m hs c n b k w)) = db_sites w" for score t m hs c n b k
    by (auto simp: create_audit_def Let_def split: prod.splits)
  have "spares uid w (snd (and_then (create_audit (fst site) uid score t m hs c n b k w)
      (\<lambda>a w1. and_then (create_leads (fst site) uid ems w1)
        (\<lambda>cnt w2. (Inr \<lparr>ao_website = site, ao_audit = a, ao_leads = cnt\<rparr>, w2)))))" for score t m hs c n b k ems
  proof -
    obtain r w1 where a: "create_audit (fst site) uid score t m hs c n b k w = (r, w1)" by fastforce
    have "spares uid w w1" using spares_audit [OF assms, of score t m hs c n b k] a by simp
    moreover have "spares uid w1 (snd (create_leads (fst site) uid ems w1))"
      using assms sites [of score t m hs c n b k] a by (intro spares_leads) simp_all
    ultimately show ?thesis
      by (cases r; cases "create_leads (fst site) uid ems w1"; cases "fst (create_leads (fst site) uid ems w1)")
        (auto simp: a intro: spares_trans)
  qed
  then show ?thesis by (simp only: store_audit_def Let_def)
qed

lemma checked_key:
  assumes "verify_website_ownership k uid w = Inr p" and "t_ok (db_sites w)"
  shows "\<exists>s. t_get (db_sites w) (fst p) = Some s \<and> w_user s = Some uid"
proof -
  obtain i s where "p = (i, s)" by (cases p)
  with verify_website_owner [of w k uid i s] assms show ?thesis by simp
qed

lemma checked_domain:
  assumes "verify_domain_ownership d uid w = Inr (Some p)" and "t_ok (db_sites w)"
  shows "\<exists>s. t_get (db_sites w) (fst p) = Some s \<and> w_user s = Some uid"
proof -
  obtain i s where "p = (i, s)" by (cases p)
  with verify_domain_owner [of w d uid i s] assms show ?thesis by simp
qed

lemma target_owned:
  assumes "user_ok w" and "audit_target resolve url website_id uid w = (Inr (address, site), w1)"
  shows "\<exists>s. t_get (db_sites w1) (fst site) = Some s \<and> w_user s = Some uid"
proof -
  have ok: "t_ok (db_sites w)" using assms(1) by (simp add: user_ok_def)
  have new: "\<exists>s. t_get (db_sites w1) (fst site) = Some s \<and> w_user s = Some uid"
    if "crud_create_website uid u d c w = (Inr site, w1)" for u d c
    using that ok t_get_insert [OF ok, of "new_website uid u d c (db_now w)"]
    by (auto simp: crud_create_website_def Let_def t_insert_def new_website_def split: if_splits)
  show ?thesis
    using assms(2) ok
    by (auto simp: audit_target_def raise_app_def and_then_def split: if_splits sum.splits option.splits prod.splits
        dest: new checked_key checked_domain)
qed

lemma spares_target: "spares uid w (snd (audit_target resolve url website_id uid w))"
proof -
  have "spares uid w (snd (and_then (crud_create_website uid u d c w) (\<lambda>site w1. (Inr (u, site), w1))))" for u d c
    using spares_new_site [of uid w u d c]
    by (cases "crud_create_website uid u d c w"; cases "fst (crud_create_website uid u d c w)") auto
  then show ?thesis
    by (simp add: audit_target_def raise_app_def split: sum.split option.split prod.split)
qed

lemma spares_page:
  assumes "target = audit_target resolve url website_id uid w"
  shows "spares uid w (snd (audit_page f tokenize target uid))"
proof (cases "fst target")
  case (Inl e)
  then obtain w1 where t: "target = (Inl e, w1)" by (cases target) auto
  then show ?thesis using spares_target [of uid w resolve url website_id] assms
    by (simp add: audit_page_def)
next
  case (Inr a)
  obtain address site w1 where t: "target = (Inr (address, site), w1)"
    using Inr by (cases target) (cases a, auto)
  have eq: "audit_target resolve url website_id uid w = (Inr (address, site), w1)" using assms t by simp
  have "spares uid w w1" using spares_target [of uid w resolve url website_id] unfolding eq by simp
  moreover have "user_ok w \<Longrightarrow> spares uid w1 (snd (store_audit p u site uid w1))" for p u
    using target_owned [of w resolve url website_id uid address site w1] assms t spares_store by metis
  ultimately show ?thesis
    by (cases address) (auto simp: t audit_page_def Let_def spares_def)
qed

lemma spares_api_audit: "spares uid w (snd (api_create_audit resolve client tokenize req uid w))"
  by (simp add: api_create_audit_def raise_app_def audit_website_async_def spares_page)

lemma spares_api_delete_website: "spares uid w (snd (api_delete_website sid uid w))"
proof (cases "verify_website_ownership sid uid w")
  case (Inr found)
  obtain i s where site: "found = (i, s)" by (cases found)
  have log: "spares uid w (log_audit_event a u g t ip ag d w)" for a u g t ip ag d by (rule spares_log)
  have "spares uid w (delete_website_instance i (log_audit_event a u g t ip ag d w))" if "user_ok w" for a u g t ip ag d
    using verify_website_owner [OF _ Inr [unfolded site]] that
    by (intro spares_trans [OF log spares_delete_site]) (auto simp: user_ok_def)
  then have "spares uid w (delete_website_instance i (log_audit_event a u g t ip ag d w))" for a u g t ip ag d
    by (auto simp: spares_def)
  then show ?thesis by (simp add: api_delete_website_def Inr site)
qed (simp add: api_delete_website_def)

lemma spares_api_cancel: "spares uid w (snd (api_cancel_job jid uid w))"
proof (cases "verify_job_ownership jid uid (sd_jobs w)")
  case (Inr ref)
  obtain r jw where c: "cancel_job False (JObj ref) uid (sd_jobs w) = (r, jw)" by fastforce
  have "spares uid w (w\<lparr>sd_jobs := jw\<rparr>)"
  proof (cases "user_ok w")
    case ok: True
    then have rows: "site_rows (db_sites w) j_website_id j_user_id (jw_jobs (sd_jobs w))" by (simp add: user_ok_def)
    then obtain j where j: "ref_id ref = jid" "job_row (sd_jobs w) jid = Some j" "ref_row ref = Some j" "j_user_id j = uid"
      using verify_job_owner [OF _ Inr] by (auto simp: site_rows_def)
    obtain ref1 jw1 where u: "crud_update_job False (no_changes\<lparr>c_status := Some ''cancelled'', c_finished_at := Some (jw_now (sd_jobs w))\<rparr>)
        ref (sd_jobs w) = (Inr ref1, jw1)" "jw = jw1"
      using c j by (auto simp: cancel_job_def resolve_job_def crud_update_job_def Let_def split: sum.splits)
    then consider "jw_jobs jw = jw_jobs (sd_jobs w)"
      | row where "jw_jobs jw = t_put jid row (jw_jobs (sd_jobs w))" "j_user_id row = j_user_id j" "j_website_id row = j_website_id j"
      using j by (auto simp: crud_update_job_def Let_def split: if_splits)
    then show ?thesis
    proof cases
      case 2
      then show ?thesis
        using site_rows_put [OF rows j(2), of row] mine_put [OF j(2), of _ row] j(4) by (intro spares_jobs) simp_all
    qed (use rows in \<open>simp add: spares_jobs\<close>)
  qed (simp add: spares_def)
  then show ?thesis by (simp add: api_cancel_job_def Inr c)
qed (simp add: api_cancel_job_def)

lemma spares_api_delete_job: "spares uid w (snd (api_delete_job jid uid w))"
proof (cases "verify_job_ownership jid uid (sd_jobs w)")
  case (Inr ref)
  have "spares uid w (w\<lparr>sd_jobs := delete_job_instance ref (sd_jobs w)\<rparr>)"
  proof (cases "user_ok w")
    case ok: True
    then have rows: "site_rows (db_sites w) j_website_id j_user_id (jw_jobs (sd_jobs w))" by (simp add: user_ok_def)
    then obtain j where j: "ref_id ref = jid" "job_row (sd_jobs w) jid = Some j" "j_user_id j = uid"
      using verify_job_owner [OF _ Inr] by (auto simp: site_rows_def)
    then show ?thesis
      using rows by (intro spares_jobs) (auto simp: delete_job_instance_def site_rows_delete mine_delete [OF j(2)])
  qed (simp add: spares_def)
  then show ?thesis by (simp add: api_delete_job_def Inr)
qed (simp add: api_delete_job_def)

text \<open>A request for a job gives the job its user, and a website of the user if it names one.\<close>

lemma spares_start_job:
  assumes "\<And>k. user_ok (uw_db u) \<Longrightarrow> website_id = Some k \<Longrightarrow> \<exists>s. t_get (db_sites (uw_db u)) k = Some s \<and> w_user s = Some uid"
  shows "spares uid (uw_db u) (uw_db (snd (start_api_job use R now job_type runner website_id args uid u)))"
proof -
  let ?w = "uw_db u"
  let ?j = "new_job uid job_type website_id (payload_ref (Some args)) (jw_now (sd_jobs ?w))"
  obtain ref jw where c: "create_job uid job_type website_id (Some args) (sd_jobs ?w) = (ref, jw)" by fastforce
  then have jobs: "jw_jobs jw = snd (t_insert ?j (jw_jobs (sd_jobs ?w)))"
    by (auto simp: create_job_def crud_create_job_def Let_def split: prod.splits)
  have "spares uid ?w (?w\<lparr>sd_jobs := jw\<rparr>)"
  proof (rule spares_jobs; unfold jobs)
    assume ok: "user_ok ?w"
    show "site_rows (db_sites ?w) j_website_id j_user_id (snd (t_insert ?j (jw_jobs (sd_jobs ?w))))"
    proof (rule site_rows_insert)
      show "site_rows (db_sites ?w) j_website_id j_user_id (jw_jobs (sd_jobs ?w))" using ok by (simp add: user_ok_def)
      fix k assume "j_website_id ?j = Some k"
      then obtain s where s: "t_get (db_sites ?w) k = Some s" "w_user s = Some uid"
        using assms [OF ok] by (auto simp: new_job_def)
      moreover have "k < t_next (db_sites ?w)" using ok s t_get_fresh [of "db_sites ?w" k] by (force simp: user_ok_def)
      ultimately show "k < t_next (db_sites ?w) \<and> (\<forall>s. t_get (db_sites ?w) k = Some s \<longrightarrow> w_user s = Some (j_user_id ?j))"
        by (simp add: new_job_def)
    qed
  next
    fix other assume "user_ok ?w" "other \<noteq> uid"
    then show "mine (\<lambda>j. j_user_id j = other) (snd (t_insert ?j (jw_jobs (sd_jobs ?w)))) = mine (\<lambda>j. j_user_id j = other) (jw_jobs (sd_jobs ?w))"
      by (intro mine_insert) (auto simp: user_ok_def site_rows_def new_job_def)
  qed
  moreover have "uw_db (snd (start_api_job use R now job_type runner website_id args uid u)) = ?w\<lparr>sd_jobs := jw\<rparr>"
    by (auto simp: start_api_job_def c Let_def split: prod.splits sum.splits)
  ultimately show ?thesis by simp
qed

lemma website_checked:
  assumes "verify_website_ownership k uid w = Inr p" and "user_ok w"
  shows "\<exists>s. t_get (db_sites w) k = Some s \<and> w_user s = Some uid"
proof -
  obtain i s where "p = (i, s)" by (cases p)
  with verify_website_owner [of w k uid i s] assms show ?thesis by (simp add: user_ok_def)
qed

lemma spares_api_crawl_job:
  assumes "mk_site_request url k = Inr req"
  shows "spares uid (uw_db u) (uw_db (snd (api_crawl_job use R now req uid u)))"
    and "spares uid (uw_db u) (uw_db (snd (api_audit_job use R now req uid u)))"
proof -
  have "\<exists>s. t_get (db_sites (uw_db u)) i = Some s \<and> w_user s = Some uid"
    if "check_site_request req uid (uw_db u) = Inr ()" "user_ok (uw_db u)" "sq_website req = Some i" for i
  proof -
    have "i \<noteq> 0" using assms that(3) by (auto simp: mk_site_request_def id_ok_def split: if_splits sum.splits)
    then show ?thesis using that website_checked [of i uid "uw_db u"]
      by (auto simp: check_site_request_def key_given_def split: if_splits sum.splits)
  qed
  then show "spares uid (uw_db u) (uw_db (snd (api_crawl_job use R now req uid u)))"
    and "spares uid (uw_db u) (uw_db (snd (api_audit_job use R now req uid u)))"
    by (auto simp: api_crawl_job_def api_audit_job_def intro!: spares_start_job split: sum.split)
qed

lemma spares_api_rank_job:
  assumes "mk_rank_request kw d k = Inr req"
  shows "spares uid (uw_db u) (uw_db (snd (api_rank_job use R now req uid u)))"
proof -
  have "\<exists>s. t_get (db_sites (uw_db u)) i = Some s \<and> w_user s = Some uid"
    if "check_rank_request req uid (uw_db u) = Inr ()" "user_ok (uw_db u)" "rq_website req = Some i" for i
  proof -
    have "i \<noteq> 0" using assms that(3) by (auto simp: mk_rank_request_def id_ok_def split: if_splits sum.splits)
    then show ?thesis using that website_checked [of i uid "uw_db u"]
      by (auto simp: check_rank_request_def key_given_def split: if_splits sum.splits)
  qed
  then show ?thesis by (auto simp: api_rank_job_def intro!: spares_start_job split: sum.split)
qed

lemma spares_api_keywords_job: "spares uid (uw_db u) (uw_db (snd (api_keywords_job use R now req uid u)))"
  by (auto simp: api_keywords_job_def raise_app_def intro!: spares_start_job)

section \<open>Runs of requests\<close>

datatype user_request =
    ReqDeleteWebsite int
  | ReqAudit "string option" "int option"
  | ReqCrawlJob "string option" "int option"
  | ReqAuditJob "string option" "int option"
  | ReqKeywordsJob string "int option"
  | ReqRankJob string "string option" "int option"
  | ReqCancelJob int
  | ReqDeleteJob int

text \<open>What the handlers take from outside: the resolver, the client, the tokenizer, whether
  Redis is used, and the clock of the queue.\<close>

record outside =
  ou_resolve :: "string \<Rightarrow> int \<Rightarrow> string list outcome"
  ou_client :: "string \<Rightarrow> bool \<Rightarrow> http_response outcome"
  ou_tokenize :: "string \<Rightarrow> html_event list"
  ou_use :: bool
  ou_now :: rat

text \<open>One request of a user, from its body to the state after the handler; a body that is refused changes nothing.\<close>

fun user_request_step :: "outside \<Rightarrow> 'r queue_redis \<Rightarrow> int \<Rightarrow> user_request \<Rightarrow> 'r user_world \<Rightarrow> 'r user_world" where
  "user_request_step E R uid (ReqDeleteWebsite sid) u = u\<lparr>uw_db := snd (api_delete_website sid uid (uw_db u))\<rparr>"
| "user_request_step E R uid (ReqAudit url k) u =
     (case mk_site_request url k of
        Inl e \<Rightarrow> u
      | Inr req \<Rightarrow> u\<lparr>uw_db := snd (api_create_audit (ou_resolve E) (ou_client E) (ou_tokenize E) req uid (uw_db u))\<rparr>)"
| "user_request_step E R uid (ReqCrawlJob url k) u =
     (case mk_site_request url k of Inl e \<Rightarrow> u | Inr req \<Rightarrow> snd (api_crawl_job (ou_use E) R (ou_now E) req uid u))"
| "user_request_step E R uid (ReqAuditJob url k) u =
     (case mk_site_request url k of Inl e \<Rightarrow> u | Inr req \<Rightarrow> snd (api_audit_job (ou_use E) R (ou_now E) req uid u))"
| "user_request_step E R uid (ReqKeywordsJob seed n) u =
     (case mk_keyword_request seed n of Inl e \<Rightarrow> u | Inr req \<Rightarrow> snd (api_keywords_job (ou_use E) R (ou_now E) req uid u))"
| "user_request_step E R uid (ReqRankJob kw d k) u =
     (case mk_rank_request kw d k of Inl e \<Rightarrow> u | Inr req \<Rightarrow> snd (api_rank_job (ou_use E) R (ou_now E) req uid u))"
| "user_request_step E R uid (ReqCancelJob jid) u = u\<lparr>uw_db := snd (api_cancel_job jid uid (uw_db u))\<rparr>"
| "user_request_step E R uid (ReqDeleteJob jid) u = u\<lparr>uw_db := snd (api_delete_job jid uid (uw_db u))\<rparr>"

lemma request_spares: "spares uid (uw_db u) (uw_db (user_request_step E R uid q u))"
  by (cases q) (auto simp: spares_api_delete_website spares_api_audit spares_api_crawl_job spares_api_rank_job
      spares_api_keywords_job spares_api_cancel spares_api_delete_job split: sum.split)

definition api_step :: "outside \<Rightarrow> 'r queue_redis \<Rightarrow> 'r user_world \<Rightarrow> int \<times> user_request \<Rightarrow> 'r user_world" where
  "api_step E R u e = user_request_step E R (fst e) (snd e) u"

interpretation user_api: machine "api_step E R" "\<lambda>u. user_ok (uw_db u)" for E R
proof
  show "user_ok (uw_db (api_step E R u e))" if "user_ok (uw_db u)" for u :: "'a user_world" and e
    using request_spares [of "fst e" u E R "snd e"] that by (simp add: api_step_def spares_def)
qed

text \<open>
  C6: the requests of the user level interface (to delete a website, to audit one, and to start, cancel and
  delete jobs), made by other users, leave what a user has as it was: the websites, audits, leads, reports,
  keywords, rank checks and jobs, as long as every row that names a website belongs to the user of the website,
  which the requests keep. (The requests on organizations are not among them: an administrator of an
  organization deletes its websites with all their rows, whoever made them.)
\<close>

theorem users_are_isolated:
  assumes "user_ok (uw_db u)" and "list_all (\<lambda>(uid, q). uid \<noteq> me) es"
  shows "user_view me (uw_db (foldl (api_step E R) u es)) = user_view me (uw_db u)
    \<and> user_ok (uw_db (foldl (api_step E R) u es))"
proof -
  have "user_view me (uw_db (foldl (api_step E R) u es)) = user_view me (uw_db u)"
    using assms
  proof (induction es arbitrary: u)
    case (Cons e es)
    have "spares (fst e) (uw_db u) (uw_db (api_step E R u e))" by (simp add: api_step_def request_spares)
    with Cons show ?case by (auto simp: spares_def split_beta)
  qed simp
  then show ?thesis using user_api.run_inv [OF assms(1)] by simp
qed

lemma demo_seo_site: "t_get (db_sites demo_seo) 1 = Some (new_website 1 (Some ''http://a.b'') ''a.b'' None 0)"
  by (simp add: demo_seo_def db.defs t_insert_def t_empty_def t_get_def)

text \<open>A user with a website; another user tries to delete it, to audit it and to start jobs for it.\<close>

definition user_demo :: "(string \<Rightarrow> payload list) user_world" where
  "user_demo = \<lparr>uw_db = demo_seo, uw_queue = demo_queue, uw_tasks = []\<rparr>"

definition demo_outside :: outside where
  "demo_outside = \<lparr>ou_resolve = (\<lambda>h n. Inr []), ou_client = (\<lambda>u f. Inl (OtherException ''ConnectError'')),
     ou_tokenize = (\<lambda>t. []), ou_use = True, ou_now = 5\<rparr>"

lemma user_demo_ok: "user_ok (uw_db user_demo)"
  by (simp add: user_ok_def site_rows_def user_demo_def demo_seo_def db.defs seo_db.defs t_ok_insert)

theorem users_are_isolated_witness:
  "\<exists>s. t_get (db_sites (uw_db (foldl (api_step demo_outside list_redis) user_demo
      [(2, ReqDeleteWebsite 1), (3, ReqAudit None (Some 1)), (2, ReqRankJob ''k'' (Some ''a.b'') None), (2, ReqDeleteJob 1)]))) 1
    = Some s \<and> w_user s = Some 1"
proof -
  let ?es = "[(2, ReqDeleteWebsite 1), (3, ReqAudit None (Some 1)), (2, ReqRankJob ''k'' (Some ''a.b'') None), (2, ReqDeleteJob 1)]"
  have "user_view 1 (uw_db (foldl (api_step demo_outside list_redis) user_demo ?es)) = user_view 1 (uw_db user_demo)"
    using users_are_isolated [OF user_demo_ok, of 1 ?es demo_outside list_redis] by simp
  then have "mine (\<lambda>s. w_user s = Some 1) (db_sites (uw_db (foldl (api_step demo_outside list_redis) user_demo ?es))) 1
      = mine (\<lambda>s. w_user s = Some 1) (db_sites (uw_db user_demo)) 1"
    by (simp only: user_view_def prod.inject)
  also have "\<dots> = Some (new_website 1 (Some ''http://a.b'') ''a.b'' None 0)"
    by (simp add: mine_def user_demo_def demo_seo_site new_website_def)
  finally show ?thesis by (auto simp: mine_def split: option.splits if_splits)
qed

section \<open>The deletion of a website\<close>

text \<open>
  who may delete a website through this interface is decided by the user it was created by alone: the roles of
  its organization and of its project have no say, so a creator who has left the organization still deletes it, and an
  owner of the organization who did not create it cannot.
\<close>

theorem website_deletion_ignores_roles:
  assumes "t_ok (db_sites w)"
  shows "fst (api_delete_website sid uid w) = Inr sid \<longleftrightarrow>
    (\<exists>s. t_get (db_sites w) sid = Some s \<and> w_user s = Some uid)"
proof -
  have "t_first (\<lambda>i s. i = sid) (db_sites w) = map_option (Pair sid) (t_get (db_sites w) sid)"
  proof (cases "t_first (\<lambda>i s. i = sid) (db_sites w)")
    case None
    then have "\<forall>i s. t_get (db_sites w) i = Some s \<longrightarrow> i \<noteq> sid"
      using t_first_None [OF assms, of "\<lambda>i s. i = sid"] by simp
    then have "t_get (db_sites w) sid = None" by (cases "t_get (db_sites w) sid") auto
    with None show ?thesis by simp
  next
    case (Some p)
    obtain i s where "p = (i, s)" by (cases p)
    with Some t_first_Some [OF assms, of "\<lambda>i s. i = sid" i s] show ?thesis by auto
  qed
  then show ?thesis
    by (auto simp: api_delete_website_def verify_website_ownership_def get_website_by_id_unfiltered_def
        split: option.split)
qed

theorem website_deletion_ignores_roles_witness:
  "fst (api_delete_website 1 1 demo_seo) = Inr 1 \<and> fst (api_delete_website 1 2 demo_seo) \<noteq> Inr 1"
proof -
  have ok: "t_ok (db_sites demo_seo)" using user_demo_ok by (simp add: user_ok_def user_demo_def)
  have "fst (api_delete_website 1 1 demo_seo) = Inr 1"
    by (rule iffD2 [OF website_deletion_ignores_roles [OF ok]]) (simp add: demo_seo_site new_website_def)
  moreover have "\<not> (\<exists>s. t_get (db_sites demo_seo) 1 = Some s \<and> w_user s = Some 2)"
    by (simp add: demo_seo_site new_website_def)
  then have "fst (api_delete_website 1 2 demo_seo) \<noteq> Inr 1"
    unfolding website_deletion_ignores_roles [OF ok, symmetric] .
  ultimately show ?thesis ..
qed

section \<open>Domains with a port\<close>

text \<open>
  the ownership of a domain is looked up under its text, port included: an address with a port passes the check for
  every user, whoever owns the domain, when no stored domain has a colon.
\<close>

theorem port_evades_domain_check:
  assumes "list_all (\<lambda>(i, s). CHR '':'' \<notin> set (w_domain s)) (t_rows (db_sites w))"
    and "CHR ''/'' \<notin> set d" and "CHR ''/'' \<notin> set port"
  shows "verify_domain_ownership (d @ CHR '':'' # port) uid w = Inr None"
proof -
  have free: "str_remove p (d @ CHR '':'' # port) = d @ CHR '':'' # port" if "CHR ''/'' \<in> set p" for p
    using assms(2,3) that by (intro str_remove_free [of "CHR ''/''"]) auto
  have "before_char (CHR ''/'') (d @ CHR '':'' # port) = d @ CHR '':'' # port"
    using assms(2,3) unfolding before_char_def takeWhile_eq_all_conv by auto
  then have "CHR '':'' \<in> set (clean_domain (d @ CHR '':'' # port))"
    by (simp add: clean_domain_def free str_lower_def char_lower_def is_upper_def)
  then have "get_website_by_domain_unfiltered (d @ CHR '':'' # port) w = None"
    using assms(1) by (auto simp: get_website_by_domain_unfiltered_def t_first_def find_None_iff list_all_iff)
  then show ?thesis by (simp add: verify_domain_ownership_def)
qed

definition owned_domain_db :: seo_db where
  "owned_domain_db = demo_seo\<lparr>db_sites := snd (t_insert (new_website 1 None ''victim.com'' None 0) t_empty)\<rparr>"

theorem port_evades_domain_check_witness:
  "verify_domain_ownership ''victim.com:443'' 2 owned_domain_db = Inr None"
  using port_evades_domain_check [of owned_domain_db "''victim.com''" "''443''" 2]
  by (simp add: owned_domain_db_def demo_seo_def db.defs t_insert_def t_empty_def new_website_def)

end
