(* ===== verification/Audit_Logs.thy ===== *)
theory Audit_Logs
  imports User_Api
begin

text \<open>
  Reading the audit log: \<^verbatim>\<open>backend/api/audit_routes.py\<close> and the export of
  \<^verbatim>\<open>backend/services/audit_service.py\<close>. The rows come from \<^const>\<open>query_audit_logs\<close>; the text of a time stamp and of a floating
  point number are the parameters \<open>show_time\<close> and \<open>show_float\<close>.
\<close>

section \<open>Texts of JSON\<close>

text \<open>\<^verbatim>\<open>json.dumps\<close> escapes what is not a printable ASCII character.\<close>

definition hex_digit :: "nat \<Rightarrow> char" where
  "hex_digit n = (if n < 10 then char_of (48 + n) else char_of (87 + n))"

definition json_char :: "char \<Rightarrow> string" where
  "json_char c =
     (if c = CHR 0x22 then [CHR 0x5C, CHR 0x22]
      else if c = CHR 0x5C then [CHR 0x5C, CHR 0x5C]
      else if c = CHR 0x0A then [CHR 0x5C, CHR ''n'']
      else if c = CHR 0x0D then [CHR 0x5C, CHR ''r'']
      else if c = CHR 0x09 then [CHR 0x5C, CHR ''t'']
      else if c = CHR 0x0C then [CHR 0x5C, CHR ''f'']
      else if c = CHR 0x08 then [CHR 0x5C, CHR ''b'']
      else if of_char c < (32::nat) \<or> 126 < (of_char c :: nat)
      then [CHR 0x5C, CHR ''u'', CHR ''0'', CHR ''0'', hex_digit (of_char c div 16), hex_digit (of_char c mod 16)]
      else [c])"

definition json_str :: "string \<Rightarrow> string" where
  "json_str s = CHR 0x22 # concat (map json_char s) @ [CHR 0x22]"

text \<open>
  With an indentation every member is on a line of its own, otherwise the separators are a comma and a
  blank. A level is the number of blanks in front of the closing bracket.
\<close>

definition json_break :: "nat option \<Rightarrow> nat \<Rightarrow> string" where
  "json_break indent level = (case indent of None \<Rightarrow> [] | Some n \<Rightarrow> CHR 0x0A # replicate level (CHR '' ''))"

definition json_sep :: "nat option \<Rightarrow> nat \<Rightarrow> string" where
  "json_sep indent level = (case indent of None \<Rightarrow> '', '' | Some n \<Rightarrow> CHR '','' # json_break indent level)"

fun sep_concat :: "string \<Rightarrow> string list \<Rightarrow> string" where
  "sep_concat d [] = []"
| "sep_concat d [x] = x"
| "sep_concat d (x # y # zs) = x @ d @ sep_concat d (y # zs)"

definition json_group :: "nat option \<Rightarrow> nat \<Rightarrow> char \<Rightarrow> char \<Rightarrow> string list \<Rightarrow> string" where
  "json_group indent level opening closing ms =
     (if ms = [] then [opening, closing]
      else let inner = (case indent of None \<Rightarrow> 0 | Some n \<Rightarrow> level + n)
           in opening # json_break indent inner @ sep_concat (json_sep indent inner) ms @ json_break indent level @ [closing])"

fun json_dumps :: "(rat \<Rightarrow> string) \<Rightarrow> nat option \<Rightarrow> nat \<Rightarrow> pyval \<Rightarrow> string" where
  "json_dumps sf ind lev PNone = ''null''"
| "json_dumps sf ind lev (PBool b) = (if b then ''true'' else ''false'')"
| "json_dumps sf ind lev (PInt i) = int_str i"
| "json_dumps sf ind lev (PFloat r) = sf r"
| "json_dumps sf ind lev (PStr s) = json_str s"
| "json_dumps sf ind lev (PList vs) =
     json_group ind lev CHR ''['' CHR '']'' (map (json_dumps sf ind (lev + (case ind of None \<Rightarrow> 0 | Some n \<Rightarrow> n))) vs)"
| "json_dumps sf ind lev (PDict kvs) =
     json_group ind lev CHR ''{'' CHR ''}''
       (map (\<lambda>(k, v). json_str k @ '': '' @ json_dumps sf ind (lev + (case ind of None \<Rightarrow> 0 | Some n \<Rightarrow> n)) v) kvs)"

section \<open>The scope of a reader\<close>

text \<open>
  A member of the organization reads its entries. Otherwise the own entries can be asked for by name; every other
  request reads \<^verbatim>\<open>is_superuser\<close>, an attribute that users do not have.
\<close>

definition audit_scope :: "int option \<Rightarrow> int option \<Rightarrow> int \<Rightarrow> db \<Rightarrow> int option outcome" where
  "audit_scope user org uid w =
     (if key_given org
      then (case get_membership w (the org) uid of
              None \<Rightarrow> Inl (AppError (app_error ForbiddenException ''You are not a member of this organization''))
            | Some _ \<Rightarrow> Inr user)
      else if key_given user \<and> user \<noteq> Some uid then Inl (AttributeError ''is_superuser'')
      else if \<not> key_given user then Inl (AttributeError ''is_superuser'')
      else Inr user)"

record log_filter =
  lf_user :: "int option"
  lf_org :: "int option"
  lf_action :: "string option"
  lf_target :: "string option"
  lf_start :: "int option"
  lf_end :: "int option"
  lf_search :: "string option"

record log_page =
  lp_items :: "(int \<times> audit_entry) list"
  lp_total :: nat
  lp_page :: nat
  lp_size :: nat
  lp_pages :: int

definition read_logs ::
  "(string \<Rightarrow> string \<Rightarrow> bool) \<Rightarrow> log_filter \<Rightarrow> nat \<Rightarrow> nat \<Rightarrow> db \<Rightarrow> (int \<times> audit_entry) list \<times> nat" where
  "read_logs ilike f pageno psize w =
     query_audit_logs ilike (lf_user f) (lf_org f) (lf_action f) (lf_target f) (lf_start f) (lf_end f) (lf_search f)
       pageno psize w"

definition api_list_audit_logs ::
  "(string \<Rightarrow> string \<Rightarrow> bool) \<Rightarrow> log_filter \<Rightarrow> nat \<Rightarrow> nat \<Rightarrow> int \<Rightarrow> db \<Rightarrow> log_page outcome" where
  "api_list_audit_logs ilike f pageno psize uid w =
     (if pageno < 1 \<or> psize < 1 \<or> 500 < psize then Inl bad_query
      else (case audit_scope (lf_user f) (lf_org f) uid w of
              Inl e \<Rightarrow> Inl e
            | Inr user \<Rightarrow>
                (let (items, n) = read_logs ilike (f\<lparr>lf_user := user\<rparr>) pageno psize w
                 in Inr \<lparr>lp_items = items, lp_total = n, lp_page = pageno, lp_size = psize,
                         lp_pages = (if 0 < psize then \<lceil>of_nat n / (of_nat psize :: rat)\<rceil> else 0)\<rparr>)))"

section \<open>The export\<close>

definition log_header :: "string list" where
  "log_header = [''ID'', ''Timestamp'', ''Action'', ''User ID'', ''Organization ID'', ''Target Resource'', ''IP Address'',
     ''User Agent'', ''Details'']"

definition key_text :: "int option \<Rightarrow> string" where
  "key_text k = (if key_given k then int_str (the k) else [])"

definition log_row :: "(rat \<Rightarrow> string) \<Rightarrow> (int \<Rightarrow> string) \<Rightarrow> int \<times> audit_entry \<Rightarrow> string list" where
  "log_row show_float show_time = (\<lambda>(i, e).
     [int_str i, show_time (al_created e), al_action e, key_text (al_user e), key_text (al_org e),
      or_else (al_target e) [], or_else (al_ip e) [], or_else (al_agent e) [],
      (if al_details e = [] then [] else json_dumps show_float None 0 (PDict (al_details e)))])"

definition log_value :: "(int \<Rightarrow> string) \<Rightarrow> int \<times> audit_entry \<Rightarrow> pyval" where
  "log_value show_time = (\<lambda>(i, e).
     PDict [(''id'', PInt i), (''user_id'', key_or_null (al_user e)), (''organization_id'', key_or_null (al_org e)),
            (''action'', PStr (al_action e)), (''target_resource'', text_or_null (al_target e)),
            (''ip_address'', text_or_null (al_ip e)), (''user_agent'', text_or_null (al_agent e)),
            (''details'', PDict (al_details e)), (''created_at'', PStr (show_time (al_created e)))])"

definition export_audit_logs ::
  "(rat \<Rightarrow> string) \<Rightarrow> (int \<Rightarrow> string) \<Rightarrow> (string \<Rightarrow> string \<Rightarrow> bool) \<Rightarrow> log_filter \<Rightarrow> string \<Rightarrow> db \<Rightarrow> string" where
  "export_audit_logs show_float show_time ilike f format w =
     (let items = fst (read_logs ilike f 1 5000 w)
      in if str_lower format = ''json''
         then json_dumps show_float (Some 2) 0 (PList (map (log_value show_time) items))
         else concat (map csv_line (log_header # map (log_row show_float show_time) items)))"

definition api_export_audit_logs ::
  "(rat \<Rightarrow> string) \<Rightarrow> (int \<Rightarrow> string) \<Rightarrow> (string \<Rightarrow> string \<Rightarrow> bool) \<Rightarrow> log_filter \<Rightarrow> string \<Rightarrow> int \<Rightarrow> db
     \<Rightarrow> (string \<times> string) outcome" where
  "api_export_audit_logs show_float show_time ilike f format uid w =
     (if format \<notin> {''csv'', ''json''} then Inl bad_query
      else (case audit_scope (lf_user f) (lf_org f) uid w of
              Inl e \<Rightarrow> Inl e
            | Inr user \<Rightarrow>
                Inr (if str_lower format = ''json'' then ''application/json'' else ''text/csv'',
                     export_audit_logs show_float show_time ilike (f\<lparr>lf_user := user\<rparr>) format w)))"

end
