(* ===== verification/Audit_Logs_Props.thy ===== *)
theory Audit_Logs_Props
  imports Audit_Logs
begin

text \<open>
  Who reads which entries of the audit log, and that the exported file can be read back.
\<close>

section \<open>Reading a CSV file\<close>

text \<open>
  A reader of the format, after the states of \<^verbatim>\<open>csv.reader\<close>: the start of a field, inside a field, inside
  a quoted field, behind a quote in one, and behind a carriage return.
\<close>

datatype csv_mode = FieldStart | Plain | Quoted | QuoteSeen | AfterCR

fun csv_go :: "csv_mode \<Rightarrow> string \<Rightarrow> string list \<Rightarrow> string \<Rightarrow> string list list" where
  "csv_go m fd row [] = (if m = AfterCR \<or> (m = FieldStart \<and> row = []) then [] else [row @ [fd]])"
| "csv_go Quoted fd row (c # cs) =
     (if c = CHR 0x22 then csv_go QuoteSeen fd row cs else csv_go Quoted (fd @ [c]) row cs)"
| "csv_go m fd row (c # cs) =
     (if m = AfterCR \<and> c = CHR 0x0A then csv_go FieldStart [] [] cs
      else if c = CHR 0x22 \<and> m \<noteq> Plain then csv_go Quoted (if m = QuoteSeen then fd @ [c] else fd) row cs
      else if c = CHR '','' then csv_go FieldStart [] (row @ [fd]) cs
      else if c = CHR 0x0D then (row @ [fd]) # csv_go AfterCR [] [] cs
      else if c = CHR 0x0A then (row @ [fd]) # csv_go FieldStart [] [] cs
      else csv_go Plain (fd @ [c]) row cs)"

definition csv_read :: "string \<Rightarrow> string list list" where
  "csv_read s = csv_go FieldStart [] [] s"

lemma go_plain:
  "\<not> csv_special f \<Longrightarrow> csv_go Plain fd row (f @ s) = csv_go Plain (fd @ f) row s"
  by (induction f arbitrary: fd) (auto simp: csv_special_def)

lemma go_quoted:
  "csv_go Quoted fd row (concat (map (\<lambda>c. if c = CHR 0x22 then [CHR 0x22, CHR 0x22] else [c]) f) @ CHR 0x22 # s)
     = csv_go QuoteSeen (fd @ f) row s"
  by (induction f arbitrary: fd) auto

lemma go_field_comma:
  "csv_go FieldStart [] row (csv_field f @ CHR '','' # s) = csv_go FieldStart [] (row @ [f]) s"
proof (cases "csv_special f")
  case True
  then show ?thesis by (simp add: csv_field_def go_quoted)
next
  case False
  then show ?thesis
    by (cases f) (auto simp: csv_field_def csv_special_def go_plain [unfolded csv_special_def])
qed

lemma go_field_line:
  "csv_go FieldStart [] row (csv_field f @ CHR 0x0D # CHR 0x0A # s) = (row @ [f]) # csv_go FieldStart [] [] s"
proof (cases "csv_special f")
  case True
  then show ?thesis by (simp add: csv_field_def go_quoted)
next
  case False
  then show ?thesis
    by (cases f) (auto simp: csv_field_def csv_special_def go_plain [unfolded csv_special_def])
qed

lemma go_line: "fs \<noteq> [] \<Longrightarrow> csv_go FieldStart [] row (csv_line fs @ s) = (row @ fs) # csv_go FieldStart [] [] s"
  by (induction fs arbitrary: row rule: csv_fields.induct)
    (simp_all add: csv_line_def go_field_comma go_field_line)

lemma csv_read_lines: "list_all (\<lambda>fs. fs \<noteq> []) rows \<Longrightarrow> csv_read (concat (map csv_line rows)) = rows"
  unfolding csv_read_def by (induction rows) (simp_all add: go_line)

text \<open>
  C35: the CSV file of an export can be read back: its first row is the header and the others are the fields of the
  entries, whatever commas, quotes and line ends they have.
\<close>

theorem exported_logs_can_be_read:
  "csv_read (export_audit_logs show_float show_time ilike f ''csv'' w)
     = log_header # map (log_row show_float show_time) (fst (read_logs ilike f 1 5000 w))"
proof -
  have csv: "str_lower ''csv'' \<noteq> ''json''" by code_simp
  have "list_all (\<lambda>fs. fs \<noteq> []) (log_header # map (log_row show_float show_time) items)" for items
    by (auto simp: list_all_iff log_header_def log_row_def)
  from csv_read_lines [OF this] show ?thesis by (simp only: export_audit_logs_def Let_def csv if_False)
qed

section \<open>The scope\<close>

lemma read_logs_row:
  assumes "(i, e) \<in> set (fst (read_logs ilike f pageno psize w))"
  shows "(i, e) \<in> set (t_rows (db_audit w))"
    and "lf_user f = Some u \<Longrightarrow> al_user e = Some u" and "lf_org f = Some k \<Longrightarrow> al_org e = Some k"
proof -
  have "(i, e) \<in> set (t_where (\<lambda>i e. audit_filter ilike (lf_user f) (lf_org f) (lf_action f) (lf_target f) (lf_start f)
      (lf_end f) (lf_search f) e) (db_audit w))"
    using assms unfolding read_logs_def query_audit_logs_def Let_def fst_conv
    by (auto simp: order_rows_def dest!: in_set_takeD in_set_dropD)
  then show "(i, e) \<in> set (t_rows (db_audit w))"
    and "lf_user f = Some u \<Longrightarrow> al_user e = Some u" and "lf_org f = Some k \<Longrightarrow> al_org e = Some k"
    by (simp_all add: t_where_def audit_filter_def Let_def)
qed

text \<open>
  without an organization and without the own number there is no answer, for nobody: the handler reads an attribute
  of the user that the table does not have.
\<close>

theorem own_logs_need_a_number:
  "api_list_audit_logs ilike \<lparr>lf_user = None, lf_org = None, lf_action = action, lf_target = target, lf_start = from_date,
      lf_end = to_date, lf_search = search\<rparr> pageno psize uid w
    = Inl (if 1 \<le> pageno \<and> 1 \<le> psize \<and> psize \<le> 500 then AttributeError ''is_superuser'' else bad_query)"
  by (auto simp: api_list_audit_logs_def audit_scope_def key_given_def)

text \<open>
  C31: an answer has entries of the reader or of an organization the reader is a member of only, no more than the size of the
  page, and as many pages are announced as the entries fill.
\<close>

theorem logs_are_scoped:
  assumes "api_list_audit_logs ilike f pageno psize uid w = Inr p"
  shows "list_all (\<lambda>(i, e). (i, e) \<in> set (t_rows (db_audit w)) \<and>
      (al_user e = Some uid \<or> (\<exists>oid. al_org e = Some oid \<and> get_membership w oid uid \<noteq> None))) (lp_items p)
    \<and> length (lp_items p) \<le> psize
    \<and> of_int (lp_pages p - 1) * of_nat psize < (of_nat (lp_total p) :: rat)
    \<and> (of_nat (lp_total p) :: rat) \<le> of_int (lp_pages p) * of_nat psize"
proof -
  obtain user where scope: "audit_scope (lf_user f) (lf_org f) uid w = Inr user" and size: "1 \<le> psize"
    and p: "p = \<lparr>lp_items = fst (read_logs ilike (f\<lparr>lf_user := user\<rparr>) pageno psize w),
        lp_total = snd (read_logs ilike (f\<lparr>lf_user := user\<rparr>) pageno psize w), lp_page = pageno, lp_size = psize,
        lp_pages = \<lceil>of_nat (snd (read_logs ilike (f\<lparr>lf_user := user\<rparr>) pageno psize w)) / (of_nat psize :: rat)\<rceil>\<rparr>"
    using assms by (auto simp: api_list_audit_logs_def split: if_splits sum.splits prod.splits)
  have who: "lf_user (f\<lparr>lf_user := user\<rparr>) = Some uid
      \<or> (\<exists>oid. lf_org (f\<lparr>lf_user := user\<rparr>) = Some oid \<and> get_membership w oid uid \<noteq> None)"
    using scope by (auto simp: audit_scope_def key_given_def split: if_splits option.splits)
  have "(i, e) \<in> set (t_rows (db_audit w)) \<and>
      (al_user e = Some uid \<or> (\<exists>oid. al_org e = Some oid \<and> get_membership w oid uid \<noteq> None))"
    if "(i, e) \<in> set (lp_items p)" for i e
    using who read_logs_row [of i e ilike "f\<lparr>lf_user := user\<rparr>" pageno psize w] that unfolding p log_page.simps by blast
  moreover have "length (lp_items p) \<le> psize" by (simp add: p read_logs_def query_audit_logs_def Let_def)
  moreover have "of_int (\<lceil>of_nat n / (of_nat psize :: rat)\<rceil> - 1) * of_nat psize < (of_nat n :: rat)" for n
    using ceiling_correct [of "of_nat n / (of_nat psize :: rat)"] size by (simp add: pos_less_divide_eq)
  moreover have "(of_nat n :: rat) \<le> of_int \<lceil>of_nat n / (of_nat psize :: rat)\<rceil> * of_nat psize" for n
    using size by (intro iffD1 [OF pos_divide_le_eq le_of_int_ceiling]) simp
  ultimately show ?thesis by (auto simp: list_all_iff p)
qed

definition demo_log :: db where
  "demo_log = log_audit_event ''user.login'' (Some 2) None None None None []
     (log_audit_event ''user.login'' (Some 1) None None None None [] (db_empty False 5))"

definition own_logs :: log_filter where
  "own_logs = \<lparr>lf_user = Some 1, lf_org = None, lf_action = None, lf_target = None, lf_start = None, lf_end = None,
     lf_search = None\<rparr>"

theorem logs_are_scoped_witness:
  "\<exists>p. api_list_audit_logs (\<lambda>a b. True) own_logs 1 10 1 demo_log = Inr p \<and> lp_total p = 1 \<and>
     list_all (\<lambda>(i, e). (i, e) \<in> set (t_rows (db_audit demo_log)) \<and>
       (al_user e = Some 1 \<or> (\<exists>oid. al_org e = Some oid \<and> get_membership demo_log oid 1 \<noteq> None))) (lp_items p)"
proof -
  have "map_sum id lp_total (api_list_audit_logs (\<lambda>a b. True) own_logs 1 10 1 demo_log) = Inr 1"
    by code_simp
  then obtain p where p: "api_list_audit_logs (\<lambda>a b. True) own_logs 1 10 1 demo_log = Inr p" "lp_total p = 1"
    by (cases "api_list_audit_logs (\<lambda>a b. True) own_logs 1 10 1 demo_log") auto
  then show ?thesis using logs_are_scoped [OF p(1)] by blast
qed

end
