(* ===== verification/Crawl_Lifecycle.thy ===== *)
theory Crawl_Lifecycle
  imports Urls
begin

text \<open>
  \<^verbatim>\<open>backend/services/crawl_lifecycle_service.py\<close>: the crawls and pages that are kept in two dictionaries of the class. Time is
  in microseconds. The data of a page is what the dictionary of the caller has: a key that is missing is \<^const>\<open>None\<close>, a
  value that may be null is an option again.
\<close>

section \<open>State\<close>

record lc_crawl =
  lc_id :: int
  lc_website :: int
  lc_status :: string
  lc_progress :: int
  lc_found :: int
  lc_issues :: int
  lc_duration :: "int option"
  lc_started :: "int option"
  lc_finished :: "int option"
  lc_error :: "string option"
  lc_created :: int
  lc_updated :: int

record lc_page =
  cg_id :: int
  cg_crawl :: int
  cg_url :: string
  cg_depth :: int
  cg_status :: "int option"
  cg_type :: "string option"
  cg_title :: "string option"
  cg_description :: "string option"
  cg_canonical :: "string option"
  cg_h1 :: "string option"
  cg_words :: int
  cg_internal :: int
  cg_external :: int
  cg_noindex :: bool
  cg_nofollow :: bool
  cg_redirect :: "string option"
  cg_response :: "int option"
  cg_created :: int

record lc_page_data =
  gd_url :: "string option"
  gd_depth :: "int option"
  gd_status :: "int option option"
  gd_type :: "string option option"
  gd_title :: "string option"
  gd_description :: "string option"
  gd_canonical :: "string option"
  gd_h1 :: "string option"
  gd_words :: "int option"
  gd_internal :: "int option"
  gd_external :: "int option"
  gd_noindex :: bool
  gd_nofollow :: bool
  gd_redirect :: "string option"
  gd_response :: "int option"

record lifecycle =
  ly_crawls :: "(int, lc_crawl) py_dict"
  ly_pages :: "(int, lc_page) py_dict"
  ly_next :: int

definition lifecycle_init :: lifecycle where
  "lifecycle_init = \<lparr>ly_crawls = [], ly_pages = [], ly_next = 1\<rparr>"

section \<open>Crawls\<close>

definition register_crawl :: "int \<Rightarrow> int \<Rightarrow> int \<Rightarrow> string \<Rightarrow> lifecycle \<Rightarrow> lc_crawl \<times> lifecycle" where
  "register_crawl now crawl_id website_id status s =
     (let c = \<lparr>lc_id = crawl_id, lc_website = website_id, lc_status = status, lc_progress = 0, lc_found = 0, lc_issues = 0,
               lc_duration = None, lc_started = None, lc_finished = None, lc_error = None, lc_created = now,
               lc_updated = now\<rparr>
      in (c, s\<lparr>ly_crawls := d_set crawl_id c (ly_crawls s)\<rparr>))"

text \<open>A crawl that is there is changed in place.\<close>

definition change_crawl :: "int \<Rightarrow> (lc_crawl \<Rightarrow> lc_crawl) \<Rightarrow> lifecycle \<Rightarrow> lc_crawl option \<times> lifecycle" where
  "change_crawl crawl_id f s =
     (case d_get (ly_crawls s) crawl_id of
        None \<Rightarrow> (None, s)
      | Some c \<Rightarrow> (Some (f c), s\<lparr>ly_crawls := d_set crawl_id (f c) (ly_crawls s)\<rparr>))"

definition start_crawl :: "int \<Rightarrow> int \<Rightarrow> lifecycle \<Rightarrow> lc_crawl option \<times> lifecycle" where
  "start_crawl now crawl_id s =
     change_crawl crawl_id
       (\<lambda>c. c\<lparr>lc_status := ''running'',
             lc_started := (case lc_started c of None \<Rightarrow> Some now | Some t \<Rightarrow> Some t), lc_updated := now\<rparr>) s"

definition pause_crawl :: "int \<Rightarrow> int \<Rightarrow> lifecycle \<Rightarrow> lc_crawl option \<times> lifecycle" where
  "pause_crawl now crawl_id s = change_crawl crawl_id (\<lambda>c. c\<lparr>lc_status := ''paused'', lc_updated := now\<rparr>) s"

definition resume_crawl :: "int \<Rightarrow> int \<Rightarrow> lifecycle \<Rightarrow> lc_crawl option \<times> lifecycle" where
  "resume_crawl now crawl_id s = change_crawl crawl_id (\<lambda>c. c\<lparr>lc_status := ''running'', lc_updated := now\<rparr>) s"

definition whole_seconds :: "int \<Rightarrow> int" where
  "whole_seconds d = (if 0 \<le> d then d div 1000000 else - ((- d) div 1000000))"

definition stop_crawl :: "int \<Rightarrow> int \<Rightarrow> lifecycle \<Rightarrow> lc_crawl option \<times> lifecycle" where
  "stop_crawl now crawl_id s =
     change_crawl crawl_id
       (\<lambda>c. c\<lparr>lc_status := ''stopped'', lc_finished := Some now,
             lc_duration := (case lc_started c of None \<Rightarrow> lc_duration c | Some t \<Rightarrow> Some (whole_seconds (now - t))),
             lc_updated := now\<rparr>) s"

section \<open>Pages\<close>

definition or_key :: "'a option \<Rightarrow> 'a \<Rightarrow> 'a" where
  "or_key v d = (case v of None \<Rightarrow> d | Some x \<Rightarrow> x)"

definition mk_lc_page :: "int \<Rightarrow> int \<Rightarrow> int \<Rightarrow> lc_page_data \<Rightarrow> lc_page" where
  "mk_lc_page now page_id crawl_id d =
     \<lparr>cg_id = page_id, cg_crawl = crawl_id, cg_url = or_key (gd_url d) [], cg_depth = or_key (gd_depth d) 0,
      cg_status = or_key (gd_status d) (Some 200), cg_type = or_key (gd_type d) (Some ''text/html''),
      cg_title = gd_title d, cg_description = gd_description d, cg_canonical = gd_canonical d, cg_h1 = gd_h1 d,
      cg_words = or_key (gd_words d) 0, cg_internal = or_key (gd_internal d) 0, cg_external = or_key (gd_external d) 0,
      cg_noindex = gd_noindex d, cg_nofollow = gd_nofollow d, cg_redirect = gd_redirect d,
      cg_response = gd_response d, cg_created = now\<rparr>"

definition lc_add_page :: "int \<Rightarrow> int \<Rightarrow> lc_page_data \<Rightarrow> lifecycle \<Rightarrow> lc_page \<times> lifecycle" where
  "lc_add_page now crawl_id d s =
     (let page_id = ly_next s; p = mk_lc_page now page_id crawl_id d;
          s1 = s\<lparr>ly_next := page_id + 1, ly_pages := d_set page_id p (ly_pages s)\<rparr>
      in (p, snd (change_crawl crawl_id (\<lambda>c. c\<lparr>lc_found := lc_found c + 1\<rparr>) s1)))"

definition list_pages :: "int \<Rightarrow> lifecycle \<Rightarrow> lc_page list" where
  "list_pages crawl_id s = filter (\<lambda>p. cg_crawl p = crawl_id) (map snd (ly_pages s))"

definition get_page :: "int \<Rightarrow> int \<Rightarrow> lifecycle \<Rightarrow> lc_page option" where
  "get_page crawl_id page_id s =
     (case d_get (ly_pages s) page_id of
        None \<Rightarrow> None
      | Some p \<Rightarrow> if cg_crawl p \<noteq> crawl_id then None else Some p)"

section \<open>Status\<close>

record lc_stats =
  ls_total :: nat
  ls_html :: nat
  ls_redirects :: nat
  ls_broken :: nat

definition code_of :: "lc_page \<Rightarrow> int" where
  "code_of p = (case cg_status p of None \<Rightarrow> 0 | Some c \<Rightarrow> c)"

definition lc_stats_of :: "lc_page list \<Rightarrow> lc_stats" where
  "lc_stats_of ps =
     \<lparr>ls_total = length ps,
      ls_html = length (filter (\<lambda>p. str_contains (str_lower (or_key (cg_type p) [])) ''html'') ps),
      ls_redirects = length (filter (\<lambda>p. 300 \<le> code_of p \<and> code_of p < 400) ps),
      ls_broken = length (filter (\<lambda>p. 400 \<le> code_of p \<or> code_of p = 0) ps)\<rparr>"

definition get_status :: "int \<Rightarrow> lifecycle \<Rightarrow> (lc_crawl \<times> lc_stats) option" where
  "get_status crawl_id s =
     (case d_get (ly_crawls s) crawl_id of
        None \<Rightarrow> None
      | Some c \<Rightarrow> Some (c, lc_stats_of (list_pages crawl_id s)))"

section \<open>Runs\<close>

datatype lifecycle_event =
    Register int int string
  | Begin int
  | Pause int
  | Resume int
  | Stop int
  | AddPage int lc_page_data

fun lifecycle_step :: "(int \<Rightarrow> int) \<Rightarrow> lifecycle \<Rightarrow> int \<times> lifecycle_event \<Rightarrow> lifecycle" where
  "lifecycle_step clock s (t, Register c w st) = snd (register_crawl (clock t) c w st s)"
| "lifecycle_step clock s (t, Begin c) = snd (start_crawl (clock t) c s)"
| "lifecycle_step clock s (t, Pause c) = snd (pause_crawl (clock t) c s)"
| "lifecycle_step clock s (t, Resume c) = snd (resume_crawl (clock t) c s)"
| "lifecycle_step clock s (t, Stop c) = snd (stop_crawl (clock t) c s)"
| "lifecycle_step clock s (t, AddPage c d) = snd (lc_add_page (clock t) c d s)"

definition lifecycle_ok :: "lifecycle \<Rightarrow> bool" where
  "lifecycle_ok s \<longleftrightarrow> d_wf (ly_pages s)
     \<and> (\<forall>i p. d_get (ly_pages s) i = Some p \<longrightarrow> cg_id p = i \<and> i < ly_next s)
     \<and> (\<forall>i c. d_get (ly_crawls s) i = Some c \<longrightarrow> lc_id c = i)"

lemma change_crawl_facts [simp]:
  "ly_pages (snd (change_crawl k f s)) = ly_pages s" "ly_next (snd (change_crawl k f s)) = ly_next s"
  "d_get (ly_crawls (snd (change_crawl k f s))) i =
     (if i = k then map_option f (d_get (ly_crawls s) i) else d_get (ly_crawls s) i)"
  by (auto simp: change_crawl_def split: option.split)

lemma change_crawl_ok:
  "lifecycle_ok s \<Longrightarrow> (\<And>c. lc_id (f c) = lc_id c) \<Longrightarrow> lifecycle_ok (snd (change_crawl k f s))"
  by (auto simp: lifecycle_ok_def)

lemma fresh_page: "lifecycle_ok s \<Longrightarrow> ly_next s \<notin> set (d_keys (ly_pages s))"
proof -
  assume "lifecycle_ok s"
  then have "d_get (ly_pages s) (ly_next s) = None"
    by (cases "d_get (ly_pages s) (ly_next s)") (force simp: lifecycle_ok_def)+
  then show ?thesis by (simp add: map_of_eq_None_iff)
qed

lemma lifecycle_step_ok: "lifecycle_ok s \<Longrightarrow> lifecycle_ok (lifecycle_step clock s e)"
proof (cases e)
  case (Pair t ev)
  assume ok: "lifecycle_ok s"
  show ?thesis
  proof (cases ev)
    case (AddPage c d)
    let ?p = "mk_lc_page (clock t) (ly_next s) c d"
    have old: "cg_id p = i \<and> i < ly_next s + 1" if "d_get (ly_pages s) i = Some p" for i p
    proof -
      have "cg_id p = i \<and> i < ly_next s" using ok that by (simp add: lifecycle_ok_def)
      then show ?thesis by simp
    qed
    have "cg_id ?p = ly_next s" by (simp add: mk_lc_page_def)
    with ok old have "lifecycle_ok (s\<lparr>ly_next := ly_next s + 1, ly_pages := d_set (ly_next s) ?p (ly_pages s)\<rparr>)"
      by (simp add: lifecycle_ok_def)
    then show ?thesis by (simp add: Pair AddPage lc_add_page_def Let_def change_crawl_ok)
  next
    case (Register c w st)
    then show ?thesis using ok by (auto simp: Pair register_crawl_def Let_def lifecycle_ok_def)
  qed (use ok in \<open>auto simp: Pair start_crawl_def pause_crawl_def resume_crawl_def stop_crawl_def intro!: change_crawl_ok\<close>)
qed

interpretation lifecycle_runs: machine "lifecycle_step clock" lifecycle_ok for clock
  by unfold_locales (rule lifecycle_step_ok)

abbreviation lifecycle_run :: "(int \<Rightarrow> int) \<Rightarrow> (int \<times> lifecycle_event) list \<Rightarrow> lifecycle" where
  "lifecycle_run clock es \<equiv> foldl (lifecycle_step clock) lifecycle_init es"

lemma lifecycle_run_ok: "lifecycle_ok (lifecycle_run clock es)"
  by (rule lifecycle_runs.run_inv) (simp add: lifecycle_ok_def lifecycle_init_def)

section \<open>Counting\<close>

definition registers :: "int \<Rightarrow> int \<times> lifecycle_event \<Rightarrow> bool" where
  "registers c e = (case snd e of Register k w st \<Rightarrow> k = c | _ \<Rightarrow> False)"

definition adds :: "int \<Rightarrow> int \<times> lifecycle_event \<Rightarrow> bool" where
  "adds c e = (case snd e of AddPage k d \<Rightarrow> k = c | _ \<Rightarrow> False)"

lemma found_step:
  "map_option lc_found (d_get (ly_crawls (lifecycle_step clock s e)) c) =
     (if registers c e then Some 0
      else map_option (\<lambda>k. lc_found k + (if adds c e then 1 else 0)) (d_get (ly_crawls s) c))"
proof (cases e)
  case (Pair t ev)
  then show ?thesis
    by (cases ev) (auto simp: registers_def adds_def register_crawl_def start_crawl_def pause_crawl_def resume_crawl_def
        stop_crawl_def lc_add_page_def Let_def option.map_comp comp_def)
qed

lemma pages_step:
  assumes "lifecycle_ok s"
  shows "length (list_pages c (lifecycle_step clock s e)) = length (list_pages c s) + (if adds c e then 1 else 0)"
proof (cases e)
  case (Pair t ev)
  then show ?thesis
    using d_set_fresh [OF fresh_page [OF assms]]
    by (cases ev) (auto simp: adds_def register_crawl_def start_crawl_def pause_crawl_def resume_crawl_def
        stop_crawl_def lc_add_page_def Let_def list_pages_def mk_lc_page_def)
qed

text \<open>
  after any run of operations the counter of a crawl is the number of pages that were added to it since its last
  registration, while the listing has all pages that were ever added for its number: a crawl that is registered again counts from zero and
  lists the pages of its earlier life.
\<close>

theorem pages_are_counted:
  "map_option lc_found (d_get (ly_crawls (lifecycle_run clock es)) c) =
     (if list_ex (registers c) es
      then Some (int (length (filter (adds c) (takeWhile (\<lambda>e. \<not> registers c e) (rev es))))) else None)
   \<and> length (list_pages c (lifecycle_run clock es)) = length (filter (adds c) es)"
proof (induction es rule: rev_induct)
  case Nil
  show ?case by (simp add: lifecycle_init_def list_pages_def)
next
  case (snoc e es)
  let ?s = "lifecycle_run clock es"
  have step: "lifecycle_run clock (es @ [e]) = lifecycle_step clock ?s e" by simp
  have "length (list_pages c (lifecycle_run clock (es @ [e]))) = length (filter (adds c) (es @ [e]))"
    using snoc pages_step [OF lifecycle_run_ok, of c clock clock es e] unfolding step by simp
  moreover have "\<not> adds c e" if "registers c e" using that by (auto simp: adds_def registers_def split: lifecycle_event.splits)
  moreover have "map_option (\<lambda>k. lc_found k + n) (d_get (ly_crawls ?s) c) =
      map_option (\<lambda>k. k + n) (map_option lc_found (d_get (ly_crawls ?s) c))" for n
    by (simp add: option.map_comp comp_def)
  ultimately show ?case using snoc unfolding step found_step by auto
qed

text \<open>
  after any run a page is found under its number for exactly the crawl that lists it.
\<close>

theorem pages_are_found:
  "get_page c i (lifecycle_run clock es) = Some p \<longleftrightarrow> p \<in> set (list_pages c (lifecycle_run clock es)) \<and> cg_id p = i"
proof -
  have ok: "lifecycle_ok (lifecycle_run clock es)" by (rule lifecycle_run_ok)
  have "d_get (ly_pages s) (cg_id p) = Some p" if "lifecycle_ok s" "p \<in> snd ` set (ly_pages s)" for s
  proof -
    from that(2) obtain k where "(k, p) \<in> set (ly_pages s)" by auto
    then have "d_get (ly_pages s) k = Some p" using that(1) by (simp add: lifecycle_ok_def d_wf_def)
    then show ?thesis using that(1) by (auto simp: lifecycle_ok_def)
  qed
  note found = this
  have "p \<in> snd ` set (ly_pages (lifecycle_run clock es)) \<and> cg_id p = i
      \<longleftrightarrow> d_get (ly_pages (lifecycle_run clock es)) i = Some p"
  proof
    show "d_get (ly_pages (lifecycle_run clock es)) i = Some p
        \<Longrightarrow> p \<in> snd ` set (ly_pages (lifecycle_run clock es)) \<and> cg_id p = i"
      using ok by (auto simp: lifecycle_ok_def intro: image_eqI [of _ snd "(i, p)"] dest: map_of_SomeD)
  qed (use ok found in blast)
  then show ?thesis by (auto simp: get_page_def list_pages_def split: option.splits if_splits)
qed

text \<open>
  the operations have no guards: a crawl that was stopped runs again after a resumption, with the end and the duration of the
  first run, and one that was never started can be stopped.
\<close>

theorem stopped_crawl_runs_again:
  assumes "d_get (ly_crawls s) k = Some c"
  shows "\<exists>c'. fst (resume_crawl t2 k (snd (stop_crawl t1 k s))) = Some c' \<and> lc_status c' = ''running''
    \<and> lc_finished c' = Some t1 \<and> lc_started c' = lc_started c
    \<and> lc_duration c' = (case lc_started c of None \<Rightarrow> lc_duration c | Some t \<Rightarrow> Some (whole_seconds (t1 - t)))"
  using assms by (auto simp: resume_crawl_def stop_crawl_def change_crawl_def)

definition stopped_run :: lifecycle where
  "stopped_run = snd (start_crawl 1000000 7 (snd (register_crawl 0 7 3 ''queued'' lifecycle_init)))"

theorem stopped_crawl_runs_again_witness:
  "\<exists>c'. fst (resume_crawl 9000000 7 (snd (stop_crawl 4500000 7 stopped_run))) = Some c' \<and> lc_status c' = ''running''
    \<and> lc_duration c' = Some 3"
proof -
  obtain c where c: "d_get (ly_crawls stopped_run) 7 = Some c" "lc_started c = Some 1000000"
    by (simp add: stopped_run_def start_crawl_def change_crawl_def register_crawl_def Let_def lifecycle_init_def)
  from stopped_crawl_runs_again [OF c(1), of 9000000 4500000] c(2) show ?thesis
    by (auto simp: whole_seconds_def)
qed

end
