(* ===== verification/Compression.thy ===== *)
theory Compression
  imports Prelude
begin

text \<open>
  \<^verbatim>\<open>AdvancedCompressionMiddleware\<close> of \<^verbatim>\<open>backend/compression.py\<close>: the messages of one response on their way to the server. Bytes are
  texts of code points below 256, the compressors are parameters that may fail, and sending is taken to succeed.
\<close>

section \<open>Messages\<close>

type_synonym raw_headers = "(string \<times> string) list"

datatype asgi_message =
    ResponseStart int raw_headers
  | ResponseBody string bool
  | OtherMessage string

record compression =
  cm_minimum :: nat
  cm_has_brotli :: bool
  cm_brotli :: "string \<Rightarrow> string option"
  cm_gzip :: "string \<Rightarrow> string option"

definition header_of :: "string \<Rightarrow> raw_headers \<Rightarrow> string option" where
  "header_of name hs = map_option snd (find (\<lambda>(k, v). str_lower k = name) hs)"

text \<open>The encoding for a request: brotli, if it is installed, before gzip.\<close>

datatype encoding = UseBrotli | UseGzip

definition chosen_encoding :: "compression \<Rightarrow> raw_headers \<Rightarrow> encoding option" where
  "chosen_encoding cm request_headers =
     (let accept = str_lower (case header_of ''accept-encoding'' request_headers of None \<Rightarrow> [] | Some v \<Rightarrow> v);
          use_br = (cm_has_brotli cm \<and> str_contains accept ''br'');
          use_gzip = (str_contains accept ''gzip'' \<and> \<not> use_br)
      in if use_br then Some UseBrotli else if use_gzip then Some UseGzip else None)"

definition encoder :: "compression \<Rightarrow> encoding \<Rightarrow> string \<Rightarrow> string option" where
  "encoder cm e = (case e of UseBrotli \<Rightarrow> cm_brotli cm | UseGzip \<Rightarrow> cm_gzip cm)"

definition encoding_name :: "encoding \<Rightarrow> string" where
  "encoding_name e = (case e of UseBrotli \<Rightarrow> ''br'' | UseGzip \<Rightarrow> ''gzip'')"

section \<open>The wrapped send\<close>

record send_state =
  ss_initial :: "(int \<times> raw_headers) option"
  ss_started :: bool

definition send_init :: send_state where
  "send_init = \<lparr>ss_initial = None, ss_started = False\<rparr>"

definition new_headers :: "string \<Rightarrow> string \<Rightarrow> raw_headers \<Rightarrow> raw_headers" where
  "new_headers enc body hs =
     filter (\<lambda>(k, v). str_lower k \<notin> {''content-length'', ''content-encoding''}) hs
       @ [(''content-encoding'', enc), (''content-length'', int_str (int (length body)))]"

text \<open>
  A start is held back. The first body message decides: the only one of its response is compressed when it is
  large enough; if there is no start yet, or the compressor fails, it goes on as it is. Messages of other
  types are swallowed.
\<close>

definition compressed_body :: "compression \<Rightarrow> encoding \<Rightarrow> string \<Rightarrow> bool \<Rightarrow> send_state \<Rightarrow> asgi_message list option" where
  "compressed_body cm e body follows st =
     (if \<not> ss_started st \<and> \<not> follows \<and> cm_minimum cm \<le> length body
      then (case (encoder cm e body, ss_initial st) of
              (Some z, Some (status, hs)) \<Rightarrow>
                Some [ResponseStart status (new_headers (encoding_name e) z hs), ResponseBody z False]
            | _ \<Rightarrow> None)
      else None)"

definition custom_send :: "compression \<Rightarrow> encoding \<Rightarrow> asgi_message \<Rightarrow> send_state \<Rightarrow> asgi_message list \<times> send_state" where
  "custom_send cm e m st =
     (case m of
        ResponseStart status hs \<Rightarrow> ([], st\<lparr>ss_initial := Some (status, hs)\<rparr>)
      | ResponseBody body follows \<Rightarrow>
          (case compressed_body cm e body follows st of
             Some ms \<Rightarrow> (ms, st\<lparr>ss_started := True\<rparr>)
           | None \<Rightarrow>
               (case ss_initial st of
                  Some (status, hs) \<Rightarrow>
                    if ss_started st then ([m], st)
                    else ([ResponseStart status hs, m], st\<lparr>ss_started := True\<rparr>)
                | None \<Rightarrow> ([m], st)))
      | OtherMessage t \<Rightarrow> ([], st))"

fun send_all :: "compression \<Rightarrow> encoding \<Rightarrow> asgi_message list \<Rightarrow> send_state \<Rightarrow> asgi_message list" where
  "send_all cm e [] st = []"
| "send_all cm e (m # ms) st = (case custom_send cm e m st of (out, st') \<Rightarrow> out @ send_all cm e ms st')"

text \<open>What the server gets of the messages of the application; only http is touched.\<close>

definition compress_response ::
  "compression \<Rightarrow> string \<Rightarrow> raw_headers \<Rightarrow> asgi_message list \<Rightarrow> asgi_message list" where
  "compress_response cm kind request_headers ms =
     (if kind \<noteq> ''http'' then ms
      else (case chosen_encoding cm request_headers of None \<Rightarrow> ms | Some e \<Rightarrow> send_all cm e ms send_init))"

section \<open>What a client reads\<close>

text \<open>A response with its body in parts, and the text a client decodes it to, once, after its header.\<close>

definition response :: "int \<Rightarrow> raw_headers \<Rightarrow> string list \<Rightarrow> string \<Rightarrow> asgi_message list" where
  "response status hs parts final = ResponseStart status hs # map (\<lambda>b. ResponseBody b True) parts @ [ResponseBody final False]"

definition body_text :: "asgi_message list \<Rightarrow> string" where
  "body_text ms = concat (map (\<lambda>m. case m of ResponseBody b follows \<Rightarrow> b | _ \<Rightarrow> []) ms)"

definition decoded :: "(string \<Rightarrow> string) \<Rightarrow> (string \<Rightarrow> string) \<Rightarrow> asgi_message list \<Rightarrow> string" where
  "decoded unbr ungz ms =
     (case ms of
        ResponseStart status hs # bs \<Rightarrow>
          (case header_of ''content-encoding'' hs of
             None \<Rightarrow> body_text bs
           | Some enc \<Rightarrow> if enc = ''br'' then unbr (body_text bs) else if enc = ''gzip'' then ungz (body_text bs)
                         else body_text bs)
      | _ \<Rightarrow> [])"

lemma body_text_simps [simp]:
  "body_text [] = []" "body_text (ResponseBody b m # ms) = b @ body_text ms"
  by (simp_all add: body_text_def)

lemma body_text_append: "body_text (as @ bs) = body_text as @ body_text bs"
  by (simp add: body_text_def)

lemma body_text_parts [simp]: "body_text (map (\<lambda>b. ResponseBody b True) parts) = concat parts"
  by (induction parts) simp_all

text \<open>Behind the start everything passes.\<close>

lemma send_started:
  "ss_started st \<Longrightarrow> ss_initial st \<noteq> None \<Longrightarrow> send_all cm e (map (\<lambda>b. ResponseBody b True) parts @ [ResponseBody final False]) st
     = map (\<lambda>b. ResponseBody b True) parts @ [ResponseBody final False]"
  by (induction parts) (auto simp: custom_send_def compressed_body_def)

lemma send_response:
  "send_all cm e (response status hs parts final) send_init =
     (case (parts, encoder cm e final) of
        ([], Some z) \<Rightarrow>
          if cm_minimum cm \<le> length final
          then [ResponseStart status (new_headers (encoding_name e) z hs), ResponseBody z False]
          else response status hs parts final
      | _ \<Rightarrow> response status hs parts final)"
  by (cases parts; cases "encoder cm e final")
    (simp_all add: response_def custom_send_def compressed_body_def send_init_def send_started)

lemma header_of_append: "header_of n (as @ bs) = (case header_of n as of None \<Rightarrow> header_of n bs | Some v \<Rightarrow> Some v)"
  by (induction as) (auto simp: header_of_def)

lemma new_headers_encoding: "header_of ''content-encoding'' (new_headers enc z hs) = Some enc"
proof -
  have low: "str_lower ''content-encoding'' = ''content-encoding''" by code_simp
  have "header_of ''content-encoding'' (filter (\<lambda>(k, v). str_lower k \<notin> {''content-length'', ''content-encoding''}) hs) = None"
    by (induction hs) (auto simp: header_of_def)
  then show ?thesis unfolding new_headers_def header_of_append by (simp add: header_of_def low)
qed

text \<open>
  C36: a client that decodes the response after its header reads what the application wrote, whatever the request
  accepts and in however many parts the body comes, if the application did not encode it itself.
\<close>

theorem compression_is_transparent:
  assumes "header_of ''content-encoding'' hs = None"
    and "\<And>x z. cm_brotli cm x = Some z \<Longrightarrow> unbr z = x" and "\<And>x z. cm_gzip cm x = Some z \<Longrightarrow> ungz z = x"
  shows "decoded unbr ungz (compress_response cm kind request_headers (response status hs parts final)) = concat parts @ final"
proof -
  have plain: "decoded unbr ungz (response status hs parts final) = concat parts @ final"
    by (simp add: response_def decoded_def assms(1) body_text_append)
  have "decoded unbr ungz (send_all cm e (response status hs parts final) send_init) = concat parts @ final" for e
  proof (cases "parts = [] \<and> cm_minimum cm \<le> length final \<and> encoder cm e final \<noteq> None")
    case True
    then obtain z where z: "encoder cm e final = Some z" by auto
    with True have "send_all cm e (response status hs parts final) send_init
        = [ResponseStart status (new_headers (encoding_name e) z hs), ResponseBody z False]"
      unfolding send_response by simp
    then show ?thesis
      using True z assms(2,3) by (cases e) (auto simp: decoded_def new_headers_encoding encoding_name_def encoder_def)
  qed (use plain in \<open>auto simp: send_response split: list.split option.split\<close>)
  then show ?thesis using plain by (auto simp: compress_response_def split: option.split)
qed

text \<open>
  a response that the application has encoded itself is encoded a second time, and its own encoding is dropped from the
  headers: the client decodes once and is left with the encoded text.
\<close>

theorem encoded_response_is_encoded_twice:
  assumes "header_of ''content-encoding'' hs = Some ''gzip''"
    and "chosen_encoding cm request_headers = Some UseGzip" and "cm_gzip cm body = Some z" and "ungz z = body"
    and "cm_minimum cm \<le> length body"
  shows "decoded unbr ungz (response status hs [] body) = ungz body
    \<and> decoded unbr ungz (compress_response cm ''http'' request_headers (response status hs [] body)) = body"
proof -
  have "send_all cm UseGzip (response status hs [] body) send_init
      = [ResponseStart status (new_headers ''gzip'' z hs), ResponseBody z False]"
    unfolding send_response using assms(3,5) by (simp add: encoder_def encoding_name_def)
  then show ?thesis
    using assms by (simp add: compress_response_def decoded_def new_headers_encoding) (simp add: response_def)
qed

text \<open>For the witnesses: a code that writes a mark in front.\<close>

definition marking :: compression where
  "marking = \<lparr>cm_minimum = 3, cm_has_brotli = False, cm_brotli = (\<lambda>x. None), cm_gzip = (\<lambda>x. Some (CHR ''z'' # x))\<rparr>"

theorem compression_is_transparent_witness:
  "decoded tl tl (compress_response marking ''http'' [(''accept-encoding'', ''gzip, br'')] (response 200 [] [] ''hello'')) = ''hello''"
  using compression_is_transparent [of "[]" marking tl tl "''http''" "[(''accept-encoding'', ''gzip, br'')]" 200 "[]" "''hello''"]
  by (auto simp: marking_def header_of_def)

theorem encoded_response_is_encoded_twice_witness:
  "decoded tl tl (compress_response marking ''http'' [(''accept-encoding'', ''gzip'')]
     (response 200 [(''content-encoding'', ''gzip'')] [] ''zhello'')) = ''zhello''"
proof -
  have "header_of ''content-encoding'' [(''content-encoding'', ''gzip'')] = Some ''gzip''"
    "chosen_encoding marking [(''accept-encoding'', ''gzip'')] = Some UseGzip" by code_simp+
  from encoded_response_is_encoded_twice [OF this, of "''zhello''" "''zzhello''" tl tl 200]
  show ?thesis by (simp add: marking_def)
qed

end
