(* ===== verification/Logging.thy ===== *)
theory Logging
  imports Audit_Logs Compression Metrics Job_Queue
begin

text \<open>
  \<^verbatim>\<open>backend/logging_config.py\<close>: what a log line may contain, and the middleware that gives every request its
  identifiers and counts it.
\<close>

section \<open>Scrubbing\<close>

definition secret_words :: "string list" where
  "secret_words = [''password'', ''token'', ''auth'', ''secret'', ''jwt'', ''api_key'', ''key'']"

definition secret_key :: "string \<Rightarrow> bool" where
  "secret_key k \<longleftrightarrow> list_ex (str_contains (str_lower k)) secret_words"

definition secret_text :: "string \<Rightarrow> bool" where
  "secret_text s \<longleftrightarrow> list_ex (str_contains (str_lower s)) [''bearer '', ''jwt '', ''eyj'']"

fun sanitize_data :: "pyval \<Rightarrow> pyval" where
  "sanitize_data (PDict kvs) =
     PDict (map (\<lambda>(k, v). (k, if secret_key k then PStr ''[REDACTED]'' else sanitize_data v)) kvs)"
| "sanitize_data (PList vs) = PList (map sanitize_data vs)"
| "sanitize_data (PStr s) = PStr (if secret_text s then ''[REDACTED TOKEN]'' else s)"
| "sanitize_data v = v"

text \<open>No value under a secret key, and no text with the mark of a token, at any depth.\<close>

fun scrubbed :: "pyval \<Rightarrow> bool" where
  "scrubbed (PDict kvs) \<longleftrightarrow> list_all (\<lambda>(k, v). if secret_key k then v = PStr ''[REDACTED]'' else scrubbed v) kvs"
| "scrubbed (PList vs) \<longleftrightarrow> list_all scrubbed vs"
| "scrubbed (PStr s) \<longleftrightarrow> \<not> secret_text s"
| "scrubbed v \<longleftrightarrow> True"

lemma scrubbed_fixed: "scrubbed v \<Longrightarrow> sanitize_data v = v"
  by (induction v rule: scrubbed.induct) (auto simp: list_all_iff intro!: map_idI)

lemma sanitize_scrubs: "scrubbed (sanitize_data v)"
proof (induction v rule: sanitize_data.induct)
  case (1 kvs)
  then show ?case by (force simp: list_all_iff)
next
  case (3 s)
  have "\<not> secret_text ''[REDACTED TOKEN]''" by code_simp
  then show ?case by simp
qed (auto simp: list_all_iff)

text \<open>
  C19: after scrubbing no value stands under a secret key and no text looks like a token, at any depth, and scrubbing
  again changes nothing; a value that is clean already is left as it is.
\<close>

theorem sanitized_data_is_clean:
  "scrubbed (sanitize_data v) \<and> sanitize_data (sanitize_data v) = sanitize_data v
     \<and> (sanitize_data v = v \<longleftrightarrow> scrubbed v)"
  using sanitize_scrubs [of v] scrubbed_fixed [of v] scrubbed_fixed [OF sanitize_scrubs, of v] by metis

section \<open>Log lines\<close>

text \<open>
  A record with the context fields that are set, in the order in which the formatter asks for them, and the
  exception with its group. The text of a log line is the scrubbed object.
\<close>

record log_entry =
  le_time :: string
  le_level :: string
  le_logger :: string
  le_message :: string
  le_extra :: kwargs
  le_exception :: "(string \<times> string) option"

definition context_fields :: "string list" where
  "context_fields = [''trace_id'', ''span_id'', ''request_id'', ''correlation_id'', ''worker_id'', ''job_id'', ''user_id'',
     ''duration'', ''duration_ms'', ''method'', ''path'', ''status_code'', ''exception_group'']"

definition log_object :: "log_entry \<Rightarrow> kwargs" where
  "log_object r =
     (let base = [(''timestamp'', PStr (le_time r)), (''level'', PStr (le_level r)), (''logger'', PStr (le_logger r)),
                  (''message'', PStr (le_message r))];
          context = concat (map (\<lambda>f. case d_get (le_extra r) f of
                                       None \<Rightarrow> [] | Some PNone \<Rightarrow> [] | Some v \<Rightarrow> [(f, v)]) context_fields)
      in case le_exception r of
           None \<Rightarrow> base @ context
         | Some (trace, grp) \<Rightarrow> d_set ''exception_group'' (PStr grp) (d_set ''exception'' (PStr trace) (base @ context)))"

definition format_log :: "(rat \<Rightarrow> string) \<Rightarrow> log_entry \<Rightarrow> string" where
  "format_log show_float r = json_dumps show_float None 0 (sanitize_data (PDict (log_object r)))"

section \<open>Requests\<close>









section \<open>Identifiers of a response\<close>













end
