(* ===== verification/Metrics_Text.thy ===== *)
theory Metrics_Text
  imports Logging
begin

text \<open>
  \<^verbatim>\<open>generate_prometheus_text\<close> of \<^verbatim>\<open>backend/metrics.py\<close>: the registry as text, in the order of the code.
\<close>

section \<open>Numbers\<close>

text \<open>\<^verbatim>\<open>f"{x:.nf}"\<close>: rounded to the nearest, ties to even.\<close>

definition fixed :: "nat \<Rightarrow> rat \<Rightarrow> string" where
  "fixed n x =
     (let k = nat (round_half_even (abs x * 10 ^ n)); frac = nat_str (k mod 10 ^ n)
      in (if x < 0 then ''-'' else []) @ nat_str (k div 10 ^ n) @ CHR ''.'' # replicate (n - length frac) CHR ''0'' @ frac)"

definition total_requests :: "metrics \<Rightarrow> int" where
  "total_requests m = sum_list (map snd (request_counts m))"

definition cache_ratio :: "int \<Rightarrow> metrics \<Rightarrow> rat" where
  "cache_ratio k m =
     (let ops = cache_hits m + cache_misses m in if 0 < ops then of_int k / of_int ops else 0)"

section \<open>Lines\<close>

text \<open>A key is split at its first two colons; the three parts become labels as they are.\<close>

definition split_key :: "string \<Rightarrow> string \<times> string \<times> string" where
  "split_key k =
     (let d = (\<lambda>c. c \<noteq> CHR '':''); r = tl (dropWhile d k)
      in (takeWhile d k, takeWhile d r, tl (dropWhile d r)))"

definition label :: "string \<Rightarrow> string \<Rightarrow> string" where
  "label name v = name @ CHR ''='' # CHR 0x22 # v @ [CHR 0x22]"

definition labelled :: "string \<Rightarrow> string \<Rightarrow> string \<Rightarrow> int \<Rightarrow> string" where
  "labelled meth endpoint status n =
     ''request_count{'' @ label ''method'' meth @ '','' @ label ''endpoint'' endpoint @ '','' @ label ''status_code'' status
       @ ''} '' @ int_str n"

definition request_line :: "string \<times> int \<Rightarrow> string" where
  "request_line kv = (case split_key (fst kv) of (meth, endpoint, status) \<Rightarrow> labelled meth endpoint status (snd kv))"

definition no_request_line :: string where
  "no_request_line = labelled ''GET'' ''/'' ''200'' 0"

definition request_lines :: "metrics \<Rightarrow> string list" where
  "request_lines m =
     [''# HELP seo_requests_total Total number of HTTP API requests.'',
      ''# TYPE seo_requests_total counter'',
      ''seo_requests_total '' @ int_str (total_requests m),
      ''# HELP request_count Total number of HTTP requests by method, endpoint, status.'',
      ''# TYPE request_count counter'']
     @ (if request_counts m = [] then [no_request_line] else map request_line (request_counts m))"

definition request_duration_lines :: "metrics \<Rightarrow> string list" where
  "request_duration_lines m =
     [''# HELP seo_request_duration_seconds Request duration in seconds.'',
      ''# TYPE seo_request_duration_seconds summary'',
      ''seo_request_duration_seconds_sum '' @ fixed 6 (request_duration_sum m),
      ''seo_request_duration_seconds_count '' @ int_str (request_duration_count m),
      ''# HELP request_duration_seconds Request duration summary.'',
      ''# TYPE request_duration_seconds summary'',
      ''request_duration_seconds_sum '' @ fixed 6 (request_duration_sum m),
      ''request_duration_seconds_count '' @ int_str (request_duration_count m)]"

definition queue_lines :: "metrics \<Rightarrow> string list" where
  "queue_lines m =
     [''# HELP active_users Current count of active authenticated users.'',
      ''# TYPE active_users gauge'',
      ''active_users '' @ int_str (m_active_users m),
      ''# HELP worker_queue_size Pending background jobs in queue.'',
      ''# TYPE worker_queue_size gauge'',
      ''worker_queue_size '' @ int_str (m_queue_length m),
      ''# HELP queue_length Number of pending jobs in queue.'',
      ''# TYPE queue_length gauge'',
      ''queue_length '' @ int_str (m_queue_length m),
      ''# HELP active_jobs Number of executing background jobs.'',
      ''# TYPE active_jobs gauge'',
      ''active_jobs '' @ int_str (m_active_jobs m)]"

definition task_lines :: "metrics \<Rightarrow> string list" where
  "task_lines m =
     [''# HELP queue_processing_time Queue processing duration in seconds.'',
      ''# TYPE queue_processing_time summary'',
      ''queue_processing_time_sum '' @ fixed 6 (queue_processing_time_sum m),
      ''queue_processing_time_count '' @ int_str (queue_processing_time_count m),
      ''# HELP crawl_duration Website crawler execution duration in seconds.'',
      ''# TYPE crawl_duration summary'',
      ''crawl_duration_sum '' @ fixed 6 (crawl_duration_sum m),
      ''crawl_duration_count '' @ int_str (crawl_duration_count m),
      ''crawl_duration_seconds_sum '' @ fixed 6 (crawl_duration_sum m),
      ''# HELP audit_duration Technical audit execution duration in seconds.'',
      ''# TYPE audit_duration summary'',
      ''audit_duration_sum '' @ fixed 6 (audit_duration_sum m),
      ''audit_duration_count '' @ int_str (audit_duration_count m),
      ''audit_duration_seconds_sum '' @ fixed 6 (audit_duration_sum m),
      ''# HELP keyword_duration Keyword research job duration in seconds.'',
      ''# TYPE keyword_duration summary'',
      ''keyword_duration_sum '' @ fixed 6 (keyword_duration_sum m),
      ''keyword_duration_count '' @ int_str (keyword_duration_count m),
      ''# HELP rank_duration Rank tracking job duration in seconds.'',
      ''# TYPE rank_duration summary'',
      ''rank_duration_sum '' @ fixed 6 (rank_duration_sum m),
      ''rank_duration_count '' @ int_str (rank_duration_count m),
      ''# HELP ai_duration Gemini AI recommendation duration in seconds.'',
      ''# TYPE ai_duration summary'',
      ''ai_duration_sum '' @ fixed 6 (ai_duration_sum m),
      ''ai_duration_count '' @ int_str (ai_duration_count m)]"

definition latency_lines :: "metrics \<Rightarrow> string list" where
  "latency_lines m =
     [''# HELP redis_latency Redis ping and operation latency in seconds.'',
      ''# TYPE redis_latency gauge'',
      ''redis_latency '' @ fixed 6 (m_redis_latency m),
      ''# HELP database_latency Database query execution latency in seconds.'',
      ''# TYPE database_latency gauge'',
      ''database_latency '' @ fixed 6 (m_database_latency m)]"

definition cache_lines :: "metrics \<Rightarrow> string list" where
  "cache_lines m =
     [''# HELP cache_hit_ratio Ratio of cache hits over total cache queries.'',
      ''# TYPE cache_hit_ratio gauge'',
      ''cache_hit_ratio '' @ fixed 4 (cache_ratio (cache_hits m) m),
      ''# HELP cache_miss_ratio Ratio of cache misses over total cache queries.'',
      ''# TYPE cache_miss_ratio gauge'',
      ''cache_miss_ratio '' @ fixed 4 (cache_ratio (cache_misses m) m),
      ''# HELP cache_hits_total Total number of cache hits.'',
      ''# TYPE cache_hits_total counter'',
      ''cache_hits_total '' @ int_str (cache_hits m),
      ''# HELP cache_misses_total Total number of cache misses.'',
      ''# TYPE cache_misses_total counter'',
      ''cache_misses_total '' @ int_str (cache_misses m)]"

definition job_lines :: "metrics \<Rightarrow> string list" where
  "job_lines m =
     [''# HELP successful_jobs Total successfully processed background jobs.'',
      ''# TYPE successful_jobs counter'',
      ''successful_jobs '' @ int_str (worker_jobs_completed m),
      ''worker_jobs_completed '' @ int_str (worker_jobs_completed m),
      ''# HELP failed_jobs Total failed background jobs.'',
      ''# TYPE failed_jobs counter'',
      ''failed_jobs '' @ int_str (worker_jobs_failed m),
      ''worker_jobs_failed '' @ int_str (worker_jobs_failed m)]"

definition worker_lines :: "rat \<Rightarrow> metrics \<Rightarrow> string list" where
  "worker_lines now m =
     [''# HELP worker_memory_usage Worker process memory usage in MB.'',
      ''# TYPE worker_memory_usage gauge'',
      ''worker_memory_usage '' @ fixed 2 (m_worker_memory_usage m),
      ''# HELP worker_cpu_usage Worker process CPU utilization percentage.'',
      ''# TYPE worker_cpu_usage gauge'',
      ''worker_cpu_usage '' @ fixed 2 (m_worker_cpu_usage m),
      ''# HELP worker_restarts Total worker process restarts.'',
      ''# TYPE worker_restarts counter'',
      ''worker_restarts '' @ int_str (worker_restarts m),
      ''# HELP worker_active Whether worker is active (1/0).'',
      ''# TYPE worker_active gauge'',
      ''worker_active '' @ int_str (m_worker_active m),
      ''# HELP worker_jobs_running Number of worker jobs running.'',
      ''# TYPE worker_jobs_running gauge'',
      ''worker_jobs_running '' @ int_str (m_worker_jobs_running m),
      ''# HELP dead_letter_jobs Total dead letter queue jobs.'',
      ''# TYPE dead_letter_jobs gauge'',
      ''dead_letter_jobs '' @ int_str (dead_letter_jobs m),
      ''# HELP retry_attempts Total job retry attempts.'',
      ''# TYPE retry_attempts counter'',
      ''retry_attempts '' @ int_str (retry_attempts m),
      ''# HELP retry_failures Total job execution retry failures.'',
      ''# TYPE retry_failures counter'',
      ''retry_failures '' @ int_str (retry_failures m),
      ''# HELP worker_uptime_seconds Worker process uptime in seconds.'',
      ''# TYPE worker_uptime_seconds gauge'',
      ''worker_uptime_seconds '' @ fixed 2 (now - m_worker_start_time m)]"

definition prometheus_text :: "rat \<Rightarrow> metrics \<Rightarrow> string" where
  "prometheus_text now m =
     sep_concat [CHR 0x0A]
       (request_lines m @ request_duration_lines m @ queue_lines m @ task_lines m @ latency_lines m @ cache_lines m
          @ job_lines m @ worker_lines now m)
     @ [CHR 0x0A]"

section \<open>What a scraper reads\<close>

lemma split_on_concat: "split_on c (u @ c # w) = split_on c u @ split_on c w"
proof (induction u)
  case (Cons x u)
  have "split_on c s \<noteq> []" for s by (induction s) (auto split: list.split)
  with Cons show ?case by (auto split: list.split simp: append_eq_Cons_conv)
qed simp

lemma inner_line: "c \<notin> set l \<Longrightarrow> l \<in> set (split_on c (u @ c # l @ c # v))"
  by (simp add: split_on_concat split_on_free)

lemma sep_concat_member: "z \<in> set xs \<Longrightarrow> \<exists>u v. sep_concat d xs = u @ z @ v"
proof (induction d xs rule: sep_concat.induct)
  case (3 d x y zs)
  show ?case
  proof (cases "x = z")
    case True
    then show ?thesis by (intro exI [of _ "[]"] exI [of _ "d @ sep_concat d (y # zs)"]) simp
  next
    case False
    with 3 obtain u v where "sep_concat d (y # zs) = u @ z @ v" by auto
    then show ?thesis by (intro exI [of _ "x @ d @ u"] exI [of _ v]) simp
  qed
qed (auto intro: exI [of _ "[]"])

lemma split_request_key:
  "CHR '':'' \<notin> set meth \<Longrightarrow> CHR '':'' \<notin> set ep \<Longrightarrow> split_key (request_key meth ep st) = (meth, ep, int_str st)"
proof -
  have "takeWhile (\<lambda>c. c \<noteq> CHR '':'') (s @ CHR '':'' # t) = s \<and> dropWhile (\<lambda>c. c \<noteq> CHR '':'') (s @ CHR '':'' # t) = CHR '':'' # t"
    if "CHR '':'' \<notin> set s" for s t :: string
    using that by (induction s) auto
  then show "CHR '':'' \<notin> set meth \<Longrightarrow> CHR '':'' \<notin> set ep \<Longrightarrow> ?thesis"
    by (simp add: split_key_def request_key_def Let_def)
qed

lemma counted_line:
  assumes "CHR '':'' \<notin> set meth" and "CHR '':'' \<notin> set ep"
  shows "\<exists>n. labelled meth ep (int_str st) n \<in> set (request_lines (metric_step m (inc_request_count meth ep st)))"
proof -
  let ?k = "request_key meth ep st" and ?m = "metric_step m (inc_request_count meth ep st)"
  obtain n where "d_get (request_counts ?m) ?k = Some n" unfolding request_count_step by auto
  then have "(?k, n) \<in> set (request_counts ?m)" by (rule map_of_SomeD)
  then have "request_line (?k, n) \<in> set (request_lines ?m)" by (auto simp: request_lines_def simp del: metric_step.simps)
  then show ?thesis by (auto simp: request_line_def split_request_key [OF assms])
qed

text \<open>
  C40: a path is written into the labels as it is: whoever requests a path with a line end in it, which a percent encoded
  address can have, adds a line of his choice to the metrics.
\<close>

theorem paths_can_write_metrics:
  assumes "CHR '':'' \<notin> set meth" and "CHR '':'' \<notin> set (a @ l @ b)" and "CHR 0x0A \<notin> set l"
  shows "l \<in> set (split_on (CHR 0x0A) (prometheus_text now
    (metric_step m (inc_request_count meth (a @ CHR 0x0A # l @ CHR 0x0A # b) st))))"
proof -
  let ?ep = "a @ CHR 0x0A # l @ CHR 0x0A # b" and ?m = "metric_step m (inc_request_count meth (a @ CHR 0x0A # l @ CHR 0x0A # b) st)"
  have "CHR '':'' \<notin> set ?ep" using assms(2) by auto
  from counted_line [OF assms(1) this, of st m] obtain n
    where n: "labelled meth ?ep (int_str st) n \<in> set (request_lines ?m)" by blast
  obtain u v where line: "labelled meth ?ep (int_str st) n = u @ CHR 0x0A # l @ CHR 0x0A # v"
    by (rule that [of "''request_count{'' @ label ''method'' meth @ '','' @ ''endpoint='' @ CHR 0x22 # a"
          "b @ CHR 0x22 # '','' @ label ''status_code'' (int_str st) @ ''} '' @ int_str n"])
      (simp add: labelled_def label_def)
  obtain u' v' where "prometheus_text now ?m = u' @ (u @ CHR 0x0A # l @ CHR 0x0A # v) @ v'"
  proof -
    have "labelled meth ?ep (int_str st) n \<in> set (request_lines ?m @ request_duration_lines ?m @ queue_lines ?m
        @ task_lines ?m @ latency_lines ?m @ cache_lines ?m @ job_lines ?m @ worker_lines now ?m)" using n by simp
    from sep_concat_member [OF this, of "[CHR 0x0A]"] that show thesis
      unfolding prometheus_text_def line by fastforce
  qed
  then have "prometheus_text now ?m = (u' @ u) @ CHR 0x0A # l @ CHR 0x0A # (v @ v')" by simp
  then show ?thesis by (simp only: inner_line [OF assms(3)])
qed

theorem paths_can_write_metrics_witness:
  "''seo_requests_total 0'' \<in> set (split_on (CHR 0x0A) (prometheus_text 0
    (metric_step (metrics_init 0) (inc_request_count ''GET'' (''/x'' @ CHR 0x0A # ''seo_requests_total 0'' @ CHR 0x0A # []) 404))))"
  by (rule paths_can_write_metrics) simp_all

text \<open>
  without such characters the requests of a method, path and status are shown under them with their number,
  which is one more after each request.
\<close>

theorem requests_are_shown:
  assumes "CHR '':'' \<notin> set meth" and "CHR '':'' \<notin> set ep"
  shows "labelled meth ep (int_str st)
      (1 + (case d_get (request_counts m) (request_key meth ep st) of None \<Rightarrow> 0 | Some n \<Rightarrow> n))
    \<in> set (request_lines (metric_step m (inc_request_count meth ep st)))"
proof -
  let ?m = "metric_step m (inc_request_count meth ep st)" and ?k = "request_key meth ep st"
  have "d_get (request_counts ?m) ?k = Some (1 + (case d_get (request_counts m) ?k of None \<Rightarrow> 0 | Some n \<Rightarrow> n))"
    unfolding request_count_step by simp
  from map_of_SomeD [OF this] show ?thesis
    by (auto simp: request_lines_def request_line_def split_request_key [OF assms] image_iff simp del: metric_step.simps
        intro!: bexI)
qed

theorem requests_are_shown_witness:
  "labelled ''GET'' ''/health'' (int_str 200) 1
     \<in> set (request_lines (metric_step (metrics_init 0) (inc_request_count ''GET'' ''/health'' 200)))"
  using requests_are_shown [of "''GET''" "''/health''" 200 "metrics_init 0"] by (simp add: metrics_init_def)

end
