(* ===== verification/Sentry.thy ===== *)
theory Sentry
  imports Logging
begin

text \<open>
  \<^verbatim>\<open>SentryManager\<close> of \<^verbatim>\<open>backend/sentry.py\<close>: what leaves the server for the error monitoring. The package
  itself is a parameter, as the calls it gets.
\<close>

section \<open>Events\<close>

text \<open>
  \<^verbatim>\<open>if k in d: d[k] = sanitize_data(d[k])\<close>, and the same for a value that need not be a dictionary: a text or a
  list that contains the key raises, and so does a value that nothing can be in.
\<close>

definition scrub_at :: "string \<Rightarrow> kwargs \<Rightarrow> kwargs" where
  "scrub_at k d = (case d_get d k of None \<Rightarrow> d | Some v \<Rightarrow> d_set k (sanitize_data v) d)"

definition request_fields :: "string list" where
  "request_fields = [''headers'', ''data'', ''query_string'']"

definition scrub_request :: "pyval \<Rightarrow> pyval option" where
  "scrub_request v =
     (case v of
        PDict req \<Rightarrow> Some (PDict (foldl (\<lambda>d k. scrub_at k d) req request_fields))
      | PStr s \<Rightarrow> if list_ex (str_contains s) request_fields then None else Some v
      | PList vs \<Rightarrow> if list_ex (\<lambda>k. PStr k \<in> set vs) request_fields then None else Some v
      | _ \<Rightarrow> None)"

text \<open>An exception ends the scrubbing; the event is sent all the same.\<close>

definition before_send :: "kwargs \<Rightarrow> kwargs" where
  "before_send event =
     (case d_get event ''request'' of
        None \<Rightarrow> scrub_at ''user'' (scrub_at ''extra'' event)
      | Some v \<Rightarrow>
          (case scrub_request v of
             None \<Rightarrow> event
           | Some v1 \<Rightarrow> scrub_at ''user'' (scrub_at ''extra'' (d_set ''request'' v1 event))))"

section \<open>The manager\<close>

record sentry =
  sn_dsn :: string
  sn_environment :: string
  sn_enabled :: bool

text \<open>The monitoring is on when the package is there, an address is set, and the package starts without an exception.\<close>

definition init_sentry :: "bool \<Rightarrow> bool \<Rightarrow> sentry \<Rightarrow> sentry" where
  "init_sentry has_sentry starts m = (if has_sentry \<and> sn_dsn m \<noteq> [] \<and> starts then m\<lparr>sn_enabled := True\<rparr> else m)"

definition mk_sentry :: "bool \<Rightarrow> bool \<Rightarrow> string \<Rightarrow> string \<Rightarrow> sentry" where
  "mk_sentry has_sentry starts dsn environment =
     init_sentry has_sentry starts \<lparr>sn_dsn = dsn, sn_environment = environment, sn_enabled = False\<rparr>"

text \<open>The calls of the package for one exception, in the order in which they are made.\<close>

datatype sentry_call =
    SetUser string
  | SetTag string string
  | SetExtra string pyval
  | SendException string string

record capture =
  ca_user :: "int option"
  ca_job :: "int option"
  ca_correlation :: "string option"
  ca_path :: "string option"
  ca_context :: kwargs

definition no_capture :: capture where
  "no_capture = \<lparr>ca_user = None, ca_job = None, ca_correlation = None, ca_path = None, ca_context = []\<rparr>"

definition set_number :: "(string \<Rightarrow> sentry_call) \<Rightarrow> int option \<Rightarrow> sentry_call list" where
  "set_number f n = (case n of None \<Rightarrow> [] | Some k \<Rightarrow> if k = 0 then [] else [f (int_str k)])"

definition set_text :: "(string \<Rightarrow> sentry_call) \<Rightarrow> string option \<Rightarrow> sentry_call list" where
  "set_text f t = (case t of None \<Rightarrow> [] | Some s \<Rightarrow> if s = [] then [] else [f s])"

definition clean_context :: "kwargs \<Rightarrow> kwargs" where
  "clean_context ctx = (case sanitize_data (PDict ctx) of PDict d \<Rightarrow> d | _ \<Rightarrow> [])"

definition sentry_calls :: "sentry \<Rightarrow> string \<Rightarrow> string \<Rightarrow> capture \<Rightarrow> sentry_call list" where
  "sentry_calls m cls msg c =
     set_number SetUser (ca_user c) @ set_number (SetTag ''job_id'') (ca_job c)
     @ set_text (SetTag ''correlation_id'') (ca_correlation c) @ set_text (SetTag ''path'') (ca_path c)
     @ [SetTag ''environment'' (sn_environment m)] @ map (\<lambda>(k, v). SetExtra k v) (clean_context (ca_context c))
     @ [SendException cls msg]"

definition opt_val :: "('a \<Rightarrow> pyval) \<Rightarrow> 'a option \<Rightarrow> pyval" where
  "opt_val f x = (case x of None \<Rightarrow> PNone | Some y \<Rightarrow> f y)"

definition capture_entry :: "string \<Rightarrow> string \<Rightarrow> string \<Rightarrow> string \<times> string \<Rightarrow> capture \<Rightarrow> log_entry" where
  "capture_entry now cls msg trace c =
     \<lparr>le_time = now, le_level = ''ERROR'', le_logger = ''seo_agent.sentry'',
      le_message = ''Sentry capture: '' @ cls @ '': '' @ msg,
      le_extra = [(''user_id'', opt_val PInt (ca_user c)), (''job_id'', opt_val PInt (ca_job c)),
                  (''correlation_id'', opt_val PStr (ca_correlation c)), (''path'', opt_val PStr (ca_path c)),
                  (''context'', PDict (clean_context (ca_context c)))],
      le_exception = Some trace\<rparr>"

definition capture_exception ::
  "bool \<Rightarrow> sentry \<Rightarrow> string \<Rightarrow> string \<Rightarrow> string \<Rightarrow> string \<times> string \<Rightarrow> capture \<Rightarrow> log_entry \<times> sentry_call list" where
  "capture_exception has_sentry m now cls msg trace c =
     (capture_entry now cls msg trace c, if sn_enabled m \<and> has_sentry then sentry_calls m cls msg c else [])"

definition capture_worker_failure ::
  "bool \<Rightarrow> sentry \<Rightarrow> string \<Rightarrow> string \<times> string \<Rightarrow> int \<Rightarrow> string \<Rightarrow> int \<Rightarrow> string \<Rightarrow> string \<Rightarrow> log_entry \<times> sentry_call list" where
  "capture_worker_failure has_sentry m now trace job_id job_type user_id error_msg stack_trace =
     capture_exception has_sentry m now ''RuntimeError'' (''Worker failure in '' @ job_type @ '': '' @ error_msg) trace
       (no_capture\<lparr>ca_user := Some user_id, ca_job := Some job_id,
          ca_context := [(''job_type'', PStr job_type), (''stack_trace'', PStr stack_trace)]\<rparr>)"

definition capture_queue_failure ::
  "bool \<Rightarrow> sentry \<Rightarrow> string \<Rightarrow> string \<times> string \<Rightarrow> string \<Rightarrow> string \<Rightarrow> log_entry \<times> sentry_call list" where
  "capture_queue_failure has_sentry m now trace queue_name error_msg =
     capture_exception has_sentry m now ''RuntimeError'' (''Queue failure in '' @ queue_name @ '': '' @ error_msg) trace
       (no_capture\<lparr>ca_context := [(''queue_name'', PStr queue_name)]\<rparr>)"

definition capture_db_failure ::
  "bool \<Rightarrow> sentry \<Rightarrow> string \<Rightarrow> string \<times> string \<Rightarrow> string \<Rightarrow> string \<Rightarrow> log_entry \<times> sentry_call list" where
  "capture_db_failure has_sentry m now trace op error_msg =
     capture_exception has_sentry m now ''RuntimeError'' (''Database failure in '' @ op @ '': '' @ error_msg) trace
       (no_capture\<lparr>ca_context := [(''operation'', PStr op)]\<rparr>)"

section \<open>What is clean\<close>

lemma scrub_at_get:
  "d_get (scrub_at k d) j = (if j = k then map_option sanitize_data (d_get d j) else d_get d j)"
  by (auto simp: scrub_at_def split: option.split)

lemma clean_context_scrubbed: "scrubbed (PDict (clean_context ctx))"
  using sanitize_scrubs [of "PDict ctx"] by (simp add: clean_context_def)

lemma before_send_get:
  assumes "d_get event ''request'' = Some (PDict req)"
  shows "d_get (before_send event) f =
    (if f = ''request'' then Some (PDict (foldl (\<lambda>d k. scrub_at k d) req request_fields))
     else if f \<in> {''extra'', ''user''} then map_option sanitize_data (d_get event f) else d_get event f)"
  by (auto simp: before_send_def assms scrub_request_def scrub_at_get)

lemma request_get:
  "d_get (foldl (\<lambda>d k. scrub_at k d) req request_fields) f =
     (if f \<in> set request_fields then map_option sanitize_data (d_get req f) else d_get req f)"
  by (simp add: request_fields_def scrub_at_get)

text \<open>
  C38: of an event with a request, the headers, the body and the query of the request, the extra data and the
  user leave the server scrubbed; every other field, the texts of the exceptions among them, leaves it as it is.
\<close>

theorem sentry_events_are_scrubbed:
  assumes "d_get event ''request'' = Some (PDict req)"
  shows "\<exists>req'. d_get (before_send event) ''request'' = Some (PDict req')
    \<and> (\<forall>k v. d_get req' k = Some v \<longrightarrow> (if k \<in> set request_fields then scrubbed v else d_get req k = Some v))
    \<and> (\<forall>f v. f \<noteq> ''request'' \<longrightarrow> d_get (before_send event) f = Some v \<longrightarrow>
          (if f \<in> {''extra'', ''user''} then scrubbed v else d_get event f = Some v))"
proof (intro exI conjI)
  show "d_get (before_send event) ''request'' = Some (PDict (foldl (\<lambda>d k. scrub_at k d) req request_fields))"
    by (simp add: before_send_get [OF assms])
  show "\<forall>k v. d_get (foldl (\<lambda>d k. scrub_at k d) req request_fields) k = Some v
      \<longrightarrow> (if k \<in> set request_fields then scrubbed v else d_get req k = Some v)"
    unfolding request_get using sanitize_scrubs by auto
  show "\<forall>f v. f \<noteq> ''request'' \<longrightarrow> d_get (before_send event) f = Some v \<longrightarrow>
          (if f \<in> {''extra'', ''user''} then scrubbed v else d_get event f = Some v)"
    unfolding before_send_get [OF assms] using sanitize_scrubs by auto
qed

theorem sentry_events_are_scrubbed_witness:
  "\<exists>req'. d_get (before_send [(''request'', PDict [(''headers'', PDict [(''Authorization'', PStr ''x'')])])]) ''request''
     = Some (PDict req')"
  using sentry_events_are_scrubbed [of "[(''request'', PDict [(''headers'', PDict [(''Authorization'', PStr ''x'')])])]"
      "[(''headers'', PDict [(''Authorization'', PStr ''x'')])]"] by auto

text \<open>
  what the manager adds to an exception is clean, but the query of a request is a text, of which only the marks
  of a token are known: a secret in it passes, as does one in the text of the exception.
\<close>

theorem secrets_pass_in_texts:
  "(\<forall>k v. SetExtra k v \<in> set (snd (capture_exception has_sentry m now cls msg trace c))
       \<longrightarrow> (k, v) \<in> set (clean_context (ca_context c)) \<and> (secret_key k \<longrightarrow> v = PStr ''[REDACTED]''))
   \<and> before_send [(''request'', PDict [(''query_string'', PStr ''password=hunter2'')])]
       = [(''request'', PDict [(''query_string'', PStr ''password=hunter2'')])]
   \<and> (sn_enabled m \<and> has_sentry
       \<longrightarrow> SendException cls msg \<in> set (snd (capture_exception has_sentry m now cls msg trace c)))"
proof (intro conjI allI impI)
  fix k v
  assume "SetExtra k v \<in> set (snd (capture_exception has_sentry m now cls msg trace c))"
  then have kv: "(k, v) \<in> set (clean_context (ca_context c))"
    by (auto simp: capture_exception_def sentry_calls_def set_number_def set_text_def split: if_splits option.splits)
  show "(k, v) \<in> set (clean_context (ca_context c))" by (rule kv)
  assume "secret_key k"
  then show "v = PStr ''[REDACTED]''" using kv clean_context_scrubbed [of "ca_context c"] by (auto simp: list_all_iff)
next
  show "before_send [(''request'', PDict [(''query_string'', PStr ''password=hunter2'')])]
       = [(''request'', PDict [(''query_string'', PStr ''password=hunter2'')])]" by code_simp
next
  assume "sn_enabled m \<and> has_sentry"
  then show "SendException cls msg \<in> set (snd (capture_exception has_sentry m now cls msg trace c))"
    by (simp add: capture_exception_def sentry_calls_def)
qed

end
