(* ===== verification/Settings.thy ===== *)
theory Settings
  imports Errors
begin

text \<open>
  The part of \<^verbatim>\<open>backend/config.py\<close> that decides whether the program starts: the environment, the key of the tokens, and what the
  start up check reads. \<open>env\<close> is the environment of the process. The fields have default factories, and pydantic does not
  validate a default: the validators run for values that are passed to the constructor only, which
  \<^verbatim>\<open>get_settings\<close> never does.
\<close>

record settings =
  se_environment :: string
  se_secret :: string
  se_database :: string
  se_gemini :: "string option"
  se_redis :: "string option"
  se_cors :: "string list"

definition getenv :: "(string \<Rightarrow> string option) \<Rightarrow> string \<Rightarrow> string \<Rightarrow> string" where
  "getenv env name dflt = (case env name of None \<Rightarrow> dflt | Some v \<Rightarrow> v)"

definition default_secret :: string where
  "default_secret = ''super-secret-jwt-key-for-development-mode-12345''"

definition get_settings :: "(string \<Rightarrow> string option) \<Rightarrow> settings" where
  "get_settings env =
     \<lparr>se_environment = str_lower (getenv env ''ENVIRONMENT'' ''development''),
      se_secret = getenv env ''JWT_SECRET_KEY'' default_secret,
      se_database = getenv env ''DATABASE_URL'' ''sqlite:///./seo_agent.db'',
      se_gemini = env ''GEMINI_API_KEY'',
      se_redis = env ''REDIS_URL'',
      se_cors = filter (\<lambda>s. s \<noteq> []) (map str_strip (split_on (CHR '','') (getenv env ''CORS_ORIGINS'' ''*'')))\<rparr>"

section \<open>Validators\<close>

definition validate_env :: "string \<Rightarrow> string outcome" where
  "validate_env v =
     (if str_strip (str_lower v) \<in> {''development'', ''staging'', ''production'', ''testing''}
      then Inr (str_strip (str_lower v)) else Inl (ValueError ''ENVIRONMENT must be one of''))"

definition validate_secret_key :: "string \<Rightarrow> string outcome" where
  "validate_secret_key v =
     (if v = [] \<or> length (str_strip v) < 16 then Inl (ValueError ''SECRET_KEY must be at least 16 characters long'')
      else Inr v)"

section \<open>The check at the start\<close>

definition is_production :: "settings \<Rightarrow> bool" where
  "is_production s \<longleftrightarrow> se_environment s = ''production''"

definition default_like :: "string \<Rightarrow> bool" where
  "default_like k \<longleftrightarrow> str_contains k ''super-secret'' \<or> str_contains k ''development'' \<or> str_contains k ''12345''"

definition production_warnings :: "settings \<Rightarrow> string list" where
  "production_warnings s =
     (if length (se_secret s) < 32
      then [''WARNING: Production SECRET_KEY should be at least 32 characters long.''] else [])
     @ (if starts_with (se_database s) ''sqlite''
        then [''WARNING: SQLite database configured for production environment. PostgreSQL is recommended.''] else [])
     @ (if ''*'' \<in> set (se_cors s)
        then [''WARNING: Wildcard CORS origins '' @ [CHR 0x27, CHR ''*'', CHR 0x27] @ '' enabled in production environment.'']
        else [])
     @ (if \<not> truthy (se_redis s)
        then [''WARNING: REDIS_URL not configured in production environment. In-memory queue/cache fallback active.'']
        else [])"

definition validate_startup :: "settings \<Rightarrow> string list outcome" where
  "validate_startup s =
     (if is_production s \<and> default_like (se_secret s)
      then Inl (ValueError (''CRITICAL SECURITY ERROR: Insecure or default development SECRET_KEY used in production ''
             @ ''environment!''))
      else Inr ((if is_production s then production_warnings s else [])
             @ (if \<not> truthy (se_gemini s)
                then [''NOTICE: GEMINI_API_KEY is not set. AI features will operate in fallback mode.''] else [])))"

section \<open>What the check lets through\<close>

text \<open>
  the check never refuses a key for its length: a key that the validator of the class refuses as too short, the
  empty one included, is accepted in production with a warning.
\<close>

theorem short_secret_starts_in_production:
  assumes "env ''ENVIRONMENT'' = Some ''production''" and "env ''JWT_SECRET_KEY'' = Some k" and "length k < 16"
    and "\<not> default_like k"
  shows "validate_secret_key k = Inl (ValueError ''SECRET_KEY must be at least 16 characters long'')
    \<and> se_secret (get_settings env) = k
    \<and> (\<exists>ws. validate_startup (get_settings env) = Inr (''WARNING: Production SECRET_KEY should be at least 32 characters long.'' # ws))"
proof -
  have low: "str_lower ''production'' = ''production''" by code_simp
  have "length (str_strip k) \<le> length k"
    unfolding str_strip_def by (metis length_dropWhile_le length_rev order_trans)
  then show ?thesis
    using assms by (simp add: validate_secret_key_def get_settings_def validate_startup_def is_production_def getenv_def low
        production_warnings_def)
qed

theorem short_secret_starts_in_production_witness:
  "\<exists>ws. validate_startup (get_settings [''ENVIRONMENT'' \<mapsto> ''production'', ''JWT_SECRET_KEY'' \<mapsto> []])
     = Inr (''WARNING: Production SECRET_KEY should be at least 32 characters long.'' # ws)"
  using short_secret_starts_in_production [of "[''ENVIRONMENT'' \<mapsto> ''production'', ''JWT_SECRET_KEY'' \<mapsto> []]" "[]"]
  by (simp add: default_like_def)

text \<open>
  the name of the environment is not checked: with a blank behind it, which the validator of the class would
  remove, or with any other unknown name, the published default key is accepted.
\<close>

theorem default_secret_starts_unless_spelled:
  "(\<exists>e. validate_startup (get_settings (\<lambda>n. if n = ''ENVIRONMENT'' then Some v else None)) = Inl e)
     \<longleftrightarrow> str_lower v = ''production''"
proof -
  have "default_like default_secret" by code_simp
  then show ?thesis by (auto simp: validate_startup_def get_settings_def is_production_def getenv_def)
qed

end
