(* ===== verification/Heartbeat.thy ===== *)
theory Heartbeat
  imports Worker_Props
begin

text \<open>
  \<^verbatim>\<open>WorkerHeartbeatManager\<close> of \<^verbatim>\<open>backend/worker_heartbeat.py\<close> in full; \<open>Worker\<close> has the two flags that the worker itself reads.
  Redis is a record of functions in which \<^const>\<open>None\<close> is a raised exception; documents are the values before
  \<^verbatim>\<open>json.dumps\<close>.
\<close>

section \<open>State\<close>

record 'r beat_redis =
  br_link :: "'r \<Rightarrow> redis_link"
  br_set :: "string \<Rightarrow> pyval \<Rightarrow> int \<Rightarrow> 'r \<Rightarrow> unit option \<times> 'r"
  br_delete :: "string \<Rightarrow> 'r \<Rightarrow> unit option \<times> 'r"
  br_keys :: "string \<Rightarrow> 'r \<Rightarrow> string list option \<times> 'r"
  br_get :: "string \<Rightarrow> 'r \<Rightarrow> pyval option option \<times> 'r"

text \<open>
  A thread of the loop is in front of the test of \<^verbatim>\<open>_running\<close>, behind it, or holds the document it is about to
  write; one that leaves the loop is done.
\<close>

datatype beat_thread = Waiting | Tested | Holding pyval | Ended

record 'r heartbeat =
  hb_worker :: string
  hb_host :: string
  hb_pid :: int
  hb_interval :: int
  hb_ttl :: int
  hb_status :: string
  hb_jobs :: int
  hb_running :: bool
  hb_client :: bool
  hb_redis :: 'r
  hb_threads :: "beat_thread list"

definition hb_init_redis :: "'r beat_redis \<Rightarrow> 'r heartbeat \<Rightarrow> 'r heartbeat" where
  "hb_init_redis R h =
     (if hb_client h then h else h\<lparr>hb_client := (br_link R (hb_redis h) = PingOk)\<rparr>)"

definition mk_heartbeat ::
  "'r beat_redis \<Rightarrow> string \<Rightarrow> int \<Rightarrow> string \<Rightarrow> int \<Rightarrow> string option \<Rightarrow> int option \<Rightarrow> bool \<Rightarrow> 'r \<Rightarrow> 'r heartbeat" where
  "mk_heartbeat R host pid hex dflt_interval worker_id interval has_client r =
     (let every = (case interval of None \<Rightarrow> dflt_interval | Some i \<Rightarrow> if i = 0 then dflt_interval else i)
      in hb_init_redis R
           \<lparr>hb_worker = or_else worker_id (''worker-'' @ host @ ''-'' @ int_str pid @ ''-'' @ take 6 hex), hb_host = host,
            hb_pid = pid, hb_interval = every, hb_ttl = every * 3, hb_status = ''starting'', hb_jobs = 0,
            hb_running = False, hb_client = has_client, hb_redis = r, hb_threads = []\<rparr>)"

definition get_redis_key :: "'r heartbeat \<Rightarrow> string" where
  "get_redis_key h = ''seo_agent:worker:'' @ hb_worker h"

section \<open>Documents\<close>

text \<open>
  The load of the process: \<open>psutil\<close> gives the percentage and the bytes, otherwise the kernel gives the kilobytes, otherwise
  both are zero.
\<close>

definition collect_system_metrics :: "(rat \<times> nat) option \<Rightarrow> nat option \<Rightarrow> rat \<times> rat" where
  "collect_system_metrics psutil usage =
     (case psutil of
        Some (cpu, rss) \<Rightarrow> (py_round2 cpu, py_round2 (of_nat rss / (1024 * 1024)))
      | None \<Rightarrow> (case usage of Some kb \<Rightarrow> (0, py_round2 (of_nat kb / 1024)) | None \<Rightarrow> (0, 0)))"

definition generate_heartbeat_payload :: "string \<Rightarrow> rat \<times> rat \<Rightarrow> 'r heartbeat \<Rightarrow> pyval" where
  "generate_heartbeat_payload now load h =
     PDict [(''worker_id'', PStr (hb_worker h)), (''hostname'', PStr (hb_host h)), (''pid'', PInt (hb_pid h)),
            (''status'', PStr (hb_status h)), (''last_seen'', PStr now), (''running_jobs'', PInt (hb_jobs h)),
            (''cpu_usage'', PFloat (fst load)), (''memory_usage'', PFloat (snd load))]"

definition write_beat :: "'r beat_redis \<Rightarrow> pyval \<Rightarrow> 'r heartbeat \<Rightarrow> 'r heartbeat" where
  "write_beat R doc h =
     (if hb_client h then h\<lparr>hb_redis := snd (br_set R (get_redis_key h) doc (hb_ttl h) (hb_redis h))\<rparr> else h)"

definition publish_heartbeat :: "'r beat_redis \<Rightarrow> string \<Rightarrow> rat \<times> rat \<Rightarrow> 'r heartbeat \<Rightarrow> 'r heartbeat" where
  "publish_heartbeat R now load h = write_beat R (generate_heartbeat_payload now load h) h"

definition set_status :: "'r beat_redis \<Rightarrow> string \<Rightarrow> rat \<times> rat \<Rightarrow> string \<Rightarrow> int option \<Rightarrow> 'r heartbeat \<Rightarrow> 'r heartbeat" where
  "set_status R now load status jobs h =
     publish_heartbeat R now load (h\<lparr>hb_status := status, hb_jobs := (case jobs of None \<Rightarrow> hb_jobs h | Some n \<Rightarrow> n)\<rparr>)"

section \<open>The loop\<close>

text \<open>With the calls of the metrics registry.\<close>

definition hb_start :: "'r beat_redis \<Rightarrow> string \<Rightarrow> rat \<times> rat \<Rightarrow> 'r heartbeat \<Rightarrow> metric_op list \<times> 'r heartbeat" where
  "hb_start R now load h =
     (if hb_running h then ([], h)
      else ([set_worker_active 1],
            (set_status R now load ''idle'' None (h\<lparr>hb_running := True\<rparr>))\<lparr>hb_threads := hb_threads h @ [Waiting]\<rparr>))"

definition hb_stop :: "'r beat_redis \<Rightarrow> string \<Rightarrow> rat \<times> rat \<Rightarrow> 'r heartbeat \<Rightarrow> metric_op list \<times> 'r heartbeat" where
  "hb_stop R now load h =
     (let h1 = set_status R now load ''stopped'' None (h\<lparr>hb_running := False\<rparr>)
      in ([set_worker_active 0],
          if hb_client h1 then h1\<lparr>hb_redis := snd (br_delete R (get_redis_key h1) (hb_redis h1))\<rparr> else h1))"

definition thread_step :: "'r beat_redis \<Rightarrow> string \<Rightarrow> rat \<times> rat \<Rightarrow> nat \<Rightarrow> 'r heartbeat \<Rightarrow> 'r heartbeat" where
  "thread_step R now load i h =
     (if length (hb_threads h) \<le> i then h
      else (case hb_threads h ! i of
              Waiting \<Rightarrow> h\<lparr>hb_threads := (hb_threads h)[i := if hb_running h then Tested else Ended]\<rparr>
            | Tested \<Rightarrow> h\<lparr>hb_threads := (hb_threads h)[i := Holding (generate_heartbeat_payload now load h)]\<rparr>
            | Holding doc \<Rightarrow> (write_beat R doc h)\<lparr>hb_threads := (hb_threads h)[i := Waiting]\<rparr>
            | Ended \<Rightarrow> h))"

text \<open>
  The documents of the workers that are there; the first exception ends the reading and keeps what was read.
\<close>

fun read_beats :: "'r beat_redis \<Rightarrow> string list \<Rightarrow> 'r \<Rightarrow> pyval list" where
  "read_beats R [] r = []"
| "read_beats R (k # ks) r =
     (case br_get R k r of
        (None, r1) \<Rightarrow> []
      | (Some None, r1) \<Rightarrow> read_beats R ks r1
      | (Some (Some doc), r1) \<Rightarrow> doc # read_beats R ks r1)"

definition get_active_workers :: "'r beat_redis \<Rightarrow> bool \<Rightarrow> 'r \<Rightarrow> pyval list" where
  "get_active_workers R has_client r =
     (if \<not> has_client then []
      else (case br_keys R ''seo_agent:worker:*'' r of (None, r1) \<Rightarrow> [] | (Some ks, r1) \<Rightarrow> read_beats R ks r1))"

section \<open>What the worker sees\<close>

definition beat_abs :: "'r heartbeat \<Rightarrow> ('s, 'd, 'q) worker \<Rightarrow> bool" where
  "beat_abs h w \<longleftrightarrow> wk_beating w = hb_running h \<and> wk_status w = hb_status h"

lemma publish_fields [simp]:
  "hb_running (publish_heartbeat R now load h) = hb_running h" "hb_status (publish_heartbeat R now load h) = hb_status h"
  "hb_client (publish_heartbeat R now load h) = hb_client h" "hb_worker (publish_heartbeat R now load h) = hb_worker h"
  "hb_threads (publish_heartbeat R now load h) = hb_threads h" "hb_jobs (publish_heartbeat R now load h) = hb_jobs h"
  by (simp_all add: publish_heartbeat_def write_beat_def)

lemma w_metric_fields: "wk_beating (w_metric m w) = wk_beating w" "wk_status (w_metric m w) = wk_status w"
  by (simp_all add: w_metric_def)

text \<open>
  starting and stopping the heartbeat refines what the worker's model does with its two flags and the registry:
  related states stay related, and the registry gets the calls that the heartbeat makes.
\<close>

theorem heartbeat_refines_worker:
  assumes "beat_abs h w"
  shows "beat_abs (snd (hb_start R now load h)) (start_heartbeat_loop w)
    \<and> wk_world (start_heartbeat_loop w) = wk_world (foldl (\<lambda>v m. w_metric m v) w (fst (hb_start R now load h)))
    \<and> beat_abs (snd (hb_stop R now load h)) (stop_heartbeat_loop w)
    \<and> wk_world (stop_heartbeat_loop w) = wk_world (foldl (\<lambda>v m. w_metric m v) w (fst (hb_stop R now load h)))"
  using assms
  by (simp add: beat_abs_def hb_start_def hb_stop_def start_heartbeat_loop_def stop_heartbeat_loop_def set_status_def
      Let_def w_metric_fields) (simp add: w_metric_def)

text \<open>A Redis that keeps what it is given.\<close>

definition plain_redis :: "(string \<rightharpoonup> pyval) beat_redis" where
  "plain_redis = \<lparr>br_link = (\<lambda>r. PingOk), br_set = (\<lambda>k doc t r. (Some (), r(k \<mapsto> doc))),
     br_delete = (\<lambda>k r. (Some (), r(k := None))), br_keys = (\<lambda>p r. (Some [], r)), br_get = (\<lambda>k r. (Some (r k), r))\<rparr>"

theorem heartbeat_refines_worker_witness:
  "let h = mk_heartbeat plain_redis ''host'' 7 ''abcdef00'' 10 None None False Map.empty;
       w = demo_worker\<lparr>wk_beating := False, wk_status := ''starting''\<rparr>
   in beat_abs h w \<and> beat_abs (snd (hb_start plain_redis ''t'' (0, 0) h)) (start_heartbeat_loop w)
      \<and> beat_abs (snd (hb_stop plain_redis ''t'' (0, 0) h)) (stop_heartbeat_loop w)"
proof -
  let ?h = "mk_heartbeat plain_redis ''host'' 7 ''abcdef00'' 10 None None False Map.empty"
  let ?w = "demo_worker\<lparr>wk_beating := False, wk_status := ''starting''\<rparr>"
  have "beat_abs ?h ?w" by (simp add: beat_abs_def mk_heartbeat_def hb_init_redis_def plain_redis_def Let_def)
  with heartbeat_refines_worker [OF this, of plain_redis "''t''" "(0, 0)"] show ?thesis by (simp add: Let_def)
qed

section \<open>A stopped worker that is listed\<close>

text \<open>
  stopping deletes the document, but a thread that was between its test and its write puts it back: the
  stopped worker is listed until the document expires, three intervals later.
\<close>

theorem stopped_worker_is_listed:
  assumes "hb_threads h = [Tested]" and "hb_client h"
    and set_get: "\<And>k doc t r r'. br_set R k doc t r = (Some (), r') \<Longrightarrow> br_get R k r' = (Some (Some doc), r')"
    and works: "\<And>k doc t r. fst (br_set R k doc t r) = Some ()"
  shows "let h' = thread_step R now load 0 (thread_step R now load 0 (snd (hb_stop R now load h)))
    in br_get R (get_redis_key h') (hb_redis h')
         = (Some (Some (generate_heartbeat_payload now load (h\<lparr>hb_status := ''stopped''\<rparr>))), hb_redis h')
       \<and> \<not> hb_running h'"
proof -
  let ?h1 = "snd (hb_stop R now load h)"
  have h1: "hb_threads ?h1 = [Tested]" "hb_client ?h1" "\<not> hb_running ?h1"
    "generate_heartbeat_payload now load ?h1 = generate_heartbeat_payload now load (h\<lparr>hb_status := ''stopped''\<rparr>)"
    using assms(1,2)
    by (auto simp: hb_stop_def Let_def set_status_def publish_heartbeat_def write_beat_def generate_heartbeat_payload_def)
  have set: "br_get R k (snd (br_set R k doc t r)) = (Some (Some doc), snd (br_set R k doc t r))" for k doc t r
    using set_get [of k doc t r "snd (br_set R k doc t r)"] works [of k doc t r] by (metis prod.collapse)
  show ?thesis
    using h1 by (simp add: thread_step_def write_beat_def get_redis_key_def set Let_def)
qed

theorem stopped_worker_is_listed_witness:
  "let h = thread_step plain_redis ''t'' (0, 0) 0 (snd (hb_start plain_redis ''t'' (0, 0)
         (mk_heartbeat plain_redis ''host'' 7 ''abcdef00'' 10 None None False Map.empty)));
       h' = thread_step plain_redis ''t'' (0, 0) 0 (thread_step plain_redis ''t'' (0, 0) 0 (snd (hb_stop plain_redis ''t'' (0, 0) h)))
   in hb_redis h' (get_redis_key h') = Some (generate_heartbeat_payload ''t'' (0, 0) (h\<lparr>hb_status := ''stopped''\<rparr>))
      \<and> \<not> hb_running h'"
proof -
  let ?h = "thread_step plain_redis ''t'' (0, 0) 0 (snd (hb_start plain_redis ''t'' (0, 0)
         (mk_heartbeat plain_redis ''host'' 7 ''abcdef00'' 10 None None False Map.empty)))"
  have "hb_threads ?h = [Tested] \<and> hb_client ?h"
    by (simp add: thread_step_def hb_start_def mk_heartbeat_def hb_init_redis_def plain_redis_def set_status_def Let_def)
  then have "let h' = thread_step plain_redis ''t'' (0, 0) 0 (thread_step plain_redis ''t'' (0, 0) 0 (snd (hb_stop plain_redis ''t'' (0, 0) ?h)))
    in br_get plain_redis (get_redis_key h') (hb_redis h')
         = (Some (Some (generate_heartbeat_payload ''t'' (0, 0) (?h\<lparr>hb_status := ''stopped''\<rparr>))), hb_redis h')
       \<and> \<not> hb_running h'"
    by (intro stopped_worker_is_listed) (auto simp: plain_redis_def)
  then show ?thesis by (simp add: Let_def plain_redis_def)
qed

end
