(* ===== verification/App.thy ===== *)
theory App
  imports Settings Jobs Heartbeat
begin

text \<open>
  \<^verbatim>\<open>backend/main.py\<close>: the handlers of exceptions, the start, and the probes; and the handlers of \<^verbatim>\<open>backend/api/routes.py\<close> for
  administrators, which report what the worker, the queue, the heartbeats and the dead letter queue give.
\<close>

section \<open>Exceptions\<close>

text \<open>What a handler of a request can raise, as the framework tells it apart.\<close>

record field_error =
  fe_loc :: "pyval list"
  fe_msg :: string
  fe_type :: string

datatype raised =
    Raised py_exc
  | HttpRaised int string
  | InvalidRequest "field_error list"

record error_response =
  er_status :: int
  er_error :: string
  er_detail :: string
  er_code :: int
  er_details :: kwargs

definition mk_error :: "int \<Rightarrow> string \<Rightarrow> kwargs \<Rightarrow> error_response" where
  "mk_error code message details =
     \<lparr>er_status = code, er_error = message, er_detail = message, er_code = code, er_details = details\<rparr>"

text \<open>\<^verbatim>\<open>str(item)\<close> of a part of a location, which is a name or a position.\<close>

definition loc_text :: "pyval \<Rightarrow> string" where
  "loc_text v = (case v of PStr s \<Rightarrow> s | PInt i \<Rightarrow> int_str i | _ \<Rightarrow> [])"

definition seo_agent_exception_handler :: "app_exc \<Rightarrow> error_response" where
  "seo_agent_exception_handler a = mk_error (status_code (e_kind a)) (e_message a) (e_details a)"

definition http_exception_handler :: "int \<Rightarrow> string \<Rightarrow> error_response" where
  "http_exception_handler code detail = mk_error code detail []"

definition validation_exception_handler :: "field_error list \<Rightarrow> error_response" where
  "validation_exception_handler errs =
     mk_error 422 ''Request validation failed''
       [(''errors'', PList (map (\<lambda>e. PDict [(''loc'', PList (map (PStr \<circ> loc_text) (fe_loc e))), (''msg'', PStr (fe_msg e)),
                                             (''type'', PStr (fe_type e))]) errs))]"

definition generic_exception_handler :: error_response where
  "generic_exception_handler = mk_error 500 ''An internal server error occurred'' []"

definition handle_exception :: "raised \<Rightarrow> error_response" where
  "handle_exception r =
     (case r of
        Raised (AppError a) \<Rightarrow> seo_agent_exception_handler a
      | Raised e \<Rightarrow> generic_exception_handler
      | HttpRaised code detail \<Rightarrow> http_exception_handler code detail
      | InvalidRequest errs \<Rightarrow> validation_exception_handler errs)"

text \<open>
  what a client learns of an exception: the message and the details of an exception of the application, and of
  every other exception the same answer, so that no text of it leaves the server; the code in the body is always the status of
  the response.
\<close>

theorem errors_leak_nothing:
  "er_code (handle_exception r) = er_status (handle_exception r)
   \<and> (case r of
        Raised (AppError a) \<Rightarrow> er_error (handle_exception r) = e_message a \<and> er_status (handle_exception r) = status_code (e_kind a)
      | Raised e \<Rightarrow> handle_exception r = handle_exception (Raised (OtherException []))
      | HttpRaised code detail \<Rightarrow> er_status (handle_exception r) = code \<and> er_error (handle_exception r) = detail
      | InvalidRequest errs \<Rightarrow> er_status (handle_exception r) = 422)"
  by (auto simp: handle_exception_def seo_agent_exception_handler_def http_exception_handler_def
      validation_exception_handler_def generic_exception_handler_def mk_error_def split: raised.split py_exc.split)

section \<open>The start\<close>

text \<open>
  The check of the settings comes first and its error stops the start; the clean up of stale jobs and the start of
  the worker share one \<^verbatim>\<open>try\<close>, so an error of the first keeps the worker from starting. The result says how many jobs
  were cleaned up and whether the worker was started.
\<close>

definition app_startup :: "settings \<Rightarrow> jobs_world \<Rightarrow> (string list \<times> nat option \<times> bool) outcome \<times> jobs_world" where
  "app_startup s jw =
     (case validate_startup s of
        Inl e \<Rightarrow> (Inl e, jw)
      | Inr ws \<Rightarrow>
          (case cleanup_stale_jobs True 300 jw of
             (Inl e, jw1) \<Rightarrow> (Inr (ws, None, False), jw1)
           | (Inr n, jw1) \<Rightarrow> (Inr (ws, Some n, True), jw1)))"

section \<open>Probes\<close>

record health =
  he_status :: string
  he_service :: string
  he_version :: string
  he_time :: string

definition health_check :: "string \<Rightarrow> health" where
  "health_check now = \<lparr>he_status = ''ok'', he_service = ''SEO Agent API'', he_version = ''1.0.0'', he_time = now\<rparr>"

text \<open>
  What the readiness probe finds: the latency of the database or its error; of Redis too, unless the cache works in memory;
  the disk as total, used and free bytes; the memory as percentage, used bytes and load.
\<close>

datatype redis_probe = InMemory | RedisError string | RedisLatency rat

datatype memory_probe = NoPsutil | MemoryError string | MemoryUse rat nat rat

record probes =
  pr_database :: "string + rat"
  pr_redis :: redis_probe
  pr_disk :: "(nat \<times> nat \<times> nat) option"
  pr_memory :: memory_probe

record readiness =
  rd_code :: int
  rd_overall :: string
  rd_components :: "(string \<times> string) list"
  rd_metrics :: "metric_op list"

definition database_component :: "string + rat \<Rightarrow> string \<times> metric_op list" where
  "database_component p = (case p of Inl e \<Rightarrow> (''error'', []) | Inr t \<Rightarrow> (''ok'', [set_database_latency t]))"

definition redis_component :: "redis_probe \<Rightarrow> (string \<times> bool) \<times> metric_op list" where
  "redis_component p =
     (case p of
        InMemory \<Rightarrow> ((''fallback_in_memory'', True), [])
      | RedisError e \<Rightarrow> ((''error'', True), [])
      | RedisLatency t \<Rightarrow> ((''ok'', False), [set_redis_latency t]))"

text \<open>Python's \<^verbatim>\<open>round(x, 1)\<close>\<close>

definition used_percent :: "nat \<times> nat \<times> nat \<Rightarrow> rat" where
  "used_percent d = (case d of (all_bytes, used, free) \<Rightarrow>
     of_int (round_half_even (of_nat used / of_nat all_bytes * 100 * 10)) / 10)"

definition disk_component :: "(nat \<times> nat \<times> nat) option \<Rightarrow> string \<times> bool" where
  "disk_component p =
     (case p of
        None \<Rightarrow> (''unknown'', False)
      | Some d \<Rightarrow> if fst d = 0 then (''unknown'', False)
                  else if 90 < used_percent d then (''warning'', True) else (''ok'', False))"

definition memory_component :: "memory_probe \<Rightarrow> (string \<times> bool) \<times> metric_op list" where
  "memory_component p =
     (case p of
        NoPsutil \<Rightarrow> ((''ok'', False), [])
      | MemoryError e \<Rightarrow> ((''unknown'', False), [])
      | MemoryUse percent used cpu \<Rightarrow>
          ((if 90 < percent then (''warning'', True) else (''ok'', False)),
           [set_worker_memory_usage (of_nat used / (1024 * 1024)), set_worker_cpu_usage cpu]))"

definition configuration_component :: "settings \<Rightarrow> string \<times> bool" where
  "configuration_component s = (case validate_startup s of Inl e \<Rightarrow> (''error'', True) | Inr ws \<Rightarrow> (''ok'', False))"

text \<open>
  The probes of the heartbeat and of the queue import names that their modules do not have, \<^verbatim>\<open>worker_heartbeat_manager\<close> and
  \<^verbatim>\<open>background_job_queue\<close>: both always end in their handlers.
\<close>

definition missing_import :: "string \<times> bool" where
  "missing_import = (''error'', True)"

definition readiness_check :: "settings \<Rightarrow> probes \<Rightarrow> readiness" where
  "readiness_check s p =
     (let (db, ops1) = database_component (pr_database p); ((rds, deg1), ops2) = redis_component (pr_redis p);
          (beat, deg2) = missing_import; (que, deg3) = missing_import; (disk, deg4) = disk_component (pr_disk p);
          ((mem, deg5), ops3) = memory_component (pr_memory p); (conf, deg6) = configuration_component s;
          critical = (case pr_database p of Inl _ \<Rightarrow> True | Inr _ \<Rightarrow> False);
          degraded = (deg1 \<or> deg2 \<or> deg3 \<or> deg4 \<or> deg5 \<or> deg6)
      in \<lparr>rd_code = (if critical then 503 else 200),
          rd_overall = (if critical then ''unhealthy'' else if degraded then ''degraded'' else ''ready''),
          rd_components = [(''database'', db), (''redis'', rds), (''worker_heartbeat'', beat), (''queue'', que),
                           (''disk_space'', disk), (''memory'', mem), (''configuration'', conf)],
          rd_metrics = ops1 @ ops2 @ ops3\<rparr>)"

text \<open>
  the readiness probe never answers that the program is ready: whatever the state of its parts, it is degraded, and
  unhealthy with the status 503 exactly when the database fails.
\<close>

theorem readiness_is_never_ready:
  "rd_overall (readiness_check s p) \<noteq> ''ready''
   \<and> (rd_overall (readiness_check s p) = ''unhealthy'' \<longleftrightarrow> (\<exists>e. pr_database p = Inl e))
   \<and> (rd_code (readiness_check s p) = 503 \<longleftrightarrow> (\<exists>e. pr_database p = Inl e))
   \<and> map_of (rd_components (readiness_check s p)) ''queue'' = Some ''error''"
  by (auto simp: readiness_check_def Let_def missing_import_def split: prod.split sum.split)

section \<open>Administrators\<close>

definition api_list_workers :: "'r beat_redis \<Rightarrow> bool \<Rightarrow> 'r \<Rightarrow> pyval list \<times> nat" where
  "api_list_workers R has_client r = (let ws = get_active_workers R has_client r in (ws, length ws))"

definition api_dead_letters ::
  "bool \<Rightarrow> 'r dlq_redis \<Rightarrow> int \<Rightarrow> 'r dlq \<Rightarrow> (dead_job list \<times> int) outcome \<times> 'r dlq" where
  "api_dead_letters enable R limit d =
     (if limit < 1 \<or> 100 < limit then (Inl (PydanticValidationError ''query''), d)
      else (case get_dlq_jobs enable R limit d of
              (items, d1) \<Rightarrow> (case get_dlq_count enable R d1 of (n, d2) \<Rightarrow> (Inr (items, n), d2))))"

definition api_queue_stats :: "bool \<Rightarrow> 'r queue_redis \<Rightarrow> 'r job_queue \<Rightarrow> queue_stats \<times> 'r job_queue" where
  "api_queue_stats use R q = q_get_queue_stats use R q"

definition api_worker_stats ::
  "worker_settings \<Rightarrow> 'q queue_redis \<Rightarrow> ('s, 'd, 'q) worker \<Rightarrow> worker_stats \<times> ('s, 'd, 'q) worker" where
  "api_worker_stats cfg Q w = get_worker_stats cfg Q w"

definition api_worker_concurrency ::
  "worker_settings \<Rightarrow> 'q queue_redis \<Rightarrow> int \<Rightarrow> bool \<Rightarrow> ('s, 'd, 'q) worker
     \<Rightarrow> (int \<times> scaling_hints option) outcome \<times> ('s, 'd, 'q) worker" where
  "api_worker_concurrency cfg Q concurrency auto w =
     (if concurrency < 1 \<or> 100 < concurrency then (Inl (PydanticValidationError ''query''), w)
      else if auto
      then (case auto_tune_concurrency cfg Q w of (hints, w1) \<Rightarrow> (Inr (wk_concurrency w1, Some hints), w1))
      else (case adjust_concurrency concurrency w of (n, w1) \<Rightarrow> (Inr (n, None), w1)))"

text \<open>
  After a request for a concurrency that is answered the worker has the concurrency the answer names, between 1 and 100 when
  the request named it.
\<close>

lemma concurrency_is_as_answered:
  assumes "api_worker_concurrency cfg Q n auto w = (Inr (k, hints), w')"
  shows "wk_concurrency w' = k \<and> (\<not> auto \<longrightarrow> k = n \<and> 1 \<le> k \<and> k \<le> 100)"
  using assms
  by (auto simp: api_worker_concurrency_def adjust_concurrency_def Let_def w_metric_def split: if_splits prod.splits)

end
