(* ===== verification/Html_Tree.thy ===== *)
theory Html_Tree
  imports Urls
begin

text \<open>
  Documents as BeautifulSoup gives them to \<^verbatim>\<open>backend/services/html_parser.py\<close>, \<^verbatim>\<open>image_extractor.py\<close> and
  \<^verbatim>\<open>technical_metadata.py\<close>: elements with their attributes, texts, and the contents of scripts, style sheets and
  comments, which are no part of a text. Building the tree is the work of the library; what the code asks of it
  is defined here. Names are in lower case, as the library gives them.
\<close>

datatype html_node =
    HElem string "(string \<times> string) list" "html_node list"
  | HText string
  | HRaw string

type_synonym html_doc = "html_node list"

section \<open>Searching\<close>

text \<open>The elements in document order.\<close>

fun elements :: "html_node \<Rightarrow> html_node list" where
  "elements (HElem n as cs) = HElem n as cs # concat (map elements cs)"
| "elements (HText s) = []"
| "elements (HRaw s) = []"

definition all_elements :: "html_doc \<Rightarrow> html_node list" where
  "all_elements doc = concat (map elements doc)"

definition elem_name :: "html_node \<Rightarrow> string" where
  "elem_name e = (case e of HElem n as cs \<Rightarrow> n | _ \<Rightarrow> [])"

definition attr :: "string \<Rightarrow> html_node \<Rightarrow> string option" where
  "attr k e = (case e of HElem n as cs \<Rightarrow> map_of as k | _ \<Rightarrow> None)"

definition find_elem :: "string \<Rightarrow> (html_node \<Rightarrow> bool) \<Rightarrow> html_doc \<Rightarrow> html_node option" where
  "find_elem name P doc = List.find (\<lambda>e. elem_name e = name \<and> P e) (all_elements doc)"

definition find_elems :: "string \<Rightarrow> (html_node \<Rightarrow> bool) \<Rightarrow> html_doc \<Rightarrow> html_node list" where
  "find_elems name P doc = filter (\<lambda>e. elem_name e = name \<and> P e) (all_elements doc)"

definition attr_is :: "string \<Rightarrow> (string \<Rightarrow> bool) \<Rightarrow> html_node \<Rightarrow> bool" where
  "attr_is k P e \<longleftrightarrow> (case attr k e of None \<Rightarrow> False | Some v \<Rightarrow> P v)"

text \<open>\<^verbatim>\<open>tag.get(k, "").strip() if tag and tag.get(k) else ""\<close>\<close>

definition stripped_attr :: "string \<Rightarrow> html_node option \<Rightarrow> string" where
  "stripped_attr k e = (case e of None \<Rightarrow> [] | Some t \<Rightarrow> (case attr k t of None \<Rightarrow> [] | Some v \<Rightarrow> str_strip v))"

text \<open>A pattern that is anchored at both ends matches before a line end too.\<close>

definition drop_newline :: "string \<Rightarrow> string" where
  "drop_newline s = (if s \<noteq> [] \<and> last s = CHR 0x0A then butlast s else s)"

definition names_one_of :: "string list \<Rightarrow> string \<Rightarrow> bool" where
  "names_one_of ns s \<longleftrightarrow> str_lower (drop_newline s) \<in> set ns"

section \<open>Texts\<close>

fun node_text :: "html_node \<Rightarrow> string" where
  "node_text (HElem n as cs) = concat (map node_text cs)"
| "node_text (HText s) = s"
| "node_text (HRaw s) = []"

text \<open>\<^verbatim>\<open>tag.string\<close>: the only text below, if there is one.\<close>

fun node_string :: "html_node \<Rightarrow> string option" where
  "node_string (HElem n as [c]) = node_string c"
| "node_string (HElem n as cs) = None"
| "node_string (HText s) = Some s"
| "node_string (HRaw s) = Some s"

text \<open>\<^verbatim>\<open>s.split()\<close>, and the words joined by blanks.\<close>

fun words_from :: "string \<Rightarrow> string \<Rightarrow> string list" where
  "words_from w [] = (if w = [] then [] else [w])"
| "words_from w (c # cs) =
     (if is_space c then (if w = [] then words_from [] cs else w # words_from [] cs) else words_from (w @ [c]) cs)"

definition words :: "string \<Rightarrow> string list" where
  "words s = words_from [] s"

fun unwords :: "string list \<Rightarrow> string" where
  "unwords [] = []"
| "unwords [w] = w"
| "unwords (w # v # ws) = w @ CHR '' '' # unwords (v # ws)"

definition squeezed :: "string \<Rightarrow> string" where
  "squeezed s = unwords (words s)"

text \<open>\<^verbatim>\<open>re.search(r"charset=([^\s;]+)", s, re.I)\<close>\<close>

definition charset_run :: "string \<Rightarrow> string" where
  "charset_run s = takeWhile (\<lambda>c. \<not> is_space c \<and> c \<noteq> CHR '';'') s"

fun charset_of :: "string \<Rightarrow> string option" where
  "charset_of [] = None"
| "charset_of (c # cs) =
     (if starts_with (str_lower (c # cs)) ''charset='' \<and> charset_run (drop 8 (c # cs)) \<noteq> []
      then Some (charset_run (drop 8 (c # cs))) else charset_of cs)"

section \<open>Words\<close>

definition word :: "string \<Rightarrow> bool" where
  "word w \<longleftrightarrow> w \<noteq> [] \<and> list_all (\<lambda>c. \<not> is_space c) w"

lemma words_from_words: "list_all (\<lambda>c. \<not> is_space c) w \<Longrightarrow> list_all word (words_from w s)"
  by (induction w s rule: words_from.induct) (auto simp: word_def)

lemma words_from_word: "list_all (\<lambda>c. \<not> is_space c) v \<Longrightarrow> words_from w (v @ s) = words_from (w @ v) s"
  by (induction v arbitrary: w) auto

lemma words_unwords: "list_all word ws \<Longrightarrow> words (unwords ws) = ws"
proof (induction ws rule: unwords.induct)
  case (2 w)
  then show ?case using words_from_word [of w "[]" "[]"] by (simp add: words_def word_def)
next
  case (3 w v ws)
  have "is_space CHR '' ''" by code_simp
  with 3 words_from_word [of w "[]" "CHR '' '' # unwords (v # ws)"] show ?case
    by (simp add: words_def word_def)
qed (simp add: words_def)

text \<open>
  squeezing a text keeps its words and nothing else: the words of the result are the words of the text, none is empty or has
  white space in it, and squeezing again changes nothing.
\<close>

theorem squeezed_keeps_words:
  "words (squeezed s) = words s \<and> squeezed (squeezed s) = squeezed s \<and> list_all word (words s)"
proof -
  have "list_all word (words s)" using words_from_words [of "[]" s] by (simp add: words_def)
  then show ?thesis by (simp add: squeezed_def words_unwords)
qed

end
