(* ===== verification/Html_Parser.thy ===== *)
theory Html_Parser
  imports Html_Tree Errors
begin

text \<open>
  \<^verbatim>\<open>HTMLParserService.parse_html\<close> of \<^verbatim>\<open>backend/services/html_parser.py\<close>, \<^verbatim>\<open>ImageExtractor\<close> and \<^verbatim>\<open>TechnicalMetadata\<close>. \<open>loads\<close> is
  the reader of JSON, \<^const>\<open>None\<close> when it raises.
\<close>

section \<open>The parts of a page\<close>

record page_image =
  pi_src :: string
  pi_alt :: string
  pi_width :: "string option"
  pi_height :: "string option"
  pi_loading :: "string option"

record page_link =
  pl_href :: string
  pl_text :: string
  pl_rel :: "string list option"
  pl_target :: "string option"
  pl_internal :: bool

datatype json_ld = JsonLd pyval | JsonLdError string

record page_parts =
  pp_title :: string
  pp_description :: string
  pp_canonical :: string
  pp_robots :: string
  pp_language :: string
  pp_charset :: string
  pp_headings :: "(string \<times> string) list"
  pp_images :: "page_image list"
  pp_links :: "page_link list"
  pp_open_graph :: "(string, string) py_dict"
  pp_twitter :: "(string, string) py_dict"
  pp_json_ld :: "json_ld list"

definition page_title :: "html_doc \<Rightarrow> string" where
  "page_title doc =
     (case find_elem ''title'' (\<lambda>e. True) doc of
        None \<Rightarrow> []
      | Some t \<Rightarrow> (case node_string t of None \<Rightarrow> [] | Some s \<Rightarrow> str_strip s))"

definition meta_named :: "string list \<Rightarrow> html_doc \<Rightarrow> html_node option" where
  "meta_named ns doc = find_elem ''meta'' (attr_is ''name'' (names_one_of ns)) doc"

text \<open>\<^verbatim>\<open>rel\<close> and \<^verbatim>\<open>class\<close> are lists of words.\<close>

definition has_rel :: "string \<Rightarrow> html_node \<Rightarrow> bool" where
  "has_rel name e \<longleftrightarrow> attr_is ''rel'' (\<lambda>v. list_ex (\<lambda>w. str_lower w = name) (words v)) e"

text \<open>An address relative to the page, left as it is when it cannot be joined.\<close>

definition joined :: "string option \<Rightarrow> string \<Rightarrow> string" where
  "joined base url =
     (if url = [] \<or> \<not> truthy base then url
      else (case urljoin (the base) url of None \<Rightarrow> url | Some u \<Rightarrow> u))"

definition page_canonical :: "string option \<Rightarrow> html_doc \<Rightarrow> string" where
  "page_canonical base doc = joined base (stripped_attr ''href'' (find_elem ''link'' (has_rel ''canonical'') doc))"

definition page_charset :: "html_doc \<Rightarrow> string" where
  "page_charset doc =
     (let c = stripped_attr ''charset'' (find_elem ''meta'' (\<lambda>e. attr ''charset'' e \<noteq> None) doc)
      in if c \<noteq> [] then c
         else (case find_elem ''meta'' (attr_is ''http-equiv'' (names_one_of [''content-type''])) doc of
                 None \<Rightarrow> []
               | Some e \<Rightarrow> (case attr ''content'' e of
                              None \<Rightarrow> [] | Some v \<Rightarrow> (case charset_of v of None \<Rightarrow> [] | Some x \<Rightarrow> x))))"

definition heading_names :: "string list" where
  "heading_names = [''h1'', ''h2'', ''h3'', ''h4'', ''h5'', ''h6'']"

definition page_headings :: "html_doc \<Rightarrow> (string \<times> string) list" where
  "page_headings doc =
     filter (\<lambda>(l, t). t \<noteq> [])
       (map (\<lambda>e. (str_lower (elem_name e), squeezed (node_text e)))
          (filter (\<lambda>e. elem_name e \<in> set heading_names) (all_elements doc)))"

definition page_image_of :: "string option \<Rightarrow> html_node \<Rightarrow> page_image" where
  "page_image_of base e =
     \<lparr>pi_src = joined base (stripped_attr ''src'' (Some e)), pi_alt = stripped_attr ''alt'' (Some e),
      pi_width = attr ''width'' e, pi_height = attr ''height'' e, pi_loading = attr ''loading'' e\<rparr>"

definition origin :: "url_parts \<Rightarrow> string" where
  "origin p = up_scheme p @ ''://'' @ up_netloc p"

text \<open>
  The address of a link and whether it stays on the site: with a base the origins are compared, without one, or for an
  empty address, its first character decides. What cannot be parsed stays as it is and counts as external.
\<close>

definition link_target :: "string option \<Rightarrow> string \<Rightarrow> string \<Rightarrow> string \<times> bool" where
  "link_target base base_origin href =
     (if href \<noteq> [] \<and> truthy base
      then (case urljoin (the base) href of
              None \<Rightarrow> (href, False)
            | Some resolved \<Rightarrow>
                (case urlparse resolved of
                   None \<Rightarrow> (href, False)
                 | Some p \<Rightarrow> (resolved, base_origin \<noteq> [] \<and> origin p = base_origin)))
      else (href, starts_with href ''/'' \<or> starts_with href ''#'' \<or> starts_with href ''.''))"

definition page_link_of :: "string option \<Rightarrow> string \<Rightarrow> html_node \<Rightarrow> page_link" where
  "page_link_of base base_origin e =
     (case link_target base base_origin (stripped_attr ''href'' (Some e)) of
        (href, internal) \<Rightarrow>
          \<lparr>pl_href = href, pl_text = squeezed (node_text e), pl_rel = map_option words (attr ''rel'' e),
           pl_target = attr ''target'' e, pl_internal = internal\<rparr>)"

text \<open>A property that comes again is overwritten.\<close>

definition collect_props :: "string \<Rightarrow> html_node list \<Rightarrow> (string, string) py_dict" where
  "collect_props k es =
     foldl (\<lambda>d e. let name = (case attr k e of None \<Rightarrow> [] | Some v \<Rightarrow> str_lower v);
                      content = stripped_attr ''content'' (Some e)
                  in if name \<noteq> [] \<and> content \<noteq> [] then d_set name content d else d) [] es"

definition page_json_ld :: "(string \<Rightarrow> pyval option) \<Rightarrow> html_doc \<Rightarrow> json_ld list" where
  "page_json_ld loads doc =
     concat (map (\<lambda>e. case node_string e of
                        None \<Rightarrow> []
                      | Some raw \<Rightarrow> if raw = [] then []
                                    else (case loads raw of None \<Rightarrow> [JsonLdError raw] | Some v \<Rightarrow> [JsonLd v]))
               (find_elems ''script'' (attr_is ''type'' (\<lambda>t. str_contains (str_lower t) ''application/ld+json'')) doc))"

text \<open>The origin of the base is taken outside of every \<^verbatim>\<open>try\<close>: a base that cannot be parsed is an error.\<close>

definition base_origin_of :: "string option \<Rightarrow> string outcome" where
  "base_origin_of base =
     (if \<not> truthy base then Inr []
      else (case urlparse (the base) of None \<Rightarrow> Inl (ValueError ''Invalid IPv6 URL'') | Some p \<Rightarrow> Inr (origin p)))"

definition parse_html :: "(string \<Rightarrow> pyval option) \<Rightarrow> string option \<Rightarrow> html_doc \<Rightarrow> page_parts outcome" where
  "parse_html loads base doc =
     (case base_origin_of base of
        Inl e \<Rightarrow> Inl e
      | Inr org \<Rightarrow>
          Inr \<lparr>pp_title = page_title doc,
               pp_description = stripped_attr ''content'' (meta_named [''description''] doc),
               pp_canonical = page_canonical base doc,
               pp_robots = stripped_attr ''content'' (meta_named [''robots'', ''googlebot''] doc),
               pp_language = stripped_attr ''lang'' (find_elem ''html'' (\<lambda>e. True) doc),
               pp_charset = page_charset doc,
               pp_headings = page_headings doc,
               pp_images = map (page_image_of base) (find_elems ''img'' (\<lambda>e. True) doc),
               pp_links = map (page_link_of base org) (find_elems ''a'' (\<lambda>e. attr ''href'' e \<noteq> None) doc),
               pp_open_graph = collect_props ''property''
                 (find_elems ''meta'' (attr_is ''property'' (\<lambda>v. starts_with (str_lower v) ''og:'')) doc),
               pp_twitter = collect_props ''name''
                 (find_elems ''meta'' (attr_is ''name'' (\<lambda>v. starts_with (str_lower v) ''twitter:'')) doc),
               pp_json_ld = page_json_ld loads doc\<rparr>)"

section \<open>What the parts are\<close>

lemma collect_props_keys:
  "d_get (collect_props k es) n = Some c \<Longrightarrow>
     c \<noteq> [] \<and> (\<exists>e\<in>set es. map_option str_lower (attr k e) = Some n \<and> c = stripped_attr ''content'' (Some e))"
proof (induction es arbitrary: n c rule: rev_induct)
  case (snoc e es)
  let ?n = "case attr k e of None \<Rightarrow> [] | Some v \<Rightarrow> str_lower v" and ?c = "stripped_attr ''content'' (Some e)"
  have step: "collect_props k (es @ [e]) =
      (if ?n \<noteq> [] \<and> ?c \<noteq> [] then d_set ?n ?c (collect_props k es) else collect_props k es)"
    by (simp add: collect_props_def Let_def)
  show ?case
  proof (cases "?n \<noteq> [] \<and> ?c \<noteq> [] \<and> n = ?n")
    case True
    then show ?thesis using snoc.prems unfolding step by (auto split: option.splits)
  next
    case False
    then have "d_get (collect_props k es) n = Some c" using snoc.prems unfolding step by (auto split: if_splits)
    from snoc.IH [OF this] show ?thesis by auto
  qed
qed (simp add: collect_props_def)

text \<open>
  With a base a link counts as internal exactly when its address, joined to the base, has the scheme and the
  host of the base.
\<close>

definition same_site :: "string \<Rightarrow> url_parts \<Rightarrow> string \<Rightarrow> bool" where
  "same_site base b href \<longleftrightarrow>
     (case urljoin base href of
        None \<Rightarrow> False
      | Some u \<Rightarrow> (case urlparse u of None \<Rightarrow> False | Some q \<Rightarrow> up_scheme q @ ''://'' @ up_netloc q = up_scheme b @ ''://'' @ up_netloc b))"

theorem internal_links_stay_on_the_site:
  assumes "parse_html loads (Some base) doc = Inr p" and "base \<noteq> []"
  shows "\<exists>b. urlparse base = Some b \<and>
    list_all2 (\<lambda>e l. stripped_attr ''href'' (Some e) = [] \<or> pl_internal l = same_site base b (stripped_attr ''href'' (Some e)))
      (find_elems ''a'' (\<lambda>e. attr ''href'' e \<noteq> None) doc) (pp_links p)"
proof -
  obtain b where b: "urlparse base = Some b" "base_origin_of (Some base) = Inr (origin b)"
    using assms by (auto simp: parse_html_def base_origin_of_def split: option.splits)
  have "href = [] \<or> snd (link_target (Some base) (origin b) href) = same_site base b href" for href
    using assms(2) by (auto simp: link_target_def same_site_def origin_def split: option.splits)
  then have each: "stripped_attr ''href'' (Some e) = []
      \<or> pl_internal (page_link_of (Some base) (origin b) e) = same_site base b (stripped_attr ''href'' (Some e))" for e
    by (simp add: page_link_of_def split_beta)
  have links: "pp_links p = map (page_link_of (Some base) (origin b)) (find_elems ''a'' (\<lambda>e. attr ''href'' e \<noteq> None) doc)"
    using assms(1) b(2) by (auto simp: parse_html_def)
  have all: "list_all2 (\<lambda>e l. stripped_attr ''href'' (Some e) = [] \<or> pl_internal l = same_site base b (stripped_attr ''href'' (Some e)))
      xs (map (page_link_of (Some base) (origin b)) xs)" for xs
    by (induction xs) (simp_all only: each list.map list_all2_Nil list_all2_Cons simp_thms)
  show ?thesis by (rule exI [of _ b], rule conjI [OF b(1)], unfold links, rule all)
qed

theorem internal_links_stay_on_the_site_witness:
  "\<exists>p. parse_html (\<lambda>s. None) (Some ''https://a.b/x'') [HElem ''a'' [(''href'', ''/y'')] [], HElem ''a'' [(''href'', ''http://a.b/'')] []] = Inr p
     \<and> map pl_internal (pp_links p) = [True, False]
     \<and> (\<exists>b. urlparse ''https://a.b/x'' = Some b \<and>
          list_all2 (\<lambda>e l. stripped_attr ''href'' (Some e) = [] \<or> pl_internal l = same_site ''https://a.b/x'' b (stripped_attr ''href'' (Some e)))
            (find_elems ''a'' (\<lambda>e. attr ''href'' e \<noteq> None)
               [HElem ''a'' [(''href'', ''/y'')] [], HElem ''a'' [(''href'', ''http://a.b/'')] []]) (pp_links p))"
proof -
  let ?doc = "[HElem ''a'' [(''href'', ''/y'')] [], HElem ''a'' [(''href'', ''http://a.b/'')] []]"
  have "map_sum id (\<lambda>p. map pl_internal (pp_links p)) (parse_html (\<lambda>s. None) (Some ''https://a.b/x'') ?doc) = Inr [True, False]"
    by code_simp
  then obtain p where p: "parse_html (\<lambda>s. None) (Some ''https://a.b/x'') ?doc = Inr p" "map pl_internal (pp_links p) = [True, False]"
    by (cases "parse_html (\<lambda>s. None) (Some ''https://a.b/x'') ?doc") auto
  then show ?thesis using internal_links_stay_on_the_site [OF p(1)] by simp
qed

section \<open>Images\<close>

record image_info =
  im_src :: string
  im_alt :: string
  im_width :: "string option"
  im_height :: "string option"
  im_loading :: "string option"
  im_data_src :: "string option"
  im_srcset :: "string option"
  im_missing_alt :: bool
  im_missing_dim :: bool
  im_lazy :: bool

definition or_none :: "string \<Rightarrow> string option" where
  "or_none s = (if s = [] then None else Some s)"

definition image_info_of :: "string option \<Rightarrow> html_node \<Rightarrow> image_info" where
  "image_info_of base e =
     (let get = (\<lambda>k. case attr k e of None \<Rightarrow> [] | Some v \<Rightarrow> v);
          src = str_strip (or_else (attr ''src'' e) (get ''data-src''));
          data_src = or_none (str_strip (get ''data-src''));
          loading = or_none (str_lower (str_strip (get ''loading'')));
          classes = words (get ''class''); alt = str_strip (get ''alt'')
      in \<lparr>im_src = joined base src, im_alt = alt, im_width = or_none (get ''width''), im_height = or_none (get ''height''),
          im_loading = loading, im_data_src = data_src, im_srcset = or_none (str_strip (get ''srcset'')),
          im_missing_alt = (alt = []), im_missing_dim = (get ''width'' = [] \<or> get ''height'' = []),
          im_lazy = (loading = Some ''lazy'' \<or> data_src \<noteq> None \<or> ''lazyload'' \<in> set classes \<or> ''lazy'' \<in> set classes)\<rparr>)"

record image_report =
  ir_total :: nat
  ir_missing_alt :: nat
  ir_missing_dim :: nat
  ir_lazy :: nat
  ir_images :: "image_info list"

definition count_image :: "image_info \<Rightarrow> nat \<times> nat \<times> nat \<Rightarrow> nat \<times> nat \<times> nat" where
  "count_image i = (\<lambda>(a, d, z).
     (if im_missing_alt i then a + 1 else a, if im_missing_dim i then d + 1 else d, if im_lazy i then z + 1 else z))"

definition extract_images :: "string option \<Rightarrow> html_doc \<Rightarrow> image_report" where
  "extract_images base doc =
     (let images = map (image_info_of base) (find_elems ''img'' (\<lambda>e. True) doc);
          (a, d, z) = foldl (\<lambda>t i. count_image i t) (0, 0, 0) images
      in \<lparr>ir_total = length images, ir_missing_alt = a, ir_missing_dim = d, ir_lazy = z, ir_images = images\<rparr>)"

lemma image_counts:
  "foldl (\<lambda>t i. count_image i t) (a, d, z) is =
     (a + length (filter im_missing_alt is), d + length (filter im_missing_dim is), z + length (filter im_lazy is))"
  by (induction "is" arbitrary: a d z) (auto simp: count_image_def)

section \<open>Technical data\<close>

record tech_metadata =
  tm_id :: string
  tm_url :: string
  tm_response :: int
  tm_length :: int
  tm_size :: nat
  tm_words :: nat
  tm_language :: string
  tm_encoding :: string
  tm_type :: string
  tm_compression :: string
  tm_cache :: "(string \<times> string option) list"
  tm_headers :: "(string, string) py_dict"
  tm_created :: string

text \<open>\<^verbatim>\<open>{k.lower(): v}\<close>: of names that differ in case only the last value stays.\<close>

definition lower_keys :: "(string \<times> string) list \<Rightarrow> (string, string) py_dict" where
  "lower_keys hs = foldl (\<lambda>d (k, v). d_set (str_lower k) v d) [] hs"

text \<open>\<^verbatim>\<open>int(s)\<close> of a text: blanks around it, a sign, digits with single underscores between them.\<close>

definition int_of_text :: "string \<Rightarrow> int option" where
  "int_of_text s =
     (let t = str_strip s; sign = take 1 t \<in> {''+'', ''-''}; g = split_on (CHR ''_'') (if sign then tl t else t)
      in if list_all (\<lambda>p. p \<noteq> [] \<and> list_all is_digit p) g
         then Some ((if take 1 t = ''-'' then - 1 else 1) * int (digits_val (concat g))) else None)"

definition declared_length :: "nat \<Rightarrow> (string, string) py_dict \<Rightarrow> int" where
  "declared_length bytes hs =
     (case d_get hs ''content-length'' of
        None \<Rightarrow> int bytes
      | Some v \<Rightarrow> (case int_of_text v of None \<Rightarrow> int bytes | Some n \<Rightarrow> if 0 < n then n else int bytes))"

text \<open>The elements without a text of the page are cut out of the document before anything else is asked of it.\<close>

fun pruned :: "html_node \<Rightarrow> html_node list" where
  "pruned (HElem n as cs) =
     (if n \<in> {''script'', ''style'', ''noscript'', ''svg'', ''iframe''} then [] else [HElem n as (concat (map pruned cs))])"
| "pruned (HText s) = [HText s]"
| "pruned (HRaw s) = [HRaw s]"

definition tech_language :: "(string, string) py_dict \<Rightarrow> html_doc \<Rightarrow> string" where
  "tech_language hs doc =
     (let l = stripped_attr ''lang'' (find_elem ''html'' (\<lambda>e. True) doc);
          l2 = (if l = [] then (case d_get hs ''content-language'' of None \<Rightarrow> [] | Some v \<Rightarrow> str_strip v) else l)
      in if l2 = [] then ''unknown'' else l2)"

definition or_charset :: "string \<Rightarrow> string option \<Rightarrow> string" where
  "or_charset enc v =
     (if enc \<noteq> [] then enc
      else (case v of None \<Rightarrow> [] | Some s \<Rightarrow> (case charset_of s of None \<Rightarrow> [] | Some c \<Rightarrow> c)))"

definition tech_encoding :: "(string, string) py_dict \<Rightarrow> html_doc \<Rightarrow> string" where
  "tech_encoding hs doc =
     (let e1 = stripped_attr ''charset'' (find_elem ''meta'' (\<lambda>e. attr ''charset'' e \<noteq> None) doc);
          m = find_elem ''meta'' (attr_is ''http-equiv'' (\<lambda>v. str_contains (str_lower v) ''content-type'')) doc;
          e2 = or_charset e1 (case m of None \<Rightarrow> None | Some e \<Rightarrow> attr ''content'' e);
          e3 = or_charset e2 (d_get hs ''content-type'')
      in if e3 = [] then ''utf-8'' else e3)"

definition cache_header_names :: "(string \<times> string) list" where
  "cache_header_names = [(''cacheControl'', ''cache-control''), (''expires'', ''expires''), (''etag'', ''etag''),
     (''lastModified'', ''last-modified''), (''pragma'', ''pragma''), (''age'', ''age''), (''vary'', ''vary'')]"

definition extract_metadata ::
  "string \<Rightarrow> string \<Rightarrow> string \<Rightarrow> nat \<Rightarrow> html_doc \<Rightarrow> (string \<times> string) list \<Rightarrow> int \<Rightarrow> tech_metadata" where
  "extract_metadata now uuid url bytes doc headers response =
     (let hs = lower_keys headers; d = concat (map pruned doc)
      in \<lparr>tm_id = ''tech_'' @ take 8 uuid, tm_url = url, tm_response = response, tm_length = declared_length bytes hs,
          tm_size = bytes, tm_words = length (words (concat (map node_text d))), tm_language = tech_language hs d,
          tm_encoding = tech_encoding hs d,
          tm_type = (case d_get hs ''content-type'' of None \<Rightarrow> ''text/html'' | Some v \<Rightarrow> v),
          tm_compression = (case d_get hs ''content-encoding'' of None \<Rightarrow> ''none'' | Some v \<Rightarrow> v),
          tm_cache = map (\<lambda>(k, h). (k, d_get hs h)) cache_header_names, tm_headers = hs, tm_created = now\<rparr>)"

type_synonym tech_store = "(string, tech_metadata) py_dict"

definition store_metadata :: "tech_metadata \<Rightarrow> tech_store \<Rightarrow> tech_metadata \<times> tech_store" where
  "store_metadata m s = (m, d_set (tm_id m) m s)"

definition get_metadata :: "string \<Rightarrow> tech_store \<Rightarrow> tech_metadata option" where
  "get_metadata i s = d_get s i"

definition list_metadata :: "tech_store \<Rightarrow> tech_metadata list" where
  "list_metadata s = map snd s"

text \<open>
  Cutting out the elements leaves none of them, and it cuts them before the language and the encoding are read: an
  encoding that is declared inside of one of them is not seen.
\<close>

lemma pruned_has_none:
  "e \<in> set (all_elements (pruned x)) \<Longrightarrow> elem_name e \<notin> {''script'', ''style'', ''noscript'', ''svg'', ''iframe''}"
proof (induction x rule: pruned.induct)
  case (1 n as cs)
  have split: "all_elements (concat (map f ys)) = concat (map (\<lambda>y. all_elements (f y)) ys)" for f :: "html_node \<Rightarrow> html_node list" and ys
    by (induction ys) (auto simp: all_elements_def)
  show ?case
  proof (cases "n \<in> {''script'', ''style'', ''noscript'', ''svg'', ''iframe''}")
    case False
    then consider "e = HElem n as (concat (map pruned cs))" | "e \<in> set (all_elements (concat (map pruned cs)))"
      using "1.prems" by (auto simp: all_elements_def)
    then show ?thesis
    proof cases
      case 2
      then obtain c where c: "c \<in> set cs" "e \<in> set (all_elements (pruned c))" unfolding split by auto
      show ?thesis by (rule "1.IH" [OF False c])
    qed (use False in \<open>simp add: elem_name_def\<close>)
  qed (use "1.prems" in \<open>auto simp: all_elements_def\<close>)
qed (simp_all add: all_elements_def)

section \<open>Fetching\<close>

text \<open>
  \<^verbatim>\<open>HTTPFetcher.fetch_url_async\<close> of \<^verbatim>\<open>backend/services/http_fetcher.py\<close>: the answer of the client with the responses it was
  redirected by; an exception becomes a page without content and the status 500.
\<close>

record http_answer =
  ha_url :: string
  ha_status :: int
  ha_headers :: "(string, string) py_dict"
  ha_text :: string
  ha_history :: "(string \<times> int \<times> string option) list"

record fetched_page =
  fp_url :: string
  fp_status :: int
  fp_redirects :: "(string \<times> int \<times> string option) list"
  fp_headers :: "(string, string) py_dict"
  fp_time :: rat
  fp_html :: string
  fp_type :: "string option"
  fp_error :: "string option"

definition fetch_url :: "rat \<Rightarrow> http_answer outcome \<Rightarrow> string \<Rightarrow> fetched_page" where
  "fetch_url millis answer url =
     (case answer of
        Inr r \<Rightarrow>
          \<lparr>fp_url = ha_url r, fp_status = ha_status r, fp_redirects = ha_history r, fp_headers = ha_headers r,
           fp_time = millis, fp_html = ha_text r,
           fp_type = Some (case d_get (ha_headers r) ''content-type'' of None \<Rightarrow> ''text/html'' | Some v \<Rightarrow> v),
           fp_error = None\<rparr>
      | Inl e \<Rightarrow>
          \<lparr>fp_url = url, fp_status = 500, fp_redirects = [], fp_headers = [], fp_time = millis, fp_html = [],
           fp_type = None, fp_error = Some (exc_str e)\<rparr>)"

end
