(* ===== verification/Sitemaps.thy ===== *)
theory Sitemaps
  imports Html_Tree
begin

text \<open>
  \<^verbatim>\<open>SitemapService\<close> of \<^verbatim>\<open>backend/services/sitemap_service.py\<close>. The XML parser is the parameter \<open>parse\<close>, \<^const>\<open>None\<close> when it raises; an
  element has its tag, with the namespace in braces in front of it, its text and its children.
\<close>

datatype xml_node = XElem string "string option" "xml_node list"

definition xml_tag :: "xml_node \<Rightarrow> string" where
  "xml_tag x = (case x of XElem t s cs \<Rightarrow> t)"

definition xml_text :: "xml_node \<Rightarrow> string option" where
  "xml_text x = (case x of XElem t s cs \<Rightarrow> s)"

definition xml_children :: "xml_node \<Rightarrow> xml_node list" where
  "xml_children x = (case x of XElem t s cs \<Rightarrow> cs)"

fun xml_below :: "xml_node \<Rightarrow> xml_node list" where
  "xml_below (XElem t s cs) = concat (map (\<lambda>c. c # xml_below c) cs)"

text \<open>\<^verbatim>\<open>tag.split('}')[-1]\<close>; the pattern \<^verbatim>\<open>{*}name\<close> matches the name in every namespace and in none.\<close>

definition local_name :: "string \<Rightarrow> string" where
  "local_name t = last (split_on (CHR ''}'') t)"

definition any_namespace :: "string \<Rightarrow> string \<Rightarrow> bool" where
  "any_namespace n t \<longleftrightarrow> t = n \<or> (take 1 t = ''{'' \<and> tl (dropWhile (\<lambda>c. c \<noteq> CHR ''}'') t) = n)"

definition find_child :: "(string \<Rightarrow> bool) \<Rightarrow> xml_node \<Rightarrow> xml_node option" where
  "find_child P x = List.find (\<lambda>c. P (xml_tag c)) (xml_children x)"

definition find_below :: "(string \<Rightarrow> bool) \<Rightarrow> xml_node \<Rightarrow> xml_node list" where
  "find_below P x = filter (\<lambda>c. P (xml_tag c)) (xml_below x)"

section \<open>Candidates\<close>

definition add_new :: "string list \<Rightarrow> string \<Rightarrow> string list" where
  "add_new cs u = (if u \<in> set cs then cs else cs @ [u])"

definition discover_candidate_urls :: "string \<Rightarrow> string list option \<Rightarrow> string list" where
  "discover_candidate_urls base robots =
     (let cs = foldl add_new [] (filter (\<lambda>u. u \<noteq> []) (case robots of None \<Rightarrow> [] | Some us \<Rightarrow> us))
      in case urlparse base of
           None \<Rightarrow> cs
         | Some p \<Rightarrow>
             (let org = up_scheme p @ ''://'' @ up_netloc p
              in add_new (add_new cs (org @ ''/sitemap.xml'')) (org @ ''/sitemap_index.xml'')))"

section \<open>The cleaned text\<close>

text \<open>\<^verbatim>\<open>re.sub(r'\sxmlns(?::\w+)?="[^"]+"', '', xml)\<close>: the text behind a declaration that starts here, if one does.\<close>

definition word_char :: "char \<Rightarrow> bool" where
  "word_char c \<longleftrightarrow> is_upper c \<or> is_lower c \<or> is_digit c \<or> c = CHR ''_''"

definition behind_value :: "string \<Rightarrow> string option" where
  "behind_value s =
     (if take 2 s = [CHR ''='', CHR 0x22]
      then (let v = takeWhile (\<lambda>c. c \<noteq> CHR 0x22) (drop 2 s); r = dropWhile (\<lambda>c. c \<noteq> CHR 0x22) (drop 2 s)
            in if v \<noteq> [] \<and> r \<noteq> [] then Some (tl r) else None)
      else None)"

definition behind_declaration :: "string \<Rightarrow> string option" where
  "behind_declaration s =
     (if s \<noteq> [] \<and> is_space (hd s) \<and> take 5 (tl s) = ''xmlns''
      then (let r = drop 6 s
            in if take 1 r = '':'' \<and> takeWhile word_char (tl r) \<noteq> [] \<and> behind_value (dropWhile word_char (tl r)) \<noteq> None
               then behind_value (dropWhile word_char (tl r)) else behind_value r)
      else None)"

lemma behind_value_shorter: "behind_value s = Some t \<Longrightarrow> length t < length s"
proof -
  assume "behind_value s = Some t"
  then have "take 2 s = [CHR ''='', CHR 0x22]" "dropWhile (\<lambda>c. c \<noteq> CHR 0x22) (drop 2 s) \<noteq> []"
    "t = tl (dropWhile (\<lambda>c. c \<noteq> CHR 0x22) (drop 2 s))"
    by (auto simp: behind_value_def Let_def split: if_splits)
  moreover have "length (dropWhile (\<lambda>c. c \<noteq> CHR 0x22) (drop 2 s)) \<le> length s"
    using length_dropWhile_le [of "\<lambda>c. c \<noteq> CHR 0x22" "drop 2 s"] by simp
  ultimately show ?thesis by (cases "dropWhile (\<lambda>c. c \<noteq> CHR 0x22) (drop 2 s)") auto
qed

lemma behind_declaration_shorter: "behind_declaration s = Some t \<Longrightarrow> length t < length s"
proof -
  assume "behind_declaration s = Some t"
  then have "behind_value (dropWhile word_char (tl (drop 6 s))) = Some t \<or> behind_value (drop 6 s) = Some t"
    by (auto simp: behind_declaration_def Let_def split: if_splits)
  moreover have "length (dropWhile word_char (tl (drop 6 s))) \<le> length s"
    using length_dropWhile_le [of word_char "tl (drop 6 s)"] by simp
  ultimately show ?thesis by (auto dest!: behind_value_shorter)
qed

function clean_xml :: "string \<Rightarrow> string" where
  "clean_xml s =
     (case s of
        [] \<Rightarrow> []
      | c # cs \<Rightarrow> (case behind_declaration s of None \<Rightarrow> c # clean_xml cs | Some t \<Rightarrow> clean_xml t))"
  by pat_completeness auto
termination
  by (relation "measure length") (auto dest: behind_declaration_shorter)

declare clean_xml.simps [simp del]

section \<open>Parsing\<close>

text \<open>
  \<^verbatim>\<open>float(s)\<close> of a decimal text: a sign, digits with a point, an exponent. Texts that name infinity or have underscores are not
  numbers here.
\<close>

definition digit_run :: "string \<Rightarrow> string \<times> string" where
  "digit_run s = (takeWhile is_digit s, dropWhile is_digit s)"

definition drop_sign :: "string \<Rightarrow> string" where
  "drop_sign t = (if take 1 t \<in> {''+'', ''-''} then tl t else t)"

definition exponent_of :: "string \<Rightarrow> int option" where
  "exponent_of s =
     (if s = [] then Some 0
      else if str_lower (take 1 s) = ''e'' \<and> drop_sign (tl s) \<noteq> [] \<and> list_all is_digit (drop_sign (tl s))
      then Some ((if take 1 (tl s) = ''-'' then - 1 else 1) * int (digits_val (drop_sign (tl s)))) else None)"

definition float_of_text :: "string \<Rightarrow> rat option" where
  "float_of_text s =
     (let t = str_strip s; (whole, r1) = digit_run (drop_sign t);
          (frac, r2) = (if take 1 r1 = ''.'' then digit_run (tl r1) else ([], r1))
      in if whole @ frac = [] then None
         else (case exponent_of r2 of
                 None \<Rightarrow> None
               | Some k \<Rightarrow>
                   (let m = of_nat (digits_val (whole @ frac)) / 10 ^ length frac * (if take 1 t = ''-'' then - 1 else 1)
                    in Some (if 0 \<le> k then m * 10 ^ nat k else m / 10 ^ nat (- k)))))"

record sitemap_image =
  si_loc :: string
  si_title :: "string option"
  si_caption :: "string option"

record sitemap_url =
  su_loc :: string
  su_lastmod :: "string option"
  su_freq :: "string option"
  su_priority :: "rat option"
  su_images :: "sitemap_image list"

record sitemap_result =
  sr_index :: bool
  sr_urls :: "sitemap_url list"
  sr_children :: "(string \<times> string option) list"
  sr_total :: nat
  sr_images :: nat

definition empty_sitemap :: sitemap_result where
  "empty_sitemap = \<lparr>sr_index = False, sr_urls = [], sr_children = [], sr_total = 0, sr_images = 0\<rparr>"

text \<open>\<^verbatim>\<open>e.text.strip() if e is not None and e.text else None\<close>\<close>

definition text_of :: "xml_node option \<Rightarrow> string option" where
  "text_of x = (case x of None \<Rightarrow> None | Some e \<Rightarrow> (if truthy (xml_text e) then Some (str_strip (the (xml_text e))) else None))"

definition loc_of :: "xml_node option \<Rightarrow> string" where
  "loc_of x = (case text_of x of None \<Rightarrow> [] | Some t \<Rightarrow> t)"

text \<open>
  \<^verbatim>\<open>e.find(n) or e.find('{*}n')\<close>: an element without children counts as false, so the second search decides for it.
\<close>

definition find_either :: "string \<Rightarrow> xml_node \<Rightarrow> xml_node option" where
  "find_either n e =
     (case find_child (\<lambda>t. t = n) e of
        Some x \<Rightarrow> if xml_children x \<noteq> [] then Some x else find_child (any_namespace n) e
      | None \<Rightarrow> find_child (any_namespace n) e)"

definition image_elems :: "xml_node \<Rightarrow> xml_node list" where
  "image_elems u = find_below (\<lambda>t. t = ''image'') u @ find_below (any_namespace ''image'') u"

definition sitemap_image_of :: "xml_node \<Rightarrow> sitemap_image list" where
  "sitemap_image_of e =
     (let l = loc_of (find_either ''loc'' e)
      in if l = [] then []
         else [\<lparr>si_loc = l, si_title = text_of (find_either ''title'' e), si_caption = text_of (find_either ''caption'' e)\<rparr>])"

definition sitemap_url_of :: "xml_node \<Rightarrow> sitemap_url list" where
  "sitemap_url_of u =
     (let l = loc_of (find_child (\<lambda>t. t = ''loc'') u)
      in if l = [] then []
         else [\<lparr>su_loc = l, su_lastmod = text_of (find_child (\<lambda>t. t = ''lastmod'') u),
                su_freq = text_of (find_child (\<lambda>t. t = ''changefreq'') u),
                su_priority = (case find_child (\<lambda>t. t = ''priority'') u of
                                 None \<Rightarrow> None
                               | Some p \<Rightarrow> if truthy (xml_text p) then float_of_text (the (xml_text p)) else None),
                su_images = concat (map sitemap_image_of (image_elems u))\<rparr>])"

definition read_root :: "xml_node \<Rightarrow> sitemap_result" where
  "read_root x =
     (if str_lower (local_name (xml_tag x)) = ''sitemapindex''
      then empty_sitemap\<lparr>sr_index := True,
             sr_children := filter (\<lambda>(l, m). l \<noteq> [])
               (map (\<lambda>s. (loc_of (find_child (\<lambda>t. t = ''loc'') s), text_of (find_child (\<lambda>t. t = ''lastmod'') s)))
                  (find_below (\<lambda>t. t = ''sitemap'') x))\<rparr>
      else let urls = concat (map sitemap_url_of (find_below (\<lambda>t. t = ''url'') x))
           in empty_sitemap\<lparr>sr_urls := urls, sr_total := length urls,
                sr_images := sum_list (map (\<lambda>u. length (su_images u)) urls)\<rparr>)"

definition parse_sitemap_xml :: "(string \<Rightarrow> xml_node option) \<Rightarrow> string \<Rightarrow> sitemap_result" where
  "parse_sitemap_xml parse content =
     (if str_strip content = [] then empty_sitemap
      else (case parse (clean_xml content) of None \<Rightarrow> empty_sitemap | Some x \<Rightarrow> read_root x))"

section \<open>Properties\<close>

lemma add_new_distinct: "distinct cs \<Longrightarrow> distinct (add_new cs u)"
  by (simp add: add_new_def)

lemma add_new_set: "set (foldl add_new cs us) = set cs \<union> set us" "distinct cs \<Longrightarrow> distinct (foldl add_new cs us)"
  by (induction us arbitrary: cs) (auto simp: add_new_def)

text \<open>
  the candidates are the addresses of the robots file and the two default ones of the site, each of them once.
\<close>

theorem candidates_are_listed_once:
  "distinct (discover_candidate_urls base robots)
   \<and> set (discover_candidate_urls base robots) =
       {u. u \<noteq> [] \<and> (\<exists>us. robots = Some us \<and> u \<in> set us)}
       \<union> (case urlparse base of None \<Rightarrow> {} | Some p \<Rightarrow>
            {up_scheme p @ ''://'' @ up_netloc p @ ''/sitemap.xml'', up_scheme p @ ''://'' @ up_netloc p @ ''/sitemap_index.xml''})"
proof -
  let ?us = "filter (\<lambda>u. u \<noteq> []) (case robots of None \<Rightarrow> [] | Some us \<Rightarrow> us)"
  have "distinct (foldl add_new [] ?us)" "set (foldl add_new [] ?us) = {u. u \<noteq> [] \<and> (\<exists>us. robots = Some us \<and> u \<in> set us)}"
    by (auto simp: add_new_set split: option.splits)
  then show ?thesis
    by (auto simp: discover_candidate_urls_def Let_def add_new_distinct add_new_def split: option.split)
qed

text \<open>
  every image without a namespace is found by both searches and listed twice: a page with \<open>n\<close> such images and no others
  is reported with twice as many as have an address.
\<close>

theorem plain_images_are_listed_twice:
  assumes "list_all (\<lambda>e. xml_tag e = ''image'' \<or> \<not> any_namespace ''image'' (xml_tag e)) (xml_below u)"
    and "sitemap_url_of u = [r]"
  shows "su_images r = concat (map sitemap_image_of (find_below (\<lambda>t. t = ''image'') u))
    @ concat (map sitemap_image_of (find_below (\<lambda>t. t = ''image'') u))"
proof -
  have "find_below (any_namespace ''image'') u = find_below (\<lambda>t. t = ''image'') u"
    using assms(1) unfolding find_below_def
    by (intro filter_cong) (auto simp: list_all_iff any_namespace_def)
  then show ?thesis
    using assms(2) by (auto simp: sitemap_url_of_def Let_def image_elems_def split: if_splits)
qed

definition demo_entry :: xml_node where
  "demo_entry = XElem ''url'' None [XElem ''loc'' (Some ''http://a.b/'') [],
     XElem ''image'' None [XElem ''loc'' (Some ''http://a.b/i.png'') []]]"

theorem plain_images_are_listed_twice_witness:
  "\<exists>r. sitemap_url_of demo_entry = [r] \<and> map si_loc (su_images r) = [''http://a.b/i.png'', ''http://a.b/i.png'']"
proof -
  have "list_all (\<lambda>e. xml_tag e = ''image'' \<or> \<not> any_namespace ''image'' (xml_tag e)) (xml_below demo_entry)" by code_simp
  moreover obtain r where r: "sitemap_url_of demo_entry = [r]"
    by (rule that [of "hd (sitemap_url_of demo_entry)"]) code_simp
  ultimately have "su_images r = concat (map sitemap_image_of (find_below (\<lambda>t. t = ''image'') demo_entry))
    @ concat (map sitemap_image_of (find_below (\<lambda>t. t = ''image'') demo_entry))"
    by (rule plain_images_are_listed_twice)
  moreover have "map si_loc (concat (map sitemap_image_of (find_below (\<lambda>t. t = ''image'') demo_entry))) = [''http://a.b/i.png'']"
    by code_simp
  ultimately show ?thesis using r by simp
qed

text \<open>The declaration of the prefix of an image sitemap is cut out of the text, its uses are not.\<close>

definition image_sitemap :: string where
  "image_sitemap = ''<urlset xmlns:image='' @ CHR 0x22 # ''http://g/1.1'' @ CHR 0x22 # ''><url><image:image/></url></urlset>''"

lemma prefix_is_left_unbound: "clean_xml image_sitemap = ''<urlset><url><image:image/></url></urlset>''"
  by code_simp

end
