(* ===== verification/Cached_Response.thy ===== *)
theory Cached_Response
  imports Unified_Cache Audit_Logs
begin

text \<open>
  The decorator \<^verbatim>\<open>cache_response\<close> of \<^verbatim>\<open>backend/cache.py\<close>, whose two wrappers differ in the \<^verbatim>\<open>await\<close> only, and
  \<^verbatim>\<open>warm_common_keys\<close>. An argument is its text with the flag that it is a session (it has \<^verbatim>\<open>execute\<close>), keyword arguments are
  texts under their names.
\<close>

section \<open>Keys\<close>

definition arg_text :: "(bool \<times> string) list \<Rightarrow> string" where
  "arg_text args = sep_concat '':'' (map snd (filter (\<lambda>a. \<not> fst a) args))"

text \<open>\<^verbatim>\<open>sorted(kwargs.items())\<close>: names are compared by code point and occur once.\<close>

fun text_before :: "string \<Rightarrow> string \<Rightarrow> bool" where
  "text_before [] t \<longleftrightarrow> True"
| "text_before (c # s) [] \<longleftrightarrow> False"
| "text_before (c # s) (d # t) \<longleftrightarrow>
     (of_char c :: nat) < of_char d \<or> (c = d \<and> text_before s t)"

fun insert_named :: "string \<times> string \<Rightarrow> (string \<times> string) list \<Rightarrow> (string \<times> string) list" where
  "insert_named kv [] = [kv]"
| "insert_named kv (x # xs) = (if text_before (fst kv) (fst x) then kv # x # xs else x # insert_named kv xs)"

definition kwarg_text :: "(string \<times> string) list \<Rightarrow> string" where
  "kwarg_text kwargs =
     sep_concat '':'' (map (\<lambda>(k, v). k @ CHR ''='' # v)
       (filter (\<lambda>kv. fst kv \<notin> {''db'', ''current_user'', ''request''}) (foldr insert_named kwargs [])))"

text \<open>A request without a user counts as the user with the number zero.\<close>

definition caller_number :: "int option \<Rightarrow> int" where
  "caller_number user = (case user of None \<Rightarrow> 0 | Some i \<Rightarrow> i)"

definition response_key ::
  "string \<Rightarrow> string \<Rightarrow> int option \<Rightarrow> (bool \<times> string) list \<Rightarrow> (string \<times> string) list \<Rightarrow> string" where
  "response_key prefix name user args kwargs =
     prefix @ '':'' @ name @ '':u'' @ int_str (caller_number user) @ '':'' @ arg_text args @ '':'' @ kwarg_text kwargs"

section \<open>Calls\<close>

text \<open>
  The function gives a value or an exception; the flag of the result says whether it ran. A result without a value is stored,
  but is no hit.
\<close>

definition cache_response ::
  "'r cache_redis \<Rightarrow> rat \<Rightarrow> rat \<Rightarrow> string \<Rightarrow> string \<Rightarrow> rat \<Rightarrow> rat \<Rightarrow> int option \<Rightarrow> (bool \<times> string) list
     \<Rightarrow> (string \<times> string) list \<Rightarrow> pyval outcome \<Rightarrow> 'r ucache \<Rightarrow> (bool \<times> pyval outcome) \<times> 'r ucache" where
  "cache_response R default_ttl ttl prefix name now done_at user args kwargs result u =
     (let key = response_key prefix name user args kwargs
      in case u_get R now key u of
           (cached, u1) \<Rightarrow>
             if cached \<noteq> PNone then ((False, Inr cached), u1)
             else (case result of
                     Inl e \<Rightarrow> ((True, Inl e), u1)
                   | Inr res \<Rightarrow>
                       (case u_set R default_ttl done_at key res (Some ttl) u1 of
                          Inl e \<Rightarrow> ((True, Inl e), u1)
                        | Inr u2 \<Rightarrow> ((True, Inr res), u2))))"

definition u_warm_common_keys ::
  "'r cache_redis \<Rightarrow> rat \<Rightarrow> (nat \<Rightarrow> rat) \<Rightarrow> (string, pyval) py_dict outcome \<Rightarrow> rat option \<Rightarrow> 'r ucache
     \<Rightarrow> nat \<times> 'r ucache" where
  "u_warm_common_keys R default_ttl clock loaded ttl u =
     (case loaded of
        Inl e \<Rightarrow> (0, u)
      | Inr mapping \<Rightarrow> (case u_warm_cache R default_ttl clock mapping ttl u of Inl e \<Rightarrow> (0, u) | Inr (n, u1) \<Rightarrow> (n, u1)))"

section \<open>Whose response it is\<close>

lemma nat_no_colon: "CHR '':'' \<notin> set (nat_str n)"
proof
  assume "CHR '':'' \<in> set (nat_str n)"
  then have "is_digit (CHR '':'')" using nat_str_facts [of n] by (auto simp: list_all_iff)
  then show False by code_simp
qed

lemma number_no_colon: "CHR '':'' \<notin> set (int_str i)"
  by (simp add: int_str_def nat_no_colon)

lemma prefix_up_to_colon:
  "u @ CHR '':'' # v = u' @ CHR '':'' # v' \<Longrightarrow> CHR '':'' \<notin> set u \<Longrightarrow> CHR '':'' \<notin> set u' \<Longrightarrow> u = u'"
proof (induction u arbitrary: u')
  case Nil then show ?case by (cases u') auto
next
  case (Cons c u) then show ?case by (cases u') auto
qed

text \<open>
  the keys of one function belong to one user each: two users never share a cached response, whatever
  their arguments are; only the requests without a user and those of a user zero have the same keys.
\<close>

theorem responses_have_one_user:
  assumes "caller_number user \<noteq> caller_number user'"
  shows "response_key prefix name user args kwargs \<noteq> response_key prefix name user' args' kwargs'"
proof
  assume "response_key prefix name user args kwargs = response_key prefix name user' args' kwargs'"
  then have "int_str (caller_number user) @ CHR '':'' # arg_text args @ '':'' @ kwarg_text kwargs
      = int_str (caller_number user') @ CHR '':'' # arg_text args' @ '':'' @ kwarg_text kwargs'"
    by (simp add: response_key_def)
  from prefix_up_to_colon [OF this number_no_colon number_no_colon] assms show False by simp
qed

theorem responses_have_one_user_witness:
  "response_key ''resp'' ''f'' (Some 1) [(False, ''2:u3'')] [] \<noteq> response_key ''resp'' ''f'' (Some 12) [] [(''k'', ''v'')]"
  by (rule responses_have_one_user) (simp add: caller_number_def)

text \<open>
  an argument with a colon has the key of two arguments: a call can be answered with the response of
  another.
\<close>

theorem colons_mix_arguments:
  "response_key prefix name user [(False, a @ CHR '':'' # b)] kwargs = response_key prefix name user [(False, a), (False, b)] kwargs"
  by (simp add: response_key_def arg_text_def)

text \<open>
  without Redis, a second call of the same user with the same arguments, made while the response lives, is
  answered with the first response and does not run the function.
\<close>

theorem response_is_reused:
  assumes "\<not> u_active u" and "cache_ok (u_local u)" and "res \<noteq> PNone"
    and first: "cache_response R dt ttl prefix name now done_at user args kwargs (Inr res) u = ((True, Inr res), u1)"
    and "done_at \<le> later" and "later < done_at + ttl"
  shows "fst (cache_response R dt ttl prefix name later after user args kwargs result' u1) = (False, Inr res)"
proof -
  let ?k = "response_key prefix name user args kwargs"
  obtain v u0 where get: "u_get R now ?k u = (v, u0)" by fastforce
  have down: "\<not> u_active u0" and ok: "cache_ok (u_local u0)"
    using get assms(1,2) cache_ok_get [of "u_local u" now ?k]
    by (auto simp: u_get_def local_get_def u_active_def Let_def split: prod.splits)
  have "u_set R dt done_at ?k res (Some ttl) u0 = Inr u1"
    using first get by (auto simp: cache_response_def Let_def split: if_splits sum.splits)
  note set = u_set_local [OF down ok this]
  have "fst (u_get R later ?k u1) = res"
    using set(2) set(3) [of later] assms(5,6) by (simp add: u_get_local)
  then show ?thesis
    using assms(3) by (auto simp: cache_response_def Let_def split: prod.split)
qed

theorem response_is_reused_witness:
  "\<exists>u1. fst (cache_response map_redis 300 60 ''resp'' ''f'' 20 21 (Some 1) [] [] (Inr (PInt 8)) u1) = (False, Inr (PInt 7))"
proof -
  let ?u = "fresh_ucache [] False :: (string, pyval) py_dict ucache"
  have down: "\<not> u_active ?u" and ok: "cache_ok (u_local ?u)"
    by (simp_all add: fresh_ucache_def u_init_redis_def u_active_def cache_ok_mk)
  obtain u1 where "cache_response map_redis 300 60 ''resp'' ''f'' 10 11 (Some 1) [] [] (Inr (PInt 7)) ?u = ((True, Inr (PInt 7)), u1)"
    by (simp add: cache_response_def u_get_def local_get_def u_set_def local_set_def fresh_ucache_def u_init_redis_def u_active_def
        mk_ttl_cache_def ttl_set_def ttl_get_def Let_def)
  from response_is_reused [OF down ok _ this, of 20] show ?thesis by auto
qed

end
