(* ===== verification/Database.thy ===== *)
theory Database
  imports Prelude Errors
begin

text \<open>
  \<^verbatim>\<open>backend/database/database.py\<close>: the address of the asynchronous engine, the options of both engines, and
  the transaction around a request. The engines themselves are SQLAlchemy's.
\<close>

section \<open>Addresses\<close>

text \<open>\<^verbatim>\<open>url.replace(old, new, 1)\<close> of a text that starts with \<^verbatim>\<open>old\<close>.\<close>

definition swap_start :: "string \<Rightarrow> string \<Rightarrow> string \<Rightarrow> string" where
  "swap_start old new url = new @ drop (length old) url"

definition get_async_database_url :: "string \<Rightarrow> string" where
  "get_async_database_url url =
     (if url = [] then ''sqlite+aiosqlite:///:memory:''
      else if starts_with url ''sqlite://'' then swap_start ''sqlite://'' ''sqlite+aiosqlite://'' url
      else if starts_with url ''postgresql://'' then swap_start ''postgresql://'' ''postgresql+asyncpg://'' url
      else if starts_with url ''postgres://'' then swap_start ''postgres://'' ''postgresql+asyncpg://'' url
      else url)"

datatype engine_option = SameThread bool | OneConnection | PoolOptions

definition engine_options :: "string \<Rightarrow> engine_option list" where
  "engine_options url =
     (if str_contains url ''sqlite''
      then SameThread False # (if str_contains url '':memory:'' then [OneConnection] else [])
      else [PoolOptions])"

definition async_engine_options :: "string \<Rightarrow> engine_option list" where
  "async_engine_options url =
     (if str_contains (get_async_database_url url) ''sqlite'' then [SameThread False] else [PoolOptions])"

section \<open>Sessions\<close>

text \<open>
  A request leaves its result, what it has committed on its way, and what its session shows in the end. \<^verbatim>\<open>get_async_db\<close> and
  \<^verbatim>\<open>async_session_scope\<close> commit the rest, or roll it back and raise again when the request or the commit raised;
  \<^verbatim>\<open>get_db\<close> only closes the session, so what is not committed is lost.
\<close>

definition session_scope :: "('w \<Rightarrow> 'a outcome \<times> 'w \<times> 'w) \<Rightarrow> py_exc option \<Rightarrow> 'w \<Rightarrow> 'a outcome \<times> 'w" where
  "session_scope body commit_error w =
     (case body w of
        (Inl e, committed, view) \<Rightarrow> (Inl e, committed)
      | (Inr x, committed, view) \<Rightarrow> (case commit_error of None \<Rightarrow> (Inr x, view) | Some e \<Rightarrow> (Inl e, committed)))"

definition get_db :: "('w \<Rightarrow> 'a outcome \<times> 'w \<times> 'w) \<Rightarrow> 'w \<Rightarrow> 'a outcome \<times> 'w" where
  "get_db body w = (case body w of (x, committed, view) \<Rightarrow> (x, committed))"

definition check_db_connection :: "'a outcome \<Rightarrow> bool" where
  "check_db_connection select_one = (case select_one of Inl e \<Rightarrow> False | Inr _ \<Rightarrow> True)"

section \<open>What holds\<close>

text \<open>An address is translated once: the result has a driver and is left alone.\<close>

lemma async_url_is_final: "get_async_database_url (get_async_database_url url) = get_async_database_url url"
  by (auto simp: get_async_database_url_def swap_start_def)

text \<open>
  After an exception the database has what the request had committed itself and nothing else; a request that commits
  nothing on its way is all or nothing.
\<close>

lemma session_is_atomic:
  assumes "body w = (x, committed, view)"
  shows "session_scope body err w = (Inl e, w') \<Longrightarrow> w' = committed"
    and "session_scope body err w = (Inr y, w') \<Longrightarrow> w' = view \<and> x = Inr y"
    and "get_db body w = (x, committed)"
  using assms by (auto simp: session_scope_def get_db_def split: sum.splits option.splits)

text \<open>Without an address both engines keep their data in memory, but only the synchronous one holds on to one connection.\<close>

lemma memory_engines_differ:
  "engine_options ''sqlite:///:memory:'' = [SameThread False, OneConnection]
   \<and> async_engine_options ''sqlite:///:memory:'' = [SameThread False]"
  by code_simp

end
