(* ===== verification/Asset_Views.thy ===== *)
theory Asset_Views
  imports Tenancy Seo_DB
begin

text \<open>
  The handlers that only show: the organizations of a user (\<^verbatim>\<open>org_routes.py\<close>), the metadata of a project
  (\<^verbatim>\<open>project_routes.py\<close>), the metadata and the statistics of a website (\<^verbatim>\<open>website_routes.py\<close>).
\<close>

section \<open>Organizations and projects\<close>

definition list_my_organizations :: "int \<times> user \<Rightarrow> db \<Rightarrow> (int \<times> organization) list" where
  "list_my_organizations cu w = get_user_organizations w (fst cu)"

record project_metadata =
  pm_project :: int
  pm_org :: int
  pm_owner :: int
  pm_name :: string
  pm_slug :: string
  pm_status :: string
  pm_timezone :: string
  pm_language :: string
  pm_archived :: bool
  pm_color :: "string option"
  pm_icon :: "string option"
  pm_settings_count :: nat
  pm_created :: int
  pm_updated :: int

definition get_project_metadata :: "int \<Rightarrow> string \<Rightarrow> int \<times> user \<Rightarrow> db \<Rightarrow> project_metadata outcome \<times> db" where
  "get_project_metadata oid ident cu w =
     with_project oid ident ''Viewer'' cu w (\<lambda>(pid, p) w.
       (Inr \<lparr>pm_project = pid, pm_org = p_org p, pm_owner = p_owner p, pm_name = p_name p, pm_slug = p_slug p,
             pm_status = p_status p, pm_timezone = p_timezone p, pm_language = p_language p, pm_archived = p_archived p,
             pm_color = p_color p, pm_icon = p_icon p, pm_settings_count = length (p_settings p),
             pm_created = p_created p, pm_updated = p_updated p\<rparr>, w))"

section \<open>Websites\<close>

record website_metadata =
  wm_website :: int
  wm_project :: "int option"
  wm_org :: "int option"
  wm_owner :: "int option"
  wm_domain :: string
  wm_norm :: string
  wm_protocol :: string
  wm_status :: string
  wm_verification :: string
  wm_favicon :: "string option"
  wm_country :: "string option"
  wm_language :: string
  wm_timezone :: string
  wm_archived :: bool
  wm_settings_count :: nat
  wm_last_scan :: "int option"
  wm_created :: int
  wm_updated :: int

text \<open>\<^verbatim>\<open>x or y\<close> of two texts.\<close>

definition text_or :: "string \<Rightarrow> string \<Rightarrow> string" where
  "text_or s t = (if s = [] then t else s)"

definition get_website_metadata ::
  "int \<Rightarrow> string \<Rightarrow> string \<Rightarrow> int \<times> user \<Rightarrow> db \<Rightarrow> website_metadata outcome \<times> db" where
  "get_website_metadata oid pident sident cu w =
     with_website oid pident sident ''Viewer'' cu w (\<lambda>(sid, s) w.
       (Inr \<lparr>wm_website = sid, wm_project = w_project s, wm_org = w_org s, wm_owner = w_owner s, wm_domain = w_domain s,
             wm_norm = text_or (w_norm s) (normalize_domain (w_domain s)), wm_protocol = text_or (w_protocol s) ''https'',
             wm_status = text_or (w_status s) ''active'', wm_verification = text_or (w_verification s) ''unverified'',
             wm_favicon = w_favicon s, wm_country = w_country s, wm_language = text_or (w_language s) ''en'',
             wm_timezone = text_or (w_timezone s) ''UTC'', wm_archived = w_archived s,
             wm_settings_count = length (w_settings s), wm_last_scan = w_last_scan s, wm_created = w_created s,
             wm_updated = w_updated s\<rparr>, w))"

record website_stats =
  ws_website :: int
  ws_project :: "int option"
  ws_org :: "int option"
  ws_domain :: string
  ws_status :: string
  ws_archived :: bool
  ws_days :: int
  ws_settings_keys :: nat
  ws_audits :: nat
  ws_leads :: nat

text \<open>The rows of audits and leads of the site are counted, whoever their users are.\<close>

definition get_website_stats ::
  "int \<Rightarrow> string \<Rightarrow> string \<Rightarrow> int \<times> user \<Rightarrow> ('a seo_db_scheme) \<Rightarrow> website_stats outcome" where
  "get_website_stats oid pident sident cu w =
     fst (with_website oid pident sident ''Viewer'' cu (db.truncate w) (\<lambda>(sid, s) v.
       (Inr \<lparr>ws_website = sid, ws_project = w_project s, ws_org = w_org s, ws_domain = w_domain s,
             ws_status = text_or (w_status s) ''active'', ws_archived = w_archived s,
             ws_days = (db_now w - w_created s) div day_us, ws_settings_keys = length (w_settings s),
             ws_audits = length (t_where (\<lambda>i a. ar_website a = sid) (sd_audits w)),
             ws_leads = length (t_where (\<lambda>i l. ld_website l = Some sid) (sd_leads w))\<rparr>, v)))"

section \<open>Who sees them\<close>

lemma with_project_answer:
  assumes "t_ok (db_projects w)" and "with_project oid ident role cu w body = (Inr x, w')"
  shows "\<exists>k m i p. get_membership w oid (fst cu) = Some (k, m) \<and> check_role_permission (m_role m) role
    \<and> t_get (db_projects w) i = Some p \<and> p_org p = oid \<and> body (i, p) w = (Inr x, w')"
  using assms(2) project_lookupD [OF assms(1), of oid ident]
  by (auto simp: with_project_def get_project_with_auth_check_def require_role_def require_membership_def
      check_role_min_def raise_app_def and_then_def split: option.splits prod.splits if_splits sum.splits) blast

lemma with_website_answer:
  assumes "t_ok (db_sites w)" and "with_website oid pident sident role cu w body = (Inr x, w')"
  shows "\<exists>k m i s. get_membership w oid (fst cu) = Some (k, m) \<and> check_role_permission (m_role m) role
    \<and> t_get (db_sites w) i = Some s \<and> w_org s = Some oid \<and> body (i, s) w = (Inr x, w')"
  using assms(2) site_lookupD [OF assms(1), of _ sident]
  by (auto simp: with_website_def get_website_with_auth_check_def get_project_with_auth_check_def
      require_role_def require_membership_def check_role_min_def raise_app_def and_then_def
      split: option.splits prod.splits if_splits sum.splits) blast

text \<open>
  What is shown of a project or a website is shown to members of its organization, and is what its row says; showing
  changes nothing.
\<close>

lemma shown_to_members:
  assumes "t_ok (db_projects w)" and "t_ok (db_sites w)"
  shows "get_project_metadata oid ident cu w = (Inr pm, w') \<Longrightarrow>
      w' = w \<and> pm_org pm = oid \<and> (\<exists>k m. get_membership w oid (fst cu) = Some (k, m))
      \<and> map_option p_name (t_get (db_projects w) (pm_project pm)) = Some (pm_name pm)"
    and "get_website_metadata oid pident sident cu w = (Inr wm, w') \<Longrightarrow>
      w' = w \<and> wm_org wm = Some oid \<and> (\<exists>k m. get_membership w oid (fst cu) = Some (k, m))
      \<and> map_option w_domain (t_get (db_sites w) (wm_website wm)) = Some (wm_domain wm)"
proof -
  assume a: "get_project_metadata oid ident cu w = (Inr pm, w')"
  from with_project_answer [OF assms(1) a [unfolded get_project_metadata_def]] obtain k m i p
    where "get_membership w oid (fst cu) = Some (k, m)" and "t_get (db_projects w) i = Some p" and "p_org p = oid"
      and "w' = w" and "pm_org pm = p_org p" and "pm_project pm = i" and "pm_name pm = p_name p" by auto
  then show "w' = w \<and> pm_org pm = oid \<and> (\<exists>k m. get_membership w oid (fst cu) = Some (k, m))
      \<and> map_option p_name (t_get (db_projects w) (pm_project pm)) = Some (pm_name pm)" by simp
next
  assume a: "get_website_metadata oid pident sident cu w = (Inr wm, w')"
  from with_website_answer [OF assms(2) a [unfolded get_website_metadata_def]] obtain k m i s
    where "get_membership w oid (fst cu) = Some (k, m)" and "t_get (db_sites w) i = Some s" and "w_org s = Some oid"
      and "w' = w" and "wm_org wm = w_org s" and "wm_website wm = i" and "wm_domain wm = w_domain s" by auto
  then show "w' = w \<and> wm_org wm = Some oid \<and> (\<exists>k m. get_membership w oid (fst cu) = Some (k, m))
      \<and> map_option w_domain (t_get (db_sites w) (wm_website wm)) = Some (wm_domain wm)" by simp
qed

lemma listed_organizations: "(i, r) \<in> set (list_my_organizations cu w) \<Longrightarrow> \<exists>m \<in> set (map snd (t_rows (db_members w))). m_org m = i \<and> m_user m = fst cu"
  by (auto simp: list_my_organizations_def get_user_organizations_def t_where_def order_rows_def)

end
