(* ===== verification/Answers.thy ===== *)
theory Answers
  imports Asset_Views Auth_Routes
begin

text \<open>
  The classes of \<^verbatim>\<open>schemas.py\<close> for answers: which columns of a row leave the server, in the order of the fields. A row comes with
  its key; \<open>dated\<close> writes a date.
\<close>

section \<open>Classes\<close>

definition maybe :: "('a \<Rightarrow> pyval) \<Rightarrow> 'a option \<Rightarrow> pyval" where
  "maybe f x = (case x of None \<Rightarrow> PNone | Some y \<Rightarrow> f y)"

definition user_out :: "(int \<Rightarrow> string) \<Rightarrow> int \<times> user \<Rightarrow> kwargs" where
  "user_out dated = (\<lambda>(i, u).
     [(''email'', PStr (u_email u)), (''username'', PStr (u_username u)), (''id'', PInt i), (''role'', PStr (u_role u)),
      (''is_verified'', PBool (u_verified u)), (''avatar_url'', maybe PStr (u_avatar u)),
      (''timezone'', PStr (u_timezone u)), (''language'', PStr (u_language u)),
      (''notification_settings'', PDict (u_notify u)), (''failed_login_attempts'', PInt (u_failed u)),
      (''locked_until'', maybe (PStr \<circ> dated) (u_locked_until u)),
      (''last_login_at'', maybe (PStr \<circ> dated) (u_last_login u)), (''last_login_ip'', maybe PStr (u_last_ip u)),
      (''created_at'', PStr (dated (u_created u)))])"

definition session_out :: "(int \<Rightarrow> string) \<Rightarrow> bool \<Rightarrow> int \<times> user_session \<Rightarrow> kwargs" where
  "session_out dated current = (\<lambda>(i, s).
     [(''id'', PInt i), (''user_id'', PInt (us_user s)), (''ip_address'', maybe PStr (us_ip s)),
      (''last_ip'', maybe PStr (us_last_ip s)), (''user_agent'', maybe PStr (us_agent s)),
      (''device_name'', maybe PStr (us_device s)), (''device_type'', maybe PStr (us_type s)),
      (''is_active'', PBool (us_active s)), (''remember_me'', PBool (us_remember s)),
      (''last_active_at'', maybe (PStr \<circ> dated) (us_last_active s)), (''created_at'', PStr (dated (us_created s))),
      (''expires_at'', PStr (dated (us_expires s))), (''is_current'', PBool current)])"

definition security_event_out :: "(int \<Rightarrow> string) \<Rightarrow> int \<times> security_event \<Rightarrow> kwargs" where
  "security_event_out dated = (\<lambda>(i, e).
     [(''id'', PInt i), (''user_id'', maybe PInt (se_user e)), (''event_type'', PStr (se_type e)),
      (''status'', PStr (se_status e)), (''ip_address'', maybe PStr (se_ip e)), (''user_agent'', maybe PStr (se_agent e)),
      (''device_info'', maybe PStr (se_device e)), (''details'', PDict (se_details e)),
      (''created_at'', PStr (dated (se_created e)))])"

definition organization_out :: "(int \<Rightarrow> string) \<Rightarrow> int \<times> organization \<Rightarrow> kwargs" where
  "organization_out dated = (\<lambda>(i, r).
     [(''id'', PInt i), (''name'', PStr (o_name r)), (''slug'', PStr (o_slug r)), (''logo_url'', maybe PStr (o_logo r)),
      (''primary_color'', maybe PStr (o_color r)), (''settings'', PDict (o_settings r)),
      (''created_at'', PStr (dated (o_created r))), (''updated_at'', PStr (dated (o_updated r)))])"

definition membership_out :: "(int \<Rightarrow> string) \<Rightarrow> user option \<Rightarrow> int \<times> membership \<Rightarrow> kwargs" where
  "membership_out dated person = (\<lambda>(i, m).
     [(''id'', PInt i), (''organization_id'', PInt (m_org m)), (''user_id'', PInt (m_user m)), (''role'', PStr (m_role m)),
      (''created_at'', PStr (dated (m_created m))), (''updated_at'', PStr (dated (m_updated m))),
      (''user'', maybe (\<lambda>u. PDict (user_out dated (m_user m, u))) person)])"

definition invitation_out :: "(int \<Rightarrow> string) \<Rightarrow> int \<times> invitation \<Rightarrow> kwargs" where
  "invitation_out dated = (\<lambda>(i, v).
     [(''id'', PInt i), (''organization_id'', PInt (i_org v)), (''email'', PStr (i_email v)), (''role'', PStr (i_role v)),
      (''status'', PStr (i_status v)), (''token'', PStr (i_token v)), (''expires_at'', PStr (dated (i_expires v))),
      (''created_at'', PStr (dated (i_created v)))])"

definition org_event_out :: "(int \<Rightarrow> string) \<Rightarrow> int \<times> org_event \<Rightarrow> kwargs" where
  "org_event_out dated = (\<lambda>(i, e).
     [(''id'', PInt i), (''organization_id'', PInt (oe_org e)), (''actor_id'', maybe PInt (oe_actor e)),
      (''action'', PStr (oe_action e)), (''details'', PDict (oe_details e)), (''ip_address'', maybe PStr (oe_ip e)),
      (''created_at'', PStr (dated (oe_created e)))])"

definition audit_log_out :: "(int \<Rightarrow> string) \<Rightarrow> int \<times> audit_entry \<Rightarrow> kwargs" where
  "audit_log_out dated = (\<lambda>(i, e).
     [(''id'', PInt i), (''user_id'', maybe PInt (al_user e)), (''organization_id'', maybe PInt (al_org e)),
      (''action'', PStr (al_action e)), (''target_resource'', maybe PStr (al_target e)),
      (''ip_address'', maybe PStr (al_ip e)), (''user_agent'', maybe PStr (al_agent e)), (''details'', PDict (al_details e)),
      (''created_at'', PStr (dated (al_created e)))])"

definition website_out :: "(int \<Rightarrow> string) \<Rightarrow> int \<times> website \<Rightarrow> kwargs" where
  "website_out dated = (\<lambda>(i, s).
     [(''id'', PInt i), (''project_id'', maybe PInt (w_project s)), (''organization_id'', maybe PInt (w_org s)),
      (''owner_id'', maybe PInt (w_owner s)), (''user_id'', maybe PInt (w_user s)), (''url'', maybe PStr (w_url s)),
      (''domain'', PStr (w_domain s)), (''normalized_domain'', PStr (w_norm s)), (''protocol'', PStr (w_protocol s)),
      (''status'', PStr (w_status s)), (''verification_status'', PStr (w_verification s)),
      (''favicon'', maybe PStr (w_favicon s)), (''country'', maybe PStr (w_country s)), (''language'', PStr (w_language s)),
      (''timezone'', PStr (w_timezone s)), (''settings'', PDict (w_settings s)),
      (''company_name'', maybe PStr (w_company s)), (''last_scan_at'', maybe (PStr \<circ> dated) (w_last_scan s)),
      (''archived'', PBool (w_archived s)), (''created_at'', PStr (dated (w_created s))),
      (''updated_at'', PStr (dated (w_updated s)))])"

definition audit_result_out :: "(int \<Rightarrow> string) \<Rightarrow> int \<times> audit_result \<Rightarrow> kwargs" where
  "audit_result_out dated = (\<lambda>(i, a).
     [(''id'', PInt i), (''website_id'', PInt (ar_website a)), (''user_id'', PInt (ar_user a)),
      (''score'', PInt (ar_score a)), (''title'', maybe PStr (ar_title a)), (''title_length'', PInt (ar_title_length a)),
      (''meta_description'', maybe PStr (ar_meta a)), (''meta_description_length'', PInt (ar_meta_length a)),
      (''h1_tags'', PList (map PStr (ar_h1 a))), (''canonical_url'', maybe PStr (ar_canonical a)),
      (''viewport'', PStr (ar_viewport a)), (''images_count'', PInt (ar_images a)),
      (''images_without_alt'', PInt (ar_no_alt a)), (''has_structured_data'', PBool (ar_structured a)),
      (''has_sitemap'', PBool (ar_sitemap a)), (''has_robots_txt'', PBool (ar_robots a)),
      (''broken_links_count'', PInt (ar_broken a)), (''created_at'', PStr (dated (ar_created a)))])"

definition lead_out :: "(int \<Rightarrow> string) \<Rightarrow> int \<times> lead \<Rightarrow> kwargs" where
  "lead_out dated = (\<lambda>(i, l).
     [(''id'', PInt i), (''website_id'', maybe PInt (ld_website l)), (''user_id'', PInt (ld_user l)),
      (''email'', PStr (ld_email l)), (''phone'', maybe PStr (ld_phone l)), (''source'', PStr (ld_source l)),
      (''created_at'', PStr (dated (ld_created l)))])"

definition report_out :: "(int \<Rightarrow> string) \<Rightarrow> int \<times> report \<Rightarrow> kwargs" where
  "report_out dated = (\<lambda>(i, r).
     [(''id'', PInt i), (''website_id'', PInt (rp_website r)), (''user_id'', PInt (rp_user r)),
      (''title'', PStr (rp_title r)), (''format'', PStr (rp_format r)), (''created_at'', PStr (dated (rp_created r)))])"

definition project_out :: "(int \<Rightarrow> string) \<Rightarrow> int \<times> project \<Rightarrow> kwargs" where
  "project_out dated = (\<lambda>(i, p).
     [(''id'', PInt i), (''organization_id'', PInt (p_org p)), (''owner_id'', PInt (p_owner p)), (''name'', PStr (p_name p)),
      (''slug'', PStr (p_slug p)), (''description'', maybe PStr (p_description p)), (''status'', PStr (p_status p)),
      (''color'', maybe PStr (p_color p)), (''icon'', maybe PStr (p_icon p)), (''timezone'', PStr (p_timezone p)),
      (''language'', PStr (p_language p)), (''settings'', PDict (p_settings p)), (''archived'', PBool (p_archived p)),
      (''created_at'', PStr (dated (p_created p))), (''updated_at'', PStr (dated (p_updated p)))])"

definition project_activity_out :: "(int \<Rightarrow> string) \<Rightarrow> int \<times> audit_entry \<Rightarrow> kwargs" where
  "project_activity_out dated = (\<lambda>(i, e).
     [(''id'', PInt i), (''action'', PStr (al_action e)), (''actor_id'', maybe PInt (al_user e)),
      (''details'', PDict (al_details e)), (''created_at'', PStr (dated (al_created e)))])"

definition job_out :: "(int \<Rightarrow> string) \<Rightarrow> int \<times> job \<Rightarrow> kwargs" where
  "job_out dated = (\<lambda>(i, j).
     [(''id'', PInt i), (''user_id'', PInt (j_user_id j)), (''website_id'', maybe PInt (j_website_id j)),
      (''job_type'', PStr (j_job_type j)), (''status'', PStr (j_status j)), (''progress'', PInt (j_progress j)),
      (''created_at'', PStr (dated (j_created_at j))), (''started_at'', maybe (PStr \<circ> dated) (j_started_at j)),
      (''finished_at'', maybe (PStr \<circ> dated) (j_finished_at j)), (''updated_at'', PStr (dated (j_updated_at j))),
      (''error_message'', maybe PStr (j_error_message j)),
      (''result_reference'', maybe (\<lambda>v. v) (j_result_reference j))])"

definition crawl_page_out :: "(int \<Rightarrow> string) \<Rightarrow> int \<times> crawl_page \<Rightarrow> kwargs" where
  "crawl_page_out dated = (\<lambda>(i, p).
     [(''id'', PInt i), (''crawl_job_id'', PInt (cp_job p)), (''url'', PStr (cp_url p)), (''depth'', PInt (cp_depth p)),
      (''status_code'', maybe PInt (cp_status_code p)), (''content_type'', maybe PStr (cp_content_type p)),
      (''title'', maybe PStr (cp_title p)), (''meta_description'', maybe PStr (cp_meta p)),
      (''canonical'', maybe PStr (cp_canonical p)), (''h1'', maybe PStr (cp_h1 p)), (''word_count'', PInt (cp_words p)),
      (''internal_links'', PInt (cp_internal p)), (''external_links'', PInt (cp_external p)),
      (''noindex'', PBool (cp_noindex p)), (''nofollow'', PBool (cp_nofollow p)),
      (''redirect_target'', maybe PStr (cp_redirect p)), (''response_time'', maybe PInt (cp_response p)),
      (''created_at'', PStr (dated (cp_created p)))])"

definition crawl_issue_out :: "(int \<Rightarrow> string) \<Rightarrow> int \<times> crawl_issue \<Rightarrow> kwargs" where
  "crawl_issue_out dated = (\<lambda>(i, e).
     [(''id'', PInt i), (''crawl_job_id'', PInt (ci_job e)), (''page_id'', maybe PInt (ci_page e)),
      (''severity'', PStr (ci_severity e)), (''category'', PStr (ci_category e)), (''message'', PStr (ci_message e)),
      (''recommendation'', maybe PStr (ci_recommendation e)), (''created_at'', PStr (dated (ci_created e)))])"

definition crawl_stats_out :: "crawl_stats \<Rightarrow> kwargs" where
  "crawl_stats_out st =
     [(''total_pages'', PInt (int (cs_total st))), (''html_pages'', PInt (int (cs_html st))),
      (''redirects'', PInt (int (cs_redirects st))), (''broken_pages'', PInt (int (cs_broken st))),
      (''average_response_time'', PFloat (cs_average st)), (''crawl_duration_seconds'', maybe PInt (cs_duration st))]"

definition crawl_job_out :: "(int \<Rightarrow> string) \<Rightarrow> crawl_stats option \<Rightarrow> int \<times> crawl_job \<Rightarrow> kwargs" where
  "crawl_job_out dated stats = (\<lambda>(i, c).
     [(''id'', PInt i), (''website_id'', PInt (cj_website c)), (''status'', PStr (cj_status c)),
      (''progress'', PInt (cj_progress c)), (''started_at'', maybe (PStr \<circ> dated) (cj_started c)),
      (''finished_at'', maybe (PStr \<circ> dated) (cj_finished c)), (''pages_found'', PInt (cj_pages c)),
      (''issues_found'', PInt (cj_issues c)), (''duration_seconds'', maybe PInt (cj_duration c)),
      (''triggered_by'', PStr (cj_triggered_by c)), (''crawler_version'', PStr (cj_version c)),
      (''error_message'', maybe PStr (cj_error c)), (''created_at'', PStr (dated (cj_created c))),
      (''updated_at'', PStr (dated (cj_updated c))), (''stats'', maybe (PDict \<circ> crawl_stats_out) stats)])"

section \<open>What leaves the server\<close>

text \<open>The members of an organization, each with the account behind it, as \<^verbatim>\<open>get_members\<close> answers.\<close>

definition members_answer :: "(int \<Rightarrow> string) \<Rightarrow> int \<Rightarrow> int \<times> user \<Rightarrow> db \<Rightarrow> kwargs list outcome" where
  "members_answer dated oid cu w =
     (case fst (list_members oid cu w) of
        Inl e \<Rightarrow> Inl e
      | Inr ms \<Rightarrow> Inr (map (\<lambda>km. membership_out dated (t_get (db_users w) (m_user (snd km))) km) ms))"

definition sessions_answer :: "(int \<Rightarrow> string) \<Rightarrow> client \<Rightarrow> int \<times> user \<Rightarrow> auth_db \<Rightarrow> kwargs list outcome" where
  "sessions_answer dated cl cu w =
     (case fst (list_sessions cl cu w) of
        Inl e \<Rightarrow> Inl e | Inr ss \<Rightarrow> Inr (map (\<lambda>(current, s). session_out dated current s) ss))"

text \<open>
  answers keep credentials back: they are the same whatever the hash of the password of a user and the tokens of a
  session are.
\<close>

theorem answers_hide_credentials:
  "user_out dated (i, u\<lparr>u_hash := h\<rparr>) = user_out dated (i, u)
   \<and> session_out dated current (k, s\<lparr>us_token := a, us_refresh := b\<rparr>) = session_out dated current (k, s)
   \<and> membership_out dated (Some (u\<lparr>u_hash := h\<rparr>)) km = membership_out dated (Some u) km"
  by (cases km) (simp add: user_out_def session_out_def membership_out_def maybe_def)

text \<open>
  every member of an organization, whatever his role, reads of every other member the address of the last login, the
  failed logins and the lock of the account.
\<close>

theorem members_see_login_data:
  assumes "get_membership w oid (fst cu) = Some mem" and "(k, m) \<in> set (get_org_members w oid)"
    and "t_get (db_users w) (m_user m) = Some u"
  shows "\<exists>as a d. members_answer dated oid cu w = Inr as \<and> a \<in> set as \<and> d_get a ''user'' = Some (PDict d)
    \<and> d_get d ''last_login_ip'' = Some (maybe PStr (u_last_ip u))
    \<and> d_get d ''failed_login_attempts'' = Some (PInt (u_failed u))
    \<and> d_get d ''locked_until'' = Some (maybe (PStr \<circ> dated) (u_locked_until u))"
proof (intro exI conjI)
  show "members_answer dated oid cu w
      = Inr (map (\<lambda>km. membership_out dated (t_get (db_users w) (m_user (snd km))) km) (get_org_members w oid))"
    using assms(1) by (simp add: members_answer_def list_members_def require_membership_def and_then_def)
  show "membership_out dated (Some u) (k, m)
      \<in> set (map (\<lambda>km. membership_out dated (t_get (db_users w) (m_user (snd km))) km) (get_org_members w oid))"
    using assms(2,3) by force
  show "d_get (membership_out dated (Some u) (k, m)) ''user'' = Some (PDict (user_out dated (m_user m, u)))"
    by (simp add: membership_out_def maybe_def)
qed (simp_all add: user_out_def)

definition demo_person :: user where
  "demo_person =
     \<lparr>u_email = ''ann@a.io'', u_username = ''ann'', u_hash = None, u_role = ''user'', u_verified = True, u_avatar = None,
      u_timezone = ''UTC'', u_language = ''en'', u_notify = [], u_failed = 2, u_locked_until = None, u_last_login = Some 5,
      u_last_ip = Some ''10.0.0.1'', u_created = 0\<rparr>"

definition demo_team :: db where
  "demo_team =
     (db_empty False 9)\<lparr>db_users := snd (t_insert demo_person t_empty),
       db_members := snd (t_insert \<lparr>m_org = 1, m_user = 1, m_role = ''Viewer'', m_created = 0, m_updated = 0\<rparr> t_empty)\<rparr>"

lemma demo_team_rows:
  "get_membership demo_team 1 1 = Some (1, \<lparr>m_org = 1, m_user = 1, m_role = ''Viewer'', m_created = 0, m_updated = 0\<rparr>)
   \<and> (1, \<lparr>m_org = 1, m_user = 1, m_role = ''Viewer'', m_created = 0, m_updated = 0\<rparr>) \<in> set (get_org_members demo_team 1)
   \<and> t_get (db_users demo_team) 1 = Some demo_person"
  by code_simp

theorem members_see_login_data_witness:
  "\<exists>as a d. members_answer (\<lambda>_. []) 1 (1, demo_person) demo_team = Inr as \<and> a \<in> set as
    \<and> d_get a ''user'' = Some (PDict d) \<and> d_get d ''last_login_ip'' = Some (PStr ''10.0.0.1'')"
proof -
  let ?m = "\<lparr>m_org = 1, m_user = 1, m_role = ''Viewer'', m_created = 0, m_updated = 0\<rparr>"
  from demo_team_rows have "get_membership demo_team 1 (fst (1, demo_person)) = Some (1, ?m)"
    and "(1, ?m) \<in> set (get_org_members demo_team 1)" and "t_get (db_users demo_team) (m_user ?m) = Some demo_person" by simp_all
  from members_see_login_data [OF this, of "\<lambda>_. []"] obtain as a d
    where "members_answer (\<lambda>_. []) 1 (1, demo_person) demo_team = Inr as" and "a \<in> set as"
      and "d_get a ''user'' = Some (PDict d)" and "d_get d ''last_login_ip'' = Some (maybe PStr (u_last_ip demo_person))" by blast
  moreover have "maybe PStr (u_last_ip demo_person) = PStr ''10.0.0.1''" by (simp add: demo_person_def maybe_def)
  ultimately show ?thesis by metis
qed

end
