(* ===== verification/Request_Schemas.thy ===== *)
theory Request_Schemas
  imports Schemas
begin

text \<open>
  The classes of \<^verbatim>\<open>schemas.py\<close> for the requests of accounts, organizations, projects, websites and crawls: lengths of
  fields, and the validators of \<open>Schemas\<close> behind them. Whether a text is an address for mail is the test \<open>email\<close>, which the
  package behind \<^verbatim>\<open>EmailStr\<close> decides; it may rewrite the address. Fields without a check are left out.
\<close>

definition at_most :: "nat \<Rightarrow> string option \<Rightarrow> bool" where
  "at_most n v \<longleftrightarrow> (case v of None \<Rightarrow> True | Some s \<Rightarrow> length s \<le> n)"

definition opt_length_ok :: "nat \<Rightarrow> nat \<Rightarrow> string option \<Rightarrow> bool" where
  "opt_length_ok least most v \<longleftrightarrow> (case v of None \<Rightarrow> True | Some s \<Rightarrow> field_length least most s)"

definition bad_field :: "string \<Rightarrow> 'a outcome" where
  "bad_field name = Inl (PydanticValidationError name)"

section \<open>Accounts\<close>

record user_create =
  uq_email :: string
  uq_username :: string
  uq_password :: "string option"
  uq_remember :: bool

definition mk_user_create ::
  "(string \<Rightarrow> string option) \<Rightarrow> string \<Rightarrow> string \<Rightarrow> string option \<Rightarrow> bool \<Rightarrow> user_create outcome" where
  "mk_user_create email addr username password remember =
     (if \<not> field_length 2 50 username then bad_field ''username''
      else if \<not> opt_length_ok 8 128 password then bad_field ''password''
      else (case (email addr, validated (validate_username username), validated (validate_password_strength_str password)) of
              (Some m, Inr u, Inr p) \<Rightarrow> Inr \<lparr>uq_email = m, uq_username = u, uq_password = p, uq_remember = remember\<rparr>
            | (None, _, _) \<Rightarrow> bad_field ''email''
            | (_, Inl e, _) \<Rightarrow> Inl e
            | (_, _, Inl e) \<Rightarrow> Inl e))"

text \<open>The password alone, as \<^verbatim>\<open>PasswordResetConfirm\<close> and \<^verbatim>\<open>PasswordChangeRequest\<close> check it.\<close>

definition new_password_field :: "string \<Rightarrow> string outcome" where
  "new_password_field v =
     (if \<not> field_length 8 128 v then bad_field ''new_password''
      else (case validated (validate_password_strength_str (Some v)) of Inl e \<Rightarrow> Inl e | Inr r \<Rightarrow> Inr (or_else r v)))"

definition mk_password_reset_confirm :: "string \<Rightarrow> string \<Rightarrow> (string \<times> string) outcome" where
  "mk_password_reset_confirm token new =
     (case new_password_field new of Inl e \<Rightarrow> Inl e | Inr p \<Rightarrow> Inr (token, p))"

definition mk_password_change :: "string \<Rightarrow> string \<Rightarrow> (string \<times> string) outcome" where
  "mk_password_change current new =
     (if \<not> field_length 1 128 current then bad_field ''current_password''
      else (case new_password_field new of Inl e \<Rightarrow> Inl e | Inr p \<Rightarrow> Inr (current, p)))"

text \<open>\<^verbatim>\<open>UserUpdate\<close>: the validator of the name is not asked.\<close>

definition mk_user_update ::
  "(string \<Rightarrow> string option) \<Rightarrow> string option \<Rightarrow> string option \<Rightarrow> (string option \<times> string option) outcome" where
  "mk_user_update email username addr =
     (if \<not> opt_length_ok 2 50 username then bad_field ''username''
      else (case addr of
              None \<Rightarrow> Inr (username, None)
            | Some a \<Rightarrow> (case email a of None \<Rightarrow> bad_field ''email'' | Some m \<Rightarrow> Inr (username, Some m))))"

definition mk_login :: "(string \<Rightarrow> string option) \<Rightarrow> string option \<Rightarrow> string option \<Rightarrow> string option
     \<Rightarrow> (string option \<times> string option \<times> string option) outcome" where
  "mk_login email addr username password =
     (if \<not> opt_length_ok 1 128 password then bad_field ''password''
      else (case addr of
              None \<Rightarrow> Inr (None, username, password)
            | Some a \<Rightarrow> (case email a of None \<Rightarrow> bad_field ''email'' | Some m \<Rightarrow> Inr (Some m, username, password))))"

section \<open>Organizations\<close>

definition organization_fields_ok :: "string option \<Rightarrow> string option \<Rightarrow> bool" where
  "organization_fields_ok name slug \<longleftrightarrow> opt_length_ok 1 100 name \<and> opt_length_ok 1 100 slug"

definition mk_organization_create :: "string \<Rightarrow> string option \<Rightarrow> (string \<times> string option) outcome" where
  "mk_organization_create name slug =
     (if organization_fields_ok (Some name) slug then Inr (name, slug) else bad_field ''name'')"

definition mk_organization_update :: "string option \<Rightarrow> string option \<Rightarrow> (string option \<times> string option) outcome" where
  "mk_organization_update name slug = (if organization_fields_ok name slug then Inr (name, slug) else bad_field ''name'')"

text \<open>The role of an invitation is any text, \<open>Member\<close> when it is left out.\<close>

definition mk_invitation_create :: "(string \<Rightarrow> string option) \<Rightarrow> string \<Rightarrow> string option \<Rightarrow> (string \<times> string) outcome" where
  "mk_invitation_create email addr role =
     (case email addr of
        None \<Rightarrow> bad_field ''email''
      | Some m \<Rightarrow> Inr (m, case role of None \<Rightarrow> ''Member'' | Some r \<Rightarrow> r))"

section \<open>Projects\<close>

record project_fields =
  pf_name :: "string option"
  pf_slug :: "string option"
  pf_description :: "string option"
  pf_status :: "string option"
  pf_color :: "string option"
  pf_icon :: "string option"
  pf_timezone :: "string option"
  pf_language :: "string option"

definition project_lengths_ok :: "project_fields \<Rightarrow> bool" where
  "project_lengths_ok f \<longleftrightarrow>
     opt_length_ok 1 100 (pf_name f) \<and> opt_length_ok 1 100 (pf_slug f) \<and> at_most 1000 (pf_description f)
     \<and> at_most 20 (pf_status f) \<and> at_most 30 (pf_color f) \<and> at_most 50 (pf_icon f) \<and> at_most 50 (pf_timezone f)
     \<and> at_most 10 (pf_language f)"

text \<open>
  \<^verbatim>\<open>ProjectCreate\<close> and \<^verbatim>\<open>ProjectUpdate\<close> have the same validators but for the status that is missing: the creation makes it
  \<open>active\<close>. A creation has a name.
\<close>

definition mk_project_fields :: "string option \<Rightarrow> project_fields \<Rightarrow> project_fields outcome" where
  "mk_project_fields missing f =
     (if \<not> project_lengths_ok f then bad_field ''fields''
      else (case (validated (validate_project_name (pf_name f)), validated (validate_project_slug (pf_slug f)),
                  validated (validate_project_status missing (pf_status f))) of
              (Inr n, Inr s, Inr st) \<Rightarrow> Inr (f\<lparr>pf_name := n, pf_slug := s, pf_status := st\<rparr>)
            | (Inl e, _, _) \<Rightarrow> Inl e
            | (_, Inl e, _) \<Rightarrow> Inl e
            | (_, _, Inl e) \<Rightarrow> Inl e))"

definition mk_project_create :: "project_fields \<Rightarrow> project_fields outcome" where
  "mk_project_create f =
     (case pf_name f of None \<Rightarrow> bad_field ''name'' | Some n \<Rightarrow> mk_project_fields (Some ''active'') f)"

definition mk_project_update :: "project_fields \<Rightarrow> project_fields outcome" where
  "mk_project_update f = mk_project_fields None f"

section \<open>Websites and crawls\<close>

record website_fields =
  wf_domain :: "string option"
  wf_protocol :: "string option"
  wf_status :: "string option"
  wf_verification :: "string option"
  wf_favicon :: "string option"
  wf_country :: "string option"
  wf_language :: "string option"
  wf_timezone :: "string option"

definition website_lengths_ok :: "nat \<Rightarrow> website_fields \<Rightarrow> bool" where
  "website_lengths_ok least f \<longleftrightarrow>
     opt_length_ok least 255 (wf_domain f) \<and> at_most 10 (wf_protocol f) \<and> at_most 50 (wf_status f)
     \<and> at_most 50 (wf_verification f) \<and> at_most 500 (wf_favicon f) \<and> at_most 10 (wf_country f)
     \<and> at_most 10 (wf_language f) \<and> at_most 50 (wf_timezone f)"

definition mk_website_create :: "website_fields \<Rightarrow> website_fields outcome" where
  "mk_website_create f =
     (if wf_domain f = None \<or> \<not> website_lengths_ok 1 f then bad_field ''domain'' else Inr f)"

definition mk_website_update :: "website_fields \<Rightarrow> website_fields outcome" where
  "mk_website_update f = (if \<not> website_lengths_ok 0 f then bad_field ''domain'' else Inr f)"

record crawl_progress =
  cq_progress :: "int option"
  cq_status :: "string option"
  cq_pages :: "int option"
  cq_issues :: "int option"
  cq_duration :: "int option"
  cq_error :: "string option"

definition mk_crawl_progress :: "crawl_progress \<Rightarrow> crawl_progress outcome" where
  "mk_crawl_progress f =
     (let least = (\<lambda>v. case v of None \<Rightarrow> True | Some n \<Rightarrow> 0 \<le> n)
      in if \<not> least (cq_progress f) \<or> (case cq_progress f of None \<Rightarrow> False | Some n \<Rightarrow> 100 < n) then bad_field ''progress''
         else if \<not> least (cq_pages f) then bad_field ''pages_found''
         else if \<not> least (cq_issues f) then bad_field ''issues_found''
         else Inr f)"

section \<open>What is accepted\<close>

definition slug_char :: "char \<Rightarrow> bool" where
  "slug_char c \<longleftrightarrow> is_lower c \<or> is_digit c \<or> c = CHR ''-''"

text \<open>
  a project request that is accepted has a stripped name that is not empty when it has one, a slug of lower case
  letters, digits and hyphens, and one of the five statuses; a creation has all of name and status.
\<close>

theorem accepted_projects_are_valid:
  assumes "mk_project_fields missing f = Inr g"
  shows "(pf_name g = None \<or> (\<exists>n. pf_name g = Some n \<and> n \<noteq> [] \<and> pf_name f \<noteq> None \<and> n = str_strip (the (pf_name f))))
    \<and> (pf_slug g = None \<or> (\<exists>s. pf_slug g = Some s \<and> s \<noteq> [] \<and> list_all slug_char s))
    \<and> (pf_status g = missing \<or> (\<exists>s. pf_status g = Some s \<and> s \<in> set PROJECT_STATUSES))
    \<and> (pf_name f \<noteq> None) = (pf_name g \<noteq> None)"
proof -
  from assms obtain n s st where ok: "validate_project_name (pf_name f) = Inr n" "validate_project_slug (pf_slug f) = Inr s"
      "validate_project_status missing (pf_status f) = Inr st"
    and g: "g = f\<lparr>pf_name := n, pf_slug := s, pf_status := st\<rparr>"
    by (auto simp: mk_project_fields_def bad_field_def validated_def split: if_splits sum.splits)
  have "(n = None \<and> pf_name f = None) \<or> (\<exists>m. n = Some m \<and> m \<noteq> [] \<and> pf_name f \<noteq> None \<and> m = str_strip (the (pf_name f)))"
    using ok(1) by (auto simp: validate_project_name_def split: option.splits if_splits)
  moreover have "s = None \<or> (\<exists>v. s = Some v \<and> v \<noteq> [] \<and> list_all slug_char v)"
    using ok(2) by (auto simp: validate_project_slug_def Let_def slug_char_def list_all_iff split: option.splits if_splits)
  moreover have "st = missing \<or> (\<exists>v. st = Some v \<and> v \<in> set PROJECT_STATUSES)"
    using ok(3) by (auto simp: validate_project_status_def Let_def split: option.splits if_splits)
  ultimately show ?thesis unfolding g by auto
qed

definition demo_project :: project_fields where
  "demo_project =
     \<lparr>pf_name = Some '' Shop '', pf_slug = Some ''WEB-shop'', pf_description = None, pf_status = Some ''Paused'', pf_color = None,
      pf_icon = None, pf_timezone = Some ''UTC'', pf_language = Some ''en''\<rparr>"

theorem accepted_projects_are_valid_witness:
  "\<exists>g. mk_project_create demo_project = Inr g \<and> (\<exists>n. pf_name g = Some n \<and> n \<noteq> [])"
proof -
  have name: "pf_name demo_project = Some '' Shop ''" by (simp add: demo_project_def)
  have mk: "mk_project_fields (Some ''active'') demo_project
      = Inr (demo_project\<lparr>pf_name := Some ''Shop'', pf_slug := Some ''web-shop'', pf_status := Some ''paused''\<rparr>)" by code_simp
  from accepted_projects_are_valid [OF mk] mk name show ?thesis by (auto simp: mk_project_create_def)
qed

text \<open>
  an account is created with a name that is not blank, but the update of an account takes a blank one: only the
  length is asked.
\<close>

theorem blank_names_by_update:
  "mk_user_update email (Some '' '') None = bad_field ''username'' \<and> mk_user_update email (Some ''  '') None = Inr (Some ''  '', None)
   \<and> (\<exists>e. mk_user_create email addr ''  '' password remember = Inl e)"
proof -
  have "validate_username ''  '' = Inl (ValueError ''Username cannot be empty or blank'')" by code_simp
  then show ?thesis
    by (auto simp: mk_user_update_def mk_user_create_def opt_length_ok_def field_length_def validated_def bad_field_def
        split: option.splits sum.splits)
qed

text \<open>A password that a request brings is a strong one, without blanks around it.\<close>

lemma accepted_passwords_are_strong:
  assumes "mk_user_create email addr username (Some p) remember = Inr r"
  shows "\<exists>q. uq_password r = Some q \<and> fst (validate_password_strength q) \<and> q = str_strip p"
proof -
  from assms obtain v where v: "validated (validate_password_strength_str (Some p)) = Inr v" and r: "uq_password r = v"
    by (auto simp: mk_user_create_def bad_field_def split: if_splits option.splits sum.splits)
  from v obtain q where "validate_password_strength_str (Some p) = Inr (Some q)" and q: "v = Some q"
    by (auto simp: validated_def validate_password_strength_str_def Let_def split: sum.splits if_splits)
  with password_checks_agree [of p q] show ?thesis using r q by simp
qed

end
