(* ===== verification/Migrations.thy ===== *)
theory Migrations
  imports Prelude
begin

text \<open>
  The operations of the migration scripts under \<^verbatim>\<open>alembic/versions\<close> as steps on a schema. The rules are those
  of the SQL language as PostgreSQL documents them: a name of a table, column or index is used once, an index and a key name
  columns that exist, a table or column that another table refers to is not dropped, and what is dropped takes its
  indexes with it.
\<close>

section \<open>Schemas\<close>

datatype sa_type = SaInteger | SaString | SaText | SaBoolean | SaDateTime | SaJSON

datatype default_value = Quoted string | SqlText string

datatype foreign_key = ForeignKey string string string

datatype sa_column =
  SaColumn (c_name: string) (c_type: sa_type) (c_ref: "foreign_key option") (c_default: "default_value option")
    (c_nullable: bool) (c_primary: bool)

datatype table_item =
    Col sa_column
  | ForeignKeyConstraint "string list" "(string \<times> string) list" string
  | PrimaryKeyConstraint "string list"

datatype migration_op =
    CreateTable string "table_item list"
  | DropTable string
  | AddColumn string sa_column
  | DropColumn string string
  | CreateIndex string string "string list" bool
  | DropIndex string string

record table_def =
  td_columns :: "sa_column list"
  td_keys :: "(string list \<times> (string \<times> string) list) list"
  td_primary :: "string list"
  td_indexes :: "(string \<times> string list \<times> bool) list"

type_synonym schema = "(string \<times> table_def) list"

definition column_names :: "table_def \<Rightarrow> string list" where
  "column_names d = map c_name (td_columns d)"

definition column_refs :: "sa_column \<Rightarrow> (string \<times> string) list" where
  "column_refs c = (case c_ref c of None \<Rightarrow> [] | Some (ForeignKey t k _) \<Rightarrow> [(t, k)])"

definition table_refs :: "table_def \<Rightarrow> (string \<times> string) list" where
  "table_refs d = concat (map column_refs (td_columns d)) @ concat (map snd (td_keys d))"

definition has_column :: "schema \<Rightarrow> string \<times> string \<Rightarrow> bool" where
  "has_column S tc \<longleftrightarrow> list_ex (\<lambda>(t, d). t = fst tc \<and> snd tc \<in> set (column_names d)) S"

definition index_names :: "schema \<Rightarrow> string list" where
  "index_names S = concat (map (\<lambda>(t, d). map fst (td_indexes d)) S)"

definition referred :: "schema \<Rightarrow> string \<Rightarrow> bool" where
  "referred S t \<longleftrightarrow> list_ex (\<lambda>(k, d). k \<noteq> t \<and> t \<in> fst ` set (table_refs d)) S"

definition column_referred :: "schema \<Rightarrow> string \<Rightarrow> string \<Rightarrow> bool" where
  "column_referred S t c \<longleftrightarrow> list_ex (\<lambda>(k, d). (t, c) \<in> set (table_refs d)) S"

section \<open>Steps\<close>

definition change_table :: "string \<Rightarrow> (table_def \<Rightarrow> table_def) \<Rightarrow> schema \<Rightarrow> schema" where
  "change_table t f S = map (\<lambda>(k, d). (k, if k = t then f d else d)) S"

definition table_of :: "table_item list \<Rightarrow> table_def" where
  "table_of items =
     \<lparr>td_columns = concat (map (\<lambda>i. case i of Col c \<Rightarrow> [c] | _ \<Rightarrow> []) items),
      td_keys = concat (map (\<lambda>i. case i of ForeignKeyConstraint cs rs _ \<Rightarrow> [(cs, rs)] | _ \<Rightarrow> []) items),
      td_primary = concat (map (\<lambda>i. case i of PrimaryKeyConstraint cs \<Rightarrow> cs | Col c \<Rightarrow> (if c_primary c then [c_name c] else []) | _ \<Rightarrow> []) items),
      td_indexes = []\<rparr>"

definition table_sound :: "schema \<Rightarrow> table_def \<Rightarrow> bool" where
  "table_sound S d \<longleftrightarrow>
     distinct (column_names d) \<and> set (td_primary d) \<subseteq> set (column_names d)
     \<and> list_all (\<lambda>(cs, rs). set cs \<subseteq> set (column_names d)) (td_keys d) \<and> list_all (has_column S) (table_refs d)"

definition add_column :: "sa_column \<Rightarrow> table_def \<Rightarrow> table_def" where
  "add_column c d = d\<lparr>td_columns := td_columns d @ [c]\<rparr>"

definition drop_column :: "string \<Rightarrow> table_def \<Rightarrow> table_def" where
  "drop_column c d =
     d\<lparr>td_columns := filter (\<lambda>x. c_name x \<noteq> c) (td_columns d), td_keys := filter (\<lambda>k. c \<notin> set (fst k)) (td_keys d),
       td_indexes := filter (\<lambda>i. c \<notin> set (fst (snd i))) (td_indexes d)\<rparr>"

definition add_index :: "string \<times> string list \<times> bool \<Rightarrow> table_def \<Rightarrow> table_def" where
  "add_index i d = d\<lparr>td_indexes := td_indexes d @ [i]\<rparr>"

definition drop_index :: "string \<Rightarrow> table_def \<Rightarrow> table_def" where
  "drop_index n d = d\<lparr>td_indexes := filter (\<lambda>i. fst i \<noteq> n) (td_indexes d)\<rparr>"

definition has_index :: "schema \<Rightarrow> string \<Rightarrow> string \<Rightarrow> bool" where
  "has_index S t n \<longleftrightarrow> list_ex (\<lambda>(k, d). k = t \<and> n \<in> fst ` set (td_indexes d)) S"

fun migrate :: "migration_op \<Rightarrow> schema \<Rightarrow> schema option" where
  "migrate (CreateTable t items) S =
     (if t \<in> fst ` set S \<or> t \<in> set (index_names S) \<or> \<not> table_sound S (table_of items) then None
      else Some (S @ [(t, table_of items)]))"
| "migrate (DropTable t) S =
     (if t \<notin> fst ` set S \<or> referred S t then None else Some (filter (\<lambda>(k, d). k \<noteq> t) S))"
| "migrate (AddColumn t c) S =
     (if t \<notin> fst ` set S \<or> has_column S (t, c_name c) \<or> \<not> list_all (has_column S) (column_refs c) then None
      else Some (change_table t (add_column c) S))"
| "migrate (DropColumn t c) S =
     (if \<not> has_column S (t, c) \<or> column_referred S t c then None else Some (change_table t (drop_column c) S))"
| "migrate (CreateIndex n t cs unique) S =
     (if n \<in> set (index_names S) \<or> n \<in> fst ` set S \<or> t \<notin> fst ` set S \<or> \<not> list_all (\<lambda>c. has_column S (t, c)) cs then None
      else Some (change_table t (add_index (n, cs, unique)) S))"
| "migrate (DropIndex n t) S =
     (if \<not> has_index S t n then None else Some (change_table t (drop_index n) S))"

fun run_ops :: "migration_op list \<Rightarrow> schema \<Rightarrow> schema option" where
  "run_ops [] S = Some S"
| "run_ops (m # ms) S = (case migrate m S of None \<Rightarrow> None | Some S1 \<Rightarrow> run_ops ms S1)"

lemma run_ops_append:
  "run_ops (ms @ ns) S = (case run_ops ms S of None \<Rightarrow> None | Some S1 \<Rightarrow> run_ops ns S1)"
  by (induction ms arbitrary: S) (auto split: option.split)

section \<open>Undoing\<close>

text \<open>
  What takes back a list of additions: the inverses in reverse order. With the flag, an index of a table that is
  dropped gets no drop of its own; the list has the tables that are created before.
\<close>

fun undo :: "bool \<Rightarrow> string list \<Rightarrow> migration_op list \<Rightarrow> migration_op list" where
  "undo brief T [] = []"
| "undo brief T (CreateTable t items # ms) = undo brief (if brief then t # T else T) ms @ [DropTable t]"
| "undo brief T (AddColumn t c # ms) = undo brief T ms @ [DropColumn t (c_name c)]"
| "undo brief T (CreateIndex n t cs u # ms) = undo brief T ms @ (if t \<in> set T then [] else [DropIndex n t])"
| "undo brief T (m # ms) = undo brief T ms"

fun addition :: "migration_op \<Rightarrow> bool" where
  "addition (CreateTable t items) = True"
| "addition (AddColumn t c) = True"
| "addition (CreateIndex n t cs u) = True"
| "addition m = False"

text \<open>
  A schema in which tables have one definition, keys and indexes name columns of their table, and references
  lead to columns that exist.
\<close>

definition schema_ok :: "schema \<Rightarrow> bool" where
  "schema_ok S \<longleftrightarrow>
     list_all (\<lambda>(t, d). list_all (\<lambda>i. set (fst (snd i)) \<subseteq> set (column_names d)) (td_indexes d)
       \<and> list_all (\<lambda>k. set (fst k) \<subseteq> set (column_names d)) (td_keys d)
       \<and> list_all (has_column S) (table_refs d)) S
     \<and> distinct (map fst S)"

definition unindexed :: "string list \<Rightarrow> schema \<Rightarrow> schema" where
  "unindexed T S = map (\<lambda>(k, d). (k, if k \<in> set T then d\<lparr>td_indexes := []\<rparr> else d)) S"

lemma change_table_fst [simp]: "map fst (change_table t f S) = map fst S" "fst ` set (change_table t f S) = fst ` set S"
  by (force simp: change_table_def image_iff)+

lemma unindexed_fst: "map fst (unindexed T S) = map fst S"
  by (auto simp: unindexed_def)

lemma unindexed_views [simp]:
  "has_column (unindexed T S) tc = has_column S tc" "referred (unindexed T S) t = referred S t"
  "column_referred (unindexed T S) t c = column_referred S t c"
  by (auto simp: unindexed_def has_column_def referred_def column_referred_def list_ex_iff column_names_def
      table_refs_def Bex_def split: if_splits; force)+

lemma same_views:
  assumes "unindexed T R = unindexed T S"
  shows "map fst R = map fst S" and "has_column R = has_column S" and "referred R = referred S"
    and "column_referred R = column_referred S"
  using assms unindexed_fst [of T R] unindexed_fst [of T S] unindexed_views [of T R] unindexed_views [of T S]
  by (simp_all add: fun_eq_iff)

lemma has_column_mono:
  assumes "\<And>d c. c \<in> set (column_names d) \<Longrightarrow> c \<in> set (column_names (f d))" and "has_column S tc"
  shows "has_column (change_table t f S) tc"
  using assms by (fastforce simp: has_column_def change_table_def list_ex_iff split: prod.splits)

lemma has_column_table: "has_column S (t, c) \<Longrightarrow> t \<in> fst ` set S"
  by (force simp: has_column_def list_ex_iff)

section \<open>One step back\<close>

lemma undo_create_table:
  assumes ok: "schema_ok S" and step: "migrate (CreateTable t items) S = Some S1"
    and same: "unindexed (t # T) R1 = unindexed (t # T) S1"
  shows "\<exists>R. migrate (DropTable t) R1 = Some R \<and> unindexed T R = unindexed T S"
proof -
  from step have fresh: "t \<notin> fst ` set S" and S1: "S1 = S @ [(t, table_of items)]" by (auto split: if_splits)
  have "\<not> referred S1 t"
  proof
    assume "referred S1 t"
    then obtain k d r where "(k, d) \<in> set S" and "(t, r) \<in> set (table_refs d)"
      unfolding S1 referred_def by (auto simp: list_ex_iff)
    then have "has_column S (t, r)" using ok by (force simp: schema_ok_def list_all_iff)
    with fresh show False using has_column_table by blast
  qed
  moreover have "t \<in> fst ` set R1"
    using same_views(1) [OF same] S1 by (metis image_set in_set_conv_decomp list.simps(9) map_append fst_conv)
  ultimately have step': "migrate (DropTable t) R1 = Some (filter (\<lambda>(k, d). k \<noteq> t) R1)"
    using same_views(3) [OF same] by simp
  have drop: "filter (\<lambda>(k, d). k \<noteq> t) (unindexed (t # T) X) = unindexed T (filter (\<lambda>(k, d). k \<noteq> t) X)" for X
    by (induction X) (auto simp: unindexed_def)
  have "filter (\<lambda>(k, d). k \<noteq> t) S = S" using fresh by (force intro: filter_True)
  then have "unindexed T (filter (\<lambda>(k, d). k \<noteq> t) R1) = unindexed T S"
    using drop [of R1] drop [of S1] same S1 by simp
  with step' show ?thesis by blast
qed

lemma unindexed_change:
  assumes "\<And>d. t \<in> set T \<Longrightarrow> f (d\<lparr>td_indexes := []\<rparr>) = (f d)\<lparr>td_indexes := []\<rparr>"
  shows "unindexed T (change_table t f S) = change_table t f (unindexed T S)"
  using assms by (auto simp: unindexed_def change_table_def)

lemma change_back:
  assumes "\<And>d. (t, d) \<in> set S \<Longrightarrow> f (g d) = d"
  shows "change_table t f (change_table t g S) = S"
  using assms by (auto simp: change_table_def intro!: map_idI)

lemma undo_add_column:
  assumes ok: "schema_ok S" and step: "migrate (AddColumn t c) S = Some S1"
    and same: "unindexed T R1 = unindexed T S1"
  shows "\<exists>R. migrate (DropColumn t (c_name c)) R1 = Some R \<and> unindexed T R = unindexed T S"
proof -
  from step have there: "t \<in> fst ` set S" and new: "\<not> has_column S (t, c_name c)" 
    and refs: "list_all (has_column S) (column_refs c)" and S1: "S1 = change_table t (add_column c) S"
    by (auto split: if_splits)
  have "has_column S1 (t, c_name c)"
    using there by (force simp: S1 has_column_def change_table_def list_ex_iff add_column_def column_names_def)
  moreover have "\<not> column_referred S1 t (c_name c)"
  proof
    assume "column_referred S1 t (c_name c)"
    then obtain k d where kd: "(k, d) \<in> set S1" and r: "(t, c_name c) \<in> set (table_refs d)"
      by (auto simp: column_referred_def list_ex_iff)
    then obtain d0 where d0: "(k, d0) \<in> set S" and d: "d = (if k = t then add_column c d0 else d0)"
      by (auto simp: S1 change_table_def)
    from r d have "(t, c_name c) \<in> set (table_refs d0) \<or> (t, c_name c) \<in> set (column_refs c)"
      by (auto simp: table_refs_def add_column_def split: if_splits)
    then have "has_column S (t, c_name c)"
      using ok refs d0 by (force simp: schema_ok_def list_all_iff)
    with new show False by simp
  qed
  ultimately have step': "migrate (DropColumn t (c_name c)) R1 = Some (change_table t (drop_column (c_name c)) R1)"
    using same_views(2,4) [OF same] by simp
  have "unindexed T (change_table t (drop_column (c_name c)) R1)
      = change_table t (drop_column (c_name c)) (unindexed T R1)"
    by (rule unindexed_change) (simp add: drop_column_def)
  also have "\<dots> = change_table t (drop_column (c_name c)) (change_table t (add_column c) (unindexed T S))"
    unfolding same S1 by (subst unindexed_change) (simp_all add: add_column_def)
  also have "\<dots> = unindexed T S"
  proof (rule change_back)
    fix d
    assume "(t, d) \<in> set (unindexed T S)"
    then obtain d0 where d0: "(t, d0) \<in> set S" and d: "d = d0 \<or> d = d0\<lparr>td_indexes := []\<rparr>"
      by (auto simp: unindexed_def split: if_splits)
    have fresh: "c_name c \<notin> set (column_names d0)" using new d0 by (auto simp: has_column_def list_ex_iff)
    have "list_all (\<lambda>i. set (fst (snd i)) \<subseteq> set (column_names d0)) (td_indexes d0)"
      and "list_all (\<lambda>k. set (fst k) \<subseteq> set (column_names d0)) (td_keys d0)"
      using ok d0 by (force simp: schema_ok_def list_all_iff)+
    then have "filter (\<lambda>i. c_name c \<notin> set (fst (snd i))) (td_indexes d0) = td_indexes d0"
      "filter (\<lambda>k. c_name c \<notin> set (fst k)) (td_keys d0) = td_keys d0"
      using fresh by (auto simp: list_all_iff intro!: filter_True)
    moreover have "c_name x \<noteq> c_name c" if "x \<in> set (td_columns d0)" for x
      using fresh that by (metis column_names_def image_eqI set_map)
    then have "filter (\<lambda>x. c_name x \<noteq> c_name c) (td_columns d0) = td_columns d0"
      by (intro filter_True) blast
    ultimately show "drop_column (c_name c) (add_column c d) = d"
      using d by (auto simp: drop_column_def add_column_def)
  qed
  finally show ?thesis using step' by blast
qed

lemma undo_create_index:
  assumes step: "migrate (CreateIndex n t cs u) S = Some S1" and same: "unindexed T R1 = unindexed T S1"
  shows "\<exists>R. run_ops (if t \<in> set T then [] else [DropIndex n t]) R1 = Some R \<and> unindexed T R = unindexed T S"
proof (cases "t \<in> set T")
  case True
  then have "unindexed T S1 = unindexed T S"
    using step by (auto simp: unindexed_def change_table_def add_index_def split: if_splits)
  with True same show ?thesis by simp
next
  case False
  from step have new: "n \<notin> set (index_names S)" and there: "t \<in> fst ` set S"
    and S1: "S1 = change_table t (add_index (n, cs, u)) S" by (auto split: if_splits)
  have entry: "(t, d) \<in> set (unindexed T X) \<longleftrightarrow> (t, d) \<in> set X" for d X
    using False by (force simp: unindexed_def)
  have "has_index S1 t n"
    using there by (force simp: S1 has_index_def change_table_def list_ex_iff add_index_def)
  then obtain d where "(t, d) \<in> set S1" "n \<in> fst ` set (td_indexes d)" by (auto simp: has_index_def list_ex_iff)
  then have "has_index R1 t n" unfolding has_index_def list_ex_iff using entry [of d R1] entry [of d S1] same by force
  then have step': "run_ops [DropIndex n t] R1 = Some (change_table t (drop_index n) R1)" by simp
  have "unindexed T (change_table t (drop_index n) R1) = change_table t (drop_index n) (unindexed T R1)"
    using False by (intro unindexed_change) simp
  also have "\<dots> = change_table t (drop_index n) (change_table t (add_index (n, cs, u)) (unindexed T S))"
    unfolding same S1 using False by (subst unindexed_change) simp_all
  also have "\<dots> = unindexed T S"
  proof (rule change_back)
    fix d
    assume "(t, d) \<in> set (unindexed T S)"
    then have "(t, d) \<in> set S" using entry by blast
    then have "n \<notin> fst ` set (td_indexes d)" using new by (force simp: index_names_def)
    then have "filter (\<lambda>i. fst i \<noteq> n) (td_indexes d) = td_indexes d" by (force intro: filter_True)
    then show "drop_index n (add_index (n, cs, u) d) = d" by (simp add: drop_index_def add_index_def)
  qed
  finally show ?thesis using False step' by simp
qed

section \<open>All steps back\<close>

lemma refs_mono:
  assumes "\<And>tc. has_column S tc \<Longrightarrow> has_column S1 tc" and "list_all (has_column S) rs"
  shows "list_all (has_column S1) rs"
  using assms by (auto simp: list_all_iff)

lemma schema_ok_change:
  assumes ok: "schema_ok S" and cols: "\<And>d c. c \<in> set (column_names d) \<Longrightarrow> c \<in> set (column_names (f d))"
    and entry: "\<And>d. (t, d) \<in> set S \<Longrightarrow>
      (\<forall>i\<in>set (td_indexes (f d)). i \<in> set (td_indexes d) \<or> set (fst (snd i)) \<subseteq> set (column_names (f d)))
      \<and> td_keys (f d) = td_keys d \<and> (\<forall>r\<in>set (table_refs (f d)). r \<in> set (table_refs d) \<or> has_column S r)"
  shows "schema_ok (change_table t f S)"
  unfolding schema_ok_def list_all_iff
proof (intro conjI ballI)
  show "distinct (map fst (change_table t f S))" using ok by (simp add: schema_ok_def)
  fix kd
  assume "kd \<in> set (change_table t f S)"
  then obtain k d where kd: "(k, d) \<in> set S" "kd = (k, if k = t then f d else d)" by (auto simp: change_table_def)
  have old: "\<And>i. i \<in> set (td_indexes d) \<Longrightarrow> set (fst (snd i)) \<subseteq> set (column_names d)"
    "\<And>i. i \<in> set (td_keys d) \<Longrightarrow> set (fst i) \<subseteq> set (column_names d)"
    "\<And>r. r \<in> set (table_refs d) \<Longrightarrow> has_column S r"
    using ok kd(1) by (force simp: schema_ok_def list_all_iff)+
  have up: "has_column (change_table t f S) r" if "has_column S r" for r
    using has_column_mono [OF cols that] .
  show "case kd of (t', d) \<Rightarrow> (\<forall>i\<in>set (td_indexes d). set (fst (snd i)) \<subseteq> set (column_names d))
      \<and> (\<forall>k\<in>set (td_keys d). set (fst k) \<subseteq> set (column_names d))
      \<and> (\<forall>r\<in>set (table_refs d). has_column (change_table t f S) r)"
  proof (cases "k = t")
    case True
    with entry kd(1) have e: "(\<forall>i\<in>set (td_indexes (f d)). i \<in> set (td_indexes d) \<or> set (fst (snd i)) \<subseteq> set (column_names (f d)))
      \<and> td_keys (f d) = td_keys d \<and> (\<forall>r\<in>set (table_refs (f d)). r \<in> set (table_refs d) \<or> has_column S r)" by blast
    have sub: "set (column_names d) \<subseteq> set (column_names (f d))" using cols by blast
    have "\<forall>i\<in>set (td_indexes (f d)). set (fst (snd i)) \<subseteq> set (column_names (f d))"
      using e old(1) sub by (meson subset_trans)
    moreover have "\<forall>k\<in>set (td_keys (f d)). set (fst k) \<subseteq> set (column_names (f d))"
      using e old(2) sub by (metis subset_trans)
    moreover have "\<forall>r\<in>set (table_refs (f d)). has_column (change_table t f S) r"
      using e old(3) up by blast
    ultimately show ?thesis using True kd(2) by simp
  next
    case False
    with old up kd(2) show ?thesis by auto
  qed
qed

lemma has_column_append: "has_column (S @ S') tc \<longleftrightarrow> has_column S tc \<or> has_column S' tc"
  by (auto simp: has_column_def)

lemma schema_ok_step:
  assumes ok: "schema_ok S" and "addition m" and step: "migrate m S = Some S1"
  shows "schema_ok S1"
proof (cases m)
  case (CreateTable t items)
  with step have fresh: "t \<notin> fst ` set S" and sound: "table_sound S (table_of items)" and S1: "S1 = S @ [(t, table_of items)]"
    by (auto split: if_splits)
  have more: "list_all (has_column S) rs \<Longrightarrow> list_all (has_column S1) rs" for rs
    by (auto simp: S1 list_all_iff has_column_append)
  have "list_all (\<lambda>i. set (fst (snd i)) \<subseteq> set (column_names d)) (td_indexes d)
      \<and> list_all (\<lambda>k. set (fst k) \<subseteq> set (column_names d)) (td_keys d) \<and> list_all (has_column S1) (table_refs d)"
    if "(k, d) \<in> set S1" for k d
  proof (cases "(k, d) \<in> set S")
    case True
    moreover have "\<forall>kd\<in>set S. (case kd of (t, d) \<Rightarrow> list_all (\<lambda>i. set (fst (snd i)) \<subseteq> set (column_names d)) (td_indexes d)
        \<and> list_all (\<lambda>k. set (fst k) \<subseteq> set (column_names d)) (td_keys d) \<and> list_all (has_column S) (table_refs d))"
      using ok unfolding schema_ok_def list_all_iff [of _ S] by blast
    ultimately show ?thesis using more [of "table_refs d"] by fast
  next
    case False
    with that have "d = table_of items" by (simp add: S1)
    moreover have "td_indexes (table_of items) = []" by (simp add: table_of_def)
    moreover have "list_all (\<lambda>k. set (fst k) \<subseteq> set (column_names (table_of items))) (td_keys (table_of items))"
      using sound by (simp add: table_sound_def case_prod_unfold)
    ultimately show ?thesis using sound more [of "table_refs d"] by (simp add: table_sound_def)
  qed
  moreover have "distinct (map fst S1)" using ok fresh by (simp add: S1 schema_ok_def)
  ultimately show ?thesis unfolding schema_ok_def list_all_iff [of _ S1] by blast
next
  case (AddColumn t c)
  with step have refs: "list_all (has_column S) (column_refs c)" and S1: "S1 = change_table t (add_column c) S"
    by (auto split: if_splits)
  show ?thesis
    unfolding S1 using refs
    by (intro schema_ok_change [OF ok]) (auto simp: add_column_def column_names_def table_refs_def list_all_iff)
next
  case (CreateIndex n t cs u)
  with step have cols: "list_all (\<lambda>c. has_column S (t, c)) cs" and S1: "S1 = change_table t (add_index (n, cs, u)) S"
    by (auto split: if_splits)
  have "c \<in> set (column_names d)" if "(t, d) \<in> set S" "c \<in> set cs" for c d
  proof -
    from that(2) cols have "has_column S (t, c)" by (simp add: list_all_iff)
    then obtain d' where d': "(t, d') \<in> set S" "c \<in> set (column_names d')" by (auto simp: has_column_def list_ex_iff)
    moreover have "distinct (map fst S)" using ok by (simp add: schema_ok_def)
    ultimately have "d' = d" using that(1) by (metis eq_key_imp_eq_value)
    with d' show ?thesis by simp
  qed
  then show ?thesis
    unfolding S1 by (intro schema_ok_change [OF ok]) (auto simp: add_index_def column_names_def table_refs_def)
qed (use assms(2) in simp_all)

lemma unindexed_more: "unindexed T R = unindexed T S \<Longrightarrow> unindexed (t # T) R = unindexed (t # T) S"
proof -
  have "unindexed (t # T) X = unindexed (t # T) (unindexed T X)" for X by (auto simp: unindexed_def)
  then show "unindexed T R = unindexed T S \<Longrightarrow> unindexed (t # T) R = unindexed (t # T) S" by metis
qed

lemma undo_runs:
  assumes "schema_ok S" and "list_all addition ms" and "run_ops ms S = Some S'"
  shows "\<exists>R. run_ops (undo brief T ms) S' = Some R \<and> unindexed T R = unindexed T S"
  using assms
proof (induction ms arbitrary: S T)
  case Nil
  then show ?case by simp
next
  case (Cons m ms)
  from Cons.prems obtain S1 where step: "migrate m S = Some S1" and rest: "run_ops ms S1 = Some S'" and add: "addition m"
    by (auto split: option.splits)
  note IH = Cons.IH [OF schema_ok_step [OF Cons.prems(1) add step] _ rest]
  show ?case
  proof (cases m)
    case (CreateTable t items)
    from IH [of "if brief then t # T else T"] Cons.prems(2) obtain R1
      where "run_ops (undo brief (if brief then t # T else T) ms) S' = Some R1"
        and "unindexed (if brief then t # T else T) R1 = unindexed (if brief then t # T else T) S1" by auto
    moreover from calculation(2) have same: "unindexed (t # T) R1 = unindexed (t # T) S1"
      by (cases brief) (auto intro: unindexed_more)
    moreover from undo_create_table [OF Cons.prems(1) step [unfolded CreateTable] same] obtain R
      where "migrate (DropTable t) R1 = Some R" and "unindexed T R = unindexed T S" by blast
    ultimately show ?thesis using CreateTable by (auto simp: run_ops_append simp del: migrate.simps)
  next
    case (AddColumn t c)
    from IH [of T] Cons.prems(2) obtain R1
      where "run_ops (undo brief T ms) S' = Some R1" and "unindexed T R1 = unindexed T S1" by auto
    moreover from undo_add_column [OF Cons.prems(1) step [unfolded AddColumn] this(2)] obtain R
      where "migrate (DropColumn t (c_name c)) R1 = Some R" and "unindexed T R = unindexed T S" by blast
    ultimately show ?thesis using AddColumn by (auto simp: run_ops_append simp del: migrate.simps)
  next
    case (CreateIndex n t cs u)
    from IH [of T] Cons.prems(2) obtain R1
      where r: "run_ops (undo brief T ms) S' = Some R1" and "unindexed T R1 = unindexed T S1" by auto
    from undo_create_index [OF step [unfolded CreateIndex] this(2)] obtain R
      where "run_ops (if t \<in> set T then [] else [DropIndex n t]) R1 = Some R" and "unindexed T R = unindexed T S" by blast
    with r show ?thesis unfolding CreateIndex undo.simps run_ops_append by auto
  qed (use add in simp_all)
qed

lemma unindexed_none [simp]: "unindexed [] S = S"
  by (auto simp: unindexed_def intro: map_idI)

lemma undo_undoes:
  "schema_ok S \<Longrightarrow> list_all addition ms \<Longrightarrow> run_ops ms S = Some S' \<Longrightarrow> run_ops (undo brief [] ms) S' = Some S"
  using undo_runs [of S ms S' brief "[]"] by simp

lemma schema_ok_run: "schema_ok S \<Longrightarrow> list_all addition ms \<Longrightarrow> run_ops ms S = Some S' \<Longrightarrow> schema_ok S'"
  by (induction ms arbitrary: S) (auto split: option.splits simp del: migrate.simps intro: schema_ok_step)

end
