(* ===== verification/Migration_Scripts.thy ===== *)
theory Migration_Scripts
  imports Migrations
begin

text \<open>
  The ten scripts under \<^verbatim>\<open>alembic/versions\<close>, one list of operations for each \<^verbatim>\<open>upgrade\<close> and \<^verbatim>\<open>downgrade\<close>, the table of
  websites as \<^verbatim>\<open>models.py\<close> declares it, and what a start and the migrations do to a database.
\<close>

section \<open>Scripts\<close>

record migration =
  mg_revision :: string
  mg_down :: "string option"
  mg_upgrade :: "migration_op list"
  mg_downgrade :: "migration_op list"

text \<open>\<^verbatim>\<open>001_create_jobs_table.py\<close>\<close>

definition upgrade_001 :: "migration_op list" where
  "upgrade_001 =
    [CreateTable ''jobs''
      [Col (SaColumn ''id'' SaInteger None None False False),
       Col (SaColumn ''user_id'' SaInteger None None False False),
       Col (SaColumn ''website_id'' SaInteger None None True False),
       Col (SaColumn ''job_type'' SaString None None False False),
       Col (SaColumn ''status'' SaString None (Some (Quoted ''pending'')) False False),
       Col (SaColumn ''progress'' SaInteger None (Some (Quoted ''0'')) False False),
       Col (SaColumn ''created_at'' SaDateTime None None True False),
       Col (SaColumn ''started_at'' SaDateTime None None True False),
       Col (SaColumn ''finished_at'' SaDateTime None None True False),
       Col (SaColumn ''updated_at'' SaDateTime None None True False),
       Col (SaColumn ''error_message'' SaText None None True False),
       Col (SaColumn ''result_reference'' SaJSON None None True False),
       ForeignKeyConstraint [''user_id''] [(''users'', ''id'')] ''CASCADE'',
       ForeignKeyConstraint [''website_id''] [(''websites'', ''id'')] ''CASCADE'',
       PrimaryKeyConstraint [''id'']],
     CreateIndex ''ix_jobs_id'' ''jobs'' [''id''] False,
     CreateIndex ''ix_jobs_user_id'' ''jobs'' [''user_id''] False,
     CreateIndex ''ix_jobs_website_id'' ''jobs'' [''website_id''] False,
     CreateIndex ''ix_jobs_job_type'' ''jobs'' [''job_type''] False,
     CreateIndex ''ix_jobs_status'' ''jobs'' [''status''] False]"

definition downgrade_001 :: "migration_op list" where
  "downgrade_001 =
    [DropIndex ''ix_jobs_status'' ''jobs'',
     DropIndex ''ix_jobs_job_type'' ''jobs'',
     DropIndex ''ix_jobs_website_id'' ''jobs'',
     DropIndex ''ix_jobs_user_id'' ''jobs'',
     DropIndex ''ix_jobs_id'' ''jobs'',
     DropTable ''jobs'']"

definition migration_001 :: migration where
  "migration_001 = \<lparr>mg_revision = ''001_create_jobs_table'', mg_down = None, mg_upgrade = upgrade_001, mg_downgrade = downgrade_001\<rparr>"

text \<open>\<^verbatim>\<open>002_add_composite_indexes.py\<close>\<close>

definition upgrade_002 :: "migration_op list" where
  "upgrade_002 =
    [CreateIndex ''ix_websites_user_domain'' ''websites'' [''user_id'', ''domain''] False,
     CreateIndex ''ix_audit_results_user_website'' ''audit_results'' [''user_id'', ''website_id''] False,
     CreateIndex ''ix_leads_user_website'' ''leads'' [''user_id'', ''website_id''] False,
     CreateIndex ''ix_reports_user_website'' ''reports'' [''user_id'', ''website_id''] False,
     CreateIndex ''ix_keyword_results_user_seed'' ''keyword_results'' [''user_id'', ''seed_keyword''] False,
     CreateIndex ''ix_rank_checks_user_domain'' ''rank_checks'' [''user_id'', ''domain''] False,
     CreateIndex ''ix_rank_checks_user_website'' ''rank_checks'' [''user_id'', ''website_id''] False,
     CreateIndex ''ix_jobs_user_status'' ''jobs'' [''user_id'', ''status''] False,
     CreateIndex ''ix_jobs_user_type'' ''jobs'' [''user_id'', ''job_type''] False,
     CreateIndex ''ix_jobs_user_created'' ''jobs'' [''user_id'', ''created_at''] False]"

definition downgrade_002 :: "migration_op list" where
  "downgrade_002 =
    [DropIndex ''ix_jobs_user_created'' ''jobs'',
     DropIndex ''ix_jobs_user_type'' ''jobs'',
     DropIndex ''ix_jobs_user_status'' ''jobs'',
     DropIndex ''ix_rank_checks_user_website'' ''rank_checks'',
     DropIndex ''ix_rank_checks_user_domain'' ''rank_checks'',
     DropIndex ''ix_keyword_results_user_seed'' ''keyword_results'',
     DropIndex ''ix_reports_user_website'' ''reports'',
     DropIndex ''ix_leads_user_website'' ''leads'',
     DropIndex ''ix_audit_results_user_website'' ''audit_results'',
     DropIndex ''ix_websites_user_domain'' ''websites'']"

definition migration_002 :: migration where
  "migration_002 = \<lparr>mg_revision = ''002_add_composite_indexes'', mg_down = Some ''001_create_jobs_table'', mg_upgrade = upgrade_002, mg_downgrade = downgrade_002\<rparr>"

text \<open>\<^verbatim>\<open>003_perf_indexes.py\<close>\<close>

definition upgrade_003 :: "migration_op list" where
  "upgrade_003 =
    [CreateIndex ''ix_websites_user_created'' ''websites'' [''user_id'', ''created_at''] False,
     CreateIndex ''ix_audit_results_website_user_created'' ''audit_results'' [''website_id'', ''user_id'', ''created_at''] False,
     CreateIndex ''ix_audit_results_website_user_score'' ''audit_results'' [''website_id'', ''user_id'', ''score''] False,
     CreateIndex ''ix_leads_website_user_source'' ''leads'' [''website_id'', ''user_id'', ''source''] False,
     CreateIndex ''ix_leads_website_user_created'' ''leads'' [''website_id'', ''user_id'', ''created_at''] False,
     CreateIndex ''ix_reports_website_user_format'' ''reports'' [''website_id'', ''user_id'', ''format''] False,
     CreateIndex ''ix_reports_website_user_created'' ''reports'' [''website_id'', ''user_id'', ''created_at''] False,
     CreateIndex ''ix_jobs_status_updated'' ''jobs'' [''status'', ''updated_at''] False,
     CreateIndex ''ix_jobs_user_updated'' ''jobs'' [''user_id'', ''updated_at''] False,
     CreateIndex ''ix_jobs_user_website'' ''jobs'' [''user_id'', ''website_id''] False]"

definition downgrade_003 :: "migration_op list" where
  "downgrade_003 =
    [DropIndex ''ix_jobs_user_website'' ''jobs'',
     DropIndex ''ix_jobs_user_updated'' ''jobs'',
     DropIndex ''ix_jobs_status_updated'' ''jobs'',
     DropIndex ''ix_reports_website_user_created'' ''reports'',
     DropIndex ''ix_reports_website_user_format'' ''reports'',
     DropIndex ''ix_leads_website_user_created'' ''leads'',
     DropIndex ''ix_leads_website_user_source'' ''leads'',
     DropIndex ''ix_audit_results_website_user_score'' ''audit_results'',
     DropIndex ''ix_audit_results_website_user_created'' ''audit_results'',
     DropIndex ''ix_websites_user_created'' ''websites'']"

definition migration_003 :: migration where
  "migration_003 = \<lparr>mg_revision = ''003_perf_indexes'', mg_down = Some ''002_add_composite_indexes'', mg_upgrade = upgrade_003, mg_downgrade = downgrade_003\<rparr>"

text \<open>\<^verbatim>\<open>004_saas_auth_tables.py\<close>\<close>

definition upgrade_004 :: "migration_op list" where
  "upgrade_004 =
    [AddColumn ''users'' (SaColumn ''is_verified'' SaBoolean None (Some (Quoted ''0'')) False False),
     AddColumn ''users'' (SaColumn ''avatar_url'' SaString None None True False),
     AddColumn ''users'' (SaColumn ''timezone'' SaString None (Some (Quoted ''UTC'')) False False),
     AddColumn ''users'' (SaColumn ''language'' SaString None (Some (Quoted ''en'')) False False),
     AddColumn ''users'' (SaColumn ''notification_settings'' SaJSON None None True False),
     CreateTable ''user_sessions''
      [Col (SaColumn ''id'' SaInteger None None False False),
       Col (SaColumn ''user_id'' SaInteger (Some (ForeignKey ''users'' ''id'' ''CASCADE'')) None False False),
       Col (SaColumn ''session_token'' SaString None None False False),
       Col (SaColumn ''refresh_token'' SaString None None False False),
       Col (SaColumn ''ip_address'' SaString None None True False),
       Col (SaColumn ''user_agent'' SaString None None True False),
       Col (SaColumn ''is_active'' SaBoolean None (Some (Quoted ''1'')) False False),
       Col (SaColumn ''remember_me'' SaBoolean None (Some (Quoted ''0'')) False False),
       Col (SaColumn ''expires_at'' SaDateTime None None False False),
       Col (SaColumn ''created_at'' SaDateTime None (Some (SqlText ''CURRENT_TIMESTAMP'')) True False),
       Col (SaColumn ''updated_at'' SaDateTime None (Some (SqlText ''CURRENT_TIMESTAMP'')) True False),
       PrimaryKeyConstraint [''id'']],
     CreateIndex ''ix_user_sessions_id'' ''user_sessions'' [''id''] False,
     CreateIndex ''ix_user_sessions_user_id'' ''user_sessions'' [''user_id''] False,
     CreateIndex ''ix_user_sessions_session_token'' ''user_sessions'' [''session_token''] True,
     CreateIndex ''ix_user_sessions_refresh_token'' ''user_sessions'' [''refresh_token''] True,
     CreateIndex ''ix_user_sessions_user_active'' ''user_sessions'' [''user_id'', ''is_active''] False,
     CreateTable ''password_reset_tokens''
      [Col (SaColumn ''id'' SaInteger None None False False),
       Col (SaColumn ''user_id'' SaInteger (Some (ForeignKey ''users'' ''id'' ''CASCADE'')) None False False),
       Col (SaColumn ''token'' SaString None None False False),
       Col (SaColumn ''is_used'' SaBoolean None (Some (Quoted ''0'')) False False),
       Col (SaColumn ''expires_at'' SaDateTime None None False False),
       Col (SaColumn ''created_at'' SaDateTime None (Some (SqlText ''CURRENT_TIMESTAMP'')) True False),
       PrimaryKeyConstraint [''id'']],
     CreateIndex ''ix_password_reset_tokens_id'' ''password_reset_tokens'' [''id''] False,
     CreateIndex ''ix_password_reset_tokens_user_id'' ''password_reset_tokens'' [''user_id''] False,
     CreateIndex ''ix_password_reset_tokens_token'' ''password_reset_tokens'' [''token''] True,
     CreateTable ''email_verification_tokens''
      [Col (SaColumn ''id'' SaInteger None None False False),
       Col (SaColumn ''user_id'' SaInteger (Some (ForeignKey ''users'' ''id'' ''CASCADE'')) None False False),
       Col (SaColumn ''token'' SaString None None False False),
       Col (SaColumn ''is_used'' SaBoolean None (Some (Quoted ''0'')) False False),
       Col (SaColumn ''expires_at'' SaDateTime None None False False),
       Col (SaColumn ''created_at'' SaDateTime None (Some (SqlText ''CURRENT_TIMESTAMP'')) True False),
       PrimaryKeyConstraint [''id'']],
     CreateIndex ''ix_email_verification_tokens_id'' ''email_verification_tokens'' [''id''] False,
     CreateIndex ''ix_email_verification_tokens_user_id'' ''email_verification_tokens'' [''user_id''] False,
     CreateIndex ''ix_email_verification_tokens_token'' ''email_verification_tokens'' [''token''] True]"

definition downgrade_004 :: "migration_op list" where
  "downgrade_004 =
    [DropTable ''email_verification_tokens'',
     DropTable ''password_reset_tokens'',
     DropTable ''user_sessions'',
     DropColumn ''users'' ''notification_settings'',
     DropColumn ''users'' ''language'',
     DropColumn ''users'' ''timezone'',
     DropColumn ''users'' ''avatar_url'',
     DropColumn ''users'' ''is_verified'']"

definition migration_004 :: migration where
  "migration_004 = \<lparr>mg_revision = ''004_saas_auth_tables'', mg_down = Some ''003_perf_indexes'', mg_upgrade = upgrade_004, mg_downgrade = downgrade_004\<rparr>"

text \<open>\<^verbatim>\<open>005_organizations_and_teams.py\<close>\<close>

definition upgrade_005 :: "migration_op list" where
  "upgrade_005 =
    [CreateTable ''organizations''
      [Col (SaColumn ''id'' SaInteger None None False False),
       Col (SaColumn ''name'' SaString None None False False),
       Col (SaColumn ''slug'' SaString None None False False),
       Col (SaColumn ''logo_url'' SaString None None True False),
       Col (SaColumn ''primary_color'' SaString None None True False),
       Col (SaColumn ''settings'' SaJSON None None True False),
       Col (SaColumn ''created_at'' SaDateTime None (Some (SqlText ''CURRENT_TIMESTAMP'')) True False),
       Col (SaColumn ''updated_at'' SaDateTime None (Some (SqlText ''CURRENT_TIMESTAMP'')) True False),
       PrimaryKeyConstraint [''id'']],
     CreateIndex ''ix_organizations_id'' ''organizations'' [''id''] False,
     CreateIndex ''ix_organizations_slug'' ''organizations'' [''slug''] True,
     CreateTable ''memberships''
      [Col (SaColumn ''id'' SaInteger None None False False),
       Col (SaColumn ''organization_id'' SaInteger (Some (ForeignKey ''organizations'' ''id'' ''CASCADE'')) None False False),
       Col (SaColumn ''user_id'' SaInteger (Some (ForeignKey ''users'' ''id'' ''CASCADE'')) None False False),
       Col (SaColumn ''role'' SaString None (Some (Quoted ''Member'')) False False),
       Col (SaColumn ''created_at'' SaDateTime None (Some (SqlText ''CURRENT_TIMESTAMP'')) True False),
       Col (SaColumn ''updated_at'' SaDateTime None (Some (SqlText ''CURRENT_TIMESTAMP'')) True False),
       PrimaryKeyConstraint [''id'']],
     CreateIndex ''ix_memberships_id'' ''memberships'' [''id''] False,
     CreateIndex ''ix_memberships_organization_id'' ''memberships'' [''organization_id''] False,
     CreateIndex ''ix_memberships_user_id'' ''memberships'' [''user_id''] False,
     CreateIndex ''ix_memberships_org_user'' ''memberships'' [''organization_id'', ''user_id''] True,
     CreateTable ''invitations''
      [Col (SaColumn ''id'' SaInteger None None False False),
       Col (SaColumn ''organization_id'' SaInteger (Some (ForeignKey ''organizations'' ''id'' ''CASCADE'')) None False False),
       Col (SaColumn ''email'' SaString None None False False),
       Col (SaColumn ''role'' SaString None (Some (Quoted ''Member'')) False False),
       Col (SaColumn ''token'' SaString None None False False),
       Col (SaColumn ''status'' SaString None (Some (Quoted ''pending'')) False False),
       Col (SaColumn ''invited_by_id'' SaInteger (Some (ForeignKey ''users'' ''id'' ''SET NULL'')) None True False),
       Col (SaColumn ''expires_at'' SaDateTime None None False False),
       Col (SaColumn ''created_at'' SaDateTime None (Some (SqlText ''CURRENT_TIMESTAMP'')) True False),
       PrimaryKeyConstraint [''id'']],
     CreateIndex ''ix_invitations_id'' ''invitations'' [''id''] False,
     CreateIndex ''ix_invitations_organization_id'' ''invitations'' [''organization_id''] False,
     CreateIndex ''ix_invitations_email'' ''invitations'' [''email''] False,
     CreateIndex ''ix_invitations_token'' ''invitations'' [''token''] True,
     CreateTable ''organization_audit_events''
      [Col (SaColumn ''id'' SaInteger None None False False),
       Col (SaColumn ''organization_id'' SaInteger (Some (ForeignKey ''organizations'' ''id'' ''CASCADE'')) None False False),
       Col (SaColumn ''actor_id'' SaInteger (Some (ForeignKey ''users'' ''id'' ''SET NULL'')) None True False),
       Col (SaColumn ''action'' SaString None None False False),
       Col (SaColumn ''details'' SaJSON None None True False),
       Col (SaColumn ''ip_address'' SaString None None True False),
       Col (SaColumn ''created_at'' SaDateTime None (Some (SqlText ''CURRENT_TIMESTAMP'')) True False),
       PrimaryKeyConstraint [''id'']],
     CreateIndex ''ix_org_audit_id'' ''organization_audit_events'' [''id''] False,
     CreateIndex ''ix_org_audit_organization_id'' ''organization_audit_events'' [''organization_id''] False]"

definition downgrade_005 :: "migration_op list" where
  "downgrade_005 =
    [DropTable ''organization_audit_events'',
     DropTable ''invitations'',
     DropTable ''memberships'',
     DropTable ''organizations'']"

definition migration_005 :: migration where
  "migration_005 = \<lparr>mg_revision = ''005_organizations_and_teams'', mg_down = Some ''004_saas_auth_tables'', mg_upgrade = upgrade_005, mg_downgrade = downgrade_005\<rparr>"

text \<open>\<^verbatim>\<open>006_audit_logs.py\<close>\<close>

definition upgrade_006 :: "migration_op list" where
  "upgrade_006 =
    [CreateTable ''audit_logs''
      [Col (SaColumn ''id'' SaInteger None None False False),
       Col (SaColumn ''user_id'' SaInteger (Some (ForeignKey ''users'' ''id'' ''SET NULL'')) None True False),
       Col (SaColumn ''organization_id'' SaInteger (Some (ForeignKey ''organizations'' ''id'' ''CASCADE'')) None True False),
       Col (SaColumn ''action'' SaString None None False False),
       Col (SaColumn ''target_resource'' SaString None None True False),
       Col (SaColumn ''ip_address'' SaString None None True False),
       Col (SaColumn ''user_agent'' SaString None None True False),
       Col (SaColumn ''details'' SaJSON None None True False),
       Col (SaColumn ''created_at'' SaDateTime None (Some (SqlText ''CURRENT_TIMESTAMP'')) True False),
       PrimaryKeyConstraint [''id'']],
     CreateIndex ''ix_audit_logs_id'' ''audit_logs'' [''id''] False,
     CreateIndex ''ix_audit_logs_user_id'' ''audit_logs'' [''user_id''] False,
     CreateIndex ''ix_audit_logs_organization_id'' ''audit_logs'' [''organization_id''] False,
     CreateIndex ''ix_audit_logs_action'' ''audit_logs'' [''action''] False,
     CreateIndex ''ix_audit_logs_target_resource'' ''audit_logs'' [''target_resource''] False,
     CreateIndex ''ix_audit_logs_created_at'' ''audit_logs'' [''created_at''] False]"

definition downgrade_006 :: "migration_op list" where
  "downgrade_006 =
    [DropTable ''audit_logs'']"

definition migration_006 :: migration where
  "migration_006 = \<lparr>mg_revision = ''006_audit_logs'', mg_down = Some ''005_organizations_and_teams'', mg_upgrade = upgrade_006, mg_downgrade = downgrade_006\<rparr>"

text \<open>\<^verbatim>\<open>007_auth_security_hardening.py\<close>\<close>

definition upgrade_007 :: "migration_op list" where
  "upgrade_007 =
    [AddColumn ''users'' (SaColumn ''failed_login_attempts'' SaInteger None (Some (Quoted ''0'')) False False),
     AddColumn ''users'' (SaColumn ''locked_until'' SaDateTime None None True False),
     AddColumn ''users'' (SaColumn ''last_login_at'' SaDateTime None None True False),
     AddColumn ''users'' (SaColumn ''last_login_ip'' SaString None None True False),
     AddColumn ''user_sessions'' (SaColumn ''device_name'' SaString None None True False),
     AddColumn ''user_sessions'' (SaColumn ''device_type'' SaString None None True False),
     AddColumn ''user_sessions'' (SaColumn ''last_active_at'' SaDateTime None (Some (SqlText ''CURRENT_TIMESTAMP'')) True False),
     AddColumn ''user_sessions'' (SaColumn ''last_ip'' SaString None None True False),
     CreateTable ''password_history''
      [Col (SaColumn ''id'' SaInteger None None False False),
       Col (SaColumn ''user_id'' SaInteger (Some (ForeignKey ''users'' ''id'' ''CASCADE'')) None False False),
       Col (SaColumn ''hashed_password'' SaString None None False False),
       Col (SaColumn ''created_at'' SaDateTime None (Some (SqlText ''CURRENT_TIMESTAMP'')) True False),
       PrimaryKeyConstraint [''id'']],
     CreateIndex ''ix_password_history_id'' ''password_history'' [''id''] False,
     CreateIndex ''ix_password_history_user_id'' ''password_history'' [''user_id''] False,
     CreateIndex ''ix_password_history_user_created'' ''password_history'' [''user_id'', ''created_at''] False,
     CreateTable ''used_refresh_tokens''
      [Col (SaColumn ''id'' SaInteger None None False False),
       Col (SaColumn ''user_id'' SaInteger (Some (ForeignKey ''users'' ''id'' ''CASCADE'')) None False False),
       Col (SaColumn ''session_id'' SaInteger None None True False),
       Col (SaColumn ''token_hash'' SaString None None False False),
       Col (SaColumn ''revoked_at'' SaDateTime None (Some (SqlText ''CURRENT_TIMESTAMP'')) True False),
       Col (SaColumn ''created_at'' SaDateTime None (Some (SqlText ''CURRENT_TIMESTAMP'')) True False),
       PrimaryKeyConstraint [''id'']],
     CreateIndex ''ix_used_refresh_tokens_id'' ''used_refresh_tokens'' [''id''] False,
     CreateIndex ''ix_used_refresh_tokens_user_id'' ''used_refresh_tokens'' [''user_id''] False,
     CreateIndex ''ix_used_refresh_tokens_token_hash'' ''used_refresh_tokens'' [''token_hash''] True,
     CreateTable ''security_events''
      [Col (SaColumn ''id'' SaInteger None None False False),
       Col (SaColumn ''user_id'' SaInteger (Some (ForeignKey ''users'' ''id'' ''SET NULL'')) None True False),
       Col (SaColumn ''event_type'' SaString None None False False),
       Col (SaColumn ''status'' SaString None (Some (Quoted ''info'')) False False),
       Col (SaColumn ''ip_address'' SaString None None True False),
       Col (SaColumn ''user_agent'' SaString None None True False),
       Col (SaColumn ''device_info'' SaString None None True False),
       Col (SaColumn ''details'' SaJSON None None True False),
       Col (SaColumn ''created_at'' SaDateTime None (Some (SqlText ''CURRENT_TIMESTAMP'')) True False),
       PrimaryKeyConstraint [''id'']],
     CreateIndex ''ix_security_events_id'' ''security_events'' [''id''] False,
     CreateIndex ''ix_security_events_user_id'' ''security_events'' [''user_id''] False,
     CreateIndex ''ix_security_events_event_type'' ''security_events'' [''event_type''] False,
     CreateIndex ''ix_security_events_ip_address'' ''security_events'' [''ip_address''] False,
     CreateIndex ''ix_security_events_created_at'' ''security_events'' [''created_at''] False]"

definition downgrade_007 :: "migration_op list" where
  "downgrade_007 =
    [DropTable ''security_events'',
     DropTable ''used_refresh_tokens'',
     DropTable ''password_history'',
     DropColumn ''user_sessions'' ''last_ip'',
     DropColumn ''user_sessions'' ''last_active_at'',
     DropColumn ''user_sessions'' ''device_type'',
     DropColumn ''user_sessions'' ''device_name'',
     DropColumn ''users'' ''last_login_ip'',
     DropColumn ''users'' ''last_login_at'',
     DropColumn ''users'' ''locked_until'',
     DropColumn ''users'' ''failed_login_attempts'']"

definition migration_007 :: migration where
  "migration_007 = \<lparr>mg_revision = ''007_auth_security_hardening'', mg_down = Some ''006_audit_logs'', mg_upgrade = upgrade_007, mg_downgrade = downgrade_007\<rparr>"

text \<open>\<^verbatim>\<open>008_projects_table.py\<close>\<close>

definition upgrade_008 :: "migration_op list" where
  "upgrade_008 =
    [CreateTable ''projects''
      [Col (SaColumn ''id'' SaInteger None None False False),
       Col (SaColumn ''organization_id'' SaInteger (Some (ForeignKey ''organizations'' ''id'' ''CASCADE'')) None False False),
       Col (SaColumn ''owner_id'' SaInteger (Some (ForeignKey ''users'' ''id'' ''CASCADE'')) None False False),
       Col (SaColumn ''name'' SaString None None False False),
       Col (SaColumn ''slug'' SaString None None False False),
       Col (SaColumn ''description'' SaText None None True False),
       Col (SaColumn ''status'' SaString None (Some (Quoted ''active'')) False False),
       Col (SaColumn ''color'' SaString None None True False),
       Col (SaColumn ''icon'' SaString None None True False),
       Col (SaColumn ''timezone'' SaString None (Some (Quoted ''UTC'')) False False),
       Col (SaColumn ''language'' SaString None (Some (Quoted ''en'')) False False),
       Col (SaColumn ''settings'' SaJSON None (Some (Quoted ''{}'')) False False),
       Col (SaColumn ''archived'' SaBoolean None (Some (SqlText ''false'')) False False),
       Col (SaColumn ''created_at'' SaDateTime None (Some (SqlText ''CURRENT_TIMESTAMP'')) True False),
       Col (SaColumn ''updated_at'' SaDateTime None (Some (SqlText ''CURRENT_TIMESTAMP'')) True False),
       PrimaryKeyConstraint [''id'']],
     CreateIndex ''ix_projects_id'' ''projects'' [''id''] False,
     CreateIndex ''ix_projects_organization_id'' ''projects'' [''organization_id''] False,
     CreateIndex ''ix_projects_owner_id'' ''projects'' [''owner_id''] False,
     CreateIndex ''ix_projects_slug'' ''projects'' [''slug''] False,
     CreateIndex ''ix_projects_org_slug'' ''projects'' [''organization_id'', ''slug''] True,
     CreateIndex ''ix_projects_org_archived'' ''projects'' [''organization_id'', ''archived''] False,
     CreateIndex ''ix_projects_org_status'' ''projects'' [''organization_id'', ''status''] False]"

definition downgrade_008 :: "migration_op list" where
  "downgrade_008 =
    [DropIndex ''ix_projects_org_status'' ''projects'',
     DropIndex ''ix_projects_org_archived'' ''projects'',
     DropIndex ''ix_projects_org_slug'' ''projects'',
     DropIndex ''ix_projects_slug'' ''projects'',
     DropIndex ''ix_projects_owner_id'' ''projects'',
     DropIndex ''ix_projects_organization_id'' ''projects'',
     DropIndex ''ix_projects_id'' ''projects'',
     DropTable ''projects'']"

definition migration_008 :: migration where
  "migration_008 = \<lparr>mg_revision = ''008_projects_table'', mg_down = Some ''007_auth_security_hardening'', mg_upgrade = upgrade_008, mg_downgrade = downgrade_008\<rparr>"

text \<open>\<^verbatim>\<open>009_website_management.py\<close>\<close>

definition upgrade_009 :: "migration_op list" where
  "upgrade_009 =
    [AddColumn ''websites'' (SaColumn ''project_id'' SaInteger (Some (ForeignKey ''projects'' ''id'' ''CASCADE'')) None True False),
     AddColumn ''websites'' (SaColumn ''organization_id'' SaInteger (Some (ForeignKey ''organizations'' ''id'' ''CASCADE'')) None True False),
     AddColumn ''websites'' (SaColumn ''owner_id'' SaInteger (Some (ForeignKey ''users'' ''id'' ''CASCADE'')) None True False),
     AddColumn ''websites'' (SaColumn ''normalized_domain'' SaString None None True False),
     AddColumn ''websites'' (SaColumn ''protocol'' SaString None (Some (Quoted ''https'')) True False),
     AddColumn ''websites'' (SaColumn ''status'' SaString None (Some (Quoted ''active'')) True False),
     AddColumn ''websites'' (SaColumn ''verification_status'' SaString None (Some (Quoted ''unverified'')) True False),
     AddColumn ''websites'' (SaColumn ''favicon'' SaString None None True False),
     AddColumn ''websites'' (SaColumn ''country'' SaString None None True False),
     AddColumn ''websites'' (SaColumn ''language'' SaString None (Some (Quoted ''en'')) True False),
     AddColumn ''websites'' (SaColumn ''timezone'' SaString None (Some (Quoted ''UTC'')) True False),
     AddColumn ''websites'' (SaColumn ''settings'' SaJSON None (Some (Quoted ''{}'')) True False),
     AddColumn ''websites'' (SaColumn ''last_scan_at'' SaDateTime None None True False),
     AddColumn ''websites'' (SaColumn ''archived'' SaBoolean None (Some (SqlText ''false'')) True False),
     AddColumn ''websites'' (SaColumn ''updated_at'' SaDateTime None (Some (SqlText ''CURRENT_TIMESTAMP'')) True False),
     CreateIndex ''ix_websites_project_id'' ''websites'' [''project_id''] False,
     CreateIndex ''ix_websites_organization_id'' ''websites'' [''organization_id''] False,
     CreateIndex ''ix_websites_owner_id'' ''websites'' [''owner_id''] False,
     CreateIndex ''ix_websites_domain'' ''websites'' [''domain''] False,
     CreateIndex ''ix_websites_normalized_domain'' ''websites'' [''normalized_domain''] False,
     CreateIndex ''ix_websites_org_normalized_domain'' ''websites'' [''organization_id'', ''normalized_domain''] True,
     CreateIndex ''ix_websites_project_archived'' ''websites'' [''project_id'', ''archived''] False,
     CreateIndex ''ix_websites_org_archived'' ''websites'' [''organization_id'', ''archived''] False]"

definition downgrade_009 :: "migration_op list" where
  "downgrade_009 =
    [DropIndex ''ix_websites_org_archived'' ''websites'',
     DropIndex ''ix_websites_project_archived'' ''websites'',
     DropIndex ''ix_websites_org_normalized_domain'' ''websites'',
     DropIndex ''ix_websites_normalized_domain'' ''websites'',
     DropIndex ''ix_websites_domain'' ''websites'',
     DropIndex ''ix_websites_owner_id'' ''websites'',
     DropIndex ''ix_websites_organization_id'' ''websites'',
     DropIndex ''ix_websites_project_id'' ''websites'',
     DropColumn ''websites'' ''updated_at'',
     DropColumn ''websites'' ''archived'',
     DropColumn ''websites'' ''last_scan_at'',
     DropColumn ''websites'' ''settings'',
     DropColumn ''websites'' ''timezone'',
     DropColumn ''websites'' ''language'',
     DropColumn ''websites'' ''country'',
     DropColumn ''websites'' ''favicon'',
     DropColumn ''websites'' ''verification_status'',
     DropColumn ''websites'' ''status'',
     DropColumn ''websites'' ''protocol'',
     DropColumn ''websites'' ''normalized_domain'',
     DropColumn ''websites'' ''owner_id'',
     DropColumn ''websites'' ''organization_id'',
     DropColumn ''websites'' ''project_id'']"

definition migration_009 :: migration where
  "migration_009 = \<lparr>mg_revision = ''009_website_management'', mg_down = Some ''008_projects_table'', mg_upgrade = upgrade_009, mg_downgrade = downgrade_009\<rparr>"

text \<open>\<^verbatim>\<open>010_crawl_jobs.py\<close>\<close>

definition upgrade_010 :: "migration_op list" where
  "upgrade_010 =
    [CreateTable ''crawl_jobs''
      [Col (SaColumn ''id'' SaInteger None None False True),
       Col (SaColumn ''website_id'' SaInteger (Some (ForeignKey ''websites'' ''id'' ''CASCADE'')) None False False),
       Col (SaColumn ''status'' SaString None (Some (Quoted ''queued'')) False False),
       Col (SaColumn ''progress'' SaInteger None (Some (Quoted ''0'')) False False),
       Col (SaColumn ''started_at'' SaDateTime None None True False),
       Col (SaColumn ''finished_at'' SaDateTime None None True False),
       Col (SaColumn ''pages_found'' SaInteger None (Some (Quoted ''0'')) False False),
       Col (SaColumn ''issues_found'' SaInteger None (Some (Quoted ''0'')) False False),
       Col (SaColumn ''duration_seconds'' SaInteger None None True False),
       Col (SaColumn ''triggered_by'' SaString None (Some (Quoted ''manual'')) False False),
       Col (SaColumn ''crawler_version'' SaString None (Some (Quoted ''1.0.0'')) True False),
       Col (SaColumn ''error_message'' SaText None None True False),
       Col (SaColumn ''created_at'' SaDateTime None (Some (SqlText ''CURRENT_TIMESTAMP'')) False False),
       Col (SaColumn ''updated_at'' SaDateTime None (Some (SqlText ''CURRENT_TIMESTAMP'')) False False)],
     CreateIndex ''ix_crawl_jobs_id'' ''crawl_jobs'' [''id''] False,
     CreateIndex ''ix_crawl_jobs_website_id'' ''crawl_jobs'' [''website_id''] False,
     CreateIndex ''ix_crawl_jobs_status'' ''crawl_jobs'' [''status''] False,
     CreateIndex ''ix_crawl_jobs_website_status'' ''crawl_jobs'' [''website_id'', ''status''] False,
     CreateTable ''crawl_pages''
      [Col (SaColumn ''id'' SaInteger None None False True),
       Col (SaColumn ''crawl_job_id'' SaInteger (Some (ForeignKey ''crawl_jobs'' ''id'' ''CASCADE'')) None False False),
       Col (SaColumn ''url'' SaString None None False False),
       Col (SaColumn ''depth'' SaInteger None (Some (Quoted ''0'')) False False),
       Col (SaColumn ''status_code'' SaInteger None None True False),
       Col (SaColumn ''content_type'' SaString None None True False),
       Col (SaColumn ''title'' SaString None None True False),
       Col (SaColumn ''meta_description'' SaText None None True False),
       Col (SaColumn ''canonical'' SaString None None True False),
       Col (SaColumn ''h1'' SaString None None True False),
       Col (SaColumn ''word_count'' SaInteger None (Some (Quoted ''0'')) False False),
       Col (SaColumn ''internal_links'' SaInteger None (Some (Quoted ''0'')) False False),
       Col (SaColumn ''external_links'' SaInteger None (Some (Quoted ''0'')) False False),
       Col (SaColumn ''noindex'' SaBoolean None (Some (SqlText ''false'')) False False),
       Col (SaColumn ''nofollow'' SaBoolean None (Some (SqlText ''false'')) False False),
       Col (SaColumn ''redirect_target'' SaString None None True False),
       Col (SaColumn ''response_time'' SaInteger None None True False),
       Col (SaColumn ''created_at'' SaDateTime None (Some (SqlText ''CURRENT_TIMESTAMP'')) False False)],
     CreateIndex ''ix_crawl_pages_id'' ''crawl_pages'' [''id''] False,
     CreateIndex ''ix_crawl_pages_crawl_job_id'' ''crawl_pages'' [''crawl_job_id''] False,
     CreateIndex ''ix_crawl_pages_url'' ''crawl_pages'' [''url''] False,
     CreateTable ''crawl_issues''
      [Col (SaColumn ''id'' SaInteger None None False True),
       Col (SaColumn ''crawl_job_id'' SaInteger (Some (ForeignKey ''crawl_jobs'' ''id'' ''CASCADE'')) None False False),
       Col (SaColumn ''page_id'' SaInteger (Some (ForeignKey ''crawl_pages'' ''id'' ''CASCADE'')) None True False),
       Col (SaColumn ''severity'' SaString None None False False),
       Col (SaColumn ''category'' SaString None None False False),
       Col (SaColumn ''message'' SaText None None False False),
       Col (SaColumn ''recommendation'' SaText None None True False),
       Col (SaColumn ''created_at'' SaDateTime None (Some (SqlText ''CURRENT_TIMESTAMP'')) False False)],
     CreateIndex ''ix_crawl_issues_id'' ''crawl_issues'' [''id''] False,
     CreateIndex ''ix_crawl_issues_crawl_job_id'' ''crawl_issues'' [''crawl_job_id''] False,
     CreateIndex ''ix_crawl_issues_page_id'' ''crawl_issues'' [''page_id''] False,
     CreateIndex ''ix_crawl_issues_severity'' ''crawl_issues'' [''severity''] False]"

definition downgrade_010 :: "migration_op list" where
  "downgrade_010 =
    [DropTable ''crawl_issues'',
     DropTable ''crawl_pages'',
     DropTable ''crawl_jobs'']"

definition migration_010 :: migration where
  "migration_010 = \<lparr>mg_revision = ''010_crawl_jobs'', mg_down = Some ''009_website_management'', mg_upgrade = upgrade_010, mg_downgrade = downgrade_010\<rparr>"

definition migrations :: "migration list" where
  "migrations =
    [migration_001, migration_002, migration_003, migration_004, migration_005,
     migration_006, migration_007, migration_008, migration_009, migration_010]"

text \<open>\<^verbatim>\<open>alembic upgrade\<close> through a number of revisions, and \<^verbatim>\<open>alembic downgrade\<close> from there to the beginning.\<close>

definition upgrade_to :: "nat \<Rightarrow> schema \<Rightarrow> schema option" where
  "upgrade_to n S = run_ops (concat (map mg_upgrade (take n migrations))) S"

definition downgrade_from :: "nat \<Rightarrow> schema \<Rightarrow> schema option" where
  "downgrade_from n S = run_ops (concat (map mg_downgrade (rev (take n migrations)))) S"

lemmas script_defs =
  migration_001_def migration_002_def migration_003_def migration_004_def migration_005_def
  migration_006_def migration_007_def migration_008_def migration_009_def migration_010_def

lemma history_is_linear:
  "map mg_down migrations = None # map (Some \<circ> mg_revision) (butlast migrations) \<and> distinct (map mg_revision migrations)"
  by code_simp

lemma scripts_add: "list_all (\<lambda>m. list_all addition (mg_upgrade m)) migrations"
  by code_simp

lemma scripts_undo:
  "list_all (\<lambda>m. mg_downgrade m = undo True [] (mg_upgrade m) \<or> mg_downgrade m = undo False [] (mg_upgrade m)) migrations"
  by code_simp

section \<open>There and back\<close>

lemma downgrade_script:
  assumes "m \<in> set migrations" and "schema_ok S" and "run_ops (mg_upgrade m) S = Some S'"
  shows "run_ops (mg_downgrade m) S' = Some S" and "schema_ok S'"
  using assms(1) scripts_add scripts_undo undo_undoes [OF assms(2) _ assms(3)] schema_ok_run [OF assms(2) _ assms(3)]
  by (auto simp: list_all_iff)

lemma downgrade_scripts:
  assumes "set ms \<subseteq> set migrations" and "schema_ok S" and "run_ops (concat (map mg_upgrade ms)) S = Some S'"
  shows "run_ops (concat (map mg_downgrade (rev ms))) S' = Some S"
  using assms
proof (induction ms arbitrary: S)
  case Nil
  then show ?case by simp
next
  case (Cons m ms)
  from Cons.prems(3) obtain S1 where up: "run_ops (mg_upgrade m) S = Some S1"
    and rest: "run_ops (concat (map mg_upgrade ms)) S1 = Some S'" by (auto simp: run_ops_append split: option.splits)
  have m: "m \<in> set migrations" using Cons.prems(1) by simp
  from Cons.IH [OF _ downgrade_script(2) [OF m Cons.prems(2) up] rest] Cons.prems(1)
  show ?case using downgrade_script(1) [OF m Cons.prems(2) up] by (simp add: run_ops_append)
qed

text \<open>
  C13: whenever the migrations up to a revision run through, the downgrades from there bring back the schema they
  started from, table by table, with its columns, keys and indexes.
\<close>

theorem downgrades_undo_upgrades:
  assumes "schema_ok S" and "upgrade_to n S = Some S'"
  shows "downgrade_from n S' = Some S"
  using downgrade_scripts [OF set_take_subset assms(1)] assms(2) unfolding upgrade_to_def downgrade_from_def by blast

text \<open>The tables the first revision takes for granted, with the columns the scripts name.\<close>

definition plain_table :: "string list \<Rightarrow> (string \<times> string) list \<Rightarrow> table_def" where
  "plain_table cols refs =
     \<lparr>td_columns = map (\<lambda>c. SaColumn c SaString (map_option (\<lambda>t. ForeignKey t ''id'' ''CASCADE'') (map_of refs c)) None True False) cols,
      td_keys = [], td_primary = [''id''], td_indexes = []\<rparr>"

definition older_tables :: schema where
  "older_tables =
    [(''users'', plain_table [''id'', ''email''] []),
     (''websites'', plain_table [''id'', ''user_id'', ''domain'', ''created_at''] [(''user_id'', ''users'')]),
     (''audit_results'', plain_table [''id'', ''website_id'', ''user_id'', ''score'', ''created_at''] [(''website_id'', ''websites'')]),
     (''leads'', plain_table [''id'', ''website_id'', ''user_id'', ''source'', ''created_at''] [(''website_id'', ''websites'')]),
     (''reports'', plain_table [''id'', ''website_id'', ''user_id'', ''format'', ''created_at''] [(''website_id'', ''websites'')]),
     (''keyword_results'', plain_table [''id'', ''user_id'', ''seed_keyword''] [(''user_id'', ''users'')]),
     (''rank_checks'', plain_table [''id'', ''user_id'', ''website_id'', ''domain''] [(''website_id'', ''websites'')])]"

lemma older_tables_facts: "schema_ok older_tables \<and> upgrade_to 2 older_tables \<noteq> None"
  by code_simp

theorem downgrades_undo_upgrades_witness:
  "\<exists>S'. upgrade_to 2 older_tables = Some S' \<and> downgrade_from 2 S' = Some older_tables"
  using older_tables_facts downgrades_undo_upgrades [of older_tables 2] by (cases "upgrade_to 2 older_tables") auto

section \<open>Where they do not run\<close>

text \<open>
  the migrations do not run on an empty database, because the first one refers to the table of users, which no
  migration creates, nor on one in which the start of the application has created the tables.
\<close>

theorem migrations_need_older_tables:
  "upgrade_to 10 [] = None \<and> upgrade_to 10 (S @ (''jobs'', d) # S') = None"
proof
  show "upgrade_to 10 [] = None" by code_simp
  have "concat (map mg_upgrade (take 10 migrations)) = upgrade_001 @ concat (map mg_upgrade (take 9 (tl migrations)))"
    by (simp add: migrations_def migration_001_def)
  moreover have "run_ops upgrade_001 (S @ (''jobs'', d) # S') = None" by (simp add: upgrade_001_def)
  ultimately show "upgrade_to 10 (S @ (''jobs'', d) # S') = None" by (simp add: upgrade_to_def run_ops_append)
qed

text \<open>
  \<^verbatim>\<open>Base.metadata.create_all\<close> of one table: a table that is there is left alone; otherwise it is created with its
  indexes, those of \<^verbatim>\<open>__table_args__\<close> and one called \<^verbatim>\<open>ix_table_column\<close> for each column with \<^verbatim>\<open>index=True\<close>. The flag of a
  column says that it has one; defaults of Python are not part of the schema.
\<close>

record model_table =
  mt_name :: string
  mt_columns :: "(sa_column \<times> bool) list"
  mt_indexes :: "(string \<times> string list \<times> bool) list"

definition website_table :: model_table where
  "website_table =
     \<lparr>mt_name = ''websites'',
      mt_columns =
        [(SaColumn ''id'' SaInteger None None False True, True),
         (SaColumn ''project_id'' SaInteger (Some (ForeignKey ''projects'' ''id'' ''CASCADE'')) None True False, True),
         (SaColumn ''organization_id'' SaInteger (Some (ForeignKey ''organizations'' ''id'' ''CASCADE'')) None True False, True),
         (SaColumn ''owner_id'' SaInteger (Some (ForeignKey ''users'' ''id'' ''CASCADE'')) None True False, True),
         (SaColumn ''user_id'' SaInteger (Some (ForeignKey ''users'' ''id'' ''CASCADE'')) None True False, True),
         (SaColumn ''url'' SaString None None True False, False),
         (SaColumn ''domain'' SaString None None False False, True),
         (SaColumn ''normalized_domain'' SaString None None False False, True),
         (SaColumn ''protocol'' SaString None None False False, False),
         (SaColumn ''status'' SaString None None False False, False),
         (SaColumn ''verification_status'' SaString None None False False, False),
         (SaColumn ''favicon'' SaString None None True False, False),
         (SaColumn ''country'' SaString None None True False, False),
         (SaColumn ''language'' SaString None None False False, False),
         (SaColumn ''timezone'' SaString None None False False, False),
         (SaColumn ''settings'' SaJSON None None True False, False),
         (SaColumn ''company_name'' SaString None None True False, False),
         (SaColumn ''last_scan_at'' SaDateTime None None True False, False),
         (SaColumn ''archived'' SaBoolean None None False False, False),
         (SaColumn ''created_at'' SaDateTime None None True False, False),
         (SaColumn ''updated_at'' SaDateTime None None True False, False)],
      mt_indexes =
        [(''ix_websites_user_domain'', [''user_id'', ''domain''], False),
         (''ix_websites_user_created'', [''user_id'', ''created_at''], False),
         (''ix_websites_project_id'', [''project_id''], False),
         (''ix_websites_organization_id'', [''organization_id''], False),
         (''ix_websites_owner_id'', [''owner_id''], False),
         (''ix_websites_domain'', [''domain''], False),
         (''ix_websites_normalized_domain'', [''normalized_domain''], False),
         (''ix_websites_org_normalized_domain'', [''organization_id'', ''normalized_domain''], True),
         (''ix_websites_project_archived'', [''project_id'', ''archived''], False),
         (''ix_websites_org_archived'', [''organization_id'', ''archived''], False)]\<rparr>"

definition index_ops :: "model_table \<Rightarrow> migration_op list" where
  "index_ops m =
     map (\<lambda>(n, cs, u). CreateIndex n (mt_name m) cs u) (mt_indexes m)
     @ map (\<lambda>(c, _). CreateIndex (''ix_'' @ mt_name m @ CHR ''_'' # c_name c) (mt_name m) [c_name c] False)
         (filter snd (mt_columns m))"

definition create_if_missing :: "model_table \<Rightarrow> schema \<Rightarrow> schema option" where
  "create_if_missing m S =
     (if mt_name m \<in> fst ` set S then Some S
      else run_ops (CreateTable (mt_name m) (map (Col \<circ> fst) (mt_columns m)) # index_ops m) S)"

lemma index_names_append: "set (index_names (S @ S')) = set (index_names S) \<union> set (index_names S')"
  by (simp add: index_names_def)

lemma in_index_names: "n \<in> set (index_names S) \<longleftrightarrow> (\<exists>(t, d)\<in>set S. n \<in> fst ` set (td_indexes d))"
  by (auto simp: index_names_def)

lemma index_names_change:
  assumes "\<And>d. fst ` set (td_indexes d) \<subseteq> fst ` set (td_indexes (f d))"
  shows "set (index_names S) \<subseteq> set (index_names (change_table t f S))"
proof
  fix n
  assume "n \<in> set (index_names S)"
  then obtain k d where kd: "(k, d) \<in> set S" "n \<in> fst ` set (td_indexes d)" unfolding in_index_names by blast
  let ?d = "if k = t then f d else d"
  have "(k, ?d) \<in> set (change_table t f S)" using kd(1) unfolding change_table_def by force
  moreover have "n \<in> fst ` set (td_indexes ?d)" using kd(2) assms [of d] by auto
  ultimately show "n \<in> set (index_names (change_table t f S))" unfolding in_index_names by blast
qed

lemma addition_keeps_indexes:
  "addition m \<Longrightarrow> migrate m S = Some S1 \<Longrightarrow> set (index_names S) \<subseteq> set (index_names S1)"
proof (cases m)
  case (AddColumn t c)
  then show "addition m \<Longrightarrow> migrate m S = Some S1 \<Longrightarrow> ?thesis"
    using index_names_change [of "add_column c" S t] by (auto simp: add_column_def split: if_splits)
next
  case (CreateIndex n t cs u)
  then show "addition m \<Longrightarrow> migrate m S = Some S1 \<Longrightarrow> ?thesis"
    using index_names_change [of "add_index (n, cs, u)" S t] by (auto simp: add_index_def split: if_splits)
next
  case (CreateTable t items)
  then show "addition m \<Longrightarrow> migrate m S = Some S1 \<Longrightarrow> ?thesis" by (auto simp: index_names_append split: if_splits)
qed simp_all

lemma index_is_there:
  assumes "migrate (CreateIndex n t cs u) S = Some S1" shows "n \<in> set (index_names S1)"
  using assms by (force simp: index_names_def change_table_def add_index_def split: if_splits)

lemma taken_index_stops:
  "list_all addition ms \<Longrightarrow> n \<in> set (index_names S) \<Longrightarrow> run_ops (ms @ CreateIndex n t cs u # ns) S = None"
proof (induction ms arbitrary: S)
  case Nil
  then show ?case by simp
next
  case (Cons m ms)
  then show ?case using addition_keeps_indexes [of m S] by (auto split: option.split simp del: migrate.simps)
qed

lemma second_index_stops:
  assumes "list_all addition vs"
  shows "run_ops (us @ CreateIndex n t cs u # vs @ CreateIndex n t' cs' u' # ws) S = None"
proof -
  have "run_ops (CreateIndex n t cs u # vs @ CreateIndex n t' cs' u' # ws) S1 = None" for S1
    using taken_index_stops [OF assms index_is_there] by (auto split: option.split simp del: migrate.simps)
  then show ?thesis by (auto simp: run_ops_append split: option.split simp del: run_ops.simps)
qed

text \<open>
  C39: the start cannot create the table of websites: five of its indexes are declared twice, by their name and by the
  flag of their column, and the second declaration finds the name taken.
\<close>

theorem website_table_cannot_be_created:
  "create_if_missing website_table S = (if ''websites'' \<in> fst ` set S then Some S else None)"
proof -
  let ?ops = "CreateTable ''websites'' (map (Col \<circ> fst) (mt_columns website_table)) # index_ops website_table"
  let ?n = "''ix_websites_project_id''"
  have "?ops = take 3 ?ops @ CreateIndex ?n ''websites'' [''project_id''] False # take 8 (drop 4 ?ops)
      @ CreateIndex ?n ''websites'' [''project_id''] False # drop 13 ?ops"
    by code_simp
  moreover have "list_all addition (take 8 (drop 4 ?ops))" by code_simp
  ultimately have "run_ops ?ops S = None" using second_index_stops by metis
  moreover have "mt_name website_table = ''websites''" by (simp add: website_table_def)
  ultimately show ?thesis by (simp only: create_if_missing_def)
qed

end
