(* ===== verification/Spec2Isabelle.thy ===== *)
theory Spec2Isabelle
  imports Unified_Cache Rate_Limiter Worker_Props Queue_Props Tenancy Auth_Props Discovery_Props Link_Graph_Props
    Robots_Props Ssrf_Props Seo_Audit_Props Seo_Reports Headings Browser_Pool User_Api_Props Audit_Logs_Props Crawl_Lifecycle
    Metrics_Text Sentry App Html_Parser Sitemaps Cached_Response Database Answers Request_Schemas Migration_Scripts
begin

text \<open>
  A verification library for the SEO Agent backend (\<^verbatim>\<open>src/backend\<close>): a FastAPI service with accounts,
  organizations, projects and websites, that audits and crawls web sites, queues crawl, audit,
  keyword and rank jobs, runs them on a worker with retries, and keeps the results in a SQL
  database, with Redis as queue, cache, rate limiter and dead letter store.

  The parts and how they interact. A request passes the rate limiter and the account of its token
  (\<open>Auth*\<close>), its body is validated (\<open>Schemas\<close>), and a handler checks the role of the user in an organization
  (\<open>Org_Requests\<close>, \<open>Asset_Requests\<close>) or the ownership of a website (\<open>User_Api\<close>) before it changes the tables.
  A request for a job creates a row in the jobs table and a document in the job queue. The worker
  pops documents, keeps a table of running jobs and hands each one to a pool; the wrapper of the
  pool calls a runner of the job service, which moves the row through its life cycle, and asks
  between its steps whether the job was cancelled by another session. What a runner raises is
  retried with backoff, and put into the dead letter queue in the end. The runners call the services
  (\<open>Seo_*\<close>), which fetch pages through the SSRF check, score them and store audits and leads. The crawler's parts
  (frontier, robots rules, link graph, headings, browser pool) are independent of each other.

  Theories and the code they model.

    \<^item> \<open>Prelude\<close>: Python values, dictionaries in insertion order, strings and integers as text.
    \<^item> \<open>Errors\<close>: \<^verbatim>\<open>backend/exceptions.py\<close>, the exceptions the code raises or catches by class, and
      results \<open>py_exc + 'a\<close>.
    \<^item> \<open>Metrics\<close>, \<open>Metrics_Text\<close>: the registry of \<^verbatim>\<open>backend/metrics.py\<close>, one constructor per method, and its Prometheus text.
    \<^item> \<open>Retry\<close>: \<^verbatim>\<open>RetryEngine\<close> of \<^verbatim>\<open>backend/retry.py\<close>; the loop is recursion on the attempts left,
      so the fuel is the number of retries and one, which is what the code's \<^verbatim>\<open>range\<close> gives.
    \<^item> \<open>Glob\<close>, \<open>TTL_Cache\<close>, \<open>Unified_Cache\<close>, \<open>Cached_Response\<close>: the caches and the decorator of
      \<^verbatim>\<open>backend/cache.py\<close>, with \<^verbatim>\<open>fnmatch\<close>.
    \<^item> \<open>Rate_Limiter\<close>: \<^verbatim>\<open>backend/rate_limiter.py\<close>.
    \<^item> \<open>Job_Queue\<close>, \<open>Queue_Props\<close>: \<^verbatim>\<open>RedisJobQueue\<close> of \<^verbatim>\<open>backend/queue.py\<close>.
    \<^item> \<open>Dead_Letter\<close>: \<^verbatim>\<open>backend/dead_letter_queue.py\<close>.
    \<^item> \<open>Store\<close>: a table with an auto-increment key, as the session of SQLAlchemy shows it.
    \<^item> \<open>Base64\<close>, \<open>Pagination\<close>: \<^verbatim>\<open>backend/database/pagination.py\<close>.
    \<^item> \<open>Jobs\<close>, \<open>Job_Props\<close>: the jobs part of \<^verbatim>\<open>backend/database/crud.py\<close> and the operations of
      \<^verbatim>\<open>backend/services/job_service.py\<close>; synchronous and asynchronous twins are one definition with
      a flag for \<^verbatim>\<open>expire_on_commit\<close>.
    \<^item> \<open>Runners\<close>, \<open>Runner_Props\<close>: the background runners of the same file.
    \<^item> \<open>Worker\<close>, \<open>Worker_Props\<close>, \<open>Heartbeat\<close>: \<^verbatim>\<open>ReliableWorker\<close> of \<^verbatim>\<open>backend/worker.py\<close>, and
      \<^verbatim>\<open>backend/worker_heartbeat.py\<close>, which refines the two flags the worker reads.
    \<^item> \<open>Slugs\<close>, \<open>Tenant_DB\<close>, \<open>Orgs\<close>, \<open>Org_Requests\<close>, \<open>Org_Props\<close>: organizations, members and invitations of \<^verbatim>\<open>crud.py\<close> and
      \<^verbatim>\<open>backend/api/org_routes.py\<close>, the tables of \<^verbatim>\<open>models.py\<close> with their cascades, and the policy of the roles.
    \<^item> \<open>Projects\<close>, \<open>Websites\<close>, \<open>Crawls\<close>, \<open>Asset_Requests\<close>, \<open>Asset_Props\<close>, \<open>Tenancy\<close>: projects, websites and crawl jobs with
      their handlers (\<^verbatim>\<open>project_routes.py\<close>, \<^verbatim>\<open>website_routes.py\<close>, \<^verbatim>\<open>crawl_routes.py\<close>), and runs of all tenant requests.
    \<^item> \<open>Auth_State\<close>, \<open>Tokens\<close>, \<open>Auth\<close>, \<open>Auth_Routes\<close>, \<open>Auth_Requests\<close>, \<open>Auth_Props\<close>: passwords, signed tokens, sessions,
      lockout, resets (\<^verbatim>\<open>backend/auth\<close>, \<^verbatim>\<open>auth_routes.py\<close>).
    \<^item> \<open>Urls\<close>, \<open>Discovery\<close>, \<open>Discovery_Props\<close>: \<^verbatim>\<open>urlparse\<close> and \<^verbatim>\<open>urljoin\<close>, and the frontier of \<^verbatim>\<open>url_discovery_service.py\<close>.
    \<^item> \<open>Link_Graph\<close>, \<open>Robots\<close>, \<open>Ssrf\<close> and their \<open>_Props\<close>: \<^verbatim>\<open>link_graph_service.py\<close>, \<^verbatim>\<open>robots_service.py\<close>, \<^verbatim>\<open>ssrf_protection.py\<close>.
    \<^item> \<open>Seo_Page\<close>, \<open>Seo_DB\<close>, \<open>Seo_Audit\<close>, \<open>Seo_Audit_Props\<close>, \<open>Seo_Services\<close>, \<open>Seo_Reports\<close>: the page parser, the score, audits and the
      cached services (\<^verbatim>\<open>scraper_service.py\<close>, \<^verbatim>\<open>metrics_service.py\<close>, \<^verbatim>\<open>keyword_service.py\<close>, \<^verbatim>\<open>rank_service.py\<close>, \<^verbatim>\<open>ai_service.py\<close>,
      \<^verbatim>\<open>export_service.py\<close>) and their tables.
    \<^item> \<open>Headings\<close>: \<^verbatim>\<open>heading_extractor.py\<close>. \<open>Browser_Pool\<close>: \<^verbatim>\<open>browser_pool.py\<close>.
    \<^item> \<open>Schemas\<close>, \<open>Request_Schemas\<close>, \<open>Answers\<close>: the validators, the classes for requests and the classes for answers of
      \<^verbatim>\<open>backend/database/schemas.py\<close>; \<open>Asset_Views\<close> has the handlers that only show. \<open>User_Api\<close>, \<open>User_Api_Props\<close>: \<^verbatim>\<open>backend/api/routes.py\<close>.
    \<^item> \<open>Audit_Logs\<close>, \<open>Audit_Logs_Props\<close>: \<^verbatim>\<open>backend/api/audit_routes.py\<close> and the export of \<^verbatim>\<open>audit_service.py\<close>.
    \<^item> \<open>Crawl_Lifecycle\<close>: \<^verbatim>\<open>crawl_lifecycle_service.py\<close>. \<open>Compression\<close>: \<^verbatim>\<open>backend/compression.py\<close>. \<open>Settings\<close>: the start up
      check of \<^verbatim>\<open>backend/config.py\<close>.
    \<^item> \<open>Logging\<close>: scrubbing, log lines and the middleware of \<^verbatim>\<open>backend/logging_config.py\<close>. \<open>Sentry\<close>: \<^verbatim>\<open>backend/sentry.py\<close>.
      \<open>App\<close>: exception handlers, start and probes of \<^verbatim>\<open>backend/main.py\<close> and the handlers for administrators.
    \<^item> \<open>Html_Tree\<close>, \<open>Html_Parser\<close>: \<^verbatim>\<open>html_parser.py\<close>, \<^verbatim>\<open>image_extractor.py\<close>, \<^verbatim>\<open>technical_metadata.py\<close>, \<^verbatim>\<open>http_fetcher.py\<close> on a
      parsed tree. \<open>Sitemaps\<close>: \<^verbatim>\<open>sitemap_service.py\<close>.
    \<^item> \<open>Database\<close>: \<^verbatim>\<open>backend/database/database.py\<close>. \<open>Migrations\<close>, \<open>Migration_Scripts\<close>: \<^verbatim>\<open>alembic/versions\<close>, each script as
      a list of operations on a schema.
  State and interfaces. Each class is a record of its attributes, each method a definition that
  returns its result with the record updated; the database is a record of tables that the components
  extend. Redis is a record of functions on a state of its own,
  in which \<^const>\<open>None\<close> is a raised exception; random draws, clocks, digests, the network, the HTML tokenizer and other
  services are arguments. Locales state the interfaces: \<open>machine\<close> (an invariant kept by each step), \<open>orm_table\<close> and
  \<open>owned_table\<close> (tables with an owner), \<open>job_source\<close> (what the worker needs of a queue),
  \<open>absorbing_machine\<close> (states that are never left); each is interpreted on the model's definitions.

  Concurrency. An operation that the code runs under a lock or in one transaction is one step.
  A runner is a sequence of such steps; the other sessions act between them, at the points 0 to 7
  of \<open>Runners\<close>, where a function of the jobs table stands for what they do. The coroutines of the browser pool
  interleave at their awaits.

  Bounds and fuel. Loops are structural recursion or have a termination proof; the few with fuel (the redirects a client
  follows, the attempts of the retry engine) have the bound of the code as their fuel.

  What the lemmas show. For each component: invariants over all runs of its operations, the
  functional behaviour including errors, and the agreement with a specification (the policy of the
  roles, the order of the queue, the sliding window, the pages, the language of robots patterns).
  Several theorems record where the code does not do what it means to: cancellations that are lost,
  jobs that always fail, queue entries that starve, redirects that are not checked, checks of ownership that can be
  evaded, validators that never run.

  Not modelled, and why: \<^verbatim>\<open>http_client.py\<close> builds one client of a library, \<^verbatim>\<open>telemetry.py\<close> is used by no module,
  \<^verbatim>\<open>worker_runner.py\<close> and \<^verbatim>\<open>alembic/env.py\<close> only start what is modelled or configure a library, the scripts and the tests are not
  part of the running program; loggers, connection pools and the settings that are numbers handed on to libraries have no state
  of their own; two loaders of \<^verbatim>\<open>crud.py\<close> follow a relationship that the models leave ambiguous and have no caller;
  Playwright, BeautifulSoup, the XML parser and the language model are other people's code, parameters here. Float rounding is
  left out: a float is a rational number.
\<close>

end
